(* ===== verification/Prelude.thy ===== *)
theory Prelude
  imports Main "HOL-Library.AList" "HOL-Library.Multiset" "HOL-Library.Char_ord"
    "HOL-Library.List_Lexorder" "HOL-Library.Product_Lexorder" "HOL-Library.Option_ord"
    "HOL-Library.Code_Target_Numeral"
begin

text \<open>
  Shared vocabulary of the development: Python dictionaries with their insertion order, the
  error monad in which every \<open>raise\<close> is a value, loops that stop at the first error, slices,
  decimal rendering of integers, and the generic lemmas the component theories use.
\<close>

named_theorems dict_simps \<open>rewriting of dictionary operations\<close>
named_theorems res_simps \<open>rewriting of the error monad\<close>

section \<open>Dictionaries\<close>

text \<open>
  A Python dictionary keeps the order in which its keys were first inserted; assigning to a key
  that is present keeps its place. It is an association list, \<open>d[k] = v\<close> is
  \<^const>\<open>AList.update\<close> and \<open>d.pop(k, None)\<close> is \<^const>\<open>AList.delete\<close>.
\<close>

type_synonym ('k, 'v) dict = "('k \<times> 'v) list"

declare map_of_eq_Some_iff [simp del] Some_eq_map_of_iff [simp del]

abbreviation dget :: "('k, 'v) dict \<Rightarrow> 'k \<Rightarrow> 'v option" where
  "dget d k \<equiv> map_of d k"

abbreviation dset :: "'k \<Rightarrow> 'v \<Rightarrow> ('k, 'v) dict \<Rightarrow> ('k, 'v) dict" where
  "dset k v d \<equiv> AList.update k v d"

abbreviation ddel :: "'k \<Rightarrow> ('k, 'v) dict \<Rightarrow> ('k, 'v) dict" where
  "ddel k d \<equiv> AList.delete k d"

abbreviation dkeys :: "('k, 'v) dict \<Rightarrow> 'k list" where
  "dkeys d \<equiv> map fst d"

abbreviation dvals :: "('k, 'v) dict \<Rightarrow> 'v list" where
  "dvals d \<equiv> map snd d"

definition dget_or :: "('k, 'v) dict \<Rightarrow> 'k \<Rightarrow> 'v \<Rightarrow> 'v" where
  "dget_or d k v = (case dget d k of None \<Rightarrow> v | Some x \<Rightarrow> x)"

definition dict_of :: "('k \<times> 'v) list \<Rightarrow> ('k, 'v) dict" where
  \<comment> \<open>a dict comprehension: later entries overwrite earlier ones\<close>
  "dict_of kvs = fold (\<lambda>(k, v) d. dset k v d) kvs []"

abbreviation wf_dict :: "('k, 'v) dict \<Rightarrow> bool" where
  "wf_dict d \<equiv> distinct (map fst d)"

lemma dget_dset [simp, dict_simps]: "dget (dset k v d) k' = (if k = k' then Some v else dget d k')"
  by (simp add: update_conv')

lemma dget_or_dset [simp, dict_simps]:
  "dget_or (dset k v d) k' x = (if k = k' then v else dget_or d k' x)"
  by (simp add: dget_or_def)

lemma dget_or_Nil [simp]: "dget_or [] k x = x"
  by (simp add: dget_or_def)

lemma wf_dset [simp, intro]: "wf_dict d \<Longrightarrow> wf_dict (dset k v d)"
  by (rule distinct_update)

lemma dkeys_dset: "dkeys (dset k v d) = (if k \<in> set (dkeys d) then dkeys d else dkeys d @ [k])"
  by (rule update_keys)

lemma set_dkeys_dset [simp, dict_simps]: "set (dkeys (dset k v d)) = insert k (set (dkeys d))"
  by (auto simp: dkeys_dset)

lemma dget_None_iff: "dget d k = None \<longleftrightarrow> k \<notin> set (dkeys d)"
  by (simp add: map_of_eq_None_iff)

lemma dget_SomeD: "dget d k = Some v \<Longrightarrow> (k, v) \<in> set d"
  by (rule map_of_SomeD)

lemma dget_Some_iff: "wf_dict d \<Longrightarrow> dget d k = Some v \<longleftrightarrow> (k, v) \<in> set d"
  by (rule map_of_eq_Some_iff)

lemma dset_fresh: "k \<notin> set (dkeys d) \<Longrightarrow> dset k v d = d @ [(k, v)]"
  by (induction d) auto

lemma set_dset_subset: "set (dset k v d) \<subseteq> insert (k, v) (set d)"
  by (induction d) auto

lemma set_dset: "wf_dict d \<Longrightarrow> set (dset k v d) = insert (k, v) {p \<in> set d. fst p \<noteq> k}"
  by (induction d) (auto simp: image_iff)

lemma dict_of_distinct_aux:
  "distinct (map fst kvs) \<Longrightarrow> set (map fst kvs) \<inter> set (dkeys d) = {} \<Longrightarrow>
     fold (\<lambda>(k, v) d. dset k v d) kvs d = d @ kvs"
  by (induction kvs arbitrary: d) (auto simp: dset_fresh split: prod.splits)

lemma dict_of_distinct [dict_simps]: "distinct (map fst kvs) \<Longrightarrow> dict_of kvs = kvs"
  using dict_of_distinct_aux[of kvs "[]"] by (simp add: dict_of_def)

lemma dict_as_map: "wf_dict d \<Longrightarrow> map (\<lambda>k. (k, the (dget d k))) (dkeys d) = d"
  unfolding map_map by (rule map_idI) (auto simp: dget_Some_iff)

lemma dict_eqI:
  assumes "wf_dict d" "dkeys d' = dkeys d" "\<And>k. k \<in> set (dkeys d) \<Longrightarrow> dget d' k = dget d k"
  shows "d' = d"
proof -
  have "d' = map (\<lambda>k. (k, the (dget d' k))) (dkeys d')"
    by (rule dict_as_map[symmetric]) (simp add: assms(1,2))
  also have "\<dots> = map (\<lambda>k. (k, the (dget d k))) (dkeys d)"
    using assms(2,3) by simp
  also have "\<dots> = d" by (rule dict_as_map[OF assms(1)])
  finally show ?thesis .
qed

lemma dget_map_val: "dget (map (\<lambda>(k, v). (k, f k v)) d) k = map_option (f k) (dget d k)"
  by (induction d) auto

lemma dkeys_map_val: "dkeys (map (\<lambda>(k, v). (k, f k v)) d) = dkeys d"
  by (simp add: comp_def case_prod_unfold)

lemma sum_dset_int:
  fixes f :: "'v \<Rightarrow> int"
  assumes "wf_dict d" "dget d k = Some v"
  shows "(\<Sum>x\<leftarrow>dvals (dset k w d). f x) = (\<Sum>x\<leftarrow>dvals d. f x) - f v + f w"
  using assms
proof (induction d)
  case (Cons p d)
  show ?case
  proof (cases "fst p = k")
    case True
    then show ?thesis using Cons.prems by (cases p) auto
  next
    case False
    then show ?thesis using Cons by (cases p) auto
  qed
qed simp

lemma sum_dset_fresh_int:
  fixes f :: "'v \<Rightarrow> int"
  shows "dget d k = None \<Longrightarrow> (\<Sum>x\<leftarrow>dvals (dset k w d). f x) = (\<Sum>x\<leftarrow>dvals d. f x) + f w"
  by (simp add: dget_None_iff dset_fresh)

lemma sum_if_filter_int:
  fixes f :: "'v \<Rightarrow> int"
  shows "(\<Sum>x\<leftarrow>filter P xs. f x) = (\<Sum>x\<leftarrow>xs. if P x then f x else 0)"
  by (induction xs) auto

section \<open>Optional values\<close>

primrec opt_ex :: "('a \<Rightarrow> bool) \<Rightarrow> 'a option \<Rightarrow> bool" where
  \<comment> \<open>\<open>x is not None and P(x)\<close>\<close>
  "opt_ex P None = False"
| "opt_ex P (Some x) = P x"

lemma opt_ex_iff: "opt_ex P x \<longleftrightarrow> (\<exists>y. x = Some y \<and> P y)"
  by (cases x) auto

primrec opt_or :: "'a option \<Rightarrow> 'a \<Rightarrow> 'a" where
  "opt_or None d = d"
| "opt_or (Some x) d = x"

section \<open>Sorting by a key\<close>

lemma insort_key_cong:
  "f x = g x \<Longrightarrow> (\<And>y. y \<in> set ys \<Longrightarrow> f y = g y) \<Longrightarrow> insort_key f x ys = insort_key g x ys"
  by (induction ys) auto

lemma sort_key_cong:
  "(\<And>x. x \<in> set xs \<Longrightarrow> f x = g x) \<Longrightarrow> sort_key f xs = sort_key g xs"
proof (induction xs)
  case (Cons x xs)
  then have "sort_key f xs = sort_key g xs" by simp
  with Cons.prems show ?case by (auto intro: insort_key_cong)
qed simp

lemma sort_key_permute:
  "mset xs = mset ys \<Longrightarrow> inj_on f (set xs) \<Longrightarrow> sort_key f xs = sort_key f ys"
  by (rule sort_key_inj_key_eq) auto

lemma sorted_map_fst: "sorted (map (\<lambda>x. (f x, g x)) xs) \<Longrightarrow> sorted (map f xs)"
  by (induction xs) auto

section \<open>Splitting at a separator\<close>

lemma split_at_first:
  "c \<notin> set xs \<Longrightarrow> c \<notin> set xs' \<Longrightarrow> xs @ c # ys = xs' @ c # ys' \<longleftrightarrow> xs = xs' \<and> ys = ys'"
proof (induction xs arbitrary: xs')
  case Nil
  then show ?case by (cases xs') auto
next
  case (Cons x xs)
  then show ?case by (cases xs') auto
qed

lemma split_none_first: "c \<notin> set xs' \<Longrightarrow> xs @ c # ys \<noteq> xs'"
  by auto

lemma takeWhile_sep: "c \<notin> set xs \<Longrightarrow> takeWhile (\<lambda>x. x \<noteq> c) (xs @ c # ys) = xs"
  by (induction xs) auto

lemma takeWhile_no_sep: "c \<notin> set xs \<Longrightarrow> takeWhile (\<lambda>x. x \<noteq> c) xs = xs"
  by (induction xs) auto

lemma dropWhile_sep: "c \<notin> set xs \<Longrightarrow> dropWhile (\<lambda>x. x \<noteq> c) (xs @ c # ys) = c # ys"
  by (induction xs) auto

lemma dropWhile_no_sep: "c \<notin> set xs \<Longrightarrow> dropWhile (\<lambda>x. x \<noteq> c) xs = []"
  by (induction xs) auto

section \<open>Errors as values\<close>

fun res_bind :: "'e + 'a \<Rightarrow> ('a \<Rightarrow> 'e + 'b) \<Rightarrow> 'e + 'b" where
  "res_bind (Inl e) f = Inl e"
| "res_bind (Inr x) f = f x"

fun res_map :: "('a \<Rightarrow> 'b) \<Rightarrow> 'e + 'a \<Rightarrow> 'e + 'b" where
  "res_map f (Inl e) = Inl e"
| "res_map f (Inr x) = Inr (f x)"

fun is_ok :: "'e + 'a \<Rightarrow> bool" where
  "is_ok (Inl e) = False"
| "is_ok (Inr x) = True"

lemma res_bind_Inr_iff [res_simps]:
  "res_bind m f = Inr y \<longleftrightarrow> (\<exists>x. m = Inr x \<and> f x = Inr y)"
  by (cases m) auto

lemma res_bind_Inl_iff [res_simps]:
  "res_bind m f = Inl e \<longleftrightarrow> m = Inl e \<or> (\<exists>x. m = Inr x \<and> f x = Inl e)"
  by (cases m) auto

lemma case_res_Inr_iff [res_simps]:
  "(case m of Inl e \<Rightarrow> Inl (h e) | Inr x \<Rightarrow> f x) = Inr y \<longleftrightarrow> (\<exists>x. m = Inr x \<and> f x = Inr y)"
  by (cases m) auto

lemma res_map_Inr_iff [res_simps]: "res_map f m = Inr y \<longleftrightarrow> (\<exists>x. m = Inr x \<and> y = f x)"
  by (cases m) auto

lemma res_map_Inl_iff [res_simps]: "res_map f m = Inl e \<longleftrightarrow> m = Inl e"
  by (cases m) auto

lemma res_map_bind: "res_map f (res_bind m g) = res_bind m (\<lambda>x. res_map f (g x))"
  by (cases m) auto

lemma res_bind_map: "res_bind (res_map f m) g = res_bind m (\<lambda>x. g (f x))"
  by (cases m) auto

lemma res_map_map: "res_map f (res_map g m) = res_map (\<lambda>x. f (g x)) m"
  by (cases m) auto

lemma res_bind_assoc: "res_bind (res_bind m f) g = res_bind m (\<lambda>x. res_bind (f x) g)"
  by (cases m) auto

lemmas res_fusion = res_map_bind res_bind_map res_map_map res_bind_assoc

lemma is_ok_iff: "is_ok m \<longleftrightarrow> (\<exists>x. m = Inr x)"
  by (cases m) auto

lemma is_ok_projr: "is_ok m \<Longrightarrow> m = Inr (projr m)"
  by (cases m) auto

text \<open>A \<open>for\<close> loop over a list whose body may raise.\<close>

fun fold_res :: "('x \<Rightarrow> 's \<Rightarrow> 'e + 's) \<Rightarrow> 'x list \<Rightarrow> 's \<Rightarrow> 'e + 's" where
  "fold_res f [] s = Inr s"
| "fold_res f (x # xs) s = res_bind (f x s) (fold_res f xs)"

lemma fold_res_Cons_Inr:
  "fold_res f (x # xs) s = Inr t \<longleftrightarrow> (\<exists>u. f x s = Inr u \<and> fold_res f xs u = Inr t)"
  by (simp add: res_bind_Inr_iff)

lemma fold_res_cong:
  "(\<And>x s. x \<in> set xs \<Longrightarrow> f x s = g x s) \<Longrightarrow> fold_res f xs s = fold_res g xs s"
proof (induction xs arbitrary: s)
  case (Cons x xs)
  then show ?case by (cases "g x s") auto
qed simp

lemma fold_res_append:
  "fold_res f (xs @ ys) s = res_bind (fold_res f xs s) (fold_res f ys)"
proof (induction xs arbitrary: s)
  case (Cons x xs)
  then show ?case by (cases "f x s") auto
qed simp

lemma fold_res_invariant:
  assumes "fold_res f xs s = Inr t" "P s"
    and "\<And>x s t. x \<in> set xs \<Longrightarrow> P s \<Longrightarrow> f x s = Inr t \<Longrightarrow> P t"
  shows "P t"
  using assms
proof (induction xs arbitrary: s)
  case (Cons x xs)
  from Cons.prems(1) obtain u where u: "f x s = Inr u" "fold_res f xs u = Inr t"
    by (auto simp: res_simps)
  have "P u" using Cons.prems(2,3) u(1) by auto
  then show ?case using Cons.IH u(2) Cons.prems(3) by (meson list.set_intros(2))
qed simp

section \<open>Slices, minimum, decimal strings\<close>

definition py_prefix :: "'a list \<Rightarrow> int \<Rightarrow> 'a list" where
  \<comment> \<open>\<open>xs[:k]\<close>: a negative \<open>k\<close> counts from the end\<close>
  "py_prefix xs k = (if 0 \<le> k then take (nat k) xs else take (nat (int (length xs) + k)) xs)"

lemma py_prefix_nonneg [simp]: "0 \<le> k \<Longrightarrow> py_prefix xs k = take (nat k) xs"
  by (simp add: py_prefix_def)

definition digit_char :: "nat \<Rightarrow> char" where
  "digit_char n = ''0123456789'' ! n"

fun str_nat :: "nat \<Rightarrow> string" where
  "str_nat n = (if n < 10 then [digit_char n] else str_nat (n div 10) @ [digit_char (n mod 10)])"

declare str_nat.simps [simp del]

definition str_int :: "int \<Rightarrow> string" where
  "str_int i = (if i < 0 then CHR ''-'' # str_nat (nat (- i)) else str_nat (nat i))"

definition zpad :: "nat \<Rightarrow> string \<Rightarrow> string" where
  \<comment> \<open>the format \<open>0wd\<close> of a non-negative integer\<close>
  "zpad w s = replicate (w - length s) (CHR ''0'') @ s"

fun nat_of_digits :: "string \<Rightarrow> nat \<Rightarrow> nat" where
  "nat_of_digits [] acc = acc"
| "nat_of_digits (c # cs) acc = nat_of_digits cs (10 * acc + (of_char c - 48))"

definition is_digit :: "char \<Rightarrow> bool" where
  "is_digit c \<longleftrightarrow> c \<in> set ''0123456789''"

lemma nat_of_digits_append: "nat_of_digits (xs @ ys) a = nat_of_digits ys (nat_of_digits xs a)"
  by (induction xs arbitrary: a) auto

lemma of_char_digit [simp]: "n < 10 \<Longrightarrow> of_char (digit_char n) = (48 + n :: nat)"
  by (auto simp: digit_char_def less_Suc_eq numeral_eq_Suc)

lemma nat_of_digits_str_nat: "nat_of_digits (str_nat n) 0 = n"
proof (induction n rule: str_nat.induct)
  case (1 n)
  show ?case
  proof (cases "n < 10")
    case True
    then show ?thesis by (subst str_nat.simps) simp
  next
    case False
    with 1 show ?thesis by (subst str_nat.simps) (simp add: nat_of_digits_append)
  qed
qed

lemma nat_of_digits_zeros: "nat_of_digits (replicate k (CHR ''0'') @ s) 0 = nat_of_digits s 0"
  by (induction k) auto

lemma nat_of_digits_zpad: "nat_of_digits (zpad w (str_nat n)) 0 = n"
  by (simp add: zpad_def nat_of_digits_zeros nat_of_digits_str_nat)

lemma str_nat_inj: "str_nat m = str_nat n \<Longrightarrow> m = n"
  by (metis nat_of_digits_str_nat)

lemma zpad_str_nat_inj: "zpad w (str_nat m) = zpad w (str_nat n) \<Longrightarrow> m = n"
  by (metis nat_of_digits_zpad)

lemma digit_char_is_digit: "n < 10 \<Longrightarrow> is_digit (digit_char n)"
  unfolding is_digit_def digit_char_def by (rule nth_mem) simp

lemma str_nat_digits: "c \<in> set (str_nat n) \<Longrightarrow> is_digit c"
proof (induction n rule: str_nat.induct)
  case (1 n)
  show ?case
  proof (cases "n < 10")
    case True
    with "1.prems" show ?thesis by (subst (asm) str_nat.simps) (simp add: digit_char_is_digit)
  next
    case False
    with "1.prems" have "c \<in> set (str_nat (n div 10)) \<or> c = digit_char (n mod 10)"
      by (subst (asm) str_nat.simps) auto
    with False "1.IH" show ?thesis by (auto simp: digit_char_is_digit)
  qed
qed

lemma zpad_digits: "c \<in> set (zpad w (str_nat n)) \<Longrightarrow> is_digit c"
  by (auto simp: zpad_def is_digit_def dest: str_nat_digits[unfolded is_digit_def] split: if_splits)

lemma str_int_inj: "str_int m = str_int n \<Longrightarrow> m = n"
proof -
  have no_minus: "str_nat k \<noteq> CHR ''-'' # s" for k s
    using str_nat_digits[of "CHR ''-''" k] by (auto simp: is_digit_def)
  show "str_int m = str_int n \<Longrightarrow> m = n"
    using no_minus[symmetric] by (auto simp: str_int_def no_minus split: if_splits dest!: str_nat_inj)
qed

end
