(* ===== verification/Money.thy ===== *)
theory Money
  imports Prelude
begin

text \<open>
  \<open>polis/economy/money.py\<close>: basis-point arithmetic in integer cents, the largest-remainder
  split of a pool, minted identifiers and rounding to a price tick. Python integers are
  unbounded, so cents are \<open>int\<close>; \<open>//\<close> and \<open>%\<close> are \<open>div\<close> and \<open>mod\<close>. The lemmas show that
  the split is exact, obeys the quota rule, ignores the order of the claimants, and that minted
  identifiers never collide.
\<close>

datatype money_error =
    NegativePool | EmptyWeights | DuplicateClaimant | NegativeWeight | ZeroWeightSum
  | BadPrefix | NegativeOrdinal | NegativeCents | BadTickSize

section \<open>Operations\<close>

definition bp :: "int \<Rightarrow> int \<Rightarrow> int" where
  "bp amount_cents rate_bp = (amount_cents * rate_bp) div 10000"

definition bp_ceil :: "int \<Rightarrow> int \<Rightarrow> int" where
  "bp_ceil amount_cents rate_bp = - ((- amount_cents * rate_bp) div 10000)"

definition bump :: "string \<Rightarrow> (string, int) dict \<Rightarrow> (string, int) dict" where
  \<comment> \<open>\<open>base[claimant_id] += 1\<close>\<close>
  "bump k d = dset k (dget_or d k 0 + 1) d"

definition allocation_order :: "int \<Rightarrow> int \<Rightarrow> (string \<times> int) list \<Rightarrow> (string \<times> int) list" where
  "allocation_order pool tot weights =
     (let remainders = dict_of (map (\<lambda>(c, w). (c, (pool * w) mod tot)) weights)
      in sort_key (\<lambda>(c, w). (- dget_or remainders c 0, - w, c)) weights)"

definition allocate :: "int \<Rightarrow> (string \<times> int) list \<Rightarrow> money_error + (string, int) dict" where
  "allocate pool weights =
     (if pool < 0 then Inl NegativePool
      else if weights = [] then Inl EmptyWeights
      else if card (fst ` set weights) \<noteq> length weights then Inl DuplicateClaimant
      else if \<exists>(c, w) \<in> set weights. w < 0 then Inl NegativeWeight
      else let tot = (\<Sum>(c, w)\<leftarrow>weights. w) in
        if tot \<le> 0 then Inl ZeroWeightSum
        else let base = dict_of (map (\<lambda>(c, w). (c, (pool * w) div tot)) weights);
                 shortfall = pool - sum_list (dvals base);
                 ranked = allocation_order pool tot weights
             in Inr (fold (\<lambda>(c, w) d. bump c d) (py_prefix ranked shortfall) base))"

definition mint_charset :: string where
  "mint_charset = ''abcdefghijklmnopqrstuvwxyz0123456789''"

definition mint :: "string \<Rightarrow> int \<Rightarrow> int \<Rightarrow> money_error + string" where
  "mint pre tick ordinal =
     (if pre = [] \<or> (\<exists>c \<in> set pre. c \<notin> set mint_charset) then Inl BadPrefix
      else if tick < 0 \<or> ordinal < 0 then Inl NegativeOrdinal
      else Inr (pre @ ''_'' @ zpad 8 (str_int tick) @ ''_'' @ zpad 4 (str_int ordinal)))"

definition round_to_tick :: "int \<Rightarrow> int \<Rightarrow> money_error + int" where
  "round_to_tick cents tick_size_cents =
     (if cents < 0 then Inl NegativeCents
      else if tick_size_cents \<le> 0 then Inl BadTickSize
      else Inr ((cents div tick_size_cents) * tick_size_cents))"

section \<open>Basis points\<close>

lemma bp_ceil_eq: "bp_ceil a r = (a * r + 9999) div 10000"
  unfolding bp_ceil_def by (simp only: mult_minus_left)

lemma div_10000_bounds:
  fixes x :: int
  shows "x div 10000 * 10000 \<le> x" "x < x div 10000 * 10000 + 10000"
    "x \<le> (x + 9999) div 10000 * 10000" "(x + 9999) div 10000 * 10000 < x + 10000"
  using div_mult_mod_eq[of x 10000] pos_mod_sign[of 10000 x] pos_mod_bound[of 10000 x]
    div_mult_mod_eq[of "x + 9999" 10000] pos_mod_sign[of 10000 "x + 9999"]
    pos_mod_bound[of 10000 "x + 9999"]
  by linarith+

lemma bp_bounds: "bp a r * 10000 \<le> a * r" "a * r < bp a r * 10000 + 10000"
  unfolding bp_def by (rule div_10000_bounds)+

lemma bp_ceil_bounds: "a * r \<le> bp_ceil a r * 10000" "bp_ceil a r * 10000 < a * r + 10000"
  unfolding bp_ceil_eq by (rule div_10000_bounds)+

lemma bp_nonneg: "0 \<le> a \<Longrightarrow> 0 \<le> r \<Longrightarrow> 0 \<le> bp a r"
  by (simp add: bp_def pos_imp_zdiv_nonneg_iff)

section \<open>The largest-remainder split\<close>

lemma card_fst_distinct: "card (fst ` set ws) = length ws \<longleftrightarrow> distinct (map fst ws)"
proof
  assume "card (fst ` set ws) = length ws"
  then have "card (set (map fst ws)) = length (map fst ws)" by simp
  then show "distinct (map fst ws)" by (rule card_distinct)
next
  assume "distinct (map fst ws)"
  then have "card (set (map fst ws)) = length (map fst ws)" by (rule distinct_card)
  then show "card (fst ` set ws) = length ws" by simp
qed

lemma dkeys_bump: "k \<in> set (dkeys d) \<Longrightarrow> dkeys (bump k d) = dkeys d"
  by (simp add: bump_def dkeys_dset)

lemma dkeys_fold_bump:
  "fst ` set xs \<subseteq> set (dkeys d) \<Longrightarrow> dkeys (fold (\<lambda>(c, w) d. bump c d) xs d) = dkeys d"
proof (induction xs arbitrary: d)
  case (Cons x xs)
  then have "dkeys (bump (fst x) d) = dkeys d" by (intro dkeys_bump) auto
  with Cons show ?case by (auto simp: case_prod_unfold simp del: set_map)
qed simp

lemma sum_bump:
  assumes "wf_dict d" "k \<in> set (dkeys d)"
  shows "sum_list (dvals (bump k d)) = sum_list (dvals d) + 1"
proof -
  from assms(2) obtain v where v: "dget d k = Some v"
    by (metis dget_None_iff option.exhaust)
  show ?thesis
    using sum_dset_int[OF assms(1) v, of "\<lambda>x. x" "v + 1"] v by (simp add: bump_def dget_or_def)
qed

lemma sum_fold_bump:
  "wf_dict d \<Longrightarrow> fst ` set xs \<subseteq> set (dkeys d) \<Longrightarrow>
     sum_list (dvals (fold (\<lambda>(c, w) d. bump c d) xs d)) = sum_list (dvals d) + int (length xs)"
proof (induction xs arbitrary: d)
  case (Cons x xs)
  then have k: "fst x \<in> set (dkeys d)" by auto
  have "wf_dict (bump (fst x) d)" using Cons.prems(1) by (simp add: dkeys_bump[OF k])
  moreover have "fst ` set xs \<subseteq> set (dkeys (bump (fst x) d))"
    using Cons.prems(2) by (simp only: dkeys_bump[OF k]) auto
  ultimately have
    "sum_list (dvals (fold (\<lambda>(c, w) d. bump c d) xs (bump (fst x) d)))
       = sum_list (dvals (bump (fst x) d)) + int (length xs)"
    by (rule Cons.IH)
  then show ?case using sum_bump[OF Cons.prems(1) k] by (simp add: case_prod_unfold)
qed simp

lemma dget_fold_bump:
  "distinct (map fst xs) \<Longrightarrow>
     dget_or (fold (\<lambda>(c, w) d. bump c d) xs d) k 0
       = dget_or d k 0 + (if k \<in> fst ` set xs then 1 else 0)"
proof (induction xs arbitrary: d)
  case (Cons x xs)
  then show ?case
    by (auto simp: case_prod_unfold bump_def image_iff)
qed simp

text \<open>The floors fall short of the pool by less than one cent per claimant.\<close>

lemma sum_div_mod:
  fixes tot :: int
  shows "(\<Sum>x\<leftarrow>xs. f x div tot) * tot + (\<Sum>x\<leftarrow>xs. f x mod tot) = (\<Sum>x\<leftarrow>xs. f x)"
  by (induction xs) (simp_all add: algebra_simps)

lemma sum_mod_bounds:
  fixes tot :: int
  assumes "0 < tot"
  shows "0 \<le> (\<Sum>x\<leftarrow>xs. f x mod tot)"
    and "(\<Sum>x\<leftarrow>xs. f x mod tot) \<le> int (length xs) * (tot - 1)"
proof -
  show "0 \<le> (\<Sum>x\<leftarrow>xs. f x mod tot)"
    using assms by (induction xs) simp_all
  show "(\<Sum>x\<leftarrow>xs. f x mod tot) \<le> int (length xs) * (tot - 1)"
  proof (induction xs)
    case (Cons x xs)
    have "f x mod tot \<le> tot - 1" using pos_mod_bound[OF assms, of "f x"] by linarith
    with Cons show ?case by (simp add: algebra_simps)
  qed simp
qed

lemma sorted_prefix_positive:
  fixes g :: "'a \<Rightarrow> int"
  assumes "sorted (map (\<lambda>x. - g x) xs)" "\<And>x. x \<in> set xs \<Longrightarrow> 0 \<le> g x \<and> g x \<le> tot"
    and "(\<Sum>x\<leftarrow>xs. g x) = int k * tot" "0 < tot" "x \<in> set (take k xs)"
  shows "0 < g x"
proof (rule ccontr)
  assume "\<not> 0 < g x"
  then obtain j where j: "j < k" "j < length xs" "x = xs ! j" "g (xs ! j) \<le> 0"
    using assms(5) by (auto simp: in_set_conv_nth)
  have tail: "g y \<le> 0" if "y \<in> set (drop j xs)" for y
  proof -
    from that obtain i where i: "i < length xs - j" "y = xs ! (j + i)"
      by (auto simp: in_set_conv_nth)
    then have "g (xs ! (j + i)) \<le> g (xs ! j)"
      using sorted_nth_mono[OF assms(1), of j "j + i"] by simp
    then show ?thesis using i(2) j(4) by simp
  qed
  have "(\<Sum>x\<leftarrow>drop j xs. g x) \<le> (\<Sum>x\<leftarrow>drop j xs. 0)"
    by (rule sum_list_mono) (use tail in auto)
  moreover have "(\<Sum>x\<leftarrow>take j xs. g x) \<le> (\<Sum>x\<leftarrow>take j xs. tot)"
    by (rule sum_list_mono) (use assms(2) in \<open>auto dest: in_set_takeD\<close>)
  moreover have "(\<Sum>x\<leftarrow>xs. g x) = (\<Sum>x\<leftarrow>take j xs. g x) + (\<Sum>x\<leftarrow>drop j xs. g x)"
    by (metis append_take_drop_id map_append sum_list_append)
  ultimately have "int k * tot \<le> int j * tot"
    using assms(3) j(2) by (simp add: sum_list_triv)
  then show False using j(1) assms(4) by simp
qed

definition share_floor :: "int \<Rightarrow> (string \<times> int) list \<Rightarrow> int \<Rightarrow> int" where
  "share_floor pool weights w = (pool * w) div (\<Sum>(c, w)\<leftarrow>weights. w)"

definition share_ceil :: "int \<Rightarrow> (string \<times> int) list \<Rightarrow> int \<Rightarrow> int" where
  "share_ceil pool weights w = - ((- (pool * w)) div (\<Sum>(c, w)\<leftarrow>weights. w))"

text \<open>What a successful call computes, with the checks and the dictionaries resolved.\<close>

lemma allocate_InrD:
  assumes "allocate pool weights = Inr d"
  defines "tot \<equiv> \<Sum>(c, w)\<leftarrow>weights. w"
  defines "base \<equiv> map (\<lambda>(c, w). (c, (pool * w) div tot)) weights"
  defines "k \<equiv> pool - (\<Sum>(c, w)\<leftarrow>weights. (pool * w) div tot)"
  defines "ord \<equiv> sort_key (\<lambda>(c, w). (- ((pool * w) mod tot), - w, c)) weights"
  shows "0 \<le> pool" "distinct (map fst weights)" "\<forall>(c, w) \<in> set weights. 0 \<le> w" "0 < tot"
    "0 \<le> k" "k \<le> int (length weights)" "(\<Sum>(c, w)\<leftarrow>weights. (pool * w) mod tot) = k * tot"
    "d = fold (\<lambda>(c, w) d. bump c d) (take (nat k) ord) base"
proof -
  from assms(1) have g: "0 \<le> pool" "distinct (map fst weights)" "\<forall>(c, w) \<in> set weights. 0 \<le> w"
    "0 < tot"
    by (auto simp: allocate_def Let_def tot_def card_fst_distinct split: if_splits)
  then show "0 \<le> pool" "distinct (map fst weights)" "\<forall>(c, w) \<in> set weights. 0 \<le> w" "0 < tot"
    by blast+
  let ?f = "\<lambda>p. pool * snd p"
  have "(\<Sum>p\<leftarrow>weights. ?f p) = pool * tot"
    by (simp add: tot_def sum_list_const_mult case_prod_unfold)
  with sum_div_mod[of ?f tot weights]
  have m: "(\<Sum>p\<leftarrow>weights. ?f p mod tot) = k * tot"
    by (simp add: k_def case_prod_unfold algebra_simps)
  then show "(\<Sum>(c, w)\<leftarrow>weights. (pool * w) mod tot) = k * tot" by (simp add: case_prod_unfold)
  from m sum_mod_bounds[OF g(4), of ?f weights] have "0 \<le> k * tot"
    "k * tot \<le> int (length weights) * (tot - 1)" by simp_all
  then show k0: "0 \<le> k" using g(4) by (simp add: zero_le_mult_iff)
  have "int (length weights) * (tot - 1) \<le> int (length weights) * tot"
    by (intro mult_left_mono) auto
  with \<open>k * tot \<le> _\<close> have "k * tot \<le> int (length weights) * tot" by linarith
  then show "k \<le> int (length weights)" using g(4) by simp
  have dbase: "dict_of (map (\<lambda>(c, w). (c, (pool * w) div tot)) weights) = base"
    unfolding base_def using g(2) by (intro dict_of_distinct) (simp add: comp_def case_prod_unfold)
  have drem: "dget_or (dict_of (map (\<lambda>(c, w). (c, (pool * w) mod tot)) weights)) c 0 = (pool * w) mod tot"
    if "(c, w) \<in> set weights" for c w
  proof -
    let ?l = "map (\<lambda>(c, w). (c, (pool * w) mod tot)) weights"
    have d: "distinct (map fst ?l)" using g(2) by (simp add: comp_def case_prod_unfold)
    moreover have "(c, (pool * w) mod tot) \<in> set ?l" using that by (force simp: image_iff)
    ultimately have "map_of ?l c = Some ((pool * w) mod tot)" by (rule map_of_is_SomeI)
    then show ?thesis by (simp add: dict_of_distinct[OF d] dget_or_def)
  qed
  have "allocation_order pool tot weights = ord"
    unfolding allocation_order_def ord_def Let_def
    by (rule sort_key_cong) (use drem in auto)
  moreover have "d = fold (\<lambda>(c, w) d. bump c d)
      (py_prefix (allocation_order pool tot weights)
         (pool - sum_list (dvals (dict_of (map (\<lambda>(c, w). (c, (pool * w) div tot)) weights)))))
      (dict_of (map (\<lambda>(c, w). (c, (pool * w) div tot)) weights))"
    using assms(1) unfolding allocate_def Let_def tot_def by (simp split: if_splits)
  moreover have "sum_list (dvals base) = (\<Sum>(c, w)\<leftarrow>weights. (pool * w) div tot)"
    by (simp add: base_def comp_def case_prod_unfold)
  ultimately show "d = fold (\<lambda>(c, w) d. bump c d) (take (nat k) ord) base"
    using dbase k0 by (simp add: k_def)
qed

text \<open>The split is exact, keeps the claimants and their order, and pays floor or ceiling.\<close>

lemma allocate_keys:
  assumes "allocate pool weights = Inr d"
  shows "dkeys d = map fst weights"
proof -
  let ?tot = "\<Sum>(c, w)\<leftarrow>weights. w"
  let ?base = "map (\<lambda>(c, w). (c, (pool * w) div ?tot)) weights"
  let ?ord = "sort_key (\<lambda>(c, w). (- ((pool * w) mod ?tot), - w, c)) weights"
  note D = allocate_InrD[OF assms]
  have sub: "set (take n ?ord) \<subseteq> set weights" for n
    using set_take_subset[of n ?ord] by simp
  have keys: "dkeys ?base = map fst weights" by (simp add: comp_def case_prod_unfold)
  then have "fst ` set (take n ?ord) \<subseteq> set (dkeys ?base)" for n
    using sub[of n] by (simp only: set_map) (rule image_mono)
  then show ?thesis unfolding D(8) by (simp only: dkeys_fold_bump keys)
qed

lemma allocate_sum:
  assumes "allocate pool weights = Inr d"
  shows "sum_list (dvals d) = pool"
proof -
  let ?tot = "\<Sum>(c, w)\<leftarrow>weights. w"
  let ?k = "pool - (\<Sum>(c, w)\<leftarrow>weights. (pool * w) div ?tot)"
  let ?base = "map (\<lambda>(c, w). (c, (pool * w) div ?tot)) weights"
  let ?ord = "sort_key (\<lambda>(c, w). (- ((pool * w) mod ?tot), - w, c)) weights"
  note D = allocate_InrD[OF assms]
  have keys: "dkeys ?base = map fst weights" by (simp add: comp_def case_prod_unfold)
  have "set (take (nat ?k) ?ord) \<subseteq> set weights" using set_take_subset[of "nat ?k" ?ord] by simp
  then have "fst ` set (take (nat ?k) ?ord) \<subseteq> set (dkeys ?base)"
    unfolding keys set_map by (rule image_mono)
  then have "sum_list (dvals d) = sum_list (dvals ?base) + int (length (take (nat ?k) ?ord))"
    unfolding D(8) by (rule sum_fold_bump[rotated]) (simp only: keys D(2))
  moreover have "length (take (nat ?k) ?ord) = nat ?k" using D(5,6) by (simp add: min_def, arith)
  moreover have "sum_list (dvals ?base) = (\<Sum>(c, w)\<leftarrow>weights. (pool * w) div ?tot)"
    by (simp add: comp_def case_prod_unfold)
  ultimately show ?thesis using D(5) by simp
qed

lemma allocate_value:
  assumes "allocate pool weights = Inr d" "(c, w) \<in> set weights"
  defines "tot \<equiv> \<Sum>(c, w)\<leftarrow>weights. w"
  defines "k \<equiv> pool - (\<Sum>(c, w)\<leftarrow>weights. (pool * w) div tot)"
  defines "ranked \<equiv> sort_key (\<lambda>(c, w). (- ((pool * w) mod tot), - w, c)) weights"
  shows "dget_or d c 0 = (pool * w) div tot + (if (c, w) \<in> set (take (nat k) ranked) then 1 else 0)"
proof -
  note D = allocate_InrD[OF assms(1), folded tot_def, folded k_def ranked_def]
  let ?base = "map (\<lambda>(c, w). (c, (pool * w) div tot)) weights"
  have "mset (map fst ranked) = mset (map fst weights)"
    unfolding ranked_def by (simp only: mset_map mset_sort)
  then have dr: "distinct (map fst ranked)" using D(2) mset_eq_imp_distinct_iff by blast
  then have dt: "distinct (map fst (take (nat k) ranked))" by (simp only: take_map[symmetric] distinct_take)
  have db: "distinct (map fst ?base)" using D(2) by (simp add: comp_def case_prod_unfold)
  have "(c, (pool * w) div tot) \<in> set ?base" using assms(2) by (force simp: image_iff)
  with db have base: "dget_or ?base c 0 = (pool * w) div tot" by (simp add: dget_or_def)
  have mem: "c \<in> fst ` set (take (nat k) ranked) \<longleftrightarrow> (c, w) \<in> set (take (nat k) ranked)"
  proof
    assume "c \<in> fst ` set (take (nat k) ranked)"
    then obtain v where v: "(c, v) \<in> set (take (nat k) ranked)" by auto
    then have "(c, v) \<in> set ranked" by (rule in_set_takeD)
    then have "(c, v) \<in> set weights" unfolding ranked_def by simp
    then have "v = w" using eq_key_imp_eq_value[OF D(2)] assms(2) by blast
    with v show "(c, w) \<in> set (take (nat k) ranked)" by simp
  qed force
  show ?thesis unfolding D(8) dget_fold_bump[OF dt] base mem ..
qed

lemma allocate_bumped_positive:
  assumes "allocate pool weights = Inr d"
  defines "tot \<equiv> \<Sum>(c, w)\<leftarrow>weights. w"
  defines "k \<equiv> pool - (\<Sum>(c, w)\<leftarrow>weights. (pool * w) div tot)"
  defines "ranked \<equiv> sort_key (\<lambda>(c, w). (- ((pool * w) mod tot), - w, c)) weights"
  assumes "(c, w) \<in> set (take (nat k) ranked)"
  shows "0 < (pool * w) mod tot"
proof -
  note D = allocate_InrD[OF assms(1), folded tot_def, folded k_def ranked_def]
  let ?g = "\<lambda>p :: string \<times> int. (pool * snd p) mod tot"
  have "sorted (map (\<lambda>p. (- ?g p, - snd p, fst p)) ranked)"
    unfolding ranked_def case_prod_unfold by (rule sorted_sort_key)
  then have s: "sorted (map (\<lambda>p. - ?g p) ranked)" by (rule sorted_map_fst)
  have "mset (map ?g ranked) = mset (map ?g weights)"
    unfolding ranked_def by (simp only: mset_map mset_sort)
  then have "(\<Sum>p\<leftarrow>ranked. ?g p) = (\<Sum>p\<leftarrow>weights. ?g p)" by (metis sum_mset_sum_list)
  then have "(\<Sum>p\<leftarrow>ranked. ?g p) = int (nat k) * tot"
    using D(5,7) by (simp add: case_prod_unfold)
  moreover have "0 \<le> ?g p \<and> ?g p \<le> tot" for p
    using pos_mod_bound[OF D(4), of "pool * snd p"] pos_mod_sign[OF D(4), of "pool * snd p"]
    by linarith
  ultimately have "0 < ?g (c, w)"
    using sorted_prefix_positive[OF s] D(4) assms(5) by blast
  then show ?thesis by simp
qed

text \<open>When the split returns at all.\<close>

lemma allocate_ok:
  assumes "0 \<le> pool" "distinct (map fst weights)" "\<forall>(c, w) \<in> set weights. 0 \<le> w"
    and "0 < (\<Sum>(c, w)\<leftarrow>weights. w)"
  shows "\<exists>d. allocate pool weights = Inr d"
proof -
  have "weights \<noteq> []" using assms(4) by auto
  moreover have "\<not> (\<exists>(c, w) \<in> set weights. w < 0)" using assms(3) by auto
  ultimately show ?thesis
    using assms card_fst_distinct[of weights] by (simp add: allocate_def Let_def)
qed

lemma floor_plus_ceil:
  fixes x tot :: int
  assumes "0 < x mod tot" "0 < tot"
  shows "x div tot + 1 \<le> - ((- x) div tot)"
proof -
  have "(- x) div tot = - (x div tot) - 1" using assms by (simp add: zdiv_zminus1_eq_if)
  then show ?thesis by simp
qed

lemma floor_le_ceil:
  fixes x tot :: int
  shows "0 < tot \<Longrightarrow> x div tot \<le> - ((- x) div tot)"
  by (simp add: zdiv_zminus1_eq_if)

text \<open>
  C19. Whenever the pool is non-negative, the claimants are distinct, no weight is negative and
  some weight is positive, \<open>allocate\<close> returns; the result has exactly the claimants in the order
  given, its values sum to the pool to the cent, and every claimant receives the floor or the
  ceiling of its exact proportional share (so a claimant of weight zero receives nothing).
\<close>
theorem allocate_exact:
  assumes "0 \<le> pool" "distinct (map fst weights)" "\<forall>(c, w) \<in> set weights. 0 \<le> w"
    and "0 < (\<Sum>(c, w)\<leftarrow>weights. w)"
  shows "\<exists>d. allocate pool weights = Inr d \<and> dkeys d = map fst weights
    \<and> sum_list (dvals d) = pool
    \<and> (\<forall>(c, w) \<in> set weights. share_floor pool weights w \<le> dget_or d c 0
          \<and> dget_or d c 0 \<le> share_ceil pool weights w)"
proof -
  let ?tot = "\<Sum>(c, w)\<leftarrow>weights. w"
  obtain d where d: "allocate pool weights = Inr d" using allocate_ok[OF assms] by blast
  have "share_floor pool weights w \<le> dget_or d c 0 \<and> dget_or d c 0 \<le> share_ceil pool weights w"
    if cw: "(c, w) \<in> set weights" for c w
    using allocate_value[OF d cw] floor_plus_ceil[OF allocate_bumped_positive[OF d] assms(4)]
      floor_le_ceil[OF assms(4), of "pool * w"]
    unfolding share_floor_def share_ceil_def by (auto split: if_splits)
  with d allocate_keys[OF d] allocate_sum[OF d] show ?thesis by blast
qed

text \<open>
  The split does not depend on the order in which the claimants are listed: two lists with
  the same entries succeed together and pay every claimant the same amount.
\<close>
theorem allocate_order_independent:
  assumes "mset weights = mset weights'" "allocate pool weights = Inr d"
  shows "\<exists>d'. allocate pool weights' = Inr d' \<and> (\<forall>c. dget_or d' c 0 = dget_or d c 0)"
proof -
  note D = allocate_InrD[OF assms(2)]
  have sets: "set weights' = set weights" using assms(1) by (metis set_mset_mset)
  have sums: "(\<Sum>x\<leftarrow>weights'. f x) = (\<Sum>x\<leftarrow>weights. f x)" for f :: "string \<times> int \<Rightarrow> int"
    using assms(1) by (metis mset_map sum_mset_sum_list)
  have dist: "distinct (map fst weights')"
    using D(2) assms(1) by (metis mset_eq_imp_distinct_iff mset_map)
  have "0 < (\<Sum>(c, w)\<leftarrow>weights'. w)" using D(4) unfolding sums .
  then obtain d' where d': "allocate pool weights' = Inr d'"
    using allocate_ok[OF D(1) dist] D(3) unfolding sets by blast
  have key_eq: "sort_key (\<lambda>(c, w). (- ((pool * w) mod t), - w, c)) weights'
      = sort_key (\<lambda>(c, w). (- ((pool * w) mod t), - w, c)) weights" for t
    using D(2) by (intro sort_key_permute) (auto simp: assms(1) inj_on_def sets)
  have "dget_or d' c 0 = dget_or d c 0" for c
  proof (cases "c \<in> fst ` set weights")
    case True
    then obtain w where cw: "(c, w) \<in> set weights" by auto
    then have cw': "(c, w) \<in> set weights'" by (simp add: sets)
    show ?thesis
      using allocate_value[OF d' cw'] allocate_value[OF assms(2) cw]
      unfolding sums key_eq by simp
  next
    case False
    then have "dget d c = None" "dget d' c = None"
      using allocate_keys[OF assms(2)] allocate_keys[OF d'] sets
      by (simp_all add: dget_None_iff del: set_map) (simp_all add: sets)
    then show ?thesis by (simp add: dget_or_def)
  qed
  with d' show ?thesis by blast
qed

section \<open>Minted identifiers\<close>

lemma mint_charset_separates: "CHR ''_'' \<notin> set mint_charset"
  by (simp add: mint_charset_def)

lemma mint_InrD:
  assumes "mint pre tick ordinal = Inr s"
  shows "CHR ''_'' \<notin> set pre" "0 \<le> tick" "0 \<le> ordinal"
    "s = pre @ CHR ''_'' # zpad 8 (str_nat (nat tick)) @ CHR ''_'' # zpad 4 (str_nat (nat ordinal))"
  using assms mint_charset_separates by (auto simp: mint_def str_int_def split: if_splits)

lemma zpad_no_sep: "CHR ''_'' \<notin> set (zpad w (str_nat n))"
  using zpad_digits[of "CHR ''_''" w n] by (auto simp: is_digit_def)

text \<open>
  Minted identifiers are unique: two calls of \<open>mint\<close> that return the same string were given
  the same prefix, tick and ordinal, also beyond the eight and four digits of the padding.
\<close>
theorem mint_injective:
  assumes "mint p t n = Inr s" "mint p' t' n' = Inr s"
  shows "p = p' \<and> t = t' \<and> n = n'"
proof -
  note A = mint_InrD[OF assms(1)] and B = mint_InrD[OF assms(2)]
  from A(4) B(4) have "p = p' \<and> zpad 8 (str_nat (nat t)) = zpad 8 (str_nat (nat t'))
      \<and> zpad 4 (str_nat (nat n)) = zpad 4 (str_nat (nat n'))"
    using A(1) B(1) by (simp add: split_at_first zpad_no_sep)
  then show ?thesis using A(2,3) B(2,3) by (auto dest!: zpad_str_nat_inj)
qed

theorem mint_injective_witness:
  "mint ''ln'' 7 2 = Inr ''ln_00000007_0002'' \<and> (''ln'' = ''ln'' \<and> (7::int) = 7 \<and> (2::int) = 2)"
proof -
  have h: "mint ''ln'' 7 2 = Inr ''ln_00000007_0002''" by code_simp
  from mint_injective[OF h h] h show ?thesis by blast
qed

theorem allocate_exact_witness:
  "allocate 100 [(''b'', 1), (''a'', 1), (''c'', 1), (''z'', 0)]
     = Inr [(''b'', 33), (''a'', 34), (''c'', 33), (''z'', 0)]
   \<and> sum_list (dvals [(''b'', 33::int), (''a'', 34), (''c'', 33), (''z'', 0)]) = 100"
proof -
  let ?w = "[(''b'', 1), (''a'', 1), (''c'', 1), (''z'', 0)] :: (string \<times> int) list"
  have v: "allocate 100 ?w = Inr [(''b'', 33), (''a'', 34), (''c'', 33), (''z'', 0)]" by code_simp
  have "\<exists>d. allocate 100 ?w = Inr d \<and> dkeys d = map fst ?w \<and> sum_list (dvals d) = 100
      \<and> (\<forall>(c, w) \<in> set ?w. share_floor 100 ?w w \<le> dget_or d c 0 \<and> dget_or d c 0 \<le> share_ceil 100 ?w w)"
    by (rule allocate_exact) simp_all
  with v show ?thesis by auto
qed

theorem allocate_order_independent_witness:
  "\<exists>d'. allocate 10 [(''b'', 1), (''a'', 2)] = Inr d' \<and> dget_or d' ''a'' 0 = 7"
proof -
  have a: "allocate 10 [(''a'', 2), (''b'', 1)] = Inr [(''a'', 7), (''b'', 3)]" by code_simp
  have m: "mset [(''a'', 2), (''b'', 1)] = mset [(''b'', 1::int), (''a'', 2)]" by simp
  from allocate_order_independent[OF m a] show ?thesis by (auto simp: dget_or_def)
qed

end
