(* ===== verification/Event_Types.thy ===== *)
theory Event_Types
  imports Prelude
begin

text \<open>
  \<open>polis/events/types.py\<close>: the event envelope. The payload type is a parameter of the record.
  A \<open>datetime\<close> is kept as the seconds since the simulation epoch (1 January 2100, midnight), its
  microsecond field and whether it carries a time zone; a UUID is its 128-bit integer value, whose
  order is the order of its hexadecimal rendering.
\<close>

type_synonym uuid = nat

record datetime =
  dt_seconds :: int
  dt_micro :: int
  dt_aware :: bool

definition genesis_prev_hash :: string where
  "genesis_prev_hash = replicate 64 (CHR ''0'')"

definition ephemeral_seq :: int where
  "ephemeral_seq = -1"

record 'p event =
  ev_seq :: int
  ev_run_id :: uuid
  ev_tick :: int
  ev_sim_time :: datetime
  ev_kind :: int
  ev_actor_id :: "string option"
  ev_subject_ids :: "string list"
  ev_cause_seq :: "int option"
  ev_payload :: 'p
  ev_sig :: "string option"
  ev_prev_hash :: string
  ev_hash :: string

record 'p new_event =
  ne_kind :: int
  ne_payload :: 'p
  ne_actor_id :: "string option"
  ne_subject_ids :: "string list"
  ne_cause_seq :: "int option"
  ne_sig :: "string option"

end
