(* ===== verification/Ledger.thy ===== *)
theory Ledger
  imports Event_Types
begin

text \<open>
  \<open>polis/economy/ledger.py\<close>: the double-entry ledger. Account identifiers are built and parsed as
  strings; the ledger state holds the account table, the append-only list of entries, the entries
  not yet flushed, the dirty accounts, and per tick the transaction ordinal and the transactions
  posted. Every \<open>raise\<close> is a value of \<open>ledger_error\<close>. \<open>uuid5\<close> is a parameter of the operations
  that name transactions. A \<open>frozenset\<close> of identifiers is a list in its iteration order.
\<close>

section \<open>Accounts and their identifiers\<close>

datatype account_code = Cash | Dep | Esc | Res | Lnr | Txr | Dpl | Lnp | Iss

datatype polarity = Asset | Liability

fun polarity_of :: "account_code \<Rightarrow> polarity" where
  "polarity_of Cash = Asset"
| "polarity_of Dep = Asset"
| "polarity_of Esc = Asset"
| "polarity_of Res = Asset"
| "polarity_of Lnr = Asset"
| "polarity_of Txr = Asset"
| "polarity_of Dpl = Liability"
| "polarity_of Lnp = Liability"
| "polarity_of Iss = Liability"

fun account_type :: "account_code \<Rightarrow> string" where
  "account_type Cash = ''cash''"
| "account_type Dep = ''deposit''"
| "account_type Esc = ''escrow''"
| "account_type Res = ''reserve''"
| "account_type Lnr = ''loan_receivable''"
| "account_type Txr = ''tax_receivable''"
| "account_type Dpl = ''deposit''"
| "account_type Lnp = ''loan_payable''"
| "account_type Iss = ''issuance''"

definition reasons :: "string list" where
  "reasons = [''transfer'', ''wage'', ''purchase'', ''rent'', ''trade'', ''loan'', ''interest'',
     ''dividend'', ''tax'', ''inheritance'', ''fine'', ''write_off'', ''escrow'', ''issuance'',
     ''withdrawal'']"

fun code_str :: "account_code \<Rightarrow> string" where
  "code_str Cash = ''cash''"
| "code_str Dep = ''dep''"
| "code_str Esc = ''esc''"
| "code_str Res = ''res''"
| "code_str Lnr = ''lnr''"
| "code_str Txr = ''txr''"
| "code_str Dpl = ''dpl''"
| "code_str Lnp = ''lnp''"
| "code_str Iss = ''iss''"

definition all_codes :: "account_code list" where
  "all_codes = [Cash, Dep, Esc, Res, Lnr, Txr, Dpl, Lnp, Iss]"

definition parse_code :: "string \<Rightarrow> account_code option" where
  \<comment> \<open>membership of a string in the keys of \<open>POLARITY\<close>\<close>
  "parse_code s = find (\<lambda>c. code_str c = s) all_codes"

datatype ledger_error =
    UnknownAccountCode | InvalidOwner | InvalidBank | InvalidRef
  | BankRequired | BankForbidden | RefRequired | RefForbidden | InvalidAccountId | NonCanonicalId
  | NegativeOpenedTick | AccountExists | IssuanceReserved | UnknownAccount | AccountClosed
  | CloseNonZero | ClosePrecedesOpen
  | P1_TooFewLegs | P2_Direction | P2_Amount | UnknownReason | P3_Unbalanced | P4_Currency
  | P5_DuplicateLeg | P6_AssetNegative | P6_LiabilityPositive | P7_Cause | IssuanceOnly
  | UnapprovedOverdraft | TransferNonPositive | TransferEndpoint | TransferCrossBank
  | IssuanceLegCount | NegativeCommitment

definition has_marker :: "string \<Rightarrow> bool" where
  "has_marker s \<longleftrightarrow> CHR '':'' \<in> set s \<or> CHR ''@'' \<in> set s \<or> CHR ''#'' \<in> set s"

definition bad_part :: "string \<Rightarrow> bool" where
  "bad_part s \<longleftrightarrow> s = [] \<or> has_marker s"

definition needs_bank :: "account_code \<Rightarrow> bool" where
  "needs_bank c \<longleftrightarrow> c \<in> {Dep, Esc}"

definition needs_ref :: "account_code \<Rightarrow> bool" where
  "needs_ref c \<longleftrightarrow> c \<in> {Lnr, Lnp, Esc}"

definition account_id ::
    "account_code \<Rightarrow> string \<Rightarrow> string option \<Rightarrow> string option \<Rightarrow> ledger_error + string" where
  "account_id code owner bank ref =
     (if bad_part owner then Inl InvalidOwner
      else if opt_ex bad_part bank then Inl InvalidBank
      else if opt_ex bad_part ref then Inl InvalidRef
      else if needs_bank code \<and> bank = None then Inl BankRequired
      else if \<not> needs_bank code \<and> bank \<noteq> None then Inl BankForbidden
      else if needs_ref code \<and> ref = None then Inl RefRequired
      else if \<not> needs_ref code \<and> ref \<noteq> None then Inl RefForbidden
      else Inr (code_str code @ '':'' @ owner
             @ (case bank of None \<Rightarrow> [] | Some b \<Rightarrow> ''@'' @ b)
             @ (case ref of None \<Rightarrow> [] | Some r \<Rightarrow> ''#'' @ r)))"

definition partition_at :: "char \<Rightarrow> string \<Rightarrow> string \<times> string option" where
  \<comment> \<open>\<open>str.partition\<close>, with None for the missing tail when the separator is absent\<close>
  "partition_at c s =
     (takeWhile (\<lambda>x. x \<noteq> c) s,
      (case dropWhile (\<lambda>x. x \<noteq> c) s of [] \<Rightarrow> None | _ # rest \<Rightarrow> Some rest))"

definition parse_account_id ::
    "string \<Rightarrow> ledger_error + account_code \<times> string \<times> string option \<times> string option" where
  "parse_account_id value =
     (case partition_at (CHR '':'') value of
        (_, None) \<Rightarrow> Inl InvalidAccountId
      | (code_text, Some remainder) \<Rightarrow>
          (case parse_code code_text of
             None \<Rightarrow> Inl UnknownAccountCode
           | Some code \<Rightarrow>
               let (owner_and_bank, ref) = partition_at (CHR ''#'') remainder;
                   (owner, bank) = partition_at (CHR ''@'') owner_and_bank
               in (case account_id code owner bank ref of
                     Inl e \<Rightarrow> Inl e
                   | Inr canonical \<Rightarrow>
                       if canonical \<noteq> value then Inl NonCanonicalId
                       else Inr (code, owner, bank, ref))))"

definition bank_of :: "string \<Rightarrow> ledger_error + string option" where
  "bank_of value =
     (case parse_account_id value of
        Inl e \<Rightarrow> Inl e
      | Inr (code, owner, bank, ref) \<Rightarrow>
          Inr (if code \<in> {Dep, Esc} then bank
               else if code \<in> {Dpl, Res} then Some owner else None))"

section \<open>State\<close>

record leg =
  leg_account :: string
  leg_direction :: int
  leg_amount :: int
  leg_reason :: string

record account =
  acc_id :: string
  acc_code :: account_code
  acc_owner :: string
  acc_owner_type :: string
  acc_bank :: "string option"
  acc_ref :: "string option"
  acc_currency :: string
  acc_opened_tick :: int
  acc_closed_tick :: "int option"
  acc_balance :: int
  acc_entry_balance :: int

record entry =
  ent_txn :: uuid
  ent_tick :: int
  ent_event_seq :: int
  ent_account :: string
  ent_direction :: int
  ent_amount :: int
  ent_reason :: string

record ledger =
  led_run_id :: uuid
  led_accounts :: "(string, account) dict"
  led_entries :: "entry list"
  led_pending :: "entry list"
  led_dirty :: "string set"
  led_ordinals :: "(int, int) dict"
  led_posted :: "(int, uuid list) dict"

definition empty_ledger :: "uuid \<Rightarrow> ledger" where
  "empty_ledger run = \<lparr>led_run_id = run, led_accounts = [], led_entries = [], led_pending = [],
     led_dirty = {}, led_ordinals = [], led_posted = []\<rparr>"

section \<open>Operations\<close>

definition find_account :: "ledger \<Rightarrow> string \<Rightarrow> ledger_error + account" where
  \<comment> \<open>\<open>Ledger._account\<close>\<close>
  "find_account l value =
     (case dget (led_accounts l) value of None \<Rightarrow> Inl UnknownAccount | Some a \<Rightarrow> Inr a)"

definition find_open :: "ledger \<Rightarrow> string \<Rightarrow> ledger_error + account" where
  \<comment> \<open>\<open>Ledger._open_account\<close>\<close>
  "find_open l value =
     (case find_account l value of Inl e \<Rightarrow> Inl e
      | Inr a \<Rightarrow> if acc_closed_tick a \<noteq> None then Inl AccountClosed else Inr a)"

definition open_account ::
    "account_code \<Rightarrow> string \<Rightarrow> string \<Rightarrow> string option \<Rightarrow> string option \<Rightarrow> int \<Rightarrow> ledger
       \<Rightarrow> ledger_error + string \<times> ledger" where
  "open_account code owner owner_type bank ref tick l =
     (if tick < 0 then Inl NegativeOpenedTick
      else case account_id code owner bank ref of Inl e \<Rightarrow> Inl e
      | Inr value \<Rightarrow>
          if dget (led_accounts l) value \<noteq> None then Inl AccountExists
          else if code = Iss \<and> (owner \<noteq> ''bk_cb'' \<or> owner_type \<noteq> ''central_bank'')
          then Inl IssuanceReserved
          else Inr (value, l\<lparr>
            led_accounts := dset value
              \<lparr>acc_id = value, acc_code = code, acc_owner = owner, acc_owner_type = owner_type,
               acc_bank = bank, acc_ref = ref, acc_currency = ''POL'', acc_opened_tick = tick,
               acc_closed_tick = None, acc_balance = 0, acc_entry_balance = 0\<rparr> (led_accounts l),
            led_dirty := insert value (led_dirty l)\<rparr>))"

definition close_account :: "string \<Rightarrow> int \<Rightarrow> ledger \<Rightarrow> ledger_error + ledger" where
  "close_account value tick l =
     (case find_open l value of Inl e \<Rightarrow> Inl e
      | Inr a \<Rightarrow>
          if acc_balance a \<noteq> 0 then Inl CloseNonZero
          else if tick < acc_opened_tick a then Inl ClosePrecedesOpen
          else Inr (l\<lparr>led_accounts := dset value (a\<lparr>acc_closed_tick := Some tick\<rparr>) (led_accounts l),
                      led_dirty := insert value (led_dirty l)\<rparr>))"

definition is_open :: "ledger \<Rightarrow> string \<Rightarrow> bool" where
  "is_open l value =
     (case dget (led_accounts l) value of None \<Rightarrow> False | Some a \<Rightarrow> acc_closed_tick a = None)"

definition balance :: "ledger \<Rightarrow> string \<Rightarrow> ledger_error + int" where
  "balance l value = res_map acc_balance (find_account l value)"

definition sum_balances :: "(account \<Rightarrow> bool) \<Rightarrow> ledger \<Rightarrow> int" where
  \<comment> \<open>\<open>sum(account.balance_cents for account in self._accounts.values() if P)\<close>\<close>
  "sum_balances P l = (\<Sum>a\<leftarrow>filter P (dvals (led_accounts l)). acc_balance a)"

definition net_worth :: "ledger \<Rightarrow> string \<Rightarrow> int" where
  "net_worth l owner = sum_balances (\<lambda>a. acc_owner a = owner) l"

definition liquid :: "ledger \<Rightarrow> string \<Rightarrow> int" where
  "liquid l owner = sum_balances (\<lambda>a. acc_owner a = owner \<and> acc_code a \<in> {Cash, Dep}) l"

definition accounts_of :: "ledger \<Rightarrow> string \<Rightarrow> string list" where
  "accounts_of l owner =
     sort (map acc_id (filter (\<lambda>a. acc_owner a = owner) (dvals (led_accounts l))))"

definition accounts :: "ledger \<Rightarrow> account list" where
  "accounts l = map (\<lambda>k. the (dget (led_accounts l) k)) (sort (dkeys (led_accounts l)))"

definition txn_name :: "int \<Rightarrow> int \<Rightarrow> string" where
  "txn_name tick ordinal = str_int tick @ '':'' @ str_int ordinal"

definition next_txn_id :: "(uuid \<Rightarrow> string \<Rightarrow> uuid) \<Rightarrow> int \<Rightarrow> ledger \<Rightarrow> uuid \<times> ledger" where
  \<comment> \<open>reading a missing tick of the \<open>defaultdict\<close> stores the default 0 there\<close>
  "next_txn_id uuid5 tick l =
     (let n = dget_or (led_ordinals l) tick 0
      in (uuid5 (led_run_id l) (txn_name tick n), l\<lparr>led_ordinals := dset tick n (led_ordinals l)\<rparr>))"

definition check_leg ::
    "bool \<Rightarrow> ledger \<Rightarrow> leg \<Rightarrow> (string \<times> int \<times> string) list \<times> (string, int) dict
       \<Rightarrow> ledger_error + (string \<times> int \<times> string) list \<times> (string, int) dict" where
  \<comment> \<open>the body of the first loop of \<open>_post_transaction\<close>; the state is \<open>(seen, deltas)\<close>\<close>
  "check_leg allow_issuance l g = (\<lambda>(seen, deltas).
     (if leg_direction g \<noteq> -1 \<and> leg_direction g \<noteq> 1 then Inl P2_Direction
      else if leg_amount g \<le> 0 then Inl P2_Amount
      else if leg_reason g \<notin> set reasons then Inl UnknownReason
      else let key = (leg_account g, leg_direction g, leg_reason g) in
        if key \<in> set seen then Inl P5_DuplicateLeg
        else case find_open l (leg_account g) of Inl e \<Rightarrow> Inl e
        | Inr a \<Rightarrow>
            if acc_currency a \<noteq> ''POL'' then Inl P4_Currency
            else if acc_code a = Iss \<and> \<not> allow_issuance then Inl IssuanceOnly
            else Inr (key # seen,
                   dset (leg_account g)
                     (dget_or deltas (leg_account g) 0 + leg_direction g * leg_amount g) deltas)))"

definition validate_allow_negative :: "string list \<Rightarrow> ledger_error + unit" where
  "validate_allow_negative values = fold_res (\<lambda>value _.
     (case parse_account_id value of Inl e \<Rightarrow> Inl e
      | Inr (code, owner, bank, ref) \<Rightarrow>
          if code \<noteq> Res \<and> \<not> (code = Dep \<and> owner = ''gv_treasury'' \<and> bank = Some ''bk_cb'')
          then Inl UnapprovedOverdraft else Inr ())) values ()"

definition check_delta :: "string list \<Rightarrow> ledger \<Rightarrow> string \<times> int \<Rightarrow> unit \<Rightarrow> ledger_error + unit" where
  \<comment> \<open>the body of the second loop: P6\<close>
  "check_delta allow_negative l = (\<lambda>(value, delta) _.
     (case dget (led_accounts l) value of None \<Rightarrow> Inl UnknownAccount
      | Some a \<Rightarrow>
          let new_balance = acc_balance a + delta in
          if value \<in> set allow_negative then Inr ()
          else if polarity_of (acc_code a) = Asset \<and> new_balance < 0 then Inl P6_AssetNegative
          else if polarity_of (acc_code a) = Liability \<and> new_balance > 0
          then Inl P6_LiabilityPositive
          else Inr ()))"

definition apply_delta :: "string \<times> int \<Rightarrow> ledger \<Rightarrow> ledger" where
  \<comment> \<open>the body of the last loop\<close>
  "apply_delta = (\<lambda>(value, delta) l.
     (case dget (led_accounts l) value of None \<Rightarrow> l
      | Some a \<Rightarrow> l\<lparr>
          led_accounts := dset value
            (a\<lparr>acc_balance := acc_balance a + delta,
               acc_entry_balance := acc_entry_balance a + delta\<rparr>) (led_accounts l),
          led_dirty := insert value (led_dirty l)\<rparr>))"

definition entry_of :: "uuid \<Rightarrow> int \<Rightarrow> int \<Rightarrow> leg \<Rightarrow> entry" where
  "entry_of txn tick seq g =
     \<lparr>ent_txn = txn, ent_tick = tick, ent_event_seq = seq, ent_account = leg_account g,
      ent_direction = leg_direction g, ent_amount = leg_amount g, ent_reason = leg_reason g\<rparr>"

definition leg_deltas :: "bool \<Rightarrow> leg list \<Rightarrow> ledger \<Rightarrow> ledger_error + (string, int) dict" where
  "leg_deltas allow_issuance legs l =
     res_map snd (fold_res (check_leg allow_issuance l) legs ([], []))"

definition post_checked ::
    "(uuid \<Rightarrow> string \<Rightarrow> uuid) \<Rightarrow> leg list \<Rightarrow> int \<Rightarrow> 'p event \<Rightarrow> string list \<Rightarrow> bool \<Rightarrow> ledger
       \<Rightarrow> ledger_error + uuid \<times> ledger" where
  \<comment> \<open>\<open>Ledger._post_transaction\<close>\<close>
  "post_checked uuid5 legs tick cause allow_negative allow_issuance l =
     (if length legs < 2 then Inl P1_TooFewLegs
      else if ev_run_id cause \<noteq> led_run_id l \<or> ev_tick cause \<noteq> tick then Inl P7_Cause
      else case leg_deltas allow_issuance legs l of Inl e \<Rightarrow> Inl e
      | Inr deltas \<Rightarrow>
        if sum_list (dvals deltas) \<noteq> 0 then Inl P3_Unbalanced
        else case validate_allow_negative allow_negative of Inl e \<Rightarrow> Inl e
        | Inr _ \<Rightarrow>
        (case fold_res (check_delta allow_negative l) deltas () of Inl e \<Rightarrow> Inl e
         | Inr _ \<Rightarrow>
           let ordinal = dget_or (led_ordinals l) tick 0;
               (txn, l1) = next_txn_id uuid5 tick l;
               l2 = l1\<lparr>led_ordinals := dset tick (ordinal + 1) (led_ordinals l1)\<rparr>;
               new_entries = map (entry_of txn tick (ev_seq cause)) legs;
               l3 = fold apply_delta deltas l2
           in Inr (txn, l3\<lparr>
                led_entries := led_entries l3 @ new_entries,
                led_pending := led_pending l3 @ new_entries,
                led_posted := dset tick (dget_or (led_posted l3) tick [] @ [txn]) (led_posted l3)\<rparr>)))"

definition post_transaction ::
    "(uuid \<Rightarrow> string \<Rightarrow> uuid) \<Rightarrow> leg list \<Rightarrow> int \<Rightarrow> 'p event \<Rightarrow> string list \<Rightarrow> ledger
       \<Rightarrow> ledger_error + uuid \<times> ledger" where
  "post_transaction uuid5 legs tick cause allow_negative l =
     post_checked uuid5 legs tick cause allow_negative False l"

definition transfer :: "string \<Rightarrow> string \<Rightarrow> int \<Rightarrow> string \<Rightarrow> ledger_error + leg list" where
  "transfer src dst amount reason =
     (if amount \<le> 0 then Inl TransferNonPositive
      else res_bind (parse_account_id src) (\<lambda>(src_code, _, _, _).
      res_bind (parse_account_id dst) (\<lambda>(dst_code, _, _, _).
        if src_code \<notin> {Cash, Dep, Esc} \<or> dst_code \<notin> {Cash, Dep, Esc} then Inl TransferEndpoint
        else res_bind (bank_of src) (\<lambda>source_bank. res_bind (bank_of dst) (\<lambda>destination_bank.
          let lg = (\<lambda>a d. \<lparr>leg_account = a, leg_direction = d, leg_amount = amount, leg_reason = reason\<rparr>) in
          if source_bank = destination_bank then Inr [lg src (-1), lg dst 1]
          else case (source_bank, destination_bank) of
            (Some sb, Some db) \<Rightarrow>
              res_bind (account_id Dpl sb None None) (\<lambda>dpl_s.
              res_bind (account_id Res sb None None) (\<lambda>res_s.
              res_bind (account_id Res db None None) (\<lambda>res_d.
              res_bind (account_id Dpl db None None) (\<lambda>dpl_d.
                Inr [lg src (-1), lg dpl_s 1, lg res_s (-1), lg res_d 1, lg dpl_d (-1), lg dst 1]))))
          | _ \<Rightarrow> Inl TransferCrossBank)))))"

definition issuance_id :: string where
  \<comment> \<open>\<open>account_id("iss", "bk_cb")\<close>\<close>
  "issuance_id = ''iss:bk_cb''"

definition issue_base_money ::
    "(uuid \<Rightarrow> string \<Rightarrow> uuid) \<Rightarrow> leg list \<Rightarrow> int \<Rightarrow> 'p event \<Rightarrow> ledger
       \<Rightarrow> ledger_error + uuid \<times> ledger" where
  "issue_base_money uuid5 legs tick cause l =
     (if length (filter (\<lambda>g. leg_account g = issuance_id) legs) \<noteq> 1 then Inl IssuanceLegCount
      else post_checked uuid5 legs tick cause [] True l)"

definition commit_tick :: "int \<Rightarrow> ledger \<Rightarrow> entry list" where
  "commit_tick tick l =
     filter (\<lambda>e. ent_txn e \<in> set (dget_or (led_posted l) tick [])) (led_pending l)"

definition flush :: "int \<Rightarrow> ledger \<Rightarrow> (account list \<times> entry list) option \<times> ledger" where
  \<comment> \<open>the rows handed to the repository, if it is called, and the ledger after the call\<close>
  "flush tick l =
     (let rows = commit_tick tick l;
          posted = set (dget_or (led_posted l) tick []);
          dirty = map (\<lambda>k. the (dget (led_accounts l) k)) (sorted_list_of_set (led_dirty l))
      in (if led_dirty l \<noteq> {} \<or> rows \<noteq> [] then Some (dirty, rows) else None,
          l\<lparr>led_posted := ddel tick (led_posted l),
            led_pending := filter (\<lambda>e. ent_txn e \<notin> posted) (led_pending l),
            led_dirty := {}\<rparr>))"

definition global_balance_cents :: "ledger \<Rightarrow> int" where
  "global_balance_cents l = sum_balances (\<lambda>_. True) l"

definition materialisation_imbalance_cents :: "ledger \<Rightarrow> int" where
  "materialisation_imbalance_cents l =
     (\<Sum>a\<leftarrow>dvals (led_accounts l). \<bar>acc_balance a - acc_entry_balance a\<bar>)"

definition deposit_at :: "string \<Rightarrow> account \<Rightarrow> bool" where
  "deposit_at bank a \<longleftrightarrow> acc_code a \<in> {Dep, Esc} \<and> acc_bank a = Some bank"

definition deposit_imbalances :: "ledger \<Rightarrow> ledger_error + (string, int) dict" where
  "deposit_imbalances l =
     (let banks = sort (map acc_owner (filter (\<lambda>a. acc_code a = Dpl \<and> acc_owner a \<noteq> ''bk_cb'')
                    (dvals (led_accounts l))))
      in fold_res (\<lambda>bank d.
           res_bind (account_id Dpl bank None None) (\<lambda>dpl.
           res_bind (balance l dpl) (\<lambda>b.
             Inr (dset bank (sum_balances (deposit_at bank) l + b) d))))
         banks [])"

definition base_money_imbalance_cents :: "ledger \<Rightarrow> int" where
  "base_money_imbalance_cents l =
     (case dget (led_accounts l) issuance_id of None \<Rightarrow> 0
      | Some iss \<Rightarrow>
          sum_balances (\<lambda>a. acc_code a = Cash \<or> (acc_code a = Res \<and> acc_owner a \<noteq> ''bk_cb'')) l
          + sum_balances (\<lambda>a. acc_code a = Dep \<and> acc_owner a = ''gv_treasury''
              \<and> acc_bank a = Some ''bk_cb'') l
          + acc_balance iss)"

section \<open>Commitments within a tick\<close>

record commitments =
  com_tick :: "int option"
  com_committed :: "(string, int) dict"

definition com_reset :: "int \<Rightarrow> commitments \<Rightarrow> commitments" where
  "com_reset tick c =
     (if com_tick c \<noteq> Some tick then \<lparr>com_tick = Some tick, com_committed = []\<rparr> else c)"

definition com_available :: "ledger \<Rightarrow> string \<Rightarrow> int \<Rightarrow> commitments \<Rightarrow> int \<times> commitments" where
  "com_available l owner tick c =
     (let c' = com_reset tick c
      in (liquid l owner - dget_or (com_committed c') owner 0, c'))"

definition com_commit ::
    "ledger \<Rightarrow> string \<Rightarrow> int \<Rightarrow> int \<Rightarrow> commitments \<Rightarrow> ledger_error + bool \<times> commitments" where
  "com_commit l owner cents tick c =
     (if cents < 0 then Inl NegativeCommitment
      else let (avail, c') = com_available l owner tick c in
        if cents > avail then Inr (False, c')
        else Inr (True, c'\<lparr>com_committed :=
               dset owner (dget_or (com_committed c') owner 0 + cents) (com_committed c')\<rparr>))"

end
