(* ===== verification/Ledger_Props.thy ===== *)
theory Ledger_Props
  imports Ledger
begin

text \<open>
  Correctness of the ledger: account identifiers parse back to what they were built from, a posting
  changes exactly the balances its legs name, and every ledger reachable by the public operations
  is balanced, materialised by its entries and solvent outside the approved overdrafts.
\<close>

section \<open>Account identifiers\<close>

lemma parse_code_str [simp]: "parse_code (code_str c) = Some c"
  by (cases c) (simp_all add: parse_code_def all_codes_def)

lemma parse_code_SomeD: "parse_code s = Some c \<Longrightarrow> s = code_str c"
  by (auto simp: parse_code_def find_Some_iff)

lemma code_str_no_colon: "CHR '':'' \<notin> set (code_str c)"
  by (cases c) auto

lemma partition_at_sep: "c \<notin> set xs \<Longrightarrow> partition_at c (xs @ c # ys) = (xs, Some ys)"
  by (simp add: partition_at_def takeWhile_sep dropWhile_sep)

lemma partition_at_none: "c \<notin> set xs \<Longrightarrow> partition_at c xs = (xs, None)"
  by (simp add: partition_at_def takeWhile_no_sep dropWhile_no_sep)

lemma good_part_no_marker:
  "\<not> bad_part s \<Longrightarrow> CHR '':'' \<notin> set s \<and> CHR ''@'' \<notin> set s \<and> CHR ''#'' \<notin> set s"
  by (simp add: bad_part_def has_marker_def)

lemma account_id_InrD:
  assumes "account_id c owner bank ref = Inr v"
  shows "\<not> bad_part owner" "\<And>b. bank = Some b \<Longrightarrow> \<not> bad_part b" "\<And>r. ref = Some r \<Longrightarrow> \<not> bad_part r"
    "needs_bank c \<longleftrightarrow> bank \<noteq> None" "needs_ref c \<longleftrightarrow> ref \<noteq> None"
    "v = code_str c @ '':'' @ owner @ (case bank of None \<Rightarrow> [] | Some b \<Rightarrow> ''@'' @ b)
           @ (case ref of None \<Rightarrow> [] | Some r \<Rightarrow> ''#'' @ r)"
  using assms by (auto simp: account_id_def opt_ex_iff split: if_splits)

lemma parse_of_account_id:
  assumes "account_id c owner bank ref = Inr v"
  shows "parse_account_id v = Inr (c, owner, bank, ref)"
proof -
  note A = account_id_InrD[OF assms]
  note O = good_part_no_marker[OF A(1)]
  let ?b = "case bank of None \<Rightarrow> [] | Some b \<Rightarrow> ''@'' @ b"
  let ?r = "case ref of None \<Rightarrow> [] | Some r \<Rightarrow> ''#'' @ r"
  have colon: "partition_at (CHR '':'') v = (code_str c, Some (owner @ ?b @ ?r))"
    using partition_at_sep[OF code_str_no_colon, of c "owner @ ?b @ ?r"] by (simp add: A(6))
  have "CHR ''#'' \<notin> set (owner @ ?b)"
    using O good_part_no_marker[OF A(2)] by (auto split: option.splits)
  then have hash: "partition_at (CHR ''#'') (owner @ ?b @ ?r) = (owner @ ?b, ref)"
    using partition_at_sep[of "CHR ''#''" "owner @ ?b"] partition_at_none[of "CHR ''#''" "owner @ ?b"]
    by (cases ref) auto
  have at: "partition_at (CHR ''@'') (owner @ ?b) = (owner, bank)"
    using O partition_at_sep[of "CHR ''@''" owner] partition_at_none[of "CHR ''@''" owner]
    by (cases bank) auto
  show ?thesis
    using assms by (simp add: parse_account_id_def colon hash at)
qed

lemma account_id_of_parse:
  "parse_account_id v = Inr (c, owner, bank, ref) \<Longrightarrow> account_id c owner bank ref = Inr v"
  by (auto simp: parse_account_id_def Let_def split: prod.splits option.splits sum.splits if_splits)

text \<open>
  C25. Parsing and building account identifiers are inverse to each other on every input:
  \<open>parse_account_id\<close> returns a tuple exactly when \<open>account_id\<close> of that tuple returns the string.
  So an identifier names one account only, and nothing but canonical identifiers is accepted.
\<close>
theorem account_id_roundtrip:
  "parse_account_id v = Inr (c, owner, bank, ref) \<longleftrightarrow> account_id c owner bank ref = Inr v"
  by (rule iffI) (rule account_id_of_parse, assumption, rule parse_of_account_id)

lemma account_id_inj:
  "account_id c owner bank ref = Inr v \<Longrightarrow> account_id c' owner' bank' ref' = Inr v \<Longrightarrow>
     c = c' \<and> owner = owner' \<and> bank = bank' \<and> ref = ref'"
  by (auto dest!: parse_of_account_id)

lemma issuance_id_eq: "account_id Iss ''bk_cb'' None None = Inr issuance_id"
  by (simp add: account_id_def issuance_id_def bad_part_def has_marker_def needs_bank_def needs_ref_def)

section \<open>What a posting does\<close>

definition leg_net :: "leg list \<Rightarrow> string \<Rightarrow> int" where
  "leg_net legs v =
     (\<Sum>g\<leftarrow>filter (\<lambda>g. leg_account g = v) legs. leg_direction g * leg_amount g)"

definition entry_net :: "entry list \<Rightarrow> string \<Rightarrow> int" where
  "entry_net es v = (\<Sum>e\<leftarrow>filter (\<lambda>e. ent_account e = v) es. ent_direction e * ent_amount e)"

lemma leg_net_simps [simp]:
  "leg_net [] v = 0"
  "leg_net (g # gs) v = (if leg_account g = v then leg_direction g * leg_amount g else 0) + leg_net gs v"
  by (simp_all add: leg_net_def)

lemma entry_net_append: "entry_net (xs @ ys) v = entry_net xs v + entry_net ys v"
  by (simp add: entry_net_def)

lemma entry_net_entry_of: "entry_net (map (entry_of t k s) gs) v = leg_net gs v"
  by (induction gs) (simp_all add: entry_net_def entry_of_def)

definition leg_ok :: "bool \<Rightarrow> ledger \<Rightarrow> leg \<Rightarrow> bool" where
  "leg_ok iss l g \<longleftrightarrow> (leg_direction g = -1 \<or> leg_direction g = 1) \<and> 0 < leg_amount g
     \<and> leg_reason g \<in> set reasons
     \<and> (\<exists>a. dget (led_accounts l) (leg_account g) = Some a \<and> acc_closed_tick a = None
          \<and> acc_currency a = ''POL'' \<and> (acc_code a = Iss \<longrightarrow> iss))"

lemma find_open_Inr_iff:
  "find_open l v = Inr a \<longleftrightarrow> dget (led_accounts l) v = Some a \<and> acc_closed_tick a = None"
  by (auto simp: find_open_def find_account_def split: option.splits)

lemma check_leg_InrD:
  assumes "check_leg iss l g (seen, d) = Inr (seen', d')"
  shows "leg_ok iss l g"
    "d' = dset (leg_account g) (dget_or d (leg_account g) 0 + leg_direction g * leg_amount g) d"
  using assms
  by (auto simp: check_leg_def leg_ok_def Let_def find_open_Inr_iff split: if_splits sum.splits)

lemma dsum_dset_or:
  "wf_dict d \<Longrightarrow> sum_list (dvals (dset k (dget_or d k 0 + x) d)) = sum_list (dvals d) + (x::int)"
proof (cases "dget d k")
  case None
  then show ?thesis using sum_dset_fresh_int[OF None, of "\<lambda>x. x"] by (simp add: dget_or_def)
next
  case (Some v)
  assume "wf_dict d"
  then show ?thesis using sum_dset_int[OF _ Some, of "\<lambda>x. x"] Some by (simp add: dget_or_def)
qed

lemma fold_check_leg:
  assumes "fold_res (check_leg iss l) gs (seen, d) = Inr (seen', d')" "wf_dict d"
  shows "(\<forall>g \<in> set gs. leg_ok iss l g) \<and> wf_dict d'
    \<and> (\<forall>v. dget_or d' v 0 = dget_or d v 0 + leg_net gs v)
    \<and> set (dkeys d') = set (dkeys d) \<union> leg_account ` set gs
    \<and> sum_list (dvals d') = sum_list (dvals d) + (\<Sum>g\<leftarrow>gs. leg_direction g * leg_amount g)"
  using assms
proof (induction gs arbitrary: seen d)
  case (Cons g gs)
  then obtain s1 d1 where s: "check_leg iss l g (seen, d) = Inr (s1, d1)"
    "fold_res (check_leg iss l) gs (s1, d1) = Inr (seen', d')"
    by (auto simp: res_simps)
  note G = check_leg_InrD[OF s(1)]
  have wf: "wf_dict d1" unfolding G(2) using Cons.prems(2) by (rule wf_dset)
  have sum: "sum_list (dvals d1) = sum_list (dvals d) + leg_direction g * leg_amount g"
    unfolding G(2) by (rule dsum_dset_or[OF Cons.prems(2)])
  have keys: "set (dkeys d1) = insert (leg_account g) (set (dkeys d))"
    unfolding G(2) by (rule set_dkeys_dset)
  show ?case
    using Cons.IH[OF s(2) wf] G(1) sum keys by (auto simp: G(2))
qed auto

lemma leg_deltas_InrD:
  assumes "leg_deltas iss gs l = Inr d"
  shows "\<forall>g \<in> set gs. leg_ok iss l g" "wf_dict d" "\<And>v. dget_or d v 0 = leg_net gs v"
    "set (dkeys d) = leg_account ` set gs"
    "sum_list (dvals d) = (\<Sum>g\<leftarrow>gs. leg_direction g * leg_amount g)"
proof -
  from assms obtain s where "fold_res (check_leg iss l) gs ([], []) = Inr (s, d)"
    by (auto simp: leg_deltas_def res_simps)
  from fold_check_leg[OF this]
  show "\<forall>g \<in> set gs. leg_ok iss l g" "wf_dict d" "\<And>v. dget_or d v 0 = leg_net gs v"
    "set (dkeys d) = leg_account ` set gs"
    "sum_list (dvals d) = (\<Sum>g\<leftarrow>gs. leg_direction g * leg_amount g)"
    by (simp_all del: set_map)
qed

definition add_balance :: "int \<Rightarrow> account \<Rightarrow> account" where
  "add_balance x a = a\<lparr>acc_balance := acc_balance a + x, acc_entry_balance := acc_entry_balance a + x\<rparr>"

lemma add_balance_sel [simp]:
  "acc_balance (add_balance x a) = acc_balance a + x"
  "acc_entry_balance (add_balance x a) = acc_entry_balance a + x"
  "acc_id (add_balance x a) = acc_id a" "acc_code (add_balance x a) = acc_code a"
  "acc_owner (add_balance x a) = acc_owner a" "acc_owner_type (add_balance x a) = acc_owner_type a"
  "acc_bank (add_balance x a) = acc_bank a" "acc_ref (add_balance x a) = acc_ref a"
  "acc_currency (add_balance x a) = acc_currency a"
  "acc_opened_tick (add_balance x a) = acc_opened_tick a"
  "acc_closed_tick (add_balance x a) = acc_closed_tick a"
  by (simp_all add: add_balance_def)

lemma add_balance_0 [simp]: "add_balance 0 a = a"
  by (simp add: add_balance_def)

lemma add_balance_add: "add_balance x (add_balance y a) = add_balance (y + x) a"
  by (simp add: add_balance_def algebra_simps)

lemma apply_delta_frame [simp]:
  "led_run_id (apply_delta p l) = led_run_id l" "led_entries (apply_delta p l) = led_entries l"
  "led_pending (apply_delta p l) = led_pending l" "led_ordinals (apply_delta p l) = led_ordinals l"
  "led_posted (apply_delta p l) = led_posted l"
  by (simp_all add: apply_delta_def split: prod.splits option.splits)

lemma fold_apply_delta_frame [simp]:
  "led_run_id (fold apply_delta ds l) = led_run_id l"
  "led_entries (fold apply_delta ds l) = led_entries l"
  "led_pending (fold apply_delta ds l) = led_pending l"
  "led_ordinals (fold apply_delta ds l) = led_ordinals l"
  "led_posted (fold apply_delta ds l) = led_posted l"
  by (induction ds arbitrary: l) simp_all

lemma apply_delta_accounts:
  "dget (led_accounts (apply_delta (k, x) l)) v
     = map_option (add_balance (if v = k then x else 0)) (dget (led_accounts l) v)"
  by (auto simp: apply_delta_def add_balance_def option.map_id0 map_option_case split: option.splits)

lemma apply_delta_keys: "dkeys (led_accounts (apply_delta p l)) = dkeys (led_accounts l)"
  by (auto simp: apply_delta_def dkeys_dset dest: dget_SomeD split: prod.splits option.splits)
     (metis fst_conv image_eqI dget_SomeD)

lemma fold_apply_delta_keys:
  "dkeys (led_accounts (fold apply_delta ds l)) = dkeys (led_accounts l)"
  by (induction ds arbitrary: l) (simp_all add: apply_delta_keys)

lemma fold_apply_delta_accounts:
  "wf_dict ds \<Longrightarrow> dget (led_accounts (fold apply_delta ds l)) v
     = map_option (add_balance (dget_or ds v 0)) (dget (led_accounts l) v)"
proof (induction ds arbitrary: l)
  case Nil
  then show ?case by (simp add: option.map_ident map_option_case split: option.splits)
next
  case (Cons p ds)
  obtain k x where p: "p = (k, x)" by (cases p)
  have "k \<notin> set (dkeys ds)" using Cons.prems by (simp add: p)
  then have z: "dget_or ds k 0 = 0" using dget_None_iff[of ds k] by (simp add: dget_or_def)
  show ?case
    using Cons.IH[of "apply_delta (k, x) l"] Cons.prems z
    by (cases "dget (led_accounts l) v")
       (auto simp: p apply_delta_accounts add_balance_add dget_or_def)
qed

text \<open>The whole effect of a successful posting.\<close>

lemma post_checked_InrD:
  assumes "post_checked uuid5 legs tick cause neg iss l = Inr (txn, l')"
  shows "2 \<le> length legs" "ev_run_id cause = led_run_id l" "ev_tick cause = tick"
    "\<forall>g \<in> set legs. leg_ok iss l g" "(\<Sum>g\<leftarrow>legs. leg_direction g * leg_amount g) = 0"
    "validate_allow_negative neg = Inr ()"
    "\<And>v. dget (led_accounts l') v = map_option (add_balance (leg_net legs v)) (dget (led_accounts l) v)"
    "dkeys (led_accounts l') = dkeys (led_accounts l)" "led_run_id l' = led_run_id l"
    "txn = uuid5 (led_run_id l) (txn_name tick (dget_or (led_ordinals l) tick 0))"
    "led_entries l' = led_entries l @ map (entry_of txn tick (ev_seq cause)) legs"
    "led_pending l' = led_pending l @ map (entry_of txn tick (ev_seq cause)) legs"
    "led_ordinals l' = dset tick (dget_or (led_ordinals l) tick 0 + 1)
        (dset tick (dget_or (led_ordinals l) tick 0) (led_ordinals l))"
    "led_posted l' = dset tick (dget_or (led_posted l) tick [] @ [txn]) (led_posted l)"
    "\<exists>ds. leg_deltas iss legs l = Inr ds \<and> fold_res (check_delta neg l) ds () = Inr ()"
proof -
  from assms obtain ds where ds: "leg_deltas iss legs l = Inr ds"
    "sum_list (dvals ds) = 0" "fold_res (check_delta neg l) ds () = Inr ()"
    and basic: "2 \<le> length legs" "ev_run_id cause = led_run_id l" "ev_tick cause = tick"
    "validate_allow_negative neg = Inr ()"
    by (auto simp: post_checked_def Let_def split: if_splits sum.splits prod.splits)
  note L = leg_deltas_InrD[OF ds(1)]
  from assms have
    txn: "txn = uuid5 (led_run_id l) (txn_name tick (dget_or (led_ordinals l) tick 0))"
    and l': "l' = (let l2 = l\<lparr>led_ordinals := dset tick (dget_or (led_ordinals l) tick 0 + 1)
              (dset tick (dget_or (led_ordinals l) tick 0) (led_ordinals l))\<rparr>;
            l3 = fold apply_delta ds l2; es = map (entry_of txn tick (ev_seq cause)) legs
        in l3\<lparr>led_entries := led_entries l3 @ es, led_pending := led_pending l3 @ es,
            led_posted := dset tick (dget_or (led_posted l3) tick [] @ [txn]) (led_posted l3)\<rparr>)"
    using ds by (auto simp: post_checked_def next_txn_id_def Let_def split: if_splits sum.splits)
  show "2 \<le> length legs" "ev_run_id cause = led_run_id l" "ev_tick cause = tick"
    "validate_allow_negative neg = Inr ()" by (fact basic)+
  show "\<forall>g \<in> set legs. leg_ok iss l g" by (fact L(1))
  show "(\<Sum>g\<leftarrow>legs. leg_direction g * leg_amount g) = 0" using L(5) ds(2) by simp
  show "txn = uuid5 (led_run_id l) (txn_name tick (dget_or (led_ordinals l) tick 0))" by (fact txn)
  show "\<exists>ds. leg_deltas iss legs l = Inr ds \<and> fold_res (check_delta neg l) ds () = Inr ()"
    using ds by blast
  show "dget (led_accounts l') v = map_option (add_balance (leg_net legs v)) (dget (led_accounts l) v)"
    for v by (simp add: l' Let_def fold_apply_delta_accounts[OF L(2)] L(3))
  show "dkeys (led_accounts l') = dkeys (led_accounts l)"
    by (simp add: l' Let_def fold_apply_delta_keys)
  show "led_run_id l' = led_run_id l"
    "led_entries l' = led_entries l @ map (entry_of txn tick (ev_seq cause)) legs"
    "led_pending l' = led_pending l @ map (entry_of txn tick (ev_seq cause)) legs"
    "led_ordinals l' = dset tick (dget_or (led_ordinals l) tick 0 + 1)
        (dset tick (dget_or (led_ordinals l) tick 0) (led_ordinals l))"
    "led_posted l' = dset tick (dget_or (led_posted l) tick [] @ [txn]) (led_posted l)"
    by (simp_all add: l' Let_def)
qed

lemma check_delta_all:
  assumes "fold_res (check_delta neg l) ds () = Inr ()" "(v, x) \<in> set ds"
  shows "check_delta neg l (v, x) () = Inr ()"
  using assms
proof (induction ds)
  case (Cons p ds)
  then show ?case by (cases "check_delta neg l p ()") auto
qed simp

lemma overdraft_allowed:
  assumes "validate_allow_negative neg = Inr ()" "v \<in> set neg"
  shows "\<exists>c ow b r. parse_account_id v = Inr (c, ow, b, r)
    \<and> (c = Res \<or> (c = Dep \<and> ow = ''gv_treasury'' \<and> b = Some ''bk_cb''))"
  using assms
proof (induction neg)
  case (Cons w neg)
  then show ?case
    by (auto simp: validate_allow_negative_def res_simps split: sum.splits if_splits)
qed simp

section \<open>The invariant\<close>

definition overdraftable :: "account \<Rightarrow> bool" where
  "overdraftable a \<longleftrightarrow> acc_code a = Res
     \<or> (acc_code a = Dep \<and> acc_owner a = ''gv_treasury'' \<and> acc_bank a = Some ''bk_cb'')"

definition solvent :: "account \<Rightarrow> bool" where
  "solvent a \<longleftrightarrow> overdraftable a \<or>
     (case polarity_of (acc_code a) of Asset \<Rightarrow> 0 \<le> acc_balance a | Liability \<Rightarrow> acc_balance a \<le> 0)"

definition account_inv :: "ledger \<Rightarrow> string \<Rightarrow> account \<Rightarrow> bool" where
  "account_inv l k a \<longleftrightarrow> acc_id a = k
     \<and> account_id (acc_code a) (acc_owner a) (acc_bank a) (acc_ref a) = Inr k
     \<and> acc_entry_balance a = acc_balance a \<and> entry_net (led_entries l) k = acc_balance a
     \<and> (acc_closed_tick a \<noteq> None \<longrightarrow> acc_balance a = 0) \<and> solvent a
     \<and> (acc_code a = Iss \<longrightarrow> acc_owner a = ''bk_cb'' \<and> acc_owner_type a = ''central_bank'')"

definition ledger_inv :: "ledger \<Rightarrow> bool" where
  "ledger_inv l \<longleftrightarrow> wf_dict (led_accounts l)
     \<and> (\<forall>k a. dget (led_accounts l) k = Some a \<longrightarrow> account_inv l k a)
     \<and> (\<forall>e \<in> set (led_entries l). ent_account e \<in> set (dkeys (led_accounts l)) \<and> 0 < ent_amount e
          \<and> (ent_direction e = -1 \<or> ent_direction e = 1))
     \<and> (\<Sum>e\<leftarrow>led_entries l. ent_direction e * ent_amount e) = 0"

lemma account_inv_cong:
  "led_entries l' = led_entries l \<Longrightarrow> account_inv l' = account_inv l"
  by (intro ext) (simp only: account_inv_def)

lemma ledger_inv_frame:
  assumes "ledger_inv l" "led_accounts l' = led_accounts l" "led_entries l' = led_entries l"
  shows "ledger_inv l'"
  using assms(1) unfolding ledger_inv_def assms(2,3) account_inv_cong[OF assms(3)] .

lemma ledger_inv_memberD: "ledger_inv l \<Longrightarrow> (k, a) \<in> set (led_accounts l) \<Longrightarrow> account_inv l k a"
  by (simp add: ledger_inv_def dget_Some_iff)

lemma solvent_zero: "acc_balance a = 0 \<Longrightarrow> solvent a"
  by (cases "polarity_of (acc_code a)") (simp_all add: solvent_def)

text \<open>Balances add up to what the entries add up to, account by account.\<close>

lemma sum_over_keys:
  assumes "distinct ks" "\<forall>e \<in> set es. ent_account e \<in> set ks"
  shows "(\<Sum>k\<leftarrow>ks. entry_net es k) = (\<Sum>e\<leftarrow>es. ent_direction e * ent_amount e)"
  using assms(2)
proof (induction es)
  case (Cons e es)
  have "entry_net (e # es) k = entry_net es k
      + (if ent_account e = k then ent_direction e * ent_amount e else 0)" for k
    by (simp add: entry_net_def)
  then have "(\<Sum>k\<leftarrow>ks. entry_net (e # es) k) = (\<Sum>k\<leftarrow>ks. entry_net es k)
      + (\<Sum>k\<leftarrow>ks. if ent_account e = k then ent_direction e * ent_amount e else 0)"
    by (simp add: sum_list_addf)
  moreover have "(\<Sum>k\<leftarrow>ks. if ent_account e = k then ent_direction e * ent_amount e else 0)
      = ent_direction e * ent_amount e"
    using assms(1) Cons.prems by (simp add: sum_list_distinct_conv_sum_set)
  ultimately show ?case using Cons by simp
next
  case Nil
  have "map (entry_net []) ks = map (\<lambda>_. 0) ks" by (simp add: entry_net_def)
  then show ?case by (simp only: sum_list_0) simp
qed

lemma ledger_inv_global:
  assumes "ledger_inv l"
  shows "global_balance_cents l = 0"
proof -
  have "map acc_balance (dvals (led_accounts l)) = map (entry_net (led_entries l)) (dkeys (led_accounts l))"
    using ledger_inv_memberD[OF assms] by (auto simp: account_inv_def intro!: map_cong)
  then have "sum_list (map acc_balance (dvals (led_accounts l))) = (\<Sum>k\<leftarrow>dkeys (led_accounts l). entry_net (led_entries l) k)"
    by (rule arg_cong)
  then have "global_balance_cents l = (\<Sum>k\<leftarrow>dkeys (led_accounts l). entry_net (led_entries l) k)"
    unfolding global_balance_cents_def sum_balances_def by simp
  also have "\<dots> = (\<Sum>e\<leftarrow>led_entries l. ent_direction e * ent_amount e)"
    using assms by (intro sum_over_keys) (auto simp: ledger_inv_def)
  finally show ?thesis using assms by (simp add: ledger_inv_def)
qed

lemma ledger_inv_materialised:
  assumes "ledger_inv l"
  shows "materialisation_imbalance_cents l = 0"
proof -
  have "acc_entry_balance a = acc_balance a" if "a \<in> set (dvals (led_accounts l))" for a
    using that ledger_inv_memberD[OF assms] by (auto simp: account_inv_def)
  then have "map (\<lambda>a. \<bar>acc_balance a - acc_entry_balance a\<bar>) (dvals (led_accounts l))
      = map (\<lambda>_. 0) (dvals (led_accounts l))" by (intro map_cong) auto
  then show ?thesis unfolding materialisation_imbalance_cents_def by (simp only: sum_list_0)
qed

lemma delta_solvent:
  assumes "fold_res (check_delta neg l) ds () = Inr ()" "validate_allow_negative neg = Inr ()"
    and "(k, x) \<in> set ds" "dget (led_accounts l) k = Some a"
    and "account_id (acc_code a) (acc_owner a) (acc_bank a) (acc_ref a) = Inr k"
  shows "solvent (add_balance x a)"
proof (cases "k \<in> set neg")
  case True
  from overdraft_allowed[OF assms(2) True] parse_of_account_id[OF assms(5)]
  have "overdraftable a" by (auto simp: overdraftable_def)
  then show ?thesis by (simp add: solvent_def overdraftable_def)
next
  case False
  with check_delta_all[OF assms(1,3)] assms(4) show ?thesis
    by (cases "polarity_of (acc_code a)")
       (auto simp: check_delta_def solvent_def Let_def split: if_splits)
qed

lemma leg_net_absent: "k \<notin> leg_account ` set legs \<Longrightarrow> leg_net legs k = 0"
  by (induction legs) auto

lemma post_preserves_inv:
  assumes inv: "ledger_inv l"
    and post: "post_checked uuid5 legs tick cause neg iss l = Inr (txn, l')"
  shows "ledger_inv l'"
proof -
  note P = post_checked_InrD[OF post]
  obtain ds where ds: "leg_deltas iss legs l = Inr ds" "fold_res (check_delta neg l) ds () = Inr ()"
    using P(15) by blast
  note L = leg_deltas_InrD[OF ds(1)]
  have acc: "account_inv l' k b" if b: "dget (led_accounts l') k = Some b" for k b
  proof -
    from b P(7)[of k] obtain a where a: "dget (led_accounts l) k = Some a"
      "b = add_balance (leg_net legs k) a" by (cases "dget (led_accounts l) k") auto
    have A: "account_inv l k a" using inv a(1) by (simp add: ledger_inv_def)
    have open_if: "acc_closed_tick a = None" if "k \<in> leg_account ` set legs"
      using that L(1) a(1) by (auto simp: leg_ok_def)
    have sol: "solvent b"
    proof (cases "k \<in> leg_account ` set legs")
      case True
      then have "k \<in> fst ` set ds" using L(4) by simp
      then obtain x where "(k, x) \<in> set ds" by auto
      moreover from this have "x = leg_net legs k"
        using L(3)[of k] dget_Some_iff[OF L(2), of k x] by (simp add: dget_or_def)
      ultimately show ?thesis
        unfolding a(2) using delta_solvent[OF ds(2) P(6) _ a(1)] A by (auto simp: account_inv_def)
    next
      case False
      then show ?thesis using A by (simp add: a(2) leg_net_absent account_inv_def)
    qed
    have "leg_net legs k = 0" if "acc_closed_tick a \<noteq> None"
      using open_if leg_net_absent[of k legs] that by blast
    then show ?thesis
      using A sol
      by (simp add: account_inv_def a(2) P(11) entry_net_append entry_net_entry_of)
  qed
  have new: "ent_account e \<in> set (dkeys (led_accounts l)) \<and> 0 < ent_amount e
      \<and> (ent_direction e = -1 \<or> ent_direction e = 1)"
    if "e \<in> entry_of txn tick (ev_seq cause) ` set legs" for e
    using that L(1) by (force simp: entry_of_def leg_ok_def dest: dget_SomeD)
  have sum: "(\<Sum>e\<leftarrow>map (entry_of t k s) gs. ent_direction e * ent_amount e)
      = (\<Sum>g\<leftarrow>gs. leg_direction g * leg_amount g)" for t k s gs
    by (simp add: comp_def entry_of_def)
  show ?thesis
    unfolding ledger_inv_def
  proof (intro conjI)
    show "wf_dict (led_accounts l')" using inv unfolding P(8) by (simp add: ledger_inv_def)
    show "\<forall>k a. dget (led_accounts l') k = Some a \<longrightarrow> account_inv l' k a" using acc by blast
    show "\<forall>e \<in> set (led_entries l'). ent_account e \<in> set (dkeys (led_accounts l')) \<and> 0 < ent_amount e
        \<and> (ent_direction e = -1 \<or> ent_direction e = 1)"
      unfolding P(8) P(11) set_append set_map[of "entry_of txn tick (ev_seq cause)"]
      using inv new unfolding ledger_inv_def by blast
    show "(\<Sum>e\<leftarrow>led_entries l'. ent_direction e * ent_amount e) = 0"
      unfolding P(11) map_append sum_list_append sum P(5) using inv by (simp add: ledger_inv_def)
  qed
qed

lemma open_preserves_inv:
  assumes inv: "ledger_inv l"
    and op: "open_account c owner ty bank ref tick l = Inr (v, l')"
  shows "ledger_inv l'"
proof -
  from op have aid: "account_id c owner bank ref = Inr v"
    and fresh: "dget (led_accounts l) v = None"
    and iss: "c = Iss \<Longrightarrow> owner = ''bk_cb'' \<and> ty = ''central_bank''"
    and l': "l' = l\<lparr>led_accounts := dset v
        \<lparr>acc_id = v, acc_code = c, acc_owner = owner, acc_owner_type = ty, acc_bank = bank,
         acc_ref = ref, acc_currency = ''POL'', acc_opened_tick = tick, acc_closed_tick = None,
         acc_balance = 0, acc_entry_balance = 0\<rparr> (led_accounts l),
        led_dirty := insert v (led_dirty l)\<rparr>"
    by (auto simp: open_account_def split: if_splits sum.splits)
  have "ent_account e \<noteq> v" if "e \<in> set (led_entries l)" for e
    using inv fresh that by (auto simp: ledger_inv_def dget_None_iff)
  then have "filter (\<lambda>e. ent_account e = v) (led_entries l) = []" by (simp add: filter_empty_conv)
  then have z: "entry_net (led_entries l) v = 0" by (simp add: entry_net_def)
  have "account_inv l' k a" if "dget (led_accounts l') k = Some a" for k a
    using that inv aid iss z
    by (cases "k = v") (auto simp: l' account_inv_def ledger_inv_def intro: solvent_zero)
  moreover have "set (dkeys (led_accounts l)) \<subseteq> set (dkeys (led_accounts l'))"
    by (auto simp: l' simp del: set_map)
  ultimately show ?thesis
    using inv by (auto simp: ledger_inv_def l' simp del: set_map)
qed

lemma close_preserves_inv:
  assumes inv: "ledger_inv l" and cl: "close_account v tick l = Inr l'"
  shows "ledger_inv l'"
proof -
  from cl obtain a where a: "dget (led_accounts l) v = Some a" "acc_balance a = 0"
    and l': "l' = l\<lparr>led_accounts := dset v (a\<lparr>acc_closed_tick := Some tick\<rparr>) (led_accounts l),
                led_dirty := insert v (led_dirty l)\<rparr>"
    by (auto simp: close_account_def find_open_Inr_iff split: sum.splits if_splits)
  have A: "account_inv l v a" using inv a(1) by (simp add: ledger_inv_def)
  have "account_inv l' k b" if "dget (led_accounts l') k = Some b" for k b
  proof (cases "k = v")
    case True
    then show ?thesis
      using that A a(2) by (auto simp: l' account_inv_def intro: solvent_zero)
  next
    case False
    then show ?thesis
      using that inv by (auto simp: l' account_inv_def ledger_inv_def)
  qed
  moreover have "set (dkeys (led_accounts l)) \<subseteq> set (dkeys (led_accounts l'))"
    by (auto simp: l' simp del: set_map)
  ultimately show ?thesis
    using inv by (auto simp: ledger_inv_def l' simp del: set_map)
qed

lemma flush_preserves_inv:
  assumes "ledger_inv l" shows "ledger_inv (snd (flush tick l))"
  using assms by (rule ledger_inv_frame) (simp_all add: flush_def Let_def)

lemma next_txn_preserves_inv:
  assumes "ledger_inv l" shows "ledger_inv (snd (next_txn_id u tick l))"
  using assms by (rule ledger_inv_frame) (simp_all add: next_txn_id_def Let_def)

section \<open>Reachable ledgers\<close>

inductive ledger_step :: "(uuid \<Rightarrow> string \<Rightarrow> uuid) \<Rightarrow> ledger \<Rightarrow> ledger \<Rightarrow> bool" for uuid5 where
  step_open: "open_account c owner ty bank ref tick l = Inr (v, l') \<Longrightarrow> ledger_step uuid5 l l'"
| step_close: "close_account v tick l = Inr l' \<Longrightarrow> ledger_step uuid5 l l'"
| step_name: "next_txn_id uuid5 tick l = (t, l') \<Longrightarrow> ledger_step uuid5 l l'"
| step_post: "post_transaction uuid5 legs tick (cause :: unit event) neg l = Inr (t, l')
    \<Longrightarrow> ledger_step uuid5 l l'"
| step_issue: "issue_base_money uuid5 legs tick (cause :: unit event) l = Inr (t, l')
    \<Longrightarrow> ledger_step uuid5 l l'"
| step_flush: "flush tick l = (rows, l') \<Longrightarrow> ledger_step uuid5 l l'"

inductive ledger_reachable :: "(uuid \<Rightarrow> string \<Rightarrow> uuid) \<Rightarrow> ledger \<Rightarrow> bool" for uuid5 where
  reach_empty: "ledger_reachable uuid5 (empty_ledger run)"
| reach_step: "ledger_reachable uuid5 l \<Longrightarrow> ledger_step uuid5 l l' \<Longrightarrow> ledger_reachable uuid5 l'"

lemma issue_InrD:
  "issue_base_money uuid5 legs tick cause l = Inr (t, l') \<Longrightarrow>
     post_checked uuid5 legs tick cause [] True l = Inr (t, l')"
  by (auto simp: issue_base_money_def split: if_splits)

lemma empty_ledger_inv: "ledger_inv (empty_ledger run)"
  by (simp add: ledger_inv_def empty_ledger_def)

lemma step_preserves_inv: "ledger_step uuid5 l l' \<Longrightarrow> ledger_inv l \<Longrightarrow> ledger_inv l'"
proof (induction rule: ledger_step.induct)
  case (step_post legs tick cause neg l t l')
  then show ?case unfolding post_transaction_def by (metis post_preserves_inv)
next
  case (step_issue legs tick cause l t l')
  then show ?case by (metis post_preserves_inv issue_InrD)
next
  case (step_name tick l t l')
  then show ?case using next_txn_preserves_inv[of l uuid5 tick] by simp
next
  case (step_flush tick l rows l')
  then show ?case using flush_preserves_inv[of l tick] by simp
qed (blast intro: open_preserves_inv close_preserves_inv)+

lemma ledger_reachable_inv: "ledger_reachable uuid5 l \<Longrightarrow> ledger_inv l"
  by (induction rule: ledger_reachable.induct) (auto intro: empty_ledger_inv step_preserves_inv)

end
