(* ===== verification/Ledger_Spec.thy ===== *)
theory Ledger_Spec
  imports Ledger_Props
begin

text \<open>
  The contract of the ledger: when a posting is accepted and what it changes, which ledgers are
  reachable, that transaction identifiers never repeat and every entry is flushed exactly once,
  that transfers keep the deposit and base-money identities, and that commitments never exceed
  liquid funds.
\<close>

section \<open>When a posting is accepted\<close>

abbreviation leg_key :: "leg \<Rightarrow> string \<times> int \<times> string" where
  "leg_key g \<equiv> (leg_account g, leg_direction g, leg_reason g)"

definition stays_in_polarity :: "string list \<Rightarrow> leg list \<Rightarrow> ledger \<Rightarrow> string \<Rightarrow> bool" where
  "stays_in_polarity neg legs l v \<longleftrightarrow> v \<in> set neg \<or>
     (\<exists>a. dget (led_accounts l) v = Some a \<and>
        (case polarity_of (acc_code a) of
           Asset \<Rightarrow> 0 \<le> acc_balance a + leg_net legs v
         | Liability \<Rightarrow> acc_balance a + leg_net legs v \<le> 0))"

definition post_accepts ::
    "bool \<Rightarrow> leg list \<Rightarrow> int \<Rightarrow> 'p event \<Rightarrow> string list \<Rightarrow> ledger \<Rightarrow> bool" where
  "post_accepts iss legs tick cause neg l \<longleftrightarrow>
     2 \<le> length legs \<and> ev_run_id cause = led_run_id l \<and> ev_tick cause = tick
     \<and> (\<forall>g \<in> set legs. leg_ok iss l g) \<and> distinct (map leg_key legs)
     \<and> (\<Sum>g\<leftarrow>legs. leg_direction g * leg_amount g) = 0
     \<and> validate_allow_negative neg = Inr ()
     \<and> (\<forall>g \<in> set legs. stays_in_polarity neg legs l (leg_account g))"

lemma check_leg_ok:
  assumes "leg_ok iss l g" "leg_key g \<notin> set seen"
  shows "check_leg iss l g (seen, d) =
    Inr (leg_key g # seen, dset (leg_account g) (dget_or d (leg_account g) 0 + leg_direction g * leg_amount g) d)"
proof -
  from assms(1) obtain a where "find_open l (leg_account g) = Inr a" "acc_currency a = ''POL''"
    "acc_code a = Iss \<longrightarrow> iss" by (auto simp: leg_ok_def find_open_Inr_iff)
  then show ?thesis using assms by (auto simp: check_leg_def leg_ok_def Let_def)
qed

lemma check_leg_seen:
  "check_leg iss l g (seen, d) = Inr (seen', d') \<Longrightarrow> leg_key g \<notin> set seen \<and> seen' = leg_key g # seen"
  by (auto simp: check_leg_def Let_def split: if_splits sum.splits)

lemma fold_check_leg_iff:
  "(\<exists>s' d'. fold_res (check_leg iss l) gs (seen, d) = Inr (s', d')) \<longleftrightarrow>
     (\<forall>g \<in> set gs. leg_ok iss l g) \<and> distinct (map leg_key gs) \<and> set (map leg_key gs) \<inter> set seen = {}"
proof (induction gs arbitrary: seen d)
  case (Cons g gs)
  show ?case
  proof (cases "leg_ok iss l g \<and> leg_key g \<notin> set seen")
    case True
    then show ?thesis using Cons.IH by (auto simp: check_leg_ok)
  next
    case False
    have "\<not> (\<exists>p. check_leg iss l g (seen, d) = Inr p)"
      using False check_leg_InrD check_leg_seen by fastforce
    with False show ?thesis by (cases "check_leg iss l g (seen, d)") auto
  qed
qed auto

lemma leg_deltas_iff:
  "(\<exists>d. leg_deltas iss gs l = Inr d) \<longleftrightarrow> (\<forall>g \<in> set gs. leg_ok iss l g) \<and> distinct (map leg_key gs)"
  using fold_check_leg_iff[of iss l gs "[]" "[]"] by (auto simp: leg_deltas_def res_simps)

lemma fold_check_delta_iff:
  "fold_res (check_delta neg l) ds () = Inr () \<longleftrightarrow> (\<forall>p \<in> set ds. check_delta neg l p () = Inr ())"
proof (induction ds)
  case (Cons p ds)
  then show ?case by (cases "check_delta neg l p ()") auto
qed simp

lemma check_delta_iff:
  assumes "dget (led_accounts l) v = Some a"
  shows "check_delta neg l (v, leg_net legs v) () = Inr () \<longleftrightarrow> stays_in_polarity neg legs l v"
  using assms by (cases "polarity_of (acc_code a)")
    (auto simp: check_delta_def stays_in_polarity_def Let_def split: if_splits)

lemma deltas_polarity_iff:
  assumes "leg_deltas iss gs l = Inr ds"
  shows "fold_res (check_delta neg l) ds () = Inr () \<longleftrightarrow>
    (\<forall>g \<in> set gs. stays_in_polarity neg gs l (leg_account g))"
proof -
  note L = leg_deltas_InrD[OF assms]
  have val: "(v, x) \<in> set ds \<Longrightarrow> x = leg_net gs v" for v x
    using L(3)[of v] dget_Some_iff[OF L(2), of v x] by (simp add: dget_or_def)
  have iff: "check_delta neg l (v, leg_net gs v) () = Inr () \<longleftrightarrow> stays_in_polarity neg gs l v"
    if "v \<in> leg_account ` set gs" for v
    using that L(1) check_delta_iff by (fastforce simp: leg_ok_def)
  have "fold_res (check_delta neg l) ds () = Inr () \<longleftrightarrow>
      (\<forall>v \<in> set (dkeys ds). check_delta neg l (v, leg_net gs v) () = Inr ())"
    unfolding fold_check_delta_iff using val by force
  then show ?thesis unfolding L(4) using iff by auto
qed

lemma post_accepts_posts:
  assumes a: "post_accepts False legs tick cause neg l"
  shows "\<exists>t l'. post_transaction uuid5 legs tick cause neg l = Inr (t, l')"
proof -
  obtain ds where ds: "leg_deltas False legs l = Inr ds"
    using a leg_deltas_iff[of False legs l] unfolding post_accepts_def by blast
  have "fold_res (check_delta neg l) ds () = Inr ()"
    using a unfolding deltas_polarity_iff[OF ds] post_accepts_def by blast
  with a ds leg_deltas_InrD(5)[OF ds] show ?thesis
    by (simp add: post_transaction_def post_checked_def post_accepts_def Let_def split: prod.splits)
qed

text \<open>
  C20. \<open>post_transaction\<close> accepts a posting exactly under the rules P1 to P7 of the ledger: at least
  two legs, a cause of this run and tick, every leg on an open POL account that is not the issuance
  account, with direction +1 or -1, a positive amount and a known reason, no leg repeated, a zero
  sum, only approved overdrafts, and no other account leaving its polarity.
\<close>
theorem post_transaction_accepts:
  "(\<exists>t l'. post_transaction uuid5 legs tick cause neg l = Inr (t, l'))
     \<longleftrightarrow> post_accepts False legs tick cause neg l"
proof
  assume "\<exists>t l'. post_transaction uuid5 legs tick cause neg l = Inr (t, l')"
  then obtain t l' where p: "post_checked uuid5 legs tick cause neg False l = Inr (t, l')"
    unfolding post_transaction_def by blast
  note P = post_checked_InrD[OF p]
  from P(15) obtain ds where ds: "leg_deltas False legs l = Inr ds"
    "fold_res (check_delta neg l) ds () = Inr ()" by blast
  from ds(1) leg_deltas_iff[of False legs l] have "distinct (map leg_key legs)" by blast
  moreover from ds(2) have "\<forall>g \<in> set legs. stays_in_polarity neg legs l (leg_account g)"
    unfolding deltas_polarity_iff[OF ds(1)] .
  ultimately show "post_accepts False legs tick cause neg l"
    unfolding post_accepts_def using P(1-6) by blast
next
  show "post_accepts False legs tick cause neg l \<Longrightarrow> \<exists>t l'. post_transaction uuid5 legs tick cause neg l = Inr (t, l')"
    by (rule post_accepts_posts)
qed

text \<open>
  C21. A successful posting changes the balance of every account by the net amount of the legs that
  name it, and of no other account, leaves all other fields alone, and appends one entry per leg, in
  order, under one new transaction identifier, to the entries and to the entries to be flushed.
\<close>
theorem post_transaction_effect:
  assumes "post_transaction uuid5 legs tick cause neg l = Inr (txn, l')"
  shows "dkeys (led_accounts l') = dkeys (led_accounts l)
    \<and> (\<forall>v. dget (led_accounts l') v
            = map_option (add_balance (leg_net legs v)) (dget (led_accounts l) v))
    \<and> led_entries l' = led_entries l @ map (entry_of txn tick (ev_seq cause)) legs
    \<and> led_pending l' = led_pending l @ map (entry_of txn tick (ev_seq cause)) legs
    \<and> dget_or (led_posted l') tick [] = dget_or (led_posted l) tick [] @ [txn]"
  using post_checked_InrD[OF assms[unfolded post_transaction_def]] by simp

section \<open>Transaction identifiers and flushing\<close>

lemma str_int_no_colon: "CHR '':'' \<notin> set (str_int n)"
  using str_nat_digits[of "CHR '':''"] by (auto simp: str_int_def is_digit_def split: if_splits)

lemma txn_name_inj: "txn_name t n = txn_name t' n' \<Longrightarrow> t = t' \<and> n = n'"
  by (simp add: txn_name_def split_at_first str_int_no_colon) (blast dest: str_int_inj)

definition issued_by :: "(uuid \<Rightarrow> string \<Rightarrow> uuid) \<Rightarrow> ledger \<Rightarrow> int \<Rightarrow> uuid \<Rightarrow> bool" where
  "issued_by uuid5 l tick txn \<longleftrightarrow> (\<exists>n. 0 \<le> n \<and> n < dget_or (led_ordinals l) tick 0
     \<and> txn = uuid5 (led_run_id l) (txn_name tick n))"

definition txn_inv :: "(uuid \<Rightarrow> string \<Rightarrow> uuid) \<Rightarrow> ledger \<Rightarrow> bool" where
  "txn_inv uuid5 l \<longleftrightarrow> (\<forall>t. 0 \<le> dget_or (led_ordinals l) t 0)
     \<and> (\<forall>e \<in> set (led_entries l). issued_by uuid5 l (ent_tick e) (ent_txn e))
     \<and> (\<forall>e \<in> set (led_pending l). ent_txn e \<in> set (dget_or (led_posted l) (ent_tick e) []))
     \<and> (\<forall>t. \<forall>x \<in> set (dget_or (led_posted l) t []). issued_by uuid5 l t x)"

lemma dget_or_ddel: "dget_or (ddel k d) k' x = (if k' = k then x else dget_or d k' x)"
  by (simp add: dget_or_def delete_conv')

lemma issued_by_mono:
  "issued_by u l t x \<Longrightarrow> led_run_id l' = led_run_id l \<Longrightarrow>
     dget_or (led_ordinals l) t 0 \<le> dget_or (led_ordinals l') t 0 \<Longrightarrow> issued_by u l' t x"
  by (auto simp: issued_by_def intro: less_le_trans)

lemma post_txn_inv:
  assumes inv: "txn_inv u l" and p: "post_checked u legs tick cause neg iss l = Inr (txn, l')"
  shows "txn_inv u l'"
proof -
  note P = post_checked_InrD[OF p]
  let ?n = "dget_or (led_ordinals l) tick 0"
  have ord: "dget_or (led_ordinals l') t 0 = dget_or (led_ordinals l) t 0 + (if t = tick then 1 else 0)" for t
    by (simp add: P(13))
  have mono: "issued_by u l t x \<Longrightarrow> issued_by u l' t x" for t x
    by (rule issued_by_mono[OF _ P(9)]) (simp_all add: ord)
  have new: "issued_by u l' tick txn"
    using inv by (auto simp: issued_by_def P(9,10) ord txn_inv_def intro!: exI[of _ ?n])
  have post: "dget_or (led_posted l') t []
      = (if t = tick then dget_or (led_posted l) tick [] @ [txn] else dget_or (led_posted l) t [])" for t
    by (simp add: P(14))
  have tick_of: "ent_tick (entry_of txn tick s g) = tick" "ent_txn (entry_of txn tick s g) = txn" for s g
    by (simp_all add: entry_of_def)
  show ?thesis
    using inv mono new unfolding txn_inv_def ord post P(11) P(12)
    by (auto simp: tick_of)
qed

lemma txn_inv_cong:
  assumes "txn_inv u l" "led_run_id l' = led_run_id l" "led_entries l' = led_entries l"
    "led_pending l' = led_pending l" "led_posted l' = led_posted l"
    "\<And>t. dget_or (led_ordinals l') t 0 = dget_or (led_ordinals l) t 0"
  shows "txn_inv u l'"
  using assms(1) unfolding txn_inv_def issued_by_def assms(2-6) .

lemma flush_txn_inv:
  assumes "txn_inv u l" shows "txn_inv u (snd (flush tick l))"
  using assms by (auto simp: txn_inv_def issued_by_def flush_def Let_def dget_or_ddel)

lemma step_txn_inv: "ledger_step u l l' \<Longrightarrow> txn_inv u l \<Longrightarrow> txn_inv u l'"
proof (induction rule: ledger_step.induct)
  case (step_open c owner ty bank ref tick l v l')
  then show ?case
    by (auto simp: open_account_def split: if_splits sum.splits intro: txn_inv_cong)
next
  case (step_close v tick l l')
  then show ?case
    by (auto simp: close_account_def split: if_splits sum.splits intro: txn_inv_cong)
next
  case (step_name tick l t l')
  then show ?case
    by (auto simp: next_txn_id_def Let_def intro: txn_inv_cong)
next
  case (step_post legs tick cause neg l t l')
  then show ?case unfolding post_transaction_def by (blast intro: post_txn_inv)
next
  case (step_issue legs tick cause l t l')
  then show ?case by (blast intro: post_txn_inv dest: issue_InrD)
next
  case (step_flush tick l rows l')
  then show ?case using flush_txn_inv[of u l tick] by simp
qed

lemma empty_txn_inv: "txn_inv u (empty_ledger run)"
  by (simp add: txn_inv_def empty_ledger_def)

lemma reachable_txn_inv: "ledger_reachable u l \<Longrightarrow> txn_inv u l"
  by (induction rule: ledger_reachable.induct) (auto intro: step_txn_inv empty_txn_inv)

lemma issued_by_tick:
  "inj (u (led_run_id l)) \<Longrightarrow> issued_by u l t x \<Longrightarrow> issued_by u l t' x \<Longrightarrow> t = t'"
  unfolding issued_by_def by (metis injD txn_name_inj)

text \<open>
  C24. When \<open>uuid5\<close> does not collide on the run's names, a posting into a reachable ledger gets an
  identifier that no earlier entry carries, whatever was posted, renamed or flushed before.
\<close>
theorem transaction_ids_fresh:
  assumes "inj (uuid5 (led_run_id l))"
    and "ledger_reachable uuid5 l"
    and "post_transaction uuid5 legs tick cause neg l = Inr (txn, l')"
  shows "txn \<notin> ent_txn ` set (led_entries l)"
proof
  assume "txn \<in> ent_txn ` set (led_entries l)"
  then obtain e where e: "e \<in> set (led_entries l)" "ent_txn e = txn" by auto
  have inv: "txn_inv uuid5 l" by (rule reachable_txn_inv[OF assms(2)])
  from inv e obtain n where n: "n < dget_or (led_ordinals l) (ent_tick e) 0"
    "txn = uuid5 (led_run_id l) (txn_name (ent_tick e) n)"
    by (auto simp: txn_inv_def issued_by_def)
  have "txn = uuid5 (led_run_id l) (txn_name tick (dget_or (led_ordinals l) tick 0))"
    using post_checked_InrD(10)[OF assms(3)[unfolded post_transaction_def]] .
  with n(2) have "txn_name (ent_tick e) n = txn_name tick (dget_or (led_ordinals l) tick 0)"
    using injD[OF assms(1)] by metis
  then have "ent_tick e = tick \<and> n = dget_or (led_ordinals l) tick 0" by (rule txn_name_inj)
  with n(1) show False by simp
qed

text \<open>
  C23. Flushing tick \<open>t\<close> of a reachable ledger hands over exactly the pending entries of tick \<open>t\<close>, in
  posting order, and leaves exactly the others pending: no entry is lost or handed over twice.
\<close>
theorem flush_exactly_once:
  assumes "inj (uuid5 (led_run_id l))"
    and "ledger_reachable uuid5 l"
  shows "commit_tick t l = filter (\<lambda>e. ent_tick e = t) (led_pending l)
    \<and> led_pending (snd (flush t l)) = filter (\<lambda>e. ent_tick e \<noteq> t) (led_pending l)
    \<and> commit_tick t (snd (flush t l)) = []"
proof -
  have inv: "txn_inv uuid5 l" by (rule reachable_txn_inv[OF assms(2)])
  have key: "ent_txn e \<in> set (dget_or (led_posted l) t []) \<longleftrightarrow> ent_tick e = t"
    if "e \<in> set (led_pending l)" for e
    using inv that issued_by_tick[of uuid5 l, OF assms(1)] unfolding txn_inv_def by metis
  then show ?thesis
    by (auto simp: commit_tick_def flush_def Let_def dget_or_ddel intro!: filter_cong)
qed

section \<open>Transfers\<close>

lemma post_accounts_map:
  assumes "ledger_inv l" "post_checked u legs tick cause neg iss l = Inr (txn, l')"
  shows "led_accounts l' = map (\<lambda>(k, a). (k, add_balance (leg_net legs k) a)) (led_accounts l)"
proof (rule dict_eqI)
  note P = post_checked_InrD[OF assms(2)]
  show "wf_dict (map (\<lambda>(k, a). (k, add_balance (leg_net legs k) a)) (led_accounts l))"
    using assms(1) by (simp only: dkeys_map_val ledger_inv_def)
  show "dkeys (led_accounts l')
      = dkeys (map (\<lambda>(k, a). (k, add_balance (leg_net legs k) a)) (led_accounts l))"
    by (simp only: dkeys_map_val P(8))
  show "dget (led_accounts l') k
      = dget (map (\<lambda>(k, a). (k, add_balance (leg_net legs k) a)) (led_accounts l)) k" for k
    by (simp only: dget_map_val P(7))
qed

definition frame_pred :: "(account \<Rightarrow> bool) \<Rightarrow> bool" where
  \<comment> \<open>predicates on accounts that do not read the balances\<close>
  "frame_pred Q \<longleftrightarrow> (\<forall>x a. Q (add_balance x a) = Q a)"

definition leg_account_sat :: "ledger \<Rightarrow> (account \<Rightarrow> bool) \<Rightarrow> leg \<Rightarrow> bool" where
  "leg_account_sat l Q g \<longleftrightarrow> (\<exists>a. dget (led_accounts l) (leg_account g) = Some a \<and> Q a)"

lemma sum_leg_net:
  "distinct ks \<Longrightarrow> (\<Sum>k\<leftarrow>ks. leg_net legs k)
     = (\<Sum>g\<leftarrow>legs. if leg_account g \<in> set ks then leg_direction g * leg_amount g else 0)"
proof (induction legs)
  case (Cons g legs)
  have "(\<Sum>k\<leftarrow>ks. if leg_account g = k then leg_direction g * leg_amount g else 0)
      = (if leg_account g \<in> set ks then leg_direction g * leg_amount g else 0)"
    using Cons.prems by (simp add: sum_list_distinct_conv_sum_set)
  with Cons show ?case by (simp add: sum_list_addf)
next
  case Nil
  show ?case by (induction ks) simp_all
qed

lemma sum_balances_post:
  assumes "ledger_inv l" "post_checked u legs tick cause neg iss l = Inr (txn, l')" "frame_pred Q"
  shows "sum_balances Q l' = sum_balances Q l
    + (\<Sum>g\<leftarrow>legs. if leg_account_sat l Q g then leg_direction g * leg_amount g else 0)"
proof -
  note M = post_accounts_map[OF assms(1,2)]
  have wf: "wf_dict (led_accounts l)" using assms(1) by (simp add: ledger_inv_def)
  let ?ks = "map fst (filter (\<lambda>p. Q (snd p)) (led_accounts l))"
  have dist: "distinct ?ks" using wf by (rule distinct_map_filter)
  have "sum_balances Q l' = (\<Sum>p\<leftarrow>led_accounts l'. if Q (snd p) then acc_balance (snd p) else 0)"
    by (simp add: sum_balances_def sum_if_filter_int[symmetric] filter_map comp_def)
  also have "\<dots> = (\<Sum>p\<leftarrow>led_accounts l. if Q (snd p) then acc_balance (snd p) + leg_net legs (fst p) else 0)"
    using assms(3) unfolding M by (simp add: comp_def case_prod_unfold frame_pred_def cong: if_cong)
  also have "\<dots> = (\<Sum>p\<leftarrow>led_accounts l. if Q (snd p) then acc_balance (snd p) else 0)
      + (\<Sum>p\<leftarrow>led_accounts l. if Q (snd p) then leg_net legs (fst p) else 0)"
    by (subst sum_list_addf[symmetric]) (rule arg_cong[where f = sum_list], auto)
  also have "(\<Sum>p\<leftarrow>led_accounts l. if Q (snd p) then leg_net legs (fst p) else 0)
      = (\<Sum>k\<leftarrow>?ks. leg_net legs k)"
    by (simp add: sum_if_filter_int[symmetric] comp_def)
  also have "(\<Sum>p\<leftarrow>led_accounts l. if Q (snd p) then acc_balance (snd p) else 0) = sum_balances Q l"
    by (simp add: sum_balances_def sum_if_filter_int[symmetric] filter_map comp_def)
  finally have "sum_balances Q l' = sum_balances Q l + (\<Sum>k\<leftarrow>?ks. leg_net legs k)" .
  moreover have "leg_account g \<in> set ?ks \<longleftrightarrow> leg_account_sat l Q g" for g
    using dget_Some_iff[OF wf] by (force simp: leg_account_sat_def)
  ultimately show ?thesis unfolding sum_leg_net[OF dist] by simp
qed

lemma leg_account_sat_parsed:
  assumes "ledger_inv l" "leg_ok iss l g" "account_id c ow b r = Inr (leg_account g)"
    and "\<And>a a'. acc_code a = acc_code a' \<Longrightarrow> acc_owner a = acc_owner a' \<Longrightarrow> acc_bank a = acc_bank a' \<Longrightarrow> Q a = Q a'"
    and "acc_code a0 = c" "acc_owner a0 = ow" "acc_bank a0 = b"
  shows "leg_account_sat l Q g \<longleftrightarrow> Q a0"
proof -
  from assms(2) obtain a where a: "dget (led_accounts l) (leg_account g) = Some a"
    by (auto simp: leg_ok_def)
  with assms(1) have "account_inv l (leg_account g) a" by (simp add: ledger_inv_def)
  then have "acc_code a = c \<and> acc_owner a = ow \<and> acc_bank a = b"
    using account_id_inj assms(3) unfolding account_inv_def by blast
  then show ?thesis using a assms(4)[of a a0] assms(5-7) by (auto simp: leg_account_sat_def)
qed

text \<open>The shape of the legs of a transfer, with the endpoints parsed.\<close>

definition tleg :: "int \<Rightarrow> string \<Rightarrow> string \<Rightarrow> int \<Rightarrow> leg" where
  "tleg amount reason a d = \<lparr>leg_account = a, leg_direction = d, leg_amount = amount, leg_reason = reason\<rparr>"

lemma tleg_sel [simp]:
  "leg_account (tleg m r a d) = a" "leg_direction (tleg m r a d) = d" "leg_amount (tleg m r a d) = m"
  by (simp_all add: tleg_def)

lemma transfer_InrD:
  assumes "transfer src dst amount reason = Inr legs"
  obtains cs os bs rs cd od bd rd where
    "account_id cs os bs rs = Inr src" "account_id cd od bd rd = Inr dst"
    "cs \<in> {Cash, Dep, Esc}" "cd \<in> {Cash, Dep, Esc}"
    "bs = bd \<and> legs = [tleg amount reason src (-1), tleg amount reason dst 1]
     \<or> (\<exists>sb db dpl_s res_s res_d dpl_d. bs = Some sb \<and> bd = Some db \<and> sb \<noteq> db
          \<and> account_id Dpl sb None None = Inr dpl_s \<and> account_id Res sb None None = Inr res_s
          \<and> account_id Res db None None = Inr res_d \<and> account_id Dpl db None None = Inr dpl_d
          \<and> legs = [tleg amount reason src (-1), tleg amount reason dpl_s 1,
                    tleg amount reason res_s (-1), tleg amount reason res_d 1,
                    tleg amount reason dpl_d (-1), tleg amount reason dst 1])"
proof -
  from assms obtain cs os bs rs cd od bd rd where
    p: "parse_account_id src = Inr (cs, os, bs, rs)" "parse_account_id dst = Inr (cd, od, bd, rd)"
    and c: "cs \<in> {Cash, Dep, Esc}" "cd \<in> {Cash, Dep, Esc}"
    by (auto simp: transfer_def res_simps split: if_splits)
  note A = p(1)[THEN account_id_of_parse] p(2)[THEN account_id_of_parse]
  have bank: "bank_of src = Inr bs" "bank_of dst = Inr bd"
    using p c account_id_InrD(4)[OF A(1)] account_id_InrD(4)[OF A(2)]
    by (auto simp: bank_of_def needs_bank_def)
  show thesis
    by (rule that[OF A c])
       (use assms p c bank in \<open>auto simp: transfer_def Let_def tleg_def res_simps split: if_splits option.splits\<close>)
qed

lemma deposits_frame: "frame_pred (deposit_at bank)"
  by (simp add: frame_pred_def deposit_at_def)

lemma leg_at_bank:
  assumes "ledger_inv l" "leg_ok iss l g" "account_id c ow b r = Inr (leg_account g)"
  shows "leg_account_sat l (deposit_at bank) g
    \<longleftrightarrow> c \<in> {Dep, Esc} \<and> b = Some bank"
proof -
  obtain a :: account where "acc_code a = c" "acc_owner a = ow" "acc_bank a = b"
    by (metis account.select_convs(2,3,5))
  then show ?thesis
    using leg_account_sat_parsed[OF assms, of "deposit_at bank" a]
    by (simp add: deposit_at_def)
qed

lemma transfer_deposit_gap:
  assumes inv: "ledger_inv l" and tr: "transfer src dst amount reason = Inr legs"
    and p: "post_checked u legs tick cause neg iss l = Inr (txn, l')"
    and dpl: "account_id Dpl bank None None = Inr d"
  shows "(\<Sum>g\<leftarrow>legs. if leg_account_sat l (deposit_at bank) g
            then leg_direction g * leg_amount g else 0) + leg_net legs d = 0"
  using tr
proof (cases rule: transfer_InrD)
  case (1 cs os bs rs cd od bd rd)
  note ok = post_checked_InrD(4)[OF p]
  have not_dpl: "v \<noteq> d" if "account_id c ow b r = Inr v" "c \<noteq> Dpl" for c ow b r v
    using account_id_inj[OF that(1)] dpl that(2) by blast
  have dpl_iff: "v = d \<longleftrightarrow> ow = bank" if "account_id Dpl ow None None = Inr v" for ow v
  proof
    assume "v = d"
    then show "ow = bank" using account_id_inj[of Dpl ow None None d Dpl bank None None] that dpl by simp
  next
    assume "ow = bank"
    then show "v = d" using that dpl by simp
  qed
  have bs: "cs \<in> {Dep, Esc} \<longleftrightarrow> bs \<noteq> None" "cd \<in> {Dep, Esc} \<longleftrightarrow> bd \<noteq> None"
    using account_id_InrD(4)[OF 1(1)] account_id_InrD(4)[OF 1(2)] by (simp_all add: needs_bank_def)
  note ne = not_dpl[OF 1(1)] not_dpl[OF 1(2)]
  from 1(5) show ?thesis
  proof
    assume same: "bs = bd \<and> legs = [tleg amount reason src (-1), tleg amount reason dst 1]"
    then have oks: "leg_ok iss l (tleg amount reason src (-1))" "leg_ok iss l (tleg amount reason dst 1)"
      using ok by simp_all
    have in_at: "leg_account_sat l (deposit_at bank) (tleg amount reason src (-1)) = (bs = Some bank)"
      "leg_account_sat l (deposit_at bank) (tleg amount reason dst 1) = (bd = Some bank)"
      using leg_at_bank[OF inv oks(1), unfolded tleg_sel, OF 1(1)]
        leg_at_bank[OF inv oks(2), unfolded tleg_sel, OF 1(2)] bs by auto
    have "cs \<noteq> Dpl" "cd \<noteq> Dpl" using 1(3,4) by auto
    then show ?thesis using same ne by (simp add: in_at)
  next
    assume "\<exists>sb db dpl_s res_s res_d dpl_d. bs = Some sb \<and> bd = Some db \<and> sb \<noteq> db
          \<and> account_id Dpl sb None None = Inr dpl_s \<and> account_id Res sb None None = Inr res_s
          \<and> account_id Res db None None = Inr res_d \<and> account_id Dpl db None None = Inr dpl_d
          \<and> legs = [tleg amount reason src (-1), tleg amount reason dpl_s 1,
                    tleg amount reason res_s (-1), tleg amount reason res_d 1,
                    tleg amount reason dpl_d (-1), tleg amount reason dst 1]"
    then obtain sb db dpl_s res_s res_d dpl_d where c: "bs = Some sb" "bd = Some db" "sb \<noteq> db"
      "account_id Dpl sb None None = Inr dpl_s" "account_id Res sb None None = Inr res_s"
      "account_id Res db None None = Inr res_d" "account_id Dpl db None None = Inr dpl_d"
      and legs: "legs = [tleg amount reason src (-1), tleg amount reason dpl_s 1,
                    tleg amount reason res_s (-1), tleg amount reason res_d 1,
                    tleg amount reason dpl_d (-1), tleg amount reason dst 1]" by blast
    have oks: "leg_ok iss l (tleg amount reason src (-1))" "leg_ok iss l (tleg amount reason dpl_s 1)"
      "leg_ok iss l (tleg amount reason res_s (-1))" "leg_ok iss l (tleg amount reason res_d 1)"
      "leg_ok iss l (tleg amount reason dpl_d (-1))" "leg_ok iss l (tleg amount reason dst 1)"
      using ok by (simp_all add: legs)
    note sats = leg_at_bank[OF inv oks(1), unfolded tleg_sel, OF 1(1)]
      leg_at_bank[OF inv oks(2), unfolded tleg_sel, OF c(4)]
      leg_at_bank[OF inv oks(3), unfolded tleg_sel, OF c(5)]
      leg_at_bank[OF inv oks(4), unfolded tleg_sel, OF c(6)]
      leg_at_bank[OF inv oks(5), unfolded tleg_sel, OF c(7)]
      leg_at_bank[OF inv oks(6), unfolded tleg_sel, OF 1(2)]
    have sd: "cs \<in> {Dep, Esc}" "cd \<in> {Dep, Esc}" using bs c(1,2) by auto
    then have neq: "src \<noteq> d" "dst \<noteq> d" using ne by auto
    have in_at: "leg_account_sat l (deposit_at bank) (tleg amount reason src (-1)) = (sb = bank)"
      "leg_account_sat l (deposit_at bank) (tleg amount reason dst 1) = (db = bank)"
      "\<not> leg_account_sat l (deposit_at bank) (tleg amount reason dpl_s 1)"
      "\<not> leg_account_sat l (deposit_at bank) (tleg amount reason res_s (-1))"
      "\<not> leg_account_sat l (deposit_at bank) (tleg amount reason res_d 1)"
      "\<not> leg_account_sat l (deposit_at bank) (tleg amount reason dpl_d (-1))"
      using sats sd c(1,2) by auto
    have res: "res_s \<noteq> d" "res_d \<noteq> d" using not_dpl[OF c(5)] not_dpl[OF c(6)] by simp_all
    show ?thesis
      using c(3) by (simp add: legs in_at neq res dpl_iff[OF c(4)] dpl_iff[OF c(7)])
  qed
qed

text \<open>
  Posting the legs that \<open>transfer\<close> builds keeps every bank's deposit identity: what
  \<open>deposit_imbalances\<close> reports is the same before and after, for every pair of endpoints, within a
  bank or across banks, central bank included.
\<close>
theorem transfer_keeps_deposit_identity:
  assumes "ledger_reachable uuid5 l" "transfer src dst amount reason = Inr legs"
    and "post_transaction uuid5 legs tick cause neg l = Inr (txn, l')"
  shows "deposit_imbalances l' = deposit_imbalances l"
proof -
  note inv = ledger_reachable_inv[OF assms(1)] and p = assms(3)[unfolded post_transaction_def]
  note M = post_accounts_map[OF inv p] and P = post_checked_InrD[OF p]
  have banks: "map acc_owner (filter (\<lambda>a. acc_code a = Dpl \<and> acc_owner a \<noteq> ''bk_cb'') (dvals (led_accounts l')))
      = map acc_owner (filter (\<lambda>a. acc_code a = Dpl \<and> acc_owner a \<noteq> ''bk_cb'') (dvals (led_accounts l)))"
    unfolding M by (simp add: filter_map comp_def case_prod_unfold)
  have step: "res_bind (account_id Dpl bank None None) (\<lambda>dpl. res_bind (balance l' dpl) (\<lambda>b.
        Inr (dset bank (sum_balances (deposit_at bank) l' + b) d)))
      = res_bind (account_id Dpl bank None None) (\<lambda>dpl. res_bind (balance l dpl) (\<lambda>b.
        Inr (dset bank (sum_balances (deposit_at bank) l + b) d)))"
    for bank d
  proof (cases "account_id Dpl bank None None")
    case (Inr v)
    have "balance l' v = res_map (\<lambda>b. b + leg_net legs v) (balance l v)"
      by (cases "dget (led_accounts l) v") (simp_all add: balance_def find_account_def P(7))
    then show ?thesis
      using transfer_deposit_gap[OF inv assms(2) p Inr] sum_balances_post[OF inv p deposits_frame, of bank]
      by (cases "balance l v") (simp_all add: Inr algebra_simps)
  qed simp
  show ?thesis unfolding deposit_imbalances_def Let_def banks by (rule fold_res_cong) (rule step)
qed

section \<open>Reachable ledgers are sound\<close>

text \<open>
  C1. Every ledger reachable by opening and closing accounts, posting, issuing base money and
  flushing is globally balanced, materialised (each balance is the sum of its account's entries),
  and solvent: outside reserve accounts and the treasury's central-bank deposit no asset account is
  negative and no liability account positive; closed accounts are empty.
\<close>
theorem reachable_ledger_sound:
  assumes "ledger_reachable uuid5 l"
  shows "global_balance_cents l = 0 \<and> materialisation_imbalance_cents l = 0
    \<and> (\<forall>k a. dget (led_accounts l) k = Some a \<longrightarrow>
          acc_balance a = entry_net (led_entries l) k \<and> solvent a
          \<and> (acc_closed_tick a \<noteq> None \<longrightarrow> acc_balance a = 0))"
proof -
  note inv = ledger_reachable_inv[OF assms]
  have "acc_balance a = entry_net (led_entries l) k \<and> solvent a
      \<and> (acc_closed_tick a \<noteq> None \<longrightarrow> acc_balance a = 0)"
    if "dget (led_accounts l) k = Some a" for k a
  proof -
    have "account_inv l k a" using inv that by (simp add: ledger_inv_def)
    then show ?thesis unfolding account_inv_def by auto
  qed
  then show ?thesis using ledger_inv_global[OF inv] ledger_inv_materialised[OF inv] by blast
qed

section \<open>Commitments\<close>

fun com_run :: "ledger \<Rightarrow> int \<Rightarrow> (string \<times> int) list \<Rightarrow> commitments
    \<Rightarrow> ledger_error + (string \<times> int \<times> bool) list \<times> commitments" where
  \<comment> \<open>a sequence of \<open>commit\<close> calls within one tick, with their answers\<close>
  "com_run l tick [] c = Inr ([], c)"
| "com_run l tick ((ow, cents) # rs) c =
     (case com_commit l ow cents tick c of Inl e \<Rightarrow> Inl e
      | Inr (ok, c') \<Rightarrow> (case com_run l tick rs c' of Inl e \<Rightarrow> Inl e
          | Inr (oks, c'') \<Rightarrow> Inr ((ow, cents, ok) # oks, c'')))"

definition granted :: "(string \<times> int \<times> bool) list \<Rightarrow> string \<Rightarrow> int" where
  "granted oks ow = (\<Sum>(o', cents, ok)\<leftarrow>oks. if ok \<and> o' = ow then cents else 0)"

definition committed_now :: "int \<Rightarrow> commitments \<Rightarrow> string \<Rightarrow> int" where
  "committed_now tick c ow = dget_or (com_committed (com_reset tick c)) ow 0"

lemma com_reset_idem: "com_reset t (com_reset t c) = com_reset t c"
  by (simp add: com_reset_def)

lemma com_commit_cases:
  assumes "com_commit l ow cents tick c = Inr (ok, c')"
  shows "0 \<le> cents" "ok \<longleftrightarrow> cents \<le> liquid l ow - committed_now tick c ow"
    "committed_now tick c' o' = committed_now tick c o' + (if ok \<and> o' = ow then cents else 0)"
  using assms
  by (auto simp: com_commit_def com_available_def committed_now_def Let_def com_reset_idem
      com_reset_def dget_or_def split: if_splits)

lemma com_run_committed:
  "com_run l tick rs c = Inr (oks, c') \<Longrightarrow>
     committed_now tick c' ow = committed_now tick c ow + granted oks ow"
proof (induction rs arbitrary: c oks)
  case (Cons r rs)
  obtain o1 cents where r: "r = (o1, cents)" by (cases r)
  from Cons.prems obtain ok c1 oks1 where
    1: "com_commit l o1 cents tick c = Inr (ok, c1)" "com_run l tick rs c1 = Inr (oks1, c')"
    "oks = (o1, cents, ok) # oks1"
    by (auto simp: r split: sum.splits prod.splits)
  show ?case
    using Cons.IH[OF 1(2)] com_commit_cases(3)[OF 1(1), of ow] by (simp add: 1(3) granted_def)
qed (simp add: granted_def)

lemma com_run_bounded:
  "com_run l tick rs c = Inr (oks, c') \<Longrightarrow> committed_now tick c ow \<le> max 0 (liquid l ow) \<Longrightarrow>
     committed_now tick c' ow \<le> max 0 (liquid l ow)"
proof (induction rs arbitrary: c oks)
  case (Cons r rs)
  obtain o1 cents where r: "r = (o1, cents)" by (cases r)
  from Cons.prems obtain ok c1 oks1 where
    1: "com_commit l o1 cents tick c = Inr (ok, c1)" "com_run l tick rs c1 = Inr (oks1, c')"
    by (auto simp: r split: sum.splits prod.splits)
  have "committed_now tick c1 ow \<le> max 0 (liquid l ow)"
    using com_commit_cases[OF 1(1)] Cons.prems(2) by (cases "ok \<and> ow = o1") auto
  then show ?case by (rule Cons.IH[OF 1(2)])
qed simp

text \<open>
  Within a tick the commitments granted to an owner never exceed its liquid funds: after any
  sequence of \<open>commit\<close> calls that starts a new tick, the granted cents of each owner are what the
  ledger of commitments records, and at most the owner's cash and deposits.
\<close>
theorem commitments_within_liquid:
  assumes "com_run l tick requests c = Inr (answers, c')" "com_tick c \<noteq> Some tick"
  shows "committed_now tick c' ow = granted answers ow \<and> granted answers ow \<le> max 0 (liquid l ow)"
proof -
  have "committed_now tick c ow = 0" using assms(2) by (simp add: committed_now_def com_reset_def)
  then show ?thesis
    using com_run_committed[OF assms(1), of ow] com_run_bounded[OF assms(1), of ow] by simp
qed

section \<open>A concrete run\<close>

fun toy_uuid5 :: "uuid \<Rightarrow> string \<Rightarrow> uuid" where
  \<comment> \<open>an injective stand-in for \<open>uuid5\<close>: the name read in base 256 behind a leading one\<close>
  "toy_uuid5 ns [] = 1"
| "toy_uuid5 ns (c # cs) = of_char c + 256 * toy_uuid5 ns cs"

lemma toy_uuid5_pos: "0 < toy_uuid5 ns s"
  by (induction s) auto

lemma toy_uuid5_inj: "toy_uuid5 ns s = toy_uuid5 ns s' \<Longrightarrow> s = s'"
proof (induction s arbitrary: s')
  case Nil
  show ?case
  proof (cases s')
    case (Cons d ds)
    then show ?thesis using Nil.prems toy_uuid5_pos[of ns ds] by simp
  qed simp
next
  case (Cons c cs)
  show ?case
  proof (cases s')
    case Nil
    then show ?thesis using Cons.prems toy_uuid5_pos[of ns cs] by simp
  next
    case (Cons d ds)
    let ?n = "toy_uuid5 ns"
    have eq: "of_char c + 256 * ?n cs = of_char d + 256 * ?n ds" using Cons.prems Cons by simp
    have "(of_char c :: nat) < 256" "(of_char d :: nat) < 256" by simp_all
    then have "(of_char c :: nat) = (of_char c + 256 * ?n cs) mod 256"
      "(of_char d :: nat) = (of_char d + 256 * ?n ds) mod 256" by simp_all
    with eq have cd: "(of_char c :: nat) = of_char d" by simp
    with eq have "?n cs = ?n ds" by simp
    with cd show ?thesis using Cons Cons.IH by simp
  qed
qed

lemma inj_toy_uuid5: "inj (toy_uuid5 ns)"
  by (rule injI) (rule toy_uuid5_inj)

definition demo_event :: "int \<Rightarrow> unit event" where
  "demo_event tick = \<lparr>ev_seq = 7, ev_run_id = 1, ev_tick = tick,
     ev_sim_time = \<lparr>dt_seconds = 0, dt_micro = 0, dt_aware = False\<rparr>, ev_kind = 1000,
     ev_actor_id = None, ev_subject_ids = [], ev_cause_seq = None, ev_payload = (), ev_sig = None,
     ev_prev_hash = [], ev_hash = []\<rparr>"

definition demo_open :: "account_code \<Rightarrow> string \<Rightarrow> string \<Rightarrow> string option \<Rightarrow> ledger \<Rightarrow> ledger" where
  "demo_open c ow ty b l = (case open_account c ow ty b None 0 l of Inl _ \<Rightarrow> l | Inr (_, l') \<Rightarrow> l')"

definition demo_post :: "leg list \<Rightarrow> ledger \<Rightarrow> ledger" where
  "demo_post legs l = (case post_transaction toy_uuid5 legs 3 (demo_event 3) [] l of
     Inl _ \<Rightarrow> l | Inr (_, l') \<Rightarrow> l')"

definition demo_issue :: "leg list \<Rightarrow> ledger \<Rightarrow> ledger" where
  "demo_issue legs l = (case issue_base_money toy_uuid5 legs 3 (demo_event 3) l of
     Inl _ \<Rightarrow> l | Inr (_, l') \<Rightarrow> l')"

definition demo_leg :: "string \<Rightarrow> int \<Rightarrow> int \<Rightarrow> string \<Rightarrow> leg" where
  "demo_leg a d m r = \<lparr>leg_account = a, leg_direction = d, leg_amount = m, leg_reason = r\<rparr>"

definition demo_accounts :: ledger where
  "demo_accounts = demo_open Cash ''ag_2'' ''agent'' None (demo_open Cash ''ag_1'' ''agent'' None
     (demo_open Iss ''bk_cb'' ''central_bank'' None (empty_ledger 1)))"

definition demo_ledger :: ledger where
  \<comment> \<open>three accounts, 100 cents of issued cash held by \<open>ag_1\<close>\<close>
  "demo_ledger = demo_issue [demo_leg ''iss:bk_cb'' (-1) 100 ''issuance'',
     demo_leg ''cash:ag_1'' 1 100 ''issuance''] demo_accounts"

definition demo_legs :: "leg list" where
  "demo_legs = [demo_leg ''cash:ag_1'' (-1) 30 ''transfer'', demo_leg ''cash:ag_2'' 1 30 ''transfer'']"

lemma demo_open_reachable:
  "ledger_reachable u l \<Longrightarrow> ledger_reachable u (demo_open c ow ty b l)"
  by (auto simp: demo_open_def intro: reach_step step_open split: sum.splits)

lemma demo_post_reachable: "ledger_reachable toy_uuid5 l \<Longrightarrow> ledger_reachable toy_uuid5 (demo_post legs l)"
  by (auto simp: demo_post_def intro: reach_step step_post split: sum.splits)

lemma demo_issue_reachable: "ledger_reachable toy_uuid5 l \<Longrightarrow> ledger_reachable toy_uuid5 (demo_issue legs l)"
  by (auto simp: demo_issue_def intro: reach_step step_issue split: sum.splits)

lemma demo_ledger_reachable: "ledger_reachable toy_uuid5 demo_ledger"
  unfolding demo_ledger_def demo_accounts_def
  by (intro demo_issue_reachable demo_open_reachable reach_empty)

lemma demo_post_ok:
  "post_transaction toy_uuid5 demo_legs 3 (demo_event 3) [] demo_ledger
     = Inr (toy_uuid5 1 ''3:1'', demo_post demo_legs demo_ledger)"
  by code_simp

lemma demo_balances:
  "balance demo_ledger ''cash:ag_1'' = Inr 100 \<and> balance (demo_post demo_legs demo_ledger) ''cash:ag_1'' = Inr 70"
  by code_simp

theorem account_id_roundtrip_example:
  "parse_account_id ''esc:ag_1@bk_1#or_9'' = Inr (Esc, ''ag_1'', Some ''bk_1'', Some ''or_9'')
   \<and> parse_account_id ''cash:ag_1@bk_1'' = Inl BankForbidden"
  by code_simp

theorem post_transaction_effect_witness:
  "dget (led_accounts (demo_post demo_legs demo_ledger)) ''cash:ag_1''
     = map_option (add_balance (-30)) (dget (led_accounts demo_ledger) ''cash:ag_1'')"
proof -
  have "leg_net demo_legs ''cash:ag_1'' = -30" by code_simp
  then show ?thesis using post_transaction_effect[OF demo_post_ok] by simp
qed

theorem transaction_ids_fresh_witness:
  "toy_uuid5 1 ''3:1'' \<notin> ent_txn ` set (led_entries demo_ledger)"
  by (rule transaction_ids_fresh[of toy_uuid5 demo_ledger, OF inj_toy_uuid5 demo_ledger_reachable demo_post_ok])

theorem flush_exactly_once_witness:
  "commit_tick 3 demo_ledger = filter (\<lambda>e. ent_tick e = 3) (led_pending demo_ledger)
   \<and> length (commit_tick 3 demo_ledger) = 2"
proof -
  have "length (commit_tick 3 demo_ledger) = 2" by code_simp
  then show ?thesis
    using flush_exactly_once[of toy_uuid5 demo_ledger 3, OF inj_toy_uuid5 demo_ledger_reachable] by blast
qed

theorem transfer_keeps_deposit_identity_witness:
  "deposit_imbalances (demo_post demo_legs demo_ledger) = deposit_imbalances demo_ledger"
proof -
  have t: "transfer ''cash:ag_1'' ''cash:ag_2'' 30 ''transfer'' = Inr demo_legs" by code_simp
  show ?thesis by (rule transfer_keeps_deposit_identity[OF demo_ledger_reachable t demo_post_ok])
qed

theorem reachable_ledger_sound_witness:
  "global_balance_cents demo_ledger = 0 \<and> balance demo_ledger ''cash:ag_1'' = Inr 100"
  using reachable_ledger_sound[OF demo_ledger_reachable] demo_balances by blast

theorem commitments_within_liquid_witness:
  "granted [(''ag_1'', 60, True), (''ag_1'', 60, False), (''ag_1'', 40, True)] ''ag_1'' = 100
   \<and> (100::int) \<le> max 0 (liquid demo_ledger ''ag_1'')"
proof -
  let ?c = "\<lparr>com_tick = None, com_committed = []\<rparr>"
  have r: "com_run demo_ledger 3 [(''ag_1'', 60), (''ag_1'', 60), (''ag_1'', 40)] ?c
      = Inr ([(''ag_1'', 60, True), (''ag_1'', 60, False), (''ag_1'', 40, True)],
             \<lparr>com_tick = Some 3, com_committed = [(''ag_1'', 100)]\<rparr>)"
    by code_simp
  have "com_tick ?c \<noteq> Some 3" by simp
  from commitments_within_liquid[OF r this, of "''ag_1''"] show ?thesis by (simp add: granted_def)
qed

end
