(* ===== verification/Clock.thy ===== *)
theory Clock
  imports Event_Types
begin

text \<open>
  \<open>polis/kernel/clock.py\<close> and \<open>polis/kernel/scheduler.py\<close>: the simulated clock, durations parsed from
  their textual form, calendar boundaries, and the registry of cadences with the tick at which each
  fires next. Ticks are unbounded integers. The hour of the day, a float used for display, is left
  out, as is the \<open>OverflowError\<close> of dates beyond the year 9999.
\<close>

section \<open>Profiles and durations\<close>

datatype profile_name = Microscope | Chronicle

record clock_profile =
  cp_name :: profile_name
  cp_ticks_per_day :: int
  cp_days_per_year :: int
  cp_seconds_per_tick :: int
  cp_days_per_week :: int
  cp_days_per_month :: int
  cp_days_per_quarter :: int

definition mk_profile :: "profile_name \<Rightarrow> int \<Rightarrow> int \<Rightarrow> int \<Rightarrow> clock_profile" where
  \<comment> \<open>the constructor with its defaults for week, month and quarter\<close>
  "mk_profile n tpd dpy spt = \<lparr>cp_name = n, cp_ticks_per_day = tpd, cp_days_per_year = dpy,
     cp_seconds_per_tick = spt, cp_days_per_week = 7, cp_days_per_month = 30,
     cp_days_per_quarter = 90\<rparr>"

fun profiles :: "profile_name \<Rightarrow> clock_profile" where
  "profiles Microscope = mk_profile Microscope 24 360 3600"
| "profiles Chronicle = mk_profile Chronicle 1 360 86400"

datatype clock_error = ZeroDivision | InvalidDuration string | ProfileDiffers

definition profile_from_settings ::
    "profile_name \<Rightarrow> int \<Rightarrow> int \<Rightarrow> clock_error + clock_profile" where
  "profile_from_settings name ticks_per_day days_per_year =
     (if ticks_per_day = 0 then Inl ZeroDivision
      else Inr (mk_profile (cp_name (profiles name)) ticks_per_day days_per_year
                  (86400 div ticks_per_day)))"

record sim_duration =
  sd_years :: int
  sd_quarters :: int
  sd_months :: int
  sd_weeks :: int
  sd_days :: int
  sd_hours :: int

definition zero_duration :: sim_duration where
  "zero_duration = \<lparr>sd_years = 0, sd_quarters = 0, sd_months = 0, sd_weeks = 0, sd_days = 0, sd_hours = 0\<rparr>"

definition duration_aliases :: "(string, string) dict" where
  "duration_aliases = [(''daily'', ''1d''), (''weekly'', ''1w''), (''biweekly'', ''2w''),
     (''monthly'', ''1mo''), (''quarterly'', ''1q''), (''annually'', ''1y'')]"

definition duration_of :: "string \<Rightarrow> int \<Rightarrow> sim_duration option" where
  \<comment> \<open>the unit group of the pattern and the keyword it selects\<close>
  "duration_of unit n =
     (if unit = ''y'' then Some (zero_duration\<lparr>sd_years := n\<rparr>)
      else if unit = ''q'' then Some (zero_duration\<lparr>sd_quarters := n\<rparr>)
      else if unit = ''mo'' then Some (zero_duration\<lparr>sd_months := n\<rparr>)
      else if unit = ''w'' then Some (zero_duration\<lparr>sd_weeks := n\<rparr>)
      else if unit = ''d'' then Some (zero_duration\<lparr>sd_days := n\<rparr>)
      else if unit = ''h'' then Some (zero_duration\<lparr>sd_hours := n\<rparr>)
      else None)"

definition parse_duration :: "string \<Rightarrow> clock_error + sim_duration" where
  \<comment> \<open>\<open>SimDuration.parse\<close>: the whole text is digits followed by a unit\<close>
  "parse_duration spec =
     (let value = dget_or duration_aliases spec spec;
          digits = takeWhile is_digit value;
          unit = dropWhile is_digit value
      in if digits = [] then Inl (InvalidDuration spec)
         else case duration_of unit (int (nat_of_digits digits 0)) of
             None \<Rightarrow> Inl (InvalidDuration spec)
           | Some d \<Rightarrow> Inr d)"

section \<open>The clock\<close>

record clock =
  ck_profile :: clock_profile
  ck_tick :: int
  ck_epoch :: datetime

definition epoch :: datetime where
  "epoch = \<lparr>dt_seconds = 0, dt_micro = 0, dt_aware = False\<rparr>"

definition advance :: "clock \<Rightarrow> int \<times> clock" where
  "advance c = (let t = ck_tick c + 1 in (t, c\<lparr>ck_tick := t\<rparr>))"

definition sim_time_at :: "clock \<Rightarrow> int \<Rightarrow> datetime" where
  "sim_time_at c tick =
     (ck_epoch c)\<lparr>dt_seconds := dt_seconds (ck_epoch c) + tick * cp_seconds_per_tick (ck_profile c)\<rparr>"

definition sim_time :: "clock \<Rightarrow> datetime" where
  "sim_time c = sim_time_at c (ck_tick c)"

definition whole_seconds_between :: "datetime \<Rightarrow> datetime \<Rightarrow> int" where
  \<comment> \<open>\<open>int((when - epoch).total_seconds())\<close>: truncation towards zero of a fractional difference\<close>
  "whole_seconds_between a b =
     (let micros = (dt_seconds a - dt_seconds b) * 1000000 + (dt_micro a - dt_micro b)
      in if 0 \<le> micros then micros div 1000000 else - ((- micros) div 1000000))"

definition tick_at :: "clock \<Rightarrow> datetime \<Rightarrow> clock_error + int" where
  "tick_at c when =
     (if cp_seconds_per_tick (ck_profile c) = 0 then Inl ZeroDivision
      else Inr (whole_seconds_between when (ck_epoch c) div cp_seconds_per_tick (ck_profile c)))"

definition ticks_for :: "clock \<Rightarrow> sim_duration \<Rightarrow> int" where
  "ticks_for c d =
     (let p = ck_profile c;
          days = sd_years d * cp_days_per_year p + sd_quarters d * cp_days_per_quarter p
                 + sd_months d * cp_days_per_month p + sd_weeks d * cp_days_per_week p + sd_days d
      in days * cp_ticks_per_day p + (sd_hours d * cp_ticks_per_day p) div 24)"

definition sim_day :: "clock \<Rightarrow> int \<Rightarrow> int" where
  "sim_day c tick = tick div cp_ticks_per_day (ck_profile c)"

definition sim_week :: "clock \<Rightarrow> int \<Rightarrow> int" where
  "sim_week c tick = sim_day c tick div 7"

definition sim_month :: "clock \<Rightarrow> int \<Rightarrow> int" where
  "sim_month c tick = sim_day c tick div 30"

definition sim_quarter :: "clock \<Rightarrow> int \<Rightarrow> int" where
  "sim_quarter c tick = sim_day c tick div 90"

definition sim_year :: "clock \<Rightarrow> int \<Rightarrow> int" where
  "sim_year c tick = sim_day c tick div cp_days_per_year (ck_profile c)"

datatype cal_unit = Day | Week | Month | Quarter | Year

fun unit_index :: "clock \<Rightarrow> cal_unit \<Rightarrow> int \<Rightarrow> int" where
  "unit_index c Day t = sim_day c t"
| "unit_index c Week t = sim_week c t"
| "unit_index c Month t = sim_month c t"
| "unit_index c Quarter t = sim_quarter c t"
| "unit_index c Year t = sim_year c t"

definition starts_new :: "clock \<Rightarrow> cal_unit \<Rightarrow> int \<Rightarrow> bool" where
  "starts_new c u tick =
     (if tick = 0 then True else unit_index c u tick \<noteq> unit_index c u (tick - 1))"

definition clock_dump :: "clock \<Rightarrow> int \<times> profile_name" where
  "clock_dump c = (ck_tick c, cp_name (ck_profile c))"

definition clock_load :: "int \<times> profile_name \<Rightarrow> clock \<Rightarrow> clock_error + clock" where
  "clock_load st c =
     (if snd st \<noteq> cp_name (ck_profile c) then Inl ProfileDiffers
      else Inr (c\<lparr>ck_tick := fst st\<rparr>))"

section \<open>Cadences\<close>

datatype align = AlignDay | AlignWeek | AlignMonth | AlignQuarter | AlignYear | AlignEpoch | AlignSession

record cadence =
  cad_id :: string
  cad_spec :: string
  cad_phase :: int
  cad_owner :: string
  cad_align :: align
  cad_offset :: sim_duration

datatype sched_error =
    DuplicateCadence string | UnknownCadence string | BadSpec clock_error | RegistryDiffers

record scheduler =
  sch_clock :: clock
  sch_cadences :: "(string, cadence) dict"

definition register :: "cadence \<Rightarrow> scheduler \<Rightarrow> sched_error + scheduler" where
  "register cad s =
     (if dget (sch_cadences s) (cad_id cad) \<noteq> None then Inl (DuplicateCadence (cad_id cad))
      else Inr (s\<lparr>sch_cadences := dset (cad_id cad) cad (sch_cadences s)\<rparr>))"

definition registered :: "scheduler \<Rightarrow> cadence list" where
  "registered s = map (\<lambda>k. the (dget (sch_cadences s) k)) (sort (dkeys (sch_cadences s)))"

definition cadence_fires :: "clock \<Rightarrow> int \<Rightarrow> int \<Rightarrow> int \<Rightarrow> bool" where
  "cadence_fires c interval offset tick \<longleftrightarrow>
     offset \<le> tick \<and> (tick - offset) mod (max 1 interval) = 0"

definition fires :: "scheduler \<Rightarrow> string \<Rightarrow> int \<Rightarrow> sched_error + bool" where
  "fires s cid tick =
     (case dget (sch_cadences s) cid of None \<Rightarrow> Inl (UnknownCadence cid)
      | Some cad \<Rightarrow>
          (case parse_duration (cad_spec cad) of Inl e \<Rightarrow> Inl (BadSpec e)
           | Inr d \<Rightarrow> Inr (cadence_fires (sch_clock s) (ticks_for (sch_clock s) d)
                            (ticks_for (sch_clock s) (cad_offset cad)) tick)))"

fun filter_fires :: "scheduler \<Rightarrow> int \<Rightarrow> (cadence \<Rightarrow> bool) \<Rightarrow> cadence list \<Rightarrow> sched_error + string list" where
  \<comment> \<open>the generator expression of \<open>due\<close> and \<open>due_for_phase\<close>: the guard is tested first\<close>
  "filter_fires s tick P [] = Inr []"
| "filter_fires s tick P (cad # cads) =
     (if \<not> P cad then filter_fires s tick P cads
      else case fires s (cad_id cad) tick of Inl e \<Rightarrow> Inl e
      | Inr b \<Rightarrow> res_map (\<lambda>rest. if b then cad_id cad # rest else rest) (filter_fires s tick P cads))"

definition due :: "scheduler \<Rightarrow> int \<Rightarrow> sched_error + string list" where
  "due s tick = filter_fires s tick (\<lambda>_. True) (registered s)"

definition due_for_phase :: "scheduler \<Rightarrow> int \<Rightarrow> int \<Rightarrow> sched_error + string list" where
  "due_for_phase s tick phase = filter_fires s tick (\<lambda>cad. cad_phase cad = phase) (registered s)"

partial_function (option) next_fire_from ::
    "scheduler \<Rightarrow> string \<Rightarrow> int \<Rightarrow> (sched_error + int) option" where
  "next_fire_from s cid candidate =
     (case fires s cid candidate of Inl e \<Rightarrow> Some (Inl e)
      | Inr b \<Rightarrow> if b then Some (Inr candidate) else next_fire_from s cid (candidate + 1))"

definition next_fire :: "scheduler \<Rightarrow> string \<Rightarrow> int \<Rightarrow> (sched_error + int) option" where
  \<comment> \<open>None: the search does not end\<close>
  "next_fire s cid after_tick = next_fire_from s cid (after_tick + 1)"

definition scheduler_dump :: "scheduler \<Rightarrow> (string \<times> string \<times> int \<times> string \<times> align) list" where
  "scheduler_dump s = map (\<lambda>c. (cad_id c, cad_spec c, cad_phase c, cad_owner c, cad_align c)) (registered s)"

definition scheduler_load ::
    "(string \<times> string \<times> int \<times> string \<times> align) list \<Rightarrow> scheduler \<Rightarrow> sched_error + scheduler" where
  "scheduler_load st s =
     (if map fst st \<noteq> map cad_id (registered s) then Inl RegistryDiffers else Inr s)"

end
