(* ===== verification/Clock_Spec.thy ===== *)
theory Clock_Spec
  imports Clock
begin

text \<open>
  Properties of the clock and the scheduler: tick and simulated time are inverse, calendar
  boundaries fall exactly on the multiples of their unit, textual durations mean what they say,
  and the search for the next firing tick ends at the first one.
\<close>

definition clock_ok :: "clock \<Rightarrow> bool" where
  "clock_ok c \<longleftrightarrow> 0 < cp_ticks_per_day (ck_profile c) \<and> 0 < cp_days_per_year (ck_profile c)
     \<and> 0 < cp_seconds_per_tick (ck_profile c) \<and> cp_days_per_week (ck_profile c) = 7
     \<and> cp_days_per_month (ck_profile c) = 30 \<and> cp_days_per_quarter (ck_profile c) = 90"

definition unit_days :: "clock \<Rightarrow> cal_unit \<Rightarrow> int" where
  "unit_days c u = (case u of Day \<Rightarrow> 1 | Week \<Rightarrow> 7 | Month \<Rightarrow> 30 | Quarter \<Rightarrow> 90
     | Year \<Rightarrow> cp_days_per_year (ck_profile c))"

definition unit_ticks :: "clock \<Rightarrow> cal_unit \<Rightarrow> int" where
  "unit_ticks c u = cp_ticks_per_day (ck_profile c) * unit_days c u"

lemma unit_ticks_pos: "clock_ok c \<Longrightarrow> 0 < unit_ticks c u"
  by (cases u) (simp_all add: unit_ticks_def unit_days_def clock_ok_def)

lemma unit_index_div: "clock_ok c \<Longrightarrow> unit_index c u t = t div unit_ticks c u"
  by (cases u) (simp_all add: unit_ticks_def unit_days_def clock_ok_def zdiv_zmult2_eq
      sim_day_def sim_week_def sim_month_def sim_quarter_def sim_year_def)

lemma div_steps_iff:
  fixes t m :: int
  assumes "0 < m"
  shows "t div m \<noteq> (t - 1) div m \<longleftrightarrow> t mod m = 0"
proof
  assume "t mod m = 0"
  then obtain q where q: "t = m * q" by auto
  have "t - 1 = m * (q - 1) + (m - 1)" by (simp add: q algebra_simps)
  then have "(t - 1) div m = q - 1" using assms by (intro int_div_pos_eq[where r = "m - 1"]) auto
  moreover have "t div m = q" using assms q by simp
  ultimately show "t div m \<noteq> (t - 1) div m" by simp
next
  assume ne: "t div m \<noteq> (t - 1) div m"
  show "t mod m = 0"
  proof (rule ccontr)
    assume "t mod m \<noteq> 0"
    then have r: "0 < t mod m" "t mod m < m" using assms pos_mod_sign[OF assms, of t] pos_mod_bound[OF assms, of t] by linarith+
    have "t - 1 = m * (t div m) + (t mod m - 1)" by (simp add: algebra_simps)
    then have "(t - 1) div m = t div m"
      using r by (intro int_div_pos_eq[where r = "t mod m - 1"]) auto
    with ne show False by simp
  qed
qed

text \<open>
  Calendar boundaries: \<open>starts_new\<close> holds exactly at the multiples of the unit's length in
  ticks, so a month starts exactly once in 30 simulated days, and every unit starts together with
  a day.
\<close>
theorem starts_new_iff_multiple:
  assumes "clock_ok c"
  shows "(starts_new c u t \<longleftrightarrow> t mod unit_ticks c u = 0) \<and> (starts_new c u t \<longrightarrow> starts_new c Day t)"
proof -
  have iff: "starts_new c v t \<longleftrightarrow> t mod unit_ticks c v = 0" for v
    using div_steps_iff[OF unit_ticks_pos[OF assms], of t v]
    by (auto simp: starts_new_def unit_index_div[OF assms])
  have "unit_ticks c Day dvd unit_ticks c u" by (simp add: unit_ticks_def unit_days_def)
  then have "unit_ticks c u dvd t \<Longrightarrow> unit_ticks c Day dvd t" by (rule dvd_trans)
  then have "t mod unit_ticks c u = 0 \<longrightarrow> t mod unit_ticks c Day = 0"
    unfolding mod_eq_0_iff_dvd by blast
  then show ?thesis unfolding iff by blast
qed

text \<open>
  Simulated time and ticks are inverse: the time of a tick is read back as that tick, and a
  moment strictly between two ticks as the earlier one.
\<close>
theorem tick_at_sim_time:
  assumes "clock_ok c" "0 \<le> tick" "0 \<le> extra" "extra < cp_seconds_per_tick (ck_profile c)"
  shows "tick_at c ((sim_time_at c tick)\<lparr>dt_seconds := dt_seconds (sim_time_at c tick) + extra\<rparr>) = Inr tick"
proof -
  let ?s = "cp_seconds_per_tick (ck_profile c)"
  have pos: "0 < ?s" using assms(1) by (simp add: clock_ok_def)
  then have "0 \<le> tick * ?s + extra" using assms(2,3) by simp
  then have "whole_seconds_between ((sim_time_at c tick)\<lparr>dt_seconds := dt_seconds (sim_time_at c tick) + extra\<rparr>)
      (ck_epoch c) = tick * ?s + extra"
    by (simp add: whole_seconds_between_def sim_time_at_def Let_def)
  moreover have "(tick * ?s + extra) div ?s = tick" using assms(3,4) pos by simp
  ultimately show ?thesis using pos by (simp add: tick_at_def)
qed

lemma cadence_fires_eventually:
  "\<exists>t \<ge> from. cadence_fires c interval offset t"
proof -
  let ?m = "max 1 interval"
  let ?t = "offset + ?m * \<bar>from - offset\<bar>"
  have "0 \<le> (?m - 1) * \<bar>from - offset\<bar>" by (intro mult_nonneg_nonneg) auto
  then have "\<bar>from - offset\<bar> \<le> ?m * \<bar>from - offset\<bar>" by (simp add: left_diff_distrib)
  then have "from \<le> ?t" "offset \<le> ?t" by linarith+
  then show ?thesis by (intro exI[of _ ?t]) (simp add: cadence_fires_def)
qed

lemma next_fire_from_finds:
  assumes "\<And>t. fires s cid t = Inr (F t)" "F (start + int n)"
  shows "\<exists>t. next_fire_from s cid start = Some (Inr t) \<and> start \<le> t \<and> F t
    \<and> (\<forall>u. start \<le> u \<and> u < t \<longrightarrow> \<not> F u)"
  using assms(2)
proof (induction n arbitrary: start)
  case 0
  then show ?case
    by (intro exI[of _ start]) (auto simp: next_fire_from.simps[of s cid start] assms(1))
next
  case (Suc n)
  show ?case
  proof (cases "F start")
    case True
    then show ?thesis
      by (intro exI[of _ start]) (auto simp: next_fire_from.simps[of s cid start] assms(1))
  next
    case False
    have "F (start + 1 + int n)" using Suc.prems by (simp add: algebra_simps)
    then obtain t where t: "next_fire_from s cid (start + 1) = Some (Inr t)" "start + 1 \<le> t" "F t"
      "\<forall>u. start + 1 \<le> u \<and> u < t \<longrightarrow> \<not> F u" using Suc.IH by blast
    have "\<not> F u" if "start \<le> u" "u < t" for u using t(4) False that by (cases "u = start") auto
    then show ?thesis
      using t False by (intro exI[of _ t]) (simp add: next_fire_from.simps[of s cid start] assms(1))
  qed
qed

text \<open>
  C31. The search for the next firing tick ends for every registered cadence with a well-formed
  interval, whatever its interval and offset, and returns the first later tick at which it fires.
\<close>
theorem next_fire_first:
  assumes "dget (sch_cadences s) cid = Some cad" "parse_duration (cad_spec cad) = Inr d"
  shows "\<exists>t. next_fire s cid after = Some (Inr t) \<and> after < t \<and> fires s cid t = Inr True
    \<and> (\<forall>u. after < u \<and> u < t \<longrightarrow> fires s cid u = Inr False)"
proof -
  let ?F = "cadence_fires (sch_clock s) (ticks_for (sch_clock s) d) (ticks_for (sch_clock s) (cad_offset cad))"
  have f: "fires s cid t = Inr (?F t)" for t using assms by (simp add: fires_def)
  obtain t where "after + 1 \<le> t" "?F t" using cadence_fires_eventually by blast
  then have "?F (after + 1 + int (nat (t - (after + 1))))" by simp
  from next_fire_from_finds[OF f this] show ?thesis
    by (auto simp: next_fire_def f add1_zle_eq zless_imp_add1_zle)
qed

definition unit_alias :: "cal_unit \<Rightarrow> string" where
  "unit_alias u = (case u of Day \<Rightarrow> ''daily'' | Week \<Rightarrow> ''weekly'' | Month \<Rightarrow> ''monthly''
     | Quarter \<Rightarrow> ''quarterly'' | Year \<Rightarrow> ''annually'')"

definition unit_duration :: "cal_unit \<Rightarrow> sim_duration" where
  "unit_duration u = (case u of Day \<Rightarrow> zero_duration\<lparr>sd_days := 1\<rparr>
     | Week \<Rightarrow> zero_duration\<lparr>sd_weeks := 1\<rparr> | Month \<Rightarrow> zero_duration\<lparr>sd_months := 1\<rparr>
     | Quarter \<Rightarrow> zero_duration\<lparr>sd_quarters := 1\<rparr> | Year \<Rightarrow> zero_duration\<lparr>sd_years := 1\<rparr>)"

lemma parse_alias: "parse_duration (unit_alias u) = Inr (unit_duration u)"
  by (cases u; hypsubst; code_simp)

lemma ticks_for_unit: "clock_ok c \<Longrightarrow> ticks_for c (unit_duration u) = unit_ticks c u"
  by (cases u) (simp_all add: ticks_for_def unit_duration_def zero_duration_def unit_ticks_def
      unit_days_def clock_ok_def mult.commute Let_def)

lemma ticks_for_zero: "ticks_for c zero_duration = 0"
  by (simp add: ticks_for_def zero_duration_def)

text \<open>
  The scheduler and the calendar agree: a cadence written \<open>daily\<close>, \<open>weekly\<close>, \<open>monthly\<close>,
  \<open>quarterly\<close> or \<open>annually\<close> with no offset fires, from tick zero on, exactly at the ticks at which the
  clock says a new day, week, month, quarter or year starts, under both profiles and any custom one.
\<close>
theorem calendar_cadence_fires:
  assumes "clock_ok (sch_clock s)" "0 \<le> tick" "dget (sch_cadences s) cid = Some cad"
    and "cad_spec cad = unit_alias u" "cad_offset cad = zero_duration"
  shows "fires s cid tick = Inr (starts_new (sch_clock s) u tick)"
proof -
  have "max 1 (unit_ticks (sch_clock s) u) = unit_ticks (sch_clock s) u"
    using unit_ticks_pos[OF assms(1), of u] by simp
  then show ?thesis
    using starts_new_iff_multiple[OF assms(1), of u tick] assms(2-5)
    by (simp add: fires_def parse_alias ticks_for_unit[OF assms(1)] ticks_for_zero cadence_fires_def)
qed

section \<open>A concrete clock\<close>

definition demo_clock :: clock where
  "demo_clock = \<lparr>ck_profile = profiles Microscope, ck_tick = 0, ck_epoch = epoch\<rparr>"

definition demo_cadence :: cadence where
  "demo_cadence = \<lparr>cad_id = ''payroll'', cad_spec = ''weekly'', cad_phase = 7,
     cad_owner = ''polis.economy'', cad_align = AlignWeek, cad_offset = zero_duration\<rparr>"

definition demo_scheduler :: scheduler where
  "demo_scheduler = \<lparr>sch_clock = demo_clock, sch_cadences = [(''payroll'', demo_cadence)]\<rparr>"

lemma demo_clock_ok: "clock_ok demo_clock"
  by (simp add: clock_ok_def demo_clock_def mk_profile_def)

theorem starts_new_iff_multiple_witness:
  "starts_new demo_clock Month 720 \<and> starts_new demo_clock Day 720 \<and> \<not> starts_new demo_clock Month 719"
proof -
  have "unit_ticks demo_clock Month = 720" by code_simp
  then show ?thesis
    using starts_new_iff_multiple[OF demo_clock_ok, of Month 720]
      starts_new_iff_multiple[OF demo_clock_ok, of Month 719] by simp
qed

theorem tick_at_sim_time_witness:
  "tick_at demo_clock ((sim_time_at demo_clock 5)\<lparr>dt_seconds := dt_seconds (sim_time_at demo_clock 5) + 59\<rparr>)
     = Inr 5"
  by (rule tick_at_sim_time[OF demo_clock_ok]) (simp_all add: demo_clock_def mk_profile_def)

theorem next_fire_first_witness:
  "\<exists>t. next_fire demo_scheduler ''payroll'' 3 = Some (Inr t) \<and> 3 < t"
proof -
  have c: "dget (sch_cadences demo_scheduler) ''payroll'' = Some demo_cadence"
    by (simp add: demo_scheduler_def)
  have d: "parse_duration (cad_spec demo_cadence) = Inr (unit_duration Week)" by code_simp
  from next_fire_first[OF c d, of 3] show ?thesis by blast
qed

theorem calendar_cadence_fires_witness:
  "fires demo_scheduler ''payroll'' 168 = Inr (starts_new demo_clock Week 168)"
proof -
  have "fires demo_scheduler ''payroll'' 168 = Inr (starts_new (sch_clock demo_scheduler) Week 168)"
    by (rule calendar_cadence_fires[where cad = demo_cadence])
       (simp_all add: demo_scheduler_def demo_clock_ok demo_cadence_def unit_alias_def)
  then show ?thesis by (simp add: demo_scheduler_def)
qed

end
