(* ===== verification/Canon.thy ===== *)
theory Canon
  imports Event_Types
begin

text \<open>
  \<open>polis/config/canon.py\<close>, the JSON safety walk of \<open>polis/events/schemas.py\<close> and the byte-level
  helpers of the standard library that the event hash uses: big-endian integers,
  \<open>bytes.fromhex\<close>, \<open>datetime.isoformat\<close>. A Python \<open>str\<close> is its UTF-8 encoding, so strings and byte
  strings are both \<open>char list\<close>; code-point order and byte order agree. A float is carried by its
  shortest repr.
\<close>

section \<open>JSON values and their canonical text\<close>

datatype json =
    JNull | JBool bool | JInt int | JFloat string | JNonFinite | JStr string
  | JArr "json list" | JObj "(string \<times> json) list" | JOther string
  \<comment> \<open>\<open>JOther\<close>: an object of the named Python type that JSON cannot carry\<close>

fun json_serialisable :: "json \<Rightarrow> bool" where
  \<comment> \<open>\<open>json.dumps(..., allow_nan=False)\<close> raises on the others\<close>
  "json_serialisable (JArr xs) = list_all json_serialisable xs"
| "json_serialisable (JObj kvs) = list_all (\<lambda>(k, v). json_serialisable v) kvs"
| "json_serialisable JNonFinite = False"
| "json_serialisable (JOther t) = False"
| "json_serialisable _ = True"

definition hex_digit :: "nat \<Rightarrow> char" where
  "hex_digit n = ''0123456789abcdef'' ! n"

definition escape_char :: "char \<Rightarrow> string" where
  "escape_char c =
     (if c = CHR 0x22 then [CHR 0x5C, CHR 0x22]
      else if c = CHR 0x5C then [CHR 0x5C, CHR 0x5C]
      else if c = CHR 0x0A then [CHR 0x5C, CHR ''n'']
      else if c = CHR 0x0D then [CHR 0x5C, CHR ''r'']
      else if c = CHR 0x09 then [CHR 0x5C, CHR ''t'']
      else if c = CHR 0x0C then [CHR 0x5C, CHR ''f'']
      else if c = CHR 0x08 then [CHR 0x5C, CHR ''b'']
      else if of_char c < (32::nat)
      then [CHR 0x5C, CHR ''u'', CHR ''0'', CHR ''0'',
            hex_digit (of_char c div 16), hex_digit (of_char c mod 16)]
      else [c])"

definition quote :: "string \<Rightarrow> string" where
  "quote s = CHR 0x22 # concat (map escape_char s) @ [CHR 0x22]"

fun join :: "string \<Rightarrow> string list \<Rightarrow> string" where
  "join sep [] = []"
| "join sep [x] = x"
| "join sep (x # y # ys) = x @ sep @ join sep (y # ys)"

fun json_text :: "json \<Rightarrow> string" where
  "json_text JNull = ''null''"
| "json_text (JBool b) = (if b then ''true'' else ''false'')"
| "json_text (JInt i) = str_int i"
| "json_text (JFloat r) = r"
| "json_text (JStr s) = quote s"
| "json_text (JArr xs) = ''['' @ join '','' (map json_text xs) @ '']''"
| "json_text (JObj kvs) =
     ''{'' @ join '','' (map (\<lambda>(k, t). quote k @ '':'' @ t)
        (sort_key fst (map (\<lambda>(k, v). (k, json_text v)) kvs))) @ ''}''"
| "json_text JNonFinite = []"
| "json_text (JOther t) = []"

datatype canon_error = NotCanonicalJson

definition canonical_json :: "json \<Rightarrow> canon_error + string" where
  "canonical_json j = (if json_serialisable j then Inr (json_text j) else Inl NotCanonicalJson)"

text \<open>\<open>_walk\<close>: the first value that is not JSON-safe, with its path.\<close>

fun walk :: "json \<Rightarrow> string \<Rightarrow> (string \<times> string) option"
  and walk_items :: "json list \<Rightarrow> string \<Rightarrow> nat \<Rightarrow> (string \<times> string) option"
  and walk_fields :: "(string \<times> json) list \<Rightarrow> string \<Rightarrow> (string \<times> string) option" where
  "walk JNull path = None"
| "walk (JBool b) path = None"
| "walk (JInt i) path = None"
| "walk (JFloat r) path = None"
| "walk (JStr s) path = None"
| "walk JNonFinite path = Some (path, ''non-finite float'')"
| "walk (JObj kvs) path = walk_fields kvs path"
| "walk (JArr xs) path = walk_items xs path 0"
| "walk (JOther t) path = Some (path, t)"
| "walk_items [] path i = None"
| "walk_items (x # xs) path i =
     (case walk x (path @ ''/'' @ str_nat i) of Some e \<Rightarrow> Some e | None \<Rightarrow> walk_items xs path (Suc i))"
| "walk_fields [] path = None"
| "walk_fields ((k, v) # kvs) path =
     (case walk v (path @ ''/'' @ k) of Some e \<Rightarrow> Some e | None \<Rightarrow> walk_fields kvs path)"

section \<open>Bytes\<close>

fun bytes_be :: "nat \<Rightarrow> nat \<Rightarrow> string" where
  \<comment> \<open>the low \<open>n\<close> bytes of a number, most significant first\<close>
  "bytes_be 0 v = []"
| "bytes_be (Suc n) v = bytes_be n (v div 256) @ [char_of (v mod 256)]"

definition to_bytes :: "nat \<Rightarrow> int \<Rightarrow> string option" where
  \<comment> \<open>\<open>v.to_bytes(n, "big")\<close>; None is \<open>OverflowError\<close>\<close>
  "to_bytes n v = (if v < 0 \<or> v \<ge> 256 ^ n then None else Some (bytes_be n (nat v)))"

definition to_bytes_signed :: "nat \<Rightarrow> int \<Rightarrow> string option" where
  "to_bytes_signed n v =
     (if v < - (256 ^ n div 2) \<or> v \<ge> 256 ^ n div 2 then None
      else Some (bytes_be n (nat (v mod 256 ^ n))))"

definition hex_value :: "char \<Rightarrow> nat option" where
  "hex_value c =
     (let v = of_char c in
      if 48 \<le> v \<and> v \<le> 57 then Some (v - 48)
      else if 97 \<le> v \<and> v \<le> 102 then Some (v - 87)
      else if 65 \<le> v \<and> v \<le> 70 then Some (v - 55)
      else None)"

definition is_space :: "char \<Rightarrow> bool" where
  "is_space c \<longleftrightarrow> of_char c \<in> {9, 10, 11, 12, 13, 32 :: nat}"

fun fromhex :: "string \<Rightarrow> string option" where
  \<comment> \<open>\<open>bytes.fromhex\<close>: white space may separate the pairs\<close>
  "fromhex [] = Some []"
| "fromhex (c # s) =
     (if is_space c then fromhex s
      else case (hex_value c, s) of
        (Some h, d # s') \<Rightarrow>
          (case hex_value d of None \<Rightarrow> None
           | Some k \<Rightarrow> map_option (\<lambda>r. char_of (16 * h + k) # r) (fromhex s'))
      | _ \<Rightarrow> None)"

section \<open>Dates\<close>

definition days_before_month :: "int \<Rightarrow> int" where
  "days_before_month m = [0, 0, 31, 59, 90, 120, 151, 181, 212, 243, 273, 304, 334] ! nat m"

definition days_in_month :: "int \<Rightarrow> int" where
  "days_in_month m = [0, 31, 28, 31, 30, 31, 30, 31, 31, 30, 31, 30, 31] ! nat m"

definition ord_to_ymd :: "int \<Rightarrow> int \<times> int \<times> int" where
  \<comment> \<open>\<open>datetime.date.fromordinal\<close>\<close>
  "ord_to_ymd ordinal =
     (let n = ordinal - 1;
          n400 = n div 146097; n = n mod 146097;
          n100 = n div 36524; n = n mod 36524;
          n4 = n div 1461; n = n mod 1461;
          n1 = n div 365; n = n mod 365;
          year = n400 * 400 + 1 + n100 * 100 + n4 * 4 + n1
      in if n1 = 4 \<or> n100 = 4 then (year - 1, 12, 31)
         else let leap = (n1 = 3 \<and> (n4 \<noteq> 24 \<or> n100 = 3));
                  month = (n + 50) div 32;
                  preceding = days_before_month month + (if month > 2 \<and> leap then 1 else 0);
                  back = preceding > n;
                  month' = (if back then month - 1 else month);
                  preceding' = (if back
                    then preceding - (days_in_month month' + (if month' = 2 \<and> leap then 1 else 0))
                    else preceding)
              in (year, month', n - preceding' + 1))"

definition epoch_ordinal :: int where
  \<comment> \<open>\<open>date(2100, 1, 1).toordinal()\<close>\<close>
  "epoch_ordinal = 766645"

definition isoformat :: "datetime \<Rightarrow> string" where
  \<comment> \<open>of a naive moment on a whole second\<close>
  "isoformat d =
     (let (y, m, dd) = ord_to_ymd (epoch_ordinal + dt_seconds d div 86400);
          s = dt_seconds d mod 86400
      in zpad 4 (str_int y) @ ''-'' @ zpad 2 (str_int m) @ ''-'' @ zpad 2 (str_int dd) @ ''T''
         @ zpad 2 (str_int (s div 3600)) @ '':'' @ zpad 2 (str_int (s mod 3600 div 60))
         @ '':'' @ zpad 2 (str_int (s mod 60)))"

section \<open>Facts about the encodings\<close>

lemma length_bytes_be [simp]: "length (bytes_be n v) = n"
  by (induction n arbitrary: v) auto

lemma bytes_be_inj: "v < 256 ^ n \<Longrightarrow> w < 256 ^ n \<Longrightarrow> bytes_be n v = bytes_be n w \<Longrightarrow> v = w"
proof (induction n arbitrary: v w)
  case (Suc n)
  have "v div 256 < 256 ^ n" "w div 256 < 256 ^ n" using Suc.prems(1,2)
    by (simp_all add: less_mult_imp_div_less mult.commute)
  moreover from Suc.prems(3) have "bytes_be n (v div 256) = bytes_be n (w div 256)"
    and c: "(char_of (v mod 256) :: char) = char_of (w mod 256)" by simp_all
  ultimately have "v div 256 = w div 256" by (intro Suc.IH)
  moreover from arg_cong[OF c, of "of_char :: char \<Rightarrow> nat"] have "v mod 256 = w mod 256" by simp
  ultimately show ?case by (metis div_mult_mod_eq)
qed simp

lemma to_bytes_SomeD:
  "to_bytes n v = Some b \<Longrightarrow> 0 \<le> v \<and> v < 256 ^ n \<and> b = bytes_be n (nat v)"
  by (auto simp: to_bytes_def split: if_splits)

lemma length_to_bytes: "to_bytes n v = Some b \<Longrightarrow> length b = n"
  by (auto dest: to_bytes_SomeD)

lemma length_to_bytes_signed: "to_bytes_signed n v = Some b \<Longrightarrow> length b = n"
  by (auto simp: to_bytes_signed_def split: if_splits)

lemma to_bytes_inj: "to_bytes n v = Some b \<Longrightarrow> to_bytes n w = Some b \<Longrightarrow> v = w"
  by (auto dest!: to_bytes_SomeD) (metis bytes_be_inj int_nat_eq nat_less_iff of_nat_numeral of_nat_power)

lemma walk_serialisable:
  "walk j p = None \<longleftrightarrow> json_serialisable j"
  "walk_items xs p i = None \<longleftrightarrow> list_all json_serialisable xs"
  "walk_fields kvs p = None \<longleftrightarrow> list_all (\<lambda>(k, v). json_serialisable v) kvs"
  by (induction j p and xs p i and kvs p rule: walk_walk_items_walk_fields.induct)
     (auto split: option.splits)

end
