(* ===== verification/Event_Log.thy ===== *)
theory Event_Log
  imports Canon
begin

text \<open>
  The event log: \<open>polis/events/hashing.py\<close> (canonical bytes and sealing), the kind ranges and the
  registry of \<open>polis/events/kinds.py\<close>, \<open>sampling.py\<close>, \<open>schemas.py\<close> and \<open>log.py\<close> (staging, save
  points, commit and rollback). SHA-256 and the JSON-schema validator are parameters. A sampling
  rate is the exact fraction a double stands for; object identities of batches are numbers.
\<close>

type_synonym payload = "(string, json) dict"
type_synonym evt = "payload event"
type_synonym draft = "payload new_event"

section \<open>Canonical bytes and hashes\<close>

datatype hash_error = BadSimTime | IntOverflow | PayloadNotJson | BadHex

fun need :: "'e \<Rightarrow> 'a option \<Rightarrow> 'e + 'a" where
  "need e None = Inl e"
| "need e (Some x) = Inr x"

definition unit_separator :: string where
  "unit_separator = [CHR 0x1F]"

definition canonical_event_bytes ::
    "int \<Rightarrow> uuid \<Rightarrow> int \<Rightarrow> datetime \<Rightarrow> int \<Rightarrow> string option \<Rightarrow> string list \<Rightarrow> int option \<Rightarrow> payload
       \<Rightarrow> string option \<Rightarrow> string \<Rightarrow> hash_error + string" where
  "canonical_event_bytes seq run tick sim kind actor subjects cause pl sg prev =
     (if dt_aware sim \<or> dt_micro sim \<noteq> 0 then Inl BadSimTime
      else res_bind (need IntOverflow (to_bytes 8 seq)) (\<lambda>b_seq.
      res_bind (need IntOverflow (to_bytes 8 tick)) (\<lambda>b_tick.
      res_bind (need IntOverflow (to_bytes 4 kind)) (\<lambda>b_kind.
      res_bind (need IntOverflow (to_bytes_signed 8 (opt_or cause (-1)))) (\<lambda>b_cause.
      res_bind (case canonical_json (JObj pl) of Inl _ \<Rightarrow> Inl PayloadNotJson | Inr t \<Rightarrow> Inr t) (\<lambda>b_payload.
      res_bind (need BadHex (fromhex prev)) (\<lambda>b_prev.
        Inr (concat [b_seq, bytes_be 16 run, b_tick, isoformat sim, b_kind, opt_or actor [],
                     join unit_separator (sort subjects), b_cause, b_payload, opt_or sg [], b_prev]))))))))"

definition event_bytes :: "evt \<Rightarrow> hash_error + string" where
  "event_bytes e = canonical_event_bytes (ev_seq e) (ev_run_id e) (ev_tick e) (ev_sim_time e) (ev_kind e)
     (ev_actor_id e) (ev_subject_ids e) (ev_cause_seq e) (ev_payload e) (ev_sig e) (ev_prev_hash e)"

definition seal :: "(string \<Rightarrow> string) \<Rightarrow> draft \<Rightarrow> int \<Rightarrow> uuid \<Rightarrow> int \<Rightarrow> datetime \<Rightarrow> string
    \<Rightarrow> hash_error + evt" where
  "seal sha d seq run tick sim prev =
     res_map (\<lambda>bytes. \<lparr>ev_seq = seq, ev_run_id = run, ev_tick = tick, ev_sim_time = sim,
          ev_kind = ne_kind d, ev_actor_id = ne_actor_id d, ev_subject_ids = sort (ne_subject_ids d),
          ev_cause_seq = ne_cause_seq d, ev_payload = ne_payload d, ev_sig = ne_sig d,
          ev_prev_hash = prev, ev_hash = sha bytes\<rparr>)
       (canonical_event_bytes seq run tick sim (ne_kind d) (ne_actor_id d) (ne_subject_ids d)
          (ne_cause_seq d) (ne_payload d) (ne_sig d) prev)"

definition recompute :: "(string \<Rightarrow> string) \<Rightarrow> evt \<Rightarrow> hash_error + string" where
  "recompute sha e = res_map sha (event_bytes e)"

definition verify_event :: "(string \<Rightarrow> string) \<Rightarrow> evt \<Rightarrow> hash_error + bool" where
  "verify_event sha e = res_map (\<lambda>h. h = ev_hash e) (recompute sha e)"

section \<open>Kinds\<close>

datatype persistence = Persisted | Sampled | Ephemeral

record kind_spec =
  ks_kind :: int
  ks_name :: string
  ks_owner :: string
  ks_persistence :: persistence
  ks_schema :: json
  ks_description :: string

record kind_range =
  kr_lo :: int
  kr_hi :: int
  kr_domain :: string
  kr_owner :: string
  kr_persistence :: persistence

definition mk_range :: "int \<Rightarrow> int \<Rightarrow> string \<Rightarrow> string \<Rightarrow> persistence \<Rightarrow> kind_range" where
  "mk_range lo hi domain_name own p =
     \<lparr>kr_lo = lo, kr_hi = hi, kr_domain = domain_name, kr_owner = own, kr_persistence = p\<rparr>"

definition kind_ranges :: "kind_range list" where
  "kind_ranges = [
     mk_range 1000 1999 ''kernel'' ''polis.kernel'' Persisted,
     mk_range 2000 2004 ''agents'' ''polis.agents'' Persisted,
     mk_range 2005 2005 ''agent_sample'' ''polis.agents'' Sampled,
     mk_range 2006 2999 ''agents'' ''polis.agents'' Persisted,
     mk_range 3000 3999 ''world'' ''polis.world'' Persisted,
     mk_range 4000 4009 ''cognition_sample'' ''polis.agents'' Sampled,
     mk_range 4010 4010 ''memory'' ''polis.agents'' Persisted,
     mk_range 4011 4019 ''cognition_sample'' ''polis.agents'' Sampled,
     mk_range 4020 4020 ''reflection'' ''polis.agents'' Persisted,
     mk_range 4021 4099 ''cognition_sample'' ''polis.agents'' Sampled,
     mk_range 4100 4199 ''llm'' ''polis.llm'' Persisted,
     mk_range 4200 4999 ''agent_aux'' ''polis.agents'' Persisted,
     mk_range 5000 5999 ''labour'' ''polis.economy'' Persisted,
     mk_range 6000 6999 ''firms_goods'' ''polis.economy'' Persisted,
     mk_range 7000 7999 ''exchange'' ''polis.economy'' Persisted,
     mk_range 8000 8999 ''banking'' ''polis.economy'' Persisted,
     mk_range 9000 9999 ''ventures'' ''polis.economy'' Persisted,
     mk_range 10000 10999 ''communication'' ''polis.society'' Persisted,
     mk_range 11000 11020 ''social_media'' ''polis.society'' Persisted,
     mk_range 11021 11021 ''feed_sample'' ''polis.society'' Sampled,
     mk_range 11022 11999 ''social_media'' ''polis.society'' Persisted,
     mk_range 12000 12999 ''polity'' ''polis.society'' Persisted,
     mk_range 13000 13999 ''law'' ''polis.society'' Persisted,
     mk_range 14000 14999 ''education'' ''polis.agents'' Persisted,
     mk_range 15000 15999 ''demography'' ''polis.agents'' Persisted,
     mk_range 20000 20999 ''external_gateway'' ''polis.gateway'' Persisted,
     mk_range 90000 90999 ''ephemeral'' ''*'' Ephemeral,
     mk_range 99000 99999 ''research'' ''polis.research'' Persisted]"

datatype kind_error =
    OutsideRanges int | DuplicateKind int | DuplicateName string | WrongOwner int | WrongPersistence int
  | UnknownKind int

definition range_for :: "int \<Rightarrow> kind_error + kind_range" where
  "range_for kind =
     (case find (\<lambda>r. kr_lo r \<le> kind \<and> kind \<le> kr_hi r) kind_ranges of
        None \<Rightarrow> Inl (OutsideRanges kind) | Some r \<Rightarrow> Inr r)"

record kind_registry =
  reg_specs :: "(int, kind_spec) dict"
  reg_names :: "(string, int) dict"

definition starts_with :: "string \<Rightarrow> string \<Rightarrow> bool" where
  "starts_with pre s \<longleftrightarrow> take (length pre) s = pre"

definition register_kind ::
    "int \<Rightarrow> string \<Rightarrow> string \<Rightarrow> persistence \<Rightarrow> json \<Rightarrow> string \<Rightarrow> kind_registry
       \<Rightarrow> kind_error + int \<times> kind_registry" where
  "register_kind kind name own pers schema desc reg =
     res_bind (range_for kind) (\<lambda>declared.
       if dget (reg_specs reg) kind \<noteq> None then Inl (DuplicateKind kind)
       else if dget (reg_names reg) name \<noteq> None then Inl (DuplicateName name)
       else if kr_owner declared \<noteq> ''*'' \<and> own \<noteq> kr_owner declared
               \<and> \<not> starts_with (kr_owner declared @ ''.'') own
       then Inl (WrongOwner kind)
       else if kr_persistence declared \<noteq> pers then Inl (WrongPersistence kind)
       else Inr (kind, \<lparr>reg_specs = dset kind \<lparr>ks_kind = kind, ks_name = name, ks_owner = own,
                            ks_persistence = pers, ks_schema = schema, ks_description = desc\<rparr> (reg_specs reg),
                        reg_names = dset name kind (reg_names reg)\<rparr>))"

definition kind_spec_of :: "kind_registry \<Rightarrow> int \<Rightarrow> kind_error + kind_spec" where
  \<comment> \<open>\<open>spec\<close>\<close>
  "kind_spec_of reg kind =
     (case dget (reg_specs reg) kind of None \<Rightarrow> Inl (UnknownKind kind) | Some k \<Rightarrow> Inr k)"

definition is_ephemeral :: "int \<Rightarrow> kind_error + bool" where
  "is_ephemeral kind = res_map (\<lambda>r. kr_persistence r = Ephemeral) (range_for kind)"

section \<open>Validation and sampling\<close>

datatype log_error =
    LogHash hash_error | LogKind kind_error | LogSchema int string string
  | BadSavepoint | SinkFailed

definition validate_payload ::
    "(json \<Rightarrow> payload \<Rightarrow> (string \<times> string) option) \<Rightarrow> kind_registry \<Rightarrow> int \<Rightarrow> payload
       \<Rightarrow> log_error + unit" where
  \<comment> \<open>the first argument is the schema validator: its first error, as path and message\<close>
  "validate_payload schema_check reg kind pl =
     (case walk (JObj pl) [] of Some (path, msg) \<Rightarrow> Inl (LogSchema kind path msg)
      | None \<Rightarrow>
        (case kind_spec_of reg kind of Inl e \<Rightarrow> Inl (LogKind e)
         | Inr k \<Rightarrow> (case schema_check (ks_schema k) pl of None \<Rightarrow> Inr ()
             | Some (path, msg) \<Rightarrow> Inl (LogSchema kind path msg))))"

fun bit_length :: "nat \<Rightarrow> nat" where
  "bit_length n = (if n = 0 then 0 else Suc (bit_length (n div 2)))"

definition float_quotient :: "nat \<Rightarrow> nat \<Rightarrow> nat \<times> nat" where
  \<comment> \<open>Python's \<open>n / d\<close> for \<open>n \<le> d\<close> as a double \<open>m / 2 ^ e\<close>: 53 bits, round half to even\<close>
  "float_quotient n d =
     (if n = 0 then (0, 0)
      else let e0 = 53 + bit_length d - bit_length n;
               e = (if n * 2 ^ e0 \<ge> 2 ^ 53 * d then e0 - 1 else e0);
               q = n * 2 ^ e div d;
               r = n * 2 ^ e mod d
           in (if 2 * r > d \<or> (2 * r = d \<and> odd q) then q + 1 else q, e))"

record sampler =
  smp_num :: int
  smp_den :: int
  smp_seed_for :: "string \<Rightarrow> string \<Rightarrow> int \<Rightarrow> int"

definition sampler_ok :: "sampler \<Rightarrow> bool" where
  \<comment> \<open>the check of the constructor: a rate in the closed unit interval\<close>
  "sampler_ok s \<longleftrightarrow> 0 < smp_den s \<and> 0 \<le> smp_num s \<and> smp_num s \<le> smp_den s"

definition sample_identity :: "evt \<Rightarrow> string" where
  "sample_identity e =
     (let a = opt_or (ev_actor_id e) []; j = join '','' (ev_subject_ids e)
      in if a \<noteq> [] then a else if j \<noteq> [] then j else ''system'')"

definition keep :: "sampler \<Rightarrow> evt \<Rightarrow> string \<Rightarrow> bool" where
  "keep s e routed_mode =
     (if routed_mode \<in> {''deliberate'', ''reflect''} then True
      else let v = smp_seed_for s ''cognition.sample'' (sample_identity e) (ev_tick e);
               (m, x) = float_quotient (nat v) (2 ^ 64 - 1)
           in int m * smp_den s < smp_num s * 2 ^ x)"

definition routed_mode :: "payload \<Rightarrow> string" where
  \<comment> \<open>\<open>str(payload.get("routed_mode", "reflex"))\<close>; the text of a non-string is no known mode\<close>
  "routed_mode pl = (case dget pl ''routed_mode'' of None \<Rightarrow> ''reflex''
     | Some (JStr s) \<Rightarrow> s | Some _ \<Rightarrow> ''?'')"

section \<open>The log\<close>

record log_env =
  env_sha :: "string \<Rightarrow> string"
  env_registry :: kind_registry
  env_schema :: "json \<Rightarrow> payload \<Rightarrow> (string \<times> string) option"
  env_validate :: bool
  env_sampler :: "sampler option"

record event_log =
  el_run_id :: uuid
  el_last_seq :: int
  el_chain_hash :: string
  el_staged :: "evt list"
  el_dropped :: int
  el_rollback_seq :: int
  el_rollback_hash :: string
  el_batch_token :: nat

definition init_log :: "uuid \<Rightarrow> int \<Rightarrow> string \<Rightarrow> event_log" where
  "init_log run start_seq start_prev_hash =
     \<lparr>el_run_id = run, el_last_seq = start_seq, el_chain_hash = start_prev_hash, el_staged = [],
      el_dropped = 0, el_rollback_seq = start_seq, el_rollback_hash = start_prev_hash,
      el_batch_token = 0\<rparr>"

definition unsealed :: "draft \<Rightarrow> int \<Rightarrow> uuid \<Rightarrow> int \<Rightarrow> datetime \<Rightarrow> string \<Rightarrow> evt" where
  \<comment> \<open>an event with an empty hash: an ephemeral one, or a candidate for sampling\<close>
  "unsealed d seq run tick sim prev = \<lparr>ev_seq = seq, ev_run_id = run, ev_tick = tick,
     ev_sim_time = sim, ev_kind = ne_kind d, ev_actor_id = ne_actor_id d,
     ev_subject_ids = sort (ne_subject_ids d), ev_cause_seq = ne_cause_seq d,
     ev_payload = ne_payload d, ev_sig = ne_sig d, ev_prev_hash = prev, ev_hash = []\<rparr>"

definition stage_sealed :: "log_env \<Rightarrow> draft \<Rightarrow> int \<Rightarrow> datetime \<Rightarrow> event_log \<Rightarrow> log_error + evt \<times> event_log" where
  \<comment> \<open>\<open>_last_seq\<close> is advanced before sealing, so a failed seal leaves the number consumed\<close>
  "stage_sealed env d tick sim l =
     (case seal (env_sha env) d (el_last_seq l + 1) (el_run_id l) tick sim (el_chain_hash l) of
        Inl e \<Rightarrow> Inl (LogHash e)
      | Inr e \<Rightarrow> Inr (e, l\<lparr>el_last_seq := el_last_seq l + 1, el_chain_hash := ev_hash e,
                            el_staged := el_staged l @ [e]\<rparr>))"

definition dropped_by_sampler :: "log_env \<Rightarrow> kind_spec \<Rightarrow> evt \<Rightarrow> payload \<Rightarrow> bool" where
  "dropped_by_sampler env k candidate pl \<longleftrightarrow> ks_persistence k = Sampled
     \<and> opt_ex (\<lambda>s. \<not> keep s candidate (routed_mode pl)) (env_sampler env)"

definition stage :: "log_env \<Rightarrow> draft \<Rightarrow> int \<Rightarrow> datetime \<Rightarrow> event_log \<Rightarrow> log_error + evt \<times> event_log" where
  "stage env d tick sim l =
     res_bind (if env_validate env
               then validate_payload (env_schema env) (env_registry env) (ne_kind d) (ne_payload d)
               else Inr ()) (\<lambda>_.
     case is_ephemeral (ne_kind d) of Inl e \<Rightarrow> Inl (LogKind e)
     | Inr eph \<Rightarrow>
       if eph then
         (let e = unsealed d ephemeral_seq (el_run_id l) tick sim []
          in Inr (e, l\<lparr>el_staged := el_staged l @ [e]\<rparr>))
       else (case kind_spec_of (env_registry env) (ne_kind d) of Inl e \<Rightarrow> Inl (LogKind e)
         | Inr k \<Rightarrow>
           let candidate = unsealed d (el_last_seq l + 1) (el_run_id l) tick sim (el_chain_hash l)
           in if dropped_by_sampler env k candidate (ne_payload d)
              then Inr (candidate, l\<lparr>el_dropped := el_dropped l + 1\<rparr>)
              else stage_sealed env d tick sim l))"

definition stage_seal_failure :: "event_log \<Rightarrow> event_log" where
  \<comment> \<open>the log left behind when \<open>seal\<close> raises inside \<open>stage\<close>\<close>
  "stage_seal_failure l = l\<lparr>el_last_seq := el_last_seq l + 1\<rparr>"

record savepoint =
  sp_staged_len :: nat
  sp_last_seq :: int
  sp_chain_hash :: string
  sp_dropped :: int
  sp_token :: nat

definition savepoint_of :: "event_log \<Rightarrow> savepoint" where
  "savepoint_of l = \<lparr>sp_staged_len = length (el_staged l), sp_last_seq = el_last_seq l,
     sp_chain_hash = el_chain_hash l, sp_dropped = el_dropped l, sp_token = el_batch_token l\<rparr>"

definition rollback_to :: "savepoint \<Rightarrow> event_log \<Rightarrow> log_error + event_log" where
  "rollback_to sp l =
     (if sp_token sp \<noteq> el_batch_token l \<or> \<not> sp_staged_len sp \<le> length (el_staged l)
      then Inl BadSavepoint
      else Inr (l\<lparr>el_staged := take (sp_staged_len sp) (el_staged l), el_last_seq := sp_last_seq sp,
                  el_chain_hash := sp_chain_hash sp, el_dropped := sp_dropped sp\<rparr>))"

definition rollback :: "event_log \<Rightarrow> event_log" where
  "rollback l = l\<lparr>el_last_seq := el_rollback_seq l, el_chain_hash := el_rollback_hash l,
     el_staged := [], el_dropped := 0, el_batch_token := Suc (el_batch_token l)\<rparr>"

record commit_result =
  cr_tick :: int
  cr_persisted :: nat
  cr_ephemeral :: nat
  cr_dropped :: int
  cr_first_seq :: int
  cr_last_seq :: int
  cr_chain_hash :: string

definition persisted_events :: "evt list \<Rightarrow> evt list" where
  "persisted_events es = filter (\<lambda>e. ev_seq e \<noteq> ephemeral_seq) es"

definition ephemeral_events :: "evt list \<Rightarrow> evt list" where
  "ephemeral_events es = filter (\<lambda>e. ev_seq e = ephemeral_seq) es"

definition commit_state :: "event_log \<Rightarrow> event_log" where
  "commit_state l = l\<lparr>el_staged := [], el_dropped := 0, el_rollback_seq := el_last_seq l,
     el_rollback_hash := el_chain_hash l, el_batch_token := Suc (el_batch_token l)\<rparr>"

definition commit ::
    "(evt list \<Rightarrow> 's \<Rightarrow> bool \<times> 's) \<Rightarrow> (evt list \<Rightarrow> 's \<Rightarrow> bool \<times> 's) \<Rightarrow> int \<Rightarrow> event_log \<Rightarrow> 's
       \<Rightarrow> (log_error + commit_result) \<times> event_log \<times> 's" where
  \<comment> \<open>\<open>sink_append\<close> and \<open>publish\<close> are the sinks: False stands for an exception, which \<open>commit\<close> re-raises
      after rolling the log back\<close>
  "commit sink_append publish tick l s =
     (let persisted = persisted_events (el_staged l);
          (ok, s1) = sink_append persisted s
      in if \<not> ok then (Inl SinkFailed, rollback l, s1)
         else let (ok2, s2) = publish (ephemeral_events (el_staged l)) s1
              in if \<not> ok2 then (Inl SinkFailed, rollback l, s2)
                 else (Inr \<lparr>cr_tick = tick, cr_persisted = length persisted,
                          cr_ephemeral = length (ephemeral_events (el_staged l)),
                          cr_dropped = el_dropped l,
                          cr_first_seq = (case persisted of [] \<Rightarrow> el_last_seq l | e # _ \<Rightarrow> ev_seq e),
                          cr_last_seq = el_last_seq l, cr_chain_hash = el_chain_hash l\<rparr>,
                       commit_state l, s2))"

definition memory_append :: "evt list \<Rightarrow> evt list \<Rightarrow> bool \<times> evt list" where
  \<comment> \<open>\<open>MemoryEventSink.append\<close>\<close>
  "memory_append es store = (True, store @ es)"

definition null_publish :: "evt list \<Rightarrow> 's \<Rightarrow> bool \<times> 's" where
  \<comment> \<open>\<open>NullEphemeralSink.publish\<close>\<close>
  "null_publish es s = (True, s)"

end
