(* ===== verification/Event_Verify.thy ===== *)
theory Event_Verify
  imports Event_Log
begin

text \<open>
  Reading and checking the log: \<open>polis/events/verify.py\<close>, \<open>reader.py\<close> (the in-memory reader; its
  \<open>sink.events\<close> is the list of stored events) and \<open>causal.py\<close>, which takes the reader's
  operations as arguments.
\<close>

section \<open>Chain verification\<close>

datatype failure_reason =
    Hash_Mismatch | Prev_Hash_Mismatch | Seq_Gap | Schema_Invalid | Tick_Regression

record chain_failure =
  cf_seq :: int
  cf_kind :: int
  cf_reason :: failure_reason
  cf_expected :: string
  cf_actual :: string

record chain_report =
  rp_run_id :: uuid
  rp_events_checked :: nat
  rp_first_seq :: int
  rp_last_seq :: int
  rp_terminal_hash :: string
  rp_ok :: bool
  rp_signatures_verified :: nat
  rp_unknown_kinds :: "int list"
  rp_failures :: "chain_failure list"

record verify_state =
  vs_failures :: "chain_failure list"
  vs_hash :: string
  vs_seq :: int
  vs_tick :: int

definition mk_failure :: "evt \<Rightarrow> failure_reason \<Rightarrow> string \<Rightarrow> string \<Rightarrow> chain_failure" where
  "mk_failure e reason expected actual = \<lparr>cf_seq = ev_seq e, cf_kind = ev_kind e,
     cf_reason = reason, cf_expected = expected, cf_actual = actual\<rparr>"

definition schema_error_text :: "int \<Rightarrow> string \<Rightarrow> string \<Rightarrow> string" where
  "schema_error_text kind path msg =
     ''kind '' @ str_int kind @ '' payload at '' @ (if path = [] then ''<root>'' else path) @ '': '' @ msg"

definition schema_failures :: "log_env \<Rightarrow> evt \<Rightarrow> log_error + chain_failure list" where
  \<comment> \<open>only \<open>PayloadSchemaError\<close> is caught: an unknown kind raises through\<close>
  "schema_failures env e =
     (case validate_payload (env_schema env) (env_registry env) (ev_kind e) (ev_payload e) of
        Inr _ \<Rightarrow> Inr []
      | Inl (LogSchema kind path msg) \<Rightarrow>
          Inr [mk_failure e Schema_Invalid ''valid'' (schema_error_text kind path msg)]
      | Inl err \<Rightarrow> Inl err)"

definition verify_one :: "log_env \<Rightarrow> evt \<Rightarrow> verify_state \<Rightarrow> log_error + verify_state" where
  "verify_one env e s =
     (case recompute (env_sha env) e of Inl err \<Rightarrow> Inl (LogHash err)
      | Inr expected \<Rightarrow>
        res_map (\<lambda>schema. \<lparr>vs_failures = vs_failures s
              @ (if ev_seq e \<noteq> vs_seq s + 1
                 then [mk_failure e Seq_Gap (str_int (vs_seq s + 1)) (str_int (ev_seq e))] else [])
              @ (if ev_prev_hash e \<noteq> vs_hash s
                 then [mk_failure e Prev_Hash_Mismatch (vs_hash s) (ev_prev_hash e)] else [])
              @ (if expected \<noteq> ev_hash e
                 then [mk_failure e Hash_Mismatch expected (ev_hash e)] else [])
              @ (if ev_tick e < vs_tick s
                 then [mk_failure e Tick_Regression (str_int (vs_tick s)) (str_int (ev_tick e))] else [])
              @ schema,
            vs_hash = ev_hash e, vs_seq = ev_seq e, vs_tick = ev_tick e\<rparr>)
          (schema_failures env e))"

definition verify_batch :: "log_env \<Rightarrow> evt list \<Rightarrow> string \<Rightarrow> int \<Rightarrow> log_error + chain_report" where
  "verify_batch env events start_prev_hash start_seq =
     res_map (\<lambda>s. \<lparr>rp_run_id = (case events of [] \<Rightarrow> 0 | e # _ \<Rightarrow> ev_run_id e),
          rp_events_checked = length events,
          rp_first_seq = (case events of [] \<Rightarrow> start_seq | e # _ \<Rightarrow> ev_seq e),
          rp_last_seq = (if events = [] then start_seq else ev_seq (last events)),
          rp_terminal_hash = vs_hash s, rp_ok = (vs_failures s = []), rp_signatures_verified = 0,
          rp_unknown_kinds = [], rp_failures = vs_failures s\<rparr>)
       (fold_res (verify_one env) events
          \<lparr>vs_failures = [], vs_hash = start_prev_hash, vs_seq = start_seq, vs_tick = -1\<rparr>)"

section \<open>The in-memory reader\<close>

record event_query =
  q_run_id :: uuid
  q_kinds :: "int list option"
  q_kind_range :: "(int \<times> int) option"
  q_actor_id :: "string option"
  q_subject_id :: "string option"
  q_from_tick :: "int option"
  q_to_tick :: "int option"
  q_from_seq :: "int option"
  q_to_seq :: "int option"
  q_descending :: bool
  q_limit :: "int option"

definition query_of_run :: "uuid \<Rightarrow> event_query" where
  "query_of_run run = \<lparr>q_run_id = run, q_kinds = None, q_kind_range = None, q_actor_id = None,
     q_subject_id = None, q_from_tick = None, q_to_tick = None, q_from_seq = None, q_to_seq = None,
     q_descending = False, q_limit = None\<rparr>"

primrec absent_or :: "('a \<Rightarrow> bool) \<Rightarrow> 'a option \<Rightarrow> bool" where
  "absent_or P None = True"
| "absent_or P (Some x) = P x"

definition matches :: "event_query \<Rightarrow> evt \<Rightarrow> bool" where
  "matches q e \<longleftrightarrow> ev_run_id e = q_run_id q
     \<and> absent_or (\<lambda>ks. ev_kind e \<in> set ks) (q_kinds q)
     \<and> absent_or (\<lambda>(lo, hi). lo \<le> ev_kind e \<and> ev_kind e \<le> hi) (q_kind_range q)
     \<and> absent_or (\<lambda>a. ev_actor_id e = Some a) (q_actor_id q)
     \<and> absent_or (\<lambda>s. s \<in> set (ev_subject_ids e)) (q_subject_id q)
     \<and> absent_or (\<lambda>t. t \<le> ev_tick e) (q_from_tick q)
     \<and> absent_or (\<lambda>t. ev_tick e \<le> t) (q_to_tick q)
     \<and> absent_or (\<lambda>s. s \<le> ev_seq e) (q_from_seq q)
     \<and> absent_or (\<lambda>s. ev_seq e \<le> s) (q_to_seq q)"

definition reader_filtered :: "evt list \<Rightarrow> event_query \<Rightarrow> evt list" where
  \<comment> \<open>\<open>_filtered\<close>; a reversed Python sort is stable too\<close>
  "reader_filtered store q =
     (let found = filter (matches q) store;
          values = (if q_descending q then rev (sort_key ev_seq (rev found)) else sort_key ev_seq found)
      in case q_limit q of None \<Rightarrow> values | Some k \<Rightarrow> py_prefix values k)"

definition reader_get :: "evt list \<Rightarrow> uuid \<Rightarrow> int \<Rightarrow> evt option" where
  "reader_get store run seq = find (\<lambda>e. ev_run_id e = run \<and> ev_seq e = seq) store"

definition reader_count :: "evt list \<Rightarrow> event_query \<Rightarrow> nat" where
  "reader_count store q = length (reader_filtered store q)"

fun max_by_seq :: "evt list \<Rightarrow> evt option" where
  \<comment> \<open>\<open>max(..., key=seq, default=None)\<close>: the first of the greatest\<close>
  "max_by_seq [] = None"
| "max_by_seq (e # es) = (case max_by_seq es of None \<Rightarrow> Some e
     | Some m \<Rightarrow> if ev_seq m \<le> ev_seq e then Some e else Some m)"

definition reader_last :: "evt list \<Rightarrow> uuid \<Rightarrow> evt option" where
  "reader_last store run = max_by_seq (filter (\<lambda>e. ev_run_id e = run) store)"

definition reader_by_cause :: "evt list \<Rightarrow> uuid \<Rightarrow> int \<Rightarrow> evt list" where
  "reader_by_cause store run cause =
     sort_key ev_seq (filter (\<lambda>e. ev_run_id e = run \<and> ev_cause_seq e = Some cause) store)"

definition verify_run :: "log_env \<Rightarrow> evt list \<Rightarrow> uuid \<Rightarrow> int \<Rightarrow> log_error + chain_report" where
  \<comment> \<open>the start hash stays the genesis hash whatever \<open>from_seq\<close> is\<close>
  "verify_run env store run from_seq =
     verify_batch env
       (reader_filtered store (query_of_run run\<lparr>q_from_seq := (if from_seq = 0 then None else Some from_seq)\<rparr>))
       genesis_prev_hash (max 0 (from_seq - 1))"

section \<open>Causal chains\<close>

function ancestors_loop :: "(int \<Rightarrow> evt option) \<Rightarrow> int \<Rightarrow> int list \<Rightarrow> evt list \<Rightarrow> evt option \<Rightarrow> evt list" where
  "ancestors_loop get max_depth seen result current =
     (case current of None \<Rightarrow> result
      | Some e \<Rightarrow>
          if ev_seq e \<notin> set seen \<and> int (length result) \<le> max_depth
          then ancestors_loop get max_depth (ev_seq e # seen) (result @ [e])
                 (case ev_cause_seq e of None \<Rightarrow> None | Some c \<Rightarrow> get c)
          else result)"
  by pat_completeness auto
termination
  by (relation "measure (\<lambda>(get, d, seen, result, cur). nat (d + 1 - int (length result)))") auto

declare ancestors_loop.simps [simp del]

definition ancestors :: "(int \<Rightarrow> evt option) \<Rightarrow> int \<Rightarrow> int \<Rightarrow> evt list" where
  "ancestors get seq max_depth = ancestors_loop get max_depth [] [] (get seq)"

record causal_node =
  cn_event :: evt
  cn_depth :: nat
  cn_children :: "int list"

function descendants_loop ::
    "(int \<Rightarrow> evt list) \<Rightarrow> int \<Rightarrow> int \<Rightarrow> (evt \<times> nat) list \<Rightarrow> causal_node list \<Rightarrow> causal_node list" where
  "descendants_loop by_cause max_depth max_nodes queue result =
     (case queue of [] \<Rightarrow> result
      | (e, depth) # rest \<Rightarrow>
          if int (length result) < max_nodes
          then (let children = by_cause (ev_seq e);
                    queue' = (if int depth < max_depth
                      then sort_key (\<lambda>(c, d). (d, ev_seq c)) (rest @ map (\<lambda>c. (c, depth + 1)) children)
                      else rest)
                in descendants_loop by_cause max_depth max_nodes queue'
                     (result @ [\<lparr>cn_event = e, cn_depth = depth, cn_children = map ev_seq children\<rparr>]))
          else result)"
  by pat_completeness auto
termination
  by (relation "measure (\<lambda>(by_cause, d, n, queue, result). nat (n - int (length result)))")
     (auto simp: Let_def)

declare descendants_loop.simps [simp del]

definition descendants ::
    "(int \<Rightarrow> evt option) \<Rightarrow> (int \<Rightarrow> evt list) \<Rightarrow> int \<Rightarrow> int \<Rightarrow> int \<Rightarrow> causal_node list" where
  "descendants get by_cause seq max_depth max_nodes =
     (case get seq of None \<Rightarrow> []
      | Some root \<Rightarrow> descendants_loop by_cause max_depth max_nodes [(root, 0)] [])"

record explanation =
  ex_event :: "evt option"
  ex_ancestors :: "evt list"
  ex_root :: "evt option"
  ex_depth :: nat
  ex_truncated :: bool

definition explain :: "(int \<Rightarrow> evt option) \<Rightarrow> int \<Rightarrow> int \<Rightarrow> explanation" where
  "explain get seq max_depth =
     (let chain = ancestors get seq max_depth
      in \<lparr>ex_event = (case chain of [] \<Rightarrow> None | e # _ \<Rightarrow> Some e), ex_ancestors = drop 1 chain,
          ex_root = (if chain = [] then None else Some (last chain)), ex_depth = length chain - 1,
          ex_truncated = (int (length chain) > max_depth)\<rparr>)"

definition has_ancestor_in_range :: "evt list \<Rightarrow> int \<Rightarrow> int \<Rightarrow> bool" where
  "has_ancestor_in_range chain lo hi = list_ex (\<lambda>e. lo \<le> ev_kind e \<and> ev_kind e \<le> hi) chain"

end
