(* ===== verification/Event_Props.thy ===== *)
theory Event_Props
  imports Event_Verify
begin

text \<open>
  The contract of the event log and its consequences: what a chained list of events is, what a
  sink promises (locale \<open>event_sink\<close>), the transitions of a log with its live save points, and the
  invariant they keep.
\<close>

section \<open>Chained events\<close>

definition chained :: "string \<Rightarrow> int \<Rightarrow> evt list \<Rightarrow> bool" where
  \<comment> \<open>sequence numbers without gaps, and every event carries the hash of the one before it\<close>
  "chained prev seq es \<longleftrightarrow>
     map ev_seq es = map (\<lambda>i. seq + 1 + int i) [0..<length es]
     \<and> map ev_prev_hash es = butlast (prev # map ev_hash es)"

definition tip :: "string \<Rightarrow> evt list \<Rightarrow> string" where
  "tip prev es = last (prev # map ev_hash es)"

definition sealed_by :: "(string \<Rightarrow> string) \<Rightarrow> evt \<Rightarrow> bool" where
  "sealed_by sha e \<longleftrightarrow> verify_event sha e = Inr True"

definition payload_ok :: "log_env \<Rightarrow> evt \<Rightarrow> bool" where
  "payload_ok env e \<longleftrightarrow>
     validate_payload (env_schema env) (env_registry env) (ev_kind e) (ev_payload e) = Inr ()"

lemma chained_Nil [simp]: "chained prev seq []"
  by (simp add: chained_def)

lemma upt_shift_int: "map (\<lambda>i. s + 1 + int i) [0..<Suc n] = (s + 1) # map (\<lambda>i. (s + 1) + 1 + int i) [0..<n]"
proof -
  have "[0..<Suc n] = 0 # map Suc [0..<n]" by (simp add: map_Suc_upt upt_conv_Cons del: upt_Suc)
  then show ?thesis by (simp add: o_def del: upt_Suc)
qed

lemma chained_Cons [simp]:
  "chained prev seq (e # es) \<longleftrightarrow>
     ev_seq e = seq + 1 \<and> ev_prev_hash e = prev \<and> chained (ev_hash e) (seq + 1) es"
  unfolding chained_def by (simp only: list.size add.right_neutral add_Suc_right upt_shift_int) auto

lemma tip_Nil [simp]: "tip prev [] = prev"
  by (simp add: tip_def)

lemma tip_Cons [simp]: "tip prev (e # es) = tip (ev_hash e) es"
  by (simp add: tip_def)

lemma chained_append [simp]:
  "chained prev seq (xs @ ys) \<longleftrightarrow>
     chained prev seq xs \<and> chained (tip prev xs) (seq + int (length xs)) ys"
  by (induction xs arbitrary: prev seq) (auto simp: algebra_simps)

lemma tip_append [simp]: "tip prev (xs @ ys) = tip (tip prev xs) ys"
  by (induction xs arbitrary: prev) auto

lemma chained_seqs_distinct: "chained prev seq es \<Longrightarrow> distinct (map ev_seq es)"
  by (auto simp: chained_def distinct_map inj_on_def)

lemma chained_seq_nth: "chained prev seq es \<Longrightarrow> i < length es \<Longrightarrow> ev_seq (es ! i) = seq + 1 + int i"
proof (induction es arbitrary: prev seq i)
  case (Cons e es)
  then show ?case by (cases i) auto
qed simp

section \<open>What staging produces\<close>

lemma canonical_bytes_sorted:
  "canonical_event_bytes seq run tick sim kind actor (sort subjects) cause pl sg prev
     = canonical_event_bytes seq run tick sim kind actor subjects cause pl sg prev"
  by (simp add: canonical_event_bytes_def sort_key_id_if_sorted)

lemma sealed_by_seal: "seal sha d seq run tick sim prev = Inr e \<Longrightarrow> sealed_by sha e"
  by (auto simp: seal_def sealed_by_def verify_event_def recompute_def event_bytes_def res_simps
      canonical_bytes_sorted)

lemma seal_fields:
  "seal sha d seq run tick sim prev = Inr e \<Longrightarrow>
     ev_seq e = seq \<and> ev_prev_hash e = prev \<and> ev_tick e = tick \<and> ev_run_id e = run
     \<and> ev_kind e = ne_kind d \<and> ev_payload e = ne_payload d"
  by (auto simp: seal_def res_simps)

lemma seal_seq_nonneg: "seal sha d seq run tick sim prev = Inr e \<Longrightarrow> 0 \<le> seq"
  by (auto simp: seal_def res_simps canonical_event_bytes_def to_bytes_def split: if_splits)

text \<open>The outcomes of a successful \<open>stage\<close>: an ephemeral event, a dropped sample, a sealed event.\<close>

lemma stage_InrE:
  assumes "stage env d tick sim l = Inr (e, l')"
  obtains
    (ephemeral) "is_ephemeral (ne_kind d) = Inr True" "ev_seq e = ephemeral_seq"
      "l' = l\<lparr>el_staged := el_staged l @ [e]\<rparr>"
  | (dropped) "l' = l\<lparr>el_dropped := el_dropped l + 1\<rparr>"
  | (sealed) "is_ephemeral (ne_kind d) = Inr False"
      "seal (env_sha env) d (el_last_seq l + 1) (el_run_id l) tick sim (el_chain_hash l) = Inr e"
      "l' = l\<lparr>el_last_seq := el_last_seq l + 1, el_chain_hash := ev_hash e, el_staged := el_staged l @ [e]\<rparr>"
      "env_validate env \<longrightarrow> payload_ok env e"
proof (cases "is_ephemeral (ne_kind d)")
  case (Inr eph)
  show thesis
  proof (cases eph)
    case True
    then show thesis using assms Inr
      by (intro ephemeral) (auto simp: stage_def res_simps unsealed_def Let_def split: if_splits)
  next
    case False
    with assms Inr obtain k where "kind_spec_of (env_registry env) (ne_kind d) = Inr k"
      by (auto simp: stage_def res_simps split: sum.splits if_splits)
    with assms Inr False show thesis
      apply (auto simp: stage_def res_simps Let_def stage_sealed_def intro: dropped
          split: if_splits sum.splits)
       apply (rule sealed; auto simp: payload_ok_def dest: seal_fields)+
      done
  qed
qed (use assms in \<open>auto simp: stage_def res_simps split: if_splits\<close>)

lemma rollback_simps [simp]:
  "el_staged (rollback l) = []" "el_last_seq (rollback l) = el_rollback_seq l"
  "el_chain_hash (rollback l) = el_rollback_hash l" "el_rollback_seq (rollback l) = el_rollback_seq l"
  "el_rollback_hash (rollback l) = el_rollback_hash l"
  "rollback (stage_seal_failure l) = rollback l"
  by (simp_all add: rollback_def stage_seal_failure_def)

lemma persisted_append [simp]:
  "persisted_events (xs @ ys) = persisted_events xs @ persisted_events ys"
  "persisted_events [] = []"
  by (simp_all add: persisted_events_def)

section \<open>The transitions of a log\<close>

type_synonym 's log_state = "event_log \<times> 's \<times> savepoint list"
  \<comment> \<open>the log, what the sink holds, and the save points of the current batch, latest first\<close>

inductive log_step ::
    "log_env \<Rightarrow> (evt list \<Rightarrow> 's \<Rightarrow> bool \<times> 's) \<Rightarrow> (evt list \<Rightarrow> 's \<Rightarrow> bool \<times> 's)
       \<Rightarrow> 's log_state \<Rightarrow> 's log_state \<Rightarrow> bool"
  for env sink_append publish where
  stage: "stage env d tick sim l = Inr (e, l') \<Longrightarrow>
     log_step env sink_append publish (l, s, sps) (l', s, sps)"
| seal_failure: "stage env d tick sim l = Inl (LogHash err) \<Longrightarrow>
     log_step env sink_append publish (l, s, sps) (rollback (stage_seal_failure l), s, [])"
| seal_failure_back: "stage env d tick sim l = Inl (LogHash err) \<Longrightarrow> i < length sps \<Longrightarrow>
     rollback_to (sps ! i) (stage_seal_failure l) = Inr l' \<Longrightarrow>
     log_step env sink_append publish (l, s, sps) (l', s, drop i sps)"
| save: "log_step env sink_append publish (l, s, sps) (l, s, savepoint_of l # sps)"
| restore: "i < length sps \<Longrightarrow> rollback_to (sps ! i) l = Inr l' \<Longrightarrow>
     log_step env sink_append publish (l, s, sps) (l', s, drop i sps)"
| abandon: "log_step env sink_append publish (l, s, sps) (rollback l, s, [])"
| commit: "commit sink_append publish tick l s = (r, l', s') \<Longrightarrow>
     log_step env sink_append publish (l, s, sps) (l', s', [])"

inductive log_reachable ::
    "log_env \<Rightarrow> (evt list \<Rightarrow> 's \<Rightarrow> bool \<times> 's) \<Rightarrow> (evt list \<Rightarrow> 's \<Rightarrow> bool \<times> 's)
       \<Rightarrow> 's log_state \<Rightarrow> 's log_state \<Rightarrow> bool"
  for env sink_append publish x0 where
  start: "log_reachable env sink_append publish x0 x0"
| step: "log_reachable env sink_append publish x0 x \<Longrightarrow> log_step env sink_append publish x y \<Longrightarrow>
     log_reachable env sink_append publish x0 y"

inductive_cases log_stepE: "log_step env sink_append publish (l, s, sps) y"

section \<open>The invariant\<close>

definition event_good :: "log_env \<Rightarrow> evt \<Rightarrow> bool" where
  "event_good env e \<longleftrightarrow> sealed_by (env_sha env) e \<and> (env_validate env \<longrightarrow> payload_ok env e)"

definition chain_at :: "log_env \<Rightarrow> string \<Rightarrow> int \<Rightarrow> evt list \<Rightarrow> int \<Rightarrow> string \<Rightarrow> bool" where
  "chain_at env prev seq es last_seq hash \<longleftrightarrow>
     chained prev seq es \<and> list_all (event_good env) es
     \<and> last_seq = seq + int (length es) \<and> hash = tip prev es"

definition savepoint_good :: "log_env \<Rightarrow> string \<Rightarrow> int \<Rightarrow> evt list \<Rightarrow> event_log \<Rightarrow> savepoint \<Rightarrow> bool" where
  "savepoint_good env prev seq store l sp \<longleftrightarrow>
     sp_token sp = el_batch_token l \<and> sp_staged_len sp \<le> length (el_staged l)
     \<and> chain_at env prev seq (store @ persisted_events (take (sp_staged_len sp) (el_staged l)))
         (sp_last_seq sp) (sp_chain_hash sp)"

definition log_inv :: "log_env \<Rightarrow> string \<Rightarrow> int \<Rightarrow> evt list \<Rightarrow> event_log \<Rightarrow> savepoint list \<Rightarrow> bool" where
  "log_inv env prev seq store l sps \<longleftrightarrow>
     chain_at env prev seq (store @ persisted_events (el_staged l)) (el_last_seq l) (el_chain_hash l)
     \<and> chain_at env prev seq store (el_rollback_seq l) (el_rollback_hash l)
     \<and> list_all (savepoint_good env prev seq store l) sps
     \<and> sorted_wrt (\<lambda>a b. sp_staged_len b \<le> sp_staged_len a) sps"

lemma log_inv_init: "log_inv env prev seq [] (init_log run seq prev) []"
  by (simp add: log_inv_def init_log_def chain_at_def)

lemma savepoint_good_extend:
  "savepoint_good env prev seq store l sp \<Longrightarrow> el_batch_token l' = el_batch_token l \<Longrightarrow>
     el_staged l' = el_staged l @ es \<Longrightarrow> savepoint_good env prev seq store l' sp"
  by (simp add: savepoint_good_def)

lemma log_inv_stage:
  assumes inv: "log_inv env prev seq store l sps" and seq: "0 \<le> seq"
    and st: "stage env d tick sim l = Inr (e, l')"
  shows "log_inv env prev seq store l' sps"
  using st
proof (cases rule: stage_InrE)
  case ephemeral
  then have "persisted_events [e] = []" by (simp add: persisted_events_def)
  with ephemeral inv show ?thesis
    by (auto simp: log_inv_def list_all_iff savepoint_good_def)
next
  case dropped
  with inv show ?thesis by (auto simp: log_inv_def list_all_iff savepoint_good_def)
next
  case sealed
  have "0 \<le> el_last_seq l + 1" using sealed(2) by (rule seal_seq_nonneg)
  then have p: "persisted_events [e] = [e]" using seal_fields[OF sealed(2)]
    by (simp add: persisted_events_def ephemeral_seq_def)
  have "event_good env e" using sealed_by_seal[OF sealed(2)] sealed(4) by (simp add: event_good_def)
  with p sealed(3) inv seal_fields[OF sealed(2)] show ?thesis
    by (auto simp: log_inv_def list_all_iff savepoint_good_def chain_at_def)
qed

lemma rollback_to_InrD:
  "rollback_to sp l = Inr l' \<Longrightarrow> l' = l\<lparr>el_staged := take (sp_staged_len sp) (el_staged l),
     el_last_seq := sp_last_seq sp, el_chain_hash := sp_chain_hash sp, el_dropped := sp_dropped sp\<rparr>"
  by (auto simp: rollback_to_def split: if_splits)

lemma log_inv_rollback: "log_inv env prev seq store l sps \<Longrightarrow> log_inv env prev seq store (rollback l) []"
  by (simp add: log_inv_def)

lemma log_inv_back:
  assumes inv: "log_inv env prev seq store l sps" and i: "i < length sps"
    and rb: "rollback_to (sps ! i) l' = Inr l''" and l': "el_staged l' = el_staged l"
      "el_rollback_seq l' = el_rollback_seq l" "el_rollback_hash l' = el_rollback_hash l"
      "el_batch_token l' = el_batch_token l"
  shows "log_inv env prev seq store l'' (drop i sps)"
proof -
  let ?sp = "sps ! i"
  note l'' = rollback_to_InrD[OF rb]
  have g: "savepoint_good env prev seq store l ?sp" using inv i by (simp add: log_inv_def list_all_length)
  have live: "savepoint_good env prev seq store l'' sp" if "sp \<in> set (drop i sps)" for sp
  proof -
    from that i obtain j where j: "i \<le> j" "j < length sps" "sp = sps ! j"
      by (metis in_set_conv_nth le_add1 length_drop less_diff_conv nth_drop add.commute less_imp_le_nat)
    have "sp_staged_len sp \<le> sp_staged_len ?sp"
      using inv j by (cases "i = j") (auto simp: log_inv_def sorted_wrt_iff_nth_less)
    moreover have "savepoint_good env prev seq store l sp"
      using inv j by (simp add: log_inv_def list_all_length)
    ultimately show ?thesis using g by (simp add: savepoint_good_def l'' l' min_absorb1)
  qed
  have "sorted_wrt (\<lambda>a b. sp_staged_len b \<le> sp_staged_len a) (drop i sps)"
    using inv by (simp add: log_inv_def sorted_wrt_drop)
  moreover have "chain_at env prev seq (store @ persisted_events (el_staged l'')) (el_last_seq l'') (el_chain_hash l'')"
    using g by (simp add: l'' l' savepoint_good_def)
  moreover have "chain_at env prev seq store (el_rollback_seq l'') (el_rollback_hash l'')"
    using inv by (simp add: l'' l' log_inv_def)
  ultimately show ?thesis using live unfolding log_inv_def list_all_iff by blast
qed

lemma log_inv_save: "log_inv env prev seq store l sps \<Longrightarrow> log_inv env prev seq store l (savepoint_of l # sps)"
  by (auto simp: log_inv_def savepoint_good_def savepoint_of_def list_all_iff)

section \<open>The contract of a sink\<close>

text \<open>
  \<open>EventSink.append\<close> stores all of the events or none of them, and the ephemeral sink, which
  \<open>commit\<close> calls after the events are stored, does not fail: a failure there would roll the log
  back while the store keeps the events.
\<close>

locale event_sink =
  fixes sink_append publish :: "evt list \<Rightarrow> 's \<Rightarrow> bool \<times> 's"
    and stored :: "'s \<Rightarrow> evt list"
  assumes append_done: "fst (sink_append es s) \<Longrightarrow> stored (snd (sink_append es s)) = stored s @ es"
    and append_refused: "\<not> fst (sink_append es s) \<Longrightarrow> stored (snd (sink_append es s)) = stored s"
    and publish_done: "fst (publish es s)"
    and publish_stored: "stored (snd (publish es s)) = stored s"
begin

lemma commit_cases:
  assumes "commit sink_append publish tick l s = (r, l', s')"
  obtains (accepted) cr where "r = Inr cr" "l' = commit_state l"
      "stored s' = stored s @ persisted_events (el_staged l)"
  | (refused) "r = Inl SinkFailed" "l' = rollback l" "stored s' = stored s"
proof (cases "fst (sink_append (persisted_events (el_staged l)) s)")
  case True
  then show thesis
    using assms append_done[OF True]
      publish_done[of "ephemeral_events (el_staged l)" "snd (sink_append (persisted_events (el_staged l)) s)"]
      publish_stored[of "ephemeral_events (el_staged l)" "snd (sink_append (persisted_events (el_staged l)) s)"]
    by (intro accepted) (auto simp: commit_def Let_def split: prod.splits if_splits)
next
  case False
  then show thesis using assms append_refused[OF False]
    by (intro refused) (auto simp: commit_def Let_def split: prod.splits)
qed

lemma log_inv_commit:
  assumes "log_inv env prev seq (stored s) l sps" "commit sink_append publish tick l s = (r, l', s')"
  shows "log_inv env prev seq (stored s') l' []"
  using assms(2)
proof (cases rule: commit_cases)
  case accepted
  with assms(1) show ?thesis by (simp add: log_inv_def commit_state_def)
next
  case refused
  with assms(1) show ?thesis by (simp add: log_inv_rollback)
qed

lemma log_inv_step:
  assumes inv: "log_inv env prev seq (stored s) l sps" and "0 \<le> seq"
    and st: "log_step env sink_append publish (l, s, sps) (l', s', sps')"
  shows "log_inv env prev seq (stored s') l' sps'"
  using st
proof (cases rule: log_step.cases)
  case (seal_failure_back d tick sim err i)
  with inv show ?thesis by (auto intro!: log_inv_back simp: stage_seal_failure_def)
qed (use assms log_inv_stage log_inv_rollback log_inv_back log_inv_save log_inv_commit in \<open>auto\<close>)

lemma reachable_inv:
  assumes "log_reachable env sink_append publish (init_log run seq prev, s0, []) (l, s, sps)"
    and "0 \<le> seq" "stored s0 = []"
  shows "log_inv env prev seq (stored s) l sps"
  using assms(1)
proof (induction "(l, s, sps)" arbitrary: l s sps rule: log_reachable.induct)
  case start
  then show ?case using assms(3) by (simp add: log_inv_init)
next
  case (step x)
  then show ?case using log_inv_step[OF _ assms(2)] by (cases x) auto
qed

end

interpretation mem: event_sink memory_append null_publish "\<lambda>s. s"
  by unfold_locales (simp_all add: memory_append_def null_publish_def)

end
