(* ===== verification/Event_Spec.thy ===== *)
theory Event_Spec
  imports Event_Props
begin

text \<open>
  What the event log promises: the verifier accepts exactly the well-chained logs, every store a
  log can write is accepted, a save point undoes what was staged after it, tampering needs a
  collision of the hash, and the causal queries return causal chains.
\<close>

section \<open>The verifier\<close>

lemma verify_one_clean:
  "verify_one env e s = Inr t \<Longrightarrow> vs_failures t = [] \<longleftrightarrow>
     vs_failures s = [] \<and> ev_seq e = vs_seq s + 1 \<and> ev_prev_hash e = vs_hash s
     \<and> sealed_by (env_sha env) e \<and> vs_tick s \<le> ev_tick e \<and> payload_ok env e"
  by (auto simp: verify_one_def sealed_by_def verify_event_def payload_ok_def schema_failures_def res_simps
      mk_failure_def split: sum.splits if_splits log_error.splits)

lemma verify_one_total:
  "sealed_by (env_sha env) e \<Longrightarrow> payload_ok env e \<Longrightarrow> \<exists>t. verify_one env e s = Inr t"
  by (auto simp: verify_one_def sealed_by_def verify_event_def payload_ok_def schema_failures_def res_simps
      split: sum.splits)

lemma verify_one_state:
  "verify_one env e s = Inr t \<Longrightarrow> vs_hash t = ev_hash e \<and> vs_seq t = ev_seq e \<and> vs_tick t = ev_tick e"
  by (auto simp: verify_one_def res_simps split: sum.splits)

lemma verify_fold_state:
  "fold_res (verify_one env) es s = Inr t \<Longrightarrow> vs_hash t = tip (vs_hash s) es"
  by (induction es arbitrary: s) (auto simp: res_simps dest: verify_one_state)

definition clean_from :: "log_env \<Rightarrow> string \<Rightarrow> int \<Rightarrow> int \<Rightarrow> evt list \<Rightarrow> bool" where
  "clean_from env prev seq tick es \<longleftrightarrow> chained prev seq es \<and> list_all (sealed_by (env_sha env)) es
     \<and> list_all (payload_ok env) es \<and> sorted (tick # map ev_tick es)"

lemma verify_fold_clean:
  "opt_ex (\<lambda>t. vs_failures t = []) (case fold_res (verify_one env) es s of Inr t \<Rightarrow> Some t | Inl _ \<Rightarrow> None)
     \<longleftrightarrow> vs_failures s = [] \<and> clean_from env (vs_hash s) (vs_seq s) (vs_tick s) es"
proof (induction es arbitrary: s)
  case Nil
  then show ?case by (simp add: clean_from_def)
next
  case (Cons e es)
  show ?case
  proof (cases "verify_one env e s")
    case (Inl err)
    then have "\<not> (sealed_by (env_sha env) e \<and> payload_ok env e)" using verify_one_total[of env e s] by auto
    with Inl show ?thesis by (auto simp: clean_from_def)
  next
    case (Inr t)
    with verify_one_clean[OF Inr] verify_one_state[OF Inr] Cons.IH[of t] show ?thesis
      by (auto simp: clean_from_def intro: order_trans)
  qed
qed

lemma verify_batch_clean:
  "(case verify_batch env es prev seq of Inl _ \<Rightarrow> False
      | Inr rep \<Rightarrow> rp_ok rep \<and> rp_terminal_hash rep = tip prev es \<and> rp_events_checked rep = length es)
   \<longleftrightarrow> clean_from env prev seq (-1) es"
proof -
  let ?s = "\<lparr>vs_failures = [], vs_hash = prev, vs_seq = seq, vs_tick = -1\<rparr>"
  have "(case verify_batch env es prev seq of Inl _ \<Rightarrow> False
      | Inr rep \<Rightarrow> rp_ok rep \<and> rp_terminal_hash rep = tip prev es \<and> rp_events_checked rep = length es)
    \<longleftrightarrow> opt_ex (\<lambda>t. vs_failures t = [])
       (case fold_res (verify_one env) es ?s of Inr t \<Rightarrow> Some t | Inl _ \<Rightarrow> None)"
    using verify_fold_state[of env es ?s] by (auto simp: verify_batch_def split: sum.splits)
  also have "\<dots> \<longleftrightarrow> clean_from env prev seq (-1) es" by (simp add: verify_fold_clean)
  finally show ?thesis .
qed


section \<open>A concrete log\<close>

definition toy_sha :: "string \<Rightarrow> string" where
  \<comment> \<open>64 hexadecimal digits, from the last byte of the sequence number and the length\<close>
  "toy_sha b = replicate 60 (CHR ''0'')
     @ (let n = of_char (b ! 7); m = length b
        in [hex_digit (n div 16), hex_digit (n mod 16), hex_digit (m div 16 mod 16), hex_digit (m mod 16)])"

definition demo_registry :: kind_registry where
  "demo_registry = \<lparr>reg_specs = [(1000, \<lparr>ks_kind = 1000, ks_name = ''tick.started'', ks_owner = ''polis.kernel'',
     ks_persistence = Persisted, ks_schema = JObj [], ks_description = []\<rparr>)],
     reg_names = [(''tick.started'', 1000)]\<rparr>"

definition demo_env :: log_env where
  "demo_env = \<lparr>env_sha = toy_sha, env_registry = demo_registry, env_schema = (\<lambda>_ _. None),
     env_validate = True, env_sampler = None\<rparr>"

definition demo_draft :: "int \<Rightarrow> draft" where
  "demo_draft n = \<lparr>ne_kind = 1000, ne_payload = [(''ok'', JBool True)], ne_actor_id = Some ''agt_1'',
     ne_subject_ids = [''b'', ''a''], ne_cause_seq = (if n = 0 then None else Some n), ne_sig = None\<rparr>"

definition demo_time :: datetime where
  "demo_time = \<lparr>dt_seconds = 3600, dt_micro = 0, dt_aware = False\<rparr>"

fun stage_all :: "log_env \<Rightarrow> (draft \<times> int \<times> datetime) list \<Rightarrow> event_log \<Rightarrow> log_error + event_log" where
  "stage_all env [] l = Inr l"
| "stage_all env ((d, tick, sim) # ds) l =
     (case stage env d tick sim l of Inl e \<Rightarrow> Inl e | Inr (e, l') \<Rightarrow> stage_all env ds l')"

definition demo_drafts :: "(draft \<times> int \<times> datetime) list" where
  "demo_drafts = [(demo_draft 0, 0, demo_time), (demo_draft 1, 1, demo_time)]"

definition demo_log :: event_log where
  "demo_log = projr (stage_all demo_env demo_drafts (init_log 7 0 genesis_prev_hash))"

definition demo_store :: "evt list" where
  "demo_store = el_staged demo_log"

lemma reachable_stage:
  "log_reachable env sa pb x0 (l, s, sps) \<Longrightarrow> stage env d tick sim l = Inr (e, l') \<Longrightarrow>
     log_reachable env sa pb x0 (l', s, sps)"
  by (erule log_reachable.step) (rule log_step.stage)

lemma reachable_stage_all:
  "log_reachable env sa pb x0 (l, s, sps) \<Longrightarrow> stage_all env ds l = Inr l' \<Longrightarrow>
     log_reachable env sa pb x0 (l', s, sps)"
  by (induction env ds l rule: stage_all.induct)
     (auto split: sum.splits dest: reachable_stage)

lemma commit_memory:
  "commit memory_append null_publish tick l s =
     (fst (commit memory_append null_publish tick l s), commit_state l, s @ persisted_events (el_staged l))"
  by (simp add: commit_def memory_append_def null_publish_def Let_def)

lemma demo_reachable:
  "log_reachable demo_env memory_append null_publish (init_log 7 0 genesis_prev_hash, [], [])
     (commit_state demo_log, demo_store, [])"
proof -
  have "is_ok (stage_all demo_env demo_drafts (init_log 7 0 genesis_prev_hash))" by code_simp
  then have "stage_all demo_env demo_drafts (init_log 7 0 genesis_prev_hash) = Inr demo_log"
    by (auto simp: is_ok_iff demo_log_def)
  from reachable_stage_all[OF log_reachable.start this]
  have r: "log_reachable demo_env memory_append null_publish (init_log 7 0 genesis_prev_hash, [], [])
     (demo_log, [], [])" .
  have "list_all (\<lambda>e. ev_seq e \<noteq> ephemeral_seq) demo_store" by code_simp
  then have "persisted_events (el_staged demo_log) = demo_store"
    by (simp add: persisted_events_def demo_store_def list_all_iff)
  with log_reachable.step[OF r log_step.commit[OF commit_memory]] show ?thesis by simp
qed



section \<open>Save points\<close>

lemma stage_grows:
  "stage env d tick sim l = Inr (e, l') \<Longrightarrow> el_batch_token l' = el_batch_token l
     \<and> el_run_id l' = el_run_id l \<and> el_rollback_seq l' = el_rollback_seq l
     \<and> el_rollback_hash l' = el_rollback_hash l \<and> (\<exists>es. el_staged l' = el_staged l @ es)"
  by (erule stage_InrE) auto

lemma stage_all_grows:
  "stage_all env ds l = Inr l' \<Longrightarrow> el_batch_token l' = el_batch_token l
     \<and> el_run_id l' = el_run_id l \<and> el_rollback_seq l' = el_rollback_seq l
     \<and> el_rollback_hash l' = el_rollback_hash l \<and> (\<exists>es. el_staged l' = el_staged l @ es)"
  by (induction ds arbitrary: l) (fastforce split: sum.splits dest!: stage_grows)+

text \<open>C26. Rolling back to a save point gives back exactly the log it was taken from, whatever was
  staged (sealed, ephemeral or dropped by the sampler) in between.\<close>

theorem rollback_to_restores:
  assumes "stage_all env ds l = Inr l'"
  shows "rollback_to (savepoint_of l) l' = Inr l"
  using stage_all_grows[OF assms] by (auto simp: rollback_to_def savepoint_of_def)

lemma rollback_to_restores_witness:
  "rollback_to (savepoint_of (init_log 7 0 genesis_prev_hash)) demo_log = Inr (init_log 7 0 genesis_prev_hash)
   \<and> length (el_staged demo_log) = 2"
proof -
  have "is_ok (stage_all demo_env demo_drafts (init_log 7 0 genesis_prev_hash))" by code_simp
  then have "stage_all demo_env demo_drafts (init_log 7 0 genesis_prev_hash) = Inr demo_log"
    by (auto simp: is_ok_iff demo_log_def)
  moreover have "length (el_staged demo_log) = 2" by code_simp
  ultimately show ?thesis using rollback_to_restores by blast
qed

section \<open>Tampering\<close>

definition is_lower_hex :: "char \<Rightarrow> bool" where
  "is_lower_hex c \<longleftrightarrow> c \<in> set ''0123456789abcdef''"

definition lower_hex :: "string \<Rightarrow> bool" where
  "lower_hex s \<longleftrightarrow> length s = 64 \<and> list_all is_lower_hex s"

lemma zeros_lower_hex: "list_all is_lower_hex (replicate n (CHR ''0''))"
  by (induction n) (auto simp: is_lower_hex_def)

definition hex_pair :: "char \<Rightarrow> string" where
  "hex_pair c = [hex_digit (of_char c div 16), hex_digit (of_char c mod 16)]"

lemma hex_char_cases:
  assumes "is_lower_hex c"
  obtains v where "\<not> is_space c" "hex_value c = Some v" "c = hex_digit v" "v < 16"
  using assms that by (auto simp: is_lower_hex_def is_space_def hex_value_def hex_digit_def Let_def)

lemma hex_pair_char: "h < 16 \<Longrightarrow> k < 16 \<Longrightarrow> hex_pair (char_of (16 * h + k)) = [hex_digit h, hex_digit k]"
  by (simp add: hex_pair_def)

lemma fromhex_lower:
  "list_all is_lower_hex s \<Longrightarrow> fromhex s = Some b \<Longrightarrow> s = concat (map hex_pair b)"
proof (induction s arbitrary: b rule: length_induct)
  case (1 s)
  show ?case
  proof (cases s)
    case (Cons c s')
    with 1 have c: "is_lower_hex c" by simp
    from c obtain h where h: "\<not> is_space c" "hex_value c = Some h" "c = hex_digit h" "h < 16"
      by (rule hex_char_cases)
    with 1 Cons obtain d s'' where s': "s' = d # s''" by (auto split: list.splits)
    with 1 Cons have "is_lower_hex d" by simp
    then obtain k where k: "\<not> is_space d" "hex_value d = Some k" "d = hex_digit k" "k < 16"
      by (rule hex_char_cases)
    from 1 Cons s' h(1,2) k(2) obtain r where r: "fromhex s'' = Some r" "b = char_of (16 * h + k) # r"
      by auto
    with 1 Cons s' have "s'' = concat (map hex_pair r)" by simp
    then show ?thesis using r(2) Cons s' h(3,4) k(3,4) by (simp add: hex_pair_char)
  qed (use 1 in simp)
qed

lemma lower_hex_bytes:
  assumes "lower_hex s" "fromhex s = Some b"
  shows "length b = 32"
proof -
  have "length s = 2 * length b" using assms fromhex_lower[of s b]
    by (auto simp: lower_hex_def length_concat o_def sum_list_triv hex_pair_def)
  then show ?thesis using assms(1) by (simp add: lower_hex_def)
qed

lemma lower_hex_inj:
  "lower_hex s \<Longrightarrow> lower_hex t \<Longrightarrow> fromhex s = Some b \<Longrightarrow> fromhex t = Some b \<Longrightarrow> s = t"
  using fromhex_lower[of s b] fromhex_lower[of t b] by (simp add: lower_hex_def)

lemma event_bytes_parts:
  assumes "event_bytes e = Inr b"
  obtains bs bt mid bp where "to_bytes 8 (ev_seq e) = Some bs" "to_bytes 8 (ev_tick e) = Some bt"
    "fromhex (ev_prev_hash e) = Some bp" "b = bs @ bytes_be 16 (ev_run_id e) @ bt @ mid @ bp"
proof -
  have need: "need err x = Inr y \<longleftrightarrow> x = Some y" for err :: hash_error and x :: "string option" and y
    by (cases x) auto
  from assms that show thesis
    by (auto simp: event_bytes_def canonical_event_bytes_def res_simps need split: if_splits)
qed

lemma event_bytes_binds:
  assumes "event_bytes e = Inr b" "event_bytes e' = Inr b"
    and "lower_hex (ev_prev_hash e)" "lower_hex (ev_prev_hash e')"
  shows "ev_seq e = ev_seq e'" "ev_tick e = ev_tick e'" "ev_prev_hash e = ev_prev_hash e'"
proof -
  from assms(1) obtain bs bt mid bp where
    e: "to_bytes 8 (ev_seq e) = Some bs" "to_bytes 8 (ev_tick e) = Some bt"
      "fromhex (ev_prev_hash e) = Some bp" "b = bs @ bytes_be 16 (ev_run_id e) @ bt @ mid @ bp"
    by (rule event_bytes_parts)
  from assms(2) obtain bs' bt' mid' bp' where
    e': "to_bytes 8 (ev_seq e') = Some bs'" "to_bytes 8 (ev_tick e') = Some bt'"
      "fromhex (ev_prev_hash e') = Some bp'" "b = bs' @ bytes_be 16 (ev_run_id e') @ bt' @ mid' @ bp'"
    by (rule event_bytes_parts)
  note len = length_to_bytes[OF e(1)] length_to_bytes[OF e'(1)] length_to_bytes[OF e(2)]
    length_to_bytes[OF e'(2)] lower_hex_bytes[OF assms(3) e(3)] lower_hex_bytes[OF assms(4) e'(3)]
  from e(4) e'(4) len have "bs = bs'" "bt = bt'" "mid @ bp = mid' @ bp'"
    by (simp_all add: append_eq_append_conv)
  moreover from this(3) len have "bp = bp'" by (simp add: append_eq_append_conv)
  ultimately show "ev_seq e = ev_seq e'" "ev_tick e = ev_tick e'" "ev_prev_hash e = ev_prev_hash e'"
    using e e' to_bytes_inj lower_hex_inj assms(3,4) by blast+
qed

definition hash_collision :: "(string \<Rightarrow> string) \<Rightarrow> evt list \<Rightarrow> evt list \<Rightarrow> bool" where
  \<comment> \<open>the canonical bytes of an event of each log: different, with one hash\<close>
  "hash_collision sha es es' \<longleftrightarrow> list_ex (\<lambda>e. list_ex (\<lambda>e'.
     case (event_bytes e, event_bytes e') of (Inr b, Inr b') \<Rightarrow> b \<noteq> b' \<and> sha b = sha b' | _ \<Rightarrow> False) es') es"

lemma sealed_bytes:
  assumes "sealed_by sha e"
  obtains b where "event_bytes e = Inr b" "sha b = ev_hash e"
  using assms that by (auto simp: sealed_by_def verify_event_def recompute_def res_simps)

lemma chained_tip_hex:
  "chained prev seq (xs @ [x]) \<Longrightarrow> list_all (sealed_by sha) xs \<Longrightarrow> lower_hex prev \<Longrightarrow>
     (\<And>b. lower_hex (sha b)) \<Longrightarrow> ev_prev_hash x = tip prev xs \<and> lower_hex (tip prev xs)"
  by (cases xs rule: rev_cases) (auto elim!: sealed_bytes, metis)

lemma same_tip_same_bytes:
  assumes hex: "\<And>b. lower_hex (sha b)" "lower_hex prev"
  shows "chained prev seq es \<Longrightarrow> chained prev seq es' \<Longrightarrow> list_all (sealed_by sha) es \<Longrightarrow>
    list_all (sealed_by sha) es' \<Longrightarrow> es \<noteq> [] \<Longrightarrow> es' \<noteq> [] \<Longrightarrow> tip prev es = tip prev es' \<Longrightarrow>
    \<not> hash_collision sha es es' \<Longrightarrow>
    map event_bytes es = map event_bytes es' \<and> map ev_hash es = map ev_hash es'
      \<and> map ev_tick es = map ev_tick es'"
proof (induction es arbitrary: es' rule: rev_induct)
  case (snoc x xs)
  from snoc.prems(6) obtain ys y where es': "es' = ys @ [y]" by (cases es' rule: rev_cases) auto
  from snoc.prems es' have sx: "sealed_by sha x" and sy: "sealed_by sha y"
    and h: "ev_hash x = ev_hash y" by simp_all
  from sx obtain bx where bx: "event_bytes x = Inr bx" "sha bx = ev_hash x" by (rule sealed_bytes)
  from sy obtain b_y where b_y: "event_bytes y = Inr b_y" "sha b_y = ev_hash y" by (rule sealed_bytes)
  from snoc.prems(8) bx b_y h es' have eq: "bx = b_y" by (auto simp: hash_collision_def)
  have px: "ev_prev_hash x = tip prev xs" "lower_hex (tip prev xs)"
    using chained_tip_hex[of prev seq xs x sha] snoc.prems(1,3) hex by auto
  have py: "ev_prev_hash y = tip prev ys" "lower_hex (tip prev ys)"
    using chained_tip_hex[of prev seq ys y sha] snoc.prems(2,4) hex es' by auto
  note b = event_bytes_binds[of x bx y]
  have same: "ev_seq x = ev_seq y" "ev_tick x = ev_tick y" "tip prev xs = tip prev ys"
    using b bx(1) b_y(1) eq px py by simp_all
  from same(1) snoc.prems(1,2) es' have len: "length xs = length ys" by simp
  show ?case
  proof (cases "xs = []")
    case True
    with len es' bx b_y eq h same show ?thesis by simp
  next
    case False
    have "\<not> hash_collision sha xs ys" using snoc.prems(8) es'
      by (auto simp: hash_collision_def list_ex_iff)
    with False len snoc.prems es' same(3) have "map event_bytes xs = map event_bytes ys
        \<and> map ev_hash xs = map ev_hash ys \<and> map ev_tick xs = map ev_tick ys"
      by (intro snoc.IH) auto
    with es' bx b_y eq h same show ?thesis by simp
  qed
qed simp

text \<open>C3. Tamper evidence: if two non-empty logs are both accepted from the genesis hash and end in the
  same hash, then event by event they have the same canonical bytes, hashes and ticks, or some
  event of the one and some event of the other are a collision of the hash function, whose
  outputs are taken to be 64 lower-case hexadecimal digits.\<close>

theorem tampering_needs_collision:
  assumes "\<forall>b. lower_hex (env_sha env b)"
    and "verify_batch env es genesis_prev_hash 0 = Inr rep" "rp_ok rep" "es \<noteq> []"
    and "verify_batch env es' genesis_prev_hash 0 = Inr rep'" "rp_ok rep'" "es' \<noteq> []"
    and "rp_terminal_hash rep = rp_terminal_hash rep'"
  shows "hash_collision (env_sha env) es es'
    \<or> map event_bytes es = map event_bytes es' \<and> map ev_hash es = map ev_hash es'
       \<and> map ev_tick es = map ev_tick es'"
proof -
  have clean: "clean_from env genesis_prev_hash 0 (-1) xs \<and> rp_terminal_hash r = tip genesis_prev_hash xs"
    if "verify_batch env xs genesis_prev_hash 0 = Inr r" "rp_ok r" for xs r
  proof -
    have t: "rp_terminal_hash r = tip genesis_prev_hash xs"
      using that(1) by (auto simp: verify_batch_def res_simps dest: verify_fold_state)
    have "rp_events_checked r = length xs" using that(1) by (auto simp: verify_batch_def res_simps)
    with that t verify_batch_clean[where env = env and prev = genesis_prev_hash and es = xs and seq = 0] show ?thesis by simp
  qed
  have g: "lower_hex genesis_prev_hash" by (simp add: lower_hex_def genesis_prev_hash_def zeros_lower_hex)
  show ?thesis
    using same_tip_same_bytes[OF spec[OF assms(1)] g, of 0 es es'] clean[OF assms(2,3)] clean[OF assms(5,6)]
      assms(4,7,8) by (auto simp: clean_from_def)
qed

definition forged_store :: "evt list" where
  "forged_store = map (\<lambda>e. e\<lparr>ev_actor_id := Some ''agt_2''\<rparr>) demo_store"

lemma tampering_needs_collision_witness:
  "hash_collision toy_sha demo_store forged_store
   \<or> map event_bytes demo_store = map event_bytes forged_store
      \<and> map ev_hash demo_store = map ev_hash forged_store \<and> map ev_tick demo_store = map ev_tick forged_store"
proof -
  have "case (verify_batch demo_env demo_store genesis_prev_hash 0, verify_batch demo_env forged_store genesis_prev_hash 0)
    of (Inr r, Inr f) \<Rightarrow> rp_ok r \<and> rp_ok f \<and> rp_events_checked r = 2 \<and> rp_events_checked f = 2
         \<and> rp_terminal_hash r = rp_terminal_hash f | _ \<Rightarrow> False" by code_simp
  then obtain r f where rf: "verify_batch demo_env demo_store genesis_prev_hash 0 = Inr r"
    "verify_batch demo_env forged_store genesis_prev_hash 0 = Inr f" "rp_ok r" "rp_ok f"
    "rp_terminal_hash r = rp_terminal_hash f" "rp_events_checked r = 2" "rp_events_checked f = 2"
    by (auto split: sum.splits)
  from rf(1,2,6,7) have ne: "demo_store \<noteq> []" "forged_store \<noteq> []"
    by (auto simp: verify_batch_def res_simps)
  have hex: "is_lower_hex (hex_digit k)" if "k < 16" for k
    using that by (auto simp: hex_digit_def is_lower_hex_def nth_Cons' )
  have sha: "env_sha demo_env = toy_sha" by (simp add: demo_env_def)
  have "of_char (b ! 7) div 16 < (16::nat)" for b :: string
    by (rule less_mult_imp_div_less) simp
  then have "\<forall>b. lower_hex (env_sha demo_env b)"
    by (simp add: sha lower_hex_def toy_sha_def Let_def hex zeros_lower_hex)
  from tampering_needs_collision[OF this rf(1,3) ne(1) rf(2,4) ne(2) rf(5)] show ?thesis
    unfolding sha .
qed

section \<open>Limits of the guarantees\<close>

text \<open>The canonical bytes do not separate the actor from the subjects: moving characters across the
  boundary keeps the hash, so the hash does not bind these fields.\<close>

lemma event_bytes_ambiguous:
  "canonical_event_bytes seq run tick sim kind (Some (a @ b)) [] cause pl sg prev
     = canonical_event_bytes seq run tick sim kind (Some a) [b] cause pl sg prev"
  by (simp add: canonical_event_bytes_def)

text \<open>\<open>verify_run\<close> from a later sequence number starts from the genesis hash and rejects a sound log.\<close>

lemma verify_run_suffix_rejected:
  "map (\<lambda>from_seq. case verify_run demo_env demo_store 7 from_seq of Inl _ \<Rightarrow> None | Inr r \<Rightarrow> Some (map cf_reason (rp_failures r)))
     [0, 2] = [Some [], Some [Prev_Hash_Mismatch]]"
  by code_simp

text \<open>A save point stays acceptable after the log was rolled back past it and staged anew in the same
  batch: the chain hash it restores is then not the hash of the last staged event.\<close>

definition other_drafts :: "(draft \<times> int \<times> datetime) list" where
  "other_drafts = map (\<lambda>(d, t, s). (d\<lparr>ne_actor_id := Some ''agt_100''\<rparr>, t, s)) demo_drafts"

lemma stale_savepoint_accepted:
  "(case stage_all demo_env other_drafts (init_log 7 0 genesis_prev_hash) of Inl _ \<Rightarrow> False
    | Inr l \<Rightarrow> (case rollback_to (savepoint_of demo_log) l of Inl _ \<Rightarrow> False
        | Inr l' \<Rightarrow> el_chain_hash l' \<noteq> ev_hash (last (el_staged l'))))"
  by code_simp

text \<open>When publishing the ephemeral events fails, the sink keeps the stored events while the log
  returns to the previous commit, so the next batch reuses their sequence numbers.\<close>

lemma publish_failure_reuses_numbers:
  "publish = (\<lambda>es s. (False, s)) \<Longrightarrow>
     commit memory_append publish tick l store =
       (Inl SinkFailed, rollback l, store @ persisted_events (el_staged l))"
  by (simp add: commit_def memory_append_def Let_def)

end
