(* ===== verification/Event_Causal.thy ===== *)
theory Event_Causal
  imports Event_Spec
begin

text \<open>
  Causal queries. The reader's contract is the locale \<open>event_reader\<close>; what \<open>ancestors\<close> and
  \<open>descendants\<close> return is proved from it once and instantiated with the in-memory reader.
  The registry of kinds is specified here too.
\<close>

section \<open>Causal chains\<close>

definition cause_of :: "(int \<Rightarrow> evt option) \<Rightarrow> evt \<Rightarrow> evt option" where
  "cause_of get e = (case ev_cause_seq e of None \<Rightarrow> None | Some c \<Rightarrow> get c)"

definition causal_chain :: "(int \<Rightarrow> evt option) \<Rightarrow> evt list \<Rightarrow> bool" where
  "causal_chain get chain \<longleftrightarrow> distinct (map ev_seq chain)
     \<and> (\<forall>i. Suc i < length chain \<longrightarrow> cause_of get (chain ! i) = Some (chain ! Suc i))"

definition chain_ends :: "(int \<Rightarrow> evt option) \<Rightarrow> evt list \<Rightarrow> bool" where
  \<comment> \<open>the last event has no known cause, or one already on the chain\<close>
  "chain_ends get chain \<longleftrightarrow>
     (case cause_of get (last chain) of None \<Rightarrow> True | Some e \<Rightarrow> ev_seq e \<in> set (map ev_seq chain))"

lemma causal_chain_snoc:
  assumes "causal_chain get result" "ev_seq e \<notin> set (map ev_seq result)"
    and "result \<noteq> [] \<Longrightarrow> cause_of get (last result) = Some e"
  shows "causal_chain get (result @ [e])"
proof -
  have "cause_of get ((result @ [e]) ! i) = Some ((result @ [e]) ! Suc i)"
    if "Suc i < length (result @ [e])" for i
  proof (cases "Suc i = length result")
    case True
    then have "result \<noteq> []" by auto
    moreover from this True have "(result @ [e]) ! i = last result"
      by (simp add: nth_append last_conv_nth flip: True)
    ultimately show ?thesis using assms(3) True by (simp add: nth_append)
  next
    case False
    with that assms(1) show ?thesis by (simp add: nth_append causal_chain_def)
  qed
  with assms show ?thesis by (auto simp: causal_chain_def)
qed

lemma ancestors_loop_chain:
  assumes "causal_chain get result" "set seen = set (map ev_seq result)"
    and "result \<noteq> [] \<Longrightarrow> current = cause_of get (last result)" "int (length result) \<le> max 0 (d + 1)"
  shows "\<exists>more. ancestors_loop get d seen result current = result @ more
    \<and> causal_chain get (result @ more) \<and> int (length (result @ more)) \<le> max 0 (d + 1)
    \<and> (int (length (result @ more)) \<le> d \<longrightarrow> result @ more \<noteq> [] \<longrightarrow> chain_ends get (result @ more))
    \<and> (result = [] \<longrightarrow> (case more of [] \<Rightarrow> current = None \<or> d < 0 | e # _ \<Rightarrow> current = Some e))"
  using assms
proof (induction get d seen result current rule: ancestors_loop.induct)
  case (1 get d seen result current)
  note step = ancestors_loop.simps[of get d seen result current]
  show ?case
  proof (cases current)
    case None
    with 1(2-) step show ?thesis by (auto simp: chain_ends_def)
  next
    case (Some e)
    show ?thesis
    proof (cases "ev_seq e \<notin> set seen \<and> int (length result) \<le> d")
      case False
      then have "ancestors_loop get d seen result current = result" using step Some by auto
      with False 1(2-) Some show ?thesis
        by (auto simp: chain_ends_def split: option.splits)
    next
      case True
      have "causal_chain get (result @ [e])" using 1(2-4) Some True by (intro causal_chain_snoc) auto
      then have "\<exists>more. ancestors_loop get d (ev_seq e # seen) (result @ [e]) (cause_of get e) = (result @ [e]) @ more
        \<and> causal_chain get ((result @ [e]) @ more) \<and> int (length ((result @ [e]) @ more)) \<le> max 0 (d + 1)
        \<and> (int (length ((result @ [e]) @ more)) \<le> d \<longrightarrow> (result @ [e]) @ more \<noteq> [] \<longrightarrow> chain_ends get ((result @ [e]) @ more))
        \<and> (result @ [e] = [] \<longrightarrow> (case more of [] \<Rightarrow> cause_of get e = None \<or> d < 0 | x # _ \<Rightarrow> cause_of get e = Some x))"
        unfolding cause_of_def[of get e] using 1(3) True
        by (intro 1(1)[OF Some True]) (auto simp: cause_of_def)
      then show ?thesis using step Some True
        by (fastforce simp: cause_of_def)
    qed
  qed
qed

lemma ancestors_chain:
  obtains (chain) "causal_chain get (ancestors get seq d)" "int (length (ancestors get seq d)) \<le> max 0 (d + 1)"
    "int (length (ancestors get seq d)) \<le> d \<longrightarrow> ancestors get seq d \<noteq> [] \<longrightarrow> chain_ends get (ancestors get seq d)"
    "case ancestors get seq d of [] \<Rightarrow> get seq = None \<or> d < 0 | e # _ \<Rightarrow> get seq = Some e"
  using ancestors_loop_chain[of get "[]" "[]" "get seq" d]
  by (auto simp: ancestors_def causal_chain_def)

section \<open>Effects\<close>

inductive caused :: "(int \<Rightarrow> evt list) \<Rightarrow> evt \<Rightarrow> evt \<Rightarrow> nat \<Rightarrow> bool" for by_cause root where
  root: "caused by_cause root root 0"
| effect: "caused by_cause root e n \<Longrightarrow> c \<in> set (by_cause (ev_seq e)) \<Longrightarrow> caused by_cause root c (Suc n)"

definition nodes :: "causal_node list \<Rightarrow> (evt \<times> nat) set" where
  "nodes r = (\<lambda>x. (cn_event x, cn_depth x)) ` set r"

definition effects_in :: "(int \<Rightarrow> evt list) \<Rightarrow> int \<Rightarrow> (evt \<times> nat) set \<Rightarrow> (evt \<times> nat) set \<Rightarrow> bool" where
  "effects_in by_cause d X Y \<longleftrightarrow>
     (\<forall>(e, n)\<in>X. int n < d \<longrightarrow> (\<forall>c\<in>set (by_cause (ev_seq e)). (c, Suc n) \<in> Y))"

definition queued :: "(int \<Rightarrow> evt list) \<Rightarrow> int \<Rightarrow> evt \<Rightarrow> nat \<Rightarrow> (evt \<times> nat) list \<Rightarrow> (evt \<times> nat) list" where
  "queued by_cause d e n rest = (if int n < d
     then sort_key (\<lambda>(c, d). (d, ev_seq c)) (rest @ map (\<lambda>c. (c, n + 1)) (by_cause (ev_seq e))) else rest)"

lemma descendants_loop_step:
  "descendants_loop by_cause d m ((e, n) # rest) result =
     (if int (length result) < m
      then descendants_loop by_cause d m (queued by_cause d e n rest)
        (result @ [\<lparr>cn_event = e, cn_depth = n, cn_children = map ev_seq (by_cause (ev_seq e))\<rparr>])
      else result)"
  by (simp add: descendants_loop.simps[of by_cause d m "(e, n) # rest"] queued_def Let_def)

lemma descendants_loop_Nil: "descendants_loop by_cause d m [] result = result"
  by (simp add: descendants_loop.simps)

lemma set_queued: "set (queued by_cause d e n rest) = set rest \<union>
    (if int n < d then (\<lambda>c. (c, Suc n)) ` set (by_cause (ev_seq e)) else {})"
  by (auto simp: queued_def)

lemma nodes_simps [simp]: "nodes [] = {}" "nodes (r @ [x]) = insert (cn_event x, cn_depth x) (nodes r)"
  by (auto simp: nodes_def)

definition node_of :: "(int \<Rightarrow> evt list) \<Rightarrow> evt \<Rightarrow> nat \<Rightarrow> causal_node" where
  "node_of by_cause e n = \<lparr>cn_event = e, cn_depth = n, cn_children = map ev_seq (by_cause (ev_seq e))\<rparr>"

lemma node_of_sel [simp]: "cn_event (node_of b e n) = e" "cn_depth (node_of b e n) = n"
  by (simp_all add: node_of_def)

lemma descendants_loop_induct [case_names empty expand full]:
  assumes "\<And>result. P [] result"
    and "\<And>e n rest result. int (length result) < m \<Longrightarrow>
      P (queued by_cause d e n rest) (result @ [node_of by_cause e n]) \<Longrightarrow> P ((e, n) # rest) result"
    and "\<And>e n rest result. \<not> int (length result) < m \<Longrightarrow> P ((e, n) # rest) result"
  shows "P queue result"
proof (induction "nat (m - int (length result))" arbitrary: queue result rule: less_induct)
  case less
  show ?case
  proof (cases queue)
    case (Cons q rest)
    obtain e n where q: "q = (e, n)" by (cases q)
    show ?thesis
    proof (cases "int (length result) < m")
      case True
      with less show ?thesis unfolding Cons q by (intro assms(2)) auto
    qed (use Cons q assms(3) in simp)
  qed (use assms(1) in simp)
qed

lemma descendants_loop_sound:
  "\<forall>(e, n)\<in>set queue \<union> nodes result. caused by_cause root e n \<and> int n \<le> max 0 d \<Longrightarrow>
   \<forall>(e, n)\<in>nodes (descendants_loop by_cause d m queue result).
    caused by_cause root e n \<and> int n \<le> max 0 d"
proof (induction queue result rule: descendants_loop_induct[of _ m by_cause d])
  case (expand e n rest result)
  have "\<forall>(e, n)\<in>set (queued by_cause d e n rest) \<union> nodes (result @ [node_of by_cause e n]).
      caused by_cause root e n \<and> int n \<le> max 0 d"
    using expand.prems by (fastforce simp: set_queued intro: caused.effect split: if_splits)
  with expand show ?case by (simp add: descendants_loop_step node_of_def)
qed (auto simp: descendants_loop_Nil descendants_loop_step)

lemma descendants_loop_complete:
  "int (length (descendants_loop by_cause d m queue result)) < m \<Longrightarrow>
   effects_in by_cause d (nodes result) (nodes result \<union> set queue) \<Longrightarrow>
   nodes result \<union> set queue \<subseteq> nodes (descendants_loop by_cause d m queue result)
   \<and> effects_in by_cause d (nodes (descendants_loop by_cause d m queue result))
       (nodes (descendants_loop by_cause d m queue result))"
proof (induction queue result rule: descendants_loop_induct[of _ m by_cause d])
  case (expand e n rest result)
  have "effects_in by_cause d (nodes (result @ [node_of by_cause e n]))
      (nodes (result @ [node_of by_cause e n]) \<union> set (queued by_cause d e n rest))"
    using expand.prems(2) by (auto simp: effects_in_def set_queued)
  with expand show ?case by (auto simp: descendants_loop_step node_of_def set_queued)
qed (auto simp: descendants_loop_Nil descendants_loop_step)

lemma descendants_loop_distinct_bound:
  "int (length result) \<le> max 0 m \<Longrightarrow> int (length (descendants_loop by_cause d m queue result)) \<le> max 0 m"
  by (induction queue result rule: descendants_loop_induct[of _ m by_cause d])
     (auto simp: descendants_loop_Nil descendants_loop_step node_of_def)

primrec nth_cause :: "(int \<Rightarrow> evt option) \<Rightarrow> nat \<Rightarrow> evt \<Rightarrow> evt option" where
  "nth_cause get 0 e = Some e"
| "nth_cause get (Suc n) e = (case cause_of get e of None \<Rightarrow> None | Some c \<Rightarrow> nth_cause get n c)"

section \<open>The reader's contract\<close>

locale event_reader =
  fixes sound :: "'s \<Rightarrow> bool"
    and get :: "'s \<Rightarrow> int \<Rightarrow> evt option"
    and by_cause :: "'s \<Rightarrow> int \<Rightarrow> evt list"
  assumes get_seq: "sound s \<Longrightarrow> get s q = Some e \<Longrightarrow> ev_seq e = q"
    and by_cause_iff: "sound s \<Longrightarrow>
      e \<in> set (by_cause s c) \<longleftrightarrow> get s (ev_seq e) = Some e \<and> ev_cause_seq e = Some c"
begin

lemma cause_of_iff:
  "sound s \<Longrightarrow> get s (ev_seq e) = Some e \<Longrightarrow>
     cause_of (get s) c = Some e \<longleftrightarrow> ev_cause_seq c = Some (ev_seq e)"
  by (auto simp: cause_of_def split: option.splits dest: get_seq)

lemma caused_iff:
  assumes s: "sound s" and root: "get s q = Some root"
  shows "caused (by_cause s) root e n \<longleftrightarrow> get s (ev_seq e) = Some e \<and> nth_cause (get s) n e = Some root"
proof
  show "caused (by_cause s) root e n \<Longrightarrow> get s (ev_seq e) = Some e \<and> nth_cause (get s) n e = Some root"
  proof (induction rule: caused.induct)
    case root
    with get_seq[OF s assms(2)] assms(2) show ?case by simp
  next
    case (effect e n c)
    then show ?case using s cause_of_iff[OF s, of e c] by (simp add: by_cause_iff)
  qed
  have "get s (ev_seq e) = Some e \<Longrightarrow> nth_cause (get s) n e = Some root \<Longrightarrow> caused (by_cause s) root e n"
  proof (induction n arbitrary: e)
    case (Suc n)
    then obtain k c where c: "ev_cause_seq e = Some k" "get s k = Some c" "nth_cause (get s) n c = Some root"
      by (auto simp: cause_of_def split: option.splits)
    from get_seq[OF s c(2)] c(2) have "get s (ev_seq c) = Some c" "k = ev_seq c" by auto
    with Suc.IH[of c] c(3) have "caused (by_cause s) root c n" by simp
    moreover have "e \<in> set (by_cause s (ev_seq c))"
      using Suc.prems(1) c(1) \<open>k = ev_seq c\<close> s by (simp add: by_cause_iff)
    ultimately show ?case by (rule caused.effect)
  qed (auto intro: caused.root)
  then show "get s (ev_seq e) = Some e \<and> nth_cause (get s) n e = Some root \<Longrightarrow> caused (by_cause s) root e n"
    by blast
qed

lemma descendants_sound:
  assumes "sound s" "get s q = Some root"
  shows "\<forall>(e, n)\<in>nodes (descendants (get s) (by_cause s) q d m).
    get s (ev_seq e) = Some e \<and> nth_cause (get s) n e = Some root \<and> int n \<le> max 0 d"
  using descendants_loop_sound[of "[(root, 0)]" "[]" "by_cause s" root d m]
  by (auto simp: descendants_def assms(2) caused_iff[OF assms] assms(2)[folded get_seq[OF assms]])

lemma descendants_complete:
  assumes "sound s" "get s q = Some root" "int (length (descendants (get s) (by_cause s) q d m)) < m"
    and "get s (ev_seq e) = Some e" "nth_cause (get s) n e = Some root" "int n \<le> d"
  shows "(e, n) \<in> nodes (descendants (get s) (by_cause s) q d m)"
proof -
  let ?r = "descendants (get s) (by_cause s) q d m"
  have c: "(root, 0) \<in> nodes ?r" "effects_in (by_cause s) d (nodes ?r) (nodes ?r)"
    using descendants_loop_complete[of "by_cause s" d m "[(root, 0)]" "[]"] assms(3)
    by (auto simp: descendants_def assms(2) effects_in_def)
  have "caused (by_cause s) root e n" using assms(4,5) caused_iff[OF assms(1,2)] by blast
  then show ?thesis using assms(6)
  proof (induction rule: caused.induct)
    case (effect e n c)
    then show ?case using c(2) by (auto simp: effects_in_def)
  qed (use c in simp)
qed

end

lemma reader_get_Some:
  "reader_get store run q = Some e \<Longrightarrow> e \<in> set store \<and> ev_run_id e = run \<and> ev_seq e = q"
  by (auto simp: reader_get_def find_Some_iff)

lemma reader_get_unique:
  "distinct (map ev_seq (filter (\<lambda>e. ev_run_id e = run) store)) \<Longrightarrow> e \<in> set store \<Longrightarrow>
     ev_run_id e = run \<Longrightarrow> reader_get store run (ev_seq e) = Some e"
  by (induction store) (auto simp: reader_get_def image_iff split: if_splits)

interpretation memory_reader: event_reader
  "\<lambda>(store, run). distinct (map ev_seq (filter (\<lambda>e. ev_run_id e = run) store))"
  "\<lambda>(store, run). reader_get store run" "\<lambda>(store, run). reader_by_cause store run"
proof (unfold_locales, goal_cases)
  case (1 s q e)
  then show ?case by (cases s) (auto dest: reader_get_Some)
next
  case (2 s e c)
  then show ?case by (cases s) (auto simp: reader_by_cause_def dest: reader_get_Some reader_get_unique)
qed

section \<open>Properties\<close>

definition demo_tree :: "evt list" where
  "demo_tree = map (\<lambda>(q, c). (demo_store ! 0)\<lparr>ev_seq := q, ev_cause_seq := c\<rparr>)
     [(1, None), (2, Some 1), (3, Some 1), (4, Some 2), (5, None)]"

text \<open>C27. On a stored run whose events are caused by earlier events only, the ancestors of an event
  are the event itself followed, each time, by the stored event that its predecessor names as its
  cause: strictly decreasing sequence numbers, at most \<open>max_depth + 1\<close> of them. When \<open>explain\<close>
  does not report truncation, its root really has no stored cause.\<close>

theorem ancestors_causal:
  assumes "list_all (\<lambda>e. \<not> opt_ex (\<lambda>c. ev_seq e \<le> c) (ev_cause_seq e)) store"
    and "reader_get store run seq = Some e0" and "0 \<le> d"
  shows "hd (ancestors (reader_get store run) seq d) = e0
    \<and> sorted_wrt (>) (map ev_seq (ancestors (reader_get store run) seq d))
    \<and> (\<forall>i. Suc i < length (ancestors (reader_get store run) seq d) \<longrightarrow>
         opt_ex (\<lambda>c. reader_get store run c = Some (ancestors (reader_get store run) seq d ! Suc i))
           (ev_cause_seq (ancestors (reader_get store run) seq d ! i)))
    \<and> int (length (ancestors (reader_get store run) seq d)) \<le> d + 1
    \<and> (\<not> ex_truncated (explain (reader_get store run) seq d) \<longrightarrow>
         opt_ex (\<lambda>r. \<not> opt_ex (\<lambda>c. reader_get store run c \<noteq> None) (ev_cause_seq r))
           (ex_root (explain (reader_get store run) seq d)))"
proof -
  let ?get = "reader_get store run" and ?chain = "ancestors (reader_get store run) seq d"
  have facts: "causal_chain ?get ?chain" "int (length ?chain) \<le> max 0 (d + 1)"
    "int (length ?chain) \<le> d \<longrightarrow> ?chain \<noteq> [] \<longrightarrow> chain_ends ?get ?chain"
    "case ?chain of [] \<Rightarrow> ?get seq = None \<or> d < 0 | e # _ \<Rightarrow> ?get seq = Some e"
    by (rule ancestors_chain[of ?get seq d]; blast)+
  have hd: "?chain \<noteq> []" "hd ?chain = e0" using facts(4) assms(2,3) by (auto split: list.splits)
  have earlier: "ev_seq c < ev_seq e" if "cause_of ?get e = Some c" "e \<in> set store" for e c
    using that assms(1) by (auto simp: cause_of_def list_all_iff opt_ex_iff split: option.splits dest!: reader_get_Some)
  have stored: "i < length ?chain \<Longrightarrow> ?chain ! i \<in> set store" for i
  proof (induction i)
    case 0
    then show ?case using hd assms(2) by (auto simp: hd_conv_nth dest: reader_get_Some)
  next
    case (Suc i)
    then have "cause_of ?get (?chain ! i) = Some (?chain ! Suc i)" using facts(1) by (simp add: causal_chain_def)
    then show ?case by (auto simp: cause_of_def split: option.splits dest: reader_get_Some)
  qed
  have desc: "sorted_wrt (>) (map ev_seq ?chain)"
    using facts(1) stored earlier by (auto simp: causal_chain_def sorted_wrt_iff_nth_Suc_transp transp_def)
  have last_min: "ev_seq (last ?chain) \<le> ev_seq e" if "e \<in> set ?chain" for e
    using that desc by (cases ?chain rule: rev_cases) (auto simp: sorted_wrt_append less_imp_le)
  have root: "cause_of ?get (last ?chain) = None" if "int (length ?chain) \<le> d"
  proof (cases "cause_of ?get (last ?chain)")
    case (Some c)
    then have "ev_seq c < ev_seq (last ?chain)" using earlier stored[of "length ?chain - 1"] hd(1)
      by (simp add: last_conv_nth)
    moreover from that facts(3) hd(1) Some obtain e where "e \<in> set ?chain" "ev_seq e = ev_seq c"
      by (auto simp: chain_ends_def)
    ultimately show ?thesis using last_min[of e] by simp
  qed
  have links: "opt_ex (\<lambda>c. ?get c = Some (?chain ! Suc i)) (ev_cause_seq (?chain ! i))"
    if "Suc i < length ?chain" for i
    using that facts(1) by (auto simp: causal_chain_def cause_of_def opt_ex_iff split: option.splits)
  show ?thesis
    using hd desc links facts(2) root assms(3)
    by (auto simp: explain_def Let_def cause_of_def opt_ex_iff split: option.splits)
qed

lemma ancestors_causal_witness:
  "map ev_seq (ancestors (reader_get demo_tree 7) 4 64) = [4, 2, 1]
   \<and> sorted_wrt (>) (map ev_seq (ancestors (reader_get demo_tree 7) 4 64))"
proof -
  have "list_all (\<lambda>e. \<not> opt_ex (\<lambda>c. ev_seq e \<le> c) (ev_cause_seq e)) demo_tree" by code_simp
  moreover have "reader_get demo_tree 7 4 \<noteq> None" by code_simp
  then obtain e0 where "reader_get demo_tree 7 4 = Some e0" by blast
  ultimately have "sorted_wrt (>) (map ev_seq (ancestors (reader_get demo_tree 7) 4 64))"
    using ancestors_causal[of demo_tree 7 4 e0 64] by simp
  moreover have "map ev_seq (ancestors (reader_get demo_tree 7) 4 64) = [4, 2, 1]" by code_simp
  ultimately show ?thesis by blast
qed

text \<open>C28. When the search stays below its limit of nodes, \<open>descendants\<close> returns exactly the events
  from which the given one is reached by following causes at most \<open>max_depth\<close> times, each with that
  number as its depth; at the limit it returns some of them.\<close>

theorem descendants_exact:
  assumes "distinct (map ev_seq (filter (\<lambda>e. ev_run_id e = run) store))"
    and "reader_get store run seq = Some root" and "0 \<le> d"
    and "r = descendants (reader_get store run) (reader_by_cause store run) seq d m"
  shows "(\<forall>x\<in>set r. reader_get store run (ev_seq (cn_event x)) = Some (cn_event x)
        \<and> nth_cause (reader_get store run) (cn_depth x) (cn_event x) = Some root \<and> int (cn_depth x) \<le> d)
    \<and> int (length r) \<le> max 0 m
    \<and> (int (length r) < m \<longrightarrow> (\<forall>e n. int n \<le> d \<longrightarrow> reader_get store run (ev_seq e) = Some e \<longrightarrow>
         nth_cause (reader_get store run) n e = Some root \<longrightarrow>
         list_ex (\<lambda>x. cn_event x = e \<and> cn_depth x = n) r))"
proof (intro conjI)
  show "\<forall>x\<in>set r. reader_get store run (ev_seq (cn_event x)) = Some (cn_event x)
        \<and> nth_cause (reader_get store run) (cn_depth x) (cn_event x) = Some root \<and> int (cn_depth x) \<le> d"
    using memory_reader.descendants_sound[of "(store, run)" seq root d m] assms by (auto simp: nodes_def)
  show "int (length r) \<le> max 0 m"
    using descendants_loop_distinct_bound[of "[]" m] assms(2,4) by (simp add: descendants_def)
  show "int (length r) < m \<longrightarrow> (\<forall>e n. int n \<le> d \<longrightarrow> reader_get store run (ev_seq e) = Some e \<longrightarrow>
         nth_cause (reader_get store run) n e = Some root \<longrightarrow>
         list_ex (\<lambda>x. cn_event x = e \<and> cn_depth x = n) r)"
    using memory_reader.descendants_complete[of "(store, run)" seq root d m] assms
    by (auto simp: nodes_def list_ex_iff)
qed

lemma descendants_exact_witness:
  "list_all (\<lambda>x. int (cn_depth x) \<le> 8) (descendants (reader_get demo_tree 7) (reader_by_cause demo_tree 7) 1 8 5000)
   \<and> map (\<lambda>x. (ev_seq (cn_event x), cn_depth x))
       (descendants (reader_get demo_tree 7) (reader_by_cause demo_tree 7) 1 8 5000) = [(1, 0), (2, 1), (3, 1), (4, 2)]"
proof -
  have "distinct (map ev_seq (filter (\<lambda>e. ev_run_id e = 7) demo_tree))" by code_simp
  moreover have "reader_get demo_tree 7 1 \<noteq> None" by code_simp
  then obtain e0 where "reader_get demo_tree 7 1 = Some e0" by blast
  moreover have "map (\<lambda>x. (ev_seq (cn_event x), cn_depth x))
       (descendants (reader_get demo_tree 7) (reader_by_cause demo_tree 7) 1 8 5000) = [(1, 0), (2, 1), (3, 1), (4, 2)]"
    by code_simp
  ultimately show ?thesis using descendants_exact[of 7 demo_tree 1 e0 8 _ 5000] by (simp add: list_all_iff)
qed

text \<open>A complete chain of \<open>max_depth + 1\<close> events is reported as truncated.\<close>

lemma explain_truncated_complete_chain:
  "(let x = explain (reader_get demo_tree 7) 2 1
    in ex_truncated x \<and> opt_ex (\<lambda>r. ev_cause_seq r = None) (ex_root x))"
  by code_simp

end
