(* ===== verification/Kinds_Table.thy ===== *)
theory Kinds_Table
  imports Event_Log
begin

text \<open>
  The event kinds of the program: the \<open>register_kind\<close> calls at the end of \<open>polis/events/kinds.py\<close>
  in their order, with the payload fields each schema requires.
\<close>

record kind_decl =
  kd_kind :: int
  kd_name :: string
  kd_owner :: string
  kd_persistence :: persistence
  kd_required :: "string list"

definition kd :: "int \<Rightarrow> string \<Rightarrow> string \<Rightarrow> persistence \<Rightarrow> string list \<Rightarrow> kind_decl" where
  "kd k n own p req = \<lparr>kd_kind = k, kd_name = n, kd_owner = own, kd_persistence = p, kd_required = req\<rparr>"

definition schema_of :: "string list \<Rightarrow> json" where
  \<comment> \<open>\<open>_schema\<close>\<close>
  "schema_of required = JObj [(''$schema'', JStr ''https://json-schema.org/draft/2020-12/schema''),
     (''type'', JStr ''object''), (''required'', JArr (map JStr required)),
     (''additionalProperties'', JBool True)]"

definition register_decl :: "kind_decl \<Rightarrow> kind_registry \<Rightarrow> kind_error + kind_registry" where
  "register_decl d reg = res_map snd (register_kind (kd_kind d) (kd_name d) (kd_owner d)
     (kd_persistence d) (schema_of (kd_required d)) [] reg)"

section \<open>The table\<close>

definition kinds_from_1001 :: "kind_decl list" where
  "kinds_from_1001 = [
     kd 1001 ''RUN_STARTED'' ''polis.kernel'' Persisted
       [''config_hash'', ''prompt_manifest'', ''model_manifest'', ''code_git_sha'',
       ''master_seed'', ''completion_cache_manifest_hash'', ''mechanism_manifest'',
       ''metric_manifest'', ''kind_registry_hash'', ''clock_profile'', ''scale''],
     kd 1002 ''TICK_STARTED'' ''polis.kernel'' Persisted [''tick''],
     kd 1003 ''TICK_COMPLETED'' ''polis.kernel'' Persisted [''tick'', ''event_count''],
     kd 1004 ''CHECKPOINT_CREATED'' ''polis.kernel'' Persisted [''tick'', ''state_hash''],
     kd 1010 ''INVARIANT_VIOLATED'' ''polis.kernel'' Persisted [''invariant_id'', ''halting''],
     kd 2001 ''AGENT_BORN'' ''polis.agents'' Persisted
       [''agent_id'', ''display_name'', ''age_years'', ''born_tick'', ''home_place_id'',
       ''household_id'', ''mother_id'', ''father_id'', ''generation'', ''traits'',
       ''education_level''],
     kd 2002 ''AGENT_DIED'' ''polis.agents.demography'' Persisted
       [''agent_id'', ''cause'', ''age_years'', ''estate_value_cents'', ''debts_cents'',
       ''written_off_cents'', ''tax_cents'', ''heirs'', ''escheated_cents'', ''txn_ids'', ''case'',
       ''household_id'', ''dependants'', ''obituary_eligible''],
     kd 2005 ''MORTALITY_HAZARD_DRAWN'' ''polis.agents.demography'' Sampled
       [''agent_id'', ''hazard'', ''draw'', ''components''],
     kd 2006 ''ESTATE_OPENED'' ''polis.agents.demography'' Persisted
       [''decedent_id'', ''escrow_account_id'', ''gross_cents'', ''open_orders'', ''open_loans'',
       ''dependants'', ''case''],
     kd 2007 ''ESTATE_DEBTS_SETTLED'' ''polis.agents.demography'' Persisted
       [''decedent_id'', ''paid_cents'', ''written_off_cents'', ''creditors'', ''txn_ids''],
     kd 2008 ''ESTATE_DISTRIBUTED'' ''polis.agents.demography'' Persisted
       [''decedent_id'', ''tax_cents'', ''distributable_cents'', ''heirs'', ''escheated_cents'',
       ''txn_ids''],
     kd 2009 ''ESTATE_CLOSED'' ''polis.agents.demography'' Persisted
       [''decedent_id'', ''escrow_account_id'', ''residual_cents'', ''steps_completed'',
       ''total_txn_ids'']]"

definition kinds_from_2051 :: "kind_decl list" where
  "kinds_from_2051 = [
     kd 2051 ''BEREAVEMENT_APPLIED'' ''polis.agents.demography'' Persisted
       [''decedent_id'', ''bereaved_ids'', ''health_delta'', ''social_need_delta'',
       ''salience_boost_ticks''],
     kd 2060 ''ACTION_SUBMITTED'' ''polis.agents'' Persisted
       [''action_id'', ''actor_id'', ''type'', ''params'', ''origin'', ''salience'', ''reasoning'',
       ''llm_call_id'', ''slot_index''],
     kd 2061 ''ACTION_REJECTED'' ''polis.agents'' Persisted
       [''action_id'', ''actor_id'', ''type'', ''gate'', ''reason'', ''detail'', ''origin'',
       ''slot_consumed'', ''substituted_with''],
     kd 2062 ''ACTION_FLAGGED_ILLEGAL'' ''polis.agents'' Persisted
       [''action_id'', ''actor_id'', ''type'', ''crime_type'', ''victim_id'', ''amount_cents'',
       ''crime_id'', ''proceeded''],
     kd 3001 ''AGENT_MOVED'' ''polis.world'' Persisted [''agent_id'', ''from_place'', ''to_place''],
     kd 3002 ''JOURNEY_STARTED'' ''polis.world'' Persisted
       [''agent_id'', ''from_place'', ''to_place'', ''travel_ticks''],
     kd 3005 ''MOVE_BLOCKED'' ''polis.world'' Persisted [''agent_id'', ''place_id'', ''reason''],
     kd 3100 ''WORLD_GENERATED'' ''polis.world'' Persisted
       [''world_hash'', ''width'', ''height'', ''districts'', ''places''],
     kd 3101 ''PATHS_PRECOMPUTED'' ''polis.world'' Persisted [''world_hash'', ''pairs''],
     kd 10010 ''SPEECH_UTTERED'' ''polis.society.comms'' Persisted
       [''speaker_id'', ''place_id'', ''text'', ''addressed_to'', ''heard_by'', ''topic'',
       ''stance_proposition'', ''stance_value'', ''conversation_id'', ''turn_index'', ''closing'',
       ''claims''],
     kd 10011 ''CONVERSATION_OPENED'' ''polis.society.comms'' Persisted
       [''conversation_id'', ''place_id'', ''participants'', ''opener_id'', ''topic''],
     kd 10012 ''CONVERSATION_CLOSED'' ''polis.society.comms'' Persisted
       [''conversation_id'', ''turns'', ''reason'', ''duration_ticks'', ''participants'']]"

definition kinds_from_10020 :: "kind_decl list" where
  "kinds_from_10020 = [
     kd 10020 ''MESSAGE_SENT'' ''polis.society.comms'' Persisted
       [''message_id'', ''sender_id'', ''recipient_id'', ''text'', ''in_reply_to'', ''topic'',
       ''stance_proposition'', ''stance_value'', ''claims''],
     kd 10021 ''MESSAGE_READ'' ''polis.society.comms'' Persisted
       [''message_id'', ''reader_id'', ''latency_ticks'', ''entered_memory''],
     kd 10030 ''BROADCAST_MADE'' ''polis.society.comms'' Persisted
       [''broadcaster_id'', ''place_id'', ''text'', ''topic'', ''audience_ids'', ''audience_size'',
       ''venue_fee_cents'', ''txn_id'', ''stance_proposition'', ''stance_value''],
     kd 10040 ''TIE_FORMED'' ''polis.society.graph'' Persisted
       [''a_id'', ''b_id'', ''type'', ''context'', ''strength'', ''valence'', ''trust''],
     kd 10041 ''TIE_UPDATED'' ''polis.society.graph'' Persisted
       [''a_id'', ''b_id'', ''type'', ''d_strength'', ''d_valence'', ''d_trust'', ''drivers''],
     kd 10042 ''TIE_ENDED'' ''polis.society.graph'' Persisted
       [''a_id'', ''b_id'', ''type'', ''reason'', ''final_strength''],
     kd 10043 ''TIE_TYPE_CHANGED'' ''polis.society.graph'' Persisted
       [''a_id'', ''b_id'', ''from_type'', ''to_type'', ''trigger''],
     kd 10050 ''NETWORK_SNAPSHOT'' ''polis.society.graph'' Persisted
       [''n_nodes'', ''n_edges'', ''mean_degree'', ''degree_gini'', ''powerlaw_alpha'',
       ''powerlaw_ks'', ''clustering_global'', ''clustering_avg_local'', ''assortativity_degree'',
       ''assortativity_wealth'', ''assortativity_belief'', ''assortativity_district'',
       ''modularity'', ''n_communities'', ''largest_component_share'', ''n_components''],
     kd 10060 ''BELIEF_UPDATED'' ''polis.society.beliefs'' Persisted
       [''agent_id'', ''proposition'', ''old_value'', ''new_value'', ''old_confidence'',
       ''new_confidence'', ''channel'', ''source_id'', ''source_ref'', ''entrenched'',
       ''llm_call_id''],
     kd 10061 ''BELIEF_DRIFT_APPLIED'' ''polis.society.beliefs'' Persisted
       [''agent_id'', ''channel'', ''updates'', ''n_sources''],
     kd 10062 ''BELIEF_UPDATE_REJECTED'' ''polis.society.beliefs'' Persisted
       [''agent_id'', ''proposition'', ''raw_value'', ''gate'', ''llm_call_id''],
     kd 10063 ''BELIEF_PRIORS_SET'' ''polis.society.beliefs'' Persisted
       [''agent_id'', ''source'', ''propositions'']]"

definition kinds_from_11010 :: "kind_decl list" where
  "kinds_from_11010 = [
     kd 11010 ''POST_PUBLISHED'' ''polis.society.media'' Persisted
       [''post_id'', ''author_id'', ''text'', ''topic'', ''stance_proposition'', ''stance_value'',
       ''in_reply_to'', ''repost_of'', ''root_post_id'', ''claims'', ''follower_count_at_post''],
     kd 11011 ''POST_DELETED'' ''polis.society.media'' Persisted
       [''post_id'', ''author_id'', ''reason''],
     kd 11012 ''REPOST_MADE'' ''polis.society.media'' Persisted
       [''post_id'', ''repost_of'', ''root_post_id'', ''author_id'', ''original_author_id'',
       ''cascade_depth'', ''comment''],
     kd 11020 ''POST_ENGAGED'' ''polis.society.media'' Persisted
       [''post_id'', ''agent_id'', ''type'', ''author_id''],
     kd 11021 ''FEED_SERVED'' ''polis.society.media'' Sampled
       [''agent_id'', ''algorithm'', ''post_ids'', ''scores'', ''candidate_pool_size'',
       ''out_of_network_count'', ''cross_cutting_count'', ''mean_extremity''],
     kd 11022 ''CASCADE_CLOSED'' ''polis.society.media'' Persisted
       [''root_post_id'', ''size'', ''depth'', ''breadth'', ''structural_virality'', ''reach'',
       ''impressions'', ''unique_reposters'', ''lifetime_ticks''],
     kd 11030 ''ARTICLE_PUBLISHED'' ''polis.society.media.news'' Persisted
       [''article_id'', ''outlet_id'', ''reporter_id'', ''headline'', ''body'', ''body_hash'',
       ''source_event_seqs'', ''claims'', ''slant_applied'', ''slant_at_write'',
       ''rigour_at_write'', ''llm_call_id''],
     kd 11031 ''ARTICLE_SPIKED'' ''polis.society.media.news'' Persisted
       [''draft_id'', ''outlet_id'', ''reporter_id'', ''editor_id'', ''reason'',
       ''rewrite_attempts''],
     kd 11032 ''ARTICLE_DISTRIBUTED'' ''polis.society.media.news'' Persisted
       [''article_id'', ''reach'', ''impressions'', ''district_shares'', ''subscriber_share''],
     kd 11033 ''ARTICLE_RETRACTED'' ''polis.society.media.news'' Persisted
       [''article_id'', ''post_id'', ''outlet_id'', ''author_id'', ''reason'', ''correction_text'',
       ''original_reach'', ''correction_reach'']]"

definition kinds_from_11034 :: "kind_decl list" where
  "kinds_from_11034 = [
     kd 11034 ''CLAIM_CHECKED'' ''polis.society.media.checker'' Persisted
       [''subject_kind'', ''subject_id'', ''claim_id'', ''predicate'', ''entity_id'',
       ''claimed_value'', ''truth_value'', ''verdict'', ''matched_event_seqs'', ''score''],
     kd 11035 ''SOURCE_CULTIVATED'' ''polis.society.media.news'' Persisted
       [''reporter_id'', ''source_id'', ''outlet_id'', ''message_id'', ''subject_event_seqs''],
     kd 11050 ''OUTLET_FOUNDED'' ''polis.society.media.news'' Persisted
       [''outlet_id'', ''firm_id'', ''founder_id'', ''slant'', ''rigour'', ''place_id''],
     kd 11051 ''OUTLET_REVENUE_BOOKED'' ''polis.society.media.news'' Persisted
       [''outlet_id'', ''period_start_tick'', ''impressions'', ''cpm_cents'', ''ad_revenue_cents'',
       ''subscription_cents'', ''campaign_cents'', ''advertisers'', ''txn_ids''],
     kd 11052 ''OUTLET_CLOSED'' ''polis.society.media.news'' Persisted
       [''outlet_id'', ''firm_id'', ''reason'', ''final_reach'', ''staff_ids''],
     kd 11040 ''FOLLOW_CREATED'' ''polis.society.media'' Persisted
       [''follower_id'', ''followee_id'', ''context''],
     kd 11041 ''FOLLOW_ENDED'' ''polis.society.media'' Persisted
       [''follower_id'', ''followee_id'', ''reason''],
     kd 4001 ''PERCEPTION_BUILT'' ''polis.agents'' Sampled [''agent_id'', ''digest_hash''],
     kd 4002 ''SALIENCE_SCORED'' ''polis.agents'' Sampled [''agent_id'', ''score'', ''routed_mode''],
     kd 4003 ''COGNITION_ROUTED'' ''polis.agents'' Sampled
       [''tick'', ''n_deliberate'', ''n_reflex''],
     kd 4004 ''MEMORY_RETRIEVED'' ''polis.agents'' Sampled [''agent_id'', ''memory_ids''],
     kd 4010 ''MEMORY_WRITTEN'' ''polis.agents'' Persisted
       [''memory_id'', ''agent_id'', ''type'', ''importance''],
     kd 4020 ''REFLECTION_PRODUCED'' ''polis.agents'' Persisted
       [''memory_id'', ''agent_id'', ''parent_memory_ids''],
     kd 4100 ''LANE_HEALTH_CHECKED'' ''polis.llm'' Persisted
       [''lane'', ''model'', ''ok'', ''latency_ms''],
     kd 4101 ''LLM_CALL_FAILED'' ''polis.llm'' Persisted
       [''purpose'', ''lane'', ''model'', ''error_class''],
     kd 4102 ''BUDGET_EXHAUSTED'' ''polis.llm'' Persisted [''line'', ''cap'', ''tick''],
     kd 4201 ''ACTION_VALIDATED'' ''polis.agents'' Persisted [''action_id'', ''agent_id'', ''type'']]"

definition kinds_from_4202 :: "kind_decl list" where
  "kinds_from_4202 = [
     kd 4202 ''ACTION_REJECTED_LEGACY'' ''polis.agents'' Persisted
       [''action_id'', ''agent_id'', ''reason''],
     kd 5001 ''VACANCY_POSTED'' ''polis.economy'' Persisted
       [''vacancy_id'', ''firm_id'', ''occupation'', ''skill_reqs'', ''wage_offer_cents'',
       ''headcount'', ''posted_tick'', ''expires_tick'', ''district_id''],
     kd 5002 ''VACANCY_CLOSED'' ''polis.economy'' Persisted
       [''vacancy_id'', ''reason'', ''applicants_n'', ''days_open''],
     kd 5003 ''JOB_APPLICATION_SUBMITTED'' ''polis.economy'' Persisted
       [''application_id'', ''vacancy_id'', ''agent_id'', ''asked_wage_cents'', ''referral_id''],
     kd 5004 ''APPLICATION_SCREENED'' ''polis.economy'' Persisted
       [''application_id'', ''match_score_bp'', ''rank'', ''shortlisted'', ''reject_reason''],
     kd 5005 ''OFFER_MADE'' ''polis.economy'' Persisted
       [''offer_id'', ''vacancy_id'', ''firm_id'', ''agent_id'', ''wage_cents'', ''occupation'',
       ''expires_tick''],
     kd 5006 ''OFFER_ACCEPTED'' ''polis.economy'' Persisted
       [''offer_id'', ''employment_id'', ''wage_cents''],
     kd 5007 ''OFFER_DECLINED'' ''polis.economy'' Persisted
       [''offer_id'', ''agent_id'', ''reason_code'', ''counter_wage_cents''],
     kd 5008 ''OFFER_EXPIRED'' ''polis.economy'' Persisted [''offer_id'', ''agent_id''],
     kd 5009 ''WAGE_NEGOTIATED'' ''polis.economy'' Persisted
       [''offer_id'', ''from_cents'', ''to_cents'', ''round'', ''initiator'', ''outcome''],
     kd 5010 ''HIRED'' ''polis.economy'' Persisted
       [''agent_id'', ''firm_id'', ''employment_id'', ''occupation'', ''wage_cents'',
       ''match_score_bp'', ''search_duration_ticks''],
     kd 5011 ''FIRED'' ''polis.economy'' Persisted
       [''employment_id'', ''agent_id'', ''firm_id'', ''reason''],
     kd 5012 ''QUIT'' ''polis.economy'' Persisted
       [''employment_id'', ''agent_id'', ''firm_id'', ''destination''],
     kd 5013 ''LAYOFF_BATCH'' ''polis.economy'' Persisted
       [''firm_id'', ''employment_ids'', ''headcount_before'', ''headcount_after'', ''trigger'']]"

definition kinds_from_5020 :: "kind_decl list" where
  "kinds_from_5020 = [
     kd 5020 ''WORK_PERFORMED'' ''polis.economy'' Persisted
       [''employment_id'', ''agent_id'', ''firm_id'', ''hours_bp'', ''effort_bp'',
       ''effective_labour_bp'', ''skill_deltas''],
     kd 5021 ''ABSENCE'' ''polis.economy'' Persisted
       [''employment_id'', ''cause'', ''hours_lost_bp''],
     kd 5030 ''PAYROLL_RUN'' ''polis.economy'' Persisted
       [''firm_id'', ''period_start_tick'', ''period_end_tick'', ''n_employees'', ''gross_cents'',
       ''income_tax_cents'', ''employer_tax_cents'', ''net_cents'', ''txn_ids''],
     kd 5031 ''WAGE_PAID'' ''polis.economy'' Persisted
       [''employment_id'', ''agent_id'', ''firm_id'', ''gross_cents'', ''income_tax_cents'',
       ''net_cents'', ''hours_bp'', ''txn_id''],
     kd 5032 ''PAYROLL_SHORTFALL'' ''polis.economy'' Persisted
       [''firm_id'', ''required_cents'', ''available_cents'', ''unpaid_employment_ids'',
       ''accrued_claim_cents''],
     kd 5040 ''SKILL_DECAYED'' ''polis.economy'' Persisted
       [''agent_id'', ''skill'', ''from_level_bp'', ''to_level_bp'', ''ticks_unused''],
     kd 5041 ''UNEMPLOYMENT_SPELL_STARTED'' ''polis.economy'' Persisted
       [''agent_id'', ''prior_employment_id'', ''prior_wage_cents'', ''cause''],
     kd 5042 ''UNEMPLOYMENT_SPELL_ENDED'' ''polis.economy'' Persisted
       [''agent_id'', ''duration_ticks'', ''exit'', ''new_wage_cents'', ''wage_change_bp''],
     kd 5050 ''LABOUR_SESSION_SUMMARY'' ''polis.economy'' Persisted
       [''tick'', ''vacancies_open'', ''searchers'', ''applications'', ''offers'', ''hires'',
       ''mean_match_score_bp'', ''mean_offer_wage_cents'', ''median_hire_wage_cents''],
     kd 5060 ''SELF_EMPLOYMENT_STARTED'' ''polis.economy'' Persisted
       [''agent_id'', ''firm_id'', ''sector''],
     kd 5061 ''SELF_EMPLOYMENT_ENDED'' ''polis.economy'' Persisted
       [''agent_id'', ''firm_id'', ''reason''],
     kd 5070 ''RETIRED'' ''polis.economy'' Persisted
       [''agent_id'', ''age_years'', ''final_wage_cents'', ''pension_entitlement_cents''],
     kd 5080 ''BENEFIT_CLAIM_OPENED'' ''polis.economy'' Persisted
       [''agent_id'', ''weekly_benefit_cents'', ''entitlement_ticks'', ''base_wage_cents''],
     kd 5081 ''BENEFIT_EXHAUSTED'' ''polis.economy'' Persisted [''agent_id'', ''ticks_claimed'']]"

definition kinds_from_6001 :: "kind_decl list" where
  "kinds_from_6001 = [
     kd 6001 ''FIRM_FOUNDED'' ''polis.economy'' Persisted
       [''firm_id'', ''founder_id'', ''name'', ''sector'', ''place_id'', ''initial_capital_cents'',
       ''ledger_account_id''],
     kd 6002 ''FIRM_DISSOLVED'' ''polis.economy'' Persisted
       [''firm_id'', ''reason'', ''residual_cents'', ''headcount_at_exit'', ''age_ticks''],
     kd 6003 ''FIRM_STATUS_CHANGED'' ''polis.economy'' Persisted
       [''firm_id'', ''from'', ''to'', ''trigger'', ''net_worth_cents'', ''liquid_cents''],
     kd 6004 ''OWNERSHIP_TRANSFERRED'' ''polis.economy'' Persisted
       [''firm_id'', ''from_holder'', ''to_holder'', ''shares'', ''share_class'', ''cause''],
     kd 6010 ''PRODUCTION_RUN'' ''polis.economy'' Persisted
       [''firm_id'', ''sku'', ''labour_bp'', ''capital_cents_used'', ''productivity_bp'',
       ''output_micro'', ''units_produced'', ''unit_cost_cents'', ''carry_micro_after''],
     kd 6011 ''CAPITAL_PURCHASED'' ''polis.economy'' Persisted
       [''firm_id'', ''seller_firm_id'', ''sku'', ''units'', ''cents'', ''capital_cents_after'',
       ''txn_id''],
     kd 6012 ''CAPITAL_DEPRECIATED'' ''polis.economy'' Persisted
       [''firm_id'', ''from_cents'', ''to_cents'', ''rate_bp''],
     kd 6013 ''INVENTORY_WRITTEN_OFF'' ''polis.economy'' Persisted
       [''firm_id'', ''sku'', ''units'', ''unit_cost_cents'', ''value_cents'', ''reason''],
     kd 6014 ''PRODUCTIVITY_UPDATED'' ''polis.economy'' Persisted
       [''firm_id'', ''from_bp'', ''to_bp'', ''cause''],
     kd 6022 ''PRICE_SET'' ''polis.economy'' Persisted
       [''firm_id'', ''sku'', ''from_cents'', ''to_cents'', ''rule'', ''markup_bp'',
       ''inventory_days''],
     kd 6023 ''RESTOCK_ORDERED'' ''polis.economy'' Persisted
       [''firm_id'', ''sku'', ''from_firm_id'', ''units'', ''cents'', ''txn_id''],
     kd 6030 ''DIVIDEND_DECLARED'' ''polis.economy'' Persisted
       [''firm_id'', ''per_share_cents'', ''total_cents'', ''record_tick'', ''payable_tick'',
       ''decided_by''],
     kd 6031 ''DIVIDEND_PAID'' ''polis.economy'' Persisted
       [''firm_id'', ''holder_id'', ''shares'', ''cents'', ''txn_id'']]"

definition kinds_from_6040 :: "kind_decl list" where
  "kinds_from_6040 = [
     kd 6040 ''FIRM_PERIOD_CLOSED'' ''polis.economy'' Persisted
       [''firm_id'', ''period'', ''revenue_cents'', ''wage_cents'', ''input_cents'',
       ''depreciation_cents'', ''interest_cents'', ''tax_cents'', ''profit_cents'',
       ''cumulative_losses_cents''],
     kd 6120 ''GOODS_PURCHASED'' ''polis.economy'' Persisted
       [''txn_id'', ''buyer_id'', ''seller_firm_id'', ''sku'', ''qty'', ''unit_price_cents'',
       ''gross_cents'', ''sales_tax_cents'', ''subsidy_cents'', ''ledger_txn_id''],
     kd 6121 ''PURCHASE_FAILED'' ''polis.economy'' Persisted
       [''buyer_id'', ''sku'', ''qty'', ''reason''],
     kd 6124 ''NEED_SATISFIED'' ''polis.economy'' Persisted
       [''agent_id'', ''need'', ''sku'', ''from_bp'', ''to_bp''],
     kd 6125 ''DURABLE_EXPIRED'' ''polis.economy'' Persisted
       [''agent_id'', ''sku'', ''acquired_tick'', ''life_ticks''],
     kd 6141 ''CPI_COMPUTED'' ''polis.economy'' Persisted
       [''basket_version'', ''index_bp'', ''category_index_bp'', ''carried_forward_skus'',
       ''window_ticks''],
     kd 6142 ''INFLATION_COMPUTED'' ''polis.economy'' Persisted
       [''yoy_bp'', ''mom_annualised_bp'', ''core_bp''],
     kd 6143 ''SECTOR_OUTPUT'' ''polis.economy'' Persisted
       [''sector'', ''units'', ''value_cents'', ''firms_n''],
     kd 6144 ''BASKET_FIXED'' ''polis.economy'' Persisted
       [''basket_version'', ''quantities'', ''base_prices_cents'', ''tick''],
     kd 6150 ''RENT_PAID'' ''polis.economy'' Persisted
       [''place_id'', ''tenant_id'', ''landlord_id'', ''cents'', ''period_ticks'', ''txn_id''],
     kd 6151 ''RENT_ARREARS'' ''polis.economy'' Persisted
       [''place_id'', ''tenant_id'', ''owed_cents'', ''periods_missed''],
     kd 7001 ''SECURITY_LISTED'' ''polis.economy.exchange'' Persisted
       [''symbol'', ''issuer_firm_id'', ''class'', ''shares_outstanding'', ''listing_price_cents'',
       ''ipo_round_id'', ''lockup_until_tick''],
     kd 7002 ''SECURITY_DELISTED'' ''polis.economy.exchange'' Persisted
       [''symbol'', ''reason'', ''final_price_cents'', ''holders_n''],
     kd 7003 ''SESSION_OPENED'' ''polis.economy.exchange'' Persisted
       [''session_id'', ''tick'', ''symbols'', ''opening_auction'', ''reference_prices''],
     kd 7004 ''SESSION_CLOSED'' ''polis.economy.exchange'' Persisted
       [''session_id'', ''tick'', ''closing_auction'', ''trades_n'', ''volume'',
       ''notional_cents'']]"

definition kinds_from_7010 :: "kind_decl list" where
  "kinds_from_7010 = [
     kd 7010 ''ORDER_SUBMITTED'' ''polis.economy.exchange'' Persisted
       [''order_id'', ''symbol'', ''trader_id'', ''side'', ''order_type'', ''limit_price_cents'',
       ''qty'', ''tif'', ''reserved_cents'', ''reserved_qty'', ''arrival_ordinal''],
     kd 7011 ''ORDER_REJECTED'' ''polis.economy.exchange'' Persisted
       [''trader_id'', ''symbol'', ''reason'', ''detail''],
     kd 7012 ''ORDER_CANCELLED'' ''polis.economy.exchange'' Persisted
       [''order_id'', ''remaining_qty'', ''released_cents'', ''released_qty'', ''initiator''],
     kd 7013 ''ORDER_EXPIRED'' ''polis.economy.exchange'' Persisted
       [''order_id'', ''remaining_qty'', ''released_cents'', ''released_qty''],
     kd 7020 ''TRADE_EXECUTED'' ''polis.economy.exchange'' Persisted
       [''trade_id'', ''symbol'', ''price_cents'', ''qty'', ''buy_order_id'', ''sell_order_id'',
       ''buyer_id'', ''seller_id'', ''aggressor'', ''commission_buy_cents'',
       ''commission_sell_cents'', ''ledger_txn_id''],
     kd 7021 ''ORDER_FILLED'' ''polis.economy.exchange'' Persisted
       [''order_id'', ''total_qty'', ''avg_price_cents'', ''commission_cents''],
     kd 7022 ''ORDER_PARTIALLY_FILLED'' ''polis.economy.exchange'' Persisted
       [''order_id'', ''filled_qty'', ''remaining_qty'', ''avg_price_cents''],
     kd 7030 ''BOOK_SNAPSHOT'' ''polis.economy.exchange'' Persisted
       [''symbol'', ''best_bid_cents'', ''best_ask_cents'', ''bid_depth'', ''ask_depth'',
       ''levels''],
     kd 7040 ''OHLCV_COMPUTED'' ''polis.economy.exchange'' Persisted
       [''symbol'', ''session_tick'', ''open_cents'', ''high_cents'', ''low_cents'',
       ''close_cents'', ''volume'', ''vwap_cents'', ''trades_n''],
     kd 7041 ''INDEX_COMPUTED'' ''polis.economy.exchange'' Persisted
       [''index_name'', ''value_bp'', ''divisor'', ''constituents'', ''mcap_cents''],
     kd 7050 ''CIRCUIT_BREAKER_TRIGGERED'' ''polis.economy.exchange'' Persisted
       [''symbol'', ''reference_cents'', ''last_cents'', ''move_bp'', ''band_bp'',
       ''halt_until_tick'', ''breaker_count''],
     kd 7051 ''TRADING_RESUMED'' ''polis.economy.exchange'' Persisted
       [''symbol'', ''reopen_auction_price_cents'', ''new_band_bp''],
     kd 7060 ''SHORT_OPENED'' ''polis.economy.exchange'' Persisted
       [''trader_id'', ''symbol'', ''qty'', ''price_cents'', ''borrow_fee_bp'',
       ''collateral_cents'', ''margin_ratio_bp'']]"

definition kinds_from_7061 :: "kind_decl list" where
  "kinds_from_7061 = [
     kd 7061 ''SHORT_COVERED'' ''polis.economy.exchange'' Persisted
       [''trader_id'', ''symbol'', ''qty'', ''price_cents'', ''realised_pnl_cents'',
       ''fees_paid_cents''],
     kd 7062 ''BORROW_FEE_CHARGED'' ''polis.economy.exchange'' Persisted
       [''trader_id'', ''symbol'', ''cents'', ''distributed_to'', ''txn_id''],
     kd 7063 ''MARGIN_CALL'' ''polis.economy.exchange'' Persisted
       [''trader_id'', ''symbol'', ''equity_cents'', ''required_cents'', ''deadline_tick''],
     kd 7064 ''FORCED_LIQUIDATION'' ''polis.economy.exchange'' Persisted
       [''trader_id'', ''symbol'', ''qty'', ''avg_price_cents'', ''shortfall_cents''],
     kd 7070 ''IPO_ANNOUNCED'' ''polis.economy.exchange'' Persisted
       [''firm_id'', ''symbol'', ''shares_offered'', ''primary_shares'', ''secondary_shares'',
       ''price_low_cents'', ''price_high_cents'', ''underwriter_bank_id'', ''book_close_tick''],
     kd 7071 ''IPO_INDICATION'' ''polis.economy.exchange'' Persisted
       [''firm_id'', ''investor_id'', ''qty'', ''limit_price_cents''],
     kd 7072 ''IPO_PRICED'' ''polis.economy.exchange'' Persisted
       [''firm_id'', ''symbol'', ''clearing_price_cents'', ''offer_price_cents'', ''discount_bp'',
       ''oversubscription_bp''],
     kd 7073 ''IPO_COMPLETED'' ''polis.economy.exchange'' Persisted
       [''firm_id'', ''symbol'', ''allocations'', ''gross_proceeds_cents'', ''primary_cents'',
       ''secondary_cents'', ''underwriting_fee_cents'', ''listing_fee_cents'', ''txn_id''],
     kd 7080 ''BOND_LISTED'' ''polis.economy.exchange'' Persisted
       [''symbol'', ''issuer'', ''face_cents'', ''coupon_bp'', ''matures_tick''],
     kd 8001 ''BANK_FOUNDED'' ''polis.economy'' Persisted
       [''bank_id'', ''name'', ''place_id'', ''capital_cents'', ''reserve_ratio_bp'',
       ''is_central''],
     kd 8002 ''ACCOUNT_OPENED'' ''polis.economy'' Persisted
       [''account_id'', ''owner_id'', ''owner_type'', ''account_type'', ''code''],
     kd 8003 ''ACCOUNT_CLOSED'' ''polis.economy'' Persisted
       [''account_id'', ''final_balance_cents'', ''reason''],
     kd 8004 ''DEPOSIT_MADE'' ''polis.economy'' Persisted
       [''owner_id'', ''bank_id'', ''cents'', ''source'', ''txn_id''],
     kd 8005 ''WITHDRAWAL_MADE'' ''polis.economy'' Persisted
       [''owner_id'', ''bank_id'', ''cents'', ''txn_id'']]"

definition kinds_from_8006 :: "kind_decl list" where
  "kinds_from_8006 = [
     kd 8006 ''WITHDRAWAL_REFUSED'' ''polis.economy'' Persisted
       [''owner_id'', ''bank_id'', ''requested_cents'', ''available_cents'', ''queue_position''],
     kd 8010 ''LOAN_ORIGINATED'' ''polis.economy'' Persisted
       [''loan_id'', ''lender_id'', ''borrower_id'', ''principal_cents'', ''annual_rate_bp'',
       ''term_ticks'', ''payment_cents'', ''payments_n'', ''collateral'', ''credit_score_bp'',
       ''txn_id''],
     kd 8011 ''LOAN_APPLICATION_SUBMITTED'' ''polis.economy'' Persisted
       [''application_id'', ''borrower_id'', ''lender_id'', ''requested_cents'', ''purpose'',
       ''term_ticks'', ''collateral''],
     kd 8012 ''LOAN_APPLICATION_DECIDED'' ''polis.economy'' Persisted
       [''application_id'', ''approved'', ''credit_score_bp'', ''score_components'',
       ''offered_rate_bp'', ''offered_cents'', ''reason_codes''],
     kd 8013 ''LOAN_PAYMENT_MADE'' ''polis.economy'' Persisted
       [''loan_id'', ''payment_no'', ''principal_cents'', ''interest_cents'',
       ''outstanding_after_cents'', ''txn_id''],
     kd 8014 ''LOAN_PAYMENT_MISSED'' ''polis.economy'' Persisted
       [''loan_id'', ''due_cents'', ''available_cents'', ''days_past_due''],
     kd 8015 ''LOAN_DELINQUENT'' ''polis.economy'' Persisted
       [''loan_id'', ''days_past_due'', ''capitalised_interest_cents'', ''txn_id''],
     kd 8016 ''LOAN_DEFAULTED'' ''polis.economy'' Persisted
       [''loan_id'', ''outstanding_cents'', ''trigger''],
     kd 8017 ''LOAN_WRITTEN_OFF'' ''polis.economy'' Persisted
       [''loan_id'', ''written_off_cents'', ''recovery_cents'', ''loss_given_default_bp'',
       ''txn_id''],
     kd 8018 ''LOAN_REPAID'' ''polis.economy'' Persisted
       [''loan_id'', ''total_interest_cents'', ''ticks_to_repay'', ''early''],
     kd 8019 ''COLLATERAL_SEIZED'' ''polis.economy'' Persisted
       [''loan_id'', ''asset_ref'', ''appraised_cents'', ''realised_cents'', ''txn_id''],
     kd 8020 ''INTEREST_ACCRUED'' ''polis.economy'' Persisted
       [''loan_id'', ''cents'', ''annual_rate_bp'', ''period_ticks'', ''accrued_total_cents''],
     kd 8021 ''DEPOSIT_INTEREST_PAID'' ''polis.economy'' Persisted
       [''bank_id'', ''total_cents'', ''accounts_n'', ''rate_bp'', ''txn_id'']]"

definition kinds_from_8030 :: "kind_decl list" where
  "kinds_from_8030 = [
     kd 8030 ''POLICY_RATE_SET'' ''polis.economy'' Persisted
       [''rate_bp'', ''prev_rate_bp'', ''setter'', ''inflation_bp'', ''output_gap_bp''],
     kd 8031 ''RESERVE_REQUIREMENT_SET'' ''polis.economy'' Persisted
       [''ratio_bp'', ''prev_bp'', ''setter''],
     kd 8032 ''MONEY_ISSUED'' ''polis.economy'' Persisted
       [''amount_cents'', ''recipient_account_id'', ''instrument'', ''purpose'', ''txn_id''],
     kd 8033 ''MONEY_WITHDRAWN'' ''polis.economy'' Persisted
       [''amount_cents'', ''source_account_id'', ''instrument'', ''purpose'', ''txn_id''],
     kd 8034 ''OPEN_MARKET_OPERATION'' ''polis.economy'' Persisted
       [''direction'', ''amount_cents'', ''counterparty_bank_id'', ''symbol'', ''qty'',
       ''price_cents'', ''txn_id''],
     kd 8040 ''INTERBANK_LOAN'' ''polis.economy'' Persisted
       [''loan_id'', ''lender_bank_id'', ''borrower_bank_id'', ''cents'', ''rate_bp'',
       ''term_ticks''],
     kd 8041 ''DISCOUNT_WINDOW_BORROWED'' ''polis.economy'' Persisted
       [''bank_id'', ''cents'', ''penalty_rate_bp'', ''reserve_shortfall_cents''],
     kd 8042 ''INTERBANK_REFUSED'' ''polis.economy'' Persisted
       [''borrower_bank_id'', ''lender_bank_id'', ''cents'', ''reason''],
     kd 8050 ''BANK_RATIOS_COMPUTED'' ''polis.economy'' Persisted
       [''bank_id'', ''capital_cents'', ''rwa_cents'', ''capital_ratio_bp'', ''reserve_ratio_bp'',
       ''ldr_bp'', ''npl_bp''],
     kd 8051 ''BANK_UNDERCAPITALISED'' ''polis.economy'' Persisted
       [''bank_id'', ''capital_ratio_bp'', ''threshold_bp'', ''new_lending_frozen''],
     kd 8052 ''BANK_RUN_DETECTED'' ''polis.economy'' Persisted
       [''bank_id'', ''requested_cents'', ''served_cents'', ''refused_n'',
       ''deposits_before_cents'', ''deposits_after_cents''],
     kd 8053 ''BANK_FAILED'' ''polis.economy'' Persisted
       [''bank_id'', ''capital_cents'', ''deposits_cents'', ''shortfall_cents'', ''resolution'']]"

definition kinds_from_8054 :: "kind_decl list" where
  "kinds_from_8054 = [
     kd 8054 ''DEPOSIT_INSURANCE_PAID'' ''polis.economy'' Persisted
       [''bank_id'', ''covered_cents'', ''depositors_n'', ''txn_id''],
     kd 8055 ''DEPOSIT_HAIRCUT'' ''polis.economy'' Persisted
       [''bank_id'', ''depositor_id'', ''haircut_cents'', ''recovery_bp'', ''txn_id''],
     kd 8060 ''BOND_ISSUED'' ''polis.economy'' Persisted
       [''symbol'', ''face_cents'', ''coupon_bp'', ''matures_tick'', ''auction_id''],
     kd 8061 ''BOND_AUCTION_CLEARED'' ''polis.economy'' Persisted
       [''auction_id'', ''offered_cents'', ''bid_cents'', ''clearing_yield_bp'', ''allocations'',
       ''txn_id''],
     kd 8062 ''BOND_AUCTION_FAILED'' ''polis.economy'' Persisted
       [''auction_id'', ''offered_cents'', ''bid_cents'', ''shortfall_cents''],
     kd 8063 ''COUPON_PAID'' ''polis.economy'' Persisted
       [''symbol'', ''holders_n'', ''total_cents'', ''txn_id''],
     kd 8064 ''BOND_MATURED'' ''polis.economy'' Persisted
       [''symbol'', ''face_cents'', ''holders_n'', ''txn_id''],
     kd 8070 ''TAX_ASSESSED'' ''polis.economy'' Persisted
       [''taxpayer_id'', ''tax_type'', ''base_cents'', ''rate_bp'', ''assessed_cents'', ''period'',
       ''due_tick''],
     kd 8071 ''TAX_COLLECTED'' ''polis.economy'' Persisted
       [''taxpayer_id'', ''tax_type'', ''cents'', ''txn_id''],
     kd 8072 ''TAX_ARREARS'' ''polis.economy'' Persisted
       [''taxpayer_id'', ''cents'', ''loan_id'', ''penalty_rate_bp''],
     kd 8073 ''TRANSFER_PAID'' ''polis.economy'' Persisted
       [''recipient_id'', ''programme'', ''cents'', ''txn_id''],
     kd 8074 ''GOV_BUDGET_CLOSED'' ''polis.economy'' Persisted
       [''period'', ''receipts_cents'', ''spending_cents'', ''debt_service_cents'',
       ''balance_cents'', ''debt_cents'', ''debt_to_gdp_bp''],
     kd 9001 ''STARTUP_FOUNDED'' ''polis.economy.ventures'' Persisted
       [''startup_id'', ''firm_id'', ''founder_id'', ''thesis'', ''sector'',
       ''initial_capital_cents'', ''burn_rate_cents''],
     kd 9002 ''THESIS_REVISED'' ''polis.economy.ventures'' Persisted
       [''startup_id'', ''from_thesis'', ''to_thesis'', ''trigger''],
     kd 9003 ''RUNWAY_UPDATED'' ''polis.economy.ventures'' Persisted
       [''startup_id'', ''liquid_cents'', ''burn_rate_cents'', ''runway_ticks'', ''stage'',
       ''revenue_ttm_cents'']]"

definition kinds_from_9004 :: "kind_decl list" where
  "kinds_from_9004 = [
     kd 9004 ''STARTUP_DIED'' ''polis.economy.ventures'' Persisted
       [''startup_id'', ''cause'', ''age_ticks'', ''total_raised_cents'', ''investors_loss_cents''],
     kd 9005 ''VC_FUND_FORMED'' ''polis.economy.ventures'' Persisted
       [''fund_id'', ''firm_id'', ''gp_agent_id'', ''committed_cents'', ''lps'', ''vintage_tick'',
       ''thesis'', ''mgmt_fee_bp'', ''carry_bp'', ''hurdle_bp''],
     kd 9006 ''CAPITAL_CALLED'' ''polis.economy.ventures'' Persisted
       [''fund_id'', ''lp_id'', ''called_cents'', ''cumulative_called_cents'', ''txn_id''],
     kd 9007 ''LP_DEFAULTED'' ''polis.economy.ventures'' Persisted
       [''fund_id'', ''lp_id'', ''called_cents'', ''forfeited_units'', ''reallocated_to''],
     kd 9008 ''FUND_DISTRIBUTION'' ''polis.economy.ventures'' Persisted
       [''fund_id'', ''source_exit_id'', ''gross_cents'', ''lp_cents'', ''carry_cents'',
       ''hurdle_met'', ''txn_id''],
     kd 9009 ''MANAGEMENT_FEE_CHARGED'' ''polis.economy.ventures'' Persisted
       [''fund_id'', ''cents'', ''period'', ''txn_id''],
     kd 9010 ''ROUND_CLOSED'' ''polis.economy.ventures'' Persisted
       [''round_id'', ''startup_id'', ''stage'', ''pre_money_cents'', ''amount_cents'',
       ''post_money_cents'', ''price_per_share_cents'', ''new_shares'', ''lead_investor_id'',
       ''participants'', ''option_pool_shares'', ''txn_id''],
     kd 9011 ''PITCH_MADE'' ''polis.economy.ventures'' Persisted
       [''pitch_id'', ''startup_id'', ''founder_id'', ''investor_id'', ''ask_cents'',
       ''pre_money_ask_cents'', ''deck_text'', ''traction''],
     kd 9012 ''PITCH_EVALUATED'' ''polis.economy.ventures'' Persisted
       [''pitch_id'', ''investor_id'', ''conviction_bp'', ''thesis_fit_bp'',
       ''valuation_view_cents'', ''check_size_cents'', ''verdict'', ''concerns'', ''llm_call_id''],
     kd 9013 ''TERM_SHEET_ISSUED'' ''polis.economy.ventures'' Persisted
       [''term_sheet_id'', ''startup_id'', ''investor_id'', ''pre_money_cents'', ''amount_cents'',
       ''security'', ''liq_pref_bp'', ''participating'', ''pro_rata'', ''board_seat'',
       ''option_pool_bp'', ''anti_dilution'', ''expires_tick''],
     kd 9014 ''TERM_SHEET_ACCEPTED'' ''polis.economy.ventures'' Persisted
       [''term_sheet_id'', ''round_id'']]"

definition kinds_from_9015 :: "kind_decl list" where
  "kinds_from_9015 = [
     kd 9015 ''TERM_SHEET_DECLINED'' ''polis.economy.ventures'' Persisted
       [''term_sheet_id'', ''reason_code'', ''counter_pre_money_cents''],
     kd 9016 ''TERM_SHEET_EXPIRED'' ''polis.economy.ventures'' Persisted [''term_sheet_id''],
     kd 9017 ''DOWN_ROUND'' ''polis.economy.ventures'' Persisted
       [''round_id'', ''prior_price_per_share_cents'', ''new_price_per_share_cents'',
       ''decline_bp'', ''anti_dilution_applied'', ''extra_shares_issued''],
     kd 9018 ''CAP_TABLE_UPDATED'' ''polis.economy.ventures'' Persisted
       [''firm_id'', ''holder_id'', ''share_class'', ''shares_before'', ''shares_after'',
       ''cause'', ''fully_diluted_after''],
     kd 9019 ''OPTION_POOL_SET'' ''polis.economy.ventures'' Persisted
       [''firm_id'', ''pool_shares'', ''pool_bp'', ''pre_money_pool'', ''granted_to''],
     kd 9020 ''ACQUISITION_PROPOSED'' ''polis.economy.ventures'' Persisted
       [''deal_id'', ''acquirer_id'', ''target_id'', ''offer_cents'', ''per_share_cents'',
       ''consideration'', ''stock_ratio_bp'', ''premium_bp'', ''integration_mode'',
       ''expires_tick'', ''financing''],
     kd 9021 ''ACQUISITION_APPROVED'' ''polis.economy.ventures'' Persisted
       [''deal_id'', ''accepting_holders'', ''accepting_bp'', ''threshold_bp'',
       ''drag_along_applied''],
     kd 9022 ''ACQUISITION_REJECTED'' ''polis.economy.ventures'' Persisted
       [''deal_id'', ''accepting_bp'', ''reason''],
     kd 9023 ''ACQUISITION_COMPLETED'' ''polis.economy.ventures'' Persisted
       [''deal_id'', ''price_cents'', ''per_share_cents'', ''integration_mode'', ''txn_id'',
       ''waterfall_ref''],
     kd 9024 ''ASSET_SALE'' ''polis.economy.ventures'' Persisted
       [''deal_id'', ''seller_id'', ''buyer_id'', ''assets'', ''cents'', ''txn_id''],
     kd 9025 ''INTEGRATION_COMPLETED'' ''polis.economy.ventures'' Persisted
       [''deal_id'', ''headcount_retained'', ''redundancies'', ''sku_transfers'',
       ''productivity_delta_bp'', ''loans_transferred''],
     kd 9026 ''ACQUISITION_BLOCKED'' ''polis.economy.ventures'' Persisted
       [''deal_id'', ''blocker'', ''hhi_before'', ''hhi_after'', ''sector'', ''policy_ref''],
     kd 9030 ''BANKRUPTCY_FILED'' ''polis.economy.ventures'' Persisted
       [''case_id'', ''entity_id'', ''entity_type'', ''trigger'', ''assets_cents'',
       ''liabilities_cents'', ''filed_by'', ''petitioning_creditor_id'']]"

definition kinds_from_9031 :: "kind_decl list" where
  "kinds_from_9031 = [
     kd 9031 ''AUTOMATIC_STAY_IMPOSED'' ''polis.economy.ventures'' Persisted
       [''case_id'', ''entity_id'', ''cancelled_order_ids'', ''released_cents'',
       ''released_shares'', ''blocked_action_types'', ''stay_until_tick''],
     kd 9032 ''CLAIM_REGISTERED'' ''polis.economy.ventures'' Persisted
       [''case_id'', ''creditor_id'', ''claim_cents'', ''priority_class'', ''collateral_ref'',
       ''loan_id''],
     kd 9033 ''ASSETS_LIQUIDATED'' ''polis.economy.ventures'' Persisted
       [''case_id'', ''item'', ''book_cents'', ''realised_cents'', ''haircut_bp'', ''buyer_id'',
       ''txn_id''],
     kd 9034 ''DISTRIBUTION_MADE'' ''polis.economy.ventures'' Persisted
       [''case_id'', ''priority_class'', ''creditor_id'', ''claim_cents'', ''paid_cents'',
       ''class_recovery_bp'', ''txn_id''],
     kd 9035 ''BANKRUPTCY_DISCHARGED'' ''polis.economy.ventures'' Persisted
       [''case_id'', ''outcome'', ''written_off_cents'', ''blended_recovery_bp'',
       ''resolved_tick''],
     kd 9036 ''CREDIT_FLAG_SET'' ''polis.economy.ventures'' Persisted
       [''entity_id'', ''flag'', ''set_tick'', ''expires_tick''],
     kd 9037 ''EXEMPTION_APPLIED'' ''polis.economy.ventures'' Persisted
       [''case_id'', ''entity_id'', ''exempt_cents'', ''basis''],
     kd 9038 ''ESTATE_DEFERRED_TO_CASE'' ''polis.economy.ventures'' Persisted
       [''case_id'', ''deceased_agent_id'', ''estate_cents'', ''heirs''],
     kd 12001 ''PARTY_FOUNDED'' ''polis.society.polity'' Persisted
       [''party_id'', ''founder_id'', ''name'', ''platform'', ''founding_member_ids'',
       ''fee_cents'', ''txn_id''],
     kd 12002 ''PARTY_JOINED'' ''polis.society.polity'' Persisted
       [''agent_id'', ''party_id'', ''alignment_score'', ''prior_party_id''],
     kd 12003 ''PARTY_LEFT'' ''polis.society.polity'' Persisted
       [''agent_id'', ''party_id'', ''reason''],
     kd 12004 ''PARTY_PLATFORM_CHANGED'' ''polis.society.polity'' Persisted
       [''party_id'', ''changes'', ''driver''],
     kd 12005 ''PARTY_DISSOLVED'' ''polis.society.polity'' Persisted
       [''party_id'', ''reason'', ''final_membership'', ''merged_into''],
     kd 12010 ''ELECTION_CALLED'' ''polis.society.polity'' Persisted
       [''election_id'', ''office'', ''seats'', ''method'', ''called_tick'', ''voting_tick'',
       ''campaign_ends_tick'', ''electorate_size'']]"

definition kinds_from_12011 :: "kind_decl list" where
  "kinds_from_12011 = [
     kd 12011 ''CANDIDACY_ANNOUNCED'' ''polis.society.polity'' Persisted
       [''candidacy_id'', ''agent_id'', ''election_id'', ''party_id'', ''platform'',
       ''deposit_cents'', ''txn_id''],
     kd 12012 ''CAMPAIGN_SPEND'' ''polis.society.polity'' Persisted
       [''candidacy_id'', ''agent_id'', ''amount_cents'', ''channel'', ''target_id'',
       ''reached_agent_ids'', ''reach'', ''txn_id''],
     kd 12013 ''CANDIDACY_DEPOSITS_REFUNDED'' ''polis.society.polity'' Persisted
       [''election_id'', ''refunds'', ''txn_id''],
     kd 12020 ''VOTE_CAST'' ''polis.society.polity'' Persisted
       [''election_id'', ''voter_id'', ''origin'', ''utility''],
     kd 12021 ''ABSTAINED'' ''polis.society.polity'' Persisted
       [''election_id'', ''agent_id'', ''reason'', ''max_utility''],
     kd 12022 ''ELECTION_RESOLVED'' ''polis.society.polity'' Persisted
       [''election_id'', ''method'', ''tallies'', ''winner_ids'', ''turnout'', ''margin'',
       ''rounds'', ''n_deliberate'', ''n_reflex'', ''fitted_omega'', ''holdout_accuracy''],
     kd 12023 ''OFFICE_ASSUMED'' ''polis.society.polity'' Persisted
       [''office'', ''agent_id'', ''via'', ''term_start_tick'', ''term_end_tick'',
       ''salary_cents''],
     kd 12024 ''OFFICE_VACATED'' ''polis.society.polity'' Persisted
       [''office'', ''agent_id'', ''reason'', ''successor_id''],
     kd 12025 ''POLICY_PROPOSED'' ''polis.society.polity'' Persisted
       [''proposal_id'', ''proposer_id'', ''parameter'', ''old_value'', ''proposed_value'',
       ''rationale'', ''cosigners''],
     kd 12026 ''POLICY_REJECTED'' ''polis.society.polity'' Persisted
       [''proposal_id'', ''yeas'', ''nays'', ''abstentions''],
     kd 12027 ''POLICY_VOTED'' ''polis.society.polity'' Persisted
       [''proposal_id'', ''chamber'', ''votes'', ''yeas'', ''nays'', ''abstentions'', ''passed'',
       ''margin''],
     kd 12028 ''POLICY_VETOED'' ''polis.society.polity'' Persisted
       [''proposal_id'', ''president_id'', ''overridden'', ''override_margin'']]"

definition kinds_from_12030 :: "kind_decl list" where
  "kinds_from_12030 = [
     kd 12030 ''POLICY_ENACTED'' ''polis.society.polity'' Persisted
       [''policy_id'', ''parameter'', ''old_value'', ''new_value'', ''effective_tick'',
       ''enacted_by'', ''vote_margin'', ''proposal_seq''],
     kd 12032 ''POLICY_REPEALED'' ''polis.society.polity'' Persisted
       [''policy_id'', ''parameter'', ''restored_value'', ''repealed_policy_id''],
     kd 12033 ''POLICY_BLOCKED'' ''polis.society.polity'' Persisted
       [''proposal_id'', ''predicate'', ''detail''],
     kd 12034 ''BUDGET_SET'' ''polis.society.polity'' Persisted
       [''period_start_tick'', ''revenue_projection_cents'', ''outlay_projection_cents'',
       ''allocations'', ''debt_cents''],
     kd 12040 ''APPOINTMENT_MADE'' ''polis.society.polity'' Persisted
       [''office'', ''appointee_id'', ''appointed_by'', ''confirmed'', ''confirm_margin''],
     kd 12041 ''OFFICER_REMOVED'' ''polis.society.polity'' Persisted
       [''office'', ''agent_id'', ''removed_by'', ''margin'', ''reason''],
     kd 13001 ''LEGALITY_FLAGGED'' ''polis.society.law'' Persisted
       [''action_id'', ''actor_id'', ''action_type'', ''offence_type'', ''path'', ''predicate_id'',
       ''crime_id''],
     kd 13010 ''CRIME_COMMITTED'' ''polis.society.law'' Persisted
       [''crime_id'', ''type'', ''perpetrator_id'', ''victim_id'', ''amount_cents'', ''place_id'',
       ''district_id'', ''source_action_id'', ''concealment'', ''detected'', ''path''],
     kd 13011 ''CRIME_DETECTED'' ''polis.society.law'' Persisted
       [''crime_id'', ''detector'', ''p_detect'', ''ticks_since_commission''],
     kd 13012 ''CRIME_REPORTED'' ''polis.society.law'' Persisted
       [''crime_id'', ''reporter_id'', ''latency_ticks'', ''evidence_event_seqs''],
     kd 13013 ''INVESTIGATION_OPENED'' ''polis.society.law'' Persisted
       [''case_file_id'', ''crime_id'', ''officer_id'', ''severity'', ''queue_position''],
     kd 13014 ''INVESTIGATION_CLOSED'' ''polis.society.law'' Persisted
       [''case_file_id'', ''outcome'', ''evidence_strength'', ''evidence_event_seqs''],
     kd 13015 ''ARREST_MADE'' ''polis.society.law'' Persisted
       [''crime_id'', ''suspect_id'', ''officer_id'', ''place_id'', ''evidence_strength''],
     kd 13020 ''SUIT_FILED'' ''polis.society.law'' Persisted
       [''case_id'', ''type'', ''plaintiff_id'', ''defendant_id'', ''crime_id'',
       ''cause_of_action'', ''claim_cents'', ''filing_fee_cents'', ''evidence_event_seqs'',
       ''txn_id'']]"

definition kinds_from_13021 :: "kind_decl list" where
  "kinds_from_13021 = [
     kd 13021 ''COUNSEL_RETAINED'' ''polis.society.law'' Persisted
       [''case_id'', ''party_id'', ''counsel_id'', ''side'', ''fee_cents'', ''counsel_skill_law'',
       ''public_defender'', ''txn_id''],
     kd 13022 ''EVIDENCE_ADMITTED'' ''polis.society.law'' Persisted
       [''case_id'', ''admitted_seqs'', ''excluded_seqs'', ''excluded_reasons'',
       ''evidence_strength'', ''surfaced_by_counsel''],
     kd 13023 ''TESTIMONY_GIVEN'' ''polis.society.law'' Persisted
       [''case_id'', ''witness_id'', ''statement'', ''claims'', ''consistency_score'',
       ''perjury_flagged''],
     kd 13030 ''CASE_SETTLED'' ''polis.society.law'' Persisted
       [''case_id'', ''amount_cents'', ''offered_by'', ''txn_id''],
     kd 13031 ''TRIAL_HELD'' ''polis.society.law'' Persisted
       [''case_id'', ''judge_id'', ''session_tick'', ''plaintiff_counsel_id'',
       ''defence_counsel_id'', ''evidence_strength''],
     kd 13040 ''JUDGMENT_RENDERED'' ''polis.society.law'' Persisted
       [''case_id'', ''judge_id'', ''verdict'', ''findings'', ''fine_cents'', ''sentence_ticks'',
       ''damages_cents'', ''restitution_cents'', ''disqualification_ticks'', ''clamped'',
       ''origin'', ''llm_call_id'', ''nominal''],
     kd 13041 ''FINE_LEVIED'' ''polis.society.law'' Persisted
       [''case_id'', ''payer_id'', ''amount_cents'', ''txn_id'', ''garnished'',
       ''shortfall_cents''],
     kd 13042 ''DAMAGES_AWARDED'' ''polis.society.law'' Persisted
       [''case_id'', ''from_id'', ''to_id'', ''amount_cents'', ''txn_id'', ''shortfall_cents''],
     kd 13043 ''INCARCERATION_STARTED'' ''polis.society.law'' Persisted
       [''agent_id'', ''case_id'', ''ticks'', ''place_id'', ''converted_to_fine'',
       ''capacity_at_sentencing''],
     kd 13044 ''INCARCERATION_ENDED'' ''polis.society.law'' Persisted
       [''agent_id'', ''ticks_served'', ''skill_delta'', ''ties_lost'',
       ''returns_to_household_id''],
     kd 13045 ''GARNISHMENT_COLLECTED'' ''polis.society.law'' Persisted
       [''receivable_id'', ''case_id'', ''debtor_id'', ''creditor_id'', ''amount_cents'',
       ''txn_id'', ''reason'', ''remaining_cents'']]"

definition kinds_from_15001 :: "kind_decl list" where
  "kinds_from_15001 = [
     kd 15001 ''COURTSHIP_STARTED'' ''polis.agents.demography'' Persisted
       [''a_id'', ''b_id'', ''initiator_id'', ''compatibility'', ''place_id''],
     kd 15002 ''COURTSHIP_ENDED'' ''polis.agents.demography'' Persisted
       [''a_id'', ''b_id'', ''outcome'', ''duration_ticks''],
     kd 15003 ''UNION_FORMED'' ''polis.agents.demography'' Persisted
       [''partner_ids'', ''household_id'', ''courtship_ticks''],
     kd 15004 ''UNION_DISSOLVED'' ''polis.agents.demography'' Persisted
       [''partner_ids'', ''initiator_id'', ''reason'', ''split_txn_id'', ''dependants'',
       ''custody''],
     kd 15010 ''HOUSEHOLD_FORMED'' ''polis.agents.demography'' Persisted
       [''household_id'', ''member_ids'', ''home_place_id'', ''tenure'', ''rent_cents'',
       ''head_agent_id'', ''reason''],
     kd 15011 ''HOUSEHOLD_JOINED'' ''polis.agents.demography'' Persisted
       [''agent_id'', ''household_id'', ''reason''],
     kd 15012 ''HOUSEHOLD_LEFT'' ''polis.agents.demography'' Persisted
       [''agent_id'', ''household_id'', ''reason''],
     kd 15013 ''HOUSEHOLD_DISSOLVED'' ''polis.agents.demography'' Persisted
       [''household_id'', ''reason'', ''members_reassigned''],
     kd 15020 ''CONCEPTION'' ''polis.agents.demography'' Persisted
       [''mother_id'', ''father_id'', ''due_tick'', ''hazard'', ''draw''],
     kd 15021 ''PREGNANCY_ENDED'' ''polis.agents.demography'' Persisted
       [''mother_id'', ''outcome'', ''child_id'', ''gestation_ticks''],
     kd 15022 ''CHILD_COST_CHARGED'' ''polis.agents.demography'' Persisted
       [''household_id'', ''child_ids'', ''amount_cents'', ''benefit_offset_cents'', ''txn_id'',
       ''arrears_cents''],
     kd 15023 ''STATE_CARE_STARTED'' ''polis.agents.demography'' Persisted
       [''child_id'', ''from_household_id'', ''to_household_id'', ''reason'', ''cost_cents''],
     kd 15030 ''BELIEF_PRIORS_INHERITED'' ''polis.agents.demography'' Persisted
       [''child_id'', ''mother_id'', ''father_id'', ''heritability_beliefs'', ''propositions''],
     kd 15040 ''MIGRATION_IN'' ''polis.agents.demography'' Persisted
       [''agent_id'', ''cohort_id'', ''origin_profile'', ''arrival_wealth_cents'', ''skills'',
       ''belief_priors'', ''home_place_id'']]"

definition kinds_from_15041 :: "kind_decl list" where
  "kinds_from_15041 = [
     kd 15041 ''MIGRATION_OUT'' ''polis.agents.demography'' Persisted
       [''agent_id'', ''hazard_components'', ''exit_wealth_cents'', ''ties_severed'',
       ''debts_settled_cents'', ''debts_defaulted_cents''],
     kd 13050 ''POLICE_BUDGET_ALLOCATED'' ''polis.society.law'' Persisted
       [''total_cents'', ''chief_id'', ''district_shares'', ''patrol_units'', ''audit_units'',
       ''investigation_slots''],
     kd 9040 ''EXIT_COMPLETED'' ''polis.economy.ventures'' Persisted
       [''startup_id'', ''type'', ''gross_proceeds_cents'', ''distribution'', ''multiple_bp'',
       ''holding_period_ticks''],
     kd 9041 ''WATERFALL_APPLIED'' ''polis.economy.ventures'' Persisted
       [''firm_id'', ''proceeds_cents'', ''tranches''],
     kd 14001 ''SKILL_ACCRUED'' ''polis.agents'' Persisted [''agent_id'', ''skill'', ''delta''],
     kd 20000 ''EXTERNAL_REGISTRATION_REQUESTED'' ''polis.gateway'' Persisted
       [''pubkey'', ''display_name'', ''operator'', ''contact'', ''declared_model'',
       ''declared_model_version'', ''declared_scaffold'', ''scaffold_notes'', ''memory'',
       ''sdk_version'', ''protocol_version'', ''requested_embodiment'', ''conformance_token''],
     kd 20001 ''EXTERNAL_AGENT_REGISTERED'' ''polis.gateway'' Persisted
       [''agent_id'', ''pubkey'', ''operator'', ''declared_model'', ''declared_scaffold'',
       ''embodiment'', ''twin_agent_id'', ''conformance_token'', ''admitted_tick''],
     kd 20002 ''EXTERNAL_REGISTRATION_REJECTED'' ''polis.gateway'' Persisted
       [''pubkey'', ''reason''],
     kd 20003 ''EXTERNAL_KEY_REVOKED'' ''polis.gateway'' Persisted
       [''agent_id'', ''revoked_by'', ''reason'', ''strikes''],
     kd 20004 ''EXTERNAL_AGENT_NATURALISED'' ''polis.gateway'' Persisted
       [''agent_id'', ''reason'', ''consecutive_misses'', ''ticks_driven'', ''driver_after''],
     kd 20005 ''EXTERNAL_CONTROL_RESUMED'' ''polis.gateway'' Persisted
       [''agent_id'', ''gap_ticks'', ''session_id''],
     kd 20010 ''EXTERNAL_SESSION_OPENED'' ''polis.gateway'' Persisted
       [''agent_id'', ''session_id'', ''custody'', ''delegate_pubkey'', ''ttl_s'', ''transport'',
       ''sdk_version'', ''protocol_version'']]"

definition kinds_from_20011 :: "kind_decl list" where
  "kinds_from_20011 = [
     kd 20011 ''EXTERNAL_SESSION_CLOSED'' ''polis.gateway'' Persisted
       [''agent_id'', ''session_id'', ''reason''],
     kd 20020 ''EXTERNAL_ACTION_SUBMITTED'' ''polis.gateway'' Persisted
       [''agent_id'', ''action_id'', ''tick'', ''type'', ''nonce'', ''params_hash'',
       ''reasoning_hash'', ''sig''],
     kd 20021 ''EXTERNAL_ACTION_REJECTED'' ''polis.gateway'' Persisted
       [''agent_id'', ''action_id'', ''tick'', ''stage'', ''reason''],
     kd 20030 ''EXTERNAL_DEADLINE_MISSED'' ''polis.gateway'' Persisted
       [''agent_id'', ''tick'', ''window_ms'', ''consecutive_misses'', ''fell_back_to'',
       ''arrived_late_ms''],
     kd 20031 ''EXTERNAL_OBSERVATION_PUSHED'' ''polis.gateway'' Persisted
       [''agent_id'', ''tick'', ''digest_hash'', ''bytes'', ''channel''],
     kd 20040 ''EXTERNAL_RATE_LIMITED'' ''polis.gateway'' Persisted
       [''agent_id'', ''tick'', ''limit'', ''observed'', ''window''],
     kd 20041 ''EXTERNAL_AGENT_THROTTLED'' ''polis.gateway'' Persisted
       [''agent_id'', ''from_tick'', ''until_tick'', ''factor'', ''trigger'', ''strikes''],
     kd 20042 ''EXTERNAL_AGENT_SUSPENDED'' ''polis.gateway'' Persisted
       [''agent_id'', ''from_tick'', ''until_tick'', ''strikes'', ''trigger''],
     kd 20050 ''EXTERNAL_INJECTION_FLAGGED'' ''polis.gateway'' Persisted
       [''agent_id'', ''direction'', ''channel'', ''source_ref'', ''pattern_id'', ''sample_hash'',
       ''action_taken''],
     kd 20051 ''EXTERNAL_SIM_AWARE_FLAGGED'' ''polis.gateway'' Persisted
       [''agent_id'', ''tick'', ''surface'', ''confidence'', ''sample_hash''],
     kd 20060 ''EXTERNAL_MEMORY_WRITTEN'' ''polis.gateway'' Persisted
       [''agent_id'', ''memory_id'', ''type'', ''importance_requested'', ''importance_assigned'',
       ''evicted_memory_id'', ''citations_dropped''],
     kd 20070 ''EXTERNAL_SCORECARD_SNAPSHOT'' ''polis.gateway'' Persisted [''tick'', ''agents''],
     kd 20090 ''EXTERNAL_ARENA_INVALIDATED'' ''polis.gateway'' Persisted
       [''reason'', ''offending_agent_ids'', ''threshold'', ''observed''],
     kd 20900 ''EXTERNAL_GATEWAY_DEGRADED'' ''polis.gateway'' Persisted
       [''reason'', ''affected_agent_ids'', ''tick''],
     kd 99060 ''VALIDITY_GATE_EVALUATED'' ''polis.research'' Persisted
       [''gate_id'', ''verdict'', ''statistic'', ''threshold'', ''query'']]"

definition kinds_from_99071 :: "kind_decl list" where
  "kinds_from_99071 = [
     kd 99071 ''METRIC_RECORDED'' ''polis.research'' Persisted
       [''metric'', ''value'', ''definition_hash''],
     kd 90050 ''LIVE_TICK'' ''polis.observatory'' Ephemeral [''tick''],
     kd 90051 ''LIVE_AGENTS'' ''polis.observatory'' Ephemeral [''tick'', ''agents''],
     kd 90020 ''EXTERNAL_AGENT_STATUS'' ''polis.gateway'' Ephemeral
       [''agent_id'', ''driver'', ''connected'', ''last_decision_ms'', ''slots_remaining'']]"

definition kind_table :: "kind_decl list" where
  "kind_table = concat [kinds_from_1001, kinds_from_2051, kinds_from_10020, kinds_from_11010, kinds_from_11034,
     kinds_from_4202, kinds_from_5020, kinds_from_6001, kinds_from_6040, kinds_from_7010,
     kinds_from_7061, kinds_from_8006, kinds_from_8030, kinds_from_8054, kinds_from_9004,
     kinds_from_9015, kinds_from_9031, kinds_from_12011, kinds_from_12030,
     kinds_from_13021, kinds_from_15001, kinds_from_15041, kinds_from_20011,
     kinds_from_99071]"

definition kind_registry_at_import :: "kind_error + kind_registry" where
  \<comment> \<open>the registry after the module is loaded\<close>
  "kind_registry_at_import = fold_res register_decl kind_table \<lparr>reg_specs = [], reg_names = []\<rparr>"

end
