(* ===== verification/Kinds_Spec.thy ===== *)
theory Kinds_Spec
  imports Event_Log
begin

text \<open>
  The registry of event kinds: every registry built by \<open>register_kind\<close> is consistent with the
  declared ranges, and registering never disturbs an earlier entry.
\<close>

inductive registry_reachable :: "kind_registry \<Rightarrow> bool" where
  empty: "registry_reachable \<lparr>reg_specs = [], reg_names = []\<rparr>"
| register: "registry_reachable reg \<Longrightarrow> register_kind kind name own pers schema desc reg = Inr (k, reg') \<Longrightarrow>
    registry_reachable reg'"

definition owner_allowed :: "string \<Rightarrow> kind_range \<Rightarrow> bool" where
  "owner_allowed own r \<longleftrightarrow> kr_owner r = ''*'' \<or> own = kr_owner r \<or> starts_with (kr_owner r @ ''.'') own"

definition registered_well :: "kind_registry \<Rightarrow> int \<Rightarrow> kind_spec \<Rightarrow> bool" where
  "registered_well reg k ks \<longleftrightarrow> ks_kind ks = k \<and> dget (reg_names reg) (ks_name ks) = Some k
     \<and> (case range_for k of Inl _ \<Rightarrow> False
        | Inr r \<Rightarrow> kr_persistence r = ks_persistence ks \<and> owner_allowed (ks_owner ks) r)"

definition registry_inv :: "kind_registry \<Rightarrow> bool" where
  "registry_inv reg \<longleftrightarrow> (\<forall>k ks. dget (reg_specs reg) k = Some ks \<longrightarrow> registered_well reg k ks)
     \<and> (\<forall>n k. dget (reg_names reg) n = Some k \<longrightarrow> opt_ex (\<lambda>ks. ks_name ks = n) (dget (reg_specs reg) k))"

lemma register_InrD:
  assumes "register_kind kind name own pers schema desc reg = Inr (k, reg')"
  obtains r where "range_for kind = Inr r" "dget (reg_specs reg) kind = None" "dget (reg_names reg) name = None"
    "owner_allowed own r" "kr_persistence r = pers" "k = kind"
    "reg' = \<lparr>reg_specs = dset kind \<lparr>ks_kind = kind, ks_name = name, ks_owner = own,
        ks_persistence = pers, ks_schema = schema, ks_description = desc\<rparr> (reg_specs reg),
      reg_names = dset name kind (reg_names reg)\<rparr>"
  using assms that by (auto simp: register_kind_def res_simps owner_allowed_def split: if_splits)

lemma registry_reachable_inv: "registry_reachable reg \<Longrightarrow> registry_inv reg"
proof (induction rule: registry_reachable.induct)
  case empty
  then show ?case by (simp add: registry_inv_def)
next
  case (register reg kind name own pers schema desc k reg')
  from register(2) obtain r where "range_for kind = Inr r" "dget (reg_specs reg) kind = None"
    "dget (reg_names reg) name = None" "owner_allowed own r" "kr_persistence r = pers"
    "reg' = \<lparr>reg_specs = dset kind \<lparr>ks_kind = kind, ks_name = name, ks_owner = own,
        ks_persistence = pers, ks_schema = schema, ks_description = desc\<rparr> (reg_specs reg),
      reg_names = dset name kind (reg_names reg)\<rparr>" by (rule register_InrD)
  with register.IH show ?case
    by (fastforce simp: registry_inv_def registered_well_def opt_ex_iff split: sum.splits)
qed

lemma range_for_iff: "range_for kind = Inr r \<longleftrightarrow> r \<in> set kind_ranges \<and> kr_lo r \<le> kind \<and> kind \<le> kr_hi r"
proof
  assume "range_for kind = Inr r"
  then show "r \<in> set kind_ranges \<and> kr_lo r \<le> kind \<and> kind \<le> kr_hi r"
    by (auto simp: range_for_def find_Some_iff split: option.splits)
next
  assume r: "r \<in> set kind_ranges \<and> kr_lo r \<le> kind \<and> kind \<le> kr_hi r"
  have "list_all (\<lambda>a. list_all (\<lambda>b. a = b \<or> kr_hi a < kr_lo b \<or> kr_hi b < kr_lo a) kind_ranges) kind_ranges"
    by code_simp
  then have unique: "x = r" if "x \<in> set kind_ranges" "kr_lo x \<le> kind" "kind \<le> kr_hi x" for x
    using that r unfolding list_all_iff by fastforce
  obtain x where x: "find (\<lambda>r. kr_lo r \<le> kind \<and> kind \<le> kr_hi r) kind_ranges = Some x"
    using r by (cases "find (\<lambda>r. kr_lo r \<le> kind \<and> kind \<le> kr_hi r) kind_ranges") (auto simp: find_None_iff)
  then have "x = r" using unique[of x] by (auto simp: find_Some_iff)
  with x show "range_for kind = Inr r" by (simp add: range_for_def)
qed

text \<open>In every registry that \<open>register_kind\<close> builds, a kind carries its own number, lies in exactly
  one declared range, has that range's persistence (so \<open>is_ephemeral\<close> agrees with the entry) and an
  owner inside the range's owner, and no two kinds share a name.\<close>

theorem kind_registry_consistent:
  assumes "registry_reachable reg" "kind_spec_of reg k = Inr ks"
  shows "ks_kind ks = k \<and> is_ephemeral k = Inr (ks_persistence ks = Ephemeral)
    \<and> (\<exists>!r. r \<in> set kind_ranges \<and> kr_lo r \<le> k \<and> k \<le> kr_hi r)
    \<and> list_ex (\<lambda>r. kr_lo r \<le> k \<and> k \<le> kr_hi r \<and> kr_persistence r = ks_persistence ks
         \<and> owner_allowed (ks_owner ks) r) kind_ranges
    \<and> (\<forall>k' ks'. kind_spec_of reg k' = Inr ks' \<longrightarrow> ks_name ks' = ks_name ks \<longrightarrow> k' = k)"
proof -
  have inv: "registry_inv reg" using assms(1) by (rule registry_reachable_inv)
  have look: "dget (reg_specs reg) k' = Some s" if "kind_spec_of reg k' = Inr s" for k' s
    using that by (auto simp: kind_spec_of_def split: option.splits)
  have "registered_well reg k ks" using inv look[OF assms(2)] by (simp add: registry_inv_def)
  then obtain r where r: "range_for k = Inr r" "kr_persistence r = ks_persistence ks"
    "owner_allowed (ks_owner ks) r" "ks_kind ks = k" "dget (reg_names reg) (ks_name ks) = Some k"
    by (cases "range_for k") (auto simp: registered_well_def)
  have "\<exists>!r. r \<in> set kind_ranges \<and> kr_lo r \<le> k \<and> k \<le> kr_hi r"
    using r(1) unfolding range_for_iff[symmetric] by auto
  moreover have "list_ex (\<lambda>r. kr_lo r \<le> k \<and> k \<le> kr_hi r \<and> kr_persistence r = ks_persistence ks
         \<and> owner_allowed (ks_owner ks) r) kind_ranges"
    using r unfolding range_for_iff list_ex_iff by blast
  moreover have "k' = k" if "kind_spec_of reg k' = Inr ks'" "ks_name ks' = ks_name ks" for k' ks'
  proof -
    have "registered_well reg k' ks'" using inv look[OF that(1)] by (simp add: registry_inv_def)
    then show ?thesis using that(2) r(5) by (simp add: registered_well_def)
  qed
  ultimately show ?thesis using r by (auto simp: is_ephemeral_def)
qed

definition demo_kinds :: "kind_error + int \<times> kind_registry" where
  "demo_kinds = register_kind 90050 ''LIVE_TICK'' ''polis.observatory'' Ephemeral JNull []
     \<lparr>reg_specs = [], reg_names = []\<rparr>"

lemma kind_registry_consistent_witness: "is_ephemeral 90050 = Inr True"
proof -
  define k reg where kr: "k = fst (projr demo_kinds)" "reg = snd (projr demo_kinds)"
  have "is_ok demo_kinds" by code_simp
  then have reg: "demo_kinds = Inr (k, reg)" unfolding kr prod.collapse by (rule is_ok_projr)
  have "is_ok (kind_spec_of reg 90050)" "ks_persistence (projr (kind_spec_of reg 90050)) = Ephemeral"
    unfolding kr by code_simp+
  from this(1) have ks: "kind_spec_of reg 90050 = Inr (projr (kind_spec_of reg 90050))" by (rule is_ok_projr)
  have "registry_reachable reg"
    by (rule registry_reachable.register[OF registry_reachable.empty reg[unfolded demo_kinds_def]])
  from kind_registry_consistent[OF this ks] show ?thesis
    using \<open>ks_persistence (projr (kind_spec_of reg 90050)) = Ephemeral\<close> by simp
qed

end
