(* ===== verification/Kinds_Table_Spec.thy ===== *)
theory Kinds_Table_Spec
  imports Kinds_Table Kinds_Spec
begin

text \<open>
  Loading \<open>polis/events/kinds.py\<close> succeeds: each of the registrations of the table is accepted.
  The checks are evaluated block by block; distinctness of the names goes through a numeric code.
\<close>

definition decl_ok :: "kind_decl \<Rightarrow> bool" where
  "decl_ok d = (case range_for (kd_kind d) of Inl _ \<Rightarrow> False
     | Inr r \<Rightarrow> kr_persistence r = kd_persistence d \<and> owner_allowed (kd_owner d) r)"

definition name_code :: "string \<Rightarrow> nat" where
  "name_code s = fold (\<lambda>c a. (a * 31 + of_char c) mod 1000003) s 0"

definition decl_code :: "kind_decl \<Rightarrow> nat \<times> nat" where
  "decl_code d = (nat (kd_kind d), name_code (kd_name d))"

lemma register_decls:
  assumes "list_all decl_ok ds" "distinct (map kd_kind ds)" "distinct (map kd_name ds)"
    and "\<forall>d\<in>set ds. dget (reg_specs reg) (kd_kind d) = None \<and> dget (reg_names reg) (kd_name d) = None"
  shows "\<exists>reg'. fold_res register_decl ds reg = Inr reg'
    \<and> dkeys (reg_specs reg') = dkeys (reg_specs reg) @ map kd_kind ds
    \<and> (registry_reachable reg \<longrightarrow> registry_reachable reg')"
  using assms
proof (induction ds arbitrary: reg)
  case (Cons d ds)
  from Cons.prems(1) obtain r where r: "range_for (kd_kind d) = Inr r" "kr_persistence r = kd_persistence d"
    "owner_allowed (kd_owner d) r" by (auto simp: decl_ok_def split: sum.splits)
  let ?reg = "\<lparr>reg_specs = dset (kd_kind d) \<lparr>ks_kind = kd_kind d, ks_name = kd_name d, ks_owner = kd_owner d,
      ks_persistence = kd_persistence d, ks_schema = schema_of (kd_required d), ks_description = []\<rparr> (reg_specs reg),
    reg_names = dset (kd_name d) (kd_kind d) (reg_names reg)\<rparr>"
  have k: "register_kind (kd_kind d) (kd_name d) (kd_owner d) (kd_persistence d)
      (schema_of (kd_required d)) [] reg = Inr (kd_kind d, ?reg)"
    using r Cons.prems(4) by (auto simp: register_kind_def owner_allowed_def)
  have "\<exists>reg'. fold_res register_decl ds ?reg = Inr reg'
      \<and> dkeys (reg_specs reg') = dkeys (reg_specs ?reg) @ map kd_kind ds
      \<and> (registry_reachable ?reg \<longrightarrow> registry_reachable reg')"
    using Cons.prems by (intro Cons.IH) (auto simp: image_iff)
  then obtain reg' where reg': "fold_res register_decl ds ?reg = Inr reg'"
    "dkeys (reg_specs reg') = dkeys (reg_specs ?reg) @ map kd_kind ds"
    "registry_reachable ?reg \<longrightarrow> registry_reachable reg'" by blast
  have "dget (reg_specs reg) (kd_kind d) = None" using Cons.prems(4) by simp
  then have "kd_kind d \<notin> set (dkeys (reg_specs reg))" by (rule dget_None_iff[THEN iffD1])
  then have keys: "dkeys (reg_specs ?reg) = dkeys (reg_specs reg) @ [kd_kind d]"
    by (simp only: dkeys_dset kind_registry.simps if_False)
  have "register_decl d reg = Inr ?reg" using k by (simp add: register_decl_def)
  then have "fold_res register_decl (d # ds) reg = Inr reg'" using reg'(1) by simp
  moreover have "dkeys (reg_specs reg') = dkeys (reg_specs reg) @ map kd_kind (d # ds)"
    unfolding reg'(2) keys by simp
  moreover have "registry_reachable reg \<longrightarrow> registry_reachable reg'"
    using reg'(3) registry_reachable.register[OF _ k] by blast
  ultimately show ?case by blast
qed simp

section \<open>The blocks of the table\<close>

lemma kinds_from_1001_ok: "list_all decl_ok kinds_from_1001"
  by code_simp

lemma kinds_from_1001_codes: "map decl_code kinds_from_1001 = [
    (1001, 870024), (1002, 383742), (1003, 840211), (1004, 684829), (1010, 385319), (2001,
    104274), (2002, 157677), (2005, 676858), (2006, 274417), (2007, 328319), (2008, 248506),
    (2009, 334277)]"
  by code_simp

lemma kinds_from_2051_ok: "list_all decl_ok kinds_from_2051"
  by code_simp

lemma kinds_from_2051_codes: "map decl_code kinds_from_2051 = [
    (2051, 281390), (2060, 433682), (2061, 221605), (2062, 254629), (3001, 394819), (3002,
    834469), (3005, 633982), (3100, 156760), (3101, 161955), (10010, 962302), (10011, 360857),
    (10012, 420717)]"
  by code_simp

lemma kinds_from_10020_ok: "list_all decl_ok kinds_from_10020"
  by code_simp

lemma kinds_from_10020_codes: "map decl_code kinds_from_10020 = [
    (10020, 179454), (10021, 149244), (10030, 603747), (10040, 469064), (10041, 413052), (10042,
    467473), (10043, 133964), (10050, 427277), (10060, 523573), (10061, 866158), (10062,
    396934), (10063, 693382)]"
  by code_simp

lemma kinds_from_11010_ok: "list_all decl_ok kinds_from_11010"
  by code_simp

lemma kinds_from_11010_codes: "map decl_code kinds_from_11010 = [
    (11010, 130164), (11011, 794198), (11012, 388023), (11020, 207553), (11021, 575233), (11022,
    571518), (11030, 709069), (11031, 550945), (11032, 632372), (11033, 100899)]"
  by code_simp

lemma kinds_from_11034_ok: "list_all decl_ok kinds_from_11034"
  by code_simp

lemma kinds_from_11034_codes: "map decl_code kinds_from_11034 = [
    (11034, 869682), (11035, 664910), (11050, 481392), (11051, 587617), (11052, 667739), (11040,
    59891), (11041, 199505), (4001, 793355), (4002, 347537), (4003, 395871), (4004, 993767),
    (4010, 816021), (4020, 47405), (4100, 63399), (4101, 816539), (4102, 844807), (4201, 548847)]"
  by code_simp

lemma kinds_from_4202_ok: "list_all decl_ok kinds_from_4202"
  by code_simp

lemma kinds_from_4202_codes: "map decl_code kinds_from_4202 = [
    (4202, 632728), (5001, 530329), (5002, 461803), (5003, 144423), (5004, 715), (5005, 492174),
    (5006, 121354), (5007, 968439), (5008, 54388), (5009, 76877), (5010, 749060), (5011,
    902024), (5012, 497097), (5013, 908863)]"
  by code_simp

lemma kinds_from_5020_ok: "list_all decl_ok kinds_from_5020"
  by code_simp

lemma kinds_from_5020_codes: "map decl_code kinds_from_5020 = [
    (5020, 602945), (5021, 869192), (5030, 686589), (5031, 365853), (5032, 167270), (5040,
    858835), (5041, 968913), (5042, 714410), (5050, 884774), (5060, 895539), (5061, 894355),
    (5070, 320287), (5080, 807877), (5081, 757870)]"
  by code_simp

lemma kinds_from_6001_ok: "list_all decl_ok kinds_from_6001"
  by code_simp

lemma kinds_from_6001_codes: "map decl_code kinds_from_6001 = [
    (6001, 809747), (6002, 547573), (6003, 421930), (6004, 873500), (6010, 731289), (6011,
    871624), (6012, 350034), (6013, 959305), (6014, 274365), (6022, 247658), (6023, 489105),
    (6030, 369305), (6031, 972544)]"
  by code_simp

lemma kinds_from_6040_ok: "list_all decl_ok kinds_from_6040"
  by code_simp

lemma kinds_from_6040_codes: "map decl_code kinds_from_6040 = [
    (6040, 582559), (6120, 419324), (6121, 420611), (6124, 734095), (6125, 335885), (6141,
    937392), (6142, 267775), (6143, 283610), (6144, 332318), (6150, 41374), (6151, 154511),
    (7001, 987645), (7002, 739838), (7003, 621326), (7004, 681186)]"
  by code_simp

lemma kinds_from_7010_ok: "list_all decl_ok kinds_from_7010"
  by code_simp

lemma kinds_from_7010_codes: "map decl_code kinds_from_7010 = [
    (7010, 345115), (7011, 218748), (7012, 834722), (7013, 281564), (7020, 250765), (7021,
    765464), (7022, 670952), (7030, 300937), (7040, 748150), (7041, 295283), (7050, 383453),
    (7051, 512715), (7060, 12860)]"
  by code_simp

lemma kinds_from_7061_ok: "list_all decl_ok kinds_from_7061"
  by code_simp

lemma kinds_from_7061_codes: "map decl_code kinds_from_7061 = [
    (7061, 201656), (7062, 94473), (7063, 126003), (7064, 813595), (7070, 605262), (7071,
    359361), (7072, 657238), (7073, 658988), (7080, 209856), (8001, 846223), (8002, 868239),
    (8003, 928099), (8004, 736290), (8005, 459360)]"
  by code_simp

lemma kinds_from_8006_ok: "list_all decl_ok kinds_from_8006"
  by code_simp

lemma kinds_from_8006_codes: "map decl_code kinds_from_8006 = [
    (8006, 179720), (8010, 240356), (8011, 557619), (8012, 480515), (8013, 995458), (8014,
    482940), (8015, 848144), (8016, 948591), (8017, 380799), (8018, 307485), (8019, 557457),
    (8020, 685633), (8021, 139891)]"
  by code_simp

lemma kinds_from_8030_ok: "list_all decl_ok kinds_from_8030"
  by code_simp

lemma kinds_from_8030_codes: "map decl_code kinds_from_8030 = [
    (8030, 949172), (8031, 538359), (8032, 530880), (8033, 667726), (8034, 863626), (8040,
    361056), (8041, 559513), (8042, 810587), (8050, 464675), (8051, 998040), (8052, 532272),
    (8053, 674143)]"
  by code_simp

lemma kinds_from_8054_ok: "list_all decl_ok kinds_from_8054"
  by code_simp

lemma kinds_from_8054_codes: "map decl_code kinds_from_8054 = [
    (8054, 633055), (8055, 316473), (8060, 558805), (8061, 133168), (8062, 152442), (8063,
    495211), (8064, 939918), (8070, 962249), (8071, 165818), (8072, 41785), (8073, 446839),
    (8074, 905188), (9001, 282314), (9002, 364449), (9003, 221845)]"
  by code_simp

lemma kinds_from_9004_ok: "list_all decl_ok kinds_from_9004"
  by code_simp

lemma kinds_from_9004_codes: "map decl_code kinds_from_9004 = [
    (9004, 901126), (9005, 971097), (9006, 611660), (9007, 715414), (9008, 756921), (9009,
    91814), (9010, 225098), (9011, 919884), (9012, 683856), (9013, 316825), (9014, 702980)]"
  by code_simp

lemma kinds_from_9015_ok: "list_all decl_ok kinds_from_9015"
  by code_simp

lemma kinds_from_9015_codes: "map decl_code kinds_from_9015 = [
    (9015, 550062), (9016, 847346), (9017, 335821), (9018, 841935), (9019, 270232), (9020,
    490281), (9021, 993629), (9022, 379631), (9023, 204713), (9024, 275239), (9025, 706319),
    (9026, 771089), (9030, 769859)]"
  by code_simp

lemma kinds_from_9031_ok: "list_all decl_ok kinds_from_9031"
  by code_simp

lemma kinds_from_9031_codes: "map decl_code kinds_from_9031 = [
    (9031, 872999), (9032, 878401), (9033, 70414), (9034, 71362), (9035, 531810), (9036,
    355208), (9037, 908214), (9038, 209941), (12001, 142031), (12002, 873059), (12003, 212082),
    (12004, 388568), (12005, 874423), (12010, 102930)]"
  by code_simp

lemma kinds_from_12011_ok: "list_all decl_ok kinds_from_12011"
  by code_simp

lemma kinds_from_12011_codes: "map decl_code kinds_from_12011 = [
    (12011, 979474), (12012, 732508), (12013, 551390), (12020, 455390), (12021, 910850), (12022,
    295161), (12023, 537510), (12024, 370343), (12025, 940044), (12026, 829394), (12027,
    159485), (12028, 718549)]"
  by code_simp

lemma kinds_from_12030_ok: "list_all decl_ok kinds_from_12030"
  by code_simp

lemma kinds_from_12030_codes: "map decl_code kinds_from_12030 = [
    (12030, 529402), (12032, 536514), (12033, 688823), (12034, 883180), (12040, 904570), (12041,
    765824), (13001, 313948), (13010, 127647), (13011, 71280), (13012, 679095), (13013, 82184),
    (13014, 142044), (13015, 220008), (13020, 133302)]"
  by code_simp

lemma kinds_from_13021_ok: "list_all decl_ok kinds_from_13021"
  by code_simp

lemma kinds_from_13021_codes: "map decl_code kinds_from_13021 = [
    (13021, 831449), (13022, 205873), (13023, 515411), (13030, 872104), (13031, 119084), (13040,
    124771), (13041, 487171), (13042, 842821), (13043, 464792), (13044, 333031), (13045, 732016)]"
  by code_simp

lemma kinds_from_15001_ok: "list_all decl_ok kinds_from_15001"
  by code_simp

lemma kinds_from_15001_codes: "map decl_code kinds_from_15001 = [
    (15001, 653586), (15002, 454976), (15003, 161590), (15004, 600030), (15010, 743295), (15011,
    992399), (15012, 343320), (15013, 121695), (15020, 133148), (15021, 492664), (15022,
    225097), (15023, 190085), (15030, 583288), (15040, 138515)]"
  by code_simp

lemma kinds_from_15041_ok: "list_all decl_ok kinds_from_15041"
  by code_simp

lemma kinds_from_15041_codes: "map decl_code kinds_from_15041 = [
    (15041, 300020), (13050, 452225), (9040, 684353), (9041, 405710), (14001, 600250), (20000,
    609363), (20001, 610088), (20002, 845339), (20003, 185295), (20004, 491006), (20005, 36621),
    (20010, 665187)]"
  by code_simp

lemma kinds_from_20011_ok: "list_all decl_ok kinds_from_20011"
  by code_simp

lemma kinds_from_20011_codes: "map decl_code kinds_from_20011 = [
    (20011, 725047), (20020, 583977), (20021, 581293), (20030, 835166), (20031, 337428), (20040,
    439840), (20041, 174482), (20042, 697039), (20050, 931169), (20051, 28824), (20060, 859882),
    (20070, 664101), (20090, 511368), (20900, 285006), (99060, 742641)]"
  by code_simp

lemma kinds_from_99071_ok: "list_all decl_ok kinds_from_99071"
  by code_simp

lemma kinds_from_99071_codes: "map decl_code kinds_from_99071 = [
    (99071, 837776), (90050, 993861), (90051, 363435), (90020, 479694)]"
  by code_simp

lemmas blocks_ok = kinds_from_1001_ok kinds_from_2051_ok kinds_from_10020_ok kinds_from_11010_ok
  kinds_from_11034_ok kinds_from_4202_ok kinds_from_5020_ok kinds_from_6001_ok
  kinds_from_6040_ok kinds_from_7010_ok kinds_from_7061_ok kinds_from_8006_ok
  kinds_from_8030_ok kinds_from_8054_ok kinds_from_9004_ok kinds_from_9015_ok
  kinds_from_9031_ok kinds_from_12011_ok kinds_from_12030_ok kinds_from_13021_ok
  kinds_from_15001_ok kinds_from_15041_ok kinds_from_20011_ok kinds_from_99071_ok

lemmas blocks_codes = kinds_from_1001_codes kinds_from_2051_codes kinds_from_10020_codes kinds_from_11010_codes
  kinds_from_11034_codes kinds_from_4202_codes kinds_from_5020_codes kinds_from_6001_codes
  kinds_from_6040_codes kinds_from_7010_codes kinds_from_7061_codes kinds_from_8006_codes
  kinds_from_8030_codes kinds_from_8054_codes kinds_from_9004_codes kinds_from_9015_codes
  kinds_from_9031_codes kinds_from_12011_codes kinds_from_12030_codes
  kinds_from_13021_codes kinds_from_15001_codes kinds_from_15041_codes
  kinds_from_20011_codes kinds_from_99071_codes

lemma table_ok: "list_all decl_ok kind_table"
  by (simp only: kind_table_def concat.simps list_all_append list.pred_inject blocks_ok simp_thms)

lemma table_codes: "distinct (map fst (map decl_code kind_table)) \<and> distinct (map snd (map decl_code kind_table))"
  by (simp only: kind_table_def concat.simps map_append blocks_codes append.simps append_Nil2 list.map fst_conv snd_conv) simp

lemma table_distinct: "distinct (map kd_kind kind_table)" "distinct (map kd_name kind_table)"
proof -
  have "map fst (map decl_code kind_table) = map nat (map kd_kind kind_table)"
    "map snd (map decl_code kind_table) = map name_code (map kd_name kind_table)"
    by (simp_all add: decl_code_def)
  with table_codes show "distinct (map kd_kind kind_table)" "distinct (map kd_name kind_table)"
    using distinct_map[of nat "map kd_kind kind_table"] distinct_map[of name_code "map kd_name kind_table"]
    by metis+
qed

text \<open>Loading the module registers every kind of the table, in its order, without an error, and the
  registry obtained is one of those the registration discipline allows.\<close>

theorem kind_table_registers:
  "case kind_registry_at_import of Inl _ \<Rightarrow> False
   | Inr reg \<Rightarrow> dkeys (reg_specs reg) = map kd_kind kind_table \<and> length (reg_specs reg) = 306
               \<and> registry_reachable reg"
proof -
  have "length (map decl_code kind_table) = 306"
    by (simp only: kind_table_def concat.simps map_append blocks_codes append.simps append_Nil2) simp
  then have len: "length kind_table = 306" by simp
  from register_decls[OF table_ok table_distinct, of "\<lparr>reg_specs = [], reg_names = []\<rparr>"]
  obtain reg where reg: "kind_registry_at_import = Inr reg" "dkeys (reg_specs reg) = map kd_kind kind_table"
    "registry_reachable reg"
    by (auto simp: kind_registry_at_import_def registry_reachable.empty)
  then have "length (reg_specs reg) = 306" using len by (metis length_map)
  with reg(2,3) show ?thesis unfolding reg(1) sum.case by blast
qed

end
