(* ===== verification/Rng.thy ===== *)
theory Rng
  imports Event_Log
begin

text \<open>
  \<open>polis/kernel/rng.py\<close> and \<open>polis/kernel/det.py\<close>: the counter-mode generator over SHA-256, the
  registry that derives seeds from names, and deterministic identifiers. The SHA-256 digest (as
  bytes) and \<open>uuid5\<close> are parameters; a float is a pair \<open>(m, e)\<close> for \<open>m / 2 ^ e\<close>. NumPy generators
  are third-party and not modelled.
\<close>

datatype rng_error = SeedOverflow | EmptyRange | EmptySequence | SeedMismatch

definition from_bytes_be :: "string \<Rightarrow> int" where
  "from_bytes_be b = fold (\<lambda>c a. a * 256 + of_char c) b 0"

section \<open>The generator\<close>

record rng =
  rng_seed :: int
  rng_counter :: int

definition mk_rng :: "int \<Rightarrow> rng" where
  "mk_rng seed = \<lparr>rng_seed = seed, rng_counter = 0\<rparr>"

definition word :: "(string \<Rightarrow> string) \<Rightarrow> rng \<Rightarrow> rng_error + int \<times> rng" where
  \<comment> \<open>\<open>_word\<close>\<close>
  "word digest r =
     (case (to_bytes 8 (rng_seed r), to_bytes 8 (rng_counter r)) of
        (Some s, Some c) \<Rightarrow>
          Inr (from_bytes_be (take 8 (digest (s @ c))), r\<lparr>rng_counter := rng_counter r + 1\<rparr>)
      | _ \<Rightarrow> Inl SeedOverflow)"

definition random_float :: "(string \<Rightarrow> string) \<Rightarrow> rng \<Rightarrow> rng_error + (nat \<times> nat) \<times> rng" where
  "random_float digest r =
     res_map (\<lambda>(w, r'). (float_quotient (nat w) (2 ^ 64 - 1), r')) (word digest r)"

definition randint :: "(string \<Rightarrow> string) \<Rightarrow> int \<Rightarrow> int \<Rightarrow> rng \<Rightarrow> rng_error + int \<times> rng" where
  "randint digest lo hi r =
     (if hi < lo then Inl EmptyRange
      else res_map (\<lambda>(w, r'). (lo + w mod (hi - lo + 1), r')) (word digest r))"

definition rng_choice :: "(string \<Rightarrow> string) \<Rightarrow> 'a list \<Rightarrow> rng \<Rightarrow> rng_error + 'a \<times> rng" where
  "rng_choice digest values r =
     (if values = [] then Inl EmptySequence
      else res_map (\<lambda>(w, r'). (values ! nat (w mod int (length values)), r')) (word digest r))"

definition swap :: "nat \<Rightarrow> nat \<Rightarrow> 'a list \<Rightarrow> 'a list" where
  "swap i j xs = xs[i := xs ! j, j := xs ! i]"

fun shuffle_from :: "(string \<Rightarrow> string) \<Rightarrow> nat \<Rightarrow> 'a list \<Rightarrow> rng \<Rightarrow> rng_error + 'a list \<times> rng" where
  \<comment> \<open>the loop of \<open>shuffle\<close> for the indices \<open>index, \<dots>, 1\<close>\<close>
  "shuffle_from digest 0 xs r = Inr (xs, r)"
| "shuffle_from digest (Suc i) xs r =
     res_bind (word digest r) (\<lambda>(w, r').
       shuffle_from digest i (swap (Suc i) (nat (w mod (int (Suc i) + 1))) xs) r')"

definition shuffle :: "(string \<Rightarrow> string) \<Rightarrow> 'a list \<Rightarrow> rng \<Rightarrow> rng_error + 'a list \<times> rng" where
  "shuffle digest xs r = shuffle_from digest (length xs - 1) xs r"

section \<open>The registry\<close>

record rng_registry =
  rr_master_seed :: int
  rr_draws :: nat

definition mk_registry :: "int \<Rightarrow> rng_registry" where
  "mk_registry master = \<lparr>rr_master_seed = master, rr_draws = 0\<rparr>"

definition seed_material :: "int \<Rightarrow> string \<Rightarrow> string \<Rightarrow> int option \<Rightarrow> string" where
  "seed_material master namespace entity tick =
     str_int master @ ''|'' @ namespace @ ''|'' @ entity @ ''|''
       @ (case tick of None \<Rightarrow> [] | Some t \<Rightarrow> str_int t)"

definition seed_for :: "(string \<Rightarrow> string) \<Rightarrow> int \<Rightarrow> string \<Rightarrow> string \<Rightarrow> int option \<Rightarrow> int" where
  "seed_for digest master namespace entity tick =
     from_bytes_be (take 8 (digest (seed_material master namespace entity tick)))"

definition rng_get :: "(string \<Rightarrow> string) \<Rightarrow> string \<Rightarrow> string \<Rightarrow> int option \<Rightarrow> rng_registry
    \<Rightarrow> rng \<times> rng_registry" where
  "rng_get digest namespace entity tick reg =
     (mk_rng (seed_for digest (rr_master_seed reg) namespace entity tick),
      reg\<lparr>rr_draws := Suc (rr_draws reg)\<rparr>)"

definition registry_dump :: "rng_registry \<Rightarrow> (string, int) dict" where
  "registry_dump reg = [(''master_seed'', rr_master_seed reg), (''version'', 1)]"

definition registry_load :: "(string, int) dict \<Rightarrow> rng_registry \<Rightarrow> rng_error + rng_registry" where
  \<comment> \<open>a dump always has the key\<close>
  "registry_load state reg =
     (if dget state ''master_seed'' \<noteq> Some (rr_master_seed reg) then Inl SeedMismatch else Inr reg)"

section \<open>Deterministic identifiers\<close>

definition stable_dict :: "(string, 'v) dict \<Rightarrow> (string \<times> 'v) list" where
  "stable_dict d = sort_key fst d"

definition det_uuid :: "(string \<Rightarrow> uuid) \<Rightarrow> string \<Rightarrow> string list \<Rightarrow> uuid" where
  \<comment> \<open>\<open>uuid5\<close> in the URL name space is the argument; the parts are already rendered by \<open>str\<close>\<close>
  "det_uuid uuid5_url namespace parts = uuid5_url (join ''|'' (namespace # parts))"

definition uuid_hex :: "uuid \<Rightarrow> string" where
  "uuid_hex u = concat (map (\<lambda>c. [hex_digit (of_char c div 16), hex_digit (of_char c mod 16)]) (bytes_be 16 u))"

definition det_id :: "(string \<Rightarrow> uuid) \<Rightarrow> string \<Rightarrow> string \<Rightarrow> string list \<Rightarrow> string" where
  "det_id uuid5_url prefix namespace parts =
     prefix @ ''_'' @ take 16 (uuid_hex (det_uuid uuid5_url namespace parts))"

section \<open>Facts\<close>

lemma from_bytes_be_nonneg: "0 \<le> from_bytes_be b"
proof -
  have "0 \<le> (of_char c :: int)" for c by (metis of_nat_0_le_iff of_nat_of_char)
  then have "0 \<le> fold (\<lambda>c a. a * 256 + of_char c) b (a :: int)" if "0 \<le> a" for a
    using that by (induction b arbitrary: a) simp_all
  then show ?thesis by (simp add: from_bytes_be_def)
qed

lemma word_InrD:
  assumes "word digest r = Inr (w, r')"
  shows "0 \<le> w" "rng_counter r' = rng_counter r + 1" "rng_seed r' = rng_seed r"
  using assms from_bytes_be_nonneg by (auto simp: word_def split: option.split_asm)

lemma swap_mset: "i < length xs \<Longrightarrow> j < length xs \<Longrightarrow> mset (swap i j xs) = mset xs"
  by (simp add: swap_def mset_swap)

lemma length_swap [simp]: "length (swap i j xs) = length xs"
  by (simp add: swap_def)

lemma nth_swap: "i < length xs \<Longrightarrow> j < length xs \<Longrightarrow>
    swap i j xs ! k = (if k = j then xs ! i else if k = i then xs ! j else xs ! k)"
  by (auto simp: swap_def nth_list_update)

end
