(* ===== verification/Rng_Spec.thy ===== *)
theory Rng_Spec
  imports Rng
begin

text \<open>
  The generator: draws stay in range, a shuffle permutes and can produce every permutation, and
  the seeds of different names are derived from different material.
\<close>

section \<open>Shuffling\<close>

text \<open>The shuffle, driven by the list of chosen targets.\<close>

fun shuffle_with :: "nat \<Rightarrow> nat list \<Rightarrow> 'a list \<Rightarrow> 'a list" where
  "shuffle_with (Suc i) (t # ts) xs = shuffle_with i ts (swap (Suc i) t xs)"
| "shuffle_with _ _ xs = xs"

fun targets_ok :: "nat \<Rightarrow> nat list \<Rightarrow> bool" where
  "targets_ok 0 ts = (ts = [])"
| "targets_ok (Suc i) (t # ts) = (t \<le> Suc i \<and> targets_ok i ts)"
| "targets_ok (Suc i) [] = False"

lemma mod_target: "0 \<le> w \<Longrightarrow> nat (w mod (int (Suc i) + 1)) \<le> Suc i"
  using pos_mod_bound[of "int (Suc i) + 1" w] by linarith

lemma shuffle_from_with:
  "shuffle_from digest i xs r = Inr (ys, r') \<Longrightarrow>
    \<exists>ts. targets_ok i ts \<and> ys = shuffle_with i ts xs \<and> rng_counter r' = rng_counter r + int i"
proof (induction i arbitrary: xs r)
  case (Suc i)
  then obtain w r1 where w: "word digest r = Inr (w, r1)"
    "shuffle_from digest i (swap (Suc i) (nat (w mod (int (Suc i) + 1))) xs) r1 = Inr (ys, r')"
    by (auto simp: res_simps)
  from Suc.IH[OF w(2)] obtain ts where "targets_ok i ts"
    "ys = shuffle_with i ts (swap (Suc i) (nat (w mod (int (Suc i) + 1))) xs)"
    "rng_counter r' = rng_counter r1 + int i" by blast
  with word_InrD[OF w(1)] mod_target show ?case
    by (intro exI[of _ "nat (w mod (int (Suc i) + 1)) # ts"]) auto
qed auto

lemma shuffle_with_mset: "targets_ok i ts \<Longrightarrow> i < length xs \<or> i = 0 \<Longrightarrow> mset (shuffle_with i ts xs) = mset xs"
  by (induction i ts xs rule: shuffle_with.induct) (auto simp: swap_mset)

lemma length_shuffle_with [simp]: "length (shuffle_with i ts xs) = length xs"
  by (induction i ts xs rule: shuffle_with.induct) auto

lemma shuffle_with_above:
  "targets_ok i ts \<Longrightarrow> i < length xs \<Longrightarrow> i < k \<Longrightarrow> shuffle_with i ts xs ! k = xs ! k"
proof (induction i ts xs rule: shuffle_with.induct)
  case (1 i t ts xs)
  then show ?case by (simp add: nth_swap)
qed auto

lemma take_Suc_mset:
  "length xs = length ys \<Longrightarrow> i < length xs \<Longrightarrow> xs ! i = ys ! i \<Longrightarrow>
    mset (take (Suc i) xs) = mset (take (Suc i) ys) \<Longrightarrow> mset (take i xs) = mset (take i ys)"
  by (simp add: take_Suc_conv_app_nth)

lemma shuffle_reaches:
  "i < length xs \<Longrightarrow> length xs = length ys \<Longrightarrow> mset (take (Suc i) xs) = mset (take (Suc i) ys) \<Longrightarrow>
    drop (Suc i) xs = drop (Suc i) ys \<Longrightarrow> \<exists>ts. targets_ok i ts \<and> shuffle_with i ts xs = ys"
proof (induction i arbitrary: xs)
  case 0
  then have "take 1 xs = take 1 ys" by (cases xs; cases ys) auto
  with 0 have "xs = ys" by (metis One_nat_def append_take_drop_id)
  then show ?case by (intro exI[of _ "[]"]) simp
next
  case (Suc i)
  have "ys ! Suc i \<in># mset (take (Suc (Suc i)) ys)"
    using Suc.prems(1,2) by (simp add: in_set_conv_nth) (metis lessI nth_take)
  then have "ys ! Suc i \<in> set (take (Suc (Suc i)) xs)" using Suc.prems(3) by (metis set_mset_mset)
  then obtain t where t: "t \<le> Suc i" "xs ! t = ys ! Suc i"
    by (auto simp: in_set_conv_nth less_Suc_eq_le)
  let ?zs = "swap (Suc i) t xs"
  have tl: "t < length xs" using t(1) Suc.prems(1) by simp
  have at: "?zs ! Suc i = ys ! Suc i" using t tl Suc.prems(1) by (simp add: nth_swap)
  have dr: "drop (Suc (Suc i)) ?zs = drop (Suc (Suc i)) ys"
    using Suc.prems(4) t(1) Suc.prems(1) by (simp add: swap_def drop_update_cancel)
  have "mset ?zs = mset xs" using Suc.prems(1) tl by (rule swap_mset)
  moreover have "mset ?zs = mset (take (Suc (Suc i)) ?zs) + mset (drop (Suc (Suc i)) ?zs)"
    and "mset xs = mset (take (Suc (Suc i)) xs) + mset (drop (Suc (Suc i)) xs)"
    by (simp_all flip: mset_append)
  ultimately have m: "mset (take (Suc (Suc i)) ?zs) = mset (take (Suc (Suc i)) ys)"
    using dr Suc.prems(3,4) by simp
  have len: "length ?zs = length ys" "Suc i < length ?zs" using Suc.prems(1,2) by simp_all
  have "mset (take (Suc i) ?zs) = mset (take (Suc i) ys)" by (rule take_Suc_mset[OF len at m])
  moreover have "drop (Suc i) ?zs = drop (Suc i) ys"
    using dr at len by (metis Cons_nth_drop_Suc)
  ultimately obtain ts where "targets_ok i ts" "shuffle_with i ts ?zs = ys"
    using Suc.IH[of ?zs] Suc.prems(1,2) by auto
  with t(1) show ?case by (intro exI[of _ "t # ts"]) simp
qed

lemma shuffle_mset: "shuffle digest xs r = Inr (ys, r') \<Longrightarrow> mset ys = mset xs"
proof -
  assume "shuffle digest xs r = Inr (ys, r')"
  from shuffle_from_with[OF this[unfolded shuffle_def]] obtain ts where
    ts: "targets_ok (length xs - 1) ts" "ys = shuffle_with (length xs - 1) ts xs" by blast
  have "length xs - 1 < length xs \<or> length xs - 1 = 0" by linarith
  then show "mset ys = mset xs" using ts by (simp add: shuffle_with_mset)
qed

text \<open>C32. A shuffle keeps the elements with their multiplicities and consumes one word for each
  element but the first; and no arrangement is out of reach: for every permutation there are
  targets in the ranges the words are reduced to that produce it.\<close>

theorem shuffle_permutes:
  assumes "shuffle digest xs r = Inr (ys, r')"
  shows "mset ys = mset xs \<and> rng_counter r' = rng_counter r + int (length xs - 1)
    \<and> (\<forall>zs. mset zs = mset xs \<longrightarrow>
        (\<exists>ts. targets_ok (length xs - 1) ts \<and> shuffle_with (length xs - 1) ts xs = zs))"
proof -
  from shuffle_from_with[OF assms[unfolded shuffle_def]] obtain ts where
    ts: "targets_ok (length xs - 1) ts" "ys = shuffle_with (length xs - 1) ts xs"
      "rng_counter r' = rng_counter r + int (length xs - 1)" by blast
  have "mset ys = mset xs" using assms by (rule shuffle_mset)
  moreover have "\<exists>ts. targets_ok (length xs - 1) ts \<and> shuffle_with (length xs - 1) ts xs = zs"
    if "mset zs = mset xs" for zs
  proof (cases "xs = []")
    case True
    with that show ?thesis by (intro exI[of _ "[]"]) simp
  next
    case False
    then show ?thesis using mset_eq_length[OF that] that
      by (intro shuffle_reaches) auto
  qed
  ultimately show ?thesis using ts(3) by blast
qed

definition toy_digest :: "string \<Rightarrow> string" where
  "toy_digest b = map (\<lambda>i. b ! (length b - 1)) [0..<32]"

lemma shuffle_permutes_witness:
  "mset (fst (projr (shuffle toy_digest ''abcd'' (mk_rng 5)))) = mset ''abcd''"
proof -
  have "is_ok (shuffle toy_digest ''abcd'' (mk_rng 5))" by code_simp
  then have "shuffle toy_digest ''abcd'' (mk_rng 5)
      = Inr (fst (projr (shuffle toy_digest ''abcd'' (mk_rng 5))), snd (projr (shuffle toy_digest ''abcd'' (mk_rng 5))))"
    by (simp add: is_ok_projr)
  from shuffle_permutes[OF this] show ?thesis by blast
qed

section \<open>Draws\<close>

text \<open>Draws stay in their ranges and advance the counter by one; an empty range or sequence is
  refused before a word is consumed.\<close>

theorem draws_in_range:
  "(case randint digest lo hi r of Inl e \<Rightarrow> hi < lo \<or> e = SeedOverflow
     | Inr (v, r') \<Rightarrow> lo \<le> v \<and> v \<le> hi \<and> rng_counter r' = rng_counter r + 1)
   \<and> (case rng_choice digest xs r of Inl e \<Rightarrow> xs = [] \<or> e = SeedOverflow
     | Inr (x, r') \<Rightarrow> x \<in> set xs \<and> rng_counter r' = rng_counter r + 1)"
proof
  have err: "word digest r = Inl e \<Longrightarrow> e = SeedOverflow" for e
    by (auto simp: word_def split: option.split_asm)
  show "case randint digest lo hi r of Inl e \<Rightarrow> hi < lo \<or> e = SeedOverflow
     | Inr (v, r') \<Rightarrow> lo \<le> v \<and> v \<le> hi \<and> rng_counter r' = rng_counter r + 1"
  proof (cases "hi < lo")
    case False
    then have "0 \<le> w mod (hi - lo + 1) \<and> lo + w mod (hi - lo + 1) \<le> hi" for w
      using pos_mod_bound[of "hi - lo + 1" w] by simp
    with False show ?thesis
      by (cases "word digest r") (auto simp: randint_def err dest: word_InrD)
  qed (simp add: randint_def)
  show "case rng_choice digest xs r of Inl e \<Rightarrow> xs = [] \<or> e = SeedOverflow
     | Inr (x, r') \<Rightarrow> x \<in> set xs \<and> rng_counter r' = rng_counter r + 1"
  proof (cases "xs = []")
    case False
    then have "nat (w mod int (length xs)) < length xs" for w
      by (simp add: nat_less_iff)
    with False show ?thesis
      by (cases "word digest r") (auto simp: rng_choice_def err dest: word_InrD)
  qed (simp add: rng_choice_def)
qed

section \<open>Seeds\<close>

lemma str_int_no_bar: "CHR ''|'' \<notin> set (str_int i)"
  using str_nat_digits[of "CHR ''|''"] by (auto simp: str_int_def is_digit_def)

lemma bar_split:
  "CHR ''|'' \<notin> set a \<Longrightarrow> CHR ''|'' \<notin> set a' \<Longrightarrow> a @ CHR ''|'' # b = a' @ CHR ''|'' # b' \<Longrightarrow> a = a' \<and> b = b'"
  using split_at_first[of "CHR ''|''" a a' b b'] by blast

text \<open>Distinct names get distinct seed material: when the namespaces and entity names contain no
  vertical bar, the hashed text determines the master seed, namespace, entity and tick, so equal
  seeds for different names need a collision of the truncated digest.\<close>

theorem seed_material_injective:
  assumes "CHR ''|'' \<notin> set ns" "CHR ''|'' \<notin> set ns'" "CHR ''|'' \<notin> set en" "CHR ''|'' \<notin> set en'"
    and "seed_for digest m ns en t = seed_for digest m' ns' en' t'"
  shows "(m, ns, en, t) = (m', ns', en', t')
    \<or> seed_material m ns en t \<noteq> seed_material m' ns' en' t'
      \<and> from_bytes_be (take 8 (digest (seed_material m ns en t)))
          = from_bytes_be (take 8 (digest (seed_material m' ns' en' t')))"
proof (cases "seed_material m ns en t = seed_material m' ns' en' t'")
  case True
  let ?t = "case t of None \<Rightarrow> [] | Some x \<Rightarrow> str_int x" and ?t' = "case t' of None \<Rightarrow> [] | Some x \<Rightarrow> str_int x"
  from True have "str_int m @ CHR ''|'' # (ns @ CHR ''|'' # en @ CHR ''|'' # ?t)
      = str_int m' @ CHR ''|'' # (ns' @ CHR ''|'' # en' @ CHR ''|'' # ?t')" by (simp add: seed_material_def)
  then have a: "str_int m = str_int m'" "ns @ CHR ''|'' # (en @ CHR ''|'' # ?t) = ns' @ CHR ''|'' # (en' @ CHR ''|'' # ?t')"
    using bar_split str_int_no_bar by blast+
  then have b: "ns = ns'" "en @ CHR ''|'' # ?t = en' @ CHR ''|'' # ?t'" using bar_split assms(1,2) by blast+
  then have c: "en = en'" "?t = ?t'" using bar_split assms(3,4) by blast+
  have ne: "str_int x \<noteq> []" for x by (simp add: str_int_def str_nat.simps)
  have "t = t'" using c(2) ne ne[symmetric] by (cases t; cases t') (auto dest: str_int_inj)
  with a(1) b c show ?thesis by (auto dest: str_int_inj)
next
  case False
  with assms(5) show ?thesis by (simp add: seed_for_def)
qed

lemma seed_material_injective_witness:
  "(7, ''exchange'', ''agt_1'', Some 3) = (7::int, ''exchange'', ''agt_1'', Some (3::int))
   \<or> seed_material 7 ''exchange'' ''agt_1'' (Some 3) \<noteq> seed_material 7 ''exchange'' ''agt_1'' (Some 3)
     \<and> from_bytes_be (take 8 (toy_digest (seed_material 7 ''exchange'' ''agt_1'' (Some 3))))
        = from_bytes_be (take 8 (toy_digest (seed_material 7 ''exchange'' ''agt_1'' (Some 3))))"
  by (rule seed_material_injective) simp_all

end
