(* ===== verification/Invariants.thy ===== *)
theory Invariants
  imports Ledger Clock Event_Log
begin

text \<open>
  \<open>polis/kernel/invariants.py\<close> (the registry of run-time checks and their runner) and
  \<open>polis/economy/invariants.py\<close> (the monetary aggregates and the ledger checks). The text of a
  double and the entropy of the action counts (a sum of logarithms) are parameters.
\<close>

section \<open>The kernel's checks\<close>

datatype severity = Halt | Warn

record violation =
  vio_id :: string
  vio_expected :: string
  vio_actual :: string
  vio_detail :: payload
  vio_severity :: severity

datatype inv_result = Passed string | Violated violation

definition violated :: "string \<Rightarrow> string \<Rightarrow> string \<Rightarrow> payload \<Rightarrow> severity \<Rightarrow> inv_result" where
  "violated i expected actual detail sev = Violated \<lparr>vio_id = i, vio_expected = expected,
     vio_actual = actual, vio_detail = detail, vio_severity = sev\<rparr>"

record world_view =
  wv_money_supply :: int
  wv_total_balances :: int
  wv_ledger_imbalance :: int
  wv_inflation_yoy_bp :: "int option"
  wv_interest_imbalance :: int
  wv_population :: int
  wv_initial_population :: int
  wv_action_counts :: "(string, int) dict"
  wv_order_failures :: payload
  wv_share_failures :: payload
  wv_cap_table_failures :: payload
  wv_chain_ok :: bool

definition null_world :: world_view where
  \<comment> \<open>\<open>NullWorldState\<close>\<close>
  "null_world = \<lparr>wv_money_supply = 0, wv_total_balances = 0, wv_ledger_imbalance = 0,
     wv_inflation_yoy_bp = None, wv_interest_imbalance = 0, wv_population = 0, wv_initial_population = 0,
     wv_action_counts = [], wv_order_failures = [], wv_share_failures = [], wv_cap_table_failures = [],
     wv_chain_ok = True\<rparr>"

record float_env =
  fe_fifth_text :: "int \<Rightarrow> string"
    \<comment> \<open>the text of the double \<open>0.2 * n\<close>\<close>
  fe_low_entropy :: "int list \<Rightarrow> string option"
    \<comment> \<open>the rounded entropy of the counts when it is below one half\<close>

definition check_inv_money :: "world_view \<Rightarrow> inv_result" where
  "check_inv_money w =
     (if wv_total_balances w = wv_money_supply w then Passed ''INV-MONEY''
      else violated ''INV-MONEY'' (str_int (wv_money_supply w)) (str_int (wv_total_balances w)) [] Halt)"

definition check_inv_ledger :: "world_view \<Rightarrow> inv_result" where
  "check_inv_ledger w =
     (if wv_ledger_imbalance w = 0 then Passed ''INV-LEDGER''
      else violated ''INV-LEDGER'' ''0'' (str_int (wv_ledger_imbalance w)) [] Halt)"

definition check_inv_price :: "world_view \<Rightarrow> inv_result" where
  "check_inv_price w =
     (case wv_inflation_yoy_bp w of None \<Rightarrow> Passed ''INV-PRICE''
      | Some bp \<Rightarrow> if -5000 \<le> bp \<and> bp \<le> 40000 then Passed ''INV-PRICE''
          else violated ''INV-PRICE'' ''[-5000, 40000]'' (str_int bp) [(''inflation_yoy_bp'', JInt bp)] Halt)"

definition check_inv_interest :: "world_view \<Rightarrow> inv_result" where
  "check_inv_interest w =
     (if wv_interest_imbalance w = 0 then Passed ''INV-INTEREST''
      else violated ''INV-INTEREST'' ''0'' (str_int (wv_interest_imbalance w)) [] Halt)"

definition round53 :: "nat \<Rightarrow> nat" where
  \<comment> \<open>the nearest number of 53 significant bits, ties to even\<close>
  "round53 n =
     (if bit_length n \<le> 53 then n
      else let k = bit_length n - 53; q = n div 2 ^ k; r = n mod 2 ^ k; half = 2 ^ (k - 1)
           in (if r > half \<or> (r = half \<and> odd q) then q + 1 else q) * 2 ^ k)"

definition fifth_at_most :: "int \<Rightarrow> int \<Rightarrow> bool" where
  \<comment> \<open>\<open>0.2 * initial <= population\<close>: the double \<open>0.2\<close> is \<open>3602879701896397 / 2 ^ 54\<close>\<close>
  "fifth_at_most initial population \<longleftrightarrow>
     int (round53 (3602879701896397 * nat initial)) \<le> population * 2 ^ 54"

definition check_inv_population :: "float_env \<Rightarrow> world_view \<Rightarrow> inv_result" where
  "check_inv_population fe w =
     (let initial = wv_initial_population w; population = wv_population w in
      if initial = 0 \<or> (fifth_at_most initial population \<and> population \<le> 5 * initial)
      then Passed ''INV-POP''
      else violated ''INV-POP'' (''['' @ fe_fifth_text fe initial @ '', '' @ str_int (5 * initial) @ '']'')
             (str_int population) [] Warn)"

definition check_inv_entropy :: "float_env \<Rightarrow> world_view \<Rightarrow> inv_result" where
  "check_inv_entropy fe w =
     (if sum_list (dvals (wv_action_counts w)) = 0 then Passed ''INV-ENTROPY''
      else case fe_low_entropy fe (filter (\<lambda>c. c \<noteq> 0) (dvals (wv_action_counts w))) of
             None \<Rightarrow> Passed ''INV-ENTROPY''
           | Some t \<Rightarrow> violated ''INV-ENTROPY'' ''>=0.5'' t [] Warn)"

definition check_inv_chain :: "world_view \<Rightarrow> inv_result" where
  "check_inv_chain w = (if wv_chain_ok w then Passed ''INV-CHAIN''
     else violated ''INV-CHAIN'' ''valid'' ''invalid'' [] Halt)"

definition capital_result :: "string \<Rightarrow> payload \<Rightarrow> inv_result" where
  "capital_result i failures = (case failures of [] \<Rightarrow> Passed i
     | (first, _) # _ \<Rightarrow> violated i ''no failures'' first failures Halt)"

datatype frequency = EveryTick | SimDay | AtCheckpoint

record invariant =
  iv_id :: string
  iv_severity :: severity
  iv_frequency :: frequency
  iv_check :: "world_view \<Rightarrow> inv_result"

definition mk_inv :: "string \<Rightarrow> severity \<Rightarrow> frequency \<Rightarrow> (world_view \<Rightarrow> inv_result) \<Rightarrow> invariant" where
  "mk_inv i s f c = \<lparr>iv_id = i, iv_severity = s, iv_frequency = f, iv_check = c\<rparr>"

definition invariant_registry :: "float_env \<Rightarrow> (string, invariant) dict" where
  "invariant_registry fe = map (\<lambda>i. (iv_id i, i)) [
     mk_inv ''INV-MONEY'' Halt EveryTick check_inv_money,
     mk_inv ''INV-LEDGER'' Halt EveryTick check_inv_ledger,
     mk_inv ''INV-INTEREST'' Halt EveryTick check_inv_interest,
     mk_inv ''INV-PRICE'' Halt SimDay check_inv_price,
     mk_inv ''INV-POP'' Warn SimDay (check_inv_population fe),
     mk_inv ''INV-ENTROPY'' Warn SimDay (check_inv_entropy fe),
     mk_inv ''INV-ORDERS'' Halt EveryTick (\<lambda>w. capital_result ''INV-ORDERS'' (wv_order_failures w)),
     mk_inv ''INV-SHARES'' Halt EveryTick (\<lambda>w. capital_result ''INV-SHARES'' (wv_share_failures w)),
     mk_inv ''INV-CAPTABLE'' Halt EveryTick (\<lambda>w. capital_result ''INV-CAPTABLE'' (wv_cap_table_failures w)),
     mk_inv ''INV-CHAIN'' Halt AtCheckpoint check_inv_chain]"

section \<open>The runner\<close>

record runner =
  ir_continue :: bool
  ir_enabled :: "string list"
  ir_counts :: "(string, int) dict"

definition mk_runner :: "bool \<Rightarrow> string list option \<Rightarrow> runner" where
  \<comment> \<open>\<open>enabled or frozenset(INVARIANT_REGISTRY)\<close>: an empty set means all\<close>
  "mk_runner continue_on_violation enabled =
     \<lparr>ir_continue = continue_on_violation,
      ir_enabled = (case enabled of None \<Rightarrow> map iv_id (dvals (invariant_registry \<lparr>fe_fifth_text = (\<lambda>_. []), fe_low_entropy = (\<lambda>_. None)\<rparr>))
        | Some [] \<Rightarrow> map iv_id (dvals (invariant_registry \<lparr>fe_fifth_text = (\<lambda>_. []), fe_low_entropy = (\<lambda>_. None)\<rparr>))
        | Some ks \<Rightarrow> ks),
      ir_counts = []\<rparr>"

definition is_due :: "clock \<Rightarrow> int \<Rightarrow> bool \<Rightarrow> invariant \<Rightarrow> bool" where
  "is_due c tick checkpoint i \<longleftrightarrow>
     (case iv_frequency i of EveryTick \<Rightarrow> True | SimDay \<Rightarrow> starts_new c Day tick | AtCheckpoint \<Rightarrow> checkpoint)"

datatype inv_error = UnknownInvariant string

definition inv_due :: "float_env \<Rightarrow> clock \<Rightarrow> int \<Rightarrow> bool \<Rightarrow> runner \<Rightarrow> inv_error + invariant list" where
  \<comment> \<open>\<open>due\<close>: the registered checks themselves rather than their keys\<close>
  "inv_due fe c tick checkpoint r =
     fold_res (\<lambda>key found. case dget (invariant_registry fe) key of None \<Rightarrow> Inl (UnknownInvariant key)
         | Some i \<Rightarrow> Inr (if is_due c tick checkpoint i then found @ [i] else found))
       (sort (ir_enabled r)) []"

definition violations :: "inv_result list \<Rightarrow> violation list" where
  "violations rs = concat (map (\<lambda>r. case r of Passed _ \<Rightarrow> [] | Violated v \<Rightarrow> [v]) rs)"

definition count_violation :: "violation \<Rightarrow> (string, int) dict \<Rightarrow> (string, int) dict" where
  "count_violation v counts = dset (vio_id v) (dget_or counts (vio_id v) 0 + 1) counts"

definition inv_run :: "float_env \<Rightarrow> clock \<Rightarrow> int \<Rightarrow> world_view \<Rightarrow> bool \<Rightarrow> runner
    \<Rightarrow> inv_error + inv_result list \<times> runner" where
  "inv_run fe c tick w checkpoint r =
     res_map (\<lambda>due. let results = map (\<lambda>i. iv_check i w) due
        in (results, r\<lparr>ir_counts := fold count_violation (violations results) (ir_counts r)\<rparr>))
       (inv_due fe c tick checkpoint r)"

definition should_halt :: "runner \<Rightarrow> inv_result list \<Rightarrow> bool" where
  "should_halt r rs \<longleftrightarrow> \<not> ir_continue r \<and> list_ex (\<lambda>v. vio_severity v = Halt) (violations rs)"

section \<open>The economy's checks\<close>

definition m0_cents :: "ledger \<Rightarrow> int" where
  "m0_cents l = sum_balances (\<lambda>a. acc_code a = Cash \<or> (acc_code a = Res \<and> acc_owner a \<noteq> ''bk_cb'')
     \<or> (acc_code a = Dep \<and> acc_owner a = ''gv_treasury'' \<and> acc_bank a = Some ''bk_cb'')) l"

definition m1_cents :: "ledger \<Rightarrow> int" where
  "m1_cents l =
     sum_balances (\<lambda>a. acc_code a = Cash \<and> acc_owner_type a \<notin> {''bank'', ''central_bank''}) l
     + - sum_balances (\<lambda>a. acc_code a = Dpl \<and> acc_owner a \<noteq> ''bk_cb'') l
     - sum_balances (\<lambda>a. acc_code a = Dep \<and> acc_owner a = ''gv_treasury'' \<and> acc_bank a \<noteq> Some ''bk_cb'') l"

definition check_ledger :: "ledger \<Rightarrow> inv_result" where
  "check_ledger l =
     (let g = global_balance_cents l; m = materialisation_imbalance_cents l in
      if g = 0 \<and> m = 0 then Passed ''INV-LEDGER''
      else violated ''INV-LEDGER'' ''global=0, materialisation=0''
             (''global='' @ str_int g @ '', materialisation='' @ str_int m)
             [(''M-2'', JInt g), (''M-3'', JInt m)] Halt)"

definition int_fields :: "(string, int) dict \<Rightarrow> json" where
  "int_fields d = JObj (map (\<lambda>(k, v). (k, JInt v)) d)"

definition check_money :: "ledger \<Rightarrow> (string, int) dict option \<Rightarrow> ledger_error + inv_result" where
  \<comment> \<open>the option is the cache of net worths of the view\<close>
  "check_money l view =
     res_map (\<lambda>imbalances.
       let g = global_balance_cents l;
           m = materialisation_imbalance_cents l;
           b = base_money_imbalance_cents l;
           d = filter (\<lambda>(bank, v). v \<noteq> 0) imbalances;
           w = (case view of None \<Rightarrow> [] | Some cache \<Rightarrow>
                  map (\<lambda>(o', v). (o', v - net_worth l o'))
                    (filter (\<lambda>(o', v). v \<noteq> net_worth l o') (sort_key fst cache)));
           failures = (if g \<noteq> 0 then [(''M-2'', JInt g)] else [])
             @ (if m \<noteq> 0 then [(''M-3'', JInt m)] else [])
             @ (if b \<noteq> 0 then [(''M-4'', JInt b)] else [])
             @ (if d \<noteq> [] then [(''M-5'', int_fields d)] else [])
             @ (if w \<noteq> [] then [(''M-6'', int_fields w)] else [])
       in case failures of [] \<Rightarrow> Passed ''INV-MONEY''
          | (first, _) # _ \<Rightarrow> violated ''INV-MONEY'' ''M-2..M-6 exact'' (first @ '' failed'') failures Halt)
     (deposit_imbalances l)"

definition issued_base_money_cents :: "ledger \<Rightarrow> ledger_error + int" where
  "issued_base_money_cents l =
     (if is_open l issuance_id then res_map (\<lambda>b. - b) (balance l issuance_id) else Inr 0)"

end
