(* ===== verification/Invariants_Spec.thy ===== *)
theory Invariants_Spec
  imports Invariants Ledger_Spec
begin

text \<open>
  The run-time checks: which states halt a run, and what the ledger's own discipline guarantees
  them.
\<close>

lemma default_runner:
  "ir_enabled (mk_runner b None) = [''INV-MONEY'', ''INV-LEDGER'', ''INV-INTEREST'', ''INV-PRICE'',
     ''INV-POP'', ''INV-ENTROPY'', ''INV-ORDERS'', ''INV-SHARES'', ''INV-CAPTABLE'', ''INV-CHAIN'']"
  by (simp add: mk_runner_def invariant_registry_def mk_inv_def)

lemma default_sorted:
  "sort (ir_enabled (mk_runner b None)) = [''INV-CAPTABLE'', ''INV-CHAIN'', ''INV-ENTROPY'', ''INV-INTEREST'',
     ''INV-LEDGER'', ''INV-MONEY'', ''INV-ORDERS'', ''INV-POP'', ''INV-PRICE'', ''INV-SHARES'']"
  unfolding default_runner by code_simp

lemma registry_lookups:
  "dget (invariant_registry fe) ''INV-MONEY'' = Some (mk_inv ''INV-MONEY'' Halt EveryTick check_inv_money)"
  "dget (invariant_registry fe) ''INV-LEDGER'' = Some (mk_inv ''INV-LEDGER'' Halt EveryTick check_inv_ledger)"
  "dget (invariant_registry fe) ''INV-INTEREST'' = Some (mk_inv ''INV-INTEREST'' Halt EveryTick check_inv_interest)"
  "dget (invariant_registry fe) ''INV-PRICE'' = Some (mk_inv ''INV-PRICE'' Halt SimDay check_inv_price)"
  "dget (invariant_registry fe) ''INV-POP'' = Some (mk_inv ''INV-POP'' Warn SimDay (check_inv_population fe))"
  "dget (invariant_registry fe) ''INV-ENTROPY'' = Some (mk_inv ''INV-ENTROPY'' Warn SimDay (check_inv_entropy fe))"
  "dget (invariant_registry fe) ''INV-ORDERS''
     = Some (mk_inv ''INV-ORDERS'' Halt EveryTick (\<lambda>w. capital_result ''INV-ORDERS'' (wv_order_failures w)))"
  "dget (invariant_registry fe) ''INV-SHARES''
     = Some (mk_inv ''INV-SHARES'' Halt EveryTick (\<lambda>w. capital_result ''INV-SHARES'' (wv_share_failures w)))"
  "dget (invariant_registry fe) ''INV-CAPTABLE''
     = Some (mk_inv ''INV-CAPTABLE'' Halt EveryTick (\<lambda>w. capital_result ''INV-CAPTABLE'' (wv_cap_table_failures w)))"
  "dget (invariant_registry fe) ''INV-CHAIN'' = Some (mk_inv ''INV-CHAIN'' Halt AtCheckpoint check_inv_chain)"
  by (simp_all add: invariant_registry_def mk_inv_def)

definition halts :: "inv_result \<Rightarrow> bool" where
  "halts r \<longleftrightarrow> (case r of Passed _ \<Rightarrow> False | Violated v \<Rightarrow> vio_severity v = Halt)"

lemma should_halt_iff: "should_halt r rs \<longleftrightarrow> \<not> ir_continue r \<and> list_ex halts rs"
proof -
  have "list_ex (\<lambda>v. vio_severity v = Halt) (violations rs) \<longleftrightarrow> list_ex halts rs"
    by (induction rs) (auto simp: violations_def halts_def split: inv_result.splits)
  then show ?thesis by (simp add: should_halt_def)
qed

lemma halts_checks:
  "halts (check_inv_money w) \<longleftrightarrow> wv_total_balances w \<noteq> wv_money_supply w"
  "halts (check_inv_ledger w) \<longleftrightarrow> wv_ledger_imbalance w \<noteq> 0"
  "halts (check_inv_interest w) \<longleftrightarrow> wv_interest_imbalance w \<noteq> 0"
  "halts (check_inv_price w) \<longleftrightarrow> opt_ex (\<lambda>bp. bp < -5000 \<or> 40000 < bp) (wv_inflation_yoy_bp w)"
  "\<not> halts (check_inv_population fe w)" "\<not> halts (check_inv_entropy fe w)"
  "halts (capital_result i f) \<longleftrightarrow> f \<noteq> []"
  "halts (check_inv_chain w) \<longleftrightarrow> \<not> wv_chain_ok w"
  by (auto simp: halts_def violated_def check_inv_money_def check_inv_ledger_def check_inv_interest_def
      check_inv_price_def check_inv_population_def check_inv_entropy_def capital_result_def
      check_inv_chain_def Let_def split: option.splits list.splits)

text \<open>C29. With every check enabled and no continuation, the runner never fails, and it halts a tick
  exactly when money supply and balances differ, the ledger or the interest account is out of
  balance, an order, share or cap-table check reports a failure, on the first tick of a day when
  inflation is outside its band, or, at a checkpoint only, when the event chain is broken;
  population and entropy never halt.\<close>

theorem runner_halts_iff:
  "case inv_run fe c tick w checkpoint (mk_runner False None) of Inl _ \<Rightarrow> False
   | Inr (rs, r') \<Rightarrow> should_halt r' rs \<longleftrightarrow>
       wv_total_balances w \<noteq> wv_money_supply w \<or> wv_ledger_imbalance w \<noteq> 0 \<or> wv_interest_imbalance w \<noteq> 0
       \<or> wv_order_failures w \<noteq> [] \<or> wv_share_failures w \<noteq> [] \<or> wv_cap_table_failures w \<noteq> []
       \<or> (starts_new c Day tick \<and> opt_ex (\<lambda>bp. bp < -5000 \<or> 40000 < bp) (wv_inflation_yoy_bp w))
       \<or> (checkpoint \<and> \<not> wv_chain_ok w)"
proof -
  have cont: "\<not> ir_continue (mk_runner False None)" by (simp add: mk_runner_def)
  show ?thesis
    by (simp add: inv_run_def inv_due_def default_sorted registry_lookups is_due_def mk_inv_def
        should_halt_iff Let_def cont halts_checks)
      (auto simp: halts_checks)
qed

definition noon_clock :: clock where
  "noon_clock = \<lparr>ck_profile = profiles Microscope, ck_tick = 12, ck_epoch = epoch\<rparr>"

definition no_floats :: float_env where
  "no_floats = \<lparr>fe_fifth_text = (\<lambda>_. []), fe_low_entropy = (\<lambda>_. None)\<rparr>"

lemma runner_halts_iff_witness:
  "(case inv_run no_floats noon_clock 12 (null_world\<lparr>wv_total_balances := 5\<rparr>) False (mk_runner False None) of
      Inl _ \<Rightarrow> False
    | Inr (rs, r') \<Rightarrow> should_halt r' rs)"
  using runner_halts_iff[where fe = no_floats and c = noon_clock and tick = 12
      and w = "null_world\<lparr>wv_total_balances := 5\<rparr>" and checkpoint = False]
  by (simp add: null_world_def split: sum.splits prod.splits)

section \<open>The ledger\<close>

lemma sum_list_filter_or:
  "(\<And>a. \<not> (P a \<and> Q a)) \<Longrightarrow>
    (\<Sum>a\<leftarrow>filter (\<lambda>a. P a \<or> Q a) xs. f a) = (\<Sum>a\<leftarrow>filter P xs. f a) + ((\<Sum>a\<leftarrow>filter Q xs. f a) :: int)"
  by (induction xs) auto

lemma m0_split:
  "m0_cents l = sum_balances (\<lambda>a. acc_code a = Cash \<or> (acc_code a = Res \<and> acc_owner a \<noteq> ''bk_cb'')) l
     + sum_balances (\<lambda>a. acc_code a = Dep \<and> acc_owner a = ''gv_treasury'' \<and> acc_bank a = Some ''bk_cb'') l"
proof -
  let ?P = "\<lambda>a. acc_code a = Cash \<or> (acc_code a = Res \<and> acc_owner a \<noteq> ''bk_cb'')"
  let ?Q = "\<lambda>a. acc_code a = Dep \<and> acc_owner a = ''gv_treasury'' \<and> acc_bank a = Some ''bk_cb''"
  have "sum_balances (\<lambda>a. ?P a \<or> ?Q a) l = sum_balances ?P l + sum_balances ?Q l"
    unfolding sum_balances_def by (rule sum_list_filter_or) auto
  then show ?thesis by (simp add: m0_cents_def)
qed

text \<open>C30. On every reachable ledger the ledger check passes, the base-money imbalance is the
  difference of the aggregate M0 and the issued base money, and the money check (without a cache)
  passes exactly when M0 equals the issue and every bank's deposits match its liability: of the
  identities M-2 to M-5 only the last two depend on what the callers post.\<close>

theorem ledger_discipline_passes_checks:
  assumes "ledger_reachable uuid5 l" "is_open l issuance_id"
    and "issued_base_money_cents l = Inr issued" "deposit_imbalances l = Inr imb"
  shows "check_ledger l = Passed ''INV-LEDGER''
    \<and> base_money_imbalance_cents l = m0_cents l - issued
    \<and> (check_money l None = Inr (Passed ''INV-MONEY'')
        \<longleftrightarrow> m0_cents l = issued \<and> list_all (\<lambda>(bank, v). v = 0) imb)"
proof -
  have inv: "ledger_inv l" by (rule ledger_reachable_inv[OF assms(1)])
  note z = ledger_inv_global[OF inv] ledger_inv_materialised[OF inv]
  from assms(2,3) have base: "base_money_imbalance_cents l = m0_cents l - issued"
    by (auto simp: is_open_def issued_base_money_cents_def balance_def find_account_def res_simps m0_split
        base_money_imbalance_cents_def split: option.splits)
  have "filter (\<lambda>(bank, v). v \<noteq> 0) imb = [] \<longleftrightarrow> list_all (\<lambda>(bank, v). v = 0) imb"
    by (auto simp: filter_empty_conv list_all_iff)
  with z base assms(4) show ?thesis
    by (auto simp: check_ledger_def check_money_def Let_def violated_def split: list.splits)
qed

lemma ledger_discipline_passes_checks_witness:
  "check_ledger demo_ledger = Passed ''INV-LEDGER'' \<and> base_money_imbalance_cents demo_ledger = 0"
proof -
  have o: "is_open demo_ledger issuance_id" by code_simp
  have i: "is_ok (issued_base_money_cents demo_ledger)" "is_ok (deposit_imbalances demo_ledger)" by code_simp+
  have z: "base_money_imbalance_cents demo_ledger = 0" by code_simp
  from ledger_discipline_passes_checks[OF demo_ledger_reachable o is_ok_projr[OF i(1)] is_ok_projr[OF i(2)]] z
  show ?thesis by blast
qed

end
