(* ===== verification/Tick.thy ===== *)
theory Tick
  imports Invariants Event_Verify
begin

text \<open>
  The tick loop, \<open>polis/kernel/tick.py\<close>. A phase handler is a function on the tick context, which
  carries the log and the world; wall-clock timings are left out. The clock object is shared by the
  loop, the scheduler and the invariant runner. An exception ends the run.
\<close>

datatype phase = P_Clock | P_Perceive | P_Salience | P_Decide | P_Validate | P_Resolve | P_Commit
  | P_Institutions | P_Vitals | P_Metrics

definition all_phases :: "phase list" where
  "all_phases = [P_Clock, P_Perceive, P_Salience, P_Decide, P_Validate, P_Resolve, P_Commit,
     P_Institutions, P_Vitals, P_Metrics]"

fun phase_value :: "phase \<Rightarrow> int" where
  "phase_value P_Clock = 0" | "phase_value P_Perceive = 1" | "phase_value P_Salience = 2"
| "phase_value P_Decide = 3" | "phase_value P_Validate = 4" | "phase_value P_Resolve = 5"
| "phase_value P_Commit = 6" | "phase_value P_Institutions = 7" | "phase_value P_Vitals = 8"
| "phase_value P_Metrics = 9"

datatype tick_error = TickLog log_error | TickSched sched_error | TickInv inv_error

record ('w, 'a) tick_ctx =
  cx_tick :: int
  cx_sim_time :: datetime
  cx_due :: "string list"
  cx_actions :: "'a list"
  cx_rejected :: "'a list"
  cx_modes :: "(string, string) dict"
  cx_log :: event_log
  cx_world :: 'w

record ('w, 'a) phase_handler =
  ph_phase :: phase
  ph_order :: int
  ph_name :: string
  ph_run :: "('w, 'a) tick_ctx \<Rightarrow> log_error + ('w, 'a) tick_ctx"

record ('w, 'a, 's) tick_env =
  te_log :: log_env
  te_append :: "evt list \<Rightarrow> 's \<Rightarrow> bool \<times> 's"
  te_publish :: "evt list \<Rightarrow> 's \<Rightarrow> bool \<times> 's"
  te_floats :: float_env
  te_view :: "'w \<Rightarrow> world_view"
  te_set_tick :: "int \<Rightarrow> 'w \<Rightarrow> 'w"
  te_action_key :: "'a \<Rightarrow> string \<times> string"

record ('w, 'a, 's) tick_loop =
  tl_clock :: clock
  tl_scheduler :: scheduler
  tl_log :: event_log
  tl_store :: 's
  tl_world :: 'w
  tl_runner :: runner
  tl_handlers :: "('w, 'a) phase_handler list"

definition handler_key :: "('w, 'a) phase_handler \<Rightarrow> int \<times> int \<times> string" where
  "handler_key h = (phase_value (ph_phase h), ph_order h, ph_name h)"

definition register_handler :: "('w, 'a) phase_handler \<Rightarrow> ('w, 'a, 's) tick_loop \<Rightarrow> ('w, 'a, 's) tick_loop" where
  "register_handler h lp = lp\<lparr>tl_handlers := sort_key handler_key (tl_handlers lp @ [h])\<rparr>"

record tick_report =
  tr_tick :: int
  tr_sim_time :: datetime
  tr_events :: nat
  tr_ephemerals :: nat
  tr_actions :: nat
  tr_rejected :: nat
  tr_llm_calls :: nat
  tr_violations :: "violation list"
  tr_chain_hash :: string
  tr_halted :: bool
  tr_halt_reason :: "string option"

definition plain_event :: "int \<Rightarrow> payload \<Rightarrow> draft" where
  "plain_event kind pl = \<lparr>ne_kind = kind, ne_payload = pl, ne_actor_id = None, ne_subject_ids = [],
     ne_cause_seq = None, ne_sig = None\<rparr>"

definition stage_at :: "log_env \<Rightarrow> int \<Rightarrow> datetime \<Rightarrow> draft \<Rightarrow> event_log \<Rightarrow> tick_error + event_log" where
  "stage_at env tick sim d l =
     (case stage env d tick sim l of Inl e \<Rightarrow> Inl (TickLog e) | Inr (_, l') \<Rightarrow> Inr l')"

definition commit_at :: "('w, 'a, 's) tick_env \<Rightarrow> int \<Rightarrow> event_log \<Rightarrow> 's
    \<Rightarrow> tick_error + commit_result \<times> event_log \<times> 's" where
  "commit_at te tick l s =
     (case commit (te_append te) (te_publish te) tick l s of
        (Inl e, _, _) \<Rightarrow> Inl (TickLog e) | (Inr r, l', s') \<Rightarrow> Inr (r, l', s'))"

definition violation_event :: "violation \<Rightarrow> draft" where
  "violation_event v = plain_event 1010 [(''invariant_id'', JStr (vio_id v)),
     (''expected'', JStr (vio_expected v)), (''actual'', JStr (vio_actual v)),
     (''detail'', JObj (vio_detail v)), (''halting'', JBool (vio_severity v = Halt))]"

definition stage_invariants :: "('w, 'a, 's) tick_env \<Rightarrow> clock \<Rightarrow> int \<Rightarrow> datetime \<Rightarrow> 'w \<Rightarrow> runner \<Rightarrow> event_log
    \<Rightarrow> tick_error + (violation list \<times> bool \<times> string option) \<times> runner \<times> event_log" where
  "stage_invariants te c tick sim w r l =
     (case inv_run (te_floats te) c tick (te_view te w) False r of Inl e \<Rightarrow> Inl (TickInv e)
      | Inr (results, r') \<Rightarrow>
        res_map (\<lambda>l'. let halted = should_halt r' results
             in ((violations results, halted,
                  if halted then map_option vio_id (find (\<lambda>v. vio_severity v = Halt) (violations results))
                  else None), r', l'))
          (fold_res (\<lambda>v. stage_at (te_log te) tick sim (violation_event v)) (violations results) l))"

definition completed_event :: "int \<Rightarrow> int \<Rightarrow> nat \<Rightarrow> nat \<Rightarrow> bool \<Rightarrow> draft" where
  "completed_event tick event_count actions rejected halted = plain_event 1003
     [(''tick'', JInt tick), (''event_count'', JInt event_count), (''actions'', JInt (int actions)),
      (''rejected'', JInt (int rejected)), (''halted'', JBool halted)]"

definition complete_genesis_tick :: "('w, 'a, 's) tick_env \<Rightarrow> ('w, 'a, 's) tick_loop
    \<Rightarrow> tick_error + tick_report \<times> ('w, 'a, 's) tick_loop" where
  "complete_genesis_tick te lp =
     res_bind (stage_invariants te (tl_clock lp) 0 (sim_time (tl_clock lp)) (tl_world lp) (tl_runner lp) (tl_log lp))
       (\<lambda>((vs, halted, reason), r', l1).
     res_bind (stage_at (te_log te) 0 (sim_time (tl_clock lp))
         (completed_event 0 (el_last_seq l1 + 1) 0 0 halted) l1) (\<lambda>l2.
     res_bind (commit_at te 0 l2 (tl_store lp)) (\<lambda>(cr, l3, s').
       Inr (\<lparr>tr_tick = 0, tr_sim_time = sim_time (tl_clock lp), tr_events = cr_persisted cr,
             tr_ephemerals = cr_ephemeral cr, tr_actions = 0, tr_rejected = 0, tr_llm_calls = 0,
             tr_violations = vs, tr_chain_hash = cr_chain_hash cr, tr_halted = halted, tr_halt_reason = reason\<rparr>,
            lp\<lparr>tl_log := l3, tl_store := s', tl_runner := r'\<rparr>))))"

definition run_handlers :: "('w, 'a) phase_handler list \<Rightarrow> phase \<Rightarrow> ('w, 'a) tick_ctx
    \<Rightarrow> tick_error + ('w, 'a) tick_ctx" where
  "run_handlers hs p ctx =
     fold_res (\<lambda>h cx. case ph_run h cx of Inl e \<Rightarrow> Inl (TickLog e) | Inr cx' \<Rightarrow> Inr cx')
       (filter (\<lambda>h. ph_phase h = p) hs) ctx"

definition run_phase :: "('w, 'a, 's) tick_env \<Rightarrow> ('w, 'a) phase_handler list \<Rightarrow> phase
    \<Rightarrow> ('w, 'a) tick_ctx \<times> 's \<times> nat \<times> nat \<Rightarrow> tick_error + ('w, 'a) tick_ctx \<times> 's \<times> nat \<times> nat" where
  \<comment> \<open>the context, the sink and the counts of the first commit\<close>
  "run_phase te hs p st =
     (case st of (ctx, s, counts) \<Rightarrow>
       res_bind (run_handlers hs p ctx) (\<lambda>cx.
         if p = P_Decide then Inr (cx\<lparr>cx_actions := sort_key (te_action_key te) (cx_actions cx)\<rparr>, s, counts)
         else if p = P_Commit then
           res_map (\<lambda>(cr, l', s'). (cx\<lparr>cx_log := l'\<rparr>, s', cr_persisted cr, cr_ephemeral cr))
             (commit_at te (cx_tick cx) (cx_log cx) s)
         else Inr (cx, s, counts)))"

definition run_tick :: "('w, 'a, 's) tick_env \<Rightarrow> ('w, 'a, 's) tick_loop
    \<Rightarrow> tick_error + tick_report \<times> ('w, 'a, 's) tick_loop" where
  "run_tick te lp =
     (let (tick, c) = advance (tl_clock lp);
          sch = tl_scheduler lp\<lparr>sch_clock := c\<rparr>;
          w = te_set_tick te tick (tl_world lp)
      in res_bind (case due sch tick of Inl e \<Rightarrow> Inl (TickSched e) | Inr ds \<Rightarrow> Inr ds) (\<lambda>ds.
      res_bind (stage_at (te_log te) tick (sim_time c)
          (plain_event 1002 [(''tick'', JInt tick), (''due'', JArr (map JStr ds))]) (tl_log lp)) (\<lambda>l1.
      res_bind (fold_res (run_phase te (tl_handlers lp)) all_phases
          (\<lparr>cx_tick = tick, cx_sim_time = sim_time c, cx_due = ds, cx_actions = [], cx_rejected = [],
             cx_modes = [], cx_log = l1, cx_world = w\<rparr>, tl_store lp, 0, 0)) (\<lambda>(cx, s1, n1, m1).
      res_bind (stage_invariants te c tick (cx_sim_time cx) (cx_world cx) (tl_runner lp) (cx_log cx))
        (\<lambda>((vs, halted, reason), r', l2).
      res_bind (stage_at (te_log te) tick (cx_sim_time cx)
          (completed_event tick (int n1 + int (length (el_staged l2)) + 1) (length (cx_actions cx))
             (length (cx_rejected cx)) halted) l2) (\<lambda>l3.
      res_bind (commit_at te tick l3 s1) (\<lambda>(cr, l4, s2).
        Inr (\<lparr>tr_tick = tick, tr_sim_time = cx_sim_time cx, tr_events = n1 + cr_persisted cr,
              tr_ephemerals = m1 + cr_ephemeral cr, tr_actions = length (cx_actions cx),
              tr_rejected = length (cx_rejected cx),
              tr_llm_calls = length (filter (\<lambda>m. m \<noteq> ''reflex'') (dvals (cx_modes cx))),
              tr_violations = vs, tr_chain_hash = cr_chain_hash cr, tr_halted = halted,
              tr_halt_reason = reason\<rparr>,
             lp\<lparr>tl_clock := c, tl_scheduler := sch, tl_log := l4, tl_store := s2, tl_world := cx_world cx,
                tl_runner := r'\<rparr>))))))))"

lemma run_tick_clock: "run_tick te lp = Inr (rep, lp') \<Longrightarrow> ck_tick (tl_clock lp') = ck_tick (tl_clock lp) + 1"
  by (auto simp: run_tick_def advance_def Let_def res_simps split: prod.splits)

record run_report =
  rr_first_tick :: int
  rr_last_tick :: int
  rr_ticks :: nat
  rr_events :: nat
  rr_chain_hash :: string
  rr_halted :: bool
  rr_halt_reason :: "string option"

function run_ticks :: "('w, 'a, 's) tick_env \<Rightarrow> int \<Rightarrow> tick_report list \<Rightarrow> ('w, 'a, 's) tick_loop
    \<Rightarrow> tick_error + tick_report list \<times> ('w, 'a, 's) tick_loop" where
  \<comment> \<open>the while loop of \<open>run\<close>\<close>
  "run_ticks te until reports lp =
     (if ck_tick (tl_clock lp) < until
      then (case run_tick te lp of Inl e \<Rightarrow> Inl e
            | Inr (rep, lp') \<Rightarrow>
                if tr_halted rep then Inr (reports @ [rep], lp')
                else run_ticks te until (reports @ [rep]) lp')
      else Inr (reports, lp))"
  by pat_completeness auto
termination
  by (relation "measure (\<lambda>(te, until, reports, lp). nat (until - ck_tick (tl_clock lp)))")
     (auto dest!: run_tick_clock)

declare run_ticks.simps [simp del]

definition run_until :: "('w, 'a, 's) tick_env \<Rightarrow> int \<Rightarrow> ('w, 'a, 's) tick_loop
    \<Rightarrow> tick_error + run_report \<times> ('w, 'a, 's) tick_loop" where
  \<comment> \<open>\<open>run\<close>\<close>
  "run_until te until lp =
     res_map (\<lambda>(reports, lp').
       (\<lparr>rr_first_tick = ck_tick (tl_clock lp) + 1,
         rr_last_tick = (if reports = [] then ck_tick (tl_clock lp') else tr_tick (last reports)),
         rr_ticks = length reports, rr_events = sum_list (map tr_events reports),
         rr_chain_hash = el_chain_hash (tl_log lp'),
         rr_halted = (reports \<noteq> [] \<and> tr_halted (last reports)),
         rr_halt_reason = (if reports = [] then None else tr_halt_reason (last reports))\<rparr>, lp'))
       (run_ticks te until [] lp)"

end
