(* ===== verification/Tick_Spec.thy ===== *)
theory Tick_Spec
  imports Tick Event_Spec Invariants_Spec
begin

text \<open>
  The tick loop over the event log: handlers that only stage events of the current tick (and undo
  what they staged) leave a log the verifier accepts, one batch per tick, in tick order.
\<close>

section \<open>What a handler may do to the log\<close>

inductive log_during :: "log_env \<Rightarrow> int \<Rightarrow> event_log \<Rightarrow> event_log \<Rightarrow> bool" for env tick where
  same: "log_during env tick l l"
| staged: "log_during env tick l l1 \<Longrightarrow> stage env d tick sim l1 = Inr (e, l2) \<Longrightarrow> log_during env tick l l2"
| undone: "log_during env tick l l1 \<Longrightarrow> log_during env tick l1 l2 \<Longrightarrow>
    rollback_to (savepoint_of l1) l2 = Inr l3 \<Longrightarrow> log_during env tick l l3"

definition handler_ok :: "log_env \<Rightarrow> ('w, 'a) phase_handler \<Rightarrow> bool" where
  "handler_ok env h \<longleftrightarrow> (\<forall>cx cx'. ph_run h cx = Inr cx' \<longrightarrow>
     cx_tick cx' = cx_tick cx \<and> log_during env (cx_tick cx) (cx_log cx) (cx_log cx'))"

lemma stage_tick: "stage env d tick sim l = Inr (e, l') \<Longrightarrow> ev_tick e = tick"
  by (auto simp: stage_def stage_sealed_def unsealed_def seal_def res_simps Let_def
      split: if_splits sum.splits)

lemma stage_extends:
  assumes "stage env d tick sim l = Inr (e, l')"
  shows "\<exists>es. el_staged l' = el_staged l @ es \<and> list_all (\<lambda>e. ev_tick e = tick) es"
  using assms by (cases rule: stage_InrE) (auto simp: stage_tick[OF assms])

definition extends_at :: "int \<Rightarrow> event_log \<Rightarrow> event_log \<Rightarrow> bool" where
  "extends_at tick l l' \<longleftrightarrow> el_batch_token l' = el_batch_token l
     \<and> el_rollback_seq l' = el_rollback_seq l \<and> el_rollback_hash l' = el_rollback_hash l
     \<and> el_run_id l' = el_run_id l
     \<and> (\<exists>es. el_staged l' = el_staged l @ es \<and> list_all (\<lambda>e. ev_tick e = tick) es)"

lemma extends_refl: "extends_at tick l l"
  by (simp add: extends_at_def)

lemma extends_trans: "extends_at tick l l1 \<Longrightarrow> extends_at tick l1 l2 \<Longrightarrow> extends_at tick l l2"
  by (auto simp: extends_at_def)

lemma rollback_to_extension:
  "extends_at tick l1 l2 \<Longrightarrow> rollback_to (savepoint_of l1) l2 = Inr l1"
  by (auto simp: rollback_to_def savepoint_of_def extends_at_def)

lemma log_during_extends: "log_during env tick l l' \<Longrightarrow> extends_at tick l l'"
proof (induction rule: log_during.induct)
  case (staged l l1 d sim e l2)
  from stage_grows[OF staged(2)] stage_extends[OF staged(2)] have "extends_at tick l1 l2"
    by (auto simp: extends_at_def)
  with staged show ?case by (blast intro: extends_trans)
next
  case (undone l l1 l2 l3)
  then show ?case using rollback_to_extension by fastforce
qed (rule extends_refl)

lemma log_during_inv:
  "log_during env tick l l' \<Longrightarrow> log_inv env prev seq store l [] \<Longrightarrow> 0 \<le> seq \<Longrightarrow>
     log_inv env prev seq store l' []"
proof (induction rule: log_during.induct)
  case (undone l l1 l2 l3)
  then show ?case using rollback_to_extension[OF log_during_extends[OF undone(2)]] by simp
qed (auto intro: log_inv_stage)

lemma log_during_trans: "log_during env tick l1 l2 \<Longrightarrow> log_during env tick l l1 \<Longrightarrow> log_during env tick l l2"
  by (induction rule: log_during.induct) (auto intro: log_during.intros)

lemma stage_at_during: "stage_at env tick sim d l = Inr l' \<Longrightarrow> log_during env tick l l'"
  by (auto simp: stage_at_def split: sum.splits intro: log_during.intros)

lemma stage_all_at_during:
  "fold_res (\<lambda>v. stage_at env tick sim (f v)) vs l = Inr l' \<Longrightarrow> log_during env tick l l'"
  by (induction vs arbitrary: l)
     (auto simp: res_simps intro: log_during.same log_during_trans dest!: stage_at_during)

lemma stage_invariants_during:
  "stage_invariants te c tick sim w r l = Inr (x, r', l') \<Longrightarrow> log_during (te_log te) tick l l'"
  by (auto simp: stage_invariants_def res_simps Let_def split: sum.splits dest!: stage_all_at_during)

lemma run_handlers_during:
  "list_all (handler_ok (te_log te)) hs \<Longrightarrow> run_handlers hs p cx = Inr cx' \<Longrightarrow>
     cx_tick cx' = cx_tick cx \<and> log_during (te_log te) (cx_tick cx) (cx_log cx) (cx_log cx')"
proof -
  have "list_all (handler_ok (te_log te)) hs \<Longrightarrow>
    fold_res (\<lambda>h cx. case ph_run h cx of Inl e \<Rightarrow> Inl (TickLog e) | Inr cx' \<Rightarrow> Inr cx') hs cx = Inr cx' \<Longrightarrow>
     cx_tick cx' = cx_tick cx \<and> log_during (te_log te) (cx_tick cx) (cx_log cx) (cx_log cx')" for hs cx
  proof (induction hs arbitrary: cx)
    case (Cons h hs)
    then obtain cx1 where h: "ph_run h cx = Inr cx1" by (auto simp: res_simps split: sum.splits)
    with Cons have "cx_tick cx' = cx_tick cx1 \<and> log_during (te_log te) (cx_tick cx1) (cx_log cx1) (cx_log cx')"
      by simp
    moreover have "cx_tick cx1 = cx_tick cx \<and> log_during (te_log te) (cx_tick cx) (cx_log cx) (cx_log cx1)"
      using Cons.prems(1) h by (simp add: handler_ok_def)
    ultimately show ?case using log_during_trans by metis
  qed (simp add: log_during.same)
  from this[of "filter (\<lambda>h. ph_phase h = p) hs"]
  show "list_all (handler_ok (te_log te)) hs \<Longrightarrow> run_handlers hs p cx = Inr cx' \<Longrightarrow> ?thesis"
    by (simp add: run_handlers_def list_all_iff)
qed

lemma run_phase_other:
  assumes "run_phase te hs p (cx, s, n) = Inr y" "p \<noteq> P_Commit"
  obtains cx0 cx1 where "run_handlers hs p cx = Inr cx0" "y = (cx1, s, n)" "cx_tick cx1 = cx_tick cx0"
    "cx_log cx1 = cx_log cx0"
  using assms by (cases "run_handlers hs p cx") (auto simp: run_phase_def split: if_splits)

lemma run_phases_during:
  "list_all (handler_ok (te_log te)) hs \<Longrightarrow> P_Commit \<notin> set ps \<Longrightarrow>
     fold_res (run_phase te hs) ps (cx, s, n) = Inr (cx', s', n') \<Longrightarrow>
     s' = s \<and> n' = n \<and> cx_tick cx' = cx_tick cx \<and> log_during (te_log te) (cx_tick cx) (cx_log cx) (cx_log cx')"
proof (induction ps arbitrary: cx)
  case (Cons p ps)
  from Cons.prems(3) obtain y where y: "run_phase te hs p (cx, s, n) = Inr y"
    "fold_res (run_phase te hs) ps y = Inr (cx', s', n')" by (auto simp: res_simps)
  from Cons.prems(2) have "p \<noteq> P_Commit" by auto
  with y(1) obtain cx0 cx1 where c0: "run_handlers hs p cx = Inr cx0" "y = (cx1, s, n)"
    "cx_tick cx1 = cx_tick cx0" "cx_log cx1 = cx_log cx0" by (rule run_phase_other)
  have "s' = s \<and> n' = n \<and> cx_tick cx' = cx_tick cx1 \<and> log_during (te_log te) (cx_tick cx1) (cx_log cx1) (cx_log cx')"
    using Cons.IH[OF Cons.prems(1), of cx1] Cons.prems(2) y(2) c0(2) by simp
  with run_handlers_during[OF Cons.prems(1) c0(1)] c0(3,4) show ?case
    using log_during_trans by metis
qed (simp add: log_during.same)

section \<open>A tick is one batch\<close>

definition memory_env :: "('w, 'a, evt list) tick_env \<Rightarrow> bool" where
  "memory_env te \<longleftrightarrow> te_append te = memory_append \<and> te_publish te = null_publish"

lemma commit_at_memory:
  assumes "memory_env te" "commit_at te tick l s = Inr (cr, l', s')"
  shows "l' = commit_state l \<and> s' = s @ persisted_events (el_staged l)
    \<and> cr_persisted cr = length (persisted_events (el_staged l)) \<and> cr_chain_hash cr = el_chain_hash l"
  using assms
  by (auto simp: commit_at_def memory_env_def commit_def memory_append_def null_publish_def Let_def)

lemma commit_state_inv:
  "log_inv env prev seq store l [] \<Longrightarrow>
     log_inv env prev seq (store @ persisted_events (el_staged l)) (commit_state l) []"
  by (simp add: log_inv_def commit_state_def)

lemma commit_state_simps [simp]:
  "el_staged (commit_state l) = []" "el_chain_hash (commit_state l) = el_chain_hash l"
  "el_run_id (commit_state l) = el_run_id l" "el_last_seq (commit_state l) = el_last_seq l"
  by (simp_all add: commit_state_def)

lemma during_from_empty:
  "log_during env tick l l' \<Longrightarrow> el_staged l = [] \<Longrightarrow> list_all (\<lambda>e. ev_tick e = tick) (persisted_events (el_staged l'))"
  using log_during_extends[of env tick l l'] by (auto simp: extends_at_def persisted_events_def list_all_iff)

lemma run_tick_phases:
  assumes ok: "list_all (handler_ok (te_log te)) hs" and mem: "memory_env te"
    and run: "fold_res (run_phase te hs) all_phases (cx, s, 0, 0) = Inr (cx', s', n, m)"
  obtains la lb where "log_during (te_log te) (cx_tick cx) (cx_log cx) la"
    "s' = s @ persisted_events (el_staged la)" "n = length (persisted_events (el_staged la))"
    "log_during (te_log te) (cx_tick cx) (commit_state la) (cx_log cx')" "cx_tick cx' = cx_tick cx"
proof -
  have ph: "all_phases = [P_Clock, P_Perceive, P_Salience, P_Decide, P_Validate, P_Resolve]
      @ P_Commit # [P_Institutions, P_Vitals, P_Metrics]" by (simp add: all_phases_def)
  from run[unfolded ph fold_res_append] obtain y where
    y: "fold_res (run_phase te hs) [P_Clock, P_Perceive, P_Salience, P_Decide, P_Validate, P_Resolve] (cx, s, 0, 0) = Inr y"
      "fold_res (run_phase te hs) (P_Commit # [P_Institutions, P_Vitals, P_Metrics]) y = Inr (cx', s', n, m)"
    by (auto simp only: res_simps)
  obtain cx1 s1 n1 where y1: "y = (cx1, s1, n1)" by (cases y)
  have pre: "s1 = s \<and> n1 = (0, 0) \<and> cx_tick cx1 = cx_tick cx \<and> log_during (te_log te) (cx_tick cx) (cx_log cx) (cx_log cx1)"
    using run_phases_during[OF ok _ y(1)[unfolded y1]] by simp
  from y(2) obtain z where z: "run_phase te hs P_Commit y = Inr z"
    "fold_res (run_phase te hs) [P_Institutions, P_Vitals, P_Metrics] z = Inr (cx', s', n, m)"
    unfolding fold_res_Cons_Inr[where xs = "[P_Institutions, P_Vitals, P_Metrics]"] by blast
  from z(1) y1 obtain cx2 cr l3 s3 where c2: "run_handlers hs P_Commit cx1 = Inr cx2"
    "commit_at te (cx_tick cx2) (cx_log cx2) s1 = Inr (cr, l3, s3)"
    "z = (cx2\<lparr>cx_log := l3\<rparr>, s3, cr_persisted cr, cr_ephemeral cr)"
    by (auto simp: run_phase_def res_simps)
  have h2: "cx_tick cx2 = cx_tick cx1 \<and> log_during (te_log te) (cx_tick cx1) (cx_log cx1) (cx_log cx2)"
    by (rule run_handlers_during[OF ok c2(1)])
  note cm = commit_at_memory[OF mem c2(2)]
  have post: "s' = s3 \<and> (n, m) = (cr_persisted cr, cr_ephemeral cr) \<and> cx_tick cx' = cx_tick cx2
     \<and> log_during (te_log te) (cx_tick cx2) l3 (cx_log cx')"
    using run_phases_during[OF ok _ z(2)[unfolded c2(3)]] by simp
  show thesis
  proof (rule that[of "cx_log cx2"])
    show "log_during (te_log te) (cx_tick cx) (cx_log cx) (cx_log cx2)"
      using pre h2 log_during_trans by metis
  qed (use pre h2 cm post in auto)
qed

lemma run_tick_batch:
  assumes ok: "list_all (handler_ok (te_log te)) (tl_handlers lp)" and mem: "memory_env te"
    and inv: "log_inv (te_log te) prev seq (tl_store lp) (tl_log lp) []" "0 \<le> seq" "el_staged (tl_log lp) = []"
    and run: "run_tick te lp = Inr (rep, lp')"
  shows "\<exists>es. tl_store lp' = tl_store lp @ es \<and> list_all (\<lambda>e. ev_tick e = tr_tick rep) es
    \<and> length es = tr_events rep \<and> tr_tick rep = ck_tick (tl_clock lp) + 1
    \<and> tl_handlers lp' = tl_handlers lp \<and> el_staged (tl_log lp') = []
    \<and> tr_chain_hash rep = el_chain_hash (tl_log lp')
    \<and> log_inv (te_log te) prev seq (tl_store lp') (tl_log lp') []"
proof -
  let ?t = "ck_tick (tl_clock lp) + 1" and ?c = "tl_clock lp\<lparr>ck_tick := ck_tick (tl_clock lp) + 1\<rparr>"
  from run obtain ds l1 cx s1 n1 m1 vs halted reason r' l2 l3 cr l4 s2 where
    st: "stage_at (te_log te) ?t (sim_time ?c)
        (plain_event 1002 [(''tick'', JInt ?t), (''due'', JArr (map JStr ds))]) (tl_log lp) = Inr l1"
    and ph: "fold_res (run_phase te (tl_handlers lp)) all_phases
        (\<lparr>cx_tick = ?t, cx_sim_time = sim_time ?c, cx_due = ds, cx_actions = [], cx_rejected = [],
          cx_modes = [], cx_log = l1, cx_world = te_set_tick te ?t (tl_world lp)\<rparr>, tl_store lp, 0, 0)
        = Inr (cx, s1, n1, m1)"
    and iv: "stage_invariants te ?c ?t (cx_sim_time cx) (cx_world cx) (tl_runner lp) (cx_log cx)
        = Inr ((vs, halted, reason), r', l2)"
    and co: "stage_at (te_log te) ?t (cx_sim_time cx)
        (completed_event ?t (int n1 + int (length (el_staged l2)) + 1) (length (cx_actions cx))
          (length (cx_rejected cx)) halted) l2 = Inr l3"
    and cm: "commit_at te ?t l3 s1 = Inr (cr, l4, s2)"
    and rep: "tr_tick rep = ?t" "tr_events rep = n1 + cr_persisted cr" "tr_chain_hash rep = cr_chain_hash cr"
    and lp': "tl_store lp' = s2" "tl_log lp' = l4" "tl_handlers lp' = tl_handlers lp"
    unfolding run_tick_def advance_def Let_def by (auto simp: res_simps simp del: fold_res.simps)
  from run_tick_phases[OF ok mem ph] obtain la where
    la: "log_during (te_log te) ?t l1 la" "s1 = tl_store lp @ persisted_events (el_staged la)"
      "n1 = length (persisted_events (el_staged la))"
      "log_during (te_log te) ?t (commit_state la) (cx_log cx)" by auto
  have d1: "log_during (te_log te) ?t (tl_log lp) la" using stage_at_during[OF st] la(1) log_during_trans by metis
  have d2: "log_during (te_log te) ?t (commit_state la) l3"
    using la(4) stage_invariants_during[OF iv] stage_at_during[OF co] log_during_trans by metis
  have i1: "log_inv (te_log te) prev seq s1 (commit_state la) []"
    unfolding la(2) by (intro commit_state_inv log_during_inv[OF d1 inv(1,2)])
  note c = commit_at_memory[OF mem cm]
  have "log_inv (te_log te) prev seq s2 l4 []"
    using commit_state_inv[OF log_during_inv[OF d2 i1 inv(2)]] c by simp
  moreover have "list_all (\<lambda>e. ev_tick e = ?t) (persisted_events (el_staged la))"
    "list_all (\<lambda>e. ev_tick e = ?t) (persisted_events (el_staged l3))"
    using during_from_empty[OF d1 inv(3)] during_from_empty[OF d2] by simp_all
  ultimately show ?thesis using c la(2,3) rep lp'
    by (intro exI[of _ "persisted_events (el_staged la) @ persisted_events (el_staged l3)"]) simp
qed

section \<open>A run\<close>

definition loop_inv :: "log_env \<Rightarrow> nat \<Rightarrow> ('w, 'a, evt list) tick_loop \<Rightarrow> bool" where
  "loop_inv env n lp \<longleftrightarrow> log_inv env genesis_prev_hash 0 (tl_store lp) (tl_log lp) []
     \<and> el_staged (tl_log lp) = [] \<and> sorted (-1 # map ev_tick (tl_store lp))
     \<and> list_all (\<lambda>e. ev_tick e \<le> ck_tick (tl_clock lp)) (tl_store lp) \<and> length (tl_store lp) = n
     \<and> 0 \<le> ck_tick (tl_clock lp)"

lemma sorted_map_const: "(\<And>x. x \<in> set xs \<Longrightarrow> f x = c) \<Longrightarrow> sorted (map f xs)"
  by (induction xs) auto

lemma run_tick_loop_inv:
  assumes ok: "list_all (handler_ok (te_log te)) (tl_handlers lp)" "memory_env te"
    and inv: "loop_inv (te_log te) n lp" and run: "run_tick te lp = Inr (rep, lp')"
  shows "loop_inv (te_log te) (n + tr_events rep) lp'"
proof -
  from inv have i: "log_inv (te_log te) genesis_prev_hash 0 (tl_store lp) (tl_log lp) []"
    "el_staged (tl_log lp) = []" by (simp_all add: loop_inv_def)
  from run_tick_batch[OF ok i(1) _ i(2) run] obtain es where
    es: "tl_store lp' = tl_store lp @ es" "list_all (\<lambda>e. ev_tick e = ck_tick (tl_clock lp) + 1) es"
      "length es = tr_events rep" "el_staged (tl_log lp') = []"
      "log_inv (te_log te) genesis_prev_hash 0 (tl_store lp') (tl_log lp') []" by auto
  from inv have old: "sorted (map ev_tick (tl_store lp))" "\<forall>e\<in>set (tl_store lp). -1 \<le> ev_tick e"
    "\<forall>e\<in>set (tl_store lp). ev_tick e \<le> ck_tick (tl_clock lp)" "0 \<le> ck_tick (tl_clock lp)"
    "length (tl_store lp) = n" by (auto simp: loop_inv_def list_all_iff)
  have new: "ev_tick e = ck_tick (tl_clock lp) + 1" if "e \<in> set es" for e
    using es(2) that by (simp add: list_all_iff)
  have "sorted (map ev_tick es)" using new by (rule sorted_map_const)
  then have "sorted (map ev_tick (tl_store lp @ es))"
    using old(1,3) new by (simp add: sorted_append) (metis add.commute le_add_same_cancel2 order_trans zero_le_one)
  moreover have "\<forall>e\<in>set (tl_store lp @ es). -1 \<le> ev_tick e" using old(2,4) new by fastforce
  moreover have "\<forall>e\<in>set (tl_store lp @ es). ev_tick e \<le> ck_tick (tl_clock lp) + 1"
    using old(3) new by fastforce
  ultimately show ?thesis using es run_tick_clock[OF run] old(4,5)
    by (auto simp: loop_inv_def list_all_iff)
qed

lemma run_ticks_inv:
  "run_ticks te until reports lp = Inr (reports', lp') \<Longrightarrow>
   list_all (handler_ok (te_log te)) (tl_handlers lp) \<Longrightarrow> memory_env te \<Longrightarrow>
   loop_inv (te_log te) (n + sum_list (map tr_events reports)) lp \<Longrightarrow>
   loop_inv (te_log te) (n + sum_list (map tr_events reports')) lp'"
proof (induction te until reports lp rule: run_ticks.induct)
  case (1 te until reports lp)
  note step = run_ticks.simps[of te until reports lp]
  show ?case
  proof (cases "ck_tick (tl_clock lp) < until")
    case True
    with 1(2) step obtain rep lp1 where r: "run_tick te lp = Inr (rep, lp1)"
      by (auto split: sum.splits)
    have inv: "loop_inv (te_log te) (n + sum_list (map tr_events (reports @ [rep]))) lp1"
      using run_tick_loop_inv[OF 1(3,4,5) r] by (simp add: add.assoc)
    have hs: "tl_handlers lp1 = tl_handlers lp"
      using run_tick_batch[OF 1(3,4) _ _ _ r, of genesis_prev_hash 0] 1(5) by (auto simp: loop_inv_def)
    show ?thesis
    proof (cases "tr_halted rep")
      case True
      with 1(2) step r inv \<open>ck_tick (tl_clock lp) < until\<close> show ?thesis by simp
    next
      case False
      with 1(2) step r \<open>ck_tick (tl_clock lp) < until\<close>
      have "run_ticks te until (reports @ [rep]) lp1 = Inr (reports', lp')" by simp
      from 1(1)[OF True r refl False this] inv hs 1(3,4) show ?thesis by simp
    qed
  qed (use 1 step in simp)
qed


end
