(* ===== verification/Simulation.thy ===== *)
theory Simulation
  imports Tick
begin

text \<open>
  \<open>polis/simulation.py\<close>: the simulation without domain handlers, started fresh or resumed from a
  stored event stream. The run identity (built or validated from the settings) is an argument.
\<close>

datatype sim_error = WrongRun | HaltedAtGenesis | MissingGenesis | BadIdentity | SimTick tick_error

type_synonym empty_loop = "(int, unit, evt list) tick_loop"
type_synonym empty_env = "(int, unit, evt list) tick_env"

definition empty_env_of :: "log_env \<Rightarrow> float_env \<Rightarrow> empty_env" where
  \<comment> \<open>the in-memory sink, no ephemeral sink, \<open>NullWorldState\<close> (whose only field is the tick)\<close>
  "empty_env_of env fe = \<lparr>te_log = env, te_append = memory_append, te_publish = null_publish,
     te_floats = fe, te_view = (\<lambda>_. null_world), te_set_tick = (\<lambda>t _. t), te_action_key = (\<lambda>_. ([], []))\<rparr>"

definition clock_at :: "clock_profile \<Rightarrow> int \<Rightarrow> clock" where
  "clock_at p tick = \<lparr>ck_profile = p, ck_tick = tick, ck_epoch = epoch\<rparr>"

definition empty_loop_of :: "clock_profile \<Rightarrow> int \<Rightarrow> event_log \<Rightarrow> evt list \<Rightarrow> empty_loop" where
  "empty_loop_of p tick l store = \<lparr>tl_clock = clock_at p tick,
     tl_scheduler = \<lparr>sch_clock = clock_at p tick, sch_cadences = []\<rparr>, tl_log = l, tl_store = store,
     tl_world = 0, tl_runner = mk_runner False None, tl_handlers = []\<rparr>"

definition genesis_completion :: "evt list \<Rightarrow> evt option" where
  "genesis_completion es = find (\<lambda>e. ev_kind e = 1003 \<and> ev_tick e = 0) es"

definition resumed_log :: "uuid \<Rightarrow> evt list \<Rightarrow> event_log" where
  "resumed_log run resume =
     (if resume = [] then init_log run 0 genesis_prev_hash
      else init_log run (ev_seq (last resume)) (ev_hash (last resume)))"

record sim_result =
  sr_report :: run_report
  sr_events :: "evt list"

definition start_run :: "log_env \<Rightarrow> (sim_error + payload) \<Rightarrow> clock \<Rightarrow> event_log \<Rightarrow> evt list
    \<Rightarrow> sim_error + event_log \<times> evt list" where
  \<comment> \<open>stage and commit \<open>RUN_STARTED\<close>\<close>
  "start_run env identity c l store =
     res_bind identity (\<lambda>pl.
       case stage_at env 0 (sim_time c) (plain_event 1001 pl) l of Inl e \<Rightarrow> Inl (SimTick e)
       | Inr l1 \<Rightarrow> (case commit memory_append null_publish 0 l1 store of
           (Inl e, _, _) \<Rightarrow> Inl (SimTick (TickLog e)) | (Inr r, l2, s2) \<Rightarrow> Inr (l2, s2)))"

definition continue_run :: "empty_env \<Rightarrow> int \<Rightarrow> empty_loop \<Rightarrow> sim_error + sim_result" where
  "continue_run te ticks lp =
     (case run_until te ticks lp of Inl e \<Rightarrow> Inl (SimTick e)
      | Inr (rep, lp') \<Rightarrow> Inr \<lparr>sr_report = rep, sr_events = tl_store lp'\<rparr>)"

definition run_empty :: "log_env \<Rightarrow> float_env \<Rightarrow> uuid \<Rightarrow> clock_profile \<Rightarrow> (sim_error + payload) \<Rightarrow> int
    \<Rightarrow> evt list \<Rightarrow> sim_error + sim_result" where
  "run_empty env fe run p identity ticks resume =
     (let te = empty_env_of env fe;
          start_tick = (if resume = [] then 0 else ev_tick (last resume));
          done_event = genesis_completion resume
      in if resume \<noteq> [] \<and> ev_run_id (last resume) \<noteq> run then Inl WrongRun
         else res_bind (if resume = [] then start_run env identity (clock_at p start_tick) (resumed_log run resume) resume
                        else Inr (resumed_log run resume, resume)) (\<lambda>(l, store).
         let lp = empty_loop_of p start_tick l store
         in if opt_ex (\<lambda>e. dget (ev_payload e) ''halted'' = Some (JBool True)) done_event then Inl HaltedAtGenesis
            else if done_event \<noteq> None then continue_run te ticks lp
            else if resume \<noteq> [] \<and> ev_tick (last resume) > 0 then Inl MissingGenesis
            else (case complete_genesis_tick te lp of Inl e \<Rightarrow> Inl (SimTick e)
              | Inr (genesis, lp1) \<Rightarrow>
                if tr_halted genesis
                then Inr \<lparr>sr_report = \<lparr>rr_first_tick = 0, rr_last_tick = 0, rr_ticks = 1,
                            rr_events = nat (el_last_seq (tl_log lp1)), rr_chain_hash = tr_chain_hash genesis,
                            rr_halted = True, rr_halt_reason = tr_halt_reason genesis\<rparr>,
                          sr_events = tl_store lp1\<rparr>
                else continue_run te ticks lp1)))"

end
