(* ===== verification/Sim_Spec.thy ===== *)
theory Sim_Spec
  imports Simulation Tick_Spec
begin

text \<open>
  The simulation without handlers: it never halts on an invariant, and resuming a stored stream
  continues it exactly as the uninterrupted run does.
\<close>

section \<open>The null world violates nothing\<close>

lemma null_world_checks:
  "inv_run fe c tick null_world False (mk_runner False None)
     = Inr (map (\<lambda>i. iv_check i null_world) (projr (inv_due fe c tick False (mk_runner False None))), mk_runner False None)
   \<and> violations (map (\<lambda>i. iv_check i null_world) (projr (inv_due fe c tick False (mk_runner False None)))) = []"
  by (auto simp: inv_run_def inv_due_def default_sorted registry_lookups is_due_def mk_inv_def violations_def
      null_world_def check_inv_money_def check_inv_ledger_def check_inv_interest_def check_inv_price_def
      check_inv_population_def check_inv_entropy_def capital_result_def Let_def)

lemma stage_invariants_null:
  "stage_invariants (empty_env_of env fe) c tick sim w (mk_runner False None) l
     = Inr (([], False, None), mk_runner False None, l)"
  using null_world_checks[of fe c tick]
  by (simp add: stage_invariants_def empty_env_of_def should_halt_def)

section \<open>Staging without a sampler\<close>

definition plain_staged :: "log_env \<Rightarrow> int \<Rightarrow> datetime \<Rightarrow> draft \<Rightarrow> event_log \<Rightarrow> evt \<Rightarrow> event_log \<Rightarrow> bool" where
  "plain_staged env tick sim d l e l' \<longleftrightarrow>
     l' = l\<lparr>el_last_seq := el_last_seq l + 1, el_chain_hash := ev_hash e, el_staged := el_staged l @ [e]\<rparr>
     \<and> ev_seq e = el_last_seq l + 1 \<and> ev_tick e = tick \<and> ev_kind e = ne_kind d \<and> ev_payload e = ne_payload d
     \<and> ev_run_id e = el_run_id l \<and> 0 \<le> ev_seq e"

lemma stage_at_plain:
  assumes "stage_at env tick sim d l = Inr l'" "env_sampler env = None" "is_ephemeral (ne_kind d) = Inr False"
  obtains e where "plain_staged env tick sim d l e l'"
proof -
  from assms(1) obtain e where st: "stage env d tick sim l = Inr (e, l')"
    by (auto simp: stage_at_def split: sum.splits)
  then have "stage_sealed env d tick sim l = Inr (e, l')"
    using assms(2,3) by (auto simp: stage_def res_simps dropped_by_sampler_def Let_def split: if_splits sum.splits)
  then have se: "seal (env_sha env) d (el_last_seq l + 1) (el_run_id l) tick sim (el_chain_hash l) = Inr e"
    "l' = l\<lparr>el_last_seq := el_last_seq l + 1, el_chain_hash := ev_hash e, el_staged := el_staged l @ [e]\<rparr>"
    by (auto simp: stage_sealed_def split: sum.splits)
  with seal_fields[OF se(1)] seal_seq_nonneg[OF se(1)] have "plain_staged env tick sim d l e l'"
    by (simp add: plain_staged_def)
  then show thesis by (rule that)
qed

lemma kernel_kinds_persisted:
  "is_ephemeral 1001 = Inr False" "is_ephemeral 1002 = Inr False" "is_ephemeral 1003 = Inr False"
  by code_simp+

lemma plain_event_kind [simp]: "ne_kind (plain_event k pl) = k" "ne_payload (plain_event k pl) = pl"
  by (simp_all add: plain_event_def)

lemma completed_event_kind [simp]:
  "ne_kind (completed_event t n a r h) = 1003"
  "dget (ne_payload (completed_event t n a r h)) ''halted'' = Some (JBool h)"
  by (simp_all add: completed_event_def)

lemma persisted_single: "0 \<le> ev_seq e \<Longrightarrow> persisted_events [e] = [e]"
  by (simp add: persisted_events_def ephemeral_seq_def)

section \<open>One tick without handlers\<close>

definition start_ctx :: "int \<Rightarrow> datetime \<Rightarrow> event_log \<Rightarrow> (int, unit) tick_ctx" where
  "start_ctx tick sim l = \<lparr>cx_tick = tick, cx_sim_time = sim, cx_due = [], cx_actions = [], cx_rejected = [],
     cx_modes = [], cx_log = l, cx_world = tick\<rparr>"

lemma empty_phases:
  "fold_res (run_phase (empty_env_of env fe) []) all_phases (start_ctx tick sim l, s, 0, 0) =
     (case commit_at (empty_env_of env fe) tick l s of Inl e \<Rightarrow> Inl e
      | Inr (cr, l', s') \<Rightarrow> Inr (start_ctx tick sim l', s', cr_persisted cr, cr_ephemeral cr))"
  by (simp add: all_phases_def run_phase_def run_handlers_def start_ctx_def split: sum.splits prod.splits)

definition resumable :: "uuid \<Rightarrow> clock_profile \<Rightarrow> empty_loop \<Rightarrow> bool" where
  \<comment> \<open>between ticks: nothing staged, the log agrees with the last stored event, which is of the current tick\<close>
  "resumable run p lp \<longleftrightarrow> tl_clock lp = clock_at p (ck_tick (tl_clock lp))
     \<and> sch_cadences (tl_scheduler lp) = [] \<and> tl_handlers lp = [] \<and> tl_runner lp = mk_runner False None
     \<and> tl_store lp \<noteq> []
     \<and> (\<exists>k. tl_log lp = init_log run (ev_seq (last (tl_store lp))) (ev_hash (last (tl_store lp)))\<lparr>el_batch_token := k\<rparr>)
     \<and> ev_tick (last (tl_store lp)) = ck_tick (tl_clock lp) \<and> ev_run_id (last (tl_store lp)) = run"

lemma commit_plain:
  assumes "commit_at (empty_env_of env fe) tick l s = Inr (cr, l', s')"
  shows "l' = commit_state l \<and> s' = s @ persisted_events (el_staged l)"
  using commit_at_memory[OF _ assms] by (simp add: memory_env_def empty_env_of_def)

lemma commit_resumable:
  assumes "plain_staged env tick sim d l e l'" "el_staged l = []" "el_dropped l = 0" "el_run_id l = run"
  shows "\<exists>k. commit_state l' = init_log run (ev_seq e) (ev_hash e)\<lparr>el_batch_token := k\<rparr>"
    and "persisted_events (el_staged l') = [e]"
  using assms persisted_single[of e]
  by (cases l; auto simp: plain_staged_def commit_state_def init_log_def)+

text \<open>A tick without handlers, cadences and violations, written out.\<close>

definition empty_step :: "log_env \<Rightarrow> empty_env \<Rightarrow> int \<Rightarrow> clock \<Rightarrow> event_log \<Rightarrow> evt list
    \<Rightarrow> tick_error + tick_report \<times> event_log \<times> evt list" where
  "empty_step env te t c l s =
     res_bind (stage_at env t (sim_time c) (plain_event 1002 [(''tick'', JInt t), (''due'', JArr [])]) l) (\<lambda>l1.
     res_bind (commit_at te t l1 s) (\<lambda>(cr1, l2, s1).
     res_bind (stage_at env t (sim_time c)
         (completed_event t (int (cr_persisted cr1) + int (length (el_staged l2)) + 1) 0 0 False) l2) (\<lambda>l3.
     res_bind (commit_at te t l3 s1) (\<lambda>(cr, l4, s2).
       Inr (\<lparr>tr_tick = t, tr_sim_time = sim_time c, tr_events = cr_persisted cr1 + cr_persisted cr,
             tr_ephemerals = cr_ephemeral cr1 + cr_ephemeral cr, tr_actions = 0, tr_rejected = 0,
             tr_llm_calls = 0, tr_violations = [], tr_chain_hash = cr_chain_hash cr, tr_halted = False,
             tr_halt_reason = None\<rparr>, l4, s2)))))"

lemma empty_run_tick:
  assumes "tl_handlers lp = []" "tl_runner lp = mk_runner False None" "sch_cadences (tl_scheduler lp) = []"
  shows "run_tick (empty_env_of env fe) lp =
    (let t = ck_tick (tl_clock lp) + 1; c = tl_clock lp\<lparr>ck_tick := t\<rparr>
     in res_map (\<lambda>(rep, l', s'). (rep, lp\<lparr>tl_clock := c, tl_scheduler := tl_scheduler lp\<lparr>sch_clock := c\<rparr>,
          tl_log := l', tl_store := s', tl_world := t, tl_runner := mk_runner False None\<rparr>))
        (empty_step env (empty_env_of env fe) t c (tl_log lp) (tl_store lp)))"
proof -
  let ?t = "ck_tick (tl_clock lp) + 1" and ?te = "empty_env_of env fe"
  let ?c = "tl_clock lp\<lparr>ck_tick := ?t\<rparr>"
  have te: "te_log ?te = env" "te_set_tick ?te = (\<lambda>t _. t)" by (simp_all add: empty_env_of_def)
  have due: "due (tl_scheduler lp\<lparr>sch_clock := ?c\<rparr>) ?t = Inr []"
    using assms(3) by (simp add: due_def registered_def)
  have ctx: "\<lparr>cx_tick = ?t, cx_sim_time = sim_time ?c, cx_due = [], cx_actions = [], cx_rejected = [],
      cx_modes = [], cx_log = l1, cx_world = ?t\<rparr> = start_ctx ?t (sim_time ?c) l1" for l1
    by (simp add: start_ctx_def)
  show ?thesis
    unfolding run_tick_def empty_step_def advance_def Let_def prod.case
    apply (simp add: due te assms(1,2) ctx)
    apply (cases "stage_at env ?t (sim_time ?c) (plain_event 1002 [(''tick'', JInt ?t), (''due'', JArr [])]) (tl_log lp)")
     apply (simp_all add: empty_phases)
    apply (rename_tac l1)
    apply (case_tac "commit_at ?te ?t l1 (tl_store lp)")
     apply (simp_all add: start_ctx_def stage_invariants_null split: prod.splits)
    apply (simp add: res_fusion prod.case_distrib[where h = "res_map _"] split_def)
    done
qed

lemma empty_step_ok:
  assumes ns: "env_sampler env = None" and s: "empty_step env (empty_env_of env fe) t c l store = Inr (rep, l', store')"
    and l: "el_staged l = []" "el_dropped l = 0" "el_run_id l = run"
  shows "\<not> tr_halted rep \<and> tr_tick rep = t \<and> (\<exists>e1 e2 k. store' = store @ [e1, e2] \<and> ev_tick e2 = t
    \<and> ev_run_id e2 = run \<and> l' = init_log run (ev_seq e2) (ev_hash e2)\<lparr>el_batch_token := k\<rparr>)"
proof -
  from s obtain l1 cr1 l2 s1 l3 cr where
    st: "stage_at env t (sim_time c) (plain_event 1002 [(''tick'', JInt t), (''due'', JArr [])]) l = Inr l1"
      "commit_at (empty_env_of env fe) t l1 store = Inr (cr1, l2, s1)"
      "stage_at env t (sim_time c) (completed_event t (int (cr_persisted cr1) + int (length (el_staged l2)) + 1) 0 0 False) l2 = Inr l3"
      "commit_at (empty_env_of env fe) t l3 s1 = Inr (cr, l', store')" "\<not> tr_halted rep" "tr_tick rep = t"
    unfolding empty_step_def by (auto simp: res_simps)
  obtain e1 where e1: "plain_staged env t (sim_time c) (plain_event 1002 [(''tick'', JInt t), (''due'', JArr [])]) l e1 l1"
    using stage_at_plain[OF st(1) ns] kernel_kinds_persisted by auto
  obtain e2 where e2: "plain_staged env t (sim_time c)
      (completed_event t (int (cr_persisted cr1) + int (length (el_staged l2)) + 1) 0 0 False) l2 e2 l3"
    using stage_at_plain[OF st(3) ns] kernel_kinds_persisted by auto
  note c1 = commit_plain[OF st(2)] and c2 = commit_plain[OF st(4)]
  note r1 = commit_resumable[OF e1 l]
  from r1(1) c1 obtain k where "l2 = init_log run (ev_seq e1) (ev_hash e1)\<lparr>el_batch_token := k\<rparr>" by metis
  then have l2: "el_staged l2 = []" "el_dropped l2 = 0" "el_run_id l2 = run" by (simp_all add: init_log_def)
  note r2 = commit_resumable[OF e2 l2]
  from e2 l2 have "ev_tick e2 = t" "ev_run_id e2 = run" by (auto simp: plain_staged_def)
  with r1(2) r2 c1 c2 st(5,6) show ?thesis by auto
qed

lemma empty_tick:
  assumes ns: "env_sampler env = None" and rs: "resumable run p lp"
    and rt: "run_tick (empty_env_of env fe) lp = Inr (rep, lp')"
  shows "resumable run p lp' \<and> \<not> tr_halted rep \<and> tr_tick rep = ck_tick (tl_clock lp')
    \<and> (\<exists>es. tl_store lp' = tl_store lp @ es)"
proof -
  let ?t = "ck_tick (tl_clock lp) + 1"
  from rs have h: "tl_handlers lp = []" "tl_runner lp = mk_runner False None" "sch_cadences (tl_scheduler lp) = []"
    and l: "el_staged (tl_log lp) = []" "el_dropped (tl_log lp) = 0" "el_run_id (tl_log lp) = run"
    and ck: "tl_clock lp = clock_at p (ck_tick (tl_clock lp))"
    by (auto simp: resumable_def init_log_def)
  from rt[unfolded empty_run_tick[OF h] Let_def] obtain l' s' where
    s: "empty_step env (empty_env_of env fe) ?t (tl_clock lp\<lparr>ck_tick := ?t\<rparr>) (tl_log lp) (tl_store lp) = Inr (rep, l', s')"
    and lp': "lp' = lp\<lparr>tl_clock := tl_clock lp\<lparr>ck_tick := ?t\<rparr>, tl_scheduler := tl_scheduler lp\<lparr>sch_clock := tl_clock lp\<lparr>ck_tick := ?t\<rparr>\<rparr>,
          tl_log := l', tl_store := s', tl_world := ?t, tl_runner := mk_runner False None\<rparr>"
    by (auto simp: res_simps)
  have "tl_clock lp\<lparr>ck_tick := ?t\<rparr> = clock_at p ?t" using ck by (simp add: clock_at_def) (metis clock.update_convs(2))
  with empty_step_ok[OF ns s l] h show ?thesis unfolding lp' resumable_def by (auto simp: clock_at_def)
qed

section \<open>Loops that differ only in bookkeeping\<close>

definition norm :: "empty_loop \<Rightarrow> empty_loop" where
  \<comment> \<open>forget the identity of the batch, the tick the world last saw and the scheduler's stale clock\<close>
  "norm lp = lp\<lparr>tl_world := 0, tl_scheduler := \<lparr>sch_clock = tl_clock lp, sch_cadences = []\<rparr>,
     tl_log := tl_log lp\<lparr>el_batch_token := 0\<rparr>\<rparr>"

lemma stage_token:
  "stage env d t s (l\<lparr>el_batch_token := k\<rparr>) = res_map (\<lambda>(e, l'). (e, l'\<lparr>el_batch_token := k\<rparr>)) (stage env d t s l)"
  by (cases l) (simp add: stage_def stage_sealed_def res_fusion Let_def split: sum.splits)

lemma stage_at_token:
  "stage_at env t s d (l\<lparr>el_batch_token := k\<rparr>) = res_map (\<lambda>l'. l'\<lparr>el_batch_token := k\<rparr>) (stage_at env t s d l)"
  by (simp add: stage_at_def stage_token split: sum.splits prod.splits)

lemma commit_at_token:
  "commit_at (empty_env_of env fe) t (l\<lparr>el_batch_token := k\<rparr>) s
     = res_map (\<lambda>(cr, l', s'). (cr, l'\<lparr>el_batch_token := Suc k\<rparr>, s')) (commit_at (empty_env_of env fe) t l s)"
  by (cases l) (simp add: commit_at_def empty_env_of_def commit_def memory_append_def null_publish_def Let_def commit_state_def
      split: list.splits)

lemma empty_step_token:
  "empty_step env (empty_env_of env fe) t c (l\<lparr>el_batch_token := k\<rparr>) s
     = res_map (\<lambda>(rep, l', s'). (rep, l'\<lparr>el_batch_token := Suc (Suc k)\<rparr>, s')) (empty_step env (empty_env_of env fe) t c l s)"
  by (simp add: empty_step_def stage_at_token commit_at_token res_fusion split_def)

definition bare :: "empty_loop \<Rightarrow> bool" where
  "bare lp \<longleftrightarrow> tl_handlers lp = [] \<and> tl_runner lp = mk_runner False None \<and> sch_cadences (tl_scheduler lp) = []"

lemma resumable_bare: "resumable run p lp \<Longrightarrow> bare lp"
  by (simp add: resumable_def bare_def)

lemma norm_bare: "bare lp \<Longrightarrow> bare (norm lp)"
  by (simp add: bare_def norm_def)

lemma norm_clock [simp]: "tl_clock (norm lp) = tl_clock lp" "tl_store (norm lp) = tl_store lp"
  by (simp_all add: norm_def)

lemma run_tick_bare:
  "bare lp \<Longrightarrow> run_tick (empty_env_of env fe) lp = Inr (rep, lp') \<Longrightarrow> bare lp'"
  by (auto simp: bare_def empty_run_tick Let_def res_simps)

lemma run_tick_norm:
  assumes "bare lp"
  shows "res_map (\<lambda>(r, lp'). (r, norm lp')) (run_tick (empty_env_of env fe) (norm lp))
    = res_map (\<lambda>(r, lp'). (r, norm lp')) (run_tick (empty_env_of env fe) lp)"
proof -
  from assms have b: "tl_handlers lp = []" "tl_runner lp = mk_runner False None" "sch_cadences (tl_scheduler lp) = []"
    by (simp_all add: bare_def)
  from norm_bare[OF assms] have n: "tl_handlers (norm lp) = []" "tl_runner (norm lp) = mk_runner False None"
    "sch_cadences (tl_scheduler (norm lp)) = []" by (simp_all add: bare_def)
  have l: "tl_log (norm lp) = tl_log lp\<lparr>el_batch_token := 0\<rparr>" by (simp add: norm_def)
  show ?thesis
    unfolding empty_run_tick[OF b] empty_run_tick[OF n] Let_def l norm_clock empty_step_token res_fusion
    using b by (cases lp) (auto simp: norm_def split_def intro!: arg_cong[where f = "\<lambda>f. res_map f _"] ext)
qed

lemma run_tick_same:
  assumes "bare lp" "bare lp2" "norm lp = norm lp2"
  shows "res_map (\<lambda>(r, lp'). (r, norm lp')) (run_tick (empty_env_of env fe) lp)
    = res_map (\<lambda>(r, lp'). (r, norm lp')) (run_tick (empty_env_of env fe) lp2)"
  using run_tick_norm[OF assms(1), of env fe] run_tick_norm[OF assms(2), of env fe] assms(3) by simp

lemma run_ticks_same:
  "te = empty_env_of env fe \<Longrightarrow> bare lp \<Longrightarrow> bare lp2 \<Longrightarrow> norm lp = norm lp2 \<Longrightarrow>
   res_map (\<lambda>(rs, lp'). norm lp') (run_ticks te u rs lp) = res_map (\<lambda>(rs, lp'). norm lp') (run_ticks te u rs2 lp2)"
proof (induction te u rs lp arbitrary: lp2 rs2 rule: run_ticks.induct)
  case (1 te u rs lp)
  note step = run_ticks.simps[of te u rs lp] run_ticks.simps[of te u rs2 lp2]
  have ck: "tl_clock lp2 = tl_clock lp" using 1(5) by (metis norm_clock(1))
  show ?case
  proof (cases "ck_tick (tl_clock lp) < u")
    case True
    have same: "res_map (\<lambda>(r, lp'). (r, norm lp')) (run_tick te lp) = res_map (\<lambda>(r, lp'). (r, norm lp')) (run_tick te lp2)"
      using run_tick_same[OF 1(3,4,5)] 1(2) by simp
    show ?thesis
    proof (cases "run_tick te lp")
      case (Inl e)
      with same have "run_tick te lp2 = Inl e" by (cases "run_tick te lp2") auto
      with Inl show ?thesis unfolding step using True ck by simp
    next
      case (Inr x)
      obtain rep lpa where x: "x = (rep, lpa)" by (cases x)
      from same Inr x obtain lpb where b: "run_tick te lp2 = Inr (rep, lpb)" "norm lpa = norm lpb"
        by (cases "run_tick te lp2") auto
      note bares = run_tick_bare[OF 1(3), of env fe rep lpa] run_tick_bare[OF 1(4), of env fe rep lpb]
      show ?thesis
      proof (cases "tr_halted rep")
        case True
        with Inr x b show ?thesis unfolding step using \<open>ck_tick (tl_clock lp) < u\<close> ck by simp
      next
        case False
        have "res_map (\<lambda>(rs, lp'). norm lp') (run_ticks te u (rs @ [rep]) lpa)
            = res_map (\<lambda>(rs, lp'). norm lp') (run_ticks te u (rs2 @ [rep]) lpb)"
          using 1(1)[OF True Inr[unfolded x] refl False 1(2) _ _ b(2)] bares Inr x b(1) 1(2) by simp
        with False Inr x b show ?thesis unfolding step using True ck by simp
      qed
    qed
  next
    case False
    then show ?thesis unfolding step using ck 1(5) by simp
  qed
qed

section \<open>Running and resuming\<close>

lemma run_ticks_resumable:
  "te = empty_env_of env fe \<Longrightarrow> env_sampler env = None \<Longrightarrow> resumable run p lp \<Longrightarrow>
   run_ticks te t rs lp = Inr (rs', lp') \<Longrightarrow>
   resumable run p lp' \<and> (\<exists>es. tl_store lp' = tl_store lp @ es)
   \<and> (t \<le> t2 \<longrightarrow> run_ticks te t2 rs lp = run_ticks te t2 rs' lp')"
proof (induction te t rs lp rule: run_ticks.induct)
  case (1 te t rs lp)
  note step = run_ticks.simps[of te t rs lp] and step2 = run_ticks.simps[of te t2 rs lp]
  show ?case
  proof (cases "ck_tick (tl_clock lp) < t")
    case True
    with 1(5) step obtain rep lp1 where r: "run_tick te lp = Inr (rep, lp1)" by (auto split: sum.splits)
    from empty_tick[OF 1(3,4) r[unfolded 1(2)]] have e: "resumable run p lp1" "\<not> tr_halted rep"
      "\<exists>es. tl_store lp1 = tl_store lp @ es" by blast+
    from 1(5) step r True e(2) have "run_ticks te t (rs @ [rep]) lp1 = Inr (rs', lp')" by simp
    from 1(1)[OF True r refl e(2) 1(2,3) e(1) this] e(3) show ?thesis
      using step2 r e(2) True by auto
  next
    case False
    with 1(4,5) step show ?thesis by simp
  qed
qed

definition fresh_loop :: "log_env \<Rightarrow> float_env \<Rightarrow> uuid \<Rightarrow> clock_profile \<Rightarrow> (sim_error + payload) \<Rightarrow> sim_error + empty_loop" where
  \<comment> \<open>the loop after the genesis tick\<close>
  "fresh_loop env fe run p identity =
     res_bind (start_run env identity (clock_at p 0) (init_log run 0 genesis_prev_hash) []) (\<lambda>(l, store).
       case complete_genesis_tick (empty_env_of env fe) (empty_loop_of p 0 l store) of
         Inl e \<Rightarrow> Inl (SimTick e) | Inr (g, lp) \<Rightarrow> Inr lp)"

lemma genesis_explicit:
  "complete_genesis_tick (empty_env_of env fe) (empty_loop_of p 0 l store) =
     res_bind (stage_at env 0 (sim_time (clock_at p 0)) (completed_event 0 (el_last_seq l + 1) 0 0 False) l) (\<lambda>l2.
     res_map (\<lambda>(cr, l3, s'). (\<lparr>tr_tick = 0, tr_sim_time = sim_time (clock_at p 0), tr_events = cr_persisted cr,
             tr_ephemerals = cr_ephemeral cr, tr_actions = 0, tr_rejected = 0, tr_llm_calls = 0,
             tr_violations = [], tr_chain_hash = cr_chain_hash cr, tr_halted = False, tr_halt_reason = None\<rparr>,
             (empty_loop_of p 0 l store)\<lparr>tl_log := l3, tl_store := s'\<rparr>))
       (commit_at (empty_env_of env fe) 0 l2 store))"
proof -
  have te: "te_log (empty_env_of env fe) = env" by (simp add: empty_env_of_def)
  show ?thesis
    unfolding complete_genesis_tick_def te
    by (simp add: empty_loop_of_def stage_invariants_null res_fusion split_def)
      (cases "stage_at env 0 (sim_time (clock_at p 0)) (completed_event 0 (el_last_seq l + 1) 0 0 False) l"; simp;
       rename_tac l2; case_tac "commit_at (empty_env_of env fe) 0 l2 store"; simp add: split_def)
qed

lemma run_empty_fresh:
  "run_empty env fe run p identity t [] =
     res_bind (fresh_loop env fe run p identity) (continue_run (empty_env_of env fe) t)"
proof -
  have nh: "complete_genesis_tick (empty_env_of env fe) (empty_loop_of p 0 l store) = Inr (g, lp) \<Longrightarrow> \<not> tr_halted g"
    for l store g lp by (auto simp: genesis_explicit res_simps)
  show ?thesis
    by (cases "start_run env identity (clock_at p 0) (init_log run 0 genesis_prev_hash) []")
      (auto simp: run_empty_def fresh_loop_def resumed_log_def genesis_completion_def Let_def dest!: nh split: sum.splits)
qed

lemma start_run_explicit:
  "start_run env identity c l store = res_bind identity (\<lambda>pl.
     case stage_at env 0 (sim_time c) (plain_event 1001 pl) l of Inl e \<Rightarrow> Inl (SimTick e)
     | Inr l1 \<Rightarrow> Inr (commit_state l1, store @ persisted_events (el_staged l1)))"
  by (simp add: start_run_def commit_def memory_append_def null_publish_def Let_def cong: sum.case_cong)

lemma fresh_resumable:
  assumes ns: "env_sampler env = None" and f: "fresh_loop env fe run p identity = Inr lp"
  shows "resumable run p lp \<and> (\<exists>e0 eg. tl_store lp = [e0, eg] \<and> ev_kind e0 = 1001
    \<and> ev_kind eg = 1003 \<and> ev_tick eg = 0 \<and> dget (ev_payload eg) ''halted'' = Some (JBool False))"
proof -
  let ?c = "clock_at p 0"
  from f obtain pl l1 l store g where
    st: "stage_at env 0 (sim_time ?c) (plain_event 1001 pl) (init_log run 0 genesis_prev_hash) = Inr l1"
    and m0: "l = commit_state l1" "store = persisted_events (el_staged l1)"
    and gen: "complete_genesis_tick (empty_env_of env fe) (empty_loop_of p 0 l store) = Inr (g, lp)"
    by (auto simp: fresh_loop_def start_run_explicit res_simps)
  obtain e0 where e0: "plain_staged env 0 (sim_time ?c) (plain_event 1001 pl) (init_log run 0 genesis_prev_hash) e0 l1"
    using stage_at_plain[OF st ns] kernel_kinds_persisted by auto
  note r0 = commit_resumable[OF e0, of run]
  from r0(1) m0 obtain k where l: "l = init_log run (ev_seq e0) (ev_hash e0)\<lparr>el_batch_token := k\<rparr>"
    by (auto simp: init_log_def)
  from gen[unfolded genesis_explicit] obtain l2 cr l3 s3 where
    g2: "stage_at env 0 (sim_time ?c) (completed_event 0 (el_last_seq l + 1) 0 0 False) l = Inr l2"
      "commit_at (empty_env_of env fe) 0 l2 store = Inr (cr, l3, s3)"
      "lp = (empty_loop_of p 0 l store)\<lparr>tl_log := l3, tl_store := s3\<rparr>"
    by (auto simp: res_simps)
  obtain eg where eg: "plain_staged env 0 (sim_time ?c) (completed_event 0 (el_last_seq l + 1) 0 0 False) l eg l2"
    using stage_at_plain[OF g2(1) ns] kernel_kinds_persisted by auto
  have ls: "el_staged l = []" "el_dropped l = 0" "el_run_id l = run" using l by (simp_all add: init_log_def)
  note rg = commit_resumable[OF eg ls] and mg = commit_plain[OF g2(2)]
  have store: "s3 = [e0, eg]" using m0 mg rg(2) r0(2) by (simp add: init_log_def)
  have lp: "tl_store lp = [e0, eg]" "tl_log lp = commit_state l2" "tl_clock lp = clock_at p 0"
    "sch_cadences (tl_scheduler lp) = []" "tl_handlers lp = []" "tl_runner lp = mk_runner False None"
    using g2(3) store mg by (simp_all add: empty_loop_of_def)
  have "ev_tick eg = 0" "ev_run_id eg = run" "ev_kind eg = 1003" "ev_kind e0 = 1001"
    "dget (ev_payload eg) ''halted'' = Some (JBool False)"
    using eg e0 ls by (simp_all add: plain_staged_def)
  with lp rg(1) show ?thesis by (simp add: resumable_def clock_at_def)
qed

lemma resumed_norm:
  assumes "resumable run p lp"
  shows "bare (empty_loop_of p (ev_tick (last (tl_store lp))) (resumed_log run (tl_store lp)) (tl_store lp))
    \<and> norm (empty_loop_of p (ev_tick (last (tl_store lp))) (resumed_log run (tl_store lp)) (tl_store lp)) = norm lp"
  using assms by (cases lp) (auto simp: resumable_def bare_def norm_def empty_loop_of_def resumed_log_def)

lemma continue_events:
  "res_map sr_events (continue_run te t lp) =
     (case res_map (\<lambda>(rs, lp'). norm lp') (run_ticks te t [] lp) of Inl e \<Rightarrow> Inl (SimTick e) | Inr lp' \<Rightarrow> Inr (tl_store lp'))"
  by (cases "run_ticks te t [] lp") (auto simp: continue_run_def run_until_def)

lemma continue_same:
  assumes "bare lp" "bare lp2" "norm lp = norm lp2"
  shows "res_map sr_events (continue_run (empty_env_of env fe) t lp) = res_map sr_events (continue_run (empty_env_of env fe) t lp2)"
  unfolding continue_events using run_ticks_same[OF refl assms] by metis

text \<open>C2. Stopping and resuming is invisible: a run to \<open>t2\<close> resumed from the stored events of a run to an
  earlier \<open>t1\<close> stores exactly the events (or fails with exactly the error) of the uninterrupted run
  to \<open>t2\<close>.\<close>

theorem resume_continues:
  assumes "env_sampler env = None" and "t1 \<le> t2"
    and "run_empty env fe run p identity t1 [] = Inr r1"
  shows "res_map sr_events (run_empty env fe run p identity t2 (sr_events r1))
    = res_map sr_events (run_empty env fe run p identity t2 [])"
proof -
  let ?te = "empty_env_of env fe"
  from assms(3) obtain lp rs lp1 where f: "fresh_loop env fe run p identity = Inr lp"
    "run_ticks ?te t1 [] lp = Inr (rs, lp1)" "sr_events r1 = tl_store lp1"
    by (auto simp: run_empty_fresh res_simps continue_run_def run_until_def)
  from fresh_resumable[OF assms(1) f(1)] obtain e0 eg where lp: "resumable run p lp" "tl_store lp = [e0, eg]"
    "ev_kind e0 = 1001" "ev_kind eg = 1003" "ev_tick eg = 0" "dget (ev_payload eg) ''halted'' = Some (JBool False)" by blast
  from run_ticks_resumable[OF refl assms(1) lp(1) f(2), of t2] assms(2) obtain es where
    lp1: "resumable run p lp1" "tl_store lp1 = [e0, eg] @ es" "run_ticks ?te t2 [] lp = run_ticks ?te t2 rs lp1"
    by (auto simp: lp(2))
  let ?es = "tl_store lp1"
  let ?lp = "empty_loop_of p (ev_tick (last ?es)) (resumed_log run ?es) ?es"
  have g: "genesis_completion ?es = Some eg" using lp(3-5) by (simp add: genesis_completion_def lp1(2))
  have id: "ev_run_id (last ?es) = run" "?es \<noteq> []" using lp1(1) by (simp_all add: resumable_def)
  have "run_empty env fe run p identity t2 ?es = continue_run ?te t2 ?lp"
    unfolding run_empty_def Let_def g by (simp add: id lp(6))
  moreover have "res_map sr_events (continue_run ?te t2 ?lp) = res_map sr_events (continue_run ?te t2 lp1)"
    using resumed_norm[OF lp1(1)] resumable_bare[OF lp1(1)] by (intro continue_same) auto
  moreover have "res_map (\<lambda>(rs, lp'). norm lp') (run_ticks ?te t2 [] lp1) = res_map (\<lambda>(rs, lp'). norm lp') (run_ticks ?te t2 rs lp1)"
    by (rule run_ticks_same[OF refl]) (rule resumable_bare[OF lp1(1)] refl)+
  then have "res_map sr_events (continue_run ?te t2 lp1) = res_map sr_events (continue_run ?te t2 lp)"
    unfolding continue_events using lp1(3) by simp
  ultimately show ?thesis using f by (simp add: run_empty_fresh)
qed

definition sim_registry :: kind_registry where
  "sim_registry = (let k = (\<lambda>i n. \<lparr>ks_kind = i, ks_name = n, ks_owner = ''polis.kernel'',
       ks_persistence = Persisted, ks_schema = JNull, ks_description = []\<rparr>)
     in \<lparr>reg_specs = [(1001, k 1001 ''RUN_STARTED''), (1002, k 1002 ''TICK_STARTED''), (1003, k 1003 ''TICK_COMPLETED'')],
         reg_names = [(''RUN_STARTED'', 1001), (''TICK_STARTED'', 1002), (''TICK_COMPLETED'', 1003)]\<rparr>)"

definition sim_env :: log_env where
  "sim_env = \<lparr>env_sha = toy_sha, env_registry = sim_registry, env_schema = (\<lambda>_ _. None),
     env_validate = True, env_sampler = None\<rparr>"

definition sim_floats :: float_env where
  "sim_floats = \<lparr>fe_fifth_text = (\<lambda>_. []), fe_low_entropy = (\<lambda>_. None)\<rparr>"

definition sim_genesis :: "tick_error + event_log" where
  "sim_genesis = stage_at sim_env 0 (sim_time (clock_at (profiles Chronicle) 0)) (plain_event 1001 [])
     (init_log 7 0 genesis_prev_hash)"

definition sim_completed :: "tick_error + event_log" where
  "sim_completed = stage_at sim_env 0 (sim_time (clock_at (profiles Chronicle) 0)) (completed_event 0 2 0 0 False)
     (commit_state (projr sim_genesis))"

lemma sim_starts: "is_ok (run_empty sim_env sim_floats 7 (profiles Chronicle) (Inr []) 0 [])"
proof -
  have a: "is_ok sim_genesis" "el_last_seq (commit_state (projr sim_genesis)) = 1" "is_ok sim_completed" by code_simp+
  let ?s0 = "persisted_events (el_staged (projr sim_genesis))"
  have g: "stage_at sim_env 0 (sim_time (clock_at (profiles Chronicle) 0)) (plain_event 1001 [])
      (init_log 7 0 genesis_prev_hash) = Inr (projr sim_genesis)"
    using is_ok_projr[OF a(1)] by (simp only: sim_genesis_def)
  have c: "stage_at sim_env 0 (sim_time (clock_at (profiles Chronicle) 0)) (completed_event 0 2 0 0 False)
     (commit_state (projr sim_genesis)) = Inr (projr sim_completed)"
    using is_ok_projr[OF a(3)] by (simp only: sim_completed_def)
  obtain x where x: "commit_at (empty_env_of sim_env sim_floats) 0 (projr sim_completed) ?s0 = Inr x"
    by (simp add: commit_at_def empty_env_of_def commit_def memory_append_def null_publish_def Let_def)
  obtain cr l3 s' where xs: "x = (cr, l3, s')" by (cases x)
  have "fresh_loop sim_env sim_floats 7 (profiles Chronicle) (Inr [])
      = Inr ((empty_loop_of (profiles Chronicle) 0 (commit_state (projr sim_genesis)) ?s0)\<lparr>tl_log := l3, tl_store := s'\<rparr>)"
    unfolding fresh_loop_def start_run_explicit res_bind.simps g sum.case prod.case genesis_explicit a(2)
    by (simp add: c x xs del: profiles.simps)
  then show ?thesis
    by (simp del: profiles.simps add: run_empty_fresh continue_run_def run_until_def run_ticks.simps empty_loop_of_def clock_at_def)
qed

lemma resume_continues_witness:
  "res_map sr_events (run_empty sim_env sim_floats 7 (profiles Chronicle) (Inr []) 3
       (sr_events (projr (run_empty sim_env sim_floats 7 (profiles Chronicle) (Inr []) 0 []))))
   = res_map sr_events (run_empty sim_env sim_floats 7 (profiles Chronicle) (Inr []) 3 [])"
  by (rule resume_continues[OF _ _ is_ok_projr[OF sim_starts]]) (simp_all add: sim_env_def)

definition sim_loop :: empty_loop where
  "sim_loop = empty_loop_of (profiles Chronicle) 0 (init_log 7 0 genesis_prev_hash) []"

definition sim_tick_started :: "tick_error + event_log" where
  "sim_tick_started = stage_at sim_env 1 (sim_time (clock_at (profiles Chronicle) 1))
     (plain_event 1002 [(''tick'', JInt 1), (''due'', JArr [])]) (init_log 7 0 genesis_prev_hash)"

definition sim_tick_completed :: "tick_error + event_log" where
  "sim_tick_completed = stage_at sim_env 1 (sim_time (clock_at (profiles Chronicle) 1))
     (completed_event 1 2 0 0 False) (commit_state (projr sim_tick_started))"

lemma commit_at_empty:
  obtains cr where "commit_at (empty_env_of env fe) t l s = Inr (cr, commit_state l, s @ persisted_events (el_staged l))"
    "cr_persisted cr = length (persisted_events (el_staged l))"
  by (simp add: commit_at_def empty_env_of_def commit_def memory_append_def null_publish_def Let_def)

lemma sim_runs: "is_ok (run_until (empty_env_of sim_env sim_floats) 1 sim_loop)"
proof -
  let ?P = "profiles Chronicle" and ?te = "empty_env_of sim_env sim_floats"
  have a: "is_ok sim_tick_started" "is_ok sim_tick_completed"
    "length (persisted_events (el_staged (projr sim_tick_started))) = 1" by code_simp+
  have st: "stage_at sim_env 1 (sim_time (clock_at ?P 1))
     (plain_event 1002 [(''tick'', JInt 1), (''due'', JArr [])]) (init_log 7 0 genesis_prev_hash) = Inr (projr sim_tick_started)"
    using is_ok_projr[OF a(1)] by (simp only: sim_tick_started_def)
  have co: "stage_at sim_env 1 (sim_time (clock_at ?P 1)) (completed_event 1 2 0 0 False)
      (commit_state (projr sim_tick_started)) = Inr (projr sim_tick_completed)"
    using is_ok_projr[OF a(2)] by (simp only: sim_tick_completed_def)
  obtain cr1 where c1: "commit_at ?te 1 (projr sim_tick_started) [] = Inr (cr1, commit_state (projr sim_tick_started),
      [] @ persisted_events (el_staged (projr sim_tick_started)))" "cr_persisted cr1 = 1"
    using a(3) commit_at_empty[of sim_env sim_floats 1 "projr sim_tick_started" "[]"] by metis
  obtain cr2 where c2: "commit_at ?te 1 (projr sim_tick_completed) ([] @ persisted_events (el_staged (projr sim_tick_started)))
      = Inr (cr2, commit_state (projr sim_tick_completed), ([] @ persisted_events (el_staged (projr sim_tick_started)))
          @ persisted_events (el_staged (projr sim_tick_completed)))"
    using commit_at_empty by metis
  have "is_ok (empty_step sim_env ?te 1 (clock_at ?P 1) (init_log 7 0 genesis_prev_hash) [])"
    unfolding empty_step_def st res_bind.simps c1(1) prod.case by (simp add: c1(2) co c2[simplified] del: profiles.simps)
  then obtain rep l s where e: "empty_step sim_env ?te 1 (clock_at ?P 1) (init_log 7 0 genesis_prev_hash) [] = Inr (rep, l, s)"
    by (auto simp: is_ok_iff)
  have lp: "tl_handlers sim_loop = []" "tl_runner sim_loop = mk_runner False None" "sch_cadences (tl_scheduler sim_loop) = []"
    by (simp_all add: sim_loop_def empty_loop_of_def)
  have "is_ok (run_tick ?te sim_loop)"
    unfolding empty_run_tick[OF lp] using e
    by (simp add: Let_def sim_loop_def empty_loop_of_def clock_at_def del: profiles.simps)
  then obtain rep lp' where r: "run_tick ?te sim_loop = Inr (rep, lp')" by (auto simp: is_ok_iff)
  have "ck_tick (tl_clock sim_loop) = 0" by (simp add: sim_loop_def empty_loop_of_def clock_at_def)
  with r run_tick_clock[OF r] show ?thesis
    by (simp add: run_until_def run_ticks.simps[of _ _ _ sim_loop] run_ticks.simps[of _ _ _ lp'])
qed


end
