(* ===== verification/Exchange_Book.thy ===== *)
theory Exchange_Book
  imports Prelude
begin

text \<open>
  \<open>polis/economy/exchange/book.py\<close> and the order records of \<open>models.py\<close>: the priority of resting
  orders, the price that clears a call auction, the fills of a call auction and of an incoming
  order. The \<open>while\<close> loop of the auction walks two indices over two sorted lists; here it
  consumes the two lists. Its dictionary of open quantities is kept.
\<close>

datatype side = Buy | Sell

datatype order_type = LimitOrder | MarketOrder

datatype order_status = StOpen | StPartial | StFilled | StCancelled | StExpired | StRejected

record order_state =
  ord_id :: string
  ord_symbol :: string
  ord_trader :: string
  ord_side :: side
  ord_type :: order_type
  ord_qty :: int
  ord_remaining :: int
  ord_limit :: "int option"
  ord_submitted :: int
  ord_arrival :: int
  ord_tif :: string
  ord_status :: order_status
  ord_reserved_cents :: int
  ord_reserved_qty :: int
  ord_filled_qty :: int
  ord_filled_notional :: int
  ord_commission :: int
  ord_flags :: "string list"

datatype aggressor = AggBuy | AggSell | AggAuction

record fill =
  fill_buy :: string
  fill_sell :: string
  fill_price :: int
  fill_qty :: int
  fill_aggressor :: aggressor

definition active :: "order_state \<Rightarrow> bool" where
  \<comment> \<open>the status is open or partial\<close>
  "active r \<longleftrightarrow> ord_status r = StOpen \<or> ord_status r = StPartial"

definition bid_priority :: "order_state \<Rightarrow> int \<times> int \<times> string" where
  "bid_priority r =
     (- (case ord_limit r of Some p \<Rightarrow> p | None \<Rightarrow> 2 ^ 62), ord_arrival r, ord_id r)"

definition ask_priority :: "order_state \<Rightarrow> int \<times> int \<times> string" where
  "ask_priority r = ((case ord_limit r of Some p \<Rightarrow> p | None \<Rightarrow> 0), ord_arrival r, ord_id r)"

definition crosses :: "order_state \<Rightarrow> order_state \<Rightarrow> bool" where
  "crosses incoming resting =
     (if ord_type incoming = MarketOrder then True
      else case (ord_limit incoming, ord_limit resting) of
        (Some p, Some q) \<Rightarrow> if ord_side incoming = Buy then q \<le> p else p \<le> q
      | _ \<Rightarrow> True)"

definition bids_at :: "int \<Rightarrow> order_state \<Rightarrow> bool" where
  \<comment> \<open>a buy order that trades at \<open>price\<close>\<close>
  "bids_at price r \<longleftrightarrow> ord_side r = Buy \<and>
     (ord_type r = MarketOrder \<or> (case ord_limit r of Some p \<Rightarrow> price \<le> p | None \<Rightarrow> False))"

definition asks_at :: "int \<Rightarrow> order_state \<Rightarrow> bool" where
  "asks_at price r \<longleftrightarrow> ord_side r = Sell \<and>
     (ord_type r = MarketOrder \<or> (case ord_limit r of Some p \<Rightarrow> p \<le> price | None \<Rightarrow> False))"

definition demand_at :: "order_state list \<Rightarrow> int \<Rightarrow> int" where
  "demand_at act price = (\<Sum>r\<leftarrow>filter (bids_at price) act. ord_remaining r)"

definition supply_at :: "order_state list \<Rightarrow> int \<Rightarrow> int" where
  "supply_at act price = (\<Sum>r\<leftarrow>filter (asks_at price) act. ord_remaining r)"

definition limit_prices :: "order_state list \<Rightarrow> int list" where
  \<comment> \<open>the sorted set of the limits of limit orders\<close>
  "limit_prices act = sort (remdups (List.map_filter ord_limit
     (filter (\<lambda>r. ord_type r = LimitOrder) act)))"

definition candidate :: "order_state list \<Rightarrow> int \<Rightarrow> int \<Rightarrow> int \<times> int \<times> int \<times> int" where
  "candidate act prev_close price =
     (let d = demand_at act price; s = supply_at act price
      in (min d s, - \<bar>d - s\<bar>, - \<bar>price - prev_close\<bar>, - price))"

fun max_of :: "'a::linorder \<Rightarrow> 'a list \<Rightarrow> 'a" where
  \<comment> \<open>\<open>max(x, *xs)\<close>\<close>
  "max_of x [] = x"
| "max_of x (y # ys) = max_of (max x y) ys"

definition uncross :: "order_state list \<Rightarrow> int \<Rightarrow> int option \<times> int" where
  "uncross orders prev_close =
     (let act = filter active orders
      in case map (candidate act prev_close) (limit_prices act) of
           [] \<Rightarrow> (None, 0)
         | c # cs \<Rightarrow>
             let (volume, _, _, negative_price) = max_of c cs
             in if volume \<le> 0 then (None, 0) else (Some (- negative_price), volume))"

function auction_loop ::
    "int \<Rightarrow> order_state list \<Rightarrow> order_state list \<Rightarrow> int \<Rightarrow> (string, int) dict \<Rightarrow> fill list" where
  \<comment> \<open>the \<open>while\<close> loop of \<open>call_auction\<close>; every order of the two lists is a key of \<open>left\<close>\<close>
  "auction_loop price (b # bs) (a # as) remaining left =
     (if remaining \<le> 0 then []
      else if ord_trader b = ord_trader a then
        (if ord_arrival b < ord_arrival a then auction_loop price (b # bs) as remaining left
         else auction_loop price bs (a # as) remaining left)
      else
        let qty = min remaining (min (dget_or left (ord_id b) 0) (dget_or left (ord_id a) 0))
        in if qty \<le> 0 then []
           else
             let left1 = dset (ord_id b) (dget_or left (ord_id b) 0 - qty) left;
                 left2 = dset (ord_id a) (dget_or left1 (ord_id a) 0 - qty) left1
             in \<lparr>fill_buy = ord_id b, fill_sell = ord_id a, fill_price = price, fill_qty = qty,
                  fill_aggressor = AggAuction\<rparr>
                # auction_loop price
                    (if dget_or left2 (ord_id b) 0 = 0 then bs else b # bs)
                    (if dget_or left2 (ord_id a) 0 = 0 then as else a # as)
                    (remaining - qty) left2)"
| "auction_loop price [] as remaining left = []"
| "auction_loop price bs [] remaining left = []"
  by pat_completeness auto
termination
  by (relation "measure (\<lambda>(price, bs, as, remaining, left). nat remaining + length bs + length as)")
    auto

definition call_auction :: "order_state list \<Rightarrow> int \<Rightarrow> fill list" where
  "call_auction orders prev_close =
     (case uncross orders prev_close of
        (None, _) \<Rightarrow> []
      | (Some price, volume) \<Rightarrow>
          if volume \<le> 0 then []
          else
            let bids = sort_key bid_priority (filter (\<lambda>r. active r \<and> bids_at price r) orders);
                asks = sort_key ask_priority (filter (\<lambda>r. active r \<and> asks_at price r) orders)
            in auction_loop price bids asks volume
                 (dict_of (map (\<lambda>r. (ord_id r, ord_remaining r)) (bids @ asks))))"

fun match_loop :: "order_state \<Rightarrow> order_state list \<Rightarrow> int \<Rightarrow> fill list" where
  \<comment> \<open>the \<open>for\<close> loop of \<open>continuous_matches\<close>\<close>
  "match_loop incoming [] remaining = []"
| "match_loop incoming (r # rs) remaining =
     (if remaining \<le> 0 \<or> \<not> crosses incoming r then []
      else if ord_trader r = ord_trader incoming then match_loop incoming rs remaining
      else
        let qty = min remaining (ord_remaining r);
            price = (case ord_limit r of Some p \<Rightarrow> Some p | None \<Rightarrow> ord_limit incoming)
        in case price of
             None \<Rightarrow> match_loop incoming rs remaining
           | Some p \<Rightarrow>
               \<lparr>fill_buy = (if ord_side incoming = Buy then ord_id incoming else ord_id r),
                fill_sell = (if ord_side incoming = Sell then ord_id incoming else ord_id r),
                fill_price = p, fill_qty = qty,
                fill_aggressor = (if ord_side incoming = Buy then AggBuy else AggSell)\<rparr>
               # match_loop incoming rs (remaining - qty))"

definition continuous_matches :: "order_state \<Rightarrow> order_state list \<Rightarrow> fill list" where
  "continuous_matches incoming resting =
     (let opposite = filter (\<lambda>r. active r \<and> ord_symbol r = ord_symbol incoming
            \<and> ord_side r \<noteq> ord_side incoming) resting
      in match_loop incoming
           (if ord_side incoming = Buy then sort_key ask_priority opposite
            else sort_key bid_priority opposite)
           (ord_remaining incoming))"

end
