(* ===== verification/Exchange_Book_Spec.thy ===== *)
theory Exchange_Book_Spec
  imports Exchange_Book
begin

text \<open>
  What the order book promises: the clearing price of a call auction maximises the executable
  volume over every price; the auction fills each side greedily in price-time priority; an incoming
  order takes every resting order it crosses until it is filled, at the resting prices.
\<close>

section \<open>The clearing price\<close>

lemma max_of_in: "max_of x xs \<in> set (x # xs)"
proof (induction xs arbitrary: x)
  case (Cons y ys)
  show ?case using Cons.IH[of "max x y"] by (auto simp: max_def split: if_splits)
qed simp

lemma max_of_ge: "y \<in> set (x # xs) \<Longrightarrow> y \<le> max_of x xs"
proof (induction xs arbitrary: x y)
  case (Cons z zs)
  have "max x z \<le> max_of (max x z) zs" by (rule Cons.IH) simp
  then show ?case using Cons.prems Cons.IH[of _ "max x z"] by auto
qed simp

lemma sum_filter_mono:
  fixes f :: "'a \<Rightarrow> int"
  assumes "\<And>x. x \<in> set xs \<Longrightarrow> 0 \<le> f x" "\<And>x. x \<in> set xs \<Longrightarrow> P x \<Longrightarrow> Q x"
  shows "(\<Sum>x\<leftarrow>filter P xs. f x) \<le> (\<Sum>x\<leftarrow>filter Q xs. f x)"
  using assms
proof (induction xs)
  case (Cons x xs)
  have IH: "(\<Sum>x\<leftarrow>filter P xs. f x) \<le> (\<Sum>x\<leftarrow>filter Q xs. f x)" by (rule Cons.IH) (auto intro: Cons.prems)
  show ?case using IH Cons.prems(1)[of x] Cons.prems(2)[of x] by auto
qed simp

definition sound_qty :: "order_state list \<Rightarrow> bool" where
  "sound_qty rs \<longleftrightarrow> list_all (\<lambda>r. active r \<longrightarrow> 0 < ord_remaining r) rs"

lemma sound_qtyD: "sound_qty rs \<Longrightarrow> r \<in> set rs \<Longrightarrow> active r \<Longrightarrow> 0 < ord_remaining r"
  by (simp add: sound_qty_def list_all_iff)

lemma demand_antitone:
  assumes "\<And>r. r \<in> set act \<Longrightarrow> 0 \<le> ord_remaining r" "\<And>r. r \<in> set act \<Longrightarrow> bids_at q r \<Longrightarrow> bids_at p r"
  shows "demand_at act q \<le> demand_at act p"
  unfolding demand_at_def by (rule sum_filter_mono) (use assms in auto)

lemma supply_monotone:
  assumes "\<And>r. r \<in> set act \<Longrightarrow> 0 \<le> ord_remaining r" "\<And>r. r \<in> set act \<Longrightarrow> asks_at p r \<Longrightarrow> asks_at q r"
  shows "supply_at act p \<le> supply_at act q"
  unfolding supply_at_def by (rule sum_filter_mono) (use assms in auto)

lemma limit_prices_iff:
  "p \<in> set (limit_prices act) \<longleftrightarrow> (\<exists>r\<in>set act. ord_type r = LimitOrder \<and> ord_limit r = Some p)"
  by (auto simp: limit_prices_def List.map_filter_def image_iff)

lemma limit_le_Max:
  "r \<in> set act \<Longrightarrow> ord_type r = LimitOrder \<Longrightarrow> ord_limit r = Some p \<Longrightarrow> p \<le> Max (set (limit_prices act))"
  by (rule Max_ge) (auto simp: limit_prices_iff)

definition volume_at :: "order_state list \<Rightarrow> int \<Rightarrow> int" where
  "volume_at act p = min (demand_at act p) (supply_at act p)"

lemma some_limit_dominates:
  assumes nonneg: "\<And>r. r \<in> set act \<Longrightarrow> 0 \<le> ord_remaining r"
    and ne: "limit_prices act \<noteq> []"
  shows "\<exists>p\<in>set (limit_prices act). volume_at act q \<le> volume_at act p"
proof (cases "\<exists>p\<in>set (limit_prices act). q \<le> p")
  case True
  define p where "p = Min {p \<in> set (limit_prices act). q \<le> p}"
  have fin: "finite {p \<in> set (limit_prices act). q \<le> p}" and ex: "{p \<in> set (limit_prices act). q \<le> p} \<noteq> {}"
    using True by auto
  have p: "p \<in> set (limit_prices act)" "q \<le> p" using Min_in[OF fin ex] by (auto simp: p_def)
  have least: "p \<le> p'" if "p' \<in> set (limit_prices act)" "q \<le> p'" for p'
    unfolding p_def by (rule Min_le[OF fin]) (use that in simp)
  have "demand_at act q \<le> demand_at act p"
  proof (rule demand_antitone[OF nonneg])
    fix r assume r: "r \<in> set act" "bids_at q r"
    show "bids_at p r"
      using r least by (cases "ord_type r"; cases "ord_limit r") (auto simp: bids_at_def limit_prices_iff)
  qed
  moreover have "supply_at act q \<le> supply_at act p"
    by (rule supply_monotone[OF nonneg]) (use p(2) in \<open>auto simp: asks_at_def split: option.splits\<close>)
  ultimately show ?thesis using p(1) unfolding volume_at_def by (intro bexI[of _ p] min.mono)
next
  case False
  define p where "p = Max (set (limit_prices act))"
  have p: "p \<in> set (limit_prices act)" using Max_in[of "set (limit_prices act)"] ne by (simp add: p_def)
  have "demand_at act q \<le> demand_at act p"
    by (rule demand_antitone[OF nonneg])
      (use False p in \<open>auto simp: bids_at_def split: option.splits intro: order.trans\<close>)
  moreover have "supply_at act q \<le> supply_at act p"
  proof (rule supply_monotone[OF nonneg])
    fix r assume r: "r \<in> set act" "asks_at q r"
    show "asks_at p r"
      using r limit_le_Max[of r act]
      by (cases "ord_type r"; cases "ord_limit r") (auto simp: asks_at_def p_def)
  qed
  ultimately show ?thesis using p unfolding volume_at_def by (intro bexI[of _ p] min.mono)
qed

lemma candidate_sel: "candidate act pc p = (volume_at act p, - \<bar>demand_at act p - supply_at act p\<bar>, - \<bar>p - pc\<bar>, - p)"
  by (simp add: candidate_def volume_at_def Let_def)

lemma uncross_SomeD:
  assumes "uncross orders pc = (Some p, v)"
  defines "act \<equiv> filter active orders"
  shows "p \<in> set (limit_prices act) \<and> v = volume_at act p \<and> 0 < v
    \<and> (\<forall>q\<in>set (limit_prices act). candidate act pc q \<le> candidate act pc p)"
proof -
  obtain q qs where qs: "limit_prices act = q # qs"
    using assms by (cases "limit_prices act") (auto simp: uncross_def)
  define best where "best = max_of (candidate act pc q) (map (candidate act pc) qs)"
  have "best \<in> candidate act pc ` set (limit_prices act)"
    using max_of_in[of "candidate act pc q" "map (candidate act pc) qs"] by (simp add: best_def qs)
  then obtain p' where p': "p' \<in> set (limit_prices act)" "best = candidate act pc p'" by auto
  have "p' = p" "v = volume_at act p" "0 < v"
    using assms(1) p'(2)
    by (auto simp: uncross_def qs best_def candidate_sel Let_def simp flip: act_def split: if_splits)
  moreover have "candidate act pc r \<le> best" if "r \<in> set (limit_prices act)" for r
    unfolding best_def by (rule max_of_ge) (use that qs in auto)
  ultimately show ?thesis using p' by simp
qed

lemma uncross_NoneD:
  assumes "uncross orders pc = (None, v)" and "q \<in> set (limit_prices (filter active orders))"
  shows "volume_at (filter active orders) q \<le> 0"
proof -
  define act where "act = filter active orders"
  obtain p ps where ps: "limit_prices act = p # ps"
    using assms(2) by (cases "limit_prices act") (auto simp: act_def)
  define best where "best = max_of (candidate act pc p) (map (candidate act pc) ps)"
  have "candidate act pc q \<le> best"
    unfolding best_def by (rule max_of_ge) (use assms(2) ps in \<open>auto simp: act_def\<close>)
  moreover have "fst best \<le> 0"
    using assms(1) by (auto simp: uncross_def ps best_def Let_def simp flip: act_def split: if_splits prod.splits)
  ultimately show ?thesis by (cases best) (auto simp: candidate_sel simp flip: act_def)
qed

text \<open>
  C33. The clearing price of a call auction is a limit price of an active order that maximises the
  executable volume \<open>min demand supply\<close> over every integer price, not only over the limits; among
  the limits with that volume it has the least imbalance, then the least distance to the previous
  close, and then it is the lowest. When there is no clearing price and some limit order is active,
  no price trades a positive volume.
\<close>

theorem uncross_optimal:
  assumes "sound_qty orders"
  defines "act \<equiv> filter active orders"
  shows "(case uncross orders pc of
     (None, v) \<Rightarrow> v = 0 \<and> (limit_prices act = [] \<or> (\<forall>q. min (demand_at act q) (supply_at act q) \<le> 0))
   | (Some p, v) \<Rightarrow> p \<in> set (limit_prices act) \<and> v = min (demand_at act p) (supply_at act p) \<and> 0 < v
       \<and> (\<forall>q. min (demand_at act q) (supply_at act q) \<le> v)
       \<and> (\<forall>q\<in>set (limit_prices act). min (demand_at act q) (supply_at act q) = v \<longrightarrow>
            (\<bar>demand_at act p - supply_at act p\<bar>, \<bar>p - pc\<bar>, p)
              \<le> (\<bar>demand_at act q - supply_at act q\<bar>, \<bar>q - pc\<bar>, q)))"
proof -
  have nonneg: "0 \<le> ord_remaining r" if "r \<in> set act" for r
    using sound_qtyD[OF assms(1), of r] that by (simp add: act_def)
  obtain op v where u: "uncross orders pc = (op, v)" by fastforce
  show ?thesis
  proof (cases op)
    case None
    have "v = 0" using u None by (auto simp: uncross_def Let_def split: if_splits prod.splits list.splits)
    moreover have "volume_at act q \<le> 0" if "limit_prices act \<noteq> []" for q
      using some_limit_dominates[of act q, OF nonneg that] uncross_NoneD[OF u[unfolded None]]
      by (fastforce simp: act_def)
    ultimately show ?thesis using u None by (auto simp: volume_at_def)
  next
    case (Some p)
    note d = uncross_SomeD[OF u[unfolded Some], folded act_def]
    have "volume_at act q \<le> v" for q
    proof -
      have "limit_prices act \<noteq> []" using d by auto
      from some_limit_dominates[of act q, OF nonneg this] obtain p' where
        p': "p' \<in> set (limit_prices act)" "volume_at act q \<le> volume_at act p'" by auto
      have "candidate act pc p' \<le> candidate act pc p" using d p'(1) by blast
      then show ?thesis using p'(2) d by (auto simp: candidate_sel)
    qed
    moreover have "(\<bar>demand_at act p - supply_at act p\<bar>, \<bar>p - pc\<bar>, p)
        \<le> (\<bar>demand_at act q - supply_at act q\<bar>, \<bar>q - pc\<bar>, q)"
      if "q \<in> set (limit_prices act)" "volume_at act q = v" for q
    proof -
      have "candidate act pc q \<le> candidate act pc p" using d that(1) by blast
      then show ?thesis using d that(2) by (auto simp: candidate_sel)
    qed
    ultimately show ?thesis using u Some d by (auto simp: volume_at_def)
  qed
qed

section \<open>The fills of a call auction\<close>

text \<open>
  The loop over a dictionary of open quantities is the loop that carries each order with its open
  quantity; the fills of each side are then the greedy allocation of the volume.
\<close>

type_synonym open_order = "order_state \<times> int"

function paired_loop :: "int \<Rightarrow> open_order list \<Rightarrow> open_order list \<Rightarrow> int \<Rightarrow> fill list" where
  "paired_loop price ((b, x) # bs) ((a, y) # as) v =
     (if v \<le> 0 then []
      else if ord_trader b = ord_trader a then
        (if ord_arrival b < ord_arrival a then paired_loop price ((b, x) # bs) as v
         else paired_loop price bs ((a, y) # as) v)
      else
        let qty = min v (min x y)
        in if qty \<le> 0 then []
           else \<lparr>fill_buy = ord_id b, fill_sell = ord_id a, fill_price = price, fill_qty = qty,
                  fill_aggressor = AggAuction\<rparr>
                # paired_loop price (if x = qty then bs else (b, x - qty) # bs)
                    (if y = qty then as else (a, y - qty) # as) (v - qty))"
| "paired_loop price [] as v = []"
| "paired_loop price bs [] v = []"
  by pat_completeness auto
termination
  by (relation "measure (\<lambda>(price, bs, as, v). nat v + length bs + length as)") auto

declare paired_loop.simps(1) [simp del] auction_loop.simps(1) [simp del]

abbreviation oids :: "open_order list \<Rightarrow> string list" where
  "oids os \<equiv> map (\<lambda>p. ord_id (fst p)) os"

lemma auction_loop_paired:
  assumes "distinct (oids bs @ oids as)"
    and "\<forall>p\<in>set bs \<union> set as. dget_or left (ord_id (fst p)) 0 = snd p"
  shows "auction_loop price (map fst bs) (map fst as) v left = paired_loop price bs as v"
  using assms
proof (induction price bs as v arbitrary: left rule: paired_loop.induct)
  case (1 price b x bs a y as v)
  have l: "dget_or left (ord_id b) 0 = x" "dget_or left (ord_id a) 0 = y" "ord_id b \<noteq> ord_id a"
    using "1.prems" by auto
  define qty where "qty = min v (min x y)"
  define left2 where "left2 = dset (ord_id a) (y - qty) (dset (ord_id b) (x - qty) left)"
  consider "v \<le> 0" | "0 < v" "ord_trader b = ord_trader a" | "0 < v" "ord_trader b \<noteq> ord_trader a" "qty \<le> 0"
    | "0 < v" "ord_trader b \<noteq> ord_trader a" "0 < qty" by linarith
  then show ?case
  proof cases
    case 2
    show ?thesis
    proof (cases "ord_arrival b < ord_arrival a")
      case True
      have "auction_loop price (map fst ((b, x) # bs)) (map fst as) v left = paired_loop price ((b, x) # bs) as v"
        by (rule "1.IH"(1)) (use 2 True "1.prems" in auto)
      then show ?thesis using 2 True by (simp add: paired_loop.simps(1) auction_loop.simps(1))
    next
      case False
      have "auction_loop price (map fst bs) (map fst ((a, y) # as)) v left = paired_loop price bs ((a, y) # as) v"
        by (rule "1.IH"(2)) (use 2 False "1.prems" in auto)
      then show ?thesis using 2 False by (simp add: paired_loop.simps(1) auction_loop.simps(1))
    qed
  next
    case 4
    have others: "ord_id r \<noteq> ord_id b \<and> ord_id r \<noteq> ord_id a \<and> dget_or left (ord_id r) 0 = z"
      if "(r, z) \<in> set bs \<union> set as" for r z
    proof -
      have "ord_id r \<in> set (oids bs) \<union> set (oids as)" using that by (auto intro: rev_image_eqI)
      moreover have "dget_or left (ord_id r) 0 = z" using that "1.prems"(2) by force
      moreover have "ord_id b \<notin> set (oids bs) \<union> set (oids as)" "ord_id a \<notin> set (oids bs) \<union> set (oids as)"
        using "1.prems"(1) by auto
      ultimately show ?thesis by metis
    qed
    have left2: "dget_or left2 (ord_id b) 0 = x - qty" "dget_or left2 (ord_id a) 0 = y - qty"
      "(r, z) \<in> set bs \<union> set as \<Longrightarrow> dget_or left2 (ord_id r) 0 = z" for r z
      using l(3) others[of r z] by (auto simp: left2_def)
    have "auction_loop price (map fst (if x = qty then bs else (b, x - qty) # bs))
        (map fst (if y = qty then as else (a, y - qty) # as)) (v - qty) left2
      = paired_loop price (if x = qty then bs else (b, x - qty) # bs) (if y = qty then as else (a, y - qty) # as) (v - qty)"
    proof (rule "1.IH"(3))
      show "distinct (oids (if x = qty then bs else (b, x - qty) # bs) @ oids (if y = qty then as else (a, y - qty) # as))"
        using "1.prems"(1) by simp
      show "\<forall>p\<in>set (if x = qty then bs else (b, x - qty) # bs) \<union> set (if y = qty then as else (a, y - qty) # as).
          dget_or left2 (ord_id (fst p)) 0 = snd p"
        using left2 by auto
    qed (use 4 in \<open>auto simp: qty_def\<close>)
    moreover have "map fst (if c then ps else (r, z) # ps) = (if c then map fst ps else r # map fst ps)"
      for c r z and ps :: "open_order list" by simp
    ultimately show ?thesis using 4 l
      by (simp add: paired_loop.simps(1) auction_loop.simps(1) qty_def[symmetric] left2_def Let_def split del: if_split)
  next
    case 3
    then show ?thesis using l by (simp add: paired_loop.simps(1) auction_loop.simps(1) qty_def[symmetric] Let_def)
  qed (simp add: paired_loop.simps(1) auction_loop.simps(1))
qed auto

definition bought :: "fill list \<Rightarrow> string \<Rightarrow> int" where
  "bought fs i = (\<Sum>f\<leftarrow>filter (\<lambda>f. fill_buy f = i) fs. fill_qty f)"

definition sold :: "fill list \<Rightarrow> string \<Rightarrow> int" where
  "sold fs i = (\<Sum>f\<leftarrow>filter (\<lambda>f. fill_sell f = i) fs. fill_qty f)"

lemma bought_simps [simp]:
  "bought [] i = 0" "bought (f # fs) i = (if fill_buy f = i then fill_qty f else 0) + bought fs i"
  by (simp_all add: bought_def)

lemma sold_simps [simp]:
  "sold [] i = 0" "sold (f # fs) i = (if fill_sell f = i then fill_qty f else 0) + sold fs i"
  by (simp_all add: sold_def)

lemma bought_frame: "fill_buy f \<notin> set is \<Longrightarrow> map (bought (f # fs)) is = map (bought fs) is"
  by (auto simp: map_eq_conv)

lemma sold_frame: "fill_sell f \<notin> set is \<Longrightarrow> map (sold (f # fs)) is = map (sold fs) is"
  by (auto simp: map_eq_conv)

fun greedy :: "int list \<Rightarrow> int \<Rightarrow> int list" where
  \<comment> \<open>give each in turn as much as is wanted and left\<close>
  "greedy [] v = []"
| "greedy (q # qs) v = min q v # greedy qs (v - min q v)"

lemma greedy_0: "list_all (\<lambda>q. 0 < q) qs \<Longrightarrow> greedy qs 0 = map (\<lambda>_. 0) qs"
  by (induction qs) auto

lemma paired_loop_ids:
  "f \<in> set (paired_loop price bs as v) \<Longrightarrow> fill_buy f \<in> set (oids bs) \<and> fill_sell f \<in> set (oids as)"
proof (induction price bs as v rule: paired_loop.induct)
  case (1 price b x bs a y as v)
  show ?case
    using "1.prems"[unfolded paired_loop.simps(1)] "1.IH" by (auto simp: Let_def split: if_splits)
qed auto

lemma bought_outside: "(\<And>f. f \<in> set fs \<Longrightarrow> fill_buy f \<noteq> i) \<Longrightarrow> bought fs i = 0"
  by (induction fs) auto

lemma sold_outside: "(\<And>f. f \<in> set fs \<Longrightarrow> fill_sell f \<noteq> i) \<Longrightarrow> sold fs i = 0"
  by (induction fs) auto

lemma paired_loop_outside:
  "i \<notin> set (oids bs) \<Longrightarrow> bought (paired_loop price bs as v) i = 0"
  "i \<notin> set (oids as) \<Longrightarrow> sold (paired_loop price bs as v) i = 0"
  by (rule bought_outside, metis paired_loop_ids) (rule sold_outside, metis paired_loop_ids)

definition one_sided :: "open_order list \<Rightarrow> open_order list \<Rightarrow> bool" where
  \<comment> \<open>no trader stands on both sides\<close>
  "one_sided bs as \<longleftrightarrow> ord_trader ` fst ` set bs \<inter> ord_trader ` fst ` set as = {}"

lemma sum_list_pos: "list_all (\<lambda>q. (0::int) < q) qs \<Longrightarrow> 0 \<le> sum_list qs"
  by (induction qs) auto

lemma paired_loop_greedy:
  assumes "distinct (oids bs)" "distinct (oids as)" "one_sided bs as" "0 \<le> v"
    and "list_all (\<lambda>q. 0 < q) (map snd bs)" "list_all (\<lambda>q. 0 < q) (map snd as)"
    and "v \<le> sum_list (map snd bs)" "v \<le> sum_list (map snd as)"
  shows "map (bought (paired_loop price bs as v)) (oids bs) = greedy (map snd bs) v
    \<and> map (sold (paired_loop price bs as v)) (oids as) = greedy (map snd as) v"
  using assms
proof (induction price bs as v rule: paired_loop.induct)
  case (1 price b x bs a y as v)
  have t: "ord_trader b \<noteq> ord_trader a" using "1.prems"(3) by (auto simp: one_sided_def)
  have pos: "0 < x" "0 < y" "list_all (\<lambda>q. 0 < q) (map snd bs)" "list_all (\<lambda>q. 0 < q) (map snd as)"
    using "1.prems" by auto
  show ?case
  proof (cases "v = 0")
    case True
    then show ?thesis using pos(1,2) greedy_0[OF pos(3)] greedy_0[OF pos(4)]
      by (simp add: paired_loop.simps(1) comp_def)
  next
    case False
    define qty where "qty = min v (min x y)"
    define bs' where "bs' = (if x = qty then bs else (b, x - qty) # bs)"
    define as' where "as' = (if y = qty then as else (a, y - qty) # as)"
    define fs where "fs = paired_loop price bs' as' (v - qty)"
    have q: "0 < qty" "qty \<le> v" "qty \<le> x" "qty \<le> y" using False pos "1.prems"(4) by (auto simp: qty_def)
    have step: "paired_loop price ((b, x) # bs) ((a, y) # as) v
        = \<lparr>fill_buy = ord_id b, fill_sell = ord_id a, fill_price = price, fill_qty = qty,
            fill_aggressor = AggAuction\<rparr> # fs"
      using False t q "1.prems"(4) by (simp add: paired_loop.simps(1) qty_def[symmetric] fs_def bs'_def as'_def Let_def)
    have IH: "map (bought fs) (oids bs') = greedy (map snd bs') (v - qty)
        \<and> map (sold fs) (oids as') = greedy (map snd as') (v - qty)"
      unfolding fs_def bs'_def as'_def
      by (rule "1.IH"(3)) (use False t q pos "1.prems" in \<open>auto simp: qty_def one_sided_def\<close>)
    have nb: "ord_id b \<notin> set (oids bs)" and na: "ord_id a \<notin> set (oids as)" using "1.prems"(1,2) by auto
    have "bought fs (ord_id b) + qty = min x v \<and> map (bought fs) (oids bs) = greedy (map snd bs) (v - min x v)"
    proof (cases "x = qty")
      case True
      then have "bought fs (ord_id b) = 0" using nb by (simp add: fs_def bs'_def paired_loop_outside)
      then show ?thesis using True IH q by (simp add: bs'_def)
    next
      case False
      have e: "v - qty - min (x - qty) (v - qty) = v - min x v" "min (x - qty) (v - qty) + qty = min x v" by auto
      have "bought fs (ord_id b) = min (x - qty) (v - qty)
          \<and> map (bought fs) (oids bs) = greedy (map snd bs) (v - qty - min (x - qty) (v - qty))"
        using False IH by (simp add: bs'_def)
      then show ?thesis unfolding e(1) using e(2) by simp
    qed
    moreover have "sold fs (ord_id a) + qty = min y v \<and> map (sold fs) (oids as) = greedy (map snd as) (v - min y v)"
    proof (cases "y = qty")
      case True
      then have "sold fs (ord_id a) = 0" using na by (simp add: fs_def as'_def paired_loop_outside)
      then show ?thesis using True IH q by (simp add: as'_def)
    next
      case False
      have e: "v - qty - min (y - qty) (v - qty) = v - min y v" "min (y - qty) (v - qty) + qty = min y v" by auto
      have "sold fs (ord_id a) = min (y - qty) (v - qty)
          \<and> map (sold fs) (oids as) = greedy (map snd as) (v - qty - min (y - qty) (v - qty))"
        using False IH by (simp add: as'_def)
      then show ?thesis unfolding e(1) using e(2) by simp
    qed
    ultimately show ?thesis unfolding step using nb na
      by (simp add: bought_frame sold_frame del: map_map bought_simps(2) sold_simps(2))
        (simp add: comp_def)
  qed
next
  case (2 price as v)
  then show ?case using greedy_0[of "map snd as"] by (auto simp: comp_def)
next
  case (3 price bs v)
  then show ?case using greedy_0[of "map snd bs"] by (cases bs) (auto simp: comp_def)
qed

lemma sum_greedy: "0 \<le> v \<Longrightarrow> list_all (\<lambda>q. 0 < q) qs \<Longrightarrow> sum_list (greedy qs v) = min v (sum_list qs)"
proof (induction qs arbitrary: v)
  case (Cons q qs)
  have "sum_list (greedy qs (v - min q v)) = min (v - min q v) (sum_list qs)"
    by (rule Cons.IH) (use Cons.prems in auto)
  moreover have "0 \<le> sum_list qs" using sum_list_pos[of qs] Cons.prems(2) by simp
  ultimately show ?case using Cons.prems by (auto simp: min_def)
qed simp

definition eligible_bids :: "order_state list \<Rightarrow> int \<Rightarrow> order_state list" where
  "eligible_bids orders price = sort_key bid_priority (filter (\<lambda>r. active r \<and> bids_at price r) orders)"

definition eligible_asks :: "order_state list \<Rightarrow> int \<Rightarrow> order_state list" where
  "eligible_asks orders price = sort_key ask_priority (filter (\<lambda>r. active r \<and> asks_at price r) orders)"

definition with_remaining :: "order_state list \<Rightarrow> open_order list" where
  "with_remaining rs = map (\<lambda>r. (r, ord_remaining r)) rs"

lemma with_remaining_simps [simp]:
  "map fst (with_remaining rs) = rs" "map snd (with_remaining rs) = map ord_remaining rs"
  "map (\<lambda>p. ord_id (fst p)) (with_remaining rs) = map ord_id rs"
  "set (with_remaining rs) = (\<lambda>r. (r, ord_remaining r)) ` set rs"
  by (auto simp: with_remaining_def comp_def)

lemma distinct_ids_inj: "distinct (map ord_id orders) \<Longrightarrow> inj_on ord_id (set orders)"
  by (simp add: distinct_map)

lemma book_ids_distinct:
  assumes "distinct (map ord_id orders)"
  shows "distinct (map ord_id (eligible_bids orders p) @ map ord_id (eligible_asks orders p))"
proof -
  have d: "distinct orders" and inj: "inj_on ord_id (set orders)" using assms by (auto simp: distinct_map)
  have "distinct (eligible_bids orders p)" "distinct (eligible_asks orders p)"
    using d by (auto simp: eligible_bids_def eligible_asks_def)
  moreover have "inj_on ord_id (set (eligible_bids orders p))" "inj_on ord_id (set (eligible_asks orders p))"
    by (rule inj_on_subset[OF inj]; auto simp: eligible_bids_def eligible_asks_def)+
  moreover have "ord_id ` set (eligible_bids orders p) \<inter> ord_id ` set (eligible_asks orders p)
      = ord_id ` (set (eligible_bids orders p) \<inter> set (eligible_asks orders p))"
    by (rule inj_on_image_Int[OF inj, symmetric]) (auto simp: eligible_bids_def eligible_asks_def)
  moreover have "set (eligible_bids orders p) \<inter> set (eligible_asks orders p) = {}"
    by (auto simp: eligible_bids_def eligible_asks_def bids_at_def asks_at_def)
  ultimately show ?thesis by (auto simp: distinct_map)
qed

lemma call_auction_paired:
  assumes "distinct (map ord_id orders)" and "uncross orders pc = (Some p, v)"
  shows "call_auction orders pc
    = paired_loop p (with_remaining (eligible_bids orders p)) (with_remaining (eligible_asks orders p)) v"
proof -
  let ?B = "eligible_bids orders p" and ?A = "eligible_asks orders p"
  let ?d = "dict_of (map (\<lambda>r. (ord_id r, ord_remaining r)) (?B @ ?A))"
  have ids: "distinct (map ord_id ?B @ map ord_id ?A)" by (rule book_ids_distinct[OF assms(1)])
  then have d: "?d = map (\<lambda>r. (ord_id r, ord_remaining r)) (?B @ ?A)"
    by (intro dict_of_distinct) (simp add: comp_def)
  have "dget ?d (ord_id r) = Some (ord_remaining r)" if "r \<in> set (?B @ ?A)" for r
    unfolding d by (rule map_of_is_SomeI) (use ids that in \<open>auto simp: comp_def\<close>)
  then have "auction_loop p (map fst (with_remaining ?B)) (map fst (with_remaining ?A)) v ?d
      = paired_loop p (with_remaining ?B) (with_remaining ?A) v"
    by (intro auction_loop_paired) (use ids in \<open>auto simp: dget_or_def\<close>)
  moreover have "0 < v" using uncross_SomeD[OF assms(2)] by simp
  ultimately show ?thesis
    by (simp add: call_auction_def assms(2) eligible_bids_def eligible_asks_def Let_def)
qed

lemma demand_eligible: "demand_at (filter active orders) p = (\<Sum>r\<leftarrow>eligible_bids orders p. ord_remaining r)"
proof -
  have "mset (map ord_remaining (eligible_bids orders p))
      = mset (map ord_remaining (filter (bids_at p) (filter active orders)))"
    by (simp add: eligible_bids_def conj_commute)
  then show ?thesis unfolding demand_at_def by (metis sum_mset_sum_list)
qed

lemma supply_eligible: "supply_at (filter active orders) p = (\<Sum>r\<leftarrow>eligible_asks orders p. ord_remaining r)"
proof -
  have "mset (map ord_remaining (eligible_asks orders p))
      = mset (map ord_remaining (filter (asks_at p) (filter active orders)))"
    by (simp add: eligible_asks_def conj_commute)
  then show ?thesis unfolding supply_at_def by (metis sum_mset_sum_list)
qed


lemma paired_loop_cases:
  assumes "r = paired_loop price ((b, x) # bs) ((a, y) # as) v"
  obtains (stop) "r = []"
    | (skip_ask) "0 < v" "ord_trader b = ord_trader a" "ord_arrival b < ord_arrival a"
        "r = paired_loop price ((b, x) # bs) as v"
    | (skip_bid) "0 < v" "ord_trader b = ord_trader a" "\<not> ord_arrival b < ord_arrival a"
        "r = paired_loop price bs ((a, y) # as) v"
    | (trade) qty where "0 < v" "ord_trader b \<noteq> ord_trader a" "qty = min v (min x y)" "0 < qty"
        "r = \<lparr>fill_buy = ord_id b, fill_sell = ord_id a, fill_price = price, fill_qty = qty,
            fill_aggressor = AggAuction\<rparr>
          # paired_loop price (if x = qty then bs else (b, x - qty) # bs)
              (if y = qty then as else (a, y - qty) # as) (v - qty)"
proof -
  note r = assms[unfolded paired_loop.simps(1) Let_def]
  consider "v \<le> 0" | "0 < v" "ord_trader b = ord_trader a" "ord_arrival b < ord_arrival a"
    | "0 < v" "ord_trader b = ord_trader a" "\<not> ord_arrival b < ord_arrival a"
    | "0 < v" "ord_trader b \<noteq> ord_trader a" "min v (min x y) \<le> 0"
    | "0 < v" "ord_trader b \<noteq> ord_trader a" "0 < min v (min x y)" by linarith
  then show thesis
  proof cases
    case 4
    then have "\<not> v \<le> 0" by linarith
    from r[unfolded if_not_P[OF this] if_not_P[OF 4(2)] if_P[OF 4(3)]] show thesis by (rule stop)
  next
    case 5
    then have "\<not> v \<le> 0" "\<not> min v (min x y) \<le> 0" by linarith+
    from r[unfolded if_not_P[OF this(1)] if_not_P[OF 5(2)] if_not_P[OF this(2)]]
    show thesis by (rule trade[OF 5(1,2) refl 5(3)])
  qed (use r stop skip_ask skip_bid in \<open>auto split del: if_split\<close>)
qed

lemma paired_loop_feasible:
  assumes "f \<in> set (paired_loop price bs as v)"
  shows "\<exists>b\<in>fst ` set bs. \<exists>a\<in>fst ` set as. fill_buy f = ord_id b \<and> fill_sell f = ord_id a
    \<and> ord_trader b \<noteq> ord_trader a \<and> 0 < fill_qty f \<and> fill_price f = price"
  using assms
proof (induction price bs as v rule: paired_loop.induct)
  case (1 price b x bs a y as v)
  from refl[of "paired_loop price ((b, x) # bs) ((a, y) # as) v"] show ?case
  proof (cases rule: paired_loop_cases)
    case skip_ask
    then show ?thesis using "1.IH"(1) "1.prems" by auto
  next
    case skip_bid
    then show ?thesis using "1.IH"(2) "1.prems" by auto
  next
    case (trade qty)
    let ?bs = "if x = qty then bs else (b, x - qty) # bs" and ?as = "if y = qty then as else (a, y - qty) # as"
    have sub: "fst ` set ?bs \<subseteq> fst ` set ((b, x) # bs)" "fst ` set ?as \<subseteq> fst ` set ((a, y) # as)" by auto
    show ?thesis
    proof (cases "f \<in> set (paired_loop price ?bs ?as (v - qty))")
      case True
      have "\<exists>b\<in>fst ` set ?bs. \<exists>a\<in>fst ` set ?as. fill_buy f = ord_id b \<and> fill_sell f = ord_id a
          \<and> ord_trader b \<noteq> ord_trader a \<and> 0 < fill_qty f \<and> fill_price f = price"
        by (rule "1.IH"(3)) (use trade True in auto)
      then show ?thesis using sub by blast
    next
      case False
      then show ?thesis using "1.prems" trade by (auto split del: if_split)
    qed
  qed (use "1.prems" in simp)
qed auto

lemma paired_loop_bounds:
  assumes "distinct (oids bs)" "distinct (oids as)" "0 \<le> v" "list_all (\<lambda>q. 0 \<le> q) (map snd bs @ map snd as)"
  shows "list_all (\<lambda>p. bought (paired_loop price bs as v) (ord_id (fst p)) \<le> snd p) bs
    \<and> list_all (\<lambda>p. sold (paired_loop price bs as v) (ord_id (fst p)) \<le> snd p) as
    \<and> (\<Sum>f\<leftarrow>paired_loop price bs as v. fill_qty f) \<le> v"
  using assms
proof (induction price bs as v rule: paired_loop.induct)
  case (1 price b x bs a y as v)
  have nb: "ord_id b \<notin> set (oids bs)" and na: "ord_id a \<notin> set (oids as)" using "1.prems"(1,2) by auto
  from refl[of "paired_loop price ((b, x) # bs) ((a, y) # as) v"] show ?case
  proof (cases rule: paired_loop_cases)
    case stop
    then show ?thesis using "1.prems" by (auto simp: list_all_iff)
  next
    case skip_ask
    then show ?thesis using "1.IH"(1) "1.prems" paired_loop_outside(2)[OF na] by simp
  next
    case skip_bid
    then show ?thesis using "1.IH"(2) "1.prems" paired_loop_outside(1)[OF nb] by simp
  next
    case (trade qty)
    define bs' where "bs' = (if x = qty then bs else (b, x - qty) # bs)"
    define as' where "as' = (if y = qty then as else (a, y - qty) # as)"
    define fs where "fs = paired_loop price bs' as' (v - qty)"
    have IH: "list_all (\<lambda>p. bought fs (ord_id (fst p)) \<le> snd p) bs' \<and> list_all (\<lambda>p. sold fs (ord_id (fst p)) \<le> snd p) as'
        \<and> (\<Sum>f\<leftarrow>fs. fill_qty f) \<le> v - qty"
      unfolding fs_def bs'_def as'_def by (rule "1.IH"(3)) (use trade "1.prems" in auto)
    have "bought fs (ord_id b) \<le> x - qty" "sold fs (ord_id a) \<le> y - qty"
      using IH paired_loop_outside(1)[of "ord_id b" bs price as' "v - qty"] nb
        paired_loop_outside(2)[of "ord_id a" as price bs' "v - qty"] na
      by (auto simp: fs_def bs'_def as'_def)
    moreover have "list_all (\<lambda>p. bought fs (ord_id (fst p)) \<le> snd p) bs" "list_all (\<lambda>p. sold fs (ord_id (fst p)) \<le> snd p) as"
      using IH by (auto simp: bs'_def as'_def split: if_splits)
    ultimately show ?thesis using IH nb na unfolding trade(5) bs'_def[symmetric] as'_def[symmetric] fs_def[symmetric]
      by (auto simp: list_all_iff image_iff)
  qed
qed (auto simp: list_all_iff)

text \<open>
  Every fill of a call auction, self-crossing books included, is at the clearing price, for a
  positive quantity, between an active buy order and an active sell order that both accept that
  price and belong to different traders; no order is filled beyond its remaining quantity, and the
  fills together do not exceed the auction volume.
\<close>

theorem call_auction_feasible:
  assumes "distinct (map ord_id orders)" and "sound_qty orders" and "fs = call_auction orders pc"
    and "uncross orders pc = (Some p, v)"
  shows "list_all (\<lambda>f. fill_price f = p \<and> 0 < fill_qty f
      \<and> list_ex (\<lambda>b. active b \<and> bids_at p b \<and> fill_buy f = ord_id b
          \<and> list_ex (\<lambda>a. active a \<and> asks_at p a \<and> fill_sell f = ord_id a \<and> ord_trader a \<noteq> ord_trader b) orders)
        orders) fs
    \<and> list_all (\<lambda>r. bought fs (ord_id r) \<le> ord_remaining r \<and> sold fs (ord_id r) \<le> ord_remaining r)
        (filter active orders)
    \<and> (\<Sum>f\<leftarrow>fs. fill_qty f) \<le> v"
proof -
  let ?B = "with_remaining (eligible_bids orders p)" and ?A = "with_remaining (eligible_asks orders p)"
  have fs: "fs = paired_loop p ?B ?A v" using assms(3) call_auction_paired[OF assms(1,4)] by simp
  have ids: "distinct (oids ?B)" "distinct (oids ?A)" using book_ids_distinct[OF assms(1), of p] by auto
  have v: "0 \<le> v" using uncross_SomeD[OF assms(4)] by simp
  have pos: "0 < ord_remaining r" if "r \<in> set orders" "active r" for r
    by (rule sound_qtyD[OF assms(2) that])
  have bounds: "list_all (\<lambda>p. bought fs (ord_id (fst p)) \<le> snd p) ?B \<and> list_all (\<lambda>p. sold fs (ord_id (fst p)) \<le> snd p) ?A
      \<and> (\<Sum>f\<leftarrow>fs. fill_qty f) \<le> v"
    unfolding fs by (rule paired_loop_bounds[OF ids v])
      (use pos in \<open>force simp: list_all_iff eligible_bids_def eligible_asks_def\<close>)
  have "bought fs (ord_id r) \<le> ord_remaining r \<and> sold fs (ord_id r) \<le> ord_remaining r"
    if r: "r \<in> set orders" "active r" for r
  proof (intro conjI)
    show "bought fs (ord_id r) \<le> ord_remaining r"
    proof (cases "r \<in> set (eligible_bids orders p)")
      case True
      then show ?thesis using bounds by (auto simp: list_all_iff)
    next
      case False
      have "ord_id r \<notin> set (oids ?B)"
        using False r distinct_ids_inj[OF assms(1)] by (auto simp: eligible_bids_def dest: inj_onD)
      from paired_loop_outside(1)[OF this, of p ?A v] show ?thesis using pos[OF r] by (simp add: fs)
    qed
    show "sold fs (ord_id r) \<le> ord_remaining r"
    proof (cases "r \<in> set (eligible_asks orders p)")
      case True
      then show ?thesis using bounds by (auto simp: list_all_iff)
    next
      case False
      have "ord_id r \<notin> set (oids ?A)"
        using False r distinct_ids_inj[OF assms(1)] by (auto simp: eligible_asks_def dest: inj_onD)
      from paired_loop_outside(2)[OF this, of p ?B v] show ?thesis using pos[OF r] by (simp add: fs)
    qed
  qed
  moreover have "fill_price f = p \<and> 0 < fill_qty f
      \<and> list_ex (\<lambda>b. active b \<and> bids_at p b \<and> fill_buy f = ord_id b
          \<and> list_ex (\<lambda>a. active a \<and> asks_at p a \<and> fill_sell f = ord_id a \<and> ord_trader a \<noteq> ord_trader b) orders) orders"
    if f: "f \<in> set fs" for f
  proof -
    obtain b a where "b \<in> set (eligible_bids orders p)" "a \<in> set (eligible_asks orders p)"
      "fill_buy f = ord_id b" "fill_sell f = ord_id a" "ord_trader b \<noteq> ord_trader a" "0 < fill_qty f" "fill_price f = p"
      using paired_loop_feasible[OF f[unfolded fs]] by (auto simp: image_image)
    then show ?thesis by (fastforce simp: list_ex_iff eligible_bids_def eligible_asks_def)
  qed
  ultimately show ?thesis using bounds by (auto simp: list_all_iff)
qed

section \<open>An incoming order\<close>

definition accepts :: "order_state \<Rightarrow> order_state \<Rightarrow> bool" where
  \<comment> \<open>a resting order on the other side of the incoming one that may trade with it\<close>
  "accepts incoming r \<longleftrightarrow> active r \<and> ord_symbol r = ord_symbol incoming \<and> ord_side r \<noteq> ord_side incoming
     \<and> ord_trader r \<noteq> ord_trader incoming \<and> crosses incoming r"

definition taken :: "order_state \<Rightarrow> fill list \<Rightarrow> string \<Rightarrow> int" where
  "taken incoming fs i = (if ord_side incoming = Buy then sold fs i else bought fs i)"

lemma crosses_prefix:
  assumes "ord_limit r \<noteq> None" "ord_limit r' \<noteq> None" "ord_side incoming = Buy \<longrightarrow> ask_priority r \<le> ask_priority r'"
    and "ord_side incoming = Sell \<longrightarrow> bid_priority r \<le> bid_priority r'" and "crosses incoming r'"
  shows "crosses incoming r"
  using assms
  by (cases "ord_side incoming")
    (auto simp: crosses_def ask_priority_def bid_priority_def split: option.splits if_splits)

definition match_order :: "order_state \<Rightarrow> order_state \<Rightarrow> int \<times> int \<times> string" where
  "match_order incoming = (if ord_side incoming = Buy then ask_priority else bid_priority)"

lemma match_loop_ids:
  "f \<in> set (match_loop incoming rs v) \<Longrightarrow> 
     (if ord_side incoming = Buy then fill_sell f else fill_buy f) \<in> ord_id ` set rs"
proof (induction rs arbitrary: v)
  case (Cons r rs)
  then show ?case
    by (cases "ord_side incoming"; cases "ord_limit r"; cases "ord_limit incoming")
      (fastforce simp: Let_def split: if_splits)+
qed simp

lemma taken_Cons:
  "taken incoming (f # fs) i
     = (if (if ord_side incoming = Buy then fill_sell f else fill_buy f) = i then fill_qty f else 0) + taken incoming fs i"
  by (simp add: taken_def)

lemma taken_outside:
  "i \<notin> ord_id ` set rs \<Longrightarrow> taken incoming (match_loop incoming rs v) i = 0"
  using match_loop_ids[of _ incoming rs v]
  by (auto simp: taken_def intro!: sold_outside bought_outside split: if_splits)

lemma match_loop_props:
  assumes "distinct (map ord_id rs)" "0 \<le> v" "\<forall>r\<in>set rs. 0 < ord_remaining r \<and> ord_limit r \<noteq> None \<and> ord_side r \<noteq> ord_side incoming"
    and "sorted (map (match_order incoming) rs)"
  defines "fs \<equiv> match_loop incoming rs v"
  shows "(\<forall>f\<in>set fs. \<exists>r\<in>set rs. ord_trader r \<noteq> ord_trader incoming \<and> crosses incoming r \<and> ord_limit r = Some (fill_price f)
        \<and> 0 < fill_qty f \<and> (if ord_side incoming = Buy then fill_buy f = ord_id incoming \<and> fill_sell f = ord_id r
             else fill_sell f = ord_id incoming \<and> fill_buy f = ord_id r))
    \<and> (\<Sum>f\<leftarrow>fs. fill_qty f) \<le> v
    \<and> (\<forall>r\<in>set rs. taken incoming fs (ord_id r) \<le> ord_remaining r)
    \<and> ((\<Sum>f\<leftarrow>fs. fill_qty f) < v \<longrightarrow> (\<forall>r\<in>set rs. ord_trader r \<noteq> ord_trader incoming \<longrightarrow> crosses incoming r \<longrightarrow>
          taken incoming fs (ord_id r) = ord_remaining r))"
  unfolding fs_def using assms(1-4)
proof (induction rs arbitrary: v)
  case (Cons r rs)
  have prem: "distinct (map ord_id rs)" "\<forall>r\<in>set rs. 0 < ord_remaining r \<and> ord_limit r \<noteq> None \<and> ord_side r \<noteq> ord_side incoming"
    "sorted (map (match_order incoming) rs)" using Cons.prems by auto
  have r: "0 < ord_remaining r" "ord_id r \<notin> ord_id ` set rs" using Cons.prems by auto
  obtain p where p: "ord_limit r = Some p" using Cons.prems(3) by auto
  show ?case
  proof (cases "v = 0 \<or> \<not> crosses incoming r")
    case True
    have "\<not> crosses incoming r'" if "r' \<in> set (r # rs)" "\<not> crosses incoming r" for r'
    proof (cases "r' = r")
      case False
      then have "match_order incoming r \<le> match_order incoming r'" using that(1) Cons.prems(4) by auto
      then show ?thesis using crosses_prefix[of r r' incoming] that Cons.prems(3) 
        by (auto simp: match_order_def split: if_splits)
    qed (use that in simp)
    then show ?thesis using True Cons.prems by (auto simp: taken_def)
  next
    case False
    then have c: "crosses incoming r" "0 < v" using Cons.prems(2) by auto
    show ?thesis
    proof (cases "ord_trader r = ord_trader incoming")
      case True
      then show ?thesis using c Cons.IH[OF prem(1) Cons.prems(2) prem(2,3)] r taken_outside[OF r(2)] by simp
    next
      case ne: False
      define qty where "qty = min v (ord_remaining r)"
      define f where "f = \<lparr>fill_buy = (if ord_side incoming = Buy then ord_id incoming else ord_id r),
                fill_sell = (if ord_side incoming = Sell then ord_id incoming else ord_id r),
                fill_price = p, fill_qty = qty,
                fill_aggressor = (if ord_side incoming = Buy then AggBuy else AggSell)\<rparr>"
      define gs where "gs = match_loop incoming rs (v - qty)"
      have step: "match_loop incoming (r # rs) v = f # gs"
        using c ne p by (simp add: f_def qty_def gs_def Let_def)
      have f: "fill_qty f = qty" "(if ord_side incoming = Buy then fill_sell f else fill_buy f) = ord_id r"
        "fill_price f = p" "if ord_side incoming = Buy then fill_buy f = ord_id incoming else fill_sell f = ord_id incoming"
        by (cases "ord_side incoming"; simp add: f_def)+
      have q: "0 < qty" "qty \<le> v" "qty \<le> ord_remaining r" "v - qty > 0 \<Longrightarrow> qty = ord_remaining r"
        using c r by (auto simp: qty_def)
      have IH: "(\<forall>f\<in>set gs. \<exists>r\<in>set rs. ord_trader r \<noteq> ord_trader incoming \<and> crosses incoming r \<and> ord_limit r = Some (fill_price f)
            \<and> 0 < fill_qty f \<and> (if ord_side incoming = Buy then fill_buy f = ord_id incoming \<and> fill_sell f = ord_id r
                 else fill_sell f = ord_id incoming \<and> fill_buy f = ord_id r))
          \<and> (\<Sum>f\<leftarrow>gs. fill_qty f) \<le> v - qty
          \<and> (\<forall>r\<in>set rs. taken incoming gs (ord_id r) \<le> ord_remaining r)
          \<and> ((\<Sum>f\<leftarrow>gs. fill_qty f) < v - qty \<longrightarrow> (\<forall>r\<in>set rs. ord_trader r \<noteq> ord_trader incoming \<longrightarrow>
                crosses incoming r \<longrightarrow> taken incoming gs (ord_id r) = ord_remaining r))"
        unfolding gs_def by (rule Cons.IH[OF prem(1) _ prem(2,3)]) (use q in simp)
      have own: "taken incoming (f # gs) (ord_id r) = qty" 
        using taken_outside[OF r(2)] f by (simp add: taken_Cons gs_def)
      have other: "taken incoming (f # gs) (ord_id r') = taken incoming gs (ord_id r')" if "r' \<in> set rs" for r'
        using that r(2) f by (auto simp: taken_Cons)
      have "0 \<le> (\<Sum>f\<leftarrow>gs. fill_qty f)"
      proof (rule sum_list_nonneg)
        fix x assume "x \<in> set (map fill_qty gs)"
        then obtain g where g: "g \<in> set gs" "x = fill_qty g" by auto
        with IH have "0 < fill_qty g" by blast
        with g show "0 \<le> x" by simp
      qed
      with q(4) have full: "qty + (\<Sum>f\<leftarrow>gs. fill_qty f) < v \<Longrightarrow> qty = ord_remaining r" by linarith
      show ?thesis unfolding step
      proof (intro conjI)
        show "\<forall>f\<in>set (f # gs). \<exists>r\<in>set (r # rs). ord_trader r \<noteq> ord_trader incoming \<and> crosses incoming r
            \<and> ord_limit r = Some (fill_price f) \<and> 0 < fill_qty f
            \<and> (if ord_side incoming = Buy then fill_buy f = ord_id incoming \<and> fill_sell f = ord_id r
               else fill_sell f = ord_id incoming \<and> fill_buy f = ord_id r)"
          using IH ne c p f q by (auto split: if_splits)
        show "(\<Sum>f\<leftarrow>f # gs. fill_qty f) \<le> v" using IH f by simp
        show "\<forall>r\<in>set (r # rs). taken incoming (f # gs) (ord_id r) \<le> ord_remaining r"
          using IH own other q by simp
        show "(\<Sum>f\<leftarrow>f # gs. fill_qty f) < v \<longrightarrow> (\<forall>r\<in>set (r # rs). ord_trader r \<noteq> ord_trader incoming \<longrightarrow>
            crosses incoming r \<longrightarrow> taken incoming (f # gs) (ord_id r) = ord_remaining r)"
          using IH own other f(1) full by simp
      qed
    qed
  qed
qed (simp add: taken_def)

text \<open>
  C35. Matching an incoming order against limit orders at rest: every fill is at the limit of the
  resting order it takes, which the incoming order crosses and another trader owns; no order is
  filled beyond its remaining quantity; and unless the incoming order is filled completely, every
  resting order it may trade with is.
\<close>

theorem continuous_matches_complete:
  assumes "distinct (map ord_id resting)" and "sound_qty resting" and "0 \<le> ord_remaining incoming"
    and "list_all (\<lambda>r. active r \<longrightarrow> ord_limit r \<noteq> None) resting"
    and "fs = continuous_matches incoming resting"
  shows "list_all (\<lambda>f. 0 < fill_qty f \<and> list_ex (\<lambda>r. accepts incoming r \<and> ord_limit r = Some (fill_price f)
        \<and> (if ord_side incoming = Buy then fill_buy f = ord_id incoming \<and> fill_sell f = ord_id r
           else fill_sell f = ord_id incoming \<and> fill_buy f = ord_id r)) resting) fs
    \<and> (\<Sum>f\<leftarrow>fs. fill_qty f) \<le> ord_remaining incoming
    \<and> list_all (\<lambda>r. taken incoming fs (ord_id r) \<le> ord_remaining r) (filter (accepts incoming) resting)
    \<and> ((\<Sum>f\<leftarrow>fs. fill_qty f) < ord_remaining incoming \<longrightarrow>
        list_all (\<lambda>r. taken incoming fs (ord_id r) = ord_remaining r) (filter (accepts incoming) resting))"
proof -
  define rs where "rs = sort_key (match_order incoming) (filter (\<lambda>r. active r \<and> ord_symbol r = ord_symbol incoming
      \<and> ord_side r \<noteq> ord_side incoming) resting)"
  have fs: "fs = match_loop incoming rs (ord_remaining incoming)"
    by (simp add: assms(5) continuous_matches_def rs_def match_order_def Let_def)
  have rs: "r \<in> set rs \<longleftrightarrow> r \<in> set resting \<and> active r \<and> ord_symbol r = ord_symbol incoming \<and> ord_side r \<noteq> ord_side incoming" for r
    by (auto simp: rs_def)
  have "distinct (map ord_id rs)"
  proof -
    have "distinct rs" using assms(1) by (auto simp: rs_def distinct_map)
    moreover have "inj_on ord_id (set rs)" by (rule inj_on_subset[OF distinct_ids_inj[OF assms(1)]]) (auto simp: rs)
    ultimately show ?thesis by (simp add: distinct_map)
  qed
  moreover have "\<forall>r\<in>set rs. 0 < ord_remaining r \<and> ord_limit r \<noteq> None \<and> ord_side r \<noteq> ord_side incoming"
    using assms(2,4) by (auto simp: rs sound_qty_def list_all_iff)
  moreover have "sorted (map (match_order incoming) rs)" by (simp add: rs_def)
  ultimately have props: "(\<forall>f\<in>set fs. \<exists>r\<in>set rs. ord_trader r \<noteq> ord_trader incoming \<and> crosses incoming r
        \<and> ord_limit r = Some (fill_price f) \<and> 0 < fill_qty f
        \<and> (if ord_side incoming = Buy then fill_buy f = ord_id incoming \<and> fill_sell f = ord_id r
             else fill_sell f = ord_id incoming \<and> fill_buy f = ord_id r))
    \<and> (\<Sum>f\<leftarrow>fs. fill_qty f) \<le> ord_remaining incoming
    \<and> (\<forall>r\<in>set rs. taken incoming fs (ord_id r) \<le> ord_remaining r)
    \<and> ((\<Sum>f\<leftarrow>fs. fill_qty f) < ord_remaining incoming \<longrightarrow> (\<forall>r\<in>set rs. ord_trader r \<noteq> ord_trader incoming \<longrightarrow>
          crosses incoming r \<longrightarrow> taken incoming fs (ord_id r) = ord_remaining r))"
    unfolding fs using match_loop_props[of rs "ord_remaining incoming" incoming] assms(3) by blast
  show ?thesis
  proof (intro conjI impI)
    show "list_all (\<lambda>f. 0 < fill_qty f \<and> list_ex (\<lambda>r. accepts incoming r \<and> ord_limit r = Some (fill_price f)
        \<and> (if ord_side incoming = Buy then fill_buy f = ord_id incoming \<and> fill_sell f = ord_id r
           else fill_sell f = ord_id incoming \<and> fill_buy f = ord_id r)) resting) fs"
      unfolding list_all_iff list_ex_iff accepts_def using props rs by blast
  qed (use props rs in \<open>auto simp: list_all_iff accepts_def\<close>)
qed

section \<open>A book\<close>

definition demo_order :: "string \<Rightarrow> string \<Rightarrow> side \<Rightarrow> int \<Rightarrow> int \<Rightarrow> int \<Rightarrow> order_state" where
  "demo_order i trader s price qty arrival =
     \<lparr>ord_id = i, ord_symbol = ''POLS'', ord_trader = trader, ord_side = s, ord_type = LimitOrder, ord_qty = qty,
      ord_remaining = qty, ord_limit = Some price, ord_submitted = 0, ord_arrival = arrival, ord_tif = ''day'',
      ord_status = StOpen, ord_reserved_cents = 0, ord_reserved_qty = 0, ord_filled_qty = 0,
      ord_filled_notional = 0, ord_commission = 0, ord_flags = []\<rparr>"

definition demo_book :: "order_state list" where
  "demo_book = [demo_order ''b1'' ''ann'' Buy 105 10 0, demo_order ''b2'' ''bob'' Buy 103 5 1,
     demo_order ''a1'' ''cyd'' Sell 100 8 2, demo_order ''a2'' ''dan'' Sell 104 4 3]"

lemma demo_book_facts:
  "distinct (map ord_id demo_book)" "sound_qty demo_book"
  "uncross demo_book 104 = (Some 104, 10)"
  "map ord_id (eligible_bids demo_book 104) = [''b1'']" "map ord_id (eligible_asks demo_book 104) = [''a1'', ''a2'']"
  "ord_trader ` set (eligible_bids demo_book 104) \<inter> ord_trader ` set (eligible_asks demo_book 104) = {}"
  by code_simp+

lemma uncross_optimal_witness:
  "uncross demo_book 104 = (Some 104, 10)
    \<and> (\<forall>q. min (demand_at (filter active demo_book) q) (supply_at (filter active demo_book) q) \<le> 10)"
  using uncross_optimal[OF demo_book_facts(2), of 104] by (simp add: demo_book_facts(3))


lemma call_auction_feasible_witness:
  "(\<Sum>f\<leftarrow>call_auction demo_book 104. fill_qty f) \<le> 10 \<and> length (call_auction demo_book 104) = 2"
proof -
  have "length (call_auction demo_book 104) = 2" by code_simp
  then show ?thesis using call_auction_feasible[OF demo_book_facts(1,2) refl demo_book_facts(3)] by blast
qed

lemma continuous_matches_complete_witness:
  "map (taken (demo_order ''b9'' ''eve'' Buy 102 20 0) (continuous_matches (demo_order ''b9'' ''eve'' Buy 102 20 0) demo_book))
     (map ord_id (filter (accepts (demo_order ''b9'' ''eve'' Buy 102 20 0)) demo_book)) = [8]"
proof -
  let ?b = "demo_order ''b9'' ''eve'' Buy 102 20 0"
  have f: "filter (accepts ?b) demo_book = [demo_order ''a1'' ''cyd'' Sell 100 8 2]"
    "(\<Sum>f\<leftarrow>continuous_matches ?b demo_book. fill_qty f) < ord_remaining ?b"
    "0 \<le> ord_remaining ?b" "list_all (\<lambda>r. active r \<longrightarrow> ord_limit r \<noteq> None) demo_book"
    by code_simp+
  from continuous_matches_complete[OF demo_book_facts(1,2) f(3,4) refl] f(1,2) show ?thesis
    by (simp add: demo_order_def)
qed

end
