(* ===== verification/Effects.thy ===== *)
theory Effects
  imports Prelude
begin

text \<open>
  Methods that read and change a shared world and may raise. A method is a function from the world
  to an error or a result with the changed world; an exception ends the run, so the world it leaves
  behind is not kept. The second half is the rule set for partial correctness: \<open>triple P m Q\<close> says
  that from a world in \<open>P\<close> every normal return of \<open>m\<close> ends in \<open>Q\<close>.
\<close>

type_synonym ('e, 'w, 'a) prog = "'w \<Rightarrow> 'e + 'a \<times> 'w"

definition m_return :: "'a \<Rightarrow> ('e, 'w, 'a) prog" where
  "m_return x w = Inr (x, w)"

definition m_raise :: "'e \<Rightarrow> ('e, 'w, 'a) prog" where
  "m_raise e w = Inl e"

definition m_bind :: "('e, 'w, 'a) prog \<Rightarrow> ('a \<Rightarrow> ('e, 'w, 'b) prog) \<Rightarrow> ('e, 'w, 'b) prog" where
  "m_bind m f w = (case m w of Inl e \<Rightarrow> Inl e | Inr (x, w') \<Rightarrow> f x w')"

definition m_then :: "('e, 'w, 'a) prog \<Rightarrow> ('e, 'w, 'b) prog \<Rightarrow> ('e, 'w, 'b) prog" where
  "m_then m n = m_bind m (\<lambda>_. n)"

definition m_read :: "('w \<Rightarrow> 'a) \<Rightarrow> ('e, 'w, 'a) prog" where
  "m_read f w = Inr (f w, w)"

definition m_modify :: "('w \<Rightarrow> 'w) \<Rightarrow> ('e, 'w, unit) prog" where
  "m_modify f w = Inr ((), f w)"

definition m_res :: "'e + 'a \<Rightarrow> ('e, 'w, 'a) prog" where
  "m_res r w = (case r of Inl e \<Rightarrow> Inl e | Inr x \<Rightarrow> Inr (x, w))"

definition m_when :: "bool \<Rightarrow> ('e, 'w, 'a list) prog \<Rightarrow> ('e, 'w, 'a list) prog" where
  \<comment> \<open>\<open>if c: events.extend(m)\<close>\<close>
  "m_when c m = (if c then m else m_return [])"

fun m_extend :: "('e, 'w, 'b list) prog list \<Rightarrow> ('e, 'w, 'b list) prog" where
  \<comment> \<open>a sequence of \<open>events.extend(m)\<close>\<close>
  "m_extend [] = m_return []"
| "m_extend (m # ms) = m_bind m (\<lambda>xs. m_bind (m_extend ms) (\<lambda>ys. m_return (xs @ ys)))"

fun m_for :: "('x \<Rightarrow> ('e, 'w, 'b list) prog) \<Rightarrow> 'x list \<Rightarrow> ('e, 'w, 'b list) prog" where
  \<comment> \<open>\<open>for x in xs: events.extend(f(x))\<close>\<close>
  "m_for f [] = m_return []"
| "m_for f (x # xs) = m_bind (f x) (\<lambda>ys. m_bind (m_for f xs) (\<lambda>zs. m_return (ys @ zs)))"

fun m_for_until :: "('x \<Rightarrow> ('e, 'w, 'b list \<times> bool) prog) \<Rightarrow> 'x list \<Rightarrow> ('e, 'w, 'b list) prog" where
  \<comment> \<open>the same with a \<open>break\<close>, the flag of the body's result\<close>
  "m_for_until f [] = m_return []"
| "m_for_until f (x # xs) = m_bind (f x) (\<lambda>(ys, stop).
     if stop then m_return ys else m_bind (m_for_until f xs) (\<lambda>zs. m_return (ys @ zs)))"

section \<open>Rules\<close>

definition triple :: "('w \<Rightarrow> bool) \<Rightarrow> ('e, 'w, 'a) prog \<Rightarrow> ('a \<Rightarrow> 'w \<Rightarrow> bool) \<Rightarrow> bool" where
  "triple P m Q \<longleftrightarrow> (\<forall>w x w'. P w \<longrightarrow> m w = Inr (x, w') \<longrightarrow> Q x w')"

definition keeps :: "('w \<Rightarrow> bool) \<Rightarrow> ('e, 'w, 'a) prog \<Rightarrow> bool" where
  "keeps P m \<longleftrightarrow> triple P m (\<lambda>_. P)"

named_theorems keeps_rules \<open>methods that keep an invariant\<close>

lemma m_bind_Inr_iff: "m_bind m f w = Inr r \<longleftrightarrow> (\<exists>x w'. m w = Inr (x, w') \<and> f x w' = Inr r)"
  by (auto simp: m_bind_def split: sum.split)

lemma m_then_Inr_iff: "m_then m n w = Inr r \<longleftrightarrow> (\<exists>x w'. m w = Inr (x, w') \<and> n w' = Inr r)"
  by (simp add: m_then_def m_bind_Inr_iff)

lemma m_basic_Inr_iff:
  "m_return x w = Inr (y, w') \<longleftrightarrow> y = x \<and> w' = w"
  "m_raise e w = Inr (z, w') \<longleftrightarrow> False"
  "m_read f w = Inr (y', w') \<longleftrightarrow> y' = f w \<and> w' = w"
  "m_modify g w = Inr (u, w') \<longleftrightarrow> w' = g w"
  "m_res r w = Inr (y'', w') \<longleftrightarrow> r = Inr y'' \<and> w' = w"
  by (auto simp: m_return_def m_raise_def m_read_def m_modify_def m_res_def split: sum.split)

lemmas prog_Inr_iff = m_bind_Inr_iff m_then_Inr_iff m_basic_Inr_iff

lemma m_bind_assoc: "m_bind (m_bind m f) g = m_bind m (\<lambda>x. m_bind (f x) g)"
  by (rule ext) (simp add: m_bind_def split: sum.split)

lemma m_bind_return: "m_bind (m_return x) f = f x"
  by (rule ext) (simp add: m_bind_def m_return_def)

lemma tripleI: "(\<And>w x w'. P w \<Longrightarrow> m w = Inr (x, w') \<Longrightarrow> Q x w') \<Longrightarrow> triple P m Q"
  by (simp add: triple_def)

lemma tripleD: "triple P m Q \<Longrightarrow> P w \<Longrightarrow> m w = Inr (x, w') \<Longrightarrow> Q x w'"
  by (simp add: triple_def)

lemma keepsI: "(\<And>w x w'. P w \<Longrightarrow> m w = Inr (x, w') \<Longrightarrow> P w') \<Longrightarrow> keeps P m"
  by (simp add: keeps_def triple_def)

lemma keepsD: "keeps P m \<Longrightarrow> P w \<Longrightarrow> m w = Inr (x, w') \<Longrightarrow> P w'"
  unfolding keeps_def by (rule tripleD)

lemma keeps_return [keeps_rules]: "keeps P (m_return x)"
  and keeps_raise [keeps_rules]: "keeps P (m_raise e)"
  and keeps_read [keeps_rules]: "keeps P (m_read f)"
  and keeps_res [keeps_rules]: "keeps P (m_res r)"
  by (auto intro!: keepsI simp: prog_Inr_iff)

lemma keeps_modify: "(\<And>w. P w \<Longrightarrow> P (f w)) \<Longrightarrow> keeps P (m_modify f)"
  by (auto intro!: keepsI simp: prog_Inr_iff)

lemma keeps_bind [keeps_rules]: "keeps P m \<Longrightarrow> (\<And>x. keeps P (f x)) \<Longrightarrow> keeps P (m_bind m f)"
  by (rule keepsI) (auto simp: prog_Inr_iff dest: keepsD)

lemma keeps_then [keeps_rules]: "keeps P m \<Longrightarrow> keeps P n \<Longrightarrow> keeps P (m_then m n)"
  by (rule keepsI) (auto simp: prog_Inr_iff dest: keepsD)

lemma keeps_if [keeps_rules]: "(c \<Longrightarrow> keeps P m) \<Longrightarrow> (\<not> c \<Longrightarrow> keeps P n) \<Longrightarrow> keeps P (if c then m else n)"
  by simp

lemma keeps_when [keeps_rules]: "(c \<Longrightarrow> keeps P m) \<Longrightarrow> keeps P (m_when c m)"
  by (simp add: m_when_def keeps_return)

lemma keeps_option [keeps_rules]:
  "(x = None \<Longrightarrow> keeps P m) \<Longrightarrow> (\<And>y. x = Some y \<Longrightarrow> keeps P (f y)) \<Longrightarrow> keeps P (case x of None \<Rightarrow> m | Some y \<Rightarrow> f y)"
  by (cases x) auto

lemma keeps_case_prod [keeps_rules]: "(\<And>a b. x = (a, b) \<Longrightarrow> keeps P (f a b)) \<Longrightarrow> keeps P (case x of (a, b) \<Rightarrow> f a b)"
  by (cases x) auto

lemma keeps_extend [keeps_rules]: "(\<And>m. m \<in> set ms \<Longrightarrow> keeps P m) \<Longrightarrow> keeps P (m_extend ms)"
  by (induction ms) (auto intro: keeps_bind keeps_return)

lemma keeps_for [keeps_rules]: "(\<And>x. x \<in> set xs \<Longrightarrow> keeps P (f x)) \<Longrightarrow> keeps P (m_for f xs)"
  by (induction xs) (auto intro!: keeps_bind keeps_return)

lemma keeps_for_until [keeps_rules]:
  "(\<And>x. x \<in> set xs \<Longrightarrow> keeps P (f x)) \<Longrightarrow> keeps P (m_for_until f xs)"
  by (induction xs) (auto intro!: keeps_bind keeps_return split: prod.splits)

lemma keeps_conj: "keeps P m \<Longrightarrow> keeps Q m \<Longrightarrow> keeps (\<lambda>w. P w \<and> Q w) m"
  by (rule keepsI) (auto dest: keepsD)

text \<open>The same, from one world: \<open>after m Q w\<close> says that if \<open>m\<close> returns from \<open>w\<close>, then in \<open>Q\<close>.\<close>

definition after :: "('e, 'w, 'a) prog \<Rightarrow> ('a \<Rightarrow> 'w \<Rightarrow> bool) \<Rightarrow> 'w \<Rightarrow> bool" where
  "after m Q w \<longleftrightarrow> (\<forall>x w'. m w = Inr (x, w') \<longrightarrow> Q x w')"

named_theorems after_simps \<open>what a composed method leaves\<close>

lemma afterI: "(\<And>x w'. m w = Inr (x, w') \<Longrightarrow> Q x w') \<Longrightarrow> after m Q w"
  by (simp add: after_def)

lemma afterD: "after m Q w \<Longrightarrow> m w = Inr (x, w') \<Longrightarrow> Q x w'"
  by (simp add: after_def)

lemma after_bind [after_simps]: "after (m_bind m f) Q = after m (\<lambda>x. after (f x) Q)"
  by (rule ext) (auto simp: after_def m_bind_Inr_iff)

lemma after_then [after_simps]: "after (m_then m n) Q = after m (\<lambda>_. after n Q)"
  by (simp add: m_then_def after_bind)

lemma after_return [after_simps]: "after (m_return x) Q = Q x"
  and after_raise [after_simps]: "after (m_raise e) Q = (\<lambda>_. True)"
  and after_read [after_simps]: "after (m_read f) Q = (\<lambda>w. Q (f w) w)"
  and after_modify [after_simps]: "after (m_modify g) Q' = (\<lambda>w. Q' () (g w))"
  and after_res [after_simps]: "after (m_res r) Q = (\<lambda>w. \<forall>x. r = Inr x \<longrightarrow> Q x w)"
  by (auto simp: after_def m_basic_Inr_iff fun_eq_iff)

lemma after_mono: "after m Q w \<Longrightarrow> (\<And>x w'. m w = Inr (x, w') \<Longrightarrow> Q x w' \<Longrightarrow> R x w') \<Longrightarrow> after m R w"
  by (simp add: after_def)

lemma after_keeps: "keeps P m \<Longrightarrow> P w \<Longrightarrow> after m (\<lambda>_. P) w"
  by (auto simp: after_def dest: keepsD)

lemma keeps_after: "keeps P m \<longleftrightarrow> (\<forall>w. P w \<longrightarrow> after m (\<lambda>_. P) w)"
  by (auto simp: after_def keeps_def triple_def)

lemma m_for_each:
  assumes step: "\<And>x w. x \<in> set xs \<Longrightarrow> I w \<Longrightarrow> after (f x) (\<lambda>_ w'. I w' \<and> Q x w' \<and> (\<forall>y. Q y w \<longrightarrow> Q y w')) w"
    and "I w"
  shows "after (m_for f xs) (\<lambda>_ w'. I w' \<and> (\<forall>x\<in>set xs. Q x w')) w"
proof -
  have "after (m_for f xs) (\<lambda>_ w'. I w' \<and> (\<forall>x\<in>set xs. Q x w') \<and> (\<forall>y. Q y w \<longrightarrow> Q y w')) w"
    using assms
  proof (induction xs arbitrary: w)
    case (Cons x xs)
    have "after (f x) (\<lambda>_ w'. I w' \<and> Q x w' \<and> (\<forall>y. Q y w \<longrightarrow> Q y w')) w"
      using Cons.prems by simp
    then show ?case unfolding m_for.simps after_bind
    proof (rule after_mono)
      fix ys w1 assume 1: "I w1 \<and> Q x w1 \<and> (\<forall>y. Q y w \<longrightarrow> Q y w1)"
      have "after (m_for f xs) (\<lambda>_ w'. I w' \<and> (\<forall>x\<in>set xs. Q x w') \<and> (\<forall>y. Q y w1 \<longrightarrow> Q y w')) w1"
        by (rule Cons.IH) (use 1 Cons.prems(1) in auto)
      then show "after (m_for f xs) (\<lambda>x'. after (m_return (ys @ x')) (\<lambda>_ w'. I w' \<and> (\<forall>y\<in>set (x # xs). Q y w')
          \<and> (\<forall>y. Q y w \<longrightarrow> Q y w'))) w1"
        by (rule after_mono) (use 1 in \<open>simp add: after_return\<close>)
    qed
  qed (simp add: after_return)
  then show ?thesis by (rule after_mono) simp
qed

lemma after_for:
  \<comment> \<open>a loop invariant over the rest of the list\<close>
  assumes "I xs w" "\<And>x rest w. I (x # rest) w \<Longrightarrow> after (f x) (\<lambda>_. I rest) w"
  shows "after (m_for f xs) (\<lambda>_. I []) w"
  using assms(1)
proof (induction xs arbitrary: w)
  case (Cons x xs)
  show ?case unfolding m_for.simps after_bind after_return
    by (rule after_mono[OF assms(2)[OF Cons.prems]]) (rule Cons.IH)
qed (simp add: after_return)

end
