(* ===== verification/Exchange.thy ===== *)
theory Exchange
  imports Effects Exchange_Book Ledger Money Rng Clock
begin

text \<open>
  \<open>polis/economy/exchange/models.py\<close> and \<open>engine.py\<close>: securities, holdings, orders, trades, short
  positions and IPOs, and the methods of \<open>ExchangeEngine\<close> on them and on the ledger. The parts of
  the settings, firms, banks, start-ups, bankruptcy cases and agents the engine reads are fields of
  \<open>exchange_env\<close>; so are \<open>uuid5\<close>, the SHA-256 digest, Python's \<open>repr\<close> of a string and the callback
  \<open>emit\<close> on the event log. Orders are shared objects in the code: here every access goes through the
  order table. The parameters of an action are typed as its schema types them; a parameter that may
  be absent, or present as \<open>None\<close>, says so.
\<close>

section \<open>State\<close>

record security_state =
  sec_symbol :: string
  sec_issuer :: string
  sec_class :: string
  sec_shares :: int
  sec_listed_tick :: int
  sec_listing_price :: int
  sec_last_price :: int
  sec_reference_price :: int
  sec_ipo_round :: "string option"
  sec_lockup_until :: "int option"
  sec_status :: string
  sec_delisted_tick :: "int option"
  sec_halt_until :: "int option"
  sec_breaker_count :: int

record holding_state =
  hold_holder :: string
  hold_symbol :: string
  hold_qty :: int
  hold_reserved :: int
  hold_locked :: int
  hold_avg_cost :: int

record trade_state =
  trd_id :: string
  trd_symbol :: string
  trd_tick :: int
  trd_price :: int
  trd_qty :: int
  trd_buy_order :: string
  trd_sell_order :: string
  trd_buyer :: string
  trd_seller :: string
  trd_aggressor :: aggressor
  trd_commission_buy :: int
  trd_commission_sell :: int
  trd_txn :: uuid

record ohlcv_state =
  bar_symbol :: string
  bar_tick :: int
  bar_open :: int
  bar_high :: int
  bar_low :: int
  bar_close :: int
  bar_volume :: int
  bar_vwap :: "int option"
  bar_trades :: int

record short_position =
  sp_trader :: string
  sp_symbol :: string
  sp_qty :: int
  sp_entry_price :: int
  sp_collateral :: int
  sp_opened_tick :: int
  sp_borrow_fee_bp :: int
  sp_deadline :: "int option"
  sp_status :: string

record ipo_state =
  ipo_id :: string
  ipo_firm :: string
  ipo_symbol :: string
  ipo_offered :: int
  ipo_primary :: int
  ipo_secondary :: int
  ipo_low :: int
  ipo_high :: int
  ipo_underwriter :: string
  ipo_announced :: int
  ipo_close :: int
  ipo_indications :: "(string, int \<times> int) dict"
  ipo_status :: string

record exchange_state =
  ex_securities :: "(string, security_state) dict"
  ex_holdings :: "(string, holding_state) dict"
  ex_orders :: "(string, order_state) dict"
  ex_trades :: "trade_state list"
  ex_ohlcv :: "(string, ohlcv_state) dict"
  ex_shorts :: "(string, short_position) dict"
  ex_ipos :: "(string, ipo_state) dict"
  ex_index_history :: "(int, int) dict"
  ex_index_divisor :: "int option"
  ex_session_id :: "string option"
  ex_session_tick :: "int option"

definition empty_exchange :: exchange_state where
  "empty_exchange = \<lparr>ex_securities = [], ex_holdings = [], ex_orders = [], ex_trades = [], ex_ohlcv = [],
     ex_shorts = [], ex_ipos = [], ex_index_history = [], ex_index_divisor = None, ex_session_id = None,
     ex_session_tick = None\<rparr>"

definition holding_key :: "string \<Rightarrow> string \<Rightarrow> string" where
  "holding_key holder symbol = holder @ '':'' @ symbol"

definition holding_of :: "string \<Rightarrow> string \<Rightarrow> exchange_state \<Rightarrow> holding_state" where
  \<comment> \<open>the row of \<open>ExchangeState.holding\<close>, created when absent\<close>
  "holding_of holder symbol ex =
     (case dget (ex_holdings ex) (holding_key holder symbol) of Some h \<Rightarrow> h
      | None \<Rightarrow> \<lparr>hold_holder = holder, hold_symbol = symbol, hold_qty = 0, hold_reserved = 0,
                  hold_locked = 0, hold_avg_cost = 0\<rparr>)"

definition upd_holding :: "string \<Rightarrow> string \<Rightarrow> (holding_state \<Rightarrow> holding_state) \<Rightarrow> exchange_state \<Rightarrow> exchange_state" where
  \<comment> \<open>assignments to the attributes of \<open>state.holding(holder, symbol)\<close>\<close>
  "upd_holding holder symbol f ex =
     ex\<lparr>ex_holdings := dset (holding_key holder symbol) (f (holding_of holder symbol ex)) (ex_holdings ex)\<rparr>"

section \<open>What the engine reads and calls\<close>

datatype exchange_error =
    ExLedger ledger_error | NoDepositAccount | NoBankOfDeposit
  | ExValue string | ExRuntime string | ExKey string | ExType string | ExZeroDivision
  | ExMoney money_error | ExRng rng_error | ExLog log_error | ExFuel

record firm_view =
  fv_id :: string
  fv_founder :: string
  fv_status :: string
  fv_revenue :: int

record bank_view =
  bv_central :: bool
  bv_status :: string
  bv_frozen :: bool

record 'l exchange_env =
  xe_enabled :: bool
  xe_tick_size :: int
  xe_commission_bp :: int
  xe_commission_floor :: int
  xe_max_order_qty_bp :: int
  xe_band_bp :: int
  xe_halt_ticks :: int
  xe_max_halts :: int
  xe_max_short_bp :: int
  xe_initial_margin_bp :: int
  xe_maintenance_margin_bp :: int
  xe_borrow_fee_bp :: int
  xe_ipo_min_age_days :: int
  xe_ipo_min_revenue :: int
  xe_ipo_book_days :: int
  xe_underwriter_discount_bp :: int
  xe_underwriting_fee_bp :: int
  xe_listing_fee :: int
  xe_lockup_days :: int
  xe_bootstrap_day :: "int option"
  xe_bootstrap_shares :: int
  xe_bootstrap_price :: int
  xe_profile :: profile_name
  xe_ticks_per_day :: int
  xe_days_per_year :: int
  xe_agents :: "string list"
  xe_firms :: "(string, firm_view) dict"
  xe_banks :: "(string, bank_view) dict"
  xe_startups :: "(string \<times> int) list"
  xe_bankruptcies :: "(string \<times> string) list"
  xe_emit :: "draft \<Rightarrow> 'l \<Rightarrow> log_error + evt \<times> 'l"
  xe_uuid5 :: "uuid \<Rightarrow> string \<Rightarrow> uuid"
  xe_uuid5_url :: "string \<Rightarrow> uuid"
  xe_uuid_text :: "uuid \<Rightarrow> string"
  xe_digest :: "string \<Rightarrow> string"
  xe_repr :: "string \<Rightarrow> string"

record 'l exchange_world =
  xw_ex :: exchange_state
  xw_ledger :: ledger
  xw_rng :: rng_registry
  xw_log :: 'l

type_synonym ('l, 'a) xm = "(exchange_error, 'l exchange_world, 'a) prog"

datatype action_kind = SubmitOrder | CancelOrder | ShortSale | IpoList

record exchange_action =
  xa_id :: uuid
  xa_actor :: string
  xa_kind :: action_kind
  xp_symbol :: string
  xp_side :: "string option"
  xp_order_type :: "string option"
  xp_qty :: int
  xp_limit :: "int option option"
    \<comment> \<open>absent, or present as \<open>None\<close> or as a number\<close>
  xp_flags :: "string list"
  xp_collateral :: int
  xp_order_id :: string
  xp_firm :: string
  xp_shares :: int
  xp_primary :: int
  xp_secondary :: int
  xp_low :: int
  xp_high :: int
  xp_underwriter :: string

definition upper :: "string \<Rightarrow> string" where
  \<comment> \<open>\<open>str.upper\<close> on ASCII\<close>
  "upper s = map (\<lambda>c. if CHR ''a'' \<le> c \<and> c \<le> CHR ''z'' then char_of (of_char c - 32 :: nat) else c) s"

section \<open>Access to the world\<close>

definition x_emit :: "'l exchange_env \<Rightarrow> int \<Rightarrow> payload \<Rightarrow> string option \<Rightarrow> string list \<Rightarrow> ('l, evt) xm" where
  \<comment> \<open>\<open>emit(NewEvent(kind, payload, actor_id, subject_ids))\<close>\<close>
  "x_emit X kind pl actor subjects w =
     (case xe_emit X \<lparr>ne_kind = kind, ne_payload = pl, ne_actor_id = actor, ne_subject_ids = subjects,
              ne_cause_seq = None, ne_sig = None\<rparr> (xw_log w) of
        Inl e \<Rightarrow> Inl (ExLog e) | Inr (ev, l) \<Rightarrow> Inr (ev, w\<lparr>xw_log := l\<rparr>))"

definition x_state :: "(exchange_state \<Rightarrow> 'a) \<Rightarrow> ('l, 'a) xm" where
  "x_state f = m_read (\<lambda>w. f (xw_ex w))"

definition x_update :: "(exchange_state \<Rightarrow> exchange_state) \<Rightarrow> ('l, unit) xm" where
  "x_update f = m_modify (\<lambda>w. w\<lparr>xw_ex := f (xw_ex w)\<rparr>)"

definition x_ledger :: "(ledger \<Rightarrow> 'a) \<Rightarrow> ('l, 'a) xm" where
  "x_ledger f = m_read (\<lambda>w. f (xw_ledger w))"

definition x_post :: "'l exchange_env \<Rightarrow> leg list \<Rightarrow> int \<Rightarrow> evt \<Rightarrow> ('l, uuid) xm" where
  \<comment> \<open>\<open>self.economy.ledger.post_transaction(legs, tick=tick, cause=cause)\<close>\<close>
  "x_post X legs tick cause w =
     (case post_transaction (xe_uuid5 X) legs tick cause [] (xw_ledger w) of
        Inl e \<Rightarrow> Inl (ExLedger e) | Inr (txn, l) \<Rightarrow> Inr (txn, w\<lparr>xw_ledger := l\<rparr>))"

definition x_next_txn :: "'l exchange_env \<Rightarrow> int \<Rightarrow> ('l, uuid) xm" where
  "x_next_txn X tick w =
     (let (txn, l) = next_txn_id (xe_uuid5 X) tick (xw_ledger w) in Inr (txn, w\<lparr>xw_ledger := l\<rparr>))"

definition x_res :: "ledger_error + 'a \<Rightarrow> ('l, 'a) xm" where
  "x_res r = m_res (case r of Inl e \<Rightarrow> Inl (ExLedger e) | Inr x \<Rightarrow> Inr x)"

definition x_transfer :: "string \<Rightarrow> string \<Rightarrow> int \<Rightarrow> string \<Rightarrow> ('l, leg list) xm" where
  "x_transfer src dst amount reason = x_res (transfer src dst amount reason)"

definition x_order :: "string \<Rightarrow> ('l, order_state) xm" where
  \<comment> \<open>\<open>self.state.orders[order_id]\<close>\<close>
  "x_order i = m_bind (x_state (\<lambda>ex. dget (ex_orders ex) i)) (\<lambda>r.
     case r of None \<Rightarrow> m_raise (ExKey i) | Some r \<Rightarrow> m_return r)"

definition upd_order :: "string \<Rightarrow> (order_state \<Rightarrow> order_state) \<Rightarrow> exchange_state \<Rightarrow> exchange_state" where
  "upd_order i f ex = (case dget (ex_orders ex) i of None \<Rightarrow> ex
     | Some r \<Rightarrow> ex\<lparr>ex_orders := dset i (f r) (ex_orders ex)\<rparr>)"

definition x_security :: "string \<Rightarrow> ('l, security_state) xm" where
  "x_security s = m_bind (x_state (\<lambda>ex. dget (ex_securities ex) s)) (\<lambda>r.
     case r of None \<Rightarrow> m_raise (ExKey s) | Some r \<Rightarrow> m_return r)"

definition upd_security :: "string \<Rightarrow> (security_state \<Rightarrow> security_state) \<Rightarrow> exchange_state \<Rightarrow> exchange_state" where
  "upd_security s f ex = (case dget (ex_securities ex) s of None \<Rightarrow> ex
     | Some r \<Rightarrow> ex\<lparr>ex_securities := dset s (f r) (ex_securities ex)\<rparr>)"

definition order_ids :: "exchange_state \<Rightarrow> string list" where
  \<comment> \<open>the orders sorted by \<open>order_id\<close>, which is their key in the table\<close>
  "order_ids ex = sort (dkeys (ex_orders ex))"

section \<open>Accounts, fees, bands\<close>

definition coalesce :: "leg list \<Rightarrow> leg list" where
  \<comment> \<open>\<open>_coalesce\<close>\<close>
  "coalesce legs =
     (let totals = fold (\<lambda>g d. let k = (leg_account g, leg_direction g, leg_reason g)
                               in dset k (dget_or d k 0 + leg_amount g) d) legs []
      in map (\<lambda>((a, d, r), amount). \<lparr>leg_account = a, leg_direction = d, leg_amount = amount, leg_reason = r\<rparr>)
           (filter (\<lambda>(k, amount). 0 < amount) (sort totals)))"

definition bp_ceil_up :: "int \<Rightarrow> int \<Rightarrow> int" where
  \<comment> \<open>\<open>_bp_ceil\<close>\<close>
  "bp_ceil_up amount rate_bp = (amount * rate_bp + 9999) div 10000"

definition codes_of :: "ledger \<Rightarrow> string \<Rightarrow> account_code \<Rightarrow> string list" where
  \<comment> \<open>the sorted accounts of an owner with a code; every identifier of the table parses\<close>
  "codes_of l owner code =
     filter (\<lambda>v. case parse_account_id v of Inr (c, _) \<Rightarrow> c = code | Inl _ \<Rightarrow> False) (accounts_of l owner)"

definition deposit_account :: "string \<Rightarrow> ledger \<Rightarrow> exchange_error + string" where
  \<comment> \<open>\<open>_deposit_account\<close>\<close>
  "deposit_account owner l = (case codes_of l owner Dep of [] \<Rightarrow> Inl NoDepositAccount | v # _ \<Rightarrow> Inr v)"

definition escrow_id :: "string \<Rightarrow> string \<Rightarrow> ledger \<Rightarrow> exchange_error + string" where
  \<comment> \<open>\<open>_escrow_id\<close>\<close>
  "escrow_id owner ref l =
     (case filter (\<lambda>v. (case parse_account_id v of Inr (_, _, _, r) \<Rightarrow> r = Some ref | Inl _ \<Rightarrow> False)
            \<and> is_open l v) (codes_of l owner Esc) of
        v # _ \<Rightarrow> Inr v
      | [] \<Rightarrow> res_bind (deposit_account owner l) (\<lambda>deposit.
          case bank_of deposit of Inl e \<Rightarrow> Inl (ExLedger e)
          | Inr None \<Rightarrow> Inl NoBankOfDeposit
          | Inr (Some bank) \<Rightarrow> (case account_id Esc owner (Some bank) (Some ref) of
              Inl e \<Rightarrow> Inl (ExLedger e) | Inr v \<Rightarrow> Inr v)))"

definition x_deposit :: "string \<Rightarrow> ('l, string) xm" where
  "x_deposit owner = m_bind (x_ledger (deposit_account owner)) m_res"

definition x_escrow :: "string \<Rightarrow> string \<Rightarrow> ('l, string) xm" where
  "x_escrow owner ref = m_bind (x_ledger (escrow_id owner ref)) m_res"

definition owner_type_of :: "'l exchange_env \<Rightarrow> string \<Rightarrow> string" where
  "owner_type_of X owner = (if owner \<in> set (xe_agents X) then ''agent'' else ''institution'')"

definition jopt :: "('a \<Rightarrow> json) \<Rightarrow> 'a option \<Rightarrow> json" where
  "jopt f x = (case x of None \<Rightarrow> JNull | Some y \<Rightarrow> f y)"

definition escrow_account :: "'l exchange_env \<Rightarrow> string \<Rightarrow> string \<Rightarrow> int \<Rightarrow> ('l, string \<times> evt list) xm" where
  \<comment> \<open>\<open>_escrow_account\<close>\<close>
  "escrow_account X owner ref tick =
     m_bind (x_escrow owner ref) (\<lambda>v.
     m_bind (x_ledger (\<lambda>l. is_open l v)) (\<lambda>is_op.
       if is_op then m_return (v, [])
       else m_bind (x_res (parse_account_id v)) (\<lambda>(_, _, bank, _).
         m_bind (\<lambda>w. case open_account Esc owner (owner_type_of X owner) bank (Some ref) tick (xw_ledger w) of
             Inl e \<Rightarrow> Inl (ExLedger e) | Inr (i, l) \<Rightarrow> Inr (i, w\<lparr>xw_ledger := l\<rparr>)) (\<lambda>_.
         m_bind (x_emit X 8002 [(''account_id'', JStr v), (''owner_id'', JStr owner),
             (''owner_type'', JStr (owner_type_of X owner)), (''bank_id'', jopt JStr bank),
             (''account_type'', JStr ''escrow''), (''code'', JStr ''esc'')] None [owner]) (\<lambda>ev.
         m_return (v, [ev]))))))"

definition commission :: "'l exchange_env \<Rightarrow> int \<Rightarrow> int" where
  "commission X notional =
     (if xe_commission_bp X = 0 then 0
      else max (xe_commission_floor X) (bp_ceil_up notional (xe_commission_bp X)))"

definition reserve_required :: "'l exchange_env \<Rightarrow> int \<Rightarrow> int \<Rightarrow> int" where
  "reserve_required X qty price = (if qty \<le> 0 then 0 else qty * price + qty * commission X price)"

definition band :: "'l exchange_env \<Rightarrow> security_state \<Rightarrow> int \<times> int" where
  "band X s =
     (max (xe_tick_size X) (sec_reference_price s * (10000 - xe_band_bp X) div 10000),
      max (xe_tick_size X) (sec_reference_price s * (10000 + xe_band_bp X) div 10000))"

definition in_band :: "'l exchange_env \<Rightarrow> security_state \<Rightarrow> int \<Rightarrow> bool" where
  "in_band X s price = (let (lo, hi) = band X s in lo \<le> price \<and> price \<le> hi)"

definition under_stay :: "'l exchange_env \<Rightarrow> string \<Rightarrow> bool" where
  "under_stay X entity \<longleftrightarrow> list_ex (\<lambda>(e, status). e = entity \<and> status = ''open'') (xe_bankruptcies X)"

definition market_cap :: "exchange_state \<Rightarrow> int" where
  "market_cap ex = (\<Sum>s\<leftarrow>filter (\<lambda>s. sec_status s = ''listed'' \<and> sec_class s = ''common'') (dvals (ex_securities ex)).
     sec_last_price s * sec_shares s)"

definition reset_index_divisor :: "exchange_state \<Rightarrow> exchange_state" where
  "reset_index_divisor ex =
     (if 0 < market_cap ex then
        let current = (case dkeys (ex_index_history ex) of [] \<Rightarrow> 10000
              | t # ts \<Rightarrow> dget_or (ex_index_history ex) (max_of t ts) 0)
        in ex\<lparr>ex_index_divisor := Some (max 1 (10000 * market_cap ex div max 1 current))\<rparr>
      else ex)"

section \<open>Cancelling\<close>

definition margin_ref :: "string \<Rightarrow> string" where
  "margin_ref symbol = ''margin-'' @ symbol"

definition cancel_order :: "'l exchange_env \<Rightarrow> string \<Rightarrow> int \<Rightarrow> string \<Rightarrow> bool \<Rightarrow> ('l, evt list) xm" where
  \<comment> \<open>\<open>_cancel\<close> on the order with that identifier\<close>
  "cancel_order X i tick initiator expired =
     m_bind (x_order i) (\<lambda>r.
       if \<not> active r then m_return []
       else m_bind (x_emit X (if expired then 7013 else 7012)
           ([(''order_id'', JStr i), (''remaining_qty'', JInt (ord_remaining r)),
             (''released_cents'', JInt (ord_reserved_cents r)), (''released_qty'', JInt (ord_reserved_qty r))]
            @ (if expired then [] else [(''initiator'', JStr initiator)]))
           (Some (ord_trader r)) [ord_symbol r]) (\<lambda>ev.
         m_then (if ord_reserved_cents r \<noteq> 0 then
             m_bind (x_escrow (ord_trader r)
                 (if ''opens_short'' \<in> set (ord_flags r) then margin_ref (ord_symbol r) else ''exchange'')) (\<lambda>escrow.
             m_bind (x_deposit (ord_trader r)) (\<lambda>deposit.
             m_bind (x_transfer escrow deposit (ord_reserved_cents r) ''escrow'') (\<lambda>legs.
             m_then (x_post X legs tick ev) (m_return ()))))
           else m_return ())
         (m_then (if ord_reserved_qty r \<noteq> 0 then
             x_update (upd_holding (ord_trader r) (ord_symbol r)
               (\<lambda>h. h\<lparr>hold_reserved := hold_reserved h - ord_reserved_qty r\<rparr>))
           else m_return ())
         (m_then (x_update (upd_order i (\<lambda>r. r\<lparr>ord_reserved_cents := 0, ord_reserved_qty := 0,
             ord_status := (if expired then StExpired else StCancelled)\<rparr>)))
         (m_return [ev])))))"

definition cancel_action :: "'l exchange_env \<Rightarrow> exchange_action \<Rightarrow> int \<Rightarrow> ('l, evt list) xm" where
  "cancel_action X a tick =
     m_bind (x_state (\<lambda>ex. dget (ex_orders ex) (xp_order_id a))) (\<lambda>found.
       case found of None \<Rightarrow> m_return []
       | Some r \<Rightarrow>
           if ord_trader r \<noteq> xa_actor a \<or> \<not> active r \<or> tick \<le> ord_submitted r then m_return []
           else cancel_order X (ord_id r) tick ''trader'' False)"

definition count_holders :: "string \<Rightarrow> exchange_state \<Rightarrow> nat" where
  "count_holders symbol ex =
     length (filter (\<lambda>h. hold_symbol h = symbol \<and> hold_qty h \<noteq> 0) (dvals (ex_holdings ex)))"

definition delist :: "'l exchange_env \<Rightarrow> string \<Rightarrow> string \<Rightarrow> int \<Rightarrow> ('l, evt list) xm" where
  "delist X symbol reason tick =
     m_bind (x_security symbol) (\<lambda>_.
     m_bind (x_state order_ids) (\<lambda>ids.
     m_bind (m_for (\<lambda>i. m_bind (x_order i) (\<lambda>r.
         m_when (ord_symbol r = symbol \<and> active r) (cancel_order X i tick ''session'' False))) ids) (\<lambda>evs.
     m_then (x_update (upd_security symbol (\<lambda>s. s\<lparr>sec_status := ''delisted'', sec_delisted_tick := Some tick\<rparr>)))
     (m_bind (x_security symbol) (\<lambda>s.
     m_bind (x_state (count_holders symbol)) (\<lambda>n.
     m_bind (x_emit X 7002 [(''symbol'', JStr symbol), (''reason'', JStr reason),
         (''final_price_cents'', JInt (sec_last_price s)), (''holders_n'', JInt (int n))]
         None [sec_issuer s]) (\<lambda>ev.
     m_then (x_update reset_index_divisor) (m_return (evs @ [ev])))))))))"

definition cancel_entity :: "'l exchange_env \<Rightarrow> string \<Rightarrow> int \<Rightarrow> string
    \<Rightarrow> ('l, evt list \<times> string list \<times> int \<times> (string, int) dict) xm" where
  \<comment> \<open>the totals are sums over the orders as they were when the loop reached them; an order
    changes only when it is cancelled itself\<close>
  "cancel_entity X entity tick initiator =
     m_bind (x_state (\<lambda>ex. filter (\<lambda>r. ord_trader r = entity \<and> active r)
         (map (\<lambda>i. the (dget (ex_orders ex) i)) (order_ids ex)))) (\<lambda>rs.
     m_bind (m_for (\<lambda>r. cancel_order X (ord_id r) tick initiator False) rs) (\<lambda>evs.
     m_return (evs, map ord_id rs, (\<Sum>r\<leftarrow>rs. ord_reserved_cents r),
       sort (fold (\<lambda>r d. dset (ord_symbol r) (dget_or d (ord_symbol r) 0 + ord_reserved_qty r) d) rs []))))"

section \<open>Settling a fill\<close>

definition fill_events :: "'l exchange_env \<Rightarrow> string \<Rightarrow> ('l, evt list) xm" where
  "fill_events X i =
     m_bind (x_order i) (\<lambda>r.
       let average = ord_filled_notional r div max 1 (ord_filled_qty r) in
       if ord_remaining r = 0 then
         m_then (x_update (upd_order i (\<lambda>r. r\<lparr>ord_status := StFilled\<rparr>)))
           (m_bind (x_emit X 7021 [(''order_id'', JStr i), (''total_qty'', JInt (ord_qty r)),
               (''avg_price_cents'', JInt average), (''commission_cents'', JInt (ord_commission r))]
             (Some (ord_trader r)) []) (\<lambda>ev. m_return [ev]))
       else
         m_then (x_update (upd_order i (\<lambda>r. r\<lparr>ord_status := StPartial\<rparr>)))
           (m_bind (x_emit X 7022 [(''order_id'', JStr i), (''filled_qty'', JInt (ord_filled_qty r)),
               (''remaining_qty'', JInt (ord_remaining r)), (''avg_price_cents'', JInt average)]
             (Some (ord_trader r)) []) (\<lambda>ev. m_return [ev])))"

definition add_short :: "'l exchange_env \<Rightarrow> order_state \<Rightarrow> int \<Rightarrow> int \<Rightarrow> int \<Rightarrow> int
    \<Rightarrow> short_position option \<Rightarrow> exchange_error + short_position" where
  "add_short X r qty price collateral tick existing =
     (case existing of
        None \<Rightarrow> Inr \<lparr>sp_trader = ord_trader r, sp_symbol = ord_symbol r, sp_qty = qty, sp_entry_price = price,
          sp_collateral = collateral, sp_opened_tick = tick, sp_borrow_fee_bp = xe_borrow_fee_bp X,
          sp_deadline = None, sp_status = ''open''\<rparr>
      | Some p \<Rightarrow>
          if sp_qty p + qty = 0 then Inl ExZeroDivision
          else Inr (p\<lparr>sp_entry_price := (sp_entry_price p * sp_qty p + price * qty) div (sp_qty p + qty),
            sp_qty := sp_qty p + qty, sp_collateral := sp_collateral p + collateral\<rparr>))"

definition record_short :: "'l exchange_env \<Rightarrow> order_state \<Rightarrow> int \<Rightarrow> int \<Rightarrow> int \<Rightarrow> int \<Rightarrow> ('l, evt list) xm" where
  "record_short X r qty price collateral tick =
     (let key = holding_key (ord_trader r) (ord_symbol r) in
      m_bind (x_state (\<lambda>ex. dget (ex_shorts ex) key)) (\<lambda>existing.
      m_bind (m_res (add_short X r qty price collateral tick existing)) (\<lambda>p.
      m_then (x_update (\<lambda>ex. ex\<lparr>ex_shorts := dset key p (ex_shorts ex)\<rparr>))
      (m_bind (x_emit X 7060 [(''trader_id'', JStr (ord_trader r)), (''symbol'', JStr (ord_symbol r)),
          (''qty'', JInt qty), (''price_cents'', JInt price), (''borrow_fee_bp'', JInt (xe_borrow_fee_bp X)),
          (''collateral_cents'', JInt collateral),
          (''margin_ratio_bp'', JInt (10000 * collateral div max 1 (qty * price)))]
          (Some (ord_trader r)) [ord_symbol r]) (\<lambda>ev. m_return [ev])))))"

definition cover_short :: "int \<Rightarrow> int \<Rightarrow> short_position \<Rightarrow> short_position" where
  "cover_short covered released p =
     p\<lparr>sp_qty := sp_qty p - covered, sp_collateral := sp_collateral p - released,
       sp_status := (if sp_qty p - covered = 0 then ''covered'' else sp_status p)\<rparr>"

definition record_cover :: "'l exchange_env \<Rightarrow> order_state \<Rightarrow> int \<Rightarrow> int \<Rightarrow> int \<Rightarrow> ('l, evt list) xm" where
  "record_cover X r qty price tick =
     (if qty \<le> 0 then m_return []
      else let key = holding_key (ord_trader r) (ord_symbol r) in
      m_bind (x_state (\<lambda>ex. dget (ex_shorts ex) key)) (\<lambda>found.
      case found of None \<Rightarrow> m_return []
      | Some p \<Rightarrow>
        let covered = min qty (sp_qty p);
            realised = (sp_entry_price p - price) * covered;
            released = sp_collateral p * covered div max 1 (sp_qty p)
        in m_then (x_update (\<lambda>ex. ex\<lparr>ex_shorts := dset key (cover_short covered released p) (ex_shorts ex)\<rparr>))
          (m_bind (x_emit X 7061 [(''trader_id'', JStr (ord_trader r)), (''symbol'', JStr (ord_symbol r)),
              (''qty'', JInt covered), (''price_cents'', JInt price), (''realised_pnl_cents'', JInt realised),
              (''fees_paid_cents'', JInt (ord_commission r))] (Some (ord_trader r)) [ord_symbol r]) (\<lambda>ev.
          m_then (if released \<noteq> 0 then
              m_bind (x_escrow (ord_trader r) (margin_ref (ord_symbol r))) (\<lambda>escrow.
              m_bind (x_deposit (ord_trader r)) (\<lambda>deposit.
              m_bind (x_transfer escrow deposit released ''escrow'') (\<lambda>legs.
              m_then (x_post X legs tick ev) (m_return ()))))
            else m_return ())
          (if ''forced_liquidation'' \<in> set (ord_flags r) then
             m_bind (x_emit X 7064 [(''trader_id'', JStr (ord_trader r)), (''symbol'', JStr (ord_symbol r)),
                 (''qty'', JInt covered), (''avg_price_cents'', JInt price),
                 (''shortfall_cents'', JInt (max 0 (covered * price - released)))]
               (Some (ord_trader r)) [ord_symbol r]) (\<lambda>ev2. m_return [ev, ev2])
           else m_return [ev])))))"

definition aggressor_text :: "aggressor \<Rightarrow> string" where
  "aggressor_text a = (case a of AggBuy \<Rightarrow> ''buy'' | AggSell \<Rightarrow> ''sell'' | AggAuction \<Rightarrow> ''auction'')"

definition trade_name :: "int \<Rightarrow> nat \<Rightarrow> string" where
  \<comment> \<open>ticks are not negative\<close>
  "trade_name tick n = ''tr_'' @ zpad 10 (str_int tick) @ ''_'' @ zpad 10 (str_nat n)"

definition reserve_price_of :: "'l exchange_env \<Rightarrow> security_state \<Rightarrow> order_state \<Rightarrow> int" where
  \<comment> \<open>the limit of the order, or the upper end of the band\<close>
  "reserve_price_of X s r = (case ord_limit r of Some p \<Rightarrow> p | None \<Rightarrow> snd (band X s))"

definition take_buy :: "int \<Rightarrow> int \<Rightarrow> int \<Rightarrow> int \<Rightarrow> order_state \<Rightarrow> order_state" where
  "take_buy qty gross fee reserve r =
     r\<lparr>ord_reserved_cents := reserve, ord_remaining := ord_remaining r - qty,
       ord_filled_qty := ord_filled_qty r + qty, ord_filled_notional := ord_filled_notional r + gross,
       ord_commission := ord_commission r + fee\<rparr>"

definition take_sell :: "int \<Rightarrow> int \<Rightarrow> int \<Rightarrow> order_state \<Rightarrow> order_state" where
  "take_sell qty gross fee r =
     r\<lparr>ord_remaining := ord_remaining r - qty, ord_filled_qty := ord_filled_qty r + qty,
       ord_filled_notional := ord_filled_notional r + gross, ord_commission := ord_commission r + fee,
       ord_reserved_qty := (if ''opens_short'' \<in> set (ord_flags r) then ord_reserved_qty r else ord_reserved_qty r - qty)\<rparr>"

definition receive_shares :: "int \<Rightarrow> int \<Rightarrow> holding_state \<Rightarrow> holding_state" where
  "receive_shares qty gross h =
     h\<lparr>hold_qty := hold_qty h + qty,
       hold_avg_cost := (if 0 < hold_qty h + qty
         then (max 0 (hold_qty h) * hold_avg_cost h + gross) div max 1 (max 0 (hold_qty h) + qty)
         else hold_avg_cost h)\<rparr>"

definition deliver_shares :: "int \<Rightarrow> order_state \<Rightarrow> holding_state \<Rightarrow> holding_state" where
  "deliver_shares qty sell h =
     h\<lparr>hold_qty := hold_qty h - qty,
       hold_reserved := (if ''opens_short'' \<in> set (ord_flags sell) then hold_reserved h else hold_reserved h - qty),
       hold_locked := (if ''forced_liquidation'' \<in> set (ord_flags sell) \<and> hold_locked h \<noteq> 0
                       then max 0 (hold_locked h - qty) else hold_locked h)\<rparr>"

definition settle_legs :: "string \<Rightarrow> string \<Rightarrow> string \<Rightarrow> string \<Rightarrow> int \<Rightarrow> int \<Rightarrow> int \<Rightarrow> ('l, leg list) xm" where
  \<comment> \<open>the legs of a trade: the proceeds, the commissions, what the buyer's reservation releases\<close>
  "settle_legs escrow seller broker buyer seller_net fees release =
     m_bind (if 0 < seller_net then x_transfer escrow seller seller_net ''trade'' else m_return []) (\<lambda>a.
     m_bind (if 0 < fees then x_transfer escrow broker fees ''trade'' else m_return []) (\<lambda>b.
     m_bind (if 0 < release then x_transfer escrow buyer release ''escrow'' else m_return []) (\<lambda>c.
     m_return (a @ b @ c))))"

definition trade_payload :: "string \<Rightarrow> fill \<Rightarrow> int \<Rightarrow> order_state \<Rightarrow> order_state \<Rightarrow> int \<Rightarrow> string \<Rightarrow> payload" where
  "trade_payload trade_id f qty buy sell fee txn =
     [(''trade_id'', JStr trade_id), (''symbol'', JStr (ord_symbol buy)), (''price_cents'', JInt (fill_price f)),
      (''qty'', JInt qty), (''buy_order_id'', JStr (ord_id buy)), (''sell_order_id'', JStr (ord_id sell)),
      (''buyer_id'', JStr (ord_trader buy)), (''seller_id'', JStr (ord_trader sell)),
      (''aggressor'', JStr (aggressor_text (fill_aggressor f))), (''commission_buy_cents'', JInt fee),
      (''commission_sell_cents'', JInt fee), (''ledger_txn_id'', JStr txn)]"

definition settle_trade :: "string \<Rightarrow> fill \<Rightarrow> int \<Rightarrow> int \<Rightarrow> order_state \<Rightarrow> order_state \<Rightarrow> int \<Rightarrow> int \<Rightarrow> uuid
    \<Rightarrow> exchange_state \<Rightarrow> exchange_state" where
  \<comment> \<open>the assignments of \<open>_settle\<close> between the posting and the records of shorts\<close>
  "settle_trade trade_id f qty tick buy sell fee reserve txn ex =
     (let gross = fill_price f * qty;
          ex1 = upd_order (ord_id buy) (take_buy qty gross fee reserve) ex;
          ex2 = upd_order (ord_id sell) (take_sell qty gross fee) ex1;
          ex3 = upd_holding (ord_trader buy) (ord_symbol buy) (receive_shares qty gross) ex2;
          ex4 = upd_holding (ord_trader sell) (ord_symbol sell) (deliver_shares qty sell) ex3;
          ex5 = upd_security (ord_symbol buy) (\<lambda>s. s\<lparr>sec_last_price := fill_price f\<rparr>) ex4
      in ex5\<lparr>ex_trades := ex_trades ex5 @ [\<lparr>trd_id = trade_id, trd_symbol = ord_symbol buy, trd_tick = tick,
           trd_price = fill_price f, trd_qty = qty, trd_buy_order = ord_id buy, trd_sell_order = ord_id sell,
           trd_buyer = ord_trader buy, trd_seller = ord_trader sell, trd_aggressor = fill_aggressor f,
           trd_commission_buy = fee, trd_commission_sell = fee, trd_txn = txn\<rparr>]\<rparr>)"

definition settle_short :: "'l exchange_env \<Rightarrow> string \<Rightarrow> int \<Rightarrow> int \<Rightarrow> int \<Rightarrow> ('l, evt list) xm" where
  \<comment> \<open>the branch for a sell order that opens a short\<close>
  "settle_short X sell_id qty price tick =
     m_bind (x_order sell_id) (\<lambda>sell.
       if ''opens_short'' \<in> set (ord_flags sell) then
         let collateral = ord_reserved_cents sell * qty div max 1 (ord_remaining sell + qty)
         in m_then (x_update (upd_order sell_id (\<lambda>r. r\<lparr>ord_reserved_cents := ord_reserved_cents r - collateral\<rparr>)))
              (record_short X sell qty price collateral tick)
       else m_return [])"

definition settle :: "'l exchange_env \<Rightarrow> fill \<Rightarrow> int \<Rightarrow> ('l, evt list) xm" where
  "settle X f tick =
     m_bind (x_order (fill_buy f)) (\<lambda>buy.
     m_bind (x_order (fill_sell f)) (\<lambda>sell.
     let qty = min (fill_qty f) (min (ord_remaining buy) (ord_remaining sell)) in
     if qty \<le> 0 \<or> ord_trader buy = ord_trader sell then m_return []
     else
     let gross = fill_price f * qty; fee = commission X gross in
     m_bind (x_escrow (ord_trader buy) ''exchange'') (\<lambda>buyer_escrow.
     m_bind (x_deposit (ord_trader sell)) (\<lambda>seller_deposit.
     m_bind (x_deposit ''fm_broker'') (\<lambda>broker_deposit.
     m_bind (x_deposit (ord_trader buy)) (\<lambda>buyer_deposit.
     m_bind (case ord_limit buy of Some p \<Rightarrow> m_return p
             | None \<Rightarrow> m_bind (x_security (ord_symbol buy)) (\<lambda>s. m_return (snd (band X s)))) (\<lambda>reserve_price.
     let required = reserve_required X (ord_remaining buy - qty) reserve_price;
         release = max 0 (ord_reserved_cents buy - (gross + fee) - required) in
     m_bind (settle_legs buyer_escrow seller_deposit broker_deposit buyer_deposit (gross - fee) (fee + fee) release) (\<lambda>legs.
     m_bind (x_next_txn X tick) (\<lambda>expected.
     m_bind (x_state (\<lambda>ex. trade_name tick (length (ex_trades ex)))) (\<lambda>trade_id.
     m_bind (x_emit X 7020 (trade_payload trade_id f qty buy sell fee (xe_uuid_text X expected))
         (Some (if fill_aggressor f = AggBuy then ord_trader buy else ord_trader sell))
         [ord_trader buy, ord_trader sell, ord_symbol buy]) (\<lambda>trade_event.
     m_bind (x_post X (coalesce legs) tick trade_event) (\<lambda>txn.
     if txn \<noteq> expected then m_raise (ExRuntime ''exchange ledger ordinal diverged'')
     else
     m_bind (x_state (\<lambda>ex. hold_qty (holding_of (ord_trader buy) (ord_symbol buy) ex))) (\<lambda>old_qty.
     m_bind (x_security (ord_symbol buy)) (\<lambda>_.
     m_then (x_update (settle_trade trade_id f qty tick buy sell fee required txn))
     (m_bind (settle_short X (ord_id sell) qty (fill_price f) tick) (\<lambda>es1.
      m_bind (if old_qty < 0 then m_bind (x_order (ord_id buy)) (\<lambda>b. record_cover X b (min qty (- old_qty)) (fill_price f) tick)
              else m_return []) (\<lambda>es2.
      m_bind (fill_events X (ord_id buy)) (\<lambda>es3.
      m_bind (fill_events X (ord_id sell)) (\<lambda>es4.
        m_return (trade_event # es1 @ es2 @ es3 @ es4))))))))))))))))))))"

end
