(* ===== verification/Exchange_Market.thy ===== *)
theory Exchange_Market
  imports Exchange
begin

text \<open>
  \<open>polis/economy/exchange/engine.py\<close>, continued: listing, sessions, the admission of orders, the two
  ways of matching, circuit breakers, market data, margin calls and borrow fees, IPOs, and
  \<open>ExchangeEngine.resolve\<close>, which runs them all. The loop that cancels self-crossing orders runs on
  fuel, one step per active order of the symbol and one to stop.
\<close>

section \<open>Listing and sessions\<close>

definition list_security :: "'l exchange_env \<Rightarrow> string \<Rightarrow> string \<Rightarrow> int \<Rightarrow> int \<Rightarrow> int \<Rightarrow> (string, int) dict
    \<Rightarrow> string option \<Rightarrow> int option \<Rightarrow> ('l, evt list) xm" where
  "list_security X raw issuer shares price tick holders ipo_round lockup =
     (let symbol = upper raw in
      m_bind (x_state (\<lambda>ex. dget (ex_securities ex) symbol)) (\<lambda>found.
      if found \<noteq> None then m_raise (ExValue ''security already exists'')
      else if shares \<le> 0 \<or> price \<le> 0 then m_raise (ExValue ''listing shares and price must be positive'')
      else
      m_bind (if holders \<noteq> [] then m_return holders
              else case dget (xe_firms X) issuer of None \<Rightarrow> m_raise (ExKey issuer)
                   | Some fm \<Rightarrow> m_return [(fv_founder fm, shares)]) (\<lambda>allocation.
      if sum_list (dvals allocation) \<noteq> shares then m_raise (ExValue ''initial holdings must equal shares outstanding'')
      else
      m_bind (case lockup of None \<Rightarrow> m_return None
              | Some _ \<Rightarrow> (case dget (xe_firms X) issuer of None \<Rightarrow> m_raise (ExKey issuer)
                          | Some fm \<Rightarrow> m_return (Some (fv_founder fm)))) (\<lambda>locked_holder.
      m_then (x_update (\<lambda>ex. ex\<lparr>ex_securities := dset symbol
          \<lparr>sec_symbol = symbol, sec_issuer = issuer, sec_class = ''common'', sec_shares = shares,
           sec_listed_tick = tick, sec_listing_price = price, sec_last_price = price,
           sec_reference_price = price, sec_ipo_round = ipo_round, sec_lockup_until = lockup,
           sec_status = ''listed'', sec_delisted_tick = None, sec_halt_until = None, sec_breaker_count = 0\<rparr>
          (ex_securities ex)\<rparr>))
      (m_then (x_update (fold (\<lambda>(holder, qty). upd_holding holder symbol
           (\<lambda>h. h\<lparr>hold_qty := hold_qty h + qty, hold_avg_cost := price,
                  hold_locked := (if locked_holder = Some holder then qty else hold_locked h)\<rparr>)) (sort allocation)))
      (m_then (x_update reset_index_divisor)
      (m_bind (x_emit X 7001 [(''symbol'', JStr symbol), (''issuer_firm_id'', JStr issuer), (''class'', JStr ''common''),
          (''shares_outstanding'', JInt shares), (''listing_price_cents'', JInt price),
          (''ipo_round_id'', jopt JStr ipo_round), (''lockup_until_tick'', jopt JInt lockup)]
          None [issuer]) (\<lambda>ev. m_return [ev]))))))))"

definition bootstrap_listing :: "'l exchange_env \<Rightarrow> int \<Rightarrow> ('l, evt list) xm" where
  "bootstrap_listing X tick =
     (case xe_bootstrap_day X of None \<Rightarrow> m_return []
      | Some day \<Rightarrow>
        m_bind (x_state ex_securities) (\<lambda>secs.
        if tick \<noteq> day * xe_ticks_per_day X \<or> secs \<noteq> [] then m_return []
        else case find (\<lambda>f. fv_status f = ''active'' \<and> fv_id f \<noteq> ''fm_broker'') (sort_key fv_id (dvals (xe_firms X))) of
          None \<Rightarrow> m_return []
        | Some f \<Rightarrow> list_security X ''POLS'' (fv_id f) (xe_bootstrap_shares X) (xe_bootstrap_price X) tick
            [(fv_founder f, xe_bootstrap_shares X)] None None))"

definition session_state :: "'l exchange_env \<Rightarrow> int \<Rightarrow> bool \<times> bool \<times> bool" where
  \<comment> \<open>open, opening, closing; a day has a positive number of ticks\<close>
  "session_state X tick =
     (if xe_profile X = Chronicle then (True, True, True)
      else let hour = tick mod xe_ticks_per_day X in (9 \<le> hour \<and> hour < 16, hour = 9, hour = 16))"

definition session_name :: "int \<Rightarrow> string" where
  "session_name tick = ''xs_'' @ zpad 10 (str_int tick)"

definition map_securities :: "(security_state \<Rightarrow> security_state) \<Rightarrow> exchange_state \<Rightarrow> exchange_state" where
  "map_securities f ex = ex\<lparr>ex_securities := map (\<lambda>(k, s). (k, f s)) (ex_securities ex)\<rparr>"

definition listed_symbols :: "exchange_state \<Rightarrow> (string \<times> security_state) list" where
  "listed_symbols ex = filter (\<lambda>(k, s). sec_status s = ''listed'')
     (map (\<lambda>k. (k, the (dget (ex_securities ex) k))) (sort (dkeys (ex_securities ex))))"

definition open_session :: "'l exchange_env \<Rightarrow> int \<Rightarrow> ('l, evt list) xm" where
  "open_session X tick =
     m_then (x_update (\<lambda>ex. map_securities (\<lambda>s. s\<lparr>sec_reference_price := sec_last_price s, sec_breaker_count := 0\<rparr>)
         (ex\<lparr>ex_session_id := Some (session_name tick), ex_session_tick := Some tick\<rparr>)))
     (m_bind (x_state listed_symbols) (\<lambda>listed.
      m_bind (x_emit X 7003 [(''session_id'', JStr (session_name tick)), (''tick'', JInt tick),
          (''symbols'', JArr (map (JStr \<circ> fst) listed)), (''opening_auction'', JObj []),
          (''reference_prices'', JObj (map (\<lambda>(k, s). (k, JInt (sec_reference_price s))) listed))] None []) (\<lambda>ev.
      m_return [ev])))"

section \<open>Market data\<close>

definition bar_of :: "string \<Rightarrow> int \<Rightarrow> security_state \<Rightarrow> trade_state list \<Rightarrow> ohlcv_state" where
  "bar_of symbol tick s trades =
     (case trades of
        [] \<Rightarrow> \<lparr>bar_symbol = symbol, bar_tick = tick, bar_open = sec_last_price s, bar_high = sec_last_price s,
               bar_low = sec_last_price s, bar_close = sec_last_price s, bar_volume = 0, bar_vwap = None, bar_trades = 0\<rparr>
      | t # ts \<Rightarrow>
          let volume = (\<Sum>t\<leftarrow>trades. trd_qty t); value = (\<Sum>t\<leftarrow>trades. trd_qty t * trd_price t)
          in \<lparr>bar_symbol = symbol, bar_tick = tick, bar_open = trd_price t,
              bar_high = max_of (trd_price t) (map trd_price ts), bar_low = - max_of (- trd_price t) (map (uminus \<circ> trd_price) ts),
              bar_close = trd_price (last trades), bar_volume = volume, bar_vwap = Some (value div volume),
              bar_trades = int (length trades)\<rparr>)"

definition market_data :: "'l exchange_env \<Rightarrow> string \<Rightarrow> int \<Rightarrow> ('l, evt list) xm" where
  \<comment> \<open>trades have positive quantities, so the volume of a traded symbol is positive\<close>
  "market_data X symbol tick =
     m_bind (x_security symbol) (\<lambda>s.
     m_bind (x_state (\<lambda>ex. filter (\<lambda>t. trd_symbol t = symbol \<and> trd_tick t = tick) (ex_trades ex))) (\<lambda>trades.
     let b = bar_of symbol tick s trades in
     m_then (x_update (\<lambda>ex. ex\<lparr>ex_ohlcv := dset (symbol @ '':'' @ str_int tick) b (ex_ohlcv ex)\<rparr>))
     (m_bind (x_emit X 7040 [(''symbol'', JStr symbol), (''session_tick'', JInt tick), (''open_cents'', JInt (bar_open b)),
         (''high_cents'', JInt (bar_high b)), (''low_cents'', JInt (bar_low b)), (''close_cents'', JInt (bar_close b)),
         (''volume'', JInt (bar_volume b)), (''vwap_cents'', jopt JInt (bar_vwap b)), (''trades_n'', JInt (bar_trades b))]
         None [symbol]) (\<lambda>ev. m_return [ev]))))"

definition index_event :: "'l exchange_env \<Rightarrow> int \<Rightarrow> ('l, evt list) xm" where
  \<comment> \<open>\<open>_index\<close>\<close>
  "index_event X tick =
     m_bind (x_state (\<lambda>ex. filter (\<lambda>s. sec_status s = ''listed'' \<and> sec_class s = ''common'') (dvals (ex_securities ex)))) (\<lambda>cs.
     if cs = [] then m_return []
     else
     m_bind (x_state market_cap) (\<lambda>mcap.
     m_bind (x_state ex_index_divisor) (\<lambda>d0.
     let d = (case d0 of Some d \<Rightarrow> if d \<le> 0 then max 1 mcap else d | None \<Rightarrow> max 1 mcap);
         value = 10000 * mcap div d in
     m_then (x_update (\<lambda>ex. ex\<lparr>ex_index_divisor := Some d, ex_index_history := dset tick value (ex_index_history ex)\<rparr>))
     (m_bind (x_emit X 7041 [(''index_name'', JStr ''POLIS_ALL''), (''value_bp'', JInt value), (''divisor'', JInt d),
         (''constituents'', JArr (map JStr (sort (map sec_symbol cs)))), (''mcap_cents'', JInt mcap)] None []) (\<lambda>ev.
      m_return [ev])))))"

definition levels_of :: "side \<Rightarrow> string \<Rightarrow> exchange_state \<Rightarrow> (int, int) dict" where
  "levels_of sd symbol ex =
     fold (\<lambda>r d. case ord_limit r of None \<Rightarrow> d | Some p \<Rightarrow> dset p (dget_or d p 0 + ord_remaining r) d)
       (filter (\<lambda>r. ord_symbol r = symbol \<and> ord_side r = sd \<and> active r) (dvals (ex_orders ex))) []"

definition level_json :: "string \<Rightarrow> int \<times> int \<Rightarrow> json" where
  "level_json sd l = JObj [(''side'', JStr sd), (''price_cents'', JInt (fst l)), (''qty'', JInt (snd l))]"

definition book_snapshot :: "'l exchange_env \<Rightarrow> string \<Rightarrow> ('l, evt list) xm" where
  "book_snapshot X symbol =
     m_bind (x_state (levels_of Buy symbol)) (\<lambda>bids.
     m_bind (x_state (levels_of Sell symbol)) (\<lambda>asks.
     let best_bid = (case dkeys bids of [] \<Rightarrow> None | p # ps \<Rightarrow> Some (max_of p ps));
         best_ask = (case dkeys asks of [] \<Rightarrow> None | p # ps \<Rightarrow> Some (- max_of (- p) (map uminus ps)))
     in m_bind (x_emit X 7030 [(''symbol'', JStr symbol), (''best_bid_cents'', jopt JInt best_bid),
         (''best_ask_cents'', jopt JInt best_ask), (''bid_depth'', JInt (sum_list (dvals bids))),
         (''ask_depth'', JInt (sum_list (dvals asks))),
         (''levels'', JArr (map (level_json ''buy'') (take 5 (rev (sort bids)))
             @ map (level_json ''sell'') (take 5 (sort asks))))] None [symbol]) (\<lambda>ev. m_return [ev])))"

definition close_session :: "'l exchange_env \<Rightarrow> int \<Rightarrow> ('l, evt list) xm" where
  "close_session X tick =
     m_bind (x_state order_ids) (\<lambda>ids.
     m_bind (m_for (\<lambda>i. cancel_order X i tick ''session'' True) ids) (\<lambda>es1.
     m_bind (x_state (\<lambda>ex. filter (\<lambda>t. trd_tick t = tick) (ex_trades ex))) (\<lambda>trades.
     m_bind (x_state (map fst \<circ> listed_symbols)) (\<lambda>symbols.
     m_bind (m_for (\<lambda>s. market_data X s tick) symbols) (\<lambda>es2.
     m_bind (index_event X tick) (\<lambda>es3.
     m_bind (x_state ex_session_id) (\<lambda>sid.
     m_bind (x_emit X 7004 [(''session_id'', JStr (case sid of Some i \<Rightarrow> if i = [] then session_name tick else i | None \<Rightarrow> session_name tick)),
         (''tick'', JInt tick), (''closing_auction'', JObj []), (''trades_n'', JInt (int (length trades))),
         (''volume'', JInt (\<Sum>t\<leftarrow>trades. trd_qty t)), (''notional_cents'', JInt (\<Sum>t\<leftarrow>trades. trd_qty t * trd_price t))]
         None []) (\<lambda>ev.
     m_then (x_update (\<lambda>ex. ex\<lparr>ex_session_id := None, ex_session_tick := None\<rparr>))
       (m_return (es1 @ es2 @ es3 @ [ev]))))))))))"

section \<open>Halts\<close>

definition trigger_breaker :: "'l exchange_env \<Rightarrow> string \<Rightarrow> int \<Rightarrow> int \<Rightarrow> ('l, evt list) xm" where
  "trigger_breaker X symbol tick price =
     m_then (x_update (upd_security symbol (\<lambda>s. s\<lparr>sec_breaker_count := sec_breaker_count s + 1,
         sec_halt_until := Some (tick + xe_halt_ticks X)\<rparr>)))
     (m_bind (x_security symbol) (\<lambda>s.
      m_bind (x_emit X 7050 [(''symbol'', JStr symbol), (''reference_cents'', JInt (sec_reference_price s)),
          (''last_cents'', JInt price),
          (''move_bp'', JInt (10000 * (price - sec_reference_price s) div max 1 (sec_reference_price s))),
          (''band_bp'', JInt (xe_band_bp X)), (''halt_until_tick'', jopt JInt (sec_halt_until s)),
          (''breaker_count'', JInt (sec_breaker_count s))] None [symbol]) (\<lambda>ev. m_return [ev])))"

definition resume_halts :: "'l exchange_env \<Rightarrow> int \<Rightarrow> ('l, evt list) xm" where
  \<comment> \<open>a security's symbol is its key\<close>
  "resume_halts X tick =
     m_bind (x_state (\<lambda>ex. sort (dkeys (ex_securities ex)))) (m_for (\<lambda>symbol.
       m_bind (x_security symbol) (\<lambda>s.
       case sec_halt_until s of None \<Rightarrow> m_return []
       | Some until \<Rightarrow>
           if tick < until then m_return []
           else
           m_then (x_update (upd_security symbol (\<lambda>s. s\<lparr>sec_halt_until := None, sec_reference_price := sec_last_price s\<rparr>)))
           (m_bind (x_emit X 7051 [(''symbol'', JStr symbol), (''reopen_auction_price_cents'', JInt (sec_last_price s)),
               (''new_band_bp'', JInt (if xe_max_halts X \<le> sec_breaker_count s then 5000 else xe_band_bp X))]
             None [symbol]) (\<lambda>ev. m_return [ev])))))"

section \<open>Matching\<close>

definition settle_in_band :: "'l exchange_env \<Rightarrow> string \<Rightarrow> int \<Rightarrow> fill \<Rightarrow> ('l, evt list \<times> bool) xm" where
  \<comment> \<open>the body of the loops over fills: the flag is the \<open>break\<close>\<close>
  "settle_in_band X symbol tick f =
     m_bind (x_security symbol) (\<lambda>s.
       if in_band X s (fill_price f) then m_bind (settle X f tick) (\<lambda>es. m_return (es, False))
       else m_bind (trigger_breaker X symbol tick (fill_price f)) (\<lambda>es. m_return (es, True)))"

definition self_crosses :: "string \<Rightarrow> exchange_state \<Rightarrow> (order_state \<times> order_state) list" where
  "self_crosses symbol ex =
     (let act = filter (\<lambda>r. ord_symbol r = symbol \<and> active r) (dvals (ex_orders ex))
      in concat (map (\<lambda>b. map (\<lambda>a. (b, a)) (filter (\<lambda>a. ord_side a = Sell \<and> ord_trader b = ord_trader a \<and> crosses b a) act))
           (filter (\<lambda>r. ord_side r = Buy) act)))"

definition newer_order :: "order_state \<Rightarrow> order_state \<Rightarrow> order_state" where
  "newer_order b a =
     (if (ord_submitted b, ord_arrival b, ord_id b) < (ord_submitted a, ord_arrival a, ord_id a) then a else b)"

fun first_min :: "('a \<Rightarrow> 'k::linorder) \<Rightarrow> 'a \<Rightarrow> 'a list \<Rightarrow> 'a" where
  \<comment> \<open>\<open>min(x, *xs, key=k)\<close>\<close>
  "first_min k x [] = x"
| "first_min k x (y # ys) = first_min k (if k y < k x then y else x) ys"

fun self_cross_loop :: "'l exchange_env \<Rightarrow> string \<Rightarrow> int \<Rightarrow> nat \<Rightarrow> ('l, evt list) xm" where
  "self_cross_loop X symbol tick 0 = m_raise ExFuel"
| "self_cross_loop X symbol tick (Suc fuel) =
     m_bind (x_state (self_crosses symbol)) (\<lambda>pairs.
     case pairs of [] \<Rightarrow> m_return []
     | p # ps \<Rightarrow>
         let (b, a) = first_min (\<lambda>(b, a). (ord_trader b, ord_id b, ord_id a)) p ps
         in m_bind (cancel_order X (ord_id (newer_order b a)) tick ''stp'' False) (\<lambda>es.
            m_bind (self_cross_loop X symbol tick fuel) (\<lambda>es'. m_return (es @ es'))))"

definition active_count :: "string \<Rightarrow> exchange_state \<Rightarrow> nat" where
  "active_count symbol ex = length (filter (\<lambda>r. ord_symbol r = symbol \<and> active r) (dvals (ex_orders ex)))"

definition cancel_self_crosses :: "'l exchange_env \<Rightarrow> string \<Rightarrow> int \<Rightarrow> ('l, evt list) xm" where
  "cancel_self_crosses X symbol tick =
     m_bind (x_state (active_count symbol)) (\<lambda>n. self_cross_loop X symbol tick (Suc n))"

definition match_call :: "'l exchange_env \<Rightarrow> string \<Rightarrow> int \<Rightarrow> ('l, evt list) xm" where
  "match_call X symbol tick =
     m_bind (x_security symbol) (\<lambda>s.
     if sec_status s \<noteq> ''listed'' then m_return []
     else
     m_bind (x_state (\<lambda>ex. filter (\<lambda>r. ord_symbol r = symbol \<and> active r) (dvals (ex_orders ex)))) (\<lambda>orders.
     m_bind (m_for_until (settle_in_band X symbol tick) (call_auction orders (sec_reference_price s))) (\<lambda>es1.
     m_bind (cancel_self_crosses X symbol tick) (\<lambda>es2.
     m_bind (x_state order_ids) (\<lambda>ids.
     m_bind (m_for (\<lambda>i. m_bind (x_order i) (\<lambda>r.
         m_when (ord_symbol r = symbol \<and> ord_type r = MarketOrder \<and> active r)
           (cancel_order X i tick ''market_unfilled'' False))) ids) (\<lambda>es3.
     m_bind (book_snapshot X symbol) (\<lambda>es4.
     m_return (es1 @ es2 @ es3 @ es4))))))))"

definition match_continuous :: "'l exchange_env \<Rightarrow> string \<Rightarrow> int \<Rightarrow> ('l, evt list) xm" where
  \<comment> \<open>the first loop looks at every other order of the table, whatever its symbol, side or status\<close>
  "match_continuous X i tick =
     m_bind (x_order i) (\<lambda>incoming.
     m_bind (x_security (ord_symbol incoming)) (\<lambda>_.
     m_bind (x_state (\<lambda>ex. map ord_id (filter (\<lambda>r. ord_id r \<noteq> ord_id incoming \<and> ord_submitted r \<le> tick)
         (dvals (ex_orders ex))))) (\<lambda>resting.
     m_bind (m_for (\<lambda>j. m_bind (x_order j) (\<lambda>r.
         m_when (ord_trader r = ord_trader incoming \<and> crosses incoming r)
           (cancel_order X j tick ''stp'' False))) (sort resting)) (\<lambda>es1.
     m_bind (x_state (\<lambda>ex. filter active (map (\<lambda>j. the (dget (ex_orders ex) j)) resting))) (\<lambda>rs.
     m_bind (m_for_until (\<lambda>f.
         m_bind (settle_in_band X (ord_symbol incoming) tick f) (\<lambda>(es, stop).
         m_bind (x_order i) (\<lambda>r. m_return (es, stop \<or> ord_status r = StFilled)))) (continuous_matches incoming rs)) (\<lambda>es2.
     m_bind (x_order i) (\<lambda>r.
     m_bind (m_when (ord_type r = MarketOrder \<and> active r) (cancel_order X i tick ''market_unfilled'' False)) (\<lambda>es3.
     m_bind (book_snapshot X (ord_symbol incoming)) (\<lambda>es4.
     m_return (es1 @ es2 @ es3 @ es4))))))))))"

section \<open>Admission\<close>

definition reject :: "'l exchange_env \<Rightarrow> exchange_action \<Rightarrow> string \<Rightarrow> string \<Rightarrow> payload \<Rightarrow> ('l, evt) xm" where
  "reject X a symbol reason detail =
     x_emit X 7011 [(''trader_id'', JStr (xa_actor a)), (''symbol'', JStr symbol), (''reason'', JStr reason),
       (''detail'', JObj detail)] (Some (xa_actor a)) (if symbol \<noteq> [] then [symbol] else [])"

definition rejected :: "'l exchange_env \<Rightarrow> exchange_action \<Rightarrow> string \<Rightarrow> string \<Rightarrow> payload
    \<Rightarrow> ('l, string option \<times> evt list) xm" where
  \<comment> \<open>\<open>return None, (self._reject(...),)\<close>\<close>
  "rejected X a symbol reason detail = m_bind (reject X a symbol reason detail) (\<lambda>ev. m_return (None, [ev]))"

definition ipo_indication :: "'l exchange_env \<Rightarrow> exchange_action \<Rightarrow> string \<Rightarrow> int \<Rightarrow> ('l, evt list) xm" where
  "ipo_indication X a symbol tick =
     m_bind (x_state (\<lambda>ex. find (\<lambda>p. ipo_symbol p = symbol \<and> ipo_status p = ''announced'') (dvals (ex_ipos ex)))) (\<lambda>found.
     case found of
       None \<Rightarrow> m_bind (reject X a symbol ''no_security'' [(''ipo'', JStr ''closed'')]) (\<lambda>ev. m_return [ev])
     | Some ipo \<Rightarrow>
       if ipo_close ipo < tick
       then m_bind (reject X a symbol ''no_security'' [(''ipo'', JStr ''closed'')]) (\<lambda>ev. m_return [ev])
       else
       m_bind (case xp_limit a of None \<Rightarrow> m_return 0 | Some None \<Rightarrow> m_raise (ExType ''int(None)'')
               | Some (Some p) \<Rightarrow> m_return p) (\<lambda>limit_price.
       let qty = xp_qty a; required = qty * limit_price in
       if qty \<le> 0 \<or> \<not> (ipo_low ipo \<le> limit_price \<and> limit_price \<le> ipo_high ipo)
       then m_bind (reject X a symbol ''price_band'' [(''ipo'', JBool True)]) (\<lambda>ev. m_return [ev])
       else
       m_bind (x_ledger (deposit_account (xa_actor a))) (\<lambda>d.
       case d of Inl _ \<Rightarrow> m_bind (reject X a symbol ''insufficient_reservation'' []) (\<lambda>ev. m_return [ev])
       | Inr deposit \<Rightarrow>
         m_bind (x_ledger (\<lambda>l. balance l deposit)) (\<lambda>rb.
         m_bind (x_res rb) (\<lambda>funds.
         if funds < required
         then m_bind (reject X a symbol ''insufficient_reservation'' [(''required_cents'', JInt required)]) (\<lambda>ev. m_return [ev])
         else
         m_bind (escrow_account X (xa_actor a) ''exchange'' tick) (\<lambda>(escrow, opened).
         m_bind (x_emit X 7071 [(''firm_id'', JStr (ipo_firm ipo)), (''investor_id'', JStr (xa_actor a)),
             (''qty'', JInt qty), (''limit_price_cents'', JInt limit_price)] (Some (xa_actor a)) [ipo_firm ipo]) (\<lambda>ev.
         m_bind (x_transfer deposit escrow required ''escrow'') (\<lambda>legs.
         m_bind (x_post X legs tick ev) (\<lambda>_.
         if dget (ipo_indications ipo) (xa_actor a) \<noteq> None
         then m_raise (ExValue ''one IPO indication per investor is permitted'')
         else m_then (x_update (\<lambda>ex. ex\<lparr>ex_ipos := dset (ipo_id ipo)
             (ipo\<lparr>ipo_indications := dset (xa_actor a) (qty, limit_price) (ipo_indications ipo)\<rparr>) (ex_ipos ex)\<rparr>))
           (m_return (opened @ [ev])))))))))))"

definition max_order_qty :: "'l exchange_env \<Rightarrow> security_state \<Rightarrow> int" where
  "max_order_qty X s = max 1 (sec_shares s * xe_max_order_qty_bp X div 10000)"

definition aggregate_short :: "string \<Rightarrow> exchange_state \<Rightarrow> int" where
  "aggregate_short symbol ex = (\<Sum>h\<leftarrow>filter (\<lambda>h. hold_symbol h = symbol) (dvals (ex_holdings ex)). max 0 (- hold_qty h))"

definition bad_price :: "'l exchange_env \<Rightarrow> security_state \<Rightarrow> int option \<Rightarrow> bool" where
  \<comment> \<open>a given limit that is not positive, off the price grid or outside the band\<close>
  "bad_price X s limit \<longleftrightarrow> opt_ex (\<lambda>p. p \<le> 0 \<or> p mod xe_tick_size X \<noteq> 0 \<or> \<not> in_band X s p) limit"

definition order_flags :: "exchange_action \<Rightarrow> string list" where
  \<comment> \<open>\<open>tuple(sorted({*flags, "opens_short"}))\<close> for a short sale\<close>
  "order_flags a = (if xa_kind a = ShortSale then sort (remdups (xp_flags a @ [''opens_short''])) else xp_flags a)"

definition order_name :: "uuid \<Rightarrow> string" where
  "order_name u = ''or_'' @ take 24 (uuid_hex u)"

definition side_text :: "side \<Rightarrow> string" where
  "side_text sd = (case sd of Buy \<Rightarrow> ''buy'' | Sell \<Rightarrow> ''sell'')"

definition place_order :: "'l exchange_env \<Rightarrow> exchange_action \<Rightarrow> string \<Rightarrow> int \<Rightarrow> int \<Rightarrow> side \<Rightarrow> order_type \<Rightarrow> int option
    \<Rightarrow> int \<Rightarrow> int \<Rightarrow> string option \<Rightarrow> evt list \<Rightarrow> ('l, string option \<times> evt list) xm" where
  \<comment> \<open>the end of \<open>_admit\<close>, after the reservation is decided: the order, its event, the escrow posting\<close>
  "place_order X a symbol ordinal tick sd ot limit cents qty_reserved escrow events =
     (let i = order_name (xa_id a);
          r = \<lparr>ord_id = i, ord_symbol = symbol, ord_trader = xa_actor a, ord_side = sd, ord_type = ot,
               ord_qty = xp_qty a, ord_remaining = xp_qty a, ord_limit = limit, ord_submitted = tick,
               ord_arrival = ordinal, ord_tif = ''day'', ord_status = StOpen, ord_reserved_cents = cents,
               ord_reserved_qty = qty_reserved, ord_filled_qty = 0, ord_filled_notional = 0, ord_commission = 0,
               ord_flags = order_flags a\<rparr>
      in m_bind (x_emit X 7010 [(''order_id'', JStr i), (''symbol'', JStr symbol), (''trader_id'', JStr (xa_actor a)),
             (''side'', JStr (side_text sd)), (''order_type'', JStr (case ot of LimitOrder \<Rightarrow> ''limit'' | MarketOrder \<Rightarrow> ''market'')),
             (''limit_price_cents'', jopt JInt limit), (''qty'', JInt (xp_qty a)), (''tif'', JStr ''day''),
             (''reserved_cents'', JInt cents), (''reserved_qty'', JInt qty_reserved), (''arrival_ordinal'', JInt ordinal)]
             (Some (xa_actor a)) [symbol]) (\<lambda>submitted.
         m_then (if cents \<noteq> 0 then
             m_bind (x_deposit (xa_actor a)) (\<lambda>src.
             m_bind (case escrow of None \<Rightarrow> m_raise (ExKey ''escrow'') | Some v \<Rightarrow> m_return v) (\<lambda>v.
             m_bind (x_transfer src v cents ''escrow'') (\<lambda>legs.
             m_then (x_post X legs tick submitted) (m_return ()))))
           else m_return ())
         (m_then (x_update (\<lambda>ex. ex\<lparr>ex_orders := dset i r (ex_orders ex)\<rparr>))
           (m_return (Some i, events @ [submitted])))))"

definition admit_funded :: "'l exchange_env \<Rightarrow> exchange_action \<Rightarrow> string \<Rightarrow> int \<Rightarrow> string \<Rightarrow> payload
    \<Rightarrow> (string \<times> evt list \<Rightarrow> ('l, string option \<times> evt list) xm) \<Rightarrow> string \<Rightarrow> int \<Rightarrow> ('l, string option \<times> evt list) xm" where
  \<comment> \<open>the deposit must exist and hold \<open>needed\<close>; then the escrow account with the reference is opened\<close>
  "admit_funded X a symbol needed ref detail next_step reason tick =
     m_bind (x_ledger (deposit_account (xa_actor a))) (\<lambda>d.
     case d of Inl _ \<Rightarrow> rejected X a symbol reason []
     | Inr deposit \<Rightarrow>
       m_bind (x_ledger (\<lambda>l. balance l deposit)) (\<lambda>rb.
       m_bind (x_res rb) (\<lambda>funds.
       if funds < needed then rejected X a symbol reason detail
       else m_bind (escrow_account X (xa_actor a) ref tick) next_step)))"

definition admit_checked :: "'l exchange_env \<Rightarrow> exchange_action \<Rightarrow> string \<Rightarrow> int \<Rightarrow> int \<Rightarrow> security_state \<Rightarrow> side \<Rightarrow> order_type
    \<Rightarrow> int option \<Rightarrow> ('l, string option \<times> evt list) xm" where
  \<comment> \<open>the reservation step of \<open>_admit\<close>\<close>
  "admit_checked X a symbol ordinal tick s sd ot limit =
     (let qty = xp_qty a; reserve_price = (case limit of Some p \<Rightarrow> p | None \<Rightarrow> snd (band X s)) in
      if sd = Buy then
        let cents = reserve_required X qty reserve_price in
        admit_funded X a symbol cents ''exchange'' [(''required_cents'', JInt cents)]
          (\<lambda>(v, opened). place_order X a symbol ordinal tick sd ot limit cents 0 (Some v) opened)
          ''insufficient_reservation'' tick
      else if ''opens_short'' \<in> set (order_flags a) then
        let collateral = xp_collateral a; required = bp_ceil_up (qty * reserve_price) (xe_initial_margin_bp X) in
        if collateral < required
        then rejected X a symbol ''insufficient_reservation'' [(''required_collateral_cents'', JInt required)]
        else admit_funded X a symbol collateral (margin_ref symbol) []
          (\<lambda>(v, opened). place_order X a symbol ordinal tick sd ot limit collateral 0 (Some v) opened)
          ''insufficient_reservation'' tick
      else
        m_bind (x_state (holding_of (xa_actor a) symbol)) (\<lambda>h.
        m_then (x_update (upd_holding (xa_actor a) symbol (\<lambda>h. h)))
        (let locked = (if ''forced_liquidation'' \<in> set (xp_flags a) then 0 else hold_locked h);
             available = hold_qty h - hold_reserved h - locked
         in if max 0 available < qty
            then rejected X a symbol (if hold_locked h \<noteq> 0 then ''lockup'' else ''insufficient_reservation'')
                   [(''available_qty'', JInt (max 0 available))]
            else m_then (x_update (upd_holding (xa_actor a) symbol (\<lambda>h. h\<lparr>hold_reserved := hold_reserved h + qty\<rparr>)))
                   (place_order X a symbol ordinal tick sd ot limit 0 qty None []))))"

definition admit :: "'l exchange_env \<Rightarrow> exchange_action \<Rightarrow> string \<Rightarrow> int \<Rightarrow> int \<Rightarrow> bool
    \<Rightarrow> ('l, string option \<times> evt list) xm" where
  \<comment> \<open>\<open>_admit\<close>; the order is returned as its identifier\<close>
  "admit X a symbol ordinal tick session_open =
     (if xa_kind a = SubmitOrder \<and> ''ipo'' \<in> set (xp_flags a)
      then m_bind (ipo_indication X a symbol tick) (\<lambda>es. m_return (None, es))
      else if under_stay X (xa_actor a) \<and> ''forced_liquidation'' \<notin> set (xp_flags a) then rejected X a symbol ''stay'' []
      else
      m_bind (x_state (\<lambda>ex. dget (ex_securities ex) symbol)) (\<lambda>found.
      case found of None \<Rightarrow> rejected X a symbol ''no_security'' []
      | Some s \<Rightarrow>
        if sec_status s \<noteq> ''listed'' then rejected X a symbol ''no_security'' []
        else if \<not> session_open then rejected X a symbol ''session_closed'' []
        else if opt_ex (\<lambda>h. tick < h) (sec_halt_until s) then rejected X a symbol ''halted'' []
        else if xp_qty a \<le> 0 \<or> max_order_qty X s < xp_qty a
        then rejected X a symbol ''rate_limit'' [(''max_order_qty'', JInt (max_order_qty X s))]
        else
        let side_name = opt_or (xp_side a) (if xa_kind a = ShortSale then ''sell'' else []);
            type_name = opt_or (xp_order_type a) ''limit'';
            limit = (case xp_limit a of None \<Rightarrow> None | Some x \<Rightarrow> x) in
        if side_name \<noteq> ''buy'' \<and> side_name \<noteq> ''sell'' then rejected X a symbol ''invalid_side'' []
        else if type_name \<noteq> ''limit'' \<and> type_name \<noteq> ''market'' then rejected X a symbol ''invalid_order_type'' []
        else if type_name = ''limit'' \<and> limit = None then rejected X a symbol ''invalid_price'' []
        else if bad_price X s limit
        then rejected X a symbol ''price_band'' [(''lower_cents'', JInt (fst (band X s))), (''upper_cents'', JInt (snd (band X s)))]
        else
        let sd = (if side_name = ''buy'' then Buy else Sell);
            ot = (if type_name = ''limit'' then LimitOrder else MarketOrder);
            cap = sec_shares s * xe_max_short_bp X div 10000 in
        m_bind (x_state (aggregate_short symbol)) (\<lambda>shorted.
        if xa_kind a = ShortSale \<and> cap < shorted + xp_qty a
        then rejected X a symbol ''short_cap'' [(''cap_qty'', JInt cap)]
        else admit_checked X a symbol ordinal tick s sd ot limit)))"

section \<open>Short positions\<close>

definition margin_call :: "'l exchange_env \<Rightarrow> string \<Rightarrow> short_position \<Rightarrow> int \<Rightarrow> int \<Rightarrow> int \<Rightarrow> ('l, evt list) xm" where
  "margin_call X key p equity required tick =
     (let deadline = tick + xe_ticks_per_day X in
      m_then (x_update (\<lambda>ex. ex\<lparr>ex_shorts := dset key (p\<lparr>sp_deadline := Some deadline\<rparr>) (ex_shorts ex)\<rparr>))
      (m_bind (x_emit X 7063 [(''trader_id'', JStr (sp_trader p)), (''symbol'', JStr (sp_symbol p)),
          (''equity_cents'', JInt equity), (''required_cents'', JInt required), (''deadline_tick'', JInt deadline)]
          (Some (sp_trader p)) [sp_symbol p]) (\<lambda>ev. m_return [ev])))"

fun fee_legs :: "string \<Rightarrow> (string \<times> int) list \<Rightarrow> ('l, leg list) xm" where
  "fee_legs src [] = m_return []"
| "fee_legs src ((holder, cents) # rest) =
     m_bind (if cents \<noteq> 0 then m_bind (x_deposit holder) (\<lambda>d. x_transfer src d cents ''trade'') else m_return []) (\<lambda>a.
     m_bind (fee_legs src rest) (\<lambda>b. m_return (a @ b)))"

definition borrow_fee :: "'l exchange_env \<Rightarrow> short_position \<Rightarrow> int \<Rightarrow> int \<Rightarrow> ('l, evt list) xm" where
  \<comment> \<open>the daily fee of a short, shared among the holders of the stock\<close>
  "borrow_fee X p mark tick =
     (let year = xe_ticks_per_day X * xe_days_per_year X;
          fee = bp_ceil_up (mark * sp_qty p) (sp_borrow_fee_bp p) div max 1 (year div xe_ticks_per_day X) in
      m_bind (x_state (\<lambda>ex. map (\<lambda>h. (hold_holder h, hold_qty h))
          (filter (\<lambda>h. hold_symbol h = sp_symbol p \<and> 0 < hold_qty h) (dvals (ex_holdings ex))))) (\<lambda>longs.
      m_bind (x_deposit (sp_trader p)) (\<lambda>src.
      m_bind (x_ledger (\<lambda>l. balance l src)) (\<lambda>rb.
      m_bind (x_res rb) (\<lambda>funds.
      if \<not> (0 < fee \<and> longs \<noteq> [] \<and> fee \<le> funds) then m_return []
      else
      m_bind (m_res (case allocate fee longs of Inl e \<Rightarrow> Inl (ExMoney e) | Inr d \<Rightarrow> Inr d)) (\<lambda>distribution.
      m_bind (fee_legs src (sort distribution)) (\<lambda>legs.
      m_bind (x_next_txn X tick) (\<lambda>expected.
      m_bind (x_emit X 7062 [(''trader_id'', JStr (sp_trader p)), (''symbol'', JStr (sp_symbol p)), (''cents'', JInt fee),
          (''distributed_to'', JObj (map (\<lambda>(k, c). (k, JInt c)) (sort distribution))),
          (''txn_id'', JStr (xe_uuid_text X expected))] (Some (sp_trader p)) [sp_symbol p]) (\<lambda>ev.
      m_bind (x_post X (coalesce legs) tick ev) (\<lambda>txn.
      if txn \<noteq> expected then m_raise (ExRuntime ''borrow-fee ledger ordinal diverged'')
      else m_return [ev]))))))))))"

definition mark_short :: "'l exchange_env \<Rightarrow> int \<Rightarrow> string \<Rightarrow> ('l, evt list) xm" where
  \<comment> \<open>the body of the loop of \<open>_mark_shorts\<close>\<close>
  "mark_short X tick key =
     m_bind (x_state (\<lambda>ex. dget (ex_shorts ex) key)) (\<lambda>found.
     case found of None \<Rightarrow> m_raise (ExKey key)
     | Some p \<Rightarrow>
       if sp_status p \<noteq> ''open'' \<or> sp_qty p \<le> 0 then m_return []
       else m_bind (x_security (sp_symbol p)) (\<lambda>s.
         if xe_ticks_per_day X = 0 then m_raise ExZeroDivision
         else
         let mark = sec_last_price s;
             loss = max 0 ((mark - sp_entry_price p) * sp_qty p);
             equity = sp_collateral p - loss;
             required = bp_ceil_up (mark * sp_qty p) (xe_maintenance_margin_bp X)
         in m_bind (m_when (equity < required \<and> sp_deadline p = None) (margin_call X key p equity required tick)) (\<lambda>es1.
            m_bind (m_when (sp_opened_tick p < tick \<and> tick mod xe_ticks_per_day X = 0) (borrow_fee X p mark tick)) (\<lambda>es2.
            m_return (es1 @ es2)))))"

definition mark_shorts :: "'l exchange_env \<Rightarrow> int \<Rightarrow> ('l, evt list) xm" where
  "mark_shorts X tick = m_bind (x_state (\<lambda>ex. sort (dkeys (ex_shorts ex)))) (m_for (mark_short X tick))"

definition py_dict_repr :: "'l exchange_env \<Rightarrow> short_position \<Rightarrow> string" where
  \<comment> \<open>\<open>str(params)\<close> of a forced cover\<close>
  "py_dict_repr X p = ''{'' @ xe_repr X ''symbol'' @ '': '' @ xe_repr X (sp_symbol p) @ '', '' @ xe_repr X ''side'' @ '': ''
     @ xe_repr X ''buy'' @ '', '' @ xe_repr X ''order_type'' @ '': '' @ xe_repr X ''market'' @ '', '' @ xe_repr X ''qty'' @ '': ''
     @ str_int (sp_qty p) @ '', '' @ xe_repr X ''limit_price_cents'' @ '': None, '' @ xe_repr X ''flags'' @ '': [''
     @ xe_repr X ''forced_liquidation'' @ '']}''"

definition cover_action :: "'l exchange_env \<Rightarrow> int \<Rightarrow> short_position \<Rightarrow> exchange_action" where
  "cover_action X tick p =
     \<lparr>xa_id = det_uuid (xe_uuid5_url X) ''polis.action''
        [sp_trader p, str_int tick, ''0'', ''SUBMIT_ORDER'', py_dict_repr X p],
      xa_actor = sp_trader p, xa_kind = SubmitOrder, xp_symbol = sp_symbol p, xp_side = Some ''buy'',
      xp_order_type = Some ''market'', xp_qty = sp_qty p, xp_limit = Some None, xp_flags = [''forced_liquidation''],
      xp_collateral = 0, xp_order_id = [], xp_firm = [], xp_shares = 0, xp_primary = 0, xp_secondary = 0,
      xp_low = 0, xp_high = 0, xp_underwriter = []\<rparr>"

definition forced_cover_actions :: "'l exchange_env \<Rightarrow> int \<Rightarrow> exchange_state \<Rightarrow> exchange_action list" where
  "forced_cover_actions X tick ex =
     map (cover_action X tick) (filter (\<lambda>p. sp_status p = ''open'' \<and> 0 < sp_qty p
         \<and> opt_ex (\<lambda>d. d \<le> tick) (sp_deadline p)
         \<and> \<not> list_ex (\<lambda>r. ord_trader r = sp_trader p \<and> ord_symbol r = sp_symbol p
               \<and> ''forced_liquidation'' \<in> set (ord_flags r) \<and> active r) (dvals (ex_orders ex)))
       (sort_key (\<lambda>p. (sp_trader p, sp_symbol p)) (dvals (ex_shorts ex))))"

section \<open>IPOs\<close>

definition ipo_ineligible :: "'l exchange_env \<Rightarrow> exchange_action \<Rightarrow> string \<Rightarrow> exchange_state \<Rightarrow> firm_view option \<Rightarrow> bool" where
  "ipo_ineligible X a symbol ex firm \<longleftrightarrow>
     (case firm of None \<Rightarrow> True
      | Some f \<Rightarrow> fv_founder f \<noteq> xa_actor a \<or> under_stay X (xp_firm a)
          \<or> dget (ex_securities ex) symbol \<noteq> None
          \<or> list_ex (\<lambda>p. ipo_symbol p = symbol \<and> ipo_status p = ''announced'') (dvals (ex_ipos ex)))"

definition ipo_invalid :: "'l exchange_env \<Rightarrow> exchange_action \<Rightarrow> int \<Rightarrow> ledger \<Rightarrow> firm_view \<Rightarrow> bool" where
  "ipo_invalid X a tick l f \<longleftrightarrow>
     (let founded = (case find (\<lambda>(firm, t). firm = xp_firm a) (xe_startups X) of None \<Rightarrow> 0 | Some (_, t) \<Rightarrow> t);
          fees = bp_ceil_up (xp_shares a * xp_high a) (xe_underwriting_fee_bp X) + xe_listing_fee X
      in xp_shares a \<le> 0 \<or> xp_primary a < 0 \<or> xp_secondary a < 0 \<or> xp_primary a + xp_secondary a \<noteq> xp_shares a
         \<or> xp_low a \<le> 0 \<or> xp_high a < xp_low a
         \<or> tick - founded < xe_ipo_min_age_days X * xe_ticks_per_day X
         \<or> fv_revenue f < xe_ipo_min_revenue X \<or> net_worth l (xp_firm a) \<le> 0
         \<or> (case dget (xe_banks X) (xp_underwriter a) of None \<Rightarrow> True
            | Some b \<Rightarrow> bv_central b \<or> bv_status b \<noteq> ''active'' \<or> bv_frozen b)
         \<or> liquid l (xp_firm a) < fees)"

definition announce_ipo :: "'l exchange_env \<Rightarrow> exchange_action \<Rightarrow> int \<Rightarrow> ('l, evt list) xm" where
  "announce_ipo X a tick =
     (let symbol = upper (xp_symbol a); firm = dget (xe_firms X) (xp_firm a) in
      m_bind (x_state (\<lambda>ex. ipo_ineligible X a symbol ex firm)) (\<lambda>ineligible.
      if ineligible then m_bind (reject X a symbol ''no_security'' [(''ipo'', JStr ''ineligible'')]) (\<lambda>ev. m_return [ev])
      else
      m_bind (x_ledger (\<lambda>l. ipo_invalid X a tick l (the firm))) (\<lambda>invalid.
      if invalid then m_bind (reject X a symbol ''invalid_ipo'' [(''ipo'', JStr ''eligibility_or_fee_funding'')]) (\<lambda>ev. m_return [ev])
      else
      let i = ''ipo_'' @ take 20 (uuid_hex (xa_id a)); close_tick = tick + xe_ipo_book_days X * xe_ticks_per_day X in
      m_then (x_update (\<lambda>ex. ex\<lparr>ex_ipos := dset i
          \<lparr>ipo_id = i, ipo_firm = xp_firm a, ipo_symbol = symbol, ipo_offered = xp_shares a, ipo_primary = xp_primary a,
           ipo_secondary = xp_secondary a, ipo_low = xp_low a, ipo_high = xp_high a, ipo_underwriter = xp_underwriter a,
           ipo_announced = tick, ipo_close = close_tick, ipo_indications = [], ipo_status = ''announced''\<rparr> (ex_ipos ex)\<rparr>))
      (m_bind (x_emit X 7070 [(''firm_id'', JStr (xp_firm a)), (''symbol'', JStr symbol), (''shares_offered'', JInt (xp_shares a)),
          (''primary_shares'', JInt (xp_primary a)), (''secondary_shares'', JInt (xp_secondary a)),
          (''price_low_cents'', JInt (xp_low a)), (''price_high_cents'', JInt (xp_high a)),
          (''underwriter_bank_id'', JStr (xp_underwriter a)), (''book_close_tick'', JInt close_tick)]
          (Some (xa_actor a)) [xp_firm a]) (\<lambda>ev. m_return [ev])))))"

definition ipo_clearing :: "ipo_state \<Rightarrow> int" where
  \<comment> \<open>the highest indicated price at which the demand covers the offer, or the low end\<close>
  "ipo_clearing p =
     (case find (\<lambda>price. ipo_offered p \<le> (\<Sum>(q, limit)\<leftarrow>filter (\<lambda>(q, limit). price \<le> limit) (dvals (ipo_indications p)). q))
        (rev (sort (remdups (map snd (dvals (ipo_indications p)))))) of
        None \<Rightarrow> ipo_low p | Some price \<Rightarrow> price)"

definition ipo_offer :: "'l exchange_env \<Rightarrow> ipo_state \<Rightarrow> int" where
  "ipo_offer X p =
     (let raw = max (xe_tick_size X) (ipo_clearing p * (10000 - xe_underwriter_discount_bp X) div 10000)
      in raw - raw mod xe_tick_size X)"

definition ipo_eligible :: "'l exchange_env \<Rightarrow> ipo_state \<Rightarrow> (string \<times> int) list" where
  "ipo_eligible X p = map (\<lambda>(i, q, limit). (i, q)) (filter (\<lambda>(i, q, limit). ipo_offer X p \<le> limit) (sort (ipo_indications p)))"

fun investor_legs :: "int \<Rightarrow> int \<Rightarrow> int \<Rightarrow> string \<Rightarrow> string \<Rightarrow> (string, int \<times> int) dict \<Rightarrow> (string \<times> int) list
    \<Rightarrow> ('l, leg list) xm" where
  \<comment> \<open>the first loop of \<open>_complete_ipo\<close> over the allocations\<close>
  "investor_legs offer primary_sold sold firm_d founder_d ind [] = m_return []"
| "investor_legs offer primary_sold sold firm_d founder_d ind ((investor, allocation) # rest) =
     m_bind (x_escrow investor ''exchange'') (\<lambda>escrow.
     case dget ind investor of None \<Rightarrow> m_raise (ExKey investor)
     | Some (q, limit) \<Rightarrow>
       let paid = allocation * offer;
           primary_amount = paid * primary_sold div max 1 sold;
           secondary_amount = paid - primary_amount;
           release = q * limit - paid in
       m_bind (if paid \<noteq> 0 \<and> primary_amount \<noteq> 0 then x_transfer escrow firm_d primary_amount ''trade'' else m_return []) (\<lambda>a.
       m_bind (if paid \<noteq> 0 \<and> secondary_amount \<noteq> 0 then x_transfer escrow founder_d secondary_amount ''trade'' else m_return []) (\<lambda>b.
       m_bind (if release \<noteq> 0 then m_bind (x_deposit investor) (\<lambda>d. x_transfer escrow d release ''escrow'') else m_return []) (\<lambda>c.
       m_bind (investor_legs offer primary_sold sold firm_d founder_d ind rest) (\<lambda>legs. m_return (a @ b @ c @ legs))))))"

fun refund_legs :: "(string \<times> int) list \<Rightarrow> (string \<times> int \<times> int) list \<Rightarrow> ('l, leg list) xm" where
  \<comment> \<open>the second loop: investors without an allocation\<close>
  "refund_legs allocations [] = m_return []"
| "refund_legs allocations ((investor, q, limit) # rest) =
     m_bind (if investor \<in> set (dkeys allocations) then m_return []
             else m_bind (x_escrow investor ''exchange'') (\<lambda>e. m_bind (x_deposit investor) (\<lambda>d.
                    x_transfer e d (q * limit) ''escrow''))) (\<lambda>a.
     m_bind (refund_legs allocations rest) (\<lambda>b. m_return (a @ b)))"

definition set_ipo_status :: "string \<Rightarrow> string \<Rightarrow> exchange_state \<Rightarrow> exchange_state" where
  "set_ipo_status i status ex = (case dget (ex_ipos ex) i of None \<Rightarrow> ex
     | Some p \<Rightarrow> ex\<lparr>ex_ipos := dset i (p\<lparr>ipo_status := status\<rparr>) (ex_ipos ex)\<rparr>)"

definition complete_ipo :: "'l exchange_env \<Rightarrow> ipo_state \<Rightarrow> int \<Rightarrow> ('l, evt list) xm" where
  "complete_ipo X p tick =
     (if ipo_indications p = [] then m_then (x_update (set_ipo_status (ipo_id p) ''failed'')) (m_return [])
      else
      let offer = ipo_offer X p; eligible = ipo_eligible X p; total_demand = sum_list (dvals eligible);
          sold = min (ipo_offered p) total_demand in
      m_bind (m_res (case allocate sold eligible of Inl e \<Rightarrow> Inl (ExMoney e) | Inr d \<Rightarrow> Inr d)) (\<lambda>allocations.
      if ipo_offered p = 0 then m_raise ExZeroDivision else
      m_bind (x_emit X 7072 [(''firm_id'', JStr (ipo_firm p)), (''symbol'', JStr (ipo_symbol p)),
          (''clearing_price_cents'', JInt (ipo_clearing p)), (''offer_price_cents'', JInt offer),
          (''discount_bp'', JInt (xe_underwriter_discount_bp X)),
          (''oversubscription_bp'', JInt (10000 * total_demand div ipo_offered p))] None [ipo_firm p]) (\<lambda>priced.
      let gross = sold * offer;
          underwriting_fee = bp_ceil_up gross (xe_underwriting_fee_bp X);
          listing_fee = min (xe_listing_fee X) (max 0 (gross - underwriting_fee));
          primary_sold = min (ipo_primary p) sold; secondary_sold = sold - primary_sold in
      m_bind (x_deposit (ipo_firm p)) (\<lambda>firm_d.
      case dget (xe_firms X) (ipo_firm p) of None \<Rightarrow> m_raise (ExKey (ipo_firm p))
      | Some fm \<Rightarrow>
      m_bind (x_deposit (fv_founder fm)) (\<lambda>founder_d.
      m_bind (x_deposit (ipo_underwriter p)) (\<lambda>underwriter_d.
      m_bind (x_deposit ''gv_treasury'') (\<lambda>treasury_d.
      m_bind (investor_legs offer primary_sold sold firm_d founder_d (ipo_indications p) (sort allocations)) (\<lambda>legs1.
      m_bind (refund_legs allocations (sort (ipo_indications p))) (\<lambda>legs2.
      m_bind (if underwriting_fee \<noteq> 0 \<and> underwriting_fee + listing_fee \<noteq> 0
              then x_transfer firm_d underwriter_d underwriting_fee ''trade'' else m_return []) (\<lambda>legs3.
      m_bind (if listing_fee \<noteq> 0 \<and> underwriting_fee + listing_fee \<noteq> 0
              then x_transfer firm_d treasury_d listing_fee ''trade'' else m_return []) (\<lambda>legs4.
      m_bind (x_next_txn X tick) (\<lambda>expected.
      m_bind (x_emit X 7073 [(''firm_id'', JStr (ipo_firm p)), (''symbol'', JStr (ipo_symbol p)),
          (''allocations'', JObj (map (\<lambda>(k, n). (k, JInt n)) (sort allocations))), (''gross_proceeds_cents'', JInt gross),
          (''primary_cents'', JInt (primary_sold * offer)), (''secondary_cents'', JInt (secondary_sold * offer)),
          (''underwriting_fee_cents'', JInt underwriting_fee), (''listing_fee_cents'', JInt listing_fee),
          (''txn_id'', JStr (xe_uuid_text X expected))] None [ipo_firm p]) (\<lambda>completed.
      m_bind (x_post X (coalesce (legs1 @ legs2 @ legs3 @ legs4)) tick completed) (\<lambda>txn.
      if txn \<noteq> expected then m_raise (ExRuntime ''IPO ledger ordinal diverged'')
      else
      let total_shares = max (xe_bootstrap_shares X) (ipo_offered p);
          holders = dset (fv_founder fm) (dget_or allocations (fv_founder fm) 0 + total_shares - sold) allocations in
      m_then (x_update (set_ipo_status (ipo_id p) ''completed''))
      (m_bind (list_security X (ipo_symbol p) (ipo_firm p) total_shares offer tick holders (Some (ipo_id p))
          (Some (tick + xe_lockup_days X * xe_ticks_per_day X))) (\<lambda>listed.
       m_return (priced # completed # listed)))))))))))))))))"

definition close_ipos :: "'l exchange_env \<Rightarrow> int \<Rightarrow> ('l, evt list) xm" where
  \<comment> \<open>an IPO's identifier is its key\<close>
  "close_ipos X tick =
     m_bind (x_state (\<lambda>ex. sort (dkeys (ex_ipos ex)))) (m_for (\<lambda>i.
       m_bind (x_state (\<lambda>ex. dget (ex_ipos ex) i)) (\<lambda>found.
       case found of None \<Rightarrow> m_raise (ExKey i)
       | Some p \<Rightarrow> m_when (ipo_status p = ''announced'' \<and> ipo_close p \<le> tick) (complete_ipo X p tick))))"

section \<open>The whole market\<close>

definition action_key :: "exchange_action \<Rightarrow> string \<times> uuid" where
  "action_key a = (xa_actor a, xa_id a)"

definition order_symbols :: "exchange_action list \<Rightarrow> string list" where
  "order_symbols as = sort (remdups (map (upper \<circ> xp_symbol) as))"

definition shuffled :: "'l exchange_env \<Rightarrow> string \<Rightarrow> int \<Rightarrow> exchange_action list \<Rightarrow> ('l, exchange_action list) xm" where
  \<comment> \<open>\<open>self.rng.get("exchange.arrival", symbol, tick).shuffle(ordered)\<close>\<close>
  "shuffled X symbol tick as w =
     (let (g, reg) = rng_get (xe_digest X) ''exchange.arrival'' symbol (Some tick) (xw_rng w)
      in case shuffle (xe_digest X) as g of Inl e \<Rightarrow> Inl (ExRng e) | Inr (bs, _) \<Rightarrow> Inr (bs, w\<lparr>xw_rng := reg\<rparr>))"

definition admit_and_match :: "'l exchange_env \<Rightarrow> int \<Rightarrow> bool \<times> bool \<times> bool \<Rightarrow> string \<Rightarrow> nat \<times> exchange_action
    \<Rightarrow> ('l, evt list) xm" where
  "admit_and_match X tick session symbol na =
     (case session of (open_now, opening, closing) \<Rightarrow> case na of (ordinal, a) \<Rightarrow>
       m_bind (admit X a symbol (int ordinal) tick open_now) (\<lambda>(placed, es1).
       m_bind (case placed of None \<Rightarrow> m_return []
               | Some i \<Rightarrow> m_when (xe_profile X = Microscope \<and> \<not> opening \<and> \<not> closing) (match_continuous X i tick)) (\<lambda>es2.
       m_return (es1 @ es2))))"

definition admit_symbol :: "'l exchange_env \<Rightarrow> int \<Rightarrow> bool \<times> bool \<times> bool \<Rightarrow> exchange_action list \<Rightarrow> string \<Rightarrow> ('l, evt list) xm" where
  "admit_symbol X tick session as symbol =
     m_bind (shuffled X symbol tick (sort_key action_key (filter (\<lambda>a. upper (xp_symbol a) = symbol) as)))
       (\<lambda>ordered. m_for (admit_and_match X tick session symbol) (List.enumerate 0 ordered))"

definition resolve :: "'l exchange_env \<Rightarrow> exchange_action list \<Rightarrow> int \<Rightarrow> ('l, evt list) xm" where
  "resolve X actions tick =
     (if \<not> xe_enabled X then m_return []
      else
      let (open_now, opening, closing) = session_state X tick;
          chronicle = (xe_profile X = Chronicle);
          of_kind = (\<lambda>k. sort_key action_key (filter (\<lambda>a. xa_kind a = k) actions)) in
      m_extend
        [bootstrap_listing X tick,
         m_when opening (open_session X tick),
         m_for (\<lambda>a. cancel_action X a tick) (of_kind CancelOrder),
         m_for (\<lambda>a. announce_ipo X a tick) (of_kind IpoList),
         m_bind (x_state (forced_cover_actions X tick)) (\<lambda>forced.
           let orders = filter (\<lambda>a. xa_kind a = SubmitOrder \<or> xa_kind a = ShortSale) actions @ forced
           in m_for (admit_symbol X tick (open_now, opening, closing) orders) (order_symbols orders)),
         m_when (chronicle \<or> opening \<or> closing)
           (m_bind (x_state (\<lambda>ex. sort (dkeys (ex_securities ex)))) (m_for (\<lambda>s. match_call X s tick))),
         close_ipos X tick,
         resume_halts X tick,
         mark_shorts X tick,
         m_when (chronicle \<or> closing) (close_session X tick)])"

end
