(* ===== verification/Exchange_Escrow.thy ===== *)
theory Exchange_Escrow
  imports Exchange_Market Ledger_Spec
begin

text \<open>
  What the engine's postings do to the escrow accounts: the escrow an owner holds is the sum over
  the owner's escrow accounts, an identifier says whose escrow account it names, and a posting moves
  the escrow held by the signed sum of its legs on such accounts.
\<close>

definition esc_owner :: "string \<Rightarrow> string option" where
  "esc_owner v = (case parse_account_id v of Inr (Esc, owner, _) \<Rightarrow> Some owner | _ \<Rightarrow> None)"

definition escrow_held :: "ledger \<Rightarrow> string \<Rightarrow> int" where
  "escrow_held l owner = sum_balances (\<lambda>a. acc_code a = Esc \<and> acc_owner a = owner) l"

definition esc_net :: "string \<Rightarrow> leg list \<Rightarrow> int" where
  "esc_net owner legs = (\<Sum>g\<leftarrow>legs. if esc_owner (leg_account g) = Some owner then leg_direction g * leg_amount g else 0)"

lemma esc_net_simps [simp]:
  "esc_net t [] = 0"
  "esc_net t (g # gs) = (if esc_owner (leg_account g) = Some t then leg_direction g * leg_amount g else 0) + esc_net t gs"
  "esc_net t (gs @ hs) = esc_net t gs + esc_net t hs"
  by (simp_all add: esc_net_def)

lemma esc_owner_id: "account_id c owner b r = Inr v \<Longrightarrow> esc_owner v = (if c = Esc then Some owner else None)"
  by (cases c) (simp_all add: esc_owner_def parse_of_account_id)

lemma account_esc_owner:
  assumes "ledger_inv l" "dget (led_accounts l) v = Some a"
  shows "esc_owner v = (if acc_code a = Esc then Some (acc_owner a) else None)"
  using assms esc_owner_id[of "acc_code a" "acc_owner a" "acc_bank a" "acc_ref a" v]
  by (simp add: ledger_inv_def account_inv_def)

lemma post_held:
  assumes "ledger_inv l" "post_transaction u legs tick cause neg l = Inr (txn, l')"
  shows "escrow_held l' t = escrow_held l t + esc_net t legs \<and> ledger_inv l'"
proof -
  note p = assms(2)[unfolded post_transaction_def]
  have frame: "frame_pred (\<lambda>a. acc_code a = Esc \<and> acc_owner a = t)" by (simp add: frame_pred_def)
  have "leg_account_sat l (\<lambda>a. acc_code a = Esc \<and> acc_owner a = t) g \<longleftrightarrow> esc_owner (leg_account g) = Some t"
    if "g \<in> set legs" for g
  proof -
    have "leg_ok False l g" using post_checked_InrD(4)[OF p] that by simp
    then obtain a where "dget (led_accounts l) (leg_account g) = Some a" by (auto simp: leg_ok_def)
    then show ?thesis using account_esc_owner[OF assms(1)] by (auto simp: leg_account_sat_def)
  qed
  then have "(\<Sum>g\<leftarrow>legs. if leg_account_sat l (\<lambda>a. acc_code a = Esc \<and> acc_owner a = t) g
      then leg_direction g * leg_amount g else 0) = esc_net t legs"
    unfolding esc_net_def by (intro arg_cong[where f = sum_list] map_cong) auto
  then show ?thesis
    using sum_balances_post[OF assms(1) p frame] post_preserves_inv[OF assms(1) p] by (simp add: escrow_held_def)
qed

lemma esc_net_transfer:
  assumes "transfer src dst amount reason = Inr legs"
  shows "esc_net t legs = (if esc_owner dst = Some t then amount else 0) - (if esc_owner src = Some t then amount else 0)
    \<and> list_all (\<lambda>g. leg_amount g = amount) legs \<and> 0 < amount"
proof -
  have pos: "0 < amount" using assms by (auto simp: transfer_def split: if_splits)
  from assms show ?thesis
  proof (cases rule: transfer_InrD)
    case (1 cs os bs rs cd od bd rd)
    note ids = esc_owner_id[OF 1(1)] esc_owner_id[OF 1(2)]
    from 1(5) show ?thesis
    proof
      assume "bs = bd \<and> legs = [tleg amount reason src (-1), tleg amount reason dst 1]"
      then show ?thesis using pos by simp
    next
      assume "\<exists>sb db dpl_s res_s res_d dpl_d. bs = Some sb \<and> bd = Some db \<and> sb \<noteq> db
          \<and> account_id Dpl sb None None = Inr dpl_s \<and> account_id Res sb None None = Inr res_s
          \<and> account_id Res db None None = Inr res_d \<and> account_id Dpl db None None = Inr dpl_d
          \<and> legs = [tleg amount reason src (-1), tleg amount reason dpl_s 1,
                    tleg amount reason res_s (-1), tleg amount reason res_d 1,
                    tleg amount reason dpl_d (-1), tleg amount reason dst 1]"
      then show ?thesis using pos by (auto dest!: esc_owner_id)
    qed
  qed
qed

section \<open>Coalescing legs\<close>

lemma sum_dset_key:
  fixes d :: "('k, int) dict"
  shows "wf_dict d \<Longrightarrow> (\<Sum>(k, x)\<leftarrow>dset k (dget_or d k 0 + m) d. w k * x) = (\<Sum>(k, x)\<leftarrow>d. w k * x) + w k * m"
proof (induction d)
  case Nil
  then show ?case by (simp add: dget_or_def)
next
  case (Cons p d)
  obtain k' x where p: "p = (k', x)" by fastforce
  show ?case
  proof (cases "k' = k")
    case True
    then show ?thesis by (simp add: p dget_or_def algebra_simps)
  next
    case False
    then have "dget_or (p # d) k 0 = dget_or d k 0" by (simp add: p dget_or_def)
    then show ?thesis using False Cons by (simp add: p)
  qed
qed

definition leg_totals :: "leg list \<Rightarrow> (string \<times> int \<times> string, int) dict \<Rightarrow> (string \<times> int \<times> string, int) dict" where
  "leg_totals legs = fold (\<lambda>g d. let k = (leg_account g, leg_direction g, leg_reason g)
                               in dset k (dget_or d k 0 + leg_amount g) d) legs"

lemma leg_totals_sum:
  assumes "wf_dict d" "list_all (\<lambda>p. 0 < snd p) d" "list_all (\<lambda>g. 0 < leg_amount g) legs"
  shows "wf_dict (leg_totals legs d) \<and> list_all (\<lambda>p. 0 < snd p) (leg_totals legs d)
    \<and> (\<Sum>(k, x)\<leftarrow>leg_totals legs d. w k * x)
      = (\<Sum>(k, x)\<leftarrow>d. w k * x) + (\<Sum>g\<leftarrow>legs. w (leg_account g, leg_direction g, leg_reason g) * leg_amount g)"
  using assms
proof (induction legs arbitrary: d)
  case Nil
  then show ?case by (simp add: leg_totals_def)
next
  case (Cons g legs)
  let ?k = "(leg_account g, leg_direction g, leg_reason g)"
  let ?d = "dset ?k (dget_or d ?k 0 + leg_amount g) d"
  have nonneg: "0 \<le> dget_or d ?k 0"
    using Cons.prems(2) by (fastforce simp: dget_or_def list_all_iff dest: dget_SomeD split: option.split)
  have "set ?d \<subseteq> insert (?k, dget_or d ?k 0 + leg_amount g) (set d)" by (rule set_dset_subset)
  then have "list_all (\<lambda>p. 0 < snd p) ?d"
    using Cons.prems(2,3) nonneg by (fastforce simp: list_all_iff)
  moreover have "wf_dict ?d" using Cons.prems(1) by (rule wf_dset)
  ultimately show ?case
    using Cons.IH[of ?d] Cons.prems sum_dset_key[OF Cons.prems(1), of w ?k "leg_amount g"]
    by (simp add: leg_totals_def Let_def)
qed

lemma sum_list_sort: "(\<Sum>x\<leftarrow>sort xs. f x) = (\<Sum>x\<leftarrow>xs. (f x :: int))"
  by (metis mset_map mset_sort sum_mset_sum_list)

lemma esc_net_coalesce:
  assumes "list_all (\<lambda>g. 0 < leg_amount g) legs"
  shows "esc_net t (coalesce legs) = esc_net t legs"
proof -
  define w where "w = (\<lambda>(a, d, r :: string). if esc_owner a = Some t then d else 0 :: int)"
  note T = leg_totals_sum[of "[]" legs w, OF _ _ assms, simplified]
  define tot where "tot = leg_totals legs []"
  have "filter (\<lambda>(k, x). 0 < x) (sort tot) = sort tot"
    using T by (auto simp: tot_def list_all_iff filter_id_conv)
  then have "coalesce legs = map (\<lambda>((a, d, r), m). \<lparr>leg_account = a, leg_direction = d, leg_amount = m, leg_reason = r\<rparr>) (sort tot)"
    by (simp add: coalesce_def tot_def leg_totals_def)
  then have "esc_net t (coalesce legs) = (\<Sum>(k, x)\<leftarrow>sort tot. w k * x)"
    unfolding esc_net_def by (auto simp: w_def comp_def intro!: arg_cong[where f = sum_list])
  also have "\<dots> = (\<Sum>(k, x)\<leftarrow>tot. w k * x)" by (rule sum_list_sort)
  also have "\<dots> = (\<Sum>g\<leftarrow>legs. w (leg_account g, leg_direction g, leg_reason g) * leg_amount g)"
    using T by (simp add: tot_def)
  also have "\<dots> = esc_net t legs"
    unfolding esc_net_def w_def by (intro arg_cong[where f = sum_list] map_cong) auto
  finally show ?thesis .
qed

section \<open>The accounts the engine picks\<close>

lemma codes_of_parse:
  assumes "ledger_inv l" "v \<in> set (codes_of l owner c)"
  shows "\<exists>b r. parse_account_id v = Inr (c, owner, b, r)"
proof -
  from assms(2) obtain a where a: "a \<in> set (dvals (led_accounts l))" "acc_owner a = owner" "acc_id a = v"
    and p: "case parse_account_id v of Inr (c', _) \<Rightarrow> c' = c | Inl _ \<Rightarrow> False"
    by (auto simp: codes_of_def accounts_of_def)
  from a(1) obtain k where "(k, a) \<in> set (led_accounts l)" by auto
  then have "account_id (acc_code a) owner (acc_bank a) (acc_ref a) = Inr v"
    using ledger_inv_memberD[OF assms(1)] a by (auto simp: account_inv_def)
  then show ?thesis using p by (auto dest: parse_of_account_id)
qed

lemma deposit_not_escrow:
  assumes "ledger_inv l" "deposit_account owner l = Inr v"
  shows "esc_owner v = None"
proof -
  have "v \<in> set (codes_of l owner Dep)" using assms(2) by (auto simp: deposit_account_def split: list.splits)
  from codes_of_parse[OF assms(1) this] show ?thesis by (auto simp: esc_owner_def)
qed

lemma escrow_id_owner:
  assumes "ledger_inv l" "escrow_id owner ref l = Inr v"
  shows "esc_owner v = Some owner"
proof -
  have "v \<in> set (codes_of l owner Esc) \<or> (\<exists>b r. account_id Esc owner b r = Inr v)"
    using assms(2) by (auto simp: escrow_id_def res_simps filter_eq_Cons_iff split: list.splits option.splits sum.splits)
  then show ?thesis using codes_of_parse[OF assms(1)] esc_owner_id by (fastforce simp: esc_owner_def)
qed

lemma open_held:
  assumes "open_account c owner ty bank ref tick l = Inr (v, l')"
  shows "escrow_held l' t = escrow_held l t"
  using assms sum_dset_fresh_int[of "led_accounts l" v "\<lambda>a. if acc_code a = Esc \<and> acc_owner a = t then acc_balance a else 0"]
  by (auto simp: open_account_def escrow_held_def sum_balances_def sum_if_filter_int split: sum.splits if_splits)

end
