(* ===== verification/Exchange_Inv.thy ===== *)
theory Exchange_Inv
  imports Exchange_Escrow
begin

text \<open>
  The invariant of the exchange: what every active order has reserved, how the reservations add up to
  the reserved shares of the holdings and to the money in escrow, and that the shares of a listed
  security add up to its shares outstanding. \<open>share_invariant_failures\<close> and
  \<open>order_invariant_failures\<close> of \<open>economy/state.py\<close> are the checks the program runs on every tick.
\<close>

section \<open>Measures\<close>

definition short_sale :: "order_state \<Rightarrow> bool" where
  "short_sale r \<longleftrightarrow> ''opens_short'' \<in> set (ord_flags r)"

definition want_of :: "string \<Rightarrow> string \<Rightarrow> order_state \<Rightarrow> int" where
  \<comment> \<open>the shares of a trader an order holds reserved\<close>
  "want_of t s r = (if active r \<and> ord_side r = Sell \<and> \<not> short_sale r \<and> ord_trader r = t \<and> ord_symbol r = s
     then ord_reserved_qty r else 0)"

definition cents_of :: "string \<Rightarrow> order_state \<Rightarrow> int" where
  "cents_of t r = (if active r \<and> ord_trader r = t then ord_reserved_cents r else 0)"

definition collateral_of :: "string \<Rightarrow> short_position \<Rightarrow> int" where
  "collateral_of t p = (if sp_trader p = t then sp_collateral p else 0)"

definition indicated_of :: "string \<Rightarrow> ipo_state \<Rightarrow> int" where
  "indicated_of t p = (if ipo_status p = ''announced''
     then (\<Sum>(i, q, limit)\<leftarrow>ipo_indications p. if i = t then q * limit else 0) else 0)"

definition qty_of :: "string \<Rightarrow> holding_state \<Rightarrow> int" where
  "qty_of s h = (if hold_symbol h = s then hold_qty h else 0)"

definition order_sum :: "(order_state \<Rightarrow> int) \<Rightarrow> exchange_state \<Rightarrow> int" where
  "order_sum g ex = (\<Sum>r\<leftarrow>dvals (ex_orders ex). g r)"

definition holding_sum :: "(holding_state \<Rightarrow> int) \<Rightarrow> exchange_state \<Rightarrow> int" where
  "holding_sum g ex = (\<Sum>h\<leftarrow>dvals (ex_holdings ex). g h)"

definition short_sum :: "(short_position \<Rightarrow> int) \<Rightarrow> exchange_state \<Rightarrow> int" where
  "short_sum g ex = (\<Sum>p\<leftarrow>dvals (ex_shorts ex). g p)"

definition ipo_sum :: "(ipo_state \<Rightarrow> int) \<Rightarrow> exchange_state \<Rightarrow> int" where
  "ipo_sum g ex = (\<Sum>p\<leftarrow>dvals (ex_ipos ex). g p)"

definition escrow_due :: "exchange_state \<Rightarrow> string \<Rightarrow> int" where
  "escrow_due ex t = order_sum (cents_of t) ex + short_sum (collateral_of t) ex + ipo_sum (indicated_of t) ex"

definition outstanding :: "exchange_state \<Rightarrow> string \<Rightarrow> int" where
  "outstanding ex s = holding_sum (qty_of s) ex"

section \<open>The invariant\<close>

definition plain_id :: "string \<Rightarrow> bool" where
  \<comment> \<open>the identifiers of traders contain no colon, so \<open>trader:symbol\<close> names one holding\<close>
  "plain_id t \<longleftrightarrow> CHR '':'' \<notin> set t"

definition order_fit :: "'l exchange_env \<Rightarrow> exchange_state \<Rightarrow> order_state \<Rightarrow> bool" where
  \<comment> \<open>what holds of an active order also while a fill is being settled\<close>
  "order_fit X ex r \<longleftrightarrow> plain_id (ord_trader r) \<and> 0 \<le> ord_remaining r \<and> 0 \<le> ord_reserved_cents r
     \<and> (ord_type r = MarketOrder \<longleftrightarrow> ord_limit r = None) \<and> (\<forall>p. ord_limit r = Some p \<longrightarrow> 0 < p)
     \<and> (\<exists>s. dget (ex_securities ex) (ord_symbol r) = Some s \<and> sec_status s = ''listed''
          \<and> (ord_side r = Buy \<longrightarrow> ord_reserved_cents r = reserve_required X (ord_remaining r) (reserve_price_of X s r)))
     \<and> (if ord_side r = Sell \<and> \<not> short_sale r
        then ord_reserved_cents r = 0 \<and> ord_reserved_qty r = ord_remaining r else ord_reserved_qty r = 0)"

definition orders_fit :: "'l exchange_env \<Rightarrow> string set \<Rightarrow> string set \<Rightarrow> exchange_state \<Rightarrow> bool" where
  \<comment> \<open>the orders in \<open>P\<close> may have nothing left, those in \<open>Q\<close> may then still hold collateral\<close>
  "orders_fit X P Q ex \<longleftrightarrow> wf_dict (ex_orders ex)
     \<and> (\<forall>i r. dget (ex_orders ex) i = Some r \<longrightarrow> ord_id r = i \<and> (active r \<longrightarrow> order_fit X ex r
          \<and> (i \<notin> P \<longrightarrow> 0 < ord_remaining r) \<and> (i \<notin> Q \<longrightarrow> ord_remaining r = 0 \<longrightarrow> ord_reserved_cents r = 0)))"

definition rows_ok :: "exchange_state \<Rightarrow> bool" where
  "rows_ok ex \<longleftrightarrow> wf_dict (ex_holdings ex)
     \<and> (\<forall>k h. dget (ex_holdings ex) k = Some h \<longrightarrow> k = holding_key (hold_holder h) (hold_symbol h)
          \<and> plain_id (hold_holder h) \<and> hold_symbol h \<in> set (dkeys (ex_securities ex)) \<and> 0 \<le> hold_locked h)"

definition reserved_ok :: "exchange_state \<Rightarrow> bool" where
  "reserved_ok ex \<longleftrightarrow> (\<forall>t s. plain_id t \<longrightarrow> hold_reserved (holding_of t s ex) = order_sum (want_of t s) ex)"

definition securities_ok :: "exchange_state \<Rightarrow> bool" where
  "securities_ok ex \<longleftrightarrow> wf_dict (ex_securities ex)
     \<and> (\<forall>s sec. dget (ex_securities ex) s = Some sec \<longrightarrow> outstanding ex s = sec_shares sec)"

definition shorts_ok :: "exchange_state \<Rightarrow> bool" where
  "shorts_ok ex \<longleftrightarrow> wf_dict (ex_shorts ex)
     \<and> (\<forall>k p. dget (ex_shorts ex) k = Some p \<longrightarrow> k = holding_key (sp_trader p) (sp_symbol p) \<and> plain_id (sp_trader p))"

definition ipos_ok :: "exchange_state \<Rightarrow> bool" where
  "ipos_ok ex \<longleftrightarrow> wf_dict (ex_ipos ex)
     \<and> (\<forall>k p. dget (ex_ipos ex) k = Some p \<longrightarrow> ipo_id p = k \<and> wf_dict (ipo_indications p)
          \<and> (\<forall>i. dget (ipo_indications p) i \<noteq> None \<longrightarrow> plain_id i))"

definition market_fit :: "'l exchange_env \<Rightarrow> string set \<Rightarrow> string set \<Rightarrow> 'l exchange_world \<Rightarrow> bool" where
  "market_fit X P Q w \<longleftrightarrow> ledger_inv (xw_ledger w) \<and> orders_fit X P Q (xw_ex w) \<and> rows_ok (xw_ex w) \<and> reserved_ok (xw_ex w)
     \<and> securities_ok (xw_ex w) \<and> shorts_ok (xw_ex w) \<and> ipos_ok (xw_ex w)
     \<and> (\<forall>t. escrow_held (xw_ledger w) t = escrow_due (xw_ex w) t)"

abbreviation market_inv :: "'l exchange_env \<Rightarrow> 'l exchange_world \<Rightarrow> bool" where
  "market_inv X \<equiv> market_fit X {} {}"

section \<open>Keys\<close>

lemma holding_key_inj:
  assumes "holding_key t s = holding_key t' s'" "plain_id t" "plain_id t'"
  shows "t = t' \<and> s = s'"
  using assms split_at_first[of "CHR '':''" t t' s s'] by (simp add: holding_key_def plain_id_def)

lemma holding_key_eq [simp]: "plain_id t \<Longrightarrow> plain_id t' \<Longrightarrow> holding_key t s = holding_key t' s' \<longleftrightarrow> t = t' \<and> s = s'"
  using holding_key_inj by blast

lemma holding_of_row:
  assumes "rows_ok ex" "plain_id t"
  shows "hold_holder (holding_of t s ex) = t" "hold_symbol (holding_of t s ex) = s" "0 \<le> hold_locked (holding_of t s ex)"
proof -
  have "hold_holder (holding_of t s ex) = t \<and> hold_symbol (holding_of t s ex) = s \<and> 0 \<le> hold_locked (holding_of t s ex)"
  proof (cases "dget (ex_holdings ex) (holding_key t s)")
    case (Some h)
    have "holding_key t s = holding_key (hold_holder h) (hold_symbol h) \<and> plain_id (hold_holder h) \<and> 0 \<le> hold_locked h"
      using assms(1) Some unfolding rows_ok_def by blast
    then show ?thesis using assms(2) Some by (auto simp: holding_of_def)
  qed (simp add: holding_of_def)
  then show "hold_holder (holding_of t s ex) = t" "hold_symbol (holding_of t s ex) = s" "0 \<le> hold_locked (holding_of t s ex)"
    by simp_all
qed

section \<open>Updates and measures\<close>

lemma upd_order_sel [simp]:
  "ex_securities (upd_order i f ex) = ex_securities ex" "ex_holdings (upd_order i f ex) = ex_holdings ex"
  "ex_shorts (upd_order i f ex) = ex_shorts ex" "ex_ipos (upd_order i f ex) = ex_ipos ex"
  "ex_trades (upd_order i f ex) = ex_trades ex"
  by (simp_all add: upd_order_def split: option.split)

lemma upd_holding_sel [simp]:
  "ex_securities (upd_holding t s f ex) = ex_securities ex" "ex_orders (upd_holding t s f ex) = ex_orders ex"
  "ex_shorts (upd_holding t s f ex) = ex_shorts ex" "ex_ipos (upd_holding t s f ex) = ex_ipos ex"
  "ex_trades (upd_holding t s f ex) = ex_trades ex"
  by (simp_all add: upd_holding_def)

lemma upd_security_sel [simp]:
  "ex_orders (upd_security s f ex) = ex_orders ex" "ex_holdings (upd_security s f ex) = ex_holdings ex"
  "ex_shorts (upd_security s f ex) = ex_shorts ex" "ex_ipos (upd_security s f ex) = ex_ipos ex"
  by (simp_all add: upd_security_def split: option.split)

lemma dget_upd_order:
  "dget (ex_orders (upd_order i f ex)) j = (if i = j then map_option f (dget (ex_orders ex) j) else dget (ex_orders ex) j)"
  by (auto simp: upd_order_def split: option.split)

lemma dget_upd_security:
  "dget (ex_securities (upd_security i f ex)) j
     = (if i = j then map_option f (dget (ex_securities ex) j) else dget (ex_securities ex) j)"
  by (auto simp: upd_security_def split: option.split)

lemma fst_set_dset [simp]: "fst ` set (dset k v d) = insert k (fst ` set d)"
  using set_dkeys_dset[of k v d] by simp

lemma dkeys_dset_present: "dget d k = Some v \<Longrightarrow> dkeys (dset k w d) = dkeys d"
  by (auto simp: dkeys_dset dest!: dget_SomeD intro: rev_image_eqI)

lemma dkeys_upd_security [simp]: "dkeys (ex_securities (upd_security i f ex)) = dkeys (ex_securities ex)"
  by (simp add: upd_security_def dkeys_dset_present split: option.split)

lemma dkeys_upd_order [simp]: "dkeys (ex_orders (upd_order i f ex)) = dkeys (ex_orders ex)"
  by (simp add: upd_order_def dkeys_dset_present split: option.split)

lemma order_sum_upd:
  assumes "wf_dict (ex_orders ex)" "dget (ex_orders ex) i = Some r"
  shows "order_sum g (upd_order i f ex) = order_sum g ex - g r + g (f r)"
  using sum_dset_int[OF assms, of g "f r"] assms(2) by (simp add: order_sum_def upd_order_def)

lemma order_sum_cong:
  "ex_orders ex' = ex_orders ex \<Longrightarrow> order_sum g ex' = order_sum g ex"
  "ex_holdings ex' = ex_holdings ex \<Longrightarrow> holding_sum g' ex' = holding_sum g' ex"
  "ex_shorts ex' = ex_shorts ex \<Longrightarrow> short_sum g'' ex' = short_sum g'' ex"
  "ex_ipos ex' = ex_ipos ex \<Longrightarrow> ipo_sum g''' ex' = ipo_sum g''' ex"
  by (simp_all add: order_sum_def holding_sum_def short_sum_def ipo_sum_def)

lemma holding_of_cong: "ex_holdings ex' = ex_holdings ex \<Longrightarrow> holding_of t s ex' = holding_of t s ex"
  by (simp add: holding_of_def)

lemma holding_sum_upd:
  assumes "wf_dict (ex_holdings ex)" "g \<lparr>hold_holder = t, hold_symbol = s, hold_qty = 0, hold_reserved = 0,
      hold_locked = 0, hold_avg_cost = 0\<rparr> = 0"
  shows "holding_sum g (upd_holding t s f ex) = holding_sum g ex - g (holding_of t s ex) + g (f (holding_of t s ex))"
proof (cases "dget (ex_holdings ex) (holding_key t s)")
  case None
  then show ?thesis using assms(2) sum_dset_fresh_int[OF None, of g]
    by (simp add: holding_sum_def upd_holding_def holding_of_def)
next
  case (Some h)
  then show ?thesis using sum_dset_int[OF assms(1) Some, of g]
    by (simp add: holding_sum_def upd_holding_def holding_of_def)
qed

lemma holding_of_upd:
  "holding_of t' s' (upd_holding t s f ex)
     = (if holding_key t s = holding_key t' s' then f (holding_of t s ex) else holding_of t' s' ex)"
  by (simp add: holding_of_def upd_holding_def)

lemma outstanding_upd_holding:
  assumes "rows_ok ex" "plain_id t" "hold_symbol (f (holding_of t s ex)) = s"
  shows "outstanding (upd_holding t s f ex) s' = outstanding ex s'
    + (if s' = s then hold_qty (f (holding_of t s ex)) - hold_qty (holding_of t s ex) else 0)"
proof -
  have "wf_dict (ex_holdings ex)" using assms(1) by (simp add: rows_ok_def)
  from holding_sum_upd[OF this, of "qty_of s'" t s f] show ?thesis
    using holding_of_row[OF assms(1,2)] assms(3) by (simp add: outstanding_def qty_of_def)
qed

lemma sums_upd [simp]:
  "holding_sum g (upd_order i f ex) = holding_sum g ex" "short_sum g' (upd_order i f ex) = short_sum g' ex"
  "ipo_sum g'' (upd_order i f ex) = ipo_sum g'' ex"
  "order_sum g3 (upd_holding t s f' ex) = order_sum g3 ex" "short_sum g' (upd_holding t s f' ex) = short_sum g' ex"
  "ipo_sum g'' (upd_holding t s f' ex) = ipo_sum g'' ex"
  by (simp_all add: order_sum_def holding_sum_def short_sum_def ipo_sum_def)

lemma outstanding_upd_order [simp]: "outstanding (upd_order i f ex) s = outstanding ex s"
  by (simp add: outstanding_def)

lemma order_fit_cong: "ex_securities ex' = ex_securities ex \<Longrightarrow> order_fit X ex' r = order_fit X ex r"
  by (simp add: order_fit_def)

lemma orders_fitD:
  assumes "orders_fit X P Q ex" "dget (ex_orders ex) i = Some r"
  shows "ord_id r = i" "active r \<Longrightarrow> order_fit X ex r" "active r \<Longrightarrow> i \<notin> P \<Longrightarrow> 0 < ord_remaining r"
    "active r \<Longrightarrow> i \<notin> Q \<Longrightarrow> ord_remaining r = 0 \<Longrightarrow> ord_reserved_cents r = 0"
  using assms by (auto simp: orders_fit_def)

lemma orders_fit_upd:
  assumes fit: "orders_fit X P Q ex" and r: "dget (ex_orders ex) i = Some r" and id: "ord_id (f r) = i"
    and new: "active (f r) \<Longrightarrow> order_fit X ex (f r)" "active (f r) \<Longrightarrow> i \<notin> P' \<Longrightarrow> 0 < ord_remaining (f r)"
      "active (f r) \<Longrightarrow> i \<notin> Q' \<Longrightarrow> ord_remaining (f r) = 0 \<Longrightarrow> ord_reserved_cents (f r) = 0"
    and sub: "P \<subseteq> insert i P'" "Q \<subseteq> insert i Q'"
  shows "orders_fit X P' Q' (upd_order i f ex)"
proof -
  have wf: "wf_dict (ex_orders ex)" using fit by (simp add: orders_fit_def)
  have "ord_id r' = j \<and> (active r' \<longrightarrow> order_fit X ex r' \<and> (j \<notin> P' \<longrightarrow> 0 < ord_remaining r')
      \<and> (j \<notin> Q' \<longrightarrow> ord_remaining r' = 0 \<longrightarrow> ord_reserved_cents r' = 0))"
    if "dget (ex_orders (upd_order i f ex)) j = Some r'" for j r'
  proof (cases "j = i")
    case True
    then have "r' = f r" using that r by (simp add: dget_upd_order)
    then show ?thesis using id new True by blast
  next
    case False
    then have "dget (ex_orders ex) j = Some r'" using that by (simp add: dget_upd_order)
    then show ?thesis using orders_fitD[OF fit] sub False by blast
  qed
  then show ?thesis unfolding orders_fit_def order_fit_cong[of "upd_order i f ex" ex, OF upd_order_sel(1)] using wf by simp
qed

lemma orders_fit_cong:
  assumes "orders_fit X P Q ex" "ex_orders ex' = ex_orders ex" "ex_securities ex' = ex_securities ex"
  shows "orders_fit X P Q ex'"
  using assms(1) unfolding orders_fit_def assms(2) order_fit_cong[OF assms(3)] .

lemma rows_ok_upd:
  assumes "rows_ok ex" "plain_id t" "s \<in> set (dkeys (ex_securities ex))"
    "hold_holder (f (holding_of t s ex)) = t" "hold_symbol (f (holding_of t s ex)) = s" "0 \<le> hold_locked (f (holding_of t s ex))"
  shows "rows_ok (upd_holding t s f ex)"
  using assms by (auto simp: rows_ok_def upd_holding_def)

lemma rows_ok_cong:
  "rows_ok ex \<Longrightarrow> ex_holdings ex' = ex_holdings ex \<Longrightarrow> set (dkeys (ex_securities ex')) = set (dkeys (ex_securities ex)) \<Longrightarrow> rows_ok ex'"
  by (simp add: rows_ok_def)

lemma securities_ok_cong:
  assumes "securities_ok ex" "ex_securities ex' = ex_securities ex" "\<And>s. outstanding ex' s = outstanding ex s"
  shows "securities_ok ex'"
  using assms by (simp add: securities_ok_def)

lemma reserved_ok_upd_order:
  assumes "reserved_ok ex" "wf_dict (ex_orders ex)" "dget (ex_orders ex) i = Some r"
    "\<And>t s. plain_id t \<Longrightarrow> want_of t s (f r) = want_of t s r"
  shows "reserved_ok (upd_order i f ex)"
  using assms(1,4) unfolding reserved_ok_def order_sum_upd[OF assms(2,3)] holding_of_cong[of "upd_order i f ex" ex, OF upd_order_sel(2)] by simp

lemma escrow_due_upd_order:
  assumes "wf_dict (ex_orders ex)" "dget (ex_orders ex) i = Some r"
  shows "escrow_due (upd_order i f ex) t = escrow_due ex t - cents_of t r + cents_of t (f r)"
  unfolding escrow_due_def order_sum_upd[OF assms] by (simp add: short_sum_def ipo_sum_def)

lemma escrow_due_cong:
  "ex_orders ex' = ex_orders ex \<Longrightarrow> ex_shorts ex' = ex_shorts ex \<Longrightarrow> ex_ipos ex' = ex_ipos ex \<Longrightarrow> escrow_due ex' t = escrow_due ex t"
  by (simp add: escrow_due_def order_sum_def short_sum_def ipo_sum_def)

lemma shorts_ok_cong: "shorts_ok ex \<Longrightarrow> ex_shorts ex' = ex_shorts ex \<Longrightarrow> shorts_ok ex'"
  and ipos_ok_cong: "ipos_ok ex \<Longrightarrow> ex_ipos ex' = ex_ipos ex \<Longrightarrow> ipos_ok ex'"
  by (simp_all add: shorts_ok_def ipos_ok_def)

end
