(* ===== verification/Exchange_Keeps.thy ===== *)
theory Exchange_Keeps
  imports Exchange_Inv
begin

text \<open>
  Every operation of the exchange keeps the invariant: posting, cancelling, settling a fill, matching,
  admission, short positions, IPOs, and the resolution of a tick as a whole.
\<close>

section \<open>Postings\<close>

lemma x_emit_InrD:
  "x_emit X kind pl actor subjects w = Inr (ev, w') \<Longrightarrow>
     xw_ex w' = xw_ex w \<and> xw_ledger w' = xw_ledger w \<and> xw_rng w' = xw_rng w"
  by (auto simp: x_emit_def split: sum.splits)

lemma x_post_InrD:
  assumes "x_post X legs tick ev w = Inr (txn, w')" "ledger_inv (xw_ledger w)"
  shows "xw_ex w' = xw_ex w" "ledger_inv (xw_ledger w')"
    "escrow_held (xw_ledger w') t = escrow_held (xw_ledger w) t + esc_net t legs"
  using assms post_held[OF assms(2), of "xe_uuid5 X" legs tick ev "[]"] by (auto simp: x_post_def split: sum.splits)

lemma x_next_txn_InrD:
  assumes "x_next_txn X tick w = Inr (txn, w')" "ledger_inv (xw_ledger w)"
  shows "xw_ex w' = xw_ex w" "ledger_inv (xw_ledger w')" "escrow_held (xw_ledger w') t = escrow_held (xw_ledger w) t"
  using assms next_txn_preserves_inv[OF assms(2), of "xe_uuid5 X" tick]
  by (auto simp: x_next_txn_def next_txn_id_def Let_def escrow_held_def sum_balances_def)

lemma x_transfer_InrD: "x_transfer src dst m reason w = Inr (legs, w') \<Longrightarrow> w' = w \<and> transfer src dst m reason = Inr legs"
  by (auto simp: x_transfer_def x_res_def prog_Inr_iff split: sum.splits)

lemma x_escrow_InrD: "x_escrow owner ref w = Inr (v, w') \<Longrightarrow> w' = w \<and> escrow_id owner ref (xw_ledger w) = Inr v"
  by (auto simp: x_escrow_def x_ledger_def prog_Inr_iff)

lemma x_deposit_InrD: "x_deposit owner w = Inr (v, w') \<Longrightarrow> w' = w \<and> deposit_account owner (xw_ledger w) = Inr v"
  by (auto simp: x_deposit_def x_ledger_def prog_Inr_iff)

lemma x_order_InrD: "x_order i w = Inr (r, w') \<Longrightarrow> w' = w \<and> dget (ex_orders (xw_ex w)) i = Some r"
  by (auto simp: x_order_def x_state_def prog_Inr_iff split: option.splits)

lemma x_security_InrD: "x_security i w = Inr (r, w') \<Longrightarrow> w' = w \<and> dget (ex_securities (xw_ex w)) i = Some r"
  by (auto simp: x_security_def x_state_def prog_Inr_iff split: option.splits)

lemma x_update_InrD: "x_update f w = Inr (u, w') \<Longrightarrow> w' = w\<lparr>xw_ex := f (xw_ex w)\<rparr>"
  by (simp add: x_update_def prog_Inr_iff)

lemma x_state_InrD: "x_state f w = Inr (u, w') \<Longrightarrow> w' = w \<and> u = f (xw_ex w)"
  by (simp add: x_state_def prog_Inr_iff)

definition release :: "'l exchange_env \<Rightarrow> string \<Rightarrow> string \<Rightarrow> int \<Rightarrow> int \<Rightarrow> evt \<Rightarrow> ('l, unit) xm" where
  \<comment> \<open>the posting that gives a reservation back to its owner's deposit\<close>
  "release X owner ref m tick ev =
     (if m \<noteq> 0 then m_bind (x_escrow owner ref) (\<lambda>escrow. m_bind (x_deposit owner) (\<lambda>deposit.
        m_bind (x_transfer escrow deposit m ''escrow'') (\<lambda>legs. m_then (x_post X legs tick ev) (m_return ()))))
      else m_return ())"

lemma release_InrD:
  assumes "release X owner ref m tick ev w = Inr (u, w')" and inv: "ledger_inv (xw_ledger w)"
  shows "xw_ex w' = xw_ex w" "ledger_inv (xw_ledger w')"
    "escrow_held (xw_ledger w') t = escrow_held (xw_ledger w) t - (if t = owner then m else 0)"
proof -
  have "xw_ex w' = xw_ex w \<and> ledger_inv (xw_ledger w')
    \<and> escrow_held (xw_ledger w') t = escrow_held (xw_ledger w) t - (if t = owner then m else 0)"
  proof (cases "m = 0")
    case True
    then show ?thesis using assms by (simp add: release_def prog_Inr_iff)
  next
    case False
    from assms(1) False obtain e d legs txn where e: "escrow_id owner ref (xw_ledger w) = Inr e"
      and d: "deposit_account owner (xw_ledger w) = Inr d" and legs: "transfer e d m ''escrow'' = Inr legs"
      and post: "x_post X legs tick ev w = Inr (txn, w')"
      by (auto simp: release_def prog_Inr_iff dest!: x_escrow_InrD x_deposit_InrD x_transfer_InrD)
    show ?thesis
      using x_post_InrD[OF post inv] esc_net_transfer[OF legs, of t] escrow_id_owner[OF inv e] deposit_not_escrow[OF inv d]
      by auto
  qed
  then show "xw_ex w' = xw_ex w" "ledger_inv (xw_ledger w')"
    "escrow_held (xw_ledger w') t = escrow_held (xw_ledger w) t - (if t = owner then m else 0)" by simp_all
qed

section \<open>Cancelling\<close>

definition void_order :: "bool \<Rightarrow> order_state \<Rightarrow> order_state" where
  "void_order expired r = r\<lparr>ord_reserved_cents := 0, ord_reserved_qty := 0,
     ord_status := (if expired then StExpired else StCancelled)\<rparr>"

definition void_state :: "bool \<Rightarrow> order_state \<Rightarrow> exchange_state \<Rightarrow> exchange_state" where
  \<comment> \<open>the market after an order is cancelled\<close>
  "void_state expired r ex = upd_order (ord_id r) (void_order expired)
     (if ord_reserved_qty r \<noteq> 0 then upd_holding (ord_trader r) (ord_symbol r)
        (\<lambda>h. h\<lparr>hold_reserved := hold_reserved h - ord_reserved_qty r\<rparr>) ex else ex)"

lemma cancel_order_steps:
  "cancel_order X i tick who expired = m_bind (x_order i) (\<lambda>r.
     if \<not> active r then m_return []
     else m_bind (x_emit X (if expired then 7013 else 7012)
         ([(''order_id'', JStr i), (''remaining_qty'', JInt (ord_remaining r)),
           (''released_cents'', JInt (ord_reserved_cents r)), (''released_qty'', JInt (ord_reserved_qty r))]
          @ (if expired then [] else [(''initiator'', JStr who)])) (Some (ord_trader r)) [ord_symbol r]) (\<lambda>ev.
       m_then (release X (ord_trader r) (if ''opens_short'' \<in> set (ord_flags r) then margin_ref (ord_symbol r) else ''exchange'')
           (ord_reserved_cents r) tick ev)
       (m_then (if ord_reserved_qty r \<noteq> 0 then x_update (upd_holding (ord_trader r) (ord_symbol r)
             (\<lambda>h. h\<lparr>hold_reserved := hold_reserved h - ord_reserved_qty r\<rparr>)) else m_return ())
       (m_then (x_update (upd_order i (void_order expired))) (m_return [ev])))))"
  unfolding cancel_order_def release_def void_order_def[abs_def] ..

lemma cancel_order_InrD:
  assumes "cancel_order X i tick who expired w = Inr (es, w')" "ledger_inv (xw_ledger w)"
  obtains r where "dget (ex_orders (xw_ex w)) i = Some r" "\<not> active r" "w' = w"
  | r where "dget (ex_orders (xw_ex w)) i = Some r" "active r" "ord_id r = i \<Longrightarrow> xw_ex w' = void_state expired r (xw_ex w)"
      "ledger_inv (xw_ledger w')"
      "\<And>t. escrow_held (xw_ledger w') t = escrow_held (xw_ledger w) t - (if t = ord_trader r then ord_reserved_cents r else 0)"
proof -
  from assms(1) obtain r where r: "dget (ex_orders (xw_ex w)) i = Some r"
    by (auto simp: cancel_order_steps prog_Inr_iff dest!: x_order_InrD)
  show ?thesis
  proof (cases "active r")
    case False
    then show ?thesis using assms(1) r that(1)
      by (auto simp: cancel_order_steps prog_Inr_iff dest!: x_order_InrD)
  next
    case True
    from assms(1) r True obtain ev w1 w2 ref u where e: "xw_ex w1 = xw_ex w" "xw_ledger w1 = xw_ledger w"
      and rel: "release X (ord_trader r) ref (ord_reserved_cents r) tick ev w1 = Inr (u, w2)"
      and w': "xw_ledger w' = xw_ledger w2" "xw_ex w' = upd_order i (void_order expired)
          (if ord_reserved_qty r \<noteq> 0 then upd_holding (ord_trader r) (ord_symbol r)
             (\<lambda>h. h\<lparr>hold_reserved := hold_reserved h - ord_reserved_qty r\<rparr>) (xw_ex w2) else xw_ex w2)"
      by (cases "ord_reserved_qty r = 0")
        (auto simp: cancel_order_steps prog_Inr_iff simp del: append.simps dest!: x_order_InrD x_update_InrD x_emit_InrD)
    show ?thesis
      using that(2)[OF r True] w' release_InrD[OF rel] assms(2) e by (simp add: void_state_def)
  qed
qed

lemma void_order_sel [simp]:
  "ord_id (void_order e r) = ord_id r" "ord_reserved_cents (void_order e r) = 0" "ord_reserved_qty (void_order e r) = 0"
  "\<not> active (void_order e r)"
  by (simp_all add: void_order_def active_def)

lemma orders_fit_wf: "orders_fit X P Q ex \<Longrightarrow> wf_dict (ex_orders ex)"
  by (simp add: orders_fit_def)

lemma cents_of_inactive [simp]: "\<not> active r \<Longrightarrow> cents_of t r = 0"
  and want_of_inactive [simp]: "\<not> active r \<Longrightarrow> want_of t s r = 0"
  by (simp_all add: cents_of_def want_of_def)

lemma order_fit_want:
  "order_fit X ex r \<Longrightarrow> active r \<Longrightarrow> want_of t s r = (if ord_trader r = t \<and> ord_symbol r = s then ord_reserved_qty r else 0)"
  by (auto simp: order_fit_def want_of_def split: if_splits)

lemma order_fit_symbol: "order_fit X ex r \<Longrightarrow> ord_symbol r \<in> set (dkeys (ex_securities ex))"
  by (auto simp: order_fit_def intro: rev_image_eqI dest!: dget_SomeD)

lemma void_state_ok:
  assumes fit: "orders_fit X P Q ex" and rows: "rows_ok ex" "reserved_ok ex" "securities_ok ex"
    and r: "dget (ex_orders ex) i = Some r" "active r"
    and ex0: "ex' = void_state e r ex"
  shows "orders_fit X P Q ex'" "rows_ok ex'" "reserved_ok ex'" "securities_ok ex'"
    "escrow_due ex' t = escrow_due ex t - (if t = ord_trader r then ord_reserved_cents r else 0)"
    "ex_shorts ex' = ex_shorts ex" "ex_ipos ex' = ex_ipos ex" "ex_securities ex' = ex_securities ex"
proof -
  define q where "q = ord_reserved_qty r"
  define f where "f h = h\<lparr>hold_reserved := hold_reserved h - q\<rparr>" for h :: holding_state
  define ex1 where "ex1 = (if q \<noteq> 0 then upd_holding (ord_trader r) (ord_symbol r) f ex else ex)"
  have id: "ord_id r = i" and rfit: "order_fit X ex r" using orders_fitD[OF fit r(1)] r(2) by auto
  have plain: "plain_id (ord_trader r)" using rfit by (simp add: order_fit_def)
  have ex': "ex' = upd_order i (void_order e) ex1"
    by (simp add: ex0 void_state_def ex1_def q_def f_def[abs_def] id)
  have sel: "ex_orders ex1 = ex_orders ex" "ex_securities ex1 = ex_securities ex" "ex_shorts ex1 = ex_shorts ex"
    "ex_ipos ex1 = ex_ipos ex" by (simp_all add: ex1_def)
  have fit1: "orders_fit X P Q ex1" using fit sel(1,2) by (rule orders_fit_cong)
  have r1: "dget (ex_orders ex1) i = Some r" using r sel by simp
  show "orders_fit X P Q ex'" unfolding ex' by (rule orders_fit_upd[OF fit1 r1]) (use id in auto)
  have rows1: "rows_ok ex1"
    using rows_ok_upd[OF rows(1) plain order_fit_symbol[OF rfit], of f] holding_of_row[OF rows(1) plain] rows(1)
    by (simp add: ex1_def f_def)
  then show "rows_ok ex'" unfolding ex' by (rule rows_ok_cong) simp_all
  show "reserved_ok ex'"
    unfolding reserved_ok_def
  proof (intro allI impI)
    fix t s assume t: "plain_id t"
    have "hold_reserved (holding_of t s ex1)
        = hold_reserved (holding_of t s ex) - (if ord_trader r = t \<and> ord_symbol r = s then q else 0)"
      using t plain by (auto simp: ex1_def holding_of_upd f_def)
    moreover have "order_sum (want_of t s) ex' = order_sum (want_of t s) ex - want_of t s r"
      using order_sum_upd[OF orders_fit_wf[OF fit1] r1] order_sum_cong(1)[OF sel(1)] by (simp add: ex')
    moreover have "holding_of t s ex' = holding_of t s ex1" by (rule holding_of_cong) (simp add: ex')
    ultimately show "hold_reserved (holding_of t s ex') = order_sum (want_of t s) ex'"
      using rows(2) t order_fit_want[OF rfit r(2), of t s] by (simp add: reserved_ok_def q_def)
  qed
  have "outstanding ex1 s = outstanding ex s" for s
    using outstanding_upd_holding[OF rows(1) plain, of f "ord_symbol r" s] holding_of_row[OF rows(1) plain]
    by (simp add: ex1_def f_def)
  then show "securities_ok ex'" using rows(3) by (intro securities_ok_cong[OF rows(3)]) (simp_all add: ex' sel)
  have "escrow_due ex1 t = escrow_due ex t" using sel by (intro escrow_due_cong)
  then show "escrow_due ex' t = escrow_due ex t - (if t = ord_trader r then ord_reserved_cents r else 0)"
    using escrow_due_upd_order[OF orders_fit_wf[OF fit1] r1, of "void_order e" t] r(2) by (simp add: ex' cents_of_def)
  show "ex_shorts ex' = ex_shorts ex" "ex_ipos ex' = ex_ipos ex" "ex_securities ex' = ex_securities ex"
    by (simp_all add: ex' sel)
qed

lemma cancel_order_keeps [keeps_rules]: "keeps (market_fit X P Q) (cancel_order X i tick who expired)"
proof (rule keepsI)
  fix w es w' assume inv: "market_fit X P Q w" and run: "cancel_order X i tick who expired w = Inr (es, w')"
  note I = inv[unfolded market_fit_def]
  from I have led: "ledger_inv (xw_ledger w)" by simp
  from run led show "market_fit X P Q w'"
  proof (cases rule: cancel_order_InrD)
    case (1 r)
    then show ?thesis using inv by simp
  next
    case (2 r)
    have "ord_id r = i" using I 2(1) orders_fitD(1) by blast
    then show ?thesis
      using void_state_ok[of X P Q "xw_ex w" i r "xw_ex w'" expired] 2 I unfolding market_fit_def
      by (auto intro: shorts_ok_cong ipos_ok_cong)
  qed
qed

end
