(* ===== verification/Exchange_Settle.thy ===== *)
theory Exchange_Settle
  imports Exchange_Keeps
begin

text \<open>
  Settling a fill: the buyer's reservation always covers the price, the commissions and what the rest
  of the order still needs; the money in escrow, the reserved shares and the short positions move
  together, so the invariant of the exchange holds after every fill between live orders.
\<close>

section \<open>Fees and reservations\<close>

definition fees_ok :: "'l exchange_env \<Rightarrow> bool" where
  \<comment> \<open>the settings' checks, and a commission floor that no trade is smaller than\<close>
  "fees_ok X \<longleftrightarrow> 1 \<le> xe_tick_size X \<and> 0 \<le> xe_commission_bp X \<and> xe_commission_bp X \<le> 10000
     \<and> 0 \<le> xe_commission_floor X \<and> xe_commission_floor X \<le> 1"

lemma bp_ceil_up_bounds: "a * r \<le> 10000 * bp_ceil_up a r" "10000 * bp_ceil_up a r < a * r + 10000"
  unfolding bp_ceil_up_def by linarith+

lemma bp_ceil_up_le: "a * r \<le> 10000 * b \<Longrightarrow> bp_ceil_up a r \<le> b"
  unfolding bp_ceil_up_def by linarith

lemma commission_bounds:
  assumes "fees_ok X" "1 \<le> g"
  shows "0 \<le> commission X g" "commission X g \<le> g"
proof -
  have "bp_ceil_up g (xe_commission_bp X) \<le> g"
    using assms by (intro bp_ceil_up_le) (simp add: fees_ok_def mult.commute)
  then show "0 \<le> commission X g" "commission X g \<le> g" using assms by (auto simp: commission_def fees_ok_def)
qed

lemma commission_split:
  assumes "fees_ok X" "0 < k" "1 \<le> p" "p \<le> P"
  shows "commission X (p * k) \<le> k * commission X P"
proof -
  let ?c = "xe_commission_bp X"
  have "p * k * ?c \<le> k * (P * ?c)"
    using assms mult_right_mono[of p P "k * ?c"] by (simp add: fees_ok_def algebra_simps)
  also have "\<dots> \<le> k * (10000 * bp_ceil_up P ?c)"
    using bp_ceil_up_bounds(1)[of P ?c] assms(2) by (intro mult_left_mono) auto
  finally have "bp_ceil_up (p * k) ?c \<le> k * bp_ceil_up P ?c" by (intro bp_ceil_up_le) simp
  moreover have "xe_commission_floor X \<le> k * xe_commission_floor X"
    using assms mult_right_mono[of 1 k "xe_commission_floor X"] by (simp add: fees_ok_def)
  moreover have "k * bp_ceil_up P ?c \<le> k * max (xe_commission_floor X) (bp_ceil_up P ?c)"
    "k * xe_commission_floor X \<le> k * max (xe_commission_floor X) (bp_ceil_up P ?c)"
    using assms(2) by (auto intro: mult_left_mono)
  ultimately show ?thesis by (simp add: commission_def)
qed

lemma reserve_split:
  assumes "fees_ok X" "0 < k" "k \<le> n" "1 \<le> p" "p \<le> P"
  shows "p * k + commission X (p * k) + reserve_required X (n - k) P \<le> reserve_required X n P"
    "0 \<le> reserve_required X (n - k) P"
proof -
  have c: "0 \<le> commission X P" using commission_bounds[OF assms(1), of P] assms(4,5) by simp
  have "p * k \<le> k * P" using assms mult_right_mono[of p P k] by (simp add: mult.commute)
  then have "p * k + commission X (p * k) \<le> k * (P + commission X P)"
    using commission_split[OF assms(1,2,4,5)] by (simp add: algebra_simps)
  then show "p * k + commission X (p * k) + reserve_required X (n - k) P \<le> reserve_required X n P"
    using assms(2,3) by (cases "n = k") (auto simp: reserve_required_def algebra_simps)
  show "0 \<le> reserve_required X (n - k) P" using assms c by (simp add: reserve_required_def)
qed

lemma band_upper_pos: "fees_ok X \<Longrightarrow> 1 \<le> snd (band X s)"
  by (simp add: fees_ok_def band_def max_def)

lemma in_band_price: "fees_ok X \<Longrightarrow> in_band X s p \<Longrightarrow> 1 \<le> p \<and> p \<le> snd (band X s)"
  by (auto simp: fees_ok_def in_band_def band_def Let_def)

section \<open>The steps of a settlement\<close>

lemma transfer_part:
  assumes "if 0 < x then transfer e v x reason = Inr ls else ls = []" "esc_owner e = Some owner" "esc_owner v = None"
  shows "esc_net t ls = - (if t = owner then max 0 x else 0) \<and> list_all (\<lambda>g. 0 < leg_amount g) ls"
proof (cases "0 < x")
  case True
  then have "transfer e v x reason = Inr ls" using assms(1) by simp
  from esc_net_transfer[OF this, of t] show ?thesis using assms(2,3) True by (simp add: list_all_iff)
qed (use assms in simp)

lemma settle_legs_InrD:
  assumes "settle_legs e s b d m fees rel w = Inr (legs, w')"
    and own: "esc_owner e = Some owner" "esc_owner s = None" "esc_owner b = None" "esc_owner d = None"
  shows "w' = w \<and> esc_net t (coalesce legs) = - (if t = owner then max 0 m + max 0 fees + max 0 rel else 0)"
proof -
  from assms(1) obtain l1 l2 l3 where legs: "legs = l1 @ l2 @ l3" and w: "w' = w"
    and l: "if 0 < m then transfer e s m ''trade'' = Inr l1 else l1 = []"
      "if 0 < fees then transfer e b fees ''trade'' = Inr l2 else l2 = []"
      "if 0 < rel then transfer e d rel ''escrow'' = Inr l3 else l3 = []"
    by (auto simp: settle_legs_def prog_Inr_iff dest!: x_transfer_InrD split: if_splits)
  note p = transfer_part[OF l(1) own(1,2), of t] transfer_part[OF l(2) own(1,3), of t] transfer_part[OF l(3) own(1,4), of t]
  have "list_all (\<lambda>g. 0 < leg_amount g) legs" using p by (simp add: legs)
  then have "esc_net t (coalesce legs) = esc_net t legs" by (rule esc_net_coalesce)
  then show ?thesis using p w by (simp add: legs)
qed

definition settle_tail :: "'l exchange_env \<Rightarrow> fill \<Rightarrow> int \<Rightarrow> int \<Rightarrow> string \<Rightarrow> string \<Rightarrow> int \<Rightarrow> ('l, evt list) xm" where
  \<comment> \<open>the records of shorts and covers and the events of the two orders\<close>
  "settle_tail X f tick qty bi si old_qty =
     m_bind (settle_short X si qty (fill_price f) tick) (\<lambda>es1.
      m_bind (if old_qty < 0 then m_bind (x_order bi) (\<lambda>b. record_cover X b (min qty (- old_qty)) (fill_price f) tick)
              else m_return []) (\<lambda>es2.
      m_bind (fill_events X bi) (\<lambda>es3.
      m_bind (fill_events X si) (\<lambda>es4.
        m_return (es1 @ es2 @ es3 @ es4)))))"

definition settle_entry :: "'l exchange_env \<Rightarrow> fill \<Rightarrow> int \<Rightarrow> int \<Rightarrow> order_state \<Rightarrow> order_state \<Rightarrow> int \<Rightarrow> int \<Rightarrow> leg list
    \<Rightarrow> ('l, evt list) xm" where
  \<comment> \<open>from the name of the transaction to the end\<close>
  "settle_entry X f tick qty buy sell fee required legs =
     m_bind (x_next_txn X tick) (\<lambda>expected.
     m_bind (x_state (\<lambda>ex. trade_name tick (length (ex_trades ex)))) (\<lambda>trade_id.
     m_bind (x_emit X 7020 (trade_payload trade_id f qty buy sell fee (xe_uuid_text X expected))
         (Some (if fill_aggressor f = AggBuy then ord_trader buy else ord_trader sell))
         [ord_trader buy, ord_trader sell, ord_symbol buy]) (\<lambda>trade_event.
     m_bind (x_post X (coalesce legs) tick trade_event) (\<lambda>txn.
     if txn \<noteq> expected then m_raise (ExRuntime ''exchange ledger ordinal diverged'')
     else
     m_bind (x_state (\<lambda>ex. hold_qty (holding_of (ord_trader buy) (ord_symbol buy) ex))) (\<lambda>old_qty.
     m_bind (x_security (ord_symbol buy)) (\<lambda>_.
     m_then (x_update (settle_trade trade_id f qty tick buy sell fee required txn))
     (m_bind (settle_tail X f tick qty (ord_id buy) (ord_id sell) old_qty) (\<lambda>es. m_return (trade_event # es)))))))))"

definition settle_pay :: "'l exchange_env \<Rightarrow> fill \<Rightarrow> int \<Rightarrow> int \<Rightarrow> order_state \<Rightarrow> order_state \<Rightarrow> int \<Rightarrow> int \<Rightarrow> ('l, evt list) xm" where
  \<comment> \<open>from the accounts of the trade to the end\<close>
  "settle_pay X f tick qty buy sell gross fee =
     m_bind (x_escrow (ord_trader buy) ''exchange'') (\<lambda>buyer_escrow.
     m_bind (x_deposit (ord_trader sell)) (\<lambda>seller_deposit.
     m_bind (x_deposit ''fm_broker'') (\<lambda>broker_deposit.
     m_bind (x_deposit (ord_trader buy)) (\<lambda>buyer_deposit.
     m_bind (case ord_limit buy of Some p \<Rightarrow> m_return p
             | None \<Rightarrow> m_bind (x_security (ord_symbol buy)) (\<lambda>s. m_return (snd (band X s)))) (\<lambda>reserve_price.
     m_bind (settle_legs buyer_escrow seller_deposit broker_deposit buyer_deposit (gross - fee) (fee + fee)
         (max 0 (ord_reserved_cents buy - (gross + fee) - reserve_required X (ord_remaining buy - qty) reserve_price))) (\<lambda>legs.
     settle_entry X f tick qty buy sell fee (reserve_required X (ord_remaining buy - qty) reserve_price) legs))))))"

lemma settle_steps:
  "settle X f tick = m_bind (x_order (fill_buy f)) (\<lambda>buy. m_bind (x_order (fill_sell f)) (\<lambda>sell.
     let qty = min (fill_qty f) (min (ord_remaining buy) (ord_remaining sell)) in
     if qty \<le> 0 \<or> ord_trader buy = ord_trader sell then m_return []
     else settle_pay X f tick qty buy sell (fill_price f * qty) (commission X (fill_price f * qty))))"
  unfolding settle_def settle_tail_def settle_entry_def settle_pay_def m_bind_assoc m_bind_return append_Cons Let_def ..

lemma settle_entry_InrD:
  assumes "settle_entry X f tick qty buy sell fee req legs w = Inr (es, w')" "ledger_inv (xw_ledger w)"
  obtains s trade_id txn w1 old_qty es' where
      "dget (ex_securities (xw_ex w)) (ord_symbol buy) = Some s"
      "xw_ex w1 = settle_trade trade_id f qty tick buy sell fee req txn (xw_ex w)" "ledger_inv (xw_ledger w1)"
      "\<And>t. escrow_held (xw_ledger w1) t = escrow_held (xw_ledger w) t + esc_net t (coalesce legs)"
      "settle_tail X f tick qty (ord_id buy) (ord_id sell) old_qty w1 = Inr (es', w')"
proof -
  from assms(1) obtain txn0 w2 w3 ev txn w4 s trade_id es' old where n: "x_next_txn X tick w = Inr (txn0, w2)"
    and e: "xw_ex w3 = xw_ex w2" "xw_ledger w3 = xw_ledger w2"
    and p: "x_post X (coalesce legs) tick ev w3 = Inr (txn, w4)"
    and s: "dget (ex_securities (xw_ex w4)) (ord_symbol buy) = Some s"
    and t: "settle_tail X f tick qty (ord_id buy) (ord_id sell) old
        (w4\<lparr>xw_ex := settle_trade trade_id f qty tick buy sell fee req txn (xw_ex w4)\<rparr>) = Inr (es', w')"
    by (auto simp: settle_entry_def prog_Inr_iff
        dest!: x_emit_InrD x_update_InrD x_state_InrD x_security_InrD split: if_splits)
  note N = x_next_txn_InrD[OF n assms(2)]
  note P = x_post_InrD[OF p, unfolded e, OF N(2)]
  show ?thesis using that[OF _ _ _ _ t] N P s by simp
qed

lemma reserve_price_InrD:
  assumes "(case ord_limit r of Some p \<Rightarrow> m_return p
      | None \<Rightarrow> m_bind (x_security (ord_symbol r)) (\<lambda>s. m_return (snd (band X s)))) w = Inr (p, w')"
  shows "w' = w \<and> (\<forall>s. dget (ex_securities (xw_ex w)) (ord_symbol r) = Some s \<longrightarrow> p = reserve_price_of X s r)"
  using assms by (auto simp: reserve_price_of_def prog_Inr_iff dest!: x_security_InrD split: option.splits)

lemma settle_InrD:
  assumes run: "settle X f tick w = Inr (es, w')" and led: "ledger_inv (xw_ledger w)"
  obtains (idle) "w' = w" "es = []"
  | (trade) buy sell qty s rp trade_id txn w1 old_qty es' gross fee req where
      "dget (ex_orders (xw_ex w)) (fill_buy f) = Some buy" "dget (ex_orders (xw_ex w)) (fill_sell f) = Some sell"
      "qty = min (fill_qty f) (min (ord_remaining buy) (ord_remaining sell))" "0 < qty" "ord_trader buy \<noteq> ord_trader sell"
      "dget (ex_securities (xw_ex w)) (ord_symbol buy) = Some s" "rp = reserve_price_of X s buy"
      "gross = fill_price f * qty" "fee = commission X gross" "req = reserve_required X (ord_remaining buy - qty) rp"
      "xw_ex w1 = settle_trade trade_id f qty tick buy sell fee req txn (xw_ex w)" "ledger_inv (xw_ledger w1)"
      "\<And>t. escrow_held (xw_ledger w1) t = escrow_held (xw_ledger w) t - (if t = ord_trader buy
         then max 0 (gross - fee) + max 0 (fee + fee) + max 0 (max 0 (ord_reserved_cents buy - (gross + fee) - req)) else 0)"
      "settle_tail X f tick qty (ord_id buy) (ord_id sell) old_qty w1 = Inr (es', w')"
proof -
  from run obtain buy sell where b: "dget (ex_orders (xw_ex w)) (fill_buy f) = Some buy"
    and s: "dget (ex_orders (xw_ex w)) (fill_sell f) = Some sell"
    and r: "let qty = min (fill_qty f) (min (ord_remaining buy) (ord_remaining sell)) in
     (if qty \<le> 0 \<or> ord_trader buy = ord_trader sell then m_return []
     else settle_pay X f tick qty buy sell (fill_price f * qty) (commission X (fill_price f * qty))) w = Inr (es, w')"
    by (auto simp: settle_steps m_bind_Inr_iff Let_def dest!: x_order_InrD)
  define qty where "qty = min (fill_qty f) (min (ord_remaining buy) (ord_remaining sell))"
  define gross where "gross = fill_price f * qty"
  define fee where "fee = commission X gross"
  show ?thesis
  proof (cases "qty \<le> 0 \<or> ord_trader buy = ord_trader sell")
    case True
    then show ?thesis using r that(1) by (simp add: qty_def Let_def prog_Inr_iff)
  next
    case False
    have pay: "settle_pay X f tick qty buy sell gross fee w = Inr (es, w')"
      using False r unfolding gross_def fee_def by (simp add: qty_def Let_def)
    obtain e sd bd d p legs w3 where
      e: "escrow_id (ord_trader buy) ''exchange'' (xw_ledger w) = Inr e"
      and d: "deposit_account (ord_trader sell) (xw_ledger w) = Inr sd" "deposit_account ''fm_broker'' (xw_ledger w) = Inr bd"
        "deposit_account (ord_trader buy) (xw_ledger w) = Inr d"
      and p: "\<forall>s. dget (ex_securities (xw_ex w)) (ord_symbol buy) = Some s \<longrightarrow> p = reserve_price_of X s buy"
      and legs: "settle_legs e sd bd d (gross - fee) (fee + fee)
          (max 0 (ord_reserved_cents buy - (gross + fee) - reserve_required X (ord_remaining buy - qty) p)) w = Inr (legs, w3)"
      and entry: "settle_entry X f tick qty buy sell fee (reserve_required X (ord_remaining buy - qty) p) legs w3 = Inr (es, w')"
      using pay unfolding settle_pay_def
      by (auto simp only: m_bind_Inr_iff dest!: x_escrow_InrD x_deposit_InrD reserve_price_InrD)
    note L = settle_legs_InrD[OF legs escrow_id_owner[OF led e] d[THEN deposit_not_escrow[OF led]]]
    from L entry have entry': "settle_entry X f tick qty buy sell fee (reserve_required X (ord_remaining buy - qty) p) legs w = Inr (es, w')"
      by simp
    from entry' led show ?thesis
    proof (cases rule: settle_entry_InrD)
      case (1 s trade_id txn w1 old_qty es')
      have "p = reserve_price_of X s buy" using p 1(1) by blast
      then show ?thesis using that(2)[OF b s qty_def _ _ 1(1) _ gross_def fee_def refl 1(2) 1(3) _ 1(5)] False 1(4) L by simp
    qed
  qed
qed

section \<open>The market after a trade\<close>

lemma order_fit_upd_security:
  assumes "\<And>s. sec_status (g s) = sec_status s \<and> sec_reference_price (g s) = sec_reference_price s"
  shows "order_fit X (upd_security y g ex) r = order_fit X ex r"
proof -
  have "band X (g s) = band X s" for s using assms by (simp add: band_def)
  then have "reserve_price_of X (g s) r = reserve_price_of X s r" for s
    by (simp add: reserve_price_of_def split: option.split)
  then show ?thesis using assms by (auto simp: order_fit_def dget_upd_security)
qed

lemma orders_fit_upd_security:
  assumes "orders_fit X P Q ex" "\<And>s. sec_status (g s) = sec_status s \<and> sec_reference_price (g s) = sec_reference_price s"
  shows "orders_fit X P Q (upd_security y g ex)"
  using assms(1) unfolding orders_fit_def order_fit_upd_security[OF assms(2)] by simp

lemma securities_ok_upd_security:
  assumes "securities_ok ex" "\<And>s. sec_shares (g s) = sec_shares s"
  shows "securities_ok (upd_security y g ex)"
  using assms by (auto simp: securities_ok_def dget_upd_security outstanding_def holding_sum_def split: if_splits)

lemma reserved_ok_cong:
  "reserved_ok ex \<Longrightarrow> ex_holdings ex' = ex_holdings ex \<Longrightarrow> ex_orders ex' = ex_orders ex \<Longrightarrow> reserved_ok ex'"
  by (simp add: reserved_ok_def holding_of_def order_sum_def)

lemma take_buy_sel [simp]:
  "ord_id (take_buy q g e c r) = ord_id r" "active (take_buy q g e c r) = active r"
  "ord_remaining (take_buy q g e c r) = ord_remaining r - q" "ord_reserved_cents (take_buy q g e c r) = c"
  "ord_reserved_qty (take_buy q g e c r) = ord_reserved_qty r" "ord_trader (take_buy q g e c r) = ord_trader r"
  "ord_symbol (take_buy q g e c r) = ord_symbol r" "ord_side (take_buy q g e c r) = ord_side r"
  "ord_limit (take_buy q g e c r) = ord_limit r" "ord_type (take_buy q g e c r) = ord_type r"
  "short_sale (take_buy q g e c r) = short_sale r" "ord_flags (take_buy q g e c r) = ord_flags r"
  "ord_status (take_buy q g e c r) = ord_status r"
  by (simp_all add: take_buy_def active_def short_sale_def)

lemma take_sell_sel [simp]:
  "ord_id (take_sell q g e r) = ord_id r" "active (take_sell q g e r) = active r"
  "ord_remaining (take_sell q g e r) = ord_remaining r - q" "ord_reserved_cents (take_sell q g e r) = ord_reserved_cents r"
  "ord_reserved_qty (take_sell q g e r) = ord_reserved_qty r - (if short_sale r then 0 else q)"
  "ord_trader (take_sell q g e r) = ord_trader r" "ord_symbol (take_sell q g e r) = ord_symbol r"
  "ord_side (take_sell q g e r) = ord_side r" "ord_limit (take_sell q g e r) = ord_limit r"
  "ord_type (take_sell q g e r) = ord_type r" "short_sale (take_sell q g e r) = short_sale r"
  "ord_flags (take_sell q g e r) = ord_flags r" "ord_status (take_sell q g e r) = ord_status r"
  by (simp_all add: take_sell_def active_def short_sale_def)

definition live_order :: "side \<Rightarrow> string \<Rightarrow> order_state \<Rightarrow> bool" where
  "live_order sd stock r \<longleftrightarrow> active r \<and> ord_side r = sd \<and> ord_symbol r = stock"

lemma settle_trade_ok:
  assumes fit: "orders_fit X {} {} ex" and rows: "rows_ok ex" "reserved_ok ex" "securities_ok ex"
    and b: "dget (ex_orders ex) bi = Some buy" "live_order Buy stock buy"
    and s: "dget (ex_orders ex) si = Some sell" "live_order Sell stock sell"
    and q: "0 < qty" "qty \<le> ord_remaining buy" "qty \<le> ord_remaining sell" and tr: "ord_trader buy \<noteq> ord_trader sell"
    and sec: "dget (ex_securities ex) stock = Some sec" and req: "req = reserve_required X (ord_remaining buy - qty) (reserve_price_of X sec buy)"
    and nn: "0 \<le> req" "req = 0 \<or> qty < ord_remaining buy"
    and ex': "ex' = settle_trade name f qty tick buy sell fee req txn ex"
  shows "orders_fit X {bi, si} {si} ex'" "rows_ok ex'" "reserved_ok ex'" "securities_ok ex'"
    "escrow_due ex' t = escrow_due ex t - (if t = ord_trader buy then ord_reserved_cents buy - req else 0)"
    "ex_shorts ex' = ex_shorts ex" "ex_ipos ex' = ex_ipos ex"
proof -
  let ?gross = "fill_price f * qty"
  define fb where "fb = take_buy qty ?gross fee req"
  define fs where "fs = take_sell qty ?gross fee"
  define g where "g = (\<lambda>s :: security_state. s\<lparr>sec_last_price := fill_price f\<rparr>)"
  define ex1 where "ex1 = upd_order bi fb ex"
  define ex2 where "ex2 = upd_order si fs ex1"
  define ex3 where "ex3 = upd_holding (ord_trader buy) stock (receive_shares qty ?gross) ex2"
  define ex4 where "ex4 = upd_holding (ord_trader sell) stock (deliver_shares qty sell) ex3"
  define ex5 where "ex5 = upd_security stock g ex4"
  note B = orders_fitD[OF fit b(1)] and S = orders_fitD[OF fit s(1)]
  have act: "active buy" "active sell" "ord_side buy = Buy" "ord_side sell = Sell" "ord_symbol buy = stock" "ord_symbol sell = stock"
    using b(2) s(2) by (auto simp: live_order_def)
  have bs: "bi \<noteq> si" using b(1) s(1) act by auto
  have fb: "order_fit X ex buy" and fs': "order_fit X ex sell" using B S act by auto
  have plain: "plain_id (ord_trader buy)" "plain_id (ord_trader sell)" using fb fs' by (auto simp: order_fit_def)
  have listed: "stock \<in> set (dkeys (ex_securities ex))" using order_fit_symbol[OF fb] act by simp
  have tail: "ex_orders ex' = ex_orders ex5" "ex_securities ex' = ex_securities ex5" "ex_holdings ex' = ex_holdings ex5"
    "ex_shorts ex' = ex_shorts ex5" "ex_ipos ex' = ex_ipos ex5"
    using B S act by (simp_all add: ex' settle_trade_def Let_def ex5_def ex4_def ex3_def ex2_def ex1_def fb_def fs_def g_def)
  have fit1: "orders_fit X {bi, si} {si} ex1" unfolding ex1_def
  proof (rule orders_fit_upd[OF fit b(1)])
    show "order_fit X ex (fb buy)" using fb q(2) act sec nn req
      by (simp add: order_fit_def fb_def reserve_price_of_def)
  qed (use B act nn req in \<open>auto simp: fb_def reserve_required_def\<close>)
  have s1: "dget (ex_orders ex1) si = Some sell" using s bs by (simp add: ex1_def dget_upd_order)
  have fit2: "orders_fit X {bi, si} {si} ex2" unfolding ex2_def
  proof (rule orders_fit_upd[OF fit1 s1])
    show "order_fit X ex1 (fs sell)" using fs' q(3) act by (auto simp: order_fit_def fs_def ex1_def)
  qed (use S act in \<open>auto simp: fs_def\<close>)
  have "orders_fit X {bi, si} {si} ex4" by (rule orders_fit_cong[OF fit2]) (simp_all add: ex4_def ex3_def)
  then have "orders_fit X {bi, si} {si} ex5" unfolding ex5_def by (rule orders_fit_upd_security) (simp add: g_def)
  then show "orders_fit X {bi, si} {si} ex'" by (rule orders_fit_cong) (simp_all add: tail)
  have rows2: "rows_ok ex2" using rows(1) by (rule rows_ok_cong) (simp_all add: ex2_def ex1_def)
  note R2 = holding_of_row[OF rows2 plain(1), of stock]
  have rows3: "rows_ok ex3" unfolding ex3_def
    by (rule rows_ok_upd[OF rows2 plain(1)]) (use R2 listed in \<open>simp_all add: receive_shares_def ex2_def ex1_def\<close>)
  note R3 = holding_of_row[OF rows3 plain(2), of stock]
  have rows4: "rows_ok ex4" unfolding ex4_def
    by (rule rows_ok_upd[OF rows3 plain(2)]) (use R3 listed in \<open>simp_all add: deliver_shares_def ex3_def ex2_def ex1_def\<close>)
  then show "rows_ok ex'" by (rule rows_ok_cong) (simp_all add: tail ex5_def)
  have out: "outstanding ex4 y = outstanding ex y" for y
  proof -
    have "outstanding ex4 y = outstanding ex3 y - (if y = stock then qty else 0)"
      using outstanding_upd_holding[OF rows3 plain(2), of "deliver_shares qty sell" stock y] R3
      by (simp add: ex4_def deliver_shares_def)
    moreover have "outstanding ex3 y = outstanding ex2 y + (if y = stock then qty else 0)"
      using outstanding_upd_holding[OF rows2 plain(1), of "receive_shares qty ?gross" stock y] R2
      by (simp add: ex3_def receive_shares_def)
    ultimately show ?thesis by (simp add: ex2_def ex1_def)
  qed
  have sec4: "ex_securities ex4 = ex_securities ex" by (simp add: ex4_def ex3_def ex2_def ex1_def)
  have "securities_ok ex4" by (rule securities_ok_cong[OF rows(3) sec4 out])
  then have "securities_ok ex5" unfolding ex5_def by (rule securities_ok_upd_security) (simp add: g_def)
  then show "securities_ok ex'" by (rule securities_ok_cong) (simp_all add: tail outstanding_def holding_sum_def)
  have wf: "wf_dict (ex_orders ex)" "wf_dict (ex_orders ex1)" using orders_fit_wf[OF fit] orders_fit_wf[OF fit1] .
  have orders4: "ex_orders ex4 = ex_orders ex2" by (simp add: ex4_def ex3_def)
  show "reserved_ok ex'"
    unfolding reserved_ok_def
  proof (intro allI impI)
    fix t y assume t: "plain_id t"
    have "hold_reserved (holding_of t y ex4) = hold_reserved (holding_of t y ex)
        - (if t = ord_trader sell \<and> y = stock \<and> \<not> short_sale sell then qty else 0)"
    proof -
      have "hold_reserved (holding_of t y ex4) = hold_reserved (holding_of t y ex3)
          - (if t = ord_trader sell \<and> y = stock \<and> \<not> short_sale sell then qty else 0)"
        using t plain by (auto simp: ex4_def holding_of_upd deliver_shares_def short_sale_def)
      moreover have "hold_reserved (holding_of t y ex3) = hold_reserved (holding_of t y ex2)"
        using t plain by (auto simp: ex3_def holding_of_upd receive_shares_def)
      moreover have "holding_of t y ex2 = holding_of t y ex" by (simp add: holding_of_def ex2_def ex1_def)
      ultimately show ?thesis by simp
    qed
    moreover have "order_sum (want_of t y) ex2 = order_sum (want_of t y) ex
        - (if t = ord_trader sell \<and> y = stock \<and> \<not> short_sale sell then qty else 0)"
      unfolding ex2_def order_sum_upd[OF wf(2) s1] unfolding ex1_def order_sum_upd[OF wf(1) b(1)]
      using act by (auto simp: want_of_def fb_def fs_def)
    moreover have "holding_of t y ex' = holding_of t y ex4" "order_sum (want_of t y) ex' = order_sum (want_of t y) ex2"
      by (simp_all add: holding_of_def order_sum_def tail ex5_def orders4)
    ultimately show "hold_reserved (holding_of t y ex') = order_sum (want_of t y) ex'"
      using rows(2) t by (simp add: reserved_ok_def)
  qed
  have "escrow_due ex' t = escrow_due ex2 t" by (rule escrow_due_cong) (simp_all add: tail ex5_def ex4_def ex3_def)
  also have "\<dots> = escrow_due ex t - (if t = ord_trader buy then ord_reserved_cents buy - req else 0)"
    unfolding ex2_def escrow_due_upd_order[OF wf(2) s1] unfolding ex1_def escrow_due_upd_order[OF wf(1) b(1)]
    using act by (auto simp: cents_of_def fb_def fs_def)
  finally show "escrow_due ex' t = escrow_due ex t - (if t = ord_trader buy then ord_reserved_cents buy - req else 0)" .
  show "ex_shorts ex' = ex_shorts ex" "ex_ipos ex' = ex_ipos ex"
    by (simp_all add: tail ex5_def ex4_def ex3_def ex2_def ex1_def)
qed

section \<open>What trading does to the orders\<close>

definition evolved :: "order_state \<Rightarrow> order_state \<Rightarrow> bool" where
  "evolved r r' \<longleftrightarrow> ord_id r' = ord_id r \<and> ord_symbol r' = ord_symbol r \<and> ord_side r' = ord_side r
     \<and> ord_trader r' = ord_trader r \<and> ord_type r' = ord_type r \<and> ord_limit r' = ord_limit r \<and> ord_flags r' = ord_flags r
     \<and> (active r' \<longrightarrow> active r) \<and> (active r \<longrightarrow> active r' \<or> ord_remaining r' \<le> 0)
     \<and> (ord_remaining r \<le> 0 \<longrightarrow> ord_remaining r' \<le> 0)"

definition traded :: "exchange_state \<Rightarrow> exchange_state \<Rightarrow> bool" where
  "traded ex ex' \<longleftrightarrow> (\<forall>i. rel_option evolved (dget (ex_orders ex) i) (dget (ex_orders ex') i))"

lemma evolved_refl [simp]: "evolved r r"
  by (simp add: evolved_def)

lemma traded_refl [simp]: "traded ex ex"
  by (simp add: traded_def option.rel_refl)

lemma traded_cong: "ex_orders ex' = ex_orders ex \<Longrightarrow> traded ex ex'"
  by (simp add: traded_def option.rel_refl)

lemma evolved_trans: "evolved r r' \<Longrightarrow> evolved r' r'' \<Longrightarrow> evolved r r''"
  unfolding evolved_def by clarsimp

lemma traded_trans:
  assumes "traded ex ex'" "traded ex' ex''" shows "traded ex ex''"
  unfolding traded_def
proof
  fix i
  from assms have "rel_option evolved (dget (ex_orders ex) i) (dget (ex_orders ex') i)"
    "rel_option evolved (dget (ex_orders ex') i) (dget (ex_orders ex'') i)" by (simp_all add: traded_def)
  then show "rel_option evolved (dget (ex_orders ex) i) (dget (ex_orders ex'') i)"
    by (auto simp: option_rel_Some1 option_rel_Some2 elim!: option.rel_cases intro: evolved_trans)
qed

lemma traded_upd:
  "(\<And>r. dget (ex_orders ex) i = Some r \<Longrightarrow> evolved r (f r)) \<Longrightarrow> traded ex (upd_order i f ex)"
  by (auto simp: traded_def dget_upd_order option.rel_refl option.rel_map split: option.splits
      intro!: option.rel_refl_strong)

lemma tradedD: "traded ex ex' \<Longrightarrow> dget (ex_orders ex) i = Some r \<Longrightarrow> \<exists>r'. dget (ex_orders ex') i = Some r' \<and> evolved r r'"
  unfolding traded_def by (drule spec[of _ i]) (simp add: option_rel_Some1)

lemma tradedD': "traded ex ex' \<Longrightarrow> dget (ex_orders ex') i = Some r' \<Longrightarrow> \<exists>r. dget (ex_orders ex) i = Some r \<and> evolved r r'"
  unfolding traded_def by (drule spec[of _ i]) (simp add: option_rel_Some2)

section \<open>Shorts\<close>

lemma shorts_ok_dset:
  assumes "shorts_ok ex" "k = holding_key (sp_trader p) (sp_symbol p)" "plain_id (sp_trader p)"
  shows "shorts_ok (ex\<lparr>ex_shorts := dset k p (ex_shorts ex)\<rparr>)"
  using assms by (simp add: shorts_ok_def)

lemma escrow_due_dset_short:
  assumes "shorts_ok ex" "dget (ex_shorts ex) k = old"
  shows "escrow_due (ex\<lparr>ex_shorts := dset k p (ex_shorts ex)\<rparr>) t
    = escrow_due ex t - (case old of None \<Rightarrow> 0 | Some p0 \<Rightarrow> collateral_of t p0) + collateral_of t p"
proof -
  have "short_sum (collateral_of t) (ex\<lparr>ex_shorts := dset k p (ex_shorts ex)\<rparr>)
    = short_sum (collateral_of t) ex - (case old of None \<Rightarrow> 0 | Some p0 \<Rightarrow> collateral_of t p0) + collateral_of t p"
  proof (cases old)
    case None
    then show ?thesis using sum_dset_fresh_int[of "ex_shorts ex" k "collateral_of t" p] assms(2) by (simp add: short_sum_def)
  next
    case (Some p0)
    have "wf_dict (ex_shorts ex)" using assms(1) by (simp add: shorts_ok_def)
    from sum_dset_int[OF this, of k p0 "collateral_of t" p] show ?thesis using Some assms(2) by (simp add: short_sum_def)
  qed
  then show ?thesis by (simp add: escrow_due_def order_sum_def ipo_sum_def)
qed

lemma shorts_ok_row:
  assumes "shorts_ok ex" "dget (ex_shorts ex) (holding_key t s) = Some p" "plain_id t"
  shows "sp_trader p = t" "sp_symbol p = s"
proof -
  have "holding_key t s = holding_key (sp_trader p) (sp_symbol p)" "plain_id (sp_trader p)"
    using assms(1,2) by (auto simp: shorts_ok_def)
  then show "sp_trader p = t" "sp_symbol p = s" using assms(3) by auto
qed

lemma record_short_InrD:
  assumes "record_short X r qty price c tick w = Inr (es, w')" "shorts_ok (xw_ex w)" "plain_id (ord_trader r)"
  shows "\<exists>sh. xw_ex w' = (xw_ex w)\<lparr>ex_shorts := sh\<rparr> \<and> shorts_ok (xw_ex w')
    \<and> (\<forall>t. escrow_due (xw_ex w') t = escrow_due (xw_ex w) t + (if t = ord_trader r then c else 0))
    \<and> xw_ledger w' = xw_ledger w"
proof -
  let ?k = "holding_key (ord_trader r) (ord_symbol r)"
  from assms(1) obtain p where p: "add_short X r qty price c tick (dget (ex_shorts (xw_ex w)) ?k) = Inr p"
    and w': "xw_ex w' = (xw_ex w)\<lparr>ex_shorts := dset ?k p (ex_shorts (xw_ex w))\<rparr>" "xw_ledger w' = xw_ledger w"
    by (auto simp: record_short_def Let_def prog_Inr_iff dest!: x_state_InrD x_update_InrD x_emit_InrD)
  have row: "sp_trader p = ord_trader r \<and> sp_symbol p = ord_symbol r
      \<and> sp_collateral p = (case dget (ex_shorts (xw_ex w)) ?k of None \<Rightarrow> c | Some p0 \<Rightarrow> sp_collateral p0 + c)"
    using p shorts_ok_row[OF assms(2) _ assms(3)] by (auto simp: add_short_def split: option.splits if_splits)
  have "shorts_ok (xw_ex w')" unfolding w' by (rule shorts_ok_dset[OF assms(2)]) (use row assms(3) in simp_all)
  moreover have "escrow_due (xw_ex w') t = escrow_due (xw_ex w) t + (if t = ord_trader r then c else 0)" for t
    unfolding w' escrow_due_dset_short[OF assms(2) refl]
    using row shorts_ok_row[OF assms(2) _ assms(3)] by (auto simp: collateral_of_def split: option.splits)
  ultimately show ?thesis using w' by blast
qed

lemma market_fitD:
  assumes "market_fit X P Q w"
  shows "ledger_inv (xw_ledger w)" "orders_fit X P Q (xw_ex w)" "rows_ok (xw_ex w)" "reserved_ok (xw_ex w)"
    "securities_ok (xw_ex w)" "shorts_ok (xw_ex w)" "ipos_ok (xw_ex w)" "escrow_held (xw_ledger w) t = escrow_due (xw_ex w) t"
  using assms by (simp_all add: market_fit_def)

lemma market_fit_shorts:
  \<comment> \<open>a change of the short positions and the money held for them\<close>
  assumes "market_fit X P Q w" "xw_ex w' = (xw_ex w)\<lparr>ex_shorts := sh\<rparr>" "shorts_ok (xw_ex w')" "ledger_inv (xw_ledger w')"
    "\<And>t. escrow_held (xw_ledger w') t - escrow_held (xw_ledger w) t = escrow_due (xw_ex w') t - escrow_due (xw_ex w) t"
  shows "market_fit X P Q w'"
proof -
  note I = market_fitD[OF assms(1)]
  have "orders_fit X P Q (xw_ex w')" by (rule orders_fit_cong[OF I(2)]) (simp_all add: assms(2))
  moreover have "rows_ok (xw_ex w')" by (rule rows_ok_cong[OF I(3)]) (simp_all add: assms(2))
  moreover have "reserved_ok (xw_ex w')" by (rule reserved_ok_cong[OF I(4)]) (simp_all add: assms(2))
  moreover have "securities_ok (xw_ex w')"
    by (rule securities_ok_cong[OF I(5)]) (simp_all add: assms(2) outstanding_def holding_sum_def)
  moreover have "ipos_ok (xw_ex w')" by (rule ipos_ok_cong[OF I(7)]) (simp add: assms(2))
  moreover have "escrow_held (xw_ledger w') t = escrow_due (xw_ex w') t" for t using assms(5)[of t] I(8)[of t] by simp
  ultimately show ?thesis using assms(3,4) by (simp add: market_fit_def)
qed

lemma record_cover_steps:
  "record_cover X r qty price tick =
     (if qty \<le> 0 then m_return []
      else m_bind (x_state (\<lambda>ex. dget (ex_shorts ex) (holding_key (ord_trader r) (ord_symbol r)))) (\<lambda>found.
      case found of None \<Rightarrow> m_return []
      | Some p \<Rightarrow>
        let covered = min qty (sp_qty p);
            realised = (sp_entry_price p - price) * covered;
            released = sp_collateral p * covered div max 1 (sp_qty p)
        in m_then (x_update (\<lambda>ex. ex\<lparr>ex_shorts := dset (holding_key (ord_trader r) (ord_symbol r))
              (cover_short covered released p) (ex_shorts ex)\<rparr>))
          (m_bind (x_emit X 7061 [(''trader_id'', JStr (ord_trader r)), (''symbol'', JStr (ord_symbol r)),
              (''qty'', JInt covered), (''price_cents'', JInt price), (''realised_pnl_cents'', JInt realised),
              (''fees_paid_cents'', JInt (ord_commission r))] (Some (ord_trader r)) [ord_symbol r]) (\<lambda>ev.
          m_then (release X (ord_trader r) (margin_ref (ord_symbol r)) released tick ev)
          (if ''forced_liquidation'' \<in> set (ord_flags r) then
             m_bind (x_emit X 7064 [(''trader_id'', JStr (ord_trader r)), (''symbol'', JStr (ord_symbol r)),
                 (''qty'', JInt covered), (''avg_price_cents'', JInt price),
                 (''shortfall_cents'', JInt (max 0 (covered * price - released)))]
               (Some (ord_trader r)) [ord_symbol r]) (\<lambda>ev2. m_return [ev, ev2])
           else m_return [ev])))))"
  unfolding record_cover_def release_def Let_def ..

lemma record_cover_keeps:
  assumes run: "record_cover X r qty price tick w = Inr (es, w')" and inv: "market_fit X P Q w"
    and plain: "plain_id (ord_trader r)"
  shows "market_fit X P Q w' \<and> ex_orders (xw_ex w') = ex_orders (xw_ex w)"
proof (cases "qty \<le> 0 \<or> dget (ex_shorts (xw_ex w)) (holding_key (ord_trader r) (ord_symbol r)) = None")
  case True
  then show ?thesis using run inv by (auto simp: record_cover_steps prog_Inr_iff dest!: x_state_InrD split: if_splits)
next
  case False
  let ?k = "holding_key (ord_trader r) (ord_symbol r)"
  from False obtain p where p: "dget (ex_shorts (xw_ex w)) ?k = Some p" by auto
  define m where "m = sp_collateral p * min qty (sp_qty p) div max 1 (sp_qty p)"
  define p' where "p' = cover_short (min qty (sp_qty p)) m p"
  define w1 where "w1 = w\<lparr>xw_ex := (xw_ex w)\<lparr>ex_shorts := dset ?k p' (ex_shorts (xw_ex w))\<rparr>\<rparr>"
  from run False p obtain ev w2 u w3 where e: "xw_ex w2 = xw_ex w1" "xw_ledger w2 = xw_ledger w1"
    and rel: "release X (ord_trader r) (margin_ref (ord_symbol r)) m tick ev w2 = Inr (u, w3)"
    and w': "xw_ex w' = xw_ex w3" "xw_ledger w' = xw_ledger w3"
    by (auto simp: record_cover_steps prog_Inr_iff Let_def m_def p'_def w1_def
        dest!: x_state_InrD x_update_InrD x_emit_InrD split: if_splits)
  have sh: "shorts_ok (xw_ex w)" and led: "ledger_inv (xw_ledger w)" using inv by (simp_all add: market_fit_def)
  note row = shorts_ok_row[OF sh p plain]
  have row': "sp_trader p' = ord_trader r" "sp_symbol p' = ord_symbol r" "sp_collateral p' = sp_collateral p - m"
    using row by (simp_all add: p'_def cover_short_def)
  note R = release_InrD[OF rel, unfolded e]
  have ex': "xw_ex w' = (xw_ex w)\<lparr>ex_shorts := dset ?k p' (ex_shorts (xw_ex w))\<rparr>" using R led by (simp add: w' w1_def)
  have "market_fit X P Q w'"
  proof (rule market_fit_shorts[OF inv ex'])
    show "shorts_ok (xw_ex w')" unfolding ex' by (rule shorts_ok_dset[OF sh]) (use row' plain in simp_all)
    show "ledger_inv (xw_ledger w')" using R led by (simp add: w' w1_def)
    show "escrow_held (xw_ledger w') t - escrow_held (xw_ledger w) t = escrow_due (xw_ex w') t - escrow_due (xw_ex w) t" for t
      unfolding ex' escrow_due_dset_short[OF sh p] using R led row row' by (simp add: w' w1_def collateral_of_def)
  qed
  then show ?thesis using ex' by simp
qed

lemma settle_short_keeps:
  assumes run: "settle_short X si qty price tick w = Inr (es, w')" and inv: "market_fit X P {si} w"
    and s: "dget (ex_orders (xw_ex w)) si = Some sell" "active sell" "ord_side sell = Sell" and q: "0 < qty"
  shows "market_fit X P {} w' \<and> traded (xw_ex w) (xw_ex w')
    \<and> (\<exists>c. dget (ex_orders (xw_ex w')) si = Some (sell\<lparr>ord_reserved_cents := c\<rparr>))
    \<and> (\<forall>i. i \<noteq> si \<longrightarrow> dget (ex_orders (xw_ex w')) i = dget (ex_orders (xw_ex w)) i)"
proof (cases "short_sale sell")
  case False
  then have w': "w' = w" using run s by (auto simp: settle_short_def short_sale_def prog_Inr_iff dest!: x_order_InrD)
  have fit: "orders_fit X P {si} (xw_ex w)" using inv by (simp add: market_fit_def)
  have "orders_fit X P {} (xw_ex w)" unfolding orders_fit_def
  proof (intro conjI allI impI)
    fix i r assume i: "dget (ex_orders (xw_ex w)) i = Some r" "active r" and z: "ord_remaining r = 0"
    show "ord_reserved_cents r = 0"
    proof (cases "i = si")
      case True
      then show ?thesis using orders_fitD(2)[OF fit i(1)] i s False by (simp add: order_fit_def)
    qed (use orders_fitD(4)[OF fit i(1)] i(2) z in simp)
  qed (use orders_fit_wf[OF fit] orders_fitD[OF fit] in auto)
  then have "market_fit X P {} w'" using inv w' by (simp add: market_fit_def)
  moreover have "\<exists>c. dget (ex_orders (xw_ex w')) si = Some (sell\<lparr>ord_reserved_cents := c\<rparr>)"
    by (rule exI[of _ "ord_reserved_cents sell"]) (simp add: s w')
  ultimately show ?thesis by (simp add: w')
next
  case True
  define n where "n = ord_remaining sell + qty"
  define c where "c = ord_reserved_cents sell * qty div max 1 n"
  define f where "f = (\<lambda>r :: order_state. r\<lparr>ord_reserved_cents := ord_reserved_cents r - c\<rparr>)"
  define w1 where "w1 = w\<lparr>xw_ex := upd_order si f (xw_ex w)\<rparr>"
  have rec: "record_short X sell qty price c tick w1 = Inr (es, w')"
    using run s True
    by (auto simp: settle_short_def short_sale_def prog_Inr_iff Let_def w1_def f_def c_def n_def
        dest!: x_order_InrD x_update_InrD)
  note I = market_fitD[OF inv]
  note fit = I(2) and sh = I(6)
  have sf: "order_fit X (xw_ex w) sell" and plain: "plain_id (ord_trader sell)" and rem: "0 \<le> ord_remaining sell"
    and nn: "0 \<le> ord_reserved_cents sell"
    using orders_fitD(2)[OF fit s(1)] s(2) by (auto simp: order_fit_def)
  have n: "0 < n" "qty \<le> n" using q rem by (simp_all add: n_def)
  have "ord_reserved_cents sell * qty \<le> ord_reserved_cents sell * n" using n nn by (intro mult_left_mono) auto
  then have c: "c \<le> ord_reserved_cents sell"
    using n zdiv_mono1[of "ord_reserved_cents sell * qty" "ord_reserved_cents sell * n" n] by (simp add: c_def max_def)
  have all: "c = ord_reserved_cents sell" if "ord_remaining sell = 0" using that n q by (simp add: c_def n_def max_def)
  have fit1: "orders_fit X P {} (upd_order si f (xw_ex w))"
  proof (rule orders_fit_upd[OF fit s(1)])
    show "order_fit X (xw_ex w) (f sell)" using sf s(3) c True by (auto simp: f_def order_fit_def reserve_price_of_def short_sale_def)
  qed (use orders_fitD[OF fit s(1)] s(2) all in \<open>auto simp: f_def active_def\<close>)
  have wf: "wf_dict (ex_orders (xw_ex w))" using fit by (rule orders_fit_wf)
  from record_short_InrD[OF rec _ plain] obtain sh' where w': "xw_ex w' = (xw_ex w1)\<lparr>ex_shorts := sh'\<rparr>" "shorts_ok (xw_ex w')"
    "xw_ledger w' = xw_ledger w"
    and due: "\<And>t. escrow_due (xw_ex w') t = escrow_due (xw_ex w1) t + (if t = ord_trader sell then c else 0)"
    using sh shorts_ok_cong[of "xw_ex w" "xw_ex w1"] by (auto simp: w1_def)
  have due': "escrow_due (xw_ex w') t = escrow_due (xw_ex w) t" for t
    unfolding due using escrow_due_upd_order[OF wf s(1), of f t] s(2) by (simp add: w1_def f_def cents_of_def active_def)
  have "market_fit X P {} w'"
  proof -
    have "orders_fit X P {} (xw_ex w')" by (rule orders_fit_cong[OF fit1]) (simp_all add: w' w1_def)
    moreover have "rows_ok (xw_ex w')" by (rule rows_ok_cong[OF I(3)]) (simp_all add: w' w1_def)
    moreover have "reserved_ok (xw_ex w')"
    proof (rule reserved_ok_cong)
      show "reserved_ok (upd_order si f (xw_ex w))"
        by (rule reserved_ok_upd_order[OF I(4) wf s(1)]) (auto simp: f_def want_of_def active_def short_sale_def)
    qed (simp_all add: w' w1_def)
    moreover have "securities_ok (xw_ex w')"
      by (rule securities_ok_cong[OF I(5)]) (simp_all add: w' w1_def outstanding_def holding_sum_def)
    moreover have "ipos_ok (xw_ex w')" by (rule ipos_ok_cong[OF I(7)]) (simp add: w' w1_def)
    ultimately show ?thesis using w' due' I(1,8) by (simp add: market_fit_def)
  qed
  moreover have "traded (xw_ex w) (upd_order si f (xw_ex w))"
    by (rule traded_upd) (simp add: f_def evolved_def active_def)
  then have "traded (xw_ex w) (xw_ex w')" by (rule traded_trans) (rule traded_cong, simp add: w' w1_def)
  moreover have "dget (ex_orders (xw_ex w')) si = Some (sell\<lparr>ord_reserved_cents := ord_reserved_cents sell - c\<rparr>)"
    using s(1) by (simp add: w' w1_def dget_upd_order f_def)
  ultimately show ?thesis by (auto simp: w' w1_def dget_upd_order)
qed

section \<open>A settlement keeps the invariant\<close>

lemma fill_events_keeps:
  assumes run: "fill_events X i w = Inr (es, w')" and inv: "market_fit X P {} w"
    and r: "dget (ex_orders (xw_ex w)) i = Some r" "active r"
  shows "market_fit X (P - {i}) {} w' \<and> traded (xw_ex w) (xw_ex w')
    \<and> (\<forall>j. j \<noteq> i \<longrightarrow> dget (ex_orders (xw_ex w')) j = dget (ex_orders (xw_ex w)) j)"
proof -
  define f where "f = (\<lambda>x :: order_state. x\<lparr>ord_status := (if ord_remaining r = 0 then StFilled else StPartial)\<rparr>)"
  have w': "xw_ex w' = upd_order i f (xw_ex w)" "xw_ledger w' = xw_ledger w"
    using run r(1)
    by (auto simp: fill_events_def prog_Inr_iff Let_def f_def dest!: x_order_InrD x_update_InrD x_emit_InrD split: if_splits)
  note I = market_fitD[OF inv]
  note R = orders_fitD[OF I(2) r(1)]
  have fit: "order_fit X (xw_ex w) r" using R(2) r(2) .
  then have zero: "ord_remaining r = 0 \<Longrightarrow> ord_reserved_cents r = 0 \<and> ord_reserved_qty r = 0"
    using R(4) r(2) by (auto simp: order_fit_def split: if_splits)
  have pos: "ord_remaining r \<noteq> 0 \<Longrightarrow> 0 < ord_remaining r" using fit by (auto simp: order_fit_def)
  have wf: "wf_dict (ex_orders (xw_ex w))" using orders_fit_wf[OF I(2)] .
  have "orders_fit X (P - {i}) {} (xw_ex w')" unfolding w'
  proof (rule orders_fit_upd[OF I(2) r(1)])
    show "order_fit X (xw_ex w) (f r)" using fit by (simp add: f_def order_fit_def reserve_price_of_def short_sale_def)
  qed (use R r(2) pos zero in \<open>auto simp: f_def active_def split: if_splits\<close>)
  moreover have "rows_ok (xw_ex w')" by (rule rows_ok_cong[OF I(3)]) (simp_all add: w')
  moreover have "reserved_ok (xw_ex w')" unfolding w'
    by (rule reserved_ok_upd_order[OF I(4) wf r(1)])
      (use r(2) zero in \<open>auto simp: f_def want_of_def active_def short_sale_def\<close>)
  moreover have "securities_ok (xw_ex w')" by (rule securities_ok_cong[OF I(5)]) (simp_all add: w')
  moreover have "shorts_ok (xw_ex w')" by (rule shorts_ok_cong[OF I(6)]) (simp add: w')
  moreover have "ipos_ok (xw_ex w')" by (rule ipos_ok_cong[OF I(7)]) (simp add: w')
  moreover have "escrow_due (xw_ex w') t = escrow_due (xw_ex w) t" for t
    unfolding w' escrow_due_upd_order[OF wf r(1)] using r(2) zero by (auto simp: f_def cents_of_def active_def)
  ultimately have "market_fit X (P - {i}) {} w'" using I(1,8) w' by (simp add: market_fit_def)
  moreover have "traded (xw_ex w) (xw_ex w')" unfolding w'
    by (rule traded_upd) (use r in \<open>auto simp: f_def evolved_def active_def\<close>)
  ultimately show ?thesis by (simp add: w' dget_upd_order)
qed

definition fair_fill :: "string \<Rightarrow> fill \<Rightarrow> exchange_state \<Rightarrow> bool" where
  \<comment> \<open>a fill between two orders of a stock that are live or used up, within the buyer's limit\<close>
  "fair_fill stock f ex \<longleftrightarrow>
     (\<forall>r. dget (ex_orders ex) (fill_buy f) = Some r \<longrightarrow> ord_side r = Buy \<and> ord_symbol r = stock
        \<and> (active r \<or> ord_remaining r \<le> 0) \<and> (\<forall>p. ord_limit r = Some p \<longrightarrow> fill_price f \<le> p))
   \<and> (\<forall>r. dget (ex_orders ex) (fill_sell f) = Some r \<longrightarrow> ord_side r = Sell \<and> ord_symbol r = stock
        \<and> (active r \<or> ord_remaining r \<le> 0))"

lemma fair_fill_traded: "fair_fill stock f ex \<Longrightarrow> traded ex ex' \<Longrightarrow> fair_fill stock f ex'"
  unfolding fair_fill_def
  by (intro conjI allI impI; drule (1) tradedD'; elim exE conjE; unfold evolved_def; metis)

lemma settle_trade_traded:
  assumes "ord_id buy = bi" "ord_id sell = si" "0 < qty" "ex' = settle_trade name f qty tick buy sell fee req txn ex"
  shows "traded ex ex'"
proof -
  have "traded ex (upd_order bi (take_buy qty (fill_price f * qty) fee req) ex)"
    by (rule traded_upd) (use assms(3) in \<open>simp add: evolved_def\<close>)
  moreover have "traded \<dots> (upd_order si (take_sell qty (fill_price f * qty) fee) \<dots>)" for ex
    by (rule traded_upd) (use assms(3) in \<open>simp add: evolved_def\<close>)
  ultimately show ?thesis unfolding assms(4) settle_trade_def Let_def assms(1,2)
    by (rule traded_trans[OF traded_trans]) (rule traded_cong, simp)
qed

lemma settle_tail_keeps:
  assumes run: "settle_tail X f tick qty bi si old w = Inr (es, w')" and inv: "market_fit X {bi, si} {si} w"
    and b: "dget (ex_orders (xw_ex w)) bi = Some buy" "active buy" "plain_id (ord_trader buy)"
    and s: "dget (ex_orders (xw_ex w)) si = Some sell" "active sell" "ord_side sell = Sell" and q: "0 < qty" "bi \<noteq> si"
  shows "market_inv X w' \<and> traded (xw_ex w) (xw_ex w')"
proof -
  from run obtain es1 w1 es2 w2 es3 w3 es4 where a1: "settle_short X si qty (fill_price f) tick w = Inr (es1, w1)"
    and a2: "(if old < 0 then m_bind (x_order bi) (\<lambda>b. record_cover X b (min qty (- old)) (fill_price f) tick)
              else m_return []) w1 = Inr (es2, w2)"
    and a3: "fill_events X bi w2 = Inr (es3, w3)" and a4: "fill_events X si w3 = Inr (es4, w')"
    unfolding settle_tail_def m_bind_Inr_iff m_basic_Inr_iff by blast
  from settle_short_keeps[OF a1 inv s q(1)] obtain c where i1: "market_fit X {bi, si} {} w1"
    and t1: "traded (xw_ex w) (xw_ex w1)" and s1: "dget (ex_orders (xw_ex w1)) si = Some (sell\<lparr>ord_reserved_cents := c\<rparr>)"
    and b1: "dget (ex_orders (xw_ex w1)) bi = Some buy"
    using q(2) b(1) by auto
  have 2: "market_fit X {bi, si} {} w2 \<and> ex_orders (xw_ex w2) = ex_orders (xw_ex w1)"
  proof (cases "old < 0")
    case True
    with a2 b1 obtain n where "record_cover X buy n (fill_price f) tick w1 = Inr (es2, w2)"
      by (auto simp: prog_Inr_iff dest!: x_order_InrD)
    from record_cover_keeps[OF this i1 b(3)] show ?thesis .
  qed (use a2 i1 in \<open>simp add: prog_Inr_iff\<close>)
  from 2 b1 have b2: "dget (ex_orders (xw_ex w2)) bi = Some buy" by simp
  from fill_events_keeps[OF a3 conjunct1[OF 2] b2 b(2)] 2 have 3: "market_fit X ({bi, si} - {bi}) {} w3" "traded (xw_ex w2) (xw_ex w3)"
    "dget (ex_orders (xw_ex w3)) si = Some (sell\<lparr>ord_reserved_cents := c\<rparr>)"
    using s1 q(2) by auto
  from fill_events_keeps[OF a4 3(1,3)] s(2) have 4: "market_fit X ({bi, si} - {bi} - {si}) {} w'" "traded (xw_ex w3) (xw_ex w')"
    by (auto simp: active_def)
  have "{bi, si} - {bi} - {si} = {}" by auto
  then show ?thesis using 4 3(2) t1 2 traded_cong[of "xw_ex w2" "xw_ex w1"] by (metis traded_trans)
qed

theorem settle_keeps:
  assumes fees: "fees_ok X" and inv: "market_inv X w" and fair: "fair_fill stock f (xw_ex w)"
    and sec: "dget (ex_securities (xw_ex w)) stock = Some sec" and band: "in_band X sec (fill_price f)"
    and run: "settle X f tick w = Inr (es, w')"
  shows "market_inv X w' \<and> traded (xw_ex w) (xw_ex w')"
proof -
  note I = market_fitD[OF inv]
  from run I(1) show ?thesis
  proof (cases rule: settle_InrD)
    case idle
    then show ?thesis using inv by simp
  next
    case (trade buy sell qty s rp name txn w1 old es1 gross fee req)
    have left: "0 < ord_remaining buy" "0 < ord_remaining sell" "qty \<le> ord_remaining buy" "qty \<le> ord_remaining sell"
      using trade(3,4) by auto
    have b: "live_order Buy stock buy" "\<And>p. ord_limit buy = Some p \<Longrightarrow> fill_price f \<le> p"
      and sl: "live_order Sell stock sell"
      using fair trade(1,2) left by (auto simp: fair_fill_def live_order_def)
    then have stock: "ord_symbol buy = stock" "s = sec" "active buy" "active sell" "ord_side buy = Buy" "ord_side sell = Sell"
      using trade(6) sec by (auto simp: live_order_def)
    have ids: "ord_id buy = fill_buy f" "ord_id sell = fill_sell f" using orders_fitD(1)[OF I(2)] trade(1,2) by auto
    have bs: "fill_buy f \<noteq> fill_sell f" using trade(1,2) stock by auto
    have fit: "order_fit X (xw_ex w) buy" using orders_fitD(2)[OF I(2) trade(1)] stock by simp
    have price: "1 \<le> fill_price f" "fill_price f \<le> rp"
      using in_band_price[OF fees band] b(2) trade(7) stock by (auto simp: reserve_price_of_def split: option.split)
    have res: "ord_reserved_cents buy = reserve_required X (ord_remaining buy) rp"
      using fit stock sec trade(7) by (auto simp: order_fit_def)
    note split = reserve_split[OF fees trade(4) left(3) price, folded trade(8), folded trade(9), folded trade(10)]
    have req: "req = 0 \<or> qty < ord_remaining buy" using left(3) trade(10) by (auto simp: reserve_required_def)
    have "1 * 1 \<le> fill_price f * qty" using price(1) trade(4) by (intro mult_mono) auto
    then have "1 \<le> gross" using trade(8) by simp
    note C = commission_bounds[OF fees this, folded trade(9)]
    note T = settle_trade_ok[OF I(2-5) trade(1) b(1) trade(2) sl trade(4) left(3,4) trade(5) sec
        trade(10)[unfolded trade(7) stock(2)] split(2) req trade(11)]
    have "market_fit X {fill_buy f, fill_sell f} {fill_sell f} w1"
    proof -
      have "escrow_held (xw_ledger w1) t = escrow_due (xw_ex w1) t" for t
        unfolding trade(13) T(5) I(8) using split(1) C res by simp
      moreover have "shorts_ok (xw_ex w1)" "ipos_ok (xw_ex w1)"
        using shorts_ok_cong[OF I(6) T(6)] ipos_ok_cong[OF I(7) T(7)] .
      ultimately show ?thesis using T(1-4) trade(12) by (simp add: market_fit_def)
    qed
    moreover obtain buy1 sell1 where o1: "dget (ex_orders (xw_ex w1)) (fill_buy f) = Some buy1" "active buy1" "ord_trader buy1 = ord_trader buy"
      "dget (ex_orders (xw_ex w1)) (fill_sell f) = Some sell1" "active sell1" "ord_side sell1 = Sell"
      using trade(1,2) stock bs
      by (simp add: trade(11) settle_trade_def Let_def ids dget_upd_order)
    moreover have "plain_id (ord_trader buy)" using fit by (simp add: order_fit_def)
    ultimately have "market_inv X w' \<and> traded (xw_ex w1) (xw_ex w')"
      using settle_tail_keeps[OF trade(14)[unfolded ids] _ o1(1,2) _ o1(4-6) trade(4) bs] by simp
    moreover have "traded (xw_ex w) (xw_ex w1)" using settle_trade_traded[OF ids trade(4) trade(11)] .
    ultimately show ?thesis using traded_trans by blast
  qed
qed

end
