(* ===== verification/Exchange_Match.thy ===== *)
theory Exchange_Match
  imports Exchange_Settle Exchange_Book_Spec
begin

text \<open>
  Matching keeps the invariant: the fills of a call auction and of an incoming order are between live
  orders within the buyer's limit, the loops over fills, the cancelling of self-crossing and of
  unfilled market orders. The loop that cancels self-crosses ends within the fuel it is given.
\<close>

section \<open>What an operation leaves of the book\<close>

definition calmer :: "exchange_state \<Rightarrow> exchange_state \<Rightarrow> bool" where
  \<comment> \<open>no order appears, disappears or becomes active; the terms of the active ones do not change\<close>
  "calmer ex ex' \<longleftrightarrow> (\<forall>i. dget (ex_orders ex') i = None \<longleftrightarrow> dget (ex_orders ex) i = None)
     \<and> (\<forall>i r'. dget (ex_orders ex') i = Some r' \<longrightarrow> active r' \<longrightarrow> (\<exists>r. dget (ex_orders ex) i = Some r \<and> active r
          \<and> ord_limit r = ord_limit r' \<and> ord_symbol r = ord_symbol r' \<and> ord_type r = ord_type r'))"

lemma calmer_refl [simp]: "calmer ex ex"
  by (simp add: calmer_def)

lemma calmer_None: "calmer ex ex' \<Longrightarrow> dget (ex_orders ex') i = None \<longleftrightarrow> dget (ex_orders ex) i = None"
  by (simp add: calmer_def)

lemma calmerD:
  assumes "calmer ex ex'" "dget (ex_orders ex') i = Some r'" "active r'"
  obtains r where "dget (ex_orders ex) i = Some r" "active r" "ord_limit r = ord_limit r'" "ord_symbol r = ord_symbol r'"
    "ord_type r = ord_type r'"
  using assms unfolding calmer_def by blast

lemma calmer_trans:
  assumes "calmer ex ex'" "calmer ex' ex''" shows "calmer ex ex''"
  unfolding calmer_def
proof (intro conjI allI impI)
  fix i r assume "dget (ex_orders ex'') i = Some r" "active r"
  from calmerD[OF assms(2) this] obtain r1 where 1: "dget (ex_orders ex') i = Some r1" "active r1"
    "ord_limit r1 = ord_limit r" "ord_symbol r1 = ord_symbol r" "ord_type r1 = ord_type r" .
  from calmerD[OF assms(1) this(1,2)] 1 show "\<exists>r0. dget (ex_orders ex) i = Some r0 \<and> active r0
      \<and> ord_limit r0 = ord_limit r \<and> ord_symbol r0 = ord_symbol r \<and> ord_type r0 = ord_type r"
    by metis
qed (use assms in \<open>simp add: calmer_def\<close>)

lemma calmer_cong: "ex_orders ex' = ex_orders ex \<Longrightarrow> calmer ex ex'"
  by (simp add: calmer_def)

lemma traded_calmer: "traded ex ex' \<Longrightarrow> calmer ex ex'"
  unfolding calmer_def
proof (intro conjI allI impI)
  fix i assume t: "traded ex ex'"
  show "(dget (ex_orders ex') i = None) = (dget (ex_orders ex) i = None)"
    using t[unfolded traded_def, rule_format, of i] by (cases "dget (ex_orders ex) i") (auto simp: option_rel_Some1)
next
  fix i r' assume "traded ex ex'" "dget (ex_orders ex') i = Some r'" "active r'"
  then show "\<exists>r. dget (ex_orders ex) i = Some r \<and> active r
      \<and> ord_limit r = ord_limit r' \<and> ord_symbol r = ord_symbol r' \<and> ord_type r = ord_type r'"
    by (auto dest!: tradedD' simp: evolved_def)
qed

definition no_market :: "string \<Rightarrow> exchange_state \<Rightarrow> bool" where
  "no_market s ex \<longleftrightarrow> (\<forall>i r. dget (ex_orders ex) i = Some r \<longrightarrow> active r \<longrightarrow> ord_symbol r = s \<longrightarrow> ord_limit r \<noteq> None)"

lemma no_market_calmer: "no_market s ex \<Longrightarrow> calmer ex ex' \<Longrightarrow> no_market s ex'"
  unfolding no_market_def by (metis calmerD)

lemma cancel_order_effect:
  assumes "cancel_order X i tick who e w = Inr (es, w')" "market_fit X P Q w"
  shows "market_fit X P Q w' \<and> calmer (xw_ex w) (xw_ex w')
    \<and> (\<forall>j. j \<noteq> i \<longrightarrow> dget (ex_orders (xw_ex w')) j = dget (ex_orders (xw_ex w)) j)
    \<and> (\<exists>r. dget (ex_orders (xw_ex w')) i = Some r \<and> \<not> active r)
    \<and> (\<forall>s. no_market s (xw_ex w) \<longrightarrow> no_market s (xw_ex w'))"
proof -
  note I = market_fitD[OF assms(2)]
  have keep: "market_fit X P Q w'" using keepsD[OF cancel_order_keeps assms(2,1)] .
  from assms(1) I(1) have "calmer (xw_ex w) (xw_ex w')
    \<and> (\<forall>j. j \<noteq> i \<longrightarrow> dget (ex_orders (xw_ex w')) j = dget (ex_orders (xw_ex w)) j)
    \<and> (\<exists>r. dget (ex_orders (xw_ex w')) i = Some r \<and> \<not> active r)"
  proof (cases rule: cancel_order_InrD)
    case (2 r)
    have "ord_id r = i" using orders_fitD(1)[OF I(2) 2(1)] .
    with 2 have get: "dget (ex_orders (xw_ex w')) j
        = (if j = i then Some (void_order e r) else dget (ex_orders (xw_ex w)) j)" for j
      by (simp add: void_state_def dget_upd_order)
    then show ?thesis using 2(1) by (auto simp: calmer_def)
  qed auto
  then show ?thesis using keep no_market_calmer by blast
qed

section \<open>The fills\<close>

lemma call_auction_fill:
  assumes "distinct (map ord_id orders)" "f \<in> set (call_auction orders pc)"
  shows "\<exists>b\<in>set orders. \<exists>a\<in>set orders. active b \<and> active a \<and> bids_at (fill_price f) b \<and> asks_at (fill_price f) a
    \<and> fill_buy f = ord_id b \<and> fill_sell f = ord_id a"
proof (cases "uncross orders pc")
  case (Pair po v)
  with assms(2) obtain p where p: "uncross orders pc = (Some p, v)" by (cases po) (auto simp: call_auction_def)
  from paired_loop_feasible[OF assms(2)[unfolded call_auction_paired[OF assms(1) p]]]
  obtain b a where "b \<in> set (eligible_bids orders p)" "a \<in> set (eligible_asks orders p)"
    "fill_buy f = ord_id b" "fill_sell f = ord_id a" "fill_price f = p" by (auto simp: image_image)
  then show ?thesis unfolding eligible_bids_def eligible_asks_def by auto
qed

lemma match_loop_fill:
  assumes "f \<in> set (match_loop inc rs v)"
  shows "\<exists>r\<in>set rs. crosses inc r \<and> (ord_limit r = Some (fill_price f) \<or> ord_limit r = None \<and> ord_limit inc = Some (fill_price f))
    \<and> fill_buy f = (if ord_side inc = Buy then ord_id inc else ord_id r)
    \<and> fill_sell f = (if ord_side inc = Sell then ord_id inc else ord_id r)"
  using assms
proof (induction rs arbitrary: v)
  case (Cons r rs)
  show ?case
  proof (cases "\<exists>v'. f \<in> set (match_loop inc rs v')")
    case True
    then show ?thesis using Cons.IH by fastforce
  next
    case False
    then show ?thesis using Cons.prems by (auto simp: Let_def split: if_splits option.splits)
  qed
qed simp

lemma order_table_ids:
  assumes "orders_fit X P Q ex"
  shows "r \<in> set (dvals (ex_orders ex)) \<longleftrightarrow> dget (ex_orders ex) (ord_id r) = Some r" "distinct (map ord_id (dvals (ex_orders ex)))"
proof -
  note wf = orders_fit_wf[OF assms]
  show "r \<in> set (dvals (ex_orders ex)) \<longleftrightarrow> dget (ex_orders ex) (ord_id r) = Some r"
  proof
    assume "r \<in> set (dvals (ex_orders ex))"
    then obtain i where "dget (ex_orders ex) i = Some r" using wf by (auto simp: dget_Some_iff)
    then show "dget (ex_orders ex) (ord_id r) = Some r" using orders_fitD(1)[OF assms] by simp
  qed (auto dest!: dget_SomeD intro: rev_image_eqI)
  have "ord_id (snd x) = fst x" if "x \<in> set (ex_orders ex)" for x
    using orders_fitD(1)[OF assms, of "fst x" "snd x"] that wf by (simp add: dget_Some_iff)
  then have "map ord_id (dvals (ex_orders ex)) = dkeys (ex_orders ex)" by simp
  then show "distinct (map ord_id (dvals (ex_orders ex)))" using wf by (simp only:)
qed

lemma call_auction_fair:
  assumes fit: "orders_fit X P Q ex"
    and f: "f \<in> set (call_auction (filter (\<lambda>r. ord_symbol r = s \<and> active r) (dvals (ex_orders ex))) pc)"
  shows "fair_fill s f ex"
proof -
  let ?os = "filter (\<lambda>r. ord_symbol r = s \<and> active r) (dvals (ex_orders ex))"
  have "distinct (map ord_id ?os)" using order_table_ids(2)[OF fit] by (simp add: distinct_map_filter)
  from call_auction_fill[OF this f] obtain b a where mem: "b \<in> set (dvals (ex_orders ex))" "a \<in> set (dvals (ex_orders ex))"
    and ids: "fill_buy f = ord_id b" "fill_sell f = ord_id a"
    and ba: "active b" "active a" "ord_symbol b = s" "ord_symbol a = s"
    and at: "bids_at (fill_price f) b" "asks_at (fill_price f) a"
    unfolding set_filter by blast
  have b: "dget (ex_orders ex) (fill_buy f) = Some b" "bids_at (fill_price f) b"
    and a: "dget (ex_orders ex) (fill_sell f) = Some a" "asks_at (fill_price f) a"
    using mem[THEN iffD1[OF order_table_ids(1)[OF fit]]] ids at by simp_all
  have "order_fit X ex b" using orders_fitD(2)[OF fit b(1)] ba by simp
  then have "ord_limit b = Some p \<Longrightarrow> fill_price f \<le> p" for p using b(2) by (auto simp: order_fit_def bids_at_def)
  then show ?thesis using a b ba by (auto simp: fair_fill_def bids_at_def asks_at_def)
qed

lemma continuous_fair:
  assumes fit: "orders_fit X P Q ex" and inc: "dget (ex_orders ex) i = Some inc" "active inc"
    and rs: "\<And>r. r \<in> set rs \<Longrightarrow> dget (ex_orders ex) (ord_id r) = Some r"
    and f: "f \<in> set (continuous_matches inc rs)"
  shows "fair_fill (ord_symbol inc) f ex"
proof -
  have id: "ord_id inc = i" using orders_fitD(1)[OF fit inc(1)] .
  from match_loop_fill[OF f[unfolded continuous_matches_def Let_def]]
  obtain r where r: "r \<in> set rs" "active r" "ord_symbol r = ord_symbol inc" "ord_side r \<noteq> ord_side inc" "crosses inc r"
    and p: "ord_limit r = Some (fill_price f) \<or> ord_limit r = None \<and> ord_limit inc = Some (fill_price f)"
    and b: "fill_buy f = (if ord_side inc = Buy then ord_id inc else ord_id r)"
    and s: "fill_sell f = (if ord_side inc = Sell then ord_id inc else ord_id r)"
    by (auto split: if_splits)
  have "order_fit X ex inc" using orders_fitD(2)[OF fit inc(1)] inc(2) .
  then have "ord_side inc = Buy \<Longrightarrow> ord_limit inc = Some q \<Longrightarrow> fill_price f \<le> q" for q
    using r(5) p by (auto simp: order_fit_def crosses_def split: if_splits)
  then show ?thesis using r(2-4) rs[OF r(1)] inc id p unfolding fair_fill_def b s
    by (cases "ord_side inc"; cases "ord_side r") auto
qed

section \<open>The loop over the fills\<close>

lemma market_fit_upd_security:
  assumes "market_fit X P Q w" "xw_ex w' = upd_security y g (xw_ex w)" "xw_ledger w' = xw_ledger w"
    "\<And>s. sec_status (g s) = sec_status s \<and> sec_reference_price (g s) = sec_reference_price s \<and> sec_shares (g s) = sec_shares s"
  shows "market_fit X P Q w'"
proof -
  note I = market_fitD[OF assms(1)]
  have "escrow_due (xw_ex w') t = escrow_due (xw_ex w) t" for t by (rule escrow_due_cong) (simp_all add: assms(2))
  moreover have "orders_fit X P Q (xw_ex w')" unfolding assms(2) by (rule orders_fit_upd_security[OF I(2)]) (simp add: assms(4))
  moreover have "rows_ok (xw_ex w')" by (rule rows_ok_cong[OF I(3)]) (simp_all add: assms(2))
  moreover have "reserved_ok (xw_ex w')" by (rule reserved_ok_cong[OF I(4)]) (simp_all add: assms(2))
  moreover have "securities_ok (xw_ex w')" unfolding assms(2) by (rule securities_ok_upd_security[OF I(5)]) (simp add: assms(4))
  moreover have "shorts_ok (xw_ex w')" by (rule shorts_ok_cong[OF I(6)]) (simp add: assms(2))
  moreover have "ipos_ok (xw_ex w')" by (rule ipos_ok_cong[OF I(7)]) (simp add: assms(2))
  ultimately show ?thesis using I(1,8) assms(3) by (simp add: market_fit_def)
qed

lemma trigger_breaker_keeps:
  assumes "trigger_breaker X s tick p w = Inr (es, w')" "market_fit X P Q w"
  shows "market_fit X P Q w' \<and> traded (xw_ex w) (xw_ex w')"
proof -
  define g where "g = (\<lambda>s :: security_state. s\<lparr>sec_breaker_count := sec_breaker_count s + 1,
         sec_halt_until := Some (tick + xe_halt_ticks X)\<rparr>)"
  from assms(1) have w': "xw_ex w' = upd_security s g (xw_ex w)" "xw_ledger w' = xw_ledger w"
    by (auto simp: trigger_breaker_def prog_Inr_iff g_def dest!: x_update_InrD x_security_InrD x_emit_InrD)
  have "market_fit X P Q w'" by (rule market_fit_upd_security[OF assms(2) w']) (simp add: g_def)
  then show ?thesis by (simp add: w' traded_cong)
qed

lemma settle_in_band_keeps:
  assumes "fees_ok X" "settle_in_band X s tick f w = Inr (r, w')" "market_inv X w" "fair_fill s f (xw_ex w)"
  shows "market_inv X w' \<and> traded (xw_ex w) (xw_ex w')"
  using assms settle_keeps[OF assms(1,3,4)] trigger_breaker_keeps[OF _ assms(3)]
  by (auto simp: settle_in_band_def prog_Inr_iff dest!: x_security_InrD split: if_splits)

lemma fills_keep:
  assumes "m_for_until g fs w = Inr (es, w')" "market_inv X w" "\<And>f. f \<in> set fs \<Longrightarrow> fair_fill s f (xw_ex w)"
    and body: "\<And>f w r w'. g f w = Inr (r, w') \<Longrightarrow> market_inv X w \<Longrightarrow> fair_fill s f (xw_ex w) \<Longrightarrow>
      market_inv X w' \<and> traded (xw_ex w) (xw_ex w')"
  shows "market_inv X w' \<and> traded (xw_ex w) (xw_ex w')"
  using assms(1-3)
proof (induction fs arbitrary: w es)
  case (Cons f fs)
  from Cons.prems(1) obtain ys stop w1 where g: "g f w = Inr ((ys, stop), w1)"
    and rest: "w' = w1 \<or> (\<exists>zs. m_for_until g fs w1 = Inr (zs, w'))"
    by (auto simp: prog_Inr_iff split: if_splits)
  have 1: "market_inv X w1 \<and> traded (xw_ex w) (xw_ex w1)" by (rule body[OF g Cons.prems(2)]) (simp add: Cons.prems(3))
  from rest show ?case
  proof
    assume "\<exists>zs. m_for_until g fs w1 = Inr (zs, w')"
    then obtain zs where zs: "m_for_until g fs w1 = Inr (zs, w')" ..
    have "market_inv X w' \<and> traded (xw_ex w1) (xw_ex w')"
    proof (rule Cons.IH[OF zs])
      show "fair_fill s f' (xw_ex w1)" if "f' \<in> set fs" for f'
        by (rule fair_fill_traded[OF Cons.prems(3)]) (use that 1 in simp_all)
    qed (use 1 in simp)
    then show ?thesis using 1 traded_trans by blast
  qed (use 1 in simp)
qed (simp add: prog_Inr_iff)

section \<open>A call auction\<close>

lemma order_fit_market: "order_fit X ex r \<Longrightarrow> ord_type r = MarketOrder \<longleftrightarrow> ord_limit r = None"
  by (simp add: order_fit_def)

lemma order_fit_listed: "order_fit X ex r \<Longrightarrow> \<exists>s. dget (ex_securities ex) (ord_symbol r) = Some s \<and> sec_status s = ''listed''"
  by (auto simp: order_fit_def)

definition calm_since :: "'l exchange_env \<Rightarrow> exchange_state \<Rightarrow> 'l exchange_world \<Rightarrow> bool" where
  "calm_since X ex w \<longleftrightarrow> market_inv X w \<and> calmer ex (xw_ex w)"

lemma market_fit_cong:
  "market_fit X P Q w \<Longrightarrow> xw_ex w' = xw_ex w \<Longrightarrow> xw_ledger w' = xw_ledger w \<Longrightarrow> market_fit X P Q w'"
  by (simp add: market_fit_def)

lemma keeps_emit [keeps_rules]:
  "keeps (market_fit X P Q) (x_emit X' k pl a s)" "keeps (calm_since X ex) (x_emit X' k pl a s)"
  by (rule keepsI; auto dest!: x_emit_InrD simp: calm_since_def elim: market_fit_cong)+

lemma keeps_lookup [keeps_rules]:
  "keeps P (x_order i)" "keeps P (x_security i)" "keeps P (x_state f)" "keeps P (x_ledger g)" "keeps P (x_deposit t)"
  "keeps P (x_escrow t r)" "keeps P (x_transfer a b m rs)"
  by (rule keepsI; auto simp: x_ledger_def prog_Inr_iff
      dest!: x_order_InrD x_security_InrD x_state_InrD x_deposit_InrD x_escrow_InrD x_transfer_InrD)+

lemma keeps_cancel [keeps_rules]: "keeps (calm_since X ex) (cancel_order X i tick who e)"
  by (rule keepsI) (auto simp: calm_since_def dest!: cancel_order_effect intro: calmer_trans)

lemma keeps_book_snapshot [keeps_rules]: "keeps (calm_since X ex) (book_snapshot X s)"
  unfolding book_snapshot_def Let_def by (intro keeps_rules)

lemma keeps_self_cross_loop: "keeps (calm_since X ex) (self_cross_loop X s tick n)"
proof (induction n)
  case (Suc n)
  show ?case unfolding self_cross_loop.simps
  proof (intro keeps_rules)
    fix ps :: "(order_state \<times> order_state) list"
    show "keeps (calm_since X ex) (case ps of [] \<Rightarrow> m_return []
       | p # ps \<Rightarrow> let (b, a) = first_min (\<lambda>(b, a). (ord_trader b, ord_id b, ord_id a)) p ps
         in m_bind (cancel_order X (ord_id (newer_order b a)) tick ''stp'' False) (\<lambda>es.
            m_bind (self_cross_loop X s tick n) (\<lambda>es'. m_return (es @ es'))))"
      by (cases ps) (auto simp: Let_def intro!: keeps_rules Suc.IH)
  qed
qed (simp add: keeps_rules)

lemma keeps_cancel_self_crosses [keeps_rules]: "keeps (calm_since X ex) (cancel_self_crosses X s tick)"
  unfolding cancel_self_crosses_def by (intro keeps_rules keeps_self_cross_loop)

definition quiet_order :: "string \<Rightarrow> string \<Rightarrow> 'l exchange_world \<Rightarrow> bool" where
  "quiet_order s i w \<longleftrightarrow> (\<forall>r. dget (ex_orders (xw_ex w)) i = Some r \<longrightarrow> active r \<longrightarrow> ord_symbol r = s \<longrightarrow> ord_type r \<noteq> MarketOrder)"

lemma quiet_order_calmer: "quiet_order s i w \<Longrightarrow> calmer (xw_ex w) (xw_ex w') \<Longrightarrow> quiet_order s i w'"
  unfolding quiet_order_def by (metis calmerD)

lemma drop_market_orders:
  assumes run: "m_for (\<lambda>i. m_bind (x_order i) (\<lambda>r. m_when (ord_symbol r = s \<and> ord_type r = MarketOrder \<and> active r)
       (cancel_order X i tick who False))) (order_ids (xw_ex w)) w = Inr (es, w')" and inv: "calm_since X ex w"
  shows "calm_since X ex w' \<and> no_market s (xw_ex w')"
proof -
  have "calm_since X (xw_ex w) w' \<and> (\<forall>i\<in>set (order_ids (xw_ex w)). quiet_order s i w')"
  proof (rule afterD[OF m_for_each run], rule afterI)
    show "calm_since X (xw_ex w) w" using inv by (simp add: calm_since_def)
    fix i w1 ys w2
    assume c: "calm_since X (xw_ex w) w1" and "m_bind (x_order i) (\<lambda>r. m_when (ord_symbol r = s \<and> ord_type r = MarketOrder \<and> active r)
       (cancel_order X i tick who False)) w1 = Inr (ys, w2)"
    then obtain r where r: "dget (ex_orders (xw_ex w1)) i = Some r"
      and m: "m_when (ord_symbol r = s \<and> ord_type r = MarketOrder \<and> active r) (cancel_order X i tick who False) w1 = Inr (ys, w2)"
      by (auto simp: prog_Inr_iff dest!: x_order_InrD)
    have "calm_since X (xw_ex w) w2 \<and> calmer (xw_ex w1) (xw_ex w2) \<and> quiet_order s i w2"
    proof (cases "ord_symbol r = s \<and> ord_type r = MarketOrder \<and> active r")
      case True
      then have "cancel_order X i tick who False w1 = Inr (ys, w2)" using m by (simp add: m_when_def)
      from cancel_order_effect[OF this] c show ?thesis by (auto simp: calm_since_def quiet_order_def intro: calmer_trans)
    next
      case False
      then have "w2 = w1" using m by (auto simp: m_when_def prog_Inr_iff)
      then show ?thesis using c False r by (auto simp: quiet_order_def)
    qed
    then show "calm_since X (xw_ex w) w2 \<and> quiet_order s i w2 \<and> (\<forall>y. quiet_order s y w1 \<longrightarrow> quiet_order s y w2)"
      using quiet_order_calmer by blast
  qed
  then have c: "calm_since X (xw_ex w) w'" and q: "\<And>i. i \<in> set (dkeys (ex_orders (xw_ex w))) \<Longrightarrow> quiet_order s i w'"
    by (auto simp: order_ids_def)
  have "no_market s (xw_ex w')" unfolding no_market_def
  proof (intro allI impI)
    fix i r assume r: "dget (ex_orders (xw_ex w')) i = Some r" "active r" "ord_symbol r = s"
    have "i \<in> set (dkeys (ex_orders (xw_ex w)))"
    proof (rule ccontr)
      assume "i \<notin> set (dkeys (ex_orders (xw_ex w)))"
      then have "dget (ex_orders (xw_ex w)) i = None" by (simp only: dget_None_iff not_False_eq_True)
      then have "dget (ex_orders (xw_ex w')) i = None" using c calmer_None[of "xw_ex w" "xw_ex w'"] by (simp add: calm_since_def)
      with r(1) show False by simp
    qed
    then have "ord_type r \<noteq> MarketOrder" using q[of i] r by (auto simp: quiet_order_def)
    moreover have "orders_fit X {} {} (xw_ex w')" using c market_fitD(2)[of X "{}" "{}" w'] by (simp add: calm_since_def)
    then have "order_fit X (xw_ex w') r" using orders_fitD(2) r(1,2) by blast
    ultimately show "ord_limit r \<noteq> None" using order_fit_market by blast
  qed
  moreover have "calm_since X ex w'" using c inv by (auto simp: calm_since_def intro: calmer_trans)
  ultimately show ?thesis by simp
qed

lemma match_call_keeps:
  assumes fees: "fees_ok X" and run: "match_call X s tick w = Inr (es, w')" and inv: "market_inv X w"
  shows "market_inv X w' \<and> calmer (xw_ex w) (xw_ex w') \<and> no_market s (xw_ex w')"
proof -
  from run obtain sec where sec: "dget (ex_securities (xw_ex w)) s = Some sec"
    by (auto simp: match_call_def prog_Inr_iff dest!: x_security_InrD)
  have fit: "orders_fit X {} {} (xw_ex w)" using market_fitD(2)[OF inv] .
  show ?thesis
  proof (cases "sec_status sec = ''listed''")
    case False
    then have "w' = w" using run sec by (auto simp: match_call_def prog_Inr_iff dest!: x_security_InrD)
    moreover have "no_market s (xw_ex w)"
      unfolding no_market_def
    proof (intro allI impI)
      fix i r assume r: "dget (ex_orders (xw_ex w)) i = Some r" "active r" "ord_symbol r = s"
      from order_fit_listed[OF orders_fitD(2)[OF fit r(1,2)]] r(3) sec False show "ord_limit r \<noteq> None" by simp
    qed
    ultimately show ?thesis using inv by simp
  next
    case True
    let ?fills = "call_auction (filter (\<lambda>r. ord_symbol r = s \<and> active r) (dvals (ex_orders (xw_ex w)))) (sec_reference_price sec)"
    from run sec True obtain es1 w1 es2 w2 es3 w3 es4 where
      fills: "m_for_until (settle_in_band X s tick) ?fills w = Inr (es1, w1)"
      and selfs: "cancel_self_crosses X s tick w1 = Inr (es2, w2)"
      and drop: "m_for (\<lambda>i. m_bind (x_order i) (\<lambda>r. m_when (ord_symbol r = s \<and> ord_type r = MarketOrder \<and> active r)
         (cancel_order X i tick ''market_unfilled'' False))) (order_ids (xw_ex w2)) w2 = Inr (es3, w3)"
      and snap: "book_snapshot X s w3 = Inr (es4, w')"
      unfolding match_call_def m_bind_Inr_iff m_basic_Inr_iff
      by (auto simp: m_bind_Inr_iff m_basic_Inr_iff dest!: x_security_InrD x_state_InrD)
    have "market_inv X w1 \<and> traded (xw_ex w) (xw_ex w1)"
      by (rule fills_keep[OF fills inv call_auction_fair[OF fit] settle_in_band_keeps[OF fees]])
    then have "calm_since X (xw_ex w) w1" by (simp add: calm_since_def traded_calmer)
    then have "calm_since X (xw_ex w) w2" using keepsD[OF keeps_cancel_self_crosses _ selfs] by blast
    from drop_market_orders[OF drop this] have 3: "calm_since X (xw_ex w) w3" "no_market s (xw_ex w3)" by auto
    have "calm_since X (xw_ex w) w'" using keepsD[OF keeps_book_snapshot 3(1) snap] .
    moreover have "calm_since X (xw_ex w3) w'"
      by (rule keepsD[OF keeps_book_snapshot _ snap]) (use 3 in \<open>simp add: calm_since_def\<close>)
    ultimately show ?thesis using 3(2) no_market_calmer by (auto simp: calm_since_def)
  qed
qed

section \<open>The cancelling of self-crosses ends\<close>

definition live_in :: "string \<Rightarrow> order_state \<Rightarrow> int" where
  "live_in s r = (if ord_symbol r = s \<and> active r then 1 else 0)"

lemma active_count_sum: "int (active_count s ex) = order_sum (live_in s) ex"
proof -
  have "int (length (filter P xs)) = (\<Sum>x\<leftarrow>xs. if P x then 1 else 0)" for P and xs :: "order_state list"
    by (induction xs) auto
  then show ?thesis unfolding active_count_def order_sum_def live_in_def .
qed

lemma cancel_order_count:
  assumes run: "cancel_order X i tick who e w = Inr (es, w')" and inv: "market_inv X w"
    and r: "dget (ex_orders (xw_ex w)) i = Some r" "active r" "ord_symbol r = s"
  shows "active_count s (xw_ex w') < active_count s (xw_ex w)"
proof -
  note I = market_fitD[OF inv]
  have "ord_id r = i" using orders_fitD(1)[OF I(2) r(1)] .
  with run I(1) r have ex': "xw_ex w' = void_state e r (xw_ex w)" by (auto elim!: cancel_order_InrD)
  define ex1 where "ex1 = (if ord_reserved_qty r \<noteq> 0 then upd_holding (ord_trader r) (ord_symbol r)
      (\<lambda>h. h\<lparr>hold_reserved := hold_reserved h - ord_reserved_qty r\<rparr>) (xw_ex w) else xw_ex w)"
  have o1: "ex_orders ex1 = ex_orders (xw_ex w)" by (simp add: ex1_def)
  have "order_sum (live_in s) (upd_order i (void_order e) ex1)
      = order_sum (live_in s) ex1 - live_in s r + live_in s (void_order e r)"
    by (rule order_sum_upd) (use orders_fit_wf[OF I(2)] r o1 in simp_all)
  then have "order_sum (live_in s) (xw_ex w') = order_sum (live_in s) (xw_ex w) - 1"
    using r \<open>ord_id r = i\<close> order_sum_cong(1)[OF o1, of "live_in s"] by (simp add: ex' void_state_def ex1_def live_in_def)
  then show ?thesis using active_count_sum[of s "xw_ex w"] active_count_sum[of s "xw_ex w'"] by linarith
qed

definition fuel_free :: "('l, 'a) xm \<Rightarrow> bool" where
  "fuel_free m \<longleftrightarrow> (\<forall>w. m w \<noteq> Inl ExFuel)"

lemma fuel_free_bind: "fuel_free m \<Longrightarrow> (\<And>x. fuel_free (f x)) \<Longrightarrow> fuel_free (m_bind m f)"
  by (auto simp: fuel_free_def m_bind_def split: sum.splits)

lemma accounts_no_fuel: "deposit_account t l \<noteq> Inl ExFuel" "escrow_id t ref l \<noteq> Inl ExFuel"
proof -
  show d: "deposit_account t l \<noteq> Inl ExFuel" by (simp add: deposit_account_def split: list.split)
  have bank: "(case bank_of v of Inl e \<Rightarrow> Inl (ExLedger e) | Inr None \<Rightarrow> Inl NoBankOfDeposit
      | Inr (Some bank) \<Rightarrow> (case account_id Esc t (Some bank) (Some ref) of Inl e \<Rightarrow> Inl (ExLedger e) | Inr v \<Rightarrow> Inr v)) \<noteq> Inl ExFuel"
    for v by (simp split: sum.split option.split)
  show "escrow_id t ref l \<noteq> Inl ExFuel"
    unfolding escrow_id_def using d bank by (simp add: res_bind_Inl_iff split: list.split)
qed

lemma fuel_free_basic:
  "fuel_free (x_emit X k pl a s)" "fuel_free (x_order i)" "fuel_free (x_update f)" "fuel_free (m_return x)"
  "fuel_free (x_escrow t ref)" "fuel_free (x_deposit t)" "fuel_free (x_transfer u v m rs)" "fuel_free (x_post X legs tick ev)"
  using accounts_no_fuel
  by (auto simp: fuel_free_def x_emit_def x_order_def x_state_def m_read_def m_bind_def m_raise_def m_return_def x_update_def
      m_modify_def x_escrow_def x_deposit_def x_transfer_def x_res_def m_res_def x_ledger_def x_post_def
      split: sum.splits option.splits)

lemma fuel_free_if: "fuel_free m \<Longrightarrow> fuel_free n \<Longrightarrow> fuel_free (if c then m else n)"
  by simp

lemma cancel_order_fuel_free: "fuel_free (cancel_order X i tick who e)"
  unfolding cancel_order_def m_then_def by (intro fuel_free_bind fuel_free_basic fuel_free_if)

lemma m_bind_no_fuel:
  "m w \<noteq> Inl ExFuel \<Longrightarrow> (\<And>x w'. m w = Inr (x, w') \<Longrightarrow> f x w' \<noteq> Inl ExFuel) \<Longrightarrow> m_bind m f w \<noteq> Inl ExFuel"
  by (auto simp: m_bind_def split: sum.splits)

lemma first_min_in: "first_min k x xs \<in> set (x # xs)"
  by (induction xs arbitrary: x) (auto split: if_splits)

lemma self_crosses_in:
  assumes "(b, a) \<in> set (self_crosses s ex)" "orders_fit X P Q ex" "r = b \<or> r = a"
  shows "dget (ex_orders ex) (ord_id r) = Some r" "active r" "ord_symbol r = s"
proof -
  have "r \<in> set (dvals (ex_orders ex)) \<and> active r \<and> ord_symbol r = s" using assms(1,3) by (auto simp: self_crosses_def)
  then show "dget (ex_orders ex) (ord_id r) = Some r" "active r" "ord_symbol r = s"
    using order_table_ids(1)[OF assms(2)] by blast+
qed

lemma self_cross_loop_ends:
  assumes "market_inv X w" "active_count s (xw_ex w) < n"
  shows "self_cross_loop X s tick n w \<noteq> Inl ExFuel
    \<and> (\<forall>es w'. self_cross_loop X s tick n w = Inr (es, w') \<longrightarrow> self_crosses s (xw_ex w') = [])"
  using assms
proof (induction n arbitrary: w)
  case (Suc n)
  note fit = market_fitD(2)[OF Suc.prems(1)]
  show ?case
  proof (cases "self_crosses s (xw_ex w)")
    case Nil
    then show ?thesis by (auto simp: x_state_def m_bind_def m_read_def m_return_def)
  next
    case (Cons p ps)
    define ba where "ba = first_min (\<lambda>(b, a). (ord_trader b, ord_id b, ord_id a)) p ps"
    define r where "r = newer_order (fst ba) (snd ba)"
    have "ba \<in> set (self_crosses s (xw_ex w))" unfolding ba_def Cons by (rule first_min_in)
    then have "(fst ba, snd ba) \<in> set (self_crosses s (xw_ex w))" by simp
    from self_crosses_in[OF this fit, of r] have r: "dget (ex_orders (xw_ex w)) (ord_id r) = Some r" "active r" "ord_symbol r = s"
      by (auto simp: r_def newer_order_def)
    have step: "self_cross_loop X s tick (Suc n) w = m_bind (cancel_order X (ord_id r) tick ''stp'' False) (\<lambda>es.
        m_bind (self_cross_loop X s tick n) (\<lambda>es'. m_return (es @ es'))) w"
      by (simp add: m_bind_def x_state_def m_read_def Cons r_def ba_def split: prod.split)
    have IH: "self_cross_loop X s tick n w1 \<noteq> Inl ExFuel
        \<and> (\<forall>es w'. self_cross_loop X s tick n w1 = Inr (es, w') \<longrightarrow> self_crosses s (xw_ex w') = [])"
      if "cancel_order X (ord_id r) tick ''stp'' False w = Inr (es, w1)" for es w1
    proof (rule Suc.IH)
      show "market_inv X w1" using cancel_order_effect[OF that Suc.prems(1)] by blast
      show "active_count s (xw_ex w1) < n" using cancel_order_count[OF that Suc.prems(1) r] Suc.prems(2) by simp
    qed
    have "self_cross_loop X s tick (Suc n) w \<noteq> Inl ExFuel"
      unfolding step
    proof (intro m_bind_no_fuel)
      show "cancel_order X (ord_id r) tick ''stp'' False w \<noteq> Inl ExFuel"
        using cancel_order_fuel_free unfolding fuel_free_def by blast
    qed (use IH in \<open>auto simp: m_return_def\<close>)
    moreover have "self_crosses s (xw_ex w') = []" if "self_cross_loop X s tick (Suc n) w = Inr (es, w')" for es w'
      using that IH unfolding step by (auto simp: prog_Inr_iff)
    ultimately show ?thesis by blast
  qed
qed simp

section \<open>An incoming order\<close>

lemma match_continuous_keeps:
  assumes fees: "fees_ok X" and run: "match_continuous X i tick w = Inr (es, w')" and inv: "market_inv X w"
    and inc: "dget (ex_orders (xw_ex w)) i = Some inc" "active inc"
  shows "market_inv X w' \<and> calmer (xw_ex w) (xw_ex w')
    \<and> (\<forall>r. dget (ex_orders (xw_ex w')) i = Some r \<longrightarrow> active r \<longrightarrow> ord_limit r \<noteq> None)"
proof -
  note fit = market_fitD(2)[OF inv]
  have id: "ord_id inc = i" using orders_fitD(1)[OF fit inc(1)] .
  let ?resting = "map ord_id (filter (\<lambda>r. ord_id r \<noteq> i \<and> ord_submitted r \<le> tick) (dvals (ex_orders (xw_ex w))))"
  from run obtain es1 w1 es2 w2 r es3 w3 es4 where
    selfs: "m_for (\<lambda>j. m_bind (x_order j) (\<lambda>r. m_when (ord_trader r = ord_trader inc \<and> crosses inc r)
           (cancel_order X j tick ''stp'' False))) (sort ?resting) w = Inr (es1, w1)"
    and fills: "m_for_until (\<lambda>f. m_bind (settle_in_band X (ord_symbol inc) tick f) (\<lambda>(es, stop).
         m_bind (x_order i) (\<lambda>r. m_return (es, stop \<or> ord_status r = StFilled))))
         (continuous_matches inc (filter active (map (\<lambda>j. the (dget (ex_orders (xw_ex w1)) j)) ?resting))) w1 = Inr (es2, w2)"
    and r: "dget (ex_orders (xw_ex w2)) i = Some r"
    and drop: "m_when (ord_type r = MarketOrder \<and> active r) (cancel_order X i tick ''market_unfilled'' False) w2 = Inr (es3, w3)"
    and snap: "book_snapshot X (ord_symbol inc) w3 = Inr (es4, w')"
    unfolding match_continuous_def m_bind_Inr_iff m_basic_Inr_iff
    by (auto simp: m_bind_Inr_iff m_basic_Inr_iff id inc(1) dest!: x_order_InrD x_security_InrD x_state_InrD)
  define P where "P v \<longleftrightarrow> calm_since X (xw_ex w) v \<and> dget (ex_orders (xw_ex v)) i = Some inc" for v :: "'a exchange_world"
  have K: "keeps P (m_for (\<lambda>j. m_bind (x_order j) (\<lambda>r. m_when (ord_trader r = ord_trader inc \<and> crosses inc r)
           (cancel_order X j tick ''stp'' False))) (sort ?resting))"
  proof (intro keeps_rules)
    fix j assume "j \<in> set (sort ?resting)"
    then have j: "i \<noteq> j" by auto
    show "keeps P (cancel_order X j tick ''stp'' False)"
      by (rule keepsI) (use j in \<open>auto simp: P_def calm_since_def dest!: cancel_order_effect intro: calmer_trans\<close>)
  qed
  have "P w" using inv inc by (simp add: P_def calm_since_def)
  from keepsD[OF K this selfs] have "P w1" .
  then have 1: "market_inv X w1" "calmer (xw_ex w) (xw_ex w1)" "dget (ex_orders (xw_ex w1)) i = Some inc"
    by (simp_all add: P_def calm_since_def)
  note fit1 = market_fitD(2)[OF 1(1)]
  have rs: "dget (ex_orders (xw_ex w1)) (ord_id x) = Some x"
    if "x \<in> set (filter active (map (\<lambda>j. the (dget (ex_orders (xw_ex w1)) j)) ?resting))" for x
  proof -
    from that obtain y where y: "y \<in> set (dvals (ex_orders (xw_ex w)))" "x = the (dget (ex_orders (xw_ex w1)) (ord_id y))"
      by auto
    then have "dget (ex_orders (xw_ex w)) (ord_id y) \<noteq> None" using order_table_ids(1)[OF fit] by simp
    then have "dget (ex_orders (xw_ex w1)) (ord_id y) \<noteq> None" using calmer_None[OF 1(2)] by simp
    then have "dget (ex_orders (xw_ex w1)) (ord_id y) = Some x" using y(2) by auto
    then show ?thesis using orders_fitD(1)[OF fit1] by simp
  qed
  have "market_inv X w2 \<and> traded (xw_ex w1) (xw_ex w2)"
    by (rule fills_keep[OF fills 1(1) continuous_fair[OF fit1 1(3) inc(2) rs]])
      (auto simp: prog_Inr_iff dest!: x_order_InrD settle_in_band_keeps[OF fees])
  then have 2: "calm_since X (xw_ex w) w2" using 1(2) calmer_trans traded_calmer by (auto simp: calm_since_def)
  have 3: "calm_since X (xw_ex w) w3 \<and> (\<forall>r. dget (ex_orders (xw_ex w3)) i = Some r \<longrightarrow> active r \<longrightarrow> ord_limit r \<noteq> None)"
  proof (cases "ord_type r = MarketOrder \<and> active r")
    case True
    then have "cancel_order X i tick ''market_unfilled'' False w2 = Inr (es3, w3)" using drop by (simp add: m_when_def)
    from cancel_order_effect[OF this, of "{}" "{}"] 2 show ?thesis by (auto simp: calm_since_def intro: calmer_trans)
  next
    case False
    then have "w3 = w2" using drop by (auto simp: m_when_def prog_Inr_iff)
    moreover have "active r \<Longrightarrow> ord_limit r \<noteq> None"
      using False order_fit_market orders_fitD(2)[OF market_fitD(2)[of X "{}" "{}" w2] r] 2
      by (auto simp: calm_since_def)
    ultimately show ?thesis using 2 r by simp
  qed
  have "calm_since X (xw_ex w) w'" using keepsD[OF keeps_book_snapshot _ snap] 3 by blast
  moreover have "calm_since X (xw_ex w3) w'"
    by (rule keepsD[OF keeps_book_snapshot _ snap]) (use 3 in \<open>simp add: calm_since_def\<close>)
  then have "\<forall>r. dget (ex_orders (xw_ex w')) i = Some r \<longrightarrow> active r \<longrightarrow> ord_limit r \<noteq> None"
    using 3 unfolding calm_since_def by (metis calmerD)
  ultimately show ?thesis by (simp add: calm_since_def)
qed

end
