(* ===== verification/Exchange_Admit.thy ===== *)
theory Exchange_Admit
  imports Exchange_Match
begin

text \<open>
  Admission keeps the invariant: a new order reserves what it may cost or deliver, an indication for
  an IPO moves its money to escrow. Orders need fresh identifiers, and a market order must not carry
  a limit: the engine fills it at any price but reserves only up to the limit.
\<close>

section \<open>The orders after an admission\<close>

definition sane_action :: "exchange_action \<Rightarrow> bool" where
  "sane_action a \<longleftrightarrow> plain_id (xa_actor a) \<and> 0 \<le> xp_collateral a
     \<and> (xp_order_type a = Some ''market'' \<longrightarrow> xp_limit a = None \<or> xp_limit a = Some None)"

definition new_id :: "exchange_action \<Rightarrow> string" where
  "new_id a = order_name (xa_id a)"

lemma orders_fit_fresh:
  assumes "orders_fit X P Q ex" "dget (ex_orders ex) (ord_id r) = None" "order_fit X ex r" "0 < ord_remaining r"
    "ex_orders ex' = dset (ord_id r) r (ex_orders ex)" "ex_securities ex' = ex_securities ex"
  shows "orders_fit X P Q ex'"
  unfolding orders_fit_def assms(5) order_fit_cong[OF assms(6)]
proof (intro conjI allI impI)
  show "wf_dict (dset (ord_id r) r (ex_orders ex))" using orders_fit_wf[OF assms(1)] by simp
qed (use orders_fitD[OF assms(1)] assms(3,4) in \<open>auto split: if_splits\<close>)

lemma order_sum_fresh:
  assumes "dget (ex_orders ex) i = None" "ex_orders ex' = dset i r (ex_orders ex)"
  shows "order_sum g ex' = order_sum g ex + g r"
  using sum_dset_fresh_int[OF assms(1), of g r] by (simp add: order_sum_def assms(2))

lemma market_fit_fresh:
  \<comment> \<open>a new order with what it reserves\<close>
  assumes inv: "market_fit X P Q w" and new: "dget (ex_orders (xw_ex w)) (ord_id r) = None" "active r" "order_fit X (xw_ex w) r" "0 < ord_remaining r"
    and led: "ledger_inv (xw_ledger w')" "\<And>t. escrow_held (xw_ledger w') t = escrow_held (xw_ledger w) t
        + (if t = ord_trader r then ord_reserved_cents r else 0)"
    and ex': "xw_ex w' = ex1\<lparr>ex_orders := dset (ord_id r) r (ex_orders ex1)\<rparr>"
    and ex1: "rows_ok ex1" "ex_orders ex1 = ex_orders (xw_ex w)" "ex_securities ex1 = ex_securities (xw_ex w)"
      "ex_shorts ex1 = ex_shorts (xw_ex w)" "ex_ipos ex1 = ex_ipos (xw_ex w)" "\<And>s. outstanding ex1 s = outstanding (xw_ex w) s"
      "\<And>t s. plain_id t \<Longrightarrow> hold_reserved (holding_of t s ex1) = hold_reserved (holding_of t s (xw_ex w))
        + (if t = ord_trader r \<and> s = ord_symbol r then ord_reserved_qty r else 0)"
  shows "market_fit X P Q w'"
proof -
  note I = market_fitD[OF inv]
  have sum: "order_sum g (xw_ex w') = order_sum g (xw_ex w) + g r" for g
    by (rule order_sum_fresh[OF new(1)]) (simp add: ex' ex1)
  have "orders_fit X P Q (xw_ex w')" by (rule orders_fit_fresh[OF I(2) new(1,3,4)]) (simp_all add: ex' ex1)
  moreover have "rows_ok (xw_ex w')" by (rule rows_ok_cong[OF ex1(1)]) (simp_all add: ex')
  moreover have "reserved_ok (xw_ex w')" unfolding reserved_ok_def sum
  proof (intro allI impI)
    fix t s assume t: "plain_id t"
    have "holding_of t s (xw_ex w') = holding_of t s ex1" by (simp add: holding_of_def ex')
    then show "hold_reserved (holding_of t s (xw_ex w')) = order_sum (want_of t s) (xw_ex w) + want_of t s r"
      using ex1(7)[OF t] I(4) t order_fit_want[OF new(3,2)] by (auto simp: reserved_ok_def)
  qed
  moreover have "securities_ok (xw_ex w')"
  proof (rule securities_ok_cong[OF I(5)])
    have "outstanding (xw_ex w') s = outstanding ex1 s" for s by (simp add: ex' outstanding_def holding_sum_def)
    then show "outstanding (xw_ex w') s = outstanding (xw_ex w) s" for s using ex1(6) by simp
  qed (simp add: ex' ex1)
  moreover have "shorts_ok (xw_ex w')" by (rule shorts_ok_cong[OF I(6)]) (simp add: ex' ex1)
  moreover have "ipos_ok (xw_ex w')" by (rule ipos_ok_cong[OF I(7)]) (simp add: ex' ex1)
  moreover have "escrow_due (xw_ex w') t = escrow_due (xw_ex w) t + (if t = ord_trader r then ord_reserved_cents r else 0)" for t
    unfolding escrow_due_def sum using new(2)
    by (simp add: short_sum_def ipo_sum_def ex' ex1 cents_of_def)
  ultimately show ?thesis using led I(8) by (simp add: market_fit_def)
qed

section \<open>What the elementary methods leave\<close>

lemma after_look [after_simps]:
  "after (x_state f) Q w \<longleftrightarrow> Q (f (xw_ex w)) w"
  "after (x_ledger g) Q1 w \<longleftrightarrow> Q1 (g (xw_ledger w)) w"
  "after (x_update u) Q2 w \<longleftrightarrow> Q2 () (w\<lparr>xw_ex := u (xw_ex w)\<rparr>)"
  by (simp_all add: x_state_def x_ledger_def x_update_def after_simps)

lemma after_ifI: "(c \<Longrightarrow> after m Q w) \<Longrightarrow> (\<not> c \<Longrightarrow> after n Q w) \<Longrightarrow> after (if c then m else n) Q w"
  by simp

lemma after_stateI: "after (g (f (xw_ex w))) Q w \<Longrightarrow> after (m_bind (x_state f) g) Q w"
  by (simp add: after_bind after_look)

lemma after_find [after_simps]:
  "after (x_order i) Q w \<longleftrightarrow> (\<forall>r. dget (ex_orders (xw_ex w)) i = Some r \<longrightarrow> Q r w)"
  "after (x_security i) Q1 w \<longleftrightarrow> (\<forall>r. dget (ex_securities (xw_ex w)) i = Some r \<longrightarrow> Q1 r w)"
  "after (x_deposit t) Q2 w \<longleftrightarrow> (\<forall>v. deposit_account t (xw_ledger w) = Inr v \<longrightarrow> Q2 v w)"
  "after (x_escrow t ref) Q2 w \<longleftrightarrow> (\<forall>v. escrow_id t ref (xw_ledger w) = Inr v \<longrightarrow> Q2 v w)"
  "after (x_res r) Q3 w \<longleftrightarrow> (\<forall>x. r = Inr x \<longrightarrow> Q3 x w)"
  "after (x_transfer u v m rs) Q4 w \<longleftrightarrow> (\<forall>legs. transfer u v m rs = Inr legs \<longrightarrow> Q4 legs w)"
  by (auto simp: x_order_def x_security_def x_deposit_def x_escrow_def x_transfer_def x_res_def after_simps
      split: option.splits sum.splits)

lemma after_emit:
  "(\<And>ev w'. xw_ex w' = xw_ex w \<Longrightarrow> xw_ledger w' = xw_ledger w \<Longrightarrow> Q ev w') \<Longrightarrow> after (x_emit X k pl a s) Q w"
  by (rule afterI) (auto dest!: x_emit_InrD)

section \<open>Opening escrow accounts\<close>

lemma x_ledger_InrD: "x_ledger f w = Inr (u, w') \<Longrightarrow> w' = w \<and> u = f (xw_ledger w)"
  by (simp add: x_ledger_def prog_Inr_iff)

lemma x_res_InrD: "x_res r w = Inr (u, w') \<Longrightarrow> w' = w \<and> r = Inr u"
  by (auto simp: x_res_def prog_Inr_iff split: sum.splits)

definition x_open :: "string \<Rightarrow> string \<Rightarrow> string option \<Rightarrow> string \<Rightarrow> int \<Rightarrow> ('l, string) xm" where
  "x_open owner ty bank ref tick w = (case open_account Esc owner ty bank (Some ref) tick (xw_ledger w) of
     Inl e \<Rightarrow> Inl (ExLedger e) | Inr (i, l) \<Rightarrow> Inr (i, w\<lparr>xw_ledger := l\<rparr>))"

lemma escrow_account_steps:
  "escrow_account X owner ref tick = m_bind (x_escrow owner ref) (\<lambda>v. m_bind (x_ledger (\<lambda>l. is_open l v)) (\<lambda>is_op.
       if is_op then m_return (v, [])
       else m_bind (x_res (parse_account_id v)) (\<lambda>(_, _, bank, _).
         m_bind (x_open owner (owner_type_of X owner) bank ref tick) (\<lambda>_.
         m_bind (x_emit X 8002 [(''account_id'', JStr v), (''owner_id'', JStr owner),
             (''owner_type'', JStr (owner_type_of X owner)), (''bank_id'', jopt JStr bank),
             (''account_type'', JStr ''escrow''), (''code'', JStr ''esc'')] None [owner]) (\<lambda>ev.
         m_return (v, [ev]))))))"
  unfolding escrow_account_def x_open_def[abs_def] ..

lemma x_open_InrD:
  assumes "x_open owner ty bank ref tick w = Inr (i, w')" "ledger_inv (xw_ledger w)"
  shows "xw_ex w' = xw_ex w \<and> ledger_inv (xw_ledger w') \<and> (\<forall>t. escrow_held (xw_ledger w') t = escrow_held (xw_ledger w) t)"
  using assms open_held open_preserves_inv[OF assms(2)] by (fastforce simp: x_open_def split: sum.splits)

lemma escrow_account_InrD:
  assumes "escrow_account X owner ref tick w = Inr ((v, evs), w')" "ledger_inv (xw_ledger w)"
  shows "xw_ex w' = xw_ex w \<and> ledger_inv (xw_ledger w') \<and> esc_owner v = Some owner
    \<and> (\<forall>t. escrow_held (xw_ledger w') t = escrow_held (xw_ledger w) t)"
proof -
  from assms(1) have v: "escrow_id owner ref (xw_ledger w) = Inr v"
    by (auto simp: escrow_account_steps prog_Inr_iff dest!: x_escrow_InrD x_ledger_InrD x_res_InrD split: if_splits)
  have "w' = w \<or> (\<exists>ty bank i w1. x_open owner ty bank ref tick w = Inr (i, w1) \<and> xw_ex w' = xw_ex w1 \<and> xw_ledger w' = xw_ledger w1)"
    using assms(1)
    by (fastforce simp: escrow_account_steps prog_Inr_iff dest!: x_escrow_InrD x_ledger_InrD x_res_InrD x_emit_InrD
        split: if_splits)
  then show ?thesis using x_open_InrD assms(2) escrow_id_owner[OF assms(2) v] by metis
qed

lemma market_fit_accounts:
  assumes "escrow_account X' owner ref tick w = Inr ((v, evs), w')" "market_fit X P Q w"
  shows "market_fit X P Q w' \<and> xw_ex w' = xw_ex w \<and> esc_owner v = Some owner"
  using escrow_account_InrD[OF assms(1)] assms(2) by (auto simp: market_fit_def)

section \<open>Placing an order\<close>

definition placed_order :: "exchange_action \<Rightarrow> string \<Rightarrow> int \<Rightarrow> int \<Rightarrow> side \<Rightarrow> order_type \<Rightarrow> int option \<Rightarrow> int \<Rightarrow> int \<Rightarrow> order_state" where
  "placed_order a symbol ordinal tick sd ot limit cents q =
     \<lparr>ord_id = new_id a, ord_symbol = symbol, ord_trader = xa_actor a, ord_side = sd, ord_type = ot,
      ord_qty = xp_qty a, ord_remaining = xp_qty a, ord_limit = limit, ord_submitted = tick,
      ord_arrival = ordinal, ord_tif = ''day'', ord_status = StOpen, ord_reserved_cents = cents,
      ord_reserved_qty = q, ord_filled_qty = 0, ord_filled_notional = 0, ord_commission = 0,
      ord_flags = order_flags a\<rparr>"

definition reserve_money :: "'l exchange_env \<Rightarrow> string \<Rightarrow> int \<Rightarrow> string option \<Rightarrow> int \<Rightarrow> evt \<Rightarrow> ('l, unit) xm" where
  "reserve_money X actor cents escrow tick ev =
     (if cents \<noteq> 0 then
        m_bind (x_deposit actor) (\<lambda>src.
        m_bind (case escrow of None \<Rightarrow> m_raise (ExKey ''escrow'') | Some v \<Rightarrow> m_return v) (\<lambda>v.
        m_bind (x_transfer src v cents ''escrow'') (\<lambda>legs.
        m_then (x_post X legs tick ev) (m_return ()))))
      else m_return ())"

lemma place_order_steps:
  "place_order X a symbol ordinal tick sd ot limit cents q escrow events =
     (let i = new_id a; r = placed_order a symbol ordinal tick sd ot limit cents q
      in m_bind (x_emit X 7010 [(''order_id'', JStr i), (''symbol'', JStr symbol), (''trader_id'', JStr (xa_actor a)),
             (''side'', JStr (side_text sd)), (''order_type'', JStr (case ot of LimitOrder \<Rightarrow> ''limit'' | MarketOrder \<Rightarrow> ''market'')),
             (''limit_price_cents'', jopt JInt limit), (''qty'', JInt (xp_qty a)), (''tif'', JStr ''day''),
             (''reserved_cents'', JInt cents), (''reserved_qty'', JInt q), (''arrival_ordinal'', JInt ordinal)]
             (Some (xa_actor a)) [symbol]) (\<lambda>submitted.
         m_then (reserve_money X (xa_actor a) cents escrow tick submitted)
         (m_then (x_update (\<lambda>ex. ex\<lparr>ex_orders := dset i r (ex_orders ex)\<rparr>))
           (m_return (Some i, events @ [submitted])))))"
  unfolding place_order_def reserve_money_def placed_order_def new_id_def Let_def ..

lemma reserve_money_InrD:
  assumes "reserve_money X actor cents escrow tick ev w = Inr (u, w')" and inv: "ledger_inv (xw_ledger w)"
    and v: "\<And>v. escrow = Some v \<Longrightarrow> esc_owner v = Some actor"
  shows "xw_ex w' = xw_ex w \<and> ledger_inv (xw_ledger w')
    \<and> escrow_held (xw_ledger w') t = escrow_held (xw_ledger w) t + (if t = actor then cents else 0)"
proof (cases "cents = 0")
  case True
  then show ?thesis using assms(1) inv by (simp add: reserve_money_def prog_Inr_iff)
next
  case False
  with assms(1) obtain d e legs txn where d: "deposit_account actor (xw_ledger w) = Inr d" and e: "escrow = Some e"
    and legs: "transfer d e cents ''escrow'' = Inr legs" and post: "x_post X legs tick ev w = Inr (txn, w')"
    by (auto simp: reserve_money_def prog_Inr_iff dest!: x_deposit_InrD x_transfer_InrD split: option.splits)
  show ?thesis
    using x_post_InrD[OF post inv] esc_net_transfer[OF legs, of t] deposit_not_escrow[OF inv d] v[OF e] by simp
qed

lemma place_order_InrD:
  assumes "place_order X a symbol ordinal tick sd ot limit cents q escrow events w = Inr (p, w')" "ledger_inv (xw_ledger w)"
    and "\<And>v. escrow = Some v \<Longrightarrow> esc_owner v = Some (xa_actor a)"
  defines "r \<equiv> placed_order a symbol ordinal tick sd ot limit cents q"
  shows "fst p = Some (new_id a) \<and> ledger_inv (xw_ledger w')
    \<and> xw_ex w' = (xw_ex w)\<lparr>ex_orders := dset (new_id a) r (ex_orders (xw_ex w))\<rparr>
    \<and> (\<forall>t. escrow_held (xw_ledger w') t = escrow_held (xw_ledger w) t + (if t = xa_actor a then cents else 0))"
proof -
  from assms(1) obtain ev w1 u w2 where e: "xw_ex w1 = xw_ex w" "xw_ledger w1 = xw_ledger w"
    and m: "reserve_money X (xa_actor a) cents escrow tick ev w1 = Inr (u, w2)"
    and w': "xw_ex w' = (xw_ex w2)\<lparr>ex_orders := dset (new_id a) r (ex_orders (xw_ex w2))\<rparr>" "xw_ledger w' = xw_ledger w2"
      "fst p = Some (new_id a)"
    by (auto simp: place_order_steps Let_def prog_Inr_iff r_def dest!: x_emit_InrD x_update_InrD)
  show ?thesis using reserve_money_InrD[OF m _ assms(3)] e w' assms(2) by simp
qed

section \<open>Indications for an IPO\<close>

lemma market_fit_ipos:
  \<comment> \<open>a change of the IPOs and of the money held for them\<close>
  assumes "market_fit X P Q w" "xw_ex w' = (xw_ex w)\<lparr>ex_ipos := ip\<rparr>" "ipos_ok (xw_ex w')" "ledger_inv (xw_ledger w')"
    "\<And>t. escrow_held (xw_ledger w') t - escrow_held (xw_ledger w) t = ipo_sum (indicated_of t) (xw_ex w') - ipo_sum (indicated_of t) (xw_ex w)"
  shows "market_fit X P Q w'"
proof -
  note I = market_fitD[OF assms(1)]
  have "orders_fit X P Q (xw_ex w')" by (rule orders_fit_cong[OF I(2)]) (simp_all add: assms(2))
  moreover have "rows_ok (xw_ex w')" by (rule rows_ok_cong[OF I(3)]) (simp_all add: assms(2))
  moreover have "reserved_ok (xw_ex w')" by (rule reserved_ok_cong[OF I(4)]) (simp_all add: assms(2))
  moreover have "securities_ok (xw_ex w')"
    by (rule securities_ok_cong[OF I(5)]) (simp_all add: assms(2) outstanding_def holding_sum_def)
  moreover have "shorts_ok (xw_ex w')" by (rule shorts_ok_cong[OF I(6)]) (simp add: assms(2))
  moreover have "order_sum (cents_of t) (xw_ex w') = order_sum (cents_of t) (xw_ex w)"
    "short_sum (collateral_of t) (xw_ex w') = short_sum (collateral_of t) (xw_ex w)" for t
    by (simp_all add: assms(2) order_sum_def short_sum_def)
  then have "escrow_held (xw_ledger w') t = escrow_due (xw_ex w') t" for t
    using assms(5)[of t] I(8)[of t] by (simp add: escrow_due_def)
  ultimately show ?thesis using assms(3,4) by (simp add: market_fit_def)
qed

lemma ipo_row:
  assumes "ipos_ok ex" "p \<in> set (dvals (ex_ipos ex))"
  shows "dget (ex_ipos ex) (ipo_id p) = Some p" "wf_dict (ipo_indications p)" "\<forall>i. dget (ipo_indications p) i \<noteq> None \<longrightarrow> plain_id i"
proof -
  from assms(2) obtain k where "dget (ex_ipos ex) k = Some p" using assms(1) by (auto simp: ipos_ok_def dget_Some_iff)
  then show "dget (ex_ipos ex) (ipo_id p) = Some p" "wf_dict (ipo_indications p)" "\<forall>i. dget (ipo_indications p) i \<noteq> None \<longrightarrow> plain_id i"
    using assms(1) by (auto simp: ipos_ok_def)
qed

lemma ipo_sum_dset:
  assumes "ipos_ok ex" "dget (ex_ipos ex) k = Some p" "ex_ipos ex' = dset k p' (ex_ipos ex)"
  shows "ipo_sum g ex' = ipo_sum g ex - g p + g p'"
  using sum_dset_int[OF _ assms(2), of g p'] assms(1) by (simp add: ipo_sum_def ipos_ok_def assms(3))

lemma reject_InrD: "reject X a s reason d w = Inr (ev, w') \<Longrightarrow> xw_ex w' = xw_ex w \<and> xw_ledger w' = xw_ledger w"
  by (auto simp: reject_def dest: x_emit_InrD)

definition ipo_move :: "'l exchange_env \<Rightarrow> exchange_action \<Rightarrow> ipo_state \<Rightarrow> string \<Rightarrow> int \<Rightarrow> int \<Rightarrow> int \<Rightarrow> ('l, evt list) xm" where
  \<comment> \<open>the accepted indication: escrow account, event, posting, entry in the book\<close>
  "ipo_move X a ipo deposit qty limit_price tick =
     m_bind (escrow_account X (xa_actor a) ''exchange'' tick) (\<lambda>(escrow, opened).
     m_bind (x_emit X 7071 [(''firm_id'', JStr (ipo_firm ipo)), (''investor_id'', JStr (xa_actor a)),
         (''qty'', JInt qty), (''limit_price_cents'', JInt limit_price)] (Some (xa_actor a)) [ipo_firm ipo]) (\<lambda>ev.
     m_bind (x_transfer deposit escrow (qty * limit_price) ''escrow'') (\<lambda>legs.
     m_bind (x_post X legs tick ev) (\<lambda>_.
     if dget (ipo_indications ipo) (xa_actor a) \<noteq> None
     then m_raise (ExValue ''one IPO indication per investor is permitted'')
     else m_then (x_update (\<lambda>ex. ex\<lparr>ex_ipos := dset (ipo_id ipo)
         (ipo\<lparr>ipo_indications := dset (xa_actor a) (qty, limit_price) (ipo_indications ipo)\<rparr>) (ex_ipos ex)\<rparr>))
       (m_return (opened @ [ev]))))))"

lemma ipo_indication_steps:
  "ipo_indication X a symbol tick =
     m_bind (x_state (\<lambda>ex. find (\<lambda>p. ipo_symbol p = symbol \<and> ipo_status p = ''announced'') (dvals (ex_ipos ex)))) (\<lambda>found.
     case found of
       None \<Rightarrow> m_bind (reject X a symbol ''no_security'' [(''ipo'', JStr ''closed'')]) (\<lambda>ev. m_return [ev])
     | Some ipo \<Rightarrow>
       if ipo_close ipo < tick
       then m_bind (reject X a symbol ''no_security'' [(''ipo'', JStr ''closed'')]) (\<lambda>ev. m_return [ev])
       else
       m_bind (case xp_limit a of None \<Rightarrow> m_return 0 | Some None \<Rightarrow> m_raise (ExType ''int(None)'')
               | Some (Some p) \<Rightarrow> m_return p) (\<lambda>limit_price.
       if xp_qty a \<le> 0 \<or> \<not> (ipo_low ipo \<le> limit_price \<and> limit_price \<le> ipo_high ipo)
       then m_bind (reject X a symbol ''price_band'' [(''ipo'', JBool True)]) (\<lambda>ev. m_return [ev])
       else
       m_bind (x_ledger (deposit_account (xa_actor a))) (\<lambda>d.
       case d of Inl _ \<Rightarrow> m_bind (reject X a symbol ''insufficient_reservation'' []) (\<lambda>ev. m_return [ev])
       | Inr deposit \<Rightarrow>
         m_bind (x_ledger (\<lambda>l. balance l deposit)) (\<lambda>rb.
         m_bind (x_res rb) (\<lambda>funds.
         if funds < xp_qty a * limit_price
         then m_bind (reject X a symbol ''insufficient_reservation'' [(''required_cents'', JInt (xp_qty a * limit_price))]) (\<lambda>ev. m_return [ev])
         else ipo_move X a ipo deposit (xp_qty a) limit_price tick)))))"
  unfolding ipo_indication_def ipo_move_def Let_def ..

lemma ipo_move_keeps:
  assumes run: "ipo_move X a ipo deposit qty limit tick w = Inr (es, w')" and inv: "market_fit X P Q w"
    and ipo: "ipo \<in> set (dvals (ex_ipos (xw_ex w)))" "ipo_status ipo = ''announced''"
    and dep: "deposit_account (xa_actor a) (xw_ledger w) = Inr deposit" and plain: "plain_id (xa_actor a)"
  shows "market_fit X P Q w' \<and> ex_orders (xw_ex w') = ex_orders (xw_ex w)"
proof -
  from run obtain e opened w1 w2 ev legs txn w3 where acc: "escrow_account X (xa_actor a) ''exchange'' tick w = Inr ((e, opened), w1)"
    and ev: "xw_ex w2 = xw_ex w1" "xw_ledger w2 = xw_ledger w1"
    and legs: "transfer deposit e (qty * limit) ''escrow'' = Inr legs" and post: "x_post X legs tick ev w2 = Inr (txn, w3)"
    and new: "dget (ipo_indications ipo) (xa_actor a) = None"
    and w': "xw_ex w' = (xw_ex w3)\<lparr>ex_ipos := dset (ipo_id ipo)
         (ipo\<lparr>ipo_indications := dset (xa_actor a) (qty, limit) (ipo_indications ipo)\<rparr>) (ex_ipos (xw_ex w3))\<rparr>"
      "xw_ledger w' = xw_ledger w3"
    by (auto simp: ipo_move_def prog_Inr_iff simp del: not_None_eq not_Some_eq split_paired_All
        dest!: x_emit_InrD x_transfer_InrD x_update_InrD split: if_splits)
  from market_fit_accounts[OF acc inv] have 1: "market_fit X P Q w1" "xw_ex w1 = xw_ex w" "esc_owner e = Some (xa_actor a)" by auto
  note I = market_fitD[OF 1(1)]
  have led: "ledger_inv (xw_ledger w2)" using I(1) ev by simp
  note post' = x_post_InrD[OF post led]
  have ex3: "xw_ex w3 = xw_ex w" using post'(1) ev 1(2) by simp
  have ok: "ipos_ok (xw_ex w)" using I(7) 1(2) by simp
  note row = ipo_row[OF ok ipo(1)]
  define ipo' where "ipo' = ipo\<lparr>ipo_indications := dset (xa_actor a) (qty, limit) (ipo_indications ipo)\<rparr>"
  have w'': "xw_ex w' = (xw_ex w)\<lparr>ex_ipos := dset (ipo_id ipo) ipo' (ex_ipos (xw_ex w))\<rparr>" using w'(1) by (simp add: ex3 ipo'_def)
  have fresh: "xa_actor a \<notin> set (dkeys (ipo_indications ipo))" using new by (simp add: dget_None_iff)
  have ind: "indicated_of t ipo' = indicated_of t ipo + (if t = xa_actor a then qty * limit else 0)" for t
    using ipo(2) by (simp add: indicated_of_def ipo'_def dset_fresh[OF fresh])
  have sum: "ipo_sum (indicated_of t) (xw_ex w') = ipo_sum (indicated_of t) (xw_ex w) + (if t = xa_actor a then qty * limit else 0)" for t
    using ipo_sum_dset[OF ok row(1), of "xw_ex w'" ipo' "indicated_of t"] ind[of t] by (simp add: w'')
  have held: "escrow_held (xw_ledger w') t = escrow_held (xw_ledger w1) t + (if t = xa_actor a then qty * limit else 0)" for t
    using post'(3) ev esc_net_transfer[OF legs, of t] 1(3) w'(2)
      deposit_not_escrow[OF market_fitD(1)[OF inv] dep] by simp
  have "market_fit X P Q w'"
  proof (rule market_fit_ipos[OF 1(1)])
    show "xw_ex w' = (xw_ex w1)\<lparr>ex_ipos := dset (ipo_id ipo) ipo' (ex_ipos (xw_ex w))\<rparr>" using w'' 1(2) by simp
    show "ipos_ok (xw_ex w')" using ok row(2,3) plain by (auto simp: ipos_ok_def w'' ipo'_def split: if_splits)
    show "ledger_inv (xw_ledger w')" using post'(2) w'(2) by simp
  qed (simp add: held sum 1(2))
  then show ?thesis by (simp add: w'')
qed

lemma after_reject:
  "market_fit X P Q w \<Longrightarrow> after (reject X' a s reason d) (\<lambda>_ w'. market_fit X P Q w' \<and> xw_ex w' = xw_ex w) w"
  by (rule afterI) (auto dest!: reject_InrD intro: market_fit_cong)

lemma ipo_indication_keeps:
  assumes inv: "market_fit X P Q w" and plain: "plain_id (xa_actor a)"
  shows "after (ipo_indication X a symbol tick) (\<lambda>_ w'. market_fit X P Q w' \<and> ex_orders (xw_ex w') = ex_orders (xw_ex w)) w"
    (is "after _ ?Q w")
proof -
  have rej: "after (m_bind (reject X a symbol r d) (\<lambda>ev. m_return [ev])) ?Q w" for r d
    unfolding after_simps using after_reject[OF inv] by (rule after_mono) simp
  show ?thesis
  proof (cases "find (\<lambda>p. ipo_symbol p = symbol \<and> ipo_status p = ''announced'') (dvals (ex_ipos (xw_ex w)))")
    case None
    then show ?thesis using rej by (simp add: ipo_indication_steps after_simps)
  next
    case (Some ipo)
    then have "ipo \<in> set (dvals (ex_ipos (xw_ex w)))" "ipo_status ipo = ''announced''" by (auto simp: find_Some_iff)
    note move = ipo_move_keeps[OF _ inv this]
    have move': "after (ipo_move X a ipo d q l tick) ?Q w" if "deposit_account (xa_actor a) (xw_ledger w) = Inr d" for d q l
      by (rule afterI) (rule move[OF _ that plain])
    have lim: "after (case xp_limit a of None \<Rightarrow> m_return 0 | Some None \<Rightarrow> m_raise e | Some (Some p) \<Rightarrow> m_return p) R w"
      if "\<And>p. R p w" for R e using that by (simp add: after_simps split: option.split)
    show ?thesis unfolding ipo_indication_steps after_bind[of "x_state _"] after_look Some option.case
      by (cases "deposit_account (xa_actor a) (xw_ledger w)")
        (auto simp: after_bind[of "x_ledger _"] after_bind[of "x_res _"] after_bind[of "case_option _ _ _"]
          after_look after_find intro!: rej move' lim)
  qed
qed

section \<open>Admission\<close>

definition admitted :: "'l exchange_env \<Rightarrow> exchange_action \<Rightarrow> exchange_state \<Rightarrow> string option \<Rightarrow> 'l exchange_world \<Rightarrow> bool" where
  "admitted X a ex placed w' \<longleftrightarrow> market_inv X w' \<and> (case placed of None \<Rightarrow> ex_orders (xw_ex w') = ex_orders ex
     | Some i \<Rightarrow> i = new_id a \<and> (\<exists>r. ex_orders (xw_ex w') = dset i r (ex_orders ex) \<and> active r \<and> ord_id r = i))"

abbreviation admits :: "'l exchange_env \<Rightarrow> exchange_action \<Rightarrow> exchange_state \<Rightarrow> ('l, string option \<times> evt list) xm \<Rightarrow> 'l exchange_world \<Rightarrow> bool" where
  "admits X a ex m \<equiv> after m (\<lambda>p. admitted X a ex (fst p))"

lemma admits_rejected: "market_inv X w \<Longrightarrow> ex_orders (xw_ex w) = ex_orders ex \<Longrightarrow> admits X a ex (rejected X a s reason d) w"
  unfolding rejected_def after_simps by (rule after_mono[OF after_reject]) (auto simp: admitted_def)

lemma after_escrow_account:
  assumes "market_fit X P Q w"
  shows "after (escrow_account X' owner ref tick) (\<lambda>(v, evs) w'. market_fit X P Q w' \<and> xw_ex w' = xw_ex w \<and> esc_owner v = Some owner) w"
  by (rule afterI) (use market_fit_accounts assms in blast)

lemma admits_funded:
  assumes inv: "market_inv X w" and ex: "ex_orders (xw_ex w) = ex_orders ex"
    and next_step: "\<And>v opened w1. market_inv X w1 \<Longrightarrow> xw_ex w1 = xw_ex w \<Longrightarrow> esc_owner v = Some (xa_actor a) \<Longrightarrow>
        admits X a ex (ns (v, opened)) w1"
  shows "admits X a ex (admit_funded X a s needed ref d ns reason tick) w"
proof -
  have "admits X a ex (m_bind (escrow_account X (xa_actor a) ref tick) ns) w" unfolding after_bind
    by (rule after_mono[OF after_escrow_account[OF inv]]) (use next_step in auto)
  then show ?thesis using admits_rejected[OF inv ex]
    by (cases "deposit_account (xa_actor a) (xw_ledger w)") (simp_all add: admit_funded_def after_simps)
qed

lemma placed_order_sel [simp]:
  "ord_id (placed_order a y n tick sd ot l c q) = new_id a" "ord_trader (placed_order a y n tick sd ot l c q) = xa_actor a"
  "ord_symbol (placed_order a y n tick sd ot l c q) = y" "ord_side (placed_order a y n tick sd ot l c q) = sd"
  "ord_type (placed_order a y n tick sd ot l c q) = ot" "ord_limit (placed_order a y n tick sd ot l c q) = l"
  "ord_remaining (placed_order a y n tick sd ot l c q) = xp_qty a" "ord_reserved_cents (placed_order a y n tick sd ot l c q) = c"
  "ord_reserved_qty (placed_order a y n tick sd ot l c q) = q" "ord_flags (placed_order a y n tick sd ot l c q) = order_flags a"
  "active (placed_order a y n tick sd ot l c q)"
  by (simp_all add: placed_order_def active_def)

lemma place_order_admits:
  fixes a y n tick sd ot l c q
  defines "r \<equiv> placed_order a y n tick sd ot l c q"
  assumes inv: "market_inv X w0" and new: "dget (ex_orders (xw_ex w0)) (new_id a) = None" "order_fit X (xw_ex w0) r" "0 < xp_qty a"
    and w: "xw_ledger w = xw_ledger w0" and esc: "\<And>v. escrow = Some v \<Longrightarrow> esc_owner v = Some (xa_actor a)"
    and ex1: "rows_ok (xw_ex w)" "ex_orders (xw_ex w) = ex_orders (xw_ex w0)" "ex_securities (xw_ex w) = ex_securities (xw_ex w0)"
      "ex_shorts (xw_ex w) = ex_shorts (xw_ex w0)" "ex_ipos (xw_ex w) = ex_ipos (xw_ex w0)"
      "\<And>s. outstanding (xw_ex w) s = outstanding (xw_ex w0) s"
      "\<And>t s. plain_id t \<Longrightarrow> hold_reserved (holding_of t s (xw_ex w)) = hold_reserved (holding_of t s (xw_ex w0))
        + (if t = xa_actor a \<and> s = y then q else 0)"
    and ex: "ex_orders (xw_ex w0) = ex_orders ex"
  shows "admits X a ex (place_order X a y n tick sd ot l c q escrow evs) w"
proof (rule afterI)
  fix p w' assume run: "place_order X a y n tick sd ot l c q escrow evs w = Inr (p, w')"
  have led: "ledger_inv (xw_ledger w)" using market_fitD(1)[OF inv] w by simp
  from place_order_InrD[OF run led esc]
  have P: "fst p = Some (new_id a)" "ledger_inv (xw_ledger w')"
    "xw_ex w' = (xw_ex w)\<lparr>ex_orders := dset (new_id a) r (ex_orders (xw_ex w))\<rparr>"
    "\<And>t. escrow_held (xw_ledger w') t = escrow_held (xw_ledger w) t + (if t = xa_actor a then c else 0)"
    by (simp_all add: r_def)
  have "market_inv X w'"
  proof (rule market_fit_fresh[OF inv _ _ new(2)])
    show "xw_ex w' = (xw_ex w)\<lparr>ex_orders := dset (ord_id r) r (ex_orders (xw_ex w))\<rparr>" using P(3) by (simp add: r_def)
  qed (use new P ex1 w in \<open>simp_all add: r_def\<close>)
  then show "admitted X a ex (fst p) w'" unfolding admitted_def using P ex1(2) ex by (auto simp: r_def)
qed

lemma admit_money_admits:
  assumes fees: "fees_ok X" and sane: "sane_action a" and inv: "market_inv X w" and ex: "xw_ex w = ex"
    and new: "dget (ex_orders ex) (new_id a) = None" and qty: "0 < xp_qty a"
    and sec: "dget (ex_securities ex) y = Some s" "sec_status s = ''listed''"
    and ot: "(ot = MarketOrder) = (l = None)" "\<And>p. l = Some p \<Longrightarrow> 0 < p"
    and cents: "if sd = Buy then c = reserve_required X (xp_qty a) (case l of Some p \<Rightarrow> p | None \<Rightarrow> snd (band X s))
      else ''opens_short'' \<in> set (order_flags a) \<and> 0 \<le> c"
  shows "admits X a ex (admit_funded X a y c ref d (\<lambda>(v, opened). place_order X a y n tick sd ot l c 0 (Some v) opened) reason tick) w"
proof (rule admits_funded[OF inv])
  fix v opened w1 assume w1: "market_inv X w1" "xw_ex w1 = xw_ex w" "esc_owner v = Some (xa_actor a)"
  have "0 \<le> reserve_required X (xp_qty a) p" if "1 \<le> p" for p
    using commission_bounds[OF fees that] that qty by (simp add: reserve_required_def)
  then have "0 \<le> c" using cents ot(2) band_upper_pos[OF fees, of s] by (auto split: if_splits option.splits)
  then have "order_fit X (xw_ex w1) (placed_order a y n tick sd ot l c 0)"
    using sane qty sec ot cents w1 ex
    by (auto simp: order_fit_def sane_action_def reserve_price_of_def short_sale_def split: if_splits)
  then have "admits X a ex (place_order X a y n tick sd ot l c 0 (Some v) opened) w1"
    by (intro place_order_admits[OF w1(1)]) (use w1 ex new qty market_fitD(3)[OF w1(1)] in simp_all)
  then show "admits X a ex (case (v, opened) of (v, opened) \<Rightarrow> place_order X a y n tick sd ot l c 0 (Some v) opened) w1" by simp
qed (simp add: ex)

lemma admit_sell_admits:
  assumes sane: "sane_action a" and inv: "market_inv X w" and ex: "xw_ex w = ex"
    and new: "dget (ex_orders ex) (new_id a) = None" and qty: "0 < xp_qty a"
    and sec: "dget (ex_securities ex) y = Some s" "sec_status s = ''listed''"
    and ot: "(ot = MarketOrder) = (l = None)" "\<And>p. l = Some p \<Longrightarrow> 0 < p"
    and flags: "''opens_short'' \<notin> set (order_flags a)"
    and w1: "w1 = w\<lparr>xw_ex := upd_holding (xa_actor a) y (\<lambda>h. h) ex\<rparr>"
  shows "market_inv X w1"
    "admits X a ex (m_then (x_update (upd_holding (xa_actor a) y (\<lambda>h. h\<lparr>hold_reserved := hold_reserved h + xp_qty a\<rparr>)))
       (place_order X a y n tick Sell ot l 0 (xp_qty a) None [])) w1"
proof -
  note I = market_fitD[OF inv, unfolded ex]
  let ?t = "xa_actor a"
  have plain: "plain_id ?t" using sane by (simp add: sane_action_def)
  have mem: "y \<in> set (dkeys (ex_securities ex))" using sec(1) by (auto dest!: dget_SomeD intro: rev_image_eqI)
  note row = holding_of_row[OF I(3) plain, of y]
  have rows1: "rows_ok (xw_ex w1)" unfolding w1 by (simp, rule rows_ok_upd[OF I(3) plain mem]) (use row in simp_all)
  have out1: "outstanding (xw_ex w1) z = outstanding ex z" for z
    using outstanding_upd_holding[OF I(3) plain, of "\<lambda>h. h" y z] row by (simp add: w1)
  have res1: "holding_of t z (xw_ex w1) = (if holding_key ?t y = holding_key t z then holding_of ?t y ex else holding_of t z ex)" for t z
    by (simp add: w1 holding_of_upd)
  have res1': "hold_reserved (holding_of t z (xw_ex w1)) = hold_reserved (holding_of t z ex)" if "plain_id t" for t z
    using res1 plain that by auto
  show inv1: "market_inv X w1" unfolding market_fit_def
  proof (intro conjI allI)
    show "orders_fit X {} {} (xw_ex w1)" by (rule orders_fit_cong[OF I(2)]) (simp_all add: w1)
    show "reserved_ok (xw_ex w1)" using I(4) res1' order_sum_cong(1)[of "xw_ex w1" ex] by (simp add: reserved_ok_def w1)
    show "securities_ok (xw_ex w1)" by (rule securities_ok_cong[OF I(5) _ out1]) (simp add: w1)
    show "shorts_ok (xw_ex w1)" by (rule shorts_ok_cong[OF I(6)]) (simp add: w1)
    show "ipos_ok (xw_ex w1)" by (rule ipos_ok_cong[OF I(7)]) (simp add: w1)
    show "escrow_held (xw_ledger w1) t = escrow_due (xw_ex w1) t" for t
      using I(8)[of t] escrow_due_cong[of "xw_ex w1" ex t] by (simp add: w1)
  qed (use I rows1 in \<open>simp_all add: w1\<close>)
  define g where "g = (\<lambda>h :: holding_state. h\<lparr>hold_reserved := hold_reserved h + xp_qty a\<rparr>)"
  define w2 where "w2 = w1\<lparr>xw_ex := upd_holding ?t y g (xw_ex w1)\<rparr>"
  note row1 = holding_of_row[OF rows1 plain, of y]
  have "admits X a ex (place_order X a y n tick Sell ot l 0 (xp_qty a) None []) w2"
  proof (rule place_order_admits[OF inv])
    show "order_fit X (xw_ex w) (placed_order a y n tick Sell ot l 0 (xp_qty a))"
      using sane qty sec ot flags ex by (auto simp: order_fit_def sane_action_def short_sale_def)
    show "rows_ok (xw_ex w2)"
      using rows_ok_upd[OF rows1 plain, of y g] row1 mem by (simp add: w2_def g_def w1)
    show "outstanding (xw_ex w2) z = outstanding (xw_ex w) z" for z
      using outstanding_upd_holding[OF rows1 plain, of g y z] row1 out1[of z] by (simp add: w2_def g_def ex)
    show "hold_reserved (holding_of t z (xw_ex w2)) = hold_reserved (holding_of t z (xw_ex w))
        + (if t = ?t \<and> z = y then xp_qty a else 0)" if "plain_id t" for t z
      using that plain res1'[OF that, of z] res1'[OF plain, of y] by (auto simp: w2_def g_def holding_of_upd ex)
  qed (use new qty in \<open>simp_all add: w2_def w1 ex\<close>)
  then show "admits X a ex (m_then (x_update (upd_holding ?t y (\<lambda>h. h\<lparr>hold_reserved := hold_reserved h + xp_qty a\<rparr>)))
       (place_order X a y n tick Sell ot l 0 (xp_qty a) None [])) w1"
    by (simp add: after_simps w2_def g_def)
qed

lemma admit_checked_admits:
  assumes fees: "fees_ok X" and sane: "sane_action a" and inv: "market_inv X w"
    and new: "dget (ex_orders (xw_ex w)) (new_id a) = None" and qty: "0 < xp_qty a"
    and sec: "dget (ex_securities (xw_ex w)) y = Some s" "sec_status s = ''listed''"
    and ot: "(ot = MarketOrder) = (l = None)" "\<And>p. l = Some p \<Longrightarrow> 0 < p"
  shows "admits X a (xw_ex w) (admit_checked X a y n tick s sd ot l) w"
proof -
  note money = admit_money_admits[OF fees sane inv refl new qty sec ot]
  consider (buy) "sd = Buy" | (short) "sd = Sell" "''opens_short'' \<in> set (order_flags a)"
    | (sell) "sd = Sell" "''opens_short'' \<notin> set (order_flags a)" by (cases sd) auto
  then show ?thesis
  proof cases
    case buy
    then show ?thesis using money[where sd = Buy] by (simp add: admit_checked_def Let_def)
  next
    case short
    then show ?thesis using money[where sd = Sell] admits_rejected[OF inv refl] sane
      by (simp add: admit_checked_def Let_def sane_action_def)
  next
    case sell
    define w1 where "w1 = w\<lparr>xw_ex := upd_holding (xa_actor a) y (\<lambda>h. h) (xw_ex w)\<rparr>"
    note A = admit_sell_admits[OF sane inv refl new qty sec ot sell(2) w1_def]
    have "ex_orders (xw_ex w1) = ex_orders (xw_ex w)" by (simp add: w1_def)
    from admits_rejected[OF A(1) this] A(2) sell show ?thesis
      by (simp add: admit_checked_def Let_def after_bind after_then after_look flip: w1_def)
  qed
qed

lemma admit_admits:
  assumes fees: "fees_ok X" and sane: "sane_action a" and inv: "market_inv X w"
    and new: "dget (ex_orders (xw_ex w)) (new_id a) = None"
  shows "admits X a (xw_ex w) (admit X a y n tick session_open) w"
proof (cases "xa_kind a = SubmitOrder \<and> ''ipo'' \<in> set (xp_flags a)")
  case True
  have "after (ipo_indication X a y tick) (\<lambda>es. admits X a (xw_ex w) (m_return (None, es))) w"
    by (rule after_mono[OF ipo_indication_keeps[OF inv]]) (use sane in \<open>simp_all add: after_return admitted_def sane_action_def\<close>)
  then show ?thesis using True by (simp add: admit_def after_bind)
next
  case False
  note rej = admits_rejected[OF inv refl, of a y]
  show ?thesis
  proof (cases "dget (ex_securities (xw_ex w)) y")
    case None
    then show ?thesis unfolding admit_def if_not_P[OF False] by (simp add: after_bind after_look rej)
  next
    case (Some s)
    define ty where "ty = opt_or (xp_order_type a) ''limit''"
    define l where "l = (case xp_limit a of None \<Rightarrow> None | Some x \<Rightarrow> x)"
    have chk: "admits X a (xw_ex w) (admit_checked X a y n tick s sd (if ty = ''limit'' then LimitOrder else MarketOrder) l) w"
      if "sec_status s = ''listed''" "0 < xp_qty a" "ty = ''limit'' \<or> ty = ''market''" "\<not> (ty = ''limit'' \<and> l = None)"
        "\<not> bad_price X s l" for sd
    proof (rule admit_checked_admits[OF fees sane inv new that(2) Some that(1)])
      show "((if ty = ''limit'' then LimitOrder else MarketOrder) = MarketOrder) = (l = None)"
        using that(3,4) sane by (cases "xp_order_type a") (auto simp: ty_def l_def sane_action_def)
      show "0 < p" if "l = Some p" for p using \<open>\<not> bad_price X s l\<close> that by (simp add: bad_price_def)
    qed
    show ?thesis unfolding admit_def if_not_P[OF False] Let_def ty_def[symmetric] l_def[symmetric]
    proof (rule after_ifI[OF rej after_stateI], unfold Some option.case, intro after_ifI after_stateI rej chk)
    qed (auto simp: not_le)
  qed
qed

end
