(* ===== verification/Exchange_Issue.thy ===== *)
theory Exchange_Issue
  imports Exchange_Admit
begin

text \<open>
  Listing a security and completing an IPO keep the invariant: the initial holdings add up to the
  shares outstanding, and every investor's escrow is paid out to the cent, to the firm, the founder
  and the investor.
\<close>

definition issuers_ok :: "'l exchange_env \<Rightarrow> bool" where
  "issuers_ok X \<longleftrightarrow> list_all (\<lambda>(k, f). plain_id (fv_founder f)) (xe_firms X)"

lemma issuers_okD: "issuers_ok X \<Longrightarrow> dget (xe_firms X) k = Some f \<Longrightarrow> plain_id (fv_founder f)"
  by (auto simp: issuers_ok_def list_all_iff dest!: dget_SomeD)

lemma market_fit_frame:
  assumes "market_fit X P Q w" "ex_orders (xw_ex w') = ex_orders (xw_ex w)" "ex_securities (xw_ex w') = ex_securities (xw_ex w)"
    "ex_holdings (xw_ex w') = ex_holdings (xw_ex w)" "ex_shorts (xw_ex w') = ex_shorts (xw_ex w)"
    "ex_ipos (xw_ex w') = ex_ipos (xw_ex w)" "xw_ledger w' = xw_ledger w"
  shows "market_fit X P Q w'"
proof -
  note I = market_fitD[OF assms(1)]
  have "escrow_due (xw_ex w') t = escrow_due (xw_ex w) t" for t using assms by (intro escrow_due_cong)
  then show ?thesis
    using I orders_fit_cong[OF I(2) assms(2,3)] rows_ok_cong[OF I(3) assms(4)] reserved_ok_cong[OF I(4) assms(4,2)]
      securities_ok_cong[OF I(5) assms(3)] shorts_ok_cong[OF I(6) assms(5)] ipos_ok_cong[OF I(7) assms(6)] assms
    by (simp add: market_fit_def outstanding_def holding_sum_def)
qed

section \<open>Initial holdings\<close>

definition grant :: "string \<Rightarrow> int \<Rightarrow> string option \<Rightarrow> string \<times> int \<Rightarrow> exchange_state \<Rightarrow> exchange_state" where
  "grant symbol price locked = (\<lambda>(holder, qty). upd_holding holder symbol
     (\<lambda>h. h\<lparr>hold_qty := hold_qty h + qty, hold_avg_cost := price,
            hold_locked := (if locked = Some holder then qty else hold_locked h)\<rparr>))"

lemma grants_ok:
  assumes "rows_ok ex" "symbol \<in> set (dkeys (ex_securities ex))"
    "\<And>h q. (h, q) \<in> set xs \<Longrightarrow> plain_id h \<and> (locked = Some h \<longrightarrow> 0 \<le> q)"
    and ex': "ex' = fold (grant symbol price locked) xs ex"
  shows "rows_ok ex' \<and> ex_orders ex' = ex_orders ex \<and> ex_securities ex' = ex_securities ex \<and> ex_shorts ex' = ex_shorts ex
    \<and> ex_ipos ex' = ex_ipos ex \<and> (\<forall>s. outstanding ex' s = outstanding ex s + (if s = symbol then \<Sum>(h, q)\<leftarrow>xs. q else 0))
    \<and> (\<forall>t s. plain_id t \<longrightarrow> hold_reserved (holding_of t s ex') = hold_reserved (holding_of t s ex))"
  unfolding ex' using assms(1-3)
proof (induction xs arbitrary: ex)
  case (Cons x xs)
  obtain h q where x: "x = (h, q)" by fastforce
  let ?f = "\<lambda>r. r\<lparr>hold_qty := hold_qty r + q, hold_avg_cost := price, hold_locked := (if locked = Some h then q else hold_locked r)\<rparr>"
  define ex1 where "ex1 = upd_holding h symbol ?f ex"
  have plain: "plain_id h" and lock: "locked = Some h \<longrightarrow> 0 \<le> q" using Cons.prems(3) by (auto simp: x)
  note row = holding_of_row[OF Cons.prems(1) plain, of symbol]
  have 1: "rows_ok ex1" unfolding ex1_def
    by (rule rows_ok_upd[OF Cons.prems(1) plain Cons.prems(2)]) (use row lock in simp_all)
  have 2: "symbol \<in> set (dkeys (ex_securities ex1))" using Cons.prems(2) by (simp add: ex1_def)
  have 3: "outstanding ex1 s = outstanding ex s + (if s = symbol then q else 0)" for s
    using outstanding_upd_holding[OF Cons.prems(1) plain, of ?f symbol s] row by (simp add: ex1_def)
  have 4: "hold_reserved (holding_of t s ex1) = hold_reserved (holding_of t s ex)" if "plain_id t" for t s
    using that plain by (simp add: ex1_def holding_of_upd)
  have 5: "fold (grant symbol price locked) (x # xs) ex = fold (grant symbol price locked) xs ex1"
    by (simp add: x grant_def ex1_def)
  have 6: "ex_orders ex1 = ex_orders ex" "ex_securities ex1 = ex_securities ex" "ex_shorts ex1 = ex_shorts ex" "ex_ipos ex1 = ex_ipos ex"
    by (simp_all add: ex1_def)
  have "\<And>h q. (h, q) \<in> set xs \<Longrightarrow> plain_id h \<and> (locked = Some h \<longrightarrow> 0 \<le> q)" by (rule Cons.prems(3)) simp
  from Cons.IH[OF 1 2 this] show ?case unfolding 5 by (simp add: 3 4 6 x)
qed simp

lemma outstanding_unlisted:
  assumes "rows_ok ex" "s \<notin> set (dkeys (ex_securities ex))"
  shows "outstanding ex s = 0"
proof -
  have "qty_of s h = 0" if "h \<in> set (dvals (ex_holdings ex))" for h
  proof -
    from that obtain k where "dget (ex_holdings ex) k = Some h" using assms(1) by (auto simp: rows_ok_def dget_Some_iff)
    then have "hold_symbol h \<in> set (dkeys (ex_securities ex))" using assms(1) unfolding rows_ok_def by blast
    then show ?thesis using assms(2) by (auto simp: qty_of_def)
  qed
  then have "map (qty_of s) (dvals (ex_holdings ex)) = map (\<lambda>_. 0) (dvals (ex_holdings ex))" by (intro map_cong) auto
  then show ?thesis unfolding outstanding_def holding_sum_def by (simp only: sum_list_0)
qed

definition issued :: "security_state \<Rightarrow> (string \<times> int) list \<Rightarrow> string option \<Rightarrow> exchange_state \<Rightarrow> exchange_state" where
  \<comment> \<open>the market with a new security and its initial holdings\<close>
  "issued s xs locked ex = fold (grant (sec_symbol s) (sec_listing_price s) locked) xs
     (ex\<lparr>ex_securities := dset (sec_symbol s) s (ex_securities ex)\<rparr>)"

lemma issued_ok:
  assumes inv: "market_fit X P Q w" and new: "dget (ex_securities (xw_ex w)) (sec_symbol s) = None"
    and xs: "\<And>h q. (h, q) \<in> set xs \<Longrightarrow> plain_id h \<and> (locked = Some h \<longrightarrow> 0 \<le> q)" "(\<Sum>(h, q)\<leftarrow>xs. q) = sec_shares s"
    and w': "xw_ex w' = issued s xs locked (xw_ex w)" "xw_ledger w' = xw_ledger w"
  shows "market_fit X P Q w' \<and> ex_orders (xw_ex w') = ex_orders (xw_ex w) \<and> ex_ipos (xw_ex w') = ex_ipos (xw_ex w)
    \<and> ex_shorts (xw_ex w') = ex_shorts (xw_ex w)"
proof -
  note I = market_fitD[OF inv]
  let ?y = "sec_symbol s"
  define ex1 where "ex1 = (xw_ex w)\<lparr>ex_securities := dset ?y s (ex_securities (xw_ex w))\<rparr>"
  have new': "?y \<notin> set (dkeys (ex_securities (xw_ex w)))" using new by (simp only: dget_None_iff not_False_eq_True)
  have "rows_ok ex1" using I(3) by (simp add: rows_ok_def ex1_def)
  moreover have "?y \<in> set (dkeys (ex_securities ex1))" by (simp add: ex1_def)
  ultimately have G: "rows_ok (xw_ex w')" "ex_orders (xw_ex w') = ex_orders (xw_ex w)"
    "ex_securities (xw_ex w') = dset ?y s (ex_securities (xw_ex w))" "ex_shorts (xw_ex w') = ex_shorts (xw_ex w)"
    "ex_ipos (xw_ex w') = ex_ipos (xw_ex w)"
    "\<And>z. outstanding (xw_ex w') z = outstanding ex1 z + (if z = ?y then sec_shares s else 0)"
    "\<And>t z. plain_id t \<Longrightarrow> hold_reserved (holding_of t z (xw_ex w')) = hold_reserved (holding_of t z ex1)"
    using grants_ok[of ex1 ?y xs locked _ "sec_listing_price s", OF _ _ _ refl] xs unfolding w'(1) issued_def
    by (simp_all add: ex1_def)
  have "order_fit X (xw_ex w') r" if "order_fit X (xw_ex w) r" for r
    using that new by (auto simp: order_fit_def G(3))
  then have "orders_fit X P Q (xw_ex w')" using I(2) by (simp add: orders_fit_def G(2))
  moreover have "reserved_ok (xw_ex w')" unfolding reserved_ok_def
  proof (intro allI impI)
    fix t z assume t: "plain_id t"
    have "holding_of t z ex1 = holding_of t z (xw_ex w)" by (simp add: holding_of_def ex1_def)
    then show "hold_reserved (holding_of t z (xw_ex w')) = order_sum (want_of t z) (xw_ex w')"
      using G(7)[OF t, of z] I(4) t order_sum_cong(1)[OF G(2), of "want_of t z"] by (simp add: reserved_ok_def)
  qed
  moreover have "securities_ok (xw_ex w')" unfolding securities_ok_def
  proof (intro conjI allI impI)
    show "wf_dict (ex_securities (xw_ex w'))" using I(5) by (simp add: G(3) securities_ok_def)
    fix z sec assume z: "dget (ex_securities (xw_ex w')) z = Some sec"
    have "outstanding ex1 z = outstanding (xw_ex w) z" by (simp add: outstanding_def holding_sum_def ex1_def)
    then show "outstanding (xw_ex w') z = sec_shares sec"
      using z I(5) outstanding_unlisted[OF I(3) new'] by (auto simp: G(3,6) securities_ok_def split: if_splits)
  qed
  moreover have "escrow_due (xw_ex w') t = escrow_due (xw_ex w) t" for t by (intro escrow_due_cong G)
  ultimately show ?thesis
    using G w'(2) I(1,8) shorts_ok_cong[OF I(6) G(4)] ipos_ok_cong[OF I(7) G(5)] by (simp add: market_fit_def)
qed

lemma reset_index_divisor_sel [simp]:
  "ex_orders (reset_index_divisor ex) = ex_orders ex" "ex_securities (reset_index_divisor ex) = ex_securities ex"
  "ex_holdings (reset_index_divisor ex) = ex_holdings ex" "ex_shorts (reset_index_divisor ex) = ex_shorts ex"
  "ex_ipos (reset_index_divisor ex) = ex_ipos ex"
  by (simp_all add: reset_index_divisor_def Let_def)

lemma list_security_keeps:
  assumes inv: "market_fit X P Q w" and issuers: "issuers_ok X"
    and holders: "\<And>h q. (h, q) \<in> set holders \<Longrightarrow> plain_id h \<and> (lockup \<noteq> None \<longrightarrow> 0 \<le> q)"
  shows "after (list_security X raw issuer shares price tick holders rnd lockup)
    (\<lambda>_ w'. market_fit X P Q w' \<and> ex_orders (xw_ex w') = ex_orders (xw_ex w) \<and> ex_ipos (xw_ex w') = ex_ipos (xw_ex w)
      \<and> ex_shorts (xw_ex w') = ex_shorts (xw_ex w)) w"
    (is "after _ ?Q w")
proof (cases "dget (ex_securities (xw_ex w)) (upper raw)")
  case (Some s)
  then show ?thesis by (simp add: list_security_def Let_def after_simps)
next
  case None
  have core: "?Q es w'"
    if "sum_list (dvals alloc) = shares" "\<And>h q. (h, q) \<in> set alloc \<Longrightarrow> plain_id h \<and> (locked = Some h \<longrightarrow> 0 \<le> q)"
      "sec_symbol s = upper raw" "sec_shares s = shares" "sec_listing_price s = price"
      "xw_ex w' = reset_index_divisor (fold (grant (upper raw) price locked) (sort alloc)
         ((xw_ex w)\<lparr>ex_securities := dset (upper raw) s (ex_securities (xw_ex w))\<rparr>))" "xw_ledger w' = xw_ledger w"
    for alloc locked s es w'
  proof -
    define w1 where "w1 = w\<lparr>xw_ex := issued s (sort alloc) locked (xw_ex w)\<rparr>"
    have "(\<Sum>(h, q)\<leftarrow>sort alloc. q) = sum_list (dvals alloc)"
      using sum_list_sort[of snd alloc] by (simp add: case_prod_unfold)
    then have "market_fit X P Q w1 \<and> ex_orders (xw_ex w1) = ex_orders (xw_ex w) \<and> ex_ipos (xw_ex w1) = ex_ipos (xw_ex w)
        \<and> ex_shorts (xw_ex w1) = ex_shorts (xw_ex w)"
      by (intro issued_ok[OF inv, of s "sort alloc" locked]) (use that None in \<open>simp_all add: w1_def\<close>)
    moreover have "xw_ex w' = reset_index_divisor (xw_ex w1)" using that by (simp add: w1_def issued_def)
    ultimately show ?thesis using that(7) by (auto simp: w1_def elim!: market_fit_frame)
  qed
  define locked where "locked = (case lockup of None \<Rightarrow> None | Some _ \<Rightarrow> map_option fv_founder (dget (xe_firms X) issuer))"
  define listing where "listing alloc = (if sum_list (dvals alloc) \<noteq> shares then m_raise (ExValue ''initial holdings must equal shares outstanding'')
      else m_then (x_update (\<lambda>ex. ex\<lparr>ex_securities := dset (upper raw)
          \<lparr>sec_symbol = upper raw, sec_issuer = issuer, sec_class = ''common'', sec_shares = shares,
           sec_listed_tick = tick, sec_listing_price = price, sec_last_price = price,
           sec_reference_price = price, sec_ipo_round = rnd, sec_lockup_until = lockup,
           sec_status = ''listed'', sec_delisted_tick = None, sec_halt_until = None, sec_breaker_count = 0\<rparr>
          (ex_securities ex)\<rparr>))
      (m_then (x_update (fold (grant (upper raw) price locked) (sort alloc)))
      (m_then (x_update reset_index_divisor)
      (m_bind (x_emit X 7001 [(''symbol'', JStr (upper raw)), (''issuer_firm_id'', JStr issuer), (''class'', JStr ''common''),
          (''shares_outstanding'', JInt shares), (''listing_price_cents'', JInt price),
          (''ipo_round_id'', jopt JStr rnd), (''lockup_until_tick'', jopt JInt lockup)]
          None [issuer]) (\<lambda>ev. m_return [ev])))))" for alloc :: "(string \<times> int) list"
  have listing: "after (listing alloc) ?Q w"
    if "\<And>h q. (h, q) \<in> set alloc \<Longrightarrow> plain_id h \<and> (locked = Some h \<longrightarrow> 0 \<le> q)" for alloc
    unfolding listing_def
  proof (rule after_ifI, unfold after_then after_bind after_look after_return, goal_cases)
    case 2
    show ?case by (rule after_emit, rule core[OF _ that]) (use 2 in simp_all)
  qed (simp add: after_raise)
  have "after (list_security X raw issuer shares price tick holders rnd lockup) ?Q w \<longleftrightarrow>
      after (if shares \<le> 0 \<or> price \<le> 0 then m_raise (ExValue ''listing shares and price must be positive'')
        else m_bind (if holders \<noteq> [] then m_return holders
              else case dget (xe_firms X) issuer of None \<Rightarrow> m_raise (ExKey issuer)
                   | Some fm \<Rightarrow> m_return [(fv_founder fm, shares)]) (\<lambda>alloc.
          if sum_list (dvals alloc) \<noteq> shares then listing alloc
          else m_bind (case lockup of None \<Rightarrow> m_return None
              | Some _ \<Rightarrow> (case dget (xe_firms X) issuer of None \<Rightarrow> m_raise (ExKey issuer)
                          | Some fm \<Rightarrow> m_return (Some (fv_founder fm)))) (\<lambda>_. listing alloc))) ?Q w"
    using None
    by (auto simp: list_security_def Let_def after_simps listing_def grant_def locked_def split: option.split)
  also have \<dots>
  proof (rule after_ifI)
    assume pos: "\<not> (shares \<le> 0 \<or> price \<le> 0)"
    have ok: "plain_id h \<and> (locked = Some h \<longrightarrow> 0 \<le> q)" if "(h, q) \<in> set holders" for h q
      using holders[OF that] by (auto simp: locked_def split: option.splits)
    show "after (m_bind (if holders \<noteq> [] then m_return holders
              else case dget (xe_firms X) issuer of None \<Rightarrow> m_raise (ExKey issuer)
                   | Some fm \<Rightarrow> m_return [(fv_founder fm, shares)]) (\<lambda>alloc.
          if sum_list (dvals alloc) \<noteq> shares then listing alloc
          else m_bind (case lockup of None \<Rightarrow> m_return None
              | Some _ \<Rightarrow> (case dget (xe_firms X) issuer of None \<Rightarrow> m_raise (ExKey issuer)
                          | Some fm \<Rightarrow> m_return (Some (fv_founder fm)))) (\<lambda>_. listing alloc))) ?Q w"
      using pos issuers_okD[OF issuers]
      by (auto simp: after_simps split: option.split intro!: listing dest: ok)
  qed (simp add: after_simps)
  finally show ?thesis .
qed

section \<open>Completing an IPO\<close>

definition owed :: "string \<Rightarrow> (string, int \<times> int) dict \<Rightarrow> string \<Rightarrow> int" where
  \<comment> \<open>the money an investor \<open>i\<close> has in escrow, seen by \<open>t\<close>\<close>
  "owed t ind i = (if i = t then case dget ind i of None \<Rightarrow> 0 | Some (q, l) \<Rightarrow> q * l else 0)"

lemma transfer_net:
  assumes "transfer u v m reason = Inr legs" "esc_owner u = Some i" "esc_owner v = None"
  shows "esc_net t legs = - (if i = t then m else 0)" "list_all (\<lambda>g. 0 < leg_amount g) legs"
  using esc_net_transfer[OF assms(1), of t] assms(2,3) by (auto simp: list_all_iff)

lemma maybe_transfer_net:
  assumes "(if c then x_transfer u v m reason else m_return []) w = Inr (legs, w')" "esc_owner u = Some i" "esc_owner v = None"
  shows "w' = w" "esc_net t legs = - (if c \<and> i = t then m else 0)" "list_all (\<lambda>g. 0 < leg_amount g) legs"
  using assms transfer_net[OF _ assms(2,3)]
  by (auto simp: m_basic_Inr_iff dest!: x_transfer_InrD split: if_splits)

definition give_back :: "string \<Rightarrow> string \<Rightarrow> int \<Rightarrow> ('l, leg list) xm" where
  "give_back e i m = (if m \<noteq> 0 then m_bind (x_deposit i) (\<lambda>d. x_transfer e d m ''escrow'') else m_return [])"

lemma give_back_net:
  assumes "give_back e i m w = Inr (legs, w')" "esc_owner e = Some i" "ledger_inv (xw_ledger w)"
  shows "w' = w" "esc_net t legs = - (if i = t then m else 0)" "list_all (\<lambda>g. 0 < leg_amount g) legs"
  using assms transfer_net[OF _ assms(2) deposit_not_escrow[OF assms(3)]]
  by (auto simp: give_back_def prog_Inr_iff dest!: x_transfer_InrD x_deposit_InrD split: if_splits)

definition share_legs :: "int \<Rightarrow> int \<Rightarrow> int \<Rightarrow> string \<Rightarrow> string \<Rightarrow> (string, int \<times> int) dict \<Rightarrow> string \<Rightarrow> int \<Rightarrow> ('l, leg list) xm" where
  \<comment> \<open>the legs of one investor\<close>
  "share_legs offer ps tot fd od ind i n =
     m_bind (x_escrow i ''exchange'') (\<lambda>e.
     case dget ind i of None \<Rightarrow> m_raise (ExKey i)
     | Some (q, limit) \<Rightarrow>
       m_bind (if n * offer \<noteq> 0 \<and> n * offer * ps div max 1 tot \<noteq> 0 then x_transfer e fd (n * offer * ps div max 1 tot) ''trade'' else m_return []) (\<lambda>a.
       m_bind (if n * offer \<noteq> 0 \<and> n * offer - n * offer * ps div max 1 tot \<noteq> 0
               then x_transfer e od (n * offer - n * offer * ps div max 1 tot) ''trade'' else m_return []) (\<lambda>b.
       m_bind (give_back e i (q * limit - n * offer)) (\<lambda>c. m_return (a @ b @ c)))))"

lemma investor_legs_Cons:
  "investor_legs offer ps tot fd od ind ((i, n) # xs)
     = m_bind (share_legs offer ps tot fd od ind i n) (\<lambda>a. m_bind (investor_legs offer ps tot fd od ind xs) (\<lambda>b. m_return (a @ b)))"
proof -
  have raise: "m_bind (m_raise e) f = m_raise e" for e :: exchange_error and f :: "leg list \<Rightarrow> ('l, leg list) xm"
    by (rule ext) (simp add: m_bind_def m_raise_def)
  show ?thesis
    by (cases "dget ind i")
      (simp_all add: share_legs_def give_back_def Let_def m_bind_assoc m_bind_return raise case_prod_unfold)
qed

lemma share_legs_net:
  assumes led: "ledger_inv (xw_ledger w)" and dep: "esc_owner fd = None" "esc_owner od = None"
    and run: "share_legs offer ps tot fd od ind i n w = Inr (legs, w')"
  shows "w' = w \<and> list_all (\<lambda>g. 0 < leg_amount g) legs \<and> esc_net t legs = - owed t ind i"
proof -
  from run obtain e q l where e: "escrow_id i ''exchange'' (xw_ledger w) = Inr e" and ql: "dget ind i = Some (q, l)"
    by (auto simp: share_legs_def prog_Inr_iff dest!: x_escrow_InrD split: option.splits)
  have e': "esc_owner e = Some i" using escrow_id_owner[OF led e] .
  from run e ql obtain a w1 b w2 c w3 where
    a: "(if n * offer \<noteq> 0 \<and> n * offer * ps div max 1 tot \<noteq> 0 then x_transfer e fd (n * offer * ps div max 1 tot) ''trade'' else m_return []) w = Inr (a, w1)"
    and b: "(if n * offer \<noteq> 0 \<and> n * offer - n * offer * ps div max 1 tot \<noteq> 0
               then x_transfer e od (n * offer - n * offer * ps div max 1 tot) ''trade'' else m_return []) w1 = Inr (b, w2)"
    and c: "give_back e i (q * l - n * offer) w2 = Inr (c, w3)" and legs: "legs = a @ b @ c" "w' = w3"
    unfolding share_legs_def by (auto simp only: m_bind_Inr_iff m_basic_Inr_iff option.case prod.case dest!: x_escrow_InrD)
  note A = maybe_transfer_net[OF a e' dep(1)]
  note B = maybe_transfer_net[OF b e' dep(2)]
  have "w2 = w" using A(1) B(1) by simp
  with c led have "ledger_inv (xw_ledger w2)" by simp
  note C = give_back_net[OF c e' this]
  have "w' = w" using A(1) B(1) C(1) legs by simp
  moreover have "list_all (\<lambda>g. 0 < leg_amount g) legs" using A(3) B(3) C(3) legs by simp
  moreover have "esc_net t legs = - owed t ind i"
  proof (cases "i = t")
    case True
    have "owed t ind i = q * l" using True ql by (simp add: owed_def)
    then show ?thesis using A(2)[of t] B(2)[of t] C(2)[of t] legs True by auto
  qed (use A(2)[of t] B(2)[of t] C(2)[of t] legs in \<open>simp add: owed_def\<close>)
  ultimately show ?thesis by blast
qed

lemma investor_legs_net:
  assumes led: "ledger_inv (xw_ledger w)" and dep: "esc_owner fd = None" "esc_owner od = None"
  shows "investor_legs offer ps tot fd od ind xs w = Inr (legs, w') \<Longrightarrow>
    w' = w \<and> list_all (\<lambda>g. 0 < leg_amount g) legs \<and> esc_net t legs = - (\<Sum>(i, n)\<leftarrow>xs. owed t ind i)"
proof (induction xs arbitrary: legs w')
  case (Cons x xs)
  obtain i n where x: "x = (i, n)" by fastforce
  from Cons.prems obtain a w1 b w2 where a: "share_legs offer ps tot fd od ind i n w = Inr (a, w1)"
    and b: "investor_legs offer ps tot fd od ind xs w1 = Inr (b, w2)" and l: "legs = a @ b" "w' = w2"
    unfolding x investor_legs_Cons by (auto simp: m_bind_Inr_iff m_basic_Inr_iff)
  note A = share_legs_net[OF led dep a, of t]
  then have "investor_legs offer ps tot fd od ind xs w = Inr (b, w2)" using b by simp
  from Cons.IH[OF this] A l show ?case by (simp add: x)
qed (simp add: m_basic_Inr_iff)

lemma refund_legs_net:
  assumes led: "ledger_inv (xw_ledger w)"
  shows "refund_legs allocs xs w = Inr (legs, w') \<Longrightarrow>
    w' = w \<and> list_all (\<lambda>g. 0 < leg_amount g) legs
      \<and> esc_net t legs = - (\<Sum>(i, q, l)\<leftarrow>xs. if i = t \<and> t \<notin> set (dkeys allocs) then q * l else 0)"
proof (induction xs arbitrary: legs w')
  case (Cons x xs)
  obtain i q l where x: "x = (i, q, l)" by (cases x)
  from Cons.prems obtain a w1 b where
    a: "(if i \<in> set (dkeys allocs) then m_return [] else m_bind (x_escrow i ''exchange'') (\<lambda>e. m_bind (x_deposit i) (\<lambda>d.
          x_transfer e d (q * l) ''escrow''))) w = Inr (a, w1)"
    and b: "refund_legs allocs xs w1 = Inr (b, w')" and l: "legs = a @ b"
    unfolding x refund_legs.simps by (auto simp only: m_bind_Inr_iff m_basic_Inr_iff)
  have A: "w1 = w \<and> list_all (\<lambda>g. 0 < leg_amount g) a \<and> esc_net t a = - (if i = t \<and> t \<notin> set (dkeys allocs) then q * l else 0)"
  proof (cases "i \<in> set (dkeys allocs)")
    case False
    then obtain e d where "escrow_id i ''exchange'' (xw_ledger w) = Inr e" "deposit_account i (xw_ledger w) = Inr d"
      "transfer e d (q * l) ''escrow'' = Inr a" "w1 = w"
      using a by (auto simp: m_bind_Inr_iff dest!: x_escrow_InrD x_deposit_InrD x_transfer_InrD)
    then show ?thesis using transfer_net[of e d _ _ a i] escrow_id_owner[OF led] deposit_not_escrow[OF led] False by auto
  qed (use a in \<open>auto simp: m_basic_Inr_iff\<close>)
  then have "refund_legs allocs xs w = Inr (b, w')" using b by simp
  from Cons.IH[OF this] A l show ?case by (simp add: x)
qed (simp add: m_basic_Inr_iff)

lemma owed_total:
  fixes xs :: "(string \<times> int) list"
  assumes "wf_dict ind" "distinct (map fst xs)" "fst ` set xs = set (dkeys allocs)" "set (dkeys allocs) \<subseteq> set (dkeys ind)"
  shows "(\<Sum>(i, n)\<leftarrow>xs. owed t ind i) + (\<Sum>(i, q, l)\<leftarrow>sort ind. if i = t \<and> t \<notin> set (dkeys allocs) then q * l else 0)
    = (\<Sum>(i, q, l)\<leftarrow>ind. if i = t then q * l else 0)"
proof -
  have key: "(\<Sum>(i, q, l)\<leftarrow>d. if i = t then q * l else 0) = (case dget d t of None \<Rightarrow> 0 | Some (q, l) \<Rightarrow> q * l)"
    if "wf_dict d" for d :: "(string, int \<times> int) dict"
    using that
  proof (induction d)
    case (Cons p d)
    obtain i q l where p: "p = (i, q, l)" by (cases p)
    show ?case
    proof (cases "i = t")
      case True
      then have "dget d t = None" using Cons.prems p by (simp add: dget_None_iff)
      then show ?thesis using Cons True p by simp
    qed (use Cons p in simp)
  qed simp
  have inv: "(\<Sum>(i, n)\<leftarrow>ys. owed t ind i) = (if t \<in> fst ` set ys then owed t ind t else 0)" if "distinct (map fst ys)"
    for ys :: "(string \<times> int) list"
    using that
  proof (induction ys)
    case (Cons y ys)
    have "owed t ind i = 0" if "i \<noteq> t" for i using that by (simp add: owed_def)
    then show ?case using Cons by (cases y; cases "fst y = t") (auto simp: image_iff)
  qed simp
  have srt: "(\<Sum>(i, q, l)\<leftarrow>sort ind. if i = t \<and> t \<notin> set (dkeys allocs) then q * l else 0)
      = (if t \<in> set (dkeys allocs) then 0 else \<Sum>(i, q, l)\<leftarrow>ind. if i = t then q * l else 0)"
    using sum_list_sort[of "\<lambda>(i, q, l). if i = t \<and> t \<notin> set (dkeys allocs) then q * l else 0" ind]
    by (auto simp: case_prod_unfold intro: sum_list_0)
  show ?thesis unfolding inv[OF assms(2)] srt key[OF assms(1)] assms(3) by (simp add: owed_def)
qed

definition ipo_legs :: "'l exchange_env \<Rightarrow> ipo_state \<Rightarrow> int \<Rightarrow> int \<Rightarrow> int \<Rightarrow> int \<Rightarrow> (string, int) dict \<Rightarrow> ('l, firm_view \<times> leg list) xm" where
  \<comment> \<open>the legs that complete an IPO\<close>
  "ipo_legs X p offer total_sold ufee lfee allocs =
     m_bind (x_deposit (ipo_firm p)) (\<lambda>firm_d.
      case dget (xe_firms X) (ipo_firm p) of None \<Rightarrow> m_raise (ExKey (ipo_firm p))
      | Some fm \<Rightarrow>
      m_bind (x_deposit (fv_founder fm)) (\<lambda>founder_d.
      m_bind (x_deposit (ipo_underwriter p)) (\<lambda>underwriter_d.
      m_bind (x_deposit ''gv_treasury'') (\<lambda>treasury_d.
      m_bind (investor_legs offer (min (ipo_primary p) total_sold) total_sold firm_d founder_d (ipo_indications p) (sort allocs)) (\<lambda>legs1.
      m_bind (refund_legs allocs (sort (ipo_indications p))) (\<lambda>legs2.
      m_bind (if ufee \<noteq> 0 \<and> ufee + lfee \<noteq> 0 then x_transfer firm_d underwriter_d ufee ''trade'' else m_return []) (\<lambda>legs3.
      m_bind (if lfee \<noteq> 0 \<and> ufee + lfee \<noteq> 0 then x_transfer firm_d treasury_d lfee ''trade'' else m_return []) (\<lambda>legs4.
      m_return (fm, legs1 @ legs2 @ legs3 @ legs4)))))))))"

lemma fee_net:
  assumes "(if c then x_transfer u v m reason else m_return []) w = Inr (legs, w')" "esc_owner u = None" "esc_owner v = None"
  shows "w' = w" "esc_net t legs = 0" "list_all (\<lambda>g. 0 < leg_amount g) legs"
  using assms esc_net_transfer[of u v m reason legs t]
  by (auto simp: m_basic_Inr_iff list_all_iff dest!: x_transfer_InrD split: if_splits)

lemma ipo_legs_net:
  assumes run: "ipo_legs X p offer n ufee lfee allocs w = Inr ((fm, legs), w')" and led: "ledger_inv (xw_ledger w)"
    and p: "wf_dict (ipo_indications p)" "ipo_status p = ''announced''" "distinct (dkeys allocs)"
      "set (dkeys allocs) \<subseteq> set (dkeys (ipo_indications p))"
  shows "w' = w \<and> dget (xe_firms X) (ipo_firm p) = Some fm \<and> esc_net t (coalesce legs) = - indicated_of t p"
proof -
  from run have fm: "dget (xe_firms X) (ipo_firm p) = Some fm"
    by (auto simp: ipo_legs_def m_bind_Inr_iff m_basic_Inr_iff split: option.splits)
  from run fm obtain fd od ud td l1 w1 l2 w2 l3 w3 l4 w4 where
    d: "deposit_account (ipo_firm p) (xw_ledger w) = Inr fd" "deposit_account (fv_founder fm) (xw_ledger w) = Inr od"
      "deposit_account (ipo_underwriter p) (xw_ledger w) = Inr ud" "deposit_account ''gv_treasury'' (xw_ledger w) = Inr td"
    and l1: "investor_legs offer (min (ipo_primary p) n) n fd od (ipo_indications p) (sort allocs) w = Inr (l1, w1)"
    and l2: "refund_legs allocs (sort (ipo_indications p)) w1 = Inr (l2, w2)"
    and l3: "(if ufee \<noteq> 0 \<and> ufee + lfee \<noteq> 0 then x_transfer fd ud ufee ''trade'' else m_return []) w2 = Inr (l3, w3)"
    and l4: "(if lfee \<noteq> 0 \<and> ufee + lfee \<noteq> 0 then x_transfer fd td lfee ''trade'' else m_return []) w3 = Inr (l4, w4)"
    and legs: "legs = l1 @ l2 @ l3 @ l4" "w' = w4"
    unfolding ipo_legs_def by (auto simp only: m_bind_Inr_iff m_basic_Inr_iff option.case prod.inject dest!: x_deposit_InrD)
  note esc = d[THEN deposit_not_escrow[OF led]]
  note 1 = investor_legs_net[OF led esc(1,2) l1, of t]
  with l2 have l2': "refund_legs allocs (sort (ipo_indications p)) w = Inr (l2, w2)" by simp
  note 2 = refund_legs_net[OF led l2', of t]
  note 3 = fee_net[OF l3 esc(1,3)] and 4 = fee_net[OF l4 esc(1,4)]
  have d: "distinct (map fst (sort allocs))" "fst ` set (sort allocs) = set (dkeys allocs)"
    using p(3) by (simp_all add: distinct_map)
  have "list_all (\<lambda>g. 0 < leg_amount g) legs" using 1 2 3 4 legs by simp
  then have "esc_net t (coalesce legs) = esc_net t legs" by (rule esc_net_coalesce)
  also have "\<dots> = - indicated_of t p"
    using owed_total[OF p(1) d p(4), of t] 1 2 3(2)[of t] 4(2)[of t] p(2) legs by (simp add: indicated_of_def)
  finally show ?thesis using 1 2 3 4 legs fm by simp
qed

definition ipo_priced :: "'l exchange_env \<Rightarrow> ipo_state \<Rightarrow> int \<Rightarrow> payload" where
  "ipo_priced X p demand =
     [(''firm_id'', JStr (ipo_firm p)), (''symbol'', JStr (ipo_symbol p)),
      (''clearing_price_cents'', JInt (ipo_clearing p)), (''offer_price_cents'', JInt (ipo_offer X p)),
      (''discount_bp'', JInt (xe_underwriter_discount_bp X)),
      (''oversubscription_bp'', JInt (10000 * demand div ipo_offered p))]"

definition ipo_close_book :: "'l exchange_env \<Rightarrow> ipo_state \<Rightarrow> int \<Rightarrow> int \<Rightarrow> int \<Rightarrow> int \<Rightarrow> int \<Rightarrow> (string, int) dict \<Rightarrow> evt
    \<Rightarrow> ('l, evt list) xm" where
  \<comment> \<open>from the posting to the listing\<close>
  "ipo_close_book X p tick offer n ufee lfee allocs priced =
     m_bind (ipo_legs X p offer n ufee lfee allocs) (\<lambda>(fm, legs).
      m_bind (x_next_txn X tick) (\<lambda>expected.
      m_bind (x_emit X 7073 [(''firm_id'', JStr (ipo_firm p)), (''symbol'', JStr (ipo_symbol p)),
          (''allocations'', JObj (map (\<lambda>(k, n). (k, JInt n)) (sort allocs))), (''gross_proceeds_cents'', JInt (n * offer)),
          (''primary_cents'', JInt (min (ipo_primary p) n * offer)), (''secondary_cents'', JInt ((n - min (ipo_primary p) n) * offer)),
          (''underwriting_fee_cents'', JInt ufee), (''listing_fee_cents'', JInt lfee),
          (''txn_id'', JStr (xe_uuid_text X expected))] None [ipo_firm p]) (\<lambda>completed.
      m_bind (x_post X (coalesce legs) tick completed) (\<lambda>txn.
      if txn \<noteq> expected then m_raise (ExRuntime ''IPO ledger ordinal diverged'')
      else m_then (x_update (set_ipo_status (ipo_id p) ''completed''))
      (m_bind (list_security X (ipo_symbol p) (ipo_firm p) (max (xe_bootstrap_shares X) (ipo_offered p)) offer tick
          (dset (fv_founder fm) (dget_or allocs (fv_founder fm) 0 + max (xe_bootstrap_shares X) (ipo_offered p) - n) allocs)
          (Some (ipo_id p)) (Some (tick + xe_lockup_days X * xe_ticks_per_day X))) (\<lambda>listed.
       m_return (priced # completed # listed)))))))"

lemma complete_ipo_steps:
  "complete_ipo X p tick =
     (if ipo_indications p = [] then m_then (x_update (set_ipo_status (ipo_id p) ''failed'')) (m_return [])
      else
      let offer = ipo_offer X p; eligible = ipo_eligible X p; n = min (ipo_offered p) (sum_list (dvals eligible));
          ufee = bp_ceil_up (n * offer) (xe_underwriting_fee_bp X) in
      m_bind (m_res (case allocate n eligible of Inl e \<Rightarrow> Inl (ExMoney e) | Inr d \<Rightarrow> Inr d)) (\<lambda>allocs.
      if ipo_offered p = 0 then m_raise ExZeroDivision else
      m_bind (x_emit X 7072 (ipo_priced X p (sum_list (dvals eligible))) None [ipo_firm p]) (\<lambda>priced.
      ipo_close_book X p tick offer n ufee (min (xe_listing_fee X) (max 0 (n * offer - ufee))) allocs priced)))"
proof -
  have raise: "m_bind (m_raise e) f = m_raise e" for e :: exchange_error and f :: "_ \<Rightarrow> ('l, evt list) xm"
    by (rule ext) (simp add: m_bind_def m_raise_def)
  show ?thesis
    by (cases "dget (xe_firms X) (ipo_firm p)")
      (simp_all only: complete_ipo_def ipo_priced_def ipo_close_book_def ipo_legs_def Let_def m_bind_assoc m_bind_return raise
        option.case prod.case)
qed

lemma set_ipo_status_sel [simp]:
  "ex_orders (set_ipo_status i st ex) = ex_orders ex" "ex_securities (set_ipo_status i st ex) = ex_securities ex"
  "ex_holdings (set_ipo_status i st ex) = ex_holdings ex" "ex_shorts (set_ipo_status i st ex) = ex_shorts ex"
  by (simp_all add: set_ipo_status_def split: option.split)

lemma end_ipo:
  assumes inv: "market_fit X P Q w" and p: "dget (ex_ipos (xw_ex w)) (ipo_id p) = Some p" and st: "st \<noteq> ''announced''"
    and w': "xw_ex w' = set_ipo_status (ipo_id p) st (xw_ex w)" "ledger_inv (xw_ledger w')"
    and held: "\<And>t. escrow_held (xw_ledger w') t = escrow_held (xw_ledger w) t - indicated_of t p"
  shows "market_fit X P Q w' \<and> ex_orders (xw_ex w') = ex_orders (xw_ex w)"
proof -
  note I = market_fitD[OF inv]
  have ex': "xw_ex w' = (xw_ex w)\<lparr>ex_ipos := dset (ipo_id p) (p\<lparr>ipo_status := st\<rparr>) (ex_ipos (xw_ex w))\<rparr>"
    by (simp add: w' set_ipo_status_def p)
  have "ipo_sum (indicated_of t) (xw_ex w') = ipo_sum (indicated_of t) (xw_ex w) - indicated_of t p" for t
    using ipo_sum_dset[OF I(7) p, of "xw_ex w'" "p\<lparr>ipo_status := st\<rparr>" "indicated_of t"] st by (simp add: ex' indicated_of_def)
  moreover have "ipo_id p = ipo_id p \<and> wf_dict (ipo_indications p) \<and> (\<forall>i. dget (ipo_indications p) i \<noteq> None \<longrightarrow> plain_id i)"
    using I(7) p unfolding ipos_ok_def by blast
  then have "ipos_ok (xw_ex w')" using I(7) by (simp add: ipos_ok_def ex')
  ultimately have "market_fit X P Q w'" by (intro market_fit_ipos[OF inv ex' _ w'(2)]) (simp_all add: held)
  then show ?thesis by (simp add: ex')
qed

lemma allocate_nonneg:
  assumes "allocate n ws = Inr d" shows "0 \<le> dget_or d k 0"
proof (cases "k \<in> set (dkeys d)")
  case True
  then obtain c where c: "(k, c) \<in> set ws" using allocate_keys[OF assms] by (auto simp: image_iff)
  note D = allocate_InrD[OF assms]
  have "0 \<le> n * c div (\<Sum>(c, w)\<leftarrow>ws. w)" using D(1,3,4) c by (intro pos_imp_zdiv_nonneg_iff[THEN iffD2]) auto
  then show ?thesis unfolding allocate_value[OF assms c] by simp
next
  case False
  then show ?thesis by (simp add: dget_or_def dget_None_iff[THEN iffD2])
qed

lemma complete_ipo_keeps:
  assumes inv: "market_fit X P Q w" and issuers: "issuers_ok X"
    and p: "dget (ex_ipos (xw_ex w)) (ipo_id p) = Some p" "ipo_status p = ''announced''"
  shows "after (complete_ipo X p tick) (\<lambda>_ w'. market_fit X P Q w' \<and> ex_orders (xw_ex w') = ex_orders (xw_ex w)) w"
proof (rule afterI)
  fix es w' assume run: "complete_ipo X p tick w = Inr (es, w')"
  note I = market_fitD[OF inv]
  have ind: "wf_dict (ipo_indications p)" "\<And>i. dget (ipo_indications p) i \<noteq> None \<Longrightarrow> plain_id i"
    using I(7) p(1) by (auto simp: ipos_ok_def)
  show "market_fit X P Q w' \<and> ex_orders (xw_ex w') = ex_orders (xw_ex w)"
  proof (cases "ipo_indications p = []")
    case True
    then have "w' = w\<lparr>xw_ex := set_ipo_status (ipo_id p) ''failed'' (xw_ex w)\<rparr>"
      using run by (simp add: complete_ipo_steps prog_Inr_iff x_update_def)
    then show ?thesis using end_ipo[OF inv p(1), of "''failed''" w'] I(1) True by (simp add: indicated_of_def)
  next
    case False
    define n where "n = min (ipo_offered p) (sum_list (dvals (ipo_eligible X p)))"
    define offer where "offer = ipo_offer X p"
    define tot where "tot = max (xe_bootstrap_shares X) (ipo_offered p)"
    from run False obtain allocs priced w0 lfee ufee where al: "allocate n (ipo_eligible X p) = Inr allocs"
      and w0: "xw_ex w0 = xw_ex w" "xw_ledger w0 = xw_ledger w"
      and close: "ipo_close_book X p tick offer n ufee lfee allocs priced w0 = Inr (es, w')"
      unfolding complete_ipo_steps Let_def n_def offer_def
      by (auto simp: m_bind_Inr_iff m_basic_Inr_iff dest!: x_emit_InrD split: if_splits sum.splits)
    have keys: "dkeys allocs = map fst (ipo_eligible X p)" using allocate_keys[OF al] .
    have sub: "set (dkeys allocs) \<subseteq> set (dkeys (ipo_indications p))" unfolding keys
      by (auto simp: ipo_eligible_def intro: rev_image_eqI)
    have dist: "distinct (dkeys allocs)" using allocate_InrD(2)[OF al] by (simp add: keys)
    from close obtain fm legs w1 txn0 w2 ev w3 txn w4 listed w5 where
      legs: "ipo_legs X p offer n ufee lfee allocs w0 = Inr ((fm, legs), w1)"
      and nx: "x_next_txn X tick w1 = Inr (txn0, w2)" and w3: "xw_ex w3 = xw_ex w2" "xw_ledger w3 = xw_ledger w2"
      and post: "x_post X (coalesce legs) tick ev w3 = Inr (txn, w4)"
      and ls: "list_security X (ipo_symbol p) (ipo_firm p) tot offer tick
          (dset (fv_founder fm) (dget_or allocs (fv_founder fm) 0 + tot - n) allocs)
          (Some (ipo_id p)) (Some (tick + xe_lockup_days X * xe_ticks_per_day X))
          (w4\<lparr>xw_ex := set_ipo_status (ipo_id p) ''completed'' (xw_ex w4)\<rparr>) = Inr (listed, w')"
      unfolding ipo_close_book_def tot_def
      by (auto simp: m_bind_Inr_iff m_then_Inr_iff m_basic_Inr_iff dest!: x_emit_InrD x_update_InrD split: if_splits)
    have led0: "ledger_inv (xw_ledger w0)" using I(1) w0 by simp
    note L = ipo_legs_net[OF legs led0 ind(1) p(2) dist sub]
    have led1: "ledger_inv (xw_ledger w1)" using L led0 by blast
    note N = x_next_txn_InrD[OF nx led1]
    have led3: "ledger_inv (xw_ledger w3)" using N w3 by simp
    note P = x_post_InrD[OF post led3]
    let ?w5 = "w4\<lparr>xw_ex := set_ipo_status (ipo_id p) ''completed'' (xw_ex w4)\<rparr>"
    have ex4: "xw_ex w4 = xw_ex w" using P(1) w3(1) N(1) L w0(1) by simp
    have 5: "market_fit X P Q ?w5 \<and> ex_orders (xw_ex ?w5) = ex_orders (xw_ex w)"
    proof (rule end_ipo[OF inv p(1)])
      show "escrow_held (xw_ledger ?w5) t = escrow_held (xw_ledger w) t - indicated_of t p" for t
        using P(3)[of t] N(3)[of t] L[of t] w3(2) w0(2) by simp
    qed (use ex4 P(2) in simp_all)
    have founder: "plain_id (fv_founder fm)" using L issuers_okD[OF issuers] by blast
    have hold: "plain_id h \<and> 0 \<le> q"
      if "(h, q) \<in> set (dset (fv_founder fm) (dget_or allocs (fv_founder fm) 0 + tot - n) allocs)" for h q
    proof (cases "h = fv_founder fm")
      case True
      have "q = dget_or allocs (fv_founder fm) 0 + tot - n" using that dist True by (auto simp: set_dset)
      then show ?thesis using founder True allocate_nonneg[OF al, of "fv_founder fm"] by (simp add: tot_def n_def)
    next
      case False
      then have m: "(h, q) \<in> set allocs" using that dist by (auto simp: set_dset)
      then have "h \<in> set (dkeys (ipo_indications p))" using sub by force
      then have "dget (ipo_indications p) h \<noteq> None" by (simp only: dget_None_iff not_True_eq_False not_False_eq_True)
      moreover have "q = dget_or allocs h 0" using m dist by (simp add: dget_or_def)
      ultimately show ?thesis using ind(2) allocate_nonneg[OF al, of h] by simp
    qed
    have "market_fit X P Q w' \<and> ex_orders (xw_ex w') = ex_orders (xw_ex ?w5) \<and> ex_ipos (xw_ex w') = ex_ipos (xw_ex ?w5)
        \<and> ex_shorts (xw_ex w') = ex_shorts (xw_ex ?w5)"
      by (rule afterD[OF list_security_keeps ls]) (use 5 issuers hold in auto)
    then show ?thesis using 5 by simp
  qed
qed

end
