(* ===== verification/Exchange_Resolve.thy ===== *)
theory Exchange_Resolve
  imports Exchange_Issue Rng_Spec
begin

text \<open>
  A whole tick of the exchange keeps the invariant: \<open>resolve\<close> runs its phases in the code's order;
  between ticks no market order is left active.
\<close>

section \<open>Between the phases\<close>

definition resting :: "exchange_state \<Rightarrow> bool" where
  \<comment> \<open>every active order has a limit\<close>
  "resting ex \<longleftrightarrow> (\<forall>s. no_market s ex)"

lemma resting_iff: "resting ex \<longleftrightarrow> (\<forall>i r. dget (ex_orders ex) i = Some r \<longrightarrow> active r \<longrightarrow> ord_limit r \<noteq> None)"
  by (auto simp: resting_def no_market_def)

lemma resting_calmer: "resting ex \<Longrightarrow> calmer ex ex' \<Longrightarrow> resting ex'"
  unfolding resting_def using no_market_calmer by blast

lemma resting_cong: "resting ex \<Longrightarrow> ex_orders ex' = ex_orders ex \<Longrightarrow> resting ex'"
  by (simp add: resting_iff)

definition tick_inv :: "'l exchange_env \<Rightarrow> 'l exchange_world \<Rightarrow> bool" where
  "tick_inv X w \<longleftrightarrow> market_inv X w \<and> resting (xw_ex w)"

lemma tick_inv_orders: "tick_inv X w \<Longrightarrow> market_inv X w' \<Longrightarrow> ex_orders (xw_ex w') = ex_orders (xw_ex w) \<Longrightarrow> tick_inv X w'"
  by (auto simp: tick_inv_def intro: resting_cong)

lemma tick_inv_calm: "tick_inv X w \<Longrightarrow> calm_since X (xw_ex w) w' \<Longrightarrow> tick_inv X w'"
  by (auto simp: tick_inv_def calm_since_def intro: resting_calmer)

lemma keeps_calm_tick:
  assumes "\<And>ex. keeps (calm_since X ex) m" shows "keeps (tick_inv X) m"
proof (rule keepsI)
  fix w x w' assume w: "tick_inv X w" and run: "m w = Inr (x, w')"
  have "calm_since X (xw_ex w) w" using w by (simp add: tick_inv_def calm_since_def)
  from keepsD[OF assms this run] w show "tick_inv X w'" using tick_inv_calm by blast
qed

lemma keeps_tick_emit [keeps_rules]: "keeps (tick_inv X) (x_emit X' k pl a s)"
  by (rule keeps_calm_tick) (rule keeps_emit)

lemma keeps_tick_cancel [keeps_rules]: "keeps (tick_inv X) (cancel_order X i tick who e)"
  by (rule keeps_calm_tick) (rule keeps_cancel)

lemma keeps_update_frame:
  \<comment> \<open>an update that leaves the six tables of the invariant alone\<close>
  assumes "\<And>ex. ex_orders (f ex) = ex_orders ex" "\<And>ex. ex_securities (f ex) = ex_securities ex"
    "\<And>ex. ex_holdings (f ex) = ex_holdings ex" "\<And>ex. ex_shorts (f ex) = ex_shorts ex" "\<And>ex. ex_ipos (f ex) = ex_ipos ex"
  shows "keeps (tick_inv X) (x_update f)"
proof (rule keepsI)
  fix w u w' assume w: "tick_inv X w" and run: "x_update f w = Inr (u, w')"
  have w': "w' = w\<lparr>xw_ex := f (xw_ex w)\<rparr>" using run by (rule x_update_InrD)
  have "market_inv X w" using w by (simp add: tick_inv_def)
  then have "market_inv X w'" by (rule market_fit_frame) (simp_all add: w' assms)
  then show "tick_inv X w'" using tick_inv_orders[OF w] by (simp add: w' assms)
qed

text \<open>Until orders are admitted, no order appears and the short positions stay; \<open>N\<close> are the names of IPOs to come.\<close>

definition early :: "'l exchange_env \<Rightarrow> exchange_state \<Rightarrow> string set \<Rightarrow> 'l exchange_world \<Rightarrow> bool" where
  "early X ex N w \<longleftrightarrow> tick_inv X w \<and> ex_shorts (xw_ex w) = ex_shorts ex
     \<and> (\<forall>i. dget (ex_orders (xw_ex w)) i = None \<longleftrightarrow> dget (ex_orders ex) i = None)
     \<and> (\<forall>i\<in>N. dget (ex_ipos (xw_ex w)) i = None)"

lemma early_step:
  assumes "early X ex N w" "market_inv X w'" "ex_orders (xw_ex w') = ex_orders (xw_ex w)" "ex_shorts (xw_ex w') = ex_shorts (xw_ex w)"
    "ex_ipos (xw_ex w') = ex_ipos (xw_ex w)"
  shows "early X ex N w'"
  using assms tick_inv_orders unfolding early_def by metis

lemma keeps_early_emit [keeps_rules]: "keeps (early X ex N) (x_emit X' k pl a s)"
proof (rule keepsI)
  fix w ev w' assume w: "early X ex N w" and "x_emit X' k pl a s w = Inr (ev, w')"
  then have same: "xw_ex w' = xw_ex w" "xw_ledger w' = xw_ledger w" by (auto dest: x_emit_InrD)
  have "market_inv X w'" by (rule market_fit_cong[OF _ same]) (use w in \<open>simp add: early_def tick_inv_def\<close>)
  from early_step[OF w this] show "early X ex N w'" using same by simp
qed

lemma keeps_early_cancel [keeps_rules]: "keeps (early X ex N) (cancel_order X i tick who e)"
proof (rule keepsI)
  fix w es w' assume w: "early X ex N w" and run: "cancel_order X i tick who e w = Inr (es, w')"
  have K: "keeps (tick_inv X) (cancel_order X i tick who e)" by (rule keeps_tick_cancel)
  have T: "tick_inv X w'" using keepsD[OF K _ run] w by (simp add: early_def)
  have inv: "market_inv X w" using w by (simp add: early_def tick_inv_def)
  have fit: "orders_fit X {} {} (xw_ex w)" using market_fitD(2)[OF inv] .
  have calm: "calmer (xw_ex w) (xw_ex w')" using cancel_order_effect[OF run inv] by blast
  have "ex_shorts (xw_ex w') = ex_shorts (xw_ex w) \<and> ex_ipos (xw_ex w') = ex_ipos (xw_ex w)"
    using run market_fitD(1)[OF inv]
  proof (cases rule: cancel_order_InrD)
    case (2 r)
    from 2(3)[OF orders_fitD(1)[OF fit 2(1)]] show ?thesis by (simp add: void_state_def)
  qed simp
  then show "early X ex N w'" using w T calmer_None[OF calm] by (simp add: early_def)
qed

section \<open>Reference prices\<close>

lemma order_fit_prices:
  assumes "order_fit X ex r" "ord_limit r \<noteq> None"
    and "\<And>s sec. dget (ex_securities ex) s = Some sec \<Longrightarrow> \<exists>sec'. dget (ex_securities ex') s = Some sec' \<and> sec_status sec' = sec_status sec"
  shows "order_fit X ex' r"
proof -
  from assms(1) obtain s where s: "dget (ex_securities ex) (ord_symbol r) = Some s" "sec_status s = ''listed''"
    "ord_side r = Buy \<longrightarrow> ord_reserved_cents r = reserve_required X (ord_remaining r) (reserve_price_of X s r)"
    by (auto simp: order_fit_def)
  from assms(3)[OF s(1)] obtain s' where "dget (ex_securities ex') (ord_symbol r) = Some s'" "sec_status s' = sec_status s" by blast
  moreover have "reserve_price_of X s' r = reserve_price_of X s r" using assms(2) by (auto simp: reserve_price_of_def)
  ultimately show ?thesis using assms(1) s by (simp add: order_fit_def)
qed

lemma tick_inv_securities:
  \<comment> \<open>prices of securities change: the orders have limits of their own\<close>
  assumes w: "tick_inv X w" and same: "ex_orders (xw_ex w') = ex_orders (xw_ex w)" "ex_holdings (xw_ex w') = ex_holdings (xw_ex w)"
      "ex_shorts (xw_ex w') = ex_shorts (xw_ex w)" "ex_ipos (xw_ex w') = ex_ipos (xw_ex w)" "xw_ledger w' = xw_ledger w"
    and secs: "dkeys (ex_securities (xw_ex w')) = dkeys (ex_securities (xw_ex w))"
      "\<And>s. rel_option (\<lambda>x y. sec_status y = sec_status x \<and> sec_shares y = sec_shares x)
          (dget (ex_securities (xw_ex w)) s) (dget (ex_securities (xw_ex w')) s)"
  shows "tick_inv X w'"
proof -
  have inv: "market_inv X w" and rest: "resting (xw_ex w)" using w by (simp_all add: tick_inv_def)
  note I = market_fitD[OF inv]
  have "order_fit X (xw_ex w') r" if r: "dget (ex_orders (xw_ex w)) i = Some r" "active r" for i r
  proof (rule order_fit_prices[OF orders_fitD(2)[OF I(2) r]])
    show "ord_limit r \<noteq> None" using rest r by (auto simp: resting_iff)
    show "\<exists>sec'. dget (ex_securities (xw_ex w')) s = Some sec' \<and> sec_status sec' = sec_status sec"
      if "dget (ex_securities (xw_ex w)) s = Some sec" for s sec
      using secs(2)[of s] that by (auto simp: option_rel_Some1)
  qed
  then have "orders_fit X {} {} (xw_ex w')"
    using I(2) orders_fitD[OF I(2)] unfolding orders_fit_def same(1) by blast
  moreover have "rows_ok (xw_ex w')" by (rule rows_ok_cong[OF I(3) same(2)]) (simp only: secs)
  moreover have "reserved_ok (xw_ex w')" by (rule reserved_ok_cong[OF I(4) same(2,1)])
  moreover have "securities_ok (xw_ex w')" unfolding securities_ok_def secs(1)
  proof (intro conjI allI impI)
    show "wf_dict (ex_securities (xw_ex w))" using I(5) by (simp add: securities_ok_def)
    fix s sec assume "dget (ex_securities (xw_ex w')) s = Some sec"
    then obtain sec0 where "dget (ex_securities (xw_ex w)) s = Some sec0" "sec_shares sec = sec_shares sec0"
      using secs(2)[of s] by (auto simp: option_rel_Some2)
    then show "outstanding (xw_ex w') s = sec_shares sec"
      using I(5) same(2) by (simp add: securities_ok_def outstanding_def holding_sum_def)
  qed
  moreover have "escrow_due (xw_ex w') t = escrow_due (xw_ex w) t" for t by (intro escrow_due_cong same)
  ultimately have "market_inv X w'"
    using I(1,8) same(5) shorts_ok_cong[OF I(6) same(3)] ipos_ok_cong[OF I(7) same(4)] by (simp add: market_fit_def)
  then show ?thesis using tick_inv_orders[OF w] same(1) by simp
qed

lemma early_securities:
  assumes w: "early X ex0 N w" and f: "\<And>ex. ex_orders (f ex) = ex_orders ex" "\<And>ex. ex_holdings (f ex) = ex_holdings ex"
      "\<And>ex. ex_shorts (f ex) = ex_shorts ex" "\<And>ex. ex_ipos (f ex) = ex_ipos ex"
      "\<And>ex. dkeys (ex_securities (f ex)) = dkeys (ex_securities ex)"
      "\<And>ex s. rel_option (\<lambda>x y. sec_status y = sec_status x \<and> sec_shares y = sec_shares x)
          (dget (ex_securities ex) s) (dget (ex_securities (f ex)) s)"
  shows "tick_inv X (w\<lparr>xw_ex := f (xw_ex w)\<rparr>)" "early X ex0 N (w\<lparr>xw_ex := f (xw_ex w)\<rparr>)"
proof -
  show T: "tick_inv X (w\<lparr>xw_ex := f (xw_ex w)\<rparr>)"
    by (rule tick_inv_securities[of X w]) (use w f in \<open>simp_all add: early_def\<close>)
  show "early X ex0 N (w\<lparr>xw_ex := f (xw_ex w)\<rparr>)"
    by (rule early_step[OF w]) (use T f in \<open>simp_all add: tick_inv_def\<close>)
qed

lemma keeps_update_early:
  assumes "\<And>w. early X ex0 N w \<Longrightarrow> early X ex0 N (w\<lparr>xw_ex := f (xw_ex w)\<rparr>)"
  shows "keeps (early X ex0 N) (x_update f)"
  by (rule keepsI) (auto dest!: x_update_InrD intro: assms)

lemma keeps_open_session [keeps_rules]: "keeps (early X ex0 N) (open_session X tick)"
proof -
  have "keeps (early X ex0 N) (x_update (\<lambda>ex. map_securities (\<lambda>s. s\<lparr>sec_reference_price := sec_last_price s, sec_breaker_count := 0\<rparr>)
         (ex\<lparr>ex_session_id := Some (session_name tick), ex_session_tick := Some tick\<rparr>)))"
    by (rule keeps_update_early, rule early_securities(2), assumption)
      (simp_all add: map_securities_def dkeys_map_val dget_map_val option.rel_map option.rel_refl split: prod.split)
  then show ?thesis unfolding open_session_def by (intro keeps_rules)
qed

lemma keeps_resume_halts [keeps_rules]: "keeps (early X ex0 N) (resume_halts X tick)"
proof -
  have "keeps (early X ex0 N) (x_update (upd_security y (\<lambda>s. s\<lparr>sec_halt_until := None, sec_reference_price := sec_last_price s\<rparr>)))" for y
    by (rule keeps_update_early, rule early_securities(2), assumption)
      (auto simp: dget_upd_security option.rel_map option.rel_refl)
  then show ?thesis unfolding resume_halts_def by (intro keeps_rules)
qed

lemma keeps_cancel_action [keeps_rules]: "keeps (early X ex0 N) (cancel_action X a tick)"
  unfolding cancel_action_def by (intro keeps_rules)

lemma after_if: "after (if c then m else n) Q w \<longleftrightarrow> (if c then after m Q w else after n Q w)"
  by simp

lemma find_member: "find P xs = Some x \<Longrightarrow> P x \<and> x \<in> set xs"
  by (auto simp: find_Some_iff)

lemma after_bootstrap:
  assumes w: "early X ex0 N w" and issuers: "issuers_ok X"
  shows "after (bootstrap_listing X tick) (\<lambda>_. early X ex0 N) w"
proof -
  have step: "after (list_security X y (fv_id f) n p t [(fv_founder f, n)] None None) (\<lambda>_. early X ex0 N) w"
    if "(k, f) \<in> set (xe_firms X)" for k y f n p t
  proof -
    have "plain_id (fv_founder f)" using that issuers by (auto simp: issuers_ok_def list_all_iff)
    then have "after (list_security X y (fv_id f) n p t [(fv_founder f, n)] None None)
      (\<lambda>_ w'. market_inv X w' \<and> ex_orders (xw_ex w') = ex_orders (xw_ex w) \<and> ex_ipos (xw_ex w') = ex_ipos (xw_ex w)
        \<and> ex_shorts (xw_ex w') = ex_shorts (xw_ex w)) w"
      using w issuers by (intro list_security_keeps) (auto simp: early_def tick_inv_def)
    then show ?thesis by (rule after_mono) (auto intro: early_step[OF w])
  qed
  show ?thesis unfolding bootstrap_listing_def
  proof (cases "xe_bootstrap_day X")
    case (Some day)
    have "after (case find P (sort_key fv_id (dvals (xe_firms X))) of None \<Rightarrow> m_return []
          | Some f \<Rightarrow> list_security X y (fv_id f) n p t [(fv_founder f, n)] None None) (\<lambda>_. early X ex0 N) w" for P y n p t
    proof (cases "find P (sort_key fv_id (dvals (xe_firms X)))")
      case (Some f)
      then obtain k where "(k, f) \<in> set (xe_firms X)" using find_member[OF Some] by auto
      from step[OF this] show ?thesis using Some by simp
    qed (simp add: after_return w)
    then show "after (case xe_bootstrap_day X of None \<Rightarrow> m_return [] | Some day \<Rightarrow>
        m_bind (x_state ex_securities) (\<lambda>secs. if tick \<noteq> day * xe_ticks_per_day X \<or> secs \<noteq> [] then m_return []
        else case find (\<lambda>f. fv_status f = ''active'' \<and> fv_id f \<noteq> ''fm_broker'') (sort_key fv_id (dvals (xe_firms X))) of
          None \<Rightarrow> m_return []
        | Some f \<Rightarrow> list_security X ''POLS'' (fv_id f) (xe_bootstrap_shares X) (xe_bootstrap_price X) tick
            [(fv_founder f, xe_bootstrap_shares X)] None None)) (\<lambda>_. early X ex0 N) w"
      by (simp add: Some after_simps after_if w)
  qed (simp add: after_return w)
qed

section \<open>Announcing IPOs\<close>

definition ipo_name :: "exchange_action \<Rightarrow> string" where
  "ipo_name a = ''ipo_'' @ take 20 (uuid_hex (xa_id a))"

lemma after_emit_frame:
  "(\<And>ev w'. xw_ex w' = xw_ex w \<Longrightarrow> xw_ledger w' = xw_ledger w \<Longrightarrow> Q (f ev) w') \<Longrightarrow>
     after (m_bind (x_emit X k pl a s) (\<lambda>ev. m_return (f ev))) Q w"
  unfolding after_bind after_return by (rule after_emit)

lemma early_cong: "early X ex N w \<Longrightarrow> xw_ex w' = xw_ex w \<Longrightarrow> xw_ledger w' = xw_ledger w \<Longrightarrow> early X ex N w'"
  by (auto simp: early_def tick_inv_def elim: market_fit_cong)

lemma early_mono: "early X ex N w \<Longrightarrow> M \<subseteq> N \<Longrightarrow> early X ex M w"
  by (auto simp: early_def)

lemma early_announce:
  assumes w: "early X ex N w" and p: "ipo_id p = ipo_name a" "ipo_indications p = []" and new: "ipo_name a \<in> N"
    and w': "xw_ex w' = (xw_ex w)\<lparr>ex_ipos := dset (ipo_name a) p (ex_ipos (xw_ex w))\<rparr>" "xw_ledger w' = xw_ledger w"
  shows "early X ex (N - {ipo_name a}) w'"
proof -
  have inv: "market_inv X w" using w by (simp add: early_def tick_inv_def)
  note I = market_fitD[OF inv]
  have fresh: "dget (ex_ipos (xw_ex w)) (ipo_name a) = None" using w new by (simp add: early_def)
  have "market_inv X w'"
  proof (rule market_fit_ipos[OF inv w'(1)])
    show "ipos_ok (xw_ex w')" using I(7) p by (auto simp: ipos_ok_def w'(1))
    fix t
    have "indicated_of t p = 0" by (simp add: indicated_of_def p(2))
    then have "ipo_sum (indicated_of t) (xw_ex w') = ipo_sum (indicated_of t) (xw_ex w)"
      using sum_dset_fresh_int[OF fresh, of "indicated_of t" p] by (simp add: ipo_sum_def w'(1))
    then show "escrow_held (xw_ledger w') t - escrow_held (xw_ledger w) t
      = ipo_sum (indicated_of t) (xw_ex w') - ipo_sum (indicated_of t) (xw_ex w)" by (simp add: w'(2))
  qed (use I(1) w'(2) in simp)
  then show ?thesis using w tick_inv_orders[of X w w'] by (auto simp: early_def w'(1))
qed

lemma after_announce:
  assumes w: "early X ex N w" and new: "ipo_name a \<in> N"
  shows "after (announce_ipo X a tick) (\<lambda>_. early X ex (N - {ipo_name a})) w"
proof -
  have keep: "xw_ex w' = xw_ex w \<Longrightarrow> xw_ledger w' = xw_ledger w \<Longrightarrow> early X ex (N - {ipo_name a}) w'" for w'
    using early_mono[OF early_cong[OF w], of w' "N - {ipo_name a}"] by auto
  show ?thesis unfolding announce_ipo_def Let_def reject_def
    by (simp add: after_simps after_if)
      (intro conjI impI after_emit; (erule (1) keep | (rule early_announce[OF w _ _ new]; simp add: ipo_name_def)))
qed

section \<open>Admitting orders\<close>

definition pending :: "'l exchange_env \<Rightarrow> bool \<Rightarrow> exchange_action set \<Rightarrow> 'l exchange_world \<Rightarrow> bool" where
  \<comment> \<open>the actions in \<open>A\<close> are still to come; in a batch session market orders wait for the auction\<close>
  "pending X batch A w \<longleftrightarrow> market_inv X w \<and> (batch \<or> resting (xw_ex w)) \<and> (\<forall>a\<in>A. dget (ex_orders (xw_ex w)) (new_id a) = None)"

lemma pendingI:
  assumes "market_inv X w'" "batch \<or> resting (xw_ex w')" "pending X batch A w" "B \<subseteq> A"
    "\<And>a. a \<in> B \<Longrightarrow> dget (ex_orders (xw_ex w)) (new_id a) = None \<Longrightarrow> dget (ex_orders (xw_ex w')) (new_id a) = None"
  shows "pending X batch B w'"
  using assms unfolding pending_def by blast

lemma after_match_continuous:
  assumes fees: "fees_ok X" and inv: "market_inv X w" and i: "dget (ex_orders (xw_ex w)) i = Some inc" "active inc"
    and others: "\<And>j r. j \<noteq> i \<Longrightarrow> dget (ex_orders (xw_ex w)) j = Some r \<Longrightarrow> active r \<Longrightarrow> ord_limit r \<noteq> None"
  shows "after (match_continuous X i tick) (\<lambda>_ w'. market_inv X w' \<and> resting (xw_ex w') \<and> calmer (xw_ex w) (xw_ex w')) w"
proof (rule afterI)
  fix es w' assume "match_continuous X i tick w = Inr (es, w')"
  from match_continuous_keeps[OF fees this inv i] have m: "market_inv X w'" "calmer (xw_ex w) (xw_ex w')"
    "\<And>r. dget (ex_orders (xw_ex w')) i = Some r \<Longrightarrow> active r \<Longrightarrow> ord_limit r \<noteq> None" by blast+
  have "ord_limit r \<noteq> None" if r: "dget (ex_orders (xw_ex w')) j = Some r" "active r" for j r
  proof (cases "j = i")
    case False
    from calmerD[OF m(2) r] obtain r0 where "dget (ex_orders (xw_ex w)) j = Some r0" "active r0" "ord_limit r0 = ord_limit r" .
    then show ?thesis using others[OF False] by metis
  qed (use m(3) r in blast)
  then show "market_inv X w' \<and> resting (xw_ex w') \<and> calmer (xw_ex w) (xw_ex w')" using m by (simp add: resting_iff)
qed

lemma after_admit_and_match:
  assumes fees: "fees_ok X" and w: "pending X batch A w" and a: "sane_action a" "dget (ex_orders (xw_ex w)) (new_id a) = None"
    and batch: "batch \<longleftrightarrow> xe_profile X = Chronicle \<or> opening \<or> closing" and B: "B \<subseteq> A" "\<And>b. b \<in> B \<Longrightarrow> new_id b \<noteq> new_id a"
  shows "after (admit_and_match X tick (open_now, opening, closing) symbol (n, a)) (\<lambda>_. pending X batch B) w"
proof -
  have inv: "market_inv X w" and rest: "batch \<or> resting (xw_ex w)" using w by (simp_all add: pending_def)
  have micro: "xe_profile X = Microscope \<and> \<not> opening \<and> \<not> closing \<longleftrightarrow> \<not> batch" using batch by (cases "xe_profile X") auto
  show ?thesis unfolding admit_and_match_def prod.case after_bind
  proof (rule after_mono[OF admit_admits[OF fees a(1) inv a(2)]])
    fix r :: "string option \<times> evt list" and w1 assume "admitted X a (xw_ex w) (fst r) w1"
    then have adm: "market_inv X w1" "case fst r of None \<Rightarrow> ex_orders (xw_ex w1) = ex_orders (xw_ex w)
      | Some i \<Rightarrow> i = new_id a \<and> (\<exists>r. ex_orders (xw_ex w1) = dset i r (ex_orders (xw_ex w)) \<and> active r \<and> ord_id r = i)"
      by (simp_all add: admitted_def)
    obtain placed es where r: "r = (placed, es)" by (cases r)
    have "after (case placed of None \<Rightarrow> m_return [] | Some i \<Rightarrow> m_when (\<not> batch) (match_continuous X i tick))
        (\<lambda>_. pending X batch B) w1"
    proof (cases placed)
      case None
      then have same: "ex_orders (xw_ex w1) = ex_orders (xw_ex w)" using adm(2) r by simp
      have "pending X batch B w1"
        by (rule pendingI[OF adm(1) _ w B(1)]) (use rest resting_cong same in \<open>auto simp: same\<close>)
      then show ?thesis using None by (simp add: after_return)
    next
      case (Some i)
      then obtain q where q: "i = new_id a" "ex_orders (xw_ex w1) = dset i q (ex_orders (xw_ex w))" "active q"
        using adm(2) r by auto
      show ?thesis
      proof (cases batch)
        case True
        have "pending X batch B w1"
          by (rule pendingI[OF adm(1) _ w B(1)]) (use True q in \<open>auto dest: B(2)\<close>)
        then show ?thesis using Some True by (simp add: after_return m_when_def)
      next
        case False
        have "after (match_continuous X i tick) (\<lambda>_ w'. market_inv X w' \<and> resting (xw_ex w') \<and> calmer (xw_ex w1) (xw_ex w')) w1"
          by (rule after_match_continuous[OF fees adm(1), of i q])
            (use q rest False in \<open>auto simp: resting_iff split: if_splits\<close>)
        then have "after (match_continuous X i tick) (\<lambda>_. pending X batch B) w1"
        proof (rule after_mono)
          fix es w' assume m: "market_inv X w' \<and> resting (xw_ex w') \<and> calmer (xw_ex w1) (xw_ex w')"
          show "pending X batch B w'"
          proof (rule pendingI[OF _ _ w B(1)])
            fix b assume "b \<in> B" "dget (ex_orders (xw_ex w)) (new_id b) = None"
            with B(2)[of b] q have "dget (ex_orders (xw_ex w1)) (new_id b) = None" by auto
            then show "dget (ex_orders (xw_ex w')) (new_id b) = None" using m calmer_None by blast
          qed (use m in auto)
        qed
        then show ?thesis using Some False by (simp add: m_when_def)
      qed
    qed
    then show "after ((case r of (placed, es1) \<Rightarrow> m_bind (case placed of None \<Rightarrow> m_return []
               | Some i \<Rightarrow> m_when (xe_profile X = Microscope \<and> \<not> opening \<and> \<not> closing) (match_continuous X i tick))
               (\<lambda>es2. m_return (es1 @ es2)))) (\<lambda>_. pending X batch B) w1"
      unfolding micro r prod.case after_bind after_return by (rule after_mono)
  qed
qed

lemma shuffled_InrD:
  assumes "shuffled X symbol tick as w = Inr (bs, w')"
  shows "mset bs = mset as" "xw_ex w' = xw_ex w" "xw_ledger w' = xw_ledger w"
proof -
  obtain g reg where "rng_get (xe_digest X) ''exchange.arrival'' symbol (Some tick) (xw_rng w) = (g, reg)" by fastforce
  then obtain r' where "shuffle (xe_digest X) as g = Inr (bs, r')" "w' = w\<lparr>xw_rng := reg\<rparr>"
    using assms by (auto simp: shuffled_def split: sum.splits)
  then show "mset bs = mset as" "xw_ex w' = xw_ex w" "xw_ledger w' = xw_ledger w"
    using shuffle_mset by auto
qed

lemma pending_cong: "pending X batch A w \<Longrightarrow> xw_ex w' = xw_ex w \<Longrightarrow> xw_ledger w' = xw_ledger w \<Longrightarrow> pending X batch A w'"
  by (auto simp: pending_def elim: market_fit_cong)

lemma pending_mono: "pending X batch A w \<Longrightarrow> B \<subseteq> A \<Longrightarrow> pending X batch B w"
  by (auto simp: pending_def)

lemma after_admit_symbol:
  assumes fees: "fees_ok X" and w: "pending X batch A w" and sane: "\<And>a. a \<in> set as \<Longrightarrow> sane_action a"
    and batch: "batch \<longleftrightarrow> xe_profile X = Chronicle \<or> opening \<or> closing"
    and names: "distinct (map new_id as)" and sub: "{a\<in>set as. upper (xp_symbol a) = symbol} \<subseteq> A"
    and later: "L \<subseteq> A" "\<And>b a. b \<in> L \<Longrightarrow> a \<in> set as \<Longrightarrow> upper (xp_symbol a) = symbol \<Longrightarrow> new_id b \<noteq> new_id a"
  shows "after (admit_symbol X tick (open_now, opening, closing) as symbol) (\<lambda>_. pending X batch L) w"
  unfolding admit_symbol_def after_bind
proof (rule afterI)
  define mine where "mine = sort_key action_key (filter (\<lambda>a. upper (xp_symbol a) = symbol) as)"
  fix ordered w1 assume run: "shuffled X symbol tick (sort_key action_key (filter (\<lambda>a. upper (xp_symbol a) = symbol) as)) w = Inr (ordered, w1)"
  note sh = shuffled_InrD[OF run]
  have ms: "mset ordered = mset (filter (\<lambda>a. upper (xp_symbol a) = symbol) as)" using sh(1) by simp
  have set: "set ordered = {a\<in>set as. upper (xp_symbol a) = symbol}" using mset_eq_setD[OF ms] by auto
  have dist: "distinct (map new_id ordered)"
  proof -
    have "mset (map new_id ordered) = mset (map new_id (filter (\<lambda>a. upper (xp_symbol a) = symbol) as))"
      using ms by (metis mset_map)
    moreover have "distinct (map new_id (filter (\<lambda>a. upper (xp_symbol a) = symbol) as))"
      using names by (rule distinct_map_filter)
    ultimately show ?thesis by (metis mset_eq_imp_distinct_iff)
  qed
  define I where "I = (\<lambda>(xs :: (nat \<times> exchange_action) list) w. pending X batch (snd ` set xs \<union> L) w
    \<and> distinct (map (new_id \<circ> snd) xs) \<and> snd ` set xs \<subseteq> set ordered)"
  have "after (m_for (admit_and_match X tick (open_now, opening, closing) symbol) (List.enumerate 0 ordered)) (\<lambda>_. I []) w1"
  proof (rule after_for)
    have "map (new_id \<circ> snd) (List.enumerate 0 ordered) = map new_id ordered" by (metis map_map map_snd_enumerate)
    moreover have "snd ` set (List.enumerate 0 ordered) = set ordered" by (metis list.set_map map_snd_enumerate)
    ultimately show "I (List.enumerate 0 ordered) w1"
      using dist pending_mono[OF pending_cong[OF w sh(2,3)], of "set ordered \<union> L"] set sub later(1) by (simp add: I_def)
  next
    fix x rest w assume I: "I (x # rest) w"
    obtain n a where x: "x = (n, a)" by (cases x)
    have w: "pending X batch (snd ` set (x # rest) \<union> L) w" using I by (simp add: I_def)
    have a: "a \<in> set as" "upper (xp_symbol a) = symbol" using I set x by (auto simp: I_def)
    have "after (admit_and_match X tick (open_now, opening, closing) symbol (n, a)) (\<lambda>_. pending X batch (snd ` set rest \<union> L)) w"
    proof (rule after_admit_and_match[OF fees w sane[OF a(1)] _ batch])
      show "dget (ex_orders (xw_ex w)) (new_id a) = None" using w x by (simp add: pending_def)
      show "new_id b \<noteq> new_id a" if "b \<in> snd ` set rest \<union> L" for b
        using that later(2)[of b a] a I x by (force simp: I_def)
    qed auto
    then show "after (admit_and_match X tick (open_now, opening, closing) symbol x) (\<lambda>_. I rest) w"
      unfolding x by (rule after_mono) (use I in \<open>auto simp: I_def\<close>)
  qed
  then show "after (m_for (admit_and_match X tick (open_now, opening, closing) symbol) (List.enumerate 0 ordered)) (\<lambda>_. pending X batch L) w1"
    by (rule after_mono) (simp add: I_def)
qed

lemma after_admit_all:
  assumes fees: "fees_ok X" and w: "pending X batch (set as) w" and sane: "\<And>a. a \<in> set as \<Longrightarrow> sane_action a"
    and batch: "batch \<longleftrightarrow> xe_profile X = Chronicle \<or> opening \<or> closing" and names: "distinct (map new_id as)"
  shows "after (m_for (admit_symbol X tick (open_now, opening, closing) as) (order_symbols as)) (\<lambda>_. pending X batch {}) w"
proof -
  define mine where "mine = (\<lambda>ys. {a\<in>set as. upper (xp_symbol a) \<in> set ys})"
  define I where "I = (\<lambda>ys w. pending X batch (mine ys) w \<and> distinct ys)"
  have "after (m_for (admit_symbol X tick (open_now, opening, closing) as) (order_symbols as)) (\<lambda>_. I []) w"
  proof (rule after_for)
    show "I (order_symbols as) w" using w by (auto simp: I_def mine_def order_symbols_def elim: pending_mono)
  next
    fix y ys w assume I: "I (y # ys) w"
    have "new_id b \<noteq> new_id a" if "b \<in> mine ys" "a \<in> set as" "upper (xp_symbol a) = y" for a b
    proof -
      have "a \<noteq> b" using that I by (auto simp: I_def mine_def)
      then show ?thesis using names that by (auto simp: mine_def distinct_map inj_on_def)
    qed
    then have "after (admit_symbol X tick (open_now, opening, closing) as y) (\<lambda>_. pending X batch (mine ys)) w"
      using I by (intro after_admit_symbol[OF fees _ sane batch names]) (auto simp: I_def mine_def)
    then show "after (admit_symbol X tick (open_now, opening, closing) as y) (\<lambda>_. I ys) w"
      by (rule after_mono) (use I in \<open>simp add: I_def\<close>)
  qed
  then show ?thesis by (rule after_mono) (auto simp: I_def elim: pending_mono)
qed

section \<open>Auctions\<close>

lemma after_match_call_all:
  assumes fees: "fees_ok X" and inv: "market_inv X w" and keys: "set keys = set (dkeys (ex_securities (xw_ex w)))"
  shows "after (m_for (\<lambda>s. match_call X s tick) keys) (\<lambda>_. tick_inv X) w"
proof -
  define I where "I = (\<lambda>w'. market_inv X w' \<and> calmer (xw_ex w) (xw_ex w'))"
  have "after (m_for (\<lambda>s. match_call X s tick) keys) (\<lambda>_ w'. I w' \<and> (\<forall>s\<in>set keys. no_market s (xw_ex w'))) w"
  proof (rule m_for_each)
    fix s w1 assume w1: "I w1"
    show "after (match_call X s tick) (\<lambda>_ w'. I w' \<and> no_market s (xw_ex w') \<and> (\<forall>y. no_market y (xw_ex w1) \<longrightarrow> no_market y (xw_ex w'))) w1"
    proof (rule afterI)
      fix es w2 assume "match_call X s tick w1 = Inr (es, w2)"
      from match_call_keeps[OF fees this] w1
      have m: "market_inv X w2" "calmer (xw_ex w1) (xw_ex w2)" "no_market s (xw_ex w2)" by (auto simp: I_def)
      then show "I w2 \<and> no_market s (xw_ex w2) \<and> (\<forall>y. no_market y (xw_ex w1) \<longrightarrow> no_market y (xw_ex w2))"
        using w1 calmer_trans no_market_calmer by (fastforce simp: I_def)
    qed
  qed (simp add: I_def inv)
  then show ?thesis
  proof (rule after_mono)
    fix es w' assume w': "I w' \<and> (\<forall>s\<in>set keys. no_market s (xw_ex w'))"
    have "ord_limit r \<noteq> None" if r: "dget (ex_orders (xw_ex w')) i = Some r" "active r" for i r
    proof -
      have "calmer (xw_ex w) (xw_ex w')" using w' by (simp add: I_def)
      from calmerD[OF this r] obtain r0 where r0: "dget (ex_orders (xw_ex w)) i = Some r0" "active r0" "ord_symbol r0 = ord_symbol r" .
      have "order_fit X (xw_ex w) r0" using orders_fitD(2)[OF market_fitD(2)[OF inv] r0(1,2)] .
      then have "ord_symbol r \<in> set keys" using order_fit_symbol r0(3) keys by metis
      then show ?thesis using w' r by (auto simp: no_market_def)
    qed
    then show "tick_inv X w'" using w' by (simp add: tick_inv_def resting_iff I_def)
  qed
qed

section \<open>Closing IPOs\<close>

lemma keeps_close_ipos:
  assumes issuers: "issuers_ok X"
  shows "keeps (tick_inv X) (close_ipos X tick)"
  unfolding close_ipos_def
proof (rule keeps_bind[OF keeps_lookup(3)], rule keeps_for)
  fix i :: string
  have "after (case dget (ex_ipos (xw_ex w)) i of None \<Rightarrow> m_raise (ExKey i)
       | Some p \<Rightarrow> m_when (ipo_status p = ''announced'' \<and> ipo_close p \<le> tick) (complete_ipo X p tick)) (\<lambda>_. tick_inv X) w"
    if w: "tick_inv X w" for w
  proof (cases "dget (ex_ipos (xw_ex w)) i")
    case (Some p)
    have inv: "market_inv X w" using w by (simp add: tick_inv_def)
    have "ipo_id p = i" using market_fitD(7)[OF inv] Some by (simp add: ipos_ok_def)
    then have p: "dget (ex_ipos (xw_ex w)) (ipo_id p) = Some p" using Some by simp
    have "after (complete_ipo X p tick) (\<lambda>_. tick_inv X) w" if "ipo_status p = ''announced''"
      by (rule after_mono[OF complete_ipo_keeps[OF inv issuers p that]]) (use tick_inv_orders[OF w] in blast)
    then show ?thesis using Some w by (simp add: m_when_def after_return)
  qed (simp add: after_raise)
  then show "keeps (tick_inv X) (m_bind (x_state (\<lambda>ex. dget (ex_ipos ex) i)) (\<lambda>found. case found of None \<Rightarrow> m_raise (ExKey i)
       | Some p \<Rightarrow> m_when (ipo_status p = ''announced'' \<and> ipo_close p \<le> tick) (complete_ipo X p tick)))"
    unfolding keeps_after after_bind after_look(1) by blast
qed

section \<open>Short positions\<close>

lemma tick_inv_ledger:
  assumes "tick_inv X w" "xw_ex w' = xw_ex w" "ledger_inv (xw_ledger w')"
    "\<And>t. escrow_held (xw_ledger w') t = escrow_held (xw_ledger w) t"
  shows "tick_inv X w'"
  using assms by (simp add: tick_inv_def market_fit_def)

lemma after_fee_legs:
  assumes "ledger_inv (xw_ledger w)" "esc_owner src = None"
  shows "after (fee_legs src xs) (\<lambda>legs w'. w' = w \<and> list_all (\<lambda>g. 0 < leg_amount g) legs \<and> (\<forall>t. esc_net t legs = 0)) w"
proof (induction xs)
  case (Cons x xs)
  obtain h c where x: "x = (h, c)" by (cases x)
  have "list_all (\<lambda>g. 0 < leg_amount g) legs \<and> (\<forall>t. esc_net t legs = 0)"
    if "deposit_account h (xw_ledger w) = Inr v" "transfer src v c ''trade'' = Inr legs" for v legs
    using esc_net_transfer[OF that(2)] deposit_not_escrow[OF assms(1) that(1)] assms(2) by (auto simp: list_all_iff)
  then show ?case unfolding x fee_legs.simps after_bind
    by (cases "c = 0") (auto simp: after_simps intro!: after_mono[OF Cons.IH])
qed (simp add: after_return)

lemma after_pay:
  assumes w: "tick_inv X w" and legs: "list_all (\<lambda>g. 0 < leg_amount g) legs" "\<And>t. esc_net t legs = 0"
  shows "after (m_bind (x_next_txn X tick) (\<lambda>expected. m_bind (x_emit X k (pl expected) ac s) (\<lambda>ev.
      m_bind (x_post X (coalesce legs) tick ev) (\<lambda>txn. if txn \<noteq> expected then m_raise e else m_return [ev])))) (\<lambda>_. tick_inv X) w"
proof (rule afterI)
  fix es w' assume "m_bind (x_next_txn X tick) (\<lambda>expected. m_bind (x_emit X k (pl expected) ac s) (\<lambda>ev.
      m_bind (x_post X (coalesce legs) tick ev) (\<lambda>txn. if txn \<noteq> expected then m_raise e else m_return [ev]))) w = Inr (es, w')"
  then obtain n w1 ev w2 where 1: "x_next_txn X tick w = Inr (n, w1)" and 2: "x_emit X k (pl n) ac s w1 = Inr (ev, w2)"
    and 3: "x_post X (coalesce legs) tick ev w2 = Inr (n, w')"
    by (auto simp: prog_Inr_iff split: if_splits)
  have led: "ledger_inv (xw_ledger w)" using w by (simp add: tick_inv_def market_fit_def)
  note n = x_next_txn_InrD[OF 1 led] and ev = x_emit_InrD[OF 2]
  have led2: "ledger_inv (xw_ledger w2)" using n ev by simp
  note post = x_post_InrD[OF 3 led2]
  show "tick_inv X w'"
    by (rule tick_inv_ledger[OF w]) (use post n ev legs esc_net_coalesce[OF legs(1)] in simp_all)
qed

lemma keeps_borrow_fee [keeps_rules]: "keeps (tick_inv X) (borrow_fee X p mark tick)"
  unfolding keeps_after
proof (intro allI impI)
  fix w assume w: "tick_inv X w"
  have led: "ledger_inv (xw_ledger w)" using w by (simp add: tick_inv_def market_fit_def)
  have "after (m_bind (fee_legs src xs) (\<lambda>legs. m_bind (x_next_txn X tick) (\<lambda>expected. m_bind (x_emit X k (pl expected) ac s) (\<lambda>ev.
      m_bind (x_post X (coalesce legs) tick ev) (\<lambda>txn. if txn \<noteq> expected then m_raise e else m_return [ev]))))) (\<lambda>_. tick_inv X) w"
    if "deposit_account t (xw_ledger w) = Inr src" for src xs k pl ac s e t
    unfolding after_bind[of "fee_legs src xs"]
    by (rule after_mono[OF after_fee_legs[OF led deposit_not_escrow[OF led that]]]) (use w in \<open>auto intro!: after_pay\<close>)
  note pay = this
  show "after (borrow_fee X p mark tick) (\<lambda>_. tick_inv X) w"
    unfolding borrow_fee_def Let_def after_bind[of "x_state _"] after_look after_bind[of "x_deposit _"] after_find
      after_bind[of "x_ledger _"] after_bind[of "x_res _"]
  proof (intro allI impI after_ifI)
    fix v funds
    assume "deposit_account (sp_trader p) (xw_ledger w) = Inr v"
    from pay[OF this] show "after (m_bind (m_res r) (\<lambda>distribution. m_bind (fee_legs v (sort distribution)) (\<lambda>legs.
        m_bind (x_next_txn X tick) (\<lambda>expected. m_bind (x_emit X 7062 (pl distribution expected) ac s) (\<lambda>ev.
          m_bind (x_post X (coalesce legs) tick ev) (\<lambda>txn. if txn \<noteq> expected then m_raise e else m_return [ev]))))))
        (\<lambda>_. tick_inv X) w" for r pl ac s e
      unfolding after_bind[of "m_res _"] after_res by blast
  qed (simp_all add: after_return w)
qed

lemma keeps_margin_call:
  assumes w: "tick_inv X w" and p: "dget (ex_shorts (xw_ex w)) key = Some p"
  shows "after (margin_call X key p equity required tick) (\<lambda>_. tick_inv X) w"
proof -
  have inv: "market_inv X w" using w by (simp add: tick_inv_def)
  note I = market_fitD[OF inv]
  define q where "q = p\<lparr>sp_deadline := Some (tick + xe_ticks_per_day X)\<rparr>"
  define w1 where "w1 = w\<lparr>xw_ex := (xw_ex w)\<lparr>ex_shorts := dset key q (ex_shorts (xw_ex w))\<rparr>\<rparr>"
  have "market_inv X w1"
  proof (rule market_fit_shorts[OF inv])
    show "xw_ex w1 = (xw_ex w)\<lparr>ex_shorts := dset key q (ex_shorts (xw_ex w))\<rparr>" by (simp add: w1_def)
    show "shorts_ok (xw_ex w1)" using I(6) p by (auto simp: shorts_ok_def w1_def q_def)
    fix t
    have "wf_dict (ex_shorts (xw_ex w))" using I(6) by (simp add: shorts_ok_def)
    from sum_dset_int[OF this p, of "collateral_of t" q]
    have "short_sum (collateral_of t) (xw_ex w1) = short_sum (collateral_of t) (xw_ex w)"
      by (simp add: short_sum_def w1_def collateral_of_def q_def)
    then have "escrow_due (xw_ex w1) t = escrow_due (xw_ex w) t"
      by (simp add: escrow_due_def w1_def order_sum_def ipo_sum_def)
    then show "escrow_held (xw_ledger w1) t - escrow_held (xw_ledger w) t = escrow_due (xw_ex w1) t - escrow_due (xw_ex w) t"
      by (simp add: w1_def)
  qed (simp add: w1_def I(1))
  then have T: "tick_inv X w1" using tick_inv_orders[OF w] by (simp add: w1_def)
  have K: "keeps (tick_inv X) (x_emit X k pl ac s)" for k pl ac s by (rule keeps_tick_emit)
  show ?thesis unfolding margin_call_def Let_def after_then after_look after_bind after_return
    by (rule after_keeps[OF K]) (use T in \<open>simp add: w1_def q_def\<close>)
qed

lemma keeps_mark_shorts [keeps_rules]: "keeps (tick_inv X) (mark_shorts X tick)"
  unfolding mark_shorts_def
proof (intro keeps_bind keeps_lookup keeps_for)
  fix key
  show "keeps (tick_inv X) (mark_short X tick key)"
    unfolding keeps_after
  proof (intro allI impI)
    fix w assume w: "tick_inv X w"
    have tail: "after (m_bind (m_when c (borrow_fee X p mark tick)) (\<lambda>es2. m_return (es1 @ es2))) (\<lambda>_. tick_inv X) w'"
      if "tick_inv X w'" for c p mark es1 w'
    proof -
      have "keeps (tick_inv X) (m_bind (m_when c (borrow_fee X p mark tick)) (\<lambda>es2. m_return (es1 @ es2)))"
        by (intro keeps_rules)
      then show ?thesis using that by (rule after_keeps)
    qed
    show "after (mark_short X tick key) (\<lambda>_. tick_inv X) w"
    proof (cases "dget (ex_shorts (xw_ex w)) key")
      case (Some p)
      have call: "after (m_when c (margin_call X key p e r tick)) (\<lambda>_. tick_inv X) w" for c e r
        using keeps_margin_call[OF w Some] w by (simp add: m_when_def after_return)
      have "after (m_bind (m_when c (margin_call X key p e r tick)) (\<lambda>es1. m_bind (m_when c' (borrow_fee X p mark tick))
          (\<lambda>es2. m_return (es1 @ es2)))) (\<lambda>_. tick_inv X) w" for c e r c' mark
        unfolding after_bind[of "m_when c _"] by (rule after_mono[OF call tail])
      then show ?thesis using Some w
        by (simp add: mark_short_def after_bind[of "x_state _"] after_bind[of "x_security _"] after_look after_find Let_def after_if
            after_return after_raise)
    qed (simp add: mark_short_def after_simps)
  qed
qed

section \<open>Closing a session\<close>

lemma keeps_close_session [keeps_rules]: "keeps (tick_inv X) (close_session X tick)"
  unfolding close_session_def market_data_def index_event_def Let_def
  by (intro keeps_rules keeps_update_frame) simp_all

section \<open>The tick\<close>

definition order_actions :: "'l exchange_env \<Rightarrow> exchange_action list \<Rightarrow> int \<Rightarrow> exchange_state \<Rightarrow> exchange_action list" where
  \<comment> \<open>the orders of a tick and the covers that it may force\<close>
  "order_actions X actions tick ex = filter (\<lambda>a. xa_kind a = SubmitOrder \<or> xa_kind a = ShortSale) actions
     @ map (cover_action X tick) (dvals (ex_shorts ex))"

definition names_fresh :: "'l exchange_env \<Rightarrow> exchange_action list \<Rightarrow> int \<Rightarrow> exchange_state \<Rightarrow> bool" where
  \<comment> \<open>the digests give the new orders and IPOs names of their own\<close>
  "names_fresh X actions tick ex \<longleftrightarrow>
     distinct (map new_id (order_actions X actions tick ex))
     \<and> list_all (\<lambda>a. dget (ex_orders ex) (new_id a) = None) (order_actions X actions tick ex)
     \<and> distinct (map ipo_name (filter (\<lambda>a. xa_kind a = IpoList) actions))
     \<and> list_all (\<lambda>a. dget (ex_ipos ex) (ipo_name a) = None) (filter (\<lambda>a. xa_kind a = IpoList) actions)"

lemma after_announcements:
  assumes w: "early X ex (ipo_name ` set as) w" and names: "distinct (map ipo_name as)"
  shows "after (m_for (\<lambda>a. announce_ipo X a tick) as) (\<lambda>_. early X ex {}) w"
proof -
  define I where "I = (\<lambda>as w. early X ex (ipo_name ` set as) w \<and> distinct (map ipo_name as))"
  have "after (m_for (\<lambda>a. announce_ipo X a tick) as) (\<lambda>_. I []) w"
  proof (rule after_for)
    fix a as w assume I: "I (a # as) w"
    have "after (announce_ipo X a tick) (\<lambda>_. early X ex (ipo_name ` set (a # as) - {ipo_name a})) w"
      using I by (intro after_announce) (auto simp: I_def)
    then show "after (announce_ipo X a tick) (\<lambda>_. I as) w"
      by (rule after_mono) (use I in \<open>auto simp: I_def elim: early_mono\<close>)
  qed (use w names in \<open>simp add: I_def\<close>)
  then show ?thesis by (rule after_mono) (simp add: I_def)
qed

lemma cover_sane: "plain_id (sp_trader p) \<Longrightarrow> sane_action (cover_action X tick p)"
  by (simp add: sane_action_def cover_action_def)

lemma distinct_mset_sub:
  assumes "distinct ys" "mset xs \<subseteq># mset ys" shows "distinct xs"
  using assms by (metis distinct_append mset_append mset_eq_imp_distinct_iff subset_mset.le_iff_add ex_mset)

lemma forced_subset: "mset (forced_cover_actions X tick ex) \<subseteq># mset (map (cover_action X tick) (dvals (ex_shorts ex)))"
  unfolding forced_cover_actions_def mset_map mset_filter mset_sort
  by (intro image_mset_subseteq_mono) simp

lemma after_orders:
  assumes fees: "fees_ok X" and sane: "list_all sane_action (filter (\<lambda>a. xa_kind a = SubmitOrder \<or> xa_kind a = ShortSale) actions)"
    and names: "names_fresh X actions tick ex" and w: "early X ex {} w"
    and batch: "batch \<longleftrightarrow> xe_profile X = Chronicle \<or> opening \<or> closing"
    and os: "os = filter (\<lambda>a. xa_kind a = SubmitOrder \<or> xa_kind a = ShortSale) actions @ forced_cover_actions X tick (xw_ex w)"
  shows "after (m_for (admit_symbol X tick (open_now, opening, closing) os) (order_symbols os)) (\<lambda>_. pending X batch {}) w"
proof (rule after_admit_all[OF fees _ _ batch])
  have shorts: "ex_shorts (xw_ex w) = ex_shorts ex" and T: "tick_inv X w"
    and keys: "\<And>i. dget (ex_orders (xw_ex w)) i = None \<longleftrightarrow> dget (ex_orders ex) i = None"
    using w by (simp_all add: early_def)
  have sub: "mset os \<subseteq># mset (order_actions X actions tick ex)"
    using forced_subset[of X tick "xw_ex w"] by (simp add: os order_actions_def shorts)
  have set: "set os \<subseteq> set (order_actions X actions tick ex)" using set_mset_mono[OF sub] by simp
  show "distinct (map new_id os)"
    using names image_mset_subseteq_mono[OF sub, of new_id] by (auto simp: names_fresh_def intro: distinct_mset_sub)
  show "pending X batch (set os) w"
    using T names set keys by (auto simp: pending_def tick_inv_def names_fresh_def list_all_iff)
  fix a assume "a \<in> set os"
  moreover have "sane_action a" if "a \<in> set (map (cover_action X tick) (dvals (ex_shorts ex)))"
  proof -
    from that obtain k p where kp: "(k, p) \<in> set (ex_shorts ex)" "a = cover_action X tick p" by auto
    have ok: "shorts_ok (xw_ex w)" using T by (simp add: tick_inv_def market_fit_def)
    then have "dget (ex_shorts (xw_ex w)) k = Some p" using kp shorts by (simp add: shorts_ok_def dget_Some_iff)
    then show ?thesis using ok kp by (auto simp: shorts_ok_def intro: cover_sane)
  qed
  ultimately show "sane_action a" using set sane by (auto simp: order_actions_def list_all_iff)
qed

lemma resolve_keeps:
  assumes fees: "fees_ok X" and issuers: "issuers_ok X" and w: "tick_inv X w"
    and sane: "list_all sane_action (filter (\<lambda>a. xa_kind a = SubmitOrder \<or> xa_kind a = ShortSale) actions)"
    and names: "names_fresh X actions tick (xw_ex w)"
  shows "after (resolve X actions tick) (\<lambda>_. tick_inv X) w"
proof (cases "xe_enabled X")
  case True
  obtain open_now op cl where session: "session_state X tick = (open_now, op, cl)" by (cases "session_state X tick")
  define of_kind where "of_kind = (\<lambda>k. sort_key action_key (filter (\<lambda>a. xa_kind a = k) actions))"
  define N where "N = ipo_name ` set (of_kind IpoList)"
  define E where "E = early X (xw_ex w) N"
  define batch where "batch \<longleftrightarrow> xe_profile X = Chronicle \<or> op \<or> cl"
  have start: "E w" using w names by (auto simp: E_def N_def early_def names_fresh_def list_all_iff of_kind_def)
  have dist: "distinct (map ipo_name (of_kind IpoList))"
    by (rule distinct_mset_sub[of "map ipo_name (filter (\<lambda>a. xa_kind a = IpoList) actions)"])
      (use names in \<open>simp_all add: names_fresh_def of_kind_def\<close>)
  have p1: "after (bootstrap_listing X tick) (\<lambda>_. E) w1" if "E w1" for w1
    unfolding E_def by (rule after_bootstrap[OF _ issuers]) (use that in \<open>simp add: E_def\<close>)
  have p2: "keeps E (m_when op (open_session X tick))" unfolding E_def by (intro keeps_rules)
  have p3: "keeps E (m_for (\<lambda>a. cancel_action X a tick) as)" for as unfolding E_def by (intro keeps_rules)
  have p4: "after (m_for (\<lambda>a. announce_ipo X a tick) (of_kind IpoList)) (\<lambda>_. early X (xw_ex w) {}) w1" if "E w1" for w1
    by (rule after_announcements[OF _ dist]) (use that in \<open>simp add: E_def N_def\<close>)
  have p5: "after (m_bind (x_state (forced_cover_actions X tick)) (\<lambda>forced.
           let orders = filter (\<lambda>a. xa_kind a = SubmitOrder \<or> xa_kind a = ShortSale) actions @ forced
           in m_for (admit_symbol X tick (open_now, op, cl) orders) (order_symbols orders))) (\<lambda>_. pending X batch {}) w1"
    if "early X (xw_ex w) {} w1" for w1
    unfolding after_bind after_look Let_def by (rule after_orders[OF fees sane names that batch_def refl])
  have p6: "after (m_when (xe_profile X = Chronicle \<or> op \<or> cl)
      (m_bind (x_state (\<lambda>ex. sort (dkeys (ex_securities ex)))) (m_for (\<lambda>s. match_call X s tick)))) (\<lambda>_. tick_inv X) w1"
    if "pending X batch {} w1" for w1
    using that after_match_call_all[OF fees, of w1 "sort (dkeys (ex_securities (xw_ex w1)))"]
    by (cases batch) (simp_all add: m_when_def batch_def[symmetric] pending_def tick_inv_def after_return after_bind after_look)
  have p8: "after (resume_halts X tick) (\<lambda>_. tick_inv X) w1" if "tick_inv X w1" for w1
  proof -
    have K: "keeps (early X (xw_ex w1) {}) (resume_halts X tick)" by (rule keeps_resume_halts)
    have "early X (xw_ex w1) {} w1" using that by (simp add: early_def)
    from after_keeps[OF K this] show ?thesis by (rule after_mono) (simp add: early_def)
  qed
  have p9: "keeps (tick_inv X) (m_when c (close_session X tick))" for c by (intro keeps_rules)
  show ?thesis using True session
    unfolding resolve_def Let_def of_kind_def[symmetric]
    by (simp add: after_bind after_return)
      (rule after_mono[OF p1[OF start]], rule after_mono[OF after_keeps[OF p2]], assumption,
        rule after_mono[OF after_keeps[OF p3]], assumption, erule after_mono[OF p4],
        erule after_mono[OF p5[unfolded after_bind Let_def]], erule after_mono, erule after_mono[OF p6],
        rule after_mono[OF after_keeps[OF keeps_close_ipos[OF issuers]]], assumption,
        erule after_mono[OF p8], rule after_mono[OF after_keeps[OF keeps_mark_shorts]], assumption,
        rule after_mono[OF after_keeps[OF p9]], assumption, assumption)
qed (simp add: resolve_def after_return w)

end
