(* ===== verification/Exchange_Checks.thy ===== *)
theory Exchange_Checks
  imports Exchange_Resolve Invariants
begin

text \<open>
  The checks of the exchange in \<open>polis/economy/state.py\<close>, which the tick loop runs on every tick
  (\<open>INV-ORDERS\<close>, \<open>INV-SHARES\<close>): each returns the failures it finds. The invariant of the exchange
  makes the second empty and leaves of the first only the crossed books.
\<close>

section \<open>The checks\<close>

definition dadd :: "'k \<Rightarrow> int \<Rightarrow> ('k, int) dict \<Rightarrow> ('k, int) dict" where
  \<comment> \<open>\<open>d[k] = d.get(k, 0) + x\<close>\<close>
  "dadd k x d = dset k (dget_or d k 0 + x) d"

definition open_orders :: "exchange_state \<Rightarrow> order_state list" where
  "open_orders ex = filter active (dvals (ex_orders ex))"

definition mismatch :: "int \<Rightarrow> int \<Rightarrow> json" where
  "mismatch expected actual = JObj [(''expected'', JInt expected), (''actual'', JInt actual)]"

definition order_failure :: "order_state \<Rightarrow> payload \<Rightarrow> payload" where
  "order_failure r d =
     (let d = (if ord_remaining r \<le> 0 then dset (''order:'' @ ord_id r @ '':remaining'') (JInt (ord_remaining r)) d else d)
      in if ord_reserved_cents r < 0 \<or> ord_reserved_qty r < 0
         then dset (''order:'' @ ord_id r @ '':reservation'')
           (JObj [(''cents'', JInt (ord_reserved_cents r)), (''qty'', JInt (ord_reserved_qty r))]) d
         else d)"

definition expected_reserved :: "exchange_state \<Rightarrow> (string \<times> string, int) dict" where
  "expected_reserved ex = fold (\<lambda>r. dadd (ord_trader r, ord_symbol r) (ord_reserved_qty r))
     (filter (\<lambda>r. ord_side r = Sell \<and> ''opens_short'' \<notin> set (ord_flags r)) (open_orders ex)) []"

definition expected_escrow :: "exchange_state \<Rightarrow> (string, int) dict" where
  "expected_escrow ex =
     fold (\<lambda>p d. fold (\<lambda>(i, q, limit). dadd i (q * limit)) (ipo_indications p) d)
         (filter (\<lambda>p. ipo_status p = ''announced'') (dvals (ex_ipos ex)))
       (fold (\<lambda>p. dadd (sp_trader p) (sp_collateral p)) (filter (\<lambda>p. sp_status p = ''open'') (dvals (ex_shorts ex)))
         (fold (\<lambda>r. dadd (ord_trader r) (ord_reserved_cents r)) (open_orders ex) []))"

definition limits_of :: "side \<Rightarrow> string \<Rightarrow> exchange_state \<Rightarrow> int list" where
  \<comment> \<open>\<open>books[symbol][side]\<close>\<close>
  "limits_of sd symbol ex = map (the \<circ> ord_limit)
     (filter (\<lambda>r. ord_symbol r = symbol \<and> ord_side r = sd \<and> ord_limit r \<noteq> None) (open_orders ex))"

definition book_symbols :: "exchange_state \<Rightarrow> string list" where
  "book_symbols ex = sort (remdups (map ord_symbol (filter (\<lambda>r. ord_limit r \<noteq> None) (open_orders ex))))"

definition reserved_failure :: "exchange_state \<Rightarrow> holding_state \<Rightarrow> payload \<Rightarrow> payload" where
  "reserved_failure ex h d =
     (let expected = dget_or (expected_reserved ex) (hold_holder h, hold_symbol h) 0
      in if hold_reserved h \<noteq> expected
         then dset (''holding:'' @ hold_holder h @ '':'' @ hold_symbol h @ '':reserved'') (mismatch expected (hold_reserved h)) d
         else d)"

definition actual_escrow :: "ledger \<Rightarrow> (string, int) dict" where
  "actual_escrow l = fold (\<lambda>a. dadd (acc_owner a) (acc_balance a)) (filter (\<lambda>a. acc_code a = Esc) (accounts l)) []"

definition escrow_failure :: "ledger \<Rightarrow> exchange_state \<Rightarrow> string \<Rightarrow> payload \<Rightarrow> payload" where
  "escrow_failure l ex owner d =
     (let expected = dget_or (expected_escrow ex) owner 0; actual = dget_or (actual_escrow l) owner 0
      in if expected \<noteq> actual then dset (''escrow:'' @ owner) (mismatch expected actual) d else d)"

definition crossed_failure :: "exchange_state \<Rightarrow> string \<Rightarrow> payload \<Rightarrow> payload" where
  "crossed_failure ex symbol d =
     (case (limits_of Buy symbol ex, limits_of Sell symbol ex) of
        (b # bs, a # as) \<Rightarrow>
          let best_bid = max_of b bs; best_ask = - max_of (- a) (map uminus as)
          in if best_ask \<le> best_bid
             then dset (''book:'' @ symbol @ '':crossed'') (JObj [(''best_bid'', JInt best_bid), (''best_ask'', JInt best_ask)]) d
             else d
      | _ \<Rightarrow> d)"

definition order_invariant_failures :: "ledger \<Rightarrow> exchange_state \<Rightarrow> payload" where
  "order_invariant_failures l ex =
     fold (crossed_failure ex) (book_symbols ex)
       (fold (escrow_failure l ex) (sort (remdups (dkeys (expected_escrow ex) @ dkeys (actual_escrow l))))
         (fold (reserved_failure ex) (dvals (ex_holdings ex))
           (fold order_failure (open_orders ex) [])))"

definition holding_failure :: "holding_state \<Rightarrow> payload \<Rightarrow> payload" where
  "holding_failure h d =
     (if hold_reserved h < 0 \<or> hold_locked h < 0
      then dset (''holding:'' @ hold_holder h @ '':'' @ hold_symbol h)
        (JObj [(''reserved_qty'', JInt (hold_reserved h)), (''locked_qty'', JInt (hold_locked h))]) d
      else d)"

definition security_failure :: "exchange_state \<Rightarrow> string \<times> security_state \<Rightarrow> payload \<Rightarrow> payload" where
  "security_failure ex ks d =
     (case ks of (symbol, s) \<Rightarrow>
        let actual = (\<Sum>h\<leftarrow>filter (\<lambda>h. hold_symbol h = symbol) (dvals (ex_holdings ex)). hold_qty h)
        in if actual \<noteq> sec_shares s then dset (''security:'' @ symbol) (mismatch (sec_shares s) actual) d else d)"

definition share_invariant_failures :: "exchange_state \<Rightarrow> payload" where
  \<comment> \<open>the symbols are distinct, so sorting the items sorts the symbols\<close>
  "share_invariant_failures ex =
     fold (security_failure ex) (sort_key fst (ex_securities ex)) (fold holding_failure (dvals (ex_holdings ex)) [])"

section \<open>Totals in dictionaries\<close>

lemma fold_dadd:
  "dget_or (fold (\<lambda>x. dadd (k x) (v x)) xs d) t 0 = dget_or d t 0 + (\<Sum>x\<leftarrow>xs. if k x = t then v x else 0)"
  by (induction xs arbitrary: d) (auto simp: dadd_def)

lemma fold_dadd_nested:
  "dget_or (fold (\<lambda>p d. fold (\<lambda>x. dadd (k x) (v x)) (f p) d) ps d) t 0
     = dget_or d t 0 + (\<Sum>p\<leftarrow>ps. \<Sum>x\<leftarrow>f p. if k x = t then v x else 0)"
  by (induction ps arbitrary: d) (simp_all add: fold_dadd)

lemma fold_idle: "(\<And>x. x \<in> set xs \<Longrightarrow> f x d = d) \<Longrightarrow> fold f xs d = d"
  by (induction xs) auto

lemma sum_list_guard: "(\<Sum>x\<leftarrow>filter P xs. if Q x then f x else 0) = (\<Sum>x\<leftarrow>xs. if P x \<and> Q x then f x else (0::int))"
  by (induction xs) auto

lemma accounts_perm:
  assumes "wf_dict (led_accounts l)" shows "mset (accounts l) = mset (dvals (led_accounts l))"
proof -
  have "mset (accounts l) = image_mset (\<lambda>k. the (dget (led_accounts l) k)) (mset (dkeys (led_accounts l)))"
    by (simp only: accounts_def mset_map mset_sort)
  also have "\<dots> = mset (map (\<lambda>k. the (dget (led_accounts l) k)) (dkeys (led_accounts l)))" by (simp only: mset_map)
  also have "map (\<lambda>k. the (dget (led_accounts l) k)) (dkeys (led_accounts l)) = map snd (map (\<lambda>k. (k, the (dget (led_accounts l) k))) (dkeys (led_accounts l)))"
    by simp
  also have "\<dots> = dvals (led_accounts l)" by (simp only: dict_as_map[OF assms])
  finally show ?thesis .
qed

lemma actual_escrow_held:
  assumes "wf_dict (led_accounts l)" shows "dget_or (actual_escrow l) t 0 = escrow_held l t"
proof -
  have "dget_or (actual_escrow l) t 0 = (\<Sum>a\<leftarrow>accounts l. if acc_code a = Esc \<and> acc_owner a = t then acc_balance a else 0)"
    by (simp add: actual_escrow_def fold_dadd sum_list_guard)
  also have "\<dots> = sum_mset (image_mset (\<lambda>a. if acc_code a = Esc \<and> acc_owner a = t then acc_balance a else 0) (mset (accounts l)))"
    by (simp only: sum_mset_sum_list mset_map[symmetric])
  also have "\<dots> = (\<Sum>a\<leftarrow>dvals (led_accounts l). if acc_code a = Esc \<and> acc_owner a = t then acc_balance a else 0)"
    by (simp only: accounts_perm[OF assms] sum_mset_sum_list mset_map[symmetric])
  finally show ?thesis by (simp only: escrow_held_def sum_balances_def sum_if_filter_int)
qed

lemma expected_reserved_want: "dget_or (expected_reserved ex) (t, s) 0 = order_sum (want_of t s) ex"
proof -
  have "dget_or (expected_reserved ex) (t, s) 0
      = (\<Sum>r\<leftarrow>dvals (ex_orders ex). if (ord_side r = Sell \<and> ''opens_short'' \<notin> set (ord_flags r)) \<and> active r
          \<and> (ord_trader r, ord_symbol r) = (t, s) then ord_reserved_qty r else 0)"
    unfolding expected_reserved_def open_orders_def fold_dadd filter_filter sum_list_guard
    by (simp add: conj_ac)
  also have "\<dots> = order_sum (want_of t s) ex"
    unfolding order_sum_def by (intro arg_cong[where f = sum_list] map_cong refl) (auto simp: want_of_def short_sale_def)
  finally show ?thesis .
qed

definition shorts_closed :: "exchange_state \<Rightarrow> bool" where
  \<comment> \<open>a short that is no longer open holds no collateral\<close>
  "shorts_closed ex \<longleftrightarrow> list_all (\<lambda>p. sp_status p = ''open'' \<or> sp_collateral p = 0) (dvals (ex_shorts ex))"

lemma expected_escrow_due:
  assumes "shorts_closed ex"
  shows "dget_or (expected_escrow ex) t 0 = escrow_due ex t"
proof -
  have "(\<Sum>r\<leftarrow>open_orders ex. if ord_trader r = t then ord_reserved_cents r else 0) = order_sum (cents_of t) ex"
    unfolding order_sum_def open_orders_def sum_list_guard
    by (intro arg_cong[where f = sum_list] map_cong refl) (auto simp: cents_of_def)
  moreover have "(\<Sum>p\<leftarrow>filter (\<lambda>p. sp_status p = ''open'') (dvals (ex_shorts ex)). if sp_trader p = t then sp_collateral p else 0)
      = short_sum (collateral_of t) ex"
    unfolding short_sum_def sum_list_guard using assms
    by (intro arg_cong[where f = sum_list] map_cong refl) (auto simp: collateral_of_def shorts_closed_def list_all_iff)
  moreover have "(\<Sum>p\<leftarrow>filter (\<lambda>p. ipo_status p = ''announced'') (dvals (ex_ipos ex)).
        \<Sum>x\<leftarrow>ipo_indications p. if (case x of (i, q, limit) \<Rightarrow> i) = t then (case x of (i, q, limit) \<Rightarrow> q * limit) else 0)
      = ipo_sum (indicated_of t) ex"
    unfolding ipo_sum_def sum_if_filter_int
    by (intro arg_cong[where f = sum_list] map_cong refl) (auto simp: indicated_of_def case_prod_unfold intro!: arg_cong[where f = sum_list] map_cong)
  moreover have eq: "(\<lambda>(i, q, limit). dadd i (q * limit))
      = (\<lambda>x. dadd (case x of (i, q, limit) \<Rightarrow> i) (case x of (i, q, limit) \<Rightarrow> q * limit))" by (auto simp: fun_eq_iff)
  ultimately show ?thesis
    unfolding expected_escrow_def eq fold_dadd_nested fold_dadd escrow_due_def dget_or_Nil by linarith
qed

section \<open>What the invariant leaves of them\<close>

lemma want_nonneg:
  assumes "market_inv X w" shows "0 \<le> order_sum (want_of t s) (xw_ex w)"
proof -
  have "0 \<le> want_of t s r" if "r \<in> set (dvals (ex_orders (xw_ex w)))" for r
  proof -
    note fit = market_fitD(2)[OF assms]
    from that obtain i where "dget (ex_orders (xw_ex w)) i = Some r"
      using orders_fit_wf[OF fit] by (auto simp: dget_Some_iff)
    from orders_fitD(2)[OF fit this] show ?thesis by (auto simp: want_of_def order_fit_def split: if_splits)
  qed
  then show ?thesis unfolding order_sum_def by (intro sum_list_nonneg) auto
qed

lemma holding_row:
  assumes "market_inv X w" "h \<in> set (dvals (ex_holdings (xw_ex w)))"
  shows "hold_reserved h = order_sum (want_of (hold_holder h) (hold_symbol h)) (xw_ex w)" "0 \<le> hold_locked h"
proof -
  note I = market_fitD[OF assms(1)]
  from assms(2) obtain k where k: "dget (ex_holdings (xw_ex w)) k = Some h"
    using I(3) by (auto simp: rows_ok_def dget_Some_iff)
  then have row: "k = holding_key (hold_holder h) (hold_symbol h)" "plain_id (hold_holder h)" "0 \<le> hold_locked h"
    using I(3) by (auto simp: rows_ok_def)
  then have "holding_of (hold_holder h) (hold_symbol h) (xw_ex w) = h" using k by (simp add: holding_of_def)
  then show "hold_reserved h = order_sum (want_of (hold_holder h) (hold_symbol h)) (xw_ex w)" "0 \<le> hold_locked h"
    using I(4) row unfolding reserved_ok_def by metis+
qed

lemma open_order_row:
  assumes "market_inv X w" "r \<in> set (open_orders (xw_ex w))"
  shows "0 < ord_remaining r" "0 \<le> ord_reserved_cents r" "0 \<le> ord_reserved_qty r"
proof -
  note fit = market_fitD(2)[OF assms(1)]
  from assms(2) obtain i where r: "dget (ex_orders (xw_ex w)) i = Some r" "active r"
    using orders_fit_wf[OF fit] by (auto simp: open_orders_def dget_Some_iff)
  from orders_fitD(2,3)[OF fit r(1)] r(2)
  show "0 < ord_remaining r" "0 \<le> ord_reserved_cents r" "0 \<le> ord_reserved_qty r" by (auto simp: order_fit_def split: if_splits)
qed

lemma share_checks_pass:
  assumes inv: "market_inv X w" shows "share_invariant_failures (xw_ex w) = []"
proof -
  note I = market_fitD[OF inv]
  have "fold holding_failure (dvals (ex_holdings (xw_ex w))) [] = []"
    by (rule fold_idle) (use holding_row[OF inv] want_nonneg[OF inv] in \<open>auto simp: holding_failure_def not_less\<close>)
  moreover have "fold (security_failure (xw_ex w)) (sort_key fst (ex_securities (xw_ex w))) [] = []"
  proof (rule fold_idle)
    fix ks assume mem: "ks \<in> set (sort_key fst (ex_securities (xw_ex w)))"
    obtain s sec where ks: "ks = (s, sec)" by (cases ks)
    have "dget (ex_securities (xw_ex w)) s = Some sec" using I(5) mem ks by (simp add: securities_ok_def dget_Some_iff)
    then have "outstanding (xw_ex w) s = sec_shares sec" using I(5) by (simp add: securities_ok_def)
    then show "security_failure (xw_ex w) ks [] = []"
      by (simp add: ks security_failure_def outstanding_def holding_sum_def sum_if_filter_int qty_of_def)
  qed
  ultimately show ?thesis by (simp add: share_invariant_failures_def)
qed

lemma order_checks_reduce:
  assumes inv: "market_inv X w" and closed: "shorts_closed (xw_ex w)"
  shows "order_invariant_failures (xw_ledger w) (xw_ex w) = fold (crossed_failure (xw_ex w)) (book_symbols (xw_ex w)) []"
proof -
  note I = market_fitD[OF inv]
  have "fold order_failure (open_orders (xw_ex w)) [] = []"
    by (rule fold_idle) (use open_order_row[OF inv] in \<open>force simp: order_failure_def Let_def\<close>)
  moreover have "fold (reserved_failure (xw_ex w)) (dvals (ex_holdings (xw_ex w))) [] = []"
    by (rule fold_idle) (use holding_row[OF inv] in \<open>simp add: reserved_failure_def expected_reserved_want\<close>)
  moreover have "wf_dict (led_accounts (xw_ledger w))" using I(1) by (simp add: ledger_inv_def)
  then have "escrow_failure (xw_ledger w) (xw_ex w) t [] = []" for t
    using I(8)[of t] by (simp add: escrow_failure_def expected_escrow_due[OF closed] actual_escrow_held)
  then have "fold (escrow_failure (xw_ledger w) (xw_ex w)) ts [] = []" for ts by (intro fold_idle)
  ultimately show ?thesis by (simp add: order_invariant_failures_def)
qed

end
