(* ===== verification/Exchange_Spec.thy ===== *)
theory Exchange_Spec
  imports Exchange_Checks
begin

text \<open>
  What the exchange promises: a tick keeps its invariant and passes its checks, a cancelled order
  gives back what it reserved, the cancelling of self-crossing orders ends, and the circuit breaker
  does not trip on a book whose limits are inside the band. A small market at the end instantiates
  them: a bank with the deposits of a buyer, of the founder of a firm and of the broker.
\<close>

section \<open>A tick keeps the market in order\<close>

text \<open>C36. A tick of the exchange keeps its invariant: every active order holds reserved exactly what its
  remainder needs at its limit (or its shares), the reserved shares of a holding are the sum over its orders, the
  escrow accounts hold exactly what the orders, shorts and IPO books of their owner require, and the holdings of a
  security add up to its shares outstanding. Between ticks no order without a limit is active. The settings must
  keep a commission within the trade, a market order must carry no limit, and names must be fresh.\<close>

theorem resolve_keeps_market:
  assumes "fees_ok X" "issuers_ok X" "tick_inv X w"
    "list_all sane_action (filter (\<lambda>a. xa_kind a = SubmitOrder \<or> xa_kind a = ShortSale) actions)"
    "names_fresh X actions tick (xw_ex w)" "resolve X actions tick w = Inr (es, w')"
  shows "tick_inv X w'"
  using afterD[OF resolve_keeps[OF assms(1-5)] assms(6)] .

text \<open>C37. On a market in order the share check of the run-time invariants reports nothing, and the order check,
  when closed shorts hold no collateral, reports crossed books only.\<close>

theorem exchange_checks:
  assumes "tick_inv X w" "shorts_closed (xw_ex w)"
  shows "share_invariant_failures (xw_ex w) = []
    \<and> order_invariant_failures (xw_ledger w) (xw_ex w) = fold (crossed_failure (xw_ex w)) (book_symbols (xw_ex w)) []"
  using assms share_checks_pass order_checks_reduce by (auto simp: tick_inv_def)

section \<open>Cancelling\<close>

text \<open>Cancelling an active limit order to buy gives back exactly the price of its remainder at the limit with
  the commission reserved per share, moves no other escrow, leaves the order inactive and keeps the market in order.\<close>

theorem cancel_releases:
  assumes inv: "market_inv X w" and r: "dget (ex_orders (xw_ex w)) i = Some r" "active r" "ord_side r = Buy" "ord_limit r = Some p"
    and run: "cancel_order X i tick who expired w = Inr (es, w')"
  shows "market_inv X w' \<and> dget (ex_orders (xw_ex w')) i = Some (void_order expired r)
    \<and> escrow_held (xw_ledger w') t = escrow_held (xw_ledger w) t
        - (if t = ord_trader r then ord_remaining r * p + ord_remaining r * commission X p else 0)"
proof -
  note fit = market_fitD(2)[OF inv]
  have id: "ord_id r = i" using orders_fitD(1)[OF fit r(1)] .
  have req: "ord_reserved_cents r = ord_remaining r * p + ord_remaining r * commission X p"
    using orders_fitD(2,3)[OF fit r(1,2)] r(3,4) by (auto simp: order_fit_def reserve_required_def reserve_price_of_def)
  have K: "keeps (market_inv X) (cancel_order X i tick who expired)" by (rule cancel_order_keeps)
  from run market_fitD(1)[OF inv] show ?thesis
  proof (cases rule: cancel_order_InrD)
    case (2 r')
    then have "r' = r" using r(1) by simp
    note c = 2[unfolded this]
    have "dget (ex_orders (xw_ex w')) i = Some (void_order expired r)"
      using c(3)[OF id] r(1) id by (simp add: void_state_def dget_upd_order)
    then show ?thesis using keepsD[OF K inv run] c(5)[of t] req by simp
  qed (use r in auto)
qed

section \<open>Self-crossing orders\<close>

text \<open>C38. The loop that cancels self-crossing orders always ends: with one step per active order of the symbol and
  one to stop the fuel suffices, and afterwards no trader's bid crosses the same trader's offer.\<close>

theorem self_crosses_end:
  assumes "market_inv X w"
  shows "cancel_self_crosses X s tick w \<noteq> Inl ExFuel
    \<and> after (cancel_self_crosses X s tick) (\<lambda>_ w'. self_crosses s (xw_ex w') = []) w"
  using self_cross_loop_ends[OF assms, of s "Suc (active_count s (xw_ex w))"]
  by (auto simp: cancel_self_crosses_def m_bind_def x_state_def m_read_def after_def)

section \<open>The circuit breaker\<close>

definition book_in_band :: "'l exchange_env \<Rightarrow> security_state \<Rightarrow> order_state list \<Rightarrow> bool" where
  "book_in_band X s = list_all (\<lambda>r. (ord_type r = MarketOrder \<longleftrightarrow> ord_limit r = None)
     \<and> (case ord_limit r of None \<Rightarrow> True | Some p \<Rightarrow> in_band X s p))"

lemma uncross_price:
  assumes "uncross orders pc = (Some p, v)" shows "p \<in> set (limit_prices (filter active orders))"
proof -
  let ?ps = "limit_prices (filter active orders)" and ?c = "candidate (filter active orders) pc"
  obtain c cs where m: "map ?c ?ps = c # cs" using assms by (cases "map ?c ?ps") (auto simp: uncross_def Let_def)
  have "max_of c cs \<in> set (c # cs)" by (rule max_of_in)
  then obtain q where q: "q \<in> set ?ps" "max_of c cs = ?c q" unfolding m[symmetric] by auto
  have "p = q" using assms q(2) by (simp add: uncross_def Let_def m candidate_def split: if_splits)
  then show ?thesis using q(1) by simp
qed


section \<open>A small market\<close>

definition toy_event :: "int \<Rightarrow> evt" where
  "toy_event t = \<lparr>ev_seq = 7, ev_run_id = 1, ev_tick = t, ev_sim_time = \<lparr>dt_seconds = 0, dt_micro = 0, dt_aware = False\<rparr>,
     ev_kind = 1000, ev_actor_id = None, ev_subject_ids = [], ev_cause_seq = None, ev_payload = [], ev_sig = None,
     ev_prev_hash = [], ev_hash = []\<rparr>"

definition toy_env :: "profile_name \<Rightarrow> (int \<times> int list) exchange_env" where
  \<comment> \<open>the log is the tick with the kinds emitted, newest first\<close>
  "toy_env profile = \<lparr>xe_enabled = True, xe_tick_size = 1, xe_commission_bp = 10, xe_commission_floor = 1,
     xe_max_order_qty_bp = 1000, xe_band_bp = 1000, xe_halt_ticks = 2, xe_max_halts = 2, xe_max_short_bp = 1000,
     xe_initial_margin_bp = 15000, xe_maintenance_margin_bp = 13000, xe_borrow_fee_bp = 100, xe_ipo_min_age_days = 1,
     xe_ipo_min_revenue = 0, xe_ipo_book_days = 1, xe_underwriter_discount_bp = 500, xe_underwriting_fee_bp = 300,
     xe_listing_fee = 10, xe_lockup_days = 5, xe_bootstrap_day = Some 0, xe_bootstrap_shares = 1000,
     xe_bootstrap_price = 100, xe_profile = profile, xe_ticks_per_day = (if profile = Chronicle then 1 else 24),
     xe_days_per_year = 360, xe_agents = [''ag_1'', ''ag_2''],
     xe_firms = [(''fm_1'', \<lparr>fv_id = ''fm_1'', fv_founder = ''ag_2'', fv_status = ''active'', fv_revenue = 0\<rparr>)],
     xe_banks = [], xe_startups = [], xe_bankruptcies = [],
     xe_emit = (\<lambda>d (t, ks). Inr (toy_event t, (t, ne_kind d # ks))), xe_uuid5 = toy_uuid5, xe_uuid5_url = (\<lambda>s. 1),
     xe_uuid_text = (\<lambda>u. ''u''), xe_digest = (\<lambda>s. replicate 32 CHR ''d''), xe_repr = (\<lambda>s. s)\<rparr>"

definition toy_account :: "account_code \<Rightarrow> string \<Rightarrow> string \<Rightarrow> string \<Rightarrow> string option \<Rightarrow> int \<Rightarrow> string \<times> account" where
  "toy_account c i ow ty b x = (i, \<lparr>acc_id = i, acc_code = c, acc_owner = ow, acc_owner_type = ty, acc_bank = b,
     acc_ref = None, acc_currency = ''POL'', acc_opened_tick = 0, acc_closed_tick = None, acc_balance = x, acc_entry_balance = x\<rparr>)"

definition toy_entry :: "string \<Rightarrow> int \<Rightarrow> entry" where
  "toy_entry i d = \<lparr>ent_txn = 19937843, ent_tick = 3, ent_event_seq = 7, ent_account = i, ent_direction = d,
     ent_amount = 5000, ent_reason = ''issuance''\<rparr>"

definition toy_ledger :: ledger where
  "toy_ledger = (let es = [toy_entry ''iss:bk_cb'' (-1), toy_entry ''res:bk_1'' 1, toy_entry ''dpl:bk_1'' (-1),
       toy_entry ''dep:ag_1@bk_1'' 1] in
     \<lparr>led_run_id = 1,
      led_accounts = [toy_account Iss ''iss:bk_cb'' ''bk_cb'' ''central_bank'' None (- 5000),
        toy_account Res ''res:bk_1'' ''bk_1'' ''bank'' None 5000, toy_account Dpl ''dpl:bk_1'' ''bk_1'' ''bank'' None (- 5000),
        toy_account Dep ''dep:ag_1@bk_1'' ''ag_1'' ''agent'' (Some ''bk_1'') 5000,
        toy_account Dep ''dep:ag_2@bk_1'' ''ag_2'' ''agent'' (Some ''bk_1'') 0,
        toy_account Dep ''dep:fm_broker@bk_1'' ''fm_broker'' ''firm'' (Some ''bk_1'') 0],
      led_entries = es, led_pending = es, led_dirty = {},
      led_ordinals = [(3, 1)], led_posted = [(3, [19937843])]\<rparr>)"

definition built_ledger :: ledger where
  "built_ledger = demo_issue [demo_leg ''iss:bk_cb'' (-1) 5000 ''issuance'', demo_leg ''res:bk_1'' 1 5000 ''issuance'',
       demo_leg ''dpl:bk_1'' (-1) 5000 ''issuance'', demo_leg ''dep:ag_1@bk_1'' 1 5000 ''issuance'']
     (demo_open Dep ''fm_broker'' ''firm'' (Some ''bk_1'') (demo_open Dep ''ag_2'' ''agent'' (Some ''bk_1'')
     (demo_open Dep ''ag_1'' ''agent'' (Some ''bk_1'') (demo_open Dpl ''bk_1'' ''bank'' None (demo_open Res ''bk_1'' ''bank'' None
     (demo_open Iss ''bk_cb'' ''central_bank'' None (empty_ledger 1)))))))"

lemma toy_ledger_built: "led_accounts toy_ledger = led_accounts built_ledger \<and> led_entries toy_ledger = led_entries built_ledger"
  by code_simp

lemma toy_ledger_inv: "ledger_inv toy_ledger"
proof -
  have "ledger_reachable toy_uuid5 built_ledger"
    unfolding built_ledger_def by (intro demo_issue_reachable demo_open_reachable reach_empty)
  then have "ledger_inv built_ledger" by (rule ledger_reachable_inv)
  then show ?thesis by (rule ledger_inv_frame) (simp_all add: toy_ledger_built)
qed

definition toy_world :: "(int \<times> int list) exchange_world" where
  "toy_world = \<lparr>xw_ex = empty_exchange, xw_ledger = toy_ledger, xw_rng = mk_registry 5, xw_log = (0, [])\<rparr>"

definition toy_order :: "uuid \<Rightarrow> string \<Rightarrow> string \<Rightarrow> int \<Rightarrow> exchange_action" where
  "toy_order u who sd limit = \<lparr>xa_id = u, xa_actor = who, xa_kind = SubmitOrder, xp_symbol = ''pols'', xp_side = Some sd,
     xp_order_type = Some ''limit'', xp_qty = 10, xp_limit = Some (Some limit), xp_flags = [], xp_collateral = 0,
     xp_order_id = [], xp_firm = [], xp_shares = 0, xp_primary = 0, xp_secondary = 0, xp_low = 0, xp_high = 0, xp_underwriter = []\<rparr>"

definition toy_actions :: "exchange_action list" where
  "toy_actions = [toy_order (2 ^ 100) ''ag_1'' ''buy'' 105, toy_order (2 ^ 101) ''ag_2'' ''sell'' 95]"

definition at_tick :: "int \<Rightarrow> (int \<times> int list) exchange_world \<Rightarrow> (int \<times> int list) exchange_world" where
  "at_tick t w = w\<lparr>xw_log := (t, [])\<rparr>"

definition tick_of :: "profile_name \<Rightarrow> exchange_action list \<Rightarrow> int \<Rightarrow> (int \<times> int list) exchange_world \<Rightarrow> (int \<times> int list) exchange_world" where
  \<comment> \<open>the world after a tick\<close>
  "tick_of profile as t w = (case resolve (toy_env profile) as t (at_tick t w) of Inl _ \<Rightarrow> toy_world | Inr (_, w') \<Rightarrow> w')"

definition listed_world :: "profile_name \<Rightarrow> (int \<times> int list) exchange_world" where
  \<comment> \<open>the founder holds the thousand shares of the listed firm\<close>
  "listed_world profile = tick_of profile [] 0 toy_world"

lemma tick_inv_empty:
  assumes "ledger_inv (xw_ledger w)" "xw_ex w = empty_exchange" "list_all (\<lambda>(k, a). acc_code a \<noteq> Esc) (led_accounts (xw_ledger w))"
  shows "tick_inv X w"
proof -
  have "filter (\<lambda>a. acc_code a = Esc \<and> acc_owner a = t) (dvals (led_accounts (xw_ledger w))) = []" for t
    using assms(3) by (auto simp: list_all_iff filter_empty_conv)
  then have "escrow_held (xw_ledger w) t = 0" for t by (simp add: escrow_held_def sum_balances_def)
  then show ?thesis using assms(1)
    by (auto simp: tick_inv_def market_fit_def resting_iff assms(2) empty_exchange_def orders_fit_def rows_ok_def reserved_ok_def
        securities_ok_def shorts_ok_def ipos_ok_def holding_of_def escrow_due_def order_sum_def short_sum_def ipo_sum_def)
qed

lemma toy_world_inv: "tick_inv X (at_tick t toy_world)"
  by (rule tick_inv_empty) (simp_all add: at_tick_def toy_world_def toy_ledger_inv, simp add: toy_ledger_def toy_account_def Let_def)

lemma at_tick_sel [simp]: "xw_ex (at_tick t w) = xw_ex w" "xw_ledger (at_tick t w) = xw_ledger w"
  by (simp_all add: at_tick_def)

lemma tick_inv_at: "tick_inv X w \<Longrightarrow> tick_inv X (at_tick t w)"
  by (simp add: tick_inv_def market_fit_def)

lemma toy_settings: "fees_ok (toy_env profile)" "issuers_ok (toy_env profile)"
  by (simp_all add: fees_ok_def issuers_ok_def toy_env_def plain_id_def)

definition one_bid :: "exchange_action list" where
  "one_bid = [toy_order 5 ''ag_1'' ''buy'' 105]"

definition bid_world :: "(int \<times> int list) exchange_world" where
  \<comment> \<open>in the session of the first day a bid for ten shares at 105 rests\<close>
  "bid_world = tick_of Microscope one_bid 10 (listed_world Microscope)"

lemma listed_run: "isl (resolve (toy_env Microscope) [] 0 (at_tick 0 toy_world)) = False"
  by code_simp

lemma listed_empty:
  "ex_orders (xw_ex (listed_world Microscope)) = [] \<and> ex_shorts (xw_ex (listed_world Microscope)) = []"
  by code_simp

lemma bid_run: "isl (resolve (toy_env Microscope) one_bid 10 (at_tick 10 (listed_world Microscope))) = False"
  by code_simp

lemma bid_rests: "map ord_reserved_cents (dvals (ex_orders (xw_ex bid_world))) = [1060]"
  by code_simp

lemma tick_of_inv:
  assumes "tick_inv (toy_env profile) w" "isl (resolve (toy_env profile) as t (at_tick t w)) = False"
    "list_all sane_action (filter (\<lambda>a. xa_kind a = SubmitOrder \<or> xa_kind a = ShortSale) as)"
    "names_fresh (toy_env profile) as t (xw_ex w)"
  shows "tick_inv (toy_env profile) (tick_of profile as t w)"
proof -
  obtain es w' where run: "resolve (toy_env profile) as t (at_tick t w) = Inr (es, w')"
    using assms(2) by (cases "resolve (toy_env profile) as t (at_tick t w)") auto
  have "tick_inv (toy_env profile) w'"
    using afterD[OF resolve_keeps[OF toy_settings tick_inv_at[OF assms(1)] assms(3)] run] assms(4) by simp
  then show ?thesis using run by (simp add: tick_of_def)
qed

lemma listed_inv: "tick_inv (toy_env Microscope) (listed_world Microscope)"
proof -
  have "tick_inv (toy_env Microscope) (at_tick 0 toy_world)" by (rule toy_world_inv)
  then have "tick_inv (toy_env Microscope) toy_world" by (simp add: tick_inv_def market_fit_def)
  then show ?thesis unfolding listed_world_def
    by (rule tick_of_inv) (use listed_run in \<open>simp_all add: names_fresh_def order_actions_def toy_world_def empty_exchange_def\<close>)
qed

lemma one_bid_ok:
  "list_all sane_action (filter (\<lambda>a. xa_kind a = SubmitOrder \<or> xa_kind a = ShortSale) one_bid)"
  "names_fresh X one_bid t (xw_ex (listed_world Microscope))"
  using listed_empty by (simp_all add: one_bid_def toy_order_def sane_action_def plain_id_def names_fresh_def order_actions_def)

lemma bid_inv: "tick_inv (toy_env Microscope) bid_world"
  unfolding bid_world_def by (rule tick_of_inv[OF listed_inv bid_run one_bid_ok])

theorem resolve_keeps_market_witness:
  "tick_inv (toy_env Microscope) bid_world \<and> map ord_reserved_cents (dvals (ex_orders (xw_ex bid_world))) = [1060]"
proof -
  obtain es w' where run: "resolve (toy_env Microscope) one_bid 10 (at_tick 10 (listed_world Microscope)) = Inr (es, w')"
    using bid_run by (cases "resolve (toy_env Microscope) one_bid 10 (at_tick 10 (listed_world Microscope))") auto
  have "tick_inv (toy_env Microscope) w'"
    by (rule resolve_keeps_market[OF toy_settings tick_inv_at[OF listed_inv] one_bid_ok(1) _ run]) (simp add: one_bid_ok(2))
  then show ?thesis using bid_rests run by (simp add: bid_world_def tick_of_def)
qed

theorem exchange_checks_witness:
  "share_invariant_failures (xw_ex bid_world) = [] \<and> length (ex_holdings (xw_ex bid_world)) = 1"
proof -
  have "shorts_closed (xw_ex bid_world)" "length (ex_holdings (xw_ex bid_world)) = 1" by code_simp+
  then show ?thesis using exchange_checks[OF bid_inv] by blast
qed

definition bid_name :: string where
  "bid_name = ''or_000000000000000000000000''"

lemma bid_order:
  "(case dget (ex_orders (xw_ex bid_world)) bid_name of None \<Rightarrow> False
    | Some r \<Rightarrow> active r \<and> ord_side r = Buy \<and> ord_limit r = Some 105 \<and> ord_remaining r = 10 \<and> ord_trader r = ''ag_1'')
   \<and> escrow_held (xw_ledger bid_world) ''ag_1'' = 1060"
  by code_simp

lemma bid_cancel_run: "isl (cancel_order (toy_env Microscope) bid_name 11 ''trader'' False (at_tick 11 bid_world)) = False"
  by code_simp

theorem cancel_releases_witness:
  "after (cancel_order (toy_env Microscope) bid_name 11 ''trader'' False) (\<lambda>_ w'. escrow_held (xw_ledger w') ''ag_1'' = 0)
     (at_tick 11 bid_world)
   \<and> isl (cancel_order (toy_env Microscope) bid_name 11 ''trader'' False (at_tick 11 bid_world)) = False"
proof -
  obtain r where r: "dget (ex_orders (xw_ex bid_world)) bid_name = Some r" "active r" "ord_side r = Buy" "ord_limit r = Some 105"
      "ord_remaining r = 10" "ord_trader r = ''ag_1''" and held: "escrow_held (xw_ledger bid_world) ''ag_1'' = 1060"
    using bid_order by (auto split: option.splits)
  have inv: "market_inv (toy_env Microscope) (at_tick 11 bid_world)" using tick_inv_at[OF bid_inv] by (simp add: tick_inv_def)
  have com: "commission (toy_env Microscope) 105 = 1" by code_simp
  have "escrow_held (xw_ledger w') ''ag_1'' = 0"
    if "cancel_order (toy_env Microscope) bid_name 11 ''trader'' False (at_tick 11 bid_world) = Inr (es, w')" for es w'
    using cancel_releases[OF inv _ r(2,3,4) that, of "''ag_1''"] r held com by simp
  then show ?thesis using bid_cancel_run by (auto intro: afterI)
qed

theorem self_crosses_end_witness:
  "cancel_self_crosses (toy_env Microscope) ''POLS'' 11 bid_world \<noteq> Inl ExFuel"
  using self_crosses_end[of "toy_env Microscope" bid_world "''POLS''" 11] bid_inv by (simp add: tick_inv_def)

definition toy_security :: security_state where
  "toy_security = \<lparr>sec_symbol = ''POLS'', sec_issuer = ''fm_1'', sec_class = ''common'', sec_shares = 1000, sec_listed_tick = 0,
     sec_listing_price = 100, sec_last_price = 100, sec_reference_price = 100, sec_ipo_round = None, sec_lockup_until = None,
     sec_status = ''listed'', sec_delisted_tick = None, sec_halt_until = None, sec_breaker_count = 0\<rparr>"

definition toy_book :: "order_state list" where
  \<comment> \<open>a bid at 105 and an offer at 95\<close>
  "toy_book = [(placed_order (toy_order 5 ''ag_1'' ''buy'' 105) ''POLS'' 0 1 Buy LimitOrder (Some 105) 1060 0)\<lparr>ord_id := ''or_a''\<rparr>,
     (placed_order (toy_order 6 ''ag_2'' ''sell'' 95) ''POLS'' 1 1 Sell LimitOrder (Some 95) 0 10)\<lparr>ord_id := ''or_b''\<rparr>]"


end
