(* ===== verification/Kinds_Fields.thy ===== *)
theory Kinds_Fields
  imports Kinds_Table_Spec
begin

text \<open>
  The fields a kind requires of a payload, as facts a proof can rewrite with.
\<close>

definition payload_complete :: "int \<Rightarrow> payload \<Rightarrow> bool" where
  \<comment> \<open>the kind is registered and every field its schema requires is there\<close>
  "payload_complete k pl = (case find (\<lambda>d. kd_kind d = k) kind_table of
     None \<Rightarrow> False | Some d \<Rightarrow> list_all (\<lambda>f. f \<in> set (map fst pl)) (kd_required d))"

lemma find_kind:
  assumes "d \<in> set kind_table"
  shows "find (\<lambda>e. kd_kind e = kd_kind d) kind_table = Some d"
proof -
  have "find (\<lambda>e. kd_kind e = kd_kind d) ds = Some d" if "d \<in> set ds" "distinct (map kd_kind ds)" for ds
    using that by (induction ds) (auto simp: image_iff)
  then show ?thesis using assms table_distinct(1) by blast
qed

lemma market_kinds_known:
  "\<forall>d\<in>set (kinds_from_6040 @ kinds_from_7010 @ kinds_from_7061 @ kinds_from_8006 @ kinds_from_8030 @ kinds_from_8054).
     \<forall>pl. payload_complete (kd_kind d) pl = list_all (\<lambda>f. f \<in> set (map fst pl)) (kd_required d)"
proof -
  have "payload_complete (kd_kind d) pl = list_all (\<lambda>f. f \<in> set (map fst pl)) (kd_required d)" if "d \<in> set kind_table" for d pl
    by (simp add: payload_complete_def find_kind[OF that])
  then show ?thesis unfolding kind_table_def concat.simps set_append by blast
qed

lemmas complete_kinds = market_kinds_known[unfolded kinds_from_6040_def kinds_from_7010_def kinds_from_7061_def kinds_from_8006_def
  kinds_from_8030_def kinds_from_8054_def kd_def set_append set_simps Un_insert_left Un_empty_left ball_simps
  kind_decl.simps list.pred_inject]

end
