(* ===== verification/Exchange_Events.thy ===== *)
theory Exchange_Events
  imports Exchange_Market Kinds_Fields
begin

text \<open>
  The events of the exchange against the table of kinds, as for the banking engine: a log that refuses
  events without the fields their kind requires changes nothing.
\<close>

definition checked_exchange :: "'l exchange_env \<Rightarrow> 'l exchange_env" where
  "checked_exchange X = X\<lparr>xe_emit := \<lambda>d lg. if payload_complete (ne_kind d) (ne_payload d) then xe_emit X d lg
     else Inl (LogSchema (ne_kind d) [] ''required'')\<rparr>"

named_theorems exchange_checked \<open>operations of the exchange that do not notice the check\<close>

lemma exchange_checked_settings [exchange_checked]:
  "xe_enabled (checked_exchange X) = xe_enabled X" "xe_tick_size (checked_exchange X) = xe_tick_size X" "xe_commission_bp (checked_exchange X) = xe_commission_bp X"
  "xe_commission_floor (checked_exchange X) = xe_commission_floor X" "xe_max_order_qty_bp (checked_exchange X) = xe_max_order_qty_bp X" "xe_band_bp (checked_exchange X) = xe_band_bp X"
  "xe_halt_ticks (checked_exchange X) = xe_halt_ticks X" "xe_max_halts (checked_exchange X) = xe_max_halts X" "xe_max_short_bp (checked_exchange X) = xe_max_short_bp X"
  "xe_initial_margin_bp (checked_exchange X) = xe_initial_margin_bp X" "xe_maintenance_margin_bp (checked_exchange X) = xe_maintenance_margin_bp X" "xe_borrow_fee_bp (checked_exchange X) = xe_borrow_fee_bp X"
  "xe_ipo_min_age_days (checked_exchange X) = xe_ipo_min_age_days X" "xe_ipo_min_revenue (checked_exchange X) = xe_ipo_min_revenue X" "xe_ipo_book_days (checked_exchange X) = xe_ipo_book_days X"
  "xe_underwriter_discount_bp (checked_exchange X) = xe_underwriter_discount_bp X" "xe_underwriting_fee_bp (checked_exchange X) = xe_underwriting_fee_bp X" "xe_listing_fee (checked_exchange X) = xe_listing_fee X"
  "xe_lockup_days (checked_exchange X) = xe_lockup_days X" "xe_bootstrap_day (checked_exchange X) = xe_bootstrap_day X" "xe_bootstrap_shares (checked_exchange X) = xe_bootstrap_shares X"
  "xe_bootstrap_price (checked_exchange X) = xe_bootstrap_price X" "xe_profile (checked_exchange X) = xe_profile X" "xe_ticks_per_day (checked_exchange X) = xe_ticks_per_day X"
  "xe_days_per_year (checked_exchange X) = xe_days_per_year X" "xe_agents (checked_exchange X) = xe_agents X" "xe_firms (checked_exchange X) = xe_firms X"
  "xe_banks (checked_exchange X) = xe_banks X" "xe_startups (checked_exchange X) = xe_startups X" "xe_bankruptcies (checked_exchange X) = xe_bankruptcies X"
  "xe_uuid5 (checked_exchange X) = xe_uuid5 X" "xe_uuid5_url (checked_exchange X) = xe_uuid5_url X" "xe_uuid_text (checked_exchange X) = xe_uuid_text X"
  "xe_digest (checked_exchange X) = xe_digest X" "xe_repr (checked_exchange X) = xe_repr X"
  by (simp_all add: checked_exchange_def)

lemma exchange_checked_emit [exchange_checked]:
  "payload_complete k pl \<Longrightarrow> x_emit (checked_exchange X) k pl actor subjects = x_emit X k pl actor subjects"
  by (simp add: x_emit_def checked_exchange_def fun_eq_iff)

lemmas exchange_congs = if_cong option.case_cong prod.case_cong list.case_cong sum.case_cong

section \<open>Orders, cancellations and fills\<close>

lemma exchange_checked_x_post [exchange_checked]: "x_post (checked_exchange X) = x_post X"
  by (intro ext) (simp add: x_post_def Let_def exchange_checked complete_kinds cong: exchange_congs)

lemma exchange_checked_x_next_txn [exchange_checked]: "x_next_txn (checked_exchange X) = x_next_txn X"
  by (intro ext) (simp add: x_next_txn_def Let_def exchange_checked complete_kinds cong: exchange_congs)

lemma exchange_checked_owner_type_of [exchange_checked]: "owner_type_of (checked_exchange X) = owner_type_of X"
  by (intro ext) (simp add: owner_type_of_def Let_def exchange_checked complete_kinds cong: exchange_congs)

lemma exchange_checked_escrow_account [exchange_checked]: "escrow_account (checked_exchange X) = escrow_account X"
  by (intro ext) (simp add: escrow_account_def Let_def exchange_checked complete_kinds cong: exchange_congs)

lemma exchange_checked_commission [exchange_checked]: "commission (checked_exchange X) = commission X"
  by (intro ext) (simp add: commission_def Let_def exchange_checked complete_kinds cong: exchange_congs)

lemma exchange_checked_reserve_required [exchange_checked]: "reserve_required (checked_exchange X) = reserve_required X"
  by (intro ext) (simp add: reserve_required_def Let_def exchange_checked complete_kinds cong: exchange_congs)

lemma exchange_checked_band [exchange_checked]: "band (checked_exchange X) = band X"
  by (intro ext) (simp add: band_def Let_def exchange_checked complete_kinds cong: exchange_congs)

lemma exchange_checked_in_band [exchange_checked]: "in_band (checked_exchange X) = in_band X"
  by (intro ext) (simp add: in_band_def Let_def exchange_checked complete_kinds cong: exchange_congs)

lemma exchange_checked_under_stay [exchange_checked]: "under_stay (checked_exchange X) = under_stay X"
  by (intro ext) (simp add: under_stay_def Let_def exchange_checked complete_kinds cong: exchange_congs)

lemma exchange_checked_cancel_order [exchange_checked]: "cancel_order (checked_exchange X) = cancel_order X"
  by (intro ext) (simp add: cancel_order_def Let_def exchange_checked complete_kinds cong: exchange_congs)

lemma exchange_checked_cancel_action [exchange_checked]: "cancel_action (checked_exchange X) = cancel_action X"
  by (intro ext) (simp add: cancel_action_def Let_def exchange_checked complete_kinds cong: exchange_congs)

lemma exchange_checked_delist [exchange_checked]: "delist (checked_exchange X) = delist X"
  by (intro ext) (simp add: delist_def Let_def exchange_checked complete_kinds cong: exchange_congs)

lemma exchange_checked_cancel_entity [exchange_checked]: "cancel_entity (checked_exchange X) = cancel_entity X"
  by (intro ext) (simp add: cancel_entity_def Let_def exchange_checked complete_kinds cong: exchange_congs)

lemma exchange_checked_fill_events [exchange_checked]: "fill_events (checked_exchange X) = fill_events X"
  by (intro ext) (simp add: fill_events_def Let_def exchange_checked complete_kinds cong: exchange_congs)

lemma exchange_checked_add_short [exchange_checked]: "add_short (checked_exchange X) = add_short X"
  by (intro ext) (simp add: add_short_def Let_def exchange_checked complete_kinds cong: exchange_congs)

lemma exchange_checked_record_short [exchange_checked]: "record_short (checked_exchange X) = record_short X"
  by (intro ext) (simp add: record_short_def Let_def exchange_checked complete_kinds cong: exchange_congs)

lemma exchange_checked_record_cover [exchange_checked]: "record_cover (checked_exchange X) = record_cover X"
  by (intro ext) (simp add: record_cover_def Let_def exchange_checked complete_kinds cong: exchange_congs)

lemma exchange_checked_reserve_price_of [exchange_checked]: "reserve_price_of (checked_exchange X) = reserve_price_of X"
  by (intro ext) (simp add: reserve_price_of_def Let_def exchange_checked complete_kinds cong: exchange_congs)

lemma exchange_checked_settle_short [exchange_checked]: "settle_short (checked_exchange X) = settle_short X"
  by (intro ext) (simp add: settle_short_def Let_def exchange_checked complete_kinds cong: exchange_congs)

lemma exchange_checked_settle [exchange_checked]: "settle (checked_exchange X) = settle X"
  by (intro ext) (simp add: settle_def trade_payload_def Let_def exchange_checked complete_kinds cong: exchange_congs)

section \<open>The market\<close>

lemma exchange_checked_list_security [exchange_checked]: "list_security (checked_exchange X) = list_security X"
  by (intro ext) (simp add: list_security_def Let_def exchange_checked complete_kinds cong: exchange_congs)

lemma exchange_checked_bootstrap_listing [exchange_checked]: "bootstrap_listing (checked_exchange X) = bootstrap_listing X"
  by (intro ext) (simp add: bootstrap_listing_def Let_def exchange_checked complete_kinds cong: exchange_congs)

lemma exchange_checked_session_state [exchange_checked]: "session_state (checked_exchange X) = session_state X"
  by (intro ext) (simp add: session_state_def Let_def exchange_checked complete_kinds cong: exchange_congs)

lemma exchange_checked_open_session [exchange_checked]: "open_session (checked_exchange X) = open_session X"
  by (intro ext) (simp add: open_session_def Let_def exchange_checked complete_kinds cong: exchange_congs)

lemma exchange_checked_market_data [exchange_checked]: "market_data (checked_exchange X) = market_data X"
  by (intro ext) (simp add: market_data_def Let_def exchange_checked complete_kinds cong: exchange_congs)

lemma exchange_checked_index_event [exchange_checked]: "index_event (checked_exchange X) = index_event X"
  by (intro ext) (simp add: index_event_def Let_def exchange_checked complete_kinds cong: exchange_congs)

lemma exchange_checked_book_snapshot [exchange_checked]: "book_snapshot (checked_exchange X) = book_snapshot X"
  by (intro ext) (simp add: book_snapshot_def Let_def exchange_checked complete_kinds cong: exchange_congs)

lemma exchange_checked_close_session [exchange_checked]: "close_session (checked_exchange X) = close_session X"
  by (intro ext) (simp add: close_session_def Let_def exchange_checked complete_kinds cong: exchange_congs)

lemma exchange_checked_trigger_breaker [exchange_checked]: "trigger_breaker (checked_exchange X) = trigger_breaker X"
  by (intro ext) (simp add: trigger_breaker_def Let_def exchange_checked complete_kinds cong: exchange_congs)

lemma exchange_checked_resume_halts [exchange_checked]: "resume_halts (checked_exchange X) = resume_halts X"
  by (intro ext) (simp add: resume_halts_def Let_def exchange_checked complete_kinds cong: exchange_congs)

lemma exchange_checked_settle_in_band [exchange_checked]: "settle_in_band (checked_exchange X) = settle_in_band X"
  by (intro ext) (simp add: settle_in_band_def Let_def exchange_checked complete_kinds cong: exchange_congs)

lemma exchange_checked_self_cross_loop [exchange_checked]: "self_cross_loop (checked_exchange X) = self_cross_loop X"
proof -
  have "self_cross_loop (checked_exchange X) symbol tick fuel = self_cross_loop X symbol tick fuel" for symbol tick fuel
    by (induction fuel) (simp_all add: Let_def exchange_checked complete_kinds cong: exchange_congs)
  then show ?thesis by (intro ext) simp
qed

lemma exchange_checked_cancel_self_crosses [exchange_checked]: "cancel_self_crosses (checked_exchange X) = cancel_self_crosses X"
  by (intro ext) (simp add: cancel_self_crosses_def Let_def exchange_checked complete_kinds cong: exchange_congs)

lemma exchange_checked_match_call [exchange_checked]: "match_call (checked_exchange X) = match_call X"
  by (intro ext) (simp add: match_call_def Let_def exchange_checked complete_kinds cong: exchange_congs)

lemma exchange_checked_match_continuous [exchange_checked]: "match_continuous (checked_exchange X) = match_continuous X"
  by (intro ext) (simp add: match_continuous_def Let_def exchange_checked complete_kinds cong: exchange_congs)

lemma exchange_checked_reject [exchange_checked]: "reject (checked_exchange X) = reject X"
  by (intro ext) (simp add: reject_def Let_def exchange_checked complete_kinds cong: exchange_congs)

lemma exchange_checked_rejected [exchange_checked]: "rejected (checked_exchange X) = rejected X"
  by (intro ext) (simp add: rejected_def Let_def exchange_checked complete_kinds cong: exchange_congs)

lemma exchange_checked_ipo_indication [exchange_checked]: "ipo_indication (checked_exchange X) = ipo_indication X"
  by (intro ext) (simp add: ipo_indication_def Let_def exchange_checked complete_kinds cong: exchange_congs)

lemma exchange_checked_max_order_qty [exchange_checked]: "max_order_qty (checked_exchange X) = max_order_qty X"
  by (intro ext) (simp add: max_order_qty_def Let_def exchange_checked complete_kinds cong: exchange_congs)

lemma exchange_checked_bad_price [exchange_checked]: "bad_price (checked_exchange X) = bad_price X"
  by (intro ext) (simp add: bad_price_def Let_def exchange_checked complete_kinds cong: exchange_congs)

lemma exchange_checked_place_order [exchange_checked]: "place_order (checked_exchange X) = place_order X"
  by (intro ext) (simp add: place_order_def Let_def exchange_checked complete_kinds cong: exchange_congs)

lemma exchange_checked_admit_funded [exchange_checked]: "admit_funded (checked_exchange X) = admit_funded X"
  by (intro ext) (simp add: admit_funded_def Let_def exchange_checked complete_kinds cong: exchange_congs)

lemma exchange_checked_admit_checked [exchange_checked]: "admit_checked (checked_exchange X) = admit_checked X"
  by (intro ext) (simp add: admit_checked_def Let_def exchange_checked complete_kinds cong: exchange_congs)

lemma exchange_checked_admit [exchange_checked]: "admit (checked_exchange X) = admit X"
  by (intro ext) (simp add: admit_def Let_def exchange_checked complete_kinds cong: exchange_congs)

lemma exchange_checked_margin_call [exchange_checked]: "margin_call (checked_exchange X) = margin_call X"
  by (intro ext) (simp add: margin_call_def Let_def exchange_checked complete_kinds cong: exchange_congs)

lemma exchange_checked_borrow_fee [exchange_checked]: "borrow_fee (checked_exchange X) = borrow_fee X"
  by (intro ext) (simp add: borrow_fee_def Let_def exchange_checked complete_kinds cong: exchange_congs)

lemma exchange_checked_mark_short [exchange_checked]: "mark_short (checked_exchange X) = mark_short X"
  by (intro ext) (simp add: mark_short_def Let_def exchange_checked complete_kinds cong: exchange_congs)

lemma exchange_checked_mark_shorts [exchange_checked]: "mark_shorts (checked_exchange X) = mark_shorts X"
  by (intro ext) (simp add: mark_shorts_def Let_def exchange_checked complete_kinds cong: exchange_congs)

lemma exchange_checked_py_dict_repr [exchange_checked]: "py_dict_repr (checked_exchange X) = py_dict_repr X"
  by (intro ext) (simp add: py_dict_repr_def Let_def exchange_checked complete_kinds cong: exchange_congs)

lemma exchange_checked_cover_action [exchange_checked]: "cover_action (checked_exchange X) = cover_action X"
  by (intro ext) (simp add: cover_action_def Let_def exchange_checked complete_kinds cong: exchange_congs)

lemma exchange_checked_forced_cover_actions [exchange_checked]: "forced_cover_actions (checked_exchange X) = forced_cover_actions X"
  by (intro ext) (simp add: forced_cover_actions_def Let_def exchange_checked complete_kinds cong: exchange_congs)

lemma exchange_checked_ipo_ineligible [exchange_checked]: "ipo_ineligible (checked_exchange X) = ipo_ineligible X"
  by (intro ext) (simp add: ipo_ineligible_def Let_def exchange_checked complete_kinds cong: exchange_congs)

lemma exchange_checked_ipo_invalid [exchange_checked]: "ipo_invalid (checked_exchange X) = ipo_invalid X"
  by (intro ext) (simp add: ipo_invalid_def Let_def exchange_checked complete_kinds cong: exchange_congs)

lemma exchange_checked_announce_ipo [exchange_checked]: "announce_ipo (checked_exchange X) = announce_ipo X"
  by (intro ext) (simp add: announce_ipo_def Let_def exchange_checked complete_kinds cong: exchange_congs)

lemma exchange_checked_ipo_offer [exchange_checked]: "ipo_offer (checked_exchange X) = ipo_offer X"
  by (intro ext) (simp add: ipo_offer_def Let_def exchange_checked complete_kinds cong: exchange_congs)

lemma exchange_checked_ipo_eligible [exchange_checked]: "ipo_eligible (checked_exchange X) = ipo_eligible X"
  by (intro ext) (simp add: ipo_eligible_def Let_def exchange_checked complete_kinds cong: exchange_congs)

lemma exchange_checked_complete_ipo [exchange_checked]: "complete_ipo (checked_exchange X) = complete_ipo X"
  by (intro ext) (simp add: complete_ipo_def Let_def exchange_checked complete_kinds cong: exchange_congs)

lemma exchange_checked_close_ipos [exchange_checked]: "close_ipos (checked_exchange X) = close_ipos X"
  by (intro ext) (simp add: close_ipos_def Let_def exchange_checked complete_kinds cong: exchange_congs)

lemma exchange_checked_shuffled [exchange_checked]: "shuffled (checked_exchange X) = shuffled X"
  by (intro ext) (simp add: shuffled_def Let_def exchange_checked complete_kinds cong: exchange_congs)

lemma exchange_checked_admit_and_match [exchange_checked]: "admit_and_match (checked_exchange X) = admit_and_match X"
  by (intro ext) (simp add: admit_and_match_def Let_def exchange_checked complete_kinds cong: exchange_congs)

lemma exchange_checked_admit_symbol [exchange_checked]: "admit_symbol (checked_exchange X) = admit_symbol X"
  by (intro ext) (simp add: admit_symbol_def Let_def exchange_checked complete_kinds cong: exchange_congs)

section \<open>A tick\<close>

text \<open>C40. Every event of a tick of the exchange, of a cancellation and of a delisting is of a registered kind and
  carries every field the kind requires.\<close>

theorem exchange_events_complete:
  "resolve (checked_exchange X) actions tick = resolve X actions tick
   \<and> cancel_order (checked_exchange X) i tick reason expired = cancel_order X i tick reason expired
   \<and> delist (checked_exchange X) symbol reason tick = delist X symbol reason tick"
  by (simp add: resolve_def Let_def exchange_checked cong: exchange_congs)

end
