(* ===== verification/Economy.thy ===== *)
theory Economy
  imports Exchange Money Complex_Main
begin

text \<open>
  \<open>polis/economy/state.py\<close>: the records of the economy that credit and banking read and change, the
  settings they use, and access to the shared world. An identifier that is the key of its table is
  looked up there; the tables of banks, firms, loans and applications only grow.
\<close>

declare map_of_eq_Some_iff [simp del] Some_eq_map_of_iff [simp del]

section \<open>Records\<close>

record bank_state =
  bk_id :: string
  bk_name :: string
  bk_place :: string
  bk_reserve :: string
  bk_liability :: string
  bk_central :: bool
  bk_capital :: int
  bk_reserve_ratio :: int
  bk_status :: string
  bk_founded :: int
  bk_failed :: "int option"
  bk_frozen :: bool
  bk_capital_ratio :: int

record loan_application =
  la_id :: string
  la_borrower :: string
  la_lender :: string
  la_requested :: int
  la_purpose :: string
  la_term :: int
  la_collateral :: payload
  la_submitted :: int
  la_status :: string
  la_score :: "int option"
  la_offered :: int
  la_offered_rate :: int
  la_reasons :: "string list"

record loan_state =
  ln_id :: string
  ln_lender :: string
  ln_borrower :: string
  ln_purpose :: string
  ln_principal :: int
  ln_outstanding :: int
  ln_rate :: int
  ln_term :: int
  ln_originated :: int
  ln_matures :: int
  ln_status :: string
  ln_collateral :: payload
  ln_collateral_value :: int
  ln_score :: int
  ln_receivable :: string
  ln_payable :: string
  ln_payment :: int
  ln_payments_n :: int
  ln_next_payment :: int
  ln_accrued :: int
  ln_remainder :: int
  ln_interest_paid :: int
  ln_interest_scheduled :: int
  ln_interest_forgiven :: int
  ln_capitalised :: int
  ln_payments_made :: int
  ln_missed_since :: "int option"
  ln_defaulted :: "int option"
  ln_closed :: "int option"

record loan_payment =
  lp_id :: string
  lp_loan :: string
  lp_tick :: int
  lp_principal :: int
  lp_interest :: int
  lp_missed :: bool

record firm_state =
  fm_id :: string
  fm_name :: string
  fm_sector :: string
  fm_place :: string
  fm_founder :: string
  fm_account :: string
  fm_productivity :: int
  fm_capital :: int
  fm_liquid :: int
  fm_headcount :: int
  fm_target_headcount :: int
  fm_output :: int
  fm_revenue :: int
  fm_wages :: int
  fm_status :: string
  fm_dissolved :: "int option"

record employment_state =
  em_id :: string
  em_agent :: string
  em_firm :: string
  em_occupation :: string
  em_wage :: int
  em_started :: int
  em_match_score :: int
  em_ended :: "int option"
  em_hours :: int
  em_accrued :: int
  em_remainder :: int
  em_paid :: int
  em_last_worked :: "int option"
  em_last_labour :: int

record bond_state =
  bd_symbol :: string
  bd_face :: int
  bd_coupon :: int
  bd_issued :: int
  bd_matures :: int
  bd_holder :: string
  bd_status :: string
  bd_last_coupon :: int

record tax_assessment =
  ta_id :: string
  ta_taxpayer :: string
  ta_type :: string
  ta_base :: int
  ta_rate :: int
  ta_assessed :: int
  ta_tick :: int
  ta_due :: int
  ta_paid :: int
  ta_status :: string

record treasury_state =
  ts_receipts :: int
  ts_spending :: int
  ts_debt_service :: int
  ts_period_receipts :: int
  ts_period_spending :: int
  ts_period_debt :: int
  ts_revenue_marks :: "(string, int) dict"
  ts_wage_marks :: "(string, int) dict"

record agent_view =
  av_id :: string
  av_alive :: bool
  av_age :: int
  av_employment :: string

section \<open>Settings and world\<close>

datatype econ_error =
    EcLedger ledger_error | EcLog log_error | EcMoney money_error | EcRng rng_error
  | EcKey string | EcStopIteration | EcRuntime string | EcValue string | EcZeroDivision

record 'l econ_env =
  ee_ticks_per_day :: int
  ee_days_per_year :: int
  ee_median_wage :: int
  ee_payment_interval_days :: int
  ee_risk_weight :: "(string, int) dict"
  ee_max_term_days :: "(string, int) dict"
  ee_income_multiple :: int
  ee_min_score :: int
  ee_risk_spread_k :: int
  ee_base_spread :: int
  ee_term_premium :: int
  ee_concentration :: int
  ee_delinquency_days :: int
  ee_default_days :: int
  ee_writeoff_days :: int
  ee_delinquency_penalty :: int
  ee_capital_ratio_min :: int
  ee_capital_buffer :: int
  ee_stress_bump :: int
  ee_deposit_rate :: int
  ee_llm_underwriting :: bool
  ee_exogenous_credit :: bool
    \<comment> \<open>\<open>settings.mechanisms.get("credit_supply", "endogenous") == "exogenous"\<close>\<close>
  ee_rate_rule :: string
  ee_rate_setting :: int
  ee_taylor_neutral :: int
  ee_taylor_phi_pi :: int
  ee_taylor_target :: int
  ee_taylor_phi_y :: int
  ee_taylor_low :: int
  ee_taylor_high :: int
  ee_review_days :: int
  ee_interbank_spread :: int
  ee_discount_penalty :: int
  ee_interbank_min_ratio :: int
  ee_interbank_concentration :: int
  ee_resolution :: string
  ee_fire_sale :: int
  ee_insurance_months :: int
  ee_corporate_tax :: int
  ee_arrears_penalty :: int
  ee_benefits_on :: bool
    \<comment> \<open>\<open>mechanisms.get("spend_unemployment_benefit", "on") != "off"\<close>\<close>
  ee_benefit_bp :: int
  ee_retirement_age :: int
  ee_floor :: int
  ee_denomination :: int
  ee_bond_terms :: "int list"
  ee_sovereign_spread :: int
  ee_emit :: "draft \<Rightarrow> 'l \<Rightarrow> log_error + evt \<times> 'l"
  ee_uuid5 :: "uuid \<Rightarrow> string \<Rightarrow> uuid"
  ee_uuid_text :: "uuid \<Rightarrow> string"
  ee_digest :: "string \<Rightarrow> string"
  ee_power :: "rat \<Rightarrow> int \<Rightarrow> rat"
    \<comment> \<open>the power of two decimals in the context of 28 digits\<close>

record 'l econ_world =
  ew_banks :: "(string, bank_state) dict"
  ew_firms :: "(string, firm_state) dict"
  ew_employments :: "(string, employment_state) dict"
  ew_applications :: "(string, loan_application) dict"
  ew_loans :: "(string, loan_state) dict"
  ew_payments :: "loan_payment list"
  ew_bonds :: "(string, (string, int) dict) dict"
    \<comment> \<open>\<open>bond_holdings_cents\<close>: the symbols each holder has\<close>
  ew_bankruptcies :: "(string \<times> string) list"
    \<comment> \<open>the entity and the status of each case\<close>
  ew_policy_rate :: int
  ew_pending_rate :: "(int \<times> int) option"
  ew_cpi :: "(int, int) dict"
  ew_bond_rows :: "(string, bond_state) dict"
  ew_assessments :: "(string, tax_assessment) dict"
  ew_treasury :: treasury_state
  ew_gross_income :: "(int, (string, int) dict) dict"
  ew_agents :: "agent_view list"
  ew_job_applications :: "(string \<times> int) list"
    \<comment> \<open>the applicant and the tick of each job application\<close>
  ew_ledger :: ledger
  ew_rng :: rng_registry
  ew_log :: 'l

type_synonym ('l, 'a) em = "(econ_error, 'l econ_world, 'a) prog"

section \<open>Access\<close>

definition e_emit :: "'l econ_env \<Rightarrow> int \<Rightarrow> payload \<Rightarrow> string option \<Rightarrow> string list \<Rightarrow> ('l, evt) em" where
  "e_emit E kind pl actor subjects w =
     (case ee_emit E \<lparr>ne_kind = kind, ne_payload = pl, ne_actor_id = actor, ne_subject_ids = subjects,
              ne_cause_seq = None, ne_sig = None\<rparr> (ew_log w) of
        Inl e \<Rightarrow> Inl (EcLog e) | Inr (ev, l) \<Rightarrow> Inr (ev, w\<lparr>ew_log := l\<rparr>))"

definition e_ledger :: "(ledger \<Rightarrow> 'a) \<Rightarrow> ('l, 'a) em" where
  "e_ledger f = m_read (\<lambda>w. f (ew_ledger w))"

definition e_res :: "ledger_error + 'a \<Rightarrow> ('l, 'a) em" where
  "e_res r = m_res (case r of Inl e \<Rightarrow> Inl (EcLedger e) | Inr x \<Rightarrow> Inr x)"

definition e_balance :: "string \<Rightarrow> ('l, int) em" where
  "e_balance v = m_bind (e_ledger (\<lambda>l. balance l v)) e_res"

definition e_post :: "'l econ_env \<Rightarrow> leg list \<Rightarrow> int \<Rightarrow> evt \<Rightarrow> ('l, uuid) em" where
  "e_post E legs tick cause w =
     (case post_transaction (ee_uuid5 E) legs tick cause [] (ew_ledger w) of
        Inl e \<Rightarrow> Inl (EcLedger e) | Inr (txn, l) \<Rightarrow> Inr (txn, w\<lparr>ew_ledger := l\<rparr>))"

definition e_post_neg :: "'l econ_env \<Rightarrow> leg list \<Rightarrow> int \<Rightarrow> evt \<Rightarrow> string list \<Rightarrow> ('l, uuid) em" where
  \<comment> \<open>with \<open>allow_negative\<close>\<close>
  "e_post_neg E legs tick cause neg w =
     (case post_transaction (ee_uuid5 E) legs tick cause neg (ew_ledger w) of
        Inl e \<Rightarrow> Inl (EcLedger e) | Inr (txn, l) \<Rightarrow> Inr (txn, w\<lparr>ew_ledger := l\<rparr>))"

definition e_issue :: "'l econ_env \<Rightarrow> leg list \<Rightarrow> int \<Rightarrow> evt \<Rightarrow> ('l, uuid) em" where
  "e_issue E legs tick cause w =
     (case issue_base_money (ee_uuid5 E) legs tick cause (ew_ledger w) of
        Inl e \<Rightarrow> Inl (EcLedger e) | Inr (txn, l) \<Rightarrow> Inr (txn, w\<lparr>ew_ledger := l\<rparr>))"

definition e_next_txn :: "'l econ_env \<Rightarrow> int \<Rightarrow> ('l, uuid) em" where
  "e_next_txn E tick w = (let (txn, l) = next_txn_id (ee_uuid5 E) tick (ew_ledger w) in Inr (txn, w\<lparr>ew_ledger := l\<rparr>))"

definition e_open :: "account_code \<Rightarrow> string \<Rightarrow> string \<Rightarrow> string option \<Rightarrow> string option \<Rightarrow> int \<Rightarrow> ('l, string) em" where
  "e_open code owner ty bank ref tick w =
     (case open_account code owner ty bank ref tick (ew_ledger w) of
        Inl e \<Rightarrow> Inl (EcLedger e) | Inr (v, l) \<Rightarrow> Inr (v, w\<lparr>ew_ledger := l\<rparr>))"

definition e_loan :: "string \<Rightarrow> ('l, loan_state) em" where
  "e_loan i = m_bind (m_read (\<lambda>w. dget (ew_loans w) i)) (\<lambda>r.
     case r of None \<Rightarrow> m_raise (EcKey i) | Some x \<Rightarrow> m_return x)"

definition upd_loan :: "string \<Rightarrow> (loan_state \<Rightarrow> loan_state) \<Rightarrow> 'l econ_world \<Rightarrow> 'l econ_world" where
  \<comment> \<open>assignments to the attributes of a loan of the table\<close>
  "upd_loan i f w = (case dget (ew_loans w) i of None \<Rightarrow> w | Some x \<Rightarrow> w\<lparr>ew_loans := dset i (f x) (ew_loans w)\<rparr>)"

definition e_bank :: "string \<Rightarrow> ('l, bank_state) em" where
  "e_bank i = m_bind (m_read (\<lambda>w. dget (ew_banks w) i)) (\<lambda>r.
     case r of None \<Rightarrow> m_raise (EcKey i) | Some x \<Rightarrow> m_return x)"

definition loan_ids :: "'l econ_world \<Rightarrow> string list" where
  \<comment> \<open>the loans sorted by \<open>loan_id\<close>, which is their key\<close>
  "loan_ids w = sort (dkeys (ew_loans w))"

definition mk_leg :: "string \<Rightarrow> int \<Rightarrow> int \<Rightarrow> string \<Rightarrow> leg" where
  "mk_leg a d m r = \<lparr>leg_account = a, leg_direction = d, leg_amount = m, leg_reason = r\<rparr>"

definition ticks_per_year :: "'l econ_env \<Rightarrow> int" where
  "ticks_per_year E = ee_days_per_year E * ee_ticks_per_day E"

definition payment_interval :: "'l econ_env \<Rightarrow> int" where
  "payment_interval E = ee_payment_interval_days E * ee_ticks_per_day E"

definition live_status :: "string \<Rightarrow> bool" where
  \<comment> \<open>\<open>status in {"current", "delinquent", "default"}\<close>\<close>
  "live_status s \<longleftrightarrow> s = ''current'' \<or> s = ''delinquent'' \<or> s = ''default''"

definition in_bankruptcy :: "string \<Rightarrow> 'l econ_world \<Rightarrow> bool" where
  "in_bankruptcy entity w \<longleftrightarrow> list_ex (\<lambda>(e, status). e = entity \<and> status = ''open'') (ew_bankruptcies w)"

end
