(* ===== verification/Credit.thy ===== *)
theory Credit
  imports Economy
begin

text \<open>
  \<open>polis/economy/credit.py\<close>: the scorecard, a bank's decision on a loan and the payment
  schedule; the loans themselves are in the next theory. The answer of the language model in \<open>decide_with_underwriting\<close> is an
  argument. The schedule computes with decimals of 28 digits: every operation is the exact result
  rounded to 28 significant digits, half to even; the power is a parameter.
\<close>

section \<open>Scoring\<close>

record loan_request =
  lq_borrower :: string
  lq_lender :: string
  lq_principal :: int
  lq_purpose :: string
  lq_term :: int
  lq_collateral :: payload
  lq_collateral_value :: int

record borrower =
  bw_employed :: int
  bw_income :: int
  bw_debt_service :: int
  bw_on_time :: int
  bw_payments :: int
  bw_debt :: int
  bw_assets :: int
  bw_bankrupt :: bool
  bw_delinquent :: bool

record score_parts =
  sc_income :: int
  sc_dti :: int
  sc_history :: int
  sc_leverage :: int
  sc_coverage :: int

definition score_components :: "borrower \<Rightarrow> loan_request \<Rightarrow> int \<Rightarrow> int \<Rightarrow> score_parts" where
  \<comment> \<open>the last two arguments are the median wage and the ticks of a year\<close>
  "score_components b q median year =
     \<lparr>sc_income = min 10000 (10000 * bw_employed b div max 1 year)
         * min 10000 (10000 * bw_income b div max 1 median) div 10000,
      sc_dti = min 10000 (10000 * bw_debt_service b div max 1 (bw_income b)),
      sc_history = 10000 * (bw_on_time b + 1) div (bw_payments b + 2),
      sc_leverage = min 10000 (10000 * bw_debt b div max 1 (bw_assets b)),
      sc_coverage = min 10000 (10000 * lq_collateral_value q div max 1 (lq_principal q))\<rparr>"

definition score_raw :: "score_parts \<Rightarrow> int" where
  "score_raw s = (3000 * sc_income s + 2500 * (10000 - sc_dti s) + 2000 * sc_history s
     + 1500 * (10000 - sc_leverage s) + 1000 * sc_coverage s) div 10000"

definition credit_score_bp :: "borrower \<Rightarrow> loan_request \<Rightarrow> int \<Rightarrow> int \<Rightarrow> int \<times> score_parts" where
  \<comment> \<open>a count of payments is not negative, so the history divides by a positive number\<close>
  "credit_score_bp b q median year =
     (let s = score_components b q median year;
          raw = score_raw s;
          raw = (if bw_bankrupt b then raw * 5000 div 10000 else raw);
          raw = (if bw_delinquent b then raw * 7500 div 10000 else raw)
      in (max 0 (min 10000 raw), s))"

section \<open>Banks and borrowers\<close>

definition deposits_cents :: "string \<Rightarrow> ('l, int) em" where
  "deposits_cents i = m_bind (e_bank i) (\<lambda>b. m_bind (e_balance (bk_liability b)) (\<lambda>x. m_return (max 0 (- x))))"

definition reserves_cents :: "string \<Rightarrow> ('l, int) em" where
  "reserves_cents i = m_bind (e_bank i) (\<lambda>b. e_balance (bk_reserve b))"

definition capital_cents :: "string \<Rightarrow> 'l econ_world \<Rightarrow> int" where
  "capital_cents i w = net_worth (ew_ledger w) i
     + (case dget (ew_bonds w) i of None \<Rightarrow> 0 | Some d \<Rightarrow> sum_list (dvals d))"

definition rwa_cents :: "'l econ_env \<Rightarrow> string \<Rightarrow> 'l econ_world \<Rightarrow> int" where
  "rwa_cents E i w = (\<Sum>n\<leftarrow>filter (\<lambda>n. ln_lender n = i \<and> live_status (ln_status n)) (dvals (ew_loans w)).
     bp (ln_outstanding n) (dget_or (ee_risk_weight E) (ln_purpose n) 10000))"

definition capital_ratio_bp :: "'l econ_env \<Rightarrow> string \<Rightarrow> 'l econ_world \<Rightarrow> int" where
  "capital_ratio_bp E i w =
     (let capital = capital_cents i w; rwa = rwa_cents E i w
      in if rwa \<le> 0 then (if 0 \<le> capital then 10000 else - 10000) else 10000 * capital div rwa)"

definition borrower_state :: "'l econ_env \<Rightarrow> string \<Rightarrow> 'l econ_world \<Rightarrow> borrower" where
  \<comment> \<open>every payment belongs to a loan of the table\<close>
  "borrower_state E i w =
     (let job = find (\<lambda>r. em_agent r = i \<and> em_ended r = None) (dvals (ew_employments w));
          net = net_worth (ew_ledger w) i;
          (income, employed, assets) =
            (case dget (ew_firms w) i of
               Some f \<Rightarrow> (max (max (ee_median_wage E) (ee_median_wage E * max 1 (fm_target_headcount f))) (fm_revenue f),
                          ticks_per_year E, max 1 (net + fm_capital f))
             | None \<Rightarrow> (case job of Some r \<Rightarrow> em_wage r * 24 | None \<Rightarrow> 0,
                        if job \<noteq> None then ticks_per_year E else 0, max 1 net));
          loans = filter (\<lambda>n. ln_borrower n = i \<and> live_status (ln_status n)) (dvals (ew_loans w));
          payments = filter (\<lambda>p. case dget (ew_loans w) (lp_loan p) of None \<Rightarrow> False | Some n \<Rightarrow> ln_borrower n = i) (ew_payments w)
      in \<lparr>bw_employed = employed, bw_income = income, bw_debt_service = (\<Sum>n\<leftarrow>loans. ln_payment n * 12),
          bw_on_time = int (length (filter (\<lambda>p. \<not> lp_missed p) payments)), bw_payments = int (length payments),
          bw_debt = (\<Sum>n\<leftarrow>loans. ln_outstanding n), bw_assets = assets, bw_bankrupt = False,
          bw_delinquent = list_ex (\<lambda>n. ln_status n = ''delinquent'' \<or> ln_status n = ''default'') loans\<rparr>)"

section \<open>The decision\<close>

record loan_decision =
  ld_approved :: bool
  ld_score :: int
  ld_components :: score_parts
  ld_offered :: int
  ld_rate :: int
  ld_term :: int
  ld_reasons :: "string list"
  ld_llm_call :: "string option"

definition offer_cap :: "'l econ_env \<Rightarrow> loan_request \<Rightarrow> borrower \<Rightarrow> int" where
  \<comment> \<open>the request, the income cap and the collateral cap\<close>
  "offer_cap E q b = min (lq_principal q) (min (bp (bw_income b) (ee_income_multiple E))
     (if 0 < lq_collateral_value q then lq_collateral_value q else lq_principal q))"

definition offered_rate :: "'l econ_env \<Rightarrow> int \<Rightarrow> int \<Rightarrow> int \<Rightarrow> int" where
  \<comment> \<open>from the policy rate, the score and the term\<close>
  "offered_rate E policy score term =
     (let gap = 10000 - score; spread = ee_risk_spread_k E * gap * gap div 100000000;
          years = max 1 (term div max 1 (ticks_per_year E))
      in policy + ee_base_spread E + spread + years * ee_term_premium E)"

definition bank_reasons :: "'l econ_env \<Rightarrow> loan_request \<Rightarrow> bank_state \<Rightarrow> int \<Rightarrow> int \<Rightarrow> int \<Rightarrow> int \<Rightarrow> int \<Rightarrow> int \<Rightarrow> string list" where
  \<comment> \<open>the bank's constraints: capital ratio, reserves against deposits, concentration\<close>
  "bank_reasons E q bank offered ratio deposits reserves capital existing =
     (if bk_frozen bank \<or> ratio < ee_capital_ratio_min E then [''capital_ratio''] else [])
     @ (if reserves < bp (deposits + offered) (bk_reserve_ratio bank) then [''reserve_ratio''] else [])
     @ (if max 0 (bp capital (ee_concentration E)) < existing + offered then [''concentration''] else [])"

definition decide :: "'l econ_env \<Rightarrow> loan_request \<Rightarrow> borrower \<Rightarrow> bank_state \<Rightarrow> ('l, loan_decision) em" where
  "decide E q b bank =
     (let (score, parts) = credit_score_bp b q (ee_median_wage E) (ticks_per_year E);
          term_cap = dget_or (ee_max_term_days E) (lq_purpose q) (lq_term q) * ee_ticks_per_day E;
          term = max (payment_interval E) (min (lq_term q) term_cap);
          offered = offer_cap E q b in
      m_bind (m_read (capital_cents (bk_id bank))) (\<lambda>capital.
      m_bind (m_read (capital_ratio_bp E (bk_id bank))) (\<lambda>ratio.
      let floor = ee_min_score E + (if ratio < ee_capital_buffer E then ee_stress_bump E else 0);
          reasons = (if score < floor then [''credit_score''] else []) @ (if offered \<le> 0 then [''amount_cap''] else []) in
      m_bind (m_read (\<lambda>w. \<Sum>n\<leftarrow>filter (\<lambda>n. ln_lender n = bk_id bank \<and> ln_borrower n = lq_borrower q
          \<and> live_status (ln_status n)) (dvals (ew_loans w)). ln_outstanding n)) (\<lambda>existing.
      m_bind (if ee_exogenous_credit E then m_return []
              else m_bind (deposits_cents (bk_id bank)) (\<lambda>deposits. m_bind (reserves_cents (bk_id bank)) (\<lambda>reserves.
                m_return (bank_reasons E q bank offered ratio deposits reserves capital existing)))) (\<lambda>more.
      m_bind (m_read ew_policy_rate) (\<lambda>policy.
      let all = reasons @ more in
      m_return \<lparr>ld_approved = (all = []), ld_score = score, ld_components = parts,
        ld_offered = (if all = [] then offered else 0), ld_rate = offered_rate E policy score term, ld_term = term,
        ld_reasons = sort (remdups all), ld_llm_call = None\<rparr>))))))"

record llm_answer =
  lv_call :: string
  lv_usable :: bool
    \<comment> \<open>not degraded, parsed, and a result is present\<close>
  lv_approve :: bool
  lv_rate :: int
  lv_amount :: int

definition underwrite :: "'l econ_env \<Rightarrow> loan_request \<Rightarrow> borrower \<Rightarrow> loan_decision \<Rightarrow> int \<Rightarrow> llm_answer \<Rightarrow> loan_decision" where
  \<comment> \<open>\<open>decide_with_underwriting\<close> after the call of the router\<close>
  "underwrite E q b scored policy v =
     (if \<not> lv_usable v
      then scored\<lparr>ld_approved := False, ld_offered := 0,
        ld_reasons := sort (remdups (ld_reasons scored @ [''llm_unavailable''])), ld_llm_call := Some (lv_call v)\<rparr>
      else
        let hard = filter (\<lambda>r. r \<in> set [''amount_cap'', ''capital_ratio'', ''reserve_ratio'', ''concentration'']) (ld_reasons scored);
            approved = (lv_approve v \<and> hard = []);
            offered = (if approved then min (offer_cap E q b) (max 0 (lv_amount v)) else 0);
            reasons = hard @ (if lv_approve v then [] else [''llm_denied'']);
            reasons = reasons @ (if offered \<le> 0 \<and> ''amount_cap'' \<notin> set reasons then [''amount_cap''] else [])
        in scored\<lparr>ld_approved := approved \<and> 0 < offered, ld_offered := offered,
             ld_rate := max policy (min 10000 (lv_rate v)), ld_reasons := sort (remdups reasons),
             ld_llm_call := Some (lv_call v)\<rparr>)"

section \<open>Decimals of 28 digits and the schedule\<close>

definition half_even :: "rat \<Rightarrow> int" where
  "half_even q = (let f = \<lfloor>q\<rfloor>; r = q - of_int f
     in if r < 1 / 2 then f else if 1 / 2 < r then f + 1 else if even f then f else f + 1)"

definition digits_before :: "rat \<Rightarrow> int" where
  \<comment> \<open>\<open>e\<close> with \<open>10 ^ (e - 1) \<le> |q| < 10 ^ e\<close>, for the numerator and denominator of \<open>q \<noteq> 0\<close>\<close>
  "digits_before q =
     (let (n, d) = quotient_of \<bar>q\<bar>; k = int (length (str_int n)) - int (length (str_int d))
      in if 10 powi k \<le> \<bar>q\<bar> then k + 1 else k)"

definition dec28 :: "rat \<Rightarrow> rat" where
  \<comment> \<open>rounding to 28 significant digits\<close>
  "dec28 q = (if q = 0 then 0 else let e = 28 - digits_before q in of_int (half_even (q * 10 powi e)) / 10 powi e)"

record payment_row =
  pr_number :: int
  pr_principal :: int
  pr_interest :: int
  pr_payment :: int
  pr_after :: int

definition periodic_rate :: "int \<Rightarrow> int \<Rightarrow> int \<Rightarrow> rat" where
  "periodic_rate rate interval year = dec28 (dec28 (dec28 (of_int rate / 10000) * of_int interval) / of_int year)"

definition level_payment :: "(rat \<Rightarrow> int \<Rightarrow> rat) \<Rightarrow> int \<Rightarrow> rat \<Rightarrow> int \<Rightarrow> int" where
  "level_payment pow amount rate periods =
     \<lceil>if 0 < rate then dec28 (dec28 (of_int amount * rate) / dec28 (1 - pow (dec28 (1 + rate)) (- periods)))
      else dec28 (of_int amount / of_int periods)\<rceil>"

fun schedule_rows :: "rat \<Rightarrow> int \<Rightarrow> int \<Rightarrow> nat \<Rightarrow> int \<Rightarrow> payment_row list" where
  \<comment> \<open>the loop over the periods: so many are left, the last one pays everything\<close>
  "schedule_rows rate level number 0 outstanding = []"
| "schedule_rows rate level number (Suc left) outstanding =
     (let interest = \<lfloor>dec28 (of_int outstanding * rate)\<rfloor>;
          amount = (if left = 0 then outstanding else min outstanding (max 1 (level - interest)));
          after = outstanding - amount
      in \<lparr>pr_number = number, pr_principal = amount, pr_interest = interest,
           pr_payment = amount + interest, pr_after = after\<rparr>
         # (if after = 0 then [] else schedule_rows rate level (number + 1) left after))"

definition schedule :: "(rat \<Rightarrow> int \<Rightarrow> rat) \<Rightarrow> int \<Rightarrow> int \<Rightarrow> int \<Rightarrow> int \<Rightarrow> int \<Rightarrow> econ_error + payment_row list" where
  \<comment> \<open>a year has a positive number of ticks\<close>
  "schedule pow amount rate term interval year =
     (if amount \<le> 0 \<or> term \<le> 0 \<or> interval \<le> 0 then Inl (EcValue ''principal, term, and interval must be positive'')
      else if year = 0 then Inl EcZeroDivision
      else let periods = max 1 ((term + interval - 1) div interval); r = periodic_rate rate interval year
           in Inr (schedule_rows r (level_payment pow amount r periods) 1 (nat periods) amount))"

end
