(* ===== verification/Credit_Spec.thy ===== *)
theory Credit_Spec
  imports Credit
begin

text \<open>
  What the scorecard, the decision of a bank and the payment schedule guarantee.
\<close>

section \<open>The schedule\<close>

lemma half_even_nonneg: "0 \<le> q \<Longrightarrow> 0 \<le> half_even q"
  by (auto simp: half_even_def Let_def)

lemma dec28_nonneg: "0 \<le> q \<Longrightarrow> 0 \<le> dec28 q"
  unfolding dec28_def Let_def by (auto intro!: divide_nonneg_pos half_even_nonneg mult_nonneg_nonneg)

fun repays :: "int \<Rightarrow> int \<Rightarrow> payment_row list \<Rightarrow> bool" where
  \<comment> \<open>from a row number and an amount owed: every row pays something off and the last one everything\<close>
  "repays number owed [] \<longleftrightarrow> owed = 0"
| "repays number owed (r # rs) \<longleftrightarrow> pr_number r = number \<and> 1 \<le> pr_principal r \<and> 0 \<le> pr_interest r
     \<and> pr_payment r = pr_principal r + pr_interest r \<and> pr_after r = owed - pr_principal r \<and> 0 \<le> pr_after r
     \<and> repays (number + 1) (pr_after r) rs"

lemma rows_repay:
  assumes "0 < owed" "0 < periods" "0 \<le> rate"
  shows "repays number owed (schedule_rows rate level number periods owed)
    \<and> length (schedule_rows rate level number periods owed) \<le> periods"
  using assms
proof (induction periods arbitrary: number owed)
  case (Suc left)
  define interest where "interest = \<lfloor>dec28 (of_int owed * rate)\<rfloor>"
  define amount where "amount = (if left = 0 then owed else min owed (max 1 (level - interest)))"
  have i: "0 \<le> interest" using Suc.prems by (simp add: interest_def dec28_nonneg)
  have a: "1 \<le> amount" "amount \<le> owed" "left = 0 \<Longrightarrow> amount = owed" using Suc.prems(1) by (auto simp: amount_def)
  have row: "schedule_rows rate level number (Suc left) owed = \<lparr>pr_number = number, pr_principal = amount,
      pr_interest = interest, pr_payment = amount + interest, pr_after = owed - amount\<rparr>
      # (if owed - amount = 0 then [] else schedule_rows rate level (number + 1) left (owed - amount))"
    by (simp add: Let_def interest_def amount_def)
  show ?case
  proof (cases "owed = amount")
    case False
    then have "0 < owed - amount" "0 < left" using a by auto
    note I = Suc.IH[OF this Suc.prems(3), of "number + 1"]
    show ?thesis unfolding row using I False a i by simp
  qed (unfold row, use a i in simp)
qed simp

lemma repays_sum: "repays number owed rows \<Longrightarrow> (\<Sum>r\<leftarrow>rows. pr_principal r) = owed"
  by (induction rows arbitrary: number owed) auto

lemma repays_last: "repays number owed rows \<Longrightarrow> rows \<noteq> [] \<Longrightarrow> pr_after (last rows) = 0"
proof (induction rows arbitrary: number owed)
  case (Cons r rs)
  then show ?case by (cases rs) auto
qed simp

lemma periodic_rate_nonneg: "0 \<le> rate \<Longrightarrow> 0 \<le> interval \<Longrightarrow> 0 \<le> year \<Longrightarrow> 0 \<le> periodic_rate rate interval year"
  unfolding periodic_rate_def by (intro dec28_nonneg divide_nonneg_nonneg mult_nonneg_nonneg) simp_all



section \<open>The score\<close>

definition no_worse :: "borrower \<Rightarrow> loan_request \<Rightarrow> borrower \<Rightarrow> loan_request \<Rightarrow> bool" where
  \<comment> \<open>the second applicant has as much of everything that speaks for a loan, and as little of what speaks against it\<close>
  "no_worse b q b' q' \<longleftrightarrow> bw_employed b \<le> bw_employed b' \<and> bw_income b \<le> bw_income b'
     \<and> bw_debt_service b' \<le> bw_debt_service b \<and> bw_on_time b \<le> bw_on_time b'
     \<and> bw_payments b' - bw_on_time b' \<le> bw_payments b - bw_on_time b
     \<and> bw_debt b' \<le> bw_debt b \<and> bw_assets b \<le> bw_assets b'
     \<and> lq_collateral_value q \<le> lq_collateral_value q' \<and> lq_principal q' \<le> lq_principal q
     \<and> (bw_bankrupt b' \<longrightarrow> bw_bankrupt b) \<and> (bw_delinquent b' \<longrightarrow> bw_delinquent b)"

definition sensible :: "borrower \<Rightarrow> loan_request \<Rightarrow> bool" where
  "sensible b q \<longleftrightarrow> 0 \<le> bw_employed b \<and> 0 \<le> bw_income b \<and> 0 \<le> bw_debt_service b \<and> 0 \<le> bw_on_time b
     \<and> bw_on_time b \<le> bw_payments b \<and> 0 \<le> bw_debt b \<and> 0 \<le> lq_collateral_value q"

lemma div_mono_cross:
  fixes a b c d :: int
  assumes "0 < b" "0 < d" "a * d \<le> c * b"
  shows "a div b \<le> c div d"
proof -
  have "a div b = (a * d) div (b * d)" using assms(2) by simp
  also have "\<dots> \<le> (c * b) div (b * d)" using assms by (intro zdiv_mono1) auto
  also have "\<dots> = c div d" using assms(1) by (metis div_mult_mult1 less_int_code(1) mult.commute)
  finally show ?thesis .
qed

lemma capped_ratio_mono:
  fixes x y x' y' :: int
  assumes "0 \<le> x" "x \<le> x'" "y' \<le> y"
  shows "min 10000 (10000 * x div max 1 y) \<le> min 10000 (10000 * x' div max 1 y')"
proof -
  have "10000 * x * max 1 y' \<le> 10000 * x' * max 1 y" using assms by (intro mult_mono) auto
  then have "10000 * x div max 1 y \<le> 10000 * x' div max 1 y'" by (intro div_mono_cross) auto
  then show ?thesis by auto
qed

lemma capped_ratio_range:
  fixes x y :: int
  assumes "0 \<le> x" shows "0 \<le> min 10000 (10000 * x div max 1 y)" "min 10000 (10000 * x div max 1 y) \<le> 10000"
  using assms by (auto simp: pos_imp_zdiv_nonneg_iff)

lemma history_mono:
  fixes a p a' p' :: int
  assumes "0 \<le> a" "a \<le> a'" "a \<le> p" "a' \<le> p'" "p' - a' \<le> p - a"
  shows "10000 * (a + 1) div (p + 2) \<le> 10000 * (a' + 1) div (p' + 2)"
proof (rule div_mono_cross)
  have "(a + 1) * (p' - a' + 1) \<le> (a' + 1) * (p - a + 1)" using assms by (intro mult_mono) auto
  then show "10000 * (a + 1) * (p' + 2) \<le> 10000 * (a' + 1) * (p + 2)" by (simp add: algebra_simps)
qed (use assms in auto)

definition parts_le :: "score_parts \<Rightarrow> score_parts \<Rightarrow> bool" where
  "parts_le s t \<longleftrightarrow> sc_income s \<le> sc_income t \<and> sc_dti t \<le> sc_dti s \<and> sc_history s \<le> sc_history t
     \<and> sc_leverage t \<le> sc_leverage s \<and> sc_coverage s \<le> sc_coverage t"

lemma components_mono:
  assumes "sensible b q" "sensible b' q'" "no_worse b q b' q'"
  shows "parts_le (score_components b q median year) (score_components b' q' median year)"
proof -
  have inc: "min 10000 (10000 * bw_employed b div max 1 year) * min 10000 (10000 * bw_income b div max 1 median)
    \<le> min 10000 (10000 * bw_employed b' div max 1 year) * min 10000 (10000 * bw_income b' div max 1 median)"
    using assms by (intro mult_mono capped_ratio_mono capped_ratio_range) (auto simp: sensible_def no_worse_def)
  have "min 10000 (10000 * bw_debt_service b' div max 1 (bw_income b')) \<le> min 10000 (10000 * bw_debt_service b div max 1 (bw_income b))"
    "min 10000 (10000 * bw_debt b' div max 1 (bw_assets b')) \<le> min 10000 (10000 * bw_debt b div max 1 (bw_assets b))"
    "min 10000 (10000 * lq_collateral_value q div max 1 (lq_principal q))
      \<le> min 10000 (10000 * lq_collateral_value q' div max 1 (lq_principal q'))"
    using assms by (intro capped_ratio_mono; simp add: sensible_def no_worse_def)+
  moreover have "10000 * (bw_on_time b + 1) div (bw_payments b + 2) \<le> 10000 * (bw_on_time b' + 1) div (bw_payments b' + 2)"
    using assms by (intro history_mono) (simp_all add: sensible_def no_worse_def)
  moreover have "(0 :: int) < 10000" by simp
  moreover note zdiv_mono1[OF inc this]
  ultimately show ?thesis unfolding parts_le_def score_components_def score_parts.simps by (intro conjI)
qed

lemma components_range:
  assumes "sensible b q"
  shows "0 \<le> sc_income (score_components b q median year)" "sc_dti (score_components b q median year) \<le> 10000"
    "0 \<le> sc_history (score_components b q median year)" "sc_leverage (score_components b q median year) \<le> 10000"
    "0 \<le> sc_coverage (score_components b q median year)"
  using assms capped_ratio_range[of "bw_employed b" year] capped_ratio_range[of "bw_income b" median]
    capped_ratio_range[of "lq_collateral_value q" "lq_principal q"]
  by (auto simp: score_components_def sensible_def pos_imp_zdiv_nonneg_iff)

definition penalised :: "bool \<Rightarrow> bool \<Rightarrow> int \<Rightarrow> int" where
  "penalised bankrupt delinquent raw = (let raw = (if bankrupt then raw * 5000 div 10000 else raw)
     in if delinquent then raw * 7500 div 10000 else raw)"

lemma penalised_mono:
  assumes "0 \<le> x" "x \<le> y" "bankrupt' \<longrightarrow> bankrupt" "delinquent' \<longrightarrow> delinquent"
  shows "penalised bankrupt delinquent x \<le> penalised bankrupt' delinquent' y"
proof -
  define u where "u = (if bankrupt then x * 5000 div 10000 else x)"
  define v where "v = (if bankrupt' then y * 5000 div 10000 else y)"
  have "0 \<le> u" "u \<le> v" using assms by (auto simp: u_def v_def)
  then show ?thesis using assms(4) unfolding penalised_def u_def[symmetric] v_def[symmetric] Let_def by auto
qed

lemma score_penalised:
  "fst (credit_score_bp b q median year) =
     max 0 (min 10000 (penalised (bw_bankrupt b) (bw_delinquent b) (score_raw (score_components b q median year))))"
  by (simp add: credit_score_bp_def penalised_def Let_def)

lemma score_mono:
  assumes "sensible b q" "sensible b' q'" "no_worse b q b' q'"
  shows "fst (credit_score_bp b q median year) \<le> fst (credit_score_bp b' q' median year)"
proof -
  note m = components_mono[OF assms, of median year, unfolded parts_le_def] and r = components_range[OF assms(1), of median year]
  have "score_raw (score_components b q median year) \<le> score_raw (score_components b' q' median year)"
    unfolding score_raw_def using m by (intro zdiv_mono1) auto
  moreover have "0 \<le> score_raw (score_components b q median year)" unfolding score_raw_def using r by simp
  ultimately show ?thesis unfolding score_penalised
    using penalised_mono[of _ _ "bw_bankrupt b'" "bw_bankrupt b" "bw_delinquent b'" "bw_delinquent b"] assms(3)
    by (fastforce simp: no_worse_def intro: max.mono min.mono)
qed

lemma rate_antimono:
  assumes "0 \<le> ee_risk_spread_k E" "score \<le> score'" "score' \<le> 10000"
  shows "offered_rate E policy score' x \<le> offered_rate E policy score x"
proof -
  have "(10000 - score') * (10000 - score') \<le> (10000 - score) * (10000 - score)"
    using assms by (intro mult_mono) auto
  then have "ee_risk_spread_k E * (10000 - score') * (10000 - score') \<le> ee_risk_spread_k E * (10000 - score) * (10000 - score)"
    using assms(1) by (simp add: mult.assoc mult_left_mono)
  then show ?thesis by (simp add: offered_rate_def Let_def zdiv_mono1)
qed

text \<open>C14. The score lies between 0 and 10000 and no improvement of an applicant lowers it: more income, employment,
  collateral, assets or payments on time and less debt, debt service, missed payments or principal never reduce the
  score, and so, for one term, never raise the rate offered.\<close>

theorem score_rewards:
  assumes "sensible b q" "sensible b' q'" "no_worse b q b' q'" "0 \<le> ee_risk_spread_k E"
  shows "0 \<le> fst (credit_score_bp b q median year) \<and> fst (credit_score_bp b q median year) \<le> fst (credit_score_bp b' q' median year)
    \<and> fst (credit_score_bp b' q' median year) \<le> 10000
    \<and> offered_rate E policy (fst (credit_score_bp b' q' median year)) months
        \<le> offered_rate E policy (fst (credit_score_bp b q median year)) months"
proof -
  have hi: "fst (credit_score_bp b' q' median year) \<le> 10000" by (simp add: score_penalised)
  show ?thesis using score_mono[OF assms(1-3)] hi rate_antimono[OF assms(4) score_mono[OF assms(1-3)] hi]
    by (auto simp: score_penalised)
qed

definition steady_worker :: borrower where
  "steady_worker = \<lparr>bw_employed = 300, bw_income = 240000, bw_debt_service = 12000, bw_on_time = 4, bw_payments = 4,
     bw_debt = 30000, bw_assets = 50000, bw_bankrupt = False, bw_delinquent = False\<rparr>"

definition late_worker :: borrower where
  "late_worker = \<lparr>bw_employed = 200, bw_income = 180000, bw_debt_service = 20000, bw_on_time = 3, bw_payments = 5,
     bw_debt = 60000, bw_assets = 40000, bw_bankrupt = False, bw_delinquent = True\<rparr>"

definition car_loan :: loan_request where
  "car_loan = \<lparr>lq_borrower = ''ag_1'', lq_lender = ''bk_1'', lq_principal = 20000, lq_purpose = ''consumer'', lq_term = 720,
     lq_collateral = [], lq_collateral_value = 15000\<rparr>"

end
