(* ===== verification/Loans.thy ===== *)
theory Loans
  imports Credit
begin

text \<open>
  \<open>polis/economy/credit.py\<close>, continued: the origination of a loan and its life, which is accrual of
  interest, payments, missed payments, delinquency, default and write-off. A loan is named by its
  identifier, the key of the table; a day has a positive number of ticks.
\<close>

section \<open>Origination\<close>

definition bank_part :: "string \<Rightarrow> string option" where
  \<comment> \<open>\<open>parse_account_id(account_id)[2]\<close> of an identifier of the ledger's table\<close>
  "bank_part v = (case parse_account_id v of Inr (_, _, b, _) \<Rightarrow> b | Inl _ \<Rightarrow> None)"

definition owner_kind :: "string \<Rightarrow> 'l econ_world \<Rightarrow> string" where
  "owner_kind i w = (if dget (ew_firms w) i \<noteq> None then ''firm'' else ''agent'')"

definition e_mint :: "string \<Rightarrow> int \<Rightarrow> int \<Rightarrow> ('l, string) em" where
  "e_mint pre tick n = m_res (case mint pre tick n of Inl e \<Rightarrow> Inl (EcMoney e) | Inr s \<Rightarrow> Inr s)"

definition post_expected :: "'l econ_env \<Rightarrow> leg list \<Rightarrow> int \<Rightarrow> evt \<Rightarrow> uuid \<Rightarrow> string \<Rightarrow> ('l, unit) em" where
  \<comment> \<open>the posting and the comparison with the identifier the event has announced\<close>
  "post_expected E legs tick ev expected what =
     m_bind (e_post E legs tick ev) (\<lambda>txn. if txn \<noteq> expected then m_raise (EcRuntime what) else m_return ())"

definition expect :: "uuid \<Rightarrow> string \<Rightarrow> uuid \<Rightarrow> ('l, unit) em" where
  \<comment> \<open>the comparison on its own\<close>
  "expect expected what txn = (if txn \<noteq> expected then m_raise (EcRuntime what) else m_return ())"

definition borrower_deposit :: "loan_request \<Rightarrow> int \<Rightarrow> ('l, string) em" where
  "borrower_deposit q tick =
     m_bind (e_ledger (\<lambda>l. filter (\<lambda>v. bank_part v = Some (lq_lender q)) (codes_of l (lq_borrower q) Dep))) (\<lambda>candidates.
     case candidates of
       v # _ \<Rightarrow> m_return v
     | [] \<Rightarrow> m_bind (m_read (owner_kind (lq_borrower q))) (\<lambda>ty.
         e_open Dep (lq_borrower q) ty (Some (lq_lender q)) None tick))"

definition new_loan :: "'l econ_env \<Rightarrow> loan_request \<Rightarrow> loan_decision \<Rightarrow> int \<Rightarrow> string \<Rightarrow> string \<Rightarrow> string \<Rightarrow> int \<Rightarrow> int \<Rightarrow> loan_state" where
  "new_loan E q d tick i receivable payable payment n =
     \<lparr>ln_id = i, ln_lender = lq_lender q, ln_borrower = lq_borrower q, ln_purpose = lq_purpose q,
      ln_principal = ld_offered d, ln_outstanding = ld_offered d, ln_rate = ld_rate d, ln_term = ld_term d,
      ln_originated = tick, ln_matures = tick + ld_term d, ln_status = ''current'', ln_collateral = lq_collateral q,
      ln_collateral_value = lq_collateral_value q, ln_score = ld_score d, ln_receivable = receivable,
      ln_payable = payable, ln_payment = payment, ln_payments_n = n, ln_next_payment = tick + payment_interval E,
      ln_accrued = 0, ln_remainder = 0, ln_interest_paid = 0, ln_interest_scheduled = 0, ln_interest_forgiven = 0,
      ln_capitalised = 0, ln_payments_made = 0, ln_missed_since = None, ln_defaulted = None, ln_closed = None\<rparr>"

definition fund_legs :: "string \<Rightarrow> string \<Rightarrow> string \<Rightarrow> string \<Rightarrow> int \<Rightarrow> leg list" where
  "fund_legs receivable liability deposit payable x =
     [mk_leg receivable 1 x ''loan'', mk_leg liability (-1) x ''loan'', mk_leg deposit 1 x ''loan'', mk_leg payable (-1) x ''loan'']"

definition fund_loan :: "'l econ_env \<Rightarrow> loan_request \<Rightarrow> loan_decision \<Rightarrow> int \<Rightarrow> string \<Rightarrow> string \<Rightarrow> string \<Rightarrow> string \<Rightarrow> ('l, evt list) em" where
  \<comment> \<open>\<open>originate\<close> once its accounts are open; the schedule has a row \<open>payments[0]\<close>\<close>
  "fund_loan E q d tick i receivable payable deposit =
     m_bind (e_bank (lq_lender q)) (\<lambda>bank.
     m_bind (m_res (schedule (ee_power E) (ld_offered d) (ld_rate d) (ld_term d) (payment_interval E) (ticks_per_year E))) (\<lambda>payments.
     m_bind (e_next_txn E tick) (\<lambda>expected.
     m_bind (e_emit E 8010 [(''loan_id'', JStr i), (''lender_id'', JStr (lq_lender q)),
         (''borrower_id'', JStr (lq_borrower q)), (''principal_cents'', JInt (ld_offered d)),
         (''annual_rate_bp'', JInt (ld_rate d)), (''term_ticks'', JInt (ld_term d)),
         (''payment_cents'', JInt (pr_payment (hd payments))), (''payments_n'', JInt (int (length payments))),
         (''collateral'', JObj (lq_collateral q)), (''credit_score_bp'', JInt (ld_score d)),
         (''txn_id'', JStr (ee_uuid_text E expected))] (Some (lq_borrower q)) [lq_lender q]) (\<lambda>ev.
     m_then (post_expected E (fund_legs receivable (bk_liability bank) deposit payable (ld_offered d)) tick ev expected
         ''loan origination transaction ordinal diverged'')
     (m_then (m_modify (\<lambda>w. w\<lparr>ew_loans := dset i (new_loan E q d tick i receivable payable
         (pr_payment (hd payments)) (int (length payments))) (ew_loans w)\<rparr>))
     (m_return [ev]))))))"

definition originate :: "'l econ_env \<Rightarrow> loan_request \<Rightarrow> loan_decision \<Rightarrow> int \<Rightarrow> ('l, evt list) em" where
  "originate E q d tick =
     (if \<not> ld_approved d \<or> ld_offered d \<le> 0 then m_return []
      else
      m_bind (m_read (\<lambda>w. int (length (filter (\<lambda>n. ln_originated n = tick) (dvals (ew_loans w)))))) (\<lambda>ordinal.
      m_bind (e_mint ''ln'' tick ordinal) (\<lambda>i.
      m_bind (e_open Lnr (lq_lender q) ''bank'' None (Some i) tick) (\<lambda>receivable.
      m_bind (m_read (owner_kind (lq_borrower q))) (\<lambda>ty.
      m_bind (e_open Lnp (lq_borrower q) ty None (Some i) tick) (\<lambda>payable.
      m_bind (borrower_deposit q tick) (\<lambda>deposit.
      fund_loan E q d tick i receivable payable deposit)))))))"

section \<open>Accrual\<close>

definition accruing :: "loan_state \<Rightarrow> bool" where
  "accruing n \<longleftrightarrow> (ln_status n = ''current'' \<or> ln_status n = ''delinquent'') \<and> 0 < ln_outstanding n"

definition accrual :: "'l econ_env \<Rightarrow> loan_state \<Rightarrow> int \<times> int" where
  \<comment> \<open>the cents of a day and the remainder carried; a year has a positive number of days\<close>
  "accrual E n =
     (let numerator = ln_outstanding n * ln_rate n + ln_remainder n; denominator = 10000 * ee_days_per_year E
      in (numerator div denominator, numerator mod denominator))"

definition accrue_loan :: "'l econ_env \<Rightarrow> int \<Rightarrow> string \<Rightarrow> ('l, evt list) em" where
  "accrue_loan E tick i =
     m_bind (e_loan i) (\<lambda>n.
     if \<not> accruing n then m_return []
     else m_bind (m_read (in_bankruptcy (ln_borrower n))) (\<lambda>stay.
     if stay then m_return []
     else let (cents, rest) = accrual E n; total_accrued = ln_accrued n + cents in
       m_then (m_modify (upd_loan i (\<lambda>n. n\<lparr>ln_remainder := rest, ln_accrued := total_accrued\<rparr>)))
       (m_bind (e_emit E 8020 [(''loan_id'', JStr i), (''cents'', JInt cents), (''annual_rate_bp'', JInt (ln_rate n)),
           (''period_ticks'', JInt (ee_ticks_per_day E)), (''accrued_total_cents'', JInt total_accrued)]
           None [ln_borrower n, ln_lender n]) (\<lambda>ev. m_return [ev]))))"

definition accrue_interest :: "'l econ_env \<Rightarrow> int \<Rightarrow> ('l, evt list) em" where
  "accrue_interest E tick =
     (if tick mod ee_ticks_per_day E \<noteq> 0 then m_return []
      else m_bind (m_read loan_ids) (m_for (accrue_loan E tick)))"

section \<open>Missed payments and default\<close>

definition mark_default :: "'l econ_env \<Rightarrow> string \<Rightarrow> string \<Rightarrow> int \<Rightarrow> ('l, evt list) em" where
  "mark_default E i trigger tick =
     m_bind (e_loan i) (\<lambda>n.
     if ln_status n = ''default'' \<or> ln_status n = ''repaid'' \<or> ln_status n = ''written_off'' then m_return []
     else m_then (m_modify (upd_loan i (\<lambda>n. n\<lparr>ln_status := ''default'', ln_defaulted := Some tick\<rparr>)))
       (m_bind (e_emit E 8016 [(''loan_id'', JStr i), (''outstanding_cents'', JInt (ln_outstanding n)),
           (''trigger'', JStr trigger)] (Some (ln_borrower n)) [ln_lender n]) (\<lambda>ev. m_return [ev])))"

definition capitalise :: "int \<Rightarrow> loan_state \<Rightarrow> loan_state" where
  "capitalise x n = n\<lparr>ln_outstanding := ln_outstanding n + x, ln_interest_scheduled := ln_interest_scheduled n + x,
     ln_capitalised := ln_capitalised n + x, ln_accrued := 0\<rparr>"

definition days_past :: "'l econ_env \<Rightarrow> int \<Rightarrow> int \<Rightarrow> int" where
  "days_past E tick since = (tick - since) div ee_ticks_per_day E"

definition transition_missed :: "'l econ_env \<Rightarrow> string \<Rightarrow> int \<Rightarrow> ('l, evt list) em" where
  \<comment> \<open>\<open>_transition_missed\<close>\<close>
  "transition_missed E i tick =
     m_bind (e_loan i) (\<lambda>n.
     case ln_missed_since n of None \<Rightarrow> m_return []
     | Some since \<Rightarrow>
       if ln_status n = ''current'' \<and> ee_delinquency_days E \<le> days_past E tick since then
         m_bind (e_next_txn E tick) (\<lambda>expected.
         m_bind (e_emit E 8015 [(''loan_id'', JStr i), (''days_past_due'', JInt (days_past E tick since)),
             (''capitalised_interest_cents'', JInt (ln_accrued n)), (''txn_id'', JStr (ee_uuid_text E expected))]
             (Some (ln_borrower n)) [ln_lender n]) (\<lambda>ev.
         m_then (if ln_accrued n \<noteq> 0 then
             m_then (post_expected E [mk_leg (ln_receivable n) 1 (ln_accrued n) ''interest'',
                 mk_leg (ln_payable n) (-1) (ln_accrued n) ''interest''] tick ev expected
                 ''interest capitalisation ordinal diverged'')
               (m_modify (upd_loan i (capitalise (ln_accrued n))))
           else m_return ())
         (m_then (m_modify (upd_loan i (\<lambda>n. n\<lparr>ln_status := ''delinquent'',
             ln_rate := ln_rate n + ee_delinquency_penalty E\<rparr>)))
         (m_return [ev]))))
       else if ln_status n = ''delinquent'' \<and> ee_default_days E \<le> days_past E tick since
       then mark_default E i ''dpd'' tick
       else m_return [])"

section \<open>Payments\<close>

record payment_due =
  pd_interest :: int
  pd_principal :: int

abbreviation pd_total :: "payment_due \<Rightarrow> int" where
  "pd_total p \<equiv> pd_principal p + pd_interest p"

definition payment_terms :: "int \<Rightarrow> loan_state \<Rightarrow> payment_due" where
  "payment_terms tick n =
     \<lparr>pd_interest = ln_accrued n,
      pd_principal = (if ln_payments_n n \<le> ln_payments_made n + 1 \<or> ln_matures n \<le> tick then ln_outstanding n
        else min (ln_outstanding n) (max 1 (ln_payment n - ln_accrued n)))\<rparr>"

definition treasury_id :: string where
  "treasury_id = ''gv_treasury''"

definition amortise_skips :: "int \<Rightarrow> loan_state \<Rightarrow> 'l econ_world \<Rightarrow> bool" where
  "amortise_skips tick n w \<longleftrightarrow>
     \<not> (ln_status n = ''current'' \<or> ln_status n = ''delinquent'') \<or> tick < ln_next_payment n
     \<or> in_bankruptcy (ln_borrower n) w
     \<or> dget (ew_banks w) (ln_borrower n) \<noteq> None
     \<or> (dget (ew_banks w) (ln_lender n) = None \<and> ln_lender n \<noteq> treasury_id)"

definition balances_of :: "ledger \<Rightarrow> string list \<Rightarrow> int list" where
  \<comment> \<open>the balances of accounts of the table\<close>
  "balances_of l vs = map (\<lambda>v. case balance l v of Inl _ \<Rightarrow> 0 | Inr x \<Rightarrow> x) vs"

definition funds :: "loan_state \<Rightarrow> ledger \<Rightarrow> int" where
  \<comment> \<open>\<open>available\<close>: the largest deposit for the treasury, everything liquid for a bank\<close>
  "funds n l =
     (if ln_lender n = treasury_id then
        (case balances_of l (codes_of l (ln_borrower n) Dep) of [] \<Rightarrow> 0 | x # xs \<Rightarrow> max_of x xs)
      else liquid l (ln_borrower n))"

definition miss_payment :: "'l econ_env \<Rightarrow> int \<Rightarrow> string \<Rightarrow> payment_due \<Rightarrow> int \<Rightarrow> string \<Rightarrow> ('l, evt list) em" where
  \<comment> \<open>the branch \<open>available < due\<close>\<close>
  "miss_payment E tick i p available payment_id =
     m_then (m_modify (upd_loan i (\<lambda>n. if ln_missed_since n = None then n\<lparr>ln_missed_since := Some tick\<rparr> else n)))
     (m_bind (e_loan i) (\<lambda>n.
      m_bind (e_emit E 8014 [(''loan_id'', JStr i), (''due_cents'', JInt (pd_total p)),
          (''available_cents'', JInt available),
          (''days_past_due'', JInt (days_past E tick (opt_or (ln_missed_since n) tick)))]
          (Some (ln_borrower n)) [ln_lender n]) (\<lambda>ev.
      m_then (m_modify (\<lambda>w. w\<lparr>ew_payments := ew_payments w @
          [\<lparr>lp_id = payment_id, lp_loan = i, lp_tick = tick, lp_principal = 0, lp_interest = pd_interest p, lp_missed = True\<rparr>]\<rparr>))
      (m_then (m_modify (upd_loan i (\<lambda>n. n\<lparr>ln_next_payment := ln_next_payment n + payment_interval E\<rparr>)))
      (m_bind (transition_missed E i tick) (\<lambda>evs. m_return (ev # evs)))))))"

definition interest_owed :: "loan_state \<Rightarrow> int" where
  \<comment> \<open>scheduled interest neither paid nor forgiven\<close>
  "interest_owed n = ln_interest_scheduled n - ln_interest_paid n - ln_interest_forgiven n"

definition settle_payment :: "'l econ_env \<Rightarrow> payment_due \<Rightarrow> loan_state \<Rightarrow> loan_state" where
  "settle_payment E p n = n\<lparr>ln_outstanding := ln_outstanding n - pd_principal p,
     ln_interest_paid := ln_interest_paid n + pd_interest p + min (pd_principal p) (max 0 (interest_owed n)),
     ln_interest_scheduled := ln_interest_scheduled n + pd_interest p,
     ln_accrued := 0, ln_payments_made := ln_payments_made n + 1, ln_missed_since := None,
     ln_next_payment := ln_next_payment n + payment_interval E\<rparr>"

definition paying_deposit :: "loan_state \<Rightarrow> int \<Rightarrow> ledger \<Rightarrow> econ_error + string" where
  \<comment> \<open>\<open>next\<close> of a generator raises \<open>StopIteration\<close> when it is empty\<close>
  "paying_deposit n owed l =
     (case filter (\<lambda>v. if ln_lender n = treasury_id
            then (case balance l v of Inl _ \<Rightarrow> False | Inr x \<Rightarrow> owed \<le> x)
            else bank_part v = Some (ln_lender n)) (codes_of l (ln_borrower n) Dep) of
        [] \<Rightarrow> Inl EcStopIteration | v # _ \<Rightarrow> Inr v)"

definition debt_legs :: "loan_state \<Rightarrow> int \<Rightarrow> string \<Rightarrow> leg list" where
  \<comment> \<open>what the lender is owed and the borrower owes falls by an amount\<close>
  "debt_legs n x reason = [mk_leg (ln_receivable n) (-1) x reason, mk_leg (ln_payable n) 1 x reason]"

definition payment_legs :: "loan_state \<Rightarrow> payment_due \<Rightarrow> string \<Rightarrow> 'l econ_world \<Rightarrow> econ_error + leg list" where
  "payment_legs n p deposit w =
     (if ln_lender n = treasury_id then
        case bank_part deposit of
          None \<Rightarrow> Inl (EcRuntime ''tax arrears require a banked deposit'')
        | Some source \<Rightarrow>
           (case dget (ew_banks w) source of None \<Rightarrow> Inl (EcKey source)
            | Some bank \<Rightarrow>
               (case codes_of (ew_ledger w) treasury_id Dep of [] \<Rightarrow> Inl EcStopIteration
                | treasury # _ \<Rightarrow> Inr ([mk_leg deposit (-1) (pd_total p) ''tax'', mk_leg (bk_liability bank) 1 (pd_total p) ''tax'',
                    mk_leg (bk_reserve bank) (-1) (pd_total p) ''tax'', mk_leg treasury 1 (pd_total p) ''tax'']
                    @ debt_legs n (pd_principal p) ''loan'')))
      else (case dget (ew_banks w) (ln_lender n) of None \<Rightarrow> Inl (EcKey (ln_lender n))
        | Some bank \<Rightarrow> Inr ([mk_leg deposit (-1) (pd_total p) ''loan'', mk_leg (bk_liability bank) 1 (pd_total p) ''loan'']
            @ debt_legs n (pd_principal p) ''loan'')))"

definition close_repaid :: "'l econ_env \<Rightarrow> int \<Rightarrow> string \<Rightarrow> evt \<Rightarrow> ('l, evt list) em" where
  \<comment> \<open>the event of the payment, and that of the repayment when nothing is outstanding\<close>
  "close_repaid E tick i ev =
     m_bind (e_loan i) (\<lambda>n.
      if ln_outstanding n = 0 then
        m_then (m_modify (upd_loan i (\<lambda>n. n\<lparr>ln_status := ''repaid'', ln_closed := Some tick\<rparr>)))
        (m_bind (e_emit E 8018 [(''loan_id'', JStr i), (''total_interest_cents'', JInt (ln_interest_paid n)),
            (''ticks_to_repay'', JInt (tick - ln_originated n)), (''early'', JBool (tick < ln_matures n))]
            (Some (ln_borrower n)) [ln_lender n]) (\<lambda>ev2. m_return [ev, ev2]))
      else m_return [ev])"

definition make_payment :: "'l econ_env \<Rightarrow> int \<Rightarrow> string \<Rightarrow> loan_state \<Rightarrow> payment_due \<Rightarrow> string \<Rightarrow> ('l, evt list) em" where
  "make_payment E tick i n p payment_id =
     m_bind (m_bind (e_ledger (paying_deposit n (pd_total p))) m_res) (\<lambda>deposit.
     m_bind (e_next_txn E tick) (\<lambda>expected.
     m_bind (e_emit E 8013 [(''loan_id'', JStr i), (''payment_no'', JInt (ln_payments_made n + 1)),
         (''principal_cents'', JInt (pd_principal p)), (''interest_cents'', JInt (pd_interest p)),
         (''outstanding_after_cents'', JInt (ln_outstanding n - pd_principal p)),
         (''txn_id'', JStr (ee_uuid_text E expected))] (Some (ln_borrower n)) [ln_lender n]) (\<lambda>ev.
     m_bind (m_bind (m_read (payment_legs n p deposit)) m_res) (\<lambda>legs.
     m_then (post_expected E legs tick ev expected ''loan payment transaction ordinal diverged'')
     (m_then (m_modify (upd_loan i (settle_payment E p)))
     (m_then (m_modify (\<lambda>w. w\<lparr>ew_payments := ew_payments w @
         [\<lparr>lp_id = payment_id, lp_loan = i, lp_tick = tick, lp_principal = pd_principal p,
           lp_interest = pd_interest p, lp_missed = False\<rparr>]\<rparr>))
     (close_repaid E tick i ev)))))))"

definition amortise_loan :: "'l econ_env \<Rightarrow> int \<Rightarrow> string \<Rightarrow> ('l, evt list) em" where
  "amortise_loan E tick i =
     m_bind (e_loan i) (\<lambda>n.
     m_bind (m_read (amortise_skips tick n)) (\<lambda>skip.
     if skip then m_return []
     else let p = payment_terms tick n in
       m_bind (e_ledger (funds n)) (\<lambda>available.
       m_bind (m_read (\<lambda>w. int (length (ew_payments w)))) (\<lambda>k.
       m_bind (e_mint ''lpay'' tick k) (\<lambda>payment_id.
       if available < pd_total p then miss_payment E tick i p available payment_id
       else make_payment E tick i n p payment_id)))))"

definition amortise :: "'l econ_env \<Rightarrow> int \<Rightarrow> ('l, evt list) em" where
  "amortise E tick = m_bind (m_read loan_ids) (m_for (amortise_loan E tick))"

section \<open>Write-off\<close>

definition write_off :: "int \<Rightarrow> loan_state \<Rightarrow> loan_state" where
  "write_off x n = n\<lparr>ln_outstanding := ln_outstanding n - x,
     ln_interest_scheduled := ln_interest_scheduled n + ln_accrued n,
     ln_interest_forgiven := ln_interest_forgiven n + (min x (max 0 (interest_owed n)) + ln_accrued n),
     ln_accrued := 0\<rparr>"

definition write_off_loan :: "'l econ_env \<Rightarrow> string \<Rightarrow> int \<Rightarrow> int \<Rightarrow> int \<Rightarrow> ('l, evt list) em" where
  "write_off_loan E i amount recovery tick =
     m_bind (e_loan i) (\<lambda>n.
     let x = min amount (ln_outstanding n) in
     if x \<le> 0 then m_return []
     else m_bind (e_next_txn E tick) (\<lambda>expected.
       m_bind (e_emit E 8017 [(''loan_id'', JStr i), (''written_off_cents'', JInt x), (''recovery_cents'', JInt recovery),
           (''loss_given_default_bp'', JInt (10000 - 10000 * recovery div max 1 (x + recovery))),
           (''txn_id'', JStr (ee_uuid_text E expected))] (Some (ln_lender n)) [ln_borrower n]) (\<lambda>ev.
       m_then (post_expected E (debt_legs n x ''write_off'') tick ev expected ''loan write-off transaction ordinal diverged'')
       (m_then (m_modify (upd_loan i (write_off x)))
       (m_then (m_modify (upd_loan i (\<lambda>n. if ln_outstanding n = 0
           then n\<lparr>ln_status := ''written_off'', ln_closed := Some tick\<rparr> else n)))
       (m_return [ev]))))))"

definition write_off_due :: "'l econ_env \<Rightarrow> int \<Rightarrow> ('l, evt list) em" where
  "write_off_due E tick =
     (let threshold = ee_writeoff_days E * ee_ticks_per_day E in
      m_bind (m_read loan_ids) (m_for (\<lambda>i. m_bind (e_loan i) (\<lambda>n.
        if ln_status n = ''default'' \<and> opt_ex (\<lambda>t. threshold \<le> tick - t) (ln_defaulted n)
        then write_off_loan E i (ln_outstanding n) 0 tick else m_return []))))"

definition interest_imbalance_cents :: "'l econ_world \<Rightarrow> int" where
  \<comment> \<open>\<open>EconomyWorldState.interest_imbalance_cents\<close>\<close>
  "interest_imbalance_cents w = (\<Sum>n\<leftarrow>filter (\<lambda>n. ln_status n = ''repaid'' \<or> ln_status n = ''written_off'')
     (dvals (ew_loans w)). \<bar>interest_owed n\<bar>)"

end
