(* ===== verification/Loan_Book.thy ===== *)
theory Loan_Book
  imports Loans Exchange_Escrow
begin

text \<open>
  The invariant of the loan book: each loan by itself (interest owed never exceeds the debt, a closed
  loan owes nothing), and the table of loans against the ledger, in which the receivable and payable
  accounts must carry exactly what the loans of the table say.
\<close>

section \<open>The invariant\<close>

definition code_at :: "string \<Rightarrow> account_code option" where
  "code_at v = (case parse_account_id v of Inr (c, _) \<Rightarrow> Some c | Inl _ \<Rightarrow> None)"

definition debt_code :: "string \<Rightarrow> bool" where
  \<comment> \<open>the accounts that only loans are booked on\<close>
  "debt_code v \<longleftrightarrow> code_at v = Some Lnr \<or> code_at v = Some Lnp \<or> code_at v = Some Txr"

definition carried :: "string \<Rightarrow> loan_state \<Rightarrow> int" where
  \<comment> \<open>what a loan puts on an account\<close>
  "carried v n = (if ln_receivable n = v then ln_outstanding n else 0) - (if ln_payable n = v then ln_outstanding n else 0)"

definition book_value :: "(string, loan_state) dict \<Rightarrow> string \<Rightarrow> int" where
  "book_value loans v = (\<Sum>n\<leftarrow>dvals loans. carried v n)"

definition reconciled :: "ledger \<Rightarrow> (string, loan_state) dict \<Rightarrow> bool" where
  "reconciled l loans \<longleftrightarrow> (\<forall>v a. dget (led_accounts l) v = Some a \<longrightarrow> debt_code v \<longrightarrow> acc_balance a = book_value loans v)"

definition loan_ok :: "string \<Rightarrow> loan_state \<Rightarrow> bool" where
  "loan_ok i n \<longleftrightarrow> ln_id n = i
     \<and> (live_status (ln_status n) \<or> ln_status n = ''repaid'' \<or> ln_status n = ''written_off'')
     \<and> (live_status (ln_status n) \<longleftrightarrow> 0 < ln_outstanding n) \<and> (\<not> live_status (ln_status n) \<longrightarrow> ln_accrued n = 0)
     \<and> 0 \<le> interest_owed n \<and> interest_owed n \<le> ln_outstanding n
     \<and> 0 \<le> ln_accrued n \<and> 0 \<le> ln_remainder n \<and> 0 \<le> ln_rate n
     \<and> (ln_status n = ''default'' \<longrightarrow> ln_defaulted n \<noteq> None)"

definition booked :: "ledger \<Rightarrow> loan_state \<Rightarrow> bool" where
  "booked l n \<longleftrightarrow> ln_receivable n \<in> set (dkeys (led_accounts l)) \<and> ln_payable n \<in> set (dkeys (led_accounts l))
     \<and> (code_at (ln_receivable n) = Some Lnr \<or> code_at (ln_receivable n) = Some Txr) \<and> code_at (ln_payable n) = Some Lnp"

definition same_tick :: "int \<Rightarrow> (string, loan_state) dict \<Rightarrow> int" where
  "same_tick tick loans = int (length (filter (\<lambda>n. ln_originated n = tick) (dvals loans)))"

definition named :: "(string, loan_state) dict \<Rightarrow> string \<Rightarrow> loan_state \<Rightarrow> bool" where
  \<comment> \<open>an identifier counts the loans of its tick, that of tax arrears all the loans\<close>
  "named loans i n \<longleftrightarrow> (\<exists>p k. mint p (ln_originated n) k = Inr i
     \<and> k < (if p = ''txln'' then int (length loans) else same_tick (ln_originated n) loans))"

definition banks_ok :: "(string, bank_state) dict \<Rightarrow> bool" where
  "banks_ok bs \<longleftrightarrow> (\<forall>i b. dget bs i = Some b \<longrightarrow> bk_id b = i
     \<and> code_at (bk_liability b) = Some Dpl \<and> code_at (bk_reserve b) = Some Res)"

definition rates_ok :: "'l econ_world \<Rightarrow> bool" where
  \<comment> \<open>the policy rate, now and announced, is not negative\<close>
  "rates_ok w \<longleftrightarrow> 0 \<le> ew_policy_rate w \<and> (case ew_pending_rate w of None \<Rightarrow> True | Some (t, r) \<Rightarrow> 0 \<le> r)"

definition loan_book :: "'l econ_world \<Rightarrow> bool" where
  "loan_book w \<longleftrightarrow> ledger_inv (ew_ledger w) \<and> wf_dict (ew_loans w) \<and> reconciled (ew_ledger w) (ew_loans w)
     \<and> (\<forall>i n. dget (ew_loans w) i = Some n \<longrightarrow> loan_ok i n \<and> booked (ew_ledger w) n \<and> named (ew_loans w) i n)
     \<and> banks_ok (ew_banks w) \<and> rates_ok w"

definition credit_env :: "'l econ_env \<Rightarrow> bool" where
  \<comment> \<open>what the settings' validation admits\<close>
  "credit_env E \<longleftrightarrow> 0 < ee_days_per_year E \<and> 0 < ee_ticks_per_day E \<and> 0 \<le> ee_delinquency_penalty E
     \<and> 0 \<le> ee_base_spread E \<and> 0 \<le> ee_risk_spread_k E \<and> 0 \<le> ee_term_premium E \<and> 0 \<le> ee_interbank_spread E
     \<and> 0 \<le> ee_discount_penalty E \<and> 0 \<le> ee_arrears_penalty E \<and> 0 \<le> ee_rate_setting E \<and> 0 \<le> ee_taylor_low E"

section \<open>Codes of accounts\<close>

lemma code_at_id: "account_id c ow b r = Inr v \<Longrightarrow> code_at v = Some c"
  by (simp add: code_at_def parse_of_account_id)

lemma codes_of_code: "v \<in> set (codes_of l ow c) \<Longrightarrow> code_at v = Some c"
  by (auto simp: codes_of_def code_at_def split: sum.splits)

lemma debt_code_simps:
  "code_at v = Some c \<Longrightarrow> debt_code v \<longleftrightarrow> c = Lnr \<or> c = Lnp \<or> c = Txr"
  by (simp add: debt_code_def)

section \<open>What operations on the world leave\<close>

definition frame :: "'l econ_world \<Rightarrow> 'l econ_world \<Rightarrow> bool" where
  \<comment> \<open>only the ledger, the loans, the payments and the log may differ\<close>
  "frame w w' \<longleftrightarrow> ew_banks w' = ew_banks w \<and> ew_firms w' = ew_firms w \<and> ew_employments w' = ew_employments w
     \<and> ew_applications w' = ew_applications w \<and> ew_bonds w' = ew_bonds w \<and> ew_bankruptcies w' = ew_bankruptcies w
     \<and> ew_policy_rate w' = ew_policy_rate w \<and> ew_pending_rate w' = ew_pending_rate w \<and> ew_rng w' = ew_rng w"

definition steady :: "'l econ_world \<Rightarrow> 'l econ_world \<Rightarrow> bool" where
  "steady w w' \<longleftrightarrow> ew_banks w' = ew_banks w \<and> ew_policy_rate w' = ew_policy_rate w \<and> ew_pending_rate w' = ew_pending_rate w"

lemma steady_rates: "steady w w' \<Longrightarrow> rates_ok w' = rates_ok w"
  by (simp add: steady_def rates_ok_def)

lemma steady_banks: "steady w w' \<Longrightarrow> ew_banks w' = ew_banks w"
  by (simp add: steady_def)

lemma frame_steady: "frame w w' \<Longrightarrow> steady w w'"
  by (simp add: frame_def steady_def)

lemma e_emit_InrD: "e_emit E kind pl actor subjects w = Inr (ev, w') \<Longrightarrow> \<exists>lg. w' = w\<lparr>ew_log := lg\<rparr>"
  by (auto simp: e_emit_def split: sum.splits)

lemma e_next_InrD:
  "e_next_txn E tick w = Inr (txn, w') \<Longrightarrow>
     \<exists>n. w' = w\<lparr>ew_ledger := ew_ledger w\<lparr>led_ordinals := dset tick n (led_ordinals (ew_ledger w))\<rparr>\<rparr>
       \<and> next_txn_id (ee_uuid5 E) tick (ew_ledger w) = (txn, ew_ledger w')"
  by (auto simp: e_next_txn_def next_txn_id_def Let_def)

lemma e_post_InrD:
  "e_post E legs tick ev w = Inr (txn, w') \<Longrightarrow>
     \<exists>l. post_transaction (ee_uuid5 E) legs tick ev [] (ew_ledger w) = Inr (txn, l) \<and> w' = w\<lparr>ew_ledger := l\<rparr>"
  by (auto simp: e_post_def split: sum.splits)

lemma post_expected_InrD:
  "post_expected E legs tick ev expected what w = Inr (u, w') \<Longrightarrow>
     \<exists>l. post_transaction (ee_uuid5 E) legs tick ev [] (ew_ledger w) = Inr (expected, l) \<and> w' = w\<lparr>ew_ledger := l\<rparr>"
  by (auto simp: post_expected_def prog_Inr_iff split: if_splits dest: e_post_InrD)

lemma e_open_InrD:
  "e_open c ow ty b r tick w = Inr (v, w') \<Longrightarrow>
     \<exists>l. open_account c ow ty b r tick (ew_ledger w) = Inr (v, l) \<and> w' = w\<lparr>ew_ledger := l\<rparr>"
  by (auto simp: e_open_def split: sum.splits)

lemma e_loan_Inr_iff: "e_loan i w = Inr (n, w') \<longleftrightarrow> w' = w \<and> dget (ew_loans w) i = Some n"
  by (auto simp: e_loan_def prog_Inr_iff split: option.splits)

lemma e_bank_Inr_iff: "e_bank i w = Inr (b, w') \<longleftrightarrow> w' = w \<and> dget (ew_banks w) i = Some b"
  by (auto simp: e_bank_def prog_Inr_iff split: option.splits)

lemma e_ledger_Inr_iff: "e_ledger f w = Inr (x, w') \<longleftrightarrow> w' = w \<and> x = f (ew_ledger w)"
  by (auto simp: e_ledger_def prog_Inr_iff)

lemma e_res_Inr_iff: "e_res r w = Inr (x, w') \<longleftrightarrow> w' = w \<and> r = Inr x"
  by (auto simp: e_res_def prog_Inr_iff split: sum.splits)

lemma e_balance_Inr_iff: "e_balance v w = Inr (x, w') \<longleftrightarrow> w' = w \<and> balance (ew_ledger w) v = Inr x"
  by (auto simp: e_balance_def prog_Inr_iff e_ledger_Inr_iff e_res_Inr_iff)

lemma e_mint_Inr_iff: "e_mint p t k w = Inr (s, w') \<longleftrightarrow> w' = w \<and> mint p t k = Inr s"
  by (auto simp: e_mint_def prog_Inr_iff split: sum.splits)

lemmas e_Inr_iff = prog_Inr_iff e_loan_Inr_iff e_bank_Inr_iff e_ledger_Inr_iff e_res_Inr_iff
  e_balance_Inr_iff e_mint_Inr_iff

lemma upd_loan_at: "dget (ew_loans w) i = Some n \<Longrightarrow> upd_loan i f w = w\<lparr>ew_loans := dset i (f n) (ew_loans w)\<rparr>"
  by (simp add: upd_loan_def)

section \<open>Keeping the book\<close>

lemma book_value_dset:
  "wf_dict loans \<Longrightarrow> dget loans i = Some n \<Longrightarrow> book_value (dset i m loans) v = book_value loans v - carried v n + carried v m"
  unfolding book_value_def by (rule sum_dset_int)

lemma same_tick_dset:
  assumes "dget loans i = Some n" "ln_originated m = ln_originated n"
  shows "same_tick t (dset i m loans) = same_tick t loans"
  using assms(1)
proof (induction loans)
  case (Cons p loans)
  then show ?case using assms(2) by (cases p) (auto simp: same_tick_def)
qed simp

lemma named_mono:
  assumes "named loans i n" "same_tick (ln_originated n) loans \<le> same_tick (ln_originated n) loans'" "length loans \<le> length loans'"
    "ln_originated m = ln_originated n"
  shows "named loans' i m"
proof -
  from assms(1) obtain p k where "mint p (ln_originated n) k = Inr i"
    "k < (if p = ''txln'' then int (length loans) else same_tick (ln_originated n) loans)"
    by (auto simp: named_def)
  then have "mint p (ln_originated m) k = Inr i
      \<and> k < (if p = ''txln'' then int (length loans') else same_tick (ln_originated m) loans')"
    using assms(2-4) by (auto split: if_splits)
  then show ?thesis unfolding named_def by blast
qed

lemma length_dset: "dget d k = Some x \<Longrightarrow> length (dset k y d) = length d"
  by (induction d) (auto split: if_splits)

lemma post_reconciled:
  assumes inv: "ledger_inv l" and post: "post_checked u legs tick cause neg iss l = Inr (txn, l')"
    and rec: "reconciled l loans"
    and net: "\<And>v. debt_code v \<Longrightarrow> leg_net legs v = book_value loans' v - book_value loans v"
  shows "reconciled l' loans'"
  unfolding reconciled_def
proof (intro allI impI)
  fix v a assume a: "dget (led_accounts l') v = Some a" and v: "debt_code v"
  then obtain b where "dget (led_accounts l) v = Some b" "a = add_balance (leg_net legs v) b"
    using post_checked_InrD(7)[OF post, of v] by auto
  then show "acc_balance a = book_value loans' v" using rec net[OF v] v by (simp add: reconciled_def)
qed

lemma booked_post: "post_checked u legs tick cause neg iss l = Inr (txn, l') \<Longrightarrow> booked l' n = booked l n"
  unfolding booked_def by (simp only: post_checked_InrD(8))

text \<open>One loan changes, with the legs that were posted for it.\<close>

lemma loan_step:
  assumes w: "loan_book w" and n: "dget (ew_loans w) i = Some n"
    and post: "post_checked u legs tick cause neg iss (ew_ledger w) = Inr (txn, l')"
    and net: "\<And>v. debt_code v \<Longrightarrow> leg_net legs v = carried v m - carried v n"
    and m: "loan_ok i m" "booked (ew_ledger w) m" "ln_originated m = ln_originated n"
    and w': "ew_ledger w' = l'" "ew_loans w' = dset i m (ew_loans w)" "steady w w'"
  shows "loan_book w'"
proof -
  from w have inv: "ledger_inv (ew_ledger w)" and wf: "wf_dict (ew_loans w)"
    and rec: "reconciled (ew_ledger w) (ew_loans w)" and banks: "banks_ok (ew_banks w) \<and> rates_ok w"
    and each: "\<And>j x. dget (ew_loans w) j = Some x \<Longrightarrow> loan_ok j x \<and> booked (ew_ledger w) x \<and> named (ew_loans w) j x"
    by (auto simp: loan_book_def)
  have "reconciled l' (dset i m (ew_loans w))"
    by (rule post_reconciled[OF inv post rec]) (simp add: net book_value_dset[OF wf n])
  moreover have "loan_ok j x \<and> booked l' x \<and> named (dset i m (ew_loans w)) j x"
    if "dget (dset i m (ew_loans w)) j = Some x" for j x
  proof (cases "j = i")
    case True
    then have x: "x = m" using that by simp
    have "named (dset i m (ew_loans w)) i m"
      by (rule named_mono[of "ew_loans w" i n])
         (use each[OF n] m(3) same_tick_dset[OF n] length_dset[OF n] in auto)
    then show ?thesis using True x m booked_post[OF post] by simp
  next
    case False
    then have j: "dget (ew_loans w) j = Some x" using that by simp
    have "named (dset i m (ew_loans w)) j x"
      by (rule named_mono[of "ew_loans w" j x])
         (use each[OF j] m(3) same_tick_dset[OF n] length_dset[OF n] in auto)
    then show ?thesis using each[OF j] booked_post[OF post] by simp
  qed
  ultimately show ?thesis
    using post_preserves_inv[OF inv post] wf banks by (simp add: loan_book_def w'[unfolded steady_def] rates_ok_def)
qed

text \<open>A loan changes without any posting, and operations that leave the loans alone.\<close>

lemma loan_touch:
  assumes w: "loan_book w" and n: "dget (ew_loans w) i = Some n"
    and m: "loan_ok i m" "ln_outstanding m = ln_outstanding n" "ln_receivable m = ln_receivable n"
      "ln_payable m = ln_payable n" "ln_originated m = ln_originated n"
    and w': "led_accounts (ew_ledger w') = led_accounts (ew_ledger w)" "ledger_inv (ew_ledger w')"
      "ew_loans w' = dset i m (ew_loans w)" "steady w w'"
  shows "loan_book w'"
proof -
  from w have wf: "wf_dict (ew_loans w)" by (simp add: loan_book_def)
  have "book_value (dset i m (ew_loans w)) v = book_value (ew_loans w) v" for v
    by (simp add: book_value_dset[OF wf n] carried_def m)
  moreover have "named (dset i m (ew_loans w)) j x" if "dget (dset i m (ew_loans w)) j = Some x" for j x
  proof -
    have "\<exists>y. dget (ew_loans w) j = Some y \<and> ln_originated x = ln_originated y"
      using that n m(5) by (auto split: if_splits)
    then obtain y where y: "dget (ew_loans w) j = Some y" "ln_originated x = ln_originated y" by blast
    show ?thesis
      by (rule named_mono[of "ew_loans w" j y])
         (use w y same_tick_dset[OF n m(5)] length_dset[OF n] in \<open>auto simp: loan_book_def\<close>)
  qed
  moreover have "booked (ew_ledger w') x = booked (ew_ledger w) x" for x by (simp only: booked_def w'(1))
  moreover have "booked (ew_ledger w) m = booked (ew_ledger w) n" by (simp only: booked_def m)
  ultimately show ?thesis
    using w n m(1) by (auto simp: loan_book_def reconciled_def w'[unfolded steady_def] rates_ok_def)
qed

lemma book_frame:
  assumes "loan_book w" "ledger_inv (ew_ledger w')" "led_accounts (ew_ledger w') = led_accounts (ew_ledger w)"
    "ew_loans w' = ew_loans w" "steady w w'"
  shows "loan_book w'"
  using assms by (auto simp: loan_book_def reconciled_def booked_def steady_def rates_ok_def)

lemma book_post:
  assumes w: "loan_book w" and post: "post_checked u legs tick cause neg iss (ew_ledger w) = Inr (txn, l')"
    and net: "\<And>v. debt_code v \<Longrightarrow> leg_net legs v = 0"
    and w': "ew_ledger w' = l'" "ew_loans w' = ew_loans w" "steady w w'"
  shows "loan_book w'"
proof -
  from w have inv: "ledger_inv (ew_ledger w)" and rec: "reconciled (ew_ledger w) (ew_loans w)"
    by (auto simp: loan_book_def)
  show ?thesis
    using w post_preserves_inv[OF inv post] post_reconciled[OF inv post rec, of "ew_loans w"] net booked_post[OF post]
    by (auto simp: loan_book_def w'[unfolded steady_def] rates_ok_def)
qed

lemma open_InrD:
  assumes "open_account c ow ty b r tick l = Inr (v, l')"
  shows "account_id c ow b r = Inr v" "dget (led_accounts l) v = None"
    "\<exists>a. led_accounts l' = dset v a (led_accounts l) \<and> acc_balance a = 0 \<and> acc_closed_tick a = None \<and> acc_code a = c \<and> acc_owner a = ow"
    "led_ordinals l' = led_ordinals l" "led_run_id l' = led_run_id l"
  using assms by (auto simp: open_account_def split: if_splits sum.splits)

lemma book_open:
  assumes w: "loan_book w" and op: "open_account c ow ty b r tick (ew_ledger w) = Inr (v, l')"
    and w': "ew_ledger w' = l'" "ew_loans w' = ew_loans w" "steady w w'"
  shows "loan_book w'"
proof -
  from w have inv: "ledger_inv (ew_ledger w)" and rec: "reconciled (ew_ledger w) (ew_loans w)"
    and each: "\<And>j x. dget (ew_loans w) j = Some x \<Longrightarrow> booked (ew_ledger w) x" and wf: "wf_dict (ew_loans w)"
    by (auto simp: loan_book_def)
  note O = open_InrD[OF op]
  obtain a where a: "led_accounts l' = dset v a (led_accounts (ew_ledger w))" "acc_balance a = 0" using O(3) by blast
  have z: "carried v n = 0" if "n \<in> set (dvals (ew_loans w))" for n
  proof -
    from that obtain j where "dget (ew_loans w) j = Some n" using wf by (auto simp: dget_Some_iff)
    then have "booked (ew_ledger w) n" by (rule each)
    then have "ln_receivable n \<noteq> v" "ln_payable n \<noteq> v" using O(2) by (auto simp: booked_def dget_None_iff)
    then show ?thesis by (simp add: carried_def)
  qed
  have "(\<Sum>n\<leftarrow>dvals (ew_loans w). carried v n) = (\<Sum>n\<leftarrow>dvals (ew_loans w). 0)"
    by (intro arg_cong[where f = sum_list] map_cong refl z)
  then have bv: "book_value (ew_loans w) v = 0" by (simp add: book_value_def comp_def)
  have "reconciled l' (ew_loans w)" using rec bv a by (auto simp: reconciled_def)
  moreover have "booked l' n" if "booked (ew_ledger w) n" for n
    using that by (simp add: booked_def a(1) del: set_map)
  ultimately show ?thesis
    using w open_preserves_inv[OF inv op] by (auto simp: loan_book_def w'[unfolded steady_def] rates_ok_def)
qed

end
