(* ===== verification/Loan_Life.thy ===== *)
theory Loan_Life
  imports Loan_Book
begin

text \<open>
  Every operation of the credit engine keeps the loan book: accrual, payments made and missed,
  delinquency, default, write-off and origination.
\<close>

section \<open>One loan\<close>

lemma live_simps [simp]:
  "live_status ''current''" "live_status ''delinquent''" "live_status ''default''"
  "\<not> live_status ''repaid''" "\<not> live_status ''written_off''"
  by (simp_all add: live_status_def)

lemma accrual_bounds:
  assumes "credit_env E" "loan_ok i n"
  shows "0 \<le> fst (accrual E n)" "0 \<le> snd (accrual E n)" "snd (accrual E n) < 10000 * ee_days_per_year E"
    "fst (accrual E n) * (10000 * ee_days_per_year E) + snd (accrual E n) = ln_outstanding n * ln_rate n + ln_remainder n"
proof -
  have "0 < 10000 * ee_days_per_year E" using assms(1) by (simp add: credit_env_def)
  moreover have "0 \<le> ln_outstanding n * ln_rate n + ln_remainder n"
    using assms(2) by (auto simp: loan_ok_def)
  ultimately show "0 \<le> fst (accrual E n)" "0 \<le> snd (accrual E n)" "snd (accrual E n) < 10000 * ee_days_per_year E"
    "fst (accrual E n) * (10000 * ee_days_per_year E) + snd (accrual E n) = ln_outstanding n * ln_rate n + ln_remainder n"
    by (simp_all only: accrual_def Let_def fst_conv snd_conv div_mult_mod_eq pos_imp_zdiv_nonneg_iff
        pos_mod_sign pos_mod_bound)
qed

lemma loan_ok_accrue:
  assumes "credit_env E" "loan_ok i n" "accruing n"
  shows "loan_ok i (n\<lparr>ln_remainder := snd (accrual E n), ln_accrued := ln_accrued n + fst (accrual E n)\<rparr>)"
  using assms(2,3) accrual_bounds[OF assms(1,2)] by (auto simp: loan_ok_def interest_owed_def accruing_def)

lemma loan_ok_default:
  "loan_ok i n \<Longrightarrow> live_status (ln_status n) \<Longrightarrow> loan_ok i (n\<lparr>ln_status := ''default'', ln_defaulted := Some t\<rparr>)"
  by (auto simp: loan_ok_def interest_owed_def)

lemma loan_ok_capitalise:
  assumes "loan_ok i n" "ln_status n = ''current''" "0 \<le> penalty"
  shows "loan_ok i ((capitalise (ln_accrued n) n)\<lparr>ln_status := ''delinquent'', ln_rate := ln_rate n + penalty\<rparr>)"
  using assms by (auto simp: loan_ok_def interest_owed_def capitalise_def)

definition owing :: "loan_state \<Rightarrow> bool" where
  "owing n \<longleftrightarrow> ln_status n = ''current'' \<or> ln_status n = ''delinquent''"

lemma payment_terms_bounds:
  assumes "loan_ok i n" "owing n"
  shows "0 < pd_principal (payment_terms tick n)" "pd_principal (payment_terms tick n) \<le> ln_outstanding n"
    "0 \<le> pd_interest (payment_terms tick n)"
  using assms by (auto simp: payment_terms_def loan_ok_def owing_def)

definition paid_loan :: "'l econ_env \<Rightarrow> int \<Rightarrow> payment_due \<Rightarrow> loan_state \<Rightarrow> loan_state" where
  \<comment> \<open>a loan after a payment, closed when nothing is outstanding\<close>
  "paid_loan E tick p n = (let m = settle_payment E p n in
     if ln_outstanding m = 0 then m\<lparr>ln_status := ''repaid'', ln_closed := Some tick\<rparr> else m)"

lemma loan_ok_paid:
  assumes "loan_ok i n" "owing n"
  shows "loan_ok i (paid_loan E tick (payment_terms tick n) n)"
  using assms payment_terms_bounds[OF assms, of tick]
  by (auto simp: paid_loan_def settle_payment_def loan_ok_def interest_owed_def owing_def Let_def)

lemma paid_loan_sel:
  "ln_outstanding (paid_loan E tick p n) = ln_outstanding n - pd_principal p"
  "ln_receivable (paid_loan E tick p n) = ln_receivable n" "ln_payable (paid_loan E tick p n) = ln_payable n"
  "ln_originated (paid_loan E tick p n) = ln_originated n"
  by (simp_all add: paid_loan_def settle_payment_def Let_def)

definition written_loan :: "int \<Rightarrow> int \<Rightarrow> loan_state \<Rightarrow> loan_state" where
  "written_loan tick x n = (let m = write_off x n in
     if ln_outstanding m = 0 then m\<lparr>ln_status := ''written_off'', ln_closed := Some tick\<rparr> else m)"

lemma loan_ok_written:
  assumes "loan_ok i n" "0 < x" "x \<le> ln_outstanding n"
  shows "loan_ok i (written_loan tick x n)"
proof -
  have "live_status (ln_status n)" using assms by (auto simp: loan_ok_def)
  then show ?thesis using assms
    by (auto simp: written_loan_def write_off_def loan_ok_def interest_owed_def Let_def)
qed

lemma written_loan_sel:
  "ln_outstanding (written_loan tick x n) = ln_outstanding n - x"
  "ln_receivable (written_loan tick x n) = ln_receivable n" "ln_payable (written_loan tick x n) = ln_payable n"
  "ln_originated (written_loan tick x n) = ln_originated n"
  by (simp_all add: written_loan_def write_off_def Let_def)

section \<open>Frames\<close>

lemma keeps_e_emit: "keeps loan_book (e_emit E kind pl actor subjects)"
proof (rule keepsI)
  fix w ev w' assume w: "loan_book w" and run: "e_emit E kind pl actor subjects w = Inr (ev, w')"
  then obtain lg where "w' = w\<lparr>ew_log := lg\<rparr>" using e_emit_InrD by blast
  then show "loan_book w'" using w by (auto simp: loan_book_def rates_ok_def)
qed

lemma ledger_inv_ordinals: "ledger_inv (l\<lparr>led_ordinals := x\<rparr>) = ledger_inv l"
  by (simp add: ledger_inv_def account_inv_def)

lemma book_ordinals: "reconciled (l\<lparr>led_ordinals := x\<rparr>) = reconciled l" "booked (l\<lparr>led_ordinals := x\<rparr>) = booked l"
  by (simp_all add: fun_eq_iff reconciled_def booked_def)

lemma book_next: "loan_book w \<Longrightarrow> e_next_txn E tick w = Inr (txn, w') \<Longrightarrow> loan_book w'"
  by (drule e_next_InrD) (auto simp: ledger_inv_ordinals book_ordinals loan_book_def rates_ok_def)

lemma keeps_e_next: "keeps loan_book (e_next_txn E tick)"
  by (rule keepsI) (rule book_next)

lemma keeps_e_open: "keeps loan_book (e_open c ow ty b r tick)"
  by (rule keepsI) (auto dest!: e_open_InrD intro: book_open simp: steady_def)

lemma keeps_e_reads:
  "keeps P (e_loan i)" "keeps P (e_bank i)" "keeps P (e_ledger f)" "keeps P (e_res r)" "keeps P (e_balance v)" "keeps P (e_mint p t k)"
  by (auto intro!: keepsI simp: e_Inr_iff)

lemmas keeps_e = keeps_e_emit keeps_e_next keeps_e_open keeps_e_reads

lemma book_log: "loan_book (w\<lparr>ew_log := lg\<rparr>) = loan_book w"
  "loan_book (w\<lparr>ew_payments := ps\<rparr>) = loan_book w"
  by (simp_all add: loan_book_def rates_ok_def)

section \<open>Accrual\<close>

lemma accrue_loan_InrD:
  assumes "accrue_loan E tick i w = Inr (evs, w')"
  obtains n where "dget (ew_loans w) i = Some n" "w' = w" "\<not> (accruing n \<and> \<not> in_bankruptcy (ln_borrower n) w)"
  | n where "dget (ew_loans w) i = Some n" "accruing n" "\<not> in_bankruptcy (ln_borrower n) w"
      "ew_loans w' = dset i (n\<lparr>ln_remainder := snd (accrual E n), ln_accrued := ln_accrued n + fst (accrual E n)\<rparr>) (ew_loans w)"
      "ew_ledger w' = ew_ledger w" "frame w w'"
  using assms
  by (auto simp: accrue_loan_def Let_def e_Inr_iff upd_loan_at frame_def split: if_splits prod.splits dest!: e_emit_InrD)

lemma keeps_accrue_loan:
  assumes "credit_env E"
  shows "keeps loan_book (accrue_loan E tick i)"
proof (rule keepsI)
  fix w evs w' assume w: "loan_book w" and run: "accrue_loan E tick i w = Inr (evs, w')"
  from run show "loan_book w'"
  proof (cases rule: accrue_loan_InrD)
    case (2 n)
    have ok: "loan_ok i n" using w 2(1) by (auto simp: loan_book_def)
    show ?thesis
      by (rule loan_touch[OF w 2(1) loan_ok_accrue[OF assms ok 2(2)]]) (use w 2 in \<open>auto simp: loan_book_def frame_def steady_def rates_ok_def\<close>)
  qed (use w in simp)
qed

lemma keeps_accrue_interest:
  assumes "credit_env E"
  shows "keeps loan_book (accrue_interest E tick)"
  unfolding accrue_interest_def
  by (intro keeps_rules keeps_accrue_loan assms)

section \<open>Default and delinquency\<close>

lemma mark_default_InrD:
  assumes "mark_default E i trigger tick w = Inr (evs, w')"
  obtains n where "dget (ew_loans w) i = Some n" "w' = w" "evs = []"
    "ln_status n = ''default'' \<or> ln_status n = ''repaid'' \<or> ln_status n = ''written_off''"
  | n where "dget (ew_loans w) i = Some n" "ln_status n \<noteq> ''default''" "ln_status n \<noteq> ''repaid''" "ln_status n \<noteq> ''written_off''"
      "ew_loans w' = dset i (n\<lparr>ln_status := ''default'', ln_defaulted := Some tick\<rparr>) (ew_loans w)"
      "ew_ledger w' = ew_ledger w" "frame w w'"
  using assms
  by (auto simp: mark_default_def e_Inr_iff upd_loan_at frame_def split: if_splits dest!: e_emit_InrD)

lemma keeps_mark_default: "keeps loan_book (mark_default E i trigger tick)"
proof (rule keepsI)
  fix w evs w' assume w: "loan_book w" and run: "mark_default E i trigger tick w = Inr (evs, w')"
  from run show "loan_book w'"
  proof (cases rule: mark_default_InrD)
    case (2 n)
    have ok: "loan_ok i n" using w 2(1) by (auto simp: loan_book_def)
    then have "live_status (ln_status n)" using 2(2-4) by (auto simp: loan_ok_def)
    then show ?thesis
      by (intro loan_touch[OF w 2(1) loan_ok_default[OF ok]]) (use w 2 in \<open>auto simp: loan_book_def frame_def steady_def rates_ok_def\<close>)
  qed (use w in simp)
qed

definition delinquent_loan :: "'l econ_env \<Rightarrow> loan_state \<Rightarrow> loan_state" where
  "delinquent_loan E n = (capitalise (ln_accrued n) n)\<lparr>ln_status := ''delinquent'',
     ln_rate := ln_rate n + ee_delinquency_penalty E\<rparr>"

definition capital_legs :: "loan_state \<Rightarrow> leg list" where
  "capital_legs n = [mk_leg (ln_receivable n) 1 (ln_accrued n) ''interest'', mk_leg (ln_payable n) (-1) (ln_accrued n) ''interest'']"

abbreviation bumped :: "'l econ_env \<Rightarrow> int \<Rightarrow> 'l econ_world \<Rightarrow> ledger" where
  \<comment> \<open>the ledger after the next transaction identifier of a tick was read\<close>
  "bumped E tick w \<equiv> snd (next_txn_id (ee_uuid5 E) tick (ew_ledger w))"

lemma e_next_eq: "e_next_txn E tick w = Inr (fst (next_txn_id (ee_uuid5 E) tick (ew_ledger w)), w\<lparr>ew_ledger := bumped E tick w\<rparr>)"
  by (simp add: e_next_txn_def case_prod_unfold Let_def)

lemma accrued_zero: "ln_accrued n = 0 \<Longrightarrow> n\<lparr>ln_accrued := 0\<rparr> = n"
  by (cases n) simp

lemma transition_missed_InrD:
  assumes "transition_missed E i tick w = Inr (evs, w')"
  obtains n where "dget (ew_loans w) i = Some n" "w' = w"
  | n since where "dget (ew_loans w) i = Some n" "ln_missed_since n = Some since" "ln_status n = ''delinquent''"
      "mark_default E i ''dpd'' tick w = Inr (evs, w')"
  | n since txn ev where "dget (ew_loans w) i = Some n" "ln_missed_since n = Some since" "ln_status n = ''current''"
      "ee_delinquency_days E \<le> days_past E tick since"
      "ln_accrued n \<noteq> 0 \<and> post_transaction (ee_uuid5 E) (capital_legs n) tick (ev :: evt) [] (bumped E tick w) = Inr (txn, ew_ledger w')
        \<or> ln_accrued n = 0 \<and> ew_ledger w' = bumped E tick w"
      "ew_loans w' = dset i (delinquent_loan E n) (ew_loans w)" "frame w w'"
proof -
  from assms obtain n where n: "dget (ew_loans w) i = Some n" by (auto simp: transition_missed_def e_Inr_iff)
  consider "w' = w" | since where "ln_missed_since n = Some since" "ln_status n = ''delinquent''" "mark_default E i ''dpd'' tick w = Inr (evs, w')"
    | since where "ln_missed_since n = Some since" "ln_status n = ''current''" "ee_delinquency_days E \<le> days_past E tick since"
    using assms n by (auto simp: transition_missed_def e_Inr_iff split: option.splits if_splits)
  then show thesis
  proof cases
    case (3 since)
    show thesis
    proof (cases "ln_accrued n = 0")
      case True
      then have "ew_loans w' = dset i (delinquent_loan E n) (ew_loans w) \<and> frame w w' \<and> ew_ledger w' = bumped E tick w"
        using assms n 3
        by (auto simp: transition_missed_def e_Inr_iff e_next_eq upd_loan_def delinquent_loan_def capitalise_def frame_def
            accrued_zero dest!: e_emit_InrD)
      then show thesis using that(3)[OF n 3] True by blast
    next
      case False
      then obtain txn ev where
        "post_transaction (ee_uuid5 E) (capital_legs n) tick (ev :: evt) [] (bumped E tick w) = Inr (txn, ew_ledger w')
          \<and> ew_loans w' = dset i (delinquent_loan E n) (ew_loans w) \<and> frame w w'"
        using assms n 3
        by (auto simp: transition_missed_def e_Inr_iff e_next_eq upd_loan_def update_Some_unfold delinquent_loan_def capitalise_def frame_def
            capital_legs_def dest!: e_emit_InrD post_expected_InrD)
      then show thesis using that(3)[OF n 3] False by blast
    qed
  qed (use that n in auto)
qed

lemma mk_leg_sel [simp]:
  "leg_account (mk_leg a d m r) = a" "leg_direction (mk_leg a d m r) = d" "leg_amount (mk_leg a d m r) = m"
  by (simp_all add: mk_leg_def)

lemma leg_net_append: "leg_net (xs @ ys) v = leg_net xs v + leg_net ys v"
  by (induction xs) simp_all

lemma post_is_checked: "post_transaction u legs tick ev neg l = post_checked u legs tick ev neg False l"
  by (simp add: post_transaction_def)

lemma bumped_book:
  assumes "loan_book w"
  shows "loan_book (w\<lparr>ew_ledger := bumped E tick w\<rparr>)" "booked (bumped E tick w) n = booked (ew_ledger w) n"
proof -
  show "loan_book (w\<lparr>ew_ledger := bumped E tick w\<rparr>)" by (rule book_next[OF assms e_next_eq])
  show "booked (bumped E tick w) n = booked (ew_ledger w) n"
    by (simp add: next_txn_id_def Let_def book_ordinals)
qed

text \<open>A posting on the ledger that has just announced its identifier, with the change of its loan.\<close>

lemma announced_step:
  assumes w: "loan_book w" and n: "dget (ew_loans w) i = Some n"
    and post: "post_transaction (ee_uuid5 E) legs tick (ev :: evt) [] (bumped E tick w) = Inr (txn, ew_ledger w')"
    and net: "\<And>v. debt_code v \<Longrightarrow> leg_net legs v = carried v m - carried v n"
    and m: "loan_ok i m" "ln_receivable m = ln_receivable n" "ln_payable m = ln_payable n" "ln_originated m = ln_originated n"
    and w': "ew_loans w' = dset i m (ew_loans w)" "frame w w'"
  shows "loan_book w'"
proof (rule loan_step[OF bumped_book(1)[OF w, of E tick], of i n _ legs tick ev "[]" False txn "ew_ledger w'" m])
  have "booked (ew_ledger w) n" using w n by (auto simp: loan_book_def)
  then show "booked (ew_ledger (w\<lparr>ew_ledger := bumped E tick w\<rparr>)) m"
    using m by (simp add: bumped_book(2)[OF w]) (simp add: booked_def)
  show "post_checked (ee_uuid5 E) legs tick ev [] False (ew_ledger (w\<lparr>ew_ledger := bumped E tick w\<rparr>)) = Inr (txn, ew_ledger w')"
    using post by (simp add: post_is_checked)
qed (use assms in \<open>auto simp: frame_def steady_def\<close>)

lemma delinquent_loan_sel:
  "ln_outstanding (delinquent_loan E n) = ln_outstanding n + ln_accrued n"
  "ln_receivable (delinquent_loan E n) = ln_receivable n" "ln_payable (delinquent_loan E n) = ln_payable n"
  "ln_originated (delinquent_loan E n) = ln_originated n"
  by (simp_all add: delinquent_loan_def capitalise_def)

lemma keeps_transition_missed:
  assumes E: "credit_env E"
  shows "keeps loan_book (transition_missed E i tick)"
proof (rule keepsI)
  fix w evs w' assume w: "loan_book w" and run: "transition_missed E i tick w = Inr (evs, w')"
  from run show "loan_book w'"
  proof (cases rule: transition_missed_InrD)
    case 1
    then show ?thesis using w by simp
  next
    case (2 n since)
    then show ?thesis using keepsD[OF keeps_mark_default] w by blast
  next
    case (3 n since txn ev)
    have "loan_ok i n" using w 3(1) by (auto simp: loan_book_def)
    then have ok: "loan_ok i (delinquent_loan E n)"
      unfolding delinquent_loan_def using E 3(3) by (intro loan_ok_capitalise) (auto simp: credit_env_def)
    from 3(5) show ?thesis
    proof
      assume p: "ln_accrued n \<noteq> 0 \<and> post_transaction (ee_uuid5 E) (capital_legs n) tick ev [] (bumped E tick w) = Inr (txn, ew_ledger w')"
      show ?thesis
        by (rule announced_step[OF w 3(1) conjunct2[OF p] _ ok _ _ _ 3(6,7)])
           (auto simp: capital_legs_def carried_def delinquent_loan_sel)
    next
      assume z: "ln_accrued n = 0 \<and> ew_ledger w' = bumped E tick w"
      show ?thesis
        by (rule loan_touch[OF bumped_book(1)[OF w, of E tick], of i n "delinquent_loan E n"])
           (use w ok 3 z bumped_book(1)[OF w, of E tick] in \<open>auto simp: delinquent_loan_sel frame_def loan_book_def steady_def rates_ok_def\<close>)
    qed
  qed
qed

section \<open>Payments\<close>

lemma skips_owing: "\<not> amortise_skips tick n w \<Longrightarrow> owing n"
  by (auto simp: amortise_skips_def owing_def)

definition missed_loan :: "'l econ_env \<Rightarrow> int \<Rightarrow> loan_state \<Rightarrow> loan_state" where
  "missed_loan E tick n = n\<lparr>ln_missed_since := Some (opt_or (ln_missed_since n) tick),
     ln_next_payment := ln_next_payment n + payment_interval E\<rparr>"

lemma missed_since_upd:
  "(if ln_missed_since n = None then n\<lparr>ln_missed_since := Some tick\<rparr> else n) = n\<lparr>ln_missed_since := Some (opt_or (ln_missed_since n) tick)\<rparr>"
  by (cases n) auto

lemma miss_payment_InrD:
  assumes "miss_payment E tick i p available pid w = Inr (evs, w')" "dget (ew_loans w) i = Some n"
  obtains w1 evs' where "ew_loans w1 = dset i (missed_loan E tick n) (ew_loans w)" "ew_ledger w1 = ew_ledger w" "frame w w1"
    "ew_payments w1 = ew_payments w @ [\<lparr>lp_id = pid, lp_loan = i, lp_tick = tick, lp_principal = 0, lp_interest = pd_interest p, lp_missed = True\<rparr>]"
    "transition_missed E i tick w1 = Inr (evs', w')" "evs = hd evs # evs'"
proof -
  let ?row = "\<lparr>lp_id = pid, lp_loan = i, lp_tick = tick, lp_principal = 0, lp_interest = pd_interest p, lp_missed = True\<rparr>"
  obtain ev lg evs' where "evs = ev # evs'" "transition_missed E i tick (w\<lparr>ew_log := lg, ew_payments := ew_payments w @ [?row],
      ew_loans := dset i (missed_loan E tick n) (ew_loans w)\<rparr>) = Inr (evs', w')"
    using assms
    by (auto simp: miss_payment_def e_Inr_iff upd_loan_at missed_since_upd missed_loan_def dest!: e_emit_InrD)
  then show thesis by (intro that[of "w\<lparr>ew_log := lg, ew_payments := ew_payments w @ [?row],
      ew_loans := dset i (missed_loan E tick n) (ew_loans w)\<rparr>"]) (simp_all add: frame_def)
qed

lemma loan_ok_missed: "loan_ok i n \<Longrightarrow> loan_ok i (missed_loan E tick n)"
  by (auto simp: loan_ok_def missed_loan_def interest_owed_def)

lemma book_miss_payment:
  assumes E: "credit_env E" and w: "loan_book w" and run: "miss_payment E tick i p available pid w = Inr (evs, w')"
    and n: "dget (ew_loans w) i = Some n"
  shows "loan_book w'"
  using run n
proof (cases rule: miss_payment_InrD)
  case (1 w1 evs')
  have "loan_ok i n" using w n by (auto simp: loan_book_def)
  then have "loan_book w1"
    by (intro loan_touch[OF w n loan_ok_missed[of i n E tick]])
       (use w 1 in \<open>auto simp: missed_loan_def loan_book_def frame_def steady_def rates_ok_def\<close>)
  then show ?thesis using keepsD[OF keeps_transition_missed[OF E]] 1(5) by blast
qed

lemma paying_deposit_InrD:
  assumes "paying_deposit n d l = Inr v"
  shows "v \<in> set (codes_of l (ln_borrower n) Dep)" "code_at v = Some Dep"
    "ln_lender n \<noteq> treasury_id \<Longrightarrow> bank_part v = Some (ln_lender n)"
proof -
  define P where "P = (\<lambda>v. if ln_lender n = treasury_id then (case balance l v of Inl _ \<Rightarrow> False | Inr x \<Rightarrow> d \<le> x)
            else bank_part v = Some (ln_lender n))"
  from assms have "\<exists>vs. filter P (codes_of l (ln_borrower n) Dep) = v # vs"
    by (auto simp: paying_deposit_def P_def[symmetric] split: list.splits)
  then have "v \<in> set (filter P (codes_of l (ln_borrower n) Dep))" by (metis list.set_intros(1))
  then show "v \<in> set (codes_of l (ln_borrower n) Dep)" "code_at v = Some Dep"
    "ln_lender n \<noteq> treasury_id \<Longrightarrow> bank_part v = Some (ln_lender n)"
    by (auto simp: P_def intro: codes_of_code)
qed

lemma leg_net_debt: "leg_net (debt_legs n x r) v = (if ln_receivable n = v then - x else 0) + (if ln_payable n = v then x else 0)"
  by (simp add: debt_legs_def)

lemma payment_legs_net:
  assumes legs: "payment_legs n p deposit w = Inr legs" and w: "banks_ok (ew_banks w)" and d: "code_at deposit = Some Dep"
    and v: "debt_code v"
  shows "leg_net legs v = leg_net (debt_legs n (pd_principal p) ''loan'') v"
proof -
  obtain front where f: "legs = front @ debt_legs n (pd_principal p) ''loan''" "list_all (\<lambda>g. \<not> debt_code (leg_account g)) front"
  proof (cases "ln_lender n = treasury_id")
    case False
    then show thesis using that assms
      by (auto simp: payment_legs_def banks_ok_def debt_code_simps split: option.splits)
  next
    case True
    with legs obtain b bank t ts where "dget (ew_banks w) b = Some bank" "codes_of (ew_ledger w) treasury_id Dep = t # ts"
      "legs = [mk_leg deposit (-1) (pd_total p) ''tax'', mk_leg (bk_liability bank) 1 (pd_total p) ''tax'',
          mk_leg (bk_reserve bank) (-1) (pd_total p) ''tax'', mk_leg t 1 (pd_total p) ''tax''] @ debt_legs n (pd_principal p) ''loan''"
      by (auto simp: payment_legs_def split: option.splits list.splits)
    moreover have "code_at t = Some Dep" by (rule codes_of_code[of _ "ew_ledger w" treasury_id]) (simp add: calculation)
    ultimately show thesis using that w d by (auto simp: banks_ok_def debt_code_simps)
  qed
  have "leg_net front v = 0" by (rule leg_net_absent) (use f(2) v in \<open>auto simp: list_all_iff\<close>)
  then show ?thesis unfolding f(1) by (simp add: leg_net_append)
qed

lemma make_payment_InrD:
  assumes run: "make_payment E tick i n p pid w = Inr (evs, w')" and n: "dget (ew_loans w) i = Some n"
  obtains deposit lg legs txn ev where "paying_deposit n (pd_total p) (ew_ledger w) = Inr deposit"
    "payment_legs n p deposit (w\<lparr>ew_ledger := bumped E tick w, ew_log := lg\<rparr>) = Inr legs"
    "post_transaction (ee_uuid5 E) legs tick (ev :: evt) [] (bumped E tick w) = Inr (txn, ew_ledger w')"
    "ew_loans w' = dset i (paid_loan E tick p n) (ew_loans w)" "frame w w'"
    "ew_payments w' = ew_payments w @ [\<lparr>lp_id = pid, lp_loan = i, lp_tick = tick, lp_principal = pd_principal p,
       lp_interest = pd_interest p, lp_missed = False\<rparr>]"
proof -
  let ?row = "\<lparr>lp_id = pid, lp_loan = i, lp_tick = tick, lp_principal = pd_principal p,
       lp_interest = pd_interest p, lp_missed = False\<rparr>"
  from run obtain deposit lg legs ev l w3
    where d: "paying_deposit n (pd_total p) (ew_ledger w) = Inr deposit"
      "payment_legs n p deposit (w\<lparr>ew_ledger := bumped E tick w, ew_log := lg\<rparr>) = Inr legs"
      "post_transaction (ee_uuid5 E) legs tick (ev :: evt) [] (bumped E tick w) = Inr (fst (next_txn_id (ee_uuid5 E) tick (ew_ledger w)), l)"
    and w3: "w3 = w\<lparr>ew_log := lg, ew_ledger := l, ew_loans := dset i (settle_payment E p n) (ew_loans w),
        ew_payments := ew_payments w @ [?row]\<rparr>"
    and fin: "close_repaid E tick i ev w3 = Inr (evs, w')"
    using n unfolding make_payment_def
    by (clarsimp simp: e_next_eq e_Inr_iff upd_loan_at dest!: e_emit_InrD post_expected_InrD)
  from fin have "ew_ledger w' = l \<and> ew_loans w' = dset i (paid_loan E tick p n) (ew_loans w) \<and> frame w w'
      \<and> ew_payments w' = ew_payments w @ [?row]"
    by (cases "ln_outstanding (settle_payment E p n) = 0")
       (auto simp: close_repaid_def w3 e_Inr_iff upd_loan_at frame_def paid_loan_def Let_def dest!: e_emit_InrD)
  then show thesis using that[OF d(1,2)] d(3) by simp
qed

lemma carried_less:
  assumes "ln_outstanding m = ln_outstanding n - x" "ln_receivable m = ln_receivable n" "ln_payable m = ln_payable n"
  shows "carried v m - carried v n = leg_net (debt_legs n x r) v"
  by (simp add: carried_def assms leg_net_debt)

lemma book_make_payment:
  assumes w: "loan_book w" and n: "dget (ew_loans w) i = Some n" "owing n"
    and run: "make_payment E tick i n (payment_terms tick n) pid w = Inr (evs, w')"
  shows "loan_book w'"
  using run n(1)
proof (cases rule: make_payment_InrD)
  case (1 deposit lg legs txn ev)
  let ?m = "paid_loan E tick (payment_terms tick n) n"
  have ok: "loan_ok i ?m" using w n by (intro loan_ok_paid) (auto simp: loan_book_def)
  have "leg_net legs v = carried v ?m - carried v n" if "debt_code v" for v
    using payment_legs_net[OF 1(2) _ paying_deposit_InrD(2)[OF 1(1)] that] w
    by (simp add: carried_less[where r = "''loan''"] paid_loan_sel loan_book_def)
  then show ?thesis by (intro announced_step[OF w n(1) 1(3) _ ok _ _ _ 1(4,5)]) (simp_all add: paid_loan_sel)
qed

lemma amortise_loan_InrD:
  assumes "amortise_loan E tick i w = Inr (evs, w')"
  obtains n where "dget (ew_loans w) i = Some n" "amortise_skips tick n w" "w' = w"
  | n pid where "dget (ew_loans w) i = Some n" "\<not> amortise_skips tick n w" "funds n (ew_ledger w) < pd_total (payment_terms tick n)"
      "miss_payment E tick i (payment_terms tick n) (funds n (ew_ledger w)) pid w = Inr (evs, w')"
  | n pid where "dget (ew_loans w) i = Some n" "\<not> amortise_skips tick n w" "pd_total (payment_terms tick n) \<le> funds n (ew_ledger w)"
      "make_payment E tick i n (payment_terms tick n) pid w = Inr (evs, w')"
  using assms by (fastforce simp: amortise_loan_def Let_def e_Inr_iff split: if_splits)

lemma keeps_amortise_loan:
  assumes "credit_env E"
  shows "keeps loan_book (amortise_loan E tick i)"
proof (rule keepsI)
  fix w evs w' assume w: "loan_book w" and run: "amortise_loan E tick i w = Inr (evs, w')"
  from run show "loan_book w'"
    by (cases rule: amortise_loan_InrD) (use w assms in \<open>auto intro: book_miss_payment book_make_payment skips_owing\<close>)
qed

lemma keeps_amortise: "credit_env E \<Longrightarrow> keeps loan_book (amortise E tick)"
  unfolding amortise_def by (intro keeps_rules keeps_amortise_loan)

section \<open>Write-off\<close>

lemma write_off_loan_InrD:
  assumes "write_off_loan E i amount recovery tick w = Inr (evs, w')"
  obtains n where "dget (ew_loans w) i = Some n" "min amount (ln_outstanding n) \<le> 0" "w' = w" "evs = []"
  | n txn ev where "dget (ew_loans w) i = Some n" "0 < min amount (ln_outstanding n)"
      "post_transaction (ee_uuid5 E) (debt_legs n (min amount (ln_outstanding n)) ''write_off'') tick (ev :: evt) [] (bumped E tick w)
         = Inr (txn, ew_ledger w')"
      "ew_loans w' = dset i (written_loan tick (min amount (ln_outstanding n)) n) (ew_loans w)" "frame w w'"
proof -
  from assms obtain n where n: "dget (ew_loans w) i = Some n" by (auto simp: write_off_loan_def e_Inr_iff)
  show thesis
  proof (cases "min amount (ln_outstanding n) \<le> 0")
    case True
    then show thesis using that(1)[OF n] assms n by (simp add: write_off_loan_def e_Inr_iff)
  next
    case False
    let ?x = "min amount (ln_outstanding n)"
    have eq: "(if ln_outstanding (write_off ?x n) = 0 then (write_off ?x n)\<lparr>ln_status := ''written_off'', ln_closed := Some tick\<rparr>
        else write_off ?x n) = written_loan tick ?x n" by (simp add: written_loan_def Let_def)
    from False assms n obtain lg l ev where
      "post_transaction (ee_uuid5 E) (debt_legs n ?x ''write_off'') tick (ev :: evt) [] (bumped E tick w)
         = Inr (fst (next_txn_id (ee_uuid5 E) tick (ew_ledger w)), l)"
      "w' = upd_loan i (\<lambda>n. if ln_outstanding n = 0 then n\<lparr>ln_status := ''written_off'', ln_closed := Some tick\<rparr> else n)
         (upd_loan i (write_off ?x) (w\<lparr>ew_log := lg, ew_ledger := l\<rparr>))"
      unfolding write_off_loan_def
      by (clarsimp simp: e_next_eq e_Inr_iff Let_def dest!: e_emit_InrD post_expected_InrD)
    then have "post_transaction (ee_uuid5 E) (debt_legs n ?x ''write_off'') tick ev [] (bumped E tick w)
         = Inr (fst (next_txn_id (ee_uuid5 E) tick (ew_ledger w)), ew_ledger w')"
      "ew_loans w' = dset i (written_loan tick ?x n) (ew_loans w)" "frame w w'"
      using n by (simp_all add: upd_loan_at frame_def written_loan_def Let_def del: min_less_iff_conj)
    moreover have "0 < ?x" using False by linarith
    ultimately show thesis using that(2)[OF n] by blast
  qed
qed

lemma keeps_write_off_loan: "keeps loan_book (write_off_loan E i amount recovery tick)"
proof (rule keepsI)
  fix w evs w' assume w: "loan_book w" and run: "write_off_loan E i amount recovery tick w = Inr (evs, w')"
  from run show "loan_book w'"
  proof (cases rule: write_off_loan_InrD)
    case (2 n txn ev)
    let ?m = "written_loan tick (min amount (ln_outstanding n)) n"
    have ok: "loan_ok i ?m" using w 2 by (intro loan_ok_written) (auto simp: loan_book_def)
    show ?thesis
      by (rule announced_step[OF w 2(1) 2(3) _ ok _ _ _ 2(4,5)])
         (simp_all add: written_loan_sel carried_less[where r = "''write_off''"])
  qed (use w in simp)
qed

lemma keeps_write_off_due: "keeps loan_book (write_off_due E tick)"
  unfolding write_off_due_def Let_def
  by (intro keeps_rules keeps_write_off_loan keeps_e_reads)

section \<open>Origination\<close>

lemma fresh_name:
  assumes w: "loan_book w" and mint: "mint p tick k = Inr i"
    and k: "k = (if p = ''txln'' then int (length (ew_loans w)) else same_tick tick (ew_loans w))"
  shows "dget (ew_loans w) i = None"
proof (rule ccontr)
  assume "dget (ew_loans w) i \<noteq> None"
  then obtain n where "dget (ew_loans w) i = Some n" by auto
  then have "named (ew_loans w) i n" using w by (auto simp: loan_book_def)
  then obtain p' k' where "mint p' (ln_originated n) k' = Inr i"
    "k' < (if p' = ''txln'' then int (length (ew_loans w)) else same_tick (ln_originated n) (ew_loans w))"
    unfolding named_def by blast
  then show False using mint_injective[OF mint, of p' "ln_originated n" k'] k by (auto split: if_splits)
qed

lemma loan_added:
  assumes w: "loan_book w" and mint: "mint p (ln_originated m) k = Inr i"
    and k: "k = (if p = ''txln'' then int (length (ew_loans w)) else same_tick (ln_originated m) (ew_loans w))"
    and post: "post_checked u legs tick cause neg iss (ew_ledger w) = Inr (txn, l')"
    and net: "\<And>v. debt_code v \<Longrightarrow> leg_net legs v = carried v m"
    and m: "loan_ok i m" "booked (ew_ledger w) m"
    and w': "ew_ledger w' = l'" "ew_loans w' = dset i m (ew_loans w)" "steady w w'"
  shows "loan_book w'"
proof -
  have i: "dget (ew_loans w) i = None" by (rule fresh_name[OF w mint k])
  then have dset: "dset i m (ew_loans w) = ew_loans w @ [(i, m)]" by (simp add: dget_None_iff dset_fresh)
  from w have inv: "ledger_inv (ew_ledger w)" and wf: "wf_dict (ew_loans w)"
    and rec: "reconciled (ew_ledger w) (ew_loans w)" and banks: "banks_ok (ew_banks w) \<and> rates_ok w"
    and each: "\<And>j x. dget (ew_loans w) j = Some x \<Longrightarrow> loan_ok j x \<and> booked (ew_ledger w) x \<and> named (ew_loans w) j x"
    by (auto simp: loan_book_def)
  have "reconciled l' (dset i m (ew_loans w))"
    by (rule post_reconciled[OF inv post rec]) (simp add: net dset book_value_def)
  moreover have "loan_ok j x \<and> booked l' x \<and> named (dset i m (ew_loans w)) j x"
    if "dget (dset i m (ew_loans w)) j = Some x" for j x
  proof (cases "j = i")
    case True
    then have x: "x = m" using that by simp
    have "named (dset i m (ew_loans w)) i m"
      unfolding named_def using mint k by (intro exI[of _ p] exI[of _ k]) (auto simp: dset same_tick_def)
    then show ?thesis using True x m booked_post[OF post] by simp
  next
    case False
    then have j: "dget (ew_loans w) j = Some x" using that by simp
    have "named (dset i m (ew_loans w)) j x"
      by (rule named_mono[of "ew_loans w" j x]) (use each[OF j] in \<open>auto simp: dset same_tick_def\<close>)
    then show ?thesis using each[OF j] booked_post[OF post] by simp
  qed
  ultimately show ?thesis
    using post_preserves_inv[OF inv post] wf banks by (simp add: loan_book_def w'[unfolded steady_def] rates_ok_def)
qed

definition reads_ok :: "'l econ_world \<Rightarrow> 'l econ_world \<Rightarrow> bool" where
  \<comment> \<open>a world later on, with the same loans and banks and no account lost\<close>
  "reads_ok w w' \<longleftrightarrow> loan_book w' \<and> ew_loans w' = ew_loans w \<and> frame w w'
     \<and> set (dkeys (led_accounts (ew_ledger w))) \<subseteq> set (dkeys (led_accounts (ew_ledger w')))"

lemma reads_ok_refl: "loan_book w \<Longrightarrow> reads_ok w w"
  by (simp add: reads_ok_def frame_def)

lemma reads_ok_trans: "reads_ok w w1 \<Longrightarrow> reads_ok w1 w2 \<Longrightarrow> reads_ok w w2"
  by (auto simp: reads_ok_def frame_def)

lemma e_open_reads:
  assumes "loan_book w" "e_open c ow ty b r tick w = Inr (v, w')"
  shows "reads_ok w w'" "v \<in> set (dkeys (led_accounts (ew_ledger w')))" "code_at v = Some c"
proof -
  obtain l where op: "open_account c ow ty b r tick (ew_ledger w) = Inr (v, l)" and w': "w' = w\<lparr>ew_ledger := l\<rparr>"
    using e_open_InrD[OF assms(2)] by blast
  obtain a where a: "led_accounts l = dset v a (led_accounts (ew_ledger w))" using open_InrD(3)[OF op] by blast
  show "reads_ok w w'" using book_open[OF assms(1) op, of w'] by (simp add: reads_ok_def w' frame_def steady_def a subset_insertI del: set_map)
  show "v \<in> set (dkeys (led_accounts (ew_ledger w')))" by (simp add: w' a del: set_map)
  show "code_at v = Some c" by (rule code_at_id[OF open_InrD(1)[OF op]])
qed

lemma borrower_deposit_reads:
  assumes "loan_book w" "borrower_deposit q tick w = Inr (v, w')"
  shows "reads_ok w w'" "code_at v = Some Dep"
proof -
  let ?vs = "filter (\<lambda>v. bank_part v = Some (lq_lender q)) (codes_of (ew_ledger w) (lq_borrower q) Dep)"
  have "reads_ok w w' \<and> code_at v = Some Dep"
  proof (cases ?vs)
    case Nil
    then have "e_open Dep (lq_borrower q) (owner_kind (lq_borrower q) w) (Some (lq_lender q)) None tick w = Inr (v, w')"
      using assms(2) by (simp add: borrower_deposit_def e_Inr_iff)
    from e_open_reads[OF assms(1) this] show ?thesis by simp
  next
    case (Cons x xs)
    then have "v = x" "w' = w" using assms(2) by (simp_all add: borrower_deposit_def e_Inr_iff)
    moreover have "x \<in> set ?vs" unfolding Cons by simp
    then have "x \<in> set (codes_of (ew_ledger w) (lq_borrower q) Dep)" by simp
    ultimately show ?thesis using reads_ok_refl[OF assms(1)] codes_of_code by blast
  qed
  then show "reads_ok w w'" "code_at v = Some Dep" by auto
qed

lemma fund_loan_InrD:
  assumes "fund_loan E q d tick i rec pay dep w = Inr (evs, w')"
  obtains bank payments txn ev where "dget (ew_banks w) (lq_lender q) = Some bank"
    "schedule (ee_power E) (ld_offered d) (ld_rate d) (ld_term d) (payment_interval E) (ticks_per_year E) = Inr payments"
    "post_transaction (ee_uuid5 E) (fund_legs rec (bk_liability bank) dep pay (ld_offered d)) tick (ev :: evt) [] (bumped E tick w)
       = Inr (txn, ew_ledger w')"
    "ew_loans w' = dset i (new_loan E q d tick i rec pay (pr_payment (hd payments)) (int (length payments))) (ew_loans w)"
    "frame w w'"
  using assms unfolding fund_loan_def
  by (clarsimp simp: e_next_eq e_Inr_iff frame_def dest!: e_emit_InrD post_expected_InrD)

lemma originate_InrD:
  assumes "originate E q d tick w = Inr (evs, w')"
  obtains "\<not> ld_approved d \<or> ld_offered d \<le> 0" "w' = w" "evs = []"
  | i rec pay dep ty w1 w2 w3 where "ld_approved d" "0 < ld_offered d"
      "mint ''ln'' tick (same_tick tick (ew_loans w)) = Inr i"
      "e_open Lnr (lq_lender q) ''bank'' None (Some i) tick w = Inr (rec, w1)"
      "e_open Lnp (lq_borrower q) ty None (Some i) tick w1 = Inr (pay, w2)"
      "borrower_deposit q tick w2 = Inr (dep, w3)" "fund_loan E q d tick i rec pay dep w3 = Inr (evs, w')"
  using assms
  by (fastforce simp: originate_def same_tick_def e_mint_Inr_iff m_bind_Inr_iff m_basic_Inr_iff(1,3) split: if_splits)

lemma keeps_originate:
  assumes rate: "0 \<le> ld_rate d"
  shows "keeps loan_book (originate E q d tick)"
proof (rule keepsI)
  fix w evs w' assume w: "loan_book w" and run: "originate E q d tick w = Inr (evs, w')"
  from run show "loan_book w'"
  proof (cases rule: originate_InrD)
    case (2 i rec pay dep ty w1 w2 w3)
    note r1 = e_open_reads[OF w 2(4)]
    then have b1: "loan_book w1" by (simp add: reads_ok_def)
    note r2 = e_open_reads[OF b1 2(5)]
    then have b2: "loan_book w2" by (simp add: reads_ok_def)
    note r3 = borrower_deposit_reads[OF b2 2(6)]
    have r: "reads_ok w w3" by (rule reads_ok_trans[OF r1(1) reads_ok_trans[OF r2(1) r3(1)]])
    then have b3: "loan_book w3" by (simp add: reads_ok_def)
    from 2(7) show ?thesis
    proof (cases rule: fund_loan_InrD)
      case (1 bank payments txn ev)
      let ?m = "new_loan E q d tick i rec pay (pr_payment (hd payments)) (int (length payments))"
      let ?w = "w3\<lparr>ew_ledger := bumped E tick w3\<rparr>"
      have codes: "code_at (bk_liability bank) = Some Dpl" "code_at dep = Some Dep"
        using b3 1(1) r3 by (auto simp: loan_book_def banks_ok_def)
      show ?thesis
      proof (rule loan_added[OF bumped_book(1)[OF b3, of E tick], of "''ln''" ?m "same_tick tick (ew_loans w)" i])
        show "mint ''ln'' (ln_originated ?m) (same_tick tick (ew_loans w)) = Inr i" using 2(3) by (simp add: new_loan_def)
        show "same_tick tick (ew_loans w) = (if ''ln'' = ''txln'' then int (length (ew_loans ?w)) else same_tick (ln_originated ?m) (ew_loans ?w))"
          using r by (simp add: reads_ok_def new_loan_def)
        show "post_checked (ee_uuid5 E) (fund_legs rec (bk_liability bank) dep pay (ld_offered d)) tick ev [] False (ew_ledger ?w)
            = Inr (txn, ew_ledger w')" using 1(3) by (simp add: post_is_checked)
        show "leg_net (fund_legs rec (bk_liability bank) dep pay (ld_offered d)) v = carried v ?m" if "debt_code v" for v
          using codes that by (auto simp: fund_legs_def carried_def new_loan_def debt_code_simps)
        show "loan_ok i ?m" using 2(2) rate by (simp add: loan_ok_def new_loan_def interest_owed_def)
        show "booked (ew_ledger ?w) ?m"
        proof -
          have "rec \<in> set (dkeys (led_accounts (ew_ledger w3)))" "pay \<in> set (dkeys (led_accounts (ew_ledger w3)))"
            using r1(1,2) r2(1,2) r3(1) unfolding reads_ok_def by blast+
          then have "booked (ew_ledger w3) ?m" using r1(3) r2(3) by (simp add: booked_def new_loan_def del: set_map)
          then show ?thesis using bumped_book(2)[OF b3] by simp
        qed
      qed (use 1 in \<open>simp_all add: frame_def steady_def\<close>)
    qed
  qed (use w in simp)
qed

end
