(* ===== verification/Loan_Cycle.thy ===== *)
theory Loan_Cycle
  imports Loan_Life
begin

text \<open>
  The life of a debt as an abstract state machine, and the monthly operations of the credit engine as
  an implementation of it: accrual, payments and write-offs move every loan along the machine.
\<close>

section \<open>The abstract debt\<close>

datatype phase = Performing | Late | Bad | Settled | Lost

record debt =
  db_phase :: phase
  db_owed :: int
  db_accrued :: int
  db_rate :: int

inductive debt_step :: "debt \<Rightarrow> debt \<Rightarrow> bool" where
  debt_accrue: "db_phase d \<in> {Performing, Late} \<Longrightarrow> 0 \<le> x \<Longrightarrow> debt_step d (d\<lparr>db_accrued := db_accrued d + x\<rparr>)"
| debt_late: "db_phase d = Performing \<Longrightarrow> 0 \<le> p \<Longrightarrow>
    debt_step d \<lparr>db_phase = Late, db_owed = db_owed d + db_accrued d, db_accrued = 0, db_rate = db_rate d + p\<rparr>"
| debt_bad: "db_phase d = Late \<Longrightarrow> debt_step d (d\<lparr>db_phase := Bad\<rparr>)"
| debt_pay: "db_phase d \<in> {Performing, Late} \<Longrightarrow> 0 < x \<Longrightarrow> x < db_owed d \<Longrightarrow>
    debt_step d (d\<lparr>db_owed := db_owed d - x, db_accrued := 0\<rparr>)"
| debt_settle: "db_phase d \<in> {Performing, Late} \<Longrightarrow> debt_step d (d\<lparr>db_phase := Settled, db_owed := 0, db_accrued := 0\<rparr>)"
| debt_lose: "db_phase d = Bad \<Longrightarrow> debt_step d (d\<lparr>db_phase := Lost, db_owed := 0, db_accrued := 0\<rparr>)"

inductive_cases debt_stepE: "debt_step d e"

abbreviation debt_runs :: "debt \<Rightarrow> debt \<Rightarrow> bool" where
  "debt_runs \<equiv> debt_step\<^sup>*\<^sup>*"

lemma debt_closed:
  assumes "debt_runs d e" "db_phase d \<in> {Settled, Lost}" shows "e = d"
  using assms by (induction rule: converse_rtranclp_induct) (auto elim: debt_stepE)

lemma debt_phase_order:
  assumes "debt_runs d e"
  shows "db_phase d = Bad \<longrightarrow> db_phase e \<in> {Bad, Lost}" "db_phase d = Late \<longrightarrow> db_phase e \<noteq> Performing"
  using assms by (induction rule: rtranclp_induct) (auto elim: debt_stepE)

section \<open>The abstraction\<close>

definition phase_of :: "string \<Rightarrow> phase" where
  "phase_of s = (if s = ''current'' then Performing else if s = ''delinquent'' then Late else if s = ''default'' then Bad
     else if s = ''repaid'' then Settled else Lost)"

definition debt_of :: "loan_state \<Rightarrow> debt" where
  "debt_of n = \<lparr>db_phase = phase_of (ln_status n), db_owed = ln_outstanding n, db_accrued = ln_accrued n, db_rate = ln_rate n\<rparr>"

definition advances :: "'l econ_world \<Rightarrow> 'l econ_world \<Rightarrow> bool" where
  \<comment> \<open>no loan appears or disappears, and each moves along the machine\<close>
  "advances w w' \<longleftrightarrow> (\<forall>i. rel_option (\<lambda>n m. debt_runs (debt_of n) (debt_of m)) (dget (ew_loans w) i) (dget (ew_loans w') i))"

definition advanced :: "'l econ_world \<Rightarrow> 'l econ_world \<Rightarrow> bool" where
  "advanced w w' \<longleftrightarrow> loan_book w' \<and> advances w w'"

lemma phase_of_simps [simp]:
  "phase_of ''current'' = Performing" "phase_of ''delinquent'' = Late" "phase_of ''default'' = Bad"
  "phase_of ''repaid'' = Settled" "phase_of ''written_off'' = Lost"
  by (simp_all add: phase_of_def)

lemma advances_refl: "advances w w"
  by (simp add: advances_def rel_option_iff split: option.split)

lemma advances_trans: "advances u v \<Longrightarrow> advances v w \<Longrightarrow> advances u w"
proof (unfold advances_def, intro allI)
  fix i
  let ?R = "\<lambda>n m. debt_runs (debt_of n) (debt_of m)"
  assume "\<forall>i. rel_option ?R (dget (ew_loans u) i) (dget (ew_loans v) i)" "\<forall>i. rel_option ?R (dget (ew_loans v) i) (dget (ew_loans w) i)"
  then have "rel_option ?R (dget (ew_loans u) i) (dget (ew_loans v) i)" "rel_option ?R (dget (ew_loans v) i) (dget (ew_loans w) i)" by auto
  then show "rel_option ?R (dget (ew_loans u) i) (dget (ew_loans w) i)"
    by (cases "dget (ew_loans u) i"; cases "dget (ew_loans v) i"; cases "dget (ew_loans w) i") auto
qed

lemma advances_loan:
  assumes "dget (ew_loans w) i = Some n" "ew_loans w' = dset i m (ew_loans w)" "debt_runs (debt_of n) (debt_of m)"
  shows "advances w w'"
  using assms by (auto simp: advances_def rel_option_iff split: option.split)

section \<open>The operations\<close>

lemma advances_accrue:
  assumes E: "credit_env E" and w: "loan_book w" and run: "accrue_loan E tick i w = Inr (evs, w')"
  shows "advances w w'"
  using run
proof (cases rule: accrue_loan_InrD)
  case (2 n)
  have "loan_ok i n" using w 2(1) by (auto simp: loan_book_def)
  from accrual_bounds(1)[OF E this] have x: "0 \<le> fst (accrual E n)" .
  have "debt_step (debt_of n) ((debt_of n)\<lparr>db_accrued := db_accrued (debt_of n) + fst (accrual E n)\<rparr>)"
    by (rule debt_accrue[OF _ x]) (use 2(2) in \<open>auto simp: debt_of_def accruing_def\<close>)
  then show ?thesis by (intro advances_loan[OF 2(1) 2(4)] r_into_rtranclp) (simp add: debt_of_def)
qed (simp add: advances_refl)

lemma debt_missed: "debt_of (missed_loan E tick n) = debt_of n"
  by (simp add: debt_of_def missed_loan_def)

lemma advances_transition:
  assumes E: "credit_env E" and run: "transition_missed E i tick w = Inr (evs, w')"
  shows "advances w w'"
  using run
proof (cases rule: transition_missed_InrD)
  case (2 n since)
  from 2(4) show ?thesis
  proof (cases rule: mark_default_InrD)
    case (2 m)
    have "debt_step (debt_of n) (debt_of (n\<lparr>ln_status := ''default'', ln_defaulted := Some tick\<rparr>))"
      using debt_bad[of "debt_of n"] \<open>ln_status n = ''delinquent''\<close> by (simp add: debt_of_def)
    then show ?thesis using 2 \<open>dget (ew_loans w) i = Some n\<close> by (intro advances_loan[of w i n]) auto
  qed (simp add: advances_refl)
next
  case (3 n since txn ev)
  have "debt_step (debt_of n) (debt_of (delinquent_loan E n))"
    using debt_late[of "debt_of n" "ee_delinquency_penalty E"] 3(3) E
    by (simp add: debt_of_def delinquent_loan_def capitalise_def credit_env_def)
  then show ?thesis by (intro advances_loan[OF 3(1,6)] r_into_rtranclp)
qed (simp add: advances_refl)

lemma debt_paid:
  assumes "loan_ok i n" "owing n"
  shows "debt_step (debt_of n) (debt_of (paid_loan E tick (payment_terms tick n) n))"
proof -
  let ?x = "pd_principal (payment_terms tick n)"
  note b = payment_terms_bounds[OF assms, of tick]
  have ph: "db_phase (debt_of n) \<in> {Performing, Late}" using assms(2) by (auto simp: owing_def debt_of_def)
  show ?thesis
  proof (cases "?x = ln_outstanding n")
    case True
    have "debt_of (paid_loan E tick (payment_terms tick n) n) = (debt_of n)\<lparr>db_phase := Settled, db_owed := 0, db_accrued := 0\<rparr>"
      using True by (simp add: paid_loan_def settle_payment_def debt_of_def Let_def)
    then show ?thesis using debt_settle[OF ph] by simp
  next
    case False
    have "debt_of (paid_loan E tick (payment_terms tick n) n) = (debt_of n)\<lparr>db_owed := db_owed (debt_of n) - ?x, db_accrued := 0\<rparr>"
      using False by (simp add: paid_loan_def settle_payment_def debt_of_def Let_def)
    then show ?thesis using debt_pay[OF ph, of ?x] b False by (simp add: debt_of_def)
  qed
qed

lemma advances_amortise:
  assumes E: "credit_env E" and w: "loan_book w" and run: "amortise_loan E tick i w = Inr (evs, w')"
  shows "advances w w'"
  using run
proof (cases rule: amortise_loan_InrD)
  case (2 n pid)
  from 2(4,1) show ?thesis
  proof (cases rule: miss_payment_InrD)
    case (1 w1 evs')
    have "advances w w1" by (rule advances_loan[OF 2(1) 1(1)]) (simp add: debt_missed)
    then show ?thesis using advances_transition[OF E 1(5)] by (rule advances_trans)
  qed
next
  case (3 n pid)
  have ok: "loan_ok i n" using w 3(1) by (auto simp: loan_book_def)
  from 3(4,1) show ?thesis
    by (cases rule: make_payment_InrD)
       (rule advances_loan[OF 3(1)], assumption, rule r_into_rtranclp, rule debt_paid[OF ok skips_owing[OF 3(2)]])
qed (simp add: advances_refl)

lemma debt_written:
  assumes "ln_status n = ''default''" "x = ln_outstanding n"
  shows "debt_step (debt_of n) (debt_of (written_loan tick x n))"
  using debt_lose[of "debt_of n"] assms by (simp add: debt_of_def written_loan_def write_off_def Let_def)

lemma advanced_keeps:
  assumes "keeps loan_book m" "\<And>v x v'. loan_book v \<Longrightarrow> m v = Inr (x, v') \<Longrightarrow> advances v v'"
  shows "keeps (advanced w) m"
  by (rule keepsI) (auto simp: advanced_def intro: advances_trans assms(2) dest: keepsD[OF assms(1)])

lemma credit_advances:
  assumes E: "credit_env E"
  shows "keeps (advanced w) (accrue_interest E tick)" "keeps (advanced w) (amortise E tick)" "keeps (advanced w) (write_off_due E tick)"
proof -
  have off: "keeps (advanced w) (m_bind (e_loan i) (\<lambda>n.
        if ln_status n = ''default'' \<and> c n then write_off_loan E i (ln_outstanding n) 0 tick else m_return []))" for i c
  proof (rule advanced_keeps)
    show "keeps loan_book (m_bind (e_loan i) (\<lambda>n.
        if ln_status n = ''default'' \<and> c n then write_off_loan E i (ln_outstanding n) 0 tick else m_return []))"
      by (intro keeps_rules keeps_write_off_loan keeps_e_reads)
    fix v evs v' assume v: "loan_book v" and run: "m_bind (e_loan i) (\<lambda>n.
        if ln_status n = ''default'' \<and> c n then write_off_loan E i (ln_outstanding n) 0 tick else m_return []) v = Inr (evs, v')"
    then obtain n where n: "dget (ew_loans v) i = Some n" by (auto simp: e_Inr_iff)
    show "advances v v'"
    proof (cases "ln_status n = ''default'' \<and> c n")
      case True
      with run n have "write_off_loan E i (ln_outstanding n) 0 tick v = Inr (evs, v')" by (auto simp: e_Inr_iff)
      then show ?thesis
      proof (cases rule: write_off_loan_InrD)
        case (2 m txn ev)
        then show ?thesis using n True
          by (intro advances_loan[OF n] r_into_rtranclp) (auto intro: debt_written)
      qed (simp add: advances_refl)
    qed (use run n in \<open>auto simp: e_Inr_iff advances_refl\<close>)
  qed
  show "keeps (advanced w) (accrue_interest E tick)" unfolding accrue_interest_def
    by (intro keeps_rules advanced_keeps[OF keeps_accrue_loan[OF E]] advances_accrue[OF E])
  show "keeps (advanced w) (amortise E tick)" unfolding amortise_def
    by (intro keeps_rules advanced_keeps[OF keeps_amortise_loan[OF E]] advances_amortise[OF E])
  show "keeps (advanced w) (write_off_due E tick)" unfolding write_off_due_def Let_def
    by (intro keeps_bind[OF keeps_read] keeps_rules off)
qed

end
