(* ===== verification/Loan_Liveness.thy ===== *)
theory Loan_Liveness
  imports Loan_Life Ledger_Spec
begin

text \<open>
  A loan whose borrower can always pay is paid off: each payment that falls due goes through, and after
  the payments that remain the loan is repaid.
\<close>

declare map_of_eq_Some_iff [simp del] Some_eq_map_of_iff [simp del]

section \<open>A payment that can be made goes through\<close>

definition stages :: "'l econ_env \<Rightarrow> int \<Rightarrow> uuid \<Rightarrow> ('l \<Rightarrow> bool) \<Rightarrow> bool" where
  \<comment> \<open>on such logs every draft is staged as an event of the run and the tick\<close>
  "stages E tick r L \<longleftrightarrow> (\<forall>d lg. L lg \<longrightarrow> (\<exists>ev lg'. ee_emit E d lg = Inr (ev, lg') \<and> ev_tick ev = tick \<and> ev_run_id ev = r \<and> L lg'))"

definition in_use :: "ledger \<Rightarrow> string \<Rightarrow> int \<Rightarrow> bool" where
  \<comment> \<open>an open account in the currency of the economy, other than the issuance account, with a balance\<close>
  "in_use l v x = (case find_open l v of Inl _ \<Rightarrow> False
     | Inr a \<Rightarrow> acc_currency a = ''POL'' \<and> acc_code a \<noteq> Iss \<and> acc_balance a = x)"

lemma in_use_iff:
  "in_use l v x \<longleftrightarrow> (\<exists>a. find_open l v = Inr a \<and> acc_currency a = ''POL'' \<and> acc_code a \<noteq> Iss \<and> acc_balance a = x)"
  by (auto simp: in_use_def split: sum.splits)

definition can_pay :: "int \<Rightarrow> string \<Rightarrow> 'l econ_world \<Rightarrow> bool" where
  \<comment> \<open>a payment on the loan is due at a bank, and the borrower's deposit there covers it\<close>
  "can_pay tick i w \<longleftrightarrow> (\<exists>n v bank x y a b. dget (ew_loans w) i = Some n \<and> owing n \<and> ln_next_payment n \<le> tick \<and> 0 \<le> tick
     \<and> \<not> in_bankruptcy (ln_borrower n) w \<and> dget (ew_banks w) (ln_borrower n) = None
     \<and> ln_lender n \<noteq> treasury_id \<and> dget (ew_banks w) (ln_lender n) = Some bank
     \<and> pd_total (payment_terms tick n) \<le> funds n (ew_ledger w)
     \<and> paying_deposit n (pd_total (payment_terms tick n)) (ew_ledger w) = Inr v
     \<and> in_use (ew_ledger w) v x \<and> pd_total (payment_terms tick n) \<le> x
     \<and> in_use (ew_ledger w) (bk_liability bank) y \<and> pd_total (payment_terms tick n) \<le> - y
     \<and> in_use (ew_ledger w) (ln_receivable n) a \<and> in_use (ew_ledger w) (ln_payable n) b)"

lemma emit_succeeds:
  assumes "stages E tick r L" "L (ew_log w)"
  shows "\<exists>ev lg. e_emit E k pl actor subjects w = Inr (ev, w\<lparr>ew_log := lg\<rparr>) \<and> ev_tick ev = tick \<and> ev_run_id ev = r \<and> L lg"
proof -
  obtain ev lg where "ee_emit E \<lparr>ne_kind = k, ne_payload = pl, ne_actor_id = actor, ne_subject_ids = subjects,
      ne_cause_seq = None, ne_sig = None\<rparr> (ew_log w) = Inr (ev, lg)" "ev_tick ev = tick" "ev_run_id ev = r" "L lg"
    using assms unfolding stages_def by blast
  then show ?thesis by (intro exI[of _ ev] exI[of _ lg]) (simp add: e_emit_def)
qed

lemma account_code_at:
  assumes "loan_book w" "dget (led_accounts (ew_ledger w)) v = Some a"
  shows "code_at v = Some (acc_code a)"
proof -
  have "account_inv (ew_ledger w) v a" using assms by (simp add: loan_book_def ledger_inv_def)
  then show ?thesis by (auto simp: account_inv_def intro: code_at_id)
qed

lemma sum_list_part:
  fixes f :: "'a \<Rightarrow> int"
  assumes "x \<in> set xs" "\<And>y. y \<in> set xs \<Longrightarrow> 0 \<le> f y" shows "f x \<le> (\<Sum>y\<leftarrow>xs. f y)"
  using assms
proof (induction xs)
  case (Cons y ys)
  have "0 \<le> (\<Sum>y\<leftarrow>ys. f y)" using Cons.prems(2) by (intro sum_list_nonneg) auto
  moreover have "0 \<le> f y" using Cons.prems(2) by simp
  ultimately show ?case using Cons by (cases "x = y") force+
qed simp

lemma debt_balances:
  assumes w: "loan_book w" and n: "dget (ew_loans w) i = Some n"
    and r: "in_use (ew_ledger w) (ln_receivable n) a" and p: "in_use (ew_ledger w) (ln_payable n) b"
  shows "ln_outstanding n \<le> a" "b \<le> - ln_outstanding n"
proof -
  have each: "booked (ew_ledger w) m \<and> 0 \<le> ln_outstanding m" if m: "m \<in> set (dvals (ew_loans w))" for m
  proof -
    obtain j where "dget (ew_loans w) j = Some m" using m w by (auto simp: loan_book_def dget_Some_iff)
    then have "booked (ew_ledger w) m" "loan_ok j m" using w by (auto simp: loan_book_def)
    moreover from this(2) have "0 \<le> ln_outstanding m" by (simp add: loan_ok_def)
    ultimately show ?thesis by simp
  qed
  have "wf_dict (ew_loans w)" using w by (simp add: loan_book_def)
  then have "(i, n) \<in> set (ew_loans w)" using n by (simp add: dget_Some_iff)
  then have mem: "n \<in> set (dvals (ew_loans w))" by force
  note me = each[OF mem]
  from r have a: "a = book_value (ew_loans w) (ln_receivable n)"
    using w me by (auto simp: in_use_iff find_open_Inr_iff loan_book_def reconciled_def booked_def debt_code_def)
  from p have b: "b = book_value (ew_loans w) (ln_payable n)"
    using w me by (auto simp: in_use_iff find_open_Inr_iff loan_book_def reconciled_def booked_def debt_code_def)
  have c1: "0 \<le> carried (ln_receivable n) m" if "m \<in> set (dvals (ew_loans w))" for m
    using each[OF that] me by (auto simp: carried_def booked_def)
  have c2: "0 \<le> - carried (ln_payable n) m" if "m \<in> set (dvals (ew_loans w))" for m
    using each[OF that] me by (auto simp: carried_def booked_def)
  have neg: "(\<Sum>m\<leftarrow>ms. - f m) = - (\<Sum>m\<leftarrow>ms. f m)" for f :: "'b \<Rightarrow> int" and ms
    by (induction ms) auto
  have "carried (ln_receivable n) n = ln_outstanding n" "- carried (ln_payable n) n = ln_outstanding n"
    using me by (auto simp: carried_def booked_def)
  moreover have "carried (ln_receivable n) n \<le> (\<Sum>m\<leftarrow>dvals (ew_loans w). carried (ln_receivable n) m)"
    by (rule sum_list_part[OF mem c1])
  moreover have "- carried (ln_payable n) n \<le> - (\<Sum>m\<leftarrow>dvals (ew_loans w). carried (ln_payable n) m)"
    unfolding neg[symmetric] by (rule sum_list_part[OF mem c2])
  ultimately show "ln_outstanding n \<le> a" "b \<le> - ln_outstanding n" unfolding a b book_value_def by linarith+
qed

lemma bumped_same: "led_accounts (bumped E tick w) = led_accounts (ew_ledger w)" "led_run_id (bumped E tick w) = led_run_id (ew_ledger w)"
  "fst (next_txn_id u tick (bumped E tick w)) = fst (next_txn_id u tick (ew_ledger w))"
  by (simp_all add: next_txn_id_def Let_def dget_or_def)

lemma payment_posts:
  assumes w: "loan_book w" and n: "dget (ew_loans w) i = Some n" "owing n"
    and v: "code_at v = Some Dep" "in_use (ew_ledger w) v x" "pd_total p \<le> x"
    and bank: "code_at u = Some Dpl" "in_use (ew_ledger w) u y" "pd_total p \<le> - y"
    and debts: "in_use (ew_ledger w) (ln_receivable n) a" "in_use (ew_ledger w) (ln_payable n) b"
    and p: "0 < pd_principal p" "pd_principal p \<le> ln_outstanding n" "0 \<le> pd_interest p"
    and ev: "ev_tick ev = tick" "ev_run_id ev = led_run_id (ew_ledger w)"
  shows "\<exists>l. post_transaction (ee_uuid5 E) ([mk_leg v (-1) (pd_total p) ''loan'', mk_leg u 1 (pd_total p) ''loan'']
      @ debt_legs n (pd_principal p) ''loan'') tick ev [] (bumped E tick w) = Inr (fst (next_txn_id (ee_uuid5 E) tick (ew_ledger w)), l)"
proof -
  let ?legs = "[mk_leg v (-1) (pd_total p) ''loan'', mk_leg u 1 (pd_total p) ''loan''] @ debt_legs n (pd_principal p) ''loan''"
  have bk: "booked (ew_ledger w) n" using w n by (auto simp: loan_book_def)
  have codes: "code_at (ln_receivable n) \<in> {Some Lnr, Some Txr}" "code_at (ln_payable n) = Some Lnp" using bk by (auto simp: booked_def)
  have ne: "v \<noteq> u" "v \<noteq> ln_receivable n" "v \<noteq> ln_payable n" "u \<noteq> ln_receivable n" "u \<noteq> ln_payable n" "ln_receivable n \<noteq> ln_payable n"
    using codes v(1) bank(1) by auto
  note bal = debt_balances[OF w n(1) debts]
  have known: "\<exists>c. dget (led_accounts (ew_ledger w)) z = Some c \<and> acc_closed_tick c = None \<and> acc_currency c = ''POL''
      \<and> acc_code c \<noteq> Iss \<and> acc_balance c = t \<and> code_at z = Some (acc_code c)" if "in_use (ew_ledger w) z t" for z t
    using that account_code_at[OF w] by (fastforce simp: in_use_iff find_open_Inr_iff)
  note K = known[OF v(2)] known[OF bank(2)] known[OF debts(1)] known[OF debts(2)]
  have "\<forall>g\<in>set ?legs. leg_ok False (bumped E tick w) g"
    using K p by (auto simp: leg_ok_def bumped_same debt_legs_def reasons_def mk_leg_def)
  moreover have "distinct (map leg_key ?legs)" using ne by (auto simp: debt_legs_def)
  moreover have "\<forall>g\<in>set ?legs. stays_in_polarity [] ?legs (bumped E tick w) (leg_account g)"
    using K ne bal p v(1,3) bank(1,3) codes by (auto simp: stays_in_polarity_def bumped_same debt_legs_def)
  ultimately have "post_accepts False ?legs tick ev [] (bumped E tick w)"
    using ev by (simp add: post_accepts_def bumped_same debt_legs_def validate_allow_negative_def)
  from post_accepts_posts[OF this] obtain t l where t: "post_transaction (ee_uuid5 E) ?legs tick ev [] (bumped E tick w) = Inr (t, l)" by blast
  then have "t = fst (next_txn_id (ee_uuid5 E) tick (bumped E tick w))"
    by (auto simp: post_transaction_def post_checked_def Let_def split: if_splits sum.splits prod.splits)
  then show ?thesis using t by (auto simp: bumped_same)
qed

lemma mint_lpay: "0 \<le> tick \<Longrightarrow> 0 \<le> k \<Longrightarrow> \<exists>s. mint ''lpay'' tick k = Inr s"
  by (simp add: mint_def mint_charset_def)

lemma payment_goes_through:
  assumes w: "loan_book w" and pay: "can_pay tick i w" and log: "stages E tick (led_run_id (ew_ledger w)) L" "L (ew_log w)"
  shows "\<exists>evs w' n. amortise_loan E tick i w = Inr (evs, w') \<and> dget (ew_loans w) i = Some n \<and> owing n
    \<and> dget (ew_loans w') i = Some (paid_loan E tick (payment_terms tick n) n)"
proof -
  from pay obtain n v bank x y a b where n: "dget (ew_loans w) i = Some n" "owing n" and due: "ln_next_payment n \<le> tick" "0 \<le> tick"
    and who: "\<not> in_bankruptcy (ln_borrower n) w" "dget (ew_banks w) (ln_borrower n) = None" "ln_lender n \<noteq> treasury_id"
      "dget (ew_banks w) (ln_lender n) = Some bank"
    and can: "pd_total (payment_terms tick n) \<le> funds n (ew_ledger w)"
    and v: "paying_deposit n (pd_total (payment_terms tick n)) (ew_ledger w) = Inr v" "in_use (ew_ledger w) v x"
      "pd_total (payment_terms tick n) \<le> x"
    and u: "in_use (ew_ledger w) (bk_liability bank) y" "pd_total (payment_terms tick n) \<le> - y"
    and debts: "in_use (ew_ledger w) (ln_receivable n) a" "in_use (ew_ledger w) (ln_payable n) b"
    unfolding can_pay_def by blast
  define p where "p = payment_terms tick n"
  have ok: "loan_ok i n" using w n by (auto simp: loan_book_def)
  note b = payment_terms_bounds[OF ok n(2), of tick, folded p_def]
  have skip: "\<not> amortise_skips tick n w" using n(2) due who by (auto simp: amortise_skips_def owing_def)
  obtain pid where pid: "mint ''lpay'' tick (int (length (ew_payments w))) = Inr pid" using mint_lpay[OF due(2), of "int (length (ew_payments w))"] by auto
  have dpl: "code_at (bk_liability bank) = Some Dpl" using w who(4) by (auto simp: loan_book_def banks_ok_def)
  define w1 where "w1 = w\<lparr>ew_ledger := bumped E tick w\<rparr>"
  have w1: "ew_ledger w1 = bumped E tick w" "ew_loans w1 = ew_loans w" "ew_payments w1 = ew_payments w" by (simp_all add: w1_def)
  have log1: "L (ew_log w1)" using log(2) by (simp add: w1_def)
  obtain ev lg where ev: "e_emit E 8013 [(''loan_id'', JStr i), (''payment_no'', JInt (ln_payments_made n + 1)),
         (''principal_cents'', JInt (pd_principal p)), (''interest_cents'', JInt (pd_interest p)),
         (''outstanding_after_cents'', JInt (ln_outstanding n - pd_principal p)),
         (''txn_id'', JStr (ee_uuid_text E (fst (next_txn_id (ee_uuid5 E) tick (ew_ledger w)))))] (Some (ln_borrower n)) [ln_lender n] w1
      = Inr (ev, w1\<lparr>ew_log := lg\<rparr>)" "ev_tick ev = tick" "ev_run_id ev = led_run_id (ew_ledger w)" "L lg"
    using emit_succeeds[OF log(1) log1] by meson
  let ?legs = "[mk_leg v (-1) (pd_total p) ''loan'', mk_leg (bk_liability bank) 1 (pd_total p) ''loan''] @ debt_legs n (pd_principal p) ''loan''"
  obtain l where post: "post_transaction (ee_uuid5 E) ?legs tick ev [] (bumped E tick w)
      = Inr (fst (next_txn_id (ee_uuid5 E) tick (ew_ledger w)), l)"
    using payment_posts[OF w n paying_deposit_InrD(2)[OF v(1)] v(2) _ dpl u(1) _ debts, of p ev tick E] b v(3) u(2) ev by (auto simp: p_def)
  define w2 where "w2 = w1\<lparr>ew_log := lg, ew_ledger := l, ew_loans := dset i (settle_payment E p n) (ew_loans w),
      ew_payments := ew_payments w @ [\<lparr>lp_id = pid, lp_loan = i, lp_tick = tick, lp_principal = pd_principal p,
           lp_interest = pd_interest p, lp_missed = False\<rparr>]\<rparr>"
  have legs: "payment_legs n p v (w1\<lparr>ew_log := lg\<rparr>) = Inr ?legs" using who by (simp add: payment_legs_def w1_def)
  have "make_payment E tick i n p pid w = close_repaid E tick i ev w2"
    using v(1) ev(1) post legs n(1) unfolding make_payment_def w2_def
    by (simp add: p_def[symmetric] m_bind_def m_then_def m_read_def m_res_def m_return_def m_modify_def e_ledger_def e_next_eq w1_def[symmetric]
      post_expected_def e_post_def upd_loan_at w1)
  moreover have "\<exists>evs w'. close_repaid E tick i ev w2 = Inr (evs, w') \<and> dget (ew_loans w') i = Some (paid_loan E tick p n)"
  proof (cases "ln_outstanding (settle_payment E p n) = 0")
    case True
    define w3 where "w3 = upd_loan i (\<lambda>n. n\<lparr>ln_status := ''repaid'', ln_closed := Some tick\<rparr>) w2"
    have l3: "L (ew_log w3)" using ev(4) n(1) by (simp add: w3_def w2_def upd_loan_at)
    obtain ev2 lg2 where "e_emit E 8018 [(''loan_id'', JStr i), (''total_interest_cents'', JInt (ln_interest_paid (settle_payment E p n))),
            (''ticks_to_repay'', JInt (tick - ln_originated (settle_payment E p n))), (''early'', JBool (tick < ln_matures (settle_payment E p n)))]
            (Some (ln_borrower (settle_payment E p n))) [ln_lender (settle_payment E p n)] w3 = Inr (ev2, w3\<lparr>ew_log := lg2\<rparr>)"
      using emit_succeeds[OF log(1) l3] by meson
    then have "close_repaid E tick i ev w2 = Inr ([ev, ev2], w3\<lparr>ew_log := lg2\<rparr>)"
      using True by (simp add: close_repaid_def e_loan_def m_bind_def m_then_def m_read_def m_return_def m_modify_def w3_def w2_def)
    moreover have "dget (ew_loans (w3\<lparr>ew_log := lg2\<rparr>)) i = Some (paid_loan E tick p n)"
      using True by (simp add: w3_def w2_def upd_loan_at paid_loan_def Let_def)
    ultimately show ?thesis by blast
  next
    case False
    then have "close_repaid E tick i ev w2 = Inr ([ev], w2)" "paid_loan E tick p n = settle_payment E p n"
      by (simp_all add: close_repaid_def e_loan_def m_bind_def m_read_def m_return_def w2_def paid_loan_def Let_def)
    then show ?thesis by (simp add: w2_def)
  qed
  ultimately obtain evs w' where "make_payment E tick i n p pid w = Inr (evs, w')" "dget (ew_loans w') i = Some (paid_loan E tick p n)" by auto
  moreover have "amortise_loan E tick i w = make_payment E tick i n p pid w"
    using skip n can pid
    by (simp add: amortise_loan_def e_loan_def m_bind_def m_read_def m_return_def e_ledger_def e_mint_def m_res_def Let_def p_def)
  ultimately show ?thesis using n by (auto simp: p_def)
qed

section \<open>Repayment\<close>

definition outcome :: "('l, 'a) em \<Rightarrow> 'l econ_world \<Rightarrow> 'l econ_world" where
  \<comment> \<open>the world afterwards, unchanged when the method raises\<close>
  "outcome m w = (case m w of Inl _ \<Rightarrow> w | Inr (_, w') \<Rightarrow> w')"

definition ready :: "'l econ_env \<Rightarrow> int \<Rightarrow> string \<Rightarrow> 'l econ_world \<Rightarrow> bool" where
  \<comment> \<open>the books are in order, the log is open and the payment due can be made\<close>
  "ready E tick i w \<longleftrightarrow> loan_book w \<and> can_pay tick i w \<and> (\<exists>L. stages E tick (led_run_id (ew_ledger w)) L \<and> L (ew_log w))"

definition instalments_left :: "string \<Rightarrow> 'l econ_world \<Rightarrow> int option" where
  \<comment> \<open>for a loan that is owing\<close>
  "instalments_left i w = (case dget (ew_loans w) i of None \<Rightarrow> None
     | Some n \<Rightarrow> if owing n then Some (ln_payments_n n - ln_payments_made n) else None)"

definition repaid :: "string \<Rightarrow> 'l econ_world \<Rightarrow> bool" where
  "repaid i w \<longleftrightarrow> (\<exists>n. dget (ew_loans w) i = Some n \<and> ln_status n = ''repaid'' \<and> ln_outstanding n = 0)"

lemma round_progress:
  assumes "ready E tick i w" "instalments_left i w = Some k"
  shows "repaid i (outcome (amortise_loan E tick i) w)
    \<or> 1 < k \<and> instalments_left i (outcome (amortise_loan E tick i) w) = Some (k - 1)"
proof -
  from assms(1) obtain L where w: "loan_book w" "can_pay tick i w" "stages E tick (led_run_id (ew_ledger w)) L" "L (ew_log w)"
    by (auto simp: ready_def)
  from payment_goes_through[OF w] obtain evs w' n where run: "amortise_loan E tick i w = Inr (evs, w')"
    and n: "dget (ew_loans w) i = Some n" "owing n" "dget (ew_loans w') i = Some (paid_loan E tick (payment_terms tick n) n)" by blast
  have out: "outcome (amortise_loan E tick i) w = w'" by (simp add: outcome_def run)
  have k: "k = ln_payments_n n - ln_payments_made n" using assms(2) n by (simp add: instalments_left_def)
  show ?thesis
  proof (cases "ln_outstanding n = pd_principal (payment_terms tick n)")
    case True
    then have "repaid i w'" using n(3) by (simp add: repaid_def paid_loan_def settle_payment_def Let_def)
    then show ?thesis using out by simp
  next
    case False
    then have "1 < k" by (auto simp: payment_terms_def k split: if_splits)
    moreover have "instalments_left i w' = Some (k - 1)"
      using False n(2,3) by (simp add: instalments_left_def paid_loan_def settle_payment_def Let_def owing_def k)
    ultimately show ?thesis using out by simp
  qed
qed

text \<open>C7. A loan whose borrower can always pay is repaid. Let the system do anything between the due dates of a loan,
  as long as, at each of them, the books are in order, the log is open, the loan still has the same instalments left
  and the borrower's deposit at the lender covers the payment due. Then no payment raises an error and the loan is
  repaid in full at the latest with the last instalment.\<close>

theorem solvent_loan_repaid:
  assumes start: "instalments_left i (ws 0) = Some (int k)" and k: "0 < k"
    and between: "\<And>j. j < k \<Longrightarrow> instalments_left i (ws j) \<noteq> None \<Longrightarrow>
      ready E (t j) i (us j) \<and> instalments_left i (us j) = instalments_left i (ws j)"
    and due: "\<And>j. j < k \<Longrightarrow> ws (Suc j) = outcome (amortise_loan E (t j) i) (us j)"
  shows "(\<exists>j\<le>k. repaid i (ws j))
    \<and> (\<forall>j<k. instalments_left i (ws j) \<noteq> None \<longrightarrow> \<not> isl (amortise_loan E (t j) i (us j)))"
proof -
  have "(\<exists>j\<le>m. repaid i (ws j)) \<or> m < k \<and> instalments_left i (ws m) = Some (int (k - m))" if "m \<le> k" for m
    using that
  proof (induction m)
    case (Suc m)
    show ?case
    proof (cases "\<exists>j\<le>m. repaid i (ws j)")
      case False
      with Suc have left: "m < k" "instalments_left i (ws m) = Some (int (k - m))" by auto
      with between[of m] have "ready E (t m) i (us m)" "instalments_left i (us m) = Some (int (k - m))" by auto
      from round_progress[OF this] show ?thesis using due[OF left(1)] left(1) by (auto simp: of_nat_diff intro!: exI[of _ "Suc m"])
    qed (meson le_SucI)
  qed (use start k in simp)
  from this[of k] have "\<exists>j\<le>k. repaid i (ws j)" by simp
  moreover have "\<not> isl (amortise_loan E (t j) i (us j))" if "j < k" "instalments_left i (ws j) \<noteq> None" for j
  proof -
    from between[OF that] obtain L where "loan_book (us j)" "can_pay (t j) i (us j)"
      "stages E (t j) (led_run_id (ew_ledger (us j))) L" "L (ew_log (us j))" by (auto simp: ready_def)
    from payment_goes_through[OF this] show ?thesis by auto
  qed
  ultimately show ?thesis by blast
qed

end
