(* ===== verification/Fiscal.thy ===== *)
theory Fiscal
  imports Loans
begin

text \<open>
  \<open>polis/economy/fiscal.py\<close>: the treasury's taxes, arrears, benefits, bonds and budget, and
  \<open>fiscal_step\<close>, which runs them in the code's order. An assessment, a bond and a firm are named by
  the keys of their tables; a day has a positive number of ticks.
\<close>

section \<open>Accounts and legs\<close>

definition treasury_account :: "ledger \<Rightarrow> econ_error + string" where
  "treasury_account l = (case filter (\<lambda>v. bank_part v = Some ''bk_cb'') (codes_of l treasury_id Dep) of
     [] \<Rightarrow> Inl EcStopIteration | v # _ \<Rightarrow> Inr v)"

definition e_treasury :: "('l, string) em" where
  "e_treasury = m_bind (e_ledger treasury_account) m_res"

definition owner_deposit :: "string \<Rightarrow> ledger \<Rightarrow> string option" where
  "owner_deposit ow l = (case codes_of l ow Dep of [] \<Rightarrow> None | v # _ \<Rightarrow> Some v)"

definition government_transfer_legs :: "string \<Rightarrow> int \<Rightarrow> 'l econ_world \<Rightarrow> econ_error + leg list" where
  "government_transfer_legs recipient cents w =
     res_bind (treasury_account (ew_ledger w)) (\<lambda>source.
     case bank_of recipient of
       Inl e \<Rightarrow> Inl (EcLedger e)
     | Inr None \<Rightarrow> Inl (EcValue ''government transfers require a deposit recipient'')
     | Inr (Some b) \<Rightarrow>
        if b = ''bk_cb'' then Inr [mk_leg source (-1) cents ''transfer'', mk_leg recipient 1 cents ''transfer'']
        else case dget (ew_banks w) b of None \<Rightarrow> Inl (EcKey b)
        | Some bank \<Rightarrow> Inr [mk_leg source (-1) cents ''transfer'', mk_leg (bk_reserve bank) 1 cents ''transfer'',
            mk_leg (bk_liability bank) (-1) cents ''transfer'', mk_leg recipient 1 cents ''transfer''])"

definition tax_collection_legs :: "string \<Rightarrow> int \<Rightarrow> 'l econ_world \<Rightarrow> econ_error + leg list" where
  "tax_collection_legs taxpayer cents w =
     res_bind (treasury_account (ew_ledger w)) (\<lambda>destination.
     case bank_of taxpayer of
       Inl e \<Rightarrow> Inl (EcLedger e)
     | Inr None \<Rightarrow> Inl (EcValue ''tax collection requires a deposit source'')
     | Inr (Some b) \<Rightarrow>
        if b = ''bk_cb'' then Inr [mk_leg taxpayer (-1) cents ''tax'', mk_leg destination 1 cents ''tax'']
        else case dget (ew_banks w) b of None \<Rightarrow> Inl (EcKey b)
        | Some bank \<Rightarrow> Inr [mk_leg taxpayer (-1) cents ''tax'', mk_leg (bk_liability bank) 1 cents ''tax'',
            mk_leg (bk_reserve bank) (-1) cents ''tax'', mk_leg destination 1 cents ''tax''])"

definition e_legs :: "('l econ_world \<Rightarrow> econ_error + leg list) \<Rightarrow> ('l, leg list) em" where
  "e_legs f = m_bind (m_read f) m_res"

definition upd_treasury :: "(treasury_state \<Rightarrow> treasury_state) \<Rightarrow> ('l, unit) em" where
  "upd_treasury f = m_modify (\<lambda>w. w\<lparr>ew_treasury := f (ew_treasury w)\<rparr>)"

section \<open>Taxes\<close>

definition quarter_name :: "int \<Rightarrow> int \<Rightarrow> string" where
  "quarter_name tick quarter = ''quarter:'' @ str_int (tick div quarter)"

definition firm_profit :: "treasury_state \<Rightarrow> firm_state \<Rightarrow> int" where
  \<comment> \<open>revenue less wages since the marks of the last assessment\<close>
  "firm_profit t f = max 0 (max 0 (fm_revenue f - dget_or (ts_revenue_marks t) (fm_id f) 0)
     - max 0 (fm_wages f - dget_or (ts_wage_marks t) (fm_id f) 0))"

definition assess_firm :: "'l econ_env \<Rightarrow> int \<Rightarrow> string \<Rightarrow> ('l, evt list) em" where
  "assess_firm E tick i =
     m_bind (m_read (\<lambda>w. dget (ew_firms w) i)) (\<lambda>found.
     case found of None \<Rightarrow> m_raise (EcKey i) | Some f \<Rightarrow>
     m_bind (m_read ew_treasury) (\<lambda>t.
     let profit = firm_profit t f; assessed = bp profit (ee_corporate_tax E); due_tick = tick + 7 * ee_ticks_per_day E in
     m_then (upd_treasury (\<lambda>t. t\<lparr>ts_revenue_marks := dset (fm_id f) (fm_revenue f) (ts_revenue_marks t),
         ts_wage_marks := dset (fm_id f) (fm_wages f) (ts_wage_marks t)\<rparr>))
     (if assessed \<le> 0 then m_return []
      else
      m_bind (m_read (\<lambda>w. int (length (ew_assessments w)))) (\<lambda>k.
      m_bind (e_mint ''tax'' tick k) (\<lambda>a.
      m_then (m_modify (\<lambda>w. w\<lparr>ew_assessments := dset a \<lparr>ta_id = a, ta_taxpayer = fm_id f, ta_type = ''corporate'',
          ta_base = profit, ta_rate = ee_corporate_tax E, ta_assessed = assessed, ta_tick = tick, ta_due = due_tick,
          ta_paid = 0, ta_status = ''assessed''\<rparr> (ew_assessments w)\<rparr>))
      (m_bind (e_emit E 8070 [(''taxpayer_id'', JStr (fm_id f)), (''tax_type'', JStr ''corporate''), (''base_cents'', JInt profit),
          (''rate_bp'', JInt (ee_corporate_tax E)), (''assessed_cents'', JInt assessed),
          (''period'', JStr (quarter_name tick (90 * ee_ticks_per_day E))), (''due_tick'', JInt due_tick),
          (''assessment_id'', JStr a)] None [fm_id f]) (\<lambda>ev. m_return [ev])))))))"

definition assess_taxes :: "'l econ_env \<Rightarrow> int \<Rightarrow> ('l, evt list) em" where
  "assess_taxes E tick =
     (if tick mod (90 * ee_ticks_per_day E) \<noteq> 0 then m_return []
      else m_bind (m_read (\<lambda>w. sort (dkeys (ew_firms w)))) (m_for (assess_firm E tick)))"

definition e_assessment :: "string \<Rightarrow> ('l, tax_assessment) em" where
  "e_assessment i = m_bind (m_read (\<lambda>w. dget (ew_assessments w) i)) (\<lambda>r.
     case r of None \<Rightarrow> m_raise (EcKey i) | Some a \<Rightarrow> m_return a)"

definition upd_assessment :: "string \<Rightarrow> (tax_assessment \<Rightarrow> tax_assessment) \<Rightarrow> ('l, unit) em" where
  "upd_assessment i f = m_modify (\<lambda>w. case dget (ew_assessments w) i of None \<Rightarrow> w
     | Some a \<Rightarrow> w\<lparr>ew_assessments := dset i (f a) (ew_assessments w)\<rparr>)"

definition pay_tax :: "int \<Rightarrow> tax_assessment \<Rightarrow> tax_assessment" where
  "pay_tax x a = (let p = ta_paid a + x in
     a\<lparr>ta_paid := p, ta_status := (if p = ta_assessed a then ''paid'' else ta_status a)\<rparr>)"

definition collect_tax :: "'l econ_env \<Rightarrow> int \<Rightarrow> string \<Rightarrow> ('l, evt list) em" where
  "collect_tax E tick i =
     m_bind (e_assessment i) (\<lambda>a.
     if ta_status a \<noteq> ''assessed'' then m_return []
     else
     m_bind (e_ledger (owner_deposit (ta_taxpayer a))) (\<lambda>source.
     case source of None \<Rightarrow> m_return []
     | Some deposit \<Rightarrow>
       m_bind (e_ledger (\<lambda>l. liquid l (ta_taxpayer a))) (\<lambda>available.
       let owed = ta_assessed a - ta_paid a; payment = min owed available in
       if owed \<le> 0 \<or> payment \<le> 0 then m_return []
       else
       m_bind (e_next_txn E tick) (\<lambda>expected.
       m_bind (e_emit E 8071 [(''taxpayer_id'', JStr (ta_taxpayer a)), (''tax_type'', JStr (ta_type a)),
           (''cents'', JInt payment), (''txn_id'', JStr (ee_uuid_text E expected)), (''assessment_id'', JStr i)]
           (Some (ta_taxpayer a)) []) (\<lambda>ev.
       m_bind (e_legs (tax_collection_legs deposit payment)) (\<lambda>legs.
       m_then (post_expected E legs tick ev expected ''tax collection transaction ordinal diverged'')
       (m_then (upd_assessment i (pay_tax payment))
       (m_then (upd_treasury (\<lambda>t. t\<lparr>ts_receipts := ts_receipts t + payment, ts_period_receipts := ts_period_receipts t + payment\<rparr>))
       (m_return [ev])))))))))"

definition assessment_ids :: "'l econ_world \<Rightarrow> string list" where
  "assessment_ids w = sort (dkeys (ew_assessments w))"

definition collect_taxes :: "'l econ_env \<Rightarrow> int \<Rightarrow> ('l, evt list) em" where
  "collect_taxes E tick = m_bind (m_read assessment_ids) (m_for (collect_tax E tick))"

section \<open>Arrears\<close>

definition arrears_loan :: "'l econ_env \<Rightarrow> tax_assessment \<Rightarrow> int \<Rightarrow> string \<Rightarrow> int \<Rightarrow> int \<Rightarrow> string \<Rightarrow> string \<Rightarrow> loan_state" where
  "arrears_loan E a tick i x term receivable payable =
     \<lparr>ln_id = i, ln_lender = treasury_id, ln_borrower = ta_taxpayer a, ln_purpose = ''tax_arrears'',
      ln_principal = x, ln_outstanding = x, ln_rate = ee_arrears_penalty E, ln_term = term, ln_originated = tick,
      ln_matures = tick + term, ln_status = ''current'', ln_collateral = [(''assessment_id'', JStr (ta_id a))],
      ln_collateral_value = 0, ln_score = 10000, ln_receivable = receivable, ln_payable = payable, ln_payment = x,
      ln_payments_n = 1, ln_next_payment = tick + term, ln_accrued = 0, ln_remainder = 0, ln_interest_paid = 0,
      ln_interest_scheduled = 0, ln_interest_forgiven = 0, ln_capitalised = 0, ln_payments_made = 0,
      ln_missed_since = None, ln_defaulted = None, ln_closed = None\<rparr>"

definition arrears_receivable :: "int \<Rightarrow> ('l, string) em" where
  \<comment> \<open>the one receivable account of the treasury\<close>
  "arrears_receivable tick =
     m_bind (e_ledger (\<lambda>l. codes_of l treasury_id Txr)) (\<lambda>vs.
     case vs of v # _ \<Rightarrow> m_return v | [] \<Rightarrow> e_open Txr treasury_id ''government'' None None tick)"

definition book_arrears :: "'l econ_env \<Rightarrow> int \<Rightarrow> string \<Rightarrow> string \<Rightarrow> tax_assessment \<Rightarrow> int \<Rightarrow> string \<Rightarrow> string \<Rightarrow> ('l, evt list) em" where
  \<comment> \<open>\<open>convert_arrears\<close> once the payable account of the loan is open\<close>
  "book_arrears E tick receivable j a x i payable =
     m_bind (e_next_txn E tick) (\<lambda>expected.
     m_bind (e_emit E 8072 [(''taxpayer_id'', JStr (ta_taxpayer a)), (''cents'', JInt x), (''loan_id'', JStr i),
         (''penalty_rate_bp'', JInt (ee_arrears_penalty E)), (''txn_id'', JStr (ee_uuid_text E expected))]
         (Some (ta_taxpayer a)) []) (\<lambda>ev.
     m_then (post_expected E [mk_leg receivable 1 x ''tax'', mk_leg payable (-1) x ''tax''] tick ev expected
         ''tax arrears transaction ordinal diverged'')
     (case dget (ee_max_term_days E) ''tax_arrears'' of None \<Rightarrow> m_raise (EcKey ''tax_arrears'')
      | Some days \<Rightarrow>
        m_then (m_modify (\<lambda>w. w\<lparr>ew_loans := dset i (arrears_loan E a tick i x (days * ee_ticks_per_day E) receivable payable) (ew_loans w)\<rparr>))
        (m_then (upd_assessment j (\<lambda>a. a\<lparr>ta_status := ''arrears''\<rparr>)) (m_return [ev])))))"

definition convert_one :: "'l econ_env \<Rightarrow> int \<Rightarrow> string \<Rightarrow> string \<Rightarrow> ('l, evt list) em" where
  "convert_one E tick receivable j =
     m_bind (e_assessment j) (\<lambda>a.
     let x = ta_assessed a - ta_paid a in
     if ta_status a \<noteq> ''assessed'' \<or> tick < ta_due a then m_return []
     else if x \<le> 0 then m_then (upd_assessment j (\<lambda>a. a\<lparr>ta_status := ''paid''\<rparr>)) (m_return [])
     else
     m_bind (m_read (\<lambda>w. int (length (ew_loans w)))) (\<lambda>k.
     m_bind (e_mint ''txln'' tick k) (\<lambda>i.
     m_bind (m_read (owner_kind (ta_taxpayer a))) (\<lambda>ty.
     m_bind (e_open Lnp (ta_taxpayer a) ty None (Some i) tick) (\<lambda>payable.
     book_arrears E tick receivable j a x i payable)))))"

definition convert_arrears :: "'l econ_env \<Rightarrow> int \<Rightarrow> ('l, evt list) em" where
  "convert_arrears E tick =
     m_bind (arrears_receivable tick) (\<lambda>receivable.
     m_bind (m_read assessment_ids) (m_for (convert_one E tick receivable)))"

section \<open>Benefits\<close>

definition unemployed_of :: "int \<Rightarrow> int \<Rightarrow> int \<Rightarrow> 'l econ_world \<Rightarrow> string list" where
  \<comment> \<open>\<open>labour_force(...).unemployed\<close>; the arguments are the tick, the search window and the retirement age\<close>
  "unemployed_of tick window retirement w =
     (let employed = (\<lambda>i. list_ex (\<lambda>r. em_agent r = i \<and> em_started r \<le> tick
            \<and> (case em_ended r of None \<Rightarrow> True | Some t \<Rightarrow> tick < t)) (dvals (ew_employments w)));
          searched = (\<lambda>i. list_ex (\<lambda>(a, t). a = i \<and> 0 \<le> tick - t \<and> tick - t \<le> window) (ew_job_applications w))
      in sort (map av_id (filter (\<lambda>a. av_alive a \<and> 18 \<le> av_age a \<and> av_age a < retirement \<and> \<not> employed (av_id a)
           \<and> av_employment a \<notin> set [''self_employed'', ''child'', ''student'', ''retired'', ''dead''] \<and> searched (av_id a))
         (ew_agents w))))"

definition last_wage :: "string \<Rightarrow> 'l econ_world \<Rightarrow> int option" where
  \<comment> \<open>\<open>prior[0].wage_cents\<close>; \<open>row.ended_tick or -1\<close> reads a 0 as -1\<close>
  "last_wage i w = (case sort_key (\<lambda>r. - (case em_ended r of None \<Rightarrow> -1 | Some t \<Rightarrow> if t = 0 then -1 else t))
       (filter (\<lambda>r. em_agent r = i \<and> em_ended r \<noteq> None) (dvals (ew_employments w))) of
     [] \<Rightarrow> None | r # _ \<Rightarrow> Some (em_wage r))"

definition add_income :: "int \<Rightarrow> string \<Rightarrow> int \<Rightarrow> 'l econ_world \<Rightarrow> 'l econ_world" where
  "add_income tick i x w =
     (let row = dget_or (ew_gross_income w) tick []
      in w\<lparr>ew_gross_income := dset tick (dset i (dget_or row i 0 + x) row) (ew_gross_income w)\<rparr>)"

definition pay_benefit :: "'l econ_env \<Rightarrow> int \<Rightarrow> string \<Rightarrow> string \<Rightarrow> ('l, evt list) em" where
  "pay_benefit E tick source i =
     m_bind (m_read (last_wage i)) (\<lambda>wage.
     m_bind (e_ledger (owner_deposit i)) (\<lambda>destination.
     case (wage, destination) of
       (Some wg, Some deposit) \<Rightarrow>
         let weekly = bp (wg div 2) (ee_benefit_bp E) in
         if weekly \<le> 0 then m_return []
         else
         m_bind (e_next_txn E tick) (\<lambda>expected.
         m_bind (e_emit E 8073 [(''recipient_id'', JStr i), (''programme'', JStr ''unemployment''), (''cents'', JInt weekly),
             (''txn_id'', JStr (ee_uuid_text E expected))] None [i]) (\<lambda>ev.
         m_bind (e_legs (government_transfer_legs deposit weekly)) (\<lambda>legs.
         m_bind (e_post_neg E legs tick ev [source]) (\<lambda>txn.
         m_then (expect expected ''government transfer transaction ordinal diverged'' txn)
         (m_then (upd_treasury (\<lambda>t. t\<lparr>ts_spending := ts_spending t + weekly, ts_period_spending := ts_period_spending t + weekly\<rparr>))
         (m_then (m_modify (add_income tick i weekly)) (m_return [ev])))))))
     | _ \<Rightarrow> m_return []))"

definition pay_transfers :: "'l econ_env \<Rightarrow> int \<Rightarrow> ('l, evt list) em" where
  "pay_transfers E tick =
     (if tick mod (7 * ee_ticks_per_day E) \<noteq> 0 \<or> \<not> ee_benefits_on E \<or> ee_benefit_bp E \<le> 0 then m_return []
      else
      m_bind e_treasury (\<lambda>source.
      m_bind (m_read (unemployed_of tick (28 * ee_ticks_per_day E) (ee_retirement_age E)))
        (m_for (pay_benefit E tick source))))"

section \<open>Bonds\<close>

definition e_bond :: "string \<Rightarrow> ('l, bond_state) em" where
  "e_bond s = m_bind (m_read (\<lambda>w. dget (ew_bond_rows w) s)) (\<lambda>r.
     case r of None \<Rightarrow> m_raise (EcKey s) | Some b \<Rightarrow> m_return b)"

definition upd_bond :: "string \<Rightarrow> (bond_state \<Rightarrow> bond_state) \<Rightarrow> ('l, unit) em" where
  "upd_bond s f = m_modify (\<lambda>w. case dget (ew_bond_rows w) s of None \<Rightarrow> w
     | Some b \<Rightarrow> w\<lparr>ew_bond_rows := dset s (f b) (ew_bond_rows w)\<rparr>)"

definition pay_coupon :: "'l econ_env \<Rightarrow> int \<Rightarrow> string \<Rightarrow> string \<Rightarrow> bond_state \<Rightarrow> bank_state \<Rightarrow> ('l, evt list) em" where
  "pay_coupon E tick treasury s b bank =
     (let coupon = bp (bd_face b) (bd_coupon b) div 2 in
      if tick < bd_matures b \<and> 180 * ee_ticks_per_day E \<le> tick - bd_last_coupon b \<and> coupon \<noteq> 0 then
        m_bind (e_next_txn E tick) (\<lambda>expected.
        m_bind (e_emit E 8063 [(''symbol'', JStr s), (''holders_n'', JInt 1), (''total_cents'', JInt coupon),
            (''txn_id'', JStr (ee_uuid_text E expected))] None [bd_holder b]) (\<lambda>ev.
        m_bind (e_post_neg E [mk_leg treasury (-1) coupon ''interest'', mk_leg (bk_reserve bank) 1 coupon ''interest'']
            tick ev [treasury]) (\<lambda>_.
        m_then (upd_bond s (\<lambda>b. b\<lparr>bd_last_coupon := tick\<rparr>))
        (m_then (upd_treasury (\<lambda>t. t\<lparr>ts_debt_service := ts_debt_service t + coupon, ts_period_debt := ts_period_debt t + coupon\<rparr>))
        (m_return [ev])))))
      else m_return [])"

definition redeem_bond :: "'l econ_env \<Rightarrow> int \<Rightarrow> string \<Rightarrow> string \<Rightarrow> bond_state \<Rightarrow> bank_state \<Rightarrow> ('l, evt list) em" where
  "redeem_bond E tick treasury s b bank =
     (if bd_matures b \<le> tick then
        m_bind (e_next_txn E tick) (\<lambda>expected.
        m_bind (e_emit E 8064 [(''symbol'', JStr s), (''face_cents'', JInt (bd_face b)), (''holders_n'', JInt 1),
            (''txn_id'', JStr (ee_uuid_text E expected))] None [bd_holder b]) (\<lambda>ev.
        m_bind (e_post_neg E [mk_leg treasury (-1) (bd_face b) ''transfer'', mk_leg (bk_reserve bank) 1 (bd_face b) ''transfer'']
            tick ev [treasury]) (\<lambda>_.
        m_then (upd_bond s (\<lambda>b. b\<lparr>bd_status := ''matured''\<rparr>))
        (m_bind (m_read (\<lambda>w. dget (ew_bonds w) (bd_holder b))) (\<lambda>held.
         case held of None \<Rightarrow> m_raise (EcKey (bd_holder b))
         | Some d \<Rightarrow> m_then (m_modify (\<lambda>w. w\<lparr>ew_bonds := dset (bd_holder b) (ddel s d) (ew_bonds w)\<rparr>)) (m_return [ev]))))))
      else m_return [])"

definition pay_coupons_and_maturities :: "'l econ_env \<Rightarrow> int \<Rightarrow> ('l, evt list) em" where
  "pay_coupons_and_maturities E tick =
     m_bind e_treasury (\<lambda>treasury.
     m_bind (m_read (\<lambda>w. sort (dkeys (ew_bond_rows w)))) (m_for (\<lambda>s.
       m_bind (e_bond s) (\<lambda>b.
       if bd_status b \<noteq> ''outstanding'' then m_return []
       else m_bind (e_bank (bd_holder b)) (\<lambda>bank.
         m_extend [pay_coupon E tick treasury s b bank, redeem_bond E tick treasury s b bank])))))"

definition active_banks :: "'l econ_world \<Rightarrow> bank_state list" where
  \<comment> \<open>the commercial banks in operation\<close>
  "active_banks w = filter (\<lambda>b. \<not> bk_central b \<and> bk_status b = ''active'') (dvals (ew_banks w))"

definition e_capacities :: "('l, (string \<times> int) list) em" where
  "e_capacities = m_bind (m_read active_banks) (m_for (\<lambda>b.
     m_bind (e_balance (bk_reserve b)) (\<lambda>x. m_return [(bk_id b, max 0 x)])))"

definition auction_legs :: "string \<Rightarrow> int \<Rightarrow> (string \<times> int) list \<Rightarrow> ('l, leg list) em" where
  "auction_legs treasury face allocations =
     m_bind (m_for (\<lambda>(i, cents). if cents = 0 then m_return [] else m_bind (e_bank i) (\<lambda>b.
        m_return [mk_leg (bk_reserve b) (-1) cents ''transfer''])) allocations) (\<lambda>legs.
     m_return (mk_leg treasury 1 face ''transfer'' # legs))"

definition issue_tranches :: "string \<Rightarrow> string \<Rightarrow> int \<Rightarrow> int \<Rightarrow> int \<Rightarrow> (string \<times> int) list \<Rightarrow> 'l econ_world \<Rightarrow> 'l econ_world" where
  \<comment> \<open>one tranche for each holder of the sorted allocation\<close>
  "issue_tranches symbol holder coupon tick matures allocations =
     fold (\<lambda>(k, (i, cents)) w. if cents \<le> 0 then w else
        let s = (if i = holder then symbol else symbol @ ''-'' @ str_int (int k)) in
        w\<lparr>ew_bond_rows := dset s \<lparr>bd_symbol = s, bd_face = cents, bd_coupon = coupon, bd_issued = tick, bd_matures = matures,
             bd_holder = i, bd_status = ''outstanding'', bd_last_coupon = tick\<rparr> (ew_bond_rows w),
           ew_bonds := dset i (dset s cents (dget_or (ew_bonds w) i [])) (ew_bonds w)\<rparr>)
       (enumerate 0 allocations)"

definition largest :: "(string \<times> int) list \<Rightarrow> string" where
  \<comment> \<open>\<open>max(d, key=lambda k: (d[k], k))\<close> of a non-empty dictionary\<close>
  "largest d = (case map (\<lambda>(k, x). (x, k)) d of [] \<Rightarrow> [] | p # ps \<Rightarrow> snd (max_of p ps))"

definition run_auction :: "'l econ_env \<Rightarrow> int \<Rightarrow> string \<Rightarrow> int \<Rightarrow> string \<Rightarrow> string \<Rightarrow> int \<Rightarrow> (string \<times> int) list \<Rightarrow> ('l, evt list) em" where
  \<comment> \<open>\<open>finance_deficit\<close> once the allocation is known, sorted by bank; the term in days is an argument\<close>
  "run_auction E tick treasury face auction symbol days allocations =
     m_bind (m_read ew_policy_rate) (\<lambda>policy.
     let coupon = policy + ee_sovereign_spread E; matures = tick + days * ee_ticks_per_day E in
     m_bind (e_emit E 8060 [(''symbol'', JStr symbol), (''face_cents'', JInt face), (''coupon_bp'', JInt coupon),
         (''matures_tick'', JInt matures), (''auction_id'', JStr auction)] None []) (\<lambda>ev1.
     m_bind (auction_legs treasury face allocations) (\<lambda>legs.
     m_bind (e_next_txn E tick) (\<lambda>expected.
     m_bind (e_emit E 8061 [(''auction_id'', JStr auction), (''offered_cents'', JInt face), (''bid_cents'', JInt face),
         (''clearing_yield_bp'', JInt coupon), (''allocations'', JObj (map (\<lambda>(i, x). (i, JInt x)) allocations)),
         (''txn_id'', JStr (ee_uuid_text E expected))] None []) (\<lambda>ev2.
     m_then (post_expected E legs tick ev2 expected ''bond auction transaction ordinal diverged'')
     (m_then (m_modify (issue_tranches symbol (largest allocations) coupon tick matures allocations))
     (m_return [ev1, ev2])))))))"

definition finance_deficit :: "'l econ_env \<Rightarrow> int \<Rightarrow> ('l, evt list) em" where
  "finance_deficit E tick =
     m_bind e_treasury (\<lambda>treasury.
     m_bind (e_balance treasury) (\<lambda>bal.
     let shortfall = ee_floor E - bal; unit_size = ee_denomination E in
     if shortfall \<le> 0 then m_return []
     else if unit_size = 0 then m_raise EcZeroDivision
     else let face = (shortfall + unit_size - 1) div unit_size * unit_size in
     m_bind e_capacities (\<lambda>capacity.
     let available = sum_list (dvals capacity) in
     m_bind (m_read (\<lambda>w. length (ew_bond_rows w))) (\<lambda>k.
     m_bind (e_mint ''auc'' tick (int k)) (\<lambda>auction.
     if available < face then
       m_bind (e_emit E 8062 [(''auction_id'', JStr auction), (''offered_cents'', JInt face), (''bid_cents'', JInt available),
           (''shortfall_cents'', JInt (face - available))] None []) (\<lambda>ev. m_return [ev])
     else
       m_bind (m_res (case allocate face (sort capacity) of Inl e \<Rightarrow> Inl (EcMoney e) | Inr d \<Rightarrow> Inr d)) (\<lambda>allocations.
       if ee_bond_terms E = [] then m_raise EcZeroDivision
       else run_auction E tick treasury face auction
         (''POLG'' @ zpad 6 (str_int tick) @ ''-'' @ zpad 4 (str_int (int k + 1)))
         (ee_bond_terms E ! (k mod length (ee_bond_terms E))) (sort allocations)))))))"

section \<open>The budget\<close>

definition close_budget :: "'l econ_env \<Rightarrow> int \<Rightarrow> ('l, evt list) em" where
  "close_budget E tick =
     (if tick mod (90 * ee_ticks_per_day E) \<noteq> 0 then m_return []
      else
      m_bind (m_read ew_treasury) (\<lambda>t.
      m_bind (m_read (\<lambda>w. \<Sum>b\<leftarrow>filter (\<lambda>b. bd_status b = ''outstanding'') (dvals (ew_bond_rows w)). bd_face b)) (\<lambda>debt.
      m_bind (e_emit E 8074 [(''period'', JStr (quarter_name tick (90 * ee_ticks_per_day E))),
          (''receipts_cents'', JInt (ts_period_receipts t)), (''spending_cents'', JInt (ts_period_spending t)),
          (''debt_service_cents'', JInt (ts_period_debt t)),
          (''balance_cents'', JInt (ts_period_receipts t - ts_period_spending t - ts_period_debt t)),
          (''debt_cents'', JInt debt), (''debt_to_gdp_bp'', JInt 0)] None []) (\<lambda>ev.
      m_then (upd_treasury (\<lambda>t. t\<lparr>ts_period_receipts := 0, ts_period_spending := 0, ts_period_debt := 0\<rparr>))
      (m_return [ev])))))"

definition fiscal_step :: "'l econ_env \<Rightarrow> int \<Rightarrow> ('l, evt list) em" where
  \<comment> \<open>the two contexts share one economy\<close>
  "fiscal_step E tick = m_extend [pay_coupons_and_maturities E tick, assess_taxes E tick, collect_taxes E tick,
     convert_arrears E tick, pay_transfers E tick, finance_deficit E tick, close_budget E tick]"

end
