(* ===== verification/Central.thy ===== *)
theory Central
  imports Fiscal
begin

text \<open>
  \<open>polis/economy/central.py\<close>: the policy rate, the interbank market with the discount window behind
  it, the ratios of the banks, and the resolution of a bank that has failed. A bank is named by its
  identifier, the key of the table; the sorted accounts are those of the ledger.
\<close>

section \<open>The policy rate\<close>

definition apply_pending_policy :: "int \<Rightarrow> 'l econ_world \<Rightarrow> 'l econ_world" where
  "apply_pending_policy tick w =
     (case ew_pending_rate w of None \<Rightarrow> w
      | Some (t, r) \<Rightarrow> if t \<le> tick then w\<lparr>ew_policy_rate := r, ew_pending_rate := None\<rparr> else w)"

definition policy_rate_target_bp :: "'l econ_env \<Rightarrow> int \<Rightarrow> int \<Rightarrow> int \<times> string" where
  \<comment> \<open>from the inflation and the output gap\<close>
  "policy_rate_target_bp E inflation gap =
     (if ee_rate_rule E = ''fixed'' \<or> ee_rate_rule E = ''political'' then (ee_rate_setting E, ee_rate_rule E)
      else let raw = ee_taylor_neutral E + ee_taylor_phi_pi E * (inflation - ee_taylor_target E) div 10000
             + ee_taylor_phi_y E * gap div 10000
           in (max (ee_taylor_low E) (min (ee_taylor_high E) raw), ''rule''))"

definition yearly_inflation :: "'l econ_env \<Rightarrow> int \<Rightarrow> 'l econ_world \<Rightarrow> int" where
  "yearly_inflation E tick w =
     (let current = dget_or (ew_cpi w) tick 10000
      in case dget (ew_cpi w) (tick - ticks_per_year E) of None \<Rightarrow> 0
         | Some prior \<Rightarrow> if prior \<le> 0 then 0 else 10000 * (current - prior) div prior)"

definition set_policy_rate :: "'l econ_env \<Rightarrow> int \<Rightarrow> ('l, evt list) em" where
  "set_policy_rate E tick =
     (if tick mod max 1 (ee_review_days E * ee_ticks_per_day E) \<noteq> 0 then m_return []
      else
      m_bind (m_read (yearly_inflation E tick)) (\<lambda>inflation.
      m_bind (m_read ew_policy_rate) (\<lambda>previous.
      let (target, setter) = policy_rate_target_bp E inflation 0 in
      m_then (m_modify (\<lambda>w. w\<lparr>ew_pending_rate := Some (tick + 1, target)\<rparr>))
      (m_bind (e_emit E 8030 [(''rate_bp'', JInt target), (''prev_rate_bp'', JInt previous), (''setter'', JStr setter),
          (''inflation_bp'', JInt inflation), (''output_gap_bp'', JInt 0), (''effective_tick'', JInt (tick + 1))] None [])
        (\<lambda>ev. m_return [ev])))))"

section \<open>Loans between banks\<close>

definition bank_loan :: "'l econ_env \<Rightarrow> string \<Rightarrow> string \<Rightarrow> string \<Rightarrow> int \<Rightarrow> int \<Rightarrow> int \<Rightarrow> int \<Rightarrow> string \<Rightarrow> string \<Rightarrow> loan_state" where
  "bank_loan E i lender borrower cents rate term tick receivable payable =
     \<lparr>ln_id = i, ln_lender = lender, ln_borrower = borrower, ln_purpose = ''interbank'', ln_principal = cents,
      ln_outstanding = cents, ln_rate = rate, ln_term = term, ln_originated = tick, ln_matures = tick + term,
      ln_status = ''current'', ln_collateral = [], ln_collateral_value = 0, ln_score = 10000,
      ln_receivable = receivable, ln_payable = payable, ln_payment = cents, ln_payments_n = 1,
      ln_next_payment = tick + term, ln_accrued = 0, ln_remainder = 0, ln_interest_paid = 0,
      ln_interest_scheduled = 0, ln_interest_forgiven = 0, ln_capitalised = 0, ln_payments_made = 0,
      ln_missed_since = None, ln_defaulted = None, ln_closed = None\<rparr>"

definition add_loan :: "string \<Rightarrow> loan_state \<Rightarrow> ('l, unit) em" where
  "add_loan i n = m_modify (\<lambda>w. w\<lparr>ew_loans := dset i n (ew_loans w)\<rparr>)"

definition lend_reserves :: "'l econ_env \<Rightarrow> string \<Rightarrow> string \<Rightarrow> int \<Rightarrow> int \<Rightarrow> string \<Rightarrow> string \<Rightarrow> string \<Rightarrow> ('l, evt list) em" where
  \<comment> \<open>\<open>_originate_interbank\<close> once its accounts are open\<close>
  "lend_reserves E lender borrower cents tick i receivable payable =
     m_bind (m_read ew_policy_rate) (\<lambda>policy.
     let rate = policy + ee_interbank_spread E in
     m_bind (e_emit E 8040 [(''loan_id'', JStr i), (''lender_bank_id'', JStr lender), (''borrower_bank_id'', JStr borrower),
         (''cents'', JInt cents), (''rate_bp'', JInt rate), (''term_ticks'', JInt (ee_ticks_per_day E))]
         (Some lender) [borrower]) (\<lambda>ev.
     m_bind (e_bank lender) (\<lambda>lb.
     m_bind (e_bank borrower) (\<lambda>bb.
     m_bind (e_post E [mk_leg (bk_reserve lb) (-1) cents ''loan'', mk_leg (bk_reserve bb) 1 cents ''loan'',
         mk_leg receivable 1 cents ''loan'', mk_leg payable (-1) cents ''loan''] tick ev) (\<lambda>_.
     m_then (add_loan i (bank_loan E i lender borrower cents rate (ee_ticks_per_day E) tick receivable payable))
     (m_return [ev]))))))"

definition originate_interbank :: "'l econ_env \<Rightarrow> string \<Rightarrow> string \<Rightarrow> int \<Rightarrow> int \<Rightarrow> ('l, evt list) em" where
  "originate_interbank E lender borrower cents tick =
     m_bind (m_read (\<lambda>w. int (length (filter (\<lambda>n. ln_originated n = tick) (dvals (ew_loans w)))))) (\<lambda>ordinal.
     m_bind (e_mint ''ib'' tick ordinal) (\<lambda>i.
     m_bind (e_open Lnr lender ''bank'' None (Some i) tick) (\<lambda>receivable.
     m_bind (e_open Lnp borrower ''bank'' None (Some i) tick) (\<lambda>payable.
     lend_reserves E lender borrower cents tick i receivable payable))))"

definition first_issuance :: "ledger \<Rightarrow> econ_error + string" where
  "first_issuance l = (case codes_of l ''bk_cb'' Iss of [] \<Rightarrow> Inl EcStopIteration | v # _ \<Rightarrow> Inr v)"

definition issue_reserves :: "'l econ_env \<Rightarrow> string \<Rightarrow> int \<Rightarrow> int \<Rightarrow> string \<Rightarrow> string \<Rightarrow> string \<Rightarrow> ('l, evt list) em" where
  \<comment> \<open>\<open>discount_window\<close> once its accounts are open\<close>
  "issue_reserves E b shortfall tick i receivable payable =
     m_bind (m_bind (e_ledger first_issuance) m_res) (\<lambda>issuance.
     m_bind (e_next_txn E tick) (\<lambda>expected.
     m_bind (e_bank b) (\<lambda>bank.
     m_bind (e_emit E 8032 [(''amount_cents'', JInt shortfall), (''recipient_account_id'', JStr (bk_reserve bank)),
         (''instrument'', JStr ''reserves''), (''purpose'', JStr ''discount_window''),
         (''txn_id'', JStr (ee_uuid_text E expected))] None [b]) (\<lambda>ev1.
     m_bind (e_issue E [mk_leg (bk_reserve bank) 1 shortfall ''issuance'', mk_leg issuance (-1) shortfall ''issuance'',
         mk_leg receivable 1 shortfall ''issuance'', mk_leg payable (-1) shortfall ''issuance''] tick ev1) (\<lambda>txn.
     m_then (expect expected ''discount-window transaction ordinal diverged'' txn)
     (m_bind (m_read ew_policy_rate) (\<lambda>policy.
      m_then (add_loan i (bank_loan E i ''bk_cb'' b shortfall (policy + ee_discount_penalty E) (30 * ee_ticks_per_day E) tick
          receivable payable))
      (m_bind (e_emit E 8041 [(''bank_id'', JStr b), (''cents'', JInt shortfall),
          (''penalty_rate_bp'', JInt (ee_discount_penalty E)), (''reserve_shortfall_cents'', JInt shortfall)] None [b])
        (\<lambda>ev2. m_return [ev1, ev2])))))))))"

definition discount_window :: "'l econ_env \<Rightarrow> string \<Rightarrow> int \<Rightarrow> int \<Rightarrow> ('l, evt list) em" where
  "discount_window E b shortfall tick =
     (if shortfall \<le> 0 then m_return []
      else
      m_bind (m_read (\<lambda>w. int (length (filter (\<lambda>n. ln_originated n = tick) (dvals (ew_loans w)))))) (\<lambda>ordinal.
      m_bind (e_mint ''dw'' tick ordinal) (\<lambda>i.
      m_bind (e_open Lnr ''bk_cb'' ''central_bank'' None (Some i) tick) (\<lambda>receivable.
      m_bind (e_open Lnp b ''bank'' None (Some i) tick) (\<lambda>payable.
      issue_reserves E b shortfall tick i receivable payable)))))"

section \<open>Resolution of a failed bank\<close>

definition best_bank :: "bank_state list \<Rightarrow> 'l econ_world \<Rightarrow> ('l, bank_state) em" where
  \<comment> \<open>\<open>max(candidates or [banks["bk_cb"]], key=(capital, id))\<close>\<close>
  "best_bank candidates w0 =
     (case map (\<lambda>b. (capital_cents (bk_id b) w0, bk_id b)) candidates of
        [] \<Rightarrow> e_bank ''bk_cb''
      | p # ps \<Rightarrow> e_bank (snd (max_of p ps)))"

definition write_off_bad :: "'l econ_env \<Rightarrow> string \<Rightarrow> int \<Rightarrow> ('l, evt list) em" where
  "write_off_bad E b tick = m_bind (m_read loan_ids) (m_for (\<lambda>i. m_bind (e_loan i) (\<lambda>n.
     if ln_lender n = b \<and> (ln_status n = ''delinquent'' \<or> ln_status n = ''default'')
     then write_off_loan E i (ln_outstanding n) 0 tick else m_return [])))"

definition move_loan :: "string \<Rightarrow> string \<Rightarrow> loan_state \<Rightarrow> loan_state" where
  "move_loan lender receivable n = n\<lparr>ln_lender := lender, ln_receivable := receivable\<rparr>"

definition novation_legs :: "loan_state \<Rightarrow> string \<Rightarrow> leg list" where
  "novation_legs n receivable = [mk_leg (ln_receivable n) (-1) (ln_outstanding n) ''loan'', mk_leg receivable 1 (ln_outstanding n) ''loan'']"

definition buy_with_issue :: "'l econ_env \<Rightarrow> bank_state \<Rightarrow> string \<Rightarrow> loan_state \<Rightarrow> int \<Rightarrow> string \<Rightarrow> bank_state \<Rightarrow> int \<Rightarrow> ('l, evt list) em" where
  \<comment> \<open>the central bank buys a loan of the failed bank\<close>
  "buy_with_issue E bank issuance n price receivable buyer tick =
     m_bind (e_next_txn E tick) (\<lambda>expected.
     m_bind (e_emit E 8032 [(''amount_cents'', JInt price), (''recipient_account_id'', JStr (bk_reserve bank)),
         (''instrument'', JStr ''loan_purchase''), (''purpose'', JStr ''bank_resolution''),
         (''txn_id'', JStr (ee_uuid_text E expected))] None [bk_id bank, ln_borrower n]) (\<lambda>ev.
     m_bind (e_issue E (novation_legs n receivable @ [mk_leg (bk_reserve bank) 1 price ''issuance'',
         mk_leg issuance (-1) price ''issuance'']) tick ev) (\<lambda>txn.
     m_then (expect expected ''bank-resolution issuance ordinal diverged'' txn)
     (m_then (m_modify (upd_loan (ln_id n) (move_loan (bk_id buyer) receivable))) (m_return [ev])))))"

definition buy_with_reserves :: "'l econ_env \<Rightarrow> bank_state \<Rightarrow> loan_state \<Rightarrow> int \<Rightarrow> string \<Rightarrow> bank_state \<Rightarrow> int \<Rightarrow> evt \<Rightarrow> ('l, evt list) em" where
  "buy_with_reserves E bank n price receivable buyer tick failed =
     m_bind (e_post E (novation_legs n receivable @ [mk_leg (bk_reserve buyer) (-1) price ''transfer'',
         mk_leg (bk_reserve bank) 1 price ''transfer'']) tick failed) (\<lambda>_.
     m_then (m_modify (upd_loan (ln_id n) (move_loan (bk_id buyer) receivable))) (m_return []))"

definition e_reserves_of :: "bank_state list \<Rightarrow> ('l, (bank_state \<times> int) list) em" where
  "e_reserves_of bs = m_for (\<lambda>b. m_bind (reserves_cents (bk_id b)) (\<lambda>x. m_return [(b, x)])) bs"

definition sell_loan :: "'l econ_env \<Rightarrow> bank_state \<Rightarrow> bank_state list \<Rightarrow> string \<Rightarrow> int \<Rightarrow> evt \<Rightarrow> string \<Rightarrow> ('l, evt list) em" where
  "sell_loan E bank candidates issuance tick failed i =
     m_bind (e_loan i) (\<lambda>n.
     if ln_lender n \<noteq> bk_id bank \<or> ln_status n \<noteq> ''current'' then m_return []
     else let price = bp (ln_outstanding n) (ee_fire_sale E) in
     m_bind (e_reserves_of candidates) (\<lambda>rs.
     m_bind (m_read (\<lambda>w. w)) (\<lambda>w0.
     m_bind (best_bank (map fst (filter (\<lambda>(b, x). price \<le> x) rs)) w0) (\<lambda>buyer.
     m_bind (e_open Lnr (bk_id buyer) (if bk_central buyer then ''central_bank'' else ''bank'') None (Some i) tick) (\<lambda>receivable.
     if bk_central buyer then buy_with_issue E bank issuance n price receivable buyer tick
     else buy_with_reserves E bank n price receivable buyer tick failed)))))"

definition liquidate_loans :: "'l econ_env \<Rightarrow> bank_state \<Rightarrow> bank_state list \<Rightarrow> int \<Rightarrow> evt \<Rightarrow> ('l, evt list) em" where
  "liquidate_loans E bank candidates tick failed =
     m_bind (m_bind (e_ledger first_issuance) m_res) (\<lambda>issuance.
     m_bind (m_read loan_ids) (m_for (sell_loan E bank candidates issuance tick failed)))"

definition customer_accounts :: "string \<Rightarrow> ledger \<Rightarrow> (string \<times> int) list" where
  \<comment> \<open>the sorted deposit and escrow accounts at a bank that hold money\<close>
  "customer_accounts b l = map (\<lambda>a. (acc_id a, acc_balance a))
     (filter (\<lambda>a. acc_bank a = Some b \<and> acc_code a \<in> {Dep, Esc} \<and> 0 < acc_balance a) (accounts l))"

definition owner_part :: "string \<Rightarrow> string" where
  \<comment> \<open>\<open>parse_account_id(account_id)[1]\<close> of an identifier of the table\<close>
  "owner_part v = (case parse_account_id v of Inr (_, ow, _) \<Rightarrow> ow | Inl _ \<Rightarrow> [])"

definition pay_insurance :: "'l econ_env \<Rightarrow> bank_state \<Rightarrow> int \<Rightarrow> (string \<times> int) list \<Rightarrow> int \<Rightarrow> ('l, evt list) em" where
  "pay_insurance E bank shortfall customers tick =
     (let cap = ee_median_wage E * ee_insurance_months E div 12;
          covered = min shortfall (\<Sum>(v, x)\<leftarrow>customers. min x cap) in
      if covered = 0 then m_return []
      else
      m_bind e_treasury (\<lambda>treasury.
      m_bind (e_next_txn E tick) (\<lambda>expected.
      m_bind (e_emit E 8054 [(''bank_id'', JStr (bk_id bank)), (''covered_cents'', JInt covered),
          (''depositors_n'', JInt (int (length customers))), (''txn_id'', JStr (ee_uuid_text E expected))] None [bk_id bank]) (\<lambda>ev.
      m_bind (e_post_neg E [mk_leg treasury (-1) covered ''transfer'', mk_leg (bk_reserve bank) 1 covered ''transfer'']
          tick ev [treasury]) (\<lambda>txn.
      m_then (expect expected ''deposit insurance transaction ordinal diverged'' txn) (m_return [ev]))))))"

definition haircut_weights :: "int \<Rightarrow> int \<Rightarrow> (string \<times> int) list \<Rightarrow> (string \<times> int) list" where
  \<comment> \<open>the uninsured parts when they are enough, else the balances\<close>
  "haircut_weights cap residual customers =
     (let uninsured = map (\<lambda>(v, x). (v, max 0 (x - cap))) customers
      in if residual \<le> sum_list (map snd uninsured) then uninsured else customers)"

definition cut_deposit :: "'l econ_env \<Rightarrow> bank_state \<Rightarrow> (string \<times> int) list \<Rightarrow> int \<Rightarrow> string \<times> int \<Rightarrow> ('l, evt list) em" where
  "cut_deposit E bank customers tick = (\<lambda>(v, cents).
     if cents \<le> 0 then m_return []
     else let held = dget_or customers v 0 in
     m_bind (e_next_txn E tick) (\<lambda>expected.
     m_bind (e_emit E 8055 [(''bank_id'', JStr (bk_id bank)), (''depositor_id'', JStr (owner_part v)), (''haircut_cents'', JInt cents),
         (''recovery_bp'', JInt (10000 * (held - cents) div max 1 held)), (''txn_id'', JStr (ee_uuid_text E expected))]
         None [owner_part v, bk_id bank]) (\<lambda>ev.
     m_then (post_expected E [mk_leg v (-1) cents ''write_off'', mk_leg (bk_liability bank) 1 cents ''write_off''] tick ev expected
         ''deposit haircut transaction ordinal diverged'') (m_return [ev]))))"

definition cut_deposits :: "'l econ_env \<Rightarrow> bank_state \<Rightarrow> (string \<times> int) list \<Rightarrow> int \<Rightarrow> ('l, evt list) em" where
  "cut_deposits E bank customers tick =
     m_bind (m_read (capital_cents (bk_id bank))) (\<lambda>capital.
     let residual = max 0 (- capital); cap = ee_median_wage E * ee_insurance_months E div 12;
         weights = haircut_weights cap residual customers in
     if residual = 0 then m_return []
     else m_bind (m_res (case allocate (min residual (sum_list (map snd weights))) (sort weights) of
            Inl e \<Rightarrow> Inl (EcMoney e) | Inr d \<Rightarrow> Inr d)) (\<lambda>cuts.
       m_for (cut_deposit E bank customers tick) (sort cuts)))"

definition cover_shortfall :: "'l econ_env \<Rightarrow> bank_state \<Rightarrow> int \<Rightarrow> ('l, evt list) em" where
  "cover_shortfall E bank tick =
     m_bind (m_read (capital_cents (bk_id bank))) (\<lambda>capital.
     let shortfall = max 0 (- capital) in
     if shortfall = 0 then m_return []
     else m_bind (e_ledger (customer_accounts (bk_id bank))) (\<lambda>customers.
       m_extend [pay_insurance E bank shortfall customers tick, cut_deposits E bank customers tick]))"

definition assume_loan :: "'l econ_env \<Rightarrow> bank_state \<Rightarrow> bank_state \<Rightarrow> int \<Rightarrow> evt \<Rightarrow> string \<Rightarrow> ('l, evt list) em" where
  "assume_loan E bank buyer tick failed i =
     m_bind (e_loan i) (\<lambda>n.
     if ln_lender n \<noteq> bk_id bank \<or> ln_status n \<noteq> ''current'' then m_return []
     else
     m_bind (e_open Lnr (bk_id buyer) ''bank'' None (Some i) tick) (\<lambda>receivable.
     m_bind (e_post E (novation_legs n receivable) tick failed) (\<lambda>_.
     m_then (m_modify (upd_loan i (move_loan (bk_id buyer) receivable))) (m_return []))))"

definition same_account :: "string \<Rightarrow> string \<Rightarrow> string \<Rightarrow> bool" where
  \<comment> \<open>the same code and reference, at the bank named second\<close>
  "same_account v b u = (case (parse_account_id v, parse_account_id u) of
     (Inr (c, _, _, r), Inr (c', _, b', r')) \<Rightarrow> c' = c \<and> b' = Some b \<and> r' = r | _ \<Rightarrow> False)"

definition assume_account :: "'l econ_env \<Rightarrow> bank_state \<Rightarrow> bank_state \<Rightarrow> int \<Rightarrow> evt \<Rightarrow> string \<times> int \<Rightarrow> ('l, evt list) em" where
  "assume_account E bank buyer tick failed = (\<lambda>(v, held).
     m_bind (e_res (parse_account_id v)) (\<lambda>(code, ow, _, r).
     m_bind (e_ledger (\<lambda>l. find (same_account v (bk_id buyer)) (accounts_of l ow))) (\<lambda>found.
     m_bind (case found of Some u \<Rightarrow> m_return u
       | None \<Rightarrow> m_bind (m_bind (e_ledger (\<lambda>l. find_account l v)) e_res) (\<lambda>a.
           e_open code ow (acc_owner_type a) (Some (bk_id buyer)) r tick)) (\<lambda>destination.
     m_bind (e_post E [mk_leg v (-1) held ''transfer'', mk_leg (bk_liability bank) 1 held ''transfer'',
         mk_leg (bk_liability buyer) (-1) held ''transfer'', mk_leg destination 1 held ''transfer''] tick failed) (\<lambda>_.
     m_return [])))))"

definition assume_bank :: "'l econ_env \<Rightarrow> bank_state \<Rightarrow> bank_state \<Rightarrow> int \<Rightarrow> evt \<Rightarrow> ('l, evt list) em" where
  "assume_bank E bank buyer tick failed = m_extend [
     m_bind (m_read loan_ids) (m_for (assume_loan E bank buyer tick failed)),
     m_bind (e_ledger (customer_accounts (bk_id bank))) (m_for (assume_account E bank buyer tick failed)),
     m_bind (e_balance (bk_reserve bank)) (\<lambda>x.
       if x \<le> 0 then m_return []
       else m_bind (e_post E [mk_leg (bk_reserve bank) (-1) x ''transfer'', mk_leg (bk_reserve buyer) 1 x ''transfer''] tick failed)
         (\<lambda>_. m_return []))]"

definition cash_account :: "string \<Rightarrow> string \<Rightarrow> int \<Rightarrow> ('l, string) em" where
  \<comment> \<open>the first cash account of an owner, opened when there is none\<close>
  "cash_account ow ty tick = m_bind (e_ledger (\<lambda>l. codes_of l ow Cash)) (\<lambda>vs.
     case vs of v # _ \<Rightarrow> m_return v | [] \<Rightarrow> e_open Cash ow ty None None tick)"

definition cash_legs :: "bank_state \<Rightarrow> string \<Rightarrow> string \<Rightarrow> int \<Rightarrow> leg list" where
  \<comment> \<open>a deposit is paid out of the bank's reserves\<close>
  "cash_legs bank v cash x = [mk_leg v (-1) x ''withdrawal'', mk_leg (bk_liability bank) 1 x ''withdrawal'',
     mk_leg (bk_reserve bank) (-1) x ''withdrawal'', mk_leg cash 1 x ''withdrawal'']"

definition pay_out :: "'l econ_env \<Rightarrow> bank_state \<Rightarrow> int \<Rightarrow> evt \<Rightarrow> string \<times> int \<Rightarrow> ('l, evt list) em" where
  "pay_out E bank tick failed = (\<lambda>(v, held).
     m_bind (m_bind (e_ledger (\<lambda>l. find_account l v)) e_res) (\<lambda>a.
     m_bind (cash_account (owner_part v) (acc_owner_type a) tick) (\<lambda>cash.
     m_bind (e_balance (bk_reserve bank)) (\<lambda>x.
     if x < held then m_raise (EcRuntime ''liquidation left the bank unable to pay an account'')
     else m_bind (e_post E (cash_legs bank v cash held) tick failed) (\<lambda>_. m_return [])))))"

definition close_bank :: "string \<Rightarrow> string \<Rightarrow> int \<Rightarrow> 'l econ_world \<Rightarrow> 'l econ_world" where
  "close_bank b buyer tick w =
     (let moved = fold (\<lambda>(s, x) d. dset s x d) (dget_or (ew_bonds w) b []) (dget_or (ew_bonds w) buyer []);
          w = w\<lparr>ew_bonds := ddel b (dset buyer moved (ew_bonds w)),
                ew_bond_rows := map (\<lambda>(s, r). (s, if bd_holder r = b then r\<lparr>bd_holder := buyer\<rparr> else r)) (ew_bond_rows w)\<rparr>
      in case dget (ew_banks w) b of None \<Rightarrow> w
         | Some bank \<Rightarrow> w\<lparr>ew_banks := dset b (bank\<lparr>bk_status := ''failed'', bk_failed := Some tick, bk_frozen := True\<rparr>) (ew_banks w)\<rparr>)"

definition resolve_failure :: "'l econ_env \<Rightarrow> string \<Rightarrow> int \<Rightarrow> ('l, evt list) em" where
  "resolve_failure E b tick =
     m_bind (e_bank b) (\<lambda>bank.
     if bk_central bank \<or> bk_status bank = ''failed'' then m_return []
     else
     m_bind (m_read (\<lambda>w. filter (\<lambda>r. bk_id r \<noteq> b) (active_banks w))) (\<lambda>candidates.
     let assuming = (ee_resolution E = ''assume'') in
     if assuming \<and> candidates = [] then m_return []
     else
     m_bind (m_read (\<lambda>w. w)) (\<lambda>w0.
     m_bind (best_bank candidates w0) (\<lambda>buyer.
     m_bind (m_read (capital_cents b)) (\<lambda>capital.
     m_bind (deposits_cents b) (\<lambda>deposits.
     m_bind (e_emit E 8053 [(''bank_id'', JStr b), (''capital_cents'', JInt capital), (''deposits_cents'', JInt deposits),
         (''shortfall_cents'', JInt (max 0 (- capital))), (''resolution'', JStr (ee_resolution E)),
         (if assuming then ''assuming_bank_id'' else ''primary_buyer_bank_id'', JStr (bk_id buyer))] None [b, bk_id buyer]) (\<lambda>failed.
     m_bind (m_extend [
       write_off_bad E b tick,
       m_when (ee_resolution E = ''liquidate'') (liquidate_loans E bank candidates tick failed),
       cover_shortfall E bank tick,
       if assuming then assume_bank E bank buyer tick failed
       else m_bind (e_ledger (customer_accounts b)) (m_for (pay_out E bank tick failed))]) (\<lambda>evs.
     m_then (m_modify (close_bank b (bk_id buyer) tick)) (m_return (failed # evs))))))))))"

section \<open>The settlement of the banks\<close>

definition exposure :: "string \<Rightarrow> string \<Rightarrow> 'l econ_world \<Rightarrow> int" where
  "exposure lender borrower w = (\<Sum>n\<leftarrow>filter (\<lambda>n. ln_lender n = lender \<and> ln_borrower n = borrower
     \<and> live_status (ln_status n)) (dvals (ew_loans w)). ln_outstanding n)"

definition refuse_interbank :: "'l econ_env \<Rightarrow> string \<Rightarrow> string \<Rightarrow> int \<Rightarrow> string \<Rightarrow> ('l, evt list) em" where
  "refuse_interbank E borrower lender amount reason =
     m_bind (e_emit E 8042 [(''borrower_bank_id'', JStr borrower), (''lender_bank_id'', JStr lender), (''cents'', JInt amount),
       (''reason'', JStr reason)] (Some lender) [borrower]) (\<lambda>ev. m_return [ev])"

fun borrow_from :: "'l econ_env \<Rightarrow> string \<Rightarrow> int \<Rightarrow> int \<Rightarrow> (string \<times> int) list \<Rightarrow> ('l, evt list \<times> int) em" where
  \<comment> \<open>the loop over the lenders and their excess; the result carries the shortfall that is left\<close>
  "borrow_from E borrower tick shortfall [] = m_return ([], shortfall)"
| "borrow_from E borrower tick shortfall ((lender, excess) # longs) =
     (if shortfall \<le> 0 then m_return ([], shortfall)
      else let amount = min shortfall excess in
      m_bind (m_read (capital_ratio_bp E borrower)) (\<lambda>ratio.
      m_bind (m_read (exposure lender borrower)) (\<lambda>exposed.
      m_bind (m_read (capital_cents lender)) (\<lambda>capital.
      let reason = (if ratio < ee_interbank_min_ratio E then Some ''capital_ratio''
            else if bp (max 0 capital) (ee_interbank_concentration E) < exposed + amount then Some ''concentration'' else None) in
      m_bind (case reason of Some r \<Rightarrow> refuse_interbank E borrower lender amount r
              | None \<Rightarrow> originate_interbank E lender borrower amount tick) (\<lambda>evs.
      m_bind (borrow_from E borrower tick (if reason = None then shortfall - amount else shortfall) longs) (\<lambda>(more, left).
      m_return (evs @ more, left)))))))"

definition e_required :: "bank_state list \<Rightarrow> ('l, (string, int) dict) em" where
  "e_required bs = m_for (\<lambda>b. m_bind (deposits_cents (bk_id b)) (\<lambda>x. m_return [(bk_id b, bp x (bk_reserve_ratio b))])) bs"

definition e_gaps :: "bank_state list \<Rightarrow> (string, int) dict \<Rightarrow> ('l, (string \<times> int) list) em" where
  \<comment> \<open>reserves less the reserves required\<close>
  "e_gaps bs required = m_for (\<lambda>b. m_bind (reserves_cents (bk_id b)) (\<lambda>x. m_return [(bk_id b, x - dget_or required (bk_id b) 0)])) bs"

definition by_size :: "(string \<times> int) list \<Rightarrow> (string \<times> int) list" where
  "by_size ps = sort_key (\<lambda>(i, x). (- x, i)) ps"

definition fund_shortfall :: "'l econ_env \<Rightarrow> int \<Rightarrow> bank_state list \<Rightarrow> (string, int) dict \<Rightarrow> string \<Rightarrow> ('l, evt list) em" where
  "fund_shortfall E tick banks required borrower =
     m_bind (reserves_cents borrower) (\<lambda>x.
     m_bind (e_gaps banks required) (\<lambda>gaps.
     m_bind (\<lambda>w. let (g, reg) = rng_get (ee_digest E) ''banking.interbank'' borrower (Some tick) (ew_rng w)
         in case shuffle (ee_digest E) (by_size (filter (\<lambda>(i, y). i \<noteq> borrower \<and> 0 < y) gaps)) g of
              Inl e \<Rightarrow> Inl (EcRng e) | Inr (ls, _) \<Rightarrow> Inr (ls, w\<lparr>ew_rng := reg\<rparr>)) (\<lambda>longs.
     m_bind (borrow_from E borrower tick (max 0 (dget_or required borrower 0 - x)) longs) (\<lambda>(evs, left).
     if 0 < left then m_bind (discount_window E borrower left tick) (\<lambda>more. m_return (evs @ more)) else m_return evs))))"

definition upd_bank :: "string \<Rightarrow> (bank_state \<Rightarrow> bank_state) \<Rightarrow> ('l, unit) em" where
  "upd_bank i f = m_modify (\<lambda>w. case dget (ew_banks w) i of None \<Rightarrow> w
     | Some b \<Rightarrow> w\<lparr>ew_banks := dset i (f b) (ew_banks w)\<rparr>)"

definition loans_of :: "string \<Rightarrow> (loan_state \<Rightarrow> bool) \<Rightarrow> 'l econ_world \<Rightarrow> int" where
  "loans_of lender P w = (\<Sum>n\<leftarrow>filter (\<lambda>n. ln_lender n = lender \<and> P n) (dvals (ew_loans w)). ln_outstanding n)"

definition report_bank :: "'l econ_env \<Rightarrow> int \<Rightarrow> string \<Rightarrow> ('l, evt list) em" where
  "report_bank E tick b =
     m_bind (m_read (\<lambda>w. (capital_cents b w, rwa_cents E b w, capital_ratio_bp E b w))) (\<lambda>(capital, rwa, ratio).
     let frozen = (ratio < ee_capital_ratio_min E) in
     m_then (upd_bank b (\<lambda>k. k\<lparr>bk_capital := capital, bk_capital_ratio := ratio, bk_frozen := frozen\<rparr>))
     (m_bind (m_read (\<lambda>w. (loans_of b (\<lambda>n. live_status (ln_status n)) w, loans_of b (\<lambda>n. ln_status n = ''default'') w))) (\<lambda>(total_loans, npl).
      m_bind (reserves_cents b) (\<lambda>reserves.
      m_bind (deposits_cents b) (\<lambda>deposits.
      m_bind (e_emit E 8050 [(''bank_id'', JStr b), (''capital_cents'', JInt capital), (''rwa_cents'', JInt rwa),
          (''capital_ratio_bp'', JInt ratio), (''reserve_ratio_bp'', JInt (10000 * reserves div max 1 deposits)),
          (''ldr_bp'', JInt (10000 * total_loans div max 1 deposits)), (''npl_bp'', JInt (10000 * npl div max 1 total_loans))]
          None [b]) (\<lambda>ev.
      m_bind (m_extend [
        m_when frozen (m_bind (e_emit E 8051 [(''bank_id'', JStr b), (''capital_ratio_bp'', JInt ratio),
          (''threshold_bp'', JInt (ee_capital_ratio_min E)), (''new_lending_frozen'', JBool True)] None [b]) (\<lambda>ev. m_return [ev])),
        m_when (capital < 0) (resolve_failure E b tick)]) (\<lambda>evs. m_return (ev # evs))))))))"

definition settle_banks :: "'l econ_env \<Rightarrow> int \<Rightarrow> ('l, evt list) em" where
  "settle_banks E tick =
     m_bind (m_read active_banks) (\<lambda>commercial.
     m_bind (e_required commercial) (\<lambda>required.
     m_bind (e_gaps commercial required) (\<lambda>gaps.
     let shorts = by_size (map (\<lambda>(i, x). (i, - x)) (filter (\<lambda>(i, x). x < 0) gaps)) in
     m_extend [m_for (\<lambda>(i, _). fund_shortfall E tick commercial required i) shorts,
               m_for (report_bank E tick) (sort (map bk_id commercial))])))"

end
