(* ===== verification/Banking.thy ===== *)
theory Banking
  imports Central
begin

text \<open>
  \<open>polis/economy/banking.py\<close>: the working-capital loans of firms, the interest on deposits, the queue
  of withdrawals, and \<open>BankingEngine.step\<close>, which runs credit, the treasury and the central bank in the
  code's order. The answers of the language model are a function of the environment of
  \<open>mechanical_credit\<close>, absent when there is no router; a day has a positive number of ticks.
\<close>

section \<open>Working capital\<close>

type_synonym underwriter = "loan_request \<Rightarrow> borrower \<Rightarrow> loan_decision \<Rightarrow> int \<Rightarrow> llm_answer"

definition working_capital :: "'l econ_env \<Rightarrow> firm_state \<Rightarrow> string \<Rightarrow> loan_request" where
  "working_capital E f lender =
     (let x = max 100000 (ee_median_wage E * max 1 (fm_target_headcount f) div 24 div 2) in
      \<lparr>lq_borrower = fm_id f, lq_lender = lender, lq_principal = x, lq_purpose = ''corporate'',
       lq_term = 360 * ee_ticks_per_day E,
       lq_collateral = [(''kind'', JStr ''firm_capital''), (''firm_id'', JStr (fm_id f))],
       lq_collateral_value = max x (fm_capital f)\<rparr>)"

definition parts_json :: "score_parts \<Rightarrow> json" where
  "parts_json s = JObj [(''income_stability'', JInt (sc_income s)), (''dti'', JInt (sc_dti s)), (''history'', JInt (sc_history s)),
     (''leverage'', JInt (sc_leverage s)), (''coverage'', JInt (sc_coverage s))]"

definition upd_application :: "string \<Rightarrow> (loan_application \<Rightarrow> loan_application) \<Rightarrow> ('l, unit) em" where
  "upd_application i f = m_modify (\<lambda>w. case dget (ew_applications w) i of None \<Rightarrow> w
     | Some a \<Rightarrow> w\<lparr>ew_applications := dset i (f a) (ew_applications w)\<rparr>)"

definition take_decision :: "'l econ_env \<Rightarrow> underwriter option \<Rightarrow> loan_request \<Rightarrow> borrower \<Rightarrow> bank_state \<Rightarrow> ('l, loan_decision) em" where
  "take_decision E llm q b bank =
     (if ee_llm_underwriting E then
        (case llm of None \<Rightarrow> m_raise (EcRuntime ''LLM underwriting requires an LLMRouter'')
         | Some ask \<Rightarrow> m_bind (decide E q b bank) (\<lambda>d. m_bind (m_read ew_policy_rate) (\<lambda>policy.
             m_return (underwrite E q b d policy (ask q b d policy)))))
      else decide E q b bank)"

definition apply_for_loan :: "'l econ_env \<Rightarrow> underwriter option \<Rightarrow> int \<Rightarrow> loan_request \<Rightarrow> ('l, evt list) em" where
  \<comment> \<open>the application of a firm, the decision of the bank and the origination of the loan\<close>
  "apply_for_loan E llm tick q =
     m_bind (m_read (\<lambda>w. int (length (ew_applications w)))) (\<lambda>k.
     m_bind (e_mint ''lnapp'' tick k) (\<lambda>i.
     m_then (m_modify (\<lambda>w. w\<lparr>ew_applications := dset i \<lparr>la_id = i, la_borrower = lq_borrower q, la_lender = lq_lender q,
         la_requested = lq_principal q, la_purpose = lq_purpose q, la_term = lq_term q, la_collateral = lq_collateral q,
         la_submitted = tick, la_status = ''submitted'', la_score = None, la_offered = 0, la_offered_rate = 0,
         la_reasons = []\<rparr> (ew_applications w)\<rparr>))
     (m_bind (e_emit E 8011 [(''application_id'', JStr i), (''borrower_id'', JStr (lq_borrower q)),
         (''lender_id'', JStr (lq_lender q)), (''requested_cents'', JInt (lq_principal q)), (''purpose'', JStr (lq_purpose q)),
         (''term_ticks'', JInt (lq_term q)), (''collateral'', JObj (lq_collateral q))]
         (Some (lq_borrower q)) [lq_lender q]) (\<lambda>ev1.
      m_bind (m_read (borrower_state E (lq_borrower q))) (\<lambda>b.
      m_bind (e_bank (lq_lender q)) (\<lambda>bank.
      m_bind (take_decision E llm q b bank) (\<lambda>d.
      m_then (upd_application i (\<lambda>a. a\<lparr>la_status := (if ld_approved d then ''approved'' else ''denied''),
          la_score := Some (ld_score d), la_offered := ld_offered d, la_offered_rate := ld_rate d, la_reasons := ld_reasons d\<rparr>))
      (m_bind (e_emit E 8012 [(''application_id'', JStr i), (''approved'', JBool (ld_approved d)),
          (''credit_score_bp'', JInt (ld_score d)), (''score_components'', parts_json (ld_components d)),
          (''offered_rate_bp'', JInt (ld_rate d)), (''offered_cents'', JInt (ld_offered d)),
          (''reason_codes'', JArr (map JStr (ld_reasons d))), (''llm_call_id'', jopt JStr (ld_llm_call d))]
          (Some (lq_lender q)) [lq_borrower q]) (\<lambda>ev2.
       m_bind (m_when (ld_approved d) (originate E q d tick)) (\<lambda>evs. m_return (ev1 # ev2 # evs)))))))))))"

definition firm_credit :: "'l econ_env \<Rightarrow> underwriter option \<Rightarrow> int \<Rightarrow> string \<Rightarrow> ('l, evt list) em" where
  "firm_credit E llm tick i =
     m_bind (m_read (\<lambda>w. dget (ew_firms w) i)) (\<lambda>found.
     case found of None \<Rightarrow> m_raise (EcKey i) | Some f \<Rightarrow>
     m_bind (m_read (\<lambda>w. list_ex (\<lambda>n. ln_borrower n = fm_id f \<and> live_status (ln_status n)) (dvals (ew_loans w)))) (\<lambda>indebted.
     if fm_status f \<noteq> ''active'' \<or> indebted then m_return []
     else
     m_bind (e_res (bank_of (fm_account f))) (\<lambda>lender.
     case lender of None \<Rightarrow> m_return []
     | Some b \<Rightarrow> m_bind (m_read (\<lambda>w. dget (ew_banks w) b)) (\<lambda>known.
         if known = None then m_return [] else apply_for_loan E llm tick (working_capital E f b)))))"

definition mechanical_credit :: "'l econ_env \<Rightarrow> underwriter option \<Rightarrow> int \<Rightarrow> ('l, evt list) em" where
  "mechanical_credit E llm tick =
     (if tick mod (90 * ee_ticks_per_day E) \<noteq> 1 then m_return []
      else m_bind (m_read (\<lambda>w. sort (dkeys (ew_firms w)))) (m_for (firm_credit E llm tick)))"

section \<open>Interest on deposits\<close>

definition deposit_credits :: "'l econ_env \<Rightarrow> string \<Rightarrow> ledger \<Rightarrow> (string \<times> int) list" where
  "deposit_credits E b l = filter (\<lambda>(v, x). x \<noteq> 0)
     (map (\<lambda>a. (acc_id a, acc_balance a * ee_deposit_rate E div 10000 div 12))
       (filter (\<lambda>a. acc_code a = Dep \<and> acc_bank a = Some b \<and> 0 < acc_balance a) (accounts l)))"

definition credit_deposits :: "'l econ_env \<Rightarrow> int \<Rightarrow> string \<Rightarrow> ('l, evt list) em" where
  "credit_deposits E tick b =
     m_bind (e_bank b) (\<lambda>bank.
     if bk_central bank \<or> bk_status bank \<noteq> ''active'' then m_return []
     else
     m_bind (e_ledger (deposit_credits E b)) (\<lambda>credits.
     let tot = sum_list (map snd credits) in
     if tot \<le> 0 then m_return []
     else
     m_bind (e_next_txn E tick) (\<lambda>expected.
     m_bind (e_emit E 8021 [(''bank_id'', JStr b), (''total_cents'', JInt tot), (''accounts_n'', JInt (int (length credits))),
         (''rate_bp'', JInt (ee_deposit_rate E)), (''txn_id'', JStr (ee_uuid_text E expected))] (Some b) []) (\<lambda>ev.
     m_then (post_expected E (map (\<lambda>(v, x). mk_leg v 1 x ''interest'') credits
         @ [mk_leg (bk_liability bank) (-1) tot ''interest'']) tick ev expected ''deposit-interest transaction ordinal diverged'')
     (m_return [ev])))))"

definition pay_deposit_interest :: "'l econ_env \<Rightarrow> int \<Rightarrow> ('l, evt list) em" where
  "pay_deposit_interest E tick =
     (if tick mod (30 * ee_ticks_per_day E) \<noteq> 28 * ee_ticks_per_day E then m_return []
      else m_bind (m_read (\<lambda>w. sort (dkeys (ew_banks w)))) (m_for (credit_deposits E tick)))"

section \<open>Withdrawals\<close>

record withdrawal =
  wr_owner :: string
  wr_bank :: string
  wr_cents :: int

definition serve_withdrawal :: "'l econ_env \<Rightarrow> int \<Rightarrow> bank_state \<Rightarrow> nat \<times> withdrawal \<Rightarrow> ('l, (evt \<times> int option) list) em" where
  \<comment> \<open>the event of one request, with the cents served or nothing when it is refused\<close>
  "serve_withdrawal E tick bank = (\<lambda>(position, r).
     m_bind (e_ledger (\<lambda>l. find (\<lambda>v. bank_part v = Some (bk_id bank)) (codes_of l (wr_owner r) Dep))) (\<lambda>deposit.
     m_bind (e_balance (bk_reserve bank)) (\<lambda>reserves.
     let available = max 0 reserves in
     m_bind (case deposit of None \<Rightarrow> m_return 0 | Some v \<Rightarrow> e_balance v) (\<lambda>own.
     case (if min available own < wr_cents r then None else deposit) of
       None \<Rightarrow>
         m_bind (e_emit E 8006 [(''owner_id'', JStr (wr_owner r)), (''bank_id'', JStr (bk_id bank)),
             (''requested_cents'', JInt (wr_cents r)), (''available_cents'', JInt (min available own)),
             (''queue_position'', JInt (int position))] (Some (wr_owner r)) [bk_id bank]) (\<lambda>ev. m_return [(ev, None)])
     | Some v \<Rightarrow>
         m_bind (m_read (owner_kind (wr_owner r))) (\<lambda>ty.
         m_bind (cash_account (wr_owner r) ty tick) (\<lambda>cash.
         m_bind (e_next_txn E tick) (\<lambda>expected.
         m_bind (e_emit E 8005 [(''owner_id'', JStr (wr_owner r)), (''bank_id'', JStr (bk_id bank)), (''cents'', JInt (wr_cents r)),
             (''txn_id'', JStr (ee_uuid_text E expected))] (Some (wr_owner r)) [bk_id bank]) (\<lambda>ev.
         m_bind (e_post E (cash_legs bank v cash (wr_cents r)) tick ev) (\<lambda>_.
         m_return [(ev, Some (wr_cents r))])))))))))"

definition withdrawal_queue :: "'l econ_env \<Rightarrow> int \<Rightarrow> string \<Rightarrow> withdrawal list \<Rightarrow> ('l, withdrawal list) em" where
  \<comment> \<open>sorted by amount and owner, then shuffled\<close>
  "withdrawal_queue E tick b rows w =
     (let (g, reg) = rng_get (ee_digest E) ''banking.queue'' b (Some tick) (ew_rng w)
      in case shuffle (ee_digest E) (sort_key (\<lambda>r. (wr_cents r, wr_owner r)) rows) g of
           Inl e \<Rightarrow> Inl (EcRng e) | Inr (rs, _) \<Rightarrow> Inr (rs, w\<lparr>ew_rng := reg\<rparr>))"

definition run_queue :: "'l econ_env \<Rightarrow> int \<Rightarrow> withdrawal list \<Rightarrow> string \<Rightarrow> ('l, evt list) em" where
  "run_queue E tick requests b =
     m_bind (e_bank b) (\<lambda>bank.
     m_bind (e_balance (bk_liability bank)) (\<lambda>before.
     m_bind (withdrawal_queue E tick b (filter (\<lambda>r. wr_bank r = b) requests)) (\<lambda>queue.
     m_bind (m_for (serve_withdrawal E tick bank) (enumerate 1 queue)) (\<lambda>outcomes.
     let refused = length (filter (\<lambda>(_, x). x = None) outcomes);
         served = (\<Sum>(_, x)\<leftarrow>outcomes. opt_or x 0) in
     if refused = 0 then m_return (map fst outcomes)
     else
     m_bind (e_balance (bk_liability bank)) (\<lambda>later.
     m_bind (e_emit E 8052 [(''bank_id'', JStr b), (''requested_cents'', JInt (\<Sum>r\<leftarrow>queue. wr_cents r)),
         (''served_cents'', JInt served), (''refused_n'', JInt (int refused)), (''deposits_before_cents'', JInt (- before)),
         (''deposits_after_cents'', JInt (- later))] None [b]) (\<lambda>ev.
     m_return (map fst outcomes @ [ev])))))))"

definition process_withdrawals :: "'l econ_env \<Rightarrow> int \<Rightarrow> withdrawal list \<Rightarrow> ('l, evt list) em" where
  "process_withdrawals E tick requests = m_for (run_queue E tick requests) (sort (remdups (map wr_bank requests)))"

section \<open>The step\<close>

definition banking_step :: "'l econ_env \<Rightarrow> underwriter option \<Rightarrow> int \<Rightarrow> ('l, evt list) em" where
  \<comment> \<open>\<open>BankingEngine.step\<close>\<close>
  "banking_step E llm tick =
     m_then (m_modify (apply_pending_policy tick)) (m_extend [
       mechanical_credit E llm tick, accrue_interest E tick, amortise E tick, pay_deposit_interest E tick,
       write_off_due E tick, fiscal_step E tick, settle_banks E tick, set_policy_rate E tick])"

end
