(* ===== verification/Bank_Keeps.thy ===== *)
theory Bank_Keeps
  imports Loan_Life Banking
begin

text \<open>
  The treasury, the central bank and the banking engine keep the loan book. Most of their postings
  never touch an account of a loan; those that do, the loans between banks, the arrears and the sale
  of the loans of a failed bank, are shown with the loan they book.
\<close>

section \<open>Rules\<close>

definition yields :: "('w \<Rightarrow> bool) \<Rightarrow> ('e, 'w, 'a) prog \<Rightarrow> ('a \<Rightarrow> bool) \<Rightarrow> bool" where
  \<comment> \<open>the invariant is kept and the result has a property\<close>
  "yields P m Q \<longleftrightarrow> triple P m (\<lambda>x w. P w \<and> Q x)"

lemma yieldsI: "(\<And>w x w'. P w \<Longrightarrow> m w = Inr (x, w') \<Longrightarrow> P w' \<and> Q x) \<Longrightarrow> yields P m Q"
  by (simp add: yields_def tripleI)

lemma yieldsD: "yields P m Q \<Longrightarrow> P w \<Longrightarrow> m w = Inr (x, w') \<Longrightarrow> P w' \<and> Q x"
  unfolding yields_def by (drule tripleD) auto

lemma keeps_bind_yields: "yields P m Q \<Longrightarrow> (\<And>x. Q x \<Longrightarrow> keeps P (f x)) \<Longrightarrow> keeps P (m_bind m f)"
  by (rule keepsI) (auto simp: m_bind_Inr_iff dest!: yieldsD dest: keepsD)

lemma yields_bind: "yields P m Q \<Longrightarrow> (\<And>x. Q x \<Longrightarrow> yields P (f x) R) \<Longrightarrow> yields P (m_bind m f) R"
  by (rule yieldsI) (auto simp: m_bind_Inr_iff dest!: yieldsD)

lemma yields_return: "Q x \<Longrightarrow> yields P (m_return x) Q"
  by (auto intro!: yieldsI simp: prog_Inr_iff)

lemma yields_for: "(\<And>x. x \<in> set xs \<Longrightarrow> yields P (f x) (list_all Q)) \<Longrightarrow> yields P (m_for f xs) (list_all Q)"
proof (induction xs)
  case (Cons x xs)
  have "yields P (m_for f xs) (list_all Q)" by (rule Cons.IH) (use Cons.prems in simp)
  then show ?case unfolding m_for.simps
    by (intro yields_bind[OF Cons.prems] yields_bind yields_return) auto
qed (simp add: yields_return)

definition free_legs :: "leg list \<Rightarrow> bool" where
  \<comment> \<open>no leg on an account that carries a loan\<close>
  "free_legs legs \<longleftrightarrow> list_all (\<lambda>g. \<not> debt_code (leg_account g)) legs"

lemma free_legs_simps [simp]:
  "free_legs []" "free_legs (g # gs) \<longleftrightarrow> \<not> debt_code (leg_account g) \<and> free_legs gs"
  "free_legs (gs @ hs) \<longleftrightarrow> free_legs gs \<and> free_legs hs"
  by (simp_all add: free_legs_def)

lemma free_legs_net: "free_legs legs \<Longrightarrow> debt_code v \<Longrightarrow> leg_net legs v = 0"
  by (rule leg_net_absent) (auto simp: free_legs_def list_all_iff)

lemma free_code: "code_at v = Some c \<Longrightarrow> c \<notin> {Lnr, Lnp, Txr} \<Longrightarrow> \<not> debt_code v"
  by (auto simp: debt_code_def)

named_theorems book_rules \<open>methods that keep the loan book\<close>

lemma e_post_neg_InrD:
  "e_post_neg E legs tick ev neg w = Inr (txn, w') \<Longrightarrow>
     \<exists>l. post_transaction (ee_uuid5 E) legs tick ev neg (ew_ledger w) = Inr (txn, l) \<and> w' = w\<lparr>ew_ledger := l\<rparr>"
  by (auto simp: e_post_neg_def split: sum.splits)

lemma e_issue_InrD:
  "e_issue E legs tick ev w = Inr (txn, w') \<Longrightarrow>
     \<exists>l. post_checked (ee_uuid5 E) legs tick ev [] True (ew_ledger w) = Inr (txn, l) \<and> w' = w\<lparr>ew_ledger := l\<rparr>"
  by (auto simp: e_issue_def issue_base_money_def split: sum.splits if_splits)

lemma book_post_free:
  assumes "loan_book w" "free_legs legs" "post_checked u legs tick cause neg iss (ew_ledger w) = Inr (txn, l)"
  shows "loan_book (w\<lparr>ew_ledger := l\<rparr>)"
  by (rule book_post[OF assms(1,3)]) (simp_all add: free_legs_net[OF assms(2)] steady_def)

lemma keeps_post_free [book_rules]:
  assumes "free_legs legs"
  shows "keeps loan_book (e_post E legs tick ev)" "keeps loan_book (e_post_neg E legs tick ev neg)"
    "keeps loan_book (e_issue E legs tick ev)" "keeps loan_book (post_expected E legs tick ev expected what)"
  using assms
  by (auto intro!: keepsI dest!: e_post_InrD e_post_neg_InrD e_issue_InrD post_expected_InrD
      simp: post_is_checked intro: book_post_free)

lemma keeps_modify_same:
  fixes f :: "'l econ_world \<Rightarrow> 'l econ_world"
  assumes "\<And>w. ew_ledger (f w) = ew_ledger w \<and> ew_loans (f w) = ew_loans w \<and> steady w (f w)"
  shows "keeps loan_book (m_modify f)"
proof (rule keeps_modify)
  fix w :: "'l econ_world" assume w: "loan_book w"
  show "loan_book (f w)" by (rule book_frame[OF w]) (use assms[of w] w in \<open>auto simp: loan_book_def\<close>)
qed

lemma keeps_expect [book_rules]: "keeps P (expect a b c)"
  by (simp add: expect_def keeps_rules)

declare keeps_e [book_rules] keeps_rules [book_rules] keeps_modify_same [book_rules]

section \<open>What is known of results\<close>

definition bank_ok :: "bank_state \<Rightarrow> bool" where
  "bank_ok b \<longleftrightarrow> code_at (bk_liability b) = Some Dpl \<and> code_at (bk_reserve b) = Some Res"

lemma bank_ok_free: "bank_ok b \<Longrightarrow> \<not> debt_code (bk_liability b)" "bank_ok b \<Longrightarrow> \<not> debt_code (bk_reserve b)"
  by (simp_all add: bank_ok_def debt_code_simps)

lemma book_banks: "loan_book w \<Longrightarrow> dget (ew_banks w) i = Some b \<Longrightarrow> bank_ok b \<and> bk_id b = i"
  by (auto simp: loan_book_def banks_ok_def bank_ok_def)

definition plain_code :: "string \<Rightarrow> bool" where
  \<comment> \<open>an account that carries no loan\<close>
  "plain_code v \<longleftrightarrow> \<not> debt_code v"

lemma codes_of_plain: "v \<in> set (codes_of l ow c) \<Longrightarrow> c \<notin> {Lnr, Lnp, Txr} \<Longrightarrow> plain_code v"
  using codes_of_code[of v l ow c] by (simp add: plain_code_def debt_code_simps)

lemma yields_bank: "yields loan_book (e_bank i) (\<lambda>b. bank_ok b \<and> bk_id b = i)"
  by (rule yieldsI) (auto simp: e_Inr_iff dest: book_banks)

lemma treasury_plain: "treasury_account l = Inr v \<Longrightarrow> plain_code v"
proof -
  assume "treasury_account l = Inr v"
  then have "v \<in> set (filter (\<lambda>v. bank_part v = Some ''bk_cb'') (codes_of l treasury_id Dep))"
    unfolding treasury_account_def by (cases "filter (\<lambda>v. bank_part v = Some ''bk_cb'') (codes_of l treasury_id Dep)") auto
  then show ?thesis by (auto intro: codes_of_plain)
qed

lemma yields_treasury: "yields loan_book e_treasury plain_code"
  by (rule yieldsI) (auto simp: e_treasury_def e_Inr_iff intro: treasury_plain)

lemma owner_deposit_plain: "owner_deposit i l = Some v \<Longrightarrow> plain_code v"
  by (auto simp: owner_deposit_def intro!: codes_of_plain[of v l i Dep] split: list.splits)

lemma yields_owner_deposit: "yields loan_book (e_ledger (owner_deposit i)) (\<lambda>x. \<forall>v. x = Some v \<longrightarrow> plain_code v)"
  by (rule yieldsI) (auto simp: e_Inr_iff intro: owner_deposit_plain sym)

lemma issuance_plain: "first_issuance l = Inr v \<Longrightarrow> plain_code v"
  by (auto simp: first_issuance_def intro!: codes_of_plain[of v l "''bk_cb''" Iss] split: list.splits)

lemma yields_issuance: "yields loan_book (m_bind (e_ledger first_issuance) m_res) plain_code"
  by (rule yieldsI) (auto simp: e_Inr_iff intro: issuance_plain)

lemma open_plain: "e_open c ow ty b r tick w = Inr (v, w') \<Longrightarrow> c \<notin> {Lnr, Lnp, Txr} \<Longrightarrow> plain_code v"
  unfolding plain_code_def by (drule e_open_InrD) (auto dest!: open_InrD(1) code_at_id simp: debt_code_simps)

lemma yields_cash: "yields loan_book (cash_account ow ty tick) plain_code"
proof (rule yieldsI)
  fix w v w' assume w: "loan_book w" and run: "cash_account ow ty tick w = Inr (v, w')"
  show "loan_book w' \<and> plain_code v"
  proof (cases "codes_of (ew_ledger w) ow Cash")
    case Nil
    then have op: "e_open Cash ow ty None None tick w = Inr (v, w')" using run by (simp add: cash_account_def e_Inr_iff)
    show ?thesis using keepsD[OF keeps_e_open w op] open_plain[OF op] by simp
  next
    case (Cons x xs)
    then have "v \<in> set (codes_of (ew_ledger w) ow Cash)" "w' = w" using run by (simp_all add: cash_account_def e_Inr_iff)
    then show ?thesis using w codes_of_plain[of v "ew_ledger w" ow Cash] by simp
  qed
qed

lemma transfer_legs_free:
  assumes "plain_code v" "banks_ok (ew_banks w)"
  shows "government_transfer_legs v x w = Inr legs \<Longrightarrow> free_legs legs" "tax_collection_legs v x w = Inr legs \<Longrightarrow> free_legs legs"
proof -
  have bank: "\<not> debt_code (bk_liability b) \<and> \<not> debt_code (bk_reserve b)" if "dget (ew_banks w) i = Some b" for i b
    using assms(2) that by (auto simp: banks_ok_def debt_code_simps)
  show "free_legs legs" if legs: "government_transfer_legs v x w = Inr legs"
  proof -
    from legs obtain t where t: "treasury_account (ew_ledger w) = Inr t"
      by (auto simp: government_transfer_legs_def res_simps)
    then show ?thesis using legs assms(1) treasury_plain[OF t] bank
      by (auto simp: government_transfer_legs_def plain_code_def split: sum.splits option.splits if_splits)
  qed
  show "free_legs legs" if legs: "tax_collection_legs v x w = Inr legs"
  proof -
    from legs obtain t where t: "treasury_account (ew_ledger w) = Inr t"
      by (auto simp: tax_collection_legs_def res_simps)
    then show ?thesis using legs assms(1) treasury_plain[OF t] bank
      by (auto simp: tax_collection_legs_def plain_code_def split: sum.splits option.splits if_splits)
  qed
qed

lemma yields_transfer_legs:
  assumes "plain_code v"
  shows "yields loan_book (e_legs (government_transfer_legs v x)) free_legs" "yields loan_book (e_legs (tax_collection_legs v x)) free_legs"
  by (rule yieldsI; auto simp: e_legs_def e_Inr_iff loan_book_def dest: transfer_legs_free[OF assms])+

section \<open>The treasury\<close>

lemma keeps_upd_treasury [book_rules]: "keeps loan_book (upd_treasury f)"
  unfolding upd_treasury_def by (rule keeps_modify_same) (simp add: steady_def)

lemma keeps_upd_assessment [book_rules]: "keeps loan_book (upd_assessment i f)"
  unfolding upd_assessment_def by (rule keeps_modify_same) (simp add: steady_def split: option.split)

lemma keeps_upd_bond [book_rules]: "keeps loan_book (upd_bond s f)"
  unfolding upd_bond_def by (rule keeps_modify_same) (simp add: steady_def split: option.split)

lemma keeps_e_assessment [book_rules]: "keeps loan_book (e_assessment i)"
  unfolding e_assessment_def by (intro book_rules)

lemma keeps_e_bond [book_rules]: "keeps loan_book (e_bond s)"
  unfolding e_bond_def by (intro book_rules)

lemma keeps_assess_taxes: "keeps loan_book (assess_taxes E tick)"
  unfolding assess_taxes_def assess_firm_def Let_def by (intro book_rules) (simp add: steady_def)

lemma keeps_collect_taxes: "keeps loan_book (collect_taxes E tick)"
proof -
  have "keeps loan_book (collect_tax E tick i)" for i
    unfolding collect_tax_def Let_def
    by (intro book_rules keeps_bind_yields[OF yields_owner_deposit] keeps_bind_yields[OF yields_transfer_legs(2)]) simp
  then show ?thesis unfolding collect_taxes_def by (intro book_rules)
qed

lemma keeps_both:
  "(\<And>a b. x = Some a \<Longrightarrow> y = Some b \<Longrightarrow> keeps P (f a b)) \<Longrightarrow> keeps P n
    \<Longrightarrow> keeps P (case (x, y) of (Some a, Some b) \<Rightarrow> f a b | _ \<Rightarrow> n)"
  by (cases x; cases y) auto

lemma keeps_pay_transfers: "keeps loan_book (pay_transfers E tick)"
proof -
  have "keeps loan_book (pay_benefit E tick source i)" for source i
    unfolding pay_benefit_def Let_def
    by (intro book_rules keeps_bind_yields[OF yields_owner_deposit] keeps_both keeps_bind_yields[OF yields_transfer_legs(1)])
       (simp_all add: add_income_def Let_def steady_def)
  then show ?thesis unfolding pay_transfers_def e_treasury_def by (intro book_rules)
qed

lemma keeps_coupons: "keeps loan_book (pay_coupons_and_maturities E tick)"
proof -
  have "keeps loan_book (pay_coupon E tick t s b bank)" if "plain_code t" "bank_ok bank" for t s b bank
    unfolding pay_coupon_def Let_def using that by (intro book_rules) (simp_all add: plain_code_def bank_ok_free)
  moreover have "keeps loan_book (redeem_bond E tick t s b bank)" if "plain_code t" "bank_ok bank" for t s b bank
    unfolding redeem_bond_def Let_def using that
    by (intro book_rules) (simp_all add: plain_code_def bank_ok_free steady_def)
  ultimately show ?thesis
    unfolding pay_coupons_and_maturities_def
    by (intro book_rules keeps_bind_yields[OF yields_treasury] keeps_bind_yields[OF yields_bank]) auto
qed

lemma issue_tranches_steady:
  "ew_ledger (issue_tranches s h c t m xs w) = ew_ledger w \<and> ew_loans (issue_tranches s h c t m xs w) = ew_loans w
    \<and> steady w (issue_tranches s h c t m xs w)"
proof -
  have "ew_ledger (fold (\<lambda>(k, (i, cents)) w. if cents \<le> 0 then w else f k i cents w) ys w) = ew_ledger w
      \<and> ew_loans (fold (\<lambda>(k, (i, cents)) w. if cents \<le> 0 then w else f k i cents w) ys w) = ew_loans w
      \<and> steady w (fold (\<lambda>(k, (i, cents)) w. if cents \<le> 0 then w else f k i cents w) ys w)"
    if "\<And>k i cents w. ew_ledger (f k i cents w) = ew_ledger w \<and> ew_loans (f k i cents w) = ew_loans w \<and> steady w (f k i cents w)"
    for f and ys :: "(nat \<times> string \<times> int) list"
  proof (induction ys arbitrary: w)
    case (Cons y ys)
    obtain k i cents where y: "y = (k, i, cents)" by (cases y)
    show ?case using Cons.IH[of "f k i cents w"] Cons.IH[of w] that[of k i cents w] by (simp add: y steady_def)
  qed (simp add: steady_def)
  then show ?thesis unfolding issue_tranches_def Let_def by (auto simp: steady_def)
qed

lemma keeps_capacities: "keeps loan_book e_capacities"
  unfolding e_capacities_def by (intro book_rules)

lemma yields_auction_legs:
  assumes "plain_code t"
  shows "yields loan_book (auction_legs t face xs) free_legs"
proof -
  have row: "yields loan_book (case p of (i, cents) \<Rightarrow> if cents = 0 then m_return [] else m_bind (e_bank i) (\<lambda>b.
        m_return [mk_leg (bk_reserve b) (-1) cents ''transfer''])) (list_all (\<lambda>g. \<not> debt_code (leg_account g)))" for p
    by (cases p) (auto intro!: yields_return yields_bind[OF yields_bank] simp: bank_ok_free)
  show ?thesis unfolding auction_legs_def
    by (intro yields_bind[OF yields_for[OF row]] yields_return)
       (use assms in \<open>auto simp: plain_code_def free_legs_def\<close>)
qed

lemma keeps_finance_deficit: "keeps loan_book (finance_deficit E tick)"
proof -
  have "keeps loan_book (run_auction E tick t face auction symbol days xs)" if "plain_code t" for t face auction symbol days xs
    unfolding run_auction_def Let_def
    by (intro book_rules keeps_bind_yields[OF yields_auction_legs[OF that]]) (simp_all add: issue_tranches_steady)
  then show ?thesis unfolding finance_deficit_def Let_def
    by (intro book_rules keeps_bind_yields[OF yields_treasury] keeps_capacities)
qed

lemma keeps_close_budget: "keeps loan_book (close_budget E tick)"
  unfolding close_budget_def by (intro book_rules)

section \<open>Arrears\<close>

definition has_account :: "string \<Rightarrow> 'l econ_world \<Rightarrow> bool" where
  "has_account v w \<longleftrightarrow> v \<in> set (dkeys (led_accounts (ew_ledger w)))"

lemma post_keys: "post_checked u legs tick cause neg iss l = Inr (txn, l') \<Longrightarrow> set (dkeys (led_accounts l')) = set (dkeys (led_accounts l))"
  by (simp only: post_checked_InrD(8))

lemma bumped_accounts [simp]: "led_accounts (bumped E tick w) = led_accounts (ew_ledger w)"
  by (simp add: next_txn_id_def Let_def)

lemma accounts_of_known:
  assumes "loan_book w" "v \<in> set (accounts_of (ew_ledger w) ow)"
  shows "v \<in> set (dkeys (led_accounts (ew_ledger w)))"
proof -
  from assms(2) obtain k a where "(k, a) \<in> set (led_accounts (ew_ledger w))" "v = acc_id a"
    by (auto simp: accounts_of_def)
  moreover have "account_inv (ew_ledger w) k a"
    by (rule ledger_inv_memberD[OF _ calculation(1)]) (use assms(1) in \<open>simp add: loan_book_def\<close>)
  ultimately show ?thesis by (force simp: account_inv_def)
qed

lemma upd_assessment_InrD: "upd_assessment i f w = Inr (u, w') \<Longrightarrow> \<exists>x. w' = w\<lparr>ew_assessments := x\<rparr>"
proof -
  assume "upd_assessment i f w = Inr (u, w')"
  then have "w' = w\<lparr>ew_assessments := ew_assessments w'\<rparr>"
    by (cases "dget (ew_assessments w) i") (auto simp: upd_assessment_def m_basic_Inr_iff)
  then show ?thesis by (rule exI)
qed

lemma book_arrears_InrD:
  assumes "book_arrears E tick rec j a x i pay w = Inr (evs, w')"
  obtains txn ev days where
    "post_transaction (ee_uuid5 E) [mk_leg rec 1 x ''tax'', mk_leg pay (-1) x ''tax''] tick (ev :: evt) [] (bumped E tick w) = Inr (txn, ew_ledger w')"
    "ew_loans w' = dset i (arrears_loan E a tick i x days rec pay) (ew_loans w)" "steady w w'"
  using assms unfolding book_arrears_def
  by (cases "dget (ee_max_term_days E) ''tax_arrears''")
     (auto simp: e_next_eq e_Inr_iff steady_def dest!: e_emit_InrD post_expected_InrD upd_assessment_InrD)

lemma book_book_arrears:
  assumes E: "credit_env E" and w: "loan_book w" and rec: "has_account rec w" "code_at rec = Some Txr"
    and pay: "has_account pay w" "code_at pay = Some Lnp" and x: "0 < x"
    and i: "mint ''txln'' tick (int (length (ew_loans w))) = Inr i"
    and run: "book_arrears E tick rec j a x i pay w = Inr (evs, w')"
  shows "loan_book w' \<and> has_account rec w'"
  using run
proof (cases rule: book_arrears_InrD)
  case (1 txn ev days)
  let ?m = "arrears_loan E a tick i x days rec pay" and ?w = "w\<lparr>ew_ledger := bumped E tick w\<rparr>"
  have "loan_book w'"
  proof (rule loan_added[OF bumped_book(1)[OF w, of E tick], of "''txln''" ?m "int (length (ew_loans w))" i])
    show "post_checked (ee_uuid5 E) [mk_leg rec 1 x ''tax'', mk_leg pay (-1) x ''tax''] tick ev [] False (ew_ledger ?w) = Inr (txn, ew_ledger w')"
      using 1(1) by (simp add: post_is_checked)
    show "leg_net [mk_leg rec 1 x ''tax'', mk_leg pay (-1) x ''tax''] v = carried v ?m" for v
      by (simp add: carried_def arrears_loan_def)
    show "loan_ok i ?m" using x E by (simp add: loan_ok_def arrears_loan_def interest_owed_def credit_env_def)
    show "booked (ew_ledger ?w) ?m"
      using rec pay by (simp add: booked_def arrears_loan_def has_account_def del: set_map)
  qed (use i 1 in \<open>simp_all add: arrears_loan_def steady_def\<close>)
  moreover have "has_account rec w'"
    using rec(1) post_keys[OF 1(1)[unfolded post_is_checked]] by (simp add: has_account_def del: set_map)
  ultimately show ?thesis by simp
qed

lemma convert_one_InrD:
  assumes "convert_one E tick rec j w = Inr (evs, w')"
  obtains "w' = w" | f where "upd_assessment j f w = Inr ((), w')"
  | a i ty pay w1 where "0 < ta_assessed a - ta_paid a" "mint ''txln'' tick (int (length (ew_loans w))) = Inr i"
      "e_open Lnp (ta_taxpayer a) ty None (Some i) tick w = Inr (pay, w1)"
      "book_arrears E tick rec j a (ta_assessed a - ta_paid a) i pay w1 = Inr (evs, w')"
proof -
  from assms obtain a where a: "e_assessment j w = Inr (a, w)"
    by (auto simp: convert_one_def m_bind_Inr_iff e_assessment_def m_basic_Inr_iff split: option.splits)
  show thesis
  proof (cases "ta_status a \<noteq> ''assessed'' \<or> tick < ta_due a")
    case True
    then have "w' = w" using assms a by (auto simp: convert_one_def m_bind_def Let_def m_return_def)
    then show thesis by (rule that(1))
  next
    case False
    show thesis
    proof (cases "ta_assessed a - ta_paid a \<le> 0")
      case True
      then have "m_then (upd_assessment j (\<lambda>a. a\<lparr>ta_status := ''paid''\<rparr>)) (m_return []) w = Inr (evs, w')"
        using assms a False by (auto simp: convert_one_def m_bind_def Let_def)
      then show thesis using that(2) by (auto simp: m_then_Inr_iff m_basic_Inr_iff)
    next
      case pos: False
      then show thesis using that(3)[of a] assms a False
        by (fastforce simp: convert_one_def m_bind_Inr_iff[of "e_assessment j"] e_Inr_iff Let_def)
    qed
  qed
qed

lemma keeps_convert_one:
  assumes E: "credit_env E" and code: "code_at rec = Some Txr"
  shows "keeps (\<lambda>w. loan_book w \<and> has_account rec w) (convert_one E tick rec j)"
proof (rule keepsI)
  fix w evs w' assume w: "loan_book w \<and> has_account rec w" and run: "convert_one E tick rec j w = Inr (evs, w')"
  from run show "loan_book w' \<and> has_account rec w'"
  proof (cases rule: convert_one_InrD)
    case (2 f)
    have "loan_book w'" using keepsD[OF keeps_upd_assessment _ 2] w by simp
    moreover have "has_account rec w'" using 2 w
      by (auto simp: upd_assessment_def m_basic_Inr_iff has_account_def simp del: set_map split: option.splits)
    ultimately show ?thesis by simp
  next
    case (3 a i ty pay w1)
    note r = e_open_reads[OF _ 3(3)]
    have "loan_book w1" "has_account rec w1" "ew_loans w1 = ew_loans w" using r(1) w by (auto simp: reads_ok_def has_account_def)
    moreover have "has_account pay w1" using r(2) w by (simp add: has_account_def)
    ultimately show ?thesis using book_book_arrears[OF E _ _ code _ r(3) 3(1) _ 3(4)] 3(2) w by simp
  qed (use w in simp)
qed

lemma keeps_convert_arrears:
  assumes E: "credit_env E"
  shows "keeps loan_book (convert_arrears E tick)"
proof (rule keepsI)
  fix w evs w' assume w: "loan_book w" and run: "convert_arrears E tick w = Inr (evs, w')"
  then obtain rec w1 where rec: "arrears_receivable tick w = Inr (rec, w1)"
    and loop: "m_for (convert_one E tick rec) (assessment_ids w1) w1 = Inr (evs, w')"
    by (auto simp: convert_arrears_def m_bind_Inr_iff m_basic_Inr_iff)
  have "loan_book w1 \<and> has_account rec w1 \<and> code_at rec = Some Txr"
  proof (cases "codes_of (ew_ledger w) treasury_id Txr")
    case Nil
    then have "e_open Txr treasury_id ''government'' None None tick w = Inr (rec, w1)"
      using rec by (simp add: arrears_receivable_def e_Inr_iff)
    from e_open_reads[OF w this] show ?thesis by (simp add: reads_ok_def has_account_def)
  next
    case (Cons v vs)
    then have "rec = v" "w1 = w" using rec by (simp_all add: arrears_receivable_def e_Inr_iff)
    moreover have "v \<in> set (codes_of (ew_ledger w) treasury_id Txr)" using Cons by simp
    moreover have "v \<in> set (accounts_of (ew_ledger w) treasury_id)" using calculation(3) by (simp add: codes_of_def)
    ultimately show ?thesis using w codes_of_code[of v] accounts_of_known by (simp add: has_account_def)
  qed
  then show "loan_book w'"
    using keepsD[OF keeps_for[OF keeps_convert_one[OF E]] _ loop] by blast
qed

lemma keeps_fiscal_step: "credit_env E \<Longrightarrow> keeps loan_book (fiscal_step E tick)"
  unfolding fiscal_step_def
  by (intro keeps_extend)
     (auto intro: keeps_coupons keeps_assess_taxes keeps_collect_taxes keeps_convert_arrears keeps_pay_transfers
       keeps_finance_deficit keeps_close_budget)

end
