(* ===== verification/Central_Keeps.thy ===== *)
theory Central_Keeps
  imports Bank_Keeps
begin

text \<open>
  The central bank and the banking engine as a whole: loans between banks, the sale and the transfer
  of the loans of a failed bank, and \<open>banking_step\<close>.
\<close>

section \<open>Reading without change\<close>

definition reads :: "('e, 'w, 'a) prog \<Rightarrow> bool" where
  "reads m \<longleftrightarrow> (\<forall>w x w'. m w = Inr (x, w') \<longrightarrow> w' = w)"

lemma readsI: "(\<And>w x w'. m w = Inr (x, w') \<Longrightarrow> w' = w) \<Longrightarrow> reads m"
  by (simp add: reads_def)

lemma readsD: "reads m \<Longrightarrow> m w = Inr (x, w') \<Longrightarrow> w' = w"
  by (simp add: reads_def)

lemma reads_keeps: "reads m \<Longrightarrow> keeps P m"
  by (rule keepsI) (auto dest: readsD)

lemma reads_bind: "reads m \<Longrightarrow> (\<And>x. reads (f x)) \<Longrightarrow> reads (m_bind m f)"
  by (rule readsI) (auto simp: m_bind_Inr_iff dest: readsD)

lemma reads_return: "reads (m_return x)" and reads_read: "reads (m_read g)" and reads_res: "reads (m_res r)"
  by (auto intro!: readsI simp: m_basic_Inr_iff)

lemma reads_for: "(\<And>x. reads (f x)) \<Longrightarrow> reads (m_for f xs)"
  by (induction xs) (simp_all add: reads_bind reads_return)

lemma reads_e: "reads (e_loan i)" "reads (e_bank i)" "reads (e_ledger g)" "reads (e_res r)" "reads (e_balance v)" "reads (e_mint p t k)"
  by (auto intro!: readsI simp: e_Inr_iff)

lemmas reads_rules = reads_bind reads_return reads_read reads_res reads_for reads_e

lemma reads_reserves: "reads (reserves_cents i)" "reads (deposits_cents i)" "reads (e_reserves_of bs)"
  "reads (e_required bs)" "reads (e_gaps bs d)" "reads (best_bank bs w0)"
  unfolding reserves_cents_def deposits_cents_def e_reserves_of_def e_required_def e_gaps_def best_bank_def
  by (auto intro!: reads_rules split: list.split)

lemma best_bank_InrD:
  assumes "best_bank bs w0 w = Inr (b, w')" "loan_book w"
  shows "bank_ok b" "w' = w"
proof -
  show "w' = w" using reads_reserves(6) assms(1) by (rule readsD)
  obtain i where "e_bank i w = Inr (b, w')"
    using assms(1) unfolding best_bank_def by (auto split: list.splits)
  then show "bank_ok b" using assms(2) book_banks by (auto simp: e_Inr_iff)
qed

section \<open>The policy rate\<close>

lemma keeps_pending: "keeps loan_book (m_modify (apply_pending_policy tick))"
  by (rule keeps_modify) (auto simp: apply_pending_policy_def loan_book_def rates_ok_def split: option.splits)

lemma keeps_set_policy_rate:
  assumes "credit_env E"
  shows "keeps loan_book (set_policy_rate E tick)"
proof -
  have target: "0 \<le> fst (policy_rate_target_bp E x g)" for x g
    using assms by (auto simp: policy_rate_target_bp_def credit_env_def Let_def)
  have A: "keeps loan_book (m_modify (\<lambda>w. w\<lparr>ew_pending_rate := Some (tick + 1, r)\<rparr>))" if "0 \<le> r" for r
    by (rule keeps_modify) (use that in \<open>auto simp: loan_book_def rates_ok_def\<close>)
  have B: "0 \<le> a" if "policy_rate_target_bp E x g = (a, b)" for a b x g using target[of x g] that by simp
  show ?thesis unfolding set_policy_rate_def Let_def by (intro keeps_rules keeps_e A B)
qed

section \<open>Loans between banks\<close>

lemma post_amount: "post_checked u legs tick cause neg iss l = Inr (txn, l') \<Longrightarrow> g \<in> set legs \<Longrightarrow> 0 < leg_amount g"
  using post_checked_InrD(4) by (fastforce simp: leg_ok_def)

lemma book_bank_loan:
  assumes w: "loan_book w" and i: "mint p tick (same_tick tick (ew_loans w)) = Inr i" "p \<noteq> ''txln''"
    and rec: "has_account rec w" "code_at rec = Some Lnr" and pay: "has_account pay w" "code_at pay = Some Lnp"
    and post: "post_checked u (free @ [mk_leg rec 1 x r, mk_leg pay (-1) x r]) tick ev neg iss (ew_ledger w) = Inr (txn, l)"
    and free: "free_legs free" and rate: "0 \<le> rate"
    and w': "ew_ledger w' = l" "ew_loans w' = dset i (bank_loan E i lender borrower x rate days tick rec pay) (ew_loans w)" "steady w w'"
  shows "loan_book w'"
proof (rule loan_added[OF w, of p _ "same_tick tick (ew_loans w)" i, OF _ _ post _ _ _ w'])
  let ?m = "bank_loan E i lender borrower x rate days tick rec pay"
  show "mint p (ln_originated ?m) (same_tick tick (ew_loans w)) = Inr i" using i by (simp add: bank_loan_def)
  show "same_tick tick (ew_loans w) = (if p = ''txln'' then int (length (ew_loans w)) else same_tick (ln_originated ?m) (ew_loans w))"
    using i(2) by (simp add: bank_loan_def)
  show "leg_net (free @ [mk_leg rec 1 x r, mk_leg pay (-1) x r]) v = carried v ?m" if "debt_code v" for v
    using free_legs_net[OF free that] by (simp add: leg_net_append carried_def bank_loan_def)
  have "0 < x" using post_amount[OF post, of "mk_leg rec 1 x r"] by simp
  then show "loan_ok i ?m" using rate by (simp add: loan_ok_def bank_loan_def interest_owed_def)
  show "booked (ew_ledger w) ?m" using rec pay by (simp add: booked_def bank_loan_def has_account_def del: set_map)
qed

lemma add_loan_Inr_iff: "add_loan i n w = Inr (u, w') \<longleftrightarrow> w' = w\<lparr>ew_loans := dset i n (ew_loans w)\<rparr>"
  by (auto simp: add_loan_def m_basic_Inr_iff)

lemma expect_Inr_iff: "expect a b c w = Inr (u, w') \<longleftrightarrow> w' = w \<and> c = a"
  by (auto simp: expect_def m_basic_Inr_iff)

lemma book_lend_reserves:
  assumes E: "credit_env E" and w: "loan_book w" and i: "mint ''ib'' tick (same_tick tick (ew_loans w)) = Inr i"
    and rec: "has_account rec w" "code_at rec = Some Lnr" and pay: "has_account pay w" "code_at pay = Some Lnp"
    and run: "lend_reserves E lender borrower x tick i rec pay w = Inr (evs, w')"
  shows "loan_book w'"
proof -
  from run obtain lg lb bb l txn ev where banks: "dget (ew_banks w) lender = Some lb" "dget (ew_banks w) borrower = Some bb"
    and post: "post_transaction (ee_uuid5 E) [mk_leg (bk_reserve lb) (-1) x ''loan'', mk_leg (bk_reserve bb) 1 x ''loan'',
         mk_leg rec 1 x ''loan'', mk_leg pay (-1) x ''loan''] tick (ev :: evt) [] (ew_ledger w) = Inr (txn, l)"
    and w': "w' = w\<lparr>ew_log := lg, ew_ledger := l, ew_loans := dset i (bank_loan E i lender borrower x
      (ew_policy_rate w + ee_interbank_spread E) (ee_ticks_per_day E) tick rec pay) (ew_loans w)\<rparr>"
    unfolding lend_reserves_def
    by (auto simp: e_Inr_iff add_loan_Inr_iff Let_def dest!: e_emit_InrD e_post_InrD)
  have "free_legs [mk_leg (bk_reserve lb) (-1) x ''loan'', mk_leg (bk_reserve bb) 1 x ''loan'']"
    using book_banks[OF w] banks by (simp add: bank_ok_free)
  moreover have "0 \<le> ew_policy_rate w + ee_interbank_spread E" using w E by (simp add: loan_book_def rates_ok_def credit_env_def)
  ultimately show ?thesis
    by (intro book_bank_loan[OF w i _ rec pay, of "ee_uuid5 E" "[mk_leg (bk_reserve lb) (-1) x ''loan'', mk_leg (bk_reserve bb) 1 x ''loan'']" x
        "''loan''" ev "[]" False txn l]) (use post in \<open>simp_all add: post_is_checked w' steady_def\<close>)
qed

lemma open_two:
  assumes w: "loan_book w" and rec: "e_open Lnr lender ty1 None (Some i) tick w = Inr (rec, w1)"
    and pay: "e_open Lnp borrower ty2 None (Some i) tick w1 = Inr (pay, w2)"
  shows "loan_book w2 \<and> ew_loans w2 = ew_loans w \<and> has_account rec w2 \<and> has_account pay w2
    \<and> code_at rec = Some Lnr \<and> code_at pay = Some Lnp"
proof -
  note r1 = e_open_reads[OF w rec]
  then have "loan_book w1" by (simp add: reads_ok_def)
  note r2 = e_open_reads[OF this pay]
  have "has_account rec w2" using r1(2) r2(1) unfolding reads_ok_def has_account_def by (elim conjE) (rule subsetD)
  then show ?thesis using r1 r2 by (simp add: reads_ok_def has_account_def del: set_map)
qed

lemma keeps_originate_interbank:
  assumes E: "credit_env E"
  shows "keeps loan_book (originate_interbank E lender borrower x tick)"
proof (rule keepsI)
  fix w evs w' assume w: "loan_book w" and run: "originate_interbank E lender borrower x tick w = Inr (evs, w')"
  then obtain i rec pay w1 w2 where i: "mint ''ib'' tick (same_tick tick (ew_loans w)) = Inr i"
    and op: "e_open Lnr lender ''bank'' None (Some i) tick w = Inr (rec, w1)" "e_open Lnp borrower ''bank'' None (Some i) tick w1 = Inr (pay, w2)"
    and lend: "lend_reserves E lender borrower x tick i rec pay w2 = Inr (evs, w')"
    by (auto simp: originate_interbank_def same_tick_def m_bind_Inr_iff m_basic_Inr_iff e_mint_Inr_iff)
  show "loan_book w'" using open_two[OF w op] book_lend_reserves[OF E _ _ _ _ _ _ lend] i by simp
qed

lemma book_issue_reserves:
  assumes E: "credit_env E" and w: "loan_book w" and i: "mint ''dw'' tick (same_tick tick (ew_loans w)) = Inr i"
    and rec: "has_account rec w" "code_at rec = Some Lnr" and pay: "has_account pay w" "code_at pay = Some Lnp"
    and run: "issue_reserves E b x tick i rec pay w = Inr (evs, w')"
  shows "loan_book w'"
proof -
  from run obtain iss bank l lg ev txn where iss: "first_issuance (ew_ledger w) = Inr iss" and bank: "dget (ew_banks w) b = Some bank"
    and post: "post_checked (ee_uuid5 E) [mk_leg (bk_reserve bank) 1 x ''issuance'', mk_leg iss (-1) x ''issuance'',
         mk_leg rec 1 x ''issuance'', mk_leg pay (-1) x ''issuance''] tick (ev :: evt) [] True (bumped E tick w) = Inr (txn, l)"
    and w': "ew_ledger w' = l" "ew_loans w' = dset i (bank_loan E i ''bk_cb'' b x
      (ew_policy_rate w + ee_discount_penalty E) (30 * ee_ticks_per_day E) tick rec pay) (ew_loans w)" "steady w w'"
    unfolding issue_reserves_def
    by (auto simp: e_next_eq e_Inr_iff add_loan_Inr_iff expect_Inr_iff steady_def dest!: e_emit_InrD e_issue_InrD)
  let ?w = "w\<lparr>ew_ledger := bumped E tick w\<rparr>"
  have "free_legs [mk_leg (bk_reserve bank) 1 x ''issuance'', mk_leg iss (-1) x ''issuance'']"
    using book_banks[OF w bank] issuance_plain[OF iss] by (simp add: bank_ok_free plain_code_def)
  moreover have "0 \<le> ew_policy_rate w + ee_discount_penalty E" using w E by (simp add: loan_book_def rates_ok_def credit_env_def)
  ultimately show ?thesis
    using book_bank_loan[OF bumped_book(1)[OF w, of E tick], of "''dw''" tick i rec pay "ee_uuid5 E"
        "[mk_leg (bk_reserve bank) 1 x ''issuance'', mk_leg iss (-1) x ''issuance'']" x
        "''issuance''" ev "[]" True txn l] post i rec pay w'
    by (simp add: has_account_def steady_def del: set_map)
qed

lemma keeps_discount_window:
  assumes E: "credit_env E"
  shows "keeps loan_book (discount_window E b x tick)"
proof (rule keepsI)
  fix w evs w' assume w: "loan_book w" and run: "discount_window E b x tick w = Inr (evs, w')"
  show "loan_book w'"
  proof (cases "x \<le> 0")
    case True
    then show ?thesis using run w by (simp add: discount_window_def m_basic_Inr_iff)
  next
    case False
    with run obtain i rec pay w1 w2 where i: "mint ''dw'' tick (same_tick tick (ew_loans w)) = Inr i"
      and op: "e_open Lnr ''bk_cb'' ''central_bank'' None (Some i) tick w = Inr (rec, w1)" "e_open Lnp b ''bank'' None (Some i) tick w1 = Inr (pay, w2)"
      and lend: "issue_reserves E b x tick i rec pay w2 = Inr (evs, w')"
      by (auto simp: discount_window_def same_tick_def m_bind_Inr_iff m_basic_Inr_iff e_mint_Inr_iff)
    show ?thesis using open_two[OF w op] book_issue_reserves[OF E _ _ _ _ _ _ lend] i by simp
  qed
qed

section \<open>The loans of a failed bank\<close>

lemma book_moved:
  assumes w: "loan_book w" and n: "dget (ew_loans w) i = Some n" and rec: "has_account rec w" "code_at rec = Some Lnr"
    and post: "post_checked u (novation_legs n rec @ free) tick ev neg iss (ew_ledger w) = Inr (txn, l)" and free: "free_legs free"
    and w': "ew_ledger w' = l" "ew_loans w' = dset i (move_loan buyer rec n) (ew_loans w)" "steady w w'"
  shows "loan_book w'"
proof (rule loan_step[OF w n post _ _ _ _ w'])
  have n': "loan_ok i n" "booked (ew_ledger w) n" using w n by (auto simp: loan_book_def)
  show "leg_net (novation_legs n rec @ free) v = carried v (move_loan buyer rec n) - carried v n" if "debt_code v" for v
    using free_legs_net[OF free that] by (simp add: leg_net_append novation_legs_def carried_def move_loan_def)
  show "loan_ok i (move_loan buyer rec n)" using n'(1) by (auto simp: loan_ok_def move_loan_def interest_owed_def)
  show "booked (ew_ledger w) (move_loan buyer rec n)" using n' rec by (simp add: booked_def move_loan_def has_account_def del: set_map)
qed (simp add: move_loan_def)

lemma book_loan_id: "loan_book w \<Longrightarrow> dget (ew_loans w) i = Some n \<Longrightarrow> ln_id n = i"
  by (auto simp: loan_book_def loan_ok_def)

lemma book_buy_with_issue:
  assumes w: "loan_book w" and n: "dget (ew_loans w) i = Some n" and rec: "has_account rec w" "code_at rec = Some Lnr"
    and bank: "bank_ok bank" and iss: "plain_code iss" and run: "buy_with_issue E bank iss n x rec buyer tick w = Inr (evs, w')"
  shows "loan_book w'"
proof -
  from run obtain l lg ev txn where
    post: "post_checked (ee_uuid5 E) (novation_legs n rec @ [mk_leg (bk_reserve bank) 1 x ''issuance'', mk_leg iss (-1) x ''issuance''])
         tick (ev :: evt) [] True (bumped E tick w) = Inr (txn, l)"
    and w': "ew_ledger w' = l" "ew_loans w' = dset i (move_loan (bk_id buyer) rec n) (ew_loans w)" "steady w w'"
    using n book_loan_id[OF w n] unfolding buy_with_issue_def
    by (auto simp: e_next_eq e_Inr_iff upd_loan_at expect_Inr_iff steady_def dest!: e_emit_InrD e_issue_InrD)
  show ?thesis
    by (rule book_moved[OF bumped_book(1)[OF w, of E tick], of i n rec "ee_uuid5 E"
        "[mk_leg (bk_reserve bank) 1 x ''issuance'', mk_leg iss (-1) x ''issuance'']" tick ev "[]" True txn l])
       (use n rec post w' bank iss in \<open>simp_all add: has_account_def steady_def bank_ok_free plain_code_def del: set_map\<close>)
qed

lemma book_buy_with_reserves:
  assumes w: "loan_book w" and n: "dget (ew_loans w) i = Some n" and rec: "has_account rec w" "code_at rec = Some Lnr"
    and bank: "bank_ok bank" "bank_ok buyer" and run: "buy_with_reserves E bank n x rec buyer tick failed w = Inr (evs, w')"
  shows "loan_book w'"
proof -
  from run obtain l txn where
    post: "post_transaction (ee_uuid5 E) (novation_legs n rec @ [mk_leg (bk_reserve buyer) (-1) x ''transfer'', mk_leg (bk_reserve bank) 1 x ''transfer''])
         tick failed [] (ew_ledger w) = Inr (txn, l)"
    and w': "ew_ledger w' = l" "ew_loans w' = dset i (move_loan (bk_id buyer) rec n) (ew_loans w)" "steady w w'"
    using n book_loan_id[OF w n] unfolding buy_with_reserves_def
    by (auto simp: e_Inr_iff upd_loan_at steady_def dest!: e_post_InrD)
  show ?thesis
    by (rule book_moved[OF w n rec _ _ w', of "ee_uuid5 E"
        "[mk_leg (bk_reserve buyer) (-1) x ''transfer'', mk_leg (bk_reserve bank) 1 x ''transfer'']" tick failed "[]" False txn])
       (use post bank in \<open>simp_all add: post_is_checked bank_ok_free\<close>)
qed

lemma sell_loan_InrD:
  assumes "sell_loan E bank cs iss tick failed i w = Inr (evs, w')"
  obtains n where "dget (ew_loans w) i = Some n" "w' = w"
  | n bs w0 buyer rec ty w1 x where "dget (ew_loans w) i = Some n" "best_bank bs w0 w = Inr (buyer, w)"
      "e_open Lnr (bk_id buyer) ty None (Some i) tick w = Inr (rec, w1)"
      "buy_with_issue E bank iss n x rec buyer tick w1 = Inr (evs, w') \<or> buy_with_reserves E bank n x rec buyer tick failed w1 = Inr (evs, w')"
proof -
  from assms obtain n where n: "dget (ew_loans w) i = Some n" by (auto simp: sell_loan_def e_Inr_iff)
  show thesis
  proof (cases "ln_lender n \<noteq> bk_id bank \<or> ln_status n \<noteq> ''current''")
    case True
    then show thesis using that(1)[OF n] assms n by (auto simp: sell_loan_def e_Inr_iff)
  next
    case False
    define x where "x = bp (ln_outstanding n) (ee_fire_sale E)"
    from assms n False obtain rs w2 buyer w3 rec w1 where rs: "e_reserves_of cs w = Inr (rs, w2)"
      and b: "best_bank (map fst (filter (\<lambda>(b, y). x \<le> y) rs)) w2 w2 = Inr (buyer, w3)"
      and op: "e_open Lnr (bk_id buyer) (if bk_central buyer then ''central_bank'' else ''bank'') None (Some i) tick w3 = Inr (rec, w1)"
      and buy: "(if bk_central buyer then buy_with_issue E bank iss n x rec buyer tick
        else buy_with_reserves E bank n x rec buyer tick failed) w1 = Inr (evs, w')"
      unfolding x_def
      by (clarsimp simp: sell_loan_def m_bind_Inr_iff m_basic_Inr_iff(3) e_loan_Inr_iff Let_def split del: if_split)
    have eq: "w2 = w" "w3 = w" using readsD[OF reads_reserves(3) rs] readsD[OF reads_reserves(6) b] by auto
    show thesis by (rule that(2)[OF n b[unfolded eq] op[unfolded eq]]) (use buy in \<open>auto split: if_splits\<close>)
  qed
qed

lemma keeps_sell_loan:
  assumes bank: "bank_ok bank" and iss: "plain_code iss"
  shows "keeps loan_book (sell_loan E bank cs iss tick failed i)"
proof (rule keepsI)
  fix w evs w' assume w: "loan_book w" and run: "sell_loan E bank cs iss tick failed i w = Inr (evs, w')"
  from run show "loan_book w'"
  proof (cases rule: sell_loan_InrD)
    case (2 n bs w0 buyer rec ty w1 x)
    note r = e_open_reads[OF w 2(3)]
    have k: "loan_book w1" "dget (ew_loans w1) i = Some n" "has_account rec w1" "code_at rec = Some Lnr"
      using r 2(1) by (auto simp: reads_ok_def has_account_def)
    show ?thesis using 2(4) book_buy_with_issue[OF k bank iss] book_buy_with_reserves[OF k bank best_bank_InrD(1)[OF 2(2) w]] by blast
  qed (use w in simp)
qed

lemma keeps_assume_loan: "keeps loan_book (assume_loan E bank buyer tick failed i)"
proof (rule keepsI)
  fix w evs w' assume w: "loan_book w" and run: "assume_loan E bank buyer tick failed i w = Inr (evs, w')"
  from run obtain n where n: "dget (ew_loans w) i = Some n" by (auto simp: assume_loan_def e_Inr_iff)
  show "loan_book w'"
  proof (cases "ln_lender n \<noteq> bk_id bank \<or> ln_status n \<noteq> ''current''")
    case True
    then show ?thesis using run n w by (auto simp: assume_loan_def e_Inr_iff)
  next
    case False
    with run n obtain rec w1 l txn where op: "e_open Lnr (bk_id buyer) ''bank'' None (Some i) tick w = Inr (rec, w1)"
      and post: "post_transaction (ee_uuid5 E) (novation_legs n rec) tick failed [] (ew_ledger w1) = Inr (txn, l)"
      and w': "w' = upd_loan i (move_loan (bk_id buyer) rec) (w1\<lparr>ew_ledger := l\<rparr>)"
      by (auto simp: assume_loan_def e_Inr_iff dest!: e_post_InrD)
    note r = e_open_reads[OF w op]
    have k: "loan_book w1" "dget (ew_loans w1) i = Some n" "has_account rec w1" "code_at rec = Some Lnr"
      using r n by (auto simp: reads_ok_def has_account_def)
    show ?thesis
      by (rule book_moved[OF k, of "ee_uuid5 E" "[]" tick failed "[]" False txn l _ "bk_id buyer"])
         (use post k(2) in \<open>simp_all add: w' upd_loan_at post_is_checked steady_def\<close>)
  qed
qed

lemma keeps_liquidate: "bank_ok bank \<Longrightarrow> keeps loan_book (liquidate_loans E bank cs tick failed)"
  unfolding liquidate_loans_def
  by (intro keeps_bind_yields[OF yields_issuance] keeps_rules keeps_e keeps_sell_loan)

lemma keeps_write_off_bad: "keeps loan_book (write_off_bad E b tick)"
  unfolding write_off_bad_def by (intro keeps_rules keeps_e keeps_write_off_loan)

section \<open>The customers of a failed bank\<close>

lemma accounts_row:
  assumes w: "loan_book w" and a: "a \<in> set (accounts (ew_ledger w))"
  shows "code_at (acc_id a) = Some (acc_code a)" "has_account (acc_id a) w"
proof -
  from w have inv: "ledger_inv (ew_ledger w)" by (simp add: loan_book_def)
  from a obtain k where k: "k \<in> set (dkeys (led_accounts (ew_ledger w)))" "a = the (dget (led_accounts (ew_ledger w)) k)"
    by (auto simp: accounts_def)
  then have "dget (led_accounts (ew_ledger w)) k = Some a" by (cases "dget (led_accounts (ew_ledger w)) k") (auto simp: dget_None_iff)
  then have "account_inv (ew_ledger w) k a" using inv by (simp add: ledger_inv_def)
  then show "code_at (acc_id a) = Some (acc_code a)" "has_account (acc_id a) w"
    using k(1) code_at_id by (auto simp: account_inv_def has_account_def simp del: set_map)
qed

definition plain_row :: "string \<times> int \<Rightarrow> bool" where
  "plain_row p \<longleftrightarrow> plain_code (fst p)"

lemma yields_customers: "yields loan_book (e_ledger (customer_accounts b)) (list_all plain_row)"
proof (rule yieldsI)
  fix w xs w' assume w: "loan_book w" and run: "e_ledger (customer_accounts b) w = Inr (xs, w')"
  have "plain_row (acc_id a, acc_balance a)" if "a \<in> set (accounts (ew_ledger w))" "acc_code a \<in> {Dep, Esc}" for a
    using accounts_row(1)[OF w that(1)] that(2) by (auto simp: plain_row_def plain_code_def debt_code_simps)
  then show "loan_book w' \<and> list_all plain_row xs"
    using run w by (auto simp: e_Inr_iff customer_accounts_def list_all_iff)
qed

lemma keeps_pay_insurance:
  assumes "bank_ok bank"
  shows "keeps loan_book (pay_insurance E bank x cs tick)"
  unfolding pay_insurance_def Let_def
  by (intro book_rules keeps_bind_yields[OF yields_treasury]) (use assms in \<open>simp_all add: bank_ok_free plain_code_def\<close>)

lemma haircut_rows: "list_all plain_row cs \<Longrightarrow> list_all plain_row (haircut_weights cap r cs)"
  by (auto simp: haircut_weights_def Let_def list_all_iff plain_row_def)

lemma allocate_rows:
  assumes "allocate pool (sort ws) = Inr d" "list_all plain_row ws"
  shows "list_all plain_row (sort d)"
proof -
  have "plain_row p" if "p \<in> set d" for p
  proof -
    have "fst p \<in> set (dkeys d)" using that by simp
    then have "fst p \<in> fst ` set ws" using allocate_keys(1)[OF assms(1)] by simp
    then show ?thesis using assms(2) by (auto simp: list_all_iff plain_row_def)
  qed
  then show ?thesis by (simp add: list_all_iff)
qed

lemma keeps_cut_deposits:
  assumes bank: "bank_ok bank" and cs: "list_all plain_row cs"
  shows "keeps loan_book (cut_deposits E bank cs tick)"
proof -
  have cut: "keeps loan_book (cut_deposit E bank cs tick p)" if "plain_row p" for p
    unfolding cut_deposit_def Let_def using that
    by (cases p; simp; intro impI conjI book_rules) (use bank in \<open>simp_all add: plain_row_def plain_code_def bank_ok_free\<close>)
  have res: "yields loan_book (m_res (case allocate pool (sort ws) of Inl e \<Rightarrow> Inl (EcMoney e) | Inr d \<Rightarrow> Inr d))
      (\<lambda>d. list_all plain_row (sort d))" if "list_all plain_row ws" for pool ws
    by (rule yieldsI) (auto simp: m_basic_Inr_iff dest: allocate_rows[OF _ that] split: sum.splits)
  show ?thesis unfolding cut_deposits_def Let_def
    by (intro keeps_rules keeps_bind_yields[OF res] haircut_rows cs cut) (auto simp: list_all_iff)
qed

lemma keeps_cover_shortfall: "bank_ok bank \<Longrightarrow> keeps loan_book (cover_shortfall E bank tick)"
  unfolding cover_shortfall_def Let_def
  by (intro keeps_rules keeps_bind_yields[OF yields_customers]) (auto intro: keeps_pay_insurance keeps_cut_deposits)

lemma same_account_plain: "same_account v b u \<Longrightarrow> plain_code v \<Longrightarrow> plain_code u"
  by (auto simp: same_account_def plain_code_def debt_code_def code_at_def split: sum.splits prod.splits)

lemma keeps_assume_account:
  assumes bank: "bank_ok bank" "bank_ok buyer" and p: "plain_row p"
  shows "keeps loan_book (assume_account E bank buyer tick failed p)"
proof -
  obtain v x where v: "p = (v, x)" "plain_code v" using p by (cases p) (simp add: plain_row_def)
  have code: "yields loan_book (e_res (parse_account_id v)) (\<lambda>z. fst z \<notin> {Lnr, Lnp, Txr})"
    using v(2) by (intro yieldsI) (auto simp: e_Inr_iff plain_code_def debt_code_def code_at_def)
  have find: "yields loan_book (e_ledger (\<lambda>l. find (same_account v (bk_id buyer)) (accounts_of l ow))) (\<lambda>x. \<forall>u. x = Some u \<longrightarrow> plain_code u)" for ow
    by (rule yieldsI) (auto simp: e_Inr_iff find_Some_iff intro: same_account_plain[OF _ v(2)] dest: sym)
  have open_: "yields loan_book (e_open c ow ty b r tick) plain_code" if "c \<notin> {Lnr, Lnp, Txr}" for c ow ty b r
    using that by (intro yieldsI) (auto dest: open_plain keepsD[OF keeps_e_open])
  have dest: "yields loan_book (case found of Some u \<Rightarrow> m_return u
       | None \<Rightarrow> m_bind (m_bind (e_ledger (\<lambda>l. find_account l v)) e_res) (\<lambda>a.
           e_open code ow (acc_owner_type a) (Some (bk_id buyer)) r tick)) plain_code"
    if "code \<notin> {Lnr, Lnp, Txr}" "\<forall>u. found = Some u \<longrightarrow> plain_code u" for found code ow r
  proof (cases found)
    case None
    show ?thesis unfolding None option.case
      by (rule yields_bind[where Q = "\<lambda>_. True"]) (rule yieldsI, force simp: e_Inr_iff, rule open_, rule that(1))
  qed (use that(2) in \<open>auto intro: yields_return\<close>)
  show ?thesis unfolding assume_account_def v(1) prod.case
  proof (rule keeps_bind_yields[OF code])
    fix z :: "account_code \<times> string \<times> string option \<times> string option" assume c: "fst z \<notin> {Lnr, Lnp, Txr}"
    obtain c ow b r where z: "z = (c, ow, b, r)" by (cases z)
    show "keeps loan_book (case z of (c, ow, b, r) \<Rightarrow> m_bind (e_ledger (\<lambda>l. find (same_account v (bk_id buyer)) (accounts_of l ow))) (\<lambda>found.
       m_bind (case found of Some u \<Rightarrow> m_return u
         | None \<Rightarrow> m_bind (m_bind (e_ledger (\<lambda>l. find_account l v)) e_res) (\<lambda>a.
             e_open c ow (acc_owner_type a) (Some (bk_id buyer)) r tick)) (\<lambda>destination.
       m_bind (e_post E [mk_leg v (-1) x ''transfer'', mk_leg (bk_liability bank) 1 x ''transfer'',
           mk_leg (bk_liability buyer) (-1) x ''transfer'', mk_leg destination 1 x ''transfer''] tick failed) (\<lambda>_. m_return []))))"
      using c unfolding z prod.case fst_conv
      by (intro keeps_bind_yields[OF find] keeps_bind_yields[OF dest] book_rules)
         (use bank v(2) in \<open>simp_all add: bank_ok_free plain_code_def\<close>)
  qed
qed

lemma keeps_assume_bank:
  assumes bank: "bank_ok bank" "bank_ok buyer"
  shows "keeps loan_book (assume_bank E bank buyer tick failed)"
proof -
  have "keeps loan_book (m_bind (m_read loan_ids) (m_for (assume_loan E bank buyer tick failed)))"
    by (intro keeps_rules keeps_assume_loan)
  moreover have "keeps loan_book (m_bind (e_ledger (customer_accounts (bk_id bank))) (m_for (assume_account E bank buyer tick failed)))"
    by (intro keeps_bind_yields[OF yields_customers] keeps_rules keeps_assume_account bank) (auto simp: list_all_iff)
  moreover have "keeps loan_book (m_bind (e_balance (bk_reserve bank)) (\<lambda>x. if x \<le> 0 then m_return []
      else m_bind (e_post E [mk_leg (bk_reserve bank) (-1) x ''transfer'', mk_leg (bk_reserve buyer) 1 x ''transfer''] tick failed)
        (\<lambda>_. m_return [])))"
    by (intro book_rules) (use bank in \<open>simp_all add: bank_ok_free\<close>)
  ultimately show ?thesis unfolding assume_bank_def by (intro keeps_extend) auto
qed

lemma keeps_cash_post:
  assumes "bank_ok bank" "plain_code v" "plain_code cash"
  shows "keeps loan_book (e_post E (cash_legs bank v cash x) tick ev)"
  by (rule keeps_post_free) (use assms in \<open>simp add: cash_legs_def bank_ok_free plain_code_def\<close>)

lemma keeps_pay_out:
  assumes "bank_ok bank" "plain_row p"
  shows "keeps loan_book (pay_out E bank tick failed p)"
  unfolding pay_out_def using assms
  by (cases p; simp; intro keeps_bind_yields[OF yields_cash] keeps_rules keeps_e keeps_cash_post) (simp_all add: plain_row_def)

lemma keeps_close_bank: "keeps loan_book (m_modify (close_bank b buyer tick))"
proof (rule keeps_modify)
  fix w :: "'l econ_world" assume "loan_book w"
  then show "loan_book (close_bank b buyer tick w)"
    by (auto simp: close_bank_def Let_def loan_book_def banks_ok_def rates_ok_def split: option.split)
qed

lemma keeps_resolve_failure: "keeps loan_book (resolve_failure E b tick)"
proof -
  have best: "yields loan_book (best_bank bs w0) bank_ok" for bs and w0 :: "'l econ_world"
    by (rule yieldsI) (auto dest: best_bank_InrD)
  have parts: "keeps loan_book (m_extend [
       write_off_bad E b tick,
       m_when (ee_resolution E = ''liquidate'') (liquidate_loans E bank cs tick failed),
       cover_shortfall E bank tick,
       if assuming then assume_bank E bank buyer tick failed
       else m_bind (e_ledger (customer_accounts b)) (m_for (pay_out E bank tick failed))])"
    if "bank_ok bank" "bank_ok buyer" for bank buyer cs failed assuming
  proof (rule keeps_extend)
    have out: "keeps loan_book (m_bind (e_ledger (customer_accounts b)) (m_for (pay_out E bank tick failed)))"
      by (intro keeps_bind_yields[OF yields_customers] keeps_rules keeps_pay_out that) (auto simp: list_all_iff)
    show "keeps loan_book m" if "m \<in> set [write_off_bad E b tick,
       m_when (ee_resolution E = ''liquidate'') (liquidate_loans E bank cs tick failed), cover_shortfall E bank tick,
       if assuming then assume_bank E bank buyer tick failed
       else m_bind (e_ledger (customer_accounts b)) (m_for (pay_out E bank tick failed))]" for m
      using that out \<open>bank_ok bank\<close> \<open>bank_ok buyer\<close>
      by (auto intro: keeps_write_off_bad keeps_when keeps_liquidate keeps_cover_shortfall keeps_assume_bank)
  qed
  have dep: "keeps loan_book (deposits_cents b)" by (rule reads_keeps[OF reads_reserves(2)])
  show ?thesis unfolding resolve_failure_def Let_def
    by (intro keeps_bind_yields[OF yields_bank] keeps_bind_yields[OF best] keeps_rules keeps_e parts dep keeps_close_bank) auto
qed

section \<open>Settlement and the whole step\<close>

lemma keeps_borrow_from:
  assumes E: "credit_env E"
  shows "keeps loan_book (borrow_from E b tick x longs)"
proof (induction longs arbitrary: x)
  case (Cons p longs)
  obtain lender excess where "p = (lender, excess)" by (cases p)
  then show ?case
    by (simp add: Let_def) (intro impI conjI keeps_rules Cons.IH keeps_originate_interbank[OF E] keeps_e; simp add: refuse_interbank_def keeps_rules keeps_e)
qed (simp add: keeps_rules)

lemma book_rng: "loan_book (w\<lparr>ew_rng := r\<rparr>) = loan_book w"
  by (simp add: loan_book_def rates_ok_def booked_def banks_ok_def cong: option.case_cong)

lemma keeps_fund_shortfall:
  assumes E: "credit_env E"
  shows "keeps loan_book (fund_shortfall E tick bs d b)"
proof -
  have "keeps loan_book (\<lambda>w. let (g, reg) = rng_get (ee_digest E) ''banking.interbank'' b (Some tick) (ew_rng w)
         in case shuffle (ee_digest E) (f g) g of
              Inl e \<Rightarrow> Inl (EcRng e) | Inr (ls, _) \<Rightarrow> Inr (ls, w\<lparr>ew_rng := reg\<rparr>))" for f :: "rng \<Rightarrow> (string \<times> int) list"
    by (rule keepsI) (auto simp: book_rng split: prod.splits sum.splits)
  then show ?thesis unfolding fund_shortfall_def
    by (intro keeps_rules reads_keeps[OF reads_reserves(1)] reads_keeps[OF reads_reserves(5)] keeps_borrow_from[OF E]
        keeps_discount_window[OF E])
qed

lemma keeps_report_bank: "keeps loan_book (report_bank E tick b)"
proof -
  have upd: "keeps loan_book (upd_bank b (\<lambda>k. k\<lparr>bk_capital := x, bk_capital_ratio := y, bk_frozen := z\<rparr>))" for x y z
    unfolding upd_bank_def
    by (rule keeps_modify) (auto simp: loan_book_def banks_ok_def rates_ok_def split: option.splits)
  show ?thesis unfolding report_bank_def Let_def
    by (intro keeps_rules keeps_e upd reads_keeps[OF reads_reserves(1)] reads_keeps[OF reads_reserves(2)])
       (auto intro!: keeps_rules keeps_e keeps_resolve_failure)
qed

lemma keeps_settle_banks: "credit_env E \<Longrightarrow> keeps loan_book (settle_banks E tick)"
  unfolding settle_banks_def Let_def
  by (intro keeps_rules reads_keeps[OF reads_reserves(4)] reads_keeps[OF reads_reserves(5)])
     (auto intro!: keeps_rules keeps_fund_shortfall keeps_report_bank)

end
