(* ===== verification/Banking_Keeps.thy ===== *)
theory Banking_Keeps
  imports Central_Keeps
begin

text \<open>
  The banking step keeps the loan book: no bank offers a loan below the policy rate, the interest on
  deposits and the withdrawals touch no account of a loan, and the parts of the step follow.
\<close>

section \<open>Working capital\<close>

lemma offered_rate_at_least:
  assumes "credit_env E"
  shows "policy \<le> offered_rate E policy score x"
proof -
  have "0 \<le> ee_risk_spread_k E * ((10000 - score) * (10000 - score))"
    using assms by (simp add: credit_env_def)
  moreover have "0 \<le> max 1 (x div max 1 (ticks_per_year E)) * ee_term_premium E"
    by (rule mult_nonneg_nonneg) (use assms in \<open>auto simp: credit_env_def\<close>)
  ultimately show ?thesis using assms by (auto simp: offered_rate_def Let_def credit_env_def mult.assoc pos_imp_zdiv_nonneg_iff intro!: add_nonneg_nonneg)
qed

lemma book_policy: "loan_book w \<Longrightarrow> 0 \<le> ew_policy_rate w"
  by (simp add: loan_book_def rates_ok_def)

definition priced :: "loan_decision \<Rightarrow> bool" where
  "priced d \<longleftrightarrow> 0 \<le> ld_rate d"

lemma yields_policy: "yields loan_book (m_read ew_policy_rate) (\<lambda>r. 0 \<le> r)"
  by (rule yieldsI) (auto simp: e_Inr_iff book_policy)

lemma yields_keeps: "keeps P m \<Longrightarrow> yields P m (\<lambda>_. True)"
  by (rule yieldsI) (auto dest: keepsD)

lemma yields_skip: "keeps P m \<Longrightarrow> (\<And>x. yields P (f x) R) \<Longrightarrow> yields P (m_bind m f) R"
  by (rule yields_bind[OF yields_keeps])

lemma keeps_bank_amounts: "keeps loan_book (reserves_cents i)" "keeps loan_book (deposits_cents i)"
  by (rule reads_keeps[OF reads_reserves(1)], rule reads_keeps[OF reads_reserves(2)])

lemma yields_decide:
  assumes "credit_env E"
  shows "yields loan_book (decide E q b bank) priced"
  unfolding decide_def Let_def split_beta
  by (intro yields_skip[OF keeps_read] yields_skip[OF keeps_if] keeps_rules keeps_bank_amounts yields_bind[OF yields_policy] yields_return)
     (use order_trans[OF _ offered_rate_at_least[OF assms]] in \<open>auto simp: priced_def\<close>)

lemma underwrite_priced: "priced d \<Longrightarrow> 0 \<le> policy \<Longrightarrow> priced (underwrite E q b d policy v)"
  by (simp add: priced_def underwrite_def Let_def le_max_iff_disj)

lemma yields_take_decision:
  assumes "credit_env E"
  shows "yields loan_book (take_decision E llm q b bank) priced"
proof (cases "ee_llm_underwriting E")
  case True
  have fail: "yields loan_book (m_raise e) priced" for e by (rule yieldsI) (simp add: e_Inr_iff)
  show ?thesis using True unfolding take_decision_def
    by (auto split: option.split intro!: fail yields_bind[OF yields_decide[OF assms]] yields_bind[OF yields_policy]
        yields_return underwrite_priced)
qed (simp add: take_decision_def yields_decide[OF assms])

lemma keeps_upd_application [book_rules]: "keeps loan_book (upd_application i f)"
  unfolding upd_application_def by (rule keeps_modify_same) (auto simp: steady_def split: option.split)

lemma keeps_apply_for_loan:
  assumes E: "credit_env E"
  shows "keeps loan_book (apply_for_loan E llm tick q)"
  unfolding apply_for_loan_def
  by (intro book_rules keeps_bind_yields[OF yields_bank] keeps_bind_yields[OF yields_take_decision[OF E]])
     (auto simp: priced_def steady_def intro: keeps_originate)

lemma keeps_mechanical_credit:
  assumes E: "credit_env E"
  shows "keeps loan_book (mechanical_credit E llm tick)"
proof -
  have "keeps loan_book (firm_credit E llm tick i)" for i
    unfolding firm_credit_def
    by (rule keeps_bind[OF keeps_read]) (auto split: option.split intro!: book_rules keeps_apply_for_loan[OF E])
  then show ?thesis unfolding mechanical_credit_def by (intro book_rules)
qed

section \<open>Deposits\<close>

lemma yields_deposit_credits: "yields loan_book (e_ledger (deposit_credits E b)) (list_all plain_row)"
proof (rule yieldsI)
  fix w xs w' assume w: "loan_book w" and run: "e_ledger (deposit_credits E b) w = Inr (xs, w')"
  have "plain_row (acc_id a, x)" if "a \<in> set (accounts (ew_ledger w))" "acc_code a = Dep" for a x
    using accounts_row(1)[OF w that(1)] that(2) by (auto simp: plain_row_def plain_code_def debt_code_simps)
  then show "loan_book w' \<and> list_all plain_row xs"
    using run w by (auto simp: e_Inr_iff deposit_credits_def list_all_iff)
qed

lemma credit_legs_free: "list_all plain_row cs \<Longrightarrow> free_legs (map (\<lambda>(v, x). mk_leg v 1 x ''interest'') cs)"
  by (induction cs) (auto simp: plain_row_def plain_code_def)

lemma keeps_pay_deposit_interest: "keeps loan_book (pay_deposit_interest E tick)"
proof -
  have "keeps loan_book (credit_deposits E tick b)" for b
    unfolding credit_deposits_def Let_def
    by (intro keeps_bind_yields[OF yields_bank] keeps_bind_yields[OF yields_deposit_credits] book_rules)
       (simp_all add: credit_legs_free bank_ok_free)
  then show ?thesis unfolding pay_deposit_interest_def by (intro book_rules)
qed

lemma keeps_serve_withdrawal:
  assumes "bank_ok bank"
  shows "keeps loan_book (serve_withdrawal E tick bank p)"
proof -
  have dep: "yields loan_book (e_ledger (\<lambda>l. find (\<lambda>v. bank_part v = Some b) (codes_of l ow Dep)))
      (\<lambda>x. \<forall>v. x = Some v \<longrightarrow> plain_code v)" for b ow
    by (rule yieldsI) (auto simp: e_Inr_iff find_Some_iff intro!: codes_of_plain dest: sym nth_mem)
  show ?thesis unfolding serve_withdrawal_def Let_def
    by (cases p; simp only: prod.case; intro keeps_bind_yields[OF dep])
       (auto split: option.split if_split_asm intro!: keeps_bind_yields[OF yields_cash] keeps_cash_post assms keeps_rules keeps_e)
qed

lemma keeps_process_withdrawals: "keeps loan_book (process_withdrawals E tick rs)"
proof -
  have queue: "keeps loan_book (withdrawal_queue E tick b rs)" for b rs
    unfolding withdrawal_queue_def by (rule keepsI) (auto simp: book_rng split: prod.splits sum.splits)
  have "keeps loan_book (run_queue E tick rs b)" for b
    unfolding run_queue_def Let_def
    by (intro keeps_bind_yields[OF yields_bank] keeps_bind[OF queue] keeps_serve_withdrawal book_rules) auto
  then show ?thesis unfolding process_withdrawals_def by (intro book_rules)
qed

section \<open>The step\<close>

lemma keeps_banking_step:
  assumes E: "credit_env E"
  shows "keeps loan_book (banking_step E llm tick)"
proof -
  have "keeps loan_book (m_extend [mechanical_credit E llm tick, accrue_interest E tick, amortise E tick,
      pay_deposit_interest E tick, write_off_due E tick, fiscal_step E tick, settle_banks E tick, set_policy_rate E tick])"
    by (rule keeps_extend)
       (use keeps_mechanical_credit[OF E] keeps_accrue_interest[OF E] keeps_amortise[OF E] keeps_pay_deposit_interest
         keeps_write_off_due keeps_fiscal_step[OF E] keeps_settle_banks[OF E] keeps_set_policy_rate[OF E] in auto)
  then show ?thesis unfolding banking_step_def by (intro keeps_then keeps_pending)
qed

end
