(* ===== verification/Banking_Demo.thy ===== *)
theory Banking_Demo
  imports Banking_Keeps Ledger_Spec
begin

text \<open>
  A small town for the witnesses: a bank with one customer who owes it 1000 cents in two payments.
\<close>

definition town_event :: "int \<Rightarrow> evt" where
  "town_event t = \<lparr>ev_seq = 7, ev_run_id = 1, ev_tick = t, ev_sim_time = \<lparr>dt_seconds = 0, dt_micro = 0, dt_aware = False\<rparr>,
     ev_kind = 1000, ev_actor_id = None, ev_subject_ids = [], ev_cause_seq = None, ev_payload = [], ev_sig = None,
     ev_prev_hash = [], ev_hash = []\<rparr>"

definition town_env :: "(int \<times> int list) econ_env" where
  "town_env = \<lparr>ee_ticks_per_day = 24, ee_days_per_year = 360, ee_median_wage = 2400, ee_payment_interval_days = 30,
     ee_risk_weight = [(''corporate'', 10000)], ee_max_term_days = [(''corporate'', 60)], ee_income_multiple = 50000,
     ee_min_score = 3000, ee_risk_spread_k = 500, ee_base_spread = 200, ee_term_premium = 25, ee_concentration = 100000,
     ee_delinquency_days = 30, ee_default_days = 90, ee_writeoff_days = 180, ee_delinquency_penalty = 100,
     ee_capital_ratio_min = 0, ee_capital_buffer = 0, ee_stress_bump = 0, ee_deposit_rate = 0,
     ee_llm_underwriting = False, ee_exogenous_credit = False, ee_rate_rule = ''fixed'', ee_rate_setting = 300,
     ee_taylor_neutral = 300, ee_taylor_phi_pi = 15000, ee_taylor_target = 200, ee_taylor_phi_y = 5000,
     ee_taylor_low = 0, ee_taylor_high = 2000, ee_review_days = 30, ee_interbank_spread = 50, ee_discount_penalty = 100,
     ee_interbank_min_ratio = 800, ee_interbank_concentration = 2500, ee_resolution = ''assume'', ee_fire_sale = 7000,
     ee_insurance_months = 6, ee_corporate_tax = 2000, ee_arrears_penalty = 100, ee_benefits_on = False, ee_benefit_bp = 0,
     ee_retirement_age = 65, ee_floor = 0, ee_denomination = 1000, ee_bond_terms = [360], ee_sovereign_spread = 50,
     ee_emit = (\<lambda>d (t, ks). Inr (town_event t, (t, ne_kind d # ks))), ee_uuid5 = toy_uuid5, ee_uuid_text = (\<lambda>u. ''u''),
     ee_digest = (\<lambda>s. replicate 32 CHR ''d''), ee_power = (\<lambda>x k. 9 / 10)\<rparr>"

definition town_bank :: bank_state where
  "town_bank = \<lparr>bk_id = ''bk_1'', bk_name = ''Town bank'', bk_place = ''pl_1'', bk_reserve = ''res:bk_1'',
     bk_liability = ''dpl:bk_1'', bk_central = False, bk_capital = 0, bk_reserve_ratio = 0, bk_status = ''active'',
     bk_founded = 0, bk_failed = None, bk_frozen = False, bk_capital_ratio = 10000\<rparr>"

definition town_account :: "account_code \<Rightarrow> string \<Rightarrow> string \<Rightarrow> string \<Rightarrow> string option \<Rightarrow> string option \<Rightarrow> int \<Rightarrow> string \<times> account" where
  "town_account c i ow ty b r x = (i, \<lparr>acc_id = i, acc_code = c, acc_owner = ow, acc_owner_type = ty, acc_bank = b,
     acc_ref = r, acc_currency = ''POL'', acc_opened_tick = 0, acc_closed_tick = None, acc_balance = x, acc_entry_balance = x\<rparr>)"

definition town_entry :: "string \<Rightarrow> int \<Rightarrow> int \<Rightarrow> string \<Rightarrow> entry" where
  "town_entry i d x r = \<lparr>ent_txn = 20003379, ent_tick = 3, ent_event_seq = 7, ent_account = i, ent_direction = d,
     ent_amount = x, ent_reason = r\<rparr>"

definition town_ledger :: ledger where
  "town_ledger = \<lparr>led_run_id = 1,
     led_accounts = [town_account Iss ''iss:bk_cb'' ''bk_cb'' ''central_bank'' None None (- 5000),
       town_account Res ''res:bk_1'' ''bk_1'' ''bank'' None None 5000,
       town_account Dpl ''dpl:bk_1'' ''bk_1'' ''bank'' None None (- 6000),
       town_account Dep ''dep:ag_1@bk_1'' ''ag_1'' ''agent'' (Some ''bk_1'') None 6000,
       town_account Dep ''dep:gv_treasury@bk_cb'' ''gv_treasury'' ''government'' (Some ''bk_cb'') None 0,
       town_account Lnr ''lnr:bk_1#ln_00000000_0000'' ''bk_1'' ''bank'' None (Some ''ln_00000000_0000'') 1000,
       town_account Lnp ''lnp:ag_1#ln_00000000_0000'' ''ag_1'' ''agent'' None (Some ''ln_00000000_0000'') (- 1000)],
     led_entries = [town_entry ''iss:bk_cb'' (-1) 5000 ''issuance'', town_entry ''res:bk_1'' 1 5000 ''issuance'',
       town_entry ''dpl:bk_1'' (-1) 6000 ''issuance'', town_entry ''dep:ag_1@bk_1'' 1 6000 ''issuance'',
       town_entry ''lnr:bk_1#ln_00000000_0000'' 1 1000 ''loan'', town_entry ''lnp:ag_1#ln_00000000_0000'' (-1) 1000 ''loan''],
     led_pending = [], led_dirty = {}, led_ordinals = [(3, 1)], led_posted = []\<rparr>"

lemma town_ledger_inv: "ledger_inv town_ledger"
proof -
  have "list_all (\<lambda>(k, a). account_inv town_ledger k a) (led_accounts town_ledger)" by code_simp
  then have "\<forall>k a. dget (led_accounts town_ledger) k = Some a \<longrightarrow> account_inv town_ledger k a"
    by (auto simp: list_all_iff dest: map_of_SomeD)
  moreover have "list_all (\<lambda>e. ent_account e \<in> set (dkeys (led_accounts town_ledger)) \<and> 0 < ent_amount e
      \<and> (ent_direction e = -1 \<or> ent_direction e = 1)) (led_entries town_ledger)" by code_simp
  moreover have "wf_dict (led_accounts town_ledger) \<and> (\<Sum>e\<leftarrow>led_entries town_ledger. ent_direction e * ent_amount e) = 0" by code_simp
  ultimately show ?thesis by (simp add: ledger_inv_def list_all_iff)
qed

definition town_loan :: loan_state where
  "town_loan = \<lparr>ln_id = ''ln_00000000_0000'', ln_lender = ''bk_1'', ln_borrower = ''ag_1'', ln_purpose = ''consumer'', ln_principal = 1000,
     ln_outstanding = 1000, ln_rate = 600, ln_term = 1440, ln_originated = 0, ln_matures = 1440, ln_status = ''current'',
     ln_collateral = [], ln_collateral_value = 0, ln_score = 6000, ln_receivable = ''lnr:bk_1#ln_00000000_0000'', ln_payable = ''lnp:ag_1#ln_00000000_0000'',
     ln_payment = 505, ln_payments_n = 2, ln_next_payment = 720, ln_accrued = 0, ln_remainder = 0, ln_interest_paid = 0,
     ln_interest_scheduled = 0, ln_interest_forgiven = 0, ln_capitalised = 0, ln_payments_made = 0, ln_missed_since = None,
     ln_defaulted = None, ln_closed = None\<rparr>"

definition town :: "int \<Rightarrow> (int \<times> int list) econ_world" where
  \<comment> \<open>the log is the tick with the kinds emitted, newest first\<close>
  "town t = \<lparr>ew_banks = [(''bk_1'', town_bank)], ew_firms = [], ew_employments = [], ew_applications = [],
     ew_loans = [(''ln_00000000_0000'', town_loan)], ew_payments = [], ew_bonds = [(''bk_1'', [(''gov_1'', 300000)])], ew_bankruptcies = [],
     ew_policy_rate = 300, ew_pending_rate = None, ew_cpi = [], ew_bond_rows = [], ew_assessments = [],
     ew_treasury = \<lparr>ts_receipts = 0, ts_spending = 0, ts_debt_service = 0, ts_period_receipts = 0, ts_period_spending = 0,
       ts_period_debt = 0, ts_revenue_marks = [], ts_wage_marks = []\<rparr>,
     ew_gross_income = [], ew_agents = [], ew_job_applications = [], ew_ledger = town_ledger, ew_rng = mk_registry 5, ew_log = (t, [])\<rparr>"

lemma town_env_ok: "credit_env town_env"
  by (simp add: credit_env_def town_env_def)

lemma town_debts: "reconciled town_ledger [(''ln_00000000_0000'', town_loan)]"
proof -
  have "list_all (\<lambda>(v, a). debt_code v \<longrightarrow> acc_balance a = book_value [(''ln_00000000_0000'', town_loan)] v) (led_accounts town_ledger)"
    by code_simp
  then show ?thesis by (auto simp: reconciled_def list_all_iff dest: map_of_SomeD)
qed

lemma town_codes: "code_at ''dpl:bk_1'' = Some Dpl \<and> code_at ''res:bk_1'' = Some Res"
  by code_simp

lemma town_book: "loan_book (town t)"
proof -
  have "loan_ok ''ln_00000000_0000'' town_loan" by (simp add: loan_ok_def town_loan_def interest_owed_def)
  moreover have "booked town_ledger town_loan"
    by code_simp
  moreover have "named [(''ln_00000000_0000'', town_loan)] ''ln_00000000_0000'' town_loan"
    unfolding named_def by (rule exI[of _ "''ln''"], rule exI[of _ 0]) code_simp
  moreover have "banks_ok [(''bk_1'', town_bank)]" by (simp add: banks_ok_def town_bank_def town_codes)
  ultimately show ?thesis using town_debts town_ledger_inv
    by (auto simp: loan_book_def town_def rates_ok_def)
qed

end
