(* ===== verification/Banking_Spec.thy ===== *)
theory Banking_Spec
  imports Credit_Spec Loan_Cycle Loan_Liveness Banking_Demo
begin

text \<open>
  What the banking engine guarantees, with runs of the small town as witnesses.
\<close>

section \<open>The score\<close>

theorem score_rewards_witness:
  "0 \<le> fst (credit_score_bp late_worker car_loan 20000 360)
    \<and> fst (credit_score_bp late_worker car_loan 20000 360) \<le> fst (credit_score_bp steady_worker car_loan 20000 360)
    \<and> fst (credit_score_bp steady_worker car_loan 20000 360) \<le> 10000
    \<and> offered_rate town_env 300 (fst (credit_score_bp steady_worker car_loan 20000 360)) 720
        \<le> offered_rate town_env 300 (fst (credit_score_bp late_worker car_loan 20000 360)) 720"
  by (rule score_rewards) (simp_all add: sensible_def no_worse_def steady_worker_def late_worker_def car_loan_def town_env_def)

section \<open>The step keeps the books\<close>

lemma book_interest: "loan_book w \<Longrightarrow> interest_imbalance_cents w = 0"
proof -
  assume w: "loan_book w"
  have "\<bar>interest_owed n\<bar> = 0" if n: "n \<in> set (dvals (ew_loans w))" "ln_status n = ''repaid'' \<or> ln_status n = ''written_off''" for n
  proof -
    have "wf_dict (ew_loans w)" using w by (simp add: loan_book_def)
    then obtain i where "dget (ew_loans w) i = Some n" using n(1) by (auto simp: dget_Some_iff)
    then have "loan_ok i n" using w by (auto simp: loan_book_def)
    then show ?thesis using n(2) by (auto simp: loan_ok_def)
  qed
  then have "interest_imbalance_cents w = (\<Sum>n\<leftarrow>filter (\<lambda>n. ln_status n = ''repaid'' \<or> ln_status n = ''written_off'') (dvals (ew_loans w)). 0)"
    unfolding interest_imbalance_cents_def by (intro arg_cong[where f = sum_list] map_cong refl) auto
  then show ?thesis by (simp add: comp_def)
qed

text \<open>C5. Whatever a step of the banking engine or a queue of withdrawals does, and whatever the language model answers,
  the loan book stays in order: the ledger keeps its invariant, every receivable and payable account of a loan
  carries exactly what the table of loans says is outstanding, every loan is well formed and booked on its own
  accounts, and no closed loan has interest that was neither paid nor forgiven, so the check INV-INTEREST passes.\<close>

theorem banking_step_keeps_book:
  assumes "credit_env E" "loan_book w"
    "m = banking_step E llm tick \<or> m = process_withdrawals E tick requests" "m w = Inr (evs, w')"
  shows "loan_book w' \<and> interest_imbalance_cents w' = 0"
proof -
  have "loan_book w'" using assms keepsD[OF keeps_banking_step[OF assms(1)]] keepsD[OF keeps_process_withdrawals] by blast
  then show ?thesis by (simp add: book_interest)
qed

lemma map_sum_Inr_iff: "map_sum f g r = Inr y \<longleftrightarrow> (\<exists>x. r = Inr x \<and> y = g x)"
  by (cases r) auto

lemma town_steps: "map_sum (\<lambda>e. ()) (\<lambda>(evs, w). map ln_remainder (dvals (ew_loans w))) (banking_step town_env None 24 (town 24)) = Inr [600000]"
  by code_simp

theorem banking_step_keeps_book_witness:
  "\<exists>evs w'. banking_step town_env None 24 (town 24) = Inr (evs, w') \<and> loan_book w' \<and> interest_imbalance_cents w' = 0
     \<and> map ln_remainder (dvals (ew_loans w')) = [600000]"
proof -
  obtain evs w' where run: "banking_step town_env None 24 (town 24) = Inr (evs, w')" "map ln_remainder (dvals (ew_loans w')) = [600000]"
    using town_steps by (cases "banking_step town_env None 24 (town 24)") auto
  have "loan_book w' \<and> interest_imbalance_cents w' = 0"
    by (rule banking_step_keeps_book[where m = "banking_step town_env None 24", OF town_env_ok town_book disjI1[OF refl] run(1)])
  then show ?thesis using run by (intro exI[of _ evs] exI[of _ w']) simp
qed

section \<open>The life of a loan\<close>


lemma town_pays: "map_sum (\<lambda>e. ()) (\<lambda>(evs, w). map ln_outstanding (dvals (ew_loans w))) (amortise town_env 720 (town 720)) = Inr [495]"
  by code_simp


section \<open>Decisions\<close>

definition owed_to :: "string \<Rightarrow> string \<Rightarrow> 'l econ_world \<Rightarrow> int" where
  \<comment> \<open>what a borrower owes a bank\<close>
  "owed_to b i w = (\<Sum>n\<leftarrow>filter (\<lambda>n. ln_lender n = b \<and> ln_borrower n = i \<and> live_status (ln_status n)) (dvals (ew_loans w)). ln_outstanding n)"

definition within_limits :: "'l econ_env \<Rightarrow> loan_request \<Rightarrow> borrower \<Rightarrow> bank_state \<Rightarrow> 'l econ_world \<Rightarrow> bool" where
  \<comment> \<open>a loan of the amount offered respects every constraint of the bank\<close>
  "within_limits E q b bank w \<longleftrightarrow> 0 < offer_cap E q b \<and> (ee_exogenous_credit E \<or>
     \<not> bk_frozen bank \<and> ee_capital_ratio_min E \<le> capital_ratio_bp E (bk_id bank) w
     \<and> (\<exists>held reserves. deposits_cents (bk_id bank) w = Inr (held, w) \<and> reserves_cents (bk_id bank) w = Inr (reserves, w)
         \<and> bp (held + offer_cap E q b) (bk_reserve_ratio bank) \<le> reserves)
     \<and> owed_to (bk_id bank) (lq_borrower q) w + offer_cap E q b \<le> max 0 (bp (capital_cents (bk_id bank) w) (ee_concentration E)))"

definition hard_reasons :: "string set" where
  "hard_reasons = {''amount_cap'', ''capital_ratio'', ''reserve_ratio'', ''concentration''}"

lemma bank_reasons_clear:
  assumes "set (bank_reasons E q bank x ratio held reserves capital existing) \<inter> hard_reasons = {}"
  shows "\<not> bk_frozen bank" "ee_capital_ratio_min E \<le> ratio" "bp (held + x) (bk_reserve_ratio bank) \<le> reserves"
    "existing + x \<le> max 0 (bp capital (ee_concentration E))"
  using assms by (auto simp: bank_reasons_def hard_reasons_def split: if_splits)

lemma deposits_reads: "deposits_cents i w = Inr (x, w') \<Longrightarrow> deposits_cents i w = Inr (x, w)"
  using readsD[OF reads_reserves(2)] by blast

lemma decide_InrD:
  assumes run: "decide E q b bank w = Inr (d, w')"
  shows "w' = w" "ld_rate d = offered_rate E (ew_policy_rate w) (ld_score d) (ld_term d)"
    "ld_approved d \<longleftrightarrow> ld_reasons d = []" "ld_approved d \<Longrightarrow> ld_offered d = offer_cap E q b"
    "set (ld_reasons d) \<inter> hard_reasons = {} \<Longrightarrow> within_limits E q b bank w"
proof -
  obtain score parts where sc: "credit_score_bp b q (ee_median_wage E) (ticks_per_year E) = (score, parts)" by fastforce
  define t where "t = max (payment_interval E) (min (lq_term q) (dget_or (ee_max_term_days E) (lq_purpose q) (lq_term q) * ee_ticks_per_day E))"
  define ratio where "ratio = capital_ratio_bp E (bk_id bank) w"
  define rs where "rs = (if score < ee_min_score E + (if ratio < ee_capital_buffer E then ee_stress_bump E else 0) then [''credit_score''] else [])
      @ (if offer_cap E q b \<le> 0 then [''amount_cap''] else [])"
  define made where "made v more = \<lparr>ld_approved = (rs @ more = []), ld_score = score, ld_components = parts,
       ld_offered = (if rs @ more = [] then offer_cap E q b else 0), ld_rate = offered_rate E (ew_policy_rate v) score t, ld_term = t,
       ld_reasons = sort (remdups (rs @ more)), ld_llm_call = None\<rparr>" for v :: "'a econ_world" and more
  define more where "more held reserves = bank_reasons E q bank (offer_cap E q b) ratio held reserves (capital_cents (bk_id bank) w)
      (owed_to (bk_id bank) (lq_borrower q) w)" for held reserves
  note defs = sc Let_def prod.case t_def[symmetric] ratio_def[symmetric] owed_to_def[symmetric]
  consider "ee_exogenous_credit E" "w' = w" "d = made w []"
    | held reserves where "deposits_cents (bk_id bank) w = Inr (held, w)" "reserves_cents (bk_id bank) w = Inr (reserves, w)"
        "w' = w" "d = made w (more held reserves)"
  proof (cases "ee_exogenous_credit E")
    case True
    then show thesis using that(1) run by (simp add: decide_def defs prog_Inr_iff made_def rs_def)
  next
    case False
    with run obtain held reserves w1 w2 where r: "deposits_cents (bk_id bank) w = Inr (held, w1)" "reserves_cents (bk_id bank) w1 = Inr (reserves, w2)"
      "w' = w2" "d = made w2 (more held reserves)"
      by (auto simp: decide_def defs prog_Inr_iff made_def rs_def more_def split del: if_split)
    moreover have "w1 = w" by (rule readsD[OF reads_reserves(2) r(1)])
    moreover have "w2 = w1" by (rule readsD[OF reads_reserves(1) r(2)])
    ultimately show thesis using that(2) by simp
  qed
  then obtain more' where d: "w' = w" "d = made w more'" and m: "ee_exogenous_credit E \<or> (\<exists>held reserves.
      deposits_cents (bk_id bank) w = Inr (held, w) \<and> reserves_cents (bk_id bank) w = Inr (reserves, w) \<and> more' = more held reserves)"
    by cases blast+
  show "w' = w" by (rule d)
  have e: "sort (remdups xs) = [] \<longleftrightarrow> xs = []" for xs :: "string list" by (metis set_sort set_remdups set_empty)
  show "ld_rate d = offered_rate E (ew_policy_rate w) (ld_score d) (ld_term d)" "ld_approved d \<Longrightarrow> ld_offered d = offer_cap E q b"
    "ld_approved d \<longleftrightarrow> ld_reasons d = []" by (auto simp: d(2) made_def e)
  assume clear: "set (ld_reasons d) \<inter> hard_reasons = {}"
  then have c: "''amount_cap'' \<notin> set rs" "set more' \<inter> hard_reasons = {}" by (auto simp: d(2) made_def hard_reasons_def)
  have "0 < offer_cap E q b" using c(1) by (auto simp: rs_def split: if_splits)
  show "within_limits E q b bank w"
  proof (cases "ee_exogenous_credit E")
    case False
    with m obtain held reserves where r: "deposits_cents (bk_id bank) w = Inr (held, w)" "reserves_cents (bk_id bank) w = Inr (reserves, w)"
      "more' = more held reserves" by blast
    note B = bank_reasons_clear[OF c(2)[unfolded r(3) more_def]]
    show ?thesis using B r(1,2) \<open>0 < offer_cap E q b\<close> by (auto simp: within_limits_def ratio_def)
  qed (simp add: within_limits_def \<open>0 < offer_cap E q b\<close>)
qed

lemma underwrite_approved:
  assumes "ld_approved (underwrite E q b d policy v)"
  shows "set (ld_reasons d) \<inter> hard_reasons = {}" "0 < ld_offered (underwrite E q b d policy v)"
    "ld_offered (underwrite E q b d policy v) \<le> offer_cap E q b" "policy \<le> ld_rate (underwrite E q b d policy v)"
  using assms by (auto simp: underwrite_def Let_def hard_reasons_def filter_empty_conv split: if_splits)

text \<open>The scorecard never sees a bankruptcy: the state of a borrower is built without it.\<close>

lemma bankruptcy_not_scored: "\<not> bw_bankrupt (borrower_state E i w)"
  by (simp add: borrower_state_def Let_def split_beta)

text \<open>C12. No loan is approved beyond the constraints of the bank, with the scorecard or with a language model: whatever
  the model answers, an approved loan is positive, at most the request, the income cap and the collateral, priced at
  the policy rate or above, and, unless credit supply is exogenous, the bank is not frozen, its capital ratio and its
  reserves suffice for the whole amount offered, and the borrower stays under the concentration limit. A decision
  changes nothing.\<close>

theorem approved_within_limits:
  assumes "credit_env E" "take_decision E llm q b bank w = Inr (d, w')" "ld_approved d"
  shows "w' = w \<and> within_limits E q b bank w \<and> 0 < ld_offered d \<and> ld_offered d \<le> offer_cap E q b \<and> ew_policy_rate w \<le> ld_rate d"
proof (cases "ee_llm_underwriting E")
  case True
  with assms(2) obtain ask scored w1 where ask: "decide E q b bank w = Inr (scored, w1)" "w' = w1"
    "d = underwrite E q b scored (ew_policy_rate w1) (ask q b scored (ew_policy_rate w1))"
    by (auto simp: take_decision_def e_Inr_iff split: option.splits)
  note D = decide_InrD[OF ask(1)]
  show ?thesis using underwrite_approved[OF assms(3)[unfolded ask(3)]] D(1,5) ask by auto
next
  case False
  with assms(2) have run: "decide E q b bank w = Inr (d, w')" by (simp add: take_decision_def)
  note D = decide_InrD[OF run]
  have "within_limits E q b bank w" using D(3,5) assms(3) by simp
  moreover then have "0 < ld_offered d" using D(4) assms(3) by (simp add: within_limits_def)
  ultimately show ?thesis using D(1,2,4) assms(3) offered_rate_at_least[OF assms(1)] by simp
qed

lemma town_decision: "map_sum (\<lambda>e. ()) (\<lambda>(d, w). ld_approved d)
    (take_decision (town_env\<lparr>ee_llm_underwriting := True\<rparr>)
      (Some (\<lambda>q b d policy. \<lparr>lv_call = ''c1'', lv_usable = True, lv_approve = True, lv_rate = 50, lv_amount = 90000\<rparr>))
      car_loan steady_worker town_bank (town 24)) = Inr True"
  by code_simp

theorem approved_within_limits_witness:
  "\<exists>d w'. take_decision (town_env\<lparr>ee_llm_underwriting := True\<rparr>)
      (Some (\<lambda>q b d policy. \<lparr>lv_call = ''c1'', lv_usable = True, lv_approve = True, lv_rate = 50, lv_amount = 90000\<rparr>))
      car_loan steady_worker town_bank (town 24) = Inr (d, w')
    \<and> w' = town 24 \<and> within_limits (town_env\<lparr>ee_llm_underwriting := True\<rparr>) car_loan steady_worker town_bank (town 24)
    \<and> 0 < ld_offered d \<and> ld_offered d \<le> offer_cap (town_env\<lparr>ee_llm_underwriting := True\<rparr>) car_loan steady_worker
    \<and> ew_policy_rate (town 24) \<le> ld_rate d"
proof -
  have E: "credit_env (town_env\<lparr>ee_llm_underwriting := True\<rparr>)" by (simp add: credit_env_def town_env_def)
  obtain d w' where run: "take_decision (town_env\<lparr>ee_llm_underwriting := True\<rparr>)
      (Some (\<lambda>q b d policy. \<lparr>lv_call = ''c1'', lv_usable = True, lv_approve = True, lv_rate = 50, lv_amount = 90000\<rparr>))
      car_loan steady_worker town_bank (town 24) = Inr (d, w')" "ld_approved d"
    using town_decision by (auto simp: map_sum_Inr_iff)
  show ?thesis using approved_within_limits[OF E run] run(1) by (intro exI[of _ d] exI[of _ w']) simp
qed

section \<open>Loans of banks\<close>

lemma amortise_loan_frame:
  assumes E: "credit_env E" and run: "amortise_loan E tick j w = Inr (evs, w')"
  shows "ew_banks w' = ew_banks w" "i \<noteq> j \<Longrightarrow> dget (ew_loans w') i = dget (ew_loans w) i"
    "dget (ew_loans w) j = Some n \<Longrightarrow> dget (ew_banks w) (ln_borrower n) \<noteq> None \<Longrightarrow> w' = w"
proof -
  have tr: "frame u v \<and> (i \<noteq> j \<longrightarrow> dget (ew_loans v) i = dget (ew_loans u) i)" if "transition_missed E j tick u = Inr (es, v)" for u v es
    using that
  proof (cases rule: transition_missed_InrD)
    case (2 n since)
    from 2(4) show ?thesis by (cases rule: mark_default_InrD) (auto simp: frame_def)
  qed (auto simp: frame_def)
  have "frame w w' \<and> (i \<noteq> j \<longrightarrow> dget (ew_loans w') i = dget (ew_loans w) i)"
    using run
  proof (cases rule: amortise_loan_InrD)
    case (2 n pid)
    from 2(4,1) show ?thesis by (cases rule: miss_payment_InrD) (use tr in \<open>auto simp: frame_def\<close>)
  next
    case (3 n pid)
    from 3(4,1) show ?thesis by (cases rule: make_payment_InrD) auto
  qed (simp add: frame_def)
  then show "ew_banks w' = ew_banks w" "i \<noteq> j \<Longrightarrow> dget (ew_loans w') i = dget (ew_loans w) i" by (auto simp: frame_def)
  show "w' = w" if "dget (ew_loans w) j = Some n" "dget (ew_banks w) (ln_borrower n) \<noteq> None"
    using run by (cases rule: amortise_loan_InrD) (use that in \<open>auto simp: amortise_skips_def\<close>)
qed


definition interbank_town :: "(int \<times> int list) econ_world" where
  "interbank_town = (town 1000)\<lparr>ew_loans := [(''ln_00000000_0000'', town_loan\<lparr>ln_lender := ''bk_1'', ln_borrower := ''bk_1''\<rparr>)]\<rparr>"

lemma interbank_run: "map_sum (\<lambda>e. ()) (\<lambda>(evs, w). ()) (amortise town_env 1000 interbank_town) = Inr ()"
  by code_simp


section \<open>The last instalment\<close>

definition last_due :: "(int \<times> int list) econ_world" where
  "last_due = (town 720)\<lparr>ew_loans := [(''ln_00000000_0000'', town_loan\<lparr>ln_payments_made := 1\<rparr>)]\<rparr>"

lemma last_due_book: "loan_book last_due"
proof (rule loan_touch[OF town_book[of 720], of "''ln_00000000_0000''" town_loan "town_loan\<lparr>ln_payments_made := 1\<rparr>"])
  show "loan_ok ''ln_00000000_0000'' (town_loan\<lparr>ln_payments_made := 1\<rparr>)" by (simp add: loan_ok_def interest_owed_def town_loan_def)
qed (use town_book[of 720] in \<open>simp_all add: last_due_def town_def steady_def loan_book_def\<close>)

lemma last_due_ready: "ready town_env 720 ''ln_00000000_0000'' last_due"
proof -
  have "can_pay 720 ''ln_00000000_0000'' last_due"
    unfolding can_pay_def
    by (rule exI[of _ "town_loan\<lparr>ln_payments_made := 1\<rparr>"], rule exI[of _ "''dep:ag_1@bk_1''"], rule exI[of _ town_bank],
        rule exI[of _ 6000], rule exI[of _ "-6000"], rule exI[of _ 1000], rule exI[of _ "-1000"]) code_simp
  moreover have "stages town_env 720 (led_run_id (ew_ledger last_due)) (\<lambda>lg. fst lg = 720)"
    by (auto simp: stages_def town_env_def town_event_def last_due_def town_def town_ledger_def)
  ultimately show ?thesis using last_due_book unfolding ready_def by (auto simp: last_due_def town_def)
qed

theorem solvent_loan_repaid_witness:
  "repaid ''ln_00000000_0000'' (outcome (amortise_loan town_env 720 ''ln_00000000_0000'') last_due)"
proof -
  let ?i = "''ln_00000000_0000''"
  let ?ws = "\<lambda>j :: nat. if j = 0 then last_due else outcome (amortise_loan town_env 720 ?i) last_due"
  have left: "instalments_left ?i last_due = Some 1" by (simp add: instalments_left_def last_due_def town_loan_def owing_def)
  have "(\<exists>j\<le>1. repaid ?i (?ws j)) \<and> (\<forall>j<1. instalments_left ?i (?ws j) \<noteq> None \<longrightarrow> \<not> isl (amortise_loan town_env 720 ?i last_due))"
    by (rule solvent_loan_repaid[where us = "\<lambda>_. last_due" and t = "\<lambda>_. 720"]) (use left last_due_ready in auto)
  then obtain j :: nat where "j \<le> 1" "repaid ?i (?ws j)" by blast
  moreover have "\<not> repaid ?i last_due" by (simp add: repaid_def last_due_def town_loan_def)
  ultimately show ?thesis by (cases "j = 0") auto
qed

end
