(* ===== verification/Banking_Events.thy ===== *)
theory Banking_Events
  imports Banking Kinds_Fields
begin

text \<open>
  The events of the banking engine against the table of kinds: an environment that refuses to stage an
  event without the fields its kind requires, and the proof that no operation notices it.
\<close>

section \<open>The checking environment\<close>

definition checked :: "'l econ_env \<Rightarrow> 'l econ_env" where
  "checked E = E\<lparr>ee_emit := \<lambda>d lg. if payload_complete (ne_kind d) (ne_payload d) then ee_emit E d lg
     else Inl (LogSchema (ne_kind d) [] ''required'')\<rparr>"

named_theorems checked_rules \<open>operations that do not notice the check\<close>

lemma checked_settings [checked_rules]:
  "ee_ticks_per_day (checked E) = ee_ticks_per_day E" "ee_days_per_year (checked E) = ee_days_per_year E" "ee_median_wage (checked E) = ee_median_wage E"
  "ee_payment_interval_days (checked E) = ee_payment_interval_days E" "ee_risk_weight (checked E) = ee_risk_weight E" "ee_max_term_days (checked E) = ee_max_term_days E"
  "ee_income_multiple (checked E) = ee_income_multiple E" "ee_min_score (checked E) = ee_min_score E" "ee_risk_spread_k (checked E) = ee_risk_spread_k E"
  "ee_base_spread (checked E) = ee_base_spread E" "ee_term_premium (checked E) = ee_term_premium E" "ee_concentration (checked E) = ee_concentration E"
  "ee_delinquency_days (checked E) = ee_delinquency_days E" "ee_default_days (checked E) = ee_default_days E" "ee_writeoff_days (checked E) = ee_writeoff_days E"
  "ee_delinquency_penalty (checked E) = ee_delinquency_penalty E" "ee_capital_ratio_min (checked E) = ee_capital_ratio_min E" "ee_capital_buffer (checked E) = ee_capital_buffer E"
  "ee_stress_bump (checked E) = ee_stress_bump E" "ee_deposit_rate (checked E) = ee_deposit_rate E" "ee_llm_underwriting (checked E) = ee_llm_underwriting E"
  "ee_exogenous_credit (checked E) = ee_exogenous_credit E" "ee_rate_rule (checked E) = ee_rate_rule E" "ee_rate_setting (checked E) = ee_rate_setting E"
  "ee_taylor_neutral (checked E) = ee_taylor_neutral E" "ee_taylor_phi_pi (checked E) = ee_taylor_phi_pi E" "ee_taylor_target (checked E) = ee_taylor_target E"
  "ee_taylor_phi_y (checked E) = ee_taylor_phi_y E" "ee_taylor_low (checked E) = ee_taylor_low E" "ee_taylor_high (checked E) = ee_taylor_high E"
  "ee_review_days (checked E) = ee_review_days E" "ee_interbank_spread (checked E) = ee_interbank_spread E" "ee_discount_penalty (checked E) = ee_discount_penalty E"
  "ee_interbank_min_ratio (checked E) = ee_interbank_min_ratio E" "ee_interbank_concentration (checked E) = ee_interbank_concentration E" "ee_resolution (checked E) = ee_resolution E"
  "ee_fire_sale (checked E) = ee_fire_sale E" "ee_insurance_months (checked E) = ee_insurance_months E" "ee_corporate_tax (checked E) = ee_corporate_tax E"
  "ee_arrears_penalty (checked E) = ee_arrears_penalty E" "ee_benefits_on (checked E) = ee_benefits_on E" "ee_benefit_bp (checked E) = ee_benefit_bp E"
  "ee_retirement_age (checked E) = ee_retirement_age E" "ee_floor (checked E) = ee_floor E" "ee_denomination (checked E) = ee_denomination E"
  "ee_bond_terms (checked E) = ee_bond_terms E" "ee_sovereign_spread (checked E) = ee_sovereign_spread E" "ee_uuid5 (checked E) = ee_uuid5 E"
  "ee_uuid_text (checked E) = ee_uuid_text E" "ee_digest (checked E) = ee_digest E" "ee_power (checked E) = ee_power E"
  by (simp_all add: checked_def)

lemma checked_emit [checked_rules]: "payload_complete k pl \<Longrightarrow> e_emit (checked E) k pl actor subjects = e_emit E k pl actor subjects"
  by (simp add: e_emit_def checked_def fun_eq_iff)

lemma checked_ledger [checked_rules]:
  "e_post (checked E) = e_post E" "e_post_neg (checked E) = e_post_neg E" "e_issue (checked E) = e_issue E"
  "e_next_txn (checked E) = e_next_txn E"
  by (simp_all add: fun_eq_iff e_post_def e_post_neg_def e_issue_def e_next_txn_def checked_settings)

lemmas checked_congs = if_cong option.case_cong prod.case_cong list.case_cong sum.case_cong

lemma checked_lengths [checked_rules]: "ticks_per_year (checked E) = ticks_per_year E" "payment_interval (checked E) = payment_interval E"
  by (simp_all add: ticks_per_year_def payment_interval_def checked_rules)

section \<open>The decision\<close>

lemma checked_rwa_cents [checked_rules]: "rwa_cents (checked E) = rwa_cents E"
  by (intro ext) (simp add: rwa_cents_def Let_def checked_rules complete_kinds cong: checked_congs)

lemma checked_capital_ratio_bp [checked_rules]: "capital_ratio_bp (checked E) = capital_ratio_bp E"
  by (intro ext) (simp add: capital_ratio_bp_def Let_def checked_rules complete_kinds cong: checked_congs)

lemma checked_borrower_state [checked_rules]: "borrower_state (checked E) = borrower_state E"
  by (intro ext) (simp add: borrower_state_def Let_def checked_rules complete_kinds cong: checked_congs)

lemma checked_offer_cap [checked_rules]: "offer_cap (checked E) = offer_cap E"
  by (intro ext) (simp add: offer_cap_def Let_def checked_rules complete_kinds cong: checked_congs)

lemma checked_offered_rate [checked_rules]: "offered_rate (checked E) = offered_rate E"
  by (intro ext) (simp add: offered_rate_def Let_def checked_rules complete_kinds cong: checked_congs)

lemma checked_bank_reasons [checked_rules]: "bank_reasons (checked E) = bank_reasons E"
  by (intro ext) (simp add: bank_reasons_def Let_def checked_rules complete_kinds cong: checked_congs)

lemma checked_decide [checked_rules]: "decide (checked E) = decide E"
  by (intro ext) (simp add: decide_def Let_def checked_rules complete_kinds cong: checked_congs)

lemma checked_underwrite [checked_rules]: "underwrite (checked E) = underwrite E"
  by (intro ext) (simp add: underwrite_def Let_def checked_rules complete_kinds cong: checked_congs)

section \<open>Loans\<close>

lemma checked_post_expected [checked_rules]: "post_expected (checked E) = post_expected E"
  by (intro ext) (simp add: post_expected_def Let_def checked_rules complete_kinds cong: checked_congs)

lemma checked_new_loan [checked_rules]: "new_loan (checked E) = new_loan E"
  by (intro ext) (simp add: new_loan_def Let_def checked_rules complete_kinds cong: checked_congs)

lemma checked_fund_loan [checked_rules]: "fund_loan (checked E) = fund_loan E"
  by (intro ext) (simp add: fund_loan_def Let_def checked_rules complete_kinds cong: checked_congs)

lemma checked_originate [checked_rules]: "originate (checked E) = originate E"
  by (intro ext) (simp add: originate_def Let_def checked_rules complete_kinds cong: checked_congs)

lemma checked_accrual [checked_rules]: "accrual (checked E) = accrual E"
  by (intro ext) (simp add: accrual_def Let_def checked_rules complete_kinds cong: checked_congs)

lemma checked_accrue_loan [checked_rules]: "accrue_loan (checked E) = accrue_loan E"
  by (intro ext) (simp add: accrue_loan_def Let_def checked_rules complete_kinds cong: checked_congs)

lemma checked_accrue_interest [checked_rules]: "accrue_interest (checked E) = accrue_interest E"
  by (intro ext) (simp add: accrue_interest_def Let_def checked_rules complete_kinds cong: checked_congs)

lemma checked_mark_default [checked_rules]: "mark_default (checked E) = mark_default E"
  by (intro ext) (simp add: mark_default_def Let_def checked_rules complete_kinds cong: checked_congs)

lemma checked_days_past [checked_rules]: "days_past (checked E) = days_past E"
  by (intro ext) (simp add: days_past_def Let_def checked_rules complete_kinds cong: checked_congs)

lemma checked_transition_missed [checked_rules]: "transition_missed (checked E) = transition_missed E"
  by (intro ext) (simp add: transition_missed_def Let_def checked_rules complete_kinds cong: checked_congs)

lemma checked_miss_payment [checked_rules]: "miss_payment (checked E) = miss_payment E"
  by (intro ext) (simp add: miss_payment_def Let_def checked_rules complete_kinds cong: checked_congs)

lemma checked_settle_payment [checked_rules]: "settle_payment (checked E) = settle_payment E"
  by (intro ext) (simp add: settle_payment_def Let_def checked_rules complete_kinds cong: checked_congs)

lemma checked_close_repaid [checked_rules]: "close_repaid (checked E) = close_repaid E"
  by (intro ext) (simp add: close_repaid_def Let_def checked_rules complete_kinds cong: checked_congs)

lemma checked_make_payment [checked_rules]: "make_payment (checked E) = make_payment E"
  by (intro ext) (simp add: make_payment_def Let_def checked_rules complete_kinds cong: checked_congs)

lemma checked_amortise_loan [checked_rules]: "amortise_loan (checked E) = amortise_loan E"
  by (intro ext) (simp add: amortise_loan_def Let_def checked_rules complete_kinds cong: checked_congs)

lemma checked_amortise [checked_rules]: "amortise (checked E) = amortise E"
  by (intro ext) (simp add: amortise_def Let_def checked_rules complete_kinds cong: checked_congs)

lemma checked_write_off_loan [checked_rules]: "write_off_loan (checked E) = write_off_loan E"
  by (intro ext) (simp add: write_off_loan_def Let_def checked_rules complete_kinds cong: checked_congs)

lemma checked_write_off_due [checked_rules]: "write_off_due (checked E) = write_off_due E"
  by (intro ext) (simp add: write_off_due_def Let_def checked_rules complete_kinds cong: checked_congs)

section \<open>The treasury\<close>

lemma checked_assess_firm [checked_rules]: "assess_firm (checked E) = assess_firm E"
  by (intro ext) (simp add: assess_firm_def Let_def checked_rules complete_kinds cong: checked_congs)

lemma checked_assess_taxes [checked_rules]: "assess_taxes (checked E) = assess_taxes E"
  by (intro ext) (simp add: assess_taxes_def Let_def checked_rules complete_kinds cong: checked_congs)

lemma checked_collect_tax [checked_rules]: "collect_tax (checked E) = collect_tax E"
  by (intro ext) (simp add: collect_tax_def Let_def checked_rules complete_kinds cong: checked_congs)

lemma checked_collect_taxes [checked_rules]: "collect_taxes (checked E) = collect_taxes E"
  by (intro ext) (simp add: collect_taxes_def Let_def checked_rules complete_kinds cong: checked_congs)

lemma checked_arrears_loan [checked_rules]: "arrears_loan (checked E) = arrears_loan E"
  by (intro ext) (simp add: arrears_loan_def Let_def checked_rules complete_kinds cong: checked_congs)

lemma checked_book_arrears [checked_rules]: "book_arrears (checked E) = book_arrears E"
  by (intro ext) (simp add: book_arrears_def Let_def checked_rules complete_kinds cong: checked_congs)

lemma checked_convert_one [checked_rules]: "convert_one (checked E) = convert_one E"
  by (intro ext) (simp add: convert_one_def Let_def checked_rules complete_kinds cong: checked_congs)

lemma checked_convert_arrears [checked_rules]: "convert_arrears (checked E) = convert_arrears E"
  by (intro ext) (simp add: convert_arrears_def Let_def checked_rules complete_kinds cong: checked_congs)

lemma checked_pay_benefit [checked_rules]: "pay_benefit (checked E) = pay_benefit E"
  by (intro ext) (simp add: pay_benefit_def Let_def checked_rules complete_kinds cong: checked_congs)

lemma checked_pay_transfers [checked_rules]: "pay_transfers (checked E) = pay_transfers E"
  by (intro ext) (simp add: pay_transfers_def Let_def checked_rules complete_kinds cong: checked_congs)

lemma checked_pay_coupon [checked_rules]: "pay_coupon (checked E) = pay_coupon E"
  by (intro ext) (simp add: pay_coupon_def Let_def checked_rules complete_kinds cong: checked_congs)

lemma checked_redeem_bond [checked_rules]: "redeem_bond (checked E) = redeem_bond E"
  by (intro ext) (simp add: redeem_bond_def Let_def checked_rules complete_kinds cong: checked_congs)

lemma checked_pay_coupons_and_maturities [checked_rules]: "pay_coupons_and_maturities (checked E) = pay_coupons_and_maturities E"
  by (intro ext) (simp add: pay_coupons_and_maturities_def Let_def checked_rules complete_kinds cong: checked_congs)

lemma checked_run_auction [checked_rules]: "run_auction (checked E) = run_auction E"
  by (intro ext) (simp add: run_auction_def Let_def checked_rules complete_kinds cong: checked_congs)

lemma checked_finance_deficit [checked_rules]: "finance_deficit (checked E) = finance_deficit E"
  by (intro ext) (simp add: finance_deficit_def Let_def checked_rules complete_kinds cong: checked_congs)

lemma checked_close_budget [checked_rules]: "close_budget (checked E) = close_budget E"
  by (intro ext) (simp add: close_budget_def Let_def checked_rules complete_kinds cong: checked_congs)

lemma checked_fiscal_step [checked_rules]: "fiscal_step (checked E) = fiscal_step E"
  by (intro ext) (simp add: fiscal_step_def Let_def checked_rules complete_kinds cong: checked_congs)

section \<open>The central bank\<close>

lemma checked_policy_rate_target_bp [checked_rules]: "policy_rate_target_bp (checked E) = policy_rate_target_bp E"
  by (intro ext) (simp add: policy_rate_target_bp_def Let_def checked_rules complete_kinds cong: checked_congs)

lemma checked_yearly_inflation [checked_rules]: "yearly_inflation (checked E) = yearly_inflation E"
  by (intro ext) (simp add: yearly_inflation_def Let_def checked_rules complete_kinds cong: checked_congs)

lemma checked_set_policy_rate [checked_rules]: "set_policy_rate (checked E) = set_policy_rate E"
  by (intro ext) (simp add: set_policy_rate_def Let_def checked_rules complete_kinds cong: checked_congs)

lemma checked_bank_loan [checked_rules]: "bank_loan (checked E) = bank_loan E"
  by (intro ext) (simp add: bank_loan_def Let_def checked_rules complete_kinds cong: checked_congs)

lemma checked_lend_reserves [checked_rules]: "lend_reserves (checked E) = lend_reserves E"
  by (intro ext) (simp add: lend_reserves_def Let_def checked_rules complete_kinds cong: checked_congs)

lemma checked_originate_interbank [checked_rules]: "originate_interbank (checked E) = originate_interbank E"
  by (intro ext) (simp add: originate_interbank_def Let_def checked_rules complete_kinds cong: checked_congs)

lemma checked_issue_reserves [checked_rules]: "issue_reserves (checked E) = issue_reserves E"
  by (intro ext) (simp add: issue_reserves_def Let_def checked_rules complete_kinds cong: checked_congs)

lemma checked_discount_window [checked_rules]: "discount_window (checked E) = discount_window E"
  by (intro ext) (simp add: discount_window_def Let_def checked_rules complete_kinds cong: checked_congs)

lemma checked_write_off_bad [checked_rules]: "write_off_bad (checked E) = write_off_bad E"
  by (intro ext) (simp add: write_off_bad_def Let_def checked_rules complete_kinds cong: checked_congs)

lemma checked_buy_with_issue [checked_rules]: "buy_with_issue (checked E) = buy_with_issue E"
  by (intro ext) (simp add: buy_with_issue_def Let_def checked_rules complete_kinds cong: checked_congs)

lemma checked_buy_with_reserves [checked_rules]: "buy_with_reserves (checked E) = buy_with_reserves E"
  by (intro ext) (simp add: buy_with_reserves_def Let_def checked_rules complete_kinds cong: checked_congs)

lemma checked_sell_loan [checked_rules]: "sell_loan (checked E) = sell_loan E"
  by (intro ext) (simp add: sell_loan_def Let_def checked_rules complete_kinds cong: checked_congs)

lemma checked_liquidate_loans [checked_rules]: "liquidate_loans (checked E) = liquidate_loans E"
  by (intro ext) (simp add: liquidate_loans_def Let_def checked_rules complete_kinds cong: checked_congs)

lemma checked_pay_insurance [checked_rules]: "pay_insurance (checked E) = pay_insurance E"
  by (intro ext) (simp add: pay_insurance_def Let_def checked_rules complete_kinds cong: checked_congs)

lemma checked_cut_deposit [checked_rules]: "cut_deposit (checked E) = cut_deposit E"
  by (intro ext) (simp add: cut_deposit_def Let_def checked_rules complete_kinds cong: checked_congs)

lemma checked_cut_deposits [checked_rules]: "cut_deposits (checked E) = cut_deposits E"
  by (intro ext) (simp add: cut_deposits_def Let_def checked_rules complete_kinds cong: checked_congs)

lemma checked_cover_shortfall [checked_rules]: "cover_shortfall (checked E) = cover_shortfall E"
  by (intro ext) (simp add: cover_shortfall_def Let_def checked_rules complete_kinds cong: checked_congs)

lemma checked_assume_loan [checked_rules]: "assume_loan (checked E) = assume_loan E"
  by (intro ext) (simp add: assume_loan_def Let_def checked_rules complete_kinds cong: checked_congs)

lemma checked_assume_account [checked_rules]: "assume_account (checked E) = assume_account E"
  by (intro ext) (simp add: assume_account_def Let_def checked_rules complete_kinds cong: checked_congs)

lemma checked_assume_bank [checked_rules]: "assume_bank (checked E) = assume_bank E"
  by (intro ext) (simp add: assume_bank_def Let_def checked_rules complete_kinds cong: checked_congs)

lemma checked_pay_out [checked_rules]: "pay_out (checked E) = pay_out E"
  by (intro ext) (simp add: pay_out_def Let_def checked_rules complete_kinds cong: checked_congs)

lemma checked_resolve_failure [checked_rules]: "resolve_failure (checked E) = resolve_failure E"
  by (intro ext) (simp add: resolve_failure_def Let_def checked_rules complete_kinds cong: checked_congs)

lemma checked_refuse_interbank [checked_rules]: "refuse_interbank (checked E) = refuse_interbank E"
  by (intro ext) (simp add: refuse_interbank_def Let_def checked_rules complete_kinds cong: checked_congs)

lemma checked_borrow_from [checked_rules]: "borrow_from (checked E) = borrow_from E"
proof -
  have "borrow_from (checked E) b tick x longs = borrow_from E b tick x longs" for b tick x longs
    by (induction longs arbitrary: x)
       (simp_all add: Let_def checked_rules complete_kinds split_paired_all cong: checked_congs)
  then show ?thesis by (intro ext) simp
qed

lemma checked_fund_shortfall [checked_rules]: "fund_shortfall (checked E) = fund_shortfall E"
  by (intro ext) (simp add: fund_shortfall_def Let_def checked_rules complete_kinds cong: checked_congs)

lemma checked_report_bank [checked_rules]: "report_bank (checked E) = report_bank E"
  by (intro ext) (simp add: report_bank_def Let_def checked_rules complete_kinds cong: checked_congs)

lemma checked_settle_banks [checked_rules]: "settle_banks (checked E) = settle_banks E"
  by (intro ext) (simp add: settle_banks_def Let_def checked_rules complete_kinds cong: checked_congs)

section \<open>The banking engine\<close>

lemma checked_working_capital [checked_rules]: "working_capital (checked E) = working_capital E"
  by (intro ext) (simp add: working_capital_def Let_def checked_rules complete_kinds cong: checked_congs)

lemma checked_take_decision [checked_rules]: "take_decision (checked E) = take_decision E"
  by (intro ext) (simp add: take_decision_def Let_def checked_rules complete_kinds cong: checked_congs)

lemma checked_apply_for_loan [checked_rules]: "apply_for_loan (checked E) = apply_for_loan E"
  by (intro ext) (simp add: apply_for_loan_def Let_def checked_rules complete_kinds cong: checked_congs)

lemma checked_firm_credit [checked_rules]: "firm_credit (checked E) = firm_credit E"
  by (intro ext) (simp add: firm_credit_def Let_def checked_rules complete_kinds cong: checked_congs)

lemma checked_mechanical_credit [checked_rules]: "mechanical_credit (checked E) = mechanical_credit E"
  by (intro ext) (simp add: mechanical_credit_def Let_def checked_rules complete_kinds cong: checked_congs)

lemma checked_deposit_credits [checked_rules]: "deposit_credits (checked E) = deposit_credits E"
  by (intro ext) (simp add: deposit_credits_def Let_def checked_rules complete_kinds cong: checked_congs)

lemma checked_credit_deposits [checked_rules]: "credit_deposits (checked E) = credit_deposits E"
  by (intro ext) (simp add: credit_deposits_def Let_def checked_rules complete_kinds cong: checked_congs)

lemma checked_pay_deposit_interest [checked_rules]: "pay_deposit_interest (checked E) = pay_deposit_interest E"
  by (intro ext) (simp add: pay_deposit_interest_def Let_def checked_rules complete_kinds cong: checked_congs)

lemma checked_serve_withdrawal [checked_rules]: "serve_withdrawal (checked E) = serve_withdrawal E"
  by (intro ext) (simp add: serve_withdrawal_def Let_def checked_rules complete_kinds cong: checked_congs)

lemma checked_withdrawal_queue [checked_rules]: "withdrawal_queue (checked E) = withdrawal_queue E"
  by (intro ext) (simp add: withdrawal_queue_def Let_def checked_rules complete_kinds cong: checked_congs)

lemma checked_run_queue [checked_rules]: "run_queue (checked E) = run_queue E"
  by (intro ext) (simp add: run_queue_def Let_def checked_rules complete_kinds cong: checked_congs)

lemma checked_process_withdrawals [checked_rules]: "process_withdrawals (checked E) = process_withdrawals E"
  by (intro ext) (simp add: process_withdrawals_def Let_def checked_rules complete_kinds cong: checked_congs)

section \<open>The step\<close>

text \<open>C8. Every event that the banking engine emits, whatever the branch, is of a registered kind and carries
  every field the kind requires: replacing the log by one that refuses all other events changes nothing.\<close>

theorem banking_events_complete:
  "banking_step (checked E) llm tick = banking_step E llm tick
   \<and> process_withdrawals (checked E) tick requests = process_withdrawals E tick requests"
  by (simp add: banking_step_def checked_rules)

end
