(* ===== verification/Floats.thy ===== *)
theory Floats
  imports Credit "HOL-Library.Log_Nat"
begin

text \<open>
  Python's floats: a finite double is a rational, and every operation on doubles is the exact result
  rounded to 53 significant bits, half to even. The range of the exponent is not bounded, so that
  overflow and the smallest doubles are outside the model. Rounding is monotone and keeps integers
  of fewer than 54 bits, which is what the component proofs need.
\<close>

section \<open>Rounding\<close>

definition bits_before :: "rat \<Rightarrow> int" where
  \<comment> \<open>\<open>e\<close> with \<open>2 ^ (e - 1) \<le> |q| < 2 ^ e\<close>, for the numerator and denominator of \<open>q \<noteq> 0\<close>\<close>
  "bits_before q =
     (let (n, d) = quotient_of \<bar>q\<bar>; k = int (floorlog 2 (nat n)) - int (floorlog 2 (nat d))
      in if 2 powi k \<le> \<bar>q\<bar> then k + 1 else k)"

definition dbl :: "rat \<Rightarrow> rat" where
  \<comment> \<open>rounding to a double\<close>
  "dbl q = (if q = 0 then 0 else let e = 53 - bits_before q in of_int (half_even (q * 2 powi e)) / 2 powi e)"

definition trunc :: "rat \<Rightarrow> int" where
  \<comment> \<open>\<open>int(x)\<close>\<close>
  "trunc q = (if q < 0 then \<lceil>q\<rceil> else \<lfloor>q\<rfloor>)"

definition round_places :: "nat \<Rightarrow> rat \<Rightarrow> rat" where
  \<comment> \<open>\<open>round(x, n)\<close>\<close>
  "round_places n q = dbl (of_int (half_even (q * 10 ^ n)) / 10 ^ n)"

section \<open>Facts\<close>

lemma half_even_floor: "half_even q = \<lfloor>q\<rfloor> \<or> half_even q = \<lfloor>q\<rfloor> + 1"
  by (auto simp: half_even_def Let_def)

lemma half_even_of_int [simp]: "half_even (of_int n) = n"
  by (simp add: half_even_def Let_def)

lemma half_even_mono:
  assumes "p \<le> q"
  shows "half_even p \<le> half_even q"
proof (cases "\<lfloor>p\<rfloor> = \<lfloor>q\<rfloor>")
  case True
  then show ?thesis using assms by (auto simp: half_even_def Let_def)
next
  case False
  then have "\<lfloor>p\<rfloor> + 1 \<le> \<lfloor>q\<rfloor>" using floor_mono[OF assms] by linarith
  then show ?thesis using half_even_floor[of p] half_even_floor[of q] by linarith
qed

lemma half_even_int_le: "of_int n \<le> q \<Longrightarrow> n \<le> half_even q"
  using half_even_mono[of "of_int n" q] by simp

lemma half_even_le_int: "q \<le> of_int n \<Longrightarrow> half_even q \<le> n"
  using half_even_mono[of q "of_int n"] by simp

lemma floorlog_2_bounds:
  assumes "0 < n"
  shows "2 powi (int (floorlog 2 (nat n)) - 1) \<le> (of_int n :: rat)" "(of_int n :: rat) < 2 powi int (floorlog 2 (nat n))"
proof -
  have pos: "0 < nat n" using assms by simp
  have l: "floorlog 2 (nat n) = Suc (floorlog 2 (nat n) - 1)"
    using pos by (simp add: floorlog_eq_zero_iff[symmetric] floorlog_def)
  have "2 ^ (floorlog 2 (nat n) - 1) \<le> nat n" "nat n < 2 ^ floorlog 2 (nat n)"
    using floorlog_bounds[of "nat n" 2] pos by simp_all
  then have "(of_nat (2 ^ (floorlog 2 (nat n) - 1)) :: rat) \<le> of_nat (nat n)"
      "(of_nat (nat n) :: rat) < of_nat (2 ^ floorlog 2 (nat n))"
    by (simp_all only: of_nat_le_iff of_nat_less_iff)
  then show "2 powi (int (floorlog 2 (nat n)) - 1) \<le> (of_int n :: rat)" "(of_int n :: rat) < 2 powi int (floorlog 2 (nat n))"
    using assms l by (simp_all add: power_int_def nat_diff_distrib)
qed

lemma bits_before_bounds:
  assumes "q \<noteq> 0"
  shows "2 powi (bits_before q - 1) \<le> \<bar>q\<bar>" "\<bar>q\<bar> < 2 powi bits_before q"
proof -
  obtain n d where nd: "quotient_of \<bar>q\<bar> = (n, d)" by fastforce
  have d: "0 < d" using quotient_of_denom_pos[OF nd] .
  have q: "\<bar>q\<bar> = of_int n / of_int d" using quotient_of_div[OF nd] .
  have n: "0 < n" using assms q d by (metis abs_ge_zero abs_not_less_zero divide_less_0_iff of_int_0_less_iff of_int_less_0_iff div_0 of_int_0 abs_eq_0 linorder_neqE)
  let ?x = "int (floorlog 2 (nat n))" and ?y = "int (floorlog 2 (nat d))"
  have qd: "\<bar>q\<bar> * of_int d = of_int n" using q d by simp
  have low: "2 powi (?x - ?y - 1) < \<bar>q\<bar>"
  proof -
    have "2 powi (?x - ?y - 1) * (of_int d :: rat) < 2 powi (?x - ?y - 1) * 2 powi ?y"
      by (rule mult_strict_left_mono[OF floorlog_2_bounds(2)[OF d]]) simp
    also have "\<dots> = 2 powi (?x - 1)" using power_int_add[of "2 :: rat" "?x - ?y - 1" ?y] by simp
    also have "\<dots> \<le> \<bar>q\<bar> * of_int d" unfolding qd by (rule floorlog_2_bounds(1)[OF n])
    finally show ?thesis using d by simp
  qed
  have high: "\<bar>q\<bar> < 2 powi (?x - ?y + 1)"
  proof -
    have "\<bar>q\<bar> * of_int d < 2 powi ?x" unfolding qd by (rule floorlog_2_bounds(2)[OF n])
    also have "\<dots> = 2 powi (?x - ?y + 1) * 2 powi (?y - 1)"
      using power_int_add[of "2 :: rat" "?x - ?y + 1" "?y - 1"] by simp
    also have "\<dots> \<le> 2 powi (?x - ?y + 1) * of_int d"
      by (rule mult_left_mono[OF floorlog_2_bounds(1)[OF d]]) simp
    finally show ?thesis using d by simp
  qed
  show "2 powi (bits_before q - 1) \<le> \<bar>q\<bar>" "\<bar>q\<bar> < 2 powi bits_before q"
    using low high nd by (auto simp: bits_before_def Let_def)
qed

lemma bits_before_mono: "0 < p \<Longrightarrow> p \<le> q \<Longrightarrow> bits_before p \<le> bits_before q"
proof (rule ccontr)
  assume p: "0 < p" "p \<le> q" and less: "\<not> bits_before p \<le> bits_before q"
  have "(2 :: rat) powi bits_before q \<le> 2 powi (bits_before p - 1)"
    using less by (intro power_int_increasing) auto
  also have "\<dots> \<le> p" using bits_before_bounds(1)[of p] p by simp
  finally show False using bits_before_bounds(2)[of q] p by simp
qed

lemma dbl_zero [simp]: "dbl 0 = 0"
  by (simp add: dbl_def)

lemma dbl_pos_bounds:
  \<comment> \<open>a double stays within its power of two\<close>
  assumes "0 < q"
  shows "2 powi (bits_before q - 1) \<le> dbl q" "dbl q \<le> 2 powi bits_before q"
proof -
  let ?e = "53 - bits_before q"
  have pos: "(0 :: rat) < 2 powi ?e" by simp
  have "2 powi (bits_before q - 1) * 2 powi ?e \<le> q * 2 powi ?e" "q * 2 powi ?e \<le> 2 powi bits_before q * 2 powi ?e"
    using bits_before_bounds[of q] assms by (simp_all add: mult_right_mono)
  then have "of_int (2 ^ 52) \<le> q * 2 powi ?e" "q * 2 powi ?e \<le> of_int (2 ^ 53)"
    by (simp_all flip: power_int_add)
  then have "2 ^ 52 \<le> half_even (q * 2 powi ?e)" "half_even (q * 2 powi ?e) \<le> 2 ^ 53"
    by (auto intro: half_even_int_le half_even_le_int)
  then have "2 powi (bits_before q - 1) * 2 powi ?e \<le> (of_int (half_even (q * 2 powi ?e)) :: rat)"
      "(of_int (half_even (q * 2 powi ?e)) :: rat) \<le> 2 powi bits_before q * 2 powi ?e"
    by (simp_all flip: power_int_add)
  then show "2 powi (bits_before q - 1) \<le> dbl q" "dbl q \<le> 2 powi bits_before q"
    using pos assms by (simp_all add: dbl_def Let_def pos_le_divide_eq pos_divide_le_eq)
qed

lemma dbl_minus [simp]: "dbl (- q) = - dbl q"
proof -
  have "half_even (- x) = - half_even x" for x
  proof (cases "x \<in> \<int>")
    case True
    then obtain n where "x = of_int n" by (auto elim: Ints_cases)
    then show ?thesis using half_even_of_int[of "- n"] by simp
  next
    case False
    then have "\<lfloor>- x\<rfloor> = - \<lfloor>x\<rfloor> - 1" by (metis ceiling_altdef floor_minus minus_add_distrib uminus_add_conv_diff add.commute Ints_of_int)
    then show ?thesis by (auto simp: half_even_def Let_def)
  qed
  then show ?thesis by (simp add: dbl_def Let_def bits_before_def)
qed

lemma dbl_mono_pos:
  assumes p: "0 < p" and pq: "p \<le> q"
  shows "dbl p \<le> dbl q"
proof (cases "bits_before p = bits_before q")
  case True
  let ?e = "53 - bits_before q"
  have "of_int (half_even (p * 2 powi ?e)) \<le> (of_int (half_even (q * 2 powi ?e)) :: rat)"
    unfolding of_int_le_iff by (rule half_even_mono) (simp add: pq)
  then show ?thesis using p pq True by (simp add: dbl_def Let_def divide_right_mono)
next
  case False
  have "dbl p \<le> 2 powi bits_before p" by (rule dbl_pos_bounds[OF p])
  also have "\<dots> \<le> 2 powi (bits_before q - 1)"
    using False bits_before_mono[OF assms] by (intro power_int_increasing) auto
  also have "\<dots> \<le> dbl q" by (rule dbl_pos_bounds) (use p pq in simp)
  finally show ?thesis .
qed

lemma dbl_nonneg: "0 \<le> q \<Longrightarrow> 0 \<le> dbl q"
  by (cases "q = 0") (auto intro: order_trans[OF _ dbl_pos_bounds(1)])

lemma dbl_nonpos: "q \<le> 0 \<Longrightarrow> dbl q \<le> 0"
  using dbl_nonneg[of "- q"] by simp

lemma dbl_mono: "p \<le> q \<Longrightarrow> dbl p \<le> dbl q"
proof -
  assume le: "p \<le> q"
  consider "0 < p" | "q < 0" | "p \<le> 0" "0 \<le> q" by linarith
  then show ?thesis
  proof cases
    case 2 then show ?thesis using dbl_mono_pos[of "- q" "- p"] le by simp
  next
    case 3 then show ?thesis using dbl_nonneg dbl_nonpos order_trans by blast
  qed (simp add: dbl_mono_pos le)
qed

lemma dbl_of_int:
  assumes "\<bar>n\<bar> < 2 ^ 53"
  shows "dbl (of_int n) = of_int n"
proof (cases "n = 0")
  case False
  let ?b = "bits_before (of_int n)"
  have b: "?b \<le> 53"
  proof (rule ccontr)
    assume "\<not> ?b \<le> 53"
    then have "(2 :: rat) powi 53 \<le> 2 powi (?b - 1)" by (intro power_int_increasing) auto
    also have "\<dots> \<le> \<bar>of_int n\<bar>" using bits_before_bounds(1)[of "of_int n"] False by simp
    also have "\<dots> = of_int \<bar>n\<bar>" by simp
    also have "\<dots> < of_int (2 ^ 53)" by (simp only: of_int_less_iff assms)
    finally show False by (simp add: power_int_def)
  qed
  have "(of_int n :: rat) * 2 powi (53 - ?b) = of_int (n * 2 ^ nat (53 - ?b))"
    using b by (simp add: power_int_def)
  then have "of_int (half_even (of_int n * 2 powi (53 - ?b))) = (of_int n :: rat) * 2 powi (53 - ?b)"
    by (simp del: of_int_mult of_int_power)
  then show ?thesis using False by (simp add: dbl_def Let_def)
qed simp

lemma trunc_of_int [simp]: "trunc (of_int n) = n"
  by (simp add: trunc_def)

lemma trunc_mono: "p \<le> q \<Longrightarrow> trunc p \<le> trunc q"
  by (auto simp: trunc_def ceiling_mono floor_mono intro: order_trans[of "\<lceil>p\<rceil>" 0])

end
