(* ===== verification/Labour.thy ===== *)
theory Labour
  imports Floats Fiscal
begin

text \<open>
  \<open>polis/economy/labour.py\<close>, the functions outside the class: occupations, skills and match scores,
  the vacancies an agent sees, the labour force, the income tax on wages and the order of
  redundancies. The attributes of an agent that other parts of the economy read are in the economy's
  world, those only the labour market reads are a \<open>worker\<close>. The applicants and ticks the treasury
  reads are those of the applications kept here. \<open>load_occupations\<close> reads a file and is not modelled.
\<close>

section \<open>Records\<close>

record occupation =
  oc_id :: string
  oc_sectors :: "string list"
  oc_requirements :: "(string, int) dict"
  oc_intensity :: "(string, int) dict"
  oc_weights :: "(string, int) dict"

record vacancy_state =
  va_id :: string
  va_firm :: string
  va_occupation :: string
  va_skills :: "(string, int) dict"
  va_wage :: int
  va_headcount :: int
  va_posted :: int
  va_expires :: int
  va_district :: string
  va_min_score :: int
  va_status :: string
  va_applicants :: int

record application_state =
  ap_id :: string
  ap_vacancy :: string
  ap_agent :: string
  ap_asked :: int
  ap_submitted :: int
  ap_status :: string
  ap_score :: "int option"
  ap_rank :: "int option"

record offer_state =
  of_id :: string
  of_application :: string
  of_vacancy :: string
  of_firm :: string
  of_agent :: string
  of_wage :: int
  of_occupation :: string
  of_made :: int
  of_expires :: int
  of_status :: string

record worker =
  wk_skills :: "(string, rat) dict"
  wk_education :: string
  wk_reputation :: rat
  wk_health :: rat
  wk_energy :: rat
  wk_age :: rat
  wk_home :: string
  wk_traits :: "(string \<times> rat) list"
    \<comment> \<open>\<open>sorted(traits.as_dict().items())\<close>\<close>

record labour_force =
  lf_employed :: "string list"
  lf_unemployed :: "string list"
  lf_nilf :: "string list"
  lf_unemployment :: int
  lf_marginal :: int
  lf_broad :: int
  lf_participation :: int
  lf_vacancy_rate :: int

record 'l lab_world =
  lw_econ :: "'l econ_world"
  lw_vacancies :: "(string, vacancy_state) dict"
  lw_applications :: "(string, application_state) dict"
  lw_offers :: "(string, offer_state) dict"
  lw_workers :: "(string, worker) dict"
  lw_skill_used :: "(string, (string, int) dict) dict"
  lw_gross_wages :: "(int, (string, int) dict) dict"
  lw_places :: "(string, string option) dict"
    \<comment> \<open>\<open>world.locations[agent_id].place_id\<close>\<close>

type_synonym ('l, 'a) lm = "(econ_error, 'l lab_world, 'a) prog"

record 'l lab_env =
  lb_econ :: "'l econ_env"
  lb_occupations :: "(string, occupation) dict"
  lb_district :: "string \<Rightarrow> string option"
    \<comment> \<open>\<open>world.place(place_id).district_id\<close>, nothing for an unknown place\<close>
  lb_vacancy_days :: int
  lb_max_vacancies :: int
  lb_max_applications :: int
  lb_min_score :: int
  lb_shortlist :: int
  lb_offer_days :: int
  lb_search_days :: int
  lb_notice :: int
  lb_min_wage :: int
  lb_skill_decay :: int
  lb_decay_on :: bool
    \<comment> \<open>\<open>mechanisms.get("skill_decay", "on") != "off"\<close>\<close>
  lb_recency_on :: bool
    \<comment> \<open>\<open>mechanisms.get("labour_recency_penalty", "on") != "off"\<close>\<close>
  lb_payroll_days :: "int list"
  lb_brackets :: "(int \<times> int) list"
  lb_employer_bp :: int
  lb_multiplier :: "(string \<Rightarrow> rat) option"
    \<comment> \<open>\<open>wage_penalty.wage_multiplier\<close>, when there is one\<close>
  lb_garnish :: "(string \<Rightarrow> int \<Rightarrow> int \<Rightarrow> ('l, unit) lm) option"
    \<comment> \<open>\<open>garnishment.garnish\<close>, when there is one\<close>
  lb_repr :: "rat \<Rightarrow> string"
    \<comment> \<open>the JSON text of a double\<close>
  lb_visible :: int
  lb_autopost_on :: bool
    \<comment> \<open>\<open>mechanisms.get("labour_vacancy_autopost", "on") != "off"\<close>\<close>

section \<open>Skills and scores\<close>

definition skill_names :: "string list" where
  \<comment> \<open>\<open>SKILLS\<close> of \<open>agents/types.py\<close>\<close>
  "skill_names = [''manual'', ''operations'', ''sales'', ''finance'', ''engineering'', ''research'', ''law'', ''medicine'',
     ''teaching'', ''writing'', ''design'', ''management'', ''negotiation'', ''persuasion'']"

definition skill_bp :: "worker \<Rightarrow> string \<Rightarrow> int" where
  "skill_bp a s = max 0 (min 10000 (half_even (dbl (dget_or (wk_skills a) s 0 * 10000))))"

definition skill_value_bp :: "worker \<Rightarrow> occupation \<Rightarrow> int" where
  "skill_value_bp a oc =
     (let weight_sum = sum_list (dvals (oc_weights oc))
      in if weight_sum \<le> 0 then 10000
         else (\<Sum>s\<leftarrow>skill_names. dget_or (oc_weights oc) s 0 * skill_bp a s) div weight_sum)"

definition edu_bonus_bp :: "(string, int) dict" where
  "edu_bonus_bp = [(''none'', 0), (''primary'', 100), (''secondary'', 300), (''tertiary'', 600), (''graduate'', 800)]"

record score_context =
  sx_unemployed :: int
  sx_day :: int
  sx_year :: int
  sx_worked :: int
  sx_record :: int
  sx_recency :: bool

definition fit_bp :: "worker \<Rightarrow> (string, int) dict \<Rightarrow> int" where
  "fit_bp a reqs =
     (if reqs = [] then 10000
      else 10000 * (\<Sum>(s, level)\<leftarrow>reqs. min (skill_bp a s) level) div max 1 (sum_list (dvals reqs)))"

definition surplus_bp :: "worker \<Rightarrow> (string, int) dict \<Rightarrow> (string, int) dict \<Rightarrow> int" where
  "surplus_bp a weights reqs =
     (if reqs = [] then 0
      else min 2000 ((\<Sum>(s, level)\<leftarrow>reqs. dget_or weights s 0 * max 0 (skill_bp a s - level))
             div (10000 * max 1 (int (length reqs)))))"

definition match_score_bp :: "worker \<Rightarrow> vacancy_state \<Rightarrow> occupation \<Rightarrow> score_context \<Rightarrow> econ_error + int" where
  "match_score_bp a v oc c =
     (case dget edu_bonus_bp (wk_education a) of None \<Rightarrow> Inl (EcKey (wk_education a))
      | Some education \<Rightarrow>
        let experience = min 1000 (sx_worked c div max 1 (sx_year c) * 200);
            reputation = trunc (dbl (2000 * dbl (wk_reputation a - 1 / 2)));
            recency = (if sx_recency c then - min 1500 (sx_unemployed c div max 1 (sx_day c) * 5) else 0);
            criminal = - 400 * min 3 (sx_record c)
        in Inr (max 0 (min 10000 (fit_bp a (va_skills v) + surplus_bp a (oc_weights oc) (va_skills v)
             + education + experience + reputation + recency + criminal))))"

definition decay_skill_bp :: "int \<Rightarrow> int \<Rightarrow> int" where
  "decay_skill_bp level rate = max 0 (level - bp level rate)"

section \<open>Access\<close>

definition l_econ :: "('l, 'a) em \<Rightarrow> ('l, 'a) lm" where
  \<comment> \<open>a method of the economy\<close>
  "l_econ m w = (case m (lw_econ w) of Inl e \<Rightarrow> Inl e | Inr (x, e) \<Rightarrow> Inr (x, w\<lparr>lw_econ := e\<rparr>))"

definition l_emit :: "'l lab_env \<Rightarrow> int \<Rightarrow> payload \<Rightarrow> string option \<Rightarrow> string list \<Rightarrow> ('l, evt) lm" where
  "l_emit B kind pl actor subjects = l_econ (e_emit (lb_econ B) kind pl actor subjects)"

definition l_get :: "('l lab_world \<Rightarrow> (string, 'x) dict) \<Rightarrow> string \<Rightarrow> ('l, 'x) lm" where
  \<comment> \<open>\<open>table[i]\<close>\<close>
  "l_get f i = m_bind (m_read (\<lambda>w. dget (f w) i)) (\<lambda>r. case r of None \<Rightarrow> m_raise (EcKey i) | Some x \<Rightarrow> m_return x)"

definition lw_ledger :: "'l lab_world \<Rightarrow> ledger" where
  "lw_ledger w = ew_ledger (lw_econ w)"

definition lw_firms :: "'l lab_world \<Rightarrow> (string, firm_state) dict" where
  "lw_firms w = ew_firms (lw_econ w)"

definition lw_employments :: "'l lab_world \<Rightarrow> (string, employment_state) dict" where
  "lw_employments w = ew_employments (lw_econ w)"

definition on_dict :: "string \<Rightarrow> ('x \<Rightarrow> 'x) \<Rightarrow> (string, 'x) dict \<Rightarrow> (string, 'x) dict" where
  \<comment> \<open>assignments to the attributes of the object with a key\<close>
  "on_dict i f d = (case dget d i of None \<Rightarrow> d | Some x \<Rightarrow> dset i (f x) d)"

definition upd_vacancy :: "string \<Rightarrow> (vacancy_state \<Rightarrow> vacancy_state) \<Rightarrow> ('l, unit) lm" where
  "upd_vacancy i f = m_modify (\<lambda>w. w\<lparr>lw_vacancies := on_dict i f (lw_vacancies w)\<rparr>)"

definition upd_appl :: "string \<Rightarrow> (application_state \<Rightarrow> application_state) \<Rightarrow> ('l, unit) lm" where
  "upd_appl i f = m_modify (\<lambda>w. w\<lparr>lw_applications := on_dict i f (lw_applications w)\<rparr>)"

definition upd_offer :: "string \<Rightarrow> (offer_state \<Rightarrow> offer_state) \<Rightarrow> ('l, unit) lm" where
  "upd_offer i f = m_modify (\<lambda>w. w\<lparr>lw_offers := on_dict i f (lw_offers w)\<rparr>)"

definition upd_worker :: "string \<Rightarrow> (worker \<Rightarrow> worker) \<Rightarrow> ('l, unit) lm" where
  "upd_worker i f = m_modify (\<lambda>w. w\<lparr>lw_workers := on_dict i f (lw_workers w)\<rparr>)"

definition upd_firm :: "string \<Rightarrow> (firm_state \<Rightarrow> firm_state) \<Rightarrow> ('l, unit) lm" where
  "upd_firm i f = l_econ (m_modify (\<lambda>e. e\<lparr>ew_firms := on_dict i f (ew_firms e)\<rparr>))"

definition upd_employment :: "string \<Rightarrow> (employment_state \<Rightarrow> employment_state) \<Rightarrow> ('l, unit) lm" where
  "upd_employment i f = l_econ (m_modify (\<lambda>e. e\<lparr>ew_employments := on_dict i f (ew_employments e)\<rparr>))"

definition agent_row :: "string \<Rightarrow> 'l lab_world \<Rightarrow> agent_view option" where
  "agent_row i w = find (\<lambda>a. av_id a = i) (ew_agents (lw_econ w))"

definition l_agent :: "string \<Rightarrow> ('l, agent_view) lm" where
  \<comment> \<open>\<open>population[i]\<close>\<close>
  "l_agent i = m_bind (m_read (agent_row i)) (\<lambda>r. case r of None \<Rightarrow> m_raise (EcKey i) | Some a \<Rightarrow> m_return a)"

definition set_status :: "string \<Rightarrow> string \<Rightarrow> ('l, unit) lm" where
  \<comment> \<open>\<open>population[i].employment_status = s\<close>\<close>
  "set_status i s = m_bind (l_agent i) (\<lambda>_. l_econ (m_modify (\<lambda>e. e\<lparr>ew_agents :=
     map (\<lambda>a. if av_id a = i then a\<lparr>av_employment := s\<rparr> else a) (ew_agents e)\<rparr>)))"

definition count_of :: "('x \<Rightarrow> bool) \<Rightarrow> (string, 'x) dict \<Rightarrow> int" where
  "count_of P d = int (length (filter P (dvals d)))"

section \<open>What an agent sees\<close>

definition agent_place :: "string option \<Rightarrow> worker \<Rightarrow> string" where
  \<comment> \<open>\<open>place_id or home_place_id\<close>\<close>
  "agent_place location a = (case location of None \<Rightarrow> wk_home a | Some p \<Rightarrow> if p = [] then wk_home a else p)"

definition l_district :: "'l lab_env \<Rightarrow> string \<Rightarrow> ('l, string) lm" where
  "l_district B p = m_res (case lb_district B p of None \<Rightarrow> Inl (EcKey p) | Some d \<Rightarrow> Inr d)"

definition visibility_slice :: "'l lab_env \<Rightarrow> string \<Rightarrow> int \<Rightarrow> int \<Rightarrow> ('l, vacancy_state list) lm" where
  "visibility_slice B i tick limit =
     m_bind (l_get lw_places i) (\<lambda>location.
     m_bind (l_get lw_workers i) (\<lambda>a.
     m_bind (l_district B (agent_place location a)) (\<lambda>current.
     m_bind (l_district B (wk_home a)) (\<lambda>home.
     m_bind (m_read (\<lambda>w. filter (\<lambda>v. va_status v = ''open'' \<and> 0 < va_headcount v \<and> tick < va_expires v)
         (dvals (lw_vacancies w)))) (\<lambda>rows.
     let near = (\<lambda>v. va_district v = current \<or> va_district v = home);
         ordered = sort_key (\<lambda>v. (va_firm v, va_id v)) in
     l_econ (\<lambda>e. let (g, reg) = rng_get (ee_digest (lb_econ B)) ''labour.visibility'' i (Some tick) (ew_rng e) in
       case shuffle (ee_digest (lb_econ B)) (ordered (filter near rows)) g of Inl x \<Rightarrow> Inl (EcRng x)
       | Inr (first, g1) \<Rightarrow>
         (case shuffle (ee_digest (lb_econ B)) (ordered (filter (\<lambda>v. \<not> near v) rows)) g1 of Inl x \<Rightarrow> Inl (EcRng x)
          | Inr (second, g2) \<Rightarrow> Inr (take (nat (max 0 limit)) (first @ second), e\<lparr>ew_rng := reg\<rparr>))))))))"

section \<open>The labour force\<close>

definition active_at :: "int \<Rightarrow> employment_state \<Rightarrow> bool" where
  "active_at tick r \<longleftrightarrow> em_started r \<le> tick \<and> (case em_ended r of None \<Rightarrow> True | Some t \<Rightarrow> tick < t)"

definition active_employment :: "string \<Rightarrow> int \<Rightarrow> 'l lab_world \<Rightarrow> employment_state option" where
  "active_employment i tick w = find (\<lambda>r. em_agent r = i \<and> active_at tick r) (dvals (lw_employments w))"

definition of_age :: "int \<Rightarrow> agent_view \<Rightarrow> bool" where
  "of_age retirement a \<longleftrightarrow> av_alive a \<and> 18 \<le> av_age a \<and> av_age a < retirement"

definition labour_force :: "int \<Rightarrow> int \<Rightarrow> int \<Rightarrow> 'l lab_world \<Rightarrow> labour_force" where
  "labour_force tick window retirement w =
     (let eligible = filter (of_age retirement) (ew_agents (lw_econ w));
          hired = (\<lambda>i. list_ex (\<lambda>r. em_agent r = i \<and> active_at tick r) (dvals (lw_employments w)));
          self = (\<lambda>a. av_employment a = ''self_employed'');
          employed = sort (map av_id (filter (\<lambda>a. hired (av_id a) \<or> self a) eligible));
          searched = (\<lambda>i. list_ex (\<lambda>r. ap_agent r = i \<and> 0 \<le> tick - ap_submitted r \<and> tick - ap_submitted r \<le> window)
            (dvals (lw_applications w)));
          unemployed = sort (map av_id (filter (\<lambda>a. \<not> hired (av_id a) \<and> \<not> self a
            \<and> av_employment a \<notin> set [''child'', ''student'', ''retired'', ''dead''] \<and> searched (av_id a)) eligible));
          nilf = sort (map av_id (filter (\<lambda>a. av_id a \<notin> set employed \<and> av_id a \<notin> set unemployed) eligible));
          labour_n = int (length employed) + int (length unemployed);
          unemployment = 10000 * int (length unemployed) div max 1 labour_n;
          open_headcount = (\<Sum>v\<leftarrow>filter (\<lambda>v. va_status v = ''open'' \<and> 0 < va_headcount v) (dvals (lw_vacancies w)). va_headcount v)
      in \<lparr>lf_employed = employed, lf_unemployed = unemployed, lf_nilf = nilf, lf_unemployment = unemployment,
          lf_marginal = unemployment, lf_broad = unemployment,
          lf_participation = 10000 * labour_n div max 1 (int (length eligible)),
          lf_vacancy_rate = 10000 * open_headcount div max 1 (open_headcount + int (length employed))\<rparr>)"

section \<open>Tax and redundancy\<close>

fun bracket_tax :: "int \<Rightarrow> (int \<times> int) list \<Rightarrow> int" where
  \<comment> \<open>the loop over the sorted brackets\<close>
  "bracket_tax annual [] = 0"
| "bracket_tax annual [(low, rate)] = bp (max 0 (min annual annual - low)) rate"
| "bracket_tax annual ((low, rate) # (high, r) # rest) =
     bp (max 0 (min annual high - low)) rate
       + (if annual \<le> high then 0 else bracket_tax annual ((high, r) # rest))"

definition progressive_income_tax_cents :: "int \<Rightarrow> (int \<times> int) list \<Rightarrow> int \<Rightarrow> int" where
  \<comment> \<open>the number of periods in a year is positive\<close>
  "progressive_income_tax_cents gross brackets periods =
     (if gross \<le> 0 then 0 else bracket_tax (gross * periods) (sort brackets) div periods)"

fun isqrt_nat :: "nat \<Rightarrow> nat" where
  "isqrt_nat n = (if n = 0 then 0 else
     let r = 2 * isqrt_nat (n div 4) in if (r + 1) * (r + 1) \<le> n then r + 1 else r)"

definition isqrt :: "int \<Rightarrow> int" where
  \<comment> \<open>\<open>math.isqrt\<close> of a non-negative number\<close>
  "isqrt n = int (isqrt_nat (nat n))"

definition redundancy_order :: "int \<Rightarrow> employment_state list \<Rightarrow> employment_state list" where
  "redundancy_order tick rows =
     sort_key (\<lambda>r. (em_match_score r * isqrt (max 1 (tick - em_started r + 1)), em_started r, em_id r)) rows"

declare isqrt_nat.simps [simp del]

end
