(* ===== verification/Labour_Market.thy ===== *)
theory Labour_Market
  imports Labour
begin

text \<open>
  \<open>polis/economy/labour.py\<close>, the class \<open>LabourMarket\<close> up to payroll: vacancies, applications, screening,
  offers, hires, work and expiry, and \<open>resolve\<close>, which takes the actions of a tick in the code's order.
  The parameters of an action are typed as its schema types them. A vacancy, an application, an offer
  and an employment are named by the keys of their tables.
\<close>

section \<open>Actions\<close>

datatype labour_request =
    Work string "int option"
      \<comment> \<open>employment and effort\<close>
  | PostVacancy string string int int
      \<comment> \<open>firm, occupation, wage offer and headcount\<close>
  | ApplyForJob string "int option"
      \<comment> \<open>vacancy and asked wage\<close>
  | MakeOffer string int
      \<comment> \<open>application and wage\<close>
  | AcceptOffer string
  | NegotiateWage | DeclineOffer | QuitJob | FireEmployee

datatype labour_kind =
    KWork | KPostVacancy | KApplyForJob | KMakeOffer | KNegotiateWage | KAcceptOffer | KDeclineOffer | KQuitJob | KFireEmployee

fun kind_of :: "labour_request \<Rightarrow> labour_kind" where
  "kind_of (Work _ _) = KWork"
| "kind_of (PostVacancy _ _ _ _) = KPostVacancy"
| "kind_of (ApplyForJob _ _) = KApplyForJob"
| "kind_of (MakeOffer _ _) = KMakeOffer"
| "kind_of (AcceptOffer _) = KAcceptOffer"
| "kind_of NegotiateWage = KNegotiateWage"
| "kind_of DeclineOffer = KDeclineOffer"
| "kind_of QuitJob = KQuitJob"
| "kind_of FireEmployee = KFireEmployee"

record labour_action =
  ax_actor :: string
  ax_id :: string
  ax_request :: labour_request

section \<open>Vacancies and applications\<close>

definition post_vacancy :: "'l lab_env \<Rightarrow> string \<Rightarrow> string \<Rightarrow> string \<Rightarrow> int \<Rightarrow> int \<Rightarrow> int \<Rightarrow> ('l, evt list) lm" where
  "post_vacancy B actor firm_id occ wage_offer headcount tick =
     m_bind (m_read (\<lambda>w. dget (lw_firms w) firm_id)) (\<lambda>firm.
     case (firm, dget (lb_occupations B) occ) of
       (Some f, Some oc) \<Rightarrow>
         if fm_status f \<noteq> ''active'' then m_return []
         else
         m_bind (m_read (\<lambda>w. count_of (\<lambda>v. va_status v = ''open'' \<and> va_firm v = firm_id) (lw_vacancies w))) (\<lambda>open_count.
         if lb_max_vacancies B \<le> open_count then m_return []
         else
         let wage = max (lb_min_wage B) wage_offer; day = ee_ticks_per_day (lb_econ B) in
         m_bind (m_read (\<lambda>w. count_of (\<lambda>v. va_posted v = tick) (lw_vacancies w))) (\<lambda>ordinal.
         m_bind (l_econ (e_mint ''vac'' tick ordinal)) (\<lambda>i.
         m_bind (l_district B (fm_place f)) (\<lambda>district.
         let v = \<lparr>va_id = i, va_firm = firm_id, va_occupation = occ, va_skills = oc_requirements oc, va_wage = wage,
               va_headcount = headcount, va_posted = tick, va_expires = tick + lb_vacancy_days B * day, va_district = district,
               va_min_score = lb_min_score B, va_status = ''open'', va_applicants = 0\<rparr> in
         m_then (m_modify (\<lambda>w. w\<lparr>lw_vacancies := dset i v (lw_vacancies w)\<rparr>))
         (m_bind (l_emit B 5001 [(''vacancy_id'', JStr i), (''firm_id'', JStr firm_id), (''occupation'', JStr occ),
             (''skill_reqs'', JObj (map (\<lambda>(s, x). (s, JInt x)) (va_skills v))), (''wage_offer_cents'', JInt wage),
             (''headcount'', JInt headcount), (''posted_tick'', JInt tick), (''expires_tick'', JInt (va_expires v)),
             (''district_id'', JStr district)] (Some actor) [firm_id]) (\<lambda>ev. m_return [ev]))))))
     | _ \<Rightarrow> m_return [])"

definition pending_states :: "string list" where
  "pending_states = [''pending'', ''shortlisted'', ''offered'']"

definition asked_wage :: "int option \<Rightarrow> vacancy_state \<Rightarrow> int" where
  \<comment> \<open>\<open>params.get("asked_wage_cents") or vacancy.wage_offer_cents\<close>\<close>
  "asked_wage asked v = (case asked of None \<Rightarrow> va_wage v | Some x \<Rightarrow> if x = 0 then va_wage v else x)"

definition store_application :: "application_state \<Rightarrow> 'l lab_world \<Rightarrow> 'l lab_world" where
  "store_application r w =
     (let rows = dset (ap_id r) r (lw_applications w)
      in w\<lparr>lw_applications := rows,
           lw_econ := lw_econ w\<lparr>ew_job_applications := map (\<lambda>r. (ap_agent r, ap_submitted r)) (dvals rows)\<rparr>\<rparr>)"

definition apply_for_job :: "'l lab_env \<Rightarrow> string \<Rightarrow> string \<Rightarrow> int option \<Rightarrow> int \<Rightarrow> ('l, evt list) lm" where
  "apply_for_job B actor vacancy_id asked tick =
     m_bind (m_read (\<lambda>w. dget (lw_vacancies w) vacancy_id)) (\<lambda>found.
     case found of None \<Rightarrow> m_return []
     | Some v \<Rightarrow>
       if va_status v \<noteq> ''open'' \<or> va_headcount v \<le> 0 then m_return []
       else
       m_bind (m_read (active_employment actor tick)) (\<lambda>job.
       if job \<noteq> None then m_return []
       else
       m_bind (m_read (\<lambda>w. count_of (\<lambda>r. ap_agent r = actor \<and> ap_status r \<in> set pending_states) (lw_applications w))) (\<lambda>open_applications.
       if lb_max_applications B \<le> open_applications then m_return []
       else
       m_bind (m_read (\<lambda>w. list_ex (\<lambda>r. ap_agent r = actor \<and> ap_vacancy r = vacancy_id
           \<and> (ap_status r \<in> set pending_states \<or> ap_status r = ''hired'')) (dvals (lw_applications w)))) (\<lambda>again.
       if again then m_return []
       else
       m_bind (m_read (\<lambda>w. count_of (\<lambda>r. ap_submitted r = tick) (lw_applications w))) (\<lambda>ordinal.
       m_bind (l_econ (e_mint ''app'' tick ordinal)) (\<lambda>i.
       let x = asked_wage asked v in
       m_then (m_modify (store_application \<lparr>ap_id = i, ap_vacancy = vacancy_id, ap_agent = actor, ap_asked = x,
           ap_submitted = tick, ap_status = ''pending'', ap_score = None, ap_rank = None\<rparr>))
       (m_then (upd_vacancy vacancy_id (\<lambda>v. v\<lparr>va_applicants := va_applicants v + 1\<rparr>))
       (m_bind (l_emit B 5003 [(''application_id'', JStr i), (''vacancy_id'', JStr vacancy_id), (''agent_id'', JStr actor),
           (''asked_wage_cents'', JInt x), (''referral_id'', JNull)] (Some actor) [va_firm v]) (\<lambda>ev. m_return [ev])))))))))"

section \<open>Screening\<close>

definition candidate_signature :: "worker \<Rightarrow> int list \<times> string \<times> int \<times> int \<times> (string \<times> rat) list" where
  "candidate_signature a =
     (map (skill_bp a) skill_names, wk_education a, half_even (dbl (wk_reputation a * 10000)),
      half_even (dbl (wk_age a * 100)), wk_traits a)"

definition screen_context :: "'l lab_env \<Rightarrow> int \<Rightarrow> application_state \<Rightarrow> score_context" where
  "screen_context B tick r = \<lparr>sx_unemployed = max 0 (tick - ap_submitted r), sx_day = ee_ticks_per_day (lb_econ B),
     sx_year = ticks_per_year (lb_econ B), sx_worked = 0, sx_record = 0, sx_recency = lb_recency_on B\<rparr>"

definition score_all :: "'l lab_env \<Rightarrow> vacancy_state \<Rightarrow> occupation \<Rightarrow> int \<Rightarrow> application_state list \<Rightarrow> ('l, (int \<times> application_state) list) lm" where
  "score_all B v oc tick = m_for (\<lambda>r.
     m_bind (l_get lw_workers (ap_agent r)) (\<lambda>a.
     m_bind (m_res (match_score_bp a v oc (screen_context B tick r))) (\<lambda>s. m_return [(s, r)])))"

definition screened :: "int \<Rightarrow> int \<Rightarrow> bool \<Rightarrow> application_state \<Rightarrow> application_state" where
  "screened score rank chosen r =
     r\<lparr>ap_score := Some score, ap_rank := Some rank, ap_status := (if chosen then ''shortlisted'' else ''rejected'')\<rparr>"

definition screen_one :: "'l lab_env \<Rightarrow> vacancy_state \<Rightarrow> nat \<times> int \<times> application_state \<Rightarrow> ('l, string list) lm" where
  "screen_one B v = (\<lambda>(rank, score, r).
     let chosen = va_min_score v \<le> score \<and> int rank \<le> va_headcount v * lb_shortlist B in
     m_then (upd_appl (ap_id r) (screened score (int rank) chosen))
     (m_bind (l_emit B 5004 [(''application_id'', JStr (ap_id r)), (''match_score_bp'', JInt score), (''rank'', JInt (int rank)),
         (''shortlisted'', JBool chosen), (''reject_reason'', if chosen then JNull else JStr ''below_threshold_or_rank'')]
         (Some (va_firm v)) [ap_agent r]) (\<lambda>_. m_return (if chosen then [ap_id r] else []))))"

definition shuffled_by :: "'l lab_env \<Rightarrow> string \<Rightarrow> string \<Rightarrow> int \<Rightarrow> 'x list \<Rightarrow> ('l, 'x list) lm" where
  \<comment> \<open>\<open>rng.get(namespace, entity, tick).shuffle(xs)\<close>\<close>
  "shuffled_by B namespace entity tick xs = l_econ (\<lambda>e.
     let (g, reg) = rng_get (ee_digest (lb_econ B)) namespace entity (Some tick) (ew_rng e)
     in case shuffle (ee_digest (lb_econ B)) xs g of Inl x \<Rightarrow> Inl (EcRng x) | Inr (ys, _) \<Rightarrow> Inr (ys, e\<lparr>ew_rng := reg\<rparr>))"

definition by_score :: "(int \<times> application_state) list \<Rightarrow> (int \<times> application_state) list" where
  "by_score rows = sort_key (\<lambda>(s, _). - s) rows"

definition pending_for :: "string \<Rightarrow> 'l lab_world \<Rightarrow> application_state list" where
  "pending_for i w = filter (\<lambda>r. ap_vacancy r = i \<and> ap_status r = ''pending'') (dvals (lw_applications w))"

definition screen_vacancy :: "'l lab_env \<Rightarrow> int \<Rightarrow> string \<Rightarrow> ('l, string list) lm" where
  \<comment> \<open>the result names the applications that are shortlisted\<close>
  "screen_vacancy B tick i =
     m_bind (l_get lw_vacancies i) (\<lambda>v.
     m_bind (m_read (pending_for i)) (\<lambda>pending.
     if pending = [] \<or> va_status v \<noteq> ''open'' then m_return []
     else case dget (lb_occupations B) (va_occupation v) of None \<Rightarrow> m_raise (EcKey (va_occupation v))
     | Some oc \<Rightarrow>
       m_bind (m_for (\<lambda>r. m_bind (l_get lw_workers (ap_agent r)) (\<lambda>a. m_return [(candidate_signature a, r)])) pending) (\<lambda>signed.
       m_bind (shuffled_by B ''labour.screen'' i tick (map snd (sort_key fst signed))) (\<lambda>candidates.
       m_bind (score_all B v oc tick candidates) (\<lambda>scored.
       m_for (screen_one B v) (enumerate 1 (by_score scored)))))))"

definition screening_order :: "'l lab_world \<Rightarrow> string list" where
  "screening_order w = map va_id (sort_key (\<lambda>v. (va_firm v, va_id v)) (dvals (lw_vacancies w)))"

definition screen_pending :: "'l lab_env \<Rightarrow> int \<Rightarrow> ('l, string list) lm" where
  "screen_pending B tick = m_bind (m_read screening_order) (m_for (screen_vacancy B tick))"

section \<open>Offers and hires\<close>

definition offered_wage :: "'l lab_env \<Rightarrow> string \<Rightarrow> int \<Rightarrow> int" where
  "offered_wage B agent wage_cents =
     (let wage = max (lb_min_wage B) wage_cents
      in case lb_multiplier B of None \<Rightarrow> wage
         | Some m \<Rightarrow> max (lb_min_wage B) (half_even (dbl (dbl (of_int wage) * m agent))))"

definition make_offer :: "'l lab_env \<Rightarrow> string \<Rightarrow> string \<Rightarrow> int \<Rightarrow> int \<Rightarrow> ('l, evt list) lm" where
  "make_offer B actor application_id wage_cents tick =
     m_bind (m_read (\<lambda>w. dget (lw_applications w) application_id)) (\<lambda>found.
     case found of None \<Rightarrow> m_return []
     | Some r \<Rightarrow>
       if ap_status r \<noteq> ''shortlisted'' then m_return []
       else
       m_bind (l_get lw_vacancies (ap_vacancy r)) (\<lambda>v.
       if va_status v \<noteq> ''open'' \<or> va_headcount v \<le> 0 then m_return []
       else
       m_bind (m_read (\<lambda>w. list_ex (\<lambda>x. of_application x = application_id \<and> of_status x = ''open'') (dvals (lw_offers w)))) (\<lambda>again.
       if again then m_return []
       else
       m_bind (m_read (\<lambda>w. count_of (\<lambda>x. of_made x = tick) (lw_offers w))) (\<lambda>ordinal.
       m_bind (l_econ (e_mint ''off'' tick ordinal)) (\<lambda>i.
       let wage = offered_wage B (ap_agent r) wage_cents;
           expires = tick + lb_offer_days B * ee_ticks_per_day (lb_econ B) in
       m_then (m_modify (\<lambda>w. w\<lparr>lw_offers := dset i \<lparr>of_id = i, of_application = application_id, of_vacancy = va_id v,
           of_firm = va_firm v, of_agent = ap_agent r, of_wage = wage, of_occupation = va_occupation v, of_made = tick,
           of_expires = expires, of_status = ''open''\<rparr> (lw_offers w)\<rparr>))
       (m_then (upd_appl application_id (\<lambda>r. r\<lparr>ap_status := ''offered''\<rparr>))
       (m_bind (l_emit B 5005 [(''offer_id'', JStr i), (''vacancy_id'', JStr (va_id v)), (''firm_id'', JStr (va_firm v)),
           (''agent_id'', JStr (ap_agent r)), (''wage_cents'', JInt wage), (''occupation'', JStr (va_occupation v)),
           (''expires_tick'', JInt expires)] (Some actor) [ap_agent r]) (\<lambda>ev. m_return [ev]))))))))"

definition expire_offer :: "'l lab_env \<Rightarrow> offer_state \<Rightarrow> ('l, evt list) lm" where
  "expire_offer B x =
     m_then (upd_offer (of_id x) (\<lambda>x. x\<lparr>of_status := ''expired''\<rparr>))
     (m_bind (l_emit B 5008 [(''offer_id'', JStr (of_id x)), (''agent_id'', JStr (of_agent x))] (Some (of_firm x)) [of_agent x])
       (\<lambda>ev. m_return [ev]))"

definition withdraw_others :: "string \<Rightarrow> string \<Rightarrow> application_state \<Rightarrow> application_state" where
  "withdraw_others agent chosen r =
     (if ap_agent r = agent \<and> ap_id r \<noteq> chosen \<and> ap_status r \<in> set pending_states
      then r\<lparr>ap_status := ''withdrawn''\<rparr> else r)"

definition new_employment :: "string \<Rightarrow> offer_state \<Rightarrow> application_state \<Rightarrow> int \<Rightarrow> employment_state" where
  "new_employment i x r tick =
     \<lparr>em_id = i, em_agent = of_agent x, em_firm = of_firm x, em_occupation = of_occupation x, em_wage = of_wage x,
      em_started = tick + 1, em_match_score = (case ap_score r of None \<Rightarrow> 0 | Some s \<Rightarrow> s), em_ended = None, em_hours = 10000,
      em_accrued = 0, em_remainder = 0, em_paid = 0, em_last_worked = None, em_last_labour = 0\<rparr>"

definition hire :: "'l lab_env \<Rightarrow> offer_state \<Rightarrow> string \<Rightarrow> application_state \<Rightarrow> int \<Rightarrow> ('l, evt list) lm" where
  \<comment> \<open>the changes of \<open>_accept_offer\<close> once the identifier and the application are known\<close>
  "hire B x i r tick =
     (let job = new_employment i x r tick in
      m_then (l_econ (m_modify (\<lambda>e. e\<lparr>ew_employments := dset i job (ew_employments e)\<rparr>)))
      (m_then (upd_offer (of_id x) (\<lambda>x. x\<lparr>of_status := ''accepted''\<rparr>))
      (m_then (upd_appl (ap_id r) (\<lambda>r. r\<lparr>ap_status := ''hired''\<rparr>))
      (m_then (upd_vacancy (of_vacancy x) (\<lambda>v. v\<lparr>va_headcount := va_headcount v - 1\<rparr>))
      (m_bind (l_get lw_firms (of_firm x)) (\<lambda>_.
      m_then (upd_firm (of_firm x) (\<lambda>f. f\<lparr>fm_headcount := fm_headcount f + 1\<rparr>))
      (m_then (upd_vacancy (of_vacancy x) (\<lambda>v. if va_headcount v = 0 then v\<lparr>va_status := ''filled''\<rparr> else v))
      (m_then (m_modify (\<lambda>w. w\<lparr>lw_applications := map (\<lambda>(k, y). (k, withdraw_others (of_agent x) (ap_id r) y)) (lw_applications w)\<rparr>))
      (m_then (set_status (of_agent x) ''employed'')
      (m_bind (l_emit B 5006 [(''offer_id'', JStr (of_id x)), (''employment_id'', JStr i), (''wage_cents'', JInt (of_wage x))]
          (Some (of_agent x)) [of_firm x]) (\<lambda>ev1.
      m_bind (l_emit B 5010 [(''agent_id'', JStr (of_agent x)), (''firm_id'', JStr (of_firm x)), (''employment_id'', JStr i),
          (''occupation'', JStr (of_occupation x)), (''wage_cents'', JInt (of_wage x)), (''match_score_bp'', JInt (em_match_score job)),
          (''search_duration_ticks'', JInt (tick - ap_submitted r))] (Some (of_firm x)) [of_agent x]) (\<lambda>ev2.
      m_bind (l_emit B 5042 [(''agent_id'', JStr (of_agent x)), (''duration_ticks'', JInt (tick - ap_submitted r)), (''exit'', JStr ''job''),
          (''new_wage_cents'', JInt (of_wage x)), (''wage_change_bp'', JInt 0)] (Some (of_agent x)) []) (\<lambda>ev3.
      m_return [ev1, ev2, ev3])))))))))))))"

definition first_application :: "offer_state \<Rightarrow> 'l lab_world \<Rightarrow> application_state option" where
  "first_application x w = find (\<lambda>r. ap_vacancy r = of_vacancy x \<and> ap_agent r = of_agent x) (dvals (lw_applications w))"

definition accept_offer :: "'l lab_env \<Rightarrow> string \<Rightarrow> string \<Rightarrow> int \<Rightarrow> ('l, evt list) lm" where
  "accept_offer B actor offer_id tick =
     m_bind (m_read (\<lambda>w. dget (lw_offers w) offer_id)) (\<lambda>found.
     case found of None \<Rightarrow> m_return []
     | Some x \<Rightarrow>
       if of_status x \<noteq> ''open'' \<or> of_agent x \<noteq> actor \<or> tick \<le> of_made x \<or> of_expires x < tick then m_return []
       else
       m_bind (l_agent (of_agent x)) (\<lambda>a.
       if \<not> av_alive a then expire_offer B x
       else
       m_bind (l_get lw_vacancies (of_vacancy x)) (\<lambda>v.
       if va_status v \<noteq> ''open'' \<or> va_headcount v \<le> 0 then expire_offer B x
       else
       m_bind (m_read (\<lambda>w. count_of (\<lambda>r. em_started r = tick + 1) (lw_employments w))) (\<lambda>ordinal.
       m_bind (l_econ (e_mint ''emp'' (tick + 1) ordinal)) (\<lambda>i.
       m_bind (m_read (first_application x)) (\<lambda>found.
       case found of None \<Rightarrow> m_raise EcStopIteration
       | Some r \<Rightarrow> hire B x i r tick))))))"

section \<open>Work\<close>

definition effort_bp :: "worker \<Rightarrow> int option \<Rightarrow> int" where
  "effort_bp a requested =
     max 0 (min (case requested of None \<Rightarrow> 10000 | Some x \<Rightarrow> x)
       (min (trunc (dbl (wk_health a * 10000))) (trunc (dbl (wk_energy a * 10000)))))"

definition pay_scale :: "'l lab_env \<Rightarrow> int" where
  \<comment> \<open>\<open>10_000 * max(1, pay_period_ticks)\<close>\<close>
  "pay_scale B = 10000 * max 1 (14 * ee_ticks_per_day (lb_econ B))"

definition worked :: "'l lab_env \<Rightarrow> int \<Rightarrow> int \<Rightarrow> employment_state \<Rightarrow> employment_state" where
  \<comment> \<open>the wage accrued by a tick of work\<close>
  "worked B tick labour r =
     (let numerator = em_wage r * em_hours r + em_remainder r
      in r\<lparr>em_remainder := numerator mod pay_scale B, em_accrued := em_accrued r + numerator div pay_scale B,
           em_last_worked := Some tick, em_last_labour := labour\<rparr>)"

definition learn :: "rat \<Rightarrow> int \<Rightarrow> rat" where
  \<comment> \<open>the level of a skill after a tick of work\<close>
  "learn before intensity = min 1 (dbl (before + dbl (dbl (of_int intensity / 10000) * dbl (5 / 100000))))"

definition practise :: "string \<Rightarrow> int \<Rightarrow> string \<times> int \<Rightarrow> ('l, (string \<times> rat) list) lm" where
  \<comment> \<open>one turn of the loop over the skills of the occupation, with the difference it reports\<close>
  "practise i tick = (\<lambda>(s, intensity).
     m_bind (l_get lw_workers i) (\<lambda>a.
     case dget (wk_skills a) s of None \<Rightarrow> m_raise (EcKey s)
     | Some before \<Rightarrow>
       let level = learn before intensity in
       m_then (upd_worker i (\<lambda>a. a\<lparr>wk_skills := dset s level (wk_skills a)\<rparr>))
       (m_then (m_modify (\<lambda>w. w\<lparr>lw_skill_used := dset i (dset s tick (dget_or (lw_skill_used w) i [])) (lw_skill_used w)\<rparr>))
       (m_return [(s, round_places 8 (dbl (level - before)))]))))"

definition work :: "'l lab_env \<Rightarrow> string \<Rightarrow> string \<Rightarrow> int option \<Rightarrow> int \<Rightarrow> ('l, evt list) lm" where
  "work B actor employment_id requested tick =
     m_bind (m_read (\<lambda>w. dget (lw_employments w) employment_id)) (\<lambda>found.
     case found of None \<Rightarrow> m_return []
     | Some r \<Rightarrow>
       if em_agent r \<noteq> actor \<or> tick < em_started r \<or> em_ended r \<noteq> None then m_return []
       else
       m_bind (l_get lw_workers actor) (\<lambda>a.
       case dget (lb_occupations B) (em_occupation r) of None \<Rightarrow> m_raise (EcKey (em_occupation r))
       | Some oc \<Rightarrow>
         let effort = effort_bp a requested;
             labour = em_hours r * effort * skill_value_bp a oc div 100000000 in
         m_then (upd_employment employment_id (worked B tick labour))
         (m_bind (m_for (practise actor tick) (oc_intensity oc)) (\<lambda>deltas.
         m_bind (l_emit B 5020 [(''employment_id'', JStr employment_id), (''agent_id'', JStr actor), (''firm_id'', JStr (em_firm r)),
             (''hours_bp'', JInt (em_hours r)), (''effort_bp'', JInt effort), (''effective_labour_bp'', JInt labour),
             (''skill_deltas'', JObj (map (\<lambda>(s, x). (s, JFloat (lb_repr B x))) deltas))] (Some actor) [em_firm r])
           (\<lambda>ev. m_return [ev])))))"

section \<open>Expiry and the actions of a tick\<close>

definition expire_offers :: "'l lab_env \<Rightarrow> int \<Rightarrow> ('l, evt list) lm" where
  "expire_offers B tick = m_bind (m_read (\<lambda>w. sort (dkeys (lw_offers w)))) (m_for (\<lambda>i.
     m_bind (l_get lw_offers i) (\<lambda>x.
     if of_status x = ''open'' \<and> of_expires x < tick then expire_offer B x else m_return [])))"

definition close_vacancy :: "'l lab_env \<Rightarrow> int \<Rightarrow> string \<Rightarrow> ('l, evt list) lm" where
  "close_vacancy B tick i =
     m_bind (l_get lw_vacancies i) (\<lambda>v.
     if va_status v = ''open'' \<and> va_expires v \<le> tick then
       m_then (upd_vacancy i (\<lambda>v. v\<lparr>va_status := ''expired''\<rparr>))
       (m_bind (l_emit B 5002 [(''vacancy_id'', JStr i), (''reason'', JStr ''expired''), (''applicants_n'', JInt (va_applicants v)),
           (''days_open'', JInt ((tick - va_posted v) div max 1 (ee_ticks_per_day (lb_econ B))))] (Some (va_firm v)) [])
         (\<lambda>ev. m_return [ev]))
     else m_return [])"

definition expire :: "'l lab_env \<Rightarrow> int \<Rightarrow> ('l, evt list) lm" where
  "expire B tick = m_extend [expire_offers B tick,
     m_bind (m_read (\<lambda>w. sort (dkeys (lw_vacancies w)))) (m_for (close_vacancy B tick))]"

fun resolve_one :: "'l lab_env \<Rightarrow> int \<Rightarrow> labour_action \<Rightarrow> ('l, evt list) lm" where
  "resolve_one B tick a = (case ax_request a of
     PostVacancy f oc wage headcount \<Rightarrow> post_vacancy B (ax_actor a) f oc wage headcount tick
   | ApplyForJob v asked \<Rightarrow> apply_for_job B (ax_actor a) v asked tick
   | MakeOffer r wage \<Rightarrow> make_offer B (ax_actor a) r wage tick
   | AcceptOffer x \<Rightarrow> accept_offer B (ax_actor a) x tick
   | Work e effort \<Rightarrow> work B (ax_actor a) e effort tick
   | _ \<Rightarrow> m_return [])"

definition action_order :: "labour_kind list" where
  "action_order = [KWork, KPostVacancy, KApplyForJob, KMakeOffer, KNegotiateWage, KAcceptOffer, KDeclineOffer, KQuitJob, KFireEmployee]"

definition batch_of :: "labour_action list \<Rightarrow> labour_kind \<Rightarrow> labour_action list" where
  "batch_of actions k = sort_key (\<lambda>a. (ax_actor a, ax_id a)) (filter (\<lambda>a. kind_of (ax_request a) = k) actions)"

definition resolve_labour :: "'l lab_env \<Rightarrow> labour_action list \<Rightarrow> int \<Rightarrow> ('l, evt list) lm" where
  "resolve_labour B actions tick = m_for (\<lambda>k. m_for (resolve_one B tick) (batch_of actions k)) action_order"

declare resolve_one.simps [simp del]

end
