(* ===== verification/Payroll.thy ===== *)
theory Payroll
  imports Labour_Market
begin

text \<open>
  \<open>polis/economy/labour.py\<close>, the rest of the class \<open>LabourMarket\<close>: payroll, the layoffs that follow a
  shortfall, the decay of unused skills and the summary of a tick. A firm and an employment are named
  by the keys of their tables; a day has a positive number of ticks.
\<close>

section \<open>Accounts and legs\<close>

definition treasury_deposit :: string where
  "treasury_deposit = ''dep:gv_treasury@bk_cb''"

definition open_deposit :: "string \<Rightarrow> ledger \<Rightarrow> string option" where
  \<comment> \<open>the first open deposit account among \<open>accounts_of(owner)\<close>, whose identifiers all parse\<close>
  "open_deposit ow l = find (\<lambda>v. (case parse_account_id v of Inr (c, _) \<Rightarrow> c = Dep | Inl _ \<Rightarrow> False) \<and> is_open l v) (accounts_of l ow)"

definition wage_deposit :: "string \<Rightarrow> int \<Rightarrow> ('l, string) em" where
  \<comment> \<open>a \<open>LedgerError\<close> of the market's own is its text\<close>
  "wage_deposit ow tick =
     m_bind (e_ledger (open_deposit ow)) (\<lambda>found.
     case found of Some v \<Rightarrow> m_return v
     | None \<Rightarrow>
       m_bind (m_read active_banks) (\<lambda>bs.
       case sort (map bk_id bs) of
         [] \<Rightarrow> m_raise (EcValue ''payroll cannot open a deposit without an active commercial bank'')
       | b # _ \<Rightarrow> e_open Dep ow ''agent'' (Some b) None tick))"

definition combine_legs :: "leg list \<Rightarrow> leg list" where
  "combine_legs legs =
     (let totals = fold (\<lambda>g t. let k = (leg_account g, leg_direction g, leg_reason g)
        in dset k (dget_or t k 0 + leg_amount g) t) legs []
      in map (\<lambda>((a, d, r), x). mk_leg a d x r) (filter (\<lambda>(_, x). x \<noteq> 0) (sort totals)))"

definition transfer_if :: "string \<Rightarrow> string \<Rightarrow> int \<Rightarrow> string \<Rightarrow> ('l, leg list) em" where
  "transfer_if source target x reason = (if x = 0 then m_return [] else e_res (transfer source target x reason))"

section \<open>Paying a wage\<close>

datatype pay_outcome =
    PaidOut (paid_gross: int) (paid_tax: int) (paid_employer: int) uuid evt
  | Unpaid string
  | DeadClaim (dead_gross: int) evt

definition income_tax :: "'l lab_env \<Rightarrow> int \<Rightarrow> int" where
  "income_tax B gross = progressive_income_tax_cents gross (lb_brackets B) 24"

definition employer_tax :: "'l lab_env \<Rightarrow> int \<Rightarrow> int" where
  "employer_tax B gross = bp gross (lb_employer_bp B)"

definition settle_dead :: "'l lab_env \<Rightarrow> int \<Rightarrow> string \<Rightarrow> employment_state \<Rightarrow> ('l, pay_outcome list) lm" where
  \<comment> \<open>the claim of an agent who has died is written off\<close>
  "settle_dead B tick i r =
     m_bind (m_read (\<lambda>w. liquid (lw_ledger w) i)) (\<lambda>available.
     m_bind (l_emit B 5032 [(''firm_id'', JStr i), (''required_cents'', JInt (em_accrued r)), (''available_cents'', JInt available),
         (''unpaid_employment_ids'', JArr [JStr (em_id r)]), (''accrued_claim_cents'', JInt (em_accrued r))] (Some i) [em_agent r]) (\<lambda>ev.
     m_then (upd_employment (em_id r) (\<lambda>r. r\<lparr>em_accrued := 0\<rparr>))
     (m_then (if em_ended r = None then
         m_then (upd_employment (em_id r) (\<lambda>r. r\<lparr>em_ended := Some tick\<rparr>))
           (upd_firm i (\<lambda>f. f\<lparr>fm_headcount := max 0 (fm_headcount f - 1)\<rparr>))
       else m_return ())
     (m_return [DeadClaim (em_accrued r) ev]))))"

definition add_wages :: "int \<Rightarrow> string \<Rightarrow> int \<Rightarrow> 'l lab_world \<Rightarrow> 'l lab_world" where
  "add_wages tick i x w =
     (let row = dget_or (lw_gross_wages w) tick []
      in w\<lparr>lw_gross_wages := dset tick (dset i (dget_or row i 0 + x) row) (lw_gross_wages w)\<rparr>)"

definition book_wage :: "int \<Rightarrow> string \<Rightarrow> employment_state \<Rightarrow> ('l, unit) lm" where
  \<comment> \<open>what \<open>run_payroll\<close> records once a wage is posted\<close>
  "book_wage tick i r =
     m_then (upd_employment (em_id r) (\<lambda>r'. r'\<lparr>em_paid := em_paid r' + em_accrued r\<rparr>))
     (m_then (l_econ (m_modify (add_income tick (em_agent r) (em_accrued r))))
     (m_then (m_modify (add_wages tick (em_agent r) (em_accrued r)))
     (m_then (upd_employment (em_id r) (\<lambda>r'. r'\<lparr>em_accrued := 0\<rparr>))
     (upd_firm i (\<lambda>f. f\<lparr>fm_wages := fm_wages f + em_accrued r\<rparr>)))))"

definition wage_legs :: "firm_state \<Rightarrow> string \<Rightarrow> int \<Rightarrow> int \<Rightarrow> int \<Rightarrow> ('l, leg list) em" where
  \<comment> \<open>the net wage and the two taxes\<close>
  "wage_legs f agent net tax tick =
     m_bind (if net = 0 then m_return []
       else m_bind (wage_deposit agent tick) (\<lambda>target. e_res (transfer (fm_account f) target net ''wage''))) (\<lambda>pay.
     m_bind (transfer_if (fm_account f) treasury_deposit tax ''tax'') (\<lambda>taxes.
     m_return (combine_legs (pay @ taxes))))"

definition garnished :: "'l lab_env \<Rightarrow> string \<Rightarrow> int \<Rightarrow> int \<Rightarrow> ('l, unit) lm" where
  "garnished B agent net tick = (case lb_garnish B of None \<Rightarrow> m_return () | Some g \<Rightarrow> if net = 0 then m_return () else g agent net tick)"

definition pay_wage :: "'l lab_env \<Rightarrow> int \<Rightarrow> firm_state \<Rightarrow> string \<Rightarrow> employment_state \<Rightarrow> ('l, pay_outcome list) lm" where
  "pay_wage B tick f i r =
     (let gross = em_accrued r; tax = income_tax B gross; extra = employer_tax B gross; net = gross - tax in
      m_bind (m_read (\<lambda>w. liquid (lw_ledger w) i)) (\<lambda>available.
      if available < gross + extra then m_return [Unpaid (em_id r)]
      else
      m_bind (l_econ (e_next_txn (lb_econ B) tick)) (\<lambda>expected.
      m_bind (l_emit B 5031 [(''employment_id'', JStr (em_id r)), (''agent_id'', JStr (em_agent r)), (''firm_id'', JStr (em_firm r)),
          (''gross_cents'', JInt gross), (''income_tax_cents'', JInt tax), (''net_cents'', JInt net), (''hours_bp'', JInt (em_hours r)),
          (''txn_id'', JStr (ee_uuid_text (lb_econ B) expected))] (Some i) [em_agent r]) (\<lambda>ev.
      m_bind (l_econ (wage_legs f (em_agent r) net (tax + extra) tick)) (\<lambda>legs.
      m_then (l_econ (post_expected (lb_econ B) legs tick ev expected ''payroll transaction ordinal diverged''))
      (m_then (garnished B (em_agent r) net tick)
      (m_then (book_wage tick i r)
      (m_return [PaidOut gross tax extra expected ev]))))))))"

definition pay_one :: "'l lab_env \<Rightarrow> int \<Rightarrow> firm_state \<Rightarrow> string \<Rightarrow> string \<Rightarrow> ('l, pay_outcome list) lm" where
  "pay_one B tick f i j =
     m_bind (l_get lw_employments j) (\<lambda>r.
     m_bind (l_agent (em_agent r)) (\<lambda>a.
     if \<not> av_alive a then settle_dead B tick i r else pay_wage B tick f i r))"

section \<open>Layoffs\<close>

definition lay_off :: "'l lab_env \<Rightarrow> string \<Rightarrow> int \<Rightarrow> employment_state \<Rightarrow> ('l, evt list) lm" where
  "lay_off B i tick r =
     m_then (upd_employment (em_id r) (\<lambda>r. r\<lparr>em_ended := Some (tick + lb_notice B)\<rparr>))
     (m_then (set_status (em_agent r) ''unemployed'')
     (m_then (upd_firm i (\<lambda>f. f\<lparr>fm_headcount := max 0 (fm_headcount f - 1)\<rparr>))
     (m_bind (l_emit B 5011 [(''employment_id'', JStr (em_id r)), (''agent_id'', JStr (em_agent r)), (''firm_id'', JStr i),
         (''reason'', JStr ''redundancy''), (''severance_cents'', JInt 0), (''notice_ticks'', JInt (lb_notice B))]
         (Some i) [em_agent r]) (\<lambda>ev. m_return [ev]))))"

definition layoff_for_shortfall :: "'l lab_env \<Rightarrow> string \<Rightarrow> string list \<Rightarrow> int \<Rightarrow> ('l, evt list) lm" where
  "layoff_for_shortfall B i unpaid tick =
     m_bind (l_get lw_firms i) (\<lambda>f.
     m_bind (m_for (\<lambda>j. m_bind (l_get lw_employments j) (\<lambda>r. m_return (if em_ended r = None then [r] else []))) unpaid) (\<lambda>rows.
     let candidates = redundancy_order tick rows in
     if candidates = [] then m_return []
     else
     m_bind (m_for (lay_off B i tick) candidates) (\<lambda>evs.
     m_bind (l_get lw_firms i) (\<lambda>after.
     m_bind (l_emit B 5013 [(''firm_id'', JStr i), (''employment_ids'', JArr (map (\<lambda>r. JStr (em_id r)) candidates)),
         (''headcount_before'', JInt (fm_headcount f)), (''headcount_after'', JInt (fm_headcount after)),
         (''trigger'', JStr ''payroll_shortfall'')] (Some i) []) (\<lambda>ev. m_return (evs @ [ev]))))))"

section \<open>Payroll\<close>

definition payroll_due :: "'l lab_env \<Rightarrow> int \<Rightarrow> bool" where
  "payroll_due B tick \<longleftrightarrow>
     (let day = ee_ticks_per_day (lb_econ B)
      in tick mod day = 0 \<and> (tick div day - 1) mod ee_days_per_year (lb_econ B) + 1 \<in> set (lb_payroll_days B))"

fun outcome_event :: "pay_outcome \<Rightarrow> evt list" where
  "outcome_event (PaidOut _ _ _ _ ev) = [ev]"
| "outcome_event (Unpaid _) = []"
| "outcome_event (DeadClaim _ ev) = [ev]"

fun outcome_unpaid :: "pay_outcome \<Rightarrow> string list" where
  "outcome_unpaid (Unpaid j) = [j]"
| "outcome_unpaid _ = []"

fun outcome_sums :: "pay_outcome \<Rightarrow> int \<times> int \<times> int \<times> int" where
  \<comment> \<open>gross, income tax, employer's tax and what is written off\<close>
  "outcome_sums (PaidOut g t x _ _) = (g, t, x, 0)"
| "outcome_sums (Unpaid _) = (0, 0, 0, 0)"
| "outcome_sums (DeadClaim g _) = (0, 0, 0, g)"

fun outcome_txn :: "pay_outcome \<Rightarrow> uuid list" where
  "outcome_txn (PaidOut _ _ _ txn _) = [txn]"
| "outcome_txn _ = []"

definition report_shortfall :: "'l lab_env \<Rightarrow> string \<Rightarrow> int \<Rightarrow> int \<Rightarrow> string list \<Rightarrow> int \<Rightarrow> ('l, evt list) lm" where
  "report_shortfall B i required available unpaid tick =
     (if unpaid = [] then m_return []
      else
      m_bind (m_for (\<lambda>j. m_bind (l_get lw_employments j) (\<lambda>r. m_return [em_accrued r])) unpaid) (\<lambda>claims.
      m_bind (l_emit B 5032 [(''firm_id'', JStr i), (''required_cents'', JInt required), (''available_cents'', JInt available),
          (''unpaid_employment_ids'', JArr (map JStr unpaid)), (''accrued_claim_cents'', JInt (sum_list claims))] (Some i) []) (\<lambda>ev.
      m_bind (layoff_for_shortfall B i unpaid tick) (\<lambda>evs. m_return (ev # evs)))))"

definition firm_jobs :: "string \<Rightarrow> 'l lab_world \<Rightarrow> employment_state list" where
  "firm_jobs i w = filter (\<lambda>r. em_firm r = i \<and> 0 < em_accrued r) (dvals (lw_employments w))"

definition payroll_firm :: "'l lab_env \<Rightarrow> int \<Rightarrow> string \<Rightarrow> ('l, evt list) lm" where
  "payroll_firm B tick i =
     m_bind (l_get lw_firms i) (\<lambda>f.
     m_bind (m_read (\<lambda>w. in_bankruptcy i (lw_econ w))) (\<lambda>bankrupt.
     if bankrupt then m_return []
     else
     m_bind (m_read (firm_jobs i)) (\<lambda>jobs.
     m_bind (m_read (\<lambda>w. liquid (lw_ledger w) i)) (\<lambda>available.
     m_bind (m_for (pay_one B tick f i) (sort (map em_id jobs))) (\<lambda>outcomes.
     let unpaid = concat (map outcome_unpaid outcomes);
         gross = (\<Sum>x\<leftarrow>outcomes. fst (outcome_sums x));
         tax = (\<Sum>x\<leftarrow>outcomes. fst (snd (outcome_sums x)));
         extra = (\<Sum>x\<leftarrow>outcomes. fst (snd (snd (outcome_sums x))));
         dead = (\<Sum>x\<leftarrow>outcomes. snd (snd (snd (outcome_sums x)))) in
     m_bind (report_shortfall B i ((\<Sum>r\<leftarrow>jobs. em_accrued r) - dead) available unpaid tick) (\<lambda>evs.
     m_bind (l_emit B 5030 [(''firm_id'', JStr i), (''period_start_tick'', JInt (max 0 (tick - 14 * ee_ticks_per_day (lb_econ B)))),
         (''period_end_tick'', JInt tick), (''n_employees'', JInt (int (length jobs))), (''gross_cents'', JInt gross),
         (''income_tax_cents'', JInt tax), (''employer_tax_cents'', JInt extra), (''net_cents'', JInt (gross - tax)),
         (''txn_ids'', JArr (map (\<lambda>u. JStr (ee_uuid_text (lb_econ B) u)) (concat (map outcome_txn outcomes))))] (Some i) []) (\<lambda>ev.
     m_return (concat (map outcome_event outcomes) @ evs @ [ev]))))))))"

definition run_payroll :: "'l lab_env \<Rightarrow> int \<Rightarrow> ('l, evt list) lm" where
  "run_payroll B tick =
     (if \<not> payroll_due B tick then m_return []
      else m_bind (m_read (\<lambda>w. sort (dkeys (lw_firms w)))) (m_for (payroll_firm B tick)))"

section \<open>Skills that are not used\<close>

definition decay_one :: "'l lab_env \<Rightarrow> int \<Rightarrow> int \<Rightarrow> string \<Rightarrow> string \<Rightarrow> ('l, evt list) lm" where
  "decay_one B tick month i s =
     m_bind (m_read (\<lambda>w. dget_or (dget_or (lw_skill_used w) i []) s 0)) (\<lambda>last_used.
     if tick - last_used < month then m_return []
     else
     m_bind (l_get lw_workers i) (\<lambda>a.
     let before = skill_bp a s; level = decay_skill_bp before (lb_skill_decay B) in
     if level = before then m_return []
     else
     m_then (upd_worker i (\<lambda>a. a\<lparr>wk_skills := dset s (dbl (of_int level / 10000)) (wk_skills a)\<rparr>))
     (m_bind (l_emit B 5040 [(''agent_id'', JStr i), (''skill'', JStr s), (''from_level_bp'', JInt before), (''to_level_bp'', JInt level),
         (''ticks_unused'', JInt (tick - last_used))] (Some i) []) (\<lambda>ev. m_return [ev]))))"

definition decay_unused_skills :: "'l lab_env \<Rightarrow> int \<Rightarrow> ('l, evt list) lm" where
  "decay_unused_skills B tick =
     (let month = 30 * ee_ticks_per_day (lb_econ B) in
      if \<not> lb_decay_on B \<or> tick mod month \<noteq> 0 then m_return []
      else
      m_bind (m_read (\<lambda>w. ew_agents (lw_econ w))) (m_for (\<lambda>a.
        if \<not> av_alive a then m_return []
        else
        m_then (m_modify (\<lambda>w. if dget (lw_skill_used w) (av_id a) = None
          then w\<lparr>lw_skill_used := dset (av_id a) [] (lw_skill_used w)\<rparr> else w))
        (m_for (decay_one B tick month (av_id a)) skill_names))))"

section \<open>The summary of a tick\<close>

definition median_int :: "int list \<Rightarrow> int" where
  \<comment> \<open>\<open>int(median(xs))\<close> of a non-empty list, 0 of the empty one\<close>
  "median_int xs =
     (let s = sort xs; n = length s
      in if n = 0 then 0 else if odd n then s ! (n div 2)
         else trunc (dbl (of_int (s ! (n div 2 - 1) + s ! (n div 2)) / 2)))"

definition mean_int :: "int list \<Rightarrow> int" where
  "mean_int xs = sum_list xs div max 1 (int (length xs))"

definition summary_payload :: "'l lab_env \<Rightarrow> int \<Rightarrow> 'l lab_world \<Rightarrow> payload" where
  "summary_payload B tick w =
     (let submitted = filter (\<lambda>r. ap_submitted r = tick) (dvals (lw_applications w));
          made = filter (\<lambda>x. of_made x = tick) (dvals (lw_offers w));
          hires = filter (\<lambda>r. em_started r = tick + 1) (dvals (lw_employments w));
          scores = concat (map (\<lambda>r. case ap_score r of None \<Rightarrow> [] | Some s \<Rightarrow> [s]) submitted);
          force = labour_force tick (lb_search_days B * ee_ticks_per_day (lb_econ B)) (ee_retirement_age (lb_econ B)) w
      in [(''tick'', JInt tick),
          (''vacancies_open'', JInt (\<Sum>v\<leftarrow>filter (\<lambda>v. va_status v = ''open'') (dvals (lw_vacancies w)). va_headcount v)),
          (''searchers'', JInt (int (length (lf_unemployed force)))), (''applications'', JInt (int (length submitted))),
          (''offers'', JInt (int (length made))), (''hires'', JInt (int (length hires))),
          (''mean_match_score_bp'', JInt (mean_int scores)), (''mean_offer_wage_cents'', JInt (mean_int (map of_wage made))),
          (''median_hire_wage_cents'', JInt (median_int (map em_wage hires)))])"

definition emit_summary :: "'l lab_env \<Rightarrow> int \<Rightarrow> ('l, evt list) lm" where
  "emit_summary B tick = m_bind (m_read (summary_payload B tick)) (\<lambda>pl.
     m_bind (l_emit B 5050 pl None []) (\<lambda>ev. m_return [ev]))"

end
