(* ===== verification/Labour_Policy.thy ===== *)
theory Labour_Policy
  imports Payroll
begin

text \<open>
  \<open>polis/economy/policy.py\<close>: the decisions \<open>MechanicalPolicy\<close> takes for the labour market and the parts
  of its \<open>step\<close> that run the market. The identifier of an action, \<open>det_uuid\<close> of its actor, tick, ordinal,
  type and parameters as text, is a parameter.
\<close>

section \<open>Actions of the policy\<close>

type_synonym action_namer = "string \<Rightarrow> int \<Rightarrow> nat \<Rightarrow> labour_request \<Rightarrow> string"

fun number_actions :: "action_namer \<Rightarrow> int \<Rightarrow> string list \<Rightarrow> (string \<times> labour_request) list \<Rightarrow> labour_action list" where
  \<comment> \<open>\<open>_action\<close>: the ordinal counts the actor's actions so far, whose actors are the third argument\<close>
  "number_actions name tick seen [] = []"
| "number_actions name tick seen ((actor, q) # rest) =
     \<lparr>ax_actor = actor, ax_id = name actor tick (length (filter (\<lambda>s. s = actor) seen)) q, ax_request = q\<rparr>
       # number_actions name tick (actor # seen) rest"

definition should_autopost :: "'l lab_env \<Rightarrow> firm_state \<Rightarrow> 'l lab_world \<Rightarrow> bool" where
  "should_autopost B f w \<longleftrightarrow>
     (let rows = filter (\<lambda>v. va_firm v = fm_id f \<and> va_status v = ''open'' \<and> 0 < va_headcount v) (dvals (lw_vacancies w))
      in fm_status f = ''active'' \<and> fm_headcount f + (\<Sum>v\<leftarrow>rows. va_headcount v) < fm_target_headcount f
         \<and> int (length rows) < lb_max_vacancies B)"

definition occupation_for :: "'l lab_env \<Rightarrow> firm_state \<Rightarrow> econ_error + occupation" where
  \<comment> \<open>the catalogue is not empty\<close>
  "occupation_for B f =
     (let choices = filter (\<lambda>oc. fm_sector f \<in> set (oc_sectors oc)) (dvals (lb_occupations B))
      in case sort_key oc_id (if choices = [] then dvals (lb_occupations B) else choices) of
           [] \<Rightarrow> Inl (EcValue ''list index out of range'') | oc # _ \<Rightarrow> Inr oc)"

definition work_actions :: "int \<Rightarrow> ('l, (string \<times> labour_request) list) lm" where
  "work_actions tick = m_bind (m_read (\<lambda>w. sort_key em_id (dvals (lw_employments w)))) (m_for (\<lambda>r.
     if em_started r \<le> tick \<and> em_ended r = None then
       m_bind (l_agent (em_agent r)) (\<lambda>a.
         m_return (if av_alive a then [(em_agent r, Work (em_id r) (Some 10000))] else []))
     else m_return []))"

definition open_offers :: "int \<Rightarrow> 'l lab_world \<Rightarrow> offer_state list" where
  "open_offers tick w = filter (\<lambda>x. of_status x = ''open'' \<and> of_made x < tick \<and> tick \<le> of_expires x) (dvals (lw_offers w))"

definition accept_actions :: "int \<Rightarrow> 'l lab_world \<Rightarrow> (string \<times> labour_request) list" where
  \<comment> \<open>each agent without a job takes the best offer\<close>
  "accept_actions tick w =
     concat (map (\<lambda>i. if active_employment i tick w \<noteq> None then []
       else case sort_key (\<lambda>x. (- of_wage x, of_id x)) (filter (\<lambda>x. of_agent x = i) (open_offers tick w)) of
          [] \<Rightarrow> [] | x # _ \<Rightarrow> [(i, AcceptOffer (of_id x))])
       (sort (remdups (map of_agent (open_offers tick w)))))"

definition vacancy_actions :: "'l lab_env \<Rightarrow> ('l, (string \<times> labour_request) list) lm" where
  "vacancy_actions B =
     (if \<not> lb_autopost_on B then m_return []
      else m_bind (m_read (\<lambda>w. sort_key fm_id (dvals (lw_firms w)))) (m_for (\<lambda>f.
        m_bind (m_read (should_autopost B f)) (\<lambda>posting.
        if \<not> posting then m_return []
        else
        m_bind (m_res (occupation_for B f)) (\<lambda>oc.
        m_bind (m_read (\<lambda>w. fm_headcount f + (\<Sum>v\<leftarrow>filter (\<lambda>v. va_firm v = fm_id f \<and> va_status v = ''open'')
            (dvals (lw_vacancies w)). va_headcount v))) (\<lambda>committed.
        m_return [(fm_founder f, PostVacancy (fm_id f) (oc_id oc) (max (lb_min_wage B) (ee_median_wage (lb_econ B) div 24))
          (max 1 (fm_target_headcount f - committed)))]))))))"

definition first_max :: "('x \<Rightarrow> 'k :: linorder) \<Rightarrow> 'x \<Rightarrow> 'x list \<Rightarrow> 'x" where
  \<comment> \<open>\<open>max(xs, key=k)\<close>: the first of the largest\<close>
  "first_max k x xs = foldl (\<lambda>b y. if k b < k y then y else b) x xs"

definition choice_context :: "'l lab_env \<Rightarrow> score_context" where
  "choice_context B = \<lparr>sx_unemployed = 0, sx_day = ee_ticks_per_day (lb_econ B), sx_year = ticks_per_year (lb_econ B),
     sx_worked = 0, sx_record = 0, sx_recency = True\<rparr>"

definition rate_vacancy :: "'l lab_env \<Rightarrow> worker \<Rightarrow> vacancy_state \<Rightarrow> econ_error + (int \<times> int \<times> string)" where
  "rate_vacancy B a v =
     (case dget (lb_occupations B) (va_occupation v) of None \<Rightarrow> Inl (EcKey (va_occupation v))
      | Some oc \<Rightarrow> res_map (\<lambda>s. (s, - va_posted v, va_id v)) (match_score_bp a v oc (choice_context B)))"

definition search_job :: "'l lab_env \<Rightarrow> int \<Rightarrow> agent_view \<Rightarrow> ('l, (string \<times> labour_request) list) lm" where
  "search_job B tick a =
     m_bind (m_read (active_employment (av_id a) tick)) (\<lambda>job.
     if \<not> of_age (ee_retirement_age (lb_econ B)) a \<or> job \<noteq> None
        \<or> av_employment a \<in> set [''child'', ''student'', ''retired'', ''dead''] then m_return []
     else
     m_bind (visibility_slice B (av_id a) tick (lb_visible B)) (\<lambda>visible.
     m_bind (m_read (\<lambda>w. filter (\<lambda>v. \<not> list_ex (\<lambda>r. ap_agent r = av_id a \<and> ap_vacancy r = va_id v) (dvals (lw_applications w)))
         visible)) (\<lambda>candidates.
     m_bind (l_get lw_workers (av_id a)) (\<lambda>k.
     m_bind (m_for (\<lambda>v. m_bind (m_res (rate_vacancy B k v)) (\<lambda>x. m_return [(x, v)])) candidates) (\<lambda>rated.
     case rated of [] \<Rightarrow> m_return []
     | p # ps \<Rightarrow>
       let v = snd (first_max fst p ps) in
       m_return [(av_id a, ApplyForJob (va_id v) (Some (va_wage v)))])))))"

definition apply_actions :: "'l lab_env \<Rightarrow> int \<Rightarrow> ('l, (string \<times> labour_request) list) lm" where
  "apply_actions B tick = m_bind (m_read (\<lambda>w. ew_agents (lw_econ w))) (m_for (search_job B tick))"

definition first_actions :: "'l lab_env \<Rightarrow> action_namer \<Rightarrow> int \<Rightarrow> ('l, labour_action list) lm" where
  "first_actions B name tick =
     m_bind (m_extend [work_actions tick, m_read (accept_actions tick), vacancy_actions B, apply_actions B tick]) (\<lambda>qs.
     m_return (number_actions name tick [] qs))"

section \<open>Offers for the shortlisted\<close>

fun offer_requests :: "(string, int) dict \<Rightarrow> application_state list \<Rightarrow> ('l, (string \<times> labour_request) list) lm" where
  "offer_requests available [] = m_return []"
| "offer_requests available (r # rs) =
     (if dget_or available (ap_vacancy r) 0 \<le> 0 then offer_requests available rs
      else
      m_bind (l_get lw_vacancies (ap_vacancy r)) (\<lambda>v.
      m_bind (l_get lw_firms (va_firm v)) (\<lambda>f.
      m_bind (offer_requests (dset (ap_vacancy r) (dget_or available (ap_vacancy r) 0 - 1) available) rs) (\<lambda>qs.
      m_return ((fm_founder f, MakeOffer (ap_id r) (va_wage v)) # qs)))))"

definition or_zero :: "int option \<Rightarrow> int" where
  "or_zero x = (case x of None \<Rightarrow> 0 | Some y \<Rightarrow> y)"

definition offer_actions :: "action_namer \<Rightarrow> string list \<Rightarrow> int \<Rightarrow> ('l, labour_action list) lm" where
  \<comment> \<open>the shortlisted applications are named by their identifiers\<close>
  "offer_actions name shortlisted tick =
     m_bind (m_for (\<lambda>i. m_bind (l_get lw_applications i) (\<lambda>r. m_return [r])) shortlisted) (\<lambda>rows.
     m_bind (m_read (\<lambda>w. map (\<lambda>v. (va_id v, va_headcount v)) (filter (\<lambda>v. va_status v = ''open'') (dvals (lw_vacancies w))))) (\<lambda>available.
     m_bind (offer_requests available (sort_key (\<lambda>r. (ap_vacancy r, - or_zero (ap_score r), or_zero (ap_rank r))) rows)) (\<lambda>qs.
     m_return (number_actions name tick [] qs))))"

section \<open>The market in the step of a tick\<close>

fun stay_candidates :: "labour_action \<Rightarrow> string list" where
  "stay_candidates a = ax_actor a # (case ax_request a of PostVacancy f _ _ _ \<Rightarrow> if f = [] then [] else [f] | _ \<Rightarrow> [])"

definition stay_blocks :: "labour_action \<Rightarrow> 'l lab_world \<Rightarrow> bool" where
  \<comment> \<open>an open bankruptcy blocks everything but work\<close>
  "stay_blocks a w \<longleftrightarrow> kind_of (ax_request a) \<noteq> KWork
     \<and> list_ex (\<lambda>(e, status). status = ''open'' \<and> e \<in> set (stay_candidates a)) (ew_bankruptcies (lw_econ w))"

definition unblocked :: "labour_action list \<Rightarrow> ('l, labour_action list) lm" where
  "unblocked actions = m_read (\<lambda>w. filter (\<lambda>a. \<not> stay_blocks a w) actions)"

definition market_phase :: "'l lab_env \<Rightarrow> action_namer \<Rightarrow> int \<Rightarrow> ('l, evt list) lm" where
  \<comment> \<open>the start of \<open>step\<close>, up to the goods market\<close>
  "market_phase B name tick =
     m_bind (expire B tick) (\<lambda>evs1.
     m_bind (m_bind (first_actions B name tick) unblocked) (\<lambda>first.
     m_bind (resolve_labour B first tick) (\<lambda>evs2.
     m_bind (screen_pending B tick) (\<lambda>shortlisted.
     m_bind (m_bind (offer_actions name shortlisted tick) unblocked) (\<lambda>offers.
     m_bind (resolve_labour B offers tick) (\<lambda>evs3.
     m_return (evs1 @ evs2 @ evs3)))))))"

definition wage_phase :: "'l lab_env \<Rightarrow> int \<Rightarrow> ('l, evt list) lm" where
  \<comment> \<open>the payroll and the decay of skills, after the goods market\<close>
  "wage_phase B tick = m_extend [run_payroll B tick, decay_unused_skills B tick]"

end
