(* ===== verification/Labour_Spec.thy ===== *)
theory Labour_Spec
  imports Labour_Policy
begin

text \<open>
  What the functions of the labour market guarantee by themselves: the income tax, the match score,
  the labour force and the accrual of wages.
\<close>

section \<open>The income tax\<close>

fun slices :: "int \<Rightarrow> (int \<times> int) list \<Rightarrow> (int \<times> int) list" where
  \<comment> \<open>the part of an annual income that falls in each bracket, with the rate it bears\<close>
  "slices annual [] = []"
| "slices annual [(low, rate)] = [(max 0 (annual - low), rate)]"
| "slices annual ((low, rate) # (high, r) # rest) = (max 0 (min annual high - low), rate) # slices annual ((high, r) # rest)"

definition marginal_tax :: "int \<Rightarrow> (int \<times> int) list \<Rightarrow> int" where
  \<comment> \<open>the reference: every bracket taxes its slice\<close>
  "marginal_tax annual brackets = (\<Sum>(x, rate)\<leftarrow>slices annual brackets. bp x rate)"

definition brackets_ok :: "(int \<times> int) list \<Rightarrow> bool" where
  "brackets_ok bs \<longleftrightarrow> list_all (\<lambda>(low, rate). 0 \<le> low \<and> 0 \<le> rate \<and> rate \<le> 10000) bs"

lemma bp_zero [simp]: "bp 0 r = 0"
  by (simp add: bp_def)

lemma bp_mono: "0 \<le> r \<Longrightarrow> x \<le> y \<Longrightarrow> bp x r \<le> bp y r"
  by (simp add: bp_def zdiv_mono1 mult_right_mono)

lemma bp_lipschitz:
  assumes "0 \<le> r" "r \<le> 10000" "x \<le> y"
  shows "bp y r \<le> bp x r + (y - x)"
proof -
  have "(y - x) * r \<le> (y - x) * 10000" using assms by (intro mult_left_mono) auto
  then have "y * r \<le> x * r + (y - x) * 10000" by (simp add: algebra_simps)
  then have "y * r div 10000 \<le> (x * r + (y - x) * 10000) div 10000" by (rule zdiv_mono1) simp
  then show ?thesis by (simp add: bp_def)
qed

lemma marginal_tax_simps:
  "marginal_tax annual [] = 0"
  "marginal_tax annual [(low, rate)] = bp (max 0 (annual - low)) rate"
  "marginal_tax annual ((low, rate) # (high, r) # rest)
     = bp (max 0 (min annual high - low)) rate + marginal_tax annual ((high, r) # rest)"
  by (simp_all add: marginal_tax_def)

lemma marginal_tax_above: "\<forall>b\<in>set bs. annual \<le> fst b \<Longrightarrow> marginal_tax annual bs = 0"
  by (induction annual bs rule: slices.induct) (auto simp: marginal_tax_simps max_absorb1)

lemma bracket_tax_marginal: "sorted (map fst bs) \<Longrightarrow> bracket_tax annual bs = marginal_tax annual bs"
proof (induction annual bs rule: bracket_tax.induct)
  case (3 annual low rate high r rest)
  show ?case
  proof (cases "annual \<le> high")
    case True
    have "marginal_tax annual ((high, r) # rest) = 0"
      by (rule marginal_tax_above) (use 3(2) True in force)
    then show ?thesis using True by (simp add: marginal_tax_simps)
  next
    case False
    then show ?thesis using 3 by (simp add: marginal_tax_simps)
  qed
qed (auto simp: marginal_tax_simps)

lemma marginal_tax_mono: "brackets_ok bs \<Longrightarrow> a \<le> b \<Longrightarrow> marginal_tax a bs \<le> marginal_tax b bs"
  by (induction a bs rule: slices.induct)
     (auto simp: marginal_tax_simps brackets_ok_def intro!: add_mono bp_mono)

lemma marginal_tax_lipschitz:
  assumes "brackets_ok bs" "sorted (map fst bs)" "a \<le> b" "bs \<noteq> []"
  shows "marginal_tax b bs \<le> marginal_tax a bs + (max (fst (hd bs)) b - max (fst (hd bs)) a)"
  using assms
proof (induction a bs rule: slices.induct)
  case (2 a low rate)
  have "bp (max 0 (b - low)) rate \<le> bp (max 0 (a - low)) rate + (max 0 (b - low) - max 0 (a - low))"
    using 2 by (intro bp_lipschitz) (auto simp: brackets_ok_def)
  moreover have "max 0 (b - low) - max 0 (a - low) = max low b - max low a" by auto
  ultimately show ?case by (simp add: marginal_tax_simps)
next
  case (3 a low rate high r rest)
  let ?x = "\<lambda>t. max 0 (min t high - low)"
  have "bp (?x b) rate \<le> bp (?x a) rate + (?x b - ?x a)"
    using 3(2-4) by (intro bp_lipschitz) (auto simp: brackets_ok_def)
  moreover have "marginal_tax b ((high, r) # rest) \<le> marginal_tax a ((high, r) # rest) + (max high b - max high a)"
    using 3 by (simp add: brackets_ok_def)
  moreover have "?x b - ?x a + (max high b - max high a) = max low b - max low a"
    using 3(3) by auto
  ultimately show ?case by (simp add: marginal_tax_simps)
qed simp

lemma marginal_tax_bounds:
  assumes "brackets_ok bs" "sorted (map fst bs)" "0 \<le> annual"
  shows "0 \<le> marginal_tax annual bs" "marginal_tax annual bs \<le> annual" "marginal_tax 0 bs = 0"
proof -
  show zero: "marginal_tax 0 bs = 0"
    by (rule marginal_tax_above) (use assms in \<open>auto simp: brackets_ok_def list_all_iff\<close>)
  show "0 \<le> marginal_tax annual bs"
    using marginal_tax_mono[OF assms(1,3)] zero by simp
  show "marginal_tax annual bs \<le> annual"
  proof (cases "bs = []")
    case False
    then have "0 \<le> fst (hd bs)" using assms(1) by (cases bs) (auto simp: brackets_ok_def)
    then show ?thesis using marginal_tax_lipschitz[OF assms(1,2) assms(3) False] zero assms(3) by (auto simp: max_def split: if_splits)
  qed (simp add: marginal_tax_simps assms(3))
qed

lemma sorted_brackets: "sorted (map fst (sort (bs :: (int \<times> int) list)))"
proof -
  have "sorted_wrt (\<lambda>p q. fst p \<le> fst q) (sort bs)"
    by (rule sorted_wrt_mono_rel[OF _ sorted_sort[of bs]]) (auto simp: less_eq_prod_def)
  then show ?thesis by (simp add: sorted_map)
qed

lemma brackets_ok_sort: "brackets_ok (sort bs) = brackets_ok bs"
  by (simp add: brackets_ok_def list_all_iff)

lemma income_tax_reference:
  assumes "brackets_ok bs"
  shows "progressive_income_tax_cents gross bs n = marginal_tax (max 0 gross * n) (sort bs) div n"
  using marginal_tax_bounds(3)[of "sort bs" 0] assms sorted_brackets[of bs]
  by (auto simp: progressive_income_tax_cents_def bracket_tax_marginal[OF sorted_brackets] brackets_ok_sort)

lemma income_tax_step:
  assumes "brackets_ok bs" "0 < n" "g \<le> h"
  shows "progressive_income_tax_cents g bs n \<le> progressive_income_tax_cents h bs n"
    "progressive_income_tax_cents h bs n \<le> progressive_income_tax_cents g bs n + (max 0 h - max 0 g)"
proof -
  let ?t = "\<lambda>x. marginal_tax (x * n) (sort bs)"
  have ok: "brackets_ok (sort bs)" using assms(1) by (simp add: brackets_ok_sort)
  note eq = income_tax_reference[OF assms(1)]
  have le: "max 0 g * n \<le> max 0 h * n" using assms(2,3) by (intro mult_right_mono) auto
  show "progressive_income_tax_cents g bs n \<le> progressive_income_tax_cents h bs n"
    unfolding eq by (rule zdiv_mono1[OF marginal_tax_mono[OF ok le] assms(2)])
  have "?t (max 0 h) \<le> ?t (max 0 g) + (max 0 h - max 0 g) * n"
  proof (cases "sort bs = []")
    case False
    then have "?t (max 0 h) \<le> ?t (max 0 g) + (max (fst (hd (sort bs))) (max 0 h * n) - max (fst (hd (sort bs))) (max 0 g * n))"
      by (rule marginal_tax_lipschitz[OF ok sorted_brackets le])
    then show ?thesis using le unfolding left_diff_distrib by linarith
  next
    case True
    then show ?thesis using le unfolding left_diff_distrib by (simp add: marginal_tax_simps)
  qed
  then have "?t (max 0 h) div n \<le> (?t (max 0 g) + (max 0 h - max 0 g) * n) div n"
    by (rule zdiv_mono1) (rule assms(2))
  also have "\<dots> = ?t (max 0 g) div n + (max 0 h - max 0 g)" using assms(2) by simp
  finally show "progressive_income_tax_cents h bs n \<le> progressive_income_tax_cents g bs n + (max 0 h - max 0 g)"
    unfolding eq .
qed



section \<open>The match score\<close>

definition better_worker :: "worker \<Rightarrow> worker \<Rightarrow> bool" where
  \<comment> \<open>no worse in any skill, at the same level of education\<close>
  "better_worker a b \<longleftrightarrow> (\<forall>s. dget_or (wk_skills a) s 0 \<le> dget_or (wk_skills b) s 0)
     \<and> wk_education a = wk_education b \<and> wk_reputation a \<le> wk_reputation b"

definition harder_search :: "score_context \<Rightarrow> score_context \<Rightarrow> bool" where
  \<comment> \<open>a spell at least as long, and no less work behind it\<close>
  "harder_search c d \<longleftrightarrow> sx_unemployed d \<le> sx_unemployed c \<and> sx_worked c \<le> sx_worked d \<and> sx_record d \<le> sx_record c
     \<and> sx_day c = sx_day d \<and> sx_year c = sx_year d \<and> sx_recency c = sx_recency d"

lemma skill_bp_mono:
  assumes "dget_or (wk_skills a) s 0 \<le> dget_or (wk_skills b) s 0"
  shows "skill_bp a s \<le> skill_bp b s"
proof -
  have "half_even (dbl (dget_or (wk_skills a) s 0 * 10000)) \<le> half_even (dbl (dget_or (wk_skills b) s 0 * 10000))"
    by (intro half_even_mono dbl_mono mult_right_mono assms) simp
  then show ?thesis by (auto simp: skill_bp_def)
qed

lemma fit_bp_mono:
  assumes "\<And>s. skill_bp a s \<le> skill_bp b s"
  shows "fit_bp a reqs \<le> fit_bp b reqs"
  using assms by (auto simp: fit_bp_def intro!: zdiv_mono1 sum_list_mono min.mono)

lemma surplus_bp_mono:
  assumes "\<And>s. skill_bp a s \<le> skill_bp b s" "\<And>s x. dget weights s = Some x \<Longrightarrow> 0 \<le> x"
  shows "surplus_bp a weights reqs \<le> surplus_bp b weights reqs"
proof -
  have w: "0 \<le> dget_or weights s 0" for s using assms(2) by (auto simp: dget_or_def split: option.split)
  have "(\<Sum>(s, level)\<leftarrow>reqs. dget_or weights s 0 * max 0 (skill_bp a s - level))
      \<le> (\<Sum>(s, level)\<leftarrow>reqs. dget_or weights s 0 * max 0 (skill_bp b s - level))"
    by (rule sum_list_mono) (auto intro!: mult_left_mono w simp: diff_right_mono assms(1) max.coboundedI2)
  then have "(\<Sum>(s, level)\<leftarrow>reqs. dget_or weights s 0 * max 0 (skill_bp a s - level)) div (10000 * max 1 (int (length reqs)))
      \<le> (\<Sum>(s, level)\<leftarrow>reqs. dget_or weights s 0 * max 0 (skill_bp b s - level)) div (10000 * max 1 (int (length reqs)))"
    by (rule zdiv_mono1) simp
  then show ?thesis by (auto simp: surplus_bp_def)
qed

lemma clamp_mono:
  "x \<le> (y :: int) \<Longrightarrow> 0 \<le> max 0 (min 10000 x) \<and> max 0 (min 10000 x) \<le> max 0 (min 10000 y) \<and> max 0 (min 10000 y) \<le> 10000"
  by auto

text \<open>C16. A match score lies between 0 and 10000 and rewards skill: an applicant no worse in any skill and in reputation, with
  the same education, no longer out of work, no less experienced and with no longer record, never scores less for the
  same vacancy.\<close>

theorem match_score_rewards:
  assumes "better_worker a b" "harder_search c d" "\<And>s x. dget (oc_weights oc) s = Some x \<Longrightarrow> 0 \<le> x"
    and "match_score_bp a v oc c = Inr low" "match_score_bp b v oc d = Inr high"
  shows "0 \<le> low \<and> low \<le> high \<and> high \<le> 10000"
proof -
  from assms(1) have skills: "skill_bp a s \<le> skill_bp b s" for s by (simp add: better_worker_def skill_bp_mono)
  have rep: "trunc (dbl (2000 * dbl (wk_reputation a - 1 / 2))) \<le> trunc (dbl (2000 * dbl (wk_reputation b - 1 / 2)))"
    using assms(1) by (intro trunc_mono dbl_mono mult_left_mono diff_right_mono) (simp_all add: better_worker_def)
  have exper: "min 1000 (sx_worked c div max 1 (sx_year c) * 200) \<le> min 1000 (sx_worked d div max 1 (sx_year d) * 200)"
    by (rule min.mono) (use assms(2) in \<open>simp_all add: harder_search_def zdiv_mono1\<close>)
  have spell: "min 1500 (sx_unemployed d div max 1 (sx_day d) * 5) \<le> min 1500 (sx_unemployed c div max 1 (sx_day c) * 5)"
    by (rule min.mono) (use assms(2) in \<open>simp_all add: harder_search_def zdiv_mono1\<close>)
  let ?raw = "\<lambda>a c e. fit_bp a (va_skills v) + surplus_bp a (oc_weights oc) (va_skills v) + e
      + min 1000 (sx_worked c div max 1 (sx_year c) * 200) + trunc (dbl (2000 * dbl (wk_reputation a - 1 / 2)))
      + (if sx_recency c then - min 1500 (sx_unemployed c div max 1 (sx_day c) * 5) else 0) + - 400 * min 3 (sx_record c)"
  obtain e where e: "dget edu_bonus_bp (wk_education b) = Some e"
    using assms(5) by (auto simp: match_score_bp_def split: option.splits)
  have ea: "dget edu_bonus_bp (wk_education a) = Some e" using assms(1) e by (simp add: better_worker_def)
  have low: "low = max 0 (min 10000 (?raw a c e))"
    using assms(4) unfolding match_score_bp_def ea Let_def option.case sum.inject by (rule sym)
  have high: "high = max 0 (min 10000 (?raw b d e))"
    using assms(5) unfolding match_score_bp_def e Let_def option.case sum.inject by (rule sym)
  have "(if sx_recency c then - min 1500 (sx_unemployed c div max 1 (sx_day c) * 5) else 0)
      \<le> (if sx_recency d then - min 1500 (sx_unemployed d div max 1 (sx_day d) * 5) else 0)"
    using spell assms(2) by (simp add: harder_search_def)
  moreover have "- 400 * min 3 (sx_record c) \<le> - 400 * min 3 (sx_record d)"
    using assms(2) min.mono[of 3 3 "sx_record d" "sx_record c"] by (simp add: harder_search_def del: min.bounded_iff)
  ultimately have "?raw a c e \<le> ?raw b d e"
    by (intro add_mono order_refl fit_bp_mono surplus_bp_mono skills assms(3) exper rep)
  then show ?thesis unfolding low high by (rule clamp_mono)
qed

theorem match_score_rewards_witness:
  "match_score_bp \<lparr>wk_skills = [(''sales'', 1 / 2)], wk_education = ''primary'', wk_reputation = 1 / 2, wk_health = 1, wk_energy = 1,
       wk_age = 30, wk_home = ''h'', wk_traits = []\<rparr>
     \<lparr>va_id = ''v'', va_firm = ''f'', va_occupation = ''clerk'', va_skills = [(''sales'', 8000)], va_wage = 1, va_headcount = 1, va_posted = 0,
      va_expires = 9, va_district = ''d'', va_min_score = 5500, va_status = ''open'', va_applicants = 0\<rparr>
     \<lparr>oc_id = ''clerk'', oc_sectors = [], oc_requirements = [], oc_intensity = [], oc_weights = [(''sales'', 10000)]\<rparr>
     \<lparr>sx_unemployed = 20, sx_day = 1, sx_year = 360, sx_worked = 0, sx_record = 0, sx_recency = True\<rparr> = Inr 6250
   \<and> (0 :: int) \<le> 6250 \<and> (6250 :: int) \<le> 6350 \<and> (6350 :: int) \<le> 10000"
proof -
  let ?a = "\<lparr>wk_skills = [(''sales'', 1 / 2)], wk_education = ''primary'', wk_reputation = 1 / 2, wk_health = 1, wk_energy = 1,
       wk_age = 30, wk_home = ''h'', wk_traits = []\<rparr> :: worker"
  let ?v = "\<lparr>va_id = ''v'', va_firm = ''f'', va_occupation = ''clerk'', va_skills = [(''sales'', 8000)], va_wage = 1, va_headcount = 1, va_posted = 0,
      va_expires = 9, va_district = ''d'', va_min_score = 5500, va_status = ''open'', va_applicants = 0\<rparr> :: vacancy_state"
  let ?o = "\<lparr>oc_id = ''clerk'', oc_sectors = [], oc_requirements = [], oc_intensity = [], oc_weights = [(''sales'', 10000)]\<rparr> :: occupation"
  let ?c = "\<lambda>u. \<lparr>sx_unemployed = u, sx_day = 1, sx_year = 360, sx_worked = 0, sx_record = 0, sx_recency = True\<rparr> :: score_context"
  have low: "match_score_bp ?a ?v ?o (?c 20) = Inr 6250" by code_simp
  have high: "match_score_bp ?a ?v ?o (?c 0) = Inr 6350" by code_simp
  have better: "better_worker ?a ?a" "harder_search (?c 20) (?c 0)" by (simp_all add: better_worker_def harder_search_def)
  have weights: "\<And>s x. dget (oc_weights ?o) s = Some x \<Longrightarrow> 0 \<le> x" by (auto split: if_splits)
  show ?thesis using match_score_rewards[OF better weights low high] low by simp
qed

section \<open>The accrual of wages\<close>

lemma worked_step:
  "em_accrued (worked B t labour r) * pay_scale B + em_remainder (worked B t labour r)
     = em_accrued r * pay_scale B + em_remainder r + em_wage r * em_hours r"
proof -
  let ?n = "em_wage r * em_hours r + em_remainder r"
  have "?n div pay_scale B * pay_scale B + ?n mod pay_scale B = ?n" by simp
  then show ?thesis by (simp add: worked_def Let_def distrib_right)
qed

lemma worked_sel:
  "em_wage (worked B t labour r) = em_wage r" "em_hours (worked B t labour r) = em_hours r"
  "em_remainder (worked B t labour r) = (em_wage r * em_hours r + em_remainder r) mod pay_scale B"
  by (simp_all add: worked_def Let_def)

lemma pay_scale_pos: "0 < pay_scale B"
  by (simp add: pay_scale_def)

text \<open>No fraction of a wage is lost: after any number of ticks of work the accrued cents are the exact wage of those ticks,
  rounded down once, and not once for each tick.\<close>

theorem wage_accrues_exactly:
  assumes "em_remainder r = 0"
  shows "em_accrued (fold (\<lambda>(t, labour). worked B t labour) ticks r)
    = em_accrued r + int (length ticks) * (em_wage r * em_hours r) div pay_scale B"
proof -
  let ?f = "\<lambda>ts. fold (\<lambda>(t, labour). worked B t labour) ts r"
  have "em_wage (?f ts) = em_wage r \<and> em_hours (?f ts) = em_hours r
      \<and> em_accrued (?f ts) * pay_scale B + em_remainder (?f ts) = em_accrued r * pay_scale B + int (length ts) * (em_wage r * em_hours r)
      \<and> 0 \<le> em_remainder (?f ts) \<and> em_remainder (?f ts) < pay_scale B" for ts
  proof (induction ts rule: rev_induct)
    case Nil
    then show ?case using assms pay_scale_pos by simp
  next
    case (snoc p ts)
    obtain t labour where "p = (t, labour)" by fastforce
    then have "?f (ts @ [p]) = worked B t labour (?f ts)" by simp
    then show ?case using snoc worked_step[of B t labour "?f ts"] worked_sel[of B t labour "?f ts"] pay_scale_pos[of B]
      by (simp add: distrib_right)
  qed
  note run = this[of ticks]
  let ?g = "?f ticks"
  have total: "em_accrued r * pay_scale B + int (length ticks) * (em_wage r * em_hours r) = em_remainder ?g + em_accrued ?g * pay_scale B"
    using run by simp
  have "em_accrued r + int (length ticks) * (em_wage r * em_hours r) div pay_scale B
      = (int (length ticks) * (em_wage r * em_hours r) + em_accrued r * pay_scale B) div pay_scale B"
    using pay_scale_pos[of B] by (simp add: div_mult_self1)
  also have "\<dots> = (em_remainder ?g + em_accrued ?g * pay_scale B) div pay_scale B"
    using total by (simp only: add.commute)
  also have "\<dots> = em_accrued ?g"
    using run pay_scale_pos[of B] by (simp add: div_mult_self1 div_pos_pos_trivial)
  finally show ?thesis by simp
qed

end
