(* ===== verification/Labour_Events.thy ===== *)
theory Labour_Events
  imports Labour_Policy Banking_Events
begin

text \<open>
  The events of the labour market against the table of kinds, as for the banking engine: a log that
  refuses events without the fields their kind requires changes nothing.
\<close>

lemma labour_kinds_known:
  "\<forall>d\<in>set (kinds_from_4202 @ kinds_from_5020).
     \<forall>pl. payload_complete (kd_kind d) pl = list_all (\<lambda>f. f \<in> set (map fst pl)) (kd_required d)"
proof -
  have "payload_complete (kd_kind d) pl = list_all (\<lambda>f. f \<in> set (map fst pl)) (kd_required d)" if "d \<in> set kind_table" for d pl
    by (simp add: payload_complete_def find_kind[OF that])
  then show ?thesis unfolding kind_table_def concat.simps set_append by blast
qed

lemmas labour_kinds = labour_kinds_known[unfolded kinds_from_4202_def kinds_from_5020_def
  kd_def set_append set_simps Un_insert_left Un_empty_left ball_simps kind_decl.simps list.pred_inject]

definition checked_market :: "'l lab_env \<Rightarrow> 'l lab_env" where
  "checked_market B = B\<lparr>lb_econ := checked (lb_econ B)\<rparr>"

named_theorems market_checked \<open>operations of the market that do not notice the check\<close>

lemma market_settings [market_checked]:
  "lb_econ (checked_market B) = checked (lb_econ B)" "lb_occupations (checked_market B) = lb_occupations B"
  "lb_district (checked_market B) = lb_district B" "lb_vacancy_days (checked_market B) = lb_vacancy_days B"
  "lb_max_vacancies (checked_market B) = lb_max_vacancies B" "lb_max_applications (checked_market B) = lb_max_applications B"
  "lb_min_score (checked_market B) = lb_min_score B" "lb_shortlist (checked_market B) = lb_shortlist B"
  "lb_offer_days (checked_market B) = lb_offer_days B" "lb_search_days (checked_market B) = lb_search_days B"
  "lb_notice (checked_market B) = lb_notice B" "lb_min_wage (checked_market B) = lb_min_wage B"
  "lb_skill_decay (checked_market B) = lb_skill_decay B" "lb_decay_on (checked_market B) = lb_decay_on B"
  "lb_recency_on (checked_market B) = lb_recency_on B" "lb_payroll_days (checked_market B) = lb_payroll_days B"
  "lb_brackets (checked_market B) = lb_brackets B" "lb_employer_bp (checked_market B) = lb_employer_bp B"
  "lb_multiplier (checked_market B) = lb_multiplier B" "lb_garnish (checked_market B) = lb_garnish B"
  "lb_repr (checked_market B) = lb_repr B" "lb_visible (checked_market B) = lb_visible B"
  "lb_autopost_on (checked_market B) = lb_autopost_on B"
  by (simp_all add: checked_market_def)

lemma market_emit [market_checked]:
  "payload_complete k pl \<Longrightarrow> l_emit (checked_market B) k pl actor subjects = l_emit B k pl actor subjects"
  by (simp add: l_emit_def market_checked checked_emit)

section \<open>Helpers\<close>

lemma market_district [market_checked]: "l_district (checked_market B) = l_district B"
  by (simp add: fun_eq_iff l_district_def market_checked cong: checked_congs)

lemma market_visibility [market_checked]: "visibility_slice (checked_market B) = visibility_slice B"
  by (simp add: fun_eq_iff visibility_slice_def Let_def market_checked checked_rules cong: checked_congs)

lemma market_context [market_checked]:
  "screen_context (checked_market B) = screen_context B" "choice_context (checked_market B) = choice_context B"
  by (simp_all add: fun_eq_iff screen_context_def choice_context_def market_checked checked_rules cong: checked_congs)

lemma market_shuffled [market_checked]: "shuffled_by (checked_market B) = shuffled_by B"
  by (simp add: fun_eq_iff shuffled_by_def market_checked checked_rules cong: checked_congs)

lemma market_amounts [market_checked]:
  "offered_wage (checked_market B) = offered_wage B" "pay_scale (checked_market B) = pay_scale B"
  "income_tax (checked_market B) = income_tax B" "employer_tax (checked_market B) = employer_tax B"
  "payroll_due (checked_market B) = payroll_due B" "garnished (checked_market B) = garnished B"
  by (simp_all add: fun_eq_iff Let_def offered_wage_def pay_scale_def income_tax_def employer_tax_def payroll_due_def garnished_def
      market_checked checked_rules cong: checked_congs)

lemma market_worked [market_checked]: "worked (checked_market B) = worked B"
  by (simp add: fun_eq_iff worked_def market_checked cong: checked_congs)

lemma market_score_all [market_checked]: "score_all (checked_market B) = score_all B"
  by (simp add: fun_eq_iff score_all_def market_checked cong: checked_congs)

section \<open>The market\<close>

lemma market_post_vacancy [market_checked]: "post_vacancy (checked_market B) = post_vacancy B"
  by (intro ext) (simp add: post_vacancy_def Let_def market_checked checked_rules labour_kinds cong: checked_congs)

lemma market_apply [market_checked]: "apply_for_job (checked_market B) = apply_for_job B"
  by (intro ext) (simp add: apply_for_job_def Let_def market_checked checked_rules labour_kinds cong: checked_congs)

lemma market_screen_one [market_checked]: "screen_one (checked_market B) = screen_one B"
  by (intro ext) (simp add: screen_one_def Let_def market_checked checked_rules labour_kinds cong: checked_congs)

lemma market_screen_vacancy [market_checked]: "screen_vacancy (checked_market B) = screen_vacancy B"
  by (intro ext) (simp add: screen_vacancy_def Let_def market_checked checked_rules labour_kinds cong: checked_congs)

lemma market_screen [market_checked]: "screen_pending (checked_market B) = screen_pending B"
  by (intro ext) (simp add: screen_pending_def Let_def market_checked checked_rules labour_kinds cong: checked_congs)

lemma market_make_offer [market_checked]: "make_offer (checked_market B) = make_offer B"
  by (intro ext) (simp add: make_offer_def Let_def market_checked checked_rules labour_kinds cong: checked_congs)

lemma market_expire_offer [market_checked]: "expire_offer (checked_market B) = expire_offer B"
  by (intro ext) (simp add: expire_offer_def Let_def market_checked checked_rules labour_kinds cong: checked_congs)

lemma market_hire [market_checked]: "hire (checked_market B) = hire B"
  by (intro ext) (simp add: hire_def Let_def market_checked checked_rules labour_kinds cong: checked_congs)

lemma market_accept [market_checked]: "accept_offer (checked_market B) = accept_offer B"
  by (simp add: fun_eq_iff accept_offer_def market_checked cong: checked_congs)

lemma market_work [market_checked]: "work (checked_market B) = work B"
  by (intro ext) (simp add: work_def Let_def market_checked checked_rules labour_kinds cong: checked_congs)

lemma market_expire_offers [market_checked]: "expire_offers (checked_market B) = expire_offers B"
  by (intro ext) (simp add: expire_offers_def Let_def market_checked checked_rules labour_kinds cong: checked_congs)

lemma market_close [market_checked]: "close_vacancy (checked_market B) = close_vacancy B"
  by (intro ext) (simp add: close_vacancy_def Let_def market_checked checked_rules labour_kinds cong: checked_congs)

lemma market_expire [market_checked]: "expire (checked_market B) = expire B"
  by (intro ext) (simp add: expire_def Let_def market_checked checked_rules labour_kinds cong: checked_congs)

lemma market_resolve_one [market_checked]: "resolve_one (checked_market B) = resolve_one B"
  by (intro ext) (simp add: resolve_one.simps market_checked cong: labour_request.case_cong)

lemma market_resolve [market_checked]: "resolve_labour (checked_market B) = resolve_labour B"
  by (intro ext) (simp add: resolve_labour_def Let_def market_checked checked_rules labour_kinds cong: checked_congs)

section \<open>Wages\<close>

lemma market_settle_dead [market_checked]: "settle_dead (checked_market B) = settle_dead B"
  by (intro ext) (simp add: settle_dead_def Let_def market_checked checked_rules labour_kinds cong: checked_congs)

lemma market_pay_wage [market_checked]: "pay_wage (checked_market B) = pay_wage B"
  by (intro ext) (simp add: pay_wage_def Let_def market_checked checked_rules labour_kinds cong: checked_congs)

lemma market_pay_one [market_checked]: "pay_one (checked_market B) = pay_one B"
  by (simp add: fun_eq_iff pay_one_def market_checked cong: checked_congs)

lemma market_lay_off [market_checked]: "lay_off (checked_market B) = lay_off B"
  by (intro ext) (simp add: lay_off_def Let_def market_checked checked_rules labour_kinds cong: checked_congs)

lemma market_layoffs [market_checked]: "layoff_for_shortfall (checked_market B) = layoff_for_shortfall B"
  by (intro ext) (simp add: layoff_for_shortfall_def Let_def market_checked checked_rules labour_kinds cong: checked_congs)

lemma market_shortfall [market_checked]: "report_shortfall (checked_market B) = report_shortfall B"
  by (intro ext) (simp add: report_shortfall_def Let_def market_checked checked_rules labour_kinds cong: checked_congs)

lemma market_payroll_firm [market_checked]: "payroll_firm (checked_market B) = payroll_firm B"
  by (intro ext) (simp add: payroll_firm_def Let_def market_checked checked_rules labour_kinds cong: checked_congs)

lemma market_payroll [market_checked]: "run_payroll (checked_market B) = run_payroll B"
  by (intro ext) (simp add: run_payroll_def Let_def market_checked checked_rules labour_kinds cong: checked_congs)

lemma market_decay_one [market_checked]: "decay_one (checked_market B) = decay_one B"
  by (intro ext) (simp add: decay_one_def Let_def market_checked checked_rules labour_kinds cong: checked_congs)

lemma market_decay [market_checked]: "decay_unused_skills (checked_market B) = decay_unused_skills B"
  by (intro ext) (simp add: decay_unused_skills_def Let_def market_checked checked_rules labour_kinds cong: checked_congs)

lemma market_summary [market_checked]: "emit_summary (checked_market B) = emit_summary B"
proof -
  have same: "summary_payload (checked_market B) = summary_payload B"
    by (simp add: fun_eq_iff summary_payload_def market_checked checked_rules cong: checked_congs)
  have "payload_complete 5050 (summary_payload B tick w)" for tick w
    by (simp add: summary_payload_def Let_def labour_kinds)
  then have "l_emit (checked_market B) 5050 (summary_payload B tick w) = l_emit B 5050 (summary_payload B tick w)" for tick w
    by (simp add: fun_eq_iff market_emit)
  then show ?thesis by (simp add: fun_eq_iff emit_summary_def same m_bind_def m_read_def)
qed

section \<open>The policy\<close>

lemma market_policy [market_checked]:
  "should_autopost (checked_market B) = should_autopost B" "occupation_for (checked_market B) = occupation_for B"
  "rate_vacancy (checked_market B) = rate_vacancy B"
  by (simp_all add: fun_eq_iff should_autopost_def occupation_for_def rate_vacancy_def market_checked checked_rules cong: checked_congs)

lemma checked_median [market_checked]: "ee_median_wage (checked E) = ee_median_wage E" "ee_retirement_age (checked E) = ee_retirement_age E"
  by (rule checked_settings)+

lemma market_vacancy_actions [market_checked]: "vacancy_actions (checked_market B) = vacancy_actions B"
  by (intro ext) (simp add: vacancy_actions_def Let_def market_checked checked_rules labour_kinds cong: checked_congs)

lemma market_search [market_checked]: "search_job (checked_market B) = search_job B"
  by (intro ext) (simp add: search_job_def Let_def market_checked checked_rules labour_kinds cong: checked_congs)

lemma market_first [market_checked]: "first_actions (checked_market B) = first_actions B"
  by (intro ext) (simp add: first_actions_def Let_def apply_actions_def market_checked checked_rules labour_kinds cong: checked_congs)

text \<open>C11. Every event of the labour market's part of a tick, from the expiry of offers to the summary, is of a registered kind
  and carries every field the kind requires.\<close>

theorem labour_events_complete:
  "market_phase (checked_market B) name tick = market_phase B name tick
   \<and> wage_phase (checked_market B) tick = wage_phase B tick
   \<and> emit_summary (checked_market B) tick = emit_summary B tick
   \<and> resolve_labour (checked_market B) actions tick = resolve_labour B actions tick"
  by (simp add: market_phase_def wage_phase_def market_checked cong: checked_congs)

end
