(* ===== verification/Labour_Book.thy ===== *)
theory Labour_Book
  imports Labour_Policy Banking_Keeps
begin

text \<open>
  The labour market and the loan book: whatever the market does, the ledger keeps its invariant and the
  accounts of loans carry what the table of loans says. Wages and taxes are the only postings, and
  their legs touch no account of a loan.
\<close>

section \<open>Rules\<close>

definition on_econ :: "('l econ_world \<Rightarrow> bool) \<Rightarrow> 'l lab_world \<Rightarrow> bool" where
  "on_econ P w \<longleftrightarrow> P (lw_econ w)"

named_theorems market_rules \<open>methods of the labour market that keep an invariant of the economy\<close>

lemma l_econ_Inr_iff: "l_econ m w = Inr (x, w') \<longleftrightarrow> (\<exists>e. m (lw_econ w) = Inr (x, e) \<and> w' = w\<lparr>lw_econ := e\<rparr>)"
  by (auto simp: l_econ_def split: sum.splits)

lemma keeps_l_econ: "keeps P m \<Longrightarrow> keeps (on_econ P) (l_econ m)"
  by (rule keepsI) (auto simp: l_econ_Inr_iff on_econ_def dest: keepsD)

lemma keeps_l_get [market_rules]: "keeps P (l_get f i)"
  unfolding l_get_def by (intro keeps_rules)

lemma keeps_l_agent [market_rules]: "keeps P (l_agent i)"
  unfolding l_agent_def by (intro keeps_rules)

lemma keeps_l_district [market_rules]: "keeps P (l_district B p)"
  unfolding l_district_def by (rule keeps_res)

lemma keeps_lab_modify:
  "(\<And>w. lw_econ (f w) = lw_econ w) \<Longrightarrow> keeps (on_econ P) (m_modify f)"
  by (rule keeps_modify) (simp add: on_econ_def)

lemma keeps_tables [market_rules]:
  "keeps (on_econ P) (upd_vacancy i f)" "keeps (on_econ P) (upd_appl i g)" "keeps (on_econ P) (upd_offer i h)"
  "keeps (on_econ P) (upd_worker i k)"
  unfolding upd_vacancy_def upd_appl_def upd_offer_def upd_worker_def by (rule keeps_lab_modify, simp)+

declare keeps_rules [market_rules]

section \<open>Primitives\<close>

lemma keeps_book_modify:
  fixes f :: "'l econ_world \<Rightarrow> 'l econ_world"
  assumes "\<And>e. ew_ledger (f e) = ew_ledger e \<and> ew_loans (f e) = ew_loans e \<and> steady e (f e)"
  shows "keeps (on_econ loan_book) (l_econ (m_modify f))"
  by (rule keeps_l_econ[OF keeps_modify_same]) (rule assms)

lemma keeps_book_econ [market_rules]:
  "keeps (on_econ loan_book) (l_econ (e_mint p t k))" "keeps (on_econ loan_book) (l_emit B kind pl actor subjects)"
  "keeps (on_econ loan_book) (l_econ (e_next_txn E tick))"
  "keeps (on_econ loan_book) (upd_firm i f)" "keeps (on_econ loan_book) (upd_employment i g)"
  unfolding l_emit_def upd_firm_def upd_employment_def
  by (rule keeps_l_econ, rule keeps_e) (rule keeps_l_econ, rule keeps_e, rule keeps_l_econ, rule keeps_e, (rule keeps_book_modify, simp add: steady_def)+)

lemma keeps_book_status [market_rules]: "keeps (on_econ loan_book) (set_status i s)"
  unfolding set_status_def by (intro market_rules keeps_book_modify) (simp add: steady_def)

lemma keeps_book_store [market_rules]: "keeps (on_econ loan_book) (m_modify (store_application r))"
  by (rule keeps_modify)
     (auto simp: on_econ_def store_application_def Let_def loan_book_def rates_ok_def)

lemma book_with_rng: "loan_book (e\<lparr>ew_rng := reg\<rparr>) = loan_book e"
  by (simp add: loan_book_def rates_ok_def)

lemma keeps_book_shuffled [market_rules]: "keeps (on_econ loan_book) (shuffled_by B ns i tick xs)"
  unfolding shuffled_by_def
  by (intro keeps_l_econ keepsI) (auto simp: book_with_rng split: prod.splits sum.splits)

lemma keeps_visibility [market_rules]: "keeps (on_econ loan_book) (visibility_slice B i tick limit)"
  unfolding visibility_slice_def Let_def
  by (intro market_rules keeps_l_econ keepsI) (auto simp: book_with_rng split: prod.splits sum.splits)

section \<open>The market\<close>

lemma keeps_post_vacancy: "keeps (on_econ loan_book) (post_vacancy B actor f oc wage headcount tick)"
  unfolding post_vacancy_def Let_def by (intro market_rules keeps_lab_modify) simp

lemma keeps_apply_job: "keeps (on_econ loan_book) (apply_for_job B actor v asked tick)"
  unfolding apply_for_job_def Let_def by (intro market_rules)

lemma keeps_screen_pending: "keeps (on_econ loan_book) (screen_pending B tick)"
proof -
  have "keeps (on_econ loan_book) (screen_one B v x)" for v x
    unfolding screen_one_def Let_def by (intro market_rules)
  then show ?thesis unfolding screen_pending_def screen_vacancy_def score_all_def by (intro market_rules)
qed

lemma keeps_make_offer: "keeps (on_econ loan_book) (make_offer B actor r wage tick)"
  unfolding make_offer_def Let_def by (intro market_rules keeps_lab_modify) simp

lemma keeps_expire_offer: "keeps (on_econ loan_book) (expire_offer B x)"
  unfolding expire_offer_def by (intro market_rules)

lemma keeps_hire: "keeps (on_econ loan_book) (hire B x i r tick)"
  unfolding hire_def Let_def by (intro market_rules keeps_book_modify keeps_lab_modify) (simp_all add: steady_def)

lemma keeps_accept_offer: "keeps (on_econ loan_book) (accept_offer B actor x tick)"
  unfolding accept_offer_def by (intro market_rules keeps_expire_offer keeps_hire)

lemma keeps_work: "keeps (on_econ loan_book) (work B actor e effort tick)"
proof -
  have "keeps (on_econ loan_book) (practise actor tick p)" for p
    unfolding practise_def Let_def by (intro market_rules keeps_lab_modify) simp
  then show ?thesis unfolding work_def Let_def by (intro market_rules)
qed

lemma keeps_expire: "keeps (on_econ loan_book) (expire B tick)"
proof -
  have "keeps (on_econ loan_book) (close_vacancy B tick i)" for i
    unfolding close_vacancy_def by (intro market_rules)
  then show ?thesis unfolding expire_def expire_offers_def
    by (auto intro!: keeps_extend market_rules keeps_expire_offer)
qed

lemma keeps_resolve_labour: "keeps (on_econ loan_book) (resolve_labour B actions tick)"
proof -
  have "keeps (on_econ loan_book) (resolve_one B tick a)" for a
    unfolding resolve_one.simps
    by (cases "ax_request a") (simp_all add: keeps_post_vacancy keeps_apply_job keeps_make_offer keeps_accept_offer keeps_work keeps_return)
  then show ?thesis unfolding resolve_labour_def by (intro market_rules)
qed

section \<open>The policy\<close>

lemma keeps_first_actions: "keeps (on_econ loan_book) (first_actions B name tick)"
proof -
  have "keeps (on_econ loan_book) (search_job B tick a)" for a
    unfolding search_job_def Let_def by (intro market_rules) (auto intro: market_rules split: list.split)
  moreover have "keeps (on_econ loan_book) (work_actions tick)" "keeps (on_econ loan_book) (vacancy_actions B)"
    unfolding work_actions_def vacancy_actions_def by (intro market_rules)+
  ultimately show ?thesis unfolding first_actions_def apply_actions_def
    by (auto intro!: keeps_bind keeps_extend market_rules)
qed

lemma keeps_offer_requests: "keeps P (offer_requests available rs)"
  by (induction rs arbitrary: available) (auto intro!: market_rules)

lemma keeps_market_phase: "keeps (on_econ loan_book) (market_phase B name tick)"
  unfolding market_phase_def unblocked_def offer_actions_def
  by (intro market_rules keeps_expire keeps_first_actions keeps_resolve_labour keeps_screen_pending keeps_offer_requests)

section \<open>Wages\<close>

lemma transfer_free: "transfer source target x reason = Inr legs \<Longrightarrow> free_legs legs"
  by (cases rule: transfer_InrD, assumption) (auto simp: tleg_def debt_code_simps dest!: code_at_id)

lemma subset_chain: "X \<subseteq> Y \<union> L \<Longrightarrow> Y \<subseteq> insert a T \<Longrightarrow> X \<subseteq> T \<union> insert a L"
  by blast

lemma combine_legs_accounts: "leg_account ` set (combine_legs legs) \<subseteq> leg_account ` set legs"
proof -
  let ?F = "\<lambda>g t. let k = (leg_account g, leg_direction g, leg_reason g) in dset k (dget_or t k 0 + leg_amount g) t"
  have step: "fst ` fst ` set (?F g t0) \<subseteq> insert (leg_account g) (fst ` fst ` set t0)" for g t0
    using set_dset_subset[of "(leg_account g, leg_direction g, leg_reason g)" _ t0] unfolding Let_def by fastforce
  have keys: "fst ` fst ` set (fold ?F legs t0) \<subseteq> fst ` fst ` set t0 \<union> leg_account ` set legs" for t0
  proof (induction legs arbitrary: t0)
    case (Cons g gs)
    have "fst ` fst ` set (fold ?F (g # gs) t0) \<subseteq> fst ` fst ` set (?F g t0) \<union> leg_account ` set gs"
      using Cons.IH[of "?F g t0"] by (simp only: fold.simps comp_apply)
    then show ?case unfolding list.set image_insert by (rule subset_chain) (rule step)
  qed simp
  have "leg_account ` set (combine_legs legs) \<subseteq> fst ` fst ` set (fold ?F legs [])"
    unfolding combine_legs_def Let_def by (force simp: mk_leg_def image_iff)
  then show ?thesis using keys[of "[]"] by auto
qed

lemma combine_legs_free: "free_legs legs \<Longrightarrow> free_legs (combine_legs legs)"
  using combine_legs_accounts[of legs] by (fastforce simp: free_legs_def list_all_iff)

lemma keeps_wage_deposit: "keeps loan_book (wage_deposit ow tick)"
  unfolding wage_deposit_def by (intro keeps_rules keeps_e) (auto intro!: keeps_rules keeps_e split: list.split)

lemma yields_transfer: "yields loan_book (e_res (transfer s t x r)) free_legs"
  by (rule yieldsI) (auto simp: e_Inr_iff intro: transfer_free)

lemma yields_no_legs: "yields loan_book (m_return []) free_legs"
  by (rule yields_return) simp

lemma yields_wage_legs: "yields loan_book (wage_legs f agent net tax tick) free_legs"
proof -
  have tax: "yields loan_book (transfer_if (fm_account f) treasury_deposit tax ''tax'') free_legs"
    by (simp add: transfer_if_def yields_no_legs yields_transfer)
  show ?thesis unfolding wage_legs_def
    by (intro yields_bind[of loan_book _ free_legs] yields_bind[OF tax] yields_return combine_legs_free)
       (auto intro!: yields_skip[OF keeps_wage_deposit] yields_transfer yields_no_legs)
qed

definition garnish_keeps :: "('l lab_world \<Rightarrow> bool) \<Rightarrow> 'l lab_env \<Rightarrow> bool" where
  \<comment> \<open>what is asked of a garnishment: it keeps the invariant too\<close>
  "garnish_keeps P B \<longleftrightarrow> (case lb_garnish B of None \<Rightarrow> True | Some g \<Rightarrow> \<forall>a x t. keeps P (g a x t))"

lemma keeps_garnished: "garnish_keeps P B \<Longrightarrow> keeps P (garnished B agent net tick)"
  by (auto simp: garnish_keeps_def garnished_def intro: keeps_return split: option.split)

lemma keeps_book_wage: "keeps (on_econ loan_book) (book_wage tick i r)"
proof -
  have "keeps (on_econ loan_book) (l_econ (m_modify (add_income tick j x)))" for j x
    by (rule keeps_book_modify) (simp add: add_income_def Let_def steady_def)
  then show ?thesis unfolding book_wage_def
    by (intro market_rules keeps_lab_modify) (auto simp: add_wages_def Let_def)
qed

lemma keeps_pay_one:
  assumes "garnish_keeps (on_econ loan_book) B"
  shows "keeps (on_econ loan_book) (pay_one B tick f i j)"
proof -
  have "keeps (on_econ loan_book) (settle_dead B tick i r)" for r
    unfolding settle_dead_def by (intro market_rules)
  moreover have "keeps (on_econ loan_book) (pay_wage B tick f i r)" for r
  proof -
    have legs: "keeps (on_econ loan_book) (m_bind (l_econ (wage_legs f a n t tick)) (\<lambda>legs.
        m_then (l_econ (post_expected (lb_econ B) legs tick ev txn what)) (k legs)))"
      if "\<And>legs. keeps (on_econ loan_book) (k legs)" for a n t ev txn what and k :: "leg list \<Rightarrow> ('a, pay_outcome list) lm"
    proof (rule keepsI)
      fix w x w' assume w: "on_econ loan_book w" and run: "m_bind (l_econ (wage_legs f a n t tick)) (\<lambda>legs.
        m_then (l_econ (post_expected (lb_econ B) legs tick ev txn what)) (k legs)) w = Inr (x, w')"
      then obtain legs e where legs: "wage_legs f a n t tick (lw_econ w) = Inr (legs, e)"
        and rest: "m_then (l_econ (post_expected (lb_econ B) legs tick ev txn what)) (k legs) (w\<lparr>lw_econ := e\<rparr>) = Inr (x, w')"
        by (auto simp: m_bind_Inr_iff l_econ_Inr_iff)
      have e: "loan_book e" "free_legs legs"
        using yieldsD[OF yields_wage_legs _ legs] w by (simp_all add: on_econ_def)
      have "keeps (on_econ loan_book) (m_then (l_econ (post_expected (lb_econ B) legs tick ev txn what)) (k legs))"
        by (intro keeps_then keeps_l_econ keeps_post_free e that)
      from keepsD[OF this _ rest] show "on_econ loan_book w'" by (simp add: on_econ_def e)
    qed
    show ?thesis unfolding pay_wage_def Let_def
      by (intro market_rules legs keeps_garnished[OF assms] keeps_book_wage)
  qed
  ultimately show ?thesis unfolding pay_one_def by (intro market_rules)
qed

lemma keeps_wage_phase:
  assumes "garnish_keeps (on_econ loan_book) B"
  shows "keeps (on_econ loan_book) (wage_phase B tick)"
proof -
  have "keeps (on_econ loan_book) (lay_off B i tick r)" for i r
    unfolding lay_off_def by (intro market_rules)
  then have layoffs: "keeps (on_econ loan_book) (layoff_for_shortfall B i unpaid tick)" for i unpaid
    unfolding layoff_for_shortfall_def Let_def by (intro market_rules)
  have "keeps (on_econ loan_book) (payroll_firm B tick i)" for i
    unfolding payroll_firm_def report_shortfall_def Let_def
    by (intro market_rules keeps_pay_one[OF assms] layoffs)
  then have "keeps (on_econ loan_book) (run_payroll B tick)" unfolding run_payroll_def by (intro market_rules)
  moreover have "keeps (on_econ loan_book) (decay_unused_skills B tick)"
    unfolding decay_unused_skills_def decay_one_def Let_def
    by (intro market_rules keeps_lab_modify) simp
  ultimately show ?thesis unfolding wage_phase_def by (intro keeps_extend) auto
qed

lemma keeps_summary: "keeps (on_econ loan_book) (emit_summary B tick)"
  unfolding emit_summary_def by (intro market_rules)

text \<open>C10. Whatever happens on the labour market in a tick, postings, hires, work, payroll with its taxes, layoffs, the
  ledger keeps its invariant and every receivable and payable still carries what the table of loans says.\<close>

theorem labour_keeps_book:
  assumes "garnish_keeps (on_econ loan_book) B" "loan_book (lw_econ w)"
    "m = market_phase B name tick \<or> m = wage_phase B tick \<or> m = resolve_labour B actions tick \<or> m = emit_summary B tick"
    "m w = Inr (evs, w')"
  shows "loan_book (lw_econ w')"
proof -
  have "keeps (on_econ loan_book) m"
    using assms(3) keeps_market_phase keeps_wage_phase[OF assms(1)] keeps_resolve_labour keeps_summary by blast
  from keepsD[OF this _ assms(4)] show ?thesis using assms(2) by (simp add: on_econ_def)
qed

end
