(* ===== verification/Labour_Staff.thy ===== *)
theory Labour_Staff
  imports Labour_Book
begin

text \<open>
  Firms and their staff. The invariant: the headcount of a firm is the number of its employments that
  have not ended, and every employment is numbered within the tick it starts in. Hiring, work, payroll
  and layoffs keep it; nothing else in the labour market touches employments or firms.
\<close>

declare map_of_eq_Some_iff [simp del] Some_eq_map_of_iff [simp del]

section \<open>The invariant\<close>

definition numbered :: "string \<Rightarrow> ('x \<Rightarrow> int) \<Rightarrow> (string, 'x) dict \<Rightarrow> bool" where
  \<comment> \<open>each row is named by its tick and a number below the rows of that tick\<close>
  "numbered pre stamp d \<longleftrightarrow> (\<forall>i x. dget d i = Some x \<longrightarrow>
     (\<exists>k. mint pre (stamp x) k = Inr i \<and> k < count_of (\<lambda>y. stamp y = stamp x) d))"

type_synonym jobs = "(string, employment_state) dict"
type_synonym firms = "(string, firm_state) dict"

definition staff :: "jobs \<Rightarrow> string \<Rightarrow> int" where
  "staff jobs i = count_of (\<lambda>r. em_firm r = i \<and> em_ended r = None) jobs"

definition staffed :: "jobs \<Rightarrow> firms \<Rightarrow> bool" where
  "staffed jobs firms \<longleftrightarrow> wf_dict jobs \<and> numbered ''emp'' em_started jobs \<and> (\<forall>j r. dget jobs j = Some r \<longrightarrow> em_id r = j)
     \<and> (\<forall>i f. dget firms i = Some f \<longrightarrow> fm_id f = i \<and> fm_headcount f = staff jobs i)"

definition on_staff :: "(jobs \<Rightarrow> firms \<Rightarrow> bool) \<Rightarrow> 'l lab_world \<Rightarrow> bool" where
  "on_staff P w \<longleftrightarrow> P (lw_employments w) (lw_firms w)"

section \<open>Tables\<close>

lemma count_sum: "count_of P d = (\<Sum>x\<leftarrow>dvals d. if P x then 1 else 0)"
  by (induction d) (auto simp: count_of_def)

lemma count_dset:
  "wf_dict d \<Longrightarrow> dget d i = Some x \<Longrightarrow> count_of P (dset i y d) = count_of P d - (if P x then 1 else 0) + (if P y then 1 else 0)"
  unfolding count_sum by (rule sum_dset_int)

lemma count_fresh: "dget d i = None \<Longrightarrow> count_of P (dset i y d) = count_of P d + (if P y then 1 else 0)"
  by (simp add: count_of_def dget_None_iff dset_fresh)

lemma on_dict_id: "dget d i = None \<Longrightarrow> on_dict i f d = d"
  by (simp add: on_dict_def)

lemma dget_on_dict: "dget (on_dict i f d) j = (if i = j then map_option f (dget d i) else dget d j)"
  by (auto simp: on_dict_def split: option.split)

lemma wf_on_dict: "wf_dict d \<Longrightarrow> wf_dict (on_dict i f d)"
  by (simp add: on_dict_def split: option.split)

lemma count_on_dict:
  "wf_dict d \<Longrightarrow> (\<And>x. dget d i = Some x \<Longrightarrow> P (f x) = P x) \<Longrightarrow> count_of P (on_dict i f d) = count_of P d"
  by (auto simp: on_dict_def count_dset split: option.split)

lemma numbered_on_dict:
  assumes "numbered pre stamp d" "wf_dict d" "\<And>x. stamp (f x) = stamp x"
  shows "numbered pre stamp (on_dict i f d)"
  unfolding numbered_def
proof (intro allI impI)
  fix j y assume "dget (on_dict i f d) j = Some y"
  then obtain x where "dget d j = Some x" "stamp y = stamp x"
    using assms(3) by (auto simp: dget_on_dict split: if_splits)
  then show "\<exists>k. mint pre (stamp y) k = Inr j \<and> k < count_of (\<lambda>z. stamp z = stamp y) (on_dict i f d)"
    using assms by (simp add: count_on_dict numbered_def)
qed

lemma numbered_fresh:
  assumes "numbered pre stamp d" "mint pre t (count_of (\<lambda>y. stamp y = t) d) = Inr i"
  shows "dget d i = None"
proof (rule ccontr)
  assume "dget d i \<noteq> None"
  then obtain x where x: "dget d i = Some x" by blast
  then obtain k where k: "mint pre (stamp x) k = Inr i" "k < count_of (\<lambda>y. stamp y = stamp x) d"
    using assms(1) by (auto simp: numbered_def)
  then show False using mint_injective[OF assms(2) k(1)] by auto
qed

lemma numbered_dset:
  assumes d: "numbered pre stamp d" and i: "mint pre t (count_of (\<lambda>y. stamp y = t) d) = Inr i" and y: "stamp y = t"
  shows "numbered pre stamp (dset i y d)"
proof -
  note fresh = numbered_fresh[OF d i]
  have "\<exists>k. mint pre (stamp x) k = Inr j \<and> k < count_of (\<lambda>z. stamp z = stamp x) (dset i y d)"
    if j: "dget (dset i y d) j = Some x" for j x
  proof (cases "j = i")
    case True
    then show ?thesis using j i y fresh by (auto simp: count_fresh)
  next
    case False
    then obtain k where "mint pre (stamp x) k = Inr j" "k < count_of (\<lambda>z. stamp z = stamp x) d"
      using j d by (auto simp: numbered_def)
    then show ?thesis using fresh by (auto simp: count_fresh)
  qed
  then show ?thesis by (simp add: numbered_def)
qed

section \<open>Methods that touch neither employments nor firms\<close>

named_theorems staff_rules \<open>methods of the labour market that keep a property of employments and firms\<close>

lemma keeps_on_staff:
  "(\<And>e x e'. m e = Inr (x, e') \<Longrightarrow> ew_employments e' = ew_employments e \<and> ew_firms e' = ew_firms e) \<Longrightarrow>
     keeps (on_staff P) (l_econ m)"
  by (rule keepsI) (auto simp: l_econ_Inr_iff on_staff_def lw_employments_def lw_firms_def)

lemma keeps_staff_modify:
  "(\<And>w. lw_employments (f w) = lw_employments w \<and> lw_firms (f w) = lw_firms w) \<Longrightarrow> keeps (on_staff P) (m_modify f)"
  by (rule keeps_modify) (simp add: on_staff_def)

lemma keeps_staff_tables [staff_rules]:
  "keeps (on_staff P) (upd_vacancy i f)" "keeps (on_staff P) (upd_appl i g)" "keeps (on_staff P) (upd_offer i h)"
  "keeps (on_staff P) (upd_worker i k)" "keeps (on_staff P) (m_modify (store_application r))"
  unfolding upd_vacancy_def upd_appl_def upd_offer_def upd_worker_def
  by (rule keeps_staff_modify, simp add: lw_employments_def lw_firms_def store_application_def Let_def)+

lemma keeps_staff_econ [staff_rules]:
  "keeps (on_staff P) (l_econ (e_mint p t k))" "keeps (on_staff P) (l_emit B kind pl actor subjects)"
  "keeps (on_staff P) (l_econ (e_next_txn E tick))" "keeps (on_staff P) (set_status i s)"
  "keeps (on_staff P) (shuffled_by B ns i tick xs)" "keeps (on_staff P) (visibility_slice B i tick limit)"
proof -
  show "keeps (on_staff P) (l_econ (e_mint p t k))" "keeps (on_staff P) (l_emit B kind pl actor subjects)"
    "keeps (on_staff P) (l_econ (e_next_txn E tick))"
    unfolding l_emit_def by (rule keeps_on_staff; auto simp: e_Inr_iff dest: e_emit_InrD e_next_InrD)+
  show "keeps (on_staff P) (set_status i s)"
    unfolding set_status_def by (intro keeps_bind keeps_l_agent keeps_on_staff) (auto simp: prog_Inr_iff)
  show "keeps (on_staff P) (shuffled_by B ns i tick xs)"
    unfolding shuffled_by_def by (rule keeps_on_staff) (auto split: prod.splits sum.splits)
  show "keeps (on_staff P) (visibility_slice B i tick limit)"
    unfolding visibility_slice_def Let_def
    by (intro keeps_bind keeps_l_get keeps_l_district keeps_read keeps_on_staff) (auto split: prod.splits sum.splits)
qed

declare keeps_rules [staff_rules] keeps_l_get [staff_rules] keeps_l_agent [staff_rules] keeps_l_district [staff_rules]

lemma staff_post_vacancy: "keeps (on_staff P) (post_vacancy B actor f oc wage headcount tick)"
  unfolding post_vacancy_def Let_def
  by (intro staff_rules keeps_staff_modify) (simp add: lw_employments_def lw_firms_def)

lemma staff_apply: "keeps (on_staff P) (apply_for_job B actor v asked tick)"
  unfolding apply_for_job_def Let_def by (intro staff_rules)

lemma staff_screen: "keeps (on_staff P) (screen_pending B tick)"
  unfolding screen_pending_def screen_vacancy_def score_all_def screen_one_def Let_def by (intro staff_rules)

lemma staff_make_offer: "keeps (on_staff P) (make_offer B actor r wage tick)"
  unfolding make_offer_def Let_def
  by (intro staff_rules keeps_staff_modify) (simp add: lw_employments_def lw_firms_def)

lemma staff_expire_offer: "keeps (on_staff P) (expire_offer B x)"
  unfolding expire_offer_def by (intro staff_rules)

lemma staff_expire: "keeps (on_staff P) (expire B tick)"
  unfolding expire_def expire_offers_def close_vacancy_def
  by (rule keeps_extend) (auto intro!: staff_rules staff_expire_offer)

lemma staff_first_actions: "keeps (on_staff P) (first_actions B name tick)"
proof -
  have "keeps (on_staff P) (search_job B tick a)" for a :: agent_view
    unfolding search_job_def Let_def by (intro staff_rules) (auto intro: staff_rules split: list.split)
  moreover have "keeps (on_staff P) (work_actions tick)" "keeps (on_staff P) (vacancy_actions B)"
    unfolding work_actions_def vacancy_actions_def by (intro staff_rules)+
  ultimately show ?thesis unfolding first_actions_def apply_actions_def
    by (auto intro!: keeps_bind keeps_extend staff_rules)
qed

lemma staff_offers: "keeps (on_staff P) (m_bind (offer_actions name shortlisted tick) unblocked)"
  unfolding offer_actions_def unblocked_def by (intro staff_rules keeps_offer_requests)

lemma staff_practise: "keeps (on_staff P) (practise actor tick p)"
  unfolding practise_def Let_def
  by (intro staff_rules keeps_staff_modify) (simp add: lw_employments_def lw_firms_def)

lemma staff_decay: "keeps (on_staff P) (decay_unused_skills B tick)"
  unfolding decay_unused_skills_def decay_one_def Let_def
  by (intro staff_rules keeps_staff_modify) (simp add: lw_employments_def lw_firms_def)

section \<open>Changes of employments and firms\<close>

lemma upd_employment_sel:
  "upd_employment j f w = Inr ((), w\<lparr>lw_econ := lw_econ w\<lparr>ew_employments := on_dict j f (lw_employments w)\<rparr>\<rparr>)"
  by (simp add: upd_employment_def l_econ_def m_modify_def lw_employments_def)

lemma upd_firm_sel: "upd_firm i f w = Inr ((), w\<lparr>lw_econ := lw_econ w\<lparr>ew_firms := on_dict i f (lw_firms w)\<rparr>\<rparr>)"
  by (simp add: upd_firm_def l_econ_def m_modify_def lw_firms_def)

lemma keeps_upd_employment:
  "(\<And>jobs firms. P jobs firms \<Longrightarrow> P (on_dict j f jobs) firms) \<Longrightarrow> keeps (on_staff P) (upd_employment j f)"
  by (rule keepsI) (auto simp: upd_employment_sel on_staff_def lw_employments_def lw_firms_def)

lemma keeps_upd_firm:
  "(\<And>jobs firms. P jobs firms \<Longrightarrow> P jobs (on_dict i f firms)) \<Longrightarrow> keeps (on_staff P) (upd_firm i f)"
  by (rule keepsI) (auto simp: upd_firm_sel on_staff_def lw_employments_def lw_firms_def)

definition same_job :: "employment_state \<Rightarrow> employment_state \<Rightarrow> bool" where
  \<comment> \<open>the same work relation, whatever has been worked and paid\<close>
  "same_job r s \<longleftrightarrow> em_id s = em_id r \<and> em_agent s = em_agent r \<and> em_firm s = em_firm r \<and> em_started s = em_started r
     \<and> em_ended s = em_ended r"

lemma staffed_touch:
  assumes "staffed jobs firms" "\<And>r. same_job r (f r)"
  shows "staffed (on_dict j f jobs) firms"
proof -
  have "staff (on_dict j f jobs) i = staff jobs i" for i
    unfolding staff_def by (rule count_on_dict) (use assms in \<open>auto simp: staffed_def same_job_def\<close>)
  moreover have "numbered ''emp'' em_started (on_dict j f jobs)"
    by (rule numbered_on_dict) (use assms in \<open>auto simp: staffed_def same_job_def\<close>)
  ultimately show ?thesis using assms
    by (auto simp: staffed_def wf_on_dict dget_on_dict same_job_def split: if_splits)
qed

lemma staffed_firm:
  "staffed jobs firms \<Longrightarrow> (\<And>f. fm_id (g f) = fm_id f \<and> fm_headcount (g f) = fm_headcount f) \<Longrightarrow> staffed jobs (on_dict i g firms)"
  by (auto simp: staffed_def dget_on_dict split: if_splits)

lemma staffed_hire:
  assumes "staffed jobs firms" and i: "mint ''emp'' t (count_of (\<lambda>r. em_started r = t) jobs) = Inr i"
    and job: "em_id job = i" "em_started job = t" "em_ended job = None" and f: "dget firms (em_firm job) = Some f"
  shows "staffed (dset i job jobs) (on_dict (em_firm job) (\<lambda>f. f\<lparr>fm_headcount := fm_headcount f + 1\<rparr>) firms)"
proof -
  have num: "numbered ''emp'' em_started jobs" and wf: "wf_dict jobs" using assms(1) by (simp_all add: staffed_def)
  note fresh = numbered_fresh[OF num i]
  have "staff (dset i job jobs) k = staff jobs k + (if k = em_firm job then 1 else 0)" for k
    using fresh job(3) by (simp add: staff_def count_fresh)
  then show ?thesis using assms(1) numbered_dset[OF num i job(2)] wf job(1)
    by (auto simp: staffed_def dget_on_dict split: if_splits)
qed

lemma staffed_end:
  assumes "staffed jobs firms" and r: "dget jobs j = Some r" "em_ended r = None" and t: "em_firm r = i"
  shows "staffed (on_dict j (\<lambda>r. r\<lparr>em_ended := Some t\<rparr>) jobs) (on_dict i (\<lambda>f. f\<lparr>fm_headcount := max 0 (fm_headcount f - 1)\<rparr>) firms)"
proof -
  have wf: "wf_dict jobs" using assms(1) by (simp add: staffed_def)
  let ?jobs = "on_dict j (\<lambda>r. r\<lparr>em_ended := Some t\<rparr>) jobs"
  have "staff ?jobs k = staff jobs k - (if k = i then 1 else 0)" for k
    using r t wf by (simp add: staff_def on_dict_def count_dset)
  moreover have "0 < staff jobs i"
    using r t dget_SomeD[OF r(1)] by (force simp: staff_def count_of_def filter_empty_conv)
  moreover have "numbered ''emp'' em_started ?jobs"
    by (rule numbered_on_dict) (use assms in \<open>auto simp: staffed_def\<close>)
  ultimately show ?thesis using assms(1)
    by (auto simp: staffed_def wf_on_dict dget_on_dict split: if_splits)
qed

section \<open>Hiring and work\<close>

lemma l_get_Inr_iff: "l_get f i w = Inr (x, w') \<longleftrightarrow> dget (f w) i = Some x \<and> w' = w"
  by (auto simp: l_get_def prog_Inr_iff split: option.splits)

lemma l_agent_Inr_iff: "l_agent i w = Inr (a, w') \<longleftrightarrow> agent_row i w = Some a \<and> w' = w"
  by (auto simp: l_agent_def prog_Inr_iff split: option.splits)

definition staff_of :: "'l lab_world \<Rightarrow> jobs \<times> firms" where
  "staff_of w = (lw_employments w, lw_firms w)"

lemma staff_fixed:
  "(\<And>P. keeps (on_staff P) m) \<Longrightarrow> m w = Inr (x, w') \<Longrightarrow> staff_of w' = staff_of w"
proof -
  assume keep: "\<And>P. keeps (on_staff P) m" and run: "m w = Inr (x, w')"
  show ?thesis
    using keepsD[OF keep[of "\<lambda>j f. (j, f) = staff_of w"] _ run] by (simp add: on_staff_def staff_of_def)
qed

lemma hire_InrD:
  assumes "hire B x i r tick w = Inr (evs, w')"
  shows "lw_employments w' = dset i (new_employment i x r tick) (lw_employments w)
    \<and> lw_firms w' = on_dict (of_firm x) (\<lambda>f. f\<lparr>fm_headcount := fm_headcount f + 1\<rparr>) (lw_firms w)
    \<and> dget (lw_firms w) (of_firm x) \<noteq> None"
proof -
  let ?job = "new_employment i x r tick"
  let ?w1 = "w\<lparr>lw_econ := lw_econ w\<lparr>ew_employments := dset i ?job (lw_employments w)\<rparr>\<rparr>"
  let ?head = "m_then (upd_offer (of_id x) (\<lambda>x. x\<lparr>of_status := ''accepted''\<rparr>))
      (m_then (upd_appl (ap_id r) (\<lambda>r. r\<lparr>ap_status := ''hired''\<rparr>))
      (upd_vacancy (of_vacancy x) (\<lambda>v. v\<lparr>va_headcount := va_headcount v - 1\<rparr>)))"
  let ?tail = "m_then (upd_vacancy (of_vacancy x) (\<lambda>v. if va_headcount v = 0 then v\<lparr>va_status := ''filled''\<rparr> else v))
      (m_then (m_modify (\<lambda>w. w\<lparr>lw_applications := map (\<lambda>(k, y). (k, withdraw_others (of_agent x) (ap_id r) y)) (lw_applications w)\<rparr>))
      (m_then (set_status (of_agent x) ''employed'')
      (m_bind (l_emit B 5006 [(''offer_id'', JStr (of_id x)), (''employment_id'', JStr i), (''wage_cents'', JInt (of_wage x))]
          (Some (of_agent x)) [of_firm x]) (\<lambda>ev1.
      m_bind (l_emit B 5010 [(''agent_id'', JStr (of_agent x)), (''firm_id'', JStr (of_firm x)), (''employment_id'', JStr i),
          (''occupation'', JStr (of_occupation x)), (''wage_cents'', JInt (of_wage x)), (''match_score_bp'', JInt (em_match_score ?job)),
          (''search_duration_ticks'', JInt (tick - ap_submitted r))] (Some (of_firm x)) [of_agent x]) (\<lambda>ev2.
      m_bind (l_emit B 5042 [(''agent_id'', JStr (of_agent x)), (''duration_ticks'', JInt (tick - ap_submitted r)), (''exit'', JStr ''job''),
          (''new_wage_cents'', JInt (of_wage x)), (''wage_change_bp'', JInt 0)] (Some (of_agent x)) []) (\<lambda>ev3.
      m_return [ev1, ev2, ev3])))))) :: ('a, evt list) lm"
  have head: "keeps (on_staff P) ?head" and tail: "keeps (on_staff P) ?tail" for P
    by (intro staff_rules)
      (intro staff_rules keeps_staff_modify, simp add: lw_employments_def lw_firms_def)
  from assms obtain w2 f w3 where
    1: "?head ?w1 = Inr ((), w2)" and 2: "dget (lw_firms w2) (of_firm x) = Some f"
    and 3: "upd_firm (of_firm x) (\<lambda>f. f\<lparr>fm_headcount := fm_headcount f + 1\<rparr>) w2 = Inr ((), w3)"
    and 4: "?tail w3 = Inr (evs, w')"
    unfolding hire_def Let_def l_econ_def m_modify_def prog_Inr_iff l_get_Inr_iff lw_employments_def by auto
  have "staff_of w2 = staff_of ?w1" using staff_fixed[of ?head, OF head 1] .
  moreover have "staff_of w' = staff_of w3" using staff_fixed[of ?tail, OF tail 4] .
  ultimately show ?thesis using 2 3 by (auto simp: upd_firm_sel staff_of_def lw_employments_def lw_firms_def)
qed

section \<open>The actions of a tick\<close>

lemma keepsI_staff:
  "(\<And>w x w'. P (lw_employments w) (lw_firms w) \<Longrightarrow> m w = Inr (x, w') \<Longrightarrow> P (lw_employments w') (lw_firms w')) \<Longrightarrow> keeps (on_staff P) m"
  by (rule keepsI) (simp add: on_staff_def)

lemma staff_accept_offer: "keeps (on_staff staffed) (accept_offer B actor j tick)"
proof (rule keepsI_staff)
  fix w evs w'
  assume ok: "staffed (lw_employments w) (lw_firms w)" and run: "accept_offer B actor j tick w = Inr (evs, w')"
  have expiring: "staff_of w' = staff_of w" if "expire_offer B x w = Inr (evs, w')" for x
    by (rule staff_fixed[of "expire_offer B x", OF staff_expire_offer that])
  from run consider "staff_of w' = staff_of w"
    | x i e r where "e_mint ''emp'' (tick + 1) (count_of (\<lambda>r. em_started r = tick + 1) (lw_employments w)) (lw_econ w) = Inr (i, e)"
        "hire B x i r tick (w\<lparr>lw_econ := e\<rparr>) = Inr (evs, w')"
    unfolding accept_offer_def
    by (auto simp: prog_Inr_iff l_get_Inr_iff l_agent_Inr_iff l_econ_Inr_iff dest: expiring split: option.splits if_splits)
  then show "staffed (lw_employments w') (lw_firms w')"
  proof cases
    case 1
    then show ?thesis using ok by (simp add: staff_of_def)
  next
    case 2
    then have i: "mint ''emp'' (tick + 1) (count_of (\<lambda>r. em_started r = tick + 1) (lw_employments w)) = Inr i" and e: "e = lw_econ w"
      by (auto simp: e_Inr_iff)
    have w: "w\<lparr>lw_econ := lw_econ w\<rparr> = w" by simp
    note hired = hire_InrD[OF 2(2)[unfolded e w]]
    show ?thesis
      using staffed_hire[OF ok i, of "new_employment i x r tick"] hired by (auto simp: new_employment_def)
  qed
qed

lemma staff_work: "keeps (on_staff staffed) (work B actor j effort tick)"
proof -
  have "keeps (on_staff staffed) (upd_employment j (worked B tick labour))" for labour
    by (rule keeps_upd_employment) (erule staffed_touch, simp add: same_job_def worked_def Let_def)
  then show ?thesis unfolding work_def Let_def by (intro staff_rules staff_practise)
qed

lemma staff_resolve: "keeps (on_staff staffed) (resolve_labour B actions tick)"
proof -
  have "keeps (on_staff staffed) (resolve_one B tick a)" for a
    unfolding resolve_one.simps
    by (cases "ax_request a")
       (simp_all add: staff_post_vacancy staff_apply staff_make_offer staff_accept_offer staff_work keeps_return)
  then show ?thesis unfolding resolve_labour_def by (intro staff_rules)
qed

lemma staff_market_phase: "keeps (on_staff staffed) (market_phase B name tick)"
  unfolding market_phase_def
  by (intro keeps_bind[OF staff_expire] keeps_bind[OF staff_resolve] keeps_bind[OF staff_screen] keeps_bind[OF staff_offers]
        keeps_bind[OF keeps_bind[OF staff_first_actions]])
     (auto simp: unblocked_def intro: staff_rules)

section \<open>Payroll\<close>

definition at_firm :: "string \<Rightarrow> string set \<Rightarrow> jobs \<Rightarrow> firms \<Rightarrow> bool" where
  "at_firm i js jobs firms \<longleftrightarrow> staffed jobs firms \<and> (\<forall>j\<in>js. \<exists>r. dget jobs j = Some r \<and> em_firm r = i)"

definition running_at :: "string \<Rightarrow> string set \<Rightarrow> jobs \<Rightarrow> firms \<Rightarrow> bool" where
  "running_at i js jobs firms \<longleftrightarrow> staffed jobs firms \<and> (\<forall>j\<in>js. \<exists>r. dget jobs j = Some r \<and> em_firm r = i \<and> em_ended r = None)"

lemma at_firm_touch: "at_firm i js jobs firms \<Longrightarrow> (\<And>r. same_job r (f r)) \<Longrightarrow> at_firm i js (on_dict j f jobs) firms"
  by (force simp: at_firm_def dget_on_dict same_job_def intro: staffed_touch)

lemma at_firm_firm:
  "at_firm i js jobs firms \<Longrightarrow> (\<And>f. fm_id (g f) = fm_id f \<and> fm_headcount (g f) = fm_headcount f) \<Longrightarrow> at_firm i js jobs (on_dict k g firms)"
  by (simp add: at_firm_def staffed_firm)

lemma at_firm_end:
  assumes "at_firm i js jobs firms" and r: "dget jobs j = Some r" "em_ended r = None" "em_firm r = i"
  shows "at_firm i js (on_dict j (\<lambda>r. r\<lparr>em_ended := Some t\<rparr>) jobs) (on_dict i (\<lambda>f. f\<lparr>fm_headcount := max 0 (fm_headcount f - 1)\<rparr>) firms)"
  using assms staffed_end[OF _ r] by (force simp: at_firm_def dget_on_dict)

lemma on_staff_rows: "on_staff P = on_econ (\<lambda>e. P (ew_employments e) (ew_firms e))"
  by (simp add: fun_eq_iff on_staff_def on_econ_def lw_employments_def lw_firms_def)

lemma keeps_rows_ledger [staff_rules]:
  "keeps (\<lambda>e. P (ew_employments e) (ew_firms e)) (e_post E legs tick cause)"
  "keeps (\<lambda>e. P (ew_employments e) (ew_firms e)) (e_open code ow ty bank ref tick)"
  "keeps (\<lambda>e. P (ew_employments e) (ew_firms e)) (e_res x)"
  "keeps (\<lambda>e. P (ew_employments e) (ew_firms e)) (e_ledger f)"
  unfolding e_res_def e_ledger_def
  by (rule keepsI, auto simp: e_post_def e_open_def prog_Inr_iff split: sum.splits prod.splits)+

lemma keeps_rows_wage:
  "keeps (on_staff P) (l_econ (wage_legs f agent net tax tick))"
  "keeps (on_staff P) (l_econ (post_expected E legs tick ev txn what))"
  unfolding on_staff_rows wage_legs_def wage_deposit_def transfer_if_def post_expected_def
  by (rule keeps_l_econ, auto intro!: staff_rules split: list.split)+

lemma staff_settle_dead: "keeps (on_staff (at_firm i js)) (m_bind (l_get lw_employments j) (settle_dead B tick i))"
  if "j \<in> js"
proof (rule keepsI_staff)
  fix w x w'
  assume ok: "at_firm i js (lw_employments w) (lw_firms w)" and run: "m_bind (l_get lw_employments j) (settle_dead B tick i) w = Inr (x, w')"
  then obtain r where r: "dget (lw_employments w) j = Some r" "em_firm r = i" "em_id r = j"
    using \<open>j \<in> js\<close> by (force simp: at_firm_def staffed_def)
  from run r obtain ev w1 where ev: "l_emit B 5032 [(''firm_id'', JStr i), (''required_cents'', JInt (em_accrued r)),
      (''available_cents'', JInt (liquid (lw_ledger w) i)), (''unpaid_employment_ids'', JArr [JStr (em_id r)]),
      (''accrued_claim_cents'', JInt (em_accrued r))] (Some i) [em_agent r] w = Inr (ev, w1)"
    and rest: "staff_of w' = (if em_ended r = None
        then (on_dict j (\<lambda>r. r\<lparr>em_ended := Some tick\<rparr>) (on_dict j (\<lambda>r. r\<lparr>em_accrued := 0\<rparr>) (lw_employments w1)),
              on_dict i (\<lambda>f. f\<lparr>fm_headcount := max 0 (fm_headcount f - 1)\<rparr>) (lw_firms w1))
        else (on_dict j (\<lambda>r. r\<lparr>em_accrued := 0\<rparr>) (lw_employments w1), lw_firms w1))"
    unfolding settle_dead_def
    by (auto simp: prog_Inr_iff l_get_Inr_iff upd_employment_sel upd_firm_sel staff_of_def lw_employments_def lw_firms_def split: if_splits)
  have "staff_of w1 = staff_of w" by (rule staff_fixed[OF keeps_staff_econ(2) ev])
  then have w1: "lw_employments w1 = lw_employments w" "lw_firms w1 = lw_firms w" by (simp_all add: staff_of_def)
  have settled: "at_firm i js (on_dict j (\<lambda>r. r\<lparr>em_accrued := 0\<rparr>) (lw_employments w)) (lw_firms w)"
    by (rule at_firm_touch[OF ok]) (simp add: same_job_def)
  have row: "dget (on_dict j (\<lambda>r. r\<lparr>em_accrued := 0\<rparr>) (lw_employments w)) j = Some (r\<lparr>em_accrued := 0\<rparr>)"
    by (simp add: dget_on_dict r)
  show "at_firm i js (lw_employments w') (lw_firms w')"
    using rest settled at_firm_end[OF settled row, of tick] r by (auto simp: staff_of_def w1 split: if_splits)
qed

lemma staff_book_wage: "keeps (on_staff (at_firm i js)) (book_wage tick k r)"
proof -
  have job: "keeps (on_staff (at_firm i js)) (upd_employment j f)" if "\<And>r. same_job r (f r)" for j f
    by (rule keeps_upd_employment) (rule at_firm_touch, assumption, rule that)
  have firm: "keeps (on_staff (at_firm i js)) (upd_firm k g)" if "\<And>f. fm_id (g f) = fm_id f \<and> fm_headcount (g f) = fm_headcount f" for k g
    by (rule keeps_upd_firm) (rule at_firm_firm, assumption, rule that)
  show ?thesis unfolding book_wage_def
    by (intro keeps_then job firm keeps_staff_modify keeps_on_staff)
       (simp_all add: same_job_def add_wages_def add_income_def Let_def lw_employments_def lw_firms_def prog_Inr_iff)
qed

definition garnish_staff :: "'l lab_env \<Rightarrow> bool" where
  \<comment> \<open>what is asked of a garnishment: it leaves employments and firms alone\<close>
  "garnish_staff B \<longleftrightarrow> (\<forall>P. garnish_keeps (on_staff P) B)"

lemma staff_pay_one:
  assumes "garnish_staff B" "j \<in> js"
  shows "keeps (on_staff (at_firm i js)) (pay_one B tick f i j)"
proof -
  have garnish: "keeps (on_staff P) (garnished B agent net tick)" for P agent net
    using assms(1) by (intro keeps_garnished) (simp add: garnish_staff_def)
  have wage: "keeps (on_staff (at_firm i js)) (pay_wage B tick f i r)" for r
    unfolding pay_wage_def Let_def by (intro staff_rules keeps_rows_wage garnish staff_book_wage)
  show ?thesis
  proof (rule keepsI_staff)
    fix w x w'
    assume ok: "at_firm i js (lw_employments w) (lw_firms w)" and run: "pay_one B tick f i j w = Inr (x, w')"
    from run consider r where "pay_wage B tick f i r w = Inr (x, w')"
      | "m_bind (l_get lw_employments j) (settle_dead B tick i) w = Inr (x, w')"
      unfolding pay_one_def by (auto simp: prog_Inr_iff l_get_Inr_iff l_agent_Inr_iff split: if_splits)
    then show "at_firm i js (lw_employments w') (lw_firms w')"
      using ok keepsD[OF wage] keepsD[OF staff_settle_dead[OF assms(2)]] by cases (auto simp: on_staff_def)
  qed
qed

section \<open>Layoffs\<close>

lemma staff_lay_off:
  assumes "running_at i (insert j js) (lw_employments w) (lw_firms w)" "j \<notin> js" "em_id r = j"
    and run: "lay_off B i tick r w = Inr (evs, w')"
  shows "running_at i js (lw_employments w') (lw_firms w')"
proof -
  let ?quit = "on_dict j (\<lambda>r. r\<lparr>em_ended := Some (tick + lb_notice B)\<rparr>)"
  let ?less = "on_dict i (\<lambda>f. f\<lparr>fm_headcount := max 0 (fm_headcount f - 1)\<rparr>)"
  obtain r0 where r0: "dget (lw_employments w) j = Some r0" "em_ended r0 = None" "em_firm r0 = i"
    using assms(1) by (auto simp: running_at_def)
  let ?w1 = "w\<lparr>lw_econ := lw_econ w\<lparr>ew_employments := ?quit (lw_employments w)\<rparr>\<rparr>"
  from run obtain w2 w3 ev w4 where 1: "set_status (em_agent r) ''unemployed'' ?w1 = Inr ((), w2)"
    and 2: "upd_firm i (\<lambda>f. f\<lparr>fm_headcount := max 0 (fm_headcount f - 1)\<rparr>) w2 = Inr ((), w3)"
    and 3: "l_emit B 5011 [(''employment_id'', JStr (em_id r)), (''agent_id'', JStr (em_agent r)), (''firm_id'', JStr i),
         (''reason'', JStr ''redundancy''), (''severance_cents'', JInt 0), (''notice_ticks'', JInt (lb_notice B))]
         (Some i) [em_agent r] w3 = Inr (ev, w4)" and 4: "w' = w4"
    unfolding lay_off_def assms(3) by (auto simp: prog_Inr_iff upd_employment_sel)
  have "staff_of w2 = staff_of ?w1" by (rule staff_fixed[OF keeps_staff_econ(4) 1])
  moreover have "staff_of w4 = staff_of w3" by (rule staff_fixed[OF keeps_staff_econ(2) 3])
  ultimately have w': "lw_employments w' = ?quit (lw_employments w)" "lw_firms w' = ?less (lw_firms w)"
    using 2 4 by (auto simp: upd_firm_sel staff_of_def lw_employments_def lw_firms_def)
  have "staffed (lw_employments w) (lw_firms w)" using assms(1) by (simp add: running_at_def)
  from staffed_end[OF this r0, of "tick + lb_notice B"] show ?thesis
    using assms(1,2) by (force simp: running_at_def w' dget_on_dict)
qed

lemma staff_lay_offs:
  "running_at i (em_id ` set rows) (lw_employments w) (lw_firms w) \<Longrightarrow> distinct (map em_id rows) \<Longrightarrow>
     m_for (lay_off B i tick) rows w = Inr (evs, w') \<Longrightarrow> staffed (lw_employments w') (lw_firms w')"
proof (induction rows arbitrary: w evs)
  case Nil
  then show ?case by (simp add: prog_Inr_iff running_at_def)
next
  case (Cons r rows)
  from Cons.prems(3) obtain ys w1 zs where 1: "lay_off B i tick r w = Inr (ys, w1)" and 2: "m_for (lay_off B i tick) rows w1 = Inr (zs, w')"
    by (auto simp: prog_Inr_iff)
  have "running_at i (em_id ` set rows) (lw_employments w1) (lw_firms w1)"
    by (rule staff_lay_off[OF _ _ refl 1]) (use Cons.prems in auto)
  then show ?case using Cons.IH[OF _ _ 2] Cons.prems(2) by simp
qed

lemma running_rows:
  assumes "m_for (\<lambda>j. m_bind (l_get lw_employments j) (\<lambda>r. m_return (if em_ended r = None then [r] else []))) js w = Inr (rows, w')"
    and "at_firm i (set js) (lw_employments w) (lw_firms w)" "distinct js"
  shows "w' = w \<and> distinct (map em_id rows) \<and> em_id ` set rows \<subseteq> set js
    \<and> running_at i (em_id ` set rows) (lw_employments w) (lw_firms w)"
  using assms
proof (induction js arbitrary: rows)
  case Nil
  then show ?case by (simp add: prog_Inr_iff running_at_def at_firm_def)
next
  case (Cons j js)
  from Cons.prems(1) obtain r zs where r: "dget (lw_employments w) j = Some r"
    and rows: "rows = (if em_ended r = None then [r] else []) @ zs"
    and rest: "m_for (\<lambda>j. m_bind (l_get lw_employments j) (\<lambda>r. m_return (if em_ended r = None then [r] else []))) js w = Inr (zs, w')"
    by (auto simp: prog_Inr_iff l_get_Inr_iff)
  have IH: "w' = w \<and> distinct (map em_id zs) \<and> em_id ` set zs \<subseteq> set js
    \<and> running_at i (em_id ` set zs) (lw_employments w) (lw_firms w)"
    by (rule Cons.IH[OF rest]) (use Cons.prems in \<open>auto simp: at_firm_def\<close>)
  have "em_id r = j" "em_firm r = i" using r Cons.prems(2) by (auto simp: at_firm_def staffed_def)
  then show ?case using IH Cons.prems(3) rows r by (auto simp: running_at_def)
qed

lemma staff_layoffs:
  assumes "at_firm i (set js) (lw_employments w) (lw_firms w)" "distinct js"
    and run: "layoff_for_shortfall B i js tick w = Inr (evs, w')"
  shows "staffed (lw_employments w') (lw_firms w')"
proof -
  let ?read = "m_for (\<lambda>j. m_bind (l_get lw_employments j) (\<lambda>r. m_return (if em_ended r = None then [r] else []))) js"
  from run consider rows w1 where "?read w = Inr (rows, w1)" "w' = w1"
    | rows w1 xs w2 pl ev where "?read w = Inr (rows, w1)" "m_for (lay_off B i tick) (redundancy_order tick rows) w1 = Inr (xs, w2)"
        "l_emit B 5013 pl (Some i) [] w2 = Inr (ev, w')"
    unfolding layoff_for_shortfall_def Let_def by (auto simp: prog_Inr_iff l_get_Inr_iff split: if_splits)
  then show ?thesis
  proof cases
    case 1
    then show ?thesis using running_rows[OF 1(1) assms(1,2)] by (simp add: running_at_def)
  next
    case 2
    note found = running_rows[OF 2(1) assms(1,2)]
    have "running_at i (em_id ` set (redundancy_order tick rows)) (lw_employments w1) (lw_firms w1)"
      "distinct (map em_id (redundancy_order tick rows))"
      using found by (simp_all add: redundancy_order_def distinct_map)
    from staff_lay_offs[OF this 2(2)] show ?thesis
      using staff_fixed[OF keeps_staff_econ(2) 2(3)] by (simp add: staff_of_def)
  qed
qed

section \<open>The payroll of a firm\<close>

lemma outcomes_unpaid:
  assumes "garnish_staff B" "m_for (pay_one B tick f i) js w = Inr (outcomes, w')" "distinct js" "set js \<subseteq> ks"
    and "at_firm i ks (lw_employments w) (lw_firms w)"
  shows "at_firm i ks (lw_employments w') (lw_firms w') \<and> distinct (concat (map outcome_unpaid outcomes))
    \<and> set (concat (map outcome_unpaid outcomes)) \<subseteq> set js"
  using assms(2-)
proof (induction js arbitrary: w outcomes)
  case Nil
  then show ?case by (simp add: prog_Inr_iff)
next
  case (Cons j js)
  from Cons.prems(1) obtain xs w1 ys where 1: "pay_one B tick f i j w = Inr (xs, w1)" and 2: "m_for (pay_one B tick f i) js w1 = Inr (ys, w')"
    and out: "outcomes = xs @ ys" by (auto simp: prog_Inr_iff)
  have "at_firm i ks (lw_employments w1) (lw_firms w1)"
    using keepsD[OF staff_pay_one[OF assms(1)] _ 1] Cons.prems by (simp add: on_staff_def)
  note IH = Cons.IH[OF 2 _ _ this]
  from 1 Cons.prems(4) have "concat (map outcome_unpaid xs) \<in> {[], [j]}"
    unfolding pay_one_def settle_dead_def pay_wage_def Let_def
    by (auto simp: prog_Inr_iff l_get_Inr_iff l_agent_Inr_iff at_firm_def staffed_def split: if_splits)
  then consider "concat (map outcome_unpaid xs) = []" | "concat (map outcome_unpaid xs) = [j]" by blast
  then have "concat (map outcome_unpaid outcomes) = concat (map outcome_unpaid ys)
      \<or> concat (map outcome_unpaid outcomes) = j # concat (map outcome_unpaid ys)"
    unfolding out map_append concat_append by cases simp_all
  then show ?case using IH Cons.prems(2,3) by (elim disjE) (simp only:, auto)+
qed

lemma job_ids: "staffed jobs firms \<Longrightarrow> map em_id (dvals jobs) = dkeys jobs"
  by (auto simp: staffed_def dget_Some_iff)

lemma job_row: "staffed jobs firms \<Longrightarrow> r \<in> set (dvals jobs) \<Longrightarrow> dget jobs (em_id r) = Some r"
  by (auto simp: staffed_def dget_Some_iff)

lemma claims_read:
  "m_for (\<lambda>j. m_bind (l_get lw_employments j) (\<lambda>r. m_return [em_accrued r])) js w = Inr (xs, w') \<Longrightarrow> w' = w"
  by (induction js arbitrary: xs) (auto simp: prog_Inr_iff l_get_Inr_iff)

lemma shortfall_InrD:
  assumes "report_shortfall B i required available js tick w = Inr (evs, w')" "js \<noteq> []"
  obtains pl ev w1 xs where "l_emit B 5032 pl (Some i) [] w = Inr (ev, w1)" "layoff_for_shortfall B i js tick w1 = Inr (xs, w')"
  using assms unfolding report_shortfall_def by (auto simp: prog_Inr_iff dest!: claims_read)

lemma staff_payroll_firm:
  assumes "garnish_staff B"
  shows "keeps (on_staff staffed) (payroll_firm B tick i)"
proof (rule keepsI_staff)
  fix w evs w'
  assume ok: "staffed (lw_employments w) (lw_firms w)" and run: "payroll_firm B tick i w = Inr (evs, w')"
  let ?js = "sort (map em_id (firm_jobs i w))"
  from run consider "w' = w" | f outcomes w1 required available xs w2 ev pl where "m_for (pay_one B tick f i) ?js w = Inr (outcomes, w1)"
      "report_shortfall B i required available (concat (map outcome_unpaid outcomes)) tick w1 = Inr (xs, w2)"
      "l_emit B 5030 pl (Some i) [] w2 = Inr (ev, w')"
    unfolding payroll_firm_def Let_def
    by (auto simp: prog_Inr_iff l_get_Inr_iff split: if_splits)
  then show "staffed (lw_employments w') (lw_firms w')"
  proof cases
    case 2
    have ids: "distinct (map em_id (dvals (lw_employments w)))"
      unfolding job_ids[OF ok] using ok by (simp add: staffed_def)
    have js: "distinct ?js" using ids by (simp add: firm_jobs_def distinct_map_filter)
    have "\<exists>s. dget (lw_employments w) (em_id r) = Some s \<and> em_firm s = i" if "r \<in> set (firm_jobs i w)" for r
      using that job_row[OF ok, of r] by (auto simp: firm_jobs_def)
    then have "at_firm i (set ?js) (lw_employments w) (lw_firms w)" using ok by (auto simp: at_firm_def)
    note paid = outcomes_unpaid[OF assms 2(1) js subset_refl this]
    let ?unpaid = "concat (map outcome_unpaid outcomes)"
    have at: "at_firm i (set ?unpaid) (lw_employments w1) (lw_firms w1)"
      using paid unfolding at_firm_def by blast
    have "staffed (lw_employments w2) (lw_firms w2)"
    proof (cases "?unpaid = []")
      case True
      then show ?thesis using 2(2) at by (simp add: report_shortfall_def prog_Inr_iff at_firm_def)
    next
      case False
      with 2(2) obtain pl' ev' w3 ys where "l_emit B 5032 pl' (Some i) [] w1 = Inr (ev', w3)"
        and laid: "layoff_for_shortfall B i ?unpaid tick w3 = Inr (ys, w2)"
        by (rule shortfall_InrD)
      then have "staff_of w3 = staff_of w1" using staff_fixed[OF keeps_staff_econ(2)] by blast
      then have "at_firm i (set ?unpaid) (lw_employments w3) (lw_firms w3)" using at by (simp add: staff_of_def)
      then show ?thesis using staff_layoffs[OF _ _ laid] paid by simp
    qed
    moreover have "staff_of w' = staff_of w2" by (rule staff_fixed[OF keeps_staff_econ(2) 2(3)])
    ultimately show ?thesis by (simp add: staff_of_def)
  qed (simp add: ok)
qed

lemma staff_wage_phase:
  assumes "garnish_staff B"
  shows "keeps (on_staff staffed) (wage_phase B tick)"
proof -
  have "keeps (on_staff staffed) (run_payroll B tick)"
    unfolding run_payroll_def by (intro staff_rules staff_payroll_firm[OF assms])
  then show ?thesis unfolding wage_phase_def by (intro keeps_extend) (auto simp: staff_decay)
qed

text \<open>C9. The headcount a firm records is always its staff: whatever the labour market does in a tick, accepted offers,
  payroll, redundancies and the deaths found by the payroll, the headcount of each firm stays the number of its
  employments that have not ended, and no employment is numbered twice.\<close>

theorem headcount_is_staff:
  assumes "garnish_staff B" "staffed (lw_employments w) (lw_firms w)"
    "m = market_phase B name tick \<or> m = wage_phase B tick \<or> m = resolve_labour B actions tick" "m w = Inr (evs, w')"
  shows "staffed (lw_employments w') (lw_firms w')"
proof -
  have "keeps (on_staff staffed) m"
    using assms(3) staff_market_phase staff_wage_phase[OF assms(1)] staff_resolve by blast
  from keepsD[OF this _ assms(4)] show ?thesis using assms(2) by (simp add: on_staff_def)
qed

end
