(* ===== verification/Labour_Demo.thy ===== *)
theory Labour_Demo
  imports Labour_Staff Banking_Demo
begin

text \<open>
  A shop in the small town for the witnesses: it owes wages to two clerks and has money for one of them.
\<close>

declare map_of_eq_Some_iff [simp del] Some_eq_map_of_iff [simp del]

definition shop_env :: "(int \<times> int list) lab_env" where
  "shop_env = \<lparr>lb_econ = town_env,
     lb_occupations = [(''clerk'', \<lparr>oc_id = ''clerk'', oc_sectors = [''retail''], oc_requirements = [(''sales'', 3000)],
       oc_intensity = [(''sales'', 8000)], oc_weights = [(''sales'', 10000)]\<rparr>)],
     lb_district = (\<lambda>p. Some ''d_1''), lb_vacancy_days = 30, lb_max_vacancies = 3, lb_max_applications = 5, lb_min_score = 5500,
     lb_shortlist = 3, lb_offer_days = 3, lb_search_days = 28, lb_notice = 24, lb_min_wage = 10, lb_skill_decay = 50,
     lb_decay_on = True, lb_recency_on = True, lb_payroll_days = [14, 28], lb_brackets = [(0, 0)],
     lb_employer_bp = 0, lb_multiplier = None, lb_garnish = None, lb_repr = (\<lambda>x. ''0''), lb_visible = 20, lb_autopost_on = True\<rparr>"

definition shop_job :: "string \<Rightarrow> string \<Rightarrow> employment_state" where
  "shop_job i a = \<lparr>em_id = i, em_agent = a, em_firm = ''fi_1'', em_occupation = ''clerk'', em_wage = 2000, em_started = 0,
     em_match_score = 6000, em_ended = None, em_hours = 10000, em_accrued = 2000, em_remainder = 0, em_paid = 0,
     em_last_worked = Some 335, em_last_labour = 10000\<rparr>"

definition shop_firm :: firm_state where
  "shop_firm = \<lparr>fm_id = ''fi_1'', fm_name = ''Shop'', fm_sector = ''retail'', fm_place = ''pl_1'', fm_founder = ''ag_1'',
     fm_account = ''dep:fi_1@bk_1'', fm_productivity = 10000, fm_capital = 0, fm_liquid = 3000, fm_headcount = 2,
     fm_target_headcount = 2, fm_output = 0, fm_revenue = 0, fm_wages = 0, fm_status = ''active'', fm_dissolved = None\<rparr>"

definition shop_ledger :: ledger where
  "shop_ledger = \<lparr>led_run_id = 1,
     led_accounts = [town_account Iss ''iss:bk_cb'' ''bk_cb'' ''central_bank'' None None (- 5000),
       town_account Res ''res:bk_cb'' ''bk_cb'' ''central_bank'' None None 0,
       town_account Dpl ''dpl:bk_cb'' ''bk_cb'' ''central_bank'' None None 0,
       town_account Res ''res:bk_1'' ''bk_1'' ''bank'' None None 5000,
       town_account Dpl ''dpl:bk_1'' ''bk_1'' ''bank'' None None (- 6000),
       town_account Dep ''dep:ag_1@bk_1'' ''ag_1'' ''agent'' (Some ''bk_1'') None 3000,
       town_account Dep ''dep:fi_1@bk_1'' ''fi_1'' ''firm'' (Some ''bk_1'') None 3000,
       town_account Dep ''dep:gv_treasury@bk_cb'' ''gv_treasury'' ''government'' (Some ''bk_cb'') None 0,
       town_account Lnr ''lnr:bk_1#ln_00000000_0000'' ''bk_1'' ''bank'' None (Some ''ln_00000000_0000'') 1000,
       town_account Lnp ''lnp:ag_1#ln_00000000_0000'' ''ag_1'' ''agent'' None (Some ''ln_00000000_0000'') (- 1000)],
     led_entries = [town_entry ''iss:bk_cb'' (-1) 5000 ''issuance'', town_entry ''res:bk_1'' 1 5000 ''issuance'',
       town_entry ''dpl:bk_1'' (-1) 6000 ''issuance'', town_entry ''dep:ag_1@bk_1'' 1 3000 ''issuance'',
       town_entry ''dep:fi_1@bk_1'' 1 3000 ''issuance'',
       town_entry ''lnr:bk_1#ln_00000000_0000'' 1 1000 ''loan'', town_entry ''lnp:ag_1#ln_00000000_0000'' (-1) 1000 ''loan''],
     led_pending = [], led_dirty = {}, led_ordinals = [(3, 1)], led_posted = []\<rparr>"

definition shop :: "int \<Rightarrow> (int \<times> int list) lab_world" where
  "shop t = \<lparr>lw_econ = (town t)\<lparr>ew_ledger := shop_ledger, ew_firms := [(''fi_1'', shop_firm)],
       ew_employments := [(''emp_00000000_0000'', shop_job ''emp_00000000_0000'' ''ag_2''), (''emp_00000000_0001'', shop_job ''emp_00000000_0001'' ''ag_3'')],
       ew_agents := [\<lparr>av_id = ''ag_2'', av_alive = True, av_age = 30, av_employment = ''employed''\<rparr>,
         \<lparr>av_id = ''ag_3'', av_alive = True, av_age = 40, av_employment = ''employed''\<rparr>]\<rparr>,
     lw_vacancies = [], lw_applications = [], lw_offers = [], lw_workers = [], lw_skill_used = [], lw_gross_wages = [], lw_places = []\<rparr>"

lemma shop_ledger_inv: "ledger_inv shop_ledger"
proof -
  have "list_all (\<lambda>(k, a). account_inv shop_ledger k a) (led_accounts shop_ledger)" by code_simp
  then have "\<forall>k a. dget (led_accounts shop_ledger) k = Some a \<longrightarrow> account_inv shop_ledger k a"
    by (auto simp: list_all_iff dest: map_of_SomeD)
  moreover have "list_all (\<lambda>e. ent_account e \<in> set (dkeys (led_accounts shop_ledger)) \<and> 0 < ent_amount e
      \<and> (ent_direction e = -1 \<or> ent_direction e = 1)) (led_entries shop_ledger)" by code_simp
  moreover have "wf_dict (led_accounts shop_ledger) \<and> (\<Sum>e\<leftarrow>led_entries shop_ledger. ent_direction e * ent_amount e) = 0" by code_simp
  ultimately show ?thesis by (simp add: ledger_inv_def list_all_iff)
qed

lemma shop_debts: "reconciled shop_ledger [(''ln_00000000_0000'', town_loan)]"
proof -
  have "list_all (\<lambda>(v, a). debt_code v \<longrightarrow> acc_balance a = book_value [(''ln_00000000_0000'', town_loan)] v) (led_accounts shop_ledger)"
    by code_simp
  then show ?thesis by (auto simp: reconciled_def list_all_iff dest: map_of_SomeD)
qed

lemma shop_booked: "booked shop_ledger town_loan"
  by code_simp

lemma shop_book: "loan_book (lw_econ (shop t))"
proof -
  have "loan_ok ''ln_00000000_0000'' town_loan" and "named [(''ln_00000000_0000'', town_loan)] ''ln_00000000_0000'' town_loan"
    and "banks_ok [(''bk_1'', town_bank)]"
    using town_book[of t] by (simp_all add: loan_book_def town_def)
  then show ?thesis using shop_debts shop_ledger_inv shop_booked
    by (simp add: loan_book_def shop_def town_def rates_ok_def)
qed

lemma shop_staffed: "staffed (lw_employments (shop t)) (lw_firms (shop t))"
proof -
  have "mint ''emp'' 0 0 = Inr ''emp_00000000_0000''" "mint ''emp'' 0 1 = Inr ''emp_00000000_0001''" by code_simp+
  then have "\<exists>k. mint ''emp'' 0 k = Inr ''emp_00000000_0000'' \<and> k < 2" "\<exists>k. mint ''emp'' 0 k = Inr ''emp_00000000_0001'' \<and> k < 2"
    by (metis zero_less_numeral, metis one_less_numeral_iff semiring_norm(76))
  then show ?thesis
    by (auto simp: staffed_def numbered_def staff_def count_of_def lw_employments_def lw_firms_def shop_def shop_job_def shop_firm_def split: if_splits)
qed

lemma shop_garnish: "garnish_staff shop_env" "garnish_keeps P shop_env"
  by (simp_all add: garnish_staff_def garnish_keeps_def shop_env_def)



lemma shop_pays: "map_sum (\<lambda>e. ()) (\<lambda>(evs, w). (map fm_headcount (dvals (lw_firms w)), map em_paid (dvals (lw_employments w))))
    (wage_phase shop_env 336 (shop 336)) = Inr ([1], [2000, 0])"
  by code_simp

lemma shop_paid:
  obtains evs w where "wage_phase shop_env 336 (shop 336) = Inr (evs, w)" "map fm_headcount (dvals (lw_firms w)) = [1]"
    "map em_paid (dvals (lw_employments w)) = [2000, 0]"
  using shop_pays by (cases "wage_phase shop_env 336 (shop 336)") auto

theorem labour_keeps_book_witness:
  "\<exists>evs w. wage_phase shop_env 336 (shop 336) = Inr (evs, w) \<and> loan_book (lw_econ w) \<and> map em_paid (dvals (lw_employments w)) = [2000, 0]"
proof -
  obtain evs w where run: "wage_phase shop_env 336 (shop 336) = Inr (evs, w)" "map em_paid (dvals (lw_employments w)) = [2000, 0]"
    by (rule shop_paid)
  have "loan_book (lw_econ w)"
    by (rule labour_keeps_book[where m = "wage_phase shop_env 336" and B = shop_env, OF shop_garnish(2) shop_book disjI2[OF disjI1[OF refl]] run(1)])
  then show ?thesis using run by (intro exI[of _ evs] exI[of _ w]) simp
qed

theorem headcount_is_staff_witness:
  "\<exists>evs w. wage_phase shop_env 336 (shop 336) = Inr (evs, w) \<and> staffed (lw_employments w) (lw_firms w)
     \<and> map fm_headcount (dvals (lw_firms w)) = [1]"
proof -
  obtain evs w where run: "wage_phase shop_env 336 (shop 336) = Inr (evs, w)" "map fm_headcount (dvals (lw_firms w)) = [1]"
    by (rule shop_paid)
  have "staffed (lw_employments w) (lw_firms w)"
    by (rule headcount_is_staff[where m = "wage_phase shop_env 336" and B = shop_env, OF shop_garnish(1) shop_staffed disjI2[OF disjI1[OF refl]] run(1)])
  then show ?thesis using run by (intro exI[of _ evs] exI[of _ w]) simp
qed

end
