(* ===== verification/Spec2Isabelle.thy ===== *)
theory Spec2Isabelle
  imports Money Ledger_Spec Clock_Spec Canon Event_Spec Event_Causal Kinds_Table_Spec Rng_Spec
    Invariants_Spec Tick_Spec Sim_Spec Exchange_Book_Spec Exchange_Spec Exchange_Events
    Banking_Spec Banking_Events Labour_Policy Labour_Spec Labour_Events Labour_Demo
begin

text \<open>
  A verification development for the deterministic society simulation in \<open>src/polis\<close>.

  The program advances a world tick by tick. A tick loop (\<open>kernel/tick.py\<close>) runs phase handlers in a
  fixed order; handlers change the world, post money to a double-entry ledger (\<open>economy/ledger.py\<close>)
  and stage events, which an event log (\<open>events/log.py\<close>) seals into a hash chain and commits to a
  sink at the end of the phase; a verifier (\<open>events/verify.py\<close>) re-checks stored chains; a runner of
  invariants (\<open>kernel/invariants.py\<close>) may halt the run. Randomness comes from named, seeded streams
  (\<open>kernel/rng.py\<close>), so that a run can be repeated and resumed.

  Theories and the code they model:

  \<^item> \<open>Prelude\<close>: Python dictionaries with insertion order, errors as values of a sum, loops that raise,
    decimal strings; \<open>Effects\<close>: methods that change a shared world and may raise, with proof rules.
  \<^item> \<open>Money\<close>: \<open>economy/money.py\<close>. Splits of a pool are exact, within a cent of the proportional
    share and independent of the order of claimants; minted identifiers do not collide.
  \<^item> \<open>Ledger\<close>, \<open>Ledger_Props\<close>, \<open>Ledger_Spec\<close>: \<open>economy/ledger.py\<close> without \<open>dump\<close> and \<open>load\<close>. The
    record \<open>ledger\<close> is the attributes of \<open>Ledger\<close>, \<open>post_checked\<close> is \<open>_post_transaction\<close>. Which
    postings are accepted, what they change, an invariant of all reachable ledgers (balanced,
    materialised, solvent), fresh transaction identifiers, entries flushed exactly once, deposit
    identities of banks, commitments bounded by liquid funds, account identifiers that parse back.
  \<^item> \<open>Clock\<close>, \<open>Clock_Spec\<close>: \<open>kernel/clock.py\<close>, \<open>kernel/scheduler.py\<close>. Calendar boundaries, the
    inverse of the simulated time, termination and minimality of the search for the next firing.
  \<^item> \<open>Event_Types\<close>, \<open>Canon\<close>, \<open>Event_Log\<close>, \<open>Event_Verify\<close>, \<open>Event_Props\<close>, \<open>Event_Spec\<close>,
    \<open>Event_Causal\<close>: \<open>events/types.py\<close>, \<open>config/canon.py\<close>, \<open>events/hashing.py\<close>, \<open>schemas.py\<close>,
    \<open>sampling.py\<close>, \<open>log.py\<close>, \<open>verify.py\<close>, \<open>reader.py\<close>, \<open>causal.py\<close>. The locale \<open>event_sink\<close> states
    what the log needs of a sink and is interpreted on the in-memory sink; \<open>event_reader\<close> states
    what causal queries need of a reader and is interpreted on the in-memory reader. Whatever the log
    does, the store holds a chain the verifier accepts; an altered log of the same length and last
    hash is accepted only with a hash collision or with equal canonical bytes; roll back restores
    the log; queries return exactly the causes and effects.
  \<^item> \<open>Kinds_Table\<close> is the complete table of event kinds of \<open>events/kinds.py\<close> with their schemas, in
    groups of the file's order; \<open>Kinds_Spec\<close> and \<open>Kinds_Table_Spec\<close> show that registries agree with
    the declared ranges and that importing the table raises no error.
  \<^item> \<open>Rng\<close>, \<open>Rng_Spec\<close>: \<open>kernel/rng.py\<close>, \<open>kernel/det.py\<close>. Shuffles permute and reach every
    permutation, draws stay in range, distinct stream names are hashed from distinct text.
  \<^item> \<open>Invariants\<close>, \<open>Invariants_Spec\<close>: \<open>kernel/invariants.py\<close>, \<open>economy/invariants.py\<close>: which world
    states halt a run, and which checks the ledger's discipline already guarantees.
  \<^item> \<open>Tick\<close>, \<open>Tick_Spec\<close>: \<open>kernel/tick.py\<close>. Every run stores a log the verifier accepts.
    \<open>Simulation\<close>, \<open>Sim_Spec\<close>: \<open>simulation.py\<close>. A run resumed from stored events stores exactly
    the events of the uninterrupted run.
  \<^item> \<open>Exchange_Book\<close>, \<open>Exchange_Book_Spec\<close>: \<open>economy/exchange/book.py\<close>. The clearing price
    maximises the volume over all prices, the auction fills each side greedily in price-time
    priority, an incoming order takes every order it crosses. \<open>Exchange\<close>, \<open>Exchange_Market\<close>:
    \<open>economy/exchange/models.py\<close> and \<open>engine.py\<close>, every method of the engine, composed in \<open>resolve\<close>
    as the code does.
  \<^item> \<open>Exchange_Escrow\<close>, \<open>Exchange_Inv\<close>: what a posting does to the escrow of an owner, and the
    invariant of the exchange. \<open>Exchange_Keeps\<close> (cancelling), \<open>Exchange_Settle\<close> (a fill),
    \<open>Exchange_Match\<close> (the two ways of matching), \<open>Exchange_Admit\<close> (new orders and IPO indications),
    \<open>Exchange_Issue\<close> (listings and completed IPOs) and \<open>Exchange_Resolve\<close> (the remaining phases and
    the whole tick) show that each operation keeps it. \<open>Exchange_Checks\<close> models
    \<open>order_invariant_failures\<close> and \<open>share_invariant_failures\<close> of \<open>economy/state.py\<close>;
    \<open>Exchange_Spec\<close> states the results and runs a small market.
  \<^item> \<open>Economy\<close>: the records of \<open>economy/state.py\<close> that credit, the treasury and the central bank share,
    and the environment of their engines. \<open>Credit\<close> and \<open>Loans\<close> model \<open>economy/credit.py\<close> (scorecard,
    decision, schedule; origination and the life of a loan), \<open>Fiscal\<close> models \<open>economy/fiscal.py\<close>,
    \<open>Central\<close> models \<open>economy/central.py\<close>, \<open>Banking\<close> models \<open>economy/banking.py\<close>, whose \<open>banking_step\<close>
    runs the others in the code's order.
  \<^item> \<open>Loan_Book\<close> states the invariant that ties the table of loans to the ledger. \<open>Loan_Life\<close>,
    \<open>Bank_Keeps\<close>, \<open>Central_Keeps\<close> and \<open>Banking_Keeps\<close> show that the operations of credit, the treasury,
    the central bank and the banking engine keep it.
  \<^item> \<open>Credit_Spec\<close>: what scorecard and schedule guarantee. \<open>Loan_Cycle\<close>: the life of a debt as an abstract
    machine, which accrual, payments and write-offs refine. \<open>Loan_Liveness\<close>: a loan whose borrower can
    pay is repaid. \<open>Banking_Spec\<close>: the results on the engine as a whole and on its decisions, run on
    the small town of \<open>Banking_Demo\<close>.
  \<^item> \<open>Kinds_Fields\<close>, \<open>Banking_Events\<close>, \<open>Exchange_Events\<close>: every event of the banking engine and of the
    exchange is of a registered kind with every field that kind requires.
  \<^item> \<open>Floats\<close>: Python's floats as rationals, with every operation rounded to a double. \<open>Labour\<close>,
    \<open>Labour_Market\<close> and \<open>Payroll\<close> model \<open>economy/labour.py\<close>: scores, tax and labour force; the class
    \<open>LabourMarket\<close> from vacancies to hires and work; payroll, layoffs, the decay of skills and the summary.
    \<open>Labour_Policy\<close> models what \<open>economy/policy.py\<close> decides for the market and its part of a step.
  \<^item> \<open>Labour_Spec\<close>: what the income tax, the match score and the accrual of wages guarantee. \<open>Labour_Book\<close>
    shows that a tick of the market keeps the loan book, \<open>Labour_Staff\<close> that the headcount of a firm stays
    the number of its running employments, \<open>Labour_Events\<close> that the events of the market are complete;
    \<open>Labour_Demo\<close> runs the payroll of a small shop. A garnishment is a parameter of the market: the first
    two results ask that it keeps the loan book and leaves employments and firms alone.

  Parameters stand for what is not under \<open>src\<close>: the SHA-256 digest, \<open>uuid5\<close>, the JSON-schema
  validator, Python's \<open>repr\<close> of strings, the text of a few floating-point numbers, the power of a
  decimal number. The answers of a language model are arguments, about which nothing is assumed.
  Hypotheses on the parameters say what is used: the digest is lower-case hexadecimal of 64 characters,
  \<open>uuid5\<close> is injective. The settings of the economy are an argument too; where a result needs them to
  be in range, as the configuration demands when it is loaded, it says so.

  Loops: everything terminates structurally or by a stated measure, with two exceptions. The search
  for the next firing of a cadence is a partial function, shown to return. The cancelling of
  self-crossing orders runs on fuel, one step per active order of the symbol and one to stop; each
  step cancels one of them, and \<open>self_crosses_end\<close> shows that the fuel suffices.

  Not modelled: serialisation of whole components (checkpoints, \<open>dump\<close> and \<open>load\<close> of the ledger and
  the exchange), SQL repositories, the web gateway, LLM providers and prompting, floating-point
  cognition, wall-clock timings, the catalogue of occupations as a file. Not yet modelled, in the order
  planned: goods and firms, the rest of the mechanical policy, the action pipeline, estates and
  ventures, polity and law, demography, gateway and LLM limits, checkpoints and blobs.
\<close>

end
